(* ===== verification/Owl_Prelude.thy ===== *)
theory Owl_Prelude
  imports Complex_Main "HOL-Library.Sublist"
begin

text \<open>
  What the component theories share: Go's time and duration arithmetic, its panics, the parts of
  package strings the sources call, the order in which a range loop visits a map, and the
  "append, then keep the last n" idiom that three components use.

  Strings are Go strings, that is lists of bytes (\<^typ>\<open>char\<close> is a byte in HOL); text
  outside ASCII is written as its UTF-8 bytes. A time is the number of nanoseconds since Go's zero
  time, so that \<open>IsZero\<close> is equality with 0; a duration is a number of nanoseconds.
\<close>

named_theorems owl_state "what each operation does to the fields of a state"
named_theorems owl_inv "preservation of the component invariants"

subsection \<open>Panics\<close>

datatype go_panic = NilDeref | IndexRange | ClosedChannel | NilMapWrite

type_synonym 'a go = "go_panic + 'a"

subsection \<open>Time\<close>

type_synonym gotime = int
type_synonym duration = int

abbreviation Millisecond :: duration where "Millisecond \<equiv> 1000000"
abbreviation Second :: duration where "Second \<equiv> 1000000000"
abbreviation Minute :: duration where "Minute \<equiv> 60000000000"
abbreviation Hour :: duration where "Hour \<equiv> 3600000000000"

definition zero_time :: gotime where
  "zero_time = 0"

definition max_int64 :: int where
  "max_int64 = 9223372036854775807"

definition min_int64 :: int where
  "min_int64 = -9223372036854775808"

text \<open>Signed 64-bit arithmetic wraps around.\<close>

definition wrap64 :: "int \<Rightarrow> int" where
  "wrap64 x = (x + 9223372036854775808) mod 18446744073709551616 - 9223372036854775808"

text \<open>\<open>t.Sub(u)\<close> and \<open>time.Since(u)\<close> saturate at the ends of the duration type.\<close>

definition time_sub :: "gotime \<Rightarrow> gotime \<Rightarrow> duration" where
  "time_sub t u = max min_int64 (min max_int64 (t - u))"

definition unix_nano :: "gotime \<Rightarrow> int" where
  "unix_nano t = t - 62135596800 * 1000000000"

lemma wrap64_id [simp]: "min_int64 \<le> x \<Longrightarrow> x \<le> max_int64 \<Longrightarrow> wrap64 x = x"
  by (simp add: wrap64_def min_int64_def max_int64_def)

lemma wrap64_range: "min_int64 \<le> wrap64 x \<and> wrap64 x \<le> max_int64"
proof -
  have "0 \<le> (x + 9223372036854775808) mod 18446744073709551616"
    and "(x + 9223372036854775808) mod 18446744073709551616 < 18446744073709551616"
    by simp_all
  then show ?thesis by (simp add: wrap64_def min_int64_def max_int64_def)
qed

lemma time_sub_gt:
  "min_int64 \<le> d \<Longrightarrow> d < max_int64 \<Longrightarrow> time_sub t u > d \<longleftrightarrow> t - u > d"
  by (auto simp: time_sub_def min_int64_def max_int64_def)

lemma time_sub_lt:
  "min_int64 < d \<Longrightarrow> d \<le> max_int64 \<Longrightarrow> time_sub t u < d \<longleftrightarrow> t - u < d"
  by (auto simp: time_sub_def min_int64_def max_int64_def)

lemma time_sub_mono: "t \<le> t' \<Longrightarrow> time_sub t u \<le> time_sub t' u"
  by (auto simp: time_sub_def)

subsection \<open>Ranging over a map\<close>

text \<open>
  Go visits the keys of a map in an unspecified order. An operation that ranges over a map takes
  that order as an argument; \<open>range_order m ks\<close> says that \<open>ks\<close> is a possible one.
\<close>

definition range_order :: "('k \<rightharpoonup> 'v) \<Rightarrow> 'k list \<Rightarrow> bool" where
  "range_order m ks \<longleftrightarrow> distinct ks \<and> set ks = dom m"

lemma range_orderD: "range_order m ks \<Longrightarrow> distinct ks" "range_order m ks \<Longrightarrow> set ks = dom m"
  by (simp_all add: range_order_def)

lemma range_order_length: "range_order m ks \<Longrightarrow> length ks = card (dom m)"
  using distinct_card range_order_def by metis

lemma range_order_empty [simp]: "range_order Map.empty ks \<longleftrightarrow> ks = []"
  by (auto simp: range_order_def)

text \<open>The values of a map in visiting order.\<close>

definition range_values :: "('k \<rightharpoonup> 'v) \<Rightarrow> 'k list \<Rightarrow> 'v list" where
  "range_values m ks = List.map_filter m ks"

lemma range_values_simps [simp]:
  "range_values m [] = []"
  "range_values m (k # ks) =
     (case m k of None \<Rightarrow> range_values m ks | Some v \<Rightarrow> v # range_values m ks)"
  by (simp_all add: range_values_def map_filter_def split: option.split)

lemma set_range_values_any: "set (range_values m ks) = {v. \<exists>k\<in>set ks. m k = Some v}"
  by (induction ks) (auto split: option.splits)

lemma set_range_values: "range_order m ks \<Longrightarrow> set (range_values m ks) = ran m"
  by (force simp: set_range_values_any range_order_def ran_def)

lemma length_range_values: "range_order m ks \<Longrightarrow> length (range_values m ks) = card (dom m)"
proof -
  assume ro: "range_order m ks"
  have "set ks \<subseteq> dom m \<Longrightarrow> length (range_values m ks) = length ks"
    by (induction ks) auto
  with ro show ?thesis by (simp add: range_order_length range_order_def)
qed

lemma range_values_upd_other: "k \<notin> set ks \<Longrightarrow> range_values (m(k \<mapsto> v)) ks = range_values m ks"
  by (induction ks) (auto split: option.split)

lemma range_values_del_other: "k \<notin> set ks \<Longrightarrow> range_values (m(k := None)) ks = range_values m ks"
  by (induction ks) (auto split: option.split)

lemma find_SomeD: "find P xs = Some x \<Longrightarrow> x \<in> set xs \<and> P x"
  by (auto simp: find_Some_iff)

subsection \<open>Append, then keep the last n\<close>

text \<open>\<open>if len(xs) > n { xs = xs[len(xs)-n:] }\<close>\<close>

definition cap_tail :: "nat \<Rightarrow> 'a list \<Rightarrow> 'a list" where
  "cap_tail n xs = (if n < length xs then drop (length xs - n) xs else xs)"

lemma length_cap_tail [simp]: "length (cap_tail n xs) = min n (length xs)"
  by (auto simp: cap_tail_def)

lemma cap_tail_short [simp]: "length xs \<le> n \<Longrightarrow> cap_tail n xs = xs"
  by (simp add: cap_tail_def)

lemma suffix_cap_tail: "suffix (cap_tail n xs) xs"
  by (auto simp: cap_tail_def suffix_drop)

lemma cap_tail_append_cap: "cap_tail n (cap_tail n xs @ ys) = cap_tail n (xs @ ys)"
  by (auto simp: cap_tail_def min_def add.commute)

lemma suffix_cap_tail_new: "length ys \<le> n \<Longrightarrow> suffix ys (cap_tail n (xs @ ys))"
  by (auto simp: cap_tail_def suffix_def)

lemma set_cap_tail_subset: "set (cap_tail n xs) \<subseteq> set xs"
  by (auto simp: cap_tail_def dest: in_set_dropD)

end
