(* ===== verification/Owl_Strings.thy ===== *)
theory Owl_Strings
  imports Owl_Prelude
begin

text \<open>
  The functions of Go's packages strings and strconv that the sources call, on byte strings.
  \<open>TrimSpace\<close> and \<open>Fields\<close> recognise every white-space rune of Unicode through
  its UTF-8 encoding. \<open>ToLower\<close> maps the ASCII letters and leaves every other byte alone,
  which is exact on ASCII and on scripts without case such as Chinese. \<open>rune_count\<close> counts
  the bytes that are not continuation bytes, which is \<open>len([]rune(s))\<close> on valid UTF-8.
\<close>

subsection \<open>Searching\<close>

abbreviation HasPrefix :: "string \<Rightarrow> string \<Rightarrow> bool" where
  "HasPrefix s p \<equiv> prefix p s"

definition HasSuffix :: "string \<Rightarrow> string \<Rightarrow> bool" where
  "HasSuffix s p \<longleftrightarrow> prefix (rev p) (rev s)"

definition TrimPrefix :: "string \<Rightarrow> string \<Rightarrow> string" where
  "TrimPrefix s p = (if prefix p s then drop (length p) s else s)"

definition TrimSuffix :: "string \<Rightarrow> string \<Rightarrow> string" where
  "TrimSuffix s p = (if HasSuffix s p then take (length s - length p) s else s)"

fun Contains :: "string \<Rightarrow> string \<Rightarrow> bool" where
  "Contains [] w \<longleftrightarrow> w = []"
| "Contains (c # cs) w \<longleftrightarrow> prefix w (c # cs) \<or> Contains cs w"

text \<open>\<open>strings.SplitN(s, w, 2)\<close> for a separator that occurs: what is before and after
  its first occurrence.\<close>

fun Cut :: "string \<Rightarrow> string \<Rightarrow> (string \<times> string) option" where
  "Cut [] w = (if w = [] then Some ([], []) else None)"
| "Cut (c # cs) w =
     (if prefix w (c # cs) then Some ([], drop (length w) (c # cs))
      else map_option (\<lambda>(a, b). (c # a, b)) (Cut cs w))"

lemma HasSuffix_suffix: "HasSuffix s p \<longleftrightarrow> suffix p s"
  by (simp add: HasSuffix_def suffix_to_prefix)

lemma Contains_sublist: "Contains s w \<longleftrightarrow> sublist w s"
  by (induction s) (auto simp: sublist_Cons_right)

lemma Contains_infix: "Contains (a @ w @ b) w"
  by (simp add: Contains_sublist sublist_appendI)

lemma Contains_mono: "Contains t w \<Longrightarrow> sublist t s \<Longrightarrow> Contains s w"
  using Contains_sublist sublist_order.order.trans by blast

lemma Cut_Some: "Cut s w = Some (a, b) \<Longrightarrow> s = a @ w @ b"
  by (induction s arbitrary: a b) (auto split: if_splits simp: prefix_def)

lemma Cut_None: "Cut s w = None \<longleftrightarrow> \<not> Contains s w"
  by (induction s) auto

lemma TrimPrefix_suffix: "suffix (TrimPrefix s p) s"
  by (simp add: TrimPrefix_def suffix_drop)

subsection \<open>White space\<close>

definition white_runes :: "string list" where
  "white_runes =
     [[CHR 0x20], [CHR 0x09], [CHR 0x0A], [CHR 0x0B], [CHR 0x0C], [CHR 0x0D],
      [CHR 0xC2, CHR 0x85], [CHR 0xC2, CHR 0xA0], [CHR 0xE1, CHR 0x9A, CHR 0x80],
      [CHR 0xE2, CHR 0x80, CHR 0x80], [CHR 0xE2, CHR 0x80, CHR 0x81],
      [CHR 0xE2, CHR 0x80, CHR 0x82], [CHR 0xE2, CHR 0x80, CHR 0x83],
      [CHR 0xE2, CHR 0x80, CHR 0x84], [CHR 0xE2, CHR 0x80, CHR 0x85],
      [CHR 0xE2, CHR 0x80, CHR 0x86], [CHR 0xE2, CHR 0x80, CHR 0x87],
      [CHR 0xE2, CHR 0x80, CHR 0x88], [CHR 0xE2, CHR 0x80, CHR 0x89],
      [CHR 0xE2, CHR 0x80, CHR 0x8A], [CHR 0xE2, CHR 0x80, CHR 0xA8],
      [CHR 0xE2, CHR 0x80, CHR 0xA9], [CHR 0xE2, CHR 0x80, CHR 0xAF],
      [CHR 0xE2, CHR 0x81, CHR 0x9F], [CHR 0xE3, CHR 0x80, CHR 0x80]]"

text \<open>The number of bytes of a white-space rune at the head of the string, 0 if there is none.\<close>

definition white_len :: "string list \<Rightarrow> string \<Rightarrow> nat" where
  "white_len ws s = (case find (\<lambda>w. prefix w s) ws of None \<Rightarrow> 0 | Some w \<Rightarrow> length w)"

lemma white_len_le: "white_len ws s \<le> length s"
  by (auto simp: white_len_def find_Some_iff prefix_length_le split: option.split)

function trim_left_of :: "string list \<Rightarrow> string \<Rightarrow> string" where
  "trim_left_of ws s =
     (if white_len ws s = 0 then s else trim_left_of ws (drop (white_len ws s) s))"
  by pat_completeness auto
termination
proof (relation "measure (\<lambda>(ws, s). length s)")
  fix ws s assume "white_len ws s \<noteq> 0"
  with white_len_le[of ws s] show "((ws, drop (white_len ws s) s), (ws, s)) \<in> measure (\<lambda>(ws, s). length s)"
    by auto
qed simp

declare trim_left_of.simps [simp del]

definition TrimLeftSpace :: "string \<Rightarrow> string" where
  "TrimLeftSpace s = trim_left_of white_runes s"

definition TrimRightSpace :: "string \<Rightarrow> string" where
  "TrimRightSpace s = rev (trim_left_of (map rev white_runes) (rev s))"

definition TrimSpace :: "string \<Rightarrow> string" where
  "TrimSpace s = TrimRightSpace (TrimLeftSpace s)"

lemma trim_left_of_suffix: "suffix (trim_left_of ws s) s"
proof (induction ws s rule: trim_left_of.induct)
  case (1 ws s)
  then show ?case
    by (cases "white_len ws s = 0")
      (auto simp: trim_left_of.simps[of ws s] intro: suffix_order.trans suffix_drop)
qed

lemma white_len_trim_left_of: "white_len ws (trim_left_of ws s) = 0"
  by (induction ws s rule: trim_left_of.induct)
    (metis trim_left_of.simps)

lemma TrimSpace_sublist: "sublist (TrimSpace s) s"
proof -
  have "prefix (TrimRightSpace t) t" for t
    using trim_left_of_suffix[of "map rev white_runes" "rev t"]
    by (simp add: TrimRightSpace_def suffix_to_prefix)
  then show ?thesis
    unfolding TrimSpace_def TrimLeftSpace_def
    by (meson prefix_imp_sublist suffix_imp_sublist sublist_order.order.trans trim_left_of_suffix)
qed

lemma TrimSpace_Nil [simp]: "TrimSpace [] = []"
  using TrimSpace_sublist[of "[]"] by simp

text \<open>\<open>strings.Trim(s, cutset)\<close> for a cutset of ASCII characters.\<close>

definition TrimCut :: "char set \<Rightarrow> string \<Rightarrow> string" where
  "TrimCut cutset s = rev (dropWhile (\<lambda>c. c \<in> cutset) (rev (dropWhile (\<lambda>c. c \<in> cutset) s)))"

text \<open>\<open>strings.Fields\<close>: the words between white-space runes. \<open>acc\<close> is the word being read,
  \<open>n\<close> the number of bytes of a white-space rune still to skip.\<close>

fun fields_from :: "string \<Rightarrow> nat \<Rightarrow> string \<Rightarrow> string list" where
  "fields_from acc n [] = (if acc = [] then [] else [rev acc])"
| "fields_from acc (Suc n) (c # cs) = fields_from acc n cs"
| "fields_from acc 0 (c # cs) =
     (case white_len white_runes (c # cs) of
        0 \<Rightarrow> fields_from (c # acc) 0 cs
      | Suc k \<Rightarrow> (if acc = [] then [] else [rev acc]) @ fields_from [] k cs)"

definition Fields :: "string \<Rightarrow> string list" where
  "Fields s = fields_from [] 0 s"

lemma fields_from_nonempty: "w \<in> set (fields_from acc n s) \<Longrightarrow> w \<noteq> []"
  by (induction acc n s rule: fields_from.induct) (auto split: if_splits nat.splits)

lemma Fields_nonempty: "w \<in> set (Fields s) \<Longrightarrow> w \<noteq> []"
  using fields_from_nonempty by (simp add: Fields_def)

subsection \<open>Splitting and joining\<close>

fun split_on :: "char \<Rightarrow> string \<Rightarrow> string list" where
  "split_on sep [] = [[]]"
| "split_on sep (c # cs) =
     (if c = sep then [] # split_on sep cs
      else case split_on sep cs of [] \<Rightarrow> [[c]] | w # ws \<Rightarrow> (c # w) # ws)"

fun Join :: "string \<Rightarrow> string list \<Rightarrow> string" where
  "Join sep [] = []"
| "Join sep [w] = w"
| "Join sep (w # v # ws) = w @ sep @ Join sep (v # ws)"

lemma split_on_ne [simp]: "split_on sep s \<noteq> []"
  by (induction s) (auto split: list.splits)

lemma Join_split_on: "Join [sep] (split_on sep s) = s"
proof (induction s)
  case (Cons c cs)
  obtain w ws where "split_on sep cs = w # ws"
    by (meson neq_Nil_conv split_on_ne)
  with Cons show ?case by (cases ws) auto
qed simp

subsection \<open>Case, runes, digits\<close>

definition lower_char :: "char \<Rightarrow> char" where
  "lower_char c =
     (if 65 \<le> (of_char c :: nat) \<and> (of_char c :: nat) \<le> 90
      then char_of ((of_char c :: nat) + 32) else c)"

definition ToLower :: "string \<Rightarrow> string" where
  "ToLower s = map lower_char s"

definition rune_count :: "string \<Rightarrow> nat" where
  "rune_count s = length (filter (\<lambda>c. (of_char c :: nat) div 64 \<noteq> 2) s)"

definition is_digit :: "char \<Rightarrow> bool" where
  "is_digit c \<longleftrightarrow> 48 \<le> (of_char c :: nat) \<and> (of_char c :: nat) \<le> 57"

definition digit_char :: "nat \<Rightarrow> char" where
  "digit_char d = char_of (48 + d)"

fun show_nat :: "nat \<Rightarrow> string" where
  "show_nat n = (if n < 10 then [digit_char n] else show_nat (n div 10) @ [digit_char (n mod 10)])"

declare show_nat.simps [simp del]

text \<open>\<open>fmt.Sprintf("%d", n)\<close>.\<close>

definition show_int :: "int \<Rightarrow> string" where
  "show_int i = (if i < 0 then CHR ''-'' # show_nat (nat (- i)) else show_nat (nat i))"

definition digits_val :: "string \<Rightarrow> nat" where
  "digits_val s = foldl (\<lambda>a c. 10 * a + ((of_char c :: nat) - 48)) 0 s"

text \<open>\<open>strconv.Atoi\<close> on a non-empty string of digits: it fails when the value does not fit.\<close>

definition Atoi_digits :: "string \<Rightarrow> int option" where
  "Atoi_digits s = (if s = [] \<or> (\<exists>c\<in>set s. \<not> is_digit c) \<or> int (digits_val s) > max_int64 then None
     else Some (int (digits_val s)))"

lemma of_char_digit: "d < 10 \<Longrightarrow> (of_char (digit_char d) :: nat) = 48 + d"
  by (simp add: digit_char_def)

lemma is_digit_digit_char: "d < 10 \<Longrightarrow> is_digit (digit_char d)"
  by (simp add: is_digit_def of_char_digit)

lemma digits_val_snoc: "digits_val (s @ [c]) = 10 * digits_val s + ((of_char c :: nat) - 48)"
  by (simp add: digits_val_def)

lemma digits_val_show_nat: "digits_val (show_nat n) = n"
proof (induction n rule: show_nat.induct)
  case (1 n)
  show ?case
  proof (cases "n < 10")
    case True
    then show ?thesis
      by (simp add: show_nat.simps[of n] digits_val_def of_char_digit)
  next
    case False
    with 1 show ?thesis
      by (simp add: show_nat.simps[of n] digits_val_snoc of_char_digit)
  qed
qed

lemma show_nat_digits: "c \<in> set (show_nat n) \<Longrightarrow> is_digit c"
proof (induction n rule: show_nat.induct)
  case (1 n)
  then show ?case
    by (cases "n < 10") (auto simp: show_nat.simps[of n] is_digit_digit_char)
qed

lemma show_nat_inj: "show_nat m = show_nat n \<Longrightarrow> m = n"
  by (metis digits_val_show_nat)

lemma minus_not_digit: "\<not> is_digit CHR ''-''"
  by (simp add: is_digit_def)

lemma show_nat_no_minus: "show_nat m \<noteq> CHR ''-'' # s"
  using show_nat_digits[of "CHR ''-''" m] minus_not_digit by auto

lemma show_int_inj: "show_int i = show_int j \<Longrightarrow> i = j"
  by (auto simp: show_int_def show_nat_no_minus show_nat_no_minus[symmetric]
      dest!: show_nat_inj split: if_splits)

definition upper_char :: "char \<Rightarrow> char" where
  "upper_char c =
     (if 97 \<le> (of_char c :: nat) \<and> (of_char c :: nat) \<le> 122
      then char_of ((of_char c :: nat) - 32) else c)"

definition ToUpper :: "string \<Rightarrow> string" where
  "ToUpper s = map upper_char s"

subsection \<open>Split by a separator of several bytes\<close>

function split_str :: "string \<Rightarrow> string \<Rightarrow> string list" where
  "split_str w s =
     (if w = [] then [s]
      else case Cut s w of None \<Rightarrow> [s] | Some (a, b) \<Rightarrow> a # split_str w b)"
  by pat_completeness auto
termination
  by (relation "measure (\<lambda>(w, s). length s)") (auto dest: Cut_Some)

declare split_str.simps [simp del]

lemma split_str_none: "\<not> Contains s w \<Longrightarrow> split_str w s = [s]"
  by (subst split_str.simps) (simp add: iffD2[OF Cut_None])

lemma Join_split_str: "w \<noteq> [] \<Longrightarrow> Join w (split_str w s) = s"
proof (induction w s rule: split_str.induct)
  case (1 w s)
  show ?case
  proof (cases "Cut s w")
    case None
    with 1 show ?thesis by (subst split_str.simps) simp
  next
    case (Some ab)
    obtain a b where ab: "ab = (a, b)" by force
    have ne: "split_str w b \<noteq> []" by (subst split_str.simps) (simp split: option.split)
    have "Join w (split_str w b) = b" using 1 Some ab by simp
    moreover have "split_str w s = a # split_str w b"
      using 1(2) Some ab by (subst split_str.simps) simp
    ultimately show ?thesis
      using ne Cut_Some[OF Some[unfolded ab]] by (cases "split_str w b") simp_all
  qed
qed

end
