(* ===== verification/Owl_Interfaces.thy ===== *)
theory Owl_Interfaces
  imports Owl_Prelude
begin

text \<open>
  Interfaces that several components provide: a buffer that appends and keeps the newest entries
  (the event log of a master, the messages of a session, the events an agent has still to report),
  and a store of values by key (peers, skills, workflows, sessions). The components interpret them
  on their own operations.
\<close>

subsection \<open>A buffer that keeps the newest entries\<close>

locale bounded_buffer =
  fixes push :: "'x list \<Rightarrow> 's \<Rightarrow> 's"
    and contents :: "'s \<Rightarrow> 'e list"
    and stamp :: "'x \<Rightarrow> 'e"
    and cap :: nat
  assumes contents_push: "contents (push xs s) = cap_tail cap (contents s @ map stamp xs)"
begin

lemma length_push: "length (contents (push xs s)) \<le> cap"
  by (simp add: contents_push)

lemma push_suffix: "suffix (contents (push xs s)) (contents s @ map stamp xs)"
  by (simp add: contents_push suffix_cap_tail)

lemma push_keeps_new: "length xs \<le> cap \<Longrightarrow> suffix (map stamp xs) (contents (push xs s))"
  by (simp add: contents_push suffix_cap_tail_new)

lemma push_fits: "length (contents s) + length xs \<le> cap \<Longrightarrow>
    contents (push xs s) = contents s @ map stamp xs"
  by (simp add: contents_push)

text \<open>A sequence of pushes keeps the newest entries of everything ever pushed.\<close>

lemma contents_pushes:
  "length (contents s) \<le> cap \<Longrightarrow>
     contents (fold push xss s) = cap_tail cap (contents s @ map stamp (concat xss))"
proof (induction xss arbitrary: s)
  case (Cons xs xss)
  have "contents (fold push xss (push xs s))
      = cap_tail cap (contents (push xs s) @ map stamp (concat xss))"
    by (rule Cons.IH) (rule length_push)
  then show ?case by (simp add: contents_push cap_tail_append_cap)
qed simp

end

text \<open>The same for one entry at a time, from a state that may hold too many.\<close>

locale capped_log =
  fixes add :: "'x \<Rightarrow> 's \<Rightarrow> 's"
    and entries :: "'s \<Rightarrow> 'e list"
    and entry :: "'x \<Rightarrow> 'e"
    and cap :: nat
  assumes entries_add: "entries (add x s) = cap_tail cap (entries s @ [entry x])"
begin

lemma entries_bounded: "length (entries (add x s)) \<le> cap"
  by (simp add: entries_add)

lemma entries_adds:
  "length (entries s) \<le> cap \<Longrightarrow>
     entries (fold add xs s) = cap_tail cap (entries s @ map entry xs)"
proof (induction xs arbitrary: s)
  case (Cons x xs)
  have "entries (fold add xs (add x s)) = cap_tail cap (entries (add x s) @ map entry xs)"
    by (rule Cons.IH) (rule entries_bounded)
  then show ?case by (simp add: entries_add cap_tail_append_cap)
qed simp

end

sublocale bounded_buffer \<subseteq> single: capped_log "\<lambda>x. push [x]" contents stamp cap
  by unfold_locales (simp add: contents_push)

subsection \<open>A store of values by key\<close>

locale keyed_store =
  fixes lookup :: "'s \<Rightarrow> 'k \<Rightarrow> 'v option"
    and store :: "'v \<Rightarrow> 's \<Rightarrow> 's"
    and key :: "'v \<Rightarrow> 'k"
  assumes lookup_store: "lookup (store v s) = (lookup s)(key v \<mapsto> v)"
begin

lemma lookup_stored: "lookup (store v s) (key v) = Some v"
  by (simp add: lookup_store)

lemma lookup_other: "k \<noteq> key v \<Longrightarrow> lookup (store v s) k = lookup s k"
  by (simp add: lookup_store)

definition keyed :: "'s \<Rightarrow> bool" where
  "keyed s \<longleftrightarrow> (\<forall>k v. lookup s k = Some v \<longrightarrow> key v = k)"

lemma keyed_store: "keyed s \<Longrightarrow> keyed (store v s)"
  by (simp add: keyed_def lookup_store)

text \<open>Storing many: the last value stored under a key wins.\<close>

lemma lookup_fold_store:
  "lookup (fold store vs s) k =
     (case find (\<lambda>v. key v = k) (rev vs) of None \<Rightarrow> lookup s k | Some v \<Rightarrow> Some v)"
proof (induction vs rule: rev_induct)
  case (snoc v vs)
  then show ?case by (simp add: lookup_store)
qed simp

end

locale keyed_store_delete = keyed_store lookup store key
  for lookup :: "'s \<Rightarrow> 'k \<Rightarrow> 'v option" and store and key +
  fixes remove :: "'k \<Rightarrow> 's \<Rightarrow> 's"
  assumes lookup_remove: "lookup (remove k s) = (lookup s)(k := None)"
begin

lemma lookup_removed: "lookup (remove k s) k = None"
  by (simp add: lookup_remove)

lemma keyed_remove: "keyed s \<Longrightarrow> keyed (remove k s)"
  by (simp add: keyed_def lookup_remove)

lemma remove_stored: "lookup (remove (key v) (store v s)) = (lookup s)(key v := None)"
  by (simp add: lookup_remove lookup_store)

end

end
