(* ===== verification/Owl_Cluster.thy ===== *)
theory Owl_Cluster
  imports Owl_Strings Owl_Interfaces
begin

text \<open>
  \<open>internal/cluster/master_cluster.go\<close>: the state a master keeps of its peers, its agents,
  the commands that wait for delivery, their results and the events, and every operation on it.
  Pointers to records held in a map are modelled by the record under its key, updated in place.
  Where an operation reads the clock it takes the reading \<open>now\<close> as an argument. Calls of the
  status callback are returned as a list (agent, old status, new status), in the order they are
  started. Floating-point numbers are reals.
\<close>

subsection \<open>Types\<close>

record master_info =
  mi_ID :: string
  mi_Name :: string
  mi_Addr :: string
  mi_Role :: string
  mi_StartTime :: gotime
  mi_LastSeen :: gotime

definition MasterRoleActive :: string where "MasterRoleActive = ''active''"
definition MasterRoleStandby :: string where "MasterRoleStandby = ''standby''"

record agent_metrics =
  am_CPUUsage :: real
  am_MemoryUsage :: real
  am_DiskUsage :: real
  am_LoadAvg1 :: real
  am_Uptime :: int
  am_Timestamp :: gotime

record environment_host =
  eh_Hostname :: string
  eh_IP :: string

record container_info =
  ci_Image :: string
  ci_Status :: string
  ci_Env :: "string \<rightharpoonup> string"
  ci_Ports :: "string list"
  ci_Network :: string

record database_info =
  di_Type :: string
  di_Host :: string
  di_Port :: string
  di_User :: string
  di_Password :: string
  di_Database :: string
  di_Source :: string

record site_info =
  si_Domain :: string
  si_Backend :: string
  si_Root :: string

record proxy_info =
  pi_Type :: string
  pi_ConfigFile :: string
  pi_Sites :: "site_info list"
  pi_Source :: string

record agent_environment =
  ae_UpdatedAt :: string
  ae_Host :: environment_host
  ae_Containers :: "string \<rightharpoonup> container_info"
  ae_Databases :: "string \<rightharpoonup> database_info"
  ae_Proxies :: "string \<rightharpoonup> proxy_info"

record agent_record =
  ar_ID :: string
  ar_Name :: string
  ar_Hostname :: string
  ar_IP :: string
  ar_Tags :: "string list"
  ar_Labels :: "string \<rightharpoonup> string"
  ar_Status :: string
  ar_Version :: string
  ar_LastHeartbeat :: gotime
  ar_LastMetrics :: "agent_metrics option"
  ar_Environment :: "agent_environment option"
  ar_RegisteredAt :: gotime

record pending_command =
  pc_ID :: string
  pc_AgentID :: string
  pc_Type :: string
  pc_Payload :: string
  pc_Timeout :: duration
  pc_CreatedAt :: gotime
  pc_ExpiresAt :: gotime

record command_result =
  cr_CommandID :: string
  cr_AgentID :: string
  cr_Success :: bool
  cr_Output :: string
  cr_Error :: string
  cr_ExitCode :: int
  cr_Duration :: duration
  cr_Timestamp :: gotime

record agent_event =
  ev_AgentID :: string
  ev_RuleID :: string
  ev_RuleName :: string
  ev_Condition :: string
  ev_Action :: string
  ev_Success :: bool
  ev_Output :: string
  ev_Error :: string
  ev_Timestamp :: gotime

record master_cluster =
  mc_self :: master_info
  mc_peers :: "string \<rightharpoonup> master_info"
  mc_agents :: "string \<rightharpoonup> agent_record"
  mc_pendingCommands :: "string \<rightharpoonup> pending_command list"
  mc_commandResults :: "string \<rightharpoonup> command_result"
  mc_events :: "agent_event list"
  mc_syncInterval :: duration
  mc_onAgentStatusChange :: bool \<comment> \<open>whether a callback is set\<close>
  mc_onAgentEvent :: bool

type_synonym status_change = "string \<times> string \<times> string"

definition NewMasterCluster :: "gotime \<Rightarrow> string \<Rightarrow> string \<Rightarrow> string \<Rightarrow> master_cluster" where
  "NewMasterCluster now selfID selfName selfAddr =
     \<lparr>mc_self = \<lparr>mi_ID = selfID, mi_Name = selfName, mi_Addr = selfAddr,
                 mi_Role = MasterRoleActive, mi_StartTime = now, mi_LastSeen = now\<rparr>,
      mc_peers = Map.empty, mc_agents = Map.empty, mc_pendingCommands = Map.empty,
      mc_commandResults = Map.empty, mc_events = [], mc_syncInterval = 5 * Second,
      mc_onAgentStatusChange = False, mc_onAgentEvent = False\<rparr>"

subsection \<open>Peers\<close>

definition AddPeer :: "master_info \<Rightarrow> master_cluster \<Rightarrow> master_cluster" where
  "AddPeer peer mc = mc\<lparr>mc_peers := (mc_peers mc)(mi_ID peer \<mapsto> peer)\<rparr>"

definition RemovePeer :: "string \<Rightarrow> master_cluster \<Rightarrow> master_cluster" where
  "RemovePeer peerID mc = mc\<lparr>mc_peers := (mc_peers mc)(peerID := None)\<rparr>"

definition GetSelf :: "master_cluster \<Rightarrow> master_info" where
  "GetSelf mc = mc_self mc"

definition GetPeers :: "string list \<Rightarrow> master_cluster \<Rightarrow> master_info list" where
  "GetPeers ks mc = range_values (mc_peers mc) ks"

subsection \<open>What agents report\<close>

definition new_agent_record :: "string \<Rightarrow> agent_record" where
  "new_agent_record agentID =
     \<lparr>ar_ID = agentID, ar_Name = [], ar_Hostname = [], ar_IP = [], ar_Tags = [],
      ar_Labels = Map.empty, ar_Status = [], ar_Version = [], ar_LastHeartbeat = zero_time,
      ar_LastMetrics = None, ar_Environment = None, ar_RegisteredAt = zero_time\<rparr>"

definition HandleHeartbeat ::
  "gotime \<Rightarrow> string \<Rightarrow> string \<Rightarrow> string \<Rightarrow> string list \<Rightarrow> (string \<rightharpoonup> string) \<Rightarrow> string \<Rightarrow>
   agent_metrics option \<Rightarrow> master_cluster \<Rightarrow>
   master_cluster \<times> pending_command list \<times> status_change list" where
  "HandleHeartbeat now agentID hostname ip tags labels status metrics mc =
     (let found = mc_agents mc agentID;
          oldStatus = (case found of None \<Rightarrow> [] | Some a \<Rightarrow> ar_Status a);
          agent0 = (case found of
                      None \<Rightarrow> (new_agent_record agentID)
                                \<lparr>ar_Hostname := hostname, ar_IP := ip, ar_Tags := tags,
                                 ar_Labels := labels, ar_RegisteredAt := now\<rparr>
                    | Some a \<Rightarrow> a);
          agent1 = agent0\<lparr>ar_Hostname := hostname, ar_IP := ip, ar_Tags := tags,
                          ar_Labels := labels, ar_Status := status, ar_LastHeartbeat := now\<rparr>;
          agent2 = (case metrics of None \<Rightarrow> agent1 | Some m \<Rightarrow> agent1\<lparr>ar_LastMetrics := Some m\<rparr>);
          callbacks = (if mc_onAgentStatusChange mc \<and> oldStatus \<noteq> [] \<and> oldStatus \<noteq> status
                       then [(agentID, oldStatus, status)] else []);
          commands = (case mc_pendingCommands mc agentID of None \<Rightarrow> [] | Some cs \<Rightarrow> cs)
      in (mc\<lparr>mc_agents := (mc_agents mc)(agentID \<mapsto> agent2),
             mc_pendingCommands := (mc_pendingCommands mc)(agentID \<mapsto> [])\<rparr>,
          commands, callbacks))"

definition HandleCommandResult :: "command_result \<Rightarrow> master_cluster \<Rightarrow> master_cluster" where
  "HandleCommandResult result mc =
     mc\<lparr>mc_commandResults := (mc_commandResults mc)(cr_CommandID result \<mapsto> result)\<rparr>"

text \<open>The events arrive as pointers: a null in the JSON array is \<open>None\<close>, and writing its agent
  panics after the earlier events were appended and before the log is cut.\<close>

fun append_events :: "string \<Rightarrow> agent_event option list \<Rightarrow> agent_event list \<Rightarrow>
    agent_event list \<times> go_panic option" where
  "append_events agentID [] evs = (evs, None)"
| "append_events agentID (None # es) evs = (evs, Some NilDeref)"
| "append_events agentID (Some e # es) evs =
     append_events agentID es (evs @ [e\<lparr>ev_AgentID := agentID\<rparr>])"

definition HandleAgentEvents :: "string \<Rightarrow> agent_event option list \<Rightarrow> master_cluster \<Rightarrow>
    master_cluster \<times> go_panic option" where
  "HandleAgentEvents agentID events mc =
     (case append_events agentID events (mc_events mc) of
        (evs, Some p) \<Rightarrow> (mc\<lparr>mc_events := evs\<rparr>, Some p)
      | (evs, None) \<Rightarrow> (mc\<lparr>mc_events := cap_tail 10000 evs\<rparr>, None))"

definition HandleAgentEnvironment :: "gotime \<Rightarrow> string \<Rightarrow> agent_environment \<Rightarrow> master_cluster \<Rightarrow>
    master_cluster" where
  "HandleAgentEnvironment now agentID env mc =
     (let agent = (case mc_agents mc agentID of
                     None \<Rightarrow> (new_agent_record agentID)
                               \<lparr>ar_Hostname := eh_Hostname (ae_Host env), ar_IP := eh_IP (ae_Host env),
                                ar_Status := ''online'', ar_RegisteredAt := now\<rparr>
                   | Some a \<Rightarrow> a)
      in mc\<lparr>mc_agents := (mc_agents mc)(agentID \<mapsto> agent\<lparr>ar_Environment := Some env\<rparr>)\<rparr>)"

definition GetAgentEnvironment :: "string \<Rightarrow> master_cluster \<Rightarrow> agent_environment option" where
  "GetAgentEnvironment agentID mc =
     (case mc_agents mc agentID of None \<Rightarrow> None | Some a \<Rightarrow> ar_Environment a)"

definition GetAllEnvironments :: "master_cluster \<Rightarrow> (string \<rightharpoonup> agent_environment)" where
  "GetAllEnvironments mc =
     (\<lambda>agentID. case mc_agents mc agentID of None \<Rightarrow> None | Some a \<Rightarrow> ar_Environment a)"

subsection \<open>Commands\<close>

definition SendCommand :: "gotime \<Rightarrow> string \<Rightarrow> string \<Rightarrow> string \<Rightarrow> duration \<Rightarrow> master_cluster \<Rightarrow>
    master_cluster \<times> (string + string)" where
  "SendCommand now agentID cmdType payload timeout mc =
     (if mc_agents mc agentID = None then (mc, Inl (''agent not found: '' @ agentID))
      else let cmdID = ''cmd-'' @ show_int (unix_nano now);
               cmd = \<lparr>pc_ID = cmdID, pc_AgentID = agentID, pc_Type = cmdType, pc_Payload = payload,
                      pc_Timeout = timeout, pc_CreatedAt = now, pc_ExpiresAt = now + 5 * Minute\<rparr>;
               queue = (case mc_pendingCommands mc agentID of None \<Rightarrow> [] | Some cs \<Rightarrow> cs)
           in (mc\<lparr>mc_pendingCommands := (mc_pendingCommands mc)(agentID \<mapsto> queue @ [cmd])\<rparr>,
               Inr cmdID))"

record forward_request =
  fr_AgentID :: string
  fr_Type :: string
  fr_Payload :: string
  fr_Timeout :: int

record forward_response =
  fs_Success :: bool
  fs_CommandID :: string
  fs_Error :: string

text \<open>
  Forwarding asks the peers in visiting order, skipping those marked unreachable, and stops at the
  first that accepts. The network is the argument \<open>post\<close>: \<open>None\<close> is a request that fails, a
  body that does not decode is the zero response. \<open>int(timeout.Seconds())\<close> is the truncated
  quotient (exact for timeouts whose number of seconds a float64 holds with nanoseconds to spare).
\<close>

fun forward_to :: "(master_info \<Rightarrow> forward_request \<Rightarrow> forward_response option) \<Rightarrow> forward_request \<Rightarrow>
    master_info list \<Rightarrow> (string \<times> string) option" where
  "forward_to post req [] = None"
| "forward_to post req (p # ps) =
     (case post p req of
        None \<Rightarrow> forward_to post req ps
      | Some r \<Rightarrow> if fs_Success r then Some (mi_Addr p, fs_CommandID r) else forward_to post req ps)"

definition ForwardCommandToPeers ::
  "(master_info \<Rightarrow> forward_request \<Rightarrow> forward_response option) \<Rightarrow> string list \<Rightarrow> string \<Rightarrow> string \<Rightarrow>
   string \<Rightarrow> duration \<Rightarrow> master_cluster \<Rightarrow> string + (string \<times> string)" where
  "ForwardCommandToPeers post ks agentID cmdType payload timeout mc =
     (let peers = filter (\<lambda>p. mi_LastSeen p \<noteq> zero_time) (range_values (mc_peers mc) ks);
          req = \<lparr>fr_AgentID = agentID, fr_Type = cmdType, fr_Payload = payload,
                 fr_Timeout = sgn timeout * (\<bar>timeout\<bar> div Second)\<rparr>
      in case forward_to post req peers of
           None \<Rightarrow> Inl (''no peer can handle agent: '' @ agentID)
         | Some r \<Rightarrow> Inr r)"

text \<open>
  The two waiting loops select between the end of the context and a tick. The argument is what the
  selects see, one element per iteration; \<open>None\<close> is a loop that still waits.
\<close>

datatype 'r wait_event = CtxDone | Tick 'r

datatype wait_error = CtxErr

fun PollPeerCommandResult :: "command_result option wait_event list \<Rightarrow>
    (wait_error + command_result) option" where
  "PollPeerCommandResult [] = None"
| "PollPeerCommandResult (CtxDone # evs) = Some (Inl CtxErr)"
| "PollPeerCommandResult (Tick resp # evs) =
     (case resp of
        None \<Rightarrow> PollPeerCommandResult evs
      | Some cr \<Rightarrow> if cr_CommandID cr \<noteq> [] then Some (Inr cr) else PollPeerCommandResult evs)"

definition GetCommandResult :: "string \<Rightarrow> master_cluster \<Rightarrow> command_result option" where
  "GetCommandResult cmdID mc = mc_commandResults mc cmdID"

fun WaitCommandResult :: "string \<Rightarrow> master_cluster wait_event list \<Rightarrow>
    (wait_error + command_result) option" where
  "WaitCommandResult cmdID [] = None"
| "WaitCommandResult cmdID (CtxDone # evs) = Some (Inl CtxErr)"
| "WaitCommandResult cmdID (Tick mc # evs) =
     (case GetCommandResult cmdID mc of
        None \<Rightarrow> WaitCommandResult cmdID evs
      | Some r \<Rightarrow> Some (Inr r))"

definition cleanupExpiredCommands :: "gotime \<Rightarrow> master_cluster \<Rightarrow> master_cluster" where
  "cleanupExpiredCommands now mc =
     mc\<lparr>mc_pendingCommands :=
          (\<lambda>k. map_option (filter (\<lambda>cmd. pc_ExpiresAt cmd > now)) (mc_pendingCommands mc k)),
        mc_commandResults :=
          (\<lambda>k. case mc_commandResults mc k of
                 None \<Rightarrow> None
               | Some r \<Rightarrow> if time_sub now (cr_Timestamp r) > Hour then None else Some r)\<rparr>"

subsection \<open>Queries over the agents\<close>

definition ListAgents :: "string list \<Rightarrow> master_cluster \<Rightarrow> agent_record list" where
  "ListAgents ks mc = range_values (mc_agents mc) ks"

definition GetAgent :: "string \<Rightarrow> master_cluster \<Rightarrow> agent_record option" where
  "GetAgent agentID mc = mc_agents mc agentID"

definition GetAgentsByTag :: "string list \<Rightarrow> string \<Rightarrow> master_cluster \<Rightarrow> agent_record list" where
  "GetAgentsByTag ks tag mc =
     filter (\<lambda>a. List.member (ar_Tags a) tag) (range_values (mc_agents mc) ks)"

fun remove_offline :: "string list \<Rightarrow> (string \<rightharpoonup> agent_record) \<Rightarrow> nat \<Rightarrow>
    (string \<rightharpoonup> agent_record) \<times> nat" where
  "remove_offline [] ags count = (ags, count)"
| "remove_offline (k # ks) ags count =
     (case ags k of
        None \<Rightarrow> remove_offline ks ags count
      | Some a \<Rightarrow> if ar_Status a = ''offline'' then remove_offline ks (ags(k := None)) (count + 1)
                  else remove_offline ks ags count)"

definition RemoveOfflineAgents :: "string list \<Rightarrow> master_cluster \<Rightarrow> master_cluster \<times> nat" where
  "RemoveOfflineAgents ks mc =
     (let (ags, count) = remove_offline ks (mc_agents mc) 0 in (mc\<lparr>mc_agents := ags\<rparr>, count))"

definition FindAgentByHost :: "string list \<Rightarrow> string \<Rightarrow> master_cluster \<Rightarrow> string option" where
  "FindAgentByHost ks host mc =
     (if (case mc_agents mc host of None \<Rightarrow> False | Some a \<Rightarrow> ar_Status a = ''online'') then Some host
      else map_option ar_ID
             (find (\<lambda>a. ar_Status a = ''online'' \<and>
                        (ar_Hostname a = host \<or> ar_IP a = host \<or> ar_Name a = host))
                (range_values (mc_agents mc) ks)))"

definition GetOnlineAgents :: "string list \<Rightarrow> master_cluster \<Rightarrow> agent_record list" where
  "GetOnlineAgents ks mc = filter (\<lambda>a. ar_Status a = ''online'') (range_values (mc_agents mc) ks)"

definition SetAgentStatusChangeCallback :: "bool \<Rightarrow> master_cluster \<Rightarrow> master_cluster" where
  "SetAgentStatusChangeCallback cb mc = mc\<lparr>mc_onAgentStatusChange := cb\<rparr>"

definition SetAgentEventCallback :: "bool \<Rightarrow> master_cluster \<Rightarrow> master_cluster" where
  "SetAgentEventCallback cb mc = mc\<lparr>mc_onAgentEvent := cb\<rparr>"

definition GetRecentEvents :: "int \<Rightarrow> master_cluster \<Rightarrow> agent_event list" where
  "GetRecentEvents limit mc =
     (let n = length (mc_events mc);
          lim = (if limit \<le> 0 \<or> limit > int n then n else nat limit)
      in drop (n - lim) (mc_events mc))"

subsection \<open>Health check and synchronisation between masters\<close>

definition heartbeat_timeout :: duration where
  "heartbeat_timeout = 60 * Second"

fun check_health :: "gotime \<Rightarrow> bool \<Rightarrow> string list \<Rightarrow> (string \<rightharpoonup> agent_record) \<Rightarrow>
    (string \<rightharpoonup> agent_record) \<times> status_change list" where
  "check_health now cb [] ags = (ags, [])"
| "check_health now cb (k # ks) ags =
     (case ags k of
        None \<Rightarrow> check_health now cb ks ags
      | Some a \<Rightarrow>
          if ar_Status a = ''online'' \<and> time_sub now (ar_LastHeartbeat a) > heartbeat_timeout
          then let (ags', cbs) = check_health now cb ks (ags(k \<mapsto> a\<lparr>ar_Status := ''offline''\<rparr>))
               in (ags', (if cb then [(ar_ID a, ar_Status a, ''offline'')] else []) @ cbs)
          else check_health now cb ks ags)"

definition checkAgentHealth :: "gotime \<Rightarrow> string list \<Rightarrow> master_cluster \<Rightarrow>
    master_cluster \<times> status_change list" where
  "checkAgentHealth now ks mc =
     (let (ags, cbs) = check_health now (mc_onAgentStatusChange mc) ks (mc_agents mc)
      in (mc\<lparr>mc_agents := ags\<rparr>, cbs))"

text \<open>The answer to the list request: a null in the array is \<open>None\<close> and reading its ID panics,
  after the records before it were merged.\<close>

fun merge_agents :: "agent_record option list \<Rightarrow> (string \<rightharpoonup> agent_record) \<Rightarrow>
    (string \<rightharpoonup> agent_record) \<times> go_panic option" where
  "merge_agents [] ags = (ags, None)"
| "merge_agents (None # rs) ags = (ags, Some NilDeref)"
| "merge_agents (Some r # rs) ags =
     (case ags (ar_ID r) of
        None \<Rightarrow> merge_agents rs (ags(ar_ID r \<mapsto> r))
      | Some l \<Rightarrow> if ar_LastHeartbeat r > ar_LastHeartbeat l
                  then merge_agents rs (ags(ar_ID r \<mapsto> r)) else merge_agents rs ags)"

definition syncAgentsFromPeer :: "agent_record option list option \<Rightarrow> master_cluster \<Rightarrow>
    master_cluster \<times> go_panic option" where
  "syncAgentsFromPeer answer mc =
     (case answer of
        None \<Rightarrow> (mc, None)
      | Some rs \<Rightarrow> (let (ags, p) = merge_agents rs (mc_agents mc) in (mc\<lparr>mc_agents := ags\<rparr>, p)))"

datatype sync_reply = NoRequest | Unreachable | Answered "agent_record option list option"

text \<open>The heartbeat request of a synchronisation: its address and its body. The body is nil.\<close>

definition sync_request :: "master_info \<Rightarrow> string \<times> master_info option" where
  "sync_request peer = (''http://'' @ mi_Addr peer @ ''/api/master/heartbeat'', None)"

definition syncWithPeer :: "gotime \<Rightarrow> sync_reply \<Rightarrow> string \<Rightarrow> master_cluster \<Rightarrow>
    master_cluster \<times> go_panic option" where
  "syncWithPeer now reply k mc =
     (case mc_peers mc k of
        None \<Rightarrow> (mc, None)
      | Some peer \<Rightarrow>
          (case reply of
             NoRequest \<Rightarrow> (mc, None)
           | Unreachable \<Rightarrow>
               (mc\<lparr>mc_peers := (mc_peers mc)(k \<mapsto> peer\<lparr>mi_LastSeen := zero_time\<rparr>)\<rparr>, None)
           | Answered agents \<Rightarrow>
               syncAgentsFromPeer agents
                 (mc\<lparr>mc_peers := (mc_peers mc)(k \<mapsto> peer\<lparr>mi_LastSeen := now\<rparr>)\<rparr>)))"

fun syncWithPeers :: "gotime \<Rightarrow> (string \<Rightarrow> sync_reply) \<Rightarrow> string list \<Rightarrow> master_cluster \<Rightarrow>
    master_cluster \<times> go_panic option" where
  "syncWithPeers now net [] mc = (mc, None)"
| "syncWithPeers now net (k # ks) mc =
     (case syncWithPeer now (net k) k mc of
        (mc', Some p) \<Rightarrow> (mc', Some p)
      | (mc', None) \<Rightarrow> syncWithPeers now net ks mc')"

end
