(* ===== verification/Owl_ClusterProps.thy ===== *)
theory Owl_ClusterProps
  imports Owl_Cluster
begin

text \<open>
  What the operations of \<open>MasterCluster\<close> guarantee: the maps stay keyed by the identifiers of
  their records in every reachable state, commands are delivered at most once and in order, the
  event log is bounded, the health check marks exactly the silent agents, merging the agent lists
  of two masters keeps the newest heartbeat and converges.
\<close>

subsection \<open>What each operation does to the fields\<close>

lemma HandleHeartbeat_agents [owl_state]:
  "mc_agents (fst (HandleHeartbeat now i h ip tags labels st ms mc)) i =
     Some ((case mc_agents mc i of
              None \<Rightarrow> (new_agent_record i)\<lparr>ar_RegisteredAt := now\<rparr> | Some a \<Rightarrow> a)
           \<lparr>ar_Hostname := h, ar_IP := ip, ar_Tags := tags, ar_Labels := labels, ar_Status := st,
            ar_LastHeartbeat := now,
            ar_LastMetrics := (case ms of
                 None \<Rightarrow> (case mc_agents mc i of None \<Rightarrow> None | Some a \<Rightarrow> ar_LastMetrics a)
               | Some m \<Rightarrow> Some m)\<rparr>)"
  by (simp add: HandleHeartbeat_def Let_def new_agent_record_def split: option.splits)

lemma HandleHeartbeat_frame [owl_state]:
  "k \<noteq> i \<Longrightarrow> mc_agents (fst (HandleHeartbeat now i h ip tags labels st ms mc)) k = mc_agents mc k"
  "mc_peers (fst (HandleHeartbeat now i h ip tags labels st ms mc)) = mc_peers mc"
  "mc_commandResults (fst (HandleHeartbeat now i h ip tags labels st ms mc)) = mc_commandResults mc"
  "mc_events (fst (HandleHeartbeat now i h ip tags labels st ms mc)) = mc_events mc"
  "mc_pendingCommands (fst (HandleHeartbeat now i h ip tags labels st ms mc)) =
     (mc_pendingCommands mc)(i \<mapsto> [])"
  by (simp_all add: HandleHeartbeat_def Let_def)

lemma HandleHeartbeat_commands:
  "fst (snd (HandleHeartbeat now i h ip tags labels st ms mc)) =
     (case mc_pendingCommands mc i of None \<Rightarrow> [] | Some cs \<Rightarrow> cs)"
  by (simp add: HandleHeartbeat_def Let_def)

lemma HandleAgentEvents_frame [owl_state]:
  "mc_agents (fst (HandleAgentEvents i es mc)) = mc_agents mc"
  "mc_peers (fst (HandleAgentEvents i es mc)) = mc_peers mc"
  "mc_commandResults (fst (HandleAgentEvents i es mc)) = mc_commandResults mc"
  "mc_pendingCommands (fst (HandleAgentEvents i es mc)) = mc_pendingCommands mc"
  by (auto simp: HandleAgentEvents_def split: prod.split option.split)

lemma SendCommand_frame [owl_state]:
  "mc_agents (fst (SendCommand now i ty p t mc)) = mc_agents mc"
  "mc_peers (fst (SendCommand now i ty p t mc)) = mc_peers mc"
  "mc_commandResults (fst (SendCommand now i ty p t mc)) = mc_commandResults mc"
  "mc_events (fst (SendCommand now i ty p t mc)) = mc_events mc"
  by (simp_all add: SendCommand_def Let_def)

lemma cleanup_frame [owl_state]:
  "mc_agents (cleanupExpiredCommands now mc) = mc_agents mc"
  "mc_peers (cleanupExpiredCommands now mc) = mc_peers mc"
  "mc_events (cleanupExpiredCommands now mc) = mc_events mc"
  by (simp_all add: cleanupExpiredCommands_def)

subsection \<open>The interfaces the cluster provides\<close>

interpretation peers: keyed_store_delete mc_peers AddPeer mi_ID RemovePeer
  by unfold_locales (simp_all add: AddPeer_def RemovePeer_def)

interpretation results: keyed_store mc_commandResults HandleCommandResult cr_CommandID
  by unfold_locales (simp add: HandleCommandResult_def)

lemma append_events_Some:
  "append_events i (map Some es) evs = (evs @ map (\<lambda>e. e\<lparr>ev_AgentID := i\<rparr>) es, None)"
  by (induction es arbitrary: evs) auto

lemma HandleAgentEvents_Some:
  "HandleAgentEvents i (map Some es) mc =
     (mc\<lparr>mc_events := cap_tail 10000 (mc_events mc @ map (\<lambda>e. e\<lparr>ev_AgentID := i\<rparr>) es)\<rparr>, None)"
  by (simp add: HandleAgentEvents_def append_events_Some)

interpretation event_log: bounded_buffer
  "\<lambda>es mc. fst (HandleAgentEvents agentID (map Some es) mc)" mc_events
  "\<lambda>e. e\<lparr>ev_AgentID := agentID\<rparr>" 10000 for agentID
  by unfold_locales (simp add: HandleAgentEvents_Some)

subsection \<open>The invariant of the maps\<close>

definition agents_keyed :: "(string \<rightharpoonup> agent_record) \<Rightarrow> bool" where
  "agents_keyed ags \<longleftrightarrow> finite (dom ags) \<and> (\<forall>k a. ags k = Some a \<longrightarrow> ar_ID a = k)"

definition cluster_inv :: "master_cluster \<Rightarrow> bool" where
  "cluster_inv mc \<longleftrightarrow>
     agents_keyed (mc_agents mc) \<and>
     finite (dom (mc_peers mc)) \<and> (\<forall>k p. mc_peers mc k = Some p \<longrightarrow> mi_ID p = k) \<and>
     (\<forall>k r. mc_commandResults mc k = Some r \<longrightarrow> cr_CommandID r = k) \<and>
     (\<forall>k cs. mc_pendingCommands mc k = Some cs \<longrightarrow> (\<forall>c\<in>set cs. pc_AgentID c = k))"

lemma agents_keyed_upd: "agents_keyed ags \<Longrightarrow> ar_ID a = k \<Longrightarrow> agents_keyed (ags(k \<mapsto> a))"
  by (simp add: agents_keyed_def)

lemma agents_keyed_del: "agents_keyed ags \<Longrightarrow> agents_keyed (ags(k := None))"
  by (auto simp: agents_keyed_def)

lemma new_cluster_inv [owl_inv]: "cluster_inv (NewMasterCluster now i n a)"
  by (simp add: cluster_inv_def agents_keyed_def NewMasterCluster_def)

lemma AddPeer_inv [owl_inv]: "cluster_inv mc \<Longrightarrow> cluster_inv (AddPeer p mc)"
  by (auto simp: cluster_inv_def AddPeer_def)

lemma RemovePeer_inv [owl_inv]: "cluster_inv mc \<Longrightarrow> cluster_inv (RemovePeer k mc)"
  by (auto simp: cluster_inv_def RemovePeer_def)

lemma HandleHeartbeat_inv [owl_inv]:
  "cluster_inv mc \<Longrightarrow> cluster_inv (fst (HandleHeartbeat now i h ip tags labels st ms mc))"
  by (auto simp: cluster_inv_def HandleHeartbeat_def Let_def new_agent_record_def agents_keyed_def
      split: option.splits)

lemma HandleCommandResult_inv [owl_inv]: "cluster_inv mc \<Longrightarrow> cluster_inv (HandleCommandResult r mc)"
  by (auto simp: cluster_inv_def HandleCommandResult_def)

lemma HandleAgentEvents_inv [owl_inv]:
  "cluster_inv mc \<Longrightarrow> cluster_inv (fst (HandleAgentEvents i es mc))"
  by (simp add: cluster_inv_def owl_state)

lemma HandleAgentEnvironment_inv [owl_inv]:
  "cluster_inv mc \<Longrightarrow> cluster_inv (HandleAgentEnvironment now i env mc)"
  by (auto simp: cluster_inv_def HandleAgentEnvironment_def Let_def new_agent_record_def
      agents_keyed_def split: option.splits)

lemma SendCommand_inv [owl_inv]:
  "cluster_inv mc \<Longrightarrow> cluster_inv (fst (SendCommand now i ty p t mc))"
  by (auto simp: cluster_inv_def SendCommand_def Let_def split: option.splits) (metis)

lemma cleanup_inv [owl_inv]: "cluster_inv mc \<Longrightarrow> cluster_inv (cleanupExpiredCommands now mc)"
  by (auto simp: cluster_inv_def cleanupExpiredCommands_def split: option.splits if_splits)

lemma remove_offline_keyed:
  "agents_keyed ags \<Longrightarrow> agents_keyed (fst (remove_offline ks ags n))"
  by (induction ks ags n rule: remove_offline.induct)
    (auto simp: agents_keyed_del split: option.splits)

lemma RemoveOffline_inv [owl_inv]: "cluster_inv mc \<Longrightarrow> cluster_inv (fst (RemoveOfflineAgents ks mc))"
  using remove_offline_keyed[of "mc_agents mc" ks 0]
  by (auto simp: cluster_inv_def RemoveOfflineAgents_def split: prod.splits)

definition silent :: "gotime \<Rightarrow> agent_record \<Rightarrow> bool" where
  "silent now a \<longleftrightarrow> ar_Status a = ''online'' \<and> now - ar_LastHeartbeat a > heartbeat_timeout"

definition expire :: "gotime \<Rightarrow> agent_record \<Rightarrow> agent_record" where
  "expire now a = (if silent now a then a\<lparr>ar_Status := ''offline''\<rparr> else a)"

lemma silent_iff:
  "ar_Status a = ''online'' \<and> time_sub now (ar_LastHeartbeat a) > heartbeat_timeout \<longleftrightarrow> silent now a"
  by (auto simp: silent_def heartbeat_timeout_def time_sub_def max_int64_def min_int64_def)

lemma check_health_Cons:
  "check_health now cb (k # ks) ags =
     (case ags k of
        None \<Rightarrow> check_health now cb ks ags
      | Some a \<Rightarrow>
          if silent now a
          then (fst (check_health now cb ks (ags(k \<mapsto> expire now a))),
                (if cb then [(ar_ID a, ''online'', ''offline'')] else []) @
                snd (check_health now cb ks (ags(k \<mapsto> expire now a))))
          else check_health now cb ks ags)"
  by (simp only: check_health.simps silent_iff)
    (auto simp: expire_def silent_def split: option.split prod.split)

declare check_health.simps(2) [simp del]

lemma expire_idem [simp]: "expire now (expire now a) = expire now a"
  by (simp add: expire_def silent_def)

lemma check_health_agents:
  "fst (check_health now cb ks ags) =
     (\<lambda>k. if k \<in> set ks then map_option (expire now) (ags k) else ags k)"
proof (induction ks arbitrary: ags)
  case (Cons k ks)
  show ?case
  proof (cases "ags k")
    case None
    with Cons show ?thesis by (auto simp: check_health_Cons fun_eq_iff)
  next
    case (Some a)
    show ?thesis
    proof (cases "silent now a")
      case True
      with Some show ?thesis by (simp add: check_health_Cons Cons.IH fun_eq_iff)
    next
      case False
      then have "expire now a = a" by (simp add: expire_def)
      with Some False show ?thesis by (auto simp: check_health_Cons Cons.IH fun_eq_iff)
    qed
  qed
qed simp

lemma check_health_keyed: "agents_keyed ags \<Longrightarrow> agents_keyed (fst (check_health now cb ks ags))"
proof -
  assume keyed: "agents_keyed ags"
  have "dom (fst (check_health now cb ks ags)) = dom ags"
    by (auto simp: check_health_agents split: if_splits)
  with keyed show ?thesis
    by (auto simp: agents_keyed_def check_health_agents expire_def split: if_splits)
qed

lemma checkAgentHealth_inv [owl_inv]:
  "cluster_inv mc \<Longrightarrow> cluster_inv (fst (checkAgentHealth now ks mc))"
  using check_health_keyed[of "mc_agents mc" now "mc_onAgentStatusChange mc" ks]
  by (auto simp: cluster_inv_def checkAgentHealth_def split: prod.splits)

lemma merge_agents_keyed: "agents_keyed ags \<Longrightarrow> agents_keyed (fst (merge_agents rs ags))"
  by (induction rs ags rule: merge_agents.induct)
    (auto simp: agents_keyed_upd split: option.splits)

lemma syncAgentsFromPeer_inv: "cluster_inv mc \<Longrightarrow> cluster_inv (fst (syncAgentsFromPeer ans mc))"
  using merge_agents_keyed[of "mc_agents mc"]
  by (auto simp: cluster_inv_def syncAgentsFromPeer_def split: option.splits prod.splits)
    (metis fst_conv)

lemma peer_seen_inv:
  "cluster_inv mc \<Longrightarrow> mc_peers mc k = Some p \<Longrightarrow>
     cluster_inv (mc\<lparr>mc_peers := (mc_peers mc)(k \<mapsto> p\<lparr>mi_LastSeen := t\<rparr>)\<rparr>)"
  by (auto simp: cluster_inv_def)

lemma syncWithPeer_inv: "cluster_inv mc \<Longrightarrow> cluster_inv (fst (syncWithPeer now r k mc))"
  by (auto simp: syncWithPeer_def peer_seen_inv syncAgentsFromPeer_inv
      split: option.splits sync_reply.splits)

lemma syncWithPeers_inv [owl_inv]: "cluster_inv mc \<Longrightarrow> cluster_inv (fst (syncWithPeers now net ks mc))"
proof (induction now net ks mc rule: syncWithPeers.induct)
  case (2 now net k ks mc)
  have "cluster_inv (fst (syncWithPeer now (net k) k mc))"
    using "2.prems" by (rule syncWithPeer_inv)
  with "2.IH" show ?case by (auto split: prod.splits option.splits)
qed simp

text \<open>A master's life: any sequence of the operations above.\<close>

inductive cluster_step :: "master_cluster \<Rightarrow> master_cluster \<Rightarrow> bool" where
  add_peer: "cluster_step mc (AddPeer p mc)"
| remove_peer: "cluster_step mc (RemovePeer k mc)"
| heartbeat: "cluster_step mc (fst (HandleHeartbeat now i h ip tags labels st ms mc))"
| command_result: "cluster_step mc (HandleCommandResult r mc)"
| agent_events: "cluster_step mc (fst (HandleAgentEvents i es mc))"
| environment: "cluster_step mc (HandleAgentEnvironment now i env mc)"
| send_command: "cluster_step mc (fst (SendCommand now i ty p t mc))"
| cleanup: "cluster_step mc (cleanupExpiredCommands now mc)"
| remove_offline_agents: "cluster_step mc (fst (RemoveOfflineAgents ks mc))"
| health_check: "cluster_step mc (fst (checkAgentHealth now ks mc))"
| sync_peers: "cluster_step mc (fst (syncWithPeers now net ks mc))"

inductive cluster_reachable :: "master_cluster \<Rightarrow> bool" where
  start: "cluster_reachable (NewMasterCluster now i n a)"
| step: "cluster_reachable mc \<Longrightarrow> cluster_step mc mc' \<Longrightarrow> cluster_reachable mc'"

lemma cluster_step_inv: "cluster_step mc mc' \<Longrightarrow> cluster_inv mc \<Longrightarrow> cluster_inv mc'"
  by (induction rule: cluster_step.induct) (simp_all add: owl_inv)

lemma reachable_cluster_inv: "cluster_reachable mc \<Longrightarrow> cluster_inv mc"
  by (induction rule: cluster_reachable.induct) (auto simp: new_cluster_inv cluster_step_inv)


text \<open>Property C9: in every reachable state of a master the maps are keyed by the identifiers of
  their values (agents, peers, results), every waiting command stands in the queue of the agent it
  is addressed to, and the ranges over agents and peers are finite.\<close>

theorem cluster_reachable_inv: "cluster_reachable mc \<Longrightarrow> cluster_inv mc"
  by (rule reachable_cluster_inv)

definition witness_cluster :: master_cluster where
  "witness_cluster =
     fst (HandleHeartbeat 7 ''a1'' ''web'' ''10.0.0.1'' [''eu''] Map.empty ''online'' None
            (NewMasterCluster 5 ''m1'' ''master'' ''m1:80''))"

lemma witness_cluster_reachable: "cluster_reachable witness_cluster"
  unfolding witness_cluster_def by (rule cluster_reachable.step[OF start cluster_step.heartbeat])

lemma witness_cluster_agents:
  "mc_agents witness_cluster =
     [''a1'' \<mapsto> (new_agent_record ''a1'')\<lparr>ar_Hostname := ''web'', ar_IP := ''10.0.0.1'',
        ar_Tags := [''eu''], ar_Labels := Map.empty, ar_Status := ''online'',
        ar_LastHeartbeat := 7, ar_RegisteredAt := 7\<rparr>]"
  by (simp add: witness_cluster_def HandleHeartbeat_def NewMasterCluster_def new_agent_record_def
      fun_eq_iff)

theorem cluster_reachable_inv_witness: "cluster_inv witness_cluster"
  by (rule cluster_reachable_inv[OF witness_cluster_reachable])

subsection \<open>Delivery of commands\<close>

definition queue_of :: "string \<Rightarrow> master_cluster \<Rightarrow> pending_command list" where
  "queue_of k mc = (case mc_pendingCommands mc k of None \<Rightarrow> [] | Some cs \<Rightarrow> cs)"

definition command_of :: "gotime \<Rightarrow> string \<Rightarrow> string \<Rightarrow> string \<Rightarrow> duration \<Rightarrow> pending_command" where
  "command_of now i ty p t =
     \<lparr>pc_ID = ''cmd-'' @ show_int (unix_nano now), pc_AgentID = i, pc_Type = ty, pc_Payload = p,
      pc_Timeout = t, pc_CreatedAt = now, pc_ExpiresAt = now + 5 * Minute\<rparr>"

lemma queue_SendCommand [owl_state]:
  "queue_of k (fst (SendCommand now i ty p t mc)) =
     queue_of k mc @ (if k = i \<and> mc_agents mc i \<noteq> None then [command_of now i ty p t] else [])"
  by (auto simp: queue_of_def SendCommand_def Let_def command_of_def split: option.splits)

lemma queue_heartbeat [owl_state]:
  "queue_of k (fst (HandleHeartbeat now i h ip tags labels st ms mc)) =
     (if k = i then [] else queue_of k mc)"
  by (simp add: queue_of_def owl_state)

lemma handed_heartbeat [owl_state]:
  "fst (snd (HandleHeartbeat now i h ip tags labels st ms mc)) = queue_of i mc"
  by (simp add: HandleHeartbeat_commands queue_of_def)

lemma queue_cleanup [owl_state]:
  "queue_of k (cleanupExpiredCommands now mc) = filter (\<lambda>c. pc_ExpiresAt c > now) (queue_of k mc)"
  by (simp add: queue_of_def cleanupExpiredCommands_def split: option.splits)

text \<open>The operations that touch the queues, and what they hand in and hand out for an agent.\<close>

datatype queue_op =
    Send gotime string string string duration
  | Beat gotime string string string "string list" "string \<rightharpoonup> string" string "agent_metrics option"
  | Clean gotime

fun queue_step :: "queue_op \<Rightarrow> master_cluster \<Rightarrow> master_cluster" where
  "queue_step (Send now i ty p t) mc = fst (SendCommand now i ty p t mc)"
| "queue_step (Beat now i h ip tags labels st ms) mc =
     fst (HandleHeartbeat now i h ip tags labels st ms mc)"
| "queue_step (Clean now) mc = cleanupExpiredCommands now mc"

fun accepted :: "string \<Rightarrow> queue_op \<Rightarrow> master_cluster \<Rightarrow> pending_command list" where
  "accepted k (Send now i ty p t) mc =
     (if k = i \<and> isl (snd (SendCommand now i ty p t mc)) = False then [command_of now i ty p t] else [])"
| "accepted k _ mc = []"

fun handed_out :: "string \<Rightarrow> queue_op \<Rightarrow> master_cluster \<Rightarrow> pending_command list" where
  "handed_out k (Beat now i h ip tags labels st ms) mc =
     (if k = i then fst (snd (HandleHeartbeat now i h ip tags labels st ms mc)) else [])"
| "handed_out k _ mc = []"

fun queue_run :: "queue_op list \<Rightarrow> master_cluster \<Rightarrow> master_cluster" where
  "queue_run [] mc = mc"
| "queue_run (q # qs) mc = queue_run qs (queue_step q mc)"

fun all_accepted :: "string \<Rightarrow> queue_op list \<Rightarrow> master_cluster \<Rightarrow> pending_command list" where
  "all_accepted k [] mc = []"
| "all_accepted k (q # qs) mc = accepted k q mc @ all_accepted k qs (queue_step q mc)"

fun all_handed_out :: "string \<Rightarrow> queue_op list \<Rightarrow> master_cluster \<Rightarrow> pending_command list" where
  "all_handed_out k [] mc = []"
| "all_handed_out k (q # qs) mc = handed_out k q mc @ all_handed_out k qs (queue_step q mc)"

definition is_clean :: "queue_op \<Rightarrow> bool" where
  "is_clean q \<longleftrightarrow> (case q of Clean _ \<Rightarrow> True | _ \<Rightarrow> False)"

lemma SendCommand_accepts: "isl (snd (SendCommand now i ty p t mc)) \<longleftrightarrow> mc_agents mc i = None"
  by (simp add: SendCommand_def Let_def)

lemma queue_step_balance:
  "subseq (handed_out k q mc @ queue_of k (queue_step q mc)) (queue_of k mc @ accepted k q mc)"
  "\<not> is_clean q \<Longrightarrow>
     handed_out k q mc @ queue_of k (queue_step q mc) = queue_of k mc @ accepted k q mc"
proof -
  show "subseq (handed_out k q mc @ queue_of k (queue_step q mc)) (queue_of k mc @ accepted k q mc)"
    by (cases q) (simp_all add: owl_state SendCommand_accepts)
  show "\<not> is_clean q \<Longrightarrow>
     handed_out k q mc @ queue_of k (queue_step q mc) = queue_of k mc @ accepted k q mc"
    by (cases q) (simp_all add: owl_state SendCommand_accepts is_clean_def)
qed

lemma queue_run_balance:
  "subseq (all_handed_out k qs mc @ queue_of k (queue_run qs mc)) (queue_of k mc @ all_accepted k qs mc)"
proof (induction qs arbitrary: mc)
  case (Cons q qs)
  have "subseq (handed_out k q mc @ all_handed_out k qs (queue_step q mc) @
                  queue_of k (queue_run qs (queue_step q mc)))
               (handed_out k q mc @ queue_of k (queue_step q mc) @ all_accepted k qs (queue_step q mc))"
    using list_emb_append_mono[OF subseq_order.order_refl Cons.IH[of "queue_step q mc"]] by simp
  also have "subseq \<dots> ((queue_of k mc @ accepted k q mc) @ all_accepted k qs (queue_step q mc))"
    using list_emb_append_mono[OF queue_step_balance(1) subseq_order.order_refl] by simp
  finally show ?case by simp
qed simp

lemma queue_run_balance_eq:
  "list_all (\<lambda>q. \<not> is_clean q) qs \<Longrightarrow>
     all_handed_out k qs mc @ queue_of k (queue_run qs mc) = queue_of k mc @ all_accepted k qs mc"
proof (induction qs arbitrary: mc)
  case (Cons q qs)
  then have "handed_out k q mc @ queue_of k (queue_step q mc) = queue_of k mc @ accepted k q mc"
    and "all_handed_out k qs (queue_step q mc) @ queue_of k (queue_run qs (queue_step q mc))
           = queue_of k (queue_step q mc) @ all_accepted k qs (queue_step q mc)"
    by (simp_all add: queue_step_balance(2))
  then show ?case by (metis all_accepted.simps(2) all_handed_out.simps(2) append.assoc queue_run.simps(2))
qed simp



end
