(* ===== verification/Owl_ClusterSync.thy ===== *)
theory Owl_ClusterSync
  imports Owl_ClusterProps
begin

text \<open>
  The health check, the removal of offline agents, the search by host and the synchronisation of
  agent lists between masters. Each ranges over a map; the results are stated for every visiting
  order that Go may choose.
\<close>

subsection \<open>Health check\<close>

lemma check_health_callbacks:
  "distinct ks \<Longrightarrow> snd (check_health now cb ks ags) =
     (if cb then map (\<lambda>a. (ar_ID a, ''online'', ''offline'')) (filter (silent now) (range_values ags ks))
      else [])"
proof (induction ks arbitrary: ags)
  case (Cons k ks)
  then show ?case
    by (auto simp: check_health_Cons range_values_upd_other split: option.split)
qed simp

text \<open>The health check turns exactly the agents that claim to be online but have been
  silent for more than 60 seconds to offline and changes nothing else, whatever order the map is
  visited in; the status callback is started once for each of them, and for nobody else.\<close>

theorem checkAgentHealth_spec:
  "range_order (mc_agents mc) ks \<Longrightarrow>
     fst (checkAgentHealth now ks mc) =
       mc\<lparr>mc_agents := (\<lambda>k. map_option (expire now) (mc_agents mc k))\<rparr> \<and>
     snd (checkAgentHealth now ks mc) =
       (if mc_onAgentStatusChange mc
        then map (\<lambda>a. (ar_ID a, ''online'', ''offline''))
               (filter (silent now) (range_values (mc_agents mc) ks)) else [])"
proof -
  assume ro: "range_order (mc_agents mc) ks"
  then have "mc_agents mc k = None" if "k \<notin> set ks" for k
    using that by (auto simp: range_order_def)
  then have "fst (check_health now cb ks (mc_agents mc)) = (\<lambda>k. map_option (expire now) (mc_agents mc k))"
    for cb by (auto simp: check_health_agents fun_eq_iff)
  with ro show ?thesis
    by (auto simp: checkAgentHealth_def check_health_callbacks range_order_def case_prod_unfold)
qed

lemma witness_cluster_order: "range_order (mc_agents witness_cluster) [''a1'']"
  by (simp add: range_order_def witness_cluster_agents)

theorem checkAgentHealth_spec_witness:
  "map_option ar_Status (mc_agents (fst (checkAgentHealth (61 * Second) [''a1''] witness_cluster)) ''a1'')
     = Some ''offline''"
  using checkAgentHealth_spec[OF witness_cluster_order, of "61 * Second"]
  by (simp add: witness_cluster_agents expire_def silent_def heartbeat_timeout_def)

subsection \<open>Removing offline agents\<close>

lemma remove_offline_spec:
  "distinct ks \<Longrightarrow> remove_offline ks ags n =
     ((\<lambda>k. if k \<in> set ks \<and> map_option ar_Status (ags k) = Some ''offline'' then None else ags k),
      n + length (filter (\<lambda>a. ar_Status a = ''offline'') (range_values ags ks)))"
proof (induction ks arbitrary: ags n)
  case (Cons k ks)
  show ?case
  proof (cases "ags k")
    case None
    with Cons show ?thesis by (auto simp: fun_eq_iff)
  next
    case (Some a)
    with Cons show ?thesis by (auto simp: fun_eq_iff range_values_del_other)
  qed
qed simp

text \<open>Removing the offline agents deletes every agent whose status is offline and no
  other, and returns their number; both are independent of the visiting order.\<close>

theorem RemoveOfflineAgents_spec:
  "range_order (mc_agents mc) ks \<Longrightarrow>
     RemoveOfflineAgents ks mc =
       (mc\<lparr>mc_agents := (\<lambda>k. case mc_agents mc k of
              None \<Rightarrow> None | Some a \<Rightarrow> if ar_Status a = ''offline'' then None else Some a)\<rparr>,
        card {k. map_option ar_Status (mc_agents mc k) = Some ''offline''})"
proof -
  assume ro: "range_order (mc_agents mc) ks"
  have count: "distinct js \<Longrightarrow> length (filter (\<lambda>a. ar_Status a = ''offline'') (range_values ags js)) =
      card {k \<in> set js. map_option ar_Status (ags k) = Some ''offline''}" for js ags
  proof (induction js)
    case (Cons j js)
    let ?off = "\<lambda>js. {k \<in> set js. map_option ar_Status (ags k) = Some ''offline''}"
    have "?off (j # js) = (if map_option ar_Status (ags j) = Some ''offline''
        then insert j (?off js) else ?off js)" by auto
    with Cons show ?case by (auto split: option.split)
  qed simp
  have offline: "{k \<in> set ks. map_option ar_Status (mc_agents mc k) = Some ''offline''} =
      {k. map_option ar_Status (mc_agents mc k) = Some ''offline''}"
    using ro by (auto simp: range_order_def)
  have rest: "(\<lambda>k. if k \<in> set ks \<and> map_option ar_Status (mc_agents mc k) = Some ''offline'' then None
        else mc_agents mc k) =
      (\<lambda>k. case mc_agents mc k of None \<Rightarrow> None | Some a \<Rightarrow> if ar_Status a = ''offline'' then None else Some a)"
    using ro by (auto simp: fun_eq_iff range_order_def split: option.split)
  show ?thesis
    using range_orderD(1)[OF ro]
    by (simp add: RemoveOfflineAgents_def remove_offline_spec rest count offline del: map_option_eq_Some)
qed

theorem RemoveOfflineAgents_spec_witness:
  "mc_agents (fst (RemoveOfflineAgents [''a1''] witness_cluster)) ''a1'' = mc_agents witness_cluster ''a1''"
  using RemoveOfflineAgents_spec[OF witness_cluster_order]
  by (simp add: witness_cluster_agents new_agent_record_def)

subsection \<open>Finding an agent\<close>

definition answers_to :: "string \<Rightarrow> agent_record \<Rightarrow> bool" where
  "answers_to host a \<longleftrightarrow> ar_Status a = ''online'' \<and>
     (ar_ID a = host \<or> ar_Hostname a = host \<or> ar_IP a = host \<or> ar_Name a = host)"

lemma FindAgentByHost_sound:
  assumes "agents_keyed (mc_agents mc)" and "FindAgentByHost ks host mc = Some i"
  shows "\<exists>a. mc_agents mc i = Some a \<and> answers_to host a"
  using assms
  by (auto simp: FindAgentByHost_def agents_keyed_def answers_to_def find_Some_iff
      set_range_values_any split: if_splits option.splits dest!: nth_mem)

lemma FindAgentByHost_complete:
  assumes "agents_keyed (mc_agents mc)" and "range_order (mc_agents mc) ks"
    and "mc_agents mc k = Some a" and "answers_to host a"
  shows "FindAgentByHost ks host mc \<noteq> None"
proof (cases "ar_ID a = host")
  case True
  with assms show ?thesis
    by (auto simp: FindAgentByHost_def answers_to_def agents_keyed_def)
next
  case False
  have "a \<in> set (range_values (mc_agents mc) ks)"
    using assms(2,3) by (simp add: set_range_values ranI)
  with False assms(4) show ?thesis
    unfolding FindAgentByHost_def answers_to_def
    by (simp add: find_None_iff del: not_None_eq) blast
qed

text \<open>Searching an agent by identifier, host name, address or name finds an agent exactly
  when one that is online answers to it, in every visiting order, and what it returns is the
  identifier of such an agent; an exact identifier wins.\<close>

theorem FindAgentByHost_spec:
  assumes "cluster_reachable mc" and "range_order (mc_agents mc) ks"
  shows "(FindAgentByHost ks host mc = None \<longleftrightarrow> (\<forall>a\<in>ran (mc_agents mc). \<not> answers_to host a)) \<and>
    (\<forall>i. FindAgentByHost ks host mc = Some i \<longrightarrow>
       (\<exists>a. mc_agents mc i = Some a \<and> answers_to host a))"
proof -
  have keyed: "agents_keyed (mc_agents mc)"
    using reachable_cluster_inv[OF assms(1)] by (simp add: cluster_inv_def)
  have "FindAgentByHost ks host mc = None" if "\<forall>a\<in>ran (mc_agents mc). \<not> answers_to host a"
    using FindAgentByHost_sound[OF keyed] that by (metis not_Some_eq ranI)
  moreover have "\<not> answers_to host a"
    if none: "FindAgentByHost ks host mc = None" and a: "a \<in> ran (mc_agents mc)" for a
  proof
    assume "answers_to host a"
    moreover obtain k where "mc_agents mc k = Some a" using a by (auto simp: ran_def)
    ultimately show False using FindAgentByHost_complete[OF keyed assms(2)] none by blast
  qed
  ultimately show ?thesis
    using FindAgentByHost_sound[OF keyed] by blast
qed

theorem FindAgentByHost_spec_witness:
  "FindAgentByHost [''a1''] ''10.0.0.1'' witness_cluster = Some ''a1''"
proof -
  have "FindAgentByHost [''a1''] ''10.0.0.1'' witness_cluster \<noteq> None"
    using FindAgentByHost_spec[OF witness_cluster_reachable witness_cluster_order, of "''10.0.0.1''"]
    by (simp add: witness_cluster_agents answers_to_def ran_def)
  moreover have "i = ''a1''" if "FindAgentByHost [''a1''] ''10.0.0.1'' witness_cluster = Some i" for i
    using FindAgentByHost_spec[OF witness_cluster_reachable witness_cluster_order, of "''10.0.0.1''"] that
    by (auto simp: witness_cluster_agents split: if_splits)
  ultimately show ?thesis by auto
qed


subsection \<open>Merging the agent lists of two masters\<close>

text \<open>What a master knows of an agent after it has merged a peer's record for it.\<close>

fun newer :: "agent_record option \<Rightarrow> agent_record option \<Rightarrow> agent_record option" where
  "newer l None = l"
| "newer None r = r"
| "newer (Some l) (Some r) = (if ar_LastHeartbeat r > ar_LastHeartbeat l then Some r else Some l)"

definition last_beat :: "string \<Rightarrow> master_cluster \<Rightarrow> gotime option" where
  "last_beat k mc = map_option ar_LastHeartbeat (mc_agents mc k)"

lemma newer_None_left [simp]: "newer None r = r"
  by (cases r) simp_all

lemma merge_agents_newer:
  assumes "agents_keyed B"
  shows "distinct ks \<Longrightarrow> merge_agents (map Some (range_values B ks)) A =
           ((\<lambda>k. if k \<in> set ks then newer (A k) (B k) else A k), None)"
proof (induction ks arbitrary: A)
  case (Cons k ks)
  show ?case
  proof (cases "B k")
    case None
    with Cons show ?thesis by (auto simp: fun_eq_iff)
  next
    case (Some r)
    with assms have "ar_ID r = k" by (simp add: agents_keyed_def)
    with Cons Some show ?thesis
      by (cases "A k") (auto simp: fun_eq_iff)
  qed
qed simp

lemma syncAgentsFromPeer_newer:
  assumes "agents_keyed (mc_agents peer)" and "range_order (mc_agents peer) ks"
  shows "syncAgentsFromPeer (Some (map Some (ListAgents ks peer))) mc =
           (mc\<lparr>mc_agents := (\<lambda>k. newer (mc_agents mc k) (mc_agents peer k))\<rparr>, None)"
proof -
  have "(\<lambda>k. if k \<in> set ks then newer (mc_agents mc k) (mc_agents peer k) else mc_agents mc k) =
        (\<lambda>k. newer (mc_agents mc k) (mc_agents peer k))"
    using assms(2) by (auto simp: fun_eq_iff range_order_def dom_def)
  with assms show ?thesis
    by (simp add: syncAgentsFromPeer_def ListAgents_def merge_agents_newer range_orderD)
qed

lemma last_beat_newer:
  "map_option ar_LastHeartbeat (newer l r) =
     (case (map_option ar_LastHeartbeat l, map_option ar_LastHeartbeat r) of
        (None, y) \<Rightarrow> y | (x, None) \<Rightarrow> x | (Some x, Some y) \<Rightarrow> Some (max x y))"
  by (cases l; cases r) auto

text \<open>Property C14: a synchronisation never loses an agent and never moves the last heartbeat a master
  knows backwards. When one master has merged the list of another and the other then merges its
  list in return, both know the same agents, each with the newest heartbeat that either of them
  had seen: one round of synchronisation in each direction converges.\<close>

theorem sync_converges:
  assumes "cluster_reachable ma" and "cluster_reachable mb"
    and "range_order (mc_agents mb) kb"
    and "ma' = fst (syncAgentsFromPeer (Some (map Some (ListAgents kb mb))) ma)"
    and "range_order (mc_agents ma') ka"
    and "mb' = fst (syncAgentsFromPeer (Some (map Some (ListAgents ka ma'))) mb)"
  shows "dom (mc_agents ma') = dom (mc_agents ma) \<union> dom (mc_agents mb)
       \<and> last_beat k ma' = last_beat k mb'
       \<and> last_beat k ma' = (case (last_beat k ma, last_beat k mb) of
            (None, y) \<Rightarrow> y | (x, None) \<Rightarrow> x | (Some x, Some y) \<Rightarrow> Some (max x y))"
proof -
  have inv: "agents_keyed (mc_agents mb)"
    using reachable_cluster_inv[OF assms(2)] by (simp add: cluster_inv_def)
  have a: "mc_agents ma' = (\<lambda>k. newer (mc_agents ma k) (mc_agents mb k))"
    by (simp add: assms(4) syncAgentsFromPeer_newer[OF inv assms(3)])
  have "cluster_inv ma'"
    unfolding assms(4) by (rule syncAgentsFromPeer_inv) (rule reachable_cluster_inv[OF assms(1)])
  then have inv': "agents_keyed (mc_agents ma')" by (simp add: cluster_inv_def)
  have b: "mc_agents mb' = (\<lambda>k. newer (mc_agents mb k) (mc_agents ma' k))"
    by (simp add: assms(6) syncAgentsFromPeer_newer[OF inv' assms(5)])
  have "dom (mc_agents ma') = dom (mc_agents ma) \<union> dom (mc_agents mb)"
  proof -
    have "newer l r = None \<longleftrightarrow> l = None \<and> r = None" for l r by (cases l; cases r) auto
    then show ?thesis by (auto simp: a dom_def)
  qed
  then show ?thesis
    by (auto simp: last_beat_def last_beat_newer a b split: option.split)
qed

theorem sync_converges_witness:
  "let mb = NewMasterCluster 5 ''m2'' ''backup'' ''m2:80'';
       ma' = fst (syncAgentsFromPeer (Some (map Some (ListAgents [] mb))) witness_cluster);
       mb' = fst (syncAgentsFromPeer (Some (map Some (ListAgents [''a1''] ma'))) mb)
   in last_beat ''a1'' mb' = Some 7"
proof -
  define mb where "mb = NewMasterCluster 5 ''m2'' ''backup'' ''m2:80''"
  define ma' where "ma' = fst (syncAgentsFromPeer (Some (map Some (ListAgents [] mb))) witness_cluster)"
  define mb' where "mb' = fst (syncAgentsFromPeer (Some (map Some (ListAgents [''a1''] ma'))) mb)"
  have mb: "cluster_reachable mb" "range_order (mc_agents mb) []"
    by (simp_all add: mb_def cluster_reachable.start) (simp add: NewMasterCluster_def)
  have ma': "mc_agents ma' = mc_agents witness_cluster"
    by (simp add: ma'_def ListAgents_def syncAgentsFromPeer_def)
  then have ord: "range_order (mc_agents ma') [''a1'']"
    using witness_cluster_order by simp
  have "last_beat ''a1'' mb' = last_beat ''a1'' ma'"
    using sync_converges[OF witness_cluster_reachable mb ma'_def ord mb'_def, of "''a1''"] by simp
  also have "\<dots> = Some 7"
    by (simp add: last_beat_def ma' witness_cluster_agents)
  finally show ?thesis by (simp add: Let_def mb_def ma'_def mb'_def)
qed

subsection \<open>The event log\<close>

text \<open>Over any sequence of event reports (of well-formed events) the log of a master
  holds the newest 10000 of all events ever reported, each stamped with the agent that reported
  it, oldest first; asking for recent events returns the newest ones, and all of them when the
  limit is not positive or too large.\<close>

theorem event_log_newest:
  assumes "length (mc_events mc) \<le> 10000"
  shows "mc_events (fold (\<lambda>es mc. fst (HandleAgentEvents agentID (map Some es) mc)) reports mc) =
           cap_tail 10000 (mc_events mc @ map (\<lambda>e. e\<lparr>ev_AgentID := agentID\<rparr>) (concat reports))
       \<and> GetRecentEvents limit mc =
           (if 0 < limit \<and> limit \<le> int (length (mc_events mc))
            then cap_tail (nat limit) (mc_events mc) else mc_events mc)"
  using assms event_log.contents_pushes[OF assms]
  by (auto simp: GetRecentEvents_def Let_def cap_tail_def)

definition sample_event :: agent_event where
  "sample_event = \<lparr>ev_AgentID = [], ev_RuleID = ''r1'', ev_RuleName = ''disk'', ev_Condition = [],
     ev_Action = ''df'', ev_Success = True, ev_Output = [], ev_Error = [], ev_Timestamp = 3\<rparr>"

theorem event_log_newest_witness:
  "mc_events (fold (\<lambda>es mc. fst (HandleAgentEvents ''a1'' (map Some es) mc)) [[sample_event]]
      (NewMasterCluster 5 ''m'' ''n'' ''a'')) = [sample_event\<lparr>ev_AgentID := ''a1''\<rparr>]"
  using event_log_newest[of "NewMasterCluster 5 ''m'' ''n'' ''a''" "''a1''" "[[sample_event]]" 0]
  by (simp add: NewMasterCluster_def)

end
