(* ===== verification/Owl_Json.thy ===== *)
theory Owl_Json
  imports Owl_Strings "HOL-Library.Monad_Syntax"
begin

text \<open>
  The part of encoding/json that the messages between masters and agents rely on. A JSON text is
  represented by the value it denotes: a number is \<open>JInt\<close> when it is written without fraction and
  exponent (only such literals decode into an integer field) and \<open>JReal\<close> otherwise, and a string
  in RFC 3339 form that a time field wrote is \<open>JTime\<close>. Decoding follows \<open>json.Unmarshal\<close>: a key
  matches a field up to the case of ASCII letters, the last match that is not null counts, an
  absent or null field keeps its zero value, a value of the wrong kind is an error. A nil slice or
  map and an empty one are not distinguished.
\<close>

datatype json =
    JNull
  | JBool bool
  | JInt int
  | JReal real
  | JStr string
  | JTime gotime
  | JArr "json list"
  | JObj "(string \<times> json) list"

type_synonym fields = "(string \<times> json) list"

subsection \<open>Fields\<close>

fun fld :: "string \<Rightarrow> fields \<Rightarrow> json option" where
  "fld n [] = None"
| "fld n ((k, j) # kvs) =
     (case fld n kvs of
        Some j' \<Rightarrow> Some j'
      | None \<Rightarrow> if ToLower k = n \<and> j \<noteq> JNull then Some j else None)"

definition field :: "'a \<Rightarrow> (json \<Rightarrow> 'a option) \<Rightarrow> string \<Rightarrow> fields \<Rightarrow> 'a option" where
  "field zero dec n kvs = (case fld n kvs of None \<Rightarrow> Some zero | Some j \<Rightarrow> dec j)"

text \<open>A struct decodes from an object; null leaves it as it is (zero).\<close>

fun struct_fields :: "json \<Rightarrow> fields option" where
  "struct_fields (JObj kvs) = Some kvs"
| "struct_fields JNull = Some []"
| "struct_fields _ = None"

fun dec_string :: "json \<Rightarrow> string option" where
  "dec_string (JStr s) = Some s"
| "dec_string JNull = Some []"
| "dec_string _ = None"

fun dec_bool :: "json \<Rightarrow> bool option" where
  "dec_bool (JBool b) = Some b"
| "dec_bool JNull = Some False"
| "dec_bool _ = None"

text \<open>\<open>int\<close>, \<open>int64\<close> and \<open>time.Duration\<close> hold 64 bits; a literal outside is an error.\<close>

fun dec_int :: "json \<Rightarrow> int option" where
  "dec_int (JInt i) = (if min_int64 \<le> i \<and> i \<le> max_int64 then Some i else None)"
| "dec_int JNull = Some 0"
| "dec_int _ = None"

fun dec_uint64 :: "json \<Rightarrow> nat option" where
  "dec_uint64 (JInt i) = (if 0 \<le> i \<and> i < 2 ^ 64 then Some (nat i) else None)"
| "dec_uint64 JNull = Some 0"
| "dec_uint64 _ = None"

fun dec_float :: "json \<Rightarrow> real option" where
  "dec_float (JInt i) = Some (of_int i)"
| "dec_float (JReal r) = Some r"
| "dec_float JNull = Some 0"
| "dec_float _ = None"

fun dec_time :: "json \<Rightarrow> gotime option" where
  "dec_time (JTime t) = Some t"
| "dec_time JNull = Some zero_time"
| "dec_time _ = None"

fun dec_all :: "('j \<Rightarrow> 'a option) \<Rightarrow> 'j list \<Rightarrow> 'a list option" where
  "dec_all dec [] = Some []"
| "dec_all dec (j # js) =
     (case dec j of None \<Rightarrow> None
      | Some a \<Rightarrow> (case dec_all dec js of None \<Rightarrow> None | Some as \<Rightarrow> Some (a # as)))"

fun dec_list :: "(json \<Rightarrow> 'a option) \<Rightarrow> json \<Rightarrow> 'a list option" where
  "dec_list dec (JArr js) = dec_all dec js"
| "dec_list dec JNull = Some []"
| "dec_list dec _ = None"

text \<open>A map keeps every key as it is written; a later entry replaces an earlier one.\<close>

fun dec_entries :: "(json \<Rightarrow> 'a option) \<Rightarrow> fields \<Rightarrow> (string \<rightharpoonup> 'a) option" where
  "dec_entries dec [] = Some Map.empty"
| "dec_entries dec ((k, j) # kvs) =
     (case dec j of None \<Rightarrow> None
      | Some a \<Rightarrow> (case dec_entries dec kvs of None \<Rightarrow> None
                  | Some m \<Rightarrow> Some (\<lambda>x. case m x of Some b \<Rightarrow> Some b
                                     | None \<Rightarrow> if x = k then Some a else None)))"

fun dec_map :: "(json \<Rightarrow> 'a option) \<Rightarrow> json \<Rightarrow> (string \<rightharpoonup> 'a) option" where
  "dec_map dec (JObj kvs) = dec_entries dec kvs"
| "dec_map dec JNull = Some Map.empty"
| "dec_map dec _ = None"

text \<open>A pointer to a struct decodes null as nil.\<close>

definition dec_ptr :: "(json \<Rightarrow> 'a option) \<Rightarrow> json \<Rightarrow> 'a option option" where
  "dec_ptr dec j = (if j = JNull then Some None else map_option Some (dec j))"

subsection \<open>Encoding\<close>

definition enc_map :: "('v \<Rightarrow> json) \<Rightarrow> string list \<Rightarrow> (string \<rightharpoonup> 'v) \<Rightarrow> json" where
  "enc_map enc ks m = JObj (map (\<lambda>k. (k, enc (the (m k)))) ks)"

definition enc_list :: "('v \<Rightarrow> json) \<Rightarrow> 'v list \<Rightarrow> json" where
  "enc_list enc vs = JArr (map enc vs)"

text \<open>\<open>omitempty\<close>\<close>

definition omit :: "bool \<Rightarrow> string \<Rightarrow> json \<Rightarrow> fields" where
  "omit e n j = (if e then [] else [(n, j)])"

definition int64_ok :: "int \<Rightarrow> bool" where
  "int64_ok i \<longleftrightarrow> min_int64 \<le> i \<and> i \<le> max_int64"

subsection \<open>Lemmas\<close>

lemma fld_append:
  "fld n (xs @ ys) = (case fld n ys of Some j \<Rightarrow> Some j | None \<Rightarrow> fld n xs)"
  by (induction xs) (auto split: option.splits)

lemma fld_omit [simp]:
  "fld n (omit e k j) = (if \<not> e \<and> ToLower k = n \<and> j \<noteq> JNull then Some j else None)"
  by (simp add: omit_def)

lemma dec_all_map: "(\<And>v. v \<in> set vs \<Longrightarrow> dec (enc v) = Some v) \<Longrightarrow> dec_all dec (map enc vs) = Some vs"
  by (induction vs) auto

lemma dec_list_enc [simp]:
  "(\<And>v. v \<in> set vs \<Longrightarrow> dec (enc v) = Some v) \<Longrightarrow> dec_list dec (enc_list enc vs) = Some vs"
  by (simp add: enc_list_def dec_all_map)

lemma dec_list_strings [simp]: "dec_list dec_string (enc_list JStr vs) = Some vs"
  by simp

lemma dec_entries_map:
  "distinct ks \<Longrightarrow> set ks \<subseteq> dom m \<Longrightarrow> (\<And>k v. m k = Some v \<Longrightarrow> dec (enc v) = Some v) \<Longrightarrow>
     dec_entries dec (map (\<lambda>k. (k, enc (the (m k)))) ks) = Some (m |` set ks)"
proof (induction ks)
  case (Cons k ks)
  then obtain v where "m k = Some v" by auto
  with Cons show ?case by (auto simp: restrict_map_def fun_eq_iff split: option.splits)
qed simp

lemma dec_map_enc:
  "range_order m ks \<Longrightarrow> (\<And>k v. m k = Some v \<Longrightarrow> dec (enc v) = Some v) \<Longrightarrow>
     dec_map dec (enc_map enc ks m) = Some m"
proof -
  assume "range_order m ks" and "\<And>k v. m k = Some v \<Longrightarrow> dec (enc v) = Some v"
  then have "dec_entries dec (map (\<lambda>k. (k, enc (the (m k)))) ks) = Some (m |` set ks)"
    by (intro dec_entries_map) (auto simp: range_order_def)
  with \<open>range_order m ks\<close> show ?thesis
    by (auto simp: enc_map_def range_order_def restrict_map_def fun_eq_iff domIff)
qed

lemma enc_nonnull [simp]: "enc_map enc ks m \<noteq> JNull" "enc_list enc vs \<noteq> JNull"
  by (simp_all add: enc_map_def enc_list_def)

lemma dec_ptr_enc [simp]: "enc v \<noteq> JNull \<Longrightarrow> dec (enc v) = Some v \<Longrightarrow> dec_ptr dec (enc v) = Some (Some v)"
  by (simp add: dec_ptr_def)

lemma dec_int_ok [simp]: "int64_ok i \<Longrightarrow> dec_int (JInt i) = Some i"
  by (simp add: int64_ok_def)

subsection \<open>A value that is stored as JSON and read into \<open>any\<close>\<close>

text \<open>Numbers come back as float64.\<close>

primrec json_back :: "json \<Rightarrow> json" where
  "json_back JNull = JNull"
| "json_back (JBool b) = JBool b"
| "json_back (JInt i) = JReal (of_int i)"
| "json_back (JReal r) = JReal r"
| "json_back (JStr s) = JStr s"
| "json_back (JTime t) = JTime t"
| "json_back (JArr vs) = JArr (map json_back vs)"
| "json_back (JObj kvs) = JObj (map (map_prod (\<lambda>k. k) json_back) kvs)"

lemma json_back_idem [simp]: "json_back (json_back v) = json_back v"
  by (induction v) (auto simp: prod.map_comp comp_def intro: prod.map_cong)

end
