(* ===== verification/Owl_Protocol.thy ===== *)
theory Owl_Protocol
  imports Owl_Json
begin

text \<open>
  \<open>internal/protocol/ws_message.go\<close>: the messages that masters and agents exchange over a
  WebSocket. Every payload is a record with the encoder its json tags give (\<open>enc_\<close>) and the decoder
  \<open>ParsePayload\<close> runs (\<open>dec_\<close>). The encoders of structs that hold maps take the order in which the
  keys are written. The main result is that a payload read back is the payload sent.
\<close>

subsection \<open>Message types\<close>

definition MsgTypeRegister :: string where "MsgTypeRegister = ''register''"
definition MsgTypeHeartbeat :: string where "MsgTypeHeartbeat = ''heartbeat''"
definition MsgTypeMetrics :: string where "MsgTypeMetrics = ''metrics''"
definition MsgTypeEvent :: string where "MsgTypeEvent = ''event''"
definition MsgTypeCommandResult :: string where "MsgTypeCommandResult = ''command_result''"
definition MsgTypeEnvironment :: string where "MsgTypeEnvironment = ''environment''"
definition MsgTypeCommand :: string where "MsgTypeCommand = ''command''"
definition MsgTypeConfigUpdate :: string where "MsgTypeConfigUpdate = ''config_update''"
definition MsgTypeRefreshEnv :: string where "MsgTypeRefreshEnv = ''refresh_env''"
definition MsgTypePing :: string where "MsgTypePing = ''ping''"
definition MsgTypePong :: string where "MsgTypePong = ''pong''"
definition MsgTypeAck :: string where "MsgTypeAck = ''ack''"
definition MsgTypeError :: string where "MsgTypeError = ''error''"

lemmas msg_types = MsgTypeRegister_def MsgTypeHeartbeat_def MsgTypeMetrics_def MsgTypeEvent_def
  MsgTypeCommandResult_def MsgTypeEnvironment_def MsgTypeCommand_def MsgTypeConfigUpdate_def
  MsgTypeRefreshEnv_def MsgTypePing_def MsgTypePong_def MsgTypeAck_def MsgTypeError_def

record ws_message =
  wm_ID :: string
  wm_Type :: string
  wm_Timestamp :: gotime
  wm_Payload :: "json option" \<comment> \<open>\<open>None\<close> is a nil payload\<close>

text \<open>Message identifiers are random; a new one is the argument \<open>uuid\<close>. Marshalling a payload of
  these types does not fail.\<close>

definition NewMessage :: "string \<Rightarrow> gotime \<Rightarrow> string \<Rightarrow> json option \<Rightarrow> ws_message" where
  "NewMessage uuid now msgType payload =
     \<lparr>wm_ID = uuid, wm_Type = msgType, wm_Timestamp = now, wm_Payload = payload\<rparr>"

definition NewMessageWithID :: "gotime \<Rightarrow> string \<Rightarrow> string \<Rightarrow> json option \<Rightarrow> ws_message" where
  "NewMessageWithID now i msgType payload = (NewMessage [] now msgType payload)\<lparr>wm_ID := i\<rparr>"

text \<open>A nil payload leaves the struct zero.\<close>

definition ParsePayload :: "'a \<Rightarrow> (json \<Rightarrow> 'a option) \<Rightarrow> ws_message \<Rightarrow> 'a option" where
  "ParsePayload zero dec m = (case wm_Payload m of None \<Rightarrow> Some zero | Some j \<Rightarrow> dec j)"

text \<open>A payload written as null decodes to the bytes of null,
      and parsing those leaves the struct zero
  like parsing a nil payload does; the model does not distinguish the two.\<close>

definition Encode :: "ws_message \<Rightarrow> json" where
  "Encode m = JObj ([(''id'', JStr (wm_ID m)), (''type'', JStr (wm_Type m)),
                     (''timestamp'', JTime (wm_Timestamp m))] @
                    (case wm_Payload m of None \<Rightarrow> [] | Some j \<Rightarrow> [(''payload'', j)]))"

definition dec_message :: "fields \<Rightarrow> ws_message option" where
  "dec_message o' = do {
     i \<leftarrow> field [] dec_string ''id'' o';
     t \<leftarrow> field [] dec_string ''type'' o';
     ts \<leftarrow> field zero_time dec_time ''timestamp'' o';
     p \<leftarrow> field None (\<lambda>j. Some (Some j)) ''payload'' o';
     Some \<lparr>wm_ID = i, wm_Type = t, wm_Timestamp = ts, wm_Payload = p\<rparr> }"

text \<open>Data that is not JSON is \<open>None\<close>.\<close>

definition DecodeMessage :: "json option \<Rightarrow> ws_message option" where
  "DecodeMessage data = do { j \<leftarrow> data; kvs \<leftarrow> struct_fields j; dec_message kvs }"

subsection \<open>Payloads\<close>

text \<open>The \<open>Settings\<close> of a configuration update,
      a map of untyped values that no code reads, are left
  out.\<close>

record site =
  ps_Domain :: string
  ps_Backend :: string
  ps_Root :: string

definition zero_SiteInfo :: site where
  "zero_SiteInfo = \<lparr>ps_Domain = [], ps_Backend = [], ps_Root = []\<rparr>"

definition dec_SiteInfo :: "json \<Rightarrow> site option" where
  "dec_SiteInfo j = do {
     o' \<leftarrow> struct_fields j;
     x0 \<leftarrow> field [] dec_string ''domain'' o';
     x1 \<leftarrow> field [] dec_string ''backend'' o';
     x2 \<leftarrow> field [] dec_string ''root'' o';
     Some \<lparr>ps_Domain = x0, ps_Backend = x1, ps_Root = x2\<rparr> }"

definition enc_SiteInfo :: "site \<Rightarrow> json" where
  "enc_SiteInfo p = JObj ([(''domain'', JStr (ps_Domain p))] @
     omit ((ps_Backend p) = []) ''backend'' (JStr (ps_Backend p)) @
     omit ((ps_Root p) = []) ''root'' (JStr (ps_Root p)))"

record host_info =
  ph_Hostname :: string
  ph_IP :: string

definition zero_HostInfo :: host_info where
  "zero_HostInfo = \<lparr>ph_Hostname = [], ph_IP = []\<rparr>"

definition dec_HostInfo :: "json \<Rightarrow> host_info option" where
  "dec_HostInfo j = do {
     o' \<leftarrow> struct_fields j;
     x0 \<leftarrow> field [] dec_string ''hostname'' o';
     x1 \<leftarrow> field [] dec_string ''ip'' o';
     Some \<lparr>ph_Hostname = x0, ph_IP = x1\<rparr> }"

definition enc_HostInfo :: "host_info \<Rightarrow> json" where
  "enc_HostInfo p = JObj ([(''hostname'', JStr (ph_Hostname p))] @
     omit ((ph_IP p) = []) ''ip'' (JStr (ph_IP p)))"

record database =
  pd_Type :: string
  pd_Host :: string
  pd_Port :: string
  pd_User :: string
  pd_Password :: string
  pd_Database :: string
  pd_Source :: string

definition zero_DatabaseInfo :: database where
  "zero_DatabaseInfo = \<lparr>pd_Type = [], pd_Host = [], pd_Port = [], pd_User = [],
      pd_Password = [], pd_Database = [], pd_Source = []\<rparr>"

definition dec_DatabaseInfo :: "json \<Rightarrow> database option" where
  "dec_DatabaseInfo j = do {
     o' \<leftarrow> struct_fields j;
     x0 \<leftarrow> field [] dec_string ''type'' o';
     x1 \<leftarrow> field [] dec_string ''host'' o';
     x2 \<leftarrow> field [] dec_string ''port'' o';
     x3 \<leftarrow> field [] dec_string ''user'' o';
     x4 \<leftarrow> field [] dec_string ''password'' o';
     x5 \<leftarrow> field [] dec_string ''database'' o';
     x6 \<leftarrow> field [] dec_string ''source'' o';
     Some \<lparr>pd_Type = x0, pd_Host = x1, pd_Port = x2, pd_User = x3, pd_Password = x4,
      pd_Database = x5, pd_Source = x6\<rparr> }"

definition enc_DatabaseInfo :: "database \<Rightarrow> json" where
  "enc_DatabaseInfo p = JObj ([(''type'', JStr (pd_Type p)), (''host'', JStr (pd_Host p)),
      (''port'', JStr (pd_Port p)), (''user'', JStr (pd_User p)), (''password'',
      JStr (pd_Password p))] @
     omit ((pd_Database p) = []) ''database'' (JStr (pd_Database p)) @
     [(''source'', JStr (pd_Source p))])"

record proxy =
  pp_Type :: string
  pp_ConfigFile :: string
  pp_Sites :: "site list"
  pp_Source :: string

definition zero_ProxyInfo :: proxy where
  "zero_ProxyInfo = \<lparr>pp_Type = [], pp_ConfigFile = [], pp_Sites = [], pp_Source = []\<rparr>"

definition dec_ProxyInfo :: "json \<Rightarrow> proxy option" where
  "dec_ProxyInfo j = do {
     o' \<leftarrow> struct_fields j;
     x0 \<leftarrow> field [] dec_string ''type'' o';
     x1 \<leftarrow> field [] dec_string ''config_file'' o';
     x2 \<leftarrow> field [] (dec_list dec_SiteInfo) ''sites'' o';
     x3 \<leftarrow> field [] dec_string ''source'' o';
     Some \<lparr>pp_Type = x0, pp_ConfigFile = x1, pp_Sites = x2, pp_Source = x3\<rparr> }"

definition enc_ProxyInfo :: "proxy \<Rightarrow> json" where
  "enc_ProxyInfo p = JObj ([(''type'', JStr (pp_Type p)), (''config_file'',
      JStr (pp_ConfigFile p))] @
     omit ((pp_Sites p) = []) ''sites'' (enc_list enc_SiteInfo (pp_Sites p)) @
     [(''source'', JStr (pp_Source p))])"

record container =
  pk_Image :: string
  pk_Status :: string
  pk_Env :: "string \<rightharpoonup> string"
  pk_Ports :: "string list"
  pk_Network :: string

definition zero_ContainerInfo :: container where
  "zero_ContainerInfo = \<lparr>pk_Image = [], pk_Status = [], pk_Env = Map.empty, pk_Ports = [],
      pk_Network = []\<rparr>"

definition dec_ContainerInfo :: "json \<Rightarrow> container option" where
  "dec_ContainerInfo j = do {
     o' \<leftarrow> struct_fields j;
     x0 \<leftarrow> field [] dec_string ''image'' o';
     x1 \<leftarrow> field [] dec_string ''status'' o';
     x2 \<leftarrow> field Map.empty (dec_map dec_string) ''env'' o';
     x3 \<leftarrow> field [] (dec_list dec_string) ''ports'' o';
     x4 \<leftarrow> field [] dec_string ''network'' o';
     Some \<lparr>pk_Image = x0, pk_Status = x1, pk_Env = x2, pk_Ports = x3,
      pk_Network = x4\<rparr> }"

definition enc_ContainerInfo :: "string list \<Rightarrow> container \<Rightarrow> json" where
  "enc_ContainerInfo ks p = JObj ([(''image'', JStr (pk_Image p)), (''status'',
      JStr (pk_Status p))] @
     omit (ks = []) ''env'' (enc_map JStr ks (pk_Env p)) @
     omit ((pk_Ports p) = []) ''ports'' (enc_list JStr (pk_Ports p)) @
     omit ((pk_Network p) = []) ''network'' (JStr (pk_Network p)))"

record register_payload =
  rp_AgentID :: string
  rp_Name :: string
  rp_Hostname :: string
  rp_IP :: string
  rp_Tags :: "string list"
  rp_Labels :: "string \<rightharpoonup> string"
  rp_Version :: string
  rp_StartTime :: gotime

definition zero_RegisterPayload :: register_payload where
  "zero_RegisterPayload = \<lparr>rp_AgentID = [], rp_Name = [], rp_Hostname = [], rp_IP = [],
      rp_Tags = [], rp_Labels = Map.empty, rp_Version = [], rp_StartTime = zero_time\<rparr>"

definition dec_RegisterPayload :: "json \<Rightarrow> register_payload option" where
  "dec_RegisterPayload j = do {
     o' \<leftarrow> struct_fields j;
     x0 \<leftarrow> field [] dec_string ''agent_id'' o';
     x1 \<leftarrow> field [] dec_string ''name'' o';
     x2 \<leftarrow> field [] dec_string ''hostname'' o';
     x3 \<leftarrow> field [] dec_string ''ip'' o';
     x4 \<leftarrow> field [] (dec_list dec_string) ''tags'' o';
     x5 \<leftarrow> field Map.empty (dec_map dec_string) ''labels'' o';
     x6 \<leftarrow> field [] dec_string ''version'' o';
     x7 \<leftarrow> field zero_time dec_time ''start_time'' o';
     Some \<lparr>rp_AgentID = x0, rp_Name = x1, rp_Hostname = x2, rp_IP = x3, rp_Tags = x4,
      rp_Labels = x5, rp_Version = x6, rp_StartTime = x7\<rparr> }"

definition enc_RegisterPayload :: "string list \<Rightarrow> register_payload \<Rightarrow> json" where
  "enc_RegisterPayload ks p = JObj ([(''agent_id'', JStr (rp_AgentID p)), (''name'',
      JStr (rp_Name p)), (''hostname'', JStr (rp_Hostname p)), (''ip'', JStr (rp_IP p)),
      (''tags'', enc_list JStr (rp_Tags p)), (''labels'', enc_map JStr ks (rp_Labels p)),
      (''version'', JStr (rp_Version p)), (''start_time'', JTime (rp_StartTime p))])"

record heartbeat_payload =
  hb_AgentID :: string
  hb_Status :: string

definition zero_HeartbeatPayload :: heartbeat_payload where
  "zero_HeartbeatPayload = \<lparr>hb_AgentID = [], hb_Status = []\<rparr>"

definition dec_HeartbeatPayload :: "json \<Rightarrow> heartbeat_payload option" where
  "dec_HeartbeatPayload j = do {
     o' \<leftarrow> struct_fields j;
     x0 \<leftarrow> field [] dec_string ''agent_id'' o';
     x1 \<leftarrow> field [] dec_string ''status'' o';
     Some \<lparr>hb_AgentID = x0, hb_Status = x1\<rparr> }"

definition enc_HeartbeatPayload :: "heartbeat_payload \<Rightarrow> json" where
  "enc_HeartbeatPayload p = JObj ([(''agent_id'', JStr (hb_AgentID p)), (''status'',
      JStr (hb_Status p))])"

record metrics_payload =
  mt_AgentID :: string
  mt_CPUUsage :: real
  mt_MemoryUsage :: real
  mt_MemoryTotal :: nat
  mt_MemoryFree :: nat
  mt_DiskUsage :: real
  mt_DiskTotal :: nat
  mt_DiskFree :: nat
  mt_LoadAvg1 :: real
  mt_LoadAvg5 :: real
  mt_LoadAvg15 :: real
  mt_Uptime :: int

definition zero_MetricsPayload :: metrics_payload where
  "zero_MetricsPayload = \<lparr>mt_AgentID = [], mt_CPUUsage = 0, mt_MemoryUsage = 0,
      mt_MemoryTotal = 0, mt_MemoryFree = 0, mt_DiskUsage = 0, mt_DiskTotal = 0, mt_DiskFree = 0,
      mt_LoadAvg1 = 0, mt_LoadAvg5 = 0, mt_LoadAvg15 = 0, mt_Uptime = 0\<rparr>"

definition dec_MetricsPayload :: "json \<Rightarrow> metrics_payload option" where
  "dec_MetricsPayload j = do {
     o' \<leftarrow> struct_fields j;
     x0 \<leftarrow> field [] dec_string ''agent_id'' o';
     x1 \<leftarrow> field 0 dec_float ''cpu_usage'' o';
     x2 \<leftarrow> field 0 dec_float ''memory_usage'' o';
     x3 \<leftarrow> field 0 dec_uint64 ''memory_total'' o';
     x4 \<leftarrow> field 0 dec_uint64 ''memory_free'' o';
     x5 \<leftarrow> field 0 dec_float ''disk_usage'' o';
     x6 \<leftarrow> field 0 dec_uint64 ''disk_total'' o';
     x7 \<leftarrow> field 0 dec_uint64 ''disk_free'' o';
     x8 \<leftarrow> field 0 dec_float ''load_avg_1'' o';
     x9 \<leftarrow> field 0 dec_float ''load_avg_5'' o';
     x10 \<leftarrow> field 0 dec_float ''load_avg_15'' o';
     x11 \<leftarrow> field 0 dec_int ''uptime'' o';
     Some \<lparr>mt_AgentID = x0, mt_CPUUsage = x1, mt_MemoryUsage = x2, mt_MemoryTotal = x3,
      mt_MemoryFree = x4, mt_DiskUsage = x5, mt_DiskTotal = x6, mt_DiskFree = x7,
      mt_LoadAvg1 = x8, mt_LoadAvg5 = x9, mt_LoadAvg15 = x10, mt_Uptime = x11\<rparr> }"

definition enc_MetricsPayload :: "metrics_payload \<Rightarrow> json" where
  "enc_MetricsPayload p = JObj ([(''agent_id'', JStr (mt_AgentID p)), (''cpu_usage'',
      JReal (mt_CPUUsage p)), (''memory_usage'', JReal (mt_MemoryUsage p)), (''memory_total'',
      JInt (int (mt_MemoryTotal p))), (''memory_free'', JInt (int (mt_MemoryFree p))),
      (''disk_usage'', JReal (mt_DiskUsage p)), (''disk_total'', JInt (int (mt_DiskTotal p))),
      (''disk_free'', JInt (int (mt_DiskFree p))), (''load_avg_1'', JReal (mt_LoadAvg1 p)),
      (''load_avg_5'', JReal (mt_LoadAvg5 p)), (''load_avg_15'', JReal (mt_LoadAvg15 p)),
      (''uptime'', JInt (mt_Uptime p))])"

record event_payload =
  ep_AgentID :: string
  ep_RuleID :: string
  ep_RuleName :: string
  ep_Condition :: string
  ep_Action :: string
  ep_Success :: bool
  ep_Output :: string
  ep_Error :: string
  ep_Timestamp :: gotime

definition zero_EventPayload :: event_payload where
  "zero_EventPayload = \<lparr>ep_AgentID = [], ep_RuleID = [], ep_RuleName = [],
      ep_Condition = [], ep_Action = [], ep_Success = False, ep_Output = [], ep_Error = [],
      ep_Timestamp = zero_time\<rparr>"

definition dec_EventPayload :: "json \<Rightarrow> event_payload option" where
  "dec_EventPayload j = do {
     o' \<leftarrow> struct_fields j;
     x0 \<leftarrow> field [] dec_string ''agent_id'' o';
     x1 \<leftarrow> field [] dec_string ''rule_id'' o';
     x2 \<leftarrow> field [] dec_string ''rule_name'' o';
     x3 \<leftarrow> field [] dec_string ''condition'' o';
     x4 \<leftarrow> field [] dec_string ''action'' o';
     x5 \<leftarrow> field False dec_bool ''success'' o';
     x6 \<leftarrow> field [] dec_string ''output'' o';
     x7 \<leftarrow> field [] dec_string ''error'' o';
     x8 \<leftarrow> field zero_time dec_time ''timestamp'' o';
     Some \<lparr>ep_AgentID = x0, ep_RuleID = x1, ep_RuleName = x2, ep_Condition = x3,
      ep_Action = x4, ep_Success = x5, ep_Output = x6, ep_Error = x7, ep_Timestamp = x8\<rparr> }"

definition enc_EventPayload :: "event_payload \<Rightarrow> json" where
  "enc_EventPayload p = JObj ([(''agent_id'', JStr (ep_AgentID p)), (''rule_id'',
      JStr (ep_RuleID p)), (''rule_name'', JStr (ep_RuleName p)), (''condition'',
      JStr (ep_Condition p)), (''action'', JStr (ep_Action p)), (''success'',
      JBool (ep_Success p)), (''output'', JStr (ep_Output p))] @
     omit ((ep_Error p) = []) ''error'' (JStr (ep_Error p)) @
     [(''timestamp'', JTime (ep_Timestamp p))])"

record command_payload =
  cp_CommandID :: string
  cp_Type :: string
  cp_Payload :: string
  cp_Timeout :: duration
  cp_Priority :: int

definition zero_CommandPayload :: command_payload where
  "zero_CommandPayload = \<lparr>cp_CommandID = [], cp_Type = [], cp_Payload = [],
      cp_Timeout = 0, cp_Priority = 0\<rparr>"

definition dec_CommandPayload :: "json \<Rightarrow> command_payload option" where
  "dec_CommandPayload j = do {
     o' \<leftarrow> struct_fields j;
     x0 \<leftarrow> field [] dec_string ''command_id'' o';
     x1 \<leftarrow> field [] dec_string ''type'' o';
     x2 \<leftarrow> field [] dec_string ''payload'' o';
     x3 \<leftarrow> field 0 dec_int ''timeout'' o';
     x4 \<leftarrow> field 0 dec_int ''priority'' o';
     Some \<lparr>cp_CommandID = x0, cp_Type = x1, cp_Payload = x2, cp_Timeout = x3,
      cp_Priority = x4\<rparr> }"

definition enc_CommandPayload :: "command_payload \<Rightarrow> json" where
  "enc_CommandPayload p = JObj ([(''command_id'', JStr (cp_CommandID p)), (''type'',
      JStr (cp_Type p)), (''payload'', JStr (cp_Payload p)), (''timeout'', JInt (cp_Timeout p)),
      (''priority'', JInt (cp_Priority p))])"

record command_result_payload =
  rs_CommandID :: string
  rs_AgentID :: string
  rs_Success :: bool
  rs_Output :: string
  rs_Error :: string
  rs_ExitCode :: int
  rs_Duration :: duration

definition zero_CommandResultPayload :: command_result_payload where
  "zero_CommandResultPayload = \<lparr>rs_CommandID = [], rs_AgentID = [], rs_Success = False,
      rs_Output = [], rs_Error = [], rs_ExitCode = 0, rs_Duration = 0\<rparr>"

definition dec_CommandResultPayload :: "json \<Rightarrow> command_result_payload option" where
  "dec_CommandResultPayload j = do {
     o' \<leftarrow> struct_fields j;
     x0 \<leftarrow> field [] dec_string ''command_id'' o';
     x1 \<leftarrow> field [] dec_string ''agent_id'' o';
     x2 \<leftarrow> field False dec_bool ''success'' o';
     x3 \<leftarrow> field [] dec_string ''output'' o';
     x4 \<leftarrow> field [] dec_string ''error'' o';
     x5 \<leftarrow> field 0 dec_int ''exit_code'' o';
     x6 \<leftarrow> field 0 dec_int ''duration'' o';
     Some \<lparr>rs_CommandID = x0, rs_AgentID = x1, rs_Success = x2, rs_Output = x3,
      rs_Error = x4, rs_ExitCode = x5, rs_Duration = x6\<rparr> }"

definition enc_CommandResultPayload :: "command_result_payload \<Rightarrow> json" where
  "enc_CommandResultPayload p = JObj ([(''command_id'', JStr (rs_CommandID p)), (''agent_id'',
      JStr (rs_AgentID p)), (''success'', JBool (rs_Success p)), (''output'', JStr (rs_Output p))] @
     omit ((rs_Error p) = []) ''error'' (JStr (rs_Error p)) @
     [(''exit_code'', JInt (rs_ExitCode p)), (''duration'', JInt (rs_Duration p))])"

record rule_condition_data =
  rc_Type :: string
  rc_Metric :: string
  rc_Operator :: string
  rc_Threshold :: real
  rc_Duration :: duration

definition zero_RuleCondition :: rule_condition_data where
  "zero_RuleCondition = \<lparr>rc_Type = [], rc_Metric = [], rc_Operator = [], rc_Threshold = 0,
      rc_Duration = 0\<rparr>"

definition dec_RuleCondition :: "json \<Rightarrow> rule_condition_data option" where
  "dec_RuleCondition j = do {
     o' \<leftarrow> struct_fields j;
     x0 \<leftarrow> field [] dec_string ''type'' o';
     x1 \<leftarrow> field [] dec_string ''metric'' o';
     x2 \<leftarrow> field [] dec_string ''operator'' o';
     x3 \<leftarrow> field 0 dec_float ''threshold'' o';
     x4 \<leftarrow> field 0 dec_int ''duration'' o';
     Some \<lparr>rc_Type = x0, rc_Metric = x1, rc_Operator = x2, rc_Threshold = x3,
      rc_Duration = x4\<rparr> }"

definition enc_RuleCondition :: "rule_condition_data \<Rightarrow> json" where
  "enc_RuleCondition p = JObj ([(''type'', JStr (rc_Type p)), (''metric'', JStr (rc_Metric p)),
      (''operator'', JStr (rc_Operator p)), (''threshold'', JReal (rc_Threshold p)),
      (''duration'', JInt (rc_Duration p))])"

record rule_action_data =
  ra_Type :: string
  ra_Command :: string
  ra_Timeout :: duration

definition zero_RuleAction :: rule_action_data where
  "zero_RuleAction = \<lparr>ra_Type = [], ra_Command = [], ra_Timeout = 0\<rparr>"

definition dec_RuleAction :: "json \<Rightarrow> rule_action_data option" where
  "dec_RuleAction j = do {
     o' \<leftarrow> struct_fields j;
     x0 \<leftarrow> field [] dec_string ''type'' o';
     x1 \<leftarrow> field [] dec_string ''command'' o';
     x2 \<leftarrow> field 0 dec_int ''timeout'' o';
     Some \<lparr>ra_Type = x0, ra_Command = x1, ra_Timeout = x2\<rparr> }"

definition enc_RuleAction :: "rule_action_data \<Rightarrow> json" where
  "enc_RuleAction p = JObj ([(''type'', JStr (ra_Type p)), (''command'', JStr (ra_Command p)),
      (''timeout'', JInt (ra_Timeout p))])"

record auto_rule_data =
  rd_ID :: string
  rd_Name :: string
  rd_Description :: string
  rd_Enabled :: bool
  rd_Condition :: rule_condition_data
  rd_Actions :: "rule_action_data list"
  rd_Cooldown :: duration
  rd_MaxRetries :: int

definition zero_AutoRuleData :: auto_rule_data where
  "zero_AutoRuleData = \<lparr>rd_ID = [], rd_Name = [], rd_Description = [], rd_Enabled = False,
      rd_Condition = zero_RuleCondition, rd_Actions = [], rd_Cooldown = 0,
      rd_MaxRetries = 0\<rparr>"

definition dec_AutoRuleData :: "json \<Rightarrow> auto_rule_data option" where
  "dec_AutoRuleData j = do {
     o' \<leftarrow> struct_fields j;
     x0 \<leftarrow> field [] dec_string ''id'' o';
     x1 \<leftarrow> field [] dec_string ''name'' o';
     x2 \<leftarrow> field [] dec_string ''description'' o';
     x3 \<leftarrow> field False dec_bool ''enabled'' o';
     x4 \<leftarrow> field zero_RuleCondition dec_RuleCondition ''condition'' o';
     x5 \<leftarrow> field [] (dec_list dec_RuleAction) ''actions'' o';
     x6 \<leftarrow> field 0 dec_int ''cooldown'' o';
     x7 \<leftarrow> field 0 dec_int ''max_retries'' o';
     Some \<lparr>rd_ID = x0, rd_Name = x1, rd_Description = x2, rd_Enabled = x3,
      rd_Condition = x4, rd_Actions = x5, rd_Cooldown = x6, rd_MaxRetries = x7\<rparr> }"

definition enc_AutoRuleData :: "auto_rule_data \<Rightarrow> json" where
  "enc_AutoRuleData p = JObj ([(''id'', JStr (rd_ID p)), (''name'', JStr (rd_Name p)),
      (''description'', JStr (rd_Description p)), (''enabled'', JBool (rd_Enabled p)),
      (''condition'', enc_RuleCondition (rd_Condition p)), (''actions'',
      enc_list enc_RuleAction (rd_Actions p)), (''cooldown'', JInt (rd_Cooldown p)),
      (''max_retries'', JInt (rd_MaxRetries p))])"

record config_update_payload =
  cu_Version :: string
  cu_AutoRules :: "auto_rule_data list"

definition zero_ConfigUpdatePayload :: config_update_payload where
  "zero_ConfigUpdatePayload = \<lparr>cu_Version = [], cu_AutoRules = []\<rparr>"

definition dec_ConfigUpdatePayload :: "json \<Rightarrow> config_update_payload option" where
  "dec_ConfigUpdatePayload j = do {
     o' \<leftarrow> struct_fields j;
     x0 \<leftarrow> field [] dec_string ''version'' o';
     x1 \<leftarrow> field [] (dec_list dec_AutoRuleData) ''auto_rules'' o';
     Some \<lparr>cu_Version = x0, cu_AutoRules = x1\<rparr> }"

definition enc_ConfigUpdatePayload :: "config_update_payload \<Rightarrow> json" where
  "enc_ConfigUpdatePayload p = JObj ([(''version'', JStr (cu_Version p))] @
     omit ((cu_AutoRules p) = []) ''auto_rules'' (enc_list enc_AutoRuleData (cu_AutoRules p)))"

record ack_payload =
  ak_MessageID :: string
  ak_Success :: bool
  ak_Error :: string

definition zero_AckPayload :: ack_payload where
  "zero_AckPayload = \<lparr>ak_MessageID = [], ak_Success = False, ak_Error = []\<rparr>"

definition dec_AckPayload :: "json \<Rightarrow> ack_payload option" where
  "dec_AckPayload j = do {
     o' \<leftarrow> struct_fields j;
     x0 \<leftarrow> field [] dec_string ''message_id'' o';
     x1 \<leftarrow> field False dec_bool ''success'' o';
     x2 \<leftarrow> field [] dec_string ''error'' o';
     Some \<lparr>ak_MessageID = x0, ak_Success = x1, ak_Error = x2\<rparr> }"

definition enc_AckPayload :: "ack_payload \<Rightarrow> json" where
  "enc_AckPayload p = JObj ([(''message_id'', JStr (ak_MessageID p)), (''success'',
      JBool (ak_Success p))] @
     omit ((ak_Error p) = []) ''error'' (JStr (ak_Error p)))"

text \<open>\<open>EnvironmentPayload\<close>: the maps hold pointers,
      a null entry is nil (\<open>None\<close>).\<close>

record environment_payload =
  en_AgentID :: string
  en_UpdatedAt :: string
  en_Host :: host_info
  en_Containers :: "string \<rightharpoonup> container option"
  en_Databases :: "string \<rightharpoonup> database option"
  en_Proxies :: "string \<rightharpoonup> proxy option"

definition zero_EnvironmentPayload :: environment_payload where
  "zero_EnvironmentPayload = \<lparr>en_AgentID = [], en_UpdatedAt = [], en_Host = zero_HostInfo,
     en_Containers = Map.empty, en_Databases = Map.empty, en_Proxies = Map.empty\<rparr>"

definition dec_EnvironmentPayload :: "json \<Rightarrow> environment_payload option" where
  "dec_EnvironmentPayload j = do {
     o' \<leftarrow> struct_fields j;
     x0 \<leftarrow> field [] dec_string ''agent_id'' o';
     x1 \<leftarrow> field [] dec_string ''updated_at'' o';
     x2 \<leftarrow> field zero_HostInfo dec_HostInfo ''host'' o';
     x3 \<leftarrow> field Map.empty (dec_map (dec_ptr dec_ContainerInfo)) ''containers'' o';
     x4 \<leftarrow> field Map.empty (dec_map (dec_ptr dec_DatabaseInfo)) ''databases'' o';
     x5 \<leftarrow> field Map.empty (dec_map (dec_ptr dec_ProxyInfo)) ''proxies'' o';
     Some \<lparr>en_AgentID = x0, en_UpdatedAt = x1, en_Host = x2, en_Containers = x3,
           en_Databases = x4, en_Proxies = x5\<rparr> }"

definition enc_ptr :: "('a \<Rightarrow> json) \<Rightarrow> 'a option \<Rightarrow> json" where
  "enc_ptr enc p = (case p of None \<Rightarrow> JNull | Some v \<Rightarrow> enc v)"

text \<open>\<open>kc\<close>,
      \<open>kd\<close> and \<open>kp\<close> are the keys of the three maps in writing order,
      \<open>ke\<close> gives those of the
  variables of a container.\<close>

definition enc_EnvironmentPayload ::
    "string list \<Rightarrow> string list \<Rightarrow> string list \<Rightarrow> (container \<Rightarrow> string list) \<Rightarrow> environment_payload \<Rightarrow> json" where
  "enc_EnvironmentPayload kc kd kp ke p = JObj (
     [(''agent_id'', JStr (en_AgentID p)), (''updated_at'', JStr (en_UpdatedAt p)),
      (''host'', enc_HostInfo (en_Host p))] @
     omit (kc = []) ''containers''
       (enc_map (enc_ptr (\<lambda>c. enc_ContainerInfo (ke c) c)) kc (en_Containers p)) @
     omit (kd = []) ''databases'' (enc_map (enc_ptr enc_DatabaseInfo) kd (en_Databases p)) @
     omit (kp = []) ''proxies'' (enc_map (enc_ptr enc_ProxyInfo) kp (en_Proxies p)))"

end
