(* ===== verification/Owl_Hub.thy ===== *)
theory Owl_Hub
  imports Owl_Protocol Owl_Interfaces
begin

text \<open>
  \<open>internal/cluster/ws_hub.go\<close>: the WebSocket connections of a master. Connections are shared by
  pointer between the hub and their two goroutines, so they live in a store and the hub's maps and
  channels hold their addresses. A buffered channel is the list of what it holds. The three ready
  cases of the select in \<open>Run\<close> are three operations. Callbacks are returned, in starting order.
\<close>

record ws_conn =
  wc_AgentID :: string
  wc_SendCh :: "ws_message list"
  wc_LastSeen :: gotime
  wc_closed :: bool \<comment> \<open>the flag, set together with closing the channel\<close>

type_synonym conn_addr = nat

datatype hub_callback = OnConnect string | OnDisconnect string

record ws_hub =
  wh_conns :: "conn_addr \<rightharpoonup> ws_conn" \<comment> \<open>the store of connections\<close>
  wh_clients :: "string \<rightharpoonup> conn_addr"
  wh_register :: "conn_addr list"
  wh_unregister :: "conn_addr list"
  wh_broadcast :: "ws_message list"
  wh_onConnect :: bool
  wh_onDisconnect :: bool
  wh_onMessage :: bool

definition NewWSHub :: ws_hub where
  "NewWSHub = \<lparr>wh_conns = Map.empty, wh_clients = Map.empty, wh_register = [], wh_unregister = [],
     wh_broadcast = [], wh_onConnect = False, wh_onDisconnect = False, wh_onMessage = False\<rparr>"

definition sendch_cap :: nat where "sendch_cap = 256"
definition hubch_cap :: nat where "hubch_cap = 100"

subsection \<open>Connections\<close>

definition upd_conn :: "conn_addr \<Rightarrow> (ws_conn \<Rightarrow> ws_conn) \<Rightarrow> ws_hub \<Rightarrow> ws_hub" where
  "upd_conn c f h = h\<lparr>wh_conns := (wh_conns h)(c := map_option f (wh_conns h c))\<rparr>"

definition NewWSClientConn :: "gotime \<Rightarrow> string \<Rightarrow> ws_conn" where
  "NewWSClientConn now agentID =
     \<lparr>wc_AgentID = agentID, wc_SendCh = [], wc_LastSeen = now, wc_closed = False\<rparr>"

definition conn_close :: "ws_conn \<Rightarrow> ws_conn" where
  "conn_close cn = (if wc_closed cn then cn else cn\<lparr>wc_closed := True\<rparr>)"

definition Close :: "conn_addr \<Rightarrow> ws_hub \<Rightarrow> ws_hub" where
  "Close c h = upd_conn c conn_close h"

definition IsClosed :: "conn_addr \<Rightarrow> ws_hub \<Rightarrow> bool" where
  "IsClosed c h = (case wh_conns h c of None \<Rightarrow> False | Some cn \<Rightarrow> wc_closed cn)"

definition UpdateLastSeen :: "gotime \<Rightarrow> conn_addr \<Rightarrow> ws_hub \<Rightarrow> ws_hub" where
  "UpdateLastSeen now c h = upd_conn c (\<lambda>cn. cn\<lparr>wc_LastSeen := now\<rparr>) h"

text \<open>
  The non-blocking send \<open>select { case ch <- msg: ... default: ... }\<close>: on a closed channel it
  panics, on a full one it takes the default branch.
\<close>

definition try_send :: "ws_message \<Rightarrow> ws_conn \<Rightarrow> (ws_conn \<times> bool) go" where
  "try_send msg cn =
     (if wc_closed cn then Inl ClosedChannel
      else if length (wc_SendCh cn) < sendch_cap
           then Inr (cn\<lparr>wc_SendCh := wc_SendCh cn @ [msg]\<rparr>, True)
           else Inr (cn, False))"

definition send_to :: "conn_addr \<Rightarrow> ws_message \<Rightarrow> ws_hub \<Rightarrow> (ws_hub \<times> bool) go" where
  "send_to c msg h =
     (case wh_conns h c of
        None \<Rightarrow> Inl NilDeref
      | Some cn \<Rightarrow> (case try_send msg cn of
                     Inl p \<Rightarrow> Inl p
                   | Inr (cn', sent) \<Rightarrow> Inr (h\<lparr>wh_conns := (wh_conns h)(c \<mapsto> cn')\<rparr>, sent)))"

text \<open>\<open>Send\<close> looks at the flag first. (Between its check and its send another goroutine may close
  the channel; this is the run without such an interruption.)\<close>

definition Send :: "conn_addr \<Rightarrow> ws_message \<Rightarrow> ws_hub \<Rightarrow> (ws_hub \<times> bool) go" where
  "Send c msg h = (if IsClosed c h then Inr (h, False) else send_to c msg h)"

subsection \<open>The main loop\<close>

definition run_register :: "ws_hub \<Rightarrow> ws_hub \<times> hub_callback list" where
  "run_register h =
     (case wh_register h of
        [] \<Rightarrow> (h, [])
      | c # rest \<Rightarrow>
          let h0 = h\<lparr>wh_register := rest\<rparr> in
          (case wh_conns h0 c of
             None \<Rightarrow> (h0, [])
           | Some cn \<Rightarrow>
               let h1 = (case wh_clients h0 (wc_AgentID cn) of None \<Rightarrow> h0 | Some old \<Rightarrow> Close old h0);
                   h2 = h1\<lparr>wh_clients := (wh_clients h1)(wc_AgentID cn \<mapsto> c)\<rparr>
               in (h2, if wh_onConnect h then [OnConnect (wc_AgentID cn)] else [])))"

definition run_unregister :: "ws_hub \<Rightarrow> ws_hub \<times> hub_callback list" where
  "run_unregister h =
     (case wh_unregister h of
        [] \<Rightarrow> (h, [])
      | c # rest \<Rightarrow>
          let h0 = h\<lparr>wh_unregister := rest\<rparr> in
          (case wh_conns h0 c of
             None \<Rightarrow> (h0, [])
           | Some cn \<Rightarrow>
               let h1 = (if wh_clients h0 (wc_AgentID cn) = Some c
                         then Close c (h0\<lparr>wh_clients := (wh_clients h0)(wc_AgentID cn := None)\<rparr>)
                         else h0)
               in (h1, if wh_onDisconnect h then [OnDisconnect (wc_AgentID cn)] else [])))"

fun send_all :: "ws_message \<Rightarrow> conn_addr list \<Rightarrow> ws_hub \<Rightarrow> ws_hub \<times> go_panic option" where
  "send_all msg [] h = (h, None)"
| "send_all msg (c # cs) h =
     (case send_to c msg h of
        Inl p \<Rightarrow> (h, Some p)
      | Inr (h', sent) \<Rightarrow> send_all msg cs h')"

text \<open>\<open>ks\<close> is the order in which the range visits the clients.\<close>

definition run_broadcast :: "string list \<Rightarrow> ws_hub \<Rightarrow> ws_hub \<times> go_panic option" where
  "run_broadcast ks h =
     (case wh_broadcast h of
        [] \<Rightarrow> (h, None)
      | msg # rest \<Rightarrow>
          let h0 = h\<lparr>wh_broadcast := rest\<rparr> in send_all msg (range_values (wh_clients h0) ks) h0)"

text \<open>Sending to one of the hub's channels blocks (\<open>None\<close>) while it holds 100 elements.\<close>

definition Register :: "conn_addr \<Rightarrow> ws_hub \<Rightarrow> ws_hub option" where
  "Register c h = (if length (wh_register h) < hubch_cap
                   then Some (h\<lparr>wh_register := wh_register h @ [c]\<rparr>) else None)"

definition Unregister :: "conn_addr \<Rightarrow> ws_hub \<Rightarrow> ws_hub option" where
  "Unregister c h = (if length (wh_unregister h) < hubch_cap
                     then Some (h\<lparr>wh_unregister := wh_unregister h @ [c]\<rparr>) else None)"

definition Broadcast :: "ws_message \<Rightarrow> ws_hub \<Rightarrow> ws_hub option" where
  "Broadcast msg h = (if length (wh_broadcast h) < hubch_cap
                      then Some (h\<lparr>wh_broadcast := wh_broadcast h @ [msg]\<rparr>) else None)"

subsection \<open>Sending and queries\<close>

definition SendToAgent :: "string \<Rightarrow> ws_message \<Rightarrow> ws_hub \<Rightarrow> (ws_hub \<times> bool) go" where
  "SendToAgent agentID msg h =
     (case wh_clients h agentID of None \<Rightarrow> Inr (h, False) | Some c \<Rightarrow> send_to c msg h)"

definition GetClient :: "string \<Rightarrow> ws_hub \<Rightarrow> conn_addr option" where
  "GetClient agentID h = wh_clients h agentID"

definition GetConnectedAgents :: "string list \<Rightarrow> ws_hub \<Rightarrow> string list" where
  "GetConnectedAgents ks h = ks"

definition IsConnected :: "string \<Rightarrow> ws_hub \<Rightarrow> bool" where
  "IsConnected agentID h \<longleftrightarrow> wh_clients h agentID \<noteq> None"

definition ClientCount :: "ws_hub \<Rightarrow> nat" where
  "ClientCount h = card (dom (wh_clients h))"

definition SetOnConnect :: "bool \<Rightarrow> ws_hub \<Rightarrow> ws_hub" where
  "SetOnConnect cb h = h\<lparr>wh_onConnect := cb\<rparr>"

definition SetOnDisconnect :: "bool \<Rightarrow> ws_hub \<Rightarrow> ws_hub" where
  "SetOnDisconnect cb h = h\<lparr>wh_onDisconnect := cb\<rparr>"

definition SetOnMessage :: "bool \<Rightarrow> ws_hub \<Rightarrow> ws_hub" where
  "SetOnMessage cb h = h\<lparr>wh_onMessage := cb\<rparr>"

subsection \<open>The writing goroutine of a connection\<close>

text \<open>
  \<open>writePump\<close> (\<open>ws_server.go\<close>) takes the messages of a connection in order and writes them.
  \<open>write_ok\<close> says whether the write to the socket succeeds. \<open>Wrote\<close> is a message written,
  \<open>Stopped\<close> the end of the goroutine: its deferred \<open>Close\<close> runs. Encoding a message does not fail.
\<close>

datatype pump_event = Wrote ws_message | Lost ws_message | Stopped | Blocked

definition writePump :: "bool \<Rightarrow> conn_addr \<Rightarrow> ws_hub \<Rightarrow> ws_hub \<times> pump_event list" where
  "writePump write_ok c h =
     (case wh_conns h c of
        None \<Rightarrow> (h, [Blocked])
      | Some cn \<Rightarrow>
          (case wc_SendCh cn of
             [] \<Rightarrow> if wc_closed cn then (Close c h, [Stopped]) else (h, [Blocked])
           | m # ms \<Rightarrow>
               let h' = h\<lparr>wh_conns := (wh_conns h)(c \<mapsto> cn\<lparr>wc_SendCh := ms\<rparr>)\<rparr>
               in if write_ok then (h', [Wrote m]) else (Close c h', [Lost m, Stopped])))"

text \<open>The ping of the ticker: its failure also ends the goroutine.\<close>

definition writePing :: "bool \<Rightarrow> conn_addr \<Rightarrow> ws_hub \<Rightarrow> ws_hub \<times> pump_event list" where
  "writePing write_ok c h = (if write_ok then (h, []) else (Close c h, [Stopped]))"

end
