(* ===== verification/Owl_HubProps.thy ===== *)
theory Owl_HubProps
  imports Owl_Hub
begin

text \<open>
  The connections of a hub in every interleaving of its loop, its accepting and sending callers and
  the goroutines of the connections: which connections are open, when a send panics, and in which
  order messages leave.
\<close>

subsection \<open>Steps\<close>

text \<open>
  \<open>fail\<close> says whether writes to sockets may fail. A step that would panic or block is not taken.
  An accepted connection is stored at a fresh address and queued for registration.
\<close>

inductive hub_step :: "bool \<Rightarrow> ws_hub \<Rightarrow> ws_hub \<Rightarrow> bool" for fail where
  accept: "wh_conns h c = None \<Longrightarrow>
     Register c (h\<lparr>wh_conns := (wh_conns h)(c \<mapsto> NewWSClientConn now a)\<rparr>) = Some h' \<Longrightarrow>
     hub_step fail h h'"
| leave: "wh_conns h c \<noteq> None \<Longrightarrow> Unregister c h = Some h' \<Longrightarrow> hub_step fail h h'"
| do_register: "hub_step fail h (fst (run_register h))"
| do_unregister: "hub_step fail h (fst (run_unregister h))"
| do_broadcast: "run_broadcast ks h = (h', None) \<Longrightarrow> hub_step fail h h'"
| broadcast: "Broadcast m h = Some h' \<Longrightarrow> hub_step fail h h'"
| send_agent: "SendToAgent a m h = Inr (h', r) \<Longrightarrow> hub_step fail h h'"
| send: "Send c m h = Inr (h', r) \<Longrightarrow> hub_step fail h h'"
| seen: "hub_step fail h (UpdateLastSeen now c h)"
| pump: "ok \<or> fail \<Longrightarrow> hub_step fail h (fst (writePump ok c h))"
| ping: "ok \<or> fail \<Longrightarrow> hub_step fail h (fst (writePing ok c h))"

inductive hub_reachable :: "bool \<Rightarrow> ws_hub \<Rightarrow> bool" for fail where
  start: "hub_reachable fail (NewWSHub\<lparr>wh_onConnect := oc, wh_onDisconnect := od, wh_onMessage := om\<rparr>)"
| step: "hub_reachable fail h \<Longrightarrow> hub_step fail h h' \<Longrightarrow> hub_reachable fail h'"

inductive_cases hub_stepE: "hub_step fail h h'"

subsection \<open>The invariant\<close>

definition conn_ok :: "ws_conn \<Rightarrow> bool" where
  "conn_ok cn \<longleftrightarrow> length (wc_SendCh cn) \<le> sendch_cap"

text \<open>Every client is a stored connection of that agent, and an open connection is its agent's
  client or waits for registration: the hub leaks none.\<close>

definition hub_inv :: "ws_hub \<Rightarrow> bool" where
  "hub_inv h \<longleftrightarrow>
     (\<forall>k c. wh_clients h k = Some c \<longrightarrow> (\<exists>cn. wh_conns h c = Some cn \<and> wc_AgentID cn = k)) \<and>
     (\<forall>c cn. wh_conns h c = Some cn \<longrightarrow> conn_ok cn \<and>
        (wc_closed cn \<or> c \<in> set (wh_register h) \<or> wh_clients h (wc_AgentID cn) = Some c)) \<and>
     set (wh_register h) \<subseteq> dom (wh_conns h)"

lemma hub_invI:
  assumes "\<And>k c. wh_clients h k = Some c \<Longrightarrow> \<exists>cn. wh_conns h c = Some cn \<and> wc_AgentID cn = k"
    and "\<And>c cn. wh_conns h c = Some cn \<Longrightarrow> conn_ok cn"
    and "\<And>c cn. wh_conns h c = Some cn \<Longrightarrow> \<not> wc_closed cn \<Longrightarrow> c \<notin> set (wh_register h) \<Longrightarrow>
           wh_clients h (wc_AgentID cn) = Some c"
    and "set (wh_register h) \<subseteq> dom (wh_conns h)"
  shows "hub_inv h"
  using assms unfolding hub_inv_def by blast

lemma hub_invD:
  assumes "hub_inv h"
  shows "\<And>k c. wh_clients h k = Some c \<Longrightarrow> \<exists>cn. wh_conns h c = Some cn \<and> wc_AgentID cn = k"
    and "\<And>c cn. wh_conns h c = Some cn \<Longrightarrow> conn_ok cn"
    and "\<And>c cn. wh_conns h c = Some cn \<Longrightarrow> \<not> wc_closed cn \<Longrightarrow> c \<notin> set (wh_register h) \<Longrightarrow>
           wh_clients h (wc_AgentID cn) = Some c"
    and "\<And>c. c \<in> set (wh_register h) \<Longrightarrow> \<exists>cn. wh_conns h c = Some cn"
  using assms unfolding hub_inv_def by blast+

lemma client_agent: "hub_inv h \<Longrightarrow> wh_clients h k = Some c \<Longrightarrow> wh_conns h c = Some cn \<Longrightarrow> wc_AgentID cn = k"
  using hub_invD(1) by fastforce

lemma client_once: "hub_inv h \<Longrightarrow> wh_clients h k = Some c \<Longrightarrow> wh_clients h k' = Some c \<Longrightarrow> k = k'"
  using hub_invD(1) client_agent by metis

text \<open>While no write fails, clients and waiting connections are open and different.\<close>

definition hub_open :: "ws_hub \<Rightarrow> bool" where
  "hub_open h \<longleftrightarrow>
     (\<forall>k c. wh_clients h k = Some c \<longrightarrow> \<not> IsClosed c h \<and> c \<notin> set (wh_register h)) \<and>
     (\<forall>c\<in>set (wh_register h). \<not> IsClosed c h) \<and> distinct (wh_register h)"

text \<open>What matters of a store of connections: their agents, flags and channel lengths. A change that
  keeps the agents and flags and the bound on the channels keeps both invariants.\<close>

definition same_conn :: "ws_conn \<Rightarrow> ws_conn \<Rightarrow> bool" where
  "same_conn cn cn' \<longleftrightarrow> wc_AgentID cn' = wc_AgentID cn \<and> wc_closed cn' = wc_closed cn \<and>
     (conn_ok cn \<longrightarrow> conn_ok cn')"

definition same_conns :: "(conn_addr \<rightharpoonup> ws_conn) \<Rightarrow> (conn_addr \<rightharpoonup> ws_conn) \<Rightarrow> bool" where
  "same_conns m m' \<longleftrightarrow> (\<forall>c. rel_option same_conn (m c) (m' c))"

lemma same_conn_refl [simp]: "same_conn cn cn"
  by (simp add: same_conn_def)

lemma same_conns_refl [simp]: "same_conns m m"
  by (simp add: same_conns_def option.rel_refl)

lemma same_conns_trans: "same_conns m m' \<Longrightarrow> same_conns m' m'' \<Longrightarrow> same_conns m m''"
  unfolding same_conns_def
proof
  fix c assume "\<forall>c. rel_option same_conn (m c) (m' c)" "\<forall>c. rel_option same_conn (m' c) (m'' c)"
  then have "rel_option same_conn (m c) (m' c)" "rel_option same_conn (m' c) (m'' c)" by blast+
  then show "rel_option same_conn (m c) (m'' c)"
    by (cases "m c"; cases "m' c"; cases "m'' c") (auto simp: same_conn_def)
qed

lemma same_conns_upd: "m c = Some cn \<Longrightarrow> same_conn cn cn' \<Longrightarrow> same_conns m (m(c \<mapsto> cn'))"
  by (simp add: same_conns_def option.rel_refl)

lemma same_connsD:
  "same_conns m m' \<Longrightarrow> m' c = Some cn' \<Longrightarrow> \<exists>cn. m c = Some cn \<and> same_conn cn cn'"
  "same_conns m m' \<Longrightarrow> m c = Some cn \<Longrightarrow> \<exists>cn'. m' c = Some cn' \<and> same_conn cn cn'"
proof -
  assume "same_conns m m'"
  then have r: "rel_option same_conn (m c) (m' c)" by (simp add: same_conns_def)
  show "m' c = Some cn' \<Longrightarrow> \<exists>cn. m c = Some cn \<and> same_conn cn cn'"
    and "m c = Some cn \<Longrightarrow> \<exists>cn'. m' c = Some cn' \<and> same_conn cn cn'"
    using r by (auto simp: option_rel_Some1 option_rel_Some2)
qed

lemma same_conns_dom: "same_conns m m' \<Longrightarrow> dom m' = dom m"
  using same_connsD by (fastforce simp: dom_def)

text \<open>The invariant also survives closing connections.\<close>

definition le_conn :: "ws_conn \<Rightarrow> ws_conn \<Rightarrow> bool" where
  "le_conn cn cn' \<longleftrightarrow> wc_AgentID cn' = wc_AgentID cn \<and> (wc_closed cn \<longrightarrow> wc_closed cn') \<and>
     (conn_ok cn \<longrightarrow> conn_ok cn')"

lemma same_le: "same_conn cn cn' \<Longrightarrow> le_conn cn cn'"
  by (simp add: same_conn_def le_conn_def)

lemma le_hub_inv:
  assumes inv: "hub_inv h" and rel: "\<And>c. rel_option le_conn (wh_conns h c) (wh_conns h' c)"
    and eqs: "wh_clients h' = wh_clients h" "wh_register h' = wh_register h"
  shows "hub_inv h'"
proof -
  have fwd: "\<exists>cn'. wh_conns h' c = Some cn' \<and> le_conn cn cn'" if "wh_conns h c = Some cn" for c cn
    using rel[of c] that by (auto simp: option_rel_Some1)
  have bwd: "\<exists>cn. wh_conns h c = Some cn \<and> le_conn cn cn'" if "wh_conns h' c = Some cn'" for c cn'
    using rel[of c] that by (auto simp: option_rel_Some2)
  have "\<exists>cn'. wh_conns h' c = Some cn' \<and> wc_AgentID cn' = k" if "wh_clients h' k = Some c" for k c
  proof -
    from that inv eqs obtain cn where "wh_conns h c = Some cn" "wc_AgentID cn = k"
      unfolding hub_inv_def by metis
    with fwd[of c cn] show ?thesis by (auto simp: le_conn_def)
  qed
  moreover have "conn_ok cn' \<and> (wc_closed cn' \<or> c \<in> set (wh_register h') \<or>
      wh_clients h' (wc_AgentID cn') = Some c)" if "wh_conns h' c = Some cn'" for c cn'
  proof -
    from bwd[OF that] obtain cn where cn: "wh_conns h c = Some cn" "le_conn cn cn'" by blast
    with inv have "conn_ok cn \<and> (wc_closed cn \<or> c \<in> set (wh_register h) \<or>
        wh_clients h (wc_AgentID cn) = Some c)" unfolding hub_inv_def by blast
    with cn(2) eqs show ?thesis by (auto simp: le_conn_def)
  qed
  moreover have "set (wh_register h') \<subseteq> dom (wh_conns h')"
    using inv eqs fwd unfolding hub_inv_def by (metis domD domI subset_iff)
  ultimately show ?thesis by (simp add: hub_inv_def)
qed

lemma same_hub_inv:
  "hub_inv h \<Longrightarrow> same_conns (wh_conns h) (wh_conns h') \<Longrightarrow>
     wh_clients h' = wh_clients h \<Longrightarrow> wh_register h' = wh_register h \<Longrightarrow> hub_inv h'"
  by (rule le_hub_inv) (auto simp: same_conns_def intro: option.rel_mono_strong same_le)

lemma same_hub_open:
  assumes "hub_open h" and "same_conns (wh_conns h) (wh_conns h')"
    and "wh_clients h' = wh_clients h" and "wh_register h' = wh_register h"
  shows "hub_open h'"
proof -
  have "IsClosed c h' = IsClosed c h" for c
  proof -
    have "rel_option same_conn (wh_conns h c) (wh_conns h' c)"
      using assms(2) by (simp add: same_conns_def)
    then show ?thesis
      by (cases "wh_conns h c"; cases "wh_conns h' c") (auto simp: IsClosed_def same_conn_def)
  qed
  with assms show ?thesis by (simp add: hub_open_def)
qed

subsection \<open>Sends keep the connections\<close>

lemma try_send_same: "try_send m cn = Inr (cn', r) \<Longrightarrow> same_conn cn cn'"
  by (auto simp: try_send_def same_conn_def conn_ok_def split: if_splits)

definition same_hub :: "ws_hub \<Rightarrow> ws_hub \<Rightarrow> bool" where
  "same_hub h h' \<longleftrightarrow> same_conns (wh_conns h) (wh_conns h') \<and> wh_clients h' = wh_clients h \<and>
     wh_register h' = wh_register h"

lemma same_hub_refl [simp]: "same_hub h h"
  by (simp add: same_hub_def)

lemma same_hub_trans: "same_hub h h' \<Longrightarrow> same_hub h' h'' \<Longrightarrow> same_hub h h''"
  by (auto simp: same_hub_def intro: same_conns_trans)

lemma same_hub_invs:
  "same_hub h h' \<Longrightarrow> hub_inv h \<Longrightarrow> hub_inv h'"
  "same_hub h h' \<Longrightarrow> hub_open h \<Longrightarrow> hub_open h'"
  by (auto simp: same_hub_def intro: same_hub_inv same_hub_open)

lemma send_to_same: "send_to c m h = Inr (h', r) \<Longrightarrow> same_hub h h'"
  by (auto simp: send_to_def same_hub_def split: option.splits sum.splits prod.splits
      intro!: same_conns_upd try_send_same)

lemma Send_same: "Send c m h = Inr (h', r) \<Longrightarrow> same_hub h h'"
  by (auto simp: Send_def send_to_same split: if_splits)

lemma SendToAgent_same: "SendToAgent a m h = Inr (h', r) \<Longrightarrow> same_hub h h'"
  by (auto simp: SendToAgent_def send_to_same split: option.splits)

lemma send_all_same: "send_all m cs h = (h', p) \<Longrightarrow> same_hub h h'"
proof (induction m cs h arbitrary: h' p rule: send_all.induct)
  case (2 m c cs h)
  then show ?case
    by (auto split: sum.splits prod.splits dest: send_to_same intro: same_hub_trans)
qed simp

lemma run_broadcast_same: "run_broadcast ks h = (h', p) \<Longrightarrow> same_hub h h'"
  by (auto simp: run_broadcast_def Let_def same_hub_def split: list.splits dest!: send_all_same)

lemma Broadcast_same: "Broadcast m h = Some h' \<Longrightarrow> same_hub h h'"
  by (auto simp: Broadcast_def same_hub_def split: if_splits)

lemma Unregister_same: "Unregister c h = Some h' \<Longrightarrow> same_hub h h'"
  by (auto simp: Unregister_def same_hub_def split: if_splits)

lemma upd_conn_same: "(\<And>cn. same_conn cn (f cn)) \<Longrightarrow> same_hub h (upd_conn c f h)"
  by (cases "wh_conns h c")
    (auto simp: same_hub_def upd_conn_def same_conns_def option.rel_refl)

lemma UpdateLastSeen_same: "same_hub h (UpdateLastSeen now c h)"
  by (simp add: UpdateLastSeen_def upd_conn_same same_conn_def conn_ok_def)

lemma pump_ok_same: "same_hub h (fst (writePump True c h)) \<or> IsClosed c h"
  by (auto simp: writePump_def same_hub_def same_conn_def conn_ok_def IsClosed_def Let_def
      intro!: same_conns_upd split: option.splits list.splits)

lemmas hub_sames = Broadcast_same Unregister_same run_broadcast_same SendToAgent_same Send_same
  UpdateLastSeen_same

subsection \<open>Closing, registering, unregistering\<close>

lemma Close_inv: "hub_inv h \<Longrightarrow> hub_inv (Close c h)"
  by (erule le_hub_inv)
    (auto simp: Close_def upd_conn_def conn_close_def conn_ok_def le_conn_def option.rel_map
      intro!: option.rel_refl)

lemma Close_fields [simp]:
  "wh_clients (Close c h) = wh_clients h" "wh_register (Close c h) = wh_register h"
  by (simp_all add: Close_def upd_conn_def)

lemma Close_conns:
  "wh_conns (Close c h) = (wh_conns h)(c := map_option conn_close (wh_conns h c))"
  by (simp add: Close_def upd_conn_def)

lemma conn_close_simps [simp]:
  "wc_closed (conn_close cn)" "wc_AgentID (conn_close cn) = wc_AgentID cn"
  "conn_ok (conn_close cn) = conn_ok cn" "wc_SendCh (conn_close cn) = wc_SendCh cn"
  by (simp_all add: conn_close_def conn_ok_def)

lemma IsClosed_Close: "IsClosed c (Close d h) \<longleftrightarrow> (if c = d then wh_conns h c \<noteq> None else IsClosed c h)"
  by (auto simp: IsClosed_def Close_conns split: option.splits)

lemma accept_conns:
  assumes "Register c (h\<lparr>wh_conns := (wh_conns h)(c \<mapsto> NewWSClientConn now a)\<rparr>) = Some h'"
  shows "wh_conns h' = (wh_conns h)(c \<mapsto> NewWSClientConn now a)"
    and "wh_clients h' = wh_clients h" and "wh_register h' = wh_register h @ [c]"
  using assms by (auto simp: Register_def split: if_splits)

lemma accept_inv:
  assumes inv: "hub_inv h" and new: "wh_conns h c = None"
    and reg: "Register c (h\<lparr>wh_conns := (wh_conns h)(c \<mapsto> NewWSClientConn now a)\<rparr>) = Some h'"
  shows "hub_inv h'"
proof (rule hub_invI, unfold accept_conns[OF reg])
  fix k d assume "wh_clients h k = Some d"
  with hub_invD(1)[OF inv] new
  show "\<exists>cn. ((wh_conns h)(c \<mapsto> NewWSClientConn now a)) d = Some cn \<and> wc_AgentID cn = k"
    by (metis fun_upd_other option.distinct(1))
next
  fix d cn assume d: "((wh_conns h)(c \<mapsto> NewWSClientConn now a)) d = Some cn"
  then show "conn_ok cn"
    using hub_invD(2)[OF inv] by (auto simp: NewWSClientConn_def conn_ok_def split: if_splits)
  show "\<not> wc_closed cn \<Longrightarrow> d \<notin> set (wh_register h @ [c]) \<Longrightarrow> wh_clients h (wc_AgentID cn) = Some d"
    using d hub_invD(3)[OF inv] by auto
next
  show "set (wh_register h @ [c]) \<subseteq> dom ((wh_conns h)(c \<mapsto> NewWSClientConn now a))"
    using hub_invD(4)[OF inv] by auto
qed

lemma accept_open:
  assumes op: "hub_open h" and inv: "hub_inv h" and new: "wh_conns h c = None"
    and reg: "Register c (h\<lparr>wh_conns := (wh_conns h)(c \<mapsto> NewWSClientConn now a)\<rparr>) = Some h'"
  shows "hub_open h'"
proof -
  have fresh: "wh_clients h k \<noteq> Some c" "c \<notin> set (wh_register h)" for k
    using hub_invD(1,4)[OF inv] new by fastforce+
  have cl: "IsClosed d h' \<longleftrightarrow> d \<noteq> c \<and> IsClosed d h" for d
    by (simp add: IsClosed_def accept_conns[OF reg] NewWSClientConn_def)
  show ?thesis
    using op fresh unfolding hub_open_def accept_conns[OF reg] cl by auto
qed

text \<open>Processing a registration, written out.\<close>

lemma run_register_conn:
  assumes "wh_register h = c # rest" and "wh_conns h c = Some cn"
  shows "fst (run_register h) =
     (let h0 = h\<lparr>wh_register := rest\<rparr>;
          h1 = (case wh_clients h (wc_AgentID cn) of None \<Rightarrow> h0 | Some old \<Rightarrow> Close old h0)
      in h1\<lparr>wh_clients := (wh_clients h)(wc_AgentID cn \<mapsto> c)\<rparr>)"
  using assms by (simp add: run_register_def Let_def split: option.split)

lemma run_register_conns:
  assumes "wh_register h = c # rest" and "wh_conns h c = Some cn"
  shows "wh_conns (fst (run_register h)) d =
      (if wh_clients h (wc_AgentID cn) = Some d then map_option conn_close (wh_conns h d) else wh_conns h d)"
    and "wh_clients (fst (run_register h)) = (wh_clients h)(wc_AgentID cn \<mapsto> c)"
    and "wh_register (fst (run_register h)) = rest"
  using assms by (auto simp: run_register_conn Let_def Close_conns split: option.split)

lemma run_register_inv:
  assumes inv: "hub_inv h"
  shows "hub_inv (fst (run_register h))"
proof (cases "wh_register h")
  case Nil
  with inv show ?thesis by (simp add: run_register_def)
next
  case (Cons c rest)
  with inv obtain cn where cn: "wh_conns h c = Some cn" unfolding hub_inv_def by fastforce
  note r = run_register_conns[OF Cons cn]
  let ?h = "fst (run_register h)"
  have prev: "\<exists>dn'. wh_conns h d = Some dn' \<and> wc_AgentID dn = wc_AgentID dn' \<and>
      conn_ok dn = conn_ok dn' \<and> (\<not> wc_closed dn \<longrightarrow> dn = dn' \<and> wh_clients h (wc_AgentID cn) \<noteq> Some d)"
    if "wh_conns ?h d = Some dn" for d dn
    using that by (auto simp: r(1) split: if_splits)
  show ?thesis
  proof (rule hub_invI)
    fix k d assume "wh_clients ?h k = Some d"
    then show "\<exists>cn. wh_conns ?h d = Some cn \<and> wc_AgentID cn = k"
      using hub_invD(1)[OF inv] cn by (fastforce simp: r(1,2) split: if_splits)
  next
    fix d dn assume d: "wh_conns ?h d = Some dn"
    show "conn_ok dn" using prev[OF d] hub_invD(2)[OF inv] by metis
    show "wh_clients ?h (wc_AgentID dn) = Some d"
      if "\<not> wc_closed dn" "d \<notin> set (wh_register ?h)"
    proof (cases "d = c")
      case True
      with d cn that(1) show ?thesis by (auto simp: r(1,2) split: if_splits)
    next
      case False
      have d': "wh_conns h d = Some dn" "wh_clients h (wc_AgentID cn) \<noteq> Some d"
        using prev[OF d] that(1) by auto
      moreover have "d \<notin> set (wh_register h)" using that(2) False Cons by (simp add: r(3))
      ultimately have "wh_clients h (wc_AgentID dn) = Some d"
        using hub_invD(3)[OF inv] that(1) by blast
      with d'(2) show ?thesis by (auto simp: r(2))
    qed
  next
    show "set (wh_register ?h) \<subseteq> dom (wh_conns ?h)"
      using hub_invD(4)[OF inv] Cons by (fastforce simp: r(1,3))
  qed
qed

lemma run_register_open:
  assumes inv: "hub_inv h" and op: "hub_open h"
  shows "hub_open (fst (run_register h))"
proof (cases "wh_register h")
  case Nil
  with op show ?thesis by (simp add: run_register_def)
next
  case (Cons c rest)
  with inv obtain cn where cn: "wh_conns h c = Some cn" unfolding hub_inv_def by fastforce
  note r = run_register_conns[OF Cons cn]
  have cl: "IsClosed d (fst (run_register h)) \<longleftrightarrow>
      (if wh_clients h (wc_AgentID cn) = Some d then wh_conns h d \<noteq> None else IsClosed d h)" for d
    by (cases "wh_conns h d") (simp_all add: IsClosed_def r(1))
  have o1: "wh_clients h k = Some d \<Longrightarrow> \<not> IsClosed d h \<and> d \<noteq> c \<and> d \<notin> set rest" for k d
    using op Cons unfolding hub_open_def by auto
  have o2: "d \<in> set (c # rest) \<Longrightarrow> \<not> IsClosed d h" for d
    using op Cons unfolding hub_open_def by auto
  have o3: "distinct (c # rest)"
    using op Cons unfolding hub_open_def by auto
  show ?thesis
    unfolding hub_open_def r(2,3) cl
  proof (intro conjI allI impI ballI)
    fix k d assume "((wh_clients h)(wc_AgentID cn \<mapsto> c)) k = Some d"
    then consider (new) "d = c" | (old) "k \<noteq> wc_AgentID cn" "wh_clients h k = Some d"
      by (auto split: if_splits)
    then have "wh_clients h (wc_AgentID cn) \<noteq> Some d \<and> \<not> IsClosed d h \<and> d \<notin> set rest"
    proof cases
      case new
      then have "wh_clients h (wc_AgentID cn) \<noteq> Some d" using o1 by blast
      with new o2[of d] o3 show ?thesis by simp
    next
      case old
      then have "wh_clients h (wc_AgentID cn) \<noteq> Some d" using client_once[OF inv old(2)] by metis
      with o1[OF old(2)] show ?thesis by simp
    qed
    then show "\<not> (if wh_clients h (wc_AgentID cn) = Some d then wh_conns h d \<noteq> None else IsClosed d h)"
      and "d \<notin> set rest" by simp_all
  next
    fix d assume "d \<in> set rest"
    then have "wh_clients h (wc_AgentID cn) \<noteq> Some d" using o1 by blast
    with \<open>d \<in> set rest\<close> o2[of d]
    show "\<not> (if wh_clients h (wc_AgentID cn) = Some d then wh_conns h d \<noteq> None else IsClosed d h)"
      by simp
  next
    show "distinct rest" using o3 by simp
  qed
qed

lemma run_unregister_cases:
  "same_hub h (fst (run_unregister h)) \<or>
   (\<exists>c cn. wh_conns h c = Some cn \<and> wh_clients h (wc_AgentID cn) = Some c \<and>
      wh_conns (fst (run_unregister h)) = (wh_conns h)(c \<mapsto> conn_close cn) \<and>
      wh_clients (fst (run_unregister h)) = (wh_clients h)(wc_AgentID cn := None) \<and>
      wh_register (fst (run_unregister h)) = wh_register h)"
proof (cases "wh_unregister h")
  case Nil
  then show ?thesis by (simp add: run_unregister_def)
next
  case (Cons c rest)
  show ?thesis
  proof (cases "wh_conns h c")
    case None
    with Cons show ?thesis by (simp add: run_unregister_def same_hub_def)
  next
    case (Some cn)
    with Cons show ?thesis
      by (cases "wh_clients h (wc_AgentID cn) = Some c")
        (auto simp: run_unregister_def same_hub_def Let_def Close_conns)
  qed
qed

lemma run_unregister_inv:
  assumes inv: "hub_inv h"
  shows "hub_inv (fst (run_unregister h))"
  using run_unregister_cases[of h]
proof
  assume "same_hub h (fst (run_unregister h))"
  with inv show ?thesis by (simp add: same_hub_invs)
next
  assume "\<exists>c cn. wh_conns h c = Some cn \<and> wh_clients h (wc_AgentID cn) = Some c \<and>
      wh_conns (fst (run_unregister h)) = (wh_conns h)(c \<mapsto> conn_close cn) \<and>
      wh_clients (fst (run_unregister h)) = (wh_clients h)(wc_AgentID cn := None) \<and>
      wh_register (fst (run_unregister h)) = wh_register h"
  then obtain c cn where c: "wh_conns h c = Some cn" "wh_clients h (wc_AgentID cn) = Some c"
    and r: "wh_conns (fst (run_unregister h)) = (wh_conns h)(c \<mapsto> conn_close cn)"
      "wh_clients (fst (run_unregister h)) = (wh_clients h)(wc_AgentID cn := None)"
      "wh_register (fst (run_unregister h)) = wh_register h" by blast
  have one: "k = wc_AgentID cn" if "wh_clients h k = Some c" for k
    using client_once[OF inv that c(2)] .
  show ?thesis
  proof (rule hub_invI, unfold r)
    fix k d assume "((wh_clients h)(wc_AgentID cn := None)) k = Some d"
    then have kd: "wh_clients h k = Some d" "d \<noteq> c" using one by (auto split: if_splits)
    with hub_invD(1)[OF inv kd(1)]
    show "\<exists>dn. ((wh_conns h)(c \<mapsto> conn_close cn)) d = Some dn \<and> wc_AgentID dn = k" by simp
  next
    fix d dn assume d: "((wh_conns h)(c \<mapsto> conn_close cn)) d = Some dn"
    show "conn_ok dn"
      using d hub_invD(2)[OF inv] c(1) by (cases "d = c") auto
    assume "\<not> wc_closed dn" "d \<notin> set (wh_register h)"
    with d have "d \<noteq> c" "wh_conns h d = Some dn" by (auto split: if_splits)
    moreover from this \<open>\<not> wc_closed dn\<close> \<open>d \<notin> set (wh_register h)\<close>
    have "wh_clients h (wc_AgentID dn) = Some d" using hub_invD(3)[OF inv] by blast
    ultimately show "((wh_clients h)(wc_AgentID cn := None)) (wc_AgentID dn) = Some d"
      using c(2) by auto
  next
    show "set (wh_register h) \<subseteq> dom ((wh_conns h)(c \<mapsto> conn_close cn))"
      using hub_invD(4)[OF inv] by auto
  qed
qed

lemma run_unregister_open:
  assumes inv: "hub_inv h" and op: "hub_open h"
  shows "hub_open (fst (run_unregister h))"
  using run_unregister_cases[of h]
proof
  assume "same_hub h (fst (run_unregister h))"
  with op show ?thesis by (simp add: same_hub_invs)
next
  assume "\<exists>c cn. wh_conns h c = Some cn \<and> wh_clients h (wc_AgentID cn) = Some c \<and>
      wh_conns (fst (run_unregister h)) = (wh_conns h)(c \<mapsto> conn_close cn) \<and>
      wh_clients (fst (run_unregister h)) = (wh_clients h)(wc_AgentID cn := None) \<and>
      wh_register (fst (run_unregister h)) = wh_register h"
  then obtain c cn where c: "wh_conns h c = Some cn" "wh_clients h (wc_AgentID cn) = Some c"
    and r: "wh_conns (fst (run_unregister h)) = (wh_conns h)(c \<mapsto> conn_close cn)"
      "wh_clients (fst (run_unregister h)) = (wh_clients h)(wc_AgentID cn := None)"
      "wh_register (fst (run_unregister h)) = wh_register h" by blast
  have o1: "wh_clients h k = Some d \<Longrightarrow> \<not> IsClosed d h \<and> d \<notin> set (wh_register h)" for k d
    using op unfolding hub_open_def by auto
  have o2: "d \<in> set (wh_register h) \<Longrightarrow> \<not> IsClosed d h" for d
    using op unfolding hub_open_def by auto
  have o3: "distinct (wh_register h)"
    using op unfolding hub_open_def by auto
  have cl: "IsClosed d (fst (run_unregister h)) \<longleftrightarrow> d = c \<or> IsClosed d h" for d
    using c by (auto simp: IsClosed_def r(1))
  show ?thesis
    unfolding hub_open_def r(2,3) cl
  proof (intro conjI allI impI ballI)
    fix k d assume "((wh_clients h)(wc_AgentID cn := None)) k = Some d"
    then have kd: "wh_clients h k = Some d" "d \<noteq> c"
      using client_once[OF inv _ c(2)] by (auto split: if_splits)
    with o1 show "\<not> (d = c \<or> IsClosed d h)" and "d \<notin> set (wh_register h)" by blast+
  next
    fix d assume "d \<in> set (wh_register h)"
    with o1[OF c(2)] o2 show "\<not> (d = c \<or> IsClosed d h)" by auto
  qed (rule o3)
qed

lemma writePump_inv:
  assumes "hub_inv h" shows "hub_inv (fst (writePump ok c h))"
proof -
  have take: "hub_inv (h\<lparr>wh_conns := (wh_conns h)(c \<mapsto> cn\<lparr>wc_SendCh := ms\<rparr>)\<rparr>)"
    if "wh_conns h c = Some cn" "wc_SendCh cn = m # ms" for cn m ms
    using assms that by (rule_tac same_hub_inv[OF assms])
      (auto intro!: same_conns_upd simp: same_conn_def conn_ok_def)
  show ?thesis
    using assms by (auto simp: writePump_def Let_def Close_inv take split: option.split list.split)
qed

lemma writePump_ok_same: "hub_open h \<Longrightarrow> hub_open (fst (writePump True c h))"
proof (cases "IsClosed c h")
  case False
  then show "hub_open h \<Longrightarrow> ?thesis" using pump_ok_same[of h c] same_hub_invs(2) by blast
next
  case True
  assume op: "hub_open h"
  have cl: "IsClosed d (fst (writePump True c h)) \<longleftrightarrow> IsClosed d h" for d
    using True
    by (auto simp: writePump_def Let_def IsClosed_def Close_conns split: option.split list.split)
  show ?thesis
    using op unfolding hub_open_def cl
    by (simp add: writePump_def Let_def split: option.split list.split)
qed

lemma writePing_inv: "hub_inv h \<Longrightarrow> hub_inv (fst (writePing ok c h))"
  by (simp add: writePing_def Close_inv)

lemma hub_step_inv: "hub_step fail h h' \<Longrightarrow> hub_inv h \<Longrightarrow> hub_inv h'"
  by (induction rule: hub_step.induct)
    (auto intro: accept_inv run_register_inv run_unregister_inv writePump_inv writePing_inv
       hub_sames[THEN same_hub_invs(1)])

lemma hub_step_open: "hub_step False h h' \<Longrightarrow> hub_inv h \<Longrightarrow> hub_open h \<Longrightarrow> hub_open h'"
  by (induction rule: hub_step.induct)
    (auto intro: accept_open run_register_open run_unregister_open writePump_ok_same
       hub_sames[THEN same_hub_invs(2)] simp: writePing_def)

lemma new_hub_inv: "hub_inv (NewWSHub\<lparr>wh_onConnect := oc, wh_onDisconnect := od, wh_onMessage := om\<rparr>)"
  by (simp add: hub_inv_def NewWSHub_def)

lemma hub_reachable_hub_inv: "hub_reachable fail h \<Longrightarrow> hub_inv h"
  by (induction rule: hub_reachable.induct) (auto simp: new_hub_inv hub_step_inv)

lemma hub_reachable_open: "hub_reachable False h \<Longrightarrow> hub_open h"
proof (induction rule: hub_reachable.induct)
  case (start oc od om)
  show ?case by (simp add: hub_open_def NewWSHub_def)
next
  case (step h h')
  then show ?case using hub_step_open hub_reachable_hub_inv by blast
qed

subsection \<open>Connections\<close>

text \<open>Property C4: in every reachable state of the hub, whatever the order of its loop, its callers
  and the goroutines of the connections and whether or not writes fail, an agent has at most one open
  connection apart from those that still wait for registration, it is the one the hub sends to, and
  no channel exceeds its capacity.\<close>

theorem hub_one_connection:
  assumes "hub_reachable fail h"
    and "wh_conns h c = Some cn" "\<not> wc_closed cn" "c \<notin> set (wh_register h)"
    and "wh_conns h d = Some dn" "\<not> wc_closed dn" "d \<notin> set (wh_register h)"
    and "wc_AgentID cn = wc_AgentID dn"
  shows "c = d \<and> GetClient (wc_AgentID cn) h = Some c \<and> length (wc_SendCh cn) \<le> 256"
proof -
  note inv = hub_reachable_hub_inv[OF assms(1)]
  have "wh_clients h (wc_AgentID cn) = Some c" "wh_clients h (wc_AgentID dn) = Some d"
    using hub_invD(3)[OF inv] assms by blast+
  moreover have "conn_ok cn" using hub_invD(2)[OF inv assms(2)] .
  ultimately show ?thesis using assms(8) by (simp add: GetClient_def conn_ok_def sendch_cap_def)
qed

lemma send_open:
  "wh_conns h c = Some cn \<Longrightarrow> \<not> wc_closed cn \<Longrightarrow>
     \<exists>h' r. send_to c m h = Inr (h', r) \<and>
       (r \<longleftrightarrow> length (wc_SendCh cn) < sendch_cap) \<and>
       (r \<longrightarrow> wh_conns h' c = Some (cn\<lparr>wc_SendCh := wc_SendCh cn @ [m]\<rparr>)) \<and>
       (\<not> r \<longrightarrow> h' = h)"
  by (auto simp: send_to_def try_send_def fun_upd_idem)

lemma send_all_open:
  "\<forall>c\<in>set cs. \<exists>cn. wh_conns h c = Some cn \<and> \<not> wc_closed cn \<Longrightarrow> snd (send_all m cs h) = None"
proof (induction cs arbitrary: h)
  case (Cons c cs)
  then obtain cn where "wh_conns h c = Some cn" "\<not> wc_closed cn" by auto
  from send_open[OF this] obtain h' r where s: "send_to c m h = Inr (h', r)" by blast
  then have same: "same_conns (wh_conns h) (wh_conns h')"
    using send_to_same[OF s] by (simp add: same_hub_def)
  have "\<exists>dn. wh_conns h' d = Some dn \<and> \<not> wc_closed dn" if d: "d \<in> set cs" for d
  proof -
    from Cons.prems d obtain dn where dn: "wh_conns h d = Some dn" "\<not> wc_closed dn" by auto
    from same_connsD(2)[OF same dn(1)] dn(2) show ?thesis by (auto simp: same_conn_def)
  qed
  with Cons.IH[of h'] s show ?case by simp
qed simp

lemma open_clients:
  assumes "hub_reachable False h" and "wh_clients h k = Some c"
  shows "\<exists>cn. wh_conns h c = Some cn \<and> \<not> wc_closed cn"
  using hub_invD(1)[OF hub_reachable_hub_inv[OF assms(1)] assms(2)]
    hub_reachable_open[OF assms(1)] assms(2)
  by (fastforce simp: hub_open_def IsClosed_def)

text \<open>As long as no write to a socket has failed, sending to a connected agent does not
  panic; it queues the message behind the earlier ones exactly when the channel has room and leaves
  the hub unchanged otherwise. A broadcast does not panic either.\<close>

theorem hub_send_safe:
  assumes "hub_reachable False h" and "GetClient a h = Some c"
  shows "(\<exists>cn h' r. wh_conns h c = Some cn \<and> SendToAgent a m h = Inr (h', r) \<and>
            (r \<longleftrightarrow> length (wc_SendCh cn) < 256) \<and>
            (r \<longrightarrow> wh_conns h' c = Some (cn\<lparr>wc_SendCh := wc_SendCh cn @ [m]\<rparr>)) \<and>
            (\<not> r \<longrightarrow> h' = h)) \<and>
         snd (run_broadcast ks h) = None"
proof
  from open_clients[OF assms(1)] assms(2) obtain cn where "wh_conns h c = Some cn" "\<not> wc_closed cn"
    by (auto simp: GetClient_def)
  with send_open[OF this, of m] assms(2)
  show "\<exists>cn h' r. wh_conns h c = Some cn \<and> SendToAgent a m h = Inr (h', r) \<and>
            (r \<longleftrightarrow> length (wc_SendCh cn) < 256) \<and>
            (r \<longrightarrow> wh_conns h' c = Some (cn\<lparr>wc_SendCh := wc_SendCh cn @ [m]\<rparr>)) \<and>
            (\<not> r \<longrightarrow> h' = h)"
    by (auto simp: GetClient_def SendToAgent_def sendch_cap_def)
next
  have "\<forall>c\<in>set (range_values (wh_clients h) ks). \<exists>cn. wh_conns h c = Some cn \<and> \<not> wc_closed cn"
    using open_clients[OF assms(1)] by (auto simp: set_range_values_any)
  then show "snd (run_broadcast ks h) = None"
    by (auto simp: run_broadcast_def Let_def intro!: send_all_open split: list.split)
qed

subsection \<open>Example runs\<close>

definition hub_msg :: ws_message where
  "hub_msg = NewMessage ''u1'' 3 MsgTypeRefreshEnv None"

text \<open>Agent a1 connects (connection 0), is registered, and is sent a message.\<close>

definition hub_a1 :: ws_hub where
  "hub_a1 = fst (run_register
     (NewWSHub\<lparr>wh_onConnect := True, wh_onDisconnect := True, wh_onMessage := True,
               wh_conns := [0 \<mapsto> NewWSClientConn 2 ''a1''], wh_register := [0]\<rparr>))"

lemma hub_a1_eq:
  "hub_a1 = NewWSHub\<lparr>wh_onConnect := True, wh_onDisconnect := True, wh_onMessage := True,
               wh_conns := [0 \<mapsto> NewWSClientConn 2 ''a1''], wh_clients := [''a1'' \<mapsto> 0]\<rparr>"
  by (simp add: hub_a1_def run_register_def NewWSHub_def NewWSClientConn_def)

lemma hub_a1_reachable: "hub_reachable fail hub_a1"
proof -
  let ?h0 = "NewWSHub\<lparr>wh_onConnect := True, wh_onDisconnect := True, wh_onMessage := True\<rparr>"
  let ?h1 = "NewWSHub\<lparr>wh_onConnect := True, wh_onDisconnect := True, wh_onMessage := True,
               wh_conns := [0 \<mapsto> NewWSClientConn 2 ''a1''], wh_register := [0]\<rparr>"
  have "hub_reachable fail ?h0" by (rule hub_reachable.start)
  moreover have "hub_step fail ?h0 ?h1"
    by (rule hub_step.accept[where c = 0 and now = 2 and a = "''a1''"])
      (simp_all add: NewWSHub_def Register_def hubch_cap_def)
  ultimately have "hub_reachable fail ?h1" by (rule hub_reachable.step)
  then show ?thesis unfolding hub_a1_def by (rule hub_reachable.step) (rule hub_step.do_register)
qed

theorem hub_one_connection_witness:
  "GetClient ''a1'' hub_a1 = Some 0 \<and> wh_conns hub_a1 0 = Some (NewWSClientConn 2 ''a1'')"
  using hub_one_connection[OF hub_a1_reachable[of True], of 0 "NewWSClientConn 2 ''a1''" 0
      "NewWSClientConn 2 ''a1''"]
  by (simp add: hub_a1_eq NewWSClientConn_def NewWSHub_def)

theorem hub_send_safe_witness:
  "\<exists>h'. SendToAgent ''a1'' hub_msg hub_a1 = Inr (h', True)"
  using hub_send_safe[OF hub_a1_reachable, of "''a1''" 0 hub_msg "[''a1'']"]
  by (auto simp: hub_a1_eq GetClient_def NewWSClientConn_def NewWSHub_def)

text \<open>Once a write to an agent's socket fails (here a ping) the connection is closed but
  stays registered until its reader ends; in that state, which the hub reaches, a command for the
  agent and a broadcast both panic with a send on a closed channel, although the agent counts as
  connected.\<close>

theorem hub_failed_write_panics:
  "\<exists>h. hub_reachable True h \<and> IsConnected ''a1'' h \<and>
       SendToAgent ''a1'' hub_msg h = Inl ClosedChannel \<and>
       (\<exists>h'. Broadcast hub_msg h = Some h' \<and> snd (run_broadcast [''a1''] h') = Some ClosedChannel)"
proof (intro exI conjI)
  let ?h = "fst (writePing False 0 hub_a1)"
  show "hub_reachable True ?h"
    by (rule hub_reachable.step[OF hub_a1_reachable hub_step.ping]) simp
  show "IsConnected ''a1'' ?h" by (simp add: IsConnected_def hub_a1_eq writePing_def)
  show "SendToAgent ''a1'' hub_msg ?h = Inl ClosedChannel"
    by (simp add: SendToAgent_def send_to_def try_send_def hub_a1_eq writePing_def Close_conns)
  show "Broadcast hub_msg ?h = Some (?h\<lparr>wh_broadcast := [hub_msg]\<rparr>)"
    by (simp add: Broadcast_def hub_a1_eq writePing_def NewWSHub_def Close_def upd_conn_def
        hubch_cap_def)
  show "snd (run_broadcast [''a1''] (?h\<lparr>wh_broadcast := [hub_msg]\<rparr>)) = Some ClosedChannel"
    by (simp add: run_broadcast_def send_to_def try_send_def hub_a1_eq writePing_def Close_conns)
qed

end
