(* ===== verification/Owl_WSServer.thy ===== *)
theory Owl_WSServer
  imports Owl_Cluster Owl_Hub
begin

text \<open>
  \<open>internal/cluster/ws_server.go\<close>: the server that ties the hub of connections to the state of the
  master. Its state is the pair of the two; a handler that finds an agent's record writes through
  the pointer, that is into the cluster's map. Handlers of \<open>Owl_Cluster\<close> and \<open>Owl_Hub\<close> with the
  same Go name carry the prefix \<open>ws_\<close> here.
\<close>

definition writeWait :: duration where "writeWait = 10 * Second"
definition readWait :: duration where "readWait = 60 * Second"
definition pingPeriod :: duration where "pingPeriod = 30 * Second"
definition maxMessageSize :: nat where "maxMessageSize = 512 * 1024"

record ws_server =
  sv_hub :: ws_hub
  sv_cluster :: master_cluster

definition NewWSServer :: "master_cluster \<Rightarrow> ws_server" where
  "NewWSServer cluster =
     \<lparr>sv_hub = SetOnMessage True (SetOnDisconnect True (SetOnConnect True NewWSHub)),
      sv_cluster = cluster\<rparr>"

abbreviation upd_hub :: "ws_hub \<Rightarrow> ws_server \<Rightarrow> ws_server" where
  "upd_hub h s \<equiv> s\<lparr>sv_hub := h\<rparr>"

abbreviation upd_cluster :: "(master_cluster \<Rightarrow> master_cluster) \<Rightarrow> ws_server \<Rightarrow> ws_server" where
  "upd_cluster f s \<equiv> s\<lparr>sv_cluster := f (sv_cluster s)\<rparr>"

text \<open>Writing to an agent's record through the pointer \<open>GetAgent\<close> returned.\<close>

definition upd_agent :: "string \<Rightarrow> (agent_record \<Rightarrow> agent_record) \<Rightarrow> master_cluster \<Rightarrow> master_cluster" where
  "upd_agent agentID f mc =
     mc\<lparr>mc_agents := (mc_agents mc)(agentID := map_option f (mc_agents mc agentID))\<rparr>"

subsection \<open>The hub's callbacks\<close>

definition set_agent_status :: "string \<Rightarrow> string \<Rightarrow> master_cluster \<Rightarrow> master_cluster \<times> status_change list" where
  "set_agent_status agentID status mc =
     (case GetAgent agentID mc of
        None \<Rightarrow> (mc, [])
      | Some agent \<Rightarrow>
          (upd_agent agentID (\<lambda>a. a\<lparr>ar_Status := status\<rparr>) mc,
           if mc_onAgentStatusChange mc \<and> ar_Status agent \<noteq> status
           then [(ar_ID agent, ar_Status agent, status)] else []))"

fun run_callback :: "hub_callback \<Rightarrow> master_cluster \<Rightarrow> master_cluster \<times> status_change list" where
  "run_callback (OnConnect agentID) mc = set_agent_status agentID ''online'' mc"
| "run_callback (OnDisconnect agentID) mc = set_agent_status agentID ''offline'' mc"

text \<open>The hub starts the callback of a connection in a goroutine of its own; here the loop's step and
  the callback it started run together.\<close>

fun run_callbacks :: "hub_callback list \<Rightarrow> master_cluster \<Rightarrow> master_cluster \<times> status_change list" where
  "run_callbacks [] mc = (mc, [])"
| "run_callbacks (cb # cbs) mc =
     (let (mc1, ch1) = run_callback cb mc; (mc2, ch2) = run_callbacks cbs mc1 in (mc2, ch1 @ ch2))"

definition loop_step :: "(ws_hub \<Rightarrow> ws_hub \<times> hub_callback list) \<Rightarrow> ws_server \<Rightarrow> ws_server \<times> status_change list" where
  "loop_step f s =
     (let (h, cbs) = f (sv_hub s); (mc, chs) = run_callbacks cbs (sv_cluster s)
      in (\<lparr>sv_hub = h, sv_cluster = mc\<rparr>, chs))"

subsection \<open>Accepting a connection\<close>

definition send_ack :: "gotime \<Rightarrow> conn_addr \<Rightarrow> string \<Rightarrow> ws_hub \<Rightarrow> ws_hub go" where
  "send_ack now c i h =
     (let ackMsg = NewMessageWithID now i MsgTypeAck
            (Some (enc_AckPayload \<lparr>ak_MessageID = i, ak_Success = True, ak_Error = []\<rparr>))
      in map_sum id fst (Send c ackMsg h))"

text \<open>
  The upgraded connection gets the fresh address \<open>c\<close>; \<open>data\<close> is the first message, \<open>None\<close> when
  reading it fails, \<open>Some None\<close> when it is not JSON. \<open>Refused\<close> closes the connection before anything
  is registered; \<open>None\<close> is a blocked registration. The commands that waited for the agent in the
  polling queue are taken out by \<open>HandleHeartbeat\<close> and dropped.
\<close>

datatype accept_result = Refused | Accepted "status_change list" | AcceptPanic go_panic

definition HandleConnection ::
  "gotime \<Rightarrow> conn_addr \<Rightarrow> json option option \<Rightarrow> ws_server \<Rightarrow> (ws_server \<times> accept_result) option" where
  "HandleConnection now c data s =
     (case data of
        None \<Rightarrow> Some (s, Refused)
      | Some d \<Rightarrow>
        (case DecodeMessage d of
           None \<Rightarrow> Some (s, Refused)
         | Some msg \<Rightarrow>
           if wm_Type msg \<noteq> MsgTypeRegister then Some (s, Refused)
           else (case ParsePayload zero_RegisterPayload dec_RegisterPayload msg of
              None \<Rightarrow> Some (s, Refused)
            | Some payload \<Rightarrow>
              (let h = sv_hub s;
                   h0 = h\<lparr>wh_conns := (wh_conns h)(c \<mapsto> NewWSClientConn now (rp_AgentID payload))\<rparr>
               in case Register c h0 of
                    None \<Rightarrow> None
                  | Some h1 \<Rightarrow>
                    (let (mc, waiting, changes) =
                           HandleHeartbeat now (rp_AgentID payload) (rp_Hostname payload)
                             (rp_IP payload) (rp_Tags payload) (rp_Labels payload) ''online'' None
                             (sv_cluster s)
                     in case send_ack now c (wm_ID msg) h1 of
                          Inl p \<Rightarrow> Some (\<lparr>sv_hub = h1, sv_cluster = mc\<rparr>, AcceptPanic p)
                        | Inr h2 \<Rightarrow> Some (\<lparr>sv_hub = h2, sv_cluster = mc\<rparr>, Accepted changes))))))"

subsection \<open>Messages from agents\<close>

definition ws_handleHeartbeat :: "gotime \<Rightarrow> string \<Rightarrow> ws_message \<Rightarrow> ws_server \<Rightarrow> ws_server go" where
  "ws_handleHeartbeat now agentID msg s =
     (case ParsePayload zero_HeartbeatPayload dec_HeartbeatPayload msg of
        None \<Rightarrow> Inr s
      | Some payload \<Rightarrow>
          let s1 = upd_cluster (upd_agent agentID
                     (\<lambda>a. a\<lparr>ar_LastHeartbeat := now, ar_Status := hb_Status payload\<rparr>)) s
          in case GetClient agentID (sv_hub s) of
               None \<Rightarrow> Inr s1
             | Some c \<Rightarrow> (case send_ack now c (wm_ID msg) (sv_hub s) of
                           Inl p \<Rightarrow> Inl p | Inr h \<Rightarrow> Inr (upd_hub h s1)))"

definition ws_handleMetrics :: "gotime \<Rightarrow> string \<Rightarrow> ws_message \<Rightarrow> ws_server \<Rightarrow> ws_server" where
  "ws_handleMetrics now agentID msg s =
     (case ParsePayload zero_MetricsPayload dec_MetricsPayload msg of
        None \<Rightarrow> s
      | Some payload \<Rightarrow>
          upd_cluster (upd_agent agentID
            (\<lambda>a. a\<lparr>ar_LastMetrics := Some \<lparr>am_CPUUsage = mt_CPUUsage payload,
                      am_MemoryUsage = mt_MemoryUsage payload, am_DiskUsage = mt_DiskUsage payload,
                      am_LoadAvg1 = mt_LoadAvg1 payload, am_Uptime = mt_Uptime payload,
                      am_Timestamp = now\<rparr>,
                    ar_LastHeartbeat := now\<rparr>)) s)"

definition ws_handleEvent :: "string \<Rightarrow> ws_message \<Rightarrow> ws_server \<Rightarrow> ws_server" where
  "ws_handleEvent agentID msg s =
     (case ParsePayload zero_EventPayload dec_EventPayload msg of
        None \<Rightarrow> s
      | Some payload \<Rightarrow>
          let event = \<lparr>ev_AgentID = agentID, ev_RuleID = ep_RuleID payload,
                 ev_RuleName = ep_RuleName payload, ev_Condition = ep_Condition payload,
                 ev_Action = ep_Action payload, ev_Success = ep_Success payload,
                 ev_Output = ep_Output payload, ev_Error = ep_Error payload,
                 ev_Timestamp = ep_Timestamp payload\<rparr>
          in upd_cluster (\<lambda>mc. fst (HandleAgentEvents agentID [Some event] mc)) s)"

definition ws_handleCommandResult :: "gotime \<Rightarrow> string \<Rightarrow> ws_message \<Rightarrow> ws_server \<Rightarrow> ws_server" where
  "ws_handleCommandResult now agentID msg s =
     (case ParsePayload zero_CommandResultPayload dec_CommandResultPayload msg of
        None \<Rightarrow> s
      | Some payload \<Rightarrow>
          upd_cluster (HandleCommandResult
            \<lparr>cr_CommandID = rs_CommandID payload, cr_AgentID = agentID,
             cr_Success = rs_Success payload, cr_Output = rs_Output payload,
             cr_Error = rs_Error payload, cr_ExitCode = rs_ExitCode payload,
             cr_Duration = rs_Duration payload, cr_Timestamp = now\<rparr>) s)"

text \<open>The conversion of an environment message: a nil entry of one of the maps panics.\<close>

definition to_container_info :: "container \<Rightarrow> container_info" where
  "to_container_info c = \<lparr>ci_Image = pk_Image c, ci_Status = pk_Status c, ci_Env = pk_Env c,
     ci_Ports = pk_Ports c, ci_Network = pk_Network c\<rparr>"

definition to_database_info :: "database \<Rightarrow> database_info" where
  "to_database_info d = \<lparr>di_Type = pd_Type d, di_Host = pd_Host d, di_Port = pd_Port d,
     di_User = pd_User d, di_Password = pd_Password d, di_Database = pd_Database d,
     di_Source = pd_Source d\<rparr>"

definition to_proxy_info :: "proxy \<Rightarrow> proxy_info" where
  "to_proxy_info p = \<lparr>pi_Type = pp_Type p, pi_ConfigFile = pp_ConfigFile p,
     pi_Sites = map (\<lambda>site. \<lparr>si_Domain = ps_Domain site, si_Backend = ps_Backend site,
                             si_Root = ps_Root site\<rparr>) (pp_Sites p),
     pi_Source = pp_Source p\<rparr>"

fun convert_entries :: "('a \<Rightarrow> 'b) \<Rightarrow> (string \<rightharpoonup> 'a option) \<Rightarrow> string list \<Rightarrow> (string \<rightharpoonup> 'b) \<Rightarrow> (string \<rightharpoonup> 'b) go" where
  "convert_entries f m [] acc = Inr acc"
| "convert_entries f m (k # ks) acc =
     (case m k of
        None \<Rightarrow> convert_entries f m ks acc
      | Some None \<Rightarrow> Inl NilDeref
      | Some (Some v) \<Rightarrow> convert_entries f m ks (acc(k \<mapsto> f v)))"

text \<open>\<open>kc\<close>, \<open>kd\<close>, \<open>kp\<close>: the orders in which the three maps are visited.\<close>

definition ws_handleEnvironment ::
  "gotime \<Rightarrow> string list \<Rightarrow> string list \<Rightarrow> string list \<Rightarrow> string \<Rightarrow> ws_message \<Rightarrow> ws_server \<Rightarrow> ws_server go" where
  "ws_handleEnvironment now kc kd kp agentID msg s =
     (case ParsePayload zero_EnvironmentPayload dec_EnvironmentPayload msg of
        None \<Rightarrow> Inr s
      | Some payload \<Rightarrow>
        (case convert_entries to_container_info (en_Containers payload) kc Map.empty of
           Inl p \<Rightarrow> Inl p
         | Inr cs \<Rightarrow>
           (case convert_entries to_database_info (en_Databases payload) kd Map.empty of
              Inl p \<Rightarrow> Inl p
            | Inr ds \<Rightarrow>
              (case convert_entries to_proxy_info (en_Proxies payload) kp Map.empty of
                 Inl p \<Rightarrow> Inl p
               | Inr ps \<Rightarrow>
                 Inr (upd_cluster (HandleAgentEnvironment now agentID
                   \<lparr>ae_UpdatedAt = en_UpdatedAt payload,
                    ae_Host = \<lparr>eh_Hostname = ph_Hostname (en_Host payload), eh_IP = ph_IP (en_Host payload)\<rparr>,
                    ae_Containers = cs, ae_Databases = ds, ae_Proxies = ps\<rparr>) s)))))"

definition handleMessage ::
  "gotime \<Rightarrow> string list \<Rightarrow> string list \<Rightarrow> string list \<Rightarrow> string \<Rightarrow> ws_message \<Rightarrow> ws_server \<Rightarrow> ws_server go" where
  "handleMessage now kc kd kp agentID msg s =
     (if wm_Type msg = MsgTypeHeartbeat then ws_handleHeartbeat now agentID msg s
      else if wm_Type msg = MsgTypeMetrics then Inr (ws_handleMetrics now agentID msg s)
      else if wm_Type msg = MsgTypeEvent then Inr (ws_handleEvent agentID msg s)
      else if wm_Type msg = MsgTypeCommandResult then Inr (ws_handleCommandResult now agentID msg s)
      else if wm_Type msg = MsgTypeEnvironment then ws_handleEnvironment now kc kd kp agentID msg s
      else if wm_Type msg = MsgTypePong
           then Inr (case GetClient agentID (sv_hub s) of
                       None \<Rightarrow> s | Some c \<Rightarrow> upd_hub (UpdateLastSeen now c (sv_hub s)) s)
      else Inr s)"

text \<open>
  One iteration of \<open>readPump\<close> of connection \<open>c\<close>: \<open>None\<close> for \<open>data\<close> is a failed read, after which the
  deferred \<open>Unregister\<close> runs (the result \<open>None\<close> is its blocking) and the loop is left.
\<close>

definition readPump ::
  "gotime \<Rightarrow> string list \<Rightarrow> string list \<Rightarrow> string list \<Rightarrow> conn_addr \<Rightarrow> json option option \<Rightarrow> ws_server \<Rightarrow>
   (ws_server \<times> bool) go option" where
  "readPump now kc kd kp c data s =
     (case data of
        None \<Rightarrow> map_option (\<lambda>h. Inr (upd_hub h s, False)) (Unregister c (sv_hub s))
      | Some d \<Rightarrow>
          let s1 = upd_hub (UpdateLastSeen now c (sv_hub s)) s in
          Some (case DecodeMessage d of
                  None \<Rightarrow> Inr (s1, True)
                | Some msg \<Rightarrow>
                    (case wh_conns (sv_hub s) c of
                       None \<Rightarrow> Inl NilDeref
                     | Some cn \<Rightarrow>
                         if wh_onMessage (sv_hub s)
                         then map_sum id (\<lambda>s2. (s2, True))
                                (handleMessage now kc kd kp (wc_AgentID cn) msg s1)
                         else Inr (s1, True))))"

subsection \<open>Messages to agents\<close>

text \<open>The identifier of a command is the clock in the layout \<open>20060102150405.000\<close>, the argument
  \<open>fmt\<close>. Marshalling the payload does not fail, so the error result is always nil.\<close>

definition ws_SendCommand ::
  "(gotime \<Rightarrow> string) \<Rightarrow> gotime \<Rightarrow> string \<Rightarrow> string \<Rightarrow> string \<Rightarrow> string \<Rightarrow> duration \<Rightarrow> ws_server \<Rightarrow>
   (ws_server \<times> string) go" where
  "ws_SendCommand fmt now uuid agentID cmdType payload timeout s =
     (let cmdPayload = \<lparr>cp_CommandID = ''cmd-'' @ fmt now, cp_Type = cmdType, cp_Payload = payload,
                        cp_Timeout = timeout, cp_Priority = 0\<rparr>;
          msg = NewMessage uuid now MsgTypeCommand (Some (enc_CommandPayload cmdPayload))
      in case SendToAgent agentID msg (sv_hub s) of
           Inl p \<Rightarrow> Inl p
         | Inr (h, sent) \<Rightarrow> Inr (upd_hub h s, if sent then cp_CommandID cmdPayload else []))"

text \<open>\<open>clock\<close> gives the time and the message identifier of each of the commands.\<close>

fun send_command_all ::
  "(gotime \<Rightarrow> string) \<Rightarrow> (gotime \<times> string) list \<Rightarrow> string list \<Rightarrow> string \<Rightarrow> string \<Rightarrow> duration \<Rightarrow> ws_server \<Rightarrow>
   (ws_server \<times> string list) go" where
  "send_command_all fmt ((now, uuid) # clock) (a # as) cmdType payload timeout s =
     (case ws_SendCommand fmt now uuid a cmdType payload timeout s of
        Inl p \<Rightarrow> Inl p
      | Inr (s', i) \<Rightarrow>
          (case send_command_all fmt clock as cmdType payload timeout s' of
             Inl p \<Rightarrow> Inl p
           | Inr (s'', ids) \<Rightarrow> Inr (s'', (if i \<noteq> [] then [i] else []) @ ids)))"
| "send_command_all fmt _ _ cmdType payload timeout s = Inr (s, [])"

definition SendCommandToAll ::
  "(gotime \<Rightarrow> string) \<Rightarrow> (gotime \<times> string) list \<Rightarrow> string list \<Rightarrow> string \<Rightarrow> string \<Rightarrow> duration \<Rightarrow> ws_server \<Rightarrow>
   (ws_server \<times> string list) go" where
  "SendCommandToAll fmt clock ks cmdType payload timeout s =
     send_command_all fmt clock (GetConnectedAgents ks (sv_hub s)) cmdType payload timeout s"

definition SendConfigUpdate :: "gotime \<Rightarrow> string \<Rightarrow> string \<Rightarrow> config_update_payload \<Rightarrow> ws_server \<Rightarrow> ws_server go" where
  "SendConfigUpdate now uuid agentID config s =
     map_sum id (\<lambda>(h, sent). upd_hub h s)
       (SendToAgent agentID (NewMessage uuid now MsgTypeConfigUpdate
          (Some (enc_ConfigUpdatePayload config))) (sv_hub s))"

definition BroadcastConfigUpdate :: "gotime \<Rightarrow> string \<Rightarrow> config_update_payload \<Rightarrow> ws_server \<Rightarrow> ws_server option" where
  "BroadcastConfigUpdate now uuid config s =
     map_option (\<lambda>h. upd_hub h s)
       (Broadcast (NewMessage uuid now MsgTypeConfigUpdate (Some (enc_ConfigUpdatePayload config)))
          (sv_hub s))"

definition ws_WaitCommandResult :: "string \<Rightarrow> ws_server wait_event list \<Rightarrow>
    (wait_error + command_result) option" where
  "ws_WaitCommandResult cmdID evs = WaitCommandResult cmdID (map (map_wait_event sv_cluster) evs)"

text \<open>Both branches of \<open>SendRefreshEnv\<close> return nil, so whether the request was sent is not told.\<close>

definition ws_SendRefreshEnv :: "gotime \<Rightarrow> string \<Rightarrow> string \<Rightarrow> ws_server \<Rightarrow> ws_server go" where
  "ws_SendRefreshEnv now uuid agentID s =
     map_sum id (\<lambda>(h, sent). upd_hub h s)
       (SendToAgent agentID (NewMessage uuid now MsgTypeRefreshEnv None) (sv_hub s))"

definition ws_BroadcastRefreshEnv :: "gotime \<Rightarrow> string \<Rightarrow> ws_server \<Rightarrow> ws_server option" where
  "ws_BroadcastRefreshEnv now uuid s =
     map_option (\<lambda>h. upd_hub h s) (Broadcast (NewMessage uuid now MsgTypeRefreshEnv None) (sv_hub s))"

end
