(* ===== verification/Owl_ProtocolProps.thy ===== *)
theory Owl_ProtocolProps
  imports Owl_Protocol
begin

text \<open>
  What is sent is what is read: every payload of the WebSocket protocol survives encoding by its
  sender and decoding by its receiver, integers within 64 bits, and so does the message around it.
\<close>

text \<open>The tags are written in lower case.\<close>

lemma tag_lower [simp]:
  "ToLower ''action'' = ''action''"
  "ToLower ''actions'' = ''actions''"
  "ToLower ''agent_id'' = ''agent_id''"
  "ToLower ''auto_rules'' = ''auto_rules''"
  "ToLower ''backend'' = ''backend''"
  "ToLower ''command'' = ''command''"
  "ToLower ''command_id'' = ''command_id''"
  "ToLower ''condition'' = ''condition''"
  "ToLower ''config_file'' = ''config_file''"
  "ToLower ''containers'' = ''containers''"
  "ToLower ''cooldown'' = ''cooldown''"
  "ToLower ''cpu_usage'' = ''cpu_usage''"
  "ToLower ''database'' = ''database''"
  "ToLower ''databases'' = ''databases''"
  "ToLower ''description'' = ''description''"
  "ToLower ''disk_free'' = ''disk_free''"
  "ToLower ''disk_total'' = ''disk_total''"
  "ToLower ''disk_usage'' = ''disk_usage''"
  "ToLower ''domain'' = ''domain''"
  "ToLower ''duration'' = ''duration''"
  "ToLower ''enabled'' = ''enabled''"
  "ToLower ''env'' = ''env''"
  "ToLower ''error'' = ''error''"
  "ToLower ''exit_code'' = ''exit_code''"
  "ToLower ''host'' = ''host''"
  "ToLower ''hostname'' = ''hostname''"
  "ToLower ''id'' = ''id''"
  "ToLower ''image'' = ''image''"
  "ToLower ''ip'' = ''ip''"
  "ToLower ''labels'' = ''labels''"
  "ToLower ''load_avg_1'' = ''load_avg_1''"
  "ToLower ''load_avg_15'' = ''load_avg_15''"
  "ToLower ''load_avg_5'' = ''load_avg_5''"
  "ToLower ''max_retries'' = ''max_retries''"
  "ToLower ''memory_free'' = ''memory_free''"
  "ToLower ''memory_total'' = ''memory_total''"
  "ToLower ''memory_usage'' = ''memory_usage''"
  "ToLower ''message_id'' = ''message_id''"
  "ToLower ''metric'' = ''metric''"
  "ToLower ''name'' = ''name''"
  "ToLower ''network'' = ''network''"
  "ToLower ''operator'' = ''operator''"
  "ToLower ''output'' = ''output''"
  "ToLower ''password'' = ''password''"
  "ToLower ''payload'' = ''payload''"
  "ToLower ''port'' = ''port''"
  "ToLower ''ports'' = ''ports''"
  "ToLower ''priority'' = ''priority''"
  "ToLower ''proxies'' = ''proxies''"
  "ToLower ''root'' = ''root''"
  "ToLower ''rule_id'' = ''rule_id''"
  "ToLower ''rule_name'' = ''rule_name''"
  "ToLower ''sites'' = ''sites''"
  "ToLower ''source'' = ''source''"
  "ToLower ''start_time'' = ''start_time''"
  "ToLower ''status'' = ''status''"
  "ToLower ''success'' = ''success''"
  "ToLower ''tags'' = ''tags''"
  "ToLower ''threshold'' = ''threshold''"
  "ToLower ''timeout'' = ''timeout''"
  "ToLower ''timestamp'' = ''timestamp''"
  "ToLower ''type'' = ''type''"
  "ToLower ''updated_at'' = ''updated_at''"
  "ToLower ''uptime'' = ''uptime''"
  "ToLower ''user'' = ''user''"
  "ToLower ''version'' = ''version''"
  by code_simp+

lemmas decoding = field_def fld_append struct_fields.simps

lemma uint64_enc [simp]: "n < 2 ^ 64 \<Longrightarrow> dec_uint64 (JInt (int n)) = Some n"
  using of_nat_less_iff[of n "2 ^ 64", where 'a = int] by simp

subsection \<open>Leaves\<close>

lemma dec_enc_SiteInfo [simp]: "dec_SiteInfo (enc_SiteInfo p) = Some p"
  by (simp add: dec_SiteInfo_def enc_SiteInfo_def decoding)

lemma dec_enc_HostInfo [simp]: "dec_HostInfo (enc_HostInfo p) = Some p"
  by (simp add: dec_HostInfo_def enc_HostInfo_def decoding)

lemma dec_enc_DatabaseInfo [simp]: "dec_DatabaseInfo (enc_DatabaseInfo p) = Some p"
  by (simp add: dec_DatabaseInfo_def enc_DatabaseInfo_def decoding)

lemma dec_enc_ProxyInfo [simp]: "dec_ProxyInfo (enc_ProxyInfo p) = Some p"
  by (simp add: dec_ProxyInfo_def enc_ProxyInfo_def decoding)

lemma dec_enc_ContainerInfo:
  assumes "range_order (pk_Env p) ks"
  shows "dec_ContainerInfo (enc_ContainerInfo ks p) = Some p"
proof -
  have "dec_map dec_string (enc_map JStr ks (pk_Env p)) = Some (pk_Env p)"
    using assms by (rule dec_map_enc) simp
  moreover have "ks = [] \<Longrightarrow> pk_Env p = Map.empty"
    using assms by (auto simp: range_order_def)
  ultimately show ?thesis
    by (simp add: dec_ContainerInfo_def enc_ContainerInfo_def decoding)
qed

subsection \<open>Payloads\<close>

lemma dec_enc_RegisterPayload:
  assumes "range_order (rp_Labels p) ks"
  shows "dec_RegisterPayload (enc_RegisterPayload ks p) = Some p"
proof -
  have "dec_map dec_string (enc_map JStr ks (rp_Labels p)) = Some (rp_Labels p)"
    using assms by (rule dec_map_enc) simp
  then show ?thesis by (simp add: dec_RegisterPayload_def enc_RegisterPayload_def decoding)
qed

lemma dec_enc_HeartbeatPayload [simp]: "dec_HeartbeatPayload (enc_HeartbeatPayload p) = Some p"
  by (simp add: dec_HeartbeatPayload_def enc_HeartbeatPayload_def decoding)

lemma dec_enc_MetricsPayload:
  assumes "mt_MemoryTotal p < 2 ^ 64" "mt_MemoryFree p < 2 ^ 64" "mt_DiskTotal p < 2 ^ 64"
    "mt_DiskFree p < 2 ^ 64" "int64_ok (mt_Uptime p)"
  shows "dec_MetricsPayload (enc_MetricsPayload p) = Some p"
  using assms by (simp add: dec_MetricsPayload_def enc_MetricsPayload_def decoding
      del: dec_uint64.simps dec_int.simps)

lemma dec_enc_EventPayload [simp]: "dec_EventPayload (enc_EventPayload p) = Some p"
  by (simp add: dec_EventPayload_def enc_EventPayload_def decoding)

lemma dec_enc_CommandPayload:
  "int64_ok (cp_Timeout p) \<Longrightarrow> int64_ok (cp_Priority p) \<Longrightarrow>
     dec_CommandPayload (enc_CommandPayload p) = Some p"
  by (simp add: dec_CommandPayload_def enc_CommandPayload_def decoding del: dec_int.simps)

lemma dec_enc_CommandResultPayload:
  "int64_ok (rs_ExitCode p) \<Longrightarrow> int64_ok (rs_Duration p) \<Longrightarrow>
     dec_CommandResultPayload (enc_CommandResultPayload p) = Some p"
  by (simp add: dec_CommandResultPayload_def enc_CommandResultPayload_def decoding
      del: dec_int.simps)

lemma dec_enc_AckPayload [simp]: "dec_AckPayload (enc_AckPayload p) = Some p"
  by (simp add: dec_AckPayload_def enc_AckPayload_def decoding)

definition action_ok :: "rule_action_data \<Rightarrow> bool" where
  "action_ok a \<longleftrightarrow> int64_ok (ra_Timeout a)"

definition rule_ok :: "auto_rule_data \<Rightarrow> bool" where
  "rule_ok r \<longleftrightarrow> int64_ok (rc_Duration (rd_Condition r)) \<and> list_all action_ok (rd_Actions r) \<and>
     int64_ok (rd_Cooldown r) \<and> int64_ok (rd_MaxRetries r)"

lemma dec_enc_RuleCondition:
  "int64_ok (rc_Duration p) \<Longrightarrow> dec_RuleCondition (enc_RuleCondition p) = Some p"
  by (simp add: dec_RuleCondition_def enc_RuleCondition_def decoding del: dec_int.simps)

lemma dec_enc_RuleAction: "action_ok p \<Longrightarrow> dec_RuleAction (enc_RuleAction p) = Some p"
  by (simp add: action_ok_def dec_RuleAction_def enc_RuleAction_def decoding del: dec_int.simps)

lemma enc_RuleCondition_nonnull [simp]: "enc_RuleCondition p \<noteq> JNull"
  by (simp add: enc_RuleCondition_def)

lemma dec_enc_AutoRuleData: "rule_ok p \<Longrightarrow> dec_AutoRuleData (enc_AutoRuleData p) = Some p"
  by (simp add: rule_ok_def dec_AutoRuleData_def enc_AutoRuleData_def decoding
      dec_enc_RuleCondition dec_enc_RuleAction list_all_iff del: dec_int.simps)

lemma dec_enc_ConfigUpdatePayload:
  "list_all rule_ok (cu_AutoRules p) \<Longrightarrow>
     dec_ConfigUpdatePayload (enc_ConfigUpdatePayload p) = Some p"
  by (simp add: dec_ConfigUpdatePayload_def enc_ConfigUpdatePayload_def decoding
      dec_enc_AutoRuleData list_all_iff)

subsection \<open>The environment\<close>

lemma dec_enc_ptr:
  "(\<And>v. p = Some v \<Longrightarrow> enc v \<noteq> JNull \<and> dec (enc v) = Some v) \<Longrightarrow>
     dec_ptr dec (enc_ptr enc p) = Some p"
  by (cases p) (simp_all add: enc_ptr_def dec_ptr_def)

lemma enc_env_nonnull [simp]:
  "enc_ContainerInfo ks c \<noteq> JNull" "enc_DatabaseInfo d \<noteq> JNull" "enc_ProxyInfo p \<noteq> JNull"
  "enc_HostInfo h \<noteq> JNull"
  by (simp_all add: enc_ContainerInfo_def enc_DatabaseInfo_def enc_ProxyInfo_def enc_HostInfo_def)

lemma range_order_Nil: "range_order m [] \<longleftrightarrow> m = Map.empty"
  by (auto simp: range_order_def)

lemma dec_enc_EnvironmentPayload:
  assumes kc: "range_order (en_Containers p) kc" and kd: "range_order (en_Databases p) kd"
    and kp: "range_order (en_Proxies p) kp"
    and ke: "\<And>k c. en_Containers p k = Some (Some c) \<Longrightarrow> range_order (pk_Env c) (ke c)"
  shows "dec_EnvironmentPayload (enc_EnvironmentPayload kc kd kp ke p) = Some p"
proof -
  have "dec_map (dec_ptr dec_ContainerInfo)
      (enc_map (enc_ptr (\<lambda>c. enc_ContainerInfo (ke c) c)) kc (en_Containers p)) = Some (en_Containers p)"
    using kc by (rule dec_map_enc) (auto intro!: dec_enc_ptr dec_enc_ContainerInfo ke)
  moreover have "dec_map (dec_ptr dec_DatabaseInfo)
      (enc_map (enc_ptr enc_DatabaseInfo) kd (en_Databases p)) = Some (en_Databases p)"
    using kd by (rule dec_map_enc) (auto intro: dec_enc_ptr)
  moreover have "dec_map (dec_ptr dec_ProxyInfo)
      (enc_map (enc_ptr enc_ProxyInfo) kp (en_Proxies p)) = Some (en_Proxies p)"
    using kp by (rule dec_map_enc) (auto intro: dec_enc_ptr)
  ultimately show ?thesis
    using kc kd kp
    by (simp add: dec_EnvironmentPayload_def enc_EnvironmentPayload_def decoding)
       (auto simp: range_order_Nil)
qed

subsection \<open>Messages\<close>

lemma Decode_Encode: "wm_Payload m \<noteq> Some JNull \<Longrightarrow> DecodeMessage (Some (Encode m)) = Some m"
  by (cases "wm_Payload m")
    (simp_all add: DecodeMessage_def Encode_def dec_message_def decoding)

lemma sent_payload:
  assumes "enc p \<noteq> JNull" and "dec (enc p) = Some p"
  shows "Option.bind (DecodeMessage (Some (Encode (NewMessage u now t (Some (enc p))))))
      (ParsePayload zero dec) = Some p"
  using assms by (simp add: Decode_Encode NewMessage_def ParsePayload_def)

end
