(* ===== verification/Owl_WSProps.thy ===== *)
theory Owl_WSProps
  imports Owl_WSServer Owl_HubProps Owl_ProtocolProps Owl_ClusterProps
begin

text \<open>
  The WebSocket server end to end: a command reaches the agent it is meant for with the identifier
  the caller got, an environment report is stored as it was sent, and what a connection change does
  to the agent's record and to the commands that wait for it.
\<close>

lemma upd_agent_agents [owl_state]:
  "mc_agents (upd_agent i f mc) = (mc_agents mc)(i := map_option f (mc_agents mc i))"
  "mc_pendingCommands (upd_agent i f mc) = mc_pendingCommands mc"
  "mc_peers (upd_agent i f mc) = mc_peers mc"
  "mc_commandResults (upd_agent i f mc) = mc_commandResults mc"
  "mc_events (upd_agent i f mc) = mc_events mc"
  by (simp_all add: upd_agent_def)

lemma upd_agent_inv [owl_inv]:
  "cluster_inv mc \<Longrightarrow> (\<And>a. ar_ID (f a) = ar_ID a) \<Longrightarrow> cluster_inv (upd_agent i f mc)"
  by (cases "mc_agents mc i") (auto simp: cluster_inv_def owl_state agents_keyed_def fun_upd_idem)

subsection \<open>Commands\<close>

definition ws_command :: "(gotime \<Rightarrow> string) \<Rightarrow> gotime \<Rightarrow> string \<Rightarrow> string \<Rightarrow> duration \<Rightarrow> command_payload" where
  "ws_command fmt now ty p t = \<lparr>cp_CommandID = ''cmd-'' @ fmt now, cp_Type = ty, cp_Payload = p,
     cp_Timeout = t, cp_Priority = 0\<rparr>"

definition ws_command_msg ::
  "(gotime \<Rightarrow> string) \<Rightarrow> gotime \<Rightarrow> string \<Rightarrow> string \<Rightarrow> string \<Rightarrow> duration \<Rightarrow> ws_message" where
  "ws_command_msg fmt now uuid ty p t =
     NewMessage uuid now MsgTypeCommand (Some (enc_CommandPayload (ws_command fmt now ty p t)))"

lemma ws_SendCommand_alt:
  "ws_SendCommand fmt now uuid a ty p t s =
     (case SendToAgent a (ws_command_msg fmt now uuid ty p t) (sv_hub s) of
        Inl q \<Rightarrow> Inl q
      | Inr (h, sent) \<Rightarrow> Inr (upd_hub h s, if sent then ''cmd-'' @ fmt now else []))"
  by (simp add: ws_SendCommand_def ws_command_msg_def ws_command_def Let_def split: sum.split)

lemma command_msg_decodes:
  assumes "int64_ok t"
  shows "Option.bind (DecodeMessage (Some (Encode (ws_command_msg fmt now uuid ty p t))))
     (ParsePayload zero_CommandPayload dec_CommandPayload) = Some (ws_command fmt now ty p t)"
proof -
  have "dec_CommandPayload (enc_CommandPayload (ws_command fmt now ty p t)) = Some (ws_command fmt now ty p t)"
    using assms by (intro dec_enc_CommandPayload)
      (simp_all add: ws_command_def int64_ok_def min_int64_def max_int64_def)
  then show ?thesis
    unfolding ws_command_msg_def by (intro sent_payload) (simp_all add: enc_CommandPayload_def)
qed


definition ws_a1 :: ws_server where
  "ws_a1 = \<lparr>sv_hub = hub_a1, sv_cluster = witness_cluster\<rparr>"


subsection \<open>Connection changes\<close>

text \<open>When an agent has reconnected, the end of its old connection leaves the new one
  registered and able to receive, but the disconnect callback still runs: the agent's record goes
  to offline while the agent is connected.\<close>

theorem stale_disconnect_marks_offline:
  assumes "wh_unregister (sv_hub s) = old # rest" and "wh_conns (sv_hub s) old = Some cn"
    and "wh_clients (sv_hub s) (wc_AgentID cn) = Some new" and "new \<noteq> old"
    and "wh_onDisconnect (sv_hub s)"
    and "mc_agents (sv_cluster s) (wc_AgentID cn) = Some a"
  shows "GetClient (wc_AgentID cn) (sv_hub (fst (loop_step run_unregister s))) = Some new \<and>
         wh_conns (sv_hub (fst (loop_step run_unregister s))) = wh_conns (sv_hub s) \<and>
         mc_agents (sv_cluster (fst (loop_step run_unregister s))) (wc_AgentID cn) =
           Some (a\<lparr>ar_Status := ''offline''\<rparr>)"
  using assms
  by (simp add: loop_step_def run_unregister_def GetClient_def set_agent_status_def GetAgent_def
      upd_agent_def)

text \<open>Agent a1 connected twice; its first connection ends.\<close>

definition ws_a1_twice :: ws_server where
  "ws_a1_twice =
     \<lparr>sv_hub = NewWSHub\<lparr>wh_onConnect := True, wh_onDisconnect := True, wh_onMessage := True,
        wh_conns := [0 \<mapsto> conn_close (NewWSClientConn 2 ''a1''), 1 \<mapsto> NewWSClientConn 8 ''a1''],
        wh_clients := [''a1'' \<mapsto> 1], wh_unregister := [0]\<rparr>,
      sv_cluster = witness_cluster\<rparr>"

theorem stale_disconnect_marks_offline_witness:
  "IsConnected ''a1'' (sv_hub (fst (loop_step run_unregister ws_a1_twice))) \<and>
   map_option ar_Status (mc_agents (sv_cluster (fst (loop_step run_unregister ws_a1_twice))) ''a1'') =
     Some ''offline''"
  using stale_disconnect_marks_offline[of ws_a1_twice 0 "[]" "conn_close (NewWSClientConn 2 ''a1'')" 1
      "the (mc_agents witness_cluster ''a1'')"]
  by (simp add: ws_a1_twice_def NewWSHub_def IsConnected_def GetClient_def NewWSClientConn_def
      witness_cluster_agents)

text \<open>A registering agent ends up online with the data it sent and an acknowledgement as
  the only message on its new connection; the commands that waited for it in the polling queue are
  taken out of the queue and reach no one.\<close>

theorem accept_drops_waiting_commands:
  assumes "DecodeMessage d = Some msg" and "wm_Type msg = MsgTypeRegister"
    and "ParsePayload zero_RegisterPayload dec_RegisterPayload msg = Some pl"
    and "length (wh_register (sv_hub s)) < 100"
  shows "\<exists>s' changes ack. HandleConnection now c (Some d) s = Some (s', Accepted changes) \<and>
     map_option ar_Status (mc_agents (sv_cluster s') (rp_AgentID pl)) = Some ''online'' \<and>
     map_option ar_Hostname (mc_agents (sv_cluster s') (rp_AgentID pl)) = Some (rp_Hostname pl) \<and>
     map_option wc_SendCh (wh_conns (sv_hub s') c) = Some [ack] \<and>
     wm_Type ack = MsgTypeAck \<and> wm_ID ack = wm_ID msg \<and>
     queue_of (rp_AgentID pl) (sv_cluster s') = []"
proof -
  let ?h1 = "(sv_hub s)\<lparr>wh_conns := (wh_conns (sv_hub s))(c \<mapsto> NewWSClientConn now (rp_AgentID pl)),
                wh_register := wh_register (sv_hub s) @ [c]\<rparr>"
  let ?ack = "NewMessageWithID now (wm_ID msg) MsgTypeAck
     (Some (enc_AckPayload \<lparr>ak_MessageID = wm_ID msg, ak_Success = True, ak_Error = []\<rparr>))"
  let ?cn = "(NewWSClientConn now (rp_AgentID pl))\<lparr>wc_SendCh := [?ack]\<rparr>"
  let ?hb = "HandleHeartbeat now (rp_AgentID pl) (rp_Hostname pl) (rp_IP pl) (rp_Tags pl)
     (rp_Labels pl) ''online'' None (sv_cluster s)"
  have reg: "Register c ((sv_hub s)\<lparr>wh_conns := (wh_conns (sv_hub s))(c \<mapsto> NewWSClientConn now (rp_AgentID pl))\<rparr>) = Some ?h1"
    using assms(4) by (simp add: Register_def hubch_cap_def)
  have ack: "send_ack now c (wm_ID msg) ?h1 = Inr (?h1\<lparr>wh_conns := (wh_conns ?h1)(c \<mapsto> ?cn)\<rparr>)"
    by (simp add: send_ack_def Send_def IsClosed_def NewWSClientConn_def send_to_def try_send_def
        sendch_cap_def)
  have "HandleConnection now c (Some d) s =
     Some (\<lparr>sv_hub = ?h1\<lparr>wh_conns := (wh_conns ?h1)(c \<mapsto> ?cn)\<rparr>, sv_cluster = fst ?hb\<rparr>, Accepted (snd (snd ?hb)))"
    using assms(1-3) reg ack by (simp add: HandleConnection_def Let_def case_prod_unfold)
  then show ?thesis
    by (simp add: owl_state NewMessageWithID_def NewMessage_def)
qed

definition reg_payload :: register_payload where
  "reg_payload = zero_RegisterPayload\<lparr>rp_AgentID := ''a1'', rp_Hostname := ''web''\<rparr>"

definition reg_msg :: ws_message where
  "reg_msg = NewMessage ''u7'' 9 MsgTypeRegister (Some (enc_RegisterPayload [] reg_payload))"

lemma reg_msg_parses:
  "DecodeMessage (Some (Encode reg_msg)) = Some reg_msg"
  "ParsePayload zero_RegisterPayload dec_RegisterPayload reg_msg = Some reg_payload"
  using dec_enc_RegisterPayload[of reg_payload "[]"]
  by (simp_all add: Decode_Encode reg_msg_def NewMessage_def ParsePayload_def enc_RegisterPayload_def
      reg_payload_def zero_RegisterPayload_def)

text \<open>A command waits for a1 when it connects.\<close>

definition ws_waiting :: ws_server where
  "ws_waiting = NewWSServer (fst (SendCommand 8 ''a1'' ''shell'' ''df'' 0 witness_cluster))"

lemma ws_waiting_queue:
  "queue_of ''a1'' (sv_cluster ws_waiting) = [command_of 8 ''a1'' ''shell'' ''df'' 0]"
  by (simp add: ws_waiting_def NewWSServer_def owl_state witness_cluster_agents)
    (simp add: witness_cluster_def owl_state)

theorem accept_drops_waiting_commands_witness:
  "queue_of ''a1'' (sv_cluster ws_waiting) \<noteq> [] \<and>
   (\<exists>s' changes. HandleConnection 9 0 (Some (Some (Encode reg_msg))) ws_waiting = Some (s', Accepted changes) \<and>
      queue_of ''a1'' (sv_cluster s') = [])"
  using accept_drops_waiting_commands[of "Some (Encode reg_msg)" reg_msg reg_payload ws_waiting 9 0]
    reg_msg_parses ws_waiting_queue
  by (auto simp: reg_msg_def NewMessage_def ws_waiting_def NewWSServer_def NewWSHub_def SetOnMessage_def
      SetOnDisconnect_def SetOnConnect_def reg_payload_def)

subsection \<open>Identifiers of broadcast commands\<close>

lemma ws_SendCommand_id:
  "ws_SendCommand fmt now uuid a ty p t s = Inr (s', i) \<Longrightarrow> i = [] \<or> i = ''cmd-'' @ fmt now"
  by (auto simp: ws_SendCommand_alt split: sum.splits prod.splits if_splits)

lemma send_command_all_ids:
  "(\<And>now uuid. (now, uuid) \<in> set clock \<Longrightarrow> fmt now = f) \<Longrightarrow>
     send_command_all fmt clock as ty p t s = Inr (s', ids) \<Longrightarrow> set ids \<subseteq> {''cmd-'' @ f}"
proof (induction clock arbitrary: as s ids)
  case (Cons c clock)
  obtain now uuid where c: "c = (now, uuid)" by force
  have f: "fmt now = f" by (rule Cons.prems(1)[of now uuid]) (simp add: c)
  show ?case
  proof (cases as)
    case (Cons a as')
    with Cons.prems(2) c obtain s1 i ids' where
      "ws_SendCommand fmt now uuid a ty p t s = Inr (s1, i)"
      "send_command_all fmt clock as' ty p t s1 = Inr (s', ids')"
      "ids = (if i \<noteq> [] then [i] else []) @ ids'"
      by (auto split: sum.splits prod.splits)
    moreover from this(2) have "set ids' \<subseteq> {''cmd-'' @ f}"
      by (rule Cons.IH[rotated]) (use Cons.prems(1) in auto)
    ultimately show ?thesis using ws_SendCommand_id f by fastforce
  qed (use Cons.prems c in simp)
qed simp

text \<open>The identifiers \<open>SendCommandToAll\<close> returns for commands sent within one
  millisecond, which the layout of the clock does not tell apart, are all the same, so that the
  results of the agents overwrite each other.\<close>

theorem command_ids_collide:
  assumes "\<forall>u v. u div Millisecond = v div Millisecond \<longrightarrow> fmt u = fmt v"
    and "\<forall>now uuid. (now, uuid) \<in> set clock \<longrightarrow> now div Millisecond = ms"
    and "SendCommandToAll fmt clock ks ty p t s = Inr (s', ids)"
    and "i \<in> set ids" "j \<in> set ids"
  shows "i = j"
proof -
  have "fmt now = fmt (ms * Millisecond)" if "(now, uuid) \<in> set clock" for now uuid
    using assms(1)[rule_format, of now "ms * Millisecond"] assms(2) that by simp
  then have "set ids \<subseteq> {''cmd-'' @ fmt (ms * Millisecond)}"
    by (rule send_command_all_ids) (use assms(3) in \<open>simp_all add: SendCommandToAll_def GetConnectedAgents_def\<close>)
  with assms(4,5) show ?thesis by auto
qed

definition ws_two :: ws_server where
  "ws_two =
     \<lparr>sv_hub = NewWSHub\<lparr>wh_conns := [0 \<mapsto> NewWSClientConn 2 ''a1'', 1 \<mapsto> NewWSClientConn 3 ''a2''],
        wh_clients := [''a1'' \<mapsto> 0, ''a2'' \<mapsto> 1]\<rparr>,
      sv_cluster = witness_cluster\<rparr>"

lemma show_zero: "show_int 0 = ''0''"
  by code_simp

lemma ws_two_sent:
  "\<exists>s'. SendCommandToAll (\<lambda>t. show_int (t div Millisecond)) [(5, ''u''), (6, ''v'')] [''a1'', ''a2''] ''shell''
     ''df'' 0 ws_two = Inr (s', [''cmd-0'', ''cmd-0''])"
  by (simp add: SendCommandToAll_def GetConnectedAgents_def ws_SendCommand_alt ws_two_def
      SendToAgent_def send_to_def try_send_def sendch_cap_def NewWSClientConn_def show_zero)

theorem command_ids_collide_witness:
  "\<exists>s' i j. SendCommandToAll (\<lambda>t. show_int (t div Millisecond)) [(5, ''u''), (6, ''v'')] [''a1'', ''a2'']
     ''shell'' ''df'' 0 ws_two = Inr (s', [i, j]) \<and> i = j"
proof -
  obtain s' where sent: "SendCommandToAll (\<lambda>t. show_int (t div Millisecond)) [(5, ''u''), (6, ''v'')]
      [''a1'', ''a2''] ''shell'' ''df'' 0 ws_two = Inr (s', [''cmd-0'', ''cmd-0''])"
    using ws_two_sent by blast
  have "(CHR ''c'' # ''md-0'') = ''cmd-0''"
    by (rule command_ids_collide[OF _ _ sent, of 0]) auto
  with sent show ?thesis by blast
qed

subsection \<open>Environment reports\<close>

lemma convert_entries_ok:
  "(\<And>k. k \<in> set ks \<Longrightarrow> m k \<noteq> Some None) \<Longrightarrow>
     convert_entries f m ks acc =
       Inr (\<lambda>k. if k \<in> set ks then (case m k of Some (Some v) \<Rightarrow> Some (f v) | _ \<Rightarrow> acc k) else acc k)"
proof (induction ks arbitrary: acc)
  case (Cons k ks)
  then have "m k \<noteq> Some None" by simp
  with Cons show ?case by (auto simp: fun_eq_iff split: option.split)
qed simp

lemma convert_entries_full:
  "range_order m ks \<Longrightarrow> None \<notin> ran m \<Longrightarrow>
     convert_entries f m ks Map.empty = Inr (\<lambda>k. case m k of Some (Some v) \<Rightarrow> Some (f v) | _ \<Rightarrow> None)"
  by (subst convert_entries_ok)
    (auto simp: range_order_def fun_eq_iff ran_def dom_def split: option.split)

lemma convert_entries_nil:
  "k \<in> set ks \<Longrightarrow> m k = Some None \<Longrightarrow> convert_entries f m ks acc = Inl NilDeref"
  by (induction ks arbitrary: acc) (auto split: option.split)

definition env_msg :: "string \<Rightarrow> gotime \<Rightarrow> string list \<Rightarrow> string list \<Rightarrow> string list \<Rightarrow>
    (container \<Rightarrow> string list) \<Rightarrow> environment_payload \<Rightarrow> ws_message" where
  "env_msg uuid now kc kd kp ke p =
     NewMessage uuid now MsgTypeEnvironment (Some (enc_EnvironmentPayload kc kd kp ke p))"

lemma env_msg_parses:
  assumes "range_order (en_Containers p) kc" and "range_order (en_Databases p) kd"
    and "range_order (en_Proxies p) kp"
    and "\<forall>k c. en_Containers p k = Some (Some c) \<longrightarrow> range_order (pk_Env c) (ke c)"
  shows "ParsePayload zero_EnvironmentPayload dec_EnvironmentPayload (env_msg uuid now kc kd kp ke p) = Some p"
  using dec_enc_EnvironmentPayload[OF assms(1-3), of ke] assms(4)
  by (simp add: ParsePayload_def env_msg_def NewMessage_def)

lemma convert_some:
  "None \<notin> ran m \<Longrightarrow> (case m k of Some (Some v) \<Rightarrow> Some (f v) | _ \<Rightarrow> None) = map_option (f \<circ> the) (m k)"
  by (auto simp: ran_def split: option.split)

text \<open>An environment report, encoded by the agent in any order of its keys and handled by
  the master in any visiting order, becomes the environment of the agent's record entry by entry,
  and every other agent keeps its own; a report with a null entry makes the master panic.\<close>

theorem environment_report_stored:
  assumes "range_order (en_Containers p) kc" and "range_order (en_Databases p) kd"
    and "range_order (en_Proxies p) kp"
    and "\<forall>k c. en_Containers p k = Some (Some c) \<longrightarrow> range_order (pk_Env c) (ke c)"
    and "range_order (en_Containers p) vc" and "range_order (en_Databases p) vd"
    and "range_order (en_Proxies p) vp"
  shows "(None \<notin> ran (en_Containers p) \<and> None \<notin> ran (en_Databases p) \<and> None \<notin> ran (en_Proxies p) \<longrightarrow>
     (\<exists>s' env. handleMessage now vc vd vp a (env_msg uuid sent kc kd kp ke p) s = Inr s' \<and>
        GetAgentEnvironment a (sv_cluster s') = Some env \<and>
        ae_UpdatedAt env = en_UpdatedAt p \<and> eh_Hostname (ae_Host env) = ph_Hostname (en_Host p) \<and>
        (\<forall>k. ae_Containers env k = map_option (to_container_info \<circ> the) (en_Containers p k)) \<and>
        (\<forall>k. ae_Databases env k = map_option (to_database_info \<circ> the) (en_Databases p k)) \<and>
        (\<forall>k. ae_Proxies env k = map_option (to_proxy_info \<circ> the) (en_Proxies p k)) \<and>
        (\<forall>b. b \<noteq> a \<longrightarrow> GetAgentEnvironment b (sv_cluster s') = GetAgentEnvironment b (sv_cluster s)))) \<and>
   (None \<in> ran (en_Containers p) \<longrightarrow>
      handleMessage now vc vd vp a (env_msg uuid sent kc kd kp ke p) s = Inl NilDeref)"
proof (intro conjI impI)
  have h: "handleMessage now vc vd vp a (env_msg uuid sent kc kd kp ke p) s =
      ws_handleEnvironment now vc vd vp a (env_msg uuid sent kc kd kp ke p) s"
    by (simp add: handleMessage_def env_msg_def NewMessage_def msg_types)
  note parse = env_msg_parses[OF assms(1-4)]
  {
    assume "None \<notin> ran (en_Containers p) \<and> None \<notin> ran (en_Databases p) \<and> None \<notin> ran (en_Proxies p)"
    then have no: "None \<notin> ran (en_Containers p)" "None \<notin> ran (en_Databases p)" "None \<notin> ran (en_Proxies p)"
      by auto
    show "\<exists>s' env. handleMessage now vc vd vp a (env_msg uuid sent kc kd kp ke p) s = Inr s' \<and>
        GetAgentEnvironment a (sv_cluster s') = Some env \<and>
        ae_UpdatedAt env = en_UpdatedAt p \<and> eh_Hostname (ae_Host env) = ph_Hostname (en_Host p) \<and>
        (\<forall>k. ae_Containers env k = map_option (to_container_info \<circ> the) (en_Containers p k)) \<and>
        (\<forall>k. ae_Databases env k = map_option (to_database_info \<circ> the) (en_Databases p k)) \<and>
        (\<forall>k. ae_Proxies env k = map_option (to_proxy_info \<circ> the) (en_Proxies p k)) \<and>
        (\<forall>b. b \<noteq> a \<longrightarrow> GetAgentEnvironment b (sv_cluster s') = GetAgentEnvironment b (sv_cluster s))"
      using no
      by (simp add: h ws_handleEnvironment_def parse convert_entries_full[OF assms(5)]
          convert_entries_full[OF assms(6)] convert_entries_full[OF assms(7)]
          HandleAgentEnvironment_def GetAgentEnvironment_def Let_def convert_some)
  }
  assume "None \<in> ran (en_Containers p)"
  then obtain k where k: "en_Containers p k = Some None" by (auto simp: ran_def)
  then have "k \<in> set vc" using assms(5) by (auto simp: range_order_def)
  with k show "handleMessage now vc vd vp a (env_msg uuid sent kc kd kp ke p) s = Inl NilDeref"
    by (simp add: h ws_handleEnvironment_def parse convert_entries_nil)
qed

definition env_example :: environment_payload where
  "env_example = zero_EnvironmentPayload\<lparr>en_AgentID := ''a1'', en_UpdatedAt := ''now'',
     en_Databases := [''pg'' \<mapsto> Some (zero_DatabaseInfo\<lparr>pd_Type := ''postgres''\<rparr>)]\<rparr>"

theorem environment_report_stored_witness:
  "\<exists>s' env. handleMessage 9 [] [''pg''] [] ''a1'' (env_msg ''u'' 8 [] [''pg''] [] (\<lambda>_. []) env_example) ws_a1 = Inr s' \<and>
     GetAgentEnvironment ''a1'' (sv_cluster s') = Some env \<and>
     map_option di_Type (ae_Databases env ''pg'') = Some ''postgres''"
  using environment_report_stored[of env_example "[]" "[''pg'']" "[]" "\<lambda>_. []" "[]" "[''pg'']" "[]"
      9 "''a1''" "''u''" 8 ws_a1]
  by (auto simp: env_example_def zero_EnvironmentPayload_def range_order_def to_database_info_def)

end
