(* ===== verification/Owl_API.thy ===== *)
theory Owl_API
  imports Owl_WSServer
begin

text \<open>
  \<open>internal/cluster/agent_api.go\<close>: the HTTP interface of a master for agents, peers and
  operators. A request is its method, its query parameters and its body (\<open>None\<close> when the body is
  empty or not JSON); the answer is a status, a JSON value or, when the handler panics, an aborted
  connection. The state is the server of \<open>Owl_WSServer\<close>, which holds the cluster. Handlers whose
  Go name is taken there carry the prefix \<open>api_\<close>.
\<close>

datatype 'a response = HttpError nat | Ok 'a | Aborted go_panic

definition MethodPost :: string where "MethodPost = ''POST''"
definition MethodGet :: string where "MethodGet = ''GET''"
definition StatusMethodNotAllowed :: nat where "StatusMethodNotAllowed = 405"
definition StatusBadRequest :: nat where "StatusBadRequest = 400"

subsection \<open>Request bodies\<close>

definition dec_body :: "(json \<Rightarrow> 'a option) \<Rightarrow> json option \<Rightarrow> 'a option" where
  "dec_body dec body = Option.bind body dec"

definition dec_AgentMetrics :: "json \<Rightarrow> agent_metrics option" where
  "dec_AgentMetrics j = do {
     o' \<leftarrow> struct_fields j;
     x0 \<leftarrow> field 0 dec_float ''cpu_usage'' o';
     x1 \<leftarrow> field 0 dec_float ''memory_usage'' o';
     x2 \<leftarrow> field 0 dec_float ''disk_usage'' o';
     x3 \<leftarrow> field 0 dec_float ''load_avg_1'' o';
     x4 \<leftarrow> field 0 dec_int ''uptime'' o';
     x5 \<leftarrow> field zero_time dec_time ''timestamp'' o';
     Some \<lparr>am_CPUUsage = x0, am_MemoryUsage = x1, am_DiskUsage = x2, am_LoadAvg1 = x3,
           am_Uptime = x4, am_Timestamp = x5\<rparr> }"

record heartbeat_request =
  hr_AgentID :: string
  hr_Hostname :: string
  hr_IP :: string
  hr_Tags :: "string list"
  hr_Labels :: "string \<rightharpoonup> string"
  hr_Status :: string
  hr_Metrics :: "agent_metrics option"
  hr_Timestamp :: gotime

definition dec_HeartbeatRequest :: "json \<Rightarrow> heartbeat_request option" where
  "dec_HeartbeatRequest j = do {
     o' \<leftarrow> struct_fields j;
     x0 \<leftarrow> field [] dec_string ''agent_id'' o';
     x1 \<leftarrow> field [] dec_string ''hostname'' o';
     x2 \<leftarrow> field [] dec_string ''ip'' o';
     x3 \<leftarrow> field [] (dec_list dec_string) ''tags'' o';
     x4 \<leftarrow> field Map.empty (dec_map dec_string) ''labels'' o';
     x5 \<leftarrow> field [] dec_string ''status'' o';
     x6 \<leftarrow> field None (dec_ptr dec_AgentMetrics) ''metrics'' o';
     x7 \<leftarrow> field zero_time dec_time ''timestamp'' o';
     Some \<lparr>hr_AgentID = x0, hr_Hostname = x1, hr_IP = x2, hr_Tags = x3, hr_Labels = x4,
           hr_Status = x5, hr_Metrics = x6, hr_Timestamp = x7\<rparr> }"

record heartbeat_response =
  hs_Success :: bool
  hs_MasterID :: string
  hs_Timestamp :: gotime
  hs_Commands :: "pending_command list"

definition dec_CommandResult :: "json \<Rightarrow> command_result option" where
  "dec_CommandResult j = do {
     o' \<leftarrow> struct_fields j;
     x0 \<leftarrow> field [] dec_string ''command_id'' o';
     x1 \<leftarrow> field [] dec_string ''agent_id'' o';
     x2 \<leftarrow> field False dec_bool ''success'' o';
     x3 \<leftarrow> field [] dec_string ''output'' o';
     x4 \<leftarrow> field [] dec_string ''error'' o';
     x5 \<leftarrow> field 0 dec_int ''exit_code'' o';
     x6 \<leftarrow> field 0 dec_int ''duration'' o';
     x7 \<leftarrow> field zero_time dec_time ''timestamp'' o';
     Some \<lparr>cr_CommandID = x0, cr_AgentID = x1, cr_Success = x2, cr_Output = x3, cr_Error = x4,
           cr_ExitCode = x5, cr_Duration = x6, cr_Timestamp = x7\<rparr> }"

definition dec_AgentEvent :: "json \<Rightarrow> agent_event option" where
  "dec_AgentEvent j = do {
     o' \<leftarrow> struct_fields j;
     x0 \<leftarrow> field [] dec_string ''agent_id'' o';
     x1 \<leftarrow> field [] dec_string ''rule_id'' o';
     x2 \<leftarrow> field [] dec_string ''rule_name'' o';
     x3 \<leftarrow> field [] dec_string ''condition'' o';
     x4 \<leftarrow> field [] dec_string ''action'' o';
     x5 \<leftarrow> field False dec_bool ''success'' o';
     x6 \<leftarrow> field [] dec_string ''output'' o';
     x7 \<leftarrow> field [] dec_string ''error'' o';
     x8 \<leftarrow> field zero_time dec_time ''timestamp'' o';
     Some \<lparr>ev_AgentID = x0, ev_RuleID = x1, ev_RuleName = x2, ev_Condition = x3, ev_Action = x4,
           ev_Success = x5, ev_Output = x6, ev_Error = x7, ev_Timestamp = x8\<rparr> }"

record events_request =
  eq_AgentID :: string
  eq_Events :: "agent_event option list"

definition dec_EventsRequest :: "json \<Rightarrow> events_request option" where
  "dec_EventsRequest j = do {
     o' \<leftarrow> struct_fields j;
     x0 \<leftarrow> field [] dec_string ''agent_id'' o';
     x1 \<leftarrow> field [] (dec_list (dec_ptr dec_AgentEvent)) ''events'' o';
     Some \<lparr>eq_AgentID = x0, eq_Events = x1\<rparr> }"

definition dec_MasterInfo :: "json \<Rightarrow> master_info option" where
  "dec_MasterInfo j = do {
     o' \<leftarrow> struct_fields j;
     x0 \<leftarrow> field [] dec_string ''id'' o';
     x1 \<leftarrow> field [] dec_string ''name'' o';
     x2 \<leftarrow> field [] dec_string ''addr'' o';
     x3 \<leftarrow> field [] dec_string ''role'' o';
     x4 \<leftarrow> field zero_time dec_time ''start_time'' o';
     x5 \<leftarrow> field zero_time dec_time ''last_seen'' o';
     Some \<lparr>mi_ID = x0, mi_Name = x1, mi_Addr = x2, mi_Role = x3, mi_StartTime = x4,
           mi_LastSeen = x5\<rparr> }"

record send_command_request =
  sq_AgentID :: string
  sq_Tag :: string
  sq_Type :: string
  sq_Payload :: string
  sq_Timeout :: int

definition dec_SendCommandRequest :: "json \<Rightarrow> send_command_request option" where
  "dec_SendCommandRequest j = do {
     o' \<leftarrow> struct_fields j;
     x0 \<leftarrow> field [] dec_string ''agent_id'' o';
     x1 \<leftarrow> field [] dec_string ''tag'' o';
     x2 \<leftarrow> field [] dec_string ''type'' o';
     x3 \<leftarrow> field [] dec_string ''payload'' o';
     x4 \<leftarrow> field 0 dec_int ''timeout'' o';
     Some \<lparr>sq_AgentID = x0, sq_Tag = x1, sq_Type = x2, sq_Payload = x3, sq_Timeout = x4\<rparr> }"

record send_command_response =
  sr_Success :: bool
  sr_CommandIDs :: "string list"
  sr_Error :: string

definition dec_ForwardCommandRequest :: "json \<Rightarrow> forward_request option" where
  "dec_ForwardCommandRequest j = do {
     o' \<leftarrow> struct_fields j;
     x0 \<leftarrow> field [] dec_string ''agent_id'' o';
     x1 \<leftarrow> field [] dec_string ''type'' o';
     x2 \<leftarrow> field [] dec_string ''payload'' o';
     x3 \<leftarrow> field 0 dec_int ''timeout'' o';
     Some \<lparr>fr_AgentID = x0, fr_Type = x1, fr_Payload = x2, fr_Timeout = x3\<rparr> }"

subsection \<open>Agents\<close>

definition api_handleHeartbeat ::
  "gotime \<Rightarrow> string \<Rightarrow> json option \<Rightarrow> ws_server \<Rightarrow>
   ws_server \<times> status_change list \<times> heartbeat_response response" where
  "api_handleHeartbeat now meth body s =
     (if meth \<noteq> MethodPost then (s, [], HttpError StatusMethodNotAllowed)
      else case dec_body dec_HeartbeatRequest body of
             None \<Rightarrow> (s, [], HttpError StatusBadRequest)
           | Some req \<Rightarrow>
               (let (mc, commands, changes) =
                      HandleHeartbeat now (hr_AgentID req) (hr_Hostname req) (hr_IP req) (hr_Tags req)
                        (hr_Labels req) (hr_Status req) (hr_Metrics req) (sv_cluster s)
                in (s\<lparr>sv_cluster := mc\<rparr>, changes,
                    Ok \<lparr>hs_Success = True, hs_MasterID = mi_ID (GetSelf mc), hs_Timestamp = now,
                        hs_Commands = commands\<rparr>)))"

definition api_handleCommandResult :: "string \<Rightarrow> json option \<Rightarrow> ws_server \<Rightarrow> ws_server \<times> bool response" where
  "api_handleCommandResult meth body s =
     (if meth \<noteq> MethodPost then (s, HttpError StatusMethodNotAllowed)
      else case dec_body dec_CommandResult body of
             None \<Rightarrow> (s, HttpError StatusBadRequest)
           | Some result \<Rightarrow> (upd_cluster (HandleCommandResult result) s, Ok True))"

definition api_handleEvents :: "string \<Rightarrow> json option \<Rightarrow> ws_server \<Rightarrow> ws_server \<times> bool response" where
  "api_handleEvents meth body s =
     (if meth \<noteq> MethodPost then (s, HttpError StatusMethodNotAllowed)
      else case dec_body dec_EventsRequest body of
             None \<Rightarrow> (s, HttpError StatusBadRequest)
           | Some req \<Rightarrow>
               (let (mc, p) = HandleAgentEvents (eq_AgentID req) (eq_Events req) (sv_cluster s)
                in (s\<lparr>sv_cluster := mc\<rparr>, case p of None \<Rightarrow> Ok True | Some e \<Rightarrow> Aborted e)))"

definition handleHealth :: "ws_server \<Rightarrow> string \<times> string \<times> string" where
  "handleHealth s = (''ok'', mi_ID (GetSelf (sv_cluster s)), mi_Role (GetSelf (sv_cluster s)))"

subsection \<open>Peers\<close>

definition handleMasterHeartbeat ::
  "gotime \<Rightarrow> string \<Rightarrow> json option \<Rightarrow> ws_server \<Rightarrow> ws_server \<times> master_info response" where
  "handleMasterHeartbeat now meth body s =
     (if meth \<noteq> MethodPost then (s, HttpError StatusMethodNotAllowed)
      else case dec_body dec_MasterInfo body of
             None \<Rightarrow> (s, HttpError StatusBadRequest)
           | Some peer \<Rightarrow>
               (upd_cluster (AddPeer (peer\<lparr>mi_LastSeen := now\<rparr>)) s, Ok (GetSelf (sv_cluster s))))"

definition handleMasterAgents :: "string list \<Rightarrow> string \<Rightarrow> ws_server \<Rightarrow> agent_record list response" where
  "handleMasterAgents ks meth s =
     (if meth \<noteq> MethodGet then HttpError StatusMethodNotAllowed else Ok (ListAgents ks (sv_cluster s)))"

definition handleListAgents :: "string list \<Rightarrow> string \<Rightarrow> string \<Rightarrow> string \<Rightarrow> ws_server \<Rightarrow> agent_record list response" where
  "handleListAgents ks meth tag status s =
     (if meth \<noteq> MethodGet then HttpError StatusMethodNotAllowed
      else Ok (if tag \<noteq> [] then GetAgentsByTag ks tag (sv_cluster s)
               else if status = ''online'' then GetOnlineAgents ks (sv_cluster s)
               else ListAgents ks (sv_cluster s)))"

subsection \<open>Commands\<close>

text \<open>\<open>time.Duration(n) * time.Second\<close> wraps around.\<close>

definition seconds :: "int \<Rightarrow> duration" where
  "seconds n = wrap64 (n * Second)"

text \<open>The commands of one request: \<open>clk\<close> and \<open>uuid\<close> give the time and the message identifier of the
  n-th. A panic leaves what was sent before it.\<close>

definition add_ids :: "string list \<Rightarrow> ws_server \<times> string list \<times> go_panic option \<Rightarrow>
    ws_server \<times> string list \<times> go_panic option" where
  "add_ids ids r = (fst r, ids @ fst (snd r), snd (snd r))"

fun send_to_agents ::
  "(gotime \<Rightarrow> string) \<Rightarrow> (nat \<Rightarrow> gotime) \<Rightarrow> (nat \<Rightarrow> string) \<Rightarrow> nat \<Rightarrow> string \<Rightarrow> string \<Rightarrow> duration \<Rightarrow>
   agent_record list \<Rightarrow> ws_server \<Rightarrow> ws_server \<times> string list \<times> go_panic option" where
  "send_to_agents fmt clk uuid n ty p t [] s = (s, [], None)"
| "send_to_agents fmt clk uuid n ty p t (agent # as) s =
     (let fallback = (\<lambda>s1.
            let (mc, r) = SendCommand (clk n) (ar_ID agent) ty p t (sv_cluster s1)
            in add_ids (case r of Inl _ \<Rightarrow> [] | Inr i \<Rightarrow> [i])
                 (send_to_agents fmt clk uuid (Suc n) ty p t as (s1\<lparr>sv_cluster := mc\<rparr>)))
      in if IsConnected (ar_ID agent) (sv_hub s)
         then (case ws_SendCommand fmt (clk n) (uuid n) (ar_ID agent) ty p t s of
                 Inl e \<Rightarrow> (s, [], Some e)
               | Inr (s1, i) \<Rightarrow>
                   if i \<noteq> []
                   then add_ids [i] (send_to_agents fmt clk uuid (Suc n) ty p t as s1)
                   else fallback s1)
         else fallback s)"

definition handleSendCommand ::
  "(gotime \<Rightarrow> string) \<Rightarrow> (nat \<Rightarrow> gotime) \<Rightarrow> (nat \<Rightarrow> string) \<Rightarrow> string list \<Rightarrow> string \<Rightarrow> json option \<Rightarrow>
   ws_server \<Rightarrow> ws_server \<times> send_command_response response" where
  "handleSendCommand fmt clk uuid ks meth body s =
     (if meth \<noteq> MethodPost then (s, HttpError StatusMethodNotAllowed)
      else case dec_body dec_SendCommandRequest body of
             None \<Rightarrow> (s, HttpError StatusBadRequest)
           | Some req \<Rightarrow>
               (let timeout = (if seconds (sq_Timeout req) = 0 then 5 * Minute else seconds (sq_Timeout req));
                    agents = (if sq_AgentID req \<noteq> []
                              then (case GetAgent (sq_AgentID req) (sv_cluster s) of
                                      None \<Rightarrow> [] | Some a \<Rightarrow> [a])
                              else if sq_Tag req \<noteq> [] then GetAgentsByTag ks (sq_Tag req) (sv_cluster s)
                              else [])
                in case send_to_agents fmt clk uuid 0 (sq_Type req) (sq_Payload req) timeout agents s of
                     (s', _, Some e) \<Rightarrow> (s', Aborted e)
                   | (s', ids, None) \<Rightarrow>
                       (s', Ok \<lparr>sr_Success = (ids \<noteq> []), sr_CommandIDs = ids,
                                sr_Error = (if ids = [] then ''no agents found or command send failed''
                                            else [])\<rparr>)))"

definition api_SendRefreshEnv :: "gotime \<Rightarrow> string \<Rightarrow> string \<Rightarrow> ws_server \<Rightarrow> ws_server go" where
  "api_SendRefreshEnv now uuid agentID s = ws_SendRefreshEnv now uuid agentID s"

definition api_BroadcastRefreshEnv :: "gotime \<Rightarrow> string \<Rightarrow> ws_server \<Rightarrow> ws_server option" where
  "api_BroadcastRefreshEnv now uuid s = ws_BroadcastRefreshEnv now uuid s"

definition handleCleanupOffline :: "string list \<Rightarrow> string \<Rightarrow> ws_server \<Rightarrow> ws_server \<times> nat response" where
  "handleCleanupOffline ks meth s =
     (if meth \<noteq> MethodPost then (s, HttpError StatusMethodNotAllowed)
      else (let (mc, count) = RemoveOfflineAgents ks (sv_cluster s) in (s\<lparr>sv_cluster := mc\<rparr>, Ok count)))"

definition handleForwardCommand ::
  "(gotime \<Rightarrow> string) \<Rightarrow> gotime \<Rightarrow> string \<Rightarrow> string \<Rightarrow> json option \<Rightarrow> ws_server \<Rightarrow>
   ws_server \<times> forward_response response" where
  "handleForwardCommand fmt now uuid meth body s =
     (if meth \<noteq> MethodPost then (s, HttpError StatusMethodNotAllowed)
      else case dec_body dec_ForwardCommandRequest body of
             None \<Rightarrow> (s, HttpError StatusBadRequest)
           | Some req \<Rightarrow>
               (let timeout = (if seconds (fr_Timeout req) = 0 then 30 * Second else seconds (fr_Timeout req))
                in if IsConnected (fr_AgentID req) (sv_hub s)
                   then (case ws_SendCommand fmt now uuid (fr_AgentID req) (fr_Type req) (fr_Payload req) timeout s of
                           Inl e \<Rightarrow> (s, Aborted e)
                         | Inr (s', i) \<Rightarrow> (s', Ok \<lparr>fs_Success = True, fs_CommandID = i, fs_Error = []\<rparr>))
                   else (let (mc, r) = SendCommand now (fr_AgentID req) (fr_Type req) (fr_Payload req) timeout
                                        (sv_cluster s)
                         in case r of
                              Inl err \<Rightarrow> (s, Ok \<lparr>fs_Success = False, fs_CommandID = [], fs_Error = err\<rparr>)
                            | Inr i \<Rightarrow> (s\<lparr>sv_cluster := mc\<rparr>,
                                        Ok \<lparr>fs_Success = True, fs_CommandID = i, fs_Error = []\<rparr>))))"

definition zero_command_result :: command_result where
  "zero_command_result = \<lparr>cr_CommandID = [], cr_AgentID = [], cr_Success = False, cr_Output = [],
     cr_Error = [], cr_ExitCode = 0, cr_Duration = 0, cr_Timestamp = zero_time\<rparr>"

definition handlePeerCommandResult :: "string \<Rightarrow> string \<Rightarrow> ws_server \<Rightarrow> command_result response" where
  "handlePeerCommandResult meth cmdID s =
     (if meth \<noteq> MethodGet then HttpError StatusMethodNotAllowed
      else if cmdID = [] then HttpError StatusBadRequest
      else Ok (case GetCommandResult cmdID (sv_cluster s) of
                 None \<Rightarrow> zero_command_result | Some result \<Rightarrow> result))"

end
