(* ===== verification/Owl_APIProps.thy ===== *)
theory Owl_APIProps
  imports Owl_API Owl_WSProps
begin

text \<open>
  The HTTP interface: requests it refuses change nothing, a command goes to every addressed agent by
  exactly one of the two routes, and the heartbeat masters exchange.
\<close>

subsection \<open>Refused requests\<close>

text \<open>A request with the wrong method or a body that does not decode is answered with
  status 405 or 400 and leaves the master as it was, for every handler that changes its state.\<close>

theorem refused_requests:
  "m \<noteq> ''POST'' \<Longrightarrow>
     api_handleHeartbeat now m body s = (s, [], HttpError 405) \<and>
     api_handleCommandResult m body s = (s, HttpError 405) \<and>
     api_handleEvents m body s = (s, HttpError 405) \<and>
     handleMasterHeartbeat now m body s = (s, HttpError 405) \<and>
     handleSendCommand fmt clk uuid ks m body s = (s, HttpError 405) \<and>
     handleForwardCommand fmt now u m body s = (s, HttpError 405) \<and>
     handleCleanupOffline ks m s = (s, HttpError 405) \<and>
     api_handleHeartbeat now ''POST'' None s = (s, [], HttpError 400) \<and>
     api_handleCommandResult ''POST'' None s = (s, HttpError 400) \<and>
     api_handleEvents ''POST'' None s = (s, HttpError 400) \<and>
     handleMasterHeartbeat now ''POST'' None s = (s, HttpError 400) \<and>
     handleSendCommand fmt clk uuid ks ''POST'' None s = (s, HttpError 400) \<and>
     handleForwardCommand fmt now u ''POST'' None s = (s, HttpError 400)"
  by (simp add: api_handleHeartbeat_def api_handleCommandResult_def api_handleEvents_def
      handleMasterHeartbeat_def handleSendCommand_def handleForwardCommand_def
      handleCleanupOffline_def MethodPost_def StatusMethodNotAllowed_def StatusBadRequest_def
      dec_body_def)

theorem refused_requests_witness: "handleCleanupOffline [] ''GET'' ws_a1 = (ws_a1, HttpError 405)"
  using refused_requests[of "''GET''" 0 None ws_a1 "\<lambda>_. []" "\<lambda>_. 0" "\<lambda>_. []" "[]" "[]"] by simp

subsection \<open>The heartbeat between masters\<close>

text \<open>The request a master sends to a peer when it synchronises carries no body, so the
  peer refuses it and never learns of the sender; the sender marks the peer as seen all the same.\<close>

theorem peer_heartbeat_refused:
  assumes "mc_peers mc k = Some peer"
  shows "handleMasterHeartbeat now ''POST'' (map_option enc (snd (sync_request peer))) s = (s, HttpError 400) \<and>
    map_option mi_LastSeen (mc_peers (fst (syncWithPeer now (Answered None) k mc)) k) = Some now"
  using assms
  by (simp add: sync_request_def handleMasterHeartbeat_def MethodPost_def dec_body_def
      StatusBadRequest_def syncWithPeer_def syncAgentsFromPeer_def)

definition mc_with_peer :: master_cluster where
  "mc_with_peer = AddPeer \<lparr>mi_ID = ''m2'', mi_Name = ''b'', mi_Addr = ''m2:80'', mi_Role = MasterRoleActive,
      mi_StartTime = 0, mi_LastSeen = 0\<rparr> (NewMasterCluster 5 ''m1'' ''a'' ''m1:80'')"

theorem peer_heartbeat_refused_witness:
  "map_option mi_LastSeen (mc_peers (fst (syncWithPeer 9 (Answered None) ''m2'' mc_with_peer)) ''m2'') = Some 9"
  using peer_heartbeat_refused[of mc_with_peer "''m2''" _ 9 "\<lambda>_. JNull" ws_a1]
  by (simp add: mc_with_peer_def AddPeer_def NewMasterCluster_def sync_request_def)

subsection \<open>Commands from operators\<close>

lemma SendToAgent_clients:
  "SendToAgent a m h = Inr (h', r) \<Longrightarrow> wh_clients h' = wh_clients h"
  using SendToAgent_same by (fastforce simp: same_hub_def)

definition clients_open :: "ws_hub \<Rightarrow> bool" where
  "clients_open h \<longleftrightarrow> (\<forall>k c. wh_clients h k = Some c \<longrightarrow>
     (\<exists>cn. wh_conns h c = Some cn \<and> \<not> wc_closed cn))"

lemma clients_open_same:
  assumes "same_hub h h'" and "clients_open h"
  shows "clients_open h'"
  unfolding clients_open_def
proof (intro allI impI)
  fix k c assume "wh_clients h' k = Some c"
  with assms obtain cn where cn: "wh_conns h c = Some cn" "\<not> wc_closed cn"
    unfolding clients_open_def same_hub_def by metis
  from assms(1) have "same_conns (wh_conns h) (wh_conns h')" by (simp add: same_hub_def)
  from same_connsD(2)[OF this cn(1)] cn(2) show "\<exists>cn. wh_conns h' c = Some cn \<and> \<not> wc_closed cn"
    by (auto simp: same_conn_def)
qed

lemma reachable_clients_open: "hub_reachable False h \<Longrightarrow> clients_open h"
  using open_clients by (auto simp: clients_open_def)

text \<open>What a send to a connected agent does when its connection is open.\<close>

lemma ws_SendCommand_open:
  assumes "clients_open (sv_hub s)"
  obtains h i where "ws_SendCommand fmt now u a ty p t s = Inr (upd_hub h s, i)" "same_hub (sv_hub s) h"
    "i = [] \<or> i = ''cmd-'' @ fmt now"
proof (cases "wh_clients (sv_hub s) a")
  case None
  then show ?thesis
    using that[of "sv_hub s" "[]"] by (simp add: ws_SendCommand_alt SendToAgent_def)
next
  case (Some c)
  with assms obtain cn where "wh_conns (sv_hub s) c = Some cn" "\<not> wc_closed cn"
    by (auto simp: clients_open_def)
  from send_open[OF this, of "ws_command_msg fmt now u ty p t"] obtain h r where
    r: "send_to c (ws_command_msg fmt now u ty p t) (sv_hub s) = Inr (h, r)" by blast
  show ?thesis
    by (rule that[of h "if r then ''cmd-'' @ fmt now else []"])
      (use Some r send_to_same[OF r] in \<open>auto simp: ws_SendCommand_alt SendToAgent_def split: if_splits\<close>)
qed

lemma SendCommand_known:
  "mc_agents mc i \<noteq> None \<Longrightarrow> \<exists>mc'. SendCommand now i ty p t mc = (mc', Inr (''cmd-'' @ show_int (unix_nano now)))
     \<and> mc_agents mc' = mc_agents mc"
  by (simp add: SendCommand_def Let_def)

text \<open>The commands a run of \<open>send_to_agents\<close> adds to the polling queue of agent k.\<close>

lemma send_to_agents_spec:
  assumes "clients_open (sv_hub s)" and "\<forall>a\<in>set as. mc_agents (sv_cluster s) (ar_ID a) \<noteq> None"
    and "send_to_agents fmt clk uuid n ty p t as s = (s', ids, pn)"
  shows "pn = None \<and> length ids = length as \<and> same_hub (sv_hub s) (sv_hub s') \<and>
     (\<forall>i < length as. ids ! i \<in> {''cmd-'' @ fmt (clk (n + i)), ''cmd-'' @ show_int (unix_nano (clk (n + i)))})"
  using assms
proof (induction as arbitrary: s n ids s' pn)
  case Nil
  then show ?case by simp
next
  case (Cons a as)
  let ?ws = "ws_SendCommand fmt (clk n) (uuid n) (ar_ID a) ty p t s"
  have step: ?case if s1: "same_hub (sv_hub s) (sv_hub s1)" "mc_agents (sv_cluster s1) = mc_agents (sv_cluster s)"
    and run: "(s', ids, pn) = add_ids [i] (send_to_agents fmt clk uuid (Suc n) ty p t as s1)"
    and i: "i \<in> {''cmd-'' @ fmt (clk n), ''cmd-'' @ show_int (unix_nano (clk n))}" for s1 i
  proof -
    obtain s2 ids2 pn2 where r: "send_to_agents fmt clk uuid (Suc n) ty p t as s1 = (s2, ids2, pn2)"
      by (metis prod_cases3)
    have "clients_open (sv_hub s1)" using Cons.prems(1) s1(1) clients_open_same by blast
    moreover have "\<forall>a\<in>set as. mc_agents (sv_cluster s1) (ar_ID a) \<noteq> None"
      using Cons.prems(2) s1(2) by simp
    ultimately have ih: "pn2 = None \<and> length ids2 = length as \<and> same_hub (sv_hub s1) (sv_hub s2) \<and>
      (\<forall>i < length as. ids2 ! i \<in> {''cmd-'' @ fmt (clk (Suc n + i)), ''cmd-'' @ show_int (unix_nano (clk (Suc n + i)))})"
      using Cons.IH r by blast
    have "s' = s2" "ids = i # ids2" "pn = pn2" using run r by (simp_all add: add_ids_def)
    with ih i s1(1) show ?thesis
      by (auto simp: nth_Cons split: nat.split intro: same_hub_trans)
  qed
  have fallback: ?case if s1: "same_hub (sv_hub s) (sv_hub s1)" "sv_cluster s1 = sv_cluster s"
    and run: "(s', ids, pn) = (let (mc, r) = SendCommand (clk n) (ar_ID a) ty p t (sv_cluster s1)
            in add_ids (case r of Inl _ \<Rightarrow> [] | Inr i \<Rightarrow> [i])
                 (send_to_agents fmt clk uuid (Suc n) ty p t as (s1\<lparr>sv_cluster := mc\<rparr>)))" for s1
  proof -
    have "mc_agents (sv_cluster s1) (ar_ID a) \<noteq> None" using Cons.prems(2) s1(2) by simp
    from SendCommand_known[OF this] obtain mc' where
      mc: "SendCommand (clk n) (ar_ID a) ty p t (sv_cluster s1) = (mc', Inr (''cmd-'' @ show_int (unix_nano (clk n))))"
        "mc_agents mc' = mc_agents (sv_cluster s1)" by blast
    show ?thesis
      by (rule step[of "s1\<lparr>sv_cluster := mc'\<rparr>" "''cmd-'' @ show_int (unix_nano (clk n))"])
        (use s1 mc run in simp_all)
  qed
  show ?case
  proof (cases "IsConnected (ar_ID a) (sv_hub s)")
    case False
    show ?thesis by (rule fallback[of s]) (use False Cons.prems(3) in \<open>simp_all add: Let_def\<close>)
  next
    case True
    obtain h i where ws: "?ws = Inr (upd_hub h s, i)" "same_hub (sv_hub s) h"
      "i = [] \<or> i = ''cmd-'' @ fmt (clk n)"
      by (rule ws_SendCommand_open[OF Cons.prems(1), of fmt "clk n" "uuid n" "ar_ID a" ty p t])
    show ?thesis
    proof (cases "i = []")
      case False
      show ?thesis
        by (rule step[of "upd_hub h s" i]) (use True ws False Cons.prems(3) in \<open>simp_all add: Let_def\<close>)
    next
      case i: True
      show ?thesis
        by (rule fallback[of "upd_hub h s"]) (use True ws i Cons.prems(3) in \<open>simp_all add: Let_def\<close>)
    qed
  qed
qed

text \<open>While no socket write has failed, a command request for one known agent or for a tag
  is accepted by every agent it addresses: the answer holds exactly one identifier per agent, it is
  a success exactly when some agent is addressed, and only the channels of the connections and the
  polling queues change. A request for an unknown agent is answered with an error.\<close>

theorem command_request_accepted:
  assumes "hub_reachable False (sv_hub s)" and "cluster_inv (sv_cluster s)"
    and "range_order (mc_agents (sv_cluster s)) ks"
    and "dec_body dec_SendCommandRequest body = Some req"
  shows "\<exists>s' rsp. handleSendCommand fmt clk uuid ks ''POST'' body s = (s', Ok rsp) \<and>
     length (sr_CommandIDs rsp) =
       (if sq_AgentID req \<noteq> [] then (if GetAgent (sq_AgentID req) (sv_cluster s) = None then 0 else 1)
        else if sq_Tag req \<noteq> [] then length (GetAgentsByTag ks (sq_Tag req) (sv_cluster s)) else 0) \<and>
     (sr_Success rsp \<longleftrightarrow> sr_CommandIDs rsp \<noteq> []) \<and> (sr_Success rsp \<longleftrightarrow> sr_Error rsp = []) \<and>
     wh_clients (sv_hub s') = wh_clients (sv_hub s)"
proof -
  let ?as = "if sq_AgentID req \<noteq> [] then (case GetAgent (sq_AgentID req) (sv_cluster s) of None \<Rightarrow> [] | Some a \<Rightarrow> [a])
     else if sq_Tag req \<noteq> [] then GetAgentsByTag ks (sq_Tag req) (sv_cluster s) else []"
  let ?t = "if seconds (sq_Timeout req) = 0 then 5 * Minute else seconds (sq_Timeout req)"
  have "\<forall>a\<in>set ?as. a \<in> ran (mc_agents (sv_cluster s))"
    using set_range_values[OF assms(3)]
    by (auto simp: GetAgent_def GetAgentsByTag_def ran_def split: option.splits)
  then have known: "\<forall>a\<in>set ?as. mc_agents (sv_cluster s) (ar_ID a) \<noteq> None"
    using assms(2) unfolding cluster_inv_def agents_keyed_def ran_def by fastforce
  obtain s' ids pn where run: "send_to_agents fmt clk uuid 0 (sq_Type req) (sq_Payload req) ?t ?as s = (s', ids, pn)"
    by (metis prod_cases3)
  have spec: "pn = None \<and> length ids = length ?as \<and> same_hub (sv_hub s) (sv_hub s')"
    using send_to_agents_spec[OF reachable_clients_open[OF assms(1)] known run] by blast
  have len: "length ?as = (if sq_AgentID req \<noteq> [] then (if GetAgent (sq_AgentID req) (sv_cluster s) = None then 0 else 1)
        else if sq_Tag req \<noteq> [] then length (GetAgentsByTag ks (sq_Tag req) (sv_cluster s)) else 0)"
    by (simp split: option.split)
  have "handleSendCommand fmt clk uuid ks ''POST'' body s =
     (s', Ok \<lparr>sr_Success = (ids \<noteq> []), sr_CommandIDs = ids,
             sr_Error = (if ids = [] then ''no agents found or command send failed'' else [])\<rparr>)"
    using assms(4) run spec by (simp only: handleSendCommand_def MethodPost_def Let_def) simp
  with spec len show ?thesis by (simp only: same_hub_def) simp
qed

definition send_body :: json where
  "send_body = JObj [(''agent_id'', JStr ''a1''), (''type'', JStr ''shell''), (''payload'', JStr ''df'')]"

lemma send_body_parses:
  "dec_body dec_SendCommandRequest (Some send_body) =
     Some \<lparr>sq_AgentID = ''a1'', sq_Tag = [], sq_Type = ''shell'', sq_Payload = ''df'', sq_Timeout = 0\<rparr>"
  by code_simp

theorem command_request_accepted_witness:
  "\<exists>s' rsp. handleSendCommand (\<lambda>_. ''t'') (\<lambda>_. 9) (\<lambda>_. ''u'') [''a1''] ''POST'' (Some send_body) ws_a1 = (s', Ok rsp) \<and>
     length (sr_CommandIDs rsp) = 1 \<and> sr_Success rsp"
  using command_request_accepted[of ws_a1 "[''a1'']" "Some send_body" _ "\<lambda>_. ''t''" "\<lambda>_. 9" "\<lambda>_. ''u''"]
    hub_a1_reachable[of False] reachable_cluster_inv[OF witness_cluster_reachable] send_body_parses
  by (auto simp: ws_a1_def range_order_def witness_cluster_agents GetAgent_def)

subsection \<open>Forwarded commands\<close>

text \<open>A command a peer forwards for an agent whose channel is full is dropped and still
  answered as a success, with an empty identifier; the same request from an operator would have
  used the polling queue.\<close>

theorem forward_full_channel:
  assumes "dec_body dec_ForwardCommandRequest body = Some req"
    and "wh_clients (sv_hub s) (fr_AgentID req) = Some c" and "wh_conns (sv_hub s) c = Some cn"
    and "\<not> wc_closed cn" and "length (wc_SendCh cn) = 256"
  shows "handleForwardCommand fmt now u ''POST'' body s =
     (s, Ok \<lparr>fs_Success = True, fs_CommandID = [], fs_Error = []\<rparr>)"
proof -
  have "ws_SendCommand fmt now u (fr_AgentID req) ty p t s = Inr (s, [])" for ty p t
    using assms(2-5)
    by (simp add: ws_SendCommand_alt SendToAgent_def send_to_def try_send_def sendch_cap_def
        fun_upd_idem)
  with assms(1,2) show ?thesis
    by (simp add: handleForwardCommand_def MethodPost_def IsConnected_def Let_def)
qed

definition ws_full :: ws_server where
  "ws_full = \<lparr>sv_hub = hub_a1\<lparr>wh_conns := [0 \<mapsto> (NewWSClientConn 2 ''a1'')\<lparr>wc_SendCh := replicate 256 hub_msg\<rparr>]\<rparr>,
      sv_cluster = witness_cluster\<rparr>"

theorem forward_full_channel_witness:
  "handleForwardCommand (\<lambda>_. ''t'') 9 ''u'' ''POST'' (Some (JObj [(''agent_id'', JStr ''a1'')])) ws_full =
     (ws_full, Ok \<lparr>fs_Success = True, fs_CommandID = [], fs_Error = []\<rparr>)"
proof (rule forward_full_channel[where c = 0
      and cn = "(NewWSClientConn 2 ''a1'')\<lparr>wc_SendCh := replicate 256 hub_msg\<rparr>"])
  show "dec_body dec_ForwardCommandRequest (Some (JObj [(''agent_id'', JStr ''a1'')])) =
      Some \<lparr>fr_AgentID = ''a1'', fr_Type = [], fr_Payload = [], fr_Timeout = 0\<rparr>"
    by code_simp
qed (simp_all add: ws_full_def hub_a1_eq NewWSClientConn_def)

end
