(* ===== verification/Owl_Rules.thy ===== *)
theory Owl_Rules
  imports Owl_Strings Owl_Interfaces
begin

text \<open>
  \<open>internal/agent-node/types.go\<close>, \<open>config.go\<close> and \<open>rule_engine.go\<close>: the data of an agent and the
  engine that evaluates its rules on its own. What an agent asks of its machine is an argument: the
  state of services and processes (\<open>svc\<close>, \<open>prc\<close>), the outcome of a command (\<open>ex\<close>, its output
  and its error) and the text of a number with two decimals (\<open>fmt2\<close>). The engine reads the clock several times
  in a round: \<open>clk i 0\<close> is the reading of the cooldown check of the i-th rule, \<open>clk i (j + 1)\<close> that of
  the event of its j-th action, and the next one that of its trigger time.
\<close>

definition AgentStatusOnline :: string where "AgentStatusOnline = ''online''"
definition AgentStatusOffline :: string where "AgentStatusOffline = ''offline''"
definition AgentStatusAutonomous :: string where "AgentStatusAutonomous = ''autonomous''"

record agent_info =
  ai_ID :: string
  ai_Name :: string
  ai_Hostname :: string
  ai_IP :: string
  ai_Tags :: "string list"
  ai_Version :: string
  ai_StartTime :: gotime
  ai_Status :: string
  ai_Labels :: "string \<rightharpoonup> string"

record master_node =
  mn_ID :: string
  mn_Name :: string
  mn_Addr :: string
  mn_Priority :: int
  mn_IsActive :: bool

record system_metrics =
  sm_CPUUsage :: real
  sm_MemoryUsage :: real
  sm_MemoryTotal :: nat
  sm_MemoryFree :: nat
  sm_DiskUsage :: real
  sm_DiskTotal :: nat
  sm_DiskFree :: nat
  sm_LoadAvg1 :: real
  sm_LoadAvg5 :: real
  sm_LoadAvg15 :: real
  sm_Uptime :: int
  sm_Timestamp :: gotime

definition ConditionTypeMetric :: string where "ConditionTypeMetric = ''metric''"
definition ConditionTypeService :: string where "ConditionTypeService = ''service''"
definition ConditionTypeProcess :: string where "ConditionTypeProcess = ''process''"

record rule_condition =
  rn_Type :: string
  rn_Metric :: string
  rn_Operator :: string
  rn_Threshold :: real
  rn_Duration :: duration

definition ActionTypeShell :: string where "ActionTypeShell = ''shell''"
definition ActionTypeRestart :: string where "ActionTypeRestart = ''restart''"
definition ActionTypeNotify :: string where "ActionTypeNotify = ''notify''"

record rule_action =
  rx_Type :: string
  rx_Command :: string
  rx_Timeout :: duration

record auto_rule =
  ru_ID :: string
  ru_Name :: string
  ru_Description :: string
  ru_Enabled :: bool
  ru_Condition :: rule_condition
  ru_Actions :: "rule_action list"
  ru_Cooldown :: duration
  ru_MaxRetries :: int
  ru_LastTriggered :: gotime
  ru_TriggerCount :: int

record rule_event =
  re_RuleID :: string
  re_RuleName :: string
  re_Condition :: string
  re_Action :: string
  re_Success :: bool
  re_Output :: string
  re_Error :: string
  re_Timestamp :: gotime

subsection \<open>The configuration\<close>

text \<open>The settings the modelled code reads; those of the metrics collector and the identity of the
  agent, an argument of \<open>NewAgent\<close>, are left out.\<close>

record agent_config =
  ac_DataDir :: string
  ac_HeartbeatInterval :: duration
  ac_ReconnectInterval :: duration
  ac_CommandTimeout :: duration
  ac_Masters :: "master_node list"
  ac_Rules :: "auto_rule list"
  ac_MetricsEnabled :: bool
  ac_WebSocketEnabled :: bool
  ac_WSPingInterval :: duration
  ac_WSReconnectInterval :: duration
  ac_WSWriteTimeout :: duration
  ac_WSReadTimeout :: duration

definition DefaultAgentConfig :: agent_config where
  "DefaultAgentConfig = \<lparr>ac_DataDir = ''/var/lib/owl-agent'', ac_HeartbeatInterval = 10 * Second,
     ac_ReconnectInterval = 5 * Second, ac_CommandTimeout = 5 * Minute, ac_Masters = [], ac_Rules = [],
     ac_MetricsEnabled = True, ac_WebSocketEnabled = True, ac_WSPingInterval = 30 * Second,
     ac_WSReconnectInterval = 5 * Second, ac_WSWriteTimeout = 10 * Second,
     ac_WSReadTimeout = 60 * Second\<rparr>"

text \<open>A pointer into the list of masters is an index.\<close>

fun first_active :: "nat \<Rightarrow> master_node list \<Rightarrow> nat option" where
  "first_active i [] = None"
| "first_active i (m # ms) = (if mn_IsActive m then Some i else first_active (Suc i) ms)"

fun highest_from :: "nat \<Rightarrow> master_node list \<Rightarrow> nat \<Rightarrow> int \<Rightarrow> nat" where
  "highest_from i [] best prio = best"
| "highest_from i (m # ms) best prio =
     (if mn_Priority m > prio then highest_from (Suc i) ms i (mn_Priority m)
      else highest_from (Suc i) ms best prio)"

definition GetActiveMaster :: "agent_config \<Rightarrow> nat option" where
  "GetActiveMaster c =
     (case first_active 0 (ac_Masters c) of
        Some i \<Rightarrow> Some i
      | None \<Rightarrow> (case ac_Masters c of
                   [] \<Rightarrow> None
                 | m # ms \<Rightarrow> Some (highest_from 0 (ac_Masters c) 0 (mn_Priority m))))"

definition GetEnabledRules :: "agent_config \<Rightarrow> auto_rule list" where
  "GetEnabledRules c = filter ru_Enabled (ac_Rules c)"

subsection \<open>The engine\<close>

record rule_engine =
  en_rules :: "auto_rule list"
  en_metrics :: "system_metrics option"
  en_eventChan :: "rule_event list"

definition event_cap :: nat where "event_cap = 100"

definition NewRuleEngine :: rule_engine where
  "NewRuleEngine = \<lparr>en_rules = [], en_metrics = None, en_eventChan = []\<rparr>"

definition SetRules :: "auto_rule list \<Rightarrow> rule_engine \<Rightarrow> rule_engine" where
  "SetRules rules e = e\<lparr>en_rules := rules\<rparr>"

definition UpdateMetrics :: "system_metrics \<Rightarrow> rule_engine \<Rightarrow> rule_engine" where
  "UpdateMetrics m e = e\<lparr>en_metrics := Some m\<rparr>"

definition metric_value :: "string \<Rightarrow> system_metrics \<Rightarrow> real option" where
  "metric_value name m =
     (if name = ''cpu_usage'' then Some (sm_CPUUsage m)
      else if name = ''memory_usage'' then Some (sm_MemoryUsage m)
      else if name = ''disk_usage'' then Some (sm_DiskUsage m)
      else if name = ''load_avg_1'' then Some (sm_LoadAvg1 m)
      else if name = ''load_avg_5'' then Some (sm_LoadAvg5 m)
      else if name = ''load_avg_15'' then Some (sm_LoadAvg15 m)
      else None)"

definition current_is :: string where
  "current_is = [CHR 0xE5, CHR 0xBD, CHR 0x93, CHR 0xE5, CHR 0x89, CHR 0x8D] @ '': ''"

definition evaluateMetricCondition ::
  "(real \<Rightarrow> string) \<Rightarrow> rule_condition \<Rightarrow> system_metrics option \<Rightarrow> bool \<times> string" where
  "evaluateMetricCondition fmt2 cond metrics =
     (case metrics of
        None \<Rightarrow> (False, [])
      | Some m \<Rightarrow>
        (case metric_value (rn_Metric cond) m of
           None \<Rightarrow> (False, [])
         | Some value \<Rightarrow>
           (let condStr = rn_Metric cond @ '' '' @ rn_Operator cond @ '' '' @ fmt2 (rn_Threshold cond) @
                          '' ('' @ current_is @ fmt2 value @ '')'';
                oper = rn_Operator cond
            in if oper = ''>'' then (value > rn_Threshold cond, condStr)
               else if oper = ''>='' then (value \<ge> rn_Threshold cond, condStr)
               else if oper = ''<'' then (value < rn_Threshold cond, condStr)
               else if oper = ''<='' then (value \<le> rn_Threshold cond, condStr)
               else if oper = ''=='' then (value = rn_Threshold cond, condStr)
               else if oper = ''!='' then (value \<noteq> rn_Threshold cond, condStr)
               else (False, []))))"

definition show_bool :: "bool \<Rightarrow> string" where
  "show_bool b = (if b then ''true'' else ''false'')"

definition evaluateServiceCondition :: "(string \<Rightarrow> bool) \<Rightarrow> rule_condition \<Rightarrow> bool \<times> string" where
  "evaluateServiceCondition svc cond =
     (let serviceName = TrimPrefix (rn_Metric cond) ''service:'' in
      if serviceName = rn_Metric cond then (False, [])
      else let isActive = svc serviceName;
               condStr = ''service:'' @ serviceName @ '' '' @ rn_Operator cond @ '' ('' @ current_is @
                         show_bool isActive @ '')''
           in if rn_Operator cond = ''=='' then
                (if rn_Threshold cond = 1 then (isActive, condStr) else (\<not> isActive, condStr))
              else if rn_Operator cond = ''!='' then
                (if rn_Threshold cond = 1 then (\<not> isActive, condStr) else (isActive, condStr))
              else (\<not> isActive, condStr))"

definition evaluateProcessCondition :: "(string \<Rightarrow> bool) \<Rightarrow> rule_condition \<Rightarrow> bool \<times> string" where
  "evaluateProcessCondition prc cond =
     (let processName = TrimPrefix (rn_Metric cond) ''process:'' in
      if processName = rn_Metric cond then (False, [])
      else let found = prc processName;
               condStr = ''process:'' @ processName @ '' exists='' @ show_bool found
           in if rn_Operator cond = ''=='' then
                (if rn_Threshold cond = 1 then (found, condStr) else (\<not> found, condStr))
              else (\<not> found, condStr))"

definition evaluateCondition ::
  "(real \<Rightarrow> string) \<Rightarrow> (string \<Rightarrow> bool) \<Rightarrow> (string \<Rightarrow> bool) \<Rightarrow> auto_rule \<Rightarrow> system_metrics option \<Rightarrow>
   bool \<times> string" where
  "evaluateCondition fmt2 svc prc rule metrics =
     (let cond = ru_Condition rule in
      if rn_Type cond = ConditionTypeMetric then evaluateMetricCondition fmt2 cond metrics
      else if rn_Type cond = ConditionTypeService then evaluateServiceCondition svc cond
      else if rn_Type cond = ConditionTypeProcess then evaluateProcessCondition prc cond
      else (False, []))"

text \<open>\<open>ex\<close> runs a program with its arguments under a time limit; \<open>Some\<close> of its error is a failure.\<close>

type_synonym exec = "duration \<Rightarrow> string list \<Rightarrow> string \<times> string option"

definition executeAction :: "exec \<Rightarrow> rule_action \<Rightarrow> string \<times> string option" where
  "executeAction ex action =
     (let timeout = (if rx_Timeout action = 0 then 60 * Second else rx_Timeout action) in
      if rx_Type action = ActionTypeShell then ex timeout [''sh'', ''-c'', rx_Command action]
      else if rx_Type action = ActionTypeRestart then ex timeout [''systemctl'', ''restart'', rx_Command action]
      else if rx_Type action = ActionTypeNotify then ([CHR 0xE9, CHR 0x80, CHR 0x9A, CHR 0xE7, CHR 0x9F, CHR 0xA5] @ '': '' @ rx_Command action, None)
      else ([], Some ([CHR 0xE6, CHR 0x9C, CHR 0xAA, CHR 0xE7, CHR 0x9F, CHR 0xA5, CHR 0xE5, CHR 0x8A, CHR 0xA8, CHR 0xE4, CHR 0xBD, CHR 0x9C, CHR 0xE7, CHR 0xB1, CHR 0xBB, CHR 0xE5, CHR 0x9E, CHR 0x8B] @ '': '' @ rx_Type action)))"

definition action_event :: "exec \<Rightarrow> gotime \<Rightarrow> auto_rule \<Rightarrow> string \<Rightarrow> rule_action \<Rightarrow> rule_event" where
  "action_event ex now rule condStr action =
     (let (output, err) = executeAction ex action in
      \<lparr>re_RuleID = ru_ID rule, re_RuleName = ru_Name rule, re_Condition = condStr,
       re_Action = rx_Command action, re_Success = (err = None),
       re_Output = (if err = None then output else []),
       re_Error = (case err of None \<Rightarrow> [] | Some m \<Rightarrow> m), re_Timestamp = now\<rparr>)"

text \<open>The non-blocking send of an event: with a full channel the new event is dropped.\<close>

definition send_event :: "rule_event \<Rightarrow> rule_event list \<Rightarrow> rule_event list" where
  "send_event ev ch = (if length ch < event_cap then ch @ [ev] else ch)"

fun run_actions :: "exec \<Rightarrow> (nat \<Rightarrow> gotime) \<Rightarrow> nat \<Rightarrow> auto_rule \<Rightarrow> string \<Rightarrow> rule_action list \<Rightarrow>
    rule_event list \<Rightarrow> rule_event list" where
  "run_actions ex clk j rule condStr [] ch = ch"
| "run_actions ex clk j rule condStr (a # as) ch =
     run_actions ex clk (Suc j) rule condStr as (send_event (action_event ex (clk j) rule condStr a) ch)"

text \<open>Only the first rule with the identifier is updated.\<close>

fun mark_triggered :: "string \<Rightarrow> gotime \<Rightarrow> auto_rule list \<Rightarrow> auto_rule list" where
  "mark_triggered i now [] = []"
| "mark_triggered i now (r # rs) =
     (if ru_ID r = i then r\<lparr>ru_LastTriggered := now, ru_TriggerCount := wrap64 (ru_TriggerCount r + 1)\<rparr> # rs
      else r # mark_triggered i now rs)"

definition rule_due :: "gotime \<Rightarrow> auto_rule \<Rightarrow> bool" where
  "rule_due now rule \<longleftrightarrow> ru_Enabled rule \<and>
     \<not> (ru_Cooldown rule > 0 \<and> time_sub now (ru_LastTriggered rule) < ru_Cooldown rule)"

text \<open>The loop over the copy of the rules; it returns the identifiers of the rules that triggered.\<close>

fun evaluate_rules ::
  "(real \<Rightarrow> string) \<Rightarrow> (string \<Rightarrow> bool) \<Rightarrow> (string \<Rightarrow> bool) \<Rightarrow> exec \<Rightarrow> (nat \<Rightarrow> nat \<Rightarrow> gotime) \<Rightarrow> nat \<Rightarrow>
   system_metrics option \<Rightarrow> auto_rule list \<Rightarrow> rule_engine \<Rightarrow> rule_engine \<times> string list" where
  "evaluate_rules fmt2 svc prc ex clk i metrics [] e = (e, [])"
| "evaluate_rules fmt2 svc prc ex clk i metrics (rule # rs) e =
     (let (triggered, condStr) = evaluateCondition fmt2 svc prc rule metrics in
      if rule_due (clk i 0) rule \<and> triggered
      then let n = length (ru_Actions rule);
               ch = run_actions ex (\<lambda>j. clk i (Suc j)) 0 rule condStr (ru_Actions rule) (en_eventChan e);
               e1 = e\<lparr>en_eventChan := ch,
                      en_rules := mark_triggered (ru_ID rule) (clk i (Suc n)) (en_rules e)\<rparr>;
               (e2, fired) = evaluate_rules fmt2 svc prc ex clk (Suc i) metrics rs e1
           in (e2, ru_ID rule # fired)
      else evaluate_rules fmt2 svc prc ex clk (Suc i) metrics rs e)"

definition Evaluate ::
  "(real \<Rightarrow> string) \<Rightarrow> (string \<Rightarrow> bool) \<Rightarrow> (string \<Rightarrow> bool) \<Rightarrow> exec \<Rightarrow> (nat \<Rightarrow> nat \<Rightarrow> gotime) \<Rightarrow>
   rule_engine \<Rightarrow> rule_engine \<times> string list" where
  "Evaluate fmt2 svc prc ex clk e =
     evaluate_rules fmt2 svc prc ex clk 0 (en_metrics e) (en_rules e) e"

definition GetRuleStats :: "rule_engine \<Rightarrow> (string \<rightharpoonup> int)" where
  "GetRuleStats e = map_of (rev (map (\<lambda>r. (ru_ID r, ru_TriggerCount r)) (en_rules e)))"

end
