(* ===== verification/Owl_RuleProps.thy ===== *)
theory Owl_RuleProps
  imports Owl_Rules
begin

text \<open>
  The rule engine: which rules a round triggers and what it records of them, that a rule keeps quiet
  for its cooldown, which events reach the channel, and how a master is chosen from the configuration.
\<close>

subsection \<open>One round\<close>

text \<open>Whether the rule at position \<open>k\<close> triggers in a round, and what the round makes of it.\<close>

definition fires ::
  "(real \<Rightarrow> string) \<Rightarrow> (string \<Rightarrow> bool) \<Rightarrow> (string \<Rightarrow> bool) \<Rightarrow> (nat \<Rightarrow> nat \<Rightarrow> gotime) \<Rightarrow>
   system_metrics option \<Rightarrow> nat \<Rightarrow> auto_rule \<Rightarrow> bool" where
  "fires fmt2 svc prc clk metrics k r \<longleftrightarrow>
     rule_due (clk k 0) r \<and> fst (evaluateCondition fmt2 svc prc r metrics)"

definition after_round ::
  "(real \<Rightarrow> string) \<Rightarrow> (string \<Rightarrow> bool) \<Rightarrow> (string \<Rightarrow> bool) \<Rightarrow> (nat \<Rightarrow> nat \<Rightarrow> gotime) \<Rightarrow>
   system_metrics option \<Rightarrow> nat \<Rightarrow> auto_rule \<Rightarrow> auto_rule" where
  "after_round fmt2 svc prc clk metrics k r =
     (if fires fmt2 svc prc clk metrics k r
      then r\<lparr>ru_LastTriggered := clk k (Suc (length (ru_Actions r))),
             ru_TriggerCount := wrap64 (ru_TriggerCount r + 1)\<rparr>
      else r)"

lemma after_round_ID [simp]: "ru_ID (after_round fmt2 svc prc clk m k r) = ru_ID r"
  by (simp add: after_round_def)

lemma mark_triggered_at:
  "ru_ID r \<notin> ru_ID ` set pre \<Longrightarrow>
     mark_triggered (ru_ID r) now (pre @ r # post) =
       pre @ r\<lparr>ru_LastTriggered := now, ru_TriggerCount := wrap64 (ru_TriggerCount r + 1)\<rparr> # post"
  by (induction pre) auto

lemma evaluate_rules_Cons:
  "evaluate_rules fmt2 svc prc ex clk i m (r # rs) e =
     (if fires fmt2 svc prc clk m i r
      then let e1 = e\<lparr>en_eventChan := run_actions ex (\<lambda>j. clk i (Suc j)) 0 r
                        (snd (evaluateCondition fmt2 svc prc r m)) (ru_Actions r) (en_eventChan e),
                      en_rules := mark_triggered (ru_ID r) (clk i (Suc (length (ru_Actions r)))) (en_rules e)\<rparr>
           in (fst (evaluate_rules fmt2 svc prc ex clk (Suc i) m rs e1),
               ru_ID r # snd (evaluate_rules fmt2 svc prc ex clk (Suc i) m rs e1))
      else evaluate_rules fmt2 svc prc ex clk (Suc i) m rs e)"
  by (simp add: fires_def case_prod_unfold Let_def)

declare evaluate_rules.simps(2) [simp del]

lemma evaluate_rules_spec:
  assumes "distinct (map ru_ID (pre @ rs))" and "en_rules e = pre @ rs"
  shows "en_rules (fst (evaluate_rules fmt2 svc prc ex clk (length pre) m rs e)) =
           pre @ map (\<lambda>(k, r). after_round fmt2 svc prc clk m k r) (enumerate (length pre) rs) \<and>
         snd (evaluate_rules fmt2 svc prc ex clk (length pre) m rs e) =
           map (\<lambda>(k, r). ru_ID r) (filter (\<lambda>(k, r). fires fmt2 svc prc clk m k r) (enumerate (length pre) rs))"
  using assms
proof (induction rs arbitrary: pre e)
  case (Cons r rs)
  let ?r = "after_round fmt2 svc prc clk m (length pre) r"
  have d: "distinct (map ru_ID ((pre @ [?r]) @ rs))" using Cons.prems(1) by simp
  have notin: "ru_ID r \<notin> ru_ID ` set pre" using Cons.prems(1) by auto
  note ih = Cons.IH[OF d]
  show ?case
  proof (cases "fires fmt2 svc prc clk m (length pre) r")
    case True
    let ?e1 = "e\<lparr>en_eventChan := run_actions ex (\<lambda>j. clk (length pre) (Suc j)) 0 r
                        (snd (evaluateCondition fmt2 svc prc r m)) (ru_Actions r) (en_eventChan e),
                      en_rules := mark_triggered (ru_ID r) (clk (length pre) (Suc (length (ru_Actions r)))) (en_rules e)\<rparr>"
    have "en_rules ?e1 = (pre @ [?r]) @ rs"
      using Cons.prems(2) mark_triggered_at[OF notin] True by (simp add: after_round_def)
    from ih[OF this] True show ?thesis
      by (simp add: evaluate_rules_Cons Let_def)
  next
    case False
    then have "en_rules e = (pre @ [?r]) @ rs" using Cons.prems(2) by (simp add: after_round_def)
    from ih[OF this] False show ?thesis by (simp add: evaluate_rules_Cons)
  qed
qed simp

lemma Evaluate_rules_nth:
  assumes "distinct (map ru_ID (en_rules e))" and "k < length (en_rules e)"
  shows "en_rules (fst (Evaluate fmt2 svc prc ex clk e)) ! k =
           after_round fmt2 svc prc clk (en_metrics e) k (en_rules e ! k)"
    and "length (en_rules (fst (Evaluate fmt2 svc prc ex clk e))) = length (en_rules e)"
  using evaluate_rules_spec[of "[]" "en_rules e" e fmt2 svc prc ex clk "en_metrics e"] assms
  by (simp_all add: Evaluate_def nth_enumerate_eq)

lemma map_enumerate: "(\<And>k r. g (k, r) = f r) \<Longrightarrow> map g (enumerate n xs) = map f xs"
  by (induction xs arbitrary: n) auto

lemma Evaluate_rules:
  assumes "distinct (map ru_ID (en_rules e))"
  shows "en_rules (fst (Evaluate fmt2 svc prc ex clk e)) =
           map (\<lambda>(k, r). after_round fmt2 svc prc clk (en_metrics e) k r) (enumerate 0 (en_rules e))"
    and "snd (Evaluate fmt2 svc prc ex clk e) =
           map (\<lambda>(k, r). ru_ID r)
             (filter (\<lambda>(k, r). fires fmt2 svc prc clk (en_metrics e) k r) (enumerate 0 (en_rules e)))"
  using evaluate_rules_spec[of "[]" "en_rules e" e fmt2 svc prc ex clk "en_metrics e"] assms
  by (simp_all add: Evaluate_def)

lemma Evaluate_ids:
  "distinct (map ru_ID (en_rules e)) \<Longrightarrow>
     map ru_ID (en_rules (fst (Evaluate fmt2 svc prc ex clk e))) = map ru_ID (en_rules e)"
  by (simp add: Evaluate_rules(1) comp_def map_enumerate split: prod.split)

lemma Evaluate_fired:
  assumes d: "distinct (map ru_ID (en_rules e))" and k: "k < length (en_rules e)"
  shows "ru_ID (en_rules e ! k) \<in> set (snd (Evaluate fmt2 svc prc ex clk e)) \<longleftrightarrow>
         fires fmt2 svc prc clk (en_metrics e) k (en_rules e ! k)"
proof
  assume "ru_ID (en_rules e ! k) \<in> set (snd (Evaluate fmt2 svc prc ex clk e))"
  then obtain j r where j: "(j, r) \<in> set (enumerate 0 (en_rules e))"
    "fires fmt2 svc prc clk (en_metrics e) j r" "ru_ID (en_rules e ! k) = ru_ID r"
    by (auto simp: Evaluate_rules(2)[OF d])
  then have jr: "j < length (en_rules e)" "r = en_rules e ! j"
    by (simp_all add: in_set_enumerate_eq)
  with j(3) k have "map ru_ID (en_rules e) ! k = map ru_ID (en_rules e) ! j" by simp
  with d k jr(1) have "k = j" by (simp only: nth_eq_iff_index_eq length_map)
  with j(2) jr(2) show "fires fmt2 svc prc clk (en_metrics e) k (en_rules e ! k)" by simp
next
  assume "fires fmt2 svc prc clk (en_metrics e) k (en_rules e ! k)"
  moreover have "(k, en_rules e ! k) \<in> set (enumerate 0 (en_rules e))"
    using k by (simp add: in_set_enumerate_eq)
  ultimately show "ru_ID (en_rules e ! k) \<in> set (snd (Evaluate fmt2 svc prc ex clk e))"
    by (force simp: Evaluate_rules(2)[OF d])
qed

lemma Evaluate_metrics [simp]: "en_metrics (fst (Evaluate fmt2 svc prc ex clk e)) = en_metrics e"
proof -
  have "en_metrics (fst (evaluate_rules fmt2 svc prc ex clk i m rs e)) = en_metrics e" for i m rs
    by (induction rs arbitrary: i e) (simp_all add: evaluate_rules_Cons Let_def)
  then show ?thesis by (simp add: Evaluate_def)
qed

subsection \<open>Cooldown\<close>


definition cpu_rule :: auto_rule where
  "cpu_rule = \<lparr>ru_ID = ''r1'', ru_Name = ''cpu'', ru_Description = [], ru_Enabled = True,
     ru_Condition = \<lparr>rn_Type = ''metric'', rn_Metric = ''cpu_usage'', rn_Operator = ''>'', rn_Threshold = 90,
                     rn_Duration = 0\<rparr>,
     ru_Actions = [\<lparr>rx_Type = ''notify'', rx_Command = ''hot'', rx_Timeout = 0\<rparr>],
     ru_Cooldown = 5 * Minute, ru_MaxRetries = 0, ru_LastTriggered = 0, ru_TriggerCount = 0\<rparr>"

definition hot_metrics :: system_metrics where
  "hot_metrics = \<lparr>sm_CPUUsage = 95, sm_MemoryUsage = 0, sm_MemoryTotal = 0, sm_MemoryFree = 0, sm_DiskUsage = 0,
     sm_DiskTotal = 0, sm_DiskFree = 0, sm_LoadAvg1 = 0, sm_LoadAvg5 = 0, sm_LoadAvg15 = 0, sm_Uptime = 0,
     sm_Timestamp = 0\<rparr>"

definition hot_engine :: rule_engine where
  "hot_engine = UpdateMetrics hot_metrics (SetRules [cpu_rule] NewRuleEngine)"

lemma hot_fires:
  "rule_due (60 * Minute) cpu_rule" "fst (evaluateCondition f svc prc cpu_rule (Some hot_metrics))"
  by (simp_all add: rule_due_def cpu_rule_def time_sub_def max_int64_def min_int64_def evaluateCondition_def
      evaluateMetricCondition_def metric_value_def ConditionTypeMetric_def hot_metrics_def)


subsection \<open>Events\<close>

lemma send_event_take: "length ch \<le> event_cap \<Longrightarrow> send_event ev ch = take event_cap (ch @ [ev])"
  by (simp add: send_event_def)

lemma take_append_take: "take n (take n xs @ ys) = take n (xs @ ys)"
  by (cases "length xs \<le> n") simp_all

lemma run_actions_take:
  "length ch \<le> event_cap \<Longrightarrow>
     run_actions ex clk j rule cs as ch =
       take event_cap (ch @ map (\<lambda>(i, a). action_event ex (clk i) rule cs a) (enumerate j as))"
proof (induction as arbitrary: j ch)
  case (Cons a as)
  let ?ev = "action_event ex (clk j) rule cs a"
  have "run_actions ex clk j rule cs (a # as) ch =
      take event_cap (send_event ?ev ch @ map (\<lambda>(i, a). action_event ex (clk i) rule cs a) (enumerate (Suc j) as))"
    using Cons.IH[of "send_event ?ev ch" "Suc j"] Cons.prems by (simp add: send_event_def)
  also have "send_event ?ev ch = take event_cap (ch @ [?ev])" by (rule send_event_take[OF Cons.prems])
  finally show ?case by (simp only: take_append_take) simp
qed simp

text \<open>The events a round produces, rule by rule and action by action.\<close>

fun round_events ::
  "(real \<Rightarrow> string) \<Rightarrow> (string \<Rightarrow> bool) \<Rightarrow> (string \<Rightarrow> bool) \<Rightarrow> exec \<Rightarrow> (nat \<Rightarrow> nat \<Rightarrow> gotime) \<Rightarrow> nat \<Rightarrow>
   system_metrics option \<Rightarrow> auto_rule list \<Rightarrow> rule_event list" where
  "round_events fmt2 svc prc ex clk i m [] = []"
| "round_events fmt2 svc prc ex clk i m (r # rs) =
     (if fires fmt2 svc prc clk m i r
      then map (\<lambda>(j, a). action_event ex (clk i (Suc j)) r (snd (evaluateCondition fmt2 svc prc r m)) a)
             (enumerate 0 (ru_Actions r))
      else []) @ round_events fmt2 svc prc ex clk (Suc i) m rs"

lemma evaluate_rules_events:
  "length (en_eventChan e) \<le> event_cap \<Longrightarrow>
     en_eventChan (fst (evaluate_rules fmt2 svc prc ex clk i m rs e)) =
       take event_cap (en_eventChan e @ round_events fmt2 svc prc ex clk i m rs)"
proof (induction rs arbitrary: i e)
  case (Cons r rs)
  show ?case
  proof (cases "fires fmt2 svc prc clk m i r")
    case False
    with Cons show ?thesis by (simp add: evaluate_rules_Cons)
  next
    case True
    let ?evs = "map (\<lambda>(j, a). action_event ex (clk i (Suc j)) r (snd (evaluateCondition fmt2 svc prc r m)) a)
             (enumerate 0 (ru_Actions r))"
    let ?ch = "run_actions ex (\<lambda>j. clk i (Suc j)) 0 r (snd (evaluateCondition fmt2 svc prc r m)) (ru_Actions r) (en_eventChan e)"
    have ch: "?ch = take event_cap (en_eventChan e @ ?evs)" by (rule run_actions_take[OF Cons.prems])
    then have len: "length ?ch \<le> event_cap" by simp
    let ?e1 = "e\<lparr>en_eventChan := ?ch,
        en_rules := mark_triggered (ru_ID r) (clk i (Suc (length (ru_Actions r)))) (en_rules e)\<rparr>"
    let ?rest = "round_events fmt2 svc prc ex clk (Suc i) m rs"
    have "en_eventChan (fst (evaluate_rules fmt2 svc prc ex clk (Suc i) m rs ?e1)) = take event_cap (?ch @ ?rest)"
      using Cons.IH[of ?e1 "Suc i"] len by (simp del: take_append)
    also have "\<dots> = take event_cap (en_eventChan e @ ?evs @ ?rest)"
      by (simp only: ch take_append_take append_assoc)
    finally show ?thesis using True by (simp add: evaluate_rules_Cons Let_def del: take_append)
  qed
qed simp

text \<open>Every action of a triggered rule produces one event, in the order of the rules and
  actions, and the channel holds the oldest hundred events not yet taken: when it is full the new
  event is dropped, not an old one.\<close>

theorem round_events_queued:
  assumes "length (en_eventChan e) \<le> 100"
  shows "en_eventChan (fst (Evaluate fmt2 svc prc ex clk e)) =
    take 100 (en_eventChan e @ round_events fmt2 svc prc ex clk 0 (en_metrics e) (en_rules e))"
  using evaluate_rules_events[of e] assms by (simp add: Evaluate_def event_cap_def)

theorem round_events_queued_witness:
  "map re_RuleID (en_eventChan (fst (Evaluate (\<lambda>_. []) (\<lambda>_. False) (\<lambda>_. False) (\<lambda>_ _. ([], None))
      (\<lambda>_ _. 60 * Minute) hot_engine))) = [''r1'']"
  using round_events_queued[of hot_engine "\<lambda>_. []" "\<lambda>_. False" "\<lambda>_. False" "\<lambda>_ _. ([], None)" "\<lambda>_ _. 60 * Minute"]
    hot_fires
  by (simp add: hot_engine_def SetRules_def NewRuleEngine_def UpdateMetrics_def fires_def action_event_def
      cpu_rule_def[THEN arg_cong[where f = ru_ID]] cpu_rule_def[THEN arg_cong[where f = ru_Actions]]
      case_prod_unfold Let_def)

subsection \<open>Choosing a master\<close>

lemma first_active_spec:
  "first_active n ms = Some i \<longleftrightarrow>
     (\<exists>k < length ms. i = n + k \<and> mn_IsActive (ms ! k) \<and> (\<forall>j < k. \<not> mn_IsActive (ms ! j)))"
proof (induction ms arbitrary: n)
  case (Cons m ms)
  show ?case
  proof (cases "mn_IsActive m")
    case True
    then have "(\<exists>k < length (m # ms). i = n + k \<and> mn_IsActive ((m # ms) ! k) \<and>
        (\<forall>j < k. \<not> mn_IsActive ((m # ms) ! j))) \<longleftrightarrow> i = n"
      by (metis (no_types, lifting) add.right_neutral length_greater_0_conv list.distinct(1) not_gr_zero
          not_less_zero nth_Cons_0)
    with True show ?thesis by auto
  next
    case False
    then show ?thesis by (auto simp: Cons.IH Ex_less_Suc2 All_less_Suc2)
  qed
qed simp

lemma first_active_None: "first_active n ms = None \<longleftrightarrow> (\<forall>m\<in>set ms. \<not> mn_IsActive m)"
  by (induction ms arbitrary: n) auto

lemma highest_from_spec:
  assumes "\<And>j. j < length pre \<Longrightarrow> mn_Priority (pre ! j) \<le> prio" and "best < length (pre @ ms)"
    and "mn_Priority ((pre @ ms) ! best) = prio"
  shows "highest_from (length pre) ms best prio < length (pre @ ms) \<and>
     (\<forall>m\<in>set (pre @ ms). mn_Priority m \<le> mn_Priority ((pre @ ms) ! highest_from (length pre) ms best prio))"
  using assms
proof (induction ms arbitrary: pre best prio)
  case Nil
  then show ?case by (auto simp: in_set_conv_nth)
next
  case (Cons m ms)
  show ?case
  proof (cases "mn_Priority m > prio")
    case True
    have "\<And>j. j < length (pre @ [m]) \<Longrightarrow> mn_Priority ((pre @ [m]) ! j) \<le> mn_Priority m"
      using Cons.prems(1) True by (fastforce simp: nth_append less_Suc_eq)
    with Cons.IH[of "pre @ [m]" "mn_Priority m" "length pre"] True show ?thesis by (simp add: nth_append)
  next
    case False
    have "\<And>j. j < length (pre @ [m]) \<Longrightarrow> mn_Priority ((pre @ [m]) ! j) \<le> prio"
      using Cons.prems(1) False by (fastforce simp: nth_append less_Suc_eq)
    with Cons.IH[of "pre @ [m]" prio best] Cons.prems(2,3) False show ?thesis by simp
  qed
qed

text \<open>The master an agent falls back to is the first one marked active; when none is, it is
  one of the highest priority; there is none only when no master is configured.\<close>

theorem GetActiveMaster_spec:
  "case GetActiveMaster c of
     None \<Rightarrow> ac_Masters c = []
   | Some i \<Rightarrow> i < length (ac_Masters c) \<and>
       (if list_ex mn_IsActive (ac_Masters c)
        then mn_IsActive (ac_Masters c ! i) \<and> list_all (\<lambda>m. \<not> mn_IsActive m) (take i (ac_Masters c))
        else list_all (\<lambda>m. mn_Priority m \<le> mn_Priority (ac_Masters c ! i)) (ac_Masters c))"
proof (cases "first_active 0 (ac_Masters c)")
  case (Some i)
  then obtain k where "k < length (ac_Masters c)" "i = k" "mn_IsActive (ac_Masters c ! k)"
    "\<forall>j < k. \<not> mn_IsActive (ac_Masters c ! j)" by (auto simp: first_active_spec)
  then show ?thesis
    using Some by (auto simp: GetActiveMaster_def list_ex_iff list_all_length)
next
  case None
  then have inactive: "\<not> list_ex mn_IsActive (ac_Masters c)" by (simp add: first_active_None list_ex_iff)
  show ?thesis
  proof (cases "ac_Masters c")
    case Nil
    with None show ?thesis by (simp add: GetActiveMaster_def)
  next
    case (Cons m ms)
    with None have "GetActiveMaster c = Some (highest_from 0 (ac_Masters c) 0 (mn_Priority m))"
      by (simp add: GetActiveMaster_def)
    with highest_from_spec[of "[]" "mn_Priority m" 0 "ac_Masters c"] Cons inactive show ?thesis
      by (simp add: list_all_iff)
  qed
qed

end
