(* ===== verification/Owl_AgentNode.thy ===== *)
theory Owl_AgentNode
  imports Owl_Rules Owl_Protocol
begin

text \<open>
  \<open>internal/agent-node/agent.go\<close> and \<open>ws_client.go\<close>: an agent, its choice of a master, the events it
  has still to report, the commands it runs and its WebSocket client. The network and the machine
  are arguments: what a request returned, whether a master answered a health check, what a program
  printed. A goroutine the code starts for a command is returned as that command.
\<close>

subsection \<open>The WebSocket client\<close>

record ws_client_config =
  wf_ServerURL :: string
  wf_PingInterval :: duration
  wf_ReconnectInterval :: duration
  wf_WriteTimeout :: duration
  wf_ReadTimeout :: duration
  wf_MaxReconnectAttempts :: int

definition DefaultWSClientConfig :: ws_client_config where
  "DefaultWSClientConfig = \<lparr>wf_ServerURL = [], wf_PingInterval = 30 * Second,
     wf_ReconnectInterval = 5 * Second, wf_WriteTimeout = 10 * Second, wf_ReadTimeout = 60 * Second,
     wf_MaxReconnectAttempts = 0\<rparr>"

record ws_client =
  wl_config :: ws_client_config
  wl_conn :: bool \<comment> \<open>whether the connection is not nil\<close>
  wl_sendCh :: "ws_message list"
  wl_handlers :: "string list"
  wl_connected :: bool
  wl_reconnecting :: bool
  wl_reconnectCnt :: int
  wl_done :: bool \<comment> \<open>whether the context is cancelled\<close>

definition NewWSClient :: "ws_client_config option \<Rightarrow> ws_client" where
  "NewWSClient config =
     \<lparr>wl_config = (case config of None \<Rightarrow> DefaultWSClientConfig | Some c \<Rightarrow> c), wl_conn = False,
      wl_sendCh = [], wl_handlers = [], wl_connected = False, wl_reconnecting = False,
      wl_reconnectCnt = 0, wl_done = False\<rparr>"

definition RegisterHandler :: "string \<Rightarrow> ws_client \<Rightarrow> ws_client" where
  "RegisterHandler msgType c = c\<lparr>wl_handlers := List.insert msgType (wl_handlers c)\<rparr>"

text \<open>The select of \<open>Send\<close>: with a cancelled context and room in the channel both cases are ready and
  \<open>pick\<close> says which is taken. The result is whether the error is nil; a full channel drops the
  message and returns nil.\<close>

definition client_Send :: "bool \<Rightarrow> ws_message \<Rightarrow> ws_client \<Rightarrow> ws_client \<times> bool" where
  "client_Send pick msg c =
     (if length (wl_sendCh c) < 256 \<and> \<not> (wl_done c \<and> pick)
      then (c\<lparr>wl_sendCh := wl_sendCh c @ [msg]\<rparr>, True)
      else if wl_done c then (c, False) else (c, True))"

definition client_IsConnected :: "ws_client \<Rightarrow> bool" where
  "client_IsConnected c = wl_connected c"

text \<open>What dialling, sending the registration and reading the first message came to; \<open>Reply None\<close> is
  an answer that is not JSON.\<close>

datatype dial_result = DialFailed | WriteFailed | ReadFailed | Reply "json option"

text \<open>The result is whether the error is nil. An answer that decodes but is no acknowledgement returns
  the nil error of the decoding.\<close>

definition client_connect :: "dial_result \<Rightarrow> ws_client \<Rightarrow> ws_client \<times> bool" where
  "client_connect d c =
     (if wl_connected c then (c, True)
      else case d of
             DialFailed \<Rightarrow> (c, False)
           | WriteFailed \<Rightarrow> (c, False)
           | ReadFailed \<Rightarrow> (c, False)
           | Reply data \<Rightarrow>
               (case DecodeMessage data of
                  None \<Rightarrow> (c, False)
                | Some resp \<Rightarrow>
                    if wm_Type resp \<noteq> MsgTypeAck then (c, True)
                    else (c\<lparr>wl_conn := True, wl_connected := True, wl_reconnectCnt := 0\<rparr>, True)))"

definition client_Start :: "dial_result \<Rightarrow> ws_client \<Rightarrow> ws_client" where
  "client_Start d c = fst (client_connect d (c\<lparr>wl_done := False\<rparr>))"

definition client_Stop :: "ws_client \<Rightarrow> ws_client" where
  "client_Stop c = c\<lparr>wl_done := True, wl_conn := False, wl_connected := False\<rparr>"

text \<open>One iteration of \<open>reconnectLoop\<close>: \<open>None\<close> for the dial result is the end of the context, the result
  says whether the loop goes on and whether it dialled.\<close>

definition reconnect_tick :: "dial_result option \<Rightarrow> ws_client \<Rightarrow> ws_client \<times> bool \<times> bool" where
  "reconnect_tick d c =
     (case d of
        None \<Rightarrow> (c, False, False)
      | Some dr \<Rightarrow>
          if wl_connected c then (c, True, False)
          else let c1 = c\<lparr>wl_reconnecting := True, wl_reconnectCnt := wl_reconnectCnt c + 1\<rparr>;
                   cnt = wl_reconnectCnt c1;
                   most = wf_MaxReconnectAttempts (wl_config c)
               in if most > 0 \<and> cnt > most then (c1\<lparr>wl_done := True\<rparr>, False, False)
                  else let (c2, _) = client_connect dr c1 in (c2\<lparr>wl_reconnecting := False\<rparr>, True, True))"

text \<open>The deferred end of \<open>readLoop\<close>, after a failed read.\<close>

definition read_ended :: "ws_client \<Rightarrow> ws_client" where
  "read_ended c = c\<lparr>wl_connected := False\<rparr>"

text \<open>One message of \<open>writeLoop\<close>: the message written, if any.\<close>

definition write_next :: "ws_client \<Rightarrow> ws_client \<times> ws_message option" where
  "write_next c =
     (case wl_sendCh c of
        [] \<Rightarrow> (c, None)
      | m # ms \<Rightarrow> (c\<lparr>wl_sendCh := ms\<rparr>, if wl_connected c \<and> wl_conn c then Some m else None))"

datatype client_action = Handler string ws_message | Nothing

definition client_handleMessage :: "gotime \<Rightarrow> bool \<Rightarrow> ws_message \<Rightarrow> ws_client \<Rightarrow> ws_client \<times> client_action" where
  "client_handleMessage now pick msg c =
     (if List.member (wl_handlers c) (wm_Type msg) then (c, Handler (wm_Type msg) msg)
      else if wm_Type msg = MsgTypePing
           then (fst (client_Send pick (NewMessageWithID now (wm_ID msg) MsgTypePong None) c), Nothing)
           else (c, Nothing))"

definition SendHeartbeat :: "bool \<Rightarrow> gotime \<Rightarrow> string \<Rightarrow> agent_info \<Rightarrow> string \<Rightarrow> ws_client \<Rightarrow> ws_client \<times> bool" where
  "SendHeartbeat pick now uuid info status c =
     client_Send pick (NewMessage uuid now MsgTypeHeartbeat
       (Some (enc_HeartbeatPayload \<lparr>hb_AgentID = ai_ID info, hb_Status = status\<rparr>))) c"

definition metrics_payload_of :: "agent_info \<Rightarrow> system_metrics \<Rightarrow> metrics_payload" where
  "metrics_payload_of info m =
     \<lparr>mt_AgentID = ai_ID info, mt_CPUUsage = sm_CPUUsage m, mt_MemoryUsage = sm_MemoryUsage m,
      mt_MemoryTotal = sm_MemoryTotal m, mt_MemoryFree = sm_MemoryFree m, mt_DiskUsage = sm_DiskUsage m,
      mt_DiskTotal = sm_DiskTotal m, mt_DiskFree = sm_DiskFree m, mt_LoadAvg1 = sm_LoadAvg1 m,
      mt_LoadAvg5 = sm_LoadAvg5 m, mt_LoadAvg15 = sm_LoadAvg15 m, mt_Uptime = sm_Uptime m\<rparr>"

definition SendMetrics :: "bool \<Rightarrow> gotime \<Rightarrow> string \<Rightarrow> agent_info \<Rightarrow> system_metrics \<Rightarrow> ws_client \<Rightarrow> ws_client \<times> bool" where
  "SendMetrics pick now uuid info m c =
     client_Send pick (NewMessage uuid now MsgTypeMetrics
       (Some (enc_MetricsPayload (metrics_payload_of info m)))) c"

definition event_payload_of :: "agent_info \<Rightarrow> rule_event \<Rightarrow> event_payload" where
  "event_payload_of info ev =
     \<lparr>ep_AgentID = ai_ID info, ep_RuleID = re_RuleID ev, ep_RuleName = re_RuleName ev,
      ep_Condition = re_Condition ev, ep_Action = re_Action ev, ep_Success = re_Success ev,
      ep_Output = re_Output ev, ep_Error = re_Error ev, ep_Timestamp = re_Timestamp ev\<rparr>"

definition SendEvent :: "bool \<Rightarrow> gotime \<Rightarrow> string \<Rightarrow> agent_info \<Rightarrow> rule_event \<Rightarrow> ws_client \<Rightarrow> ws_client \<times> bool" where
  "SendEvent pick now uuid info ev c =
     client_Send pick (NewMessage uuid now MsgTypeEvent (Some (enc_EventPayload (event_payload_of info ev)))) c"

record node_result =
  nr_CommandID :: string
  nr_AgentID :: string
  nr_Success :: bool
  nr_Output :: string
  nr_Error :: string
  nr_ExitCode :: int
  nr_Duration :: duration
  nr_Timestamp :: gotime

definition SendCommandResult :: "bool \<Rightarrow> gotime \<Rightarrow> string \<Rightarrow> agent_info \<Rightarrow> node_result \<Rightarrow> ws_client \<Rightarrow> ws_client \<times> bool" where
  "SendCommandResult pick now uuid info r c =
     client_Send pick (NewMessage uuid now MsgTypeCommandResult (Some (enc_CommandResultPayload
       \<lparr>rs_CommandID = nr_CommandID r, rs_AgentID = ai_ID info, rs_Success = nr_Success r,
        rs_Output = nr_Output r, rs_Error = nr_Error r, rs_ExitCode = nr_ExitCode r,
        rs_Duration = nr_Duration r\<rparr>))) c"

definition SendEnvironment :: "bool \<Rightarrow> gotime \<Rightarrow> string \<Rightarrow> json \<Rightarrow> ws_client \<Rightarrow> ws_client \<times> bool" where
  "SendEnvironment pick now uuid env c = client_Send pick (NewMessage uuid now MsgTypeEnvironment (Some env)) c"

subsection \<open>The agent\<close>

record node_command =
  nc_ID :: string
  nc_Type :: string
  nc_Payload :: string
  nc_Timeout :: duration
  nc_Priority :: int
  nc_CreatedAt :: gotime

record config_update =
  co_Version :: string
  co_AutoRules :: "auto_rule list"
  co_UpdatedAt :: gotime

record node_heartbeat_response =
  nh_Commands :: "node_command option list"
  nh_ConfigUpdate :: "config_update option"

record agent_node =
  an_config :: agent_config
  an_info :: agent_info
  an_ruleEngine :: rule_engine
  an_wsClient :: "ws_client option"
  an_status :: string
  an_activeMaster :: "nat option" \<comment> \<open>a pointer into the configured masters\<close>
  an_lastHeartbeat :: gotime
  an_pendingEvents :: "rule_event list"

definition NewAgent :: "gotime \<Rightarrow> string \<Rightarrow> string \<Rightarrow> string \<Rightarrow> string \<Rightarrow> string \<Rightarrow> string list \<Rightarrow>
    (string \<rightharpoonup> string) \<Rightarrow> agent_config \<Rightarrow> agent_node" where
  "NewAgent now uuid hostname localIP cid name tags labels config =
     \<lparr>an_config = config,
      an_info = \<lparr>ai_ID = (if cid = [] then uuid else cid), ai_Name = name, ai_Hostname = hostname,
                 ai_IP = localIP, ai_Tags = tags, ai_Version = ''1.0.0'', ai_StartTime = now,
                 ai_Status = AgentStatusOffline, ai_Labels = labels\<rparr>,
      an_ruleEngine = SetRules (GetEnabledRules config) NewRuleEngine,
      an_wsClient = None, an_status = AgentStatusOffline, an_activeMaster = None,
      an_lastHeartbeat = zero_time, an_pendingEvents = []\<rparr>"

definition getActiveMaster :: "agent_node \<Rightarrow> nat option" where
  "getActiveMaster a =
     (case an_activeMaster a of Some i \<Rightarrow> Some i | None \<Rightarrow> GetActiveMaster (an_config a))"

definition setStatus :: "string \<Rightarrow> agent_node \<Rightarrow> agent_node" where
  "setStatus status a = a\<lparr>an_status := status, an_info := (an_info a)\<lparr>ai_Status := status\<rparr>\<rparr>"

text \<open>\<open>dial\<close> is the outcome of the first connection. \<open>None\<close> is the error of having no master.\<close>

definition startWebSocket :: "dial_result \<Rightarrow> agent_node \<Rightarrow> agent_node option" where
  "startWebSocket dial a =
     (case getActiveMaster a of
        None \<Rightarrow> None
      | Some i \<Rightarrow>
          let url = ''ws://'' @ mn_Addr (ac_Masters (an_config a) ! i) @ ''/ws/agent'';
              cfg = an_config a;
              c0 = NewWSClient (Some \<lparr>wf_ServerURL = url, wf_PingInterval = ac_WSPingInterval cfg,
                     wf_ReconnectInterval = ac_WSReconnectInterval cfg,
                     wf_WriteTimeout = ac_WSWriteTimeout cfg, wf_ReadTimeout = ac_WSReadTimeout cfg,
                     wf_MaxReconnectAttempts = 0\<rparr>);
              c1 = RegisterHandler MsgTypeRefreshEnv (RegisterHandler MsgTypeConfigUpdate
                     (RegisterHandler MsgTypeCommand c0))
          in Some (a\<lparr>an_wsClient := Some (client_Start dial c1)\<rparr>))"

subsection \<open>Failover\<close>

text \<open>The first master with the identifier of the active one is marked inactive.\<close>

fun deactivate :: "string \<Rightarrow> master_node list \<Rightarrow> master_node list" where
  "deactivate i [] = []"
| "deactivate i (m # ms) =
     (if mn_ID m = i then m\<lparr>mn_IsActive := False\<rparr> # ms else m # deactivate i ms)"

text \<open>\<open>up i\<close>: the i-th master answers its health check with status 200.\<close>

fun find_master :: "(nat \<Rightarrow> bool) \<Rightarrow> nat option \<Rightarrow> nat \<Rightarrow> nat \<Rightarrow> nat option" where
  "find_master up skip i 0 = None"
| "find_master up skip i (Suc n) =
     (if skip = Some i then find_master up skip (Suc i) n
      else if up i then Some i else find_master up skip (Suc i) n)"

definition tryFailover :: "(nat \<Rightarrow> bool) \<Rightarrow> agent_node \<Rightarrow> agent_node" where
  "tryFailover up a =
     (let masters = ac_Masters (an_config a);
          ms1 = (case an_activeMaster a of
                   None \<Rightarrow> masters
                 | Some i \<Rightarrow> deactivate (mn_ID (masters ! i)) masters)
      in case find_master up (an_activeMaster a) 0 (length ms1) of
           Some j \<Rightarrow>
             a\<lparr>an_config := (an_config a)\<lparr>ac_Masters := ms1[j := (ms1 ! j)\<lparr>mn_IsActive := True\<rparr>]\<rparr>,
               an_activeMaster := Some j\<rparr>
         | None \<Rightarrow>
             a\<lparr>an_config := (an_config a)\<lparr>ac_Masters := ms1\<rparr>, an_activeMaster := None,
               an_status := AgentStatusAutonomous\<rparr>)"

subsection \<open>Configuration updates\<close>

definition applyConfigUpdate :: "config_update \<Rightarrow> agent_node \<Rightarrow> agent_node" where
  "applyConfigUpdate update a =
     (if co_AutoRules update \<noteq> []
      then let config = (an_config a)\<lparr>ac_Rules := co_AutoRules update\<rparr>
           in a\<lparr>an_config := config, an_ruleEngine := SetRules (GetEnabledRules config) (an_ruleEngine a)\<rparr>
      else a)"

definition rule_of_data :: "auto_rule_data \<Rightarrow> auto_rule" where
  "rule_of_data r =
     \<lparr>ru_ID = rd_ID r, ru_Name = rd_Name r, ru_Description = rd_Description r, ru_Enabled = rd_Enabled r,
      ru_Condition = \<lparr>rn_Type = rc_Type (rd_Condition r), rn_Metric = rc_Metric (rd_Condition r),
        rn_Operator = rc_Operator (rd_Condition r), rn_Threshold = rc_Threshold (rd_Condition r),
        rn_Duration = rc_Duration (rd_Condition r)\<rparr>,
      ru_Actions = map (\<lambda>x. \<lparr>rx_Type = ra_Type x, rx_Command = ra_Command x, rx_Timeout = ra_Timeout x\<rparr>)
        (rd_Actions r),
      ru_Cooldown = rd_Cooldown r, ru_MaxRetries = rd_MaxRetries r, ru_LastTriggered = zero_time,
      ru_TriggerCount = 0\<rparr>"

definition handleWSConfigUpdate :: "gotime \<Rightarrow> ws_message \<Rightarrow> agent_node \<Rightarrow> agent_node" where
  "handleWSConfigUpdate now msg a =
     (case ParsePayload zero_ConfigUpdatePayload dec_ConfigUpdatePayload msg of
        None \<Rightarrow> a
      | Some payload \<Rightarrow>
          applyConfigUpdate \<lparr>co_Version = cu_Version payload,
            co_AutoRules = map rule_of_data (cu_AutoRules payload), co_UpdatedAt = now\<rparr> a)"

definition handleWSCommand :: "gotime \<Rightarrow> ws_message \<Rightarrow> node_command option" where
  "handleWSCommand now msg =
     (case ParsePayload zero_CommandPayload dec_CommandPayload msg of
        None \<Rightarrow> None
      | Some payload \<Rightarrow>
          Some \<lparr>nc_ID = cp_CommandID payload, nc_Type = cp_Type payload, nc_Payload = cp_Payload payload,
                nc_Timeout = cp_Timeout payload, nc_Priority = cp_Priority payload, nc_CreatedAt = now\<rparr>)"

text \<open>\<open>scan\<close> is the environment report of the scanner, encoded.\<close>

definition reportEnvironment :: "bool \<Rightarrow> gotime \<Rightarrow> string \<Rightarrow> json \<Rightarrow> agent_node \<Rightarrow> agent_node" where
  "reportEnvironment pick now uuid scan a =
     (case an_wsClient a of
        None \<Rightarrow> a
      | Some c \<Rightarrow> if client_IsConnected c
                  then a\<lparr>an_wsClient := Some (fst (SendEnvironment pick now uuid scan c))\<rparr> else a)"

subsection \<open>Heartbeats\<close>

definition start_commands :: "node_command option list \<Rightarrow> node_command list \<times> go_panic option" where
  "start_commands cmds = (List.map_filter id cmds, if None \<in> set cmds then Some NilDeref else None)"

text \<open>
  \<open>reply i\<close> is the decoded answer of the i-th master, \<open>None\<close> for every error of the request. A null
  command panics in the goroutine started for it. The result holds the commands started.
\<close>

definition http_heartbeat :: "gotime \<Rightarrow> (nat \<Rightarrow> node_heartbeat_response option) \<Rightarrow> (nat \<Rightarrow> bool) \<Rightarrow>
    agent_node \<Rightarrow> agent_node \<times> node_command list \<times> go_panic option" where
  "http_heartbeat now reply up a =
     (case getActiveMaster a of
        None \<Rightarrow> (setStatus AgentStatusAutonomous a, [], None)
      | Some i \<Rightarrow>
          (case reply i of
             None \<Rightarrow> (tryFailover up a, [], None)
           | Some resp \<Rightarrow>
               (let a1 = (setStatus AgentStatusOnline a)\<lparr>an_lastHeartbeat := now\<rparr>;
                    (cmds, p) = start_commands (nh_Commands resp);
                    a2 = (case nh_ConfigUpdate resp of None \<Rightarrow> a1 | Some u \<Rightarrow> applyConfigUpdate u a1)
                in (a2, cmds, p))))"

definition sendHeartbeat ::
  "bool \<Rightarrow> gotime \<Rightarrow> string \<Rightarrow> (nat \<Rightarrow> node_heartbeat_response option) \<Rightarrow> (nat \<Rightarrow> bool) \<Rightarrow> agent_node \<Rightarrow>
   agent_node \<times> node_command list \<times> go_panic option" where
  "sendHeartbeat pick now uuid reply up a =
     (case an_wsClient a of
        None \<Rightarrow> http_heartbeat now reply up a
      | Some c \<Rightarrow>
          if client_IsConnected c
          then (case SendHeartbeat pick now uuid (an_info a) (an_status a) c of
                  (c', True) \<Rightarrow>
                    ((setStatus AgentStatusOnline (a\<lparr>an_wsClient := Some c'\<rparr>))\<lparr>an_lastHeartbeat := now\<rparr>, [], None)
                | (c', False) \<Rightarrow> http_heartbeat now reply up (a\<lparr>an_wsClient := Some c'\<rparr>))
          else http_heartbeat now reply up a)"

definition metrics_tick :: "bool \<Rightarrow> gotime \<Rightarrow> string \<Rightarrow> system_metrics \<Rightarrow> agent_node \<Rightarrow> agent_node" where
  "metrics_tick pick now uuid m a =
     (let a1 = a\<lparr>an_ruleEngine := UpdateMetrics m (an_ruleEngine a)\<rparr> in
      case an_wsClient a1 of
        None \<Rightarrow> a1
      | Some c \<Rightarrow> if client_IsConnected c
                  then a1\<lparr>an_wsClient := Some (fst (SendMetrics pick now uuid (an_info a) m c))\<rparr> else a1)"

subsection \<open>Events to report\<close>

text \<open>\<open>eventCollectorLoop\<close> takes an event from the engine's channel.\<close>

definition collect_event :: "agent_node \<Rightarrow> agent_node" where
  "collect_event a =
     (case en_eventChan (an_ruleEngine a) of
        [] \<Rightarrow> a
      | ev # evs \<Rightarrow>
          a\<lparr>an_ruleEngine := (an_ruleEngine a)\<lparr>en_eventChan := evs\<rparr>,
            an_pendingEvents := cap_tail 1000 (an_pendingEvents a @ [ev])\<rparr>)"

text \<open>
  \<open>reportEvents\<close> empties the list and sends the request without holding the lock, so it is two steps:
  \<open>report_begin\<close> returns what is sent, \<open>report_end\<close> gets the outcome. A response of any status is a
  success; a request that cannot be built loses the events.
\<close>

definition report_begin :: "agent_node \<Rightarrow> agent_node \<times> rule_event list option" where
  "report_begin a =
     (if getActiveMaster a = None \<or> an_pendingEvents a = [] then (a, None)
      else (a\<lparr>an_pendingEvents := []\<rparr>, Some (an_pendingEvents a)))"

datatype report_outcome = MarshalError | RequestError | TransportError | Response

definition report_end :: "report_outcome \<Rightarrow> rule_event list \<Rightarrow> agent_node \<Rightarrow> agent_node" where
  "report_end out events a =
     (case out of
        MarshalError \<Rightarrow> a\<lparr>an_pendingEvents := events @ an_pendingEvents a\<rparr>
      | RequestError \<Rightarrow> a
      | TransportError \<Rightarrow> a\<lparr>an_pendingEvents := events @ an_pendingEvents a\<rparr>
      | Response \<Rightarrow> a)"

subsection \<open>Commands\<close>

definition CommandTypeShell :: string where "CommandTypeShell = ''shell''"
definition CommandTypeSkill :: string where "CommandTypeSkill = ''skill''"
definition CommandTypeShutdown :: string where "CommandTypeShutdown = ''shutdown''"

text \<open>\<open>run\<close> runs a shell command under a time limit: its output and, when it fails, the error and the
  exit code an \<open>ExitError\<close> carries. The readings of the clock are \<open>created\<close>, \<open>start\<close> and \<open>stop\<close>; the
  second result says that the agent will stop.\<close>

definition executeCommand ::
  "(duration \<Rightarrow> string \<Rightarrow> string \<times> (string \<times> int option) option) \<Rightarrow> gotime \<Rightarrow> gotime \<Rightarrow> gotime \<Rightarrow>
   node_command \<Rightarrow> agent_node \<Rightarrow> node_result \<times> bool" where
  "executeCommand run created start stop cmd a =
     (let r0 = \<lparr>nr_CommandID = nc_ID cmd, nr_AgentID = ai_ID (an_info a), nr_Success = False, nr_Output = [],
                nr_Error = [], nr_ExitCode = 0, nr_Duration = 0, nr_Timestamp = created\<rparr>;
          timeout = (if nc_Timeout cmd = 0 then ac_CommandTimeout (an_config a) else nc_Timeout cmd);
          r1 = (if nc_Type cmd = CommandTypeShell then
                  (case run timeout (nc_Payload cmd) of
                     (output, None) \<Rightarrow> r0\<lparr>nr_Output := output, nr_Success := True\<rparr>
                   | (output, Some (err, code)) \<Rightarrow>
                       r0\<lparr>nr_Output := output, nr_Error := err,
                          nr_ExitCode := (case code of None \<Rightarrow> 0 | Some n \<Rightarrow> n)\<rparr>)
                else if nc_Type cmd = CommandTypeSkill then r0\<lparr>nr_Error := ''skill '' @ [CHR 0xE6, CHR 0x89, CHR 0xA7, CHR 0xE8, CHR 0xA1, CHR 0x8C, CHR 0xE6, CHR 0x9A, CHR 0x82, CHR 0xE6, CHR 0x9C, CHR 0xAA, CHR 0xE5, CHR 0xAE, CHR 0x9E, CHR 0xE7, CHR 0x8E, CHR 0xB0]\<rparr>
                else if nc_Type cmd = CommandTypeShutdown then r0\<lparr>nr_Success := True\<rparr>
                else r0\<lparr>nr_Error := [CHR 0xE6, CHR 0x9C, CHR 0xAA, CHR 0xE7, CHR 0x9F, CHR 0xA5, CHR 0xE5, CHR 0x91, CHR 0xBD, CHR 0xE4, CHR 0xBB, CHR 0xA4, CHR 0xE7, CHR 0xB1, CHR 0xBB, CHR 0xE5, CHR 0x9E, CHR 0x8B] @ '': '' @ nc_Type cmd\<rparr>)
      in (r1\<lparr>nr_Duration := time_sub stop start\<rparr>, nc_Type cmd = CommandTypeShutdown))"

text \<open>The result goes to the active master by HTTP, whatever way the command came; without a master it
  is dropped.\<close>

definition reportCommandResult :: "node_result \<Rightarrow> agent_node \<Rightarrow> (nat \<times> node_result) option" where
  "reportCommandResult r a = map_option (\<lambda>i. (i, r)) (getActiveMaster a)"

definition GetInfo :: "agent_node \<Rightarrow> agent_info" where "GetInfo a = an_info a"
definition GetStatus :: "agent_node \<Rightarrow> string" where "GetStatus a = an_status a"

end
