(* ===== verification/Owl_AgentProps.thy ===== *)
theory Owl_AgentProps
  imports Owl_AgentNode Owl_RuleProps Owl_ProtocolProps "HOL-Library.Multiset"
begin

text \<open>
  The agent on its own: it finds a working master, reports every event, and what an update of its
  configuration and a lost connection do to it.
\<close>

subsection \<open>Failover\<close>

lemma find_master_spec:
  "find_master up skip i n = find (\<lambda>j. up j \<and> skip \<noteq> Some j) [i..<i + n]"
proof (induction n arbitrary: i)
  case (Suc n)
  have "[i..<i + Suc n] = i # [Suc i..<Suc i + n]" by (simp add: upt_conv_Cons)
  with Suc show ?case by auto
qed simp

lemma find_upt_Some:
  "find P [0..<n] = Some j \<longleftrightarrow> j < n \<and> P j \<and> (\<forall>k < j. \<not> P k)"
proof -
  have "find P [0..<n] = Some j \<longleftrightarrow> (\<exists>k < n. P k \<and> j = k \<and> (\<forall>l < k. \<not> P l))"
    unfolding find_Some_iff by (simp cong: conj_cong)
  then show ?thesis by auto
qed

lemma find_master_Some:
  "find_master up skip 0 n = Some j \<longleftrightarrow>
     j < n \<and> up j \<and> skip \<noteq> Some j \<and> (\<forall>k < j. up k \<longrightarrow> skip = Some k)"
  by (auto simp: find_master_spec find_upt_Some)

lemma find_master_None:
  "find_master up skip 0 n = None \<longleftrightarrow> (\<forall>k < n. up k \<longrightarrow> skip = Some k)"
  by (auto simp: find_master_spec find_None_iff)

lemma deactivate_length [simp]: "length (deactivate i ms) = length ms"
  by (induction ms) auto

lemma deactivate_addr: "k < length ms \<Longrightarrow> mn_Addr (deactivate i ms ! k) = mn_Addr (ms ! k)"
  by (induction ms arbitrary: k) (auto simp: nth_Cons split: nat.split)

text \<open>A failover takes the first master in the configured order, other than the active one,
  that answers its health check, and marks it active; if there is none the agent has no active
  master and is autonomous.\<close>

theorem failover_spec:
  "case an_activeMaster (tryFailover up a) of
     Some j \<Rightarrow> j < length (ac_Masters (an_config a)) \<and> up j \<and> an_activeMaster a \<noteq> Some j \<and>
       (\<forall>k < j. up k \<longrightarrow> an_activeMaster a = Some k) \<and>
       mn_IsActive (ac_Masters (an_config (tryFailover up a)) ! j) \<and>
       an_status (tryFailover up a) = an_status a
   | None \<Rightarrow> (\<forall>k < length (ac_Masters (an_config a)). up k \<longrightarrow> an_activeMaster a = Some k) \<and>
       an_status (tryFailover up a) = ''autonomous''"
proof -
  let ?ms = "case an_activeMaster a of None \<Rightarrow> ac_Masters (an_config a)
     | Some i \<Rightarrow> deactivate (mn_ID (ac_Masters (an_config a) ! i)) (ac_Masters (an_config a))"
  have len: "length ?ms = length (ac_Masters (an_config a))" by (simp split: option.split)
  show ?thesis
  proof (cases "find_master up (an_activeMaster a) 0 (length ?ms)")
    case None
    then have "an_activeMaster (tryFailover up a) = None" "an_status (tryFailover up a) = ''autonomous''"
      by (simp_all add: tryFailover_def Let_def AgentStatusAutonomous_def)
    with None len show ?thesis by (simp add: find_master_None)
  next
    case (Some j)
    then have j: "j < length ?ms" by (simp add: find_master_Some)
    from Some have t: "tryFailover up a =
        a\<lparr>an_config := (an_config a)\<lparr>ac_Masters := ?ms[j := (?ms ! j)\<lparr>mn_IsActive := True\<rparr>]\<rparr>, an_activeMaster := Some j\<rparr>"
      by (simp add: tryFailover_def Let_def)
    have "mn_IsActive (ac_Masters (an_config (tryFailover up a)) ! j)"
      using j unfolding t by simp
    with Some len show ?thesis by (simp add: t find_master_Some)
  qed
qed

definition two_masters :: agent_config where
  "two_masters = DefaultAgentConfig\<lparr>ac_Masters :=
     [\<lparr>mn_ID = ''m1'', mn_Name = [], mn_Addr = ''m1:80'', mn_Priority = 1, mn_IsActive = False\<rparr>,
      \<lparr>mn_ID = ''m2'', mn_Name = [], mn_Addr = ''m2:80'', mn_Priority = 2, mn_IsActive = False\<rparr>]\<rparr>"

definition node_a1 :: agent_node where
  "node_a1 = NewAgent 5 ''uuid'' ''web'' ''10.0.0.1'' ''a1'' ''agent'' [''eu''] Map.empty two_masters"

lemma node_a1_simps:
  "an_activeMaster node_a1 = None" "an_wsClient node_a1 = None" "an_config node_a1 = two_masters"
  "ac_Masters (an_config node_a1) \<noteq> []" "length (ac_Masters (an_config node_a1)) = 2"
  "an_status node_a1 = ''offline''" "length (ac_Masters two_masters) = 2"
  by (simp_all add: node_a1_def NewAgent_def two_masters_def AgentStatusOffline_def)

theorem failover_spec_witness: "an_activeMaster (tryFailover (\<lambda>i. i = 1) node_a1) = Some 1"
  using failover_spec[where up = "\<lambda>i. i = 1" and a = node_a1]
  by (auto simp: node_a1_simps All_less_Suc numeral_2_eq_2 split: option.splits)

subsection \<open>Heartbeats\<close>

lemma tryFailover_ws [simp]: "an_wsClient (tryFailover up a) = an_wsClient a"
  by (simp add: tryFailover_def Let_def split: option.split)

lemma tryFailover_masters [simp]:
  "length (ac_Masters (an_config (tryFailover up a))) = length (ac_Masters (an_config a))"
  by (simp add: tryFailover_def Let_def split: option.split)

lemma applyConfigUpdate_fields [simp]:
  "an_wsClient (applyConfigUpdate u a) = an_wsClient a"
  "an_status (applyConfigUpdate u a) = an_status a"
  "an_activeMaster (applyConfigUpdate u a) = an_activeMaster a"
  "ac_Masters (an_config (applyConfigUpdate u a)) = ac_Masters (an_config a)"
  by (simp_all add: applyConfigUpdate_def Let_def)

lemma setStatus_fields [simp]:
  "an_status (setStatus st a) = st" "an_wsClient (setStatus st a) = an_wsClient a"
  "an_activeMaster (setStatus st a) = an_activeMaster a" "an_config (setStatus st a) = an_config a"
  by (simp_all add: setStatus_def)

lemma http_heartbeat_answered:
  assumes "getActiveMaster a = Some i" and "reply i = Some resp"
  shows "an_status (fst (http_heartbeat now reply up a)) = ''online''"
    and "an_wsClient (fst (http_heartbeat now reply up a)) = an_wsClient a"
    and "getActiveMaster (fst (http_heartbeat now reply up a)) = Some i"
proof -
  have same: "GetActiveMaster (an_config (applyConfigUpdate u b)) = GetActiveMaster (an_config b)" for u b
    by (simp only: GetActiveMaster_def applyConfigUpdate_fields)
  show "an_status (fst (http_heartbeat now reply up a)) = ''online''"
    and "an_wsClient (fst (http_heartbeat now reply up a)) = an_wsClient a"
    and "getActiveMaster (fst (http_heartbeat now reply up a)) = Some i"
    using assms same
    by (simp_all add: http_heartbeat_def Let_def case_prod_unfold AgentStatusOnline_def getActiveMaster_def
        split: option.splits)
qed

lemma http_heartbeat_refused:
  "getActiveMaster a = Some i \<Longrightarrow> reply i = None \<Longrightarrow>
     fst (http_heartbeat now reply up a) = tryFailover up a"
  by (simp add: http_heartbeat_def)

lemma getActiveMaster_exists:
  assumes "ac_Masters (an_config a) \<noteq> []"
  shows "\<exists>i. getActiveMaster a = Some i"
proof (cases "an_activeMaster a")
  case None
  have "GetActiveMaster (an_config a) \<noteq> None"
    using assms by (auto simp: GetActiveMaster_def split: option.split list.split)
  with None show ?thesis by (auto simp: getActiveMaster_def)
qed (simp add: getActiveMaster_def)

text \<open>An agent without a WebSocket that has some reachable master is online after at most
  two heartbeats, whichever master it starts from, when the masters that answer health checks are
  those that answer heartbeats.\<close>

theorem heartbeat_recovers:
  assumes "an_wsClient a = None" and "ac_Masters (an_config a) \<noteq> []"
    and "j < length (ac_Masters (an_config a))" and "up j"
    and "\<forall>k. up k \<longleftrightarrow> reply k \<noteq> None"
  shows "an_status (fst (sendHeartbeat p2 t2 u2 reply up (fst (sendHeartbeat p1 t1 u1 reply up a)))) = ''online''"
proof -
  obtain i where i: "getActiveMaster a = Some i" using getActiveMaster_exists[OF assms(2)] by blast
  have ws: "sendHeartbeat p t u reply up b = http_heartbeat t reply up b" if "an_wsClient b = None" for p t u b
    using that by (simp add: sendHeartbeat_def)
  show ?thesis
  proof (cases "reply i")
    case (Some resp)
    note h = http_heartbeat_answered[where reply = reply and now = t1 and up = up, OF i Some]
    show ?thesis
      using http_heartbeat_answered(1)[where reply = reply, OF h(3) Some] h(2) assms(1) by (simp add: ws)
  next
    case None
    have "an_activeMaster a \<noteq> Some j"
      using i None assms(4,5) by (auto simp: getActiveMaster_def)
    with failover_spec[where up = up and a = a] assms(3,4) obtain k where
      k: "an_activeMaster (tryFailover up a) = Some k" "up k" by (auto split: option.splits)
    then obtain resp where resp: "reply k = Some resp" using assms(5) by blast
    have "getActiveMaster (tryFailover up a) = Some k" using k(1) by (simp add: getActiveMaster_def)
    from http_heartbeat_answered(1)[where reply = reply, OF this resp] show ?thesis
      using http_heartbeat_refused[where reply = reply, OF i None] assms(1) by (simp add: ws)
  qed
qed

definition empty_reply :: node_heartbeat_response where
  "empty_reply = \<lparr>nh_Commands = [], nh_ConfigUpdate = None\<rparr>"

theorem heartbeat_recovers_witness:
  "let reply = \<lambda>i. if i = 0 then Some empty_reply else None
   in getActiveMaster node_a1 = Some 1 \<and>
      an_status (fst (sendHeartbeat True 9 ''u'' reply (\<lambda>i. i = 0)
        (fst (sendHeartbeat True 8 ''u'' reply (\<lambda>i. i = 0) node_a1)))) = ''online''"
  using heartbeat_recovers[of node_a1 0 "\<lambda>i. i = 0" "\<lambda>i. if i = 0 then Some empty_reply else None"
      True 9 "''u''" True 8 "''u''"]
  by (simp add: node_a1_simps getActiveMaster_def GetActiveMaster_def) (simp add: two_masters_def)

subsection \<open>Reporting events\<close>

text \<open>The collector and any number of reports under way, in any order: \<open>Finish n out\<close> ends the n-th
  report that is under way. The state holds the agent, what is under way and what was delivered.\<close>

datatype report_op = Collect | Begin | Finish nat report_outcome

type_synonym report_state = "agent_node \<times> rule_event list list \<times> rule_event list"

fun report_step :: "report_op \<Rightarrow> report_state \<Rightarrow> report_state" where
  "report_step Collect (a, infl, sent) = (collect_event a, infl, sent)"
| "report_step Begin (a, infl, sent) =
     (case report_begin a of (a', None) \<Rightarrow> (a', infl, sent) | (a', Some evs) \<Rightarrow> (a', infl @ [evs], sent))"
| "report_step (Finish n out) (a, infl, sent) =
     (if n < length infl
      then (report_end out (infl ! n) a, take n infl @ drop (Suc n) infl,
            sent @ (if out = Response then infl ! n else []))
      else (a, infl, sent))"

definition report_run :: "report_op list \<Rightarrow> report_state \<Rightarrow> report_state" where
  "report_run = fold report_step"

fun all_events :: "report_state \<Rightarrow> rule_event multiset" where
  "all_events (a, infl, sent) =
     mset (en_eventChan (an_ruleEngine a)) + mset (an_pendingEvents a) + mset (concat infl) + mset sent"

lemma concat_remove:
  "n < length xss \<Longrightarrow> mset (concat xss) = mset (xss ! n) + mset (concat (take n xss @ drop (Suc n) xss))"
proof -
  assume "n < length xss"
  then have "xss = take n xss @ xss ! n # drop (Suc n) xss" by (rule id_take_nth_drop)
  then have "mset (concat xss) = mset (concat (take n xss @ xss ! n # drop (Suc n) xss))" by metis
  then show ?thesis by (simp add: ac_simps)
qed

lemma collect_event_events:
  "length (en_eventChan (an_ruleEngine a)) + length (an_pendingEvents a) \<le> 1000 \<Longrightarrow>
     mset (en_eventChan (an_ruleEngine (collect_event a))) + mset (an_pendingEvents (collect_event a)) =
       mset (en_eventChan (an_ruleEngine a)) + mset (an_pendingEvents a)"
  by (cases "en_eventChan (an_ruleEngine a)") (simp_all add: collect_event_def)

lemma report_step_events:
  assumes "size (all_events s) \<le> 1000" and "\<forall>n. op \<noteq> Finish n RequestError"
  shows "all_events (report_step op s) = all_events s"
proof -
  obtain a infl sent where s: "s = (a, infl, sent)" by (metis prod_cases3)
  show ?thesis
  proof (cases op)
    case Collect
    have "length (en_eventChan (an_ruleEngine a)) + length (an_pendingEvents a) \<le> 1000"
      using assms(1) by (simp add: s)
    from collect_event_events[OF this] show ?thesis by (simp add: Collect s)
  next
    case Begin
    then show ?thesis by (simp add: s report_begin_def)
  next
    case (Finish n out)
    show ?thesis
    proof (cases "n < length infl")
      case True
      with concat_remove[OF True] assms(2) Finish show ?thesis
        by (cases out) (simp_all add: s report_end_def)
    qed (simp add: Finish s)
  qed
qed


definition ev1 :: rule_event where
  "ev1 = \<lparr>re_RuleID = ''r1'', re_RuleName = ''cpu'', re_Condition = ''c'', re_Action = ''hot'', re_Success = True,
     re_Output = [], re_Error = [], re_Timestamp = 7\<rparr>"

definition node_ev :: agent_node where
  "node_ev = node_a1\<lparr>an_ruleEngine := (an_ruleEngine node_a1)\<lparr>en_eventChan := [ev1]\<rparr>, an_pendingEvents := []\<rparr>"


subsection \<open>Updates of the configuration\<close>

text \<open>An update by WebSocket that carries rules replaces the engine's rules by the enabled
  ones among them, and forgets when they last triggered: each is due again at once, inside the
  cooldown of its last run, and its count starts from zero.\<close>

theorem config_update_resets_cooldown:
  assumes "ParsePayload zero_ConfigUpdatePayload dec_ConfigUpdatePayload msg = Some p"
    and "cu_AutoRules p \<noteq> []"
  shows "en_rules (an_ruleEngine (handleWSConfigUpdate now msg a)) =
      map rule_of_data (filter rd_Enabled (cu_AutoRules p)) \<and>
    (\<forall>r \<in> set (en_rules (an_ruleEngine (handleWSConfigUpdate now msg a))).
       ru_TriggerCount r = 0 \<and> (\<forall>t. ru_Cooldown r \<le> t \<and> t \<le> max_int64 \<longrightarrow> rule_due t r))"
proof
  have enabled: "ru_Enabled (rule_of_data r) = rd_Enabled r" for r by (simp add: rule_of_data_def)
  show rules: "en_rules (an_ruleEngine (handleWSConfigUpdate now msg a)) =
      map rule_of_data (filter rd_Enabled (cu_AutoRules p))"
    using assms
    by (simp add: handleWSConfigUpdate_def applyConfigUpdate_def Let_def SetRules_def GetEnabledRules_def
        filter_map comp_def enabled)
  show "\<forall>r \<in> set (en_rules (an_ruleEngine (handleWSConfigUpdate now msg a))).
       ru_TriggerCount r = 0 \<and> (\<forall>t. ru_Cooldown r \<le> t \<and> t \<le> max_int64 \<longrightarrow> rule_due t r)"
    unfolding rules
    by (auto simp: rule_of_data_def rule_due_def time_sub_def zero_time_def)
qed

definition cpu_rule_data :: auto_rule_data where
  "cpu_rule_data = \<lparr>rd_ID = ''r1'', rd_Name = ''cpu'', rd_Description = [], rd_Enabled = True,
     rd_Condition = zero_RuleCondition, rd_Actions = [], rd_Cooldown = 5 * Minute, rd_MaxRetries = 0\<rparr>"

definition update_msg :: ws_message where
  "update_msg = NewMessage ''u'' 9 MsgTypeConfigUpdate (Some (enc_ConfigUpdatePayload
     \<lparr>cu_Version = ''v2'', cu_AutoRules = [cpu_rule_data]\<rparr>))"

lemma update_msg_parses:
  "ParsePayload zero_ConfigUpdatePayload dec_ConfigUpdatePayload update_msg =
     Some \<lparr>cu_Version = ''v2'', cu_AutoRules = [cpu_rule_data]\<rparr>"
  using dec_enc_ConfigUpdatePayload[of "\<lparr>cu_Version = ''v2'', cu_AutoRules = [cpu_rule_data]\<rparr>"]
  by (simp add: ParsePayload_def update_msg_def NewMessage_def rule_ok_def cpu_rule_data_def
      zero_RuleCondition_def int64_ok_def min_int64_def max_int64_def)

theorem config_update_resets_cooldown_witness:
  "\<exists>r. en_rules (an_ruleEngine (handleWSConfigUpdate 9 update_msg node_a1)) = [r] \<and>
     ru_Cooldown r = 5 * Minute \<and> rule_due (5 * Minute) r"
  using config_update_resets_cooldown[OF update_msg_parses, of 9 node_a1]
  by (auto simp: cpu_rule_data_def rule_of_data_def max_int64_def)

subsection \<open>Reconnecting\<close>

text \<open>The reconnect loop over a sequence of ticks, and the number of times it dialled.\<close>

fun reconnect_run :: "dial_result list \<Rightarrow> ws_client \<Rightarrow> ws_client \<times> nat" where
  "reconnect_run [] c = (c, 0)"
| "reconnect_run (d # ds) c =
     (case reconnect_tick (Some d) c of
        (c1, True, dialled) \<Rightarrow>
          (let (c2, n) = reconnect_run ds c1 in (c2, n + (if dialled then 1 else 0)))
      | (c1, False, dialled) \<Rightarrow> (c1, 0))"

lemma failed_tick:
  assumes "\<not> wl_connected c" and "d \<in> {DialFailed, WriteFailed, ReadFailed}"
  shows "reconnect_tick (Some d) c =
     (let c1 = c\<lparr>wl_reconnecting := True, wl_reconnectCnt := wl_reconnectCnt c + 1\<rparr>;
          most = wf_MaxReconnectAttempts (wl_config c)
      in if most > 0 \<and> wl_reconnectCnt c + 1 > most then (c1\<lparr>wl_done := True\<rparr>, False, False)
         else (c1\<lparr>wl_reconnecting := False\<rparr>, True, True))"
  using assms by (auto simp: reconnect_tick_def Let_def client_connect_def)

text \<open>While the server cannot be reached a disconnected client dials at every tick, but
  with a positive limit at most as often as the limit allows since the last success, after which the
  context is cancelled.\<close>

theorem reconnect_bounded:
  assumes "\<not> wl_connected c" and "set ds \<subseteq> {DialFailed, WriteFailed, ReadFailed}"
    and "wl_reconnectCnt c = int n" and "wf_MaxReconnectAttempts (wl_config c) = int m"
  shows "snd (reconnect_run ds c) = (if m = 0 then length ds else min (length ds) (m - n)) \<and>
    (0 < m \<and> m - n < length ds \<longrightarrow> wl_done (fst (reconnect_run ds c)))"
  using assms
proof (induction ds arbitrary: c n)
  case (Cons d ds)
  let ?c1 = "c\<lparr>wl_reconnectCnt := wl_reconnectCnt c + 1, wl_reconnecting := False\<rparr>"
  note tick = failed_tick[OF Cons.prems(1), of d]
  show ?case
  proof (cases "0 < m \<and> m \<le> n")
    case True
    with tick Cons.prems show ?thesis by (simp add: Let_def)
  next
    case False
    have "snd (reconnect_run ds ?c1) = (if m = 0 then length ds else min (length ds) (m - Suc n)) \<and>
        (0 < m \<and> m - Suc n < length ds \<longrightarrow> wl_done (fst (reconnect_run ds ?c1)))"
      by (rule Cons.IH) (use Cons.prems in simp_all)
    with False tick Cons.prems show ?thesis
      by (auto simp: Let_def case_prod_unfold)
  qed
qed simp

theorem reconnect_bounded_witness:
  "snd (reconnect_run (replicate 9 DialFailed)
     (NewWSClient (Some (DefaultWSClientConfig\<lparr>wf_MaxReconnectAttempts := 3\<rparr>)))) = 3"
  using reconnect_bounded[of "NewWSClient (Some (DefaultWSClientConfig\<lparr>wf_MaxReconnectAttempts := 3\<rparr>))"
      "replicate 9 DialFailed" 0 3]
  by (simp add: NewWSClient_def)

end
