(* ===== verification/Owl_AgentLink.thy ===== *)
theory Owl_AgentLink
  imports Owl_AgentProps Owl_APIProps
begin

text \<open>
  An agent and a master together: the requests of \<open>internal/agent-node\<close>, encoded by the json tags of
  its own types, as the handlers of \<open>internal/cluster\<close> read them, and the other way round. The two
  packages declare the same messages separately, and where their tags differ data is lost.
\<close>

subsection \<open>Encoders of the agent's requests and the master's answers\<close>

definition enc_SystemMetrics :: "system_metrics \<Rightarrow> json" where
  "enc_SystemMetrics m = JObj
     [(''cpu_usage'', JReal (sm_CPUUsage m)), (''memory_usage'', JReal (sm_MemoryUsage m)),
      (''memory_total'', JInt (int (sm_MemoryTotal m))), (''memory_free'', JInt (int (sm_MemoryFree m))),
      (''disk_usage'', JReal (sm_DiskUsage m)), (''disk_total'', JInt (int (sm_DiskTotal m))),
      (''disk_free'', JInt (int (sm_DiskFree m))), (''load_avg_1'', JReal (sm_LoadAvg1 m)),
      (''load_avg_5'', JReal (sm_LoadAvg5 m)), (''load_avg_15'', JReal (sm_LoadAvg15 m)),
      (''uptime'', JInt (sm_Uptime m)), (''timestamp'', JTime (sm_Timestamp m))]"

text \<open>The heartbeat request of an agent: its identifier, the time, its status and its metrics.\<close>

definition enc_node_heartbeat :: "gotime \<Rightarrow> agent_node \<Rightarrow> json" where
  "enc_node_heartbeat now a = JObj
     ([(''agent_id'', JStr (ai_ID (an_info a))), (''timestamp'', JTime now), (''status'', JStr (an_status a))] @
      (case en_metrics (an_ruleEngine a) of
         None \<Rightarrow> [] | Some m \<Rightarrow> [(''metrics'', enc_SystemMetrics m)]))"

text \<open>\<open>RuleEvent\<close> has no json tags: its keys are the names of its fields.\<close>

definition enc_RuleEvent :: "rule_event \<Rightarrow> json" where
  "enc_RuleEvent ev = JObj
     [(''RuleID'', JStr (re_RuleID ev)), (''RuleName'', JStr (re_RuleName ev)),
      (''Condition'', JStr (re_Condition ev)), (''Action'', JStr (re_Action ev)),
      (''Success'', JBool (re_Success ev)), (''Output'', JStr (re_Output ev)),
      (''Error'', JStr (re_Error ev)), (''Timestamp'', JTime (re_Timestamp ev))]"

definition enc_events_report :: "agent_node \<Rightarrow> rule_event list \<Rightarrow> json" where
  "enc_events_report a evs = JObj
     [(''agent_id'', JStr (ai_ID (an_info a))), (''events'', enc_list enc_RuleEvent evs)]"

definition enc_node_result :: "node_result \<Rightarrow> json" where
  "enc_node_result r = JObj
     ([(''command_id'', JStr (nr_CommandID r)), (''agent_id'', JStr (nr_AgentID r)),
       (''success'', JBool (nr_Success r)), (''output'', JStr (nr_Output r))] @
      omit (nr_Error r = []) ''error'' (JStr (nr_Error r)) @
      [(''exit_code'', JInt (nr_ExitCode r)), (''duration'', JInt (nr_Duration r)),
       (''timestamp'', JTime (nr_Timestamp r))])"

definition enc_PendingCommand :: "pending_command \<Rightarrow> json" where
  "enc_PendingCommand c = JObj
     [(''id'', JStr (pc_ID c)), (''agent_id'', JStr (pc_AgentID c)), (''type'', JStr (pc_Type c)),
      (''payload'', JStr (pc_Payload c)), (''timeout'', JInt (pc_Timeout c)),
      (''created_at'', JTime (pc_CreatedAt c)), (''expires_at'', JTime (pc_ExpiresAt c))]"

definition enc_HeartbeatResponse :: "heartbeat_response \<Rightarrow> json" where
  "enc_HeartbeatResponse r = JObj
     ([(''success'', JBool (hs_Success r)), (''master_id'', JStr (hs_MasterID r)),
       (''timestamp'', JTime (hs_Timestamp r))] @
      omit (hs_Commands r = []) ''commands'' (enc_list enc_PendingCommand (hs_Commands r)))"

definition dec_Command :: "json \<Rightarrow> node_command option" where
  "dec_Command j = do {
     o' \<leftarrow> struct_fields j;
     x0 \<leftarrow> field [] dec_string ''id'' o';
     x1 \<leftarrow> field [] dec_string ''type'' o';
     x2 \<leftarrow> field [] dec_string ''payload'' o';
     x3 \<leftarrow> field 0 dec_int ''timeout'' o';
     x4 \<leftarrow> field 0 dec_int ''priority'' o';
     x5 \<leftarrow> field zero_time dec_time ''created_at'' o';
     Some \<lparr>nc_ID = x0, nc_Type = x1, nc_Payload = x2, nc_Timeout = x3, nc_Priority = x4,
           nc_CreatedAt = x5\<rparr> }"

text \<open>The master's answers carry no configuration update; the agent would decode one.\<close>

definition dec_node_heartbeat_response :: "json \<Rightarrow> node_heartbeat_response option" where
  "dec_node_heartbeat_response j = do {
     o' \<leftarrow> struct_fields j;
     x0 \<leftarrow> field [] (dec_list (dec_ptr dec_Command)) ''commands'' o';
     Some \<lparr>nh_Commands = x0, nh_ConfigUpdate = None\<rparr> }"

lemma link_lower [simp]:
  "ToLower ''RuleID'' = ''ruleid''" "ToLower ''RuleName'' = ''rulename''"
  "ToLower ''Condition'' = ''condition''" "ToLower ''Action'' = ''action''"
  "ToLower ''Success'' = ''success''" "ToLower ''Output'' = ''output''" "ToLower ''Error'' = ''error''"
  "ToLower ''Timestamp'' = ''timestamp''" "ToLower ''commands'' = ''commands''"
  "ToLower ''events'' = ''events''" "ToLower ''metrics'' = ''metrics''"
  "ToLower ''created_at'' = ''created_at''" "ToLower ''expires_at'' = ''expires_at''"
  "ToLower ''master_id'' = ''master_id''"
  by code_simp+

subsection \<open>Results\<close>

lemma dec_enc_result:
  "int64_ok (nr_ExitCode r) \<Longrightarrow> int64_ok (nr_Duration r) \<Longrightarrow>
     dec_CommandResult (enc_node_result r) =
       Some \<lparr>cr_CommandID = nr_CommandID r, cr_AgentID = nr_AgentID r, cr_Success = nr_Success r,
             cr_Output = nr_Output r, cr_Error = nr_Error r, cr_ExitCode = nr_ExitCode r,
             cr_Duration = nr_Duration r, cr_Timestamp = nr_Timestamp r\<rparr>"
  by (simp add: dec_CommandResult_def enc_node_result_def decoding del: dec_int.simps)


definition df_command :: node_command where
  "df_command = \<lparr>nc_ID = ''cmd-1'', nc_Type = ''shell'', nc_Payload = ''df'', nc_Timeout = 0, nc_Priority = 0,
     nc_CreatedAt = 5\<rparr>"


subsection \<open>Commands by polling\<close>

lemma dec_enc_command:
  "int64_ok (pc_Timeout c) \<Longrightarrow>
     dec_Command (enc_PendingCommand c) =
       Some \<lparr>nc_ID = pc_ID c, nc_Type = pc_Type c, nc_Payload = pc_Payload c, nc_Timeout = pc_Timeout c,
             nc_Priority = 0, nc_CreatedAt = pc_CreatedAt c\<rparr>"
  by (simp add: dec_Command_def enc_PendingCommand_def decoding del: dec_int.simps)

definition command_seen :: "pending_command \<Rightarrow> node_command" where
  "command_seen c = \<lparr>nc_ID = pc_ID c, nc_Type = pc_Type c, nc_Payload = pc_Payload c,
     nc_Timeout = pc_Timeout c, nc_Priority = 0, nc_CreatedAt = pc_CreatedAt c\<rparr>"

lemma dec_all_enc:
  "(\<And>c. c \<in> set cs \<Longrightarrow> dec (enc c) = Some (f c)) \<Longrightarrow> dec_all dec (map enc cs) = Some (map f cs)"
  by (induction cs) auto

lemma dec_enc_response:
  assumes "\<forall>c\<in>set (hs_Commands r). int64_ok (pc_Timeout c)"
  shows "dec_node_heartbeat_response (enc_HeartbeatResponse r) =
     Some \<lparr>nh_Commands = map (Some \<circ> command_seen) (hs_Commands r), nh_ConfigUpdate = None\<rparr>"
proof -
  have "dec_ptr dec_Command (enc_PendingCommand c) = Some (Some (command_seen c))"
    if "c \<in> set (hs_Commands r)" for c
    using dec_enc_command[of c] assms that by (simp add: dec_ptr_def command_seen_def enc_PendingCommand_def)
  then have "dec_list (dec_ptr dec_Command) (enc_list enc_PendingCommand (hs_Commands r)) =
      Some (map (Some \<circ> command_seen) (hs_Commands r))"
    by (simp add: enc_list_def dec_all_enc)
  then show ?thesis
    by (simp add: dec_node_heartbeat_response_def enc_HeartbeatResponse_def decoding)
qed

lemma dec_metrics_system:
  "int64_ok (sm_Uptime m) \<Longrightarrow> \<exists>am. dec_ptr dec_AgentMetrics (enc_SystemMetrics m) = Some (Some am)"
  by (simp add: dec_ptr_def dec_AgentMetrics_def enc_SystemMetrics_def decoding del: dec_int.simps)

lemma dec_node_heartbeat:
  assumes "\<forall>m. en_metrics (an_ruleEngine a) = Some m \<longrightarrow> int64_ok (sm_Uptime m)"
  shows "\<exists>req. dec_HeartbeatRequest (enc_node_heartbeat now a) = Some req \<and>
     hr_AgentID req = ai_ID (an_info a) \<and> hr_Hostname req = [] \<and> hr_IP req = [] \<and> hr_Tags req = [] \<and>
     hr_Labels req = Map.empty \<and> hr_Status req = an_status a"
proof (cases "en_metrics (an_ruleEngine a)")
  case None
  then show ?thesis by (simp add: dec_HeartbeatRequest_def enc_node_heartbeat_def decoding)
next
  case (Some m)
  with assms obtain am where "dec_ptr dec_AgentMetrics (enc_SystemMetrics m) = Some (Some am)"
    using dec_metrics_system by blast
  moreover have "enc_SystemMetrics m \<noteq> JNull" by (simp add: enc_SystemMetrics_def)
  ultimately show ?thesis
    using Some by (simp add: dec_HeartbeatRequest_def enc_node_heartbeat_def decoding)
qed

text \<open>Property C34: when an agent polls by heartbeat, the commands it starts are exactly those that
  waited for it on the master, in order, with identifier, type, payload and timeout, and the queue
  is empty afterwards. The same request erases what the master knew of the agent: its host name,
  address, tags and labels become empty, because the agent's request does not carry them.\<close>

theorem polling_heartbeat:
  assumes "\<forall>m. en_metrics (an_ruleEngine a) = Some m \<longrightarrow> int64_ok (sm_Uptime m)"
    and "\<forall>c\<in>set (queue_of (ai_ID (an_info a)) (sv_cluster s)). int64_ok (pc_Timeout c)"
    and "an_wsClient a = None" and "getActiveMaster a = Some i"
    and "api_handleHeartbeat t ''POST'' (Some (enc_node_heartbeat now a)) s = (s', changes, Ok rsp)"
    and "reply i = dec_node_heartbeat_response (enc_HeartbeatResponse rsp)"
  shows "(\<exists>a'. sendHeartbeat pick now uuid reply up a =
            (a', map command_seen (queue_of (ai_ID (an_info a)) (sv_cluster s)), None) \<and>
          an_status a' = ''online'') \<and>
     queue_of (ai_ID (an_info a)) (sv_cluster s') = [] \<and>
     (\<exists>rec. GetAgent (ai_ID (an_info a)) (sv_cluster s') = Some rec \<and>
        ar_Hostname rec = [] \<and> ar_IP rec = [] \<and> ar_Tags rec = [] \<and> ar_Labels rec = Map.empty)"
proof -
  from dec_node_heartbeat[OF assms(1), of now] obtain req where
    req: "dec_HeartbeatRequest (enc_node_heartbeat now a) = Some req" "hr_AgentID req = ai_ID (an_info a)"
      "hr_Hostname req = []" "hr_IP req = []" "hr_Tags req = []" "hr_Labels req = Map.empty" by blast
  let ?hb = "HandleHeartbeat t (ai_ID (an_info a)) [] [] [] Map.empty (hr_Status req) (hr_Metrics req) (sv_cluster s)"
  have s': "s' = s\<lparr>sv_cluster := fst ?hb\<rparr>" "hs_Commands rsp = fst (snd ?hb)"
    using assms(5) req
    by (auto simp: api_handleHeartbeat_def MethodPost_def dec_body_def case_prod_unfold Let_def)
  then have cmds: "hs_Commands rsp = queue_of (ai_ID (an_info a)) (sv_cluster s)"
    by (simp add: owl_state)
  have "reply i = Some \<lparr>nh_Commands = map (Some \<circ> command_seen) (hs_Commands rsp), nh_ConfigUpdate = None\<rparr>"
    using dec_enc_response[of rsp] assms(2,6) cmds by simp
  moreover have "List.map_filter id (map (Some \<circ> f) cs) = map f cs" "None \<notin> set (map (Some \<circ> f) cs)"
    for f :: "pending_command \<Rightarrow> node_command" and cs
    by (induction cs) (auto simp: List.map_filter_simps)
  ultimately have "\<exists>a'. sendHeartbeat pick now uuid reply up a =
       (a', map command_seen (queue_of (ai_ID (an_info a)) (sv_cluster s)), None) \<and> an_status a' = ''online''"
    using assms(3,4) cmds
    by (simp add: sendHeartbeat_def http_heartbeat_def start_commands_def AgentStatusOnline_def)
  then show ?thesis by (simp add: s' owl_state GetAgent_def)
qed

theorem polling_heartbeat_witness:
  "\<exists>a'. sendHeartbeat True 9 ''u'' (\<lambda>_. dec_node_heartbeat_response (enc_HeartbeatResponse
       \<lparr>hs_Success = True, hs_MasterID = ''m1'', hs_Timestamp = 9,
        hs_Commands = [command_of 8 ''a1'' ''shell'' ''df'' 0]\<rparr>)) (\<lambda>_. True) node_a1 =
     (a', [command_seen (command_of 8 ''a1'' ''shell'' ''df'' 0)], None)"
proof -
  let ?s = "ws_waiting"
  have q: "queue_of ''a1'' (sv_cluster ?s) = [command_of 8 ''a1'' ''shell'' ''df'' 0]" by (rule ws_waiting_queue)
  have info: "ai_ID (an_info node_a1) = ''a1''" "en_metrics (an_ruleEngine node_a1) = None"
    by (simp_all add: node_a1_def NewAgent_def SetRules_def NewRuleEngine_def)
  have act: "getActiveMaster node_a1 = Some 1"
    by (simp add: getActiveMaster_def GetActiveMaster_def node_a1_simps) (simp add: two_masters_def)
  obtain req where req: "dec_HeartbeatRequest (enc_node_heartbeat 9 node_a1) = Some req" "hr_AgentID req = ''a1''"
    using dec_node_heartbeat[of node_a1 9] info by auto
  have self: "mi_ID (mc_self (sv_cluster ?s)) = ''m1''"
    by (simp add: ws_waiting_def NewWSServer_def SendCommand_def witness_cluster_def HandleHeartbeat_def
        NewMasterCluster_def Let_def)
  let ?rsp = "\<lparr>hs_Success = True, hs_MasterID = ''m1'', hs_Timestamp = 9,
        hs_Commands = [command_of 8 ''a1'' ''shell'' ''df'' 0]\<rparr>"
  have "\<exists>s' changes. api_handleHeartbeat 9 ''POST'' (Some (enc_node_heartbeat 9 node_a1)) ?s = (s', changes, Ok ?rsp)"
    using req q self
    by (simp add: api_handleHeartbeat_def MethodPost_def dec_body_def case_prod_unfold owl_state GetSelf_def)
      (simp add: HandleHeartbeat_def Let_def)
  then obtain s' changes where
    api: "api_handleHeartbeat 9 ''POST'' (Some (enc_node_heartbeat 9 node_a1)) ?s = (s', changes, Ok ?rsp)" by blast
  have ok: "int64_ok (pc_Timeout (command_of 8 ''a1'' ''shell'' ''df'' 0))"
    by (simp add: command_of_def int64_ok_def min_int64_def max_int64_def)
  show ?thesis
    using polling_heartbeat[where reply = "\<lambda>_. dec_node_heartbeat_response (enc_HeartbeatResponse ?rsp)"
        and pick = True and uuid = "''u''" and up = "\<lambda>_. True", OF _ _ node_a1_simps(2) act api]
      q info ok by auto
qed

subsection \<open>Events\<close>

lemma dec_enc_event:
  "dec_ptr dec_AgentEvent (enc_RuleEvent ev) =
     Some (Some \<lparr>ev_AgentID = [], ev_RuleID = [], ev_RuleName = [], ev_Condition = re_Condition ev,
        ev_Action = re_Action ev, ev_Success = re_Success ev, ev_Output = re_Output ev,
        ev_Error = re_Error ev, ev_Timestamp = re_Timestamp ev\<rparr>)"
  by (simp add: dec_ptr_def dec_AgentEvent_def enc_RuleEvent_def decoding)

definition event_seen :: "string \<Rightarrow> rule_event \<Rightarrow> agent_event" where
  "event_seen a ev = \<lparr>ev_AgentID = a, ev_RuleID = [], ev_RuleName = [], ev_Condition = re_Condition ev,
        ev_Action = re_Action ev, ev_Success = re_Success ev, ev_Output = re_Output ev,
        ev_Error = re_Error ev, ev_Timestamp = re_Timestamp ev\<rparr>"

text \<open>The events an agent reports by HTTP are appended to the master's log in order, but
  without the identifier and the name of their rule, which the agent writes under keys the master
  does not read; the same event sent by WebSocket keeps both.\<close>

theorem http_events_lose_rule:
  "(\<exists>s'. api_handleEvents ''POST'' (Some (enc_events_report a evs)) s = (s', Ok True) \<and>
      mc_events (sv_cluster s') =
        cap_tail 10000 (mc_events (sv_cluster s) @ map (event_seen (ai_ID (an_info a))) evs)) \<and>
   ParsePayload zero_EventPayload dec_EventPayload
     (NewMessage u t MsgTypeEvent (Some (enc_EventPayload (event_payload_of (an_info a) ev)))) =
       Some (event_payload_of (an_info a) ev) \<and>
   ep_RuleID (event_payload_of (an_info a) ev) = re_RuleID ev \<and>
   ep_RuleName (event_payload_of (an_info a) ev) = re_RuleName ev"
proof (intro conjI)
  have "dec_all (dec_ptr dec_AgentEvent) (map enc_RuleEvent evs) = Some (map (Some \<circ> event_seen []) evs)"
    by (rule dec_all_enc) (simp add: dec_enc_event event_seen_def)
  then have dec: "dec_EventsRequest (enc_events_report a evs) =
      Some \<lparr>eq_AgentID = ai_ID (an_info a), eq_Events = map (Some \<circ> event_seen []) evs\<rparr>"
    by (simp add: dec_EventsRequest_def enc_events_report_def decoding enc_list_def)
  have stamp: "(\<lambda>e. e\<lparr>ev_AgentID := x\<rparr>) \<circ> event_seen [] = event_seen x" for x
    by (simp add: event_seen_def fun_eq_iff)
  have "HandleAgentEvents i (map (Some \<circ> event_seen []) evs) mc =
      (mc\<lparr>mc_events := cap_tail 10000 (mc_events mc @ map (event_seen i) evs)\<rparr>, None)" for i mc
    using HandleAgentEvents_Some[of i "map (event_seen []) evs" mc] by (simp add: stamp)
  with dec show "\<exists>s'. api_handleEvents ''POST'' (Some (enc_events_report a evs)) s = (s', Ok True) \<and>
     mc_events (sv_cluster s') =
       cap_tail 10000 (mc_events (sv_cluster s) @ map (event_seen (ai_ID (an_info a))) evs)"
    by (simp add: api_handleEvents_def MethodPost_def dec_body_def)
qed (simp_all add: ParsePayload_def NewMessage_def event_payload_of_def)

end
