(* ===== verification/Owl_EnvScan.thy ===== *)
theory Owl_EnvScan
  imports Owl_Protocol
begin

text \<open>
  \<open>internal/agent-node/environment.go\<close>: what an agent reads out of the text that docker and the
  configuration files of its proxies give. Running docker and reading files are arguments; \<open>None\<close>
  is their failure. The nginx parser rests on regular expressions and is not modelled.
\<close>

definition relevant_prefixes :: "string list" where
  "relevant_prefixes = [''POSTGRES'', ''MYSQL'', ''REDIS'', ''MONGO'', ''DB_'', ''DATABASE'', ''PASSWORD'',
     ''USER'', ''HOST'', ''PORT'', ''SECRET'', ''KEY'', ''TOKEN'', ''DSN'', ''URL'']"

definition isRelevantEnv :: "string \<Rightarrow> bool" where
  "isRelevantEnv key = list_ex (\<lambda>p. Contains (ToUpper key) p) relevant_prefixes"

fun parse_env :: "string list \<Rightarrow> (string \<rightharpoonup> string) \<Rightarrow> (string \<rightharpoonup> string)" where
  "parse_env [] env = env"
| "parse_env (p # ps) env =
     (case Cut (TrimSpace p) ''='' of
        None \<Rightarrow> parse_env ps env
      | Some (key, val) \<Rightarrow>
          if key \<noteq> [] \<and> isRelevantEnv key then parse_env ps (env(key \<mapsto> val)) else parse_env ps env)"

definition inspectContainer :: "string option \<Rightarrow> container option" where
  "inspectContainer output =
     (case output of
        None \<Rightarrow> None
      | Some out \<Rightarrow>
          let parts = split_on CHR ''|'' (TrimSpace out) in
          if length parts < 2 then None
          else Some \<lparr>pk_Image = parts ! 0, pk_Status = parts ! 1,
                     pk_Env = (if length parts > 2 then parse_env (split_str ''||'' (parts ! 2)) Map.empty
                               else Map.empty),
                     pk_Ports = [],
                     pk_Network = (if length parts > 3 \<and> last parts \<noteq> [] then last parts else [])\<rparr>)"

definition env_or_empty :: "(string \<rightharpoonup> string) \<Rightarrow> string \<Rightarrow> string" where
  "env_or_empty env k = (case env k of None \<Rightarrow> [] | Some v \<Rightarrow> v)"

definition extractDatabaseFromEnv :: "string \<Rightarrow> container \<Rightarrow> environment_payload \<Rightarrow> environment_payload" where
  "extractDatabaseFromEnv name info env =
     (let e = pk_Env info;
          src = ''container:'' @ name @ '' env'';
          add = (\<lambda>k d p. p\<lparr>en_Databases := (en_Databases p)(name @ k \<mapsto> Some d)\<rparr>);
          env1 = (case e ''POSTGRES_USER'' of
                    None \<Rightarrow> env
                  | Some user \<Rightarrow> add ''-postgres'' \<lparr>pd_Type = ''postgres'', pd_Host = name, pd_Port = ''5432'',
                      pd_User = user, pd_Password = env_or_empty e ''POSTGRES_PASSWORD'',
                      pd_Database = env_or_empty e ''POSTGRES_DB'', pd_Source = src\<rparr> env);
          env2 = (case e ''MYSQL_USER'' of
                    None \<Rightarrow> env1
                  | Some user \<Rightarrow> add ''-mysql'' \<lparr>pd_Type = ''mysql'', pd_Host = name, pd_Port = ''3306'',
                      pd_User = user, pd_Password = env_or_empty e ''MYSQL_PASSWORD'',
                      pd_Database = env_or_empty e ''MYSQL_DATABASE'', pd_Source = src\<rparr> env1)
      in case e ''REDIS_PASSWORD'' of
           None \<Rightarrow> env2
         | Some pass \<Rightarrow> add ''-redis'' \<lparr>pd_Type = ''redis'', pd_Host = name, pd_Port = ''6379'', pd_User = [],
             pd_Password = pass, pd_Database = [], pd_Source = src\<rparr> env2)"

fun scan_names :: "(string \<Rightarrow> string option) \<Rightarrow> string list \<Rightarrow> environment_payload \<Rightarrow> environment_payload" where
  "scan_names inspect [] env = env"
| "scan_names inspect (name # ns) env =
     (case inspectContainer (inspect name) of
        None \<Rightarrow> scan_names inspect ns env
      | Some info \<Rightarrow>
          scan_names inspect ns (extractDatabaseFromEnv name info
            (env\<lparr>en_Containers := (en_Containers env)(name \<mapsto> Some info)\<rparr>)))"

text \<open>\<open>ps\<close> is the output of \<open>docker ps\<close>, \<open>inspect\<close> that of \<open>docker inspect\<close>.\<close>

definition scanContainers :: "string option \<Rightarrow> (string \<Rightarrow> string option) \<Rightarrow> environment_payload \<Rightarrow> environment_payload" where
  "scanContainers ps inspect env =
     (case ps of None \<Rightarrow> env | Some output \<Rightarrow> scan_names inspect (Fields output) env)"

definition scanHost :: "string option \<Rightarrow> string option \<Rightarrow> environment_payload \<Rightarrow> environment_payload" where
  "scanHost hostname ips env =
     (let h1 = (case hostname of None \<Rightarrow> en_Host env | Some n \<Rightarrow> (en_Host env)\<lparr>ph_Hostname := n\<rparr>);
          h2 = (case ips of
                  None \<Rightarrow> h1
                | Some output \<Rightarrow> (case Fields output of [] \<Rightarrow> h1 | ip # _ \<Rightarrow> h1\<lparr>ph_IP := ip\<rparr>))
      in env\<lparr>en_Host := h2\<rparr>)"

subsection \<open>The Caddyfile\<close>

definition caddy_words :: "string list" where
  "caddy_words = [''{'', ''}'', ''reverse_proxy'', ''root'', ''file_server'', ''@'', ''header'', ''encode'',
     ''tls'', ''log'', ''transport'']"

definition caddy_line :: "string \<Rightarrow> string \<times> site list \<Rightarrow> string \<times> site list" where
  "caddy_line raw st =
     (let (domain, sites) = st; line = TrimSpace raw; parts = Fields line in
      if line = [] \<or> prefix ''#'' line then st
      else
        let dom1 = (if list_all (\<lambda>w. \<not> prefix w line) caddy_words \<and> parts \<noteq> [] \<and>
                       (Contains (hd parts) ''.'' \<or> prefix '':'' (hd parts))
                    then hd parts else domain);
            sites1 = (if prefix ''reverse_proxy'' line \<and> dom1 \<noteq> []
                      then (case find (\<lambda>p. \<not> prefix ''@'' p \<and> \<not> prefix ''{'' p) (tl parts) of
                              None \<Rightarrow> sites
                            | Some backend \<Rightarrow>
                                sites @ [\<lparr>ps_Domain = dom1, ps_Backend = backend, ps_Root = []\<rparr>])
                      else sites);
            sites2 = (if prefix ''root'' line \<and> dom1 \<noteq> [] \<and> length parts \<ge> 3
                      then sites1 @ [\<lparr>ps_Domain = dom1, ps_Backend = [], ps_Root = parts ! 2\<rparr>]
                      else sites1)
        in (dom1, sites2))"

definition parseCaddyfile :: "string \<Rightarrow> string \<Rightarrow> proxy" where
  "parseCaddyfile content path =
     \<lparr>pp_Type = ''caddy'', pp_ConfigFile = path,
      pp_Sites = snd (fold caddy_line (split_on (CHR 0x0A) content) ([], [])),
      pp_Source = ''file:'' @ path\<rparr>"

subsection \<open>The variables of a container\<close>

text \<open>The text \<open>docker inspect\<close> prints for the template: image, status, every variable followed by two
  bars, and the network.\<close>

definition inspect_output :: "string \<Rightarrow> string \<Rightarrow> string list \<Rightarrow> string \<Rightarrow> string" where
  "inspect_output img status vars net =
     img @ ''|'' @ status @ ''|'' @ concat (map (\<lambda>v. v @ ''||'') vars) @ ''|'' @ net"

lemma split_on_app: "CHR ''|'' \<notin> set a \<Longrightarrow> split_on CHR ''|'' (a @ CHR ''|'' # b) = a # split_on CHR ''|'' b"
  by (induction a) auto

lemma TrimSpace_bars: "TrimSpace s = s \<Longrightarrow> inspectContainer (Some s) =
   (let parts = split_on CHR ''|'' s in
          if length parts < 2 then None
          else Some \<lparr>pk_Image = parts ! 0, pk_Status = parts ! 1,
                     pk_Env = (if length parts > 2 then parse_env (split_str ''||'' (parts ! 2)) Map.empty
                               else Map.empty),
                     pk_Ports = [],
                     pk_Network = (if length parts > 3 \<and> last parts \<noteq> [] then last parts else [])\<rparr>)"
  by (simp add: inspectContainer_def)

lemma no_bar_no_bars: "CHR ''|'' \<notin> set v \<Longrightarrow> \<not> Contains v ''||''"
  by (auto simp: Contains_sublist sublist_def)

text \<open>Of the variables of a container only the first is read. The template separates them
  by two bars but the text is first split at every single bar, so that the third part holds one
  variable: all others, a password next to a user among them, are lost.\<close>

theorem inspect_keeps_first_variable:
  assumes "CHR ''|'' \<notin> set img" "CHR ''|'' \<notin> set status" "CHR ''|'' \<notin> set v"
    and "TrimSpace (inspect_output img status (v # vs) net) = inspect_output img status (v # vs) net"
  shows "map_option pk_Env (inspectContainer (Some (inspect_output img status (v # vs) net))) =
      Some (parse_env [v] Map.empty) \<and>
    map_option pk_Image (inspectContainer (Some (inspect_output img status (v # vs) net))) = Some img \<and>
    map_option pk_Status (inspectContainer (Some (inspect_output img status (v # vs) net))) = Some status"
proof -
  have "split_on CHR ''|'' (inspect_output img status (v # vs) net) =
      img # status # v # split_on CHR ''|'' (CHR ''|'' # concat (map (\<lambda>v. v @ ''||'') vs) @ ''|'' @ net)"
    using assms(1-3) by (simp add: inspect_output_def split_on_app)
  then show ?thesis
    using assms(3) no_bar_no_bars[OF assms(3)]
    by (simp add: TrimSpace_bars[OF assms(4)] Let_def split_str_none)
qed

theorem inspect_keeps_first_variable_witness:
  "map_option (\<lambda>c. (pk_Env c ''POSTGRES_USER'', pk_Env c ''POSTGRES_PASSWORD''))
     (inspectContainer (Some (inspect_output ''pg'' ''running'' [''POSTGRES_USER=u'', ''POSTGRES_PASSWORD=p''] ''net'')))
   = Some (Some ''u'', None)"
proof -
  let ?vs = "[''POSTGRES_USER=u'', ''POSTGRES_PASSWORD=p'']"
  have "TrimSpace (inspect_output ''pg'' ''running'' ?vs ''net'') = inspect_output ''pg'' ''running'' ?vs ''net''"
    by code_simp
  from inspect_keeps_first_variable[OF _ _ _ this]
  have "map_option pk_Env (inspectContainer (Some (inspect_output ''pg'' ''running'' ?vs ''net''))) =
      Some (parse_env [''POSTGRES_USER=u''] Map.empty)" by simp
  moreover have "parse_env [''POSTGRES_USER=u''] Map.empty ''POSTGRES_USER'' = Some ''u''"
    "parse_env [''POSTGRES_USER=u''] Map.empty ''POSTGRES_PASSWORD'' = None" by code_simp+
  ultimately show ?thesis by (auto simp: map_option_case split: option.splits)
qed

end
