(* ===== verification/Owl_Safety.thy ===== *)
theory Owl_Safety
  imports Owl_Json
begin

text \<open>
  \<open>internal/agent/safety.go\<close>, \<open>tools.go\<close>, \<open>registry.go\<close> and \<open>confirm.go\<close>: which commands the
  assistant may run by itself, which after a confirmation and which never, and the tools that run
  them. Regular expressions are the argument \<open>matches\<close> (\<open>None\<close> for a pattern that does not
  compile). Programs run on a machine with a state of any type; every program started is logged. The
  Windows shell is left out. Arguments of a tool are JSON values by name; the checker, which the code
  injects under \<open>_safety_checker\<close>, is an argument of the handlers.
\<close>

subsection \<open>The rules\<close>

record command_rule =
  cu_Pattern :: string
  cu_Description :: string
  cu_Confirm :: bool

record whitelist_config =
  wc_LocalShellWhitelist :: "command_rule list"
  wc_DockerExecWhitelist :: "string \<rightharpoonup> command_rule list"
  wc_DangerousCommands :: "string list"
  wc_LocalShellDefaultConfirm :: "bool option"
  wc_DockerExecDefaultConfirm :: "bool option"

text \<open>\<open>parsed\<close> is the configuration read from the file, \<open>Inl\<close> the error of reading or parsing it.\<close>

definition NewSafetyChecker :: "string + whitelist_config \<Rightarrow> string + whitelist_config" where
  "NewSafetyChecker parsed =
     (case parsed of
        Inl e \<Rightarrow> Inl e
      | Inr config \<Rightarrow>
          let c1 = (if wc_LocalShellDefaultConfirm config = None
                    then config\<lparr>wc_LocalShellDefaultConfirm := Some True\<rparr> else config)
          in Inr (if wc_DockerExecDefaultConfirm c1 = None
                  then c1\<lparr>wc_DockerExecDefaultConfirm := Some True\<rparr> else c1))"

text \<open>The result of a check: no error and no confirmation, a confirmation needed, an error.\<close>

datatype verdict = Allow | Confirm | Reject string

definition shell_wrappers :: "string list" where
  "shell_wrappers = [''sh -c'', ''bash -lc'', ''bash -c'']"

definition unquote :: "string \<Rightarrow> string" where
  "unquote rest =
     (if 2 \<le> length rest \<and>
         (hd rest = CHR 0x22 \<and> last rest = CHR 0x22 \<or> hd rest = CHR 0x27 \<and> last rest = CHR 0x27)
      then TrimSpace (butlast (tl rest)) else TrimSpace rest)"

definition normalizeCommand :: "string \<Rightarrow> string" where
  "normalizeCommand command =
     (let cmd = TrimSpace command in
      case find (\<lambda>p. prefix p cmd) shell_wrappers of
        None \<Rightarrow> cmd
      | Some p \<Rightarrow> unquote (TrimSpace (TrimPrefix cmd p)))"

definition danger_text :: "string \<Rightarrow> string" where
  "danger_text d = [CHR 0xE5, CHR 0x8D, CHR 0xB1, CHR 0xE9, CHR 0x99, CHR 0xA9, CHR 0xE5, CHR 0x91,
     CHR 0xBD, CHR 0xE4, CHR 0xBB, CHR 0xA4, CHR 0xE8, CHR 0xA2, CHR 0xAB, CHR 0xE6,
     CHR 0x8B, CHR 0x92, CHR 0xE7, CHR 0xBB, CHR 0x9D] @ '': '' @ [CHR 0xE5, CHR 0x8C,
     CHR 0x85, CHR 0xE5, CHR 0x90, CHR 0xAB] @ '' '' @ [CHR 0x27] @ d @ [CHR 0x27]"

definition CheckDangerousCommand :: "whitelist_config \<Rightarrow> string \<Rightarrow> string option" where
  "CheckDangerousCommand config command =
     (let cmd = normalizeCommand command in
      map_option danger_text
        (find (\<lambda>d. Contains command d \<or> cmd \<noteq> command \<and> Contains cmd d) (wc_DangerousCommands config)))"

definition first_match :: "(string \<Rightarrow> string \<Rightarrow> bool option) \<Rightarrow> string \<Rightarrow> command_rule list \<Rightarrow> command_rule option" where
  "first_match matches command rules = find (\<lambda>r. matches (cu_Pattern r) command = Some True) rules"

definition not_listed :: "string \<Rightarrow> string" where
  "not_listed command = [CHR 0xE5, CHR 0x91, CHR 0xBD, CHR 0xE4, CHR 0xBB, CHR 0xA4, CHR 0xE4, CHR 0xB8,
     CHR 0x8D, CHR 0xE5, CHR 0x9C, CHR 0xA8, CHR 0xE7, CHR 0x99, CHR 0xBD, CHR 0xE5,
     CHR 0x90, CHR 0x8D, CHR 0xE5, CHR 0x8D, CHR 0x95, CHR 0xE4, CHR 0xB8, CHR 0xAD] @
     '': '' @ command"

definition CheckLocalShell ::
  "(string \<Rightarrow> string \<Rightarrow> bool option) \<Rightarrow> whitelist_config \<Rightarrow> string \<Rightarrow> verdict" where
  "CheckLocalShell matches config command0 =
     (let command = normalizeCommand command0 in
      case CheckDangerousCommand config command of
        Some e \<Rightarrow> Reject e
      | None \<Rightarrow>
          if first_match matches command (wc_LocalShellWhitelist config) \<noteq> None then Allow
          else if wc_LocalShellDefaultConfirm config = Some True then Confirm
          else Reject (not_listed command))"

definition container_types :: "string \<Rightarrow> string list" where
  "container_types container =
     [container] @
     (if Contains container ''postgres'' \<or> Contains container ''pg'' then [''postgres''] else []) @
     (if Contains container ''redis'' then [''redis''] else []) @
     (if Contains container ''mysql'' then [''mysql''] else []) @
     (if Contains container ''kafka'' then [''kafka''] else [])"

fun match_types ::
  "(string \<Rightarrow> string \<Rightarrow> bool option) \<Rightarrow> whitelist_config \<Rightarrow> string \<Rightarrow> string list \<Rightarrow> command_rule option" where
  "match_types matches config command [] = None"
| "match_types matches config command (t # ts) =
     (case (case wc_DockerExecWhitelist config t of
              None \<Rightarrow> None | Some rules \<Rightarrow> first_match matches command rules) of
        Some r \<Rightarrow> Some r
      | None \<Rightarrow> match_types matches config command ts)"

definition CheckDockerExec ::
  "(string \<Rightarrow> string \<Rightarrow> bool option) \<Rightarrow> whitelist_config \<Rightarrow> string \<Rightarrow> string \<Rightarrow> verdict" where
  "CheckDockerExec matches config container command0 =
     (let command = normalizeCommand command0 in
      case CheckDangerousCommand config command of
        Some e \<Rightarrow> Reject e
      | None \<Rightarrow>
          (case match_types matches config command (''common'' # container_types container) of
             Some r \<Rightarrow> if cu_Confirm r then Confirm else Allow
           | None \<Rightarrow>
               if wc_DockerExecDefaultConfirm config = Some True then Confirm
               else Reject (not_listed command)))"

subsection \<open>Tools\<close>

type_synonym args = "string \<rightharpoonup> json"

record 'w machine =
  ma_world :: 'w
  ma_log :: "string list list" \<comment> \<open>the programs started\<close>

type_synonym 'w runner = "string list \<Rightarrow> 'w \<Rightarrow> 'w \<times> string \<times> bool"

text \<open>The result of a handler; \<open>Died\<close> is a panic in it.\<close>

datatype tool_outcome = Out string | Err string | NeedConfirm string args string | Died go_panic

definition start :: "'w runner \<Rightarrow> string list \<Rightarrow> 'w machine \<Rightarrow> 'w machine \<times> string \<times> bool" where
  "start run argv m =
     (let (w, out, ok) = run argv (ma_world m) in (\<lparr>ma_world = w, ma_log = ma_log m @ [argv]\<rparr>, out, ok))"

definition run_tool :: "'w runner \<Rightarrow> string list \<Rightarrow> (string \<Rightarrow> string) \<Rightarrow> (string \<Rightarrow> string) \<Rightarrow> 'w machine \<Rightarrow>
    'w machine \<times> tool_outcome" where
  "run_tool run argv good bad m =
     (let (m', out, ok) = start run argv m in (m', if ok then Out (good out) else Err (bad out)))"

definition arg_string :: "string \<Rightarrow> args \<Rightarrow> string option" where
  "arg_string k a = (case a k of Some (JStr s) \<Rightarrow> Some s | _ \<Rightarrow> None)"

definition arg_or_empty :: "string \<Rightarrow> args \<Rightarrow> string" where
  "arg_or_empty k a = (case arg_string k a of None \<Rightarrow> [] | Some s \<Rightarrow> s)"

definition arg_confirmed :: "args \<Rightarrow> bool" where
  "arg_confirmed a = (case a ''_confirmed'' of Some (JBool b) \<Rightarrow> b | _ \<Rightarrow> False)"

definition check_failed :: "string \<Rightarrow> string" where
  "check_failed e = [CHR 0xE5, CHR 0xAE, CHR 0x89, CHR 0xE5, CHR 0x85, CHR 0xA8, CHR 0xE6, CHR 0xA3,
     CHR 0x80, CHR 0xE6, CHR 0x9F, CHR 0xA5, CHR 0xE5, CHR 0xA4, CHR 0xB1, CHR 0xE8,
     CHR 0xB4, CHR 0xA5] @ '': '' @ e"

subsubsection \<open>The local shell\<close>

definition shell_reason :: string where
  "shell_reason = [CHR 0xE5, CHR 0x91, CHR 0xBD, CHR 0xE4, CHR 0xBB, CHR 0xA4, CHR 0xE4, CHR 0xB8,
     CHR 0x8D, CHR 0xE5, CHR 0x9C, CHR 0xA8, CHR 0xE7, CHR 0x99, CHR 0xBD, CHR 0xE5,
     CHR 0x90, CHR 0x8D, CHR 0xE5, CHR 0x8D, CHR 0x95, CHR 0xEF, CHR 0xBC, CHR 0x8C,
     CHR 0xE9, CHR 0x9C, CHR 0x80, CHR 0xE7, CHR 0xA1, CHR 0xAE, CHR 0xE8, CHR 0xAE,
     CHR 0xA4]"

definition handleLocalShellTool ::
  "(string \<Rightarrow> string \<Rightarrow> bool option) \<Rightarrow> 'w runner \<Rightarrow> whitelist_config option \<Rightarrow> args \<Rightarrow> 'w machine \<Rightarrow>
   'w machine \<times> tool_outcome" where
  "handleLocalShellTool matches run checker a m =
     (case arg_string ''command'' a of
        None \<Rightarrow> (m, Err ''command must be a string'')
      | Some command \<Rightarrow>
          let go = run_tool run [''sh'', ''-c'', command] (\<lambda>out. out)
                     (\<lambda>out. ''failed to execute command: '' @ out) m
          in case checker of
               None \<Rightarrow> go
             | Some config \<Rightarrow>
                 (case CheckLocalShell matches config command of
                    Reject e \<Rightarrow> (m, Err (check_failed e))
                  | Confirm \<Rightarrow>
                      if arg_confirmed a then go
                      else (m, NeedConfirm ''local_shell'' [''command'' \<mapsto> JStr command] shell_reason)
                  | Allow \<Rightarrow> go))"

subsubsection \<open>Containers\<close>

definition policy_reason :: string where
  "policy_reason = [CHR 0xE5, CHR 0xAE, CHR 0x89, CHR 0xE5, CHR 0x85, CHR 0xA8, CHR 0xE7, CHR 0xAD,
     CHR 0x96, CHR 0xE7, CHR 0x95, CHR 0xA5, CHR 0xE8, CHR 0xA6, CHR 0x81, CHR 0xE6,
     CHR 0xB1, CHR 0x82, CHR 0xE7, CHR 0xA1, CHR 0xAE, CHR 0xE8, CHR 0xAE, CHR 0xA4]"

definition dockerExec ::
  "(string \<Rightarrow> string \<Rightarrow> bool option) \<Rightarrow> 'w runner \<Rightarrow> string \<Rightarrow> string \<Rightarrow> whitelist_config option \<Rightarrow> bool \<Rightarrow>
   'w machine \<Rightarrow> 'w machine \<times> tool_outcome" where
  "dockerExec matches run container command checker confirmed m =
     (let go = run_tool run [''docker'', ''exec'', container, ''sh'', ''-c'', command] (\<lambda>out. out)
                 (\<lambda>out. ''failed to exec in '' @ container @ '': '' @ out) m
      in case checker of
           None \<Rightarrow> go
         | Some config \<Rightarrow>
             (case CheckDockerExec matches config container command of
                Reject e \<Rightarrow> (m, Err (check_failed e))
              | Confirm \<Rightarrow>
                  if confirmed then go
                  else (m, NeedConfirm ''docker''
                         [''action'' \<mapsto> JStr ''exec'', ''container'' \<mapsto> JStr container,
                          ''command'' \<mapsto> JStr command] policy_reason)
              | Allow \<Rightarrow> go))"

definition container_done :: "string \<Rightarrow> string \<Rightarrow> string" where
  "container_done container what = [CHR 0xE2, CHR 0x9C, CHR 0x85] @ '' '' @ [CHR 0xE5, CHR 0xAE, CHR 0xB9, CHR 0xE5,
     CHR 0x99, CHR 0xA8] @ '' '' @ container @ what"

text \<open>\<open>dockerStart\<close>, \<open>dockerStop\<close> and \<open>dockerRestart\<close> differ in the verb and its texts.\<close>

definition dockerVerb :: "'w runner \<Rightarrow> string \<Rightarrow> string \<Rightarrow> string \<Rightarrow> 'w machine \<Rightarrow> 'w machine \<times> tool_outcome" where
  "dockerVerb run verb finished container m =
     run_tool run [''docker'', verb, container] (\<lambda>_. container_done container finished)
       (\<lambda>out. ''failed to '' @ verb @ '' '' @ container @ '': '' @ out) m"

definition dockerLogs :: "'w runner \<Rightarrow> string \<Rightarrow> int \<Rightarrow> 'w machine \<Rightarrow> 'w machine \<times> tool_outcome" where
  "dockerLogs run container lines m =
     run_tool run [''docker'', ''logs'', ''--tail'', show_int lines, container] (\<lambda>out. out)
       (\<lambda>out. ''failed to get logs from '' @ container @ '': '' @ out) m"

definition status_format :: string where
  "status_format = [CHR 0xE7, CHR 0x8A, CHR 0xB6, CHR 0xE6, CHR 0x80, CHR 0x81] @
     '': {{.State.Status}}'' @ [CHR 0x0A, CHR 0xE8, CHR 0xBF, CHR 0x90, CHR 0xE8,
     CHR 0xA1, CHR 0x8C, CHR 0xE6, CHR 0x97, CHR 0xB6, CHR 0xE9, CHR 0x97, CHR 0xB4] @
     '': {{.State.StartedAt}}''"

definition dockerStatus :: "'w runner \<Rightarrow> string \<Rightarrow> 'w machine \<Rightarrow> 'w machine \<times> tool_outcome" where
  "dockerStatus run container m =
     (if container = []
      then run_tool run [''docker'', ''ps'', ''-a'', ''--format'', ''table {{.Names}}'' @ [CHR 0x09] @ ''{{.Status}}'' @ [CHR 0x09] @ ''{{.Ports}}''] (\<lambda>out. out)
             (\<lambda>out. ''failed to list containers: '' @ out) m
      else run_tool run [''docker'', ''inspect'', ''--format'', status_format, container]
             (\<lambda>out. [CHR 0xE5, CHR 0xAE, CHR 0xB9, CHR 0xE5, CHR 0x99, CHR 0xA8] @ '' '' @ container @ '':'' @ [CHR 0x0A] @ out)
             (\<lambda>out. ''failed to get status of '' @ container @ '': '' @ out) m)"

definition inspect_format :: string where
  "inspect_format = [CHR 0xE5, CHR 0xAE, CHR 0xB9, CHR 0xE5, CHR 0x99, CHR 0xA8] @ '': {{.Name}}'' @
     [CHR 0x0A, CHR 0xE7, CHR 0x8A, CHR 0xB6, CHR 0xE6, CHR 0x80, CHR 0x81] @
     '': {{.State.Status}}'' @ [CHR 0x0A, CHR 0xE9, CHR 0x95, CHR 0x9C, CHR 0xE5,
     CHR 0x83, CHR 0x8F] @ '': {{.Config.Image}}'' @ [CHR 0x0A, CHR 0x0A, CHR 0xE7,
     CHR 0x8E, CHR 0xAF, CHR 0xE5, CHR 0xA2, CHR 0x83, CHR 0xE5, CHR 0x8F, CHR 0x98,
     CHR 0xE9, CHR 0x87, CHR 0x8F] @ '':'' @ [CHR 0x0A] @
     ''{{range .Config.Env}}- {{.}}'' @ [CHR 0x0A] @ ''{{end}}'' @ [CHR 0x0A, CHR 0xE7,
     CHR 0xBD, CHR 0x91, CHR 0xE7, CHR 0xBB, CHR 0x9C] @ '':'' @ [CHR 0x0A] @
     ''{{range $net, $cfg := .NetworkSettings.Networks}}- {{$net}}: {{$cfg.IPAddress}}'' @
     [CHR 0x0A] @ ''{{end}}'' @ [CHR 0x0A, CHR 0xE7, CHR 0xAB, CHR 0xAF, CHR 0xE5,
     CHR 0x8F, CHR 0xA3, CHR 0xE6, CHR 0x98, CHR 0xA0, CHR 0xE5, CHR 0xB0, CHR 0x84] @
     '':'' @ [CHR 0x0A] @ ''{{range $port, $bindings := .NetworkSettings.Ports}}{{if $bindings}}- {{$port}} -> {{range $bindings}}{{.HostIp}}:{{.HostPort}}{{end}}'' @
     [CHR 0x0A] @ ''{{end}}{{end}}'' @ [CHR 0x0A, CHR 0xE6, CHR 0x8C, CHR 0x82, CHR 0xE8,
     CHR 0xBD, CHR 0xBD] @ '':'' @ [CHR 0x0A] @
     ''{{range .Mounts}}- {{.Source}} -> {{.Destination}}'' @ [CHR 0x0A] @ ''{{end}}''"

definition dockerInspect :: "'w runner \<Rightarrow> string \<Rightarrow> 'w machine \<Rightarrow> 'w machine \<times> tool_outcome" where
  "dockerInspect run container m =
     run_tool run [''docker'', ''inspect'', ''--format'', inspect_format, container] (\<lambda>out. out)
       (\<lambda>out. ''failed to inspect '' @ container @ '': '' @ out) m"

definition log_lines :: "args \<Rightarrow> int" where
  "log_lines a = (case a ''lines'' of
      Some (JInt i) \<Rightarrow> i | Some (JReal r) \<Rightarrow> (if 0 \<le> r then \<lfloor>r\<rfloor> else - \<lfloor>- r\<rfloor>) | _ \<Rightarrow> 50)"

definition confirm_or :: "string \<Rightarrow> string \<Rightarrow> bool \<Rightarrow> ('w machine \<Rightarrow> 'w machine \<times> tool_outcome) \<Rightarrow> 'w machine \<Rightarrow>
    'w machine \<times> tool_outcome" where
  "confirm_or action container confirmed go m =
     (if container = [] then (m, Err (''container name required for '' @ action @ '' action''))
      else if \<not> confirmed
           then (m, NeedConfirm ''docker'' [''action'' \<mapsto> JStr action, ''container'' \<mapsto> JStr container] ([CHR 0xE5, CHR 0xAE, CHR 0xB9, CHR 0xE5, CHR 0x99, CHR 0xA8, CHR 0xE6, CHR 0x93,
     CHR 0x8D, CHR 0xE4, CHR 0xBD, CHR 0x9C, CHR 0xE9, CHR 0x9C, CHR 0x80, CHR 0xE8,
     CHR 0xA6, CHR 0x81, CHR 0xE7, CHR 0xA1, CHR 0xAE, CHR 0xE8, CHR 0xAE, CHR 0xA4]))
      else go m)"

definition handleDockerTool ::
  "(string \<Rightarrow> string \<Rightarrow> bool option) \<Rightarrow> 'w runner \<Rightarrow> whitelist_config option \<Rightarrow> args \<Rightarrow> 'w machine \<Rightarrow>
   'w machine \<times> tool_outcome" where
  "handleDockerTool matches run checker a m =
     (case arg_string ''action'' a of
        None \<Rightarrow> (m, Err ''action must be a string'')
      | Some action \<Rightarrow>
          let container = arg_or_empty ''container'' a; confirmed = arg_confirmed a;
              required = (m, Err (''container name required for '' @ action @ '' action'')) in
          if action = ''start''
          then confirm_or action container confirmed (dockerVerb run ''start'' ('' '' @ [CHR 0xE5, CHR 0xB7, CHR 0xB2, CHR 0xE5, CHR 0x90, CHR 0xAF, CHR 0xE5,
     CHR 0x8A, CHR 0xA8]) container) m
          else if action = ''stop''
          then confirm_or action container confirmed (dockerVerb run ''stop'' ('' '' @ [CHR 0xE5, CHR 0xB7, CHR 0xB2, CHR 0xE5, CHR 0x81, CHR 0x9C, CHR 0xE6,
     CHR 0xAD, CHR 0xA2]) container) m
          else if action = ''restart''
          then confirm_or action container confirmed (dockerVerb run ''restart'' ('' '' @ [CHR 0xE5, CHR 0xB7, CHR 0xB2, CHR 0xE9, CHR 0x87, CHR 0x8D, CHR 0xE5,
     CHR 0x90, CHR 0xAF]) container) m
          else if action = ''logs''
          then (if container = [] then required else dockerLogs run container (log_lines a) m)
          else if action = ''status'' then dockerStatus run container m
          else if action = ''inspect''
          then (if container = [] then required else dockerInspect run container m)
          else if action = ''exec''
          then (if container = [] then required
                else case arg_string ''command'' a of
                       None \<Rightarrow> (m, Err ''command must be a string for exec action'')
                     | Some command \<Rightarrow> dockerExec matches run container command checker confirmed m)
          else (m, Err (''unknown action: '' @ action)))"

subsubsection \<open>The remote shell\<close>

text \<open>\<open>commander\<close> sends a command through the cluster; the log shows it as the program \<open>cluster\<close>.\<close>

definition handleRemoteShell ::
  "(string \<Rightarrow> string \<Rightarrow> 'w \<Rightarrow> 'w \<times> (string + string) go) option \<Rightarrow> 'w runner \<Rightarrow> args \<Rightarrow> 'w machine \<Rightarrow>
   'w machine \<times> tool_outcome" where
  "handleRemoteShell commander run a m =
     (case arg_string ''host'' a of
        None \<Rightarrow> (m, Err ''host must be a string'')
      | Some host \<Rightarrow>
        (case arg_string ''command'' a of
           None \<Rightarrow> (m, Err ''command must be a string'')
         | Some command \<Rightarrow>
             let ssh = run_tool run [''ssh'', host, command] (\<lambda>out. out)
                   (\<lambda>out. ''failed to execute remote command on '' @ host @ '': '' @ out)
             in case commander of
                  None \<Rightarrow> ssh m
                | Some ex \<Rightarrow>
                    (let (w, r) = ex host command (ma_world m);
                         m1 = \<lparr>ma_world = w, ma_log = ma_log m @ [[''cluster'', host, command]]\<rparr>
                     in case r of
                              Inl p \<Rightarrow> (m1, Died p)
                            | Inr (Inr output) \<Rightarrow> (m1, Out output)
                            | Inr (Inl e) \<Rightarrow> ssh m1)))"

subsection \<open>The registry\<close>

record 'w tool =
  tl_Name :: string
  tl_Description :: string
  tl_Handler :: "whitelist_config option \<Rightarrow> args \<Rightarrow> 'w machine \<Rightarrow> 'w machine \<times> tool_outcome"
  tl_NeedConfirm :: bool
  tl_Timeout :: duration
  tl_RetryCount :: int

type_synonym 'w registry = "string \<rightharpoonup> 'w tool"

definition NewToolRegistry :: "'w registry" where "NewToolRegistry = Map.empty"

definition tool_Register :: "'w tool \<Rightarrow> 'w registry \<Rightarrow> string + 'w registry" where
  "tool_Register tool r =
     (if tl_Name tool = [] then Inl ''tool name cannot be empty''
      else if r (tl_Name tool) \<noteq> None then Inl (''tool '' @ tl_Name tool @ '' already registered'')
      else Inr (r(tl_Name tool \<mapsto> tool)))"

definition tool_Get :: "string \<Rightarrow> 'w registry \<Rightarrow> string + 'w tool" where
  "tool_Get name r = (case r name of None \<Rightarrow> Inl (''tool '' @ name @ '' not found'') | Some t \<Rightarrow> Inr t)"

definition tool_GetAll :: "string list \<Rightarrow> 'w registry \<Rightarrow> 'w tool list" where
  "tool_GetAll ks r = range_values r ks"

definition tool_Count :: "'w registry \<Rightarrow> nat" where
  "tool_Count r = card (dom r)"

definition CreateLocalShellTool :: "(string \<Rightarrow> string \<Rightarrow> bool option) \<Rightarrow> 'w runner \<Rightarrow> 'w tool" where
  "CreateLocalShellTool matches run =
     \<lparr>tl_Name = ''local_shell'', tl_Description = [CHR 0xE6, CHR 0x89, CHR 0xA7, CHR 0xE8, CHR 0xA1, CHR 0x8C, CHR 0xE6, CHR 0x9C,
     CHR 0xAC, CHR 0xE5, CHR 0x9C, CHR 0xB0, CHR 0xE5, CHR 0x91, CHR 0xBD, CHR 0xE4,
     CHR 0xBB, CHR 0xA4, CHR 0xEF, CHR 0xBC, CHR 0x88, CHR 0xE4, CHR 0xBB, CHR 0x85,
     CHR 0xE9, CHR 0x99, CHR 0x90, CHR 0xE7, CHR 0x99, CHR 0xBD, CHR 0xE5, CHR 0x90,
     CHR 0x8D, CHR 0xE5, CHR 0x8D, CHR 0x95, CHR 0xEF, CHR 0xBC, CHR 0x89],
      tl_Handler = handleLocalShellTool matches run, tl_NeedConfirm = False, tl_Timeout = 30 * Second,
      tl_RetryCount = 0\<rparr>"

definition CreateDockerTool :: "(string \<Rightarrow> string \<Rightarrow> bool option) \<Rightarrow> 'w runner \<Rightarrow> 'w tool" where
  "CreateDockerTool matches run =
     \<lparr>tl_Name = ''docker'', tl_Description = ''Docker '' @ [CHR 0xE5, CHR 0xAE, CHR 0xB9, CHR 0xE5, CHR 0x99, CHR 0xA8, CHR 0xE6,
     CHR 0x93, CHR 0x8D, CHR 0xE4, CHR 0xBD, CHR 0x9C, CHR 0xEF, CHR 0xBC, CHR 0x8C,
     CHR 0xE6, CHR 0x94, CHR 0xAF, CHR 0xE6, CHR 0x8C, CHR 0x81] @ '' start'' @ [CHR 0xE3,
     CHR 0x80, CHR 0x81] @ ''stop'' @ [CHR 0xE3, CHR 0x80, CHR 0x81] @ ''restart'' @
     [CHR 0xE3, CHR 0x80, CHR 0x81] @ ''logs'' @ [CHR 0xE3, CHR 0x80, CHR 0x81] @
     ''status'' @ [CHR 0xE3, CHR 0x80, CHR 0x81] @ ''inspect'' @ [CHR 0xE3, CHR 0x80,
     CHR 0x81] @ ''exec '' @ [CHR 0xE7, CHR 0xAD, CHR 0x89, CHR 0xE6, CHR 0x93, CHR 0x8D,
     CHR 0xE4, CHR 0xBD, CHR 0x9C],
      tl_Handler = handleDockerTool matches run, tl_NeedConfirm = False, tl_Timeout = 30 * Second,
      tl_RetryCount = 0\<rparr>"

definition CreateRemoteShellTool ::
  "(string \<Rightarrow> string \<Rightarrow> 'w \<Rightarrow> 'w \<times> (string + string) go) option \<Rightarrow> 'w runner \<Rightarrow> 'w tool" where
  "CreateRemoteShellTool commander run =
     \<lparr>tl_Name = ''remote_shell'', tl_Description = [CHR 0xE5, CHR 0x9C, CHR 0xA8, CHR 0xE8, CHR 0xBF, CHR 0x9C, CHR 0xE7, CHR 0xA8,
     CHR 0x8B, CHR 0xE6, CHR 0x9C, CHR 0x8D, CHR 0xE5, CHR 0x8A, CHR 0xA1, CHR 0xE5,
     CHR 0x99, CHR 0xA8, CHR 0xE6, CHR 0x89, CHR 0xA7, CHR 0xE8, CHR 0xA1, CHR 0x8C,
     CHR 0xE5, CHR 0x91, CHR 0xBD, CHR 0xE4, CHR 0xBB, CHR 0xA4, CHR 0xE3, CHR 0x80,
     CHR 0x82] @ ''host '' @ [CHR 0xE5, CHR 0x8F, CHR 0xAF, CHR 0xE4, CHR 0xBB, CHR 0xA5,
     CHR 0xE6, CHR 0x98, CHR 0xAF] @ '' Agent ID'' @ [CHR 0xE3, CHR 0x80, CHR 0x81,
     CHR 0xE4, CHR 0xB8, CHR 0xBB, CHR 0xE6, CHR 0x9C, CHR 0xBA, CHR 0xE5, CHR 0x90,
     CHR 0x8D, CHR 0xE3, CHR 0x80, CHR 0x81, CHR 0xE6, CHR 0x88, CHR 0x96] @ '' IP '' @
     [CHR 0xE5, CHR 0x9C, CHR 0xB0, CHR 0xE5, CHR 0x9D, CHR 0x80, CHR 0xE3, CHR 0x80,
     CHR 0x82, CHR 0xE4, CHR 0xBC, CHR 0x98, CHR 0xE5, CHR 0x85, CHR 0x88, CHR 0xE9,
     CHR 0x80, CHR 0x9A, CHR 0xE8, CHR 0xBF, CHR 0x87, CHR 0xE9, CHR 0x9B, CHR 0x86,
     CHR 0xE7, CHR 0xBE, CHR 0xA4, CHR 0xE9, CHR 0x80, CHR 0x9A, CHR 0xE9, CHR 0x81,
     CHR 0x93, CHR 0xE6, CHR 0x89, CHR 0xA7, CHR 0xE8, CHR 0xA1, CHR 0x8C, CHR 0xEF,
     CHR 0xBC, CHR 0x8C, CHR 0xE5, CHR 0xA4, CHR 0xB1, CHR 0xE8, CHR 0xB4, CHR 0xA5,
     CHR 0xE6, CHR 0x97, CHR 0xB6, CHR 0xE5, CHR 0x9B, CHR 0x9E, CHR 0xE9, CHR 0x80,
     CHR 0x80, CHR 0xE5, CHR 0x88, CHR 0xB0] @ '' SSH'' @ [CHR 0xE3, CHR 0x80, CHR 0x82],
      tl_Handler = (\<lambda>_. handleRemoteShell commander run), tl_NeedConfirm = False,
      tl_Timeout = 60 * Second, tl_RetryCount = 0\<rparr>"

end
