(* ===== verification/Owl_Pending.thy ===== *)
theory Owl_Pending
  imports Owl_Safety
begin

text \<open>
  The table \<open>pending_actions\<close> of \<open>internal/memory/manager.go\<close>: its rows in the order they were
  inserted. \<open>id\<close> is the primary key; \<open>created_at\<close> is the time of the insertion. A JSON text of
  arguments is \<open>None\<close> if it does not decode into a map, \<open>Some None\<close> if it is the text null (which
  leaves the map nil) and otherwise the map it denotes. Where the query for the latest row meets
  two rows of the same instant, SQL leaves the choice open; here it is the first.
\<close>

type_synonym args_text = "args option option"

record pending_action =
  pa_ID :: string
  pa_UserID :: string
  pa_SessionID :: string
  pa_UserInput :: string
  pa_ToolName :: string
  pa_ArgsJSON :: args_text
  pa_Prompt :: string
  pa_Status :: string
  pa_ErrorMsg :: string
  pa_CreatedAt :: gotime
  pa_ExpiresAt :: "gotime option"

type_synonym pending_table = "pending_action list"

definition duplicate_key :: string where
  "duplicate_key = ''pq: duplicate key value violates unique constraint''"

definition createPendingAction :: "gotime \<Rightarrow> pending_action \<Rightarrow> pending_table \<Rightarrow> string + pending_table" where
  "createPendingAction now action t =
     (if \<exists>row \<in> set t. pa_ID row = pa_ID action then Inl duplicate_key
      else Inr (t @ [action\<lparr>pa_CreatedAt := now, pa_ErrorMsg := []\<rparr>]))"

definition getPendingAction :: "string \<Rightarrow> pending_table \<Rightarrow> pending_action option" where
  "getPendingAction ident t = find (\<lambda>row. pa_ID row = ident) t"

definition open_row :: "string \<Rightarrow> string \<Rightarrow> gotime \<Rightarrow> pending_action \<Rightarrow> bool" where
  "open_row sessionID userID now row \<longleftrightarrow>
     pa_SessionID row = sessionID \<and> pa_UserID row = userID \<and> pa_Status row = ''pending'' \<and>
     (case pa_ExpiresAt row of None \<Rightarrow> True | Some e \<Rightarrow> e > now)"

fun newest :: "pending_action list \<Rightarrow> pending_action option" where
  "newest [] = None"
| "newest (row # rows) =
     (case newest rows of
        None \<Rightarrow> Some row
      | Some r \<Rightarrow> if pa_CreatedAt row \<ge> pa_CreatedAt r then Some row else Some r)"

definition getLatestPendingAction :: "string \<Rightarrow> string \<Rightarrow> gotime \<Rightarrow> pending_table \<Rightarrow> pending_action option" where
  "getLatestPendingAction sessionID userID now t = newest (filter (open_row sessionID userID now) t)"

definition updatePendingActionStatus :: "string \<Rightarrow> string \<Rightarrow> string \<Rightarrow> pending_table \<Rightarrow> pending_table" where
  "updatePendingActionStatus ident status errorMsg t =
     map (\<lambda>row. if pa_ID row = ident then row\<lparr>pa_Status := status, pa_ErrorMsg := errorMsg\<rparr> else row) t"

subsection \<open>Lemmas\<close>

definition ids_distinct :: "pending_table \<Rightarrow> bool" where
  "ids_distinct t \<longleftrightarrow> distinct (map pa_ID t)"

lemma newest_None [simp]: "newest rows = None \<longleftrightarrow> rows = []"
  by (cases rows) (auto split: option.split)

lemma newest_Some: "newest rows = Some r \<Longrightarrow> r \<in> set rows \<and> (\<forall>row \<in> set rows. pa_CreatedAt row \<le> pa_CreatedAt r)"
  by (induction rows arbitrary: r) (fastforce split: option.splits if_splits)+

lemma latest_open:
  "getLatestPendingAction s u now t = Some r \<Longrightarrow> r \<in> set t \<and> open_row s u now r"
  by (auto simp: getLatestPendingAction_def dest!: newest_Some)

lemma latest_None:
  "getLatestPendingAction s u now t = None \<longleftrightarrow> (\<forall>row \<in> set t. \<not> open_row s u now row)"
  by (auto simp: getLatestPendingAction_def filter_empty_conv)

lemma update_ids [simp]: "map pa_ID (updatePendingActionStatus ident s e t) = map pa_ID t"
  by (simp add: updatePendingActionStatus_def o_def if_distrib[of pa_ID] cong: if_cong)

lemma ids_distinct_update [simp]: "ids_distinct (updatePendingActionStatus ident s e t) = ids_distinct t"
  by (simp add: ids_distinct_def)

lemma ids_distinct_create:
  "ids_distinct t \<Longrightarrow> createPendingAction now a t = Inr t' \<Longrightarrow> ids_distinct t'"
  by (fastforce simp: ids_distinct_def createPendingAction_def split: if_splits)

lemma get_update:
  "getPendingAction i (updatePendingActionStatus ident s e t) =
     map_option (\<lambda>row. if i = ident then row\<lparr>pa_Status := s, pa_ErrorMsg := e\<rparr> else row) (getPendingAction i t)"
  by (induction t) (auto simp: getPendingAction_def updatePendingActionStatus_def)

lemma get_in: "getPendingAction ident t = Some row \<Longrightarrow> row \<in> set t \<and> pa_ID row = ident"
  by (auto simp: getPendingAction_def find_Some_iff)

lemma get_of_in: "ids_distinct t \<Longrightarrow> row \<in> set t \<Longrightarrow> getPendingAction (pa_ID row) t = Some row"
  by (induction t) (auto simp: ids_distinct_def getPendingAction_def)

lemma get_create:
  "createPendingAction now a t = Inr t' \<Longrightarrow>
     getPendingAction i t' =
       (if i = pa_ID a then Some (a\<lparr>pa_CreatedAt := now, pa_ErrorMsg := []\<rparr>) else getPendingAction i t)"
  by (induction t arbitrary: t')
    (auto simp: createPendingAction_def getPendingAction_def split: if_splits)

end
