(* ===== verification/Owl_Confirm.thy ===== *)
theory Owl_Confirm
  imports Owl_Pending
begin

text \<open>
  The texts of the confirmation dialogue: how a reply is read (\<open>parseConfirmCancel\<close> and
  \<open>IsConfirmCancelOnly\<close> of \<open>internal/agent/executor.go\<close>) and the prompts of \<open>confirm.go\<close>. The JSON
  text of arguments inside a prompt is given by \<open>text\<close>.
\<close>

subsection \<open>The words\<close>

text \<open>Confirm, cancel; good, fine, yes, right; no, negative; agree, execute, refuse, do not execute.\<close>

definition w_confirm :: string where "w_confirm = [CHR 0xE7, CHR 0xA1, CHR 0xAE, CHR 0xE8, CHR 0xAE, CHR 0xA4]"
definition w_cancel :: string where "w_cancel = [CHR 0xE5, CHR 0x8F, CHR 0x96, CHR 0xE6, CHR 0xB6, CHR 0x88]"
definition w_good :: string where "w_good = [CHR 0xE5, CHR 0xA5, CHR 0xBD]"
definition w_fine :: string where "w_fine = [CHR 0xE8, CHR 0xA1, CHR 0x8C]"
definition w_yes :: string where "w_yes = [CHR 0xE6, CHR 0x98, CHR 0xAF]"
definition w_right :: string where "w_right = [CHR 0xE5, CHR 0xAF, CHR 0xB9]"
definition w_not :: string where "w_not = [CHR 0xE4, CHR 0xB8, CHR 0x8D]"
definition w_negative :: string where "w_negative = [CHR 0xE5, CHR 0x90, CHR 0xA6]"
definition w_agree :: string where "w_agree = [CHR 0xE5, CHR 0x90, CHR 0x8C, CHR 0xE6, CHR 0x84, CHR 0x8F]"
definition w_execute :: string where "w_execute = [CHR 0xE6, CHR 0x89, CHR 0xA7, CHR 0xE8, CHR 0xA1, CHR 0x8C]"
definition w_refuse :: string where "w_refuse = [CHR 0xE6, CHR 0x8B, CHR 0x92, CHR 0xE7, CHR 0xBB, CHR 0x9D]"
definition w_donot :: string where "w_donot = [CHR 0xE4, CHR 0xB8, CHR 0x8D, CHR 0xE6, CHR 0x89, CHR 0xA7, CHR 0xE8, CHR 0xA1, CHR 0x8C]"

lemmas words = w_confirm_def w_cancel_def w_good_def w_fine_def w_yes_def w_right_def w_not_def
  w_negative_def w_agree_def w_execute_def w_refuse_def w_donot_def

subsection \<open>Reading a reply\<close>

text \<open>The command and the id (empty: the latest pending action); \<open>None\<close> is not ok.\<close>

definition reply_digits :: "string \<Rightarrow> string" where
  "reply_digits token = filter is_digit token"

definition with_id :: "string \<Rightarrow> string \<Rightarrow> (string \<times> string) option" where
  "with_id cmd ident = (if ident = [] \<or> Atoi_digits ident = None then Some (cmd, []) else Some (cmd, ident))"

definition head_command :: "string \<Rightarrow> string option" where
  "head_command head =
     (if head \<in> {w_confirm, w_agree, w_execute, ''yes'', ''YES''} then Some ''confirm''
      else if head \<in> {w_cancel, w_refuse, w_donot, ''no'', ''NO''} then Some ''cancel''
      else None)"

definition parseConfirmCancel :: "string \<Rightarrow> (string \<times> string) option" where
  "parseConfirmCancel s =
     (let raw = TrimSpace s; lower = ToLower raw in
      if raw = [] then None
      else if lower \<in> {''y'', ''yes'', ''ok''} \<or> raw \<in> {w_confirm, w_good, w_fine, w_yes, w_right}
      then Some (''confirm'', [])
      else if lower \<in> {''n'', ''no''} \<or> raw \<in> {w_cancel, w_not, w_negative} then Some (''cancel'', [])
      else
        let parts = Fields raw in
        case head_command (hd parts) of
          Some cmd \<Rightarrow>
            (case tl parts of
               [] \<Rightarrow> with_id cmd (reply_digits raw)
             | token # _ \<Rightarrow> with_id cmd (reply_digits (TrimSpace token)))
        | None \<Rightarrow>
            if prefix w_confirm raw
            then with_id ''confirm'' (reply_digits (TrimSpace (TrimSpace (TrimPrefix raw w_confirm))))
            else if prefix w_cancel raw
            then with_id ''cancel'' (reply_digits (TrimSpace (TrimSpace (TrimPrefix raw w_cancel))))
            else None)"

definition IsConfirmCancelOnly :: "string \<Rightarrow> bool" where
  "IsConfirmCancelOnly s =
     (let t = TrimSpace s; lower = ToLower t in
      if t = [] then False
      else if lower \<in> {''y'', ''yes'', ''ok''} \<or> t \<in> {w_confirm, w_good, w_fine} \<or>
              lower \<in> {''n'', ''no''} \<or> t \<in> {w_cancel, w_not}
      then True
      else if prefix w_confirm t \<or> prefix w_cancel t then rune_count t \<le> 24 else False)"

subsection \<open>Prompts\<close>

text \<open>\<open>string([]rune(s)[:n])\<close> on valid UTF-8.\<close>

fun take_runes :: "nat \<Rightarrow> string \<Rightarrow> string" where
  "take_runes n [] = []"
| "take_runes n (c # cs) =
     (if (of_char c :: nat) div 64 = 2 then c # take_runes n cs
      else case n of 0 \<Rightarrow> [] | Suc k \<Rightarrow> c # take_runes k cs)"

definition shorten :: "string \<Rightarrow> string" where
  "shorten command = (if 200 < rune_count command then take_runes 200 command @ ''...'' else command)"

definition prompt_summary :: "string \<Rightarrow> args \<Rightarrow> string" where
  "prompt_summary toolName a =
     (let command = shorten (arg_or_empty ''command'' a) in
      if toolName = ''docker''
      then [CHR 0xE5, CHR 0xB0, CHR 0x86, CHR 0xE5, CHR 0xAF, CHR 0xB9, CHR 0xE5, CHR 0xAE, CHR 0xB9,
     CHR 0xE5, CHR 0x99, CHR 0xA8] @ '' '' @ arg_or_empty ''container'' a @ '' '' @ [CHR 0xE6, CHR 0x89, CHR 0xA7, CHR 0xE8, CHR 0xA1, CHR 0x8C] @ '' docker.'' @ arg_or_empty ''action'' a @
           (if command = [] then [] else [CHR 0xEF, CHR 0xBC, CHR 0x88, CHR 0xE5, CHR 0x91, CHR 0xBD, CHR 0xE4, CHR 0xBB, CHR 0xA4,
     CHR 0xEF, CHR 0xBC, CHR 0x9A] @ command @ [CHR 0xEF, CHR 0xBC, CHR 0x89])
      else if toolName = ''local_shell'' then [CHR 0xE5, CHR 0xB0, CHR 0x86, CHR 0xE6, CHR 0x89, CHR 0xA7, CHR 0xE8, CHR 0xA1, CHR 0x8C,
     CHR 0xE6, CHR 0x9C, CHR 0xAC, CHR 0xE6, CHR 0x9C, CHR 0xBA, CHR 0xE5, CHR 0x91,
     CHR 0xBD, CHR 0xE4, CHR 0xBB, CHR 0xA4, CHR 0xEF, CHR 0xBC, CHR 0x9A] @ command
      else if toolName = ''remote_shell''
      then [CHR 0xE5, CHR 0xB0, CHR 0x86, CHR 0xE5, CHR 0xAF, CHR 0xB9, CHR 0xE8, CHR 0xBF, CHR 0x9C,
     CHR 0xE7, CHR 0xA8, CHR 0x8B, CHR 0xE4, CHR 0xB8, CHR 0xBB, CHR 0xE6, CHR 0x9C,
     CHR 0xBA] @ '' '' @ arg_or_empty ''host'' a @ '' '' @ [CHR 0xE6, CHR 0x89, CHR 0xA7, CHR 0xE8, CHR 0xA1, CHR 0x8C, CHR 0xE5, CHR 0x91,
     CHR 0xBD, CHR 0xE4, CHR 0xBB, CHR 0xA4, CHR 0xEF, CHR 0xBC, CHR 0x9A] @ command
      else [])"

definition buildConfirmPrompt :: "(args_text \<Rightarrow> string) \<Rightarrow> string \<Rightarrow> args \<Rightarrow> string \<Rightarrow> string" where
  "buildConfirmPrompt text toolName a reason =
     [CHR 0xE8, CHR 0xAF, CHR 0xA5, CHR 0xE6, CHR 0x93, CHR 0x8D, CHR 0xE4, CHR 0xBD, CHR 0x9C,
     CHR 0xE9, CHR 0x9C, CHR 0x80, CHR 0xE8, CHR 0xA6, CHR 0x81, CHR 0xE7, CHR 0xA1,
     CHR 0xAE, CHR 0xE8, CHR 0xAE, CHR 0xA4] @ (if reason = [] then [] else [CHR 0xEF, CHR 0xBC, CHR 0x88] @ reason @ [CHR 0xEF, CHR 0xBC, CHR 0x89]) @ [CHR 0xE3, CHR 0x80, CHR 0x82, CHR 0x0A] @
     (if prompt_summary toolName a = [] then [] else prompt_summary toolName a @ [CHR 0x0A]) @
     [CHR 0xE5, CHR 0xB7, CHR 0xA5, CHR 0xE5, CHR 0x85, CHR 0xB7, CHR 0xEF, CHR 0xBC, CHR 0x9A] @ toolName @ [CHR 0x0A, CHR 0xE5, CHR 0x8F, CHR 0x82, CHR 0xE6, CHR 0x95, CHR 0xB0, CHR 0xEF, CHR 0xBC,
     CHR 0x9A] @ text (Some (Some a))"

definition defaultConfirmTTL :: duration where "defaultConfirmTTL = 10 * Minute"

definition buildFollowupPrompt :: "(args_text \<Rightarrow> string) \<Rightarrow> string \<Rightarrow> string \<Rightarrow> args_text \<Rightarrow> string \<Rightarrow> string" where
  "buildFollowupPrompt text userInput toolName argsJSON toolOutput =
     (let out = (if 4000 < length toolOutput
                 then take 4000 toolOutput @ [CHR 0x0A] @ ''...('' @ [CHR 0xE8, CHR 0xBE, CHR 0x93, CHR 0xE5, CHR 0x87, CHR 0xBA,
     CHR 0xE8, CHR 0xBF, CHR 0x87, CHR 0xE9, CHR 0x95, CHR 0xBF, CHR 0xE5, CHR 0xB7,
     CHR 0xB2, CHR 0xE6, CHR 0x88, CHR 0xAA, CHR 0xE6, CHR 0x96, CHR 0xAD] @ '')'' else toolOutput)
      in [CHR 0xE7, CHR 0xBB, CHR 0xA7, CHR 0xE7, CHR 0xBB, CHR 0xAD, CHR 0xE5, CHR 0xAE, CHR 0x8C,
     CHR 0xE6, CHR 0x88, CHR 0x90, CHR 0xE7, CHR 0x94, CHR 0xA8, CHR 0xE6, CHR 0x88,
     CHR 0xB7, CHR 0xE5, CHR 0x8E, CHR 0x9F, CHR 0xE5, CHR 0xA7, CHR 0x8B, CHR 0xE9,
     CHR 0x9C, CHR 0x80, CHR 0xE6, CHR 0xB1, CHR 0x82, CHR 0xEF, CHR 0xBC, CHR 0x9A,
     CHR 0x0A] @ userInput @ [CHR 0x0A, CHR 0x0A, CHR 0xE8, CHR 0xA1, CHR 0xA5, CHR 0xE5, CHR 0x85, CHR 0x85, CHR 0xEF,
     CHR 0xBC, CHR 0x9A, CHR 0xE7, CHR 0x94, CHR 0xA8, CHR 0xE6, CHR 0x88, CHR 0xB7,
     CHR 0xE5, CHR 0xB7, CHR 0xB2, CHR 0xE7, CHR 0xA1, CHR 0xAE, CHR 0xE8, CHR 0xAE,
     CHR 0xA4, CHR 0xE5, CHR 0xB9, CHR 0xB6, CHR 0xE6, CHR 0x89, CHR 0xA7, CHR 0xE8,
     CHR 0xA1, CHR 0x8C, CHR 0xE4, CHR 0xBA, CHR 0x86, CHR 0xE4, CHR 0xB8, CHR 0x80,
     CHR 0xE6, CHR 0xAC, CHR 0xA1, CHR 0xE5, CHR 0xB7, CHR 0xA5, CHR 0xE5, CHR 0x85,
     CHR 0xB7, CHR 0xE8, CHR 0xB0, CHR 0x83, CHR 0xE7, CHR 0x94, CHR 0xA8, CHR 0xEF,
     CHR 0xBC, CHR 0x88, CHR 0xE4, CHR 0xB8, CHR 0x8D, CHR 0xE8, CHR 0xA6, CHR 0x81,
     CHR 0xE9, CHR 0x87, CHR 0x8D, CHR 0xE5, CHR 0xA4, CHR 0x8D, CHR 0xE6, CHR 0x89,
     CHR 0xA7, CHR 0xE8, CHR 0xA1, CHR 0x8C, CHR 0xE5, CHR 0x90, CHR 0x8C, CHR 0xE4,
     CHR 0xB8, CHR 0x80, CHR 0xE8, CHR 0xB0, CHR 0x83, CHR 0xE7, CHR 0x94, CHR 0xA8,
     CHR 0xEF, CHR 0xBC, CHR 0x8C, CHR 0xE9, CHR 0x99, CHR 0xA4, CHR 0xE9, CHR 0x9D,
     CHR 0x9E, CHR 0xE5, CHR 0xBF, CHR 0x85, CHR 0xE8, CHR 0xA6, CHR 0x81, CHR 0xEF,
     CHR 0xBC, CHR 0x89, CHR 0xEF, CHR 0xBC, CHR 0x9A, CHR 0x0A] @ ''tool='' @ toolName @
         [CHR 0x0A] @ ''args='' @ text argsJSON @ [CHR 0x0A] @ ''output:'' @ [CHR 0x0A] @ out @
         [CHR 0x0A, CHR 0x0A, CHR 0xE8, CHR 0xAF, CHR 0xB7, CHR 0xE5, CHR 0x9F, CHR 0xBA, CHR 0xE4,
     CHR 0xBA, CHR 0x8E, CHR 0xE4, CHR 0xB8, CHR 0x8A, CHR 0xE8, CHR 0xBF, CHR 0xB0,
     CHR 0xE8, CHR 0xBE, CHR 0x93, CHR 0xE5, CHR 0x87, CHR 0xBA, CHR 0xE7, CHR 0xBB,
     CHR 0xA7, CHR 0xE7, CHR 0xBB, CHR 0xAD, CHR 0xE5, CHR 0xAE, CHR 0x8C, CHR 0xE6,
     CHR 0x88, CHR 0x90, CHR 0xE5, CHR 0x8E, CHR 0x9F, CHR 0xE5, CHR 0xA7, CHR 0x8B,
     CHR 0xE4, CHR 0xBB, CHR 0xBB, CHR 0xE5, CHR 0x8A, CHR 0xA1, CHR 0xEF, CHR 0xBC,
     CHR 0x8C, CHR 0xE5, CHR 0xBF, CHR 0x85, CHR 0xE8, CHR 0xA6, CHR 0x81, CHR 0xE6,
     CHR 0x97, CHR 0xB6, CHR 0xE5, CHR 0x8F, CHR 0xAF, CHR 0xE7, CHR 0xBB, CHR 0xA7,
     CHR 0xE7, CHR 0xBB, CHR 0xAD, CHR 0xE8, CHR 0xB0, CHR 0x83, CHR 0xE7, CHR 0x94,
     CHR 0xA8, CHR 0xE5, CHR 0xB7, CHR 0xA5, CHR 0xE5, CHR 0x85, CHR 0xB7, CHR 0xE3,
     CHR 0x80, CHR 0x82])"

text \<open>\<open>newPendingID\<close>: four digits of the clock and four of two random bytes.\<close>

fun pad0 :: "nat \<Rightarrow> string \<Rightarrow> string" where
  "pad0 n s = replicate (n - length s) CHR ''0'' @ s"

definition newPendingID :: "gotime \<Rightarrow> nat \<Rightarrow> nat \<Rightarrow> string" where
  "newPendingID now b0 b1 =
     pad0 4 (show_int (unix_nano now mod 10000)) @ pad0 4 (show_nat ((b0 * 256 + b1) mod 10000))"

end
