(* ===== verification/Owl_Planner.thy ===== *)
theory Owl_Planner
  imports Owl_Json
begin

text \<open>
  \<open>internal/agent/planner.go\<close> and \<open>buildPlanContext\<close> of \<open>executor.go\<close>: when a request is planned
  before it is carried out, how the plan is asked for and read. \<open>chat\<close> asks the language model on a
  world of any type (\<open>Inl\<close> an error); \<open>parse\<close> turns a text into the JSON value it denotes.
\<close>

record plan_step =
  ps_StepNum :: int
  ps_Description :: string
  ps_Tool :: string
  ps_Purpose :: string

record execution_plan =
  ep_TaskSummary :: string
  ep_Steps :: "plan_step list"
  ep_IsComplex :: bool

definition complex_keywords :: "string list" where
  "complex_keywords =
     [[CHR 0xE8, CHR 0xAF, CHR 0x8A, CHR 0xE6, CHR 0x96, CHR 0xAD],
      [CHR 0xE6, CHR 0x8E, CHR 0x92, CHR 0xE6, CHR 0x9F, CHR 0xA5],
      [CHR 0xE5, CHR 0x88, CHR 0x86, CHR 0xE6, CHR 0x9E, CHR 0x90],
      [CHR 0xE4, CHR 0xB8, CHR 0xBA, CHR 0xE4, CHR 0xBB, CHR 0x80, CHR 0xE4, CHR 0xB9, CHR 0x88],
      [CHR 0xE6, CHR 0x80, CHR 0x8E, CHR 0xE4, CHR 0xB9, CHR 0x88, CHR 0xE5, CHR 0x9B, CHR 0x9E,
     CHR 0xE4, CHR 0xBA, CHR 0x8B],
      [CHR 0xE6, CHR 0xA3, CHR 0x80, CHR 0xE6, CHR 0x9F, CHR 0xA5, CHR 0xE4, CHR 0xB8, CHR 0x80,
     CHR 0xE4, CHR 0xB8, CHR 0x8B],
      [CHR 0xE5, CHR 0x85, CHR 0xA8, CHR 0xE9, CHR 0x9D, CHR 0xA2],
      [CHR 0xE6, CHR 0x89, CHR 0x80, CHR 0xE6, CHR 0x9C, CHR 0x89],
      [CHR 0xE9, CHR 0xA2, CHR 0x91, CHR 0xE7, CHR 0xB9, CHR 0x81],
      [CHR 0xE4, CHR 0xB8, CHR 0x80, CHR 0xE7, CHR 0x9B, CHR 0xB4],
      ''troubleshoot'',
      ''diagnose'',
      ''analyze'',
      ''investigate'']"

definition simple_keywords :: "string list" where
  "simple_keywords =
     [[CHR 0xE7, CHR 0x8A, CHR 0xB6, CHR 0xE6, CHR 0x80, CHR 0x81],
      [CHR 0xE6, CHR 0x97, CHR 0xA5, CHR 0xE5, CHR 0xBF, CHR 0x97],
      [CHR 0xE9, CHR 0x87, CHR 0x8D, CHR 0xE5, CHR 0x90, CHR 0xAF],
      [CHR 0xE7, CHR 0x9C, CHR 0x8B, CHR 0xE7, CHR 0x9C, CHR 0x8B],
      [CHR 0xE6, CHR 0x9F, CHR 0xA5, CHR 0xE7, CHR 0x9C, CHR 0x8B],
      ''status'',
      ''logs'',
      ''restart'']"

definition NeedPlanning :: "string \<Rightarrow> bool" where
  "NeedPlanning userInput =
     (let input = ToLower userInput in
      if list_ex (Contains input) complex_keywords then True
      else if list_ex (\<lambda>kw. Contains input kw \<and> rune_count userInput < 20) simple_keywords then False
      else rune_count userInput > 10)"

definition buildPlanningPrompt :: "string \<Rightarrow> string" where
  "buildPlanningPrompt userInput =
     [CHR 0xE4, CHR 0xBD, CHR 0xA0, CHR 0xE6, CHR 0x98, CHR 0xAF, CHR 0xE4, CHR 0xB8, CHR 0x80,
     CHR 0xE4, CHR 0xB8, CHR 0xAA, CHR 0xE8, CHR 0xBF, CHR 0x90, CHR 0xE7, CHR 0xBB,
     CHR 0xB4, CHR 0xE4, CHR 0xBB, CHR 0xBB, CHR 0xE5, CHR 0x8A, CHR 0xA1, CHR 0xE8,
     CHR 0xA7, CHR 0x84, CHR 0xE5, CHR 0x88, CHR 0x92, CHR 0xE5, CHR 0x99, CHR 0xA8,
     CHR 0xE3, CHR 0x80, CHR 0x82, CHR 0xE7, CHR 0x94, CHR 0xA8, CHR 0xE6, CHR 0x88,
     CHR 0xB7, CHR 0xE6, CHR 0x8F, CHR 0x90, CHR 0xE5, CHR 0x87, CHR 0xBA, CHR 0xE4,
     CHR 0xBA, CHR 0x86, CHR 0xE4, CHR 0xB8, CHR 0x80, CHR 0xE4, CHR 0xB8, CHR 0xAA,
     CHR 0xE8, CHR 0xBF, CHR 0x90, CHR 0xE7, CHR 0xBB, CHR 0xB4, CHR 0xE9, CHR 0x9C,
     CHR 0x80, CHR 0xE6, CHR 0xB1, CHR 0x82, CHR 0xEF, CHR 0xBC, CHR 0x8C, CHR 0xE8,
     CHR 0xAF, CHR 0xB7, CHR 0xE5, CHR 0x88, CHR 0x86, CHR 0xE6, CHR 0x9E, CHR 0x90,
     CHR 0xE5, CHR 0xB9, CHR 0xB6, CHR 0xE7, CHR 0x94, CHR 0x9F, CHR 0xE6, CHR 0x88,
     CHR 0x90, CHR 0xE6, CHR 0x89, CHR 0xA7, CHR 0xE8, CHR 0xA1, CHR 0x8C, CHR 0xE8,
     CHR 0xAE, CHR 0xA1, CHR 0xE5, CHR 0x88, CHR 0x92, CHR 0xE3, CHR 0x80, CHR 0x82,
     CHR 0x0A, CHR 0x0A, CHR 0xE7, CHR 0x94, CHR 0xA8, CHR 0xE6, CHR 0x88, CHR 0xB7,
     CHR 0xE9, CHR 0x9C, CHR 0x80, CHR 0xE6, CHR 0xB1, CHR 0x82, CHR 0xEF, CHR 0xBC,
     CHR 0x9A] @ userInput @
     [CHR 0x0A, CHR 0x0A, CHR 0xE5, CHR 0x8F, CHR 0xAF, CHR 0xE7, CHR 0x94, CHR 0xA8, CHR 0xE5,
     CHR 0xB7, CHR 0xA5, CHR 0xE5, CHR 0x85, CHR 0xB7, CHR 0xEF, CHR 0xBC, CHR 0x9A,
     CHR 0x0A] @ ''1. docker - '' @ [CHR 0xE5, CHR 0xAE, CHR 0xB9, CHR 0xE5, CHR 0x99,
     CHR 0xA8, CHR 0xE6, CHR 0x93, CHR 0x8D, CHR 0xE4, CHR 0xBD, CHR 0x9C, CHR 0xEF,
     CHR 0xBC, CHR 0x88] @ ''status/logs/restart/exec'' @ [CHR 0xEF, CHR 0xBC, CHR 0x89,
     CHR 0x0A] @ ''2. local_shell - '' @ [CHR 0xE6, CHR 0x9C, CHR 0xAC, CHR 0xE5, CHR 0x9C,
     CHR 0xB0, CHR 0xE5, CHR 0x91, CHR 0xBD, CHR 0xE4, CHR 0xBB, CHR 0xA4, CHR 0xE6,
     CHR 0x89, CHR 0xA7, CHR 0xE8, CHR 0xA1, CHR 0x8C, CHR 0x0A] @ ''3. remote_shell - '' @
     [CHR 0xE8, CHR 0xBF, CHR 0x9C, CHR 0xE7, CHR 0xA8, CHR 0x8B, CHR 0xE6, CHR 0x9C,
     CHR 0x8D, CHR 0xE5, CHR 0x8A, CHR 0xA1, CHR 0xE5, CHR 0x99, CHR 0xA8, CHR 0xE5,
     CHR 0x91, CHR 0xBD, CHR 0xE4, CHR 0xBB, CHR 0xA4, CHR 0x0A, CHR 0x0A, CHR 0xE8,
     CHR 0xAF, CHR 0xB7, CHR 0xE7, CHR 0x94, CHR 0x9F, CHR 0xE6, CHR 0x88, CHR 0x90,
     CHR 0xE4, CHR 0xB8, CHR 0x80, CHR 0xE4, CHR 0xB8, CHR 0xAA] @ '' JSON '' @ [CHR 0xE6,
     CHR 0xA0, CHR 0xBC, CHR 0xE5, CHR 0xBC, CHR 0x8F, CHR 0xE7, CHR 0x9A, CHR 0x84,
     CHR 0xE6, CHR 0x89, CHR 0xA7, CHR 0xE8, CHR 0xA1, CHR 0x8C, CHR 0xE8, CHR 0xAE,
     CHR 0xA1, CHR 0xE5, CHR 0x88, CHR 0x92, CHR 0xEF, CHR 0xBC, CHR 0x9A, CHR 0x0A,
     CHR 0x0A] @ ''{'' @ [CHR 0x0A, CHR 0x22] @ ''task_summary'' @ [CHR 0x22] @ '': '' @
     [CHR 0x22, CHR 0xE4, CHR 0xBB, CHR 0xBB, CHR 0xE5, CHR 0x8A, CHR 0xA1, CHR 0xE7,
     CHR 0x9A, CHR 0x84, CHR 0xE4, CHR 0xB8, CHR 0x80, CHR 0xE5, CHR 0x8F, CHR 0xA5,
     CHR 0xE8, CHR 0xAF, CHR 0x9D, CHR 0xE6, CHR 0x91, CHR 0x98, CHR 0xE8, CHR 0xA6,
     CHR 0x81, CHR 0x22] @ '','' @ [CHR 0x0A, CHR 0x22] @ ''is_complex'' @ [CHR 0x22] @
     '': true/false,'' @ [CHR 0x0A, CHR 0x22] @ ''steps'' @ [CHR 0x22] @ '': ['' @ [CHR 0x0A] @
     ''  {'' @ [CHR 0x0A] @ [CHR 0x09] @ [CHR 0x22] @ ''step_num'' @ [CHR 0x22] @ '': 1,'' @
     [CHR 0x0A] @ [CHR 0x09] @ [CHR 0x22] @ ''description'' @ [CHR 0x22] @ '': '' @ [CHR 0x22,
     CHR 0xE5, CHR 0x85, CHR 0xB7, CHR 0xE4, CHR 0xBD, CHR 0x93, CHR 0xE8, CHR 0xA6,
     CHR 0x81, CHR 0xE5, CHR 0x81, CHR 0x9A, CHR 0xE4, CHR 0xBB, CHR 0x80, CHR 0xE4,
     CHR 0xB9, CHR 0x88, CHR 0x22] @ '','' @ [CHR 0x0A] @ [CHR 0x09] @ [CHR 0x22] @ ''tool'' @
     [CHR 0x22] @ '': '' @ [CHR 0x22, CHR 0xE4, CHR 0xBD, CHR 0xBF, CHR 0xE7, CHR 0x94,
     CHR 0xA8, CHR 0xE5, CHR 0x93, CHR 0xAA, CHR 0xE4, CHR 0xB8, CHR 0xAA, CHR 0xE5,
     CHR 0xB7, CHR 0xA5, CHR 0xE5, CHR 0x85, CHR 0xB7, CHR 0x22] @ '','' @ [CHR 0x0A] @
     [CHR 0x09] @ [CHR 0x22] @ ''purpose'' @ [CHR 0x22] @ '': '' @ [CHR 0x22, CHR 0xE8,
     CHR 0xBF, CHR 0x99, CHR 0xE4, CHR 0xB8, CHR 0x80, CHR 0xE6, CHR 0xAD, CHR 0xA5,
     CHR 0xE7, CHR 0x9A, CHR 0x84, CHR 0xE7, CHR 0x9B, CHR 0xAE, CHR 0xE7, CHR 0x9A,
     CHR 0x84, CHR 0xE6, CHR 0x98, CHR 0xAF, CHR 0xE4, CHR 0xBB, CHR 0x80, CHR 0xE4,
     CHR 0xB9, CHR 0x88, CHR 0x22, CHR 0x0A] @ ''  }'' @ [CHR 0x0A] @ '']'' @ [CHR 0x0A] @
     ''}'' @ [CHR 0x0A, CHR 0x0A, CHR 0xE8, CHR 0xA7, CHR 0x84, CHR 0xE5, CHR 0x88,
     CHR 0x99, CHR 0xEF, CHR 0xBC, CHR 0x9A, CHR 0x0A] @ ''- '' @ [CHR 0xE5, CHR 0xA6,
     CHR 0x82, CHR 0xE6, CHR 0x9E, CHR 0x9C, CHR 0xE6, CHR 0x98, CHR 0xAF, CHR 0xE7,
     CHR 0xAE, CHR 0x80, CHR 0xE5, CHR 0x8D, CHR 0x95, CHR 0xE4, CHR 0xBB, CHR 0xBB,
     CHR 0xE5, CHR 0x8A, CHR 0xA1, CHR 0xEF, CHR 0xBC, CHR 0x88, CHR 0xE5, CHR 0xA6,
     CHR 0x82, CHR 0x22, CHR 0xE7, CHR 0x9C, CHR 0x8B, CHR 0xE7, CHR 0x8A, CHR 0xB6,
     CHR 0xE6, CHR 0x80, CHR 0x81, CHR 0x22, CHR 0xE3, CHR 0x80, CHR 0x81, CHR 0x22,
     CHR 0xE9, CHR 0x87, CHR 0x8D, CHR 0xE5, CHR 0x90, CHR 0xAF] @ ''xxx'' @ [CHR 0x22,
     CHR 0xEF, CHR 0xBC, CHR 0x89, CHR 0xEF, CHR 0xBC, CHR 0x8C, CHR 0xE8, CHR 0xAE,
     CHR 0xBE, CHR 0xE7, CHR 0xBD, CHR 0xAE] @ '' is_complex=false'' @ [CHR 0xEF, CHR 0xBC,
     CHR 0x8C] @ ''steps '' @ [CHR 0xE5, CHR 0x8F, CHR 0xAF, CHR 0xE4, CHR 0xBB, CHR 0xA5,
     CHR 0xE4, CHR 0xB8, CHR 0xBA, CHR 0xE7, CHR 0xA9, CHR 0xBA, CHR 0x0A] @ ''- '' @
     [CHR 0xE5, CHR 0xA6, CHR 0x82, CHR 0xE6, CHR 0x9E, CHR 0x9C, CHR 0xE6, CHR 0x98,
     CHR 0xAF, CHR 0xE5, CHR 0xA4, CHR 0x8D, CHR 0xE6, CHR 0x9D, CHR 0x82, CHR 0xE4,
     CHR 0xBB, CHR 0xBB, CHR 0xE5, CHR 0x8A, CHR 0xA1, CHR 0xEF, CHR 0xBC, CHR 0x88,
     CHR 0xE5, CHR 0xA6, CHR 0x82, CHR 0x22, CHR 0xE8, CHR 0xAF, CHR 0x8A, CHR 0xE6,
     CHR 0x96, CHR 0xAD, CHR 0xE9, CHR 0x97, CHR 0xAE, CHR 0xE9, CHR 0xA2, CHR 0x98,
     CHR 0x22, CHR 0xE3, CHR 0x80, CHR 0x81, CHR 0x22, CHR 0xE6, CHR 0x8E, CHR 0x92,
     CHR 0xE6, CHR 0x9F, CHR 0xA5, CHR 0xE5, CHR 0x8E, CHR 0x9F, CHR 0xE5, CHR 0x9B,
     CHR 0xA0, CHR 0x22, CHR 0xEF, CHR 0xBC, CHR 0x89, CHR 0xEF, CHR 0xBC, CHR 0x8C,
     CHR 0xE8, CHR 0xAE, CHR 0xBE, CHR 0xE7, CHR 0xBD, CHR 0xAE] @ '' is_complex=true'' @
     [CHR 0xEF, CHR 0xBC, CHR 0x8C, CHR 0xE5, CHR 0x88, CHR 0x97, CHR 0xE5, CHR 0x87,
     CHR 0xBA] @ '' 3-6 '' @ [CHR 0xE4, CHR 0xB8, CHR 0xAA, CHR 0xE6, CHR 0xAD, CHR 0xA5,
     CHR 0xE9, CHR 0xAA, CHR 0xA4, CHR 0x0A] @ ''- '' @ [CHR 0xE6, CHR 0xAD, CHR 0xA5,
     CHR 0xE9, CHR 0xAA, CHR 0xA4, CHR 0xE8, CHR 0xA6, CHR 0x81, CHR 0xE6, CHR 0x9C,
     CHR 0x89, CHR 0xE9, CHR 0x80, CHR 0xBB, CHR 0xE8, CHR 0xBE, CHR 0x91, CHR 0xE9,
     CHR 0xA1, CHR 0xBA, CHR 0xE5, CHR 0xBA, CHR 0x8F, CHR 0xEF, CHR 0xBC, CHR 0x9A,
     CHR 0xE5, CHR 0x85, CHR 0x88, CHR 0xE6, CHR 0x94, CHR 0xB6, CHR 0xE9, CHR 0x9B,
     CHR 0x86, CHR 0xE4, CHR 0xBF, CHR 0xA1, CHR 0xE6, CHR 0x81, CHR 0xAF, CHR 0xEF,
     CHR 0xBC, CHR 0x8C, CHR 0xE5, CHR 0x86, CHR 0x8D, CHR 0xE5, CHR 0x88, CHR 0x86,
     CHR 0xE6, CHR 0x9E, CHR 0x90, CHR 0xEF, CHR 0xBC, CHR 0x8C, CHR 0xE6, CHR 0x9C,
     CHR 0x80, CHR 0xE5, CHR 0x90, CHR 0x8E, CHR 0xE8, CHR 0xA1, CHR 0x8C, CHR 0xE5,
     CHR 0x8A, CHR 0xA8, CHR 0x0A] @ ''- '' @ [CHR 0xE6, CHR 0xAF, CHR 0x8F, CHR 0xE4,
     CHR 0xB8, CHR 0xAA, CHR 0xE6, CHR 0xAD, CHR 0xA5, CHR 0xE9, CHR 0xAA, CHR 0xA4,
     CHR 0xE8, CHR 0xA6, CHR 0x81, CHR 0xE6, CHR 0x98, CHR 0x8E, CHR 0xE7, CHR 0xA1,
     CHR 0xAE, CHR 0xE4, CHR 0xBD, CHR 0xBF, CHR 0xE7, CHR 0x94, CHR 0xA8, CHR 0xE5,
     CHR 0x93, CHR 0xAA, CHR 0xE4, CHR 0xB8, CHR 0xAA, CHR 0xE5, CHR 0xB7, CHR 0xA5,
     CHR 0xE5, CHR 0x85, CHR 0xB7, CHR 0x0A, CHR 0x0A, CHR 0xE5, CHR 0x8F, CHR 0xAA,
     CHR 0xE8, CHR 0xBE, CHR 0x93, CHR 0xE5, CHR 0x87, CHR 0xBA] @ '' JSON'' @ [CHR 0xEF,
     CHR 0xBC, CHR 0x8C, CHR 0xE4, CHR 0xB8, CHR 0x8D, CHR 0xE8, CHR 0xA6, CHR 0x81,
     CHR 0xE5, CHR 0x85, CHR 0xB6, CHR 0xE4, CHR 0xBB, CHR 0x96, CHR 0xE5, CHR 0x86,
     CHR 0x85, CHR 0xE5, CHR 0xAE, CHR 0xB9, CHR 0xE3, CHR 0x80, CHR 0x82]"

definition fence :: string where "fence = replicate 3 CHR 0x60"

fun block_lines :: "bool \<Rightarrow> string list \<Rightarrow> string list" where
  "block_lines inBlock [] = []"
| "block_lines inBlock (line # lines) =
     (if prefix fence line then block_lines (\<not> inBlock) lines
      else if inBlock then line # block_lines inBlock lines else block_lines inBlock lines)"

definition strip_fence :: "string \<Rightarrow> string" where
  "strip_fence response =
     (let r = TrimSpace response
      in if prefix fence r then Join [CHR 0x0A] (block_lines False (split_on CHR 0x0A r)) else r)"

definition dec_plan_step :: "json \<Rightarrow> plan_step option" where
  "dec_plan_step j =
     do { kvs \<leftarrow> struct_fields j;
          n \<leftarrow> field 0 dec_int ''step_num'' kvs;
          d \<leftarrow> field [] dec_string ''description'' kvs;
          t \<leftarrow> field [] dec_string ''tool'' kvs;
          p \<leftarrow> field [] dec_string ''purpose'' kvs;
          Some \<lparr>ps_StepNum = n, ps_Description = d, ps_Tool = t, ps_Purpose = p\<rparr> }"

definition dec_plan :: "json \<Rightarrow> execution_plan option" where
  "dec_plan j =
     do { kvs \<leftarrow> struct_fields j;
          s \<leftarrow> field [] dec_string ''task_summary'' kvs;
          ss \<leftarrow> field [] (dec_list dec_plan_step) ''steps'' kvs;
          c \<leftarrow> field False dec_bool ''is_complex'' kvs;
          Some \<lparr>ep_TaskSummary = s, ep_Steps = ss, ep_IsComplex = c\<rparr> }"

definition parsePlan :: "(string \<Rightarrow> json option) \<Rightarrow> string \<Rightarrow> execution_plan option" where
  "parsePlan parse response = Option.bind (parse (strip_fence response)) dec_plan"

definition CreatePlan ::
  "(string \<Rightarrow> 'w \<Rightarrow> 'w \<times> (string + string)) \<Rightarrow> (string \<Rightarrow> json option) \<Rightarrow> string \<Rightarrow> 'w \<Rightarrow>
   'w \<times> (string + execution_plan)" where
  "CreatePlan chat parse userInput w =
     (case chat (buildPlanningPrompt userInput) w of
        (w', Inl e) \<Rightarrow> (w', Inl (''planning failed: '' @ e))
      | (w', Inr resp) \<Rightarrow>
          (w', Inr (case parsePlan parse resp of
             None \<Rightarrow> \<lparr>ep_TaskSummary = userInput, ep_Steps = [], ep_IsComplex = False\<rparr>
           | Some plan \<Rightarrow> plan)))"

definition FormatPlanForUser :: "execution_plan option \<Rightarrow> string" where
  "FormatPlanForUser p =
     (case p of None \<Rightarrow> []
      | Some plan \<Rightarrow>
          if \<not> ep_IsComplex plan \<or> ep_Steps plan = [] then []
          else [CHR 0xF0, CHR 0x9F, CHR 0x93, CHR 0x8B] @ '' **'' @ [CHR 0xE4, CHR 0xBB, CHR 0xBB,
     CHR 0xE5, CHR 0x8A, CHR 0xA1, CHR 0xE8, CHR 0xA7, CHR 0x84, CHR 0xE5, CHR 0x88,
     CHR 0x92] @ ''**'' @ [CHR 0xEF, CHR 0xBC, CHR 0x9A] @ ep_TaskSummary plan @ [CHR 0x0A, CHR 0x0A] @
            concat (map (\<lambda>s. show_int (ps_StepNum s) @ ''. '' @ ps_Description s @
              [CHR 0x0A] @ ''   '' @ [CHR 0xE5, CHR 0xB7, CHR 0xA5, CHR 0xE5, CHR 0x85, CHR 0xB7] @
     '': '' @ ps_Tool s @ '' | '' @ [CHR 0xE7, CHR 0x9B, CHR 0xAE, CHR 0xE7, CHR 0x9A, CHR 0x84] @ '': '' @ ps_Purpose s @ [CHR 0x0A])
              (ep_Steps plan)))"

definition buildPlanContext :: "execution_plan option \<Rightarrow> string" where
  "buildPlanContext p =
     (case p of None \<Rightarrow> []
      | Some plan \<Rightarrow>
          if ep_Steps plan = [] then []
          else ''## '' @ [CHR 0xE6, CHR 0x89, CHR 0xA7, CHR 0xE8, CHR 0xA1, CHR 0x8C, CHR 0xE8, CHR 0xAE,
     CHR 0xA1, CHR 0xE5, CHR 0x88, CHR 0x92, CHR 0x0A, CHR 0x0A, CHR 0xE4, CHR 0xBB,
     CHR 0xBB, CHR 0xE5, CHR 0x8A, CHR 0xA1, CHR 0xEF, CHR 0xBC, CHR 0x9A] @ ep_TaskSummary plan @ [CHR 0x0A, CHR 0x0A, CHR 0xE8, CHR 0xAF, CHR 0xB7, CHR 0xE6, CHR 0x8C, CHR 0x89, CHR 0xE4,
     CHR 0xBB, CHR 0xA5, CHR 0xE4, CHR 0xB8, CHR 0x8B, CHR 0xE6, CHR 0xAD, CHR 0xA5,
     CHR 0xE9, CHR 0xAA, CHR 0xA4, CHR 0xE6, CHR 0x89, CHR 0xA7, CHR 0xE8, CHR 0xA1,
     CHR 0x8C, CHR 0xEF, CHR 0xBC, CHR 0x9A, CHR 0x0A] @
            concat (map (\<lambda>s. show_int (ps_StepNum s) @ ''. '' @ ps_Description s @
              [CHR 0xEF, CHR 0xBC, CHR 0x88, CHR 0xE4, CHR 0xBD, CHR 0xBF, CHR 0xE7, CHR 0x94, CHR 0xA8] @
     '' '' @ ps_Tool s @ [CHR 0xEF, CHR 0xBC, CHR 0x89, CHR 0x0A]) (ep_Steps plan)) @
            [CHR 0x0A, CHR 0xE6, CHR 0xB3, CHR 0xA8, CHR 0xE6, CHR 0x84, CHR 0x8F, CHR 0xEF, CHR 0xBC,
     CHR 0x9A, CHR 0xE6, CHR 0x8C, CHR 0x89, CHR 0xE9, CHR 0xA1, CHR 0xBA, CHR 0xE5,
     CHR 0xBA, CHR 0x8F, CHR 0xE6, CHR 0x89, CHR 0xA7, CHR 0xE8, CHR 0xA1, CHR 0x8C,
     CHR 0xEF, CHR 0xBC, CHR 0x8C, CHR 0xE6, CHR 0xAF, CHR 0x8F, CHR 0xE6, CHR 0xAD,
     CHR 0xA5, CHR 0xE5, CHR 0xAE, CHR 0x8C, CHR 0xE6, CHR 0x88, CHR 0x90, CHR 0xE5,
     CHR 0x90, CHR 0x8E, CHR 0xE5, CHR 0x86, CHR 0x8D, CHR 0xE8, CHR 0xBF, CHR 0x9B,
     CHR 0xE8, CHR 0xA1, CHR 0x8C, CHR 0xE4, CHR 0xB8, CHR 0x8B, CHR 0xE4, CHR 0xB8,
     CHR 0x80, CHR 0xE6, CHR 0xAD, CHR 0xA5, CHR 0xE3, CHR 0x80, CHR 0x82, CHR 0xE5,
     CHR 0xA6, CHR 0x82, CHR 0xE6, CHR 0x9E, CHR 0x9C, CHR 0xE6, CHR 0x9F, CHR 0x90,
     CHR 0xE6, CHR 0xAD, CHR 0xA5, CHR 0xE5, CHR 0xA4, CHR 0xB1, CHR 0xE8, CHR 0xB4,
     CHR 0xA5, CHR 0xEF, CHR 0xBC, CHR 0x8C, CHR 0xE5, CHR 0x88, CHR 0x86, CHR 0xE6,
     CHR 0x9E, CHR 0x90, CHR 0xE5, CHR 0x8E, CHR 0x9F, CHR 0xE5, CHR 0x9B, CHR 0xA0,
     CHR 0xE5, CHR 0x90, CHR 0x8E, CHR 0xE5, CHR 0x86, CHR 0xB3, CHR 0xE5, CHR 0xAE,
     CHR 0x9A, CHR 0xE6, CHR 0x98, CHR 0xAF, CHR 0xE5, CHR 0x90, CHR 0xA6, CHR 0xE7,
     CHR 0xBB, CHR 0xA7, CHR 0xE7, CHR 0xBB, CHR 0xAD, CHR 0xE3, CHR 0x80, CHR 0x82])"

text \<open>The context a request is carried out with: empty unless a plan with steps was made.\<close>

definition plan_context ::
  "(string \<Rightarrow> 'w \<Rightarrow> 'w \<times> (string + string)) \<Rightarrow> (string \<Rightarrow> json option) \<Rightarrow> string \<Rightarrow> 'w \<Rightarrow> 'w \<times> string" where
  "plan_context chat parse userInput w =
     (if NeedPlanning userInput
      then (case CreatePlan chat parse userInput w of
              (w', Inl _) \<Rightarrow> (w', [])
            | (w', Inr plan) \<Rightarrow>
                (w', if ep_IsComplex plan \<and> ep_Steps plan \<noteq> [] then buildPlanContext (Some plan) else []))
      else (w, []))"

end
