(* ===== verification/Owl_ShortTerm.thy ===== *)
theory Owl_ShortTerm
  imports Owl_Json Owl_Interfaces
begin

text \<open>
  \<open>internal/memory/shortterm.go\<close>: the recent messages of each session, in memory. \<open>maxTurns\<close> and
  \<open>ttl\<close>, which never change, are arguments; the state is the map of sessions. A reader gets the
  values, as the code copies them. The ticker that calls \<open>cleanupExpired\<close> every minute is left out.
\<close>

record chat_message =
  cm_Role :: string
  cm_Content :: string
  cm_Timestamp :: gotime
  cm_Metadata :: "(string \<rightharpoonup> json) option"

record session_context =
  sc_SessionID :: string
  sc_UserID :: string
  sc_Messages :: "chat_message list"
  sc_LastActive :: gotime

type_synonym sessions = "string \<rightharpoonup> session_context"

definition cleanupExpired :: "duration \<Rightarrow> gotime \<Rightarrow> sessions \<Rightarrow> sessions" where
  "cleanupExpired ttl now m =
     (\<lambda>k. case m k of None \<Rightarrow> None
          | Some s \<Rightarrow> if time_sub now (sc_LastActive s) > ttl then None else Some s)"

definition open_session :: "string \<Rightarrow> string \<Rightarrow> sessions \<Rightarrow> session_context" where
  "open_session sessionID userID m =
     (case m sessionID of
        Some s \<Rightarrow> s
      | None \<Rightarrow> \<lparr>sc_SessionID = sessionID, sc_UserID = userID, sc_Messages = [], sc_LastActive = zero_time\<rparr>)"

text \<open>The clock is read twice. A negative bound makes the slice expression fail.\<close>

definition SaveMessage ::
  "int \<Rightarrow> string \<Rightarrow> string \<Rightarrow> string \<Rightarrow> string \<Rightarrow> (string \<rightharpoonup> json) option \<Rightarrow> gotime \<Rightarrow> gotime \<Rightarrow>
   sessions \<Rightarrow> sessions go" where
  "SaveMessage maxTurns sessionID userID role content metadata stamp active m =
     (let s = open_session sessionID userID m;
          messages = sc_Messages s @ [\<lparr>cm_Role = role, cm_Content = content, cm_Timestamp = stamp,
                                       cm_Metadata = metadata\<rparr>];
          s1 = s\<lparr>sc_Messages := messages, sc_LastActive := active\<rparr>;
          maxMessages = wrap64 (maxTurns * 2)
      in if int (length messages) > maxMessages
         then (if maxMessages < 0 then Inl IndexRange
               else Inr (m(sessionID \<mapsto>
                      s1\<lparr>sc_Messages := drop (length messages - nat maxMessages) messages\<rparr>)))
         else Inr (m(sessionID \<mapsto> s1)))"

definition GetMessage :: "string \<Rightarrow> sessions \<Rightarrow> chat_message list" where
  "GetMessage sessionID m = (case m sessionID of None \<Rightarrow> [] | Some s \<Rightarrow> sc_Messages s)"

definition GetSession :: "string \<Rightarrow> sessions \<Rightarrow> session_context option" where
  "GetSession sessionID m = m sessionID"

definition ClearSession :: "string \<Rightarrow> sessions \<Rightarrow> sessions" where
  "ClearSession sessionID m = m(sessionID := None)"

subsection \<open>One session as a capped log\<close>

text \<open>A message as it is saved: user, role, content, metadata and the two clock readings.\<close>

type_synonym saving = "string \<times> string \<times> string \<times> (string \<rightharpoonup> json) option \<times> gotime \<times> gotime"

definition saved :: "saving \<Rightarrow> chat_message" where
  "saved = (\<lambda>(user, role, content, metadata, stamp, active).
     \<lparr>cm_Role = role, cm_Content = content, cm_Timestamp = stamp, cm_Metadata = metadata\<rparr>)"

definition save :: "nat \<Rightarrow> string \<Rightarrow> saving \<Rightarrow> sessions \<Rightarrow> sessions" where
  "save turns sessionID = (\<lambda>(user, role, content, metadata, stamp, active) m.
     case SaveMessage (int turns) sessionID user role content metadata stamp active m of
       Inl _ \<Rightarrow> m | Inr m' \<Rightarrow> m')"

lemma small_turns: "turns < 2 ^ 62 \<Longrightarrow> wrap64 (int turns * 2) = int (2 * turns)"
  by (subst wrap64_id) (simp_all add: min_int64_def max_int64_def)

lemma SaveMessage_ok:
  assumes "turns < 2 ^ 62"
  shows "SaveMessage (int turns) sessionID user role content metadata stamp active m =
     Inr (m(sessionID \<mapsto> (open_session sessionID user m)
       \<lparr>sc_LastActive := active,
        sc_Messages := cap_tail (2 * turns) (sc_Messages (open_session sessionID user m) @
           [\<lparr>cm_Role = role, cm_Content = content, cm_Timestamp = stamp, cm_Metadata = metadata\<rparr>])\<rparr>))"
proof -
  have "nat (2 * int turns) = 2 * turns" by simp
  then show ?thesis
    using small_turns[OF assms] by (auto simp: SaveMessage_def Let_def cap_tail_def simp del: drop_append)
qed

lemma open_session_messages: "sc_Messages (open_session sessionID user m) = GetMessage sessionID m"
  by (simp add: open_session_def GetMessage_def split: option.split)

lemma GetMessage_save:
  "turns < 2 ^ 62 \<Longrightarrow>
     GetMessage sessionID (save turns sessionID x m) =
       cap_tail (2 * turns) (GetMessage sessionID m @ [saved x])"
  by (cases x) (simp add: save_def saved_def SaveMessage_ok GetMessage_def[of _ "fun_upd _ _ _"]
      open_session_messages)

lemma save_other:
  "turns < 2 ^ 62 \<Longrightarrow> other \<noteq> sessionID \<Longrightarrow> save turns sessionID x m other = m other"
  by (cases x) (simp add: save_def SaveMessage_ok)

text \<open>The configured bound of a session, cut to one whose double fits.\<close>

interpretation session_log: capped_log "save (min turns (2 ^ 62 - 1)) sessionID" "GetMessage sessionID" saved
    "2 * min turns (2 ^ 62 - 1)" for turns sessionID
  by unfold_locales (rule GetMessage_save, simp)

subsection \<open>Properties\<close>

text \<open>
  Property C13: whatever is saved in a new session, its history is the newest \<open>2 * maxTurns\<close> messages
  in the order they were saved, and no other session changes.
\<close>

theorem session_keeps_newest:
  assumes "turns < 2 ^ 62" and "m sessionID = None"
  shows "GetMessage sessionID (fold (save turns sessionID) xs m) = cap_tail (2 * turns) (map saved xs) \<and>
    (\<forall>other. other \<noteq> sessionID \<longrightarrow> fold (save turns sessionID) xs m other = m other)"
proof
  have "GetMessage sessionID m = []" using assms(2) by (simp add: GetMessage_def)
  moreover have "min turns (2 ^ 62 - 1) = turns" using assms(1) by simp
  ultimately show "GetMessage sessionID (fold (save turns sessionID) xs m) = cap_tail (2 * turns) (map saved xs)"
    using session_log.entries_adds[of sessionID m turns xs] by simp
  show "\<forall>other. other \<noteq> sessionID \<longrightarrow> fold (save turns sessionID) xs m other = m other"
  proof (induction xs arbitrary: m)
    case (Cons x xs)
    then show ?case using save_other[OF assms(1)] by simp
  qed simp
qed

theorem session_keeps_newest_witness:
  "GetMessage ''s'' (fold (save 1 ''s'') [(''u'', ''user'', ''a'', None, 1, 1),
       (''u'', ''assistant'', ''b'', None, 2, 2), (''u'', ''user'', ''c'', None, 3, 3)] Map.empty) =
     map saved [(''u'', ''assistant'', ''b'', None, 2, 2), (''u'', ''user'', ''c'', None, 3, 3)]"
  using session_keeps_newest[of 1 Map.empty "''s''"
      "[(''u'', ''user'', ''a'', None, 1, 1), (''u'', ''assistant'', ''b'', None, 2, 2),
        (''u'', ''user'', ''c'', None, 3, 3)]"] by (simp add: cap_tail_def)

text \<open>
  A round of the cleanup drops exactly the sessions without a message for longer than the
  time to live, and a session that is saved to after a reading of the clock no later than the
  cleanup's survives it when the time to live covers the difference.
\<close>

theorem cleanup_spec:
  assumes "0 \<le> ttl" and "ttl < max_int64"
  shows "dom (cleanupExpired ttl now m) = {k. \<exists>s. m k = Some s \<and> now - sc_LastActive s \<le> ttl} \<and>
    (turns < 2 ^ 62 \<longrightarrow> now \<le> active + ttl \<longrightarrow>
     (\<exists>m'. SaveMessage (int turns) k user role content metadata stamp active m = Inr m' \<and>
           cleanupExpired ttl now m' k = m' k \<and> m' k \<noteq> None))"
proof -
  have gt: "time_sub now t > ttl \<longleftrightarrow> now - t > ttl" for t
    using assms by (intro time_sub_gt) (simp_all add: min_int64_def)
  have "dom (cleanupExpired ttl now m) = {k. \<exists>s. m k = Some s \<and> now - sc_LastActive s \<le> ttl}"
    by (force simp: cleanupExpired_def gt split: option.splits if_splits)
  then show ?thesis by (auto simp: SaveMessage_ok cleanupExpired_def gt)
qed

theorem cleanup_spec_witness:
  "dom (cleanupExpired 10 20 [''a'' \<mapsto> \<lparr>sc_SessionID = ''a'', sc_UserID = ''u'', sc_Messages = [],
      sc_LastActive = 5\<rparr>]) = {}"
  using cleanup_spec[of 10 20 "[''a'' \<mapsto> \<lparr>sc_SessionID = ''a'', sc_UserID = ''u'', sc_Messages = [],
      sc_LastActive = 5\<rparr>]"] by (auto simp: max_int64_def)

end
