(* ===== verification/Owl_Executor.thy ===== *)
theory Owl_Executor
  imports Owl_Confirm Owl_Planner Owl_ShortTerm
begin

text \<open>
  \<open>internal/agent/executor.go\<close>: the loop that lets the language model call tools, the confirmations
  it asks for and the replies that grant or refuse them. What lies outside is in \<open>services\<close>: the
  model, the planner's model, the clock, random bytes, the database (an error text for an operation
  that fails), the nodes of the cluster; they read and change a world of any type, on which the tools
  also run. JSON texts are the values they denote; \<open>sv_text\<close> prints the arguments in a prompt. The
  base system prompt, a constant text, is \<open>sv_prompt\<close>. The log package is left out.
\<close>

subsection \<open>Errors and texts\<close>

datatype error_type = ErrorRetryable | ErrorNonRetryable

definition classifyError :: "string option \<Rightarrow> error_type" where
  "classifyError err =
     (case err of
        None \<Rightarrow> ErrorRetryable
      | Some e \<Rightarrow>
          let msg = ToLower e in
          if list_ex (Contains msg) [''permission denied'', ''not found'', ''no such'', ''does not exist'',
               ''invalid'', ''forbidden'']
          then ErrorNonRetryable else ErrorRetryable)"

definition truncateToolResult :: "string \<Rightarrow> string" where
  "truncateToolResult r =
     (let lines = split_on CHR 0x0A r in
      if 50 < length lines
      then Join [CHR 0x0A] (take 20 lines) @ [CHR 0x0A, CHR 0x0A] @ ''... ['' @ [CHR 0xE7, CHR 0x9C, CHR 0x81, CHR 0xE7, CHR 0x95,
     CHR 0xA5] @ '' '' @ show_nat (length lines - 30) @
           '' '' @ [CHR 0xE8, CHR 0xA1, CHR 0x8C] @ ''] ...'' @ [CHR 0x0A, CHR 0x0A] @ Join [CHR 0x0A] (drop (length lines - 10) lines)
      else if 4000 < length r then take 4000 r @ [CHR 0x0A] @ ''... ['' @ [CHR 0xE8, CHR 0xBE, CHR 0x93, CHR 0xE5, CHR 0x87, CHR 0xBA,
     CHR 0xE5, CHR 0xB7, CHR 0xB2, CHR 0xE6, CHR 0x88, CHR 0xAA, CHR 0xE6, CHR 0x96,
     CHR 0xAD] @ '']''
      else r)"

definition compressForHistory :: "string \<Rightarrow> string" where
  "compressForHistory content =
     (if length content < 500 then content
      else take 200 content @ [CHR 0x0A] @ ''...['' @ [CHR 0xE5, CHR 0x86, CHR 0x85, CHR 0xE5, CHR 0xAE, CHR 0xB9,
     CHR 0xE5, CHR 0xB7, CHR 0xB2, CHR 0xE5, CHR 0x8E, CHR 0x8B, CHR 0xE7, CHR 0xBC,
     CHR 0xA9] @ '']...'' @ [CHR 0x0A] @ drop (length content - 100) content)"

subsection \<open>Episodes\<close>

record task_step =
  ts_Description :: string
  ts_ToolName :: string
  ts_Args :: args
  ts_Result :: string
  ts_Status :: string
  ts_StartedAt :: gotime
  ts_CompletedAt :: gotime

record episode =
  ep_SessionID :: string
  ep_UserID :: string
  ep_TriggerType :: string
  ep_TriggerSummary :: string
  ep_TaskSteps :: "task_step list"
  ep_Outcome :: string
  ep_OutcomeSummary :: string
  ep_Target :: string
  ep_Importance :: real

definition after_flag :: "string \<Rightarrow> string \<Rightarrow> string option" where
  "after_flag cmd flag =
     (case Cut cmd flag of
        None \<Rightarrow> None
      | Some (_, rest) \<Rightarrow> (case Fields rest of [] \<Rightarrow> None | p # _ \<Rightarrow> Some p))"

fun exec_container :: "string list \<Rightarrow> string" where
  "exec_container (p # q # ps) =
     (if p = ''exec'' \<and> \<not> prefix ''-'' q then ''docker:'' @ q else exec_container (q # ps))"
| "exec_container _ = []"

definition extractTargetFromCommand :: "string \<Rightarrow> string" where
  "extractTargetFromCommand cmd =
     (case (if Contains cmd ''psql'' then after_flag cmd ''-d '' else None) of
        Some db \<Rightarrow> ''db:'' @ db
      | None \<Rightarrow>
          (case (if Contains cmd ''mysql'' then after_flag cmd ''-D '' else None) of
             Some db \<Rightarrow> ''db:'' @ db
           | None \<Rightarrow> if Contains cmd ''docker exec'' then exec_container (Fields cmd) else []))"

definition step_target :: "task_step \<Rightarrow> string" where
  "step_target step =
     (if ts_ToolName step = ''docker''
      then (case arg_or_empty ''container'' (ts_Args step) of [] \<Rightarrow> [] | c \<Rightarrow> ''docker:'' @ c)
      else if ts_ToolName step = ''local_shell''
      then (case arg_string ''command'' (ts_Args step) of None \<Rightarrow> [] | Some cmd \<Rightarrow> extractTargetFromCommand cmd)
      else if ts_ToolName step = ''remote_shell''
      then (case arg_or_empty ''host'' (ts_Args step) of [] \<Rightarrow> [] | h \<Rightarrow> ''host:'' @ h)
      else [])"

fun extractTarget :: "task_step list \<Rightarrow> string" where
  "extractTarget [] = []"
| "extractTarget (step # steps) = (if step_target step \<noteq> [] then step_target step else extractTarget steps)"

definition write_step :: "task_step \<Rightarrow> bool" where
  "write_step step \<longleftrightarrow> ts_ToolName step = ''docker'' \<and>
     arg_string ''action'' (ts_Args step) \<in> {Some ''stop'', Some ''start'', Some ''restart''}"

definition calculateImportance :: "task_step list \<Rightarrow> string \<Rightarrow> real" where
  "calculateImportance steps outcome =
     min 1 (0.5 + 0.2 * real (length (filter write_step steps)) + (if outcome = ''success'' then 0.1 else 0))"

subsection \<open>Messages of the language model\<close>

record tool_call =
  tc_ID :: string
  tc_Name :: string
  tc_Arguments :: args_text

record llm_message =
  lm_Role :: string
  lm_Content :: string
  lm_ToolCalls :: "tool_call list"
  lm_ToolCallID :: string

record llm_choice =
  lc_Message :: llm_message
  lc_FinishReason :: string

definition say :: "string \<Rightarrow> string \<Rightarrow> llm_message" where
  "say role content = \<lparr>lm_Role = role, lm_Content = content, lm_ToolCalls = [], lm_ToolCallID = []\<rparr>"

definition calling :: "tool_call list \<Rightarrow> llm_message" where
  "calling calls = \<lparr>lm_Role = ''assistant'', lm_Content = [], lm_ToolCalls = calls, lm_ToolCallID = []\<rparr>"

definition answering :: "string \<Rightarrow> string \<Rightarrow> llm_message" where
  "answering callID content = \<lparr>lm_Role = ''tool'', lm_Content = content, lm_ToolCalls = [], lm_ToolCallID = callID\<rparr>"

subsection \<open>State and surroundings\<close>

datatype db_op = InsertPending | SelectPending | SelectLatest | UpdatePending | InsertEpisode | InsertLog

record node_row =
  nr_ID :: string
  nr_Hostname :: string
  nr_IP :: string
  nr_Status :: string

record 'w services =
  sv_llm :: "llm_message list \<Rightarrow> 'w \<Rightarrow> 'w \<times> (string + llm_choice list)"
  sv_chat :: "string \<Rightarrow> 'w \<Rightarrow> 'w \<times> (string + string)"
  sv_clock :: "'w \<Rightarrow> gotime"
  sv_random :: "'w \<Rightarrow> nat \<times> nat"
  sv_db :: "db_op \<Rightarrow> 'w \<Rightarrow> string option"
  sv_nodes :: "('w \<Rightarrow> node_row list) option"
  sv_parse :: "string \<Rightarrow> json option"
  sv_text :: "args_text \<Rightarrow> string"
  sv_prompt :: string

record action_log =
  al_SessionID :: string
  al_UserID :: string
  al_RequestID :: string
  al_ToolName :: string
  al_Arguments :: args
  al_Result :: string
  al_Success :: bool
  al_ErrorMsg :: string
  al_DurationMs :: int

record 'w agent_executor =
  ae_services :: "'w services"
  ae_tools :: "'w registry"
  ae_checker :: "whitelist_config option"
  ae_logger :: bool
  ae_memory :: bool
  ae_maxIterations :: nat
  ae_maxConsecutiveFail :: nat

definition NewAgentExecutor ::
  "'w services \<Rightarrow> 'w registry \<Rightarrow> whitelist_config option \<Rightarrow> bool \<Rightarrow> bool \<Rightarrow> 'w agent_executor" where
  "NewAgentExecutor services tools checker logger memory =
     \<lparr>ae_services = services, ae_tools = tools, ae_checker = checker, ae_logger = logger,
      ae_memory = memory, ae_maxIterations = 10, ae_maxConsecutiveFail = 3\<rparr>"

record 'w agent_state =
  as_machine :: "'w machine"
  as_pending :: pending_table
  as_actions :: "action_log list"
  as_episodes :: "episode list"
  as_sessions :: sessions

abbreviation as_world :: "'w agent_state \<Rightarrow> 'w" where
  "as_world st \<equiv> ma_world (as_machine st)"

definition set_world :: "'w \<Rightarrow> 'w agent_state \<Rightarrow> 'w agent_state" where
  "set_world w st = st\<lparr>as_machine := (as_machine st)\<lparr>ma_world := w\<rparr>\<rparr>"

text \<open>What a tool call gives the loop: a result, an error, a text for the user, or a panic.\<close>

datatype tool_reply = Done string | Failed string | Replied string string | Panicked go_panic

definition clock_of :: "'w agent_executor \<Rightarrow> 'w agent_state \<Rightarrow> gotime" where
  "clock_of ae st = sv_clock (ae_services ae) (as_world st)"

definition db_error :: "'w agent_executor \<Rightarrow> db_op \<Rightarrow> 'w agent_state \<Rightarrow> string option" where
  "db_error ae op st = sv_db (ae_services ae) op (as_world st)"

definition update_status :: "'w agent_executor \<Rightarrow> string \<Rightarrow> string \<Rightarrow> string \<Rightarrow> 'w agent_state \<Rightarrow> 'w agent_state" where
  "update_status ae ident status msg st =
     (if db_error ae UpdatePending st = None
      then st\<lparr>as_pending := updatePendingActionStatus ident status msg (as_pending st)\<rparr> else st)"

definition log_action :: "'w agent_executor \<Rightarrow> action_log \<Rightarrow> 'w agent_state \<Rightarrow> 'w agent_state" where
  "log_action ae entry st =
     (if ae_logger ae \<and> db_error ae InsertLog st = None
      then st\<lparr>as_actions := as_actions st @ [entry]\<rparr> else st)"

definition or_default :: "string \<Rightarrow> string \<Rightarrow> string" where
  "or_default d s = (if s = [] then d else s)"

definition without_checker :: "args \<Rightarrow> args" where
  "without_checker a = a(''_safety_checker'' := None)"

subsection \<open>Asking for a confirmation\<close>

definition ask_existing :: "pending_action \<Rightarrow> string" where
  "ask_existing row =
     [CHR 0xE5, CHR 0xBD, CHR 0x93, CHR 0xE5, CHR 0x89, CHR 0x8D, CHR 0xE5, CHR 0xB7, CHR 0xB2,
     CHR 0xE6, CHR 0x9C, CHR 0x89, CHR 0xE4, CHR 0xB8, CHR 0x80, CHR 0xE4, CHR 0xB8,
     CHR 0xAA, CHR 0xE5, CHR 0xBE, CHR 0x85, CHR 0xE7, CHR 0xA1, CHR 0xAE, CHR 0xE8,
     CHR 0xAE, CHR 0xA4, CHR 0xE6, CHR 0x93, CHR 0x8D, CHR 0xE4, CHR 0xBD, CHR 0x9C,
     CHR 0xEF, CHR 0xBC, CHR 0x8C, CHR 0xE8, CHR 0xAF, CHR 0xB7, CHR 0xE5, CHR 0x85,
     CHR 0x88, CHR 0xE5, CHR 0x9B, CHR 0x9E, CHR 0xE5, CHR 0xA4, CHR 0x8D, CHR 0xEF,
     CHR 0xBC, CHR 0x9A, CHR 0xE7, CHR 0xA1, CHR 0xAE, CHR 0xE8, CHR 0xAE, CHR 0xA4] @
     '' '' @ pa_ID row @ [CHR 0xEF, CHR 0xBC, CHR 0x88, CHR 0xE6, CHR 0x89, CHR 0xA7, CHR 0xE8, CHR 0xA1, CHR 0x8C,
     CHR 0xEF, CHR 0xBC, CHR 0x89, CHR 0xE6, CHR 0x88, CHR 0x96] @ '' '' @ [CHR 0xE5,
     CHR 0x8F, CHR 0x96, CHR 0xE6, CHR 0xB6, CHR 0x88] @ '' '' @ pa_ID row @
     [CHR 0xEF, CHR 0xBC, CHR 0x88, CHR 0xE6, CHR 0x94, CHR 0xBE, CHR 0xE5, CHR 0xBC, CHR 0x83,
     CHR 0xEF, CHR 0xBC, CHR 0x89, CHR 0xE3, CHR 0x80, CHR 0x82, CHR 0x0A, CHR 0x0A] @ pa_Prompt row"

definition ask_new :: "string \<Rightarrow> string \<Rightarrow> string" where
  "ask_new prompt ident = prompt @ [CHR 0x0A, CHR 0x0A, CHR 0xE5, CHR 0x9B, CHR 0x9E, CHR 0xE5, CHR 0xA4, CHR 0x8D, CHR 0xEF,
     CHR 0xBC, CHR 0x9A, CHR 0xE7, CHR 0xA1, CHR 0xAE, CHR 0xE8, CHR 0xAE, CHR 0xA4] @
     '' '' @ ident @ ''  '' @ [CHR 0xE6, CHR 0x88, CHR 0x96] @ ''  '' @ [CHR 0xE5, CHR 0x8F, CHR 0x96, CHR 0xE6,
     CHR 0xB6, CHR 0x88] @ '' '' @ ident"

definition no_memory :: string where
  "no_memory = [CHR 0xE6, CHR 0xAD, CHR 0xA4, CHR 0xE6, CHR 0x93, CHR 0x8D, CHR 0xE4, CHR 0xBD, CHR 0x9C,
     CHR 0xE9, CHR 0x9C, CHR 0x80, CHR 0xE8, CHR 0xA6, CHR 0x81, CHR 0xE7, CHR 0x94,
     CHR 0xA8, CHR 0xE6, CHR 0x88, CHR 0xB7, CHR 0xE7, CHR 0xA1, CHR 0xAE, CHR 0xE8,
     CHR 0xAE, CHR 0xA4, CHR 0xEF, CHR 0xBC, CHR 0x8C, CHR 0xE4, CHR 0xBD, CHR 0x86,
     CHR 0xE6, CHR 0x9C, CHR 0xAA, CHR 0xE5, CHR 0x90, CHR 0xAF, CHR 0xE7, CHR 0x94,
     CHR 0xA8, CHR 0xE8, CHR 0xAE, CHR 0xB0, CHR 0xE5, CHR 0xBF, CHR 0x86, CHR 0xE5,
     CHR 0xAD, CHR 0x98, CHR 0xE5, CHR 0x82, CHR 0xA8, CHR 0xEF, CHR 0xBC, CHR 0x8C,
     CHR 0xE6, CHR 0x97, CHR 0xA0, CHR 0xE6, CHR 0xB3, CHR 0x95, CHR 0xE5, CHR 0x88,
     CHR 0x9B, CHR 0xE5, CHR 0xBB, CHR 0xBA, CHR 0xE7, CHR 0xA1, CHR 0xAE, CHR 0xE8,
     CHR 0xAE, CHR 0xA4, CHR 0xE6, CHR 0xB5, CHR 0x81, CHR 0xE7, CHR 0xA8, CHR 0x8B]"

definition new_row ::
  "'w agent_executor \<Rightarrow> string \<Rightarrow> string \<Rightarrow> string \<Rightarrow> args \<Rightarrow> string \<Rightarrow> string \<Rightarrow> 'w agent_state \<Rightarrow> pending_action" where
  "new_row ae sessionID userID toolName a reason userInput st =
     (let now = clock_of ae st; (b0, b1) = sv_random (ae_services ae) (as_world st) in
      \<lparr>pa_ID = newPendingID now b0 b1, pa_UserID = userID, pa_SessionID = sessionID,
       pa_UserInput = userInput, pa_ToolName = toolName, pa_ArgsJSON = Some (Some (without_checker a)),
       pa_Prompt = buildConfirmPrompt (sv_text (ae_services ae)) toolName (without_checker a) reason,
       pa_Status = ''pending'', pa_ErrorMsg = [], pa_CreatedAt = zero_time,
       pa_ExpiresAt = Some (now + defaultConfirmTTL)\<rparr>)"

definition createPendingAndReply ::
  "'w agent_executor \<Rightarrow> string \<Rightarrow> string \<Rightarrow> string \<Rightarrow> args \<Rightarrow> string \<Rightarrow> string \<Rightarrow> 'w agent_state \<Rightarrow>
   'w agent_state \<times> tool_reply" where
  "createPendingAndReply ae sessionID0 userID0 toolName a reason userInput st =
     (if \<not> ae_memory ae then (st, Failed no_memory)
      else
        let sessionID = or_default ''default-session'' sessionID0;
            userID = or_default ''default-user'' userID0;
            now = clock_of ae st;
            existing = (if db_error ae SelectLatest st = None
                        then getLatestPendingAction sessionID userID now (as_pending st) else None)
        in case existing of
             Some row \<Rightarrow> (st, Replied (pa_ID row) (ask_existing row))
           | None \<Rightarrow>
               let row = new_row ae sessionID userID toolName a reason userInput st in
               (case db_error ae InsertPending st of
                  Some e \<Rightarrow> (st, Failed e)
                | None \<Rightarrow>
                    (case createPendingAction now row (as_pending st) of
                       Inl e \<Rightarrow> (st, Failed e)
                     | Inr t \<Rightarrow> (st\<lparr>as_pending := t\<rparr>, Replied (pa_ID row) (ask_new (pa_Prompt row) (pa_ID row))))))"

subsection \<open>One tool call\<close>

definition many_failures :: "nat \<Rightarrow> string \<Rightarrow> string" where
  "many_failures n e = [CHR 0xE8, CHR 0xBF, CHR 0x9E, CHR 0xE7, CHR 0xBB, CHR 0xAD, CHR 0xE5, CHR 0xA4, CHR 0xB1,
     CHR 0xE8, CHR 0xB4, CHR 0xA5] @ '' '' @ show_nat n @ '' '' @ [CHR 0xE6, CHR 0xAC, CHR 0xA1, CHR 0xEF, CHR 0xBC, CHR 0x8C, CHR 0xE7, CHR 0xBB,
     CHR 0x88, CHR 0xE6, CHR 0xAD, CHR 0xA2, CHR 0xE6, CHR 0x89, CHR 0xA7, CHR 0xE8,
     CHR 0xA1, CHR 0x8C, CHR 0xE3, CHR 0x80, CHR 0x82, CHR 0xE6, CHR 0x9C, CHR 0x80,
     CHR 0xE5, CHR 0x90, CHR 0x8E, CHR 0xE9, CHR 0x94, CHR 0x99, CHR 0xE8, CHR 0xAF,
     CHR 0xAF] @ '': '' @ e"

definition must_confirm :: string where "must_confirm = [CHR 0xE5, CHR 0xB7, CHR 0xA5, CHR 0xE5, CHR 0x85, CHR 0xB7, CHR 0xE8, CHR 0xA6, CHR 0x81,
     CHR 0xE6, CHR 0xB1, CHR 0x82, CHR 0xE7, CHR 0xA1, CHR 0xAE, CHR 0xE8, CHR 0xAE,
     CHR 0xA4]"

definition log_row ::
  "string \<Rightarrow> string \<Rightarrow> string \<Rightarrow> string \<Rightarrow> args \<Rightarrow> string \<Rightarrow> string option \<Rightarrow> duration \<Rightarrow> action_log" where
  "log_row sessionID userID requestID name a res err took =
     \<lparr>al_SessionID = sessionID, al_UserID = userID, al_RequestID = requestID, al_ToolName = name,
      al_Arguments = without_checker a, al_Result = res, al_Success = (err = None),
      al_ErrorMsg = (case err of None \<Rightarrow> [] | Some e \<Rightarrow> e), al_DurationMs = took div Millisecond\<rparr>"

text \<open>The call runs on the machine; a handler that asks for a confirmation has one created.\<close>

definition executeTool ::
  "'w agent_executor \<Rightarrow> string \<Rightarrow> string \<Rightarrow> string \<Rightarrow> string \<Rightarrow> tool_call \<Rightarrow> nat \<Rightarrow> 'w agent_state \<Rightarrow>
   'w agent_state \<times> nat \<times> tool_reply" where
  "executeTool ae sessionID userID requestID userInput call fails st =
     (case tool_Get (tc_Name call) (ae_tools ae) of
        Inl e \<Rightarrow> (st, fails, Failed e)
      | Inr tool \<Rightarrow>
        (case tc_Arguments call of
           None \<Rightarrow> (st, fails, Failed ''failed to parse arguments: '')
         | Some None \<Rightarrow> (st, fails, Panicked NilMapWrite)
         | Some (Some a0) \<Rightarrow>
             let a = without_checker a0 in
             if tl_NeedConfirm tool
             then (let (st', r) = createPendingAndReply ae sessionID userID (tl_Name tool) a must_confirm userInput st
                   in (st', fails, r))
             else
               let (m', out) = tl_Handler tool (ae_checker ae) a (as_machine st);
                   st1 = st\<lparr>as_machine := m'\<rparr>;
                   took = time_sub (clock_of ae st1) (clock_of ae st);
                   row = log_row (or_default ''default-session'' sessionID) (or_default ''default-user'' userID)
                           requestID (tc_Name call) a
               in (case out of
                     NeedConfirm name a' reason \<Rightarrow>
                       (let (st', r) = createPendingAndReply ae sessionID userID name a' reason userInput st1
                        in (st', fails, r))
                   | Err e \<Rightarrow>
                       if Suc fails \<ge> ae_maxConsecutiveFail ae
                       then (st1, Suc fails, Failed (many_failures (Suc fails) e))
                       else (log_action ae (row [] (Some e) took) st1, Suc fails, Failed e)
                   | Out s \<Rightarrow> (log_action ae (row s None took) st1, 0, Done s)
                   | Died p \<Rightarrow> (st1, fails, Panicked p))))"

end
