(* ===== verification/Owl_React.thy ===== *)
theory Owl_React
  imports Owl_Executor
begin

text \<open>
  \<open>internal/agent/executor.go\<close>, continued: \<open>Execute\<close>, the loop of rounds with the language model, and
  \<open>TryHandleConfirmCancel\<close>, which carries out or drops a pending action. The loop is bounded by
  \<open>maxIterations\<close>, which is its recursion argument.
\<close>

subsection \<open>Episodes\<close>

definition saveEpisode ::
  "'w agent_executor \<Rightarrow> string \<Rightarrow> string \<Rightarrow> string \<Rightarrow> task_step list \<Rightarrow> string \<Rightarrow> string \<Rightarrow> 'w agent_state \<Rightarrow>
   'w agent_state" where
  "saveEpisode ae sessionID userID userInput steps outcome summary st =
     (if \<not> ae_memory ae \<or> steps = [] \<or> db_error ae InsertEpisode st \<noteq> None then st
      else st\<lparr>as_episodes := as_episodes st @
        [\<lparr>ep_SessionID = sessionID, ep_UserID = userID, ep_TriggerType = ''user_request'',
          ep_TriggerSummary = userInput, ep_TaskSteps = steps, ep_Outcome = outcome,
          ep_OutcomeSummary = (if 500 < length summary then take 500 summary @ ''...'' else summary),
          ep_Target = extractTarget steps, ep_Importance = calculateImportance steps outcome\<rparr>]\<rparr>)"

subsection \<open>The calls of one round\<close>

datatype exec_result = Answer string | ExecError string | ExecPanic go_panic

definition tool_failed :: "string \<Rightarrow> string" where
  "tool_failed e = [CHR 0xE2, CHR 0x9D, CHR 0x8C] @ '' '' @ [CHR 0xE5, CHR 0xB7, CHR 0xA5, CHR 0xE5, CHR 0x85,
     CHR 0xB7, CHR 0xE6, CHR 0x89, CHR 0xA7, CHR 0xE8, CHR 0xA1, CHR 0x8C, CHR 0xE5,
     CHR 0xA4, CHR 0xB1, CHR 0xE8, CHR 0xB4, CHR 0xA5] @ '': '' @ e"

definition gave_up :: "string \<Rightarrow> string" where
  "gave_up e = [CHR 0xE2, CHR 0x9D, CHR 0x8C] @ '' '' @ [CHR 0xE5, CHR 0xA4, CHR 0x9A, CHR 0xE6, CHR 0xAC,
     CHR 0xA1, CHR 0xE5, CHR 0xB0, CHR 0x9D, CHR 0xE8, CHR 0xAF, CHR 0x95, CHR 0xE4,
     CHR 0xBB, CHR 0x8D, CHR 0xE5, CHR 0xA4, CHR 0xB1, CHR 0xE8, CHR 0xB4, CHR 0xA5,
     CHR 0xEF, CHR 0xBC, CHR 0x8C, CHR 0xE6, CHR 0x88, CHR 0x91, CHR 0xE5, CHR 0x85,
     CHR 0x88, CHR 0xE5, CHR 0x81, CHR 0x9C, CHR 0xE6, CHR 0xAD, CHR 0xA2, CHR 0xE4,
     CHR 0xBB, CHR 0xA5, CHR 0xE9, CHR 0x81, CHR 0xBF, CHR 0xE5, CHR 0x85, CHR 0x8D,
     CHR 0xE5, CHR 0xBE, CHR 0xAA, CHR 0xE7, CHR 0x8E, CHR 0xAF, CHR 0xE3, CHR 0x80,
     CHR 0x82, CHR 0x0A, CHR 0x0A, CHR 0xE6, CHR 0x9C, CHR 0x80, CHR 0xE5, CHR 0x90,
     CHR 0x8E, CHR 0xE9, CHR 0x94, CHR 0x99, CHR 0xE8, CHR 0xAF, CHR 0xAF, CHR 0xEF,
     CHR 0xBC, CHR 0x9A] @ e @
     [CHR 0x0A, CHR 0x0A, CHR 0xE5, CHR 0xBB, CHR 0xBA, CHR 0xE8, CHR 0xAE, CHR 0xAE, CHR 0xEF,
     CHR 0xBC, CHR 0x9A, CHR 0x0A] @ ''- '' @ [CHR 0xE5, CHR 0xA6, CHR 0x82, CHR 0xE6,
     CHR 0x9E, CHR 0x9C, CHR 0xE4, CHR 0xBD, CHR 0xA0, CHR 0xE6, CHR 0x98, CHR 0xAF,
     CHR 0xE5, CHR 0x9C, CHR 0xA8, CHR 0xE5, CHR 0x81, CHR 0x9A, CHR 0xE3, CHR 0x80,
     CHR 0x8C, CHR 0xE5, CHR 0x85, CHR 0xB3, CHR 0xE9, CHR 0x97, CHR 0xAD] @ ''/'' @
     [CHR 0xE8, CHR 0xB0, CHR 0x83, CHR 0xE6, CHR 0x95, CHR 0xB4, CHR 0xE9, CHR 0x85,
     CHR 0x8D, CHR 0xE7, CHR 0xBD, CHR 0xAE, CHR 0xE3, CHR 0x80, CHR 0x8D, CHR 0xE7,
     CHR 0xAD, CHR 0x89, CHR 0xE5, CHR 0x8F, CHR 0x98, CHR 0xE6, CHR 0x9B, CHR 0xB4,
     CHR 0xEF, CHR 0xBC, CHR 0x8C, CHR 0xE8, CHR 0xAF, CHR 0xB7, CHR 0xE6, CHR 0x98,
     CHR 0x8E, CHR 0xE7, CHR 0xA1, CHR 0xAE, CHR 0xE7, CHR 0x9B, CHR 0xAE, CHR 0xE6,
     CHR 0xA0, CHR 0x87, CHR 0xEF, CHR 0xBC, CHR 0x88, CHR 0xE5, CHR 0xAE, CHR 0xB9,
     CHR 0xE5, CHR 0x99, CHR 0xA8, CHR 0xE5, CHR 0x90, CHR 0x8D] @ ''/'' @ [CHR 0xE6,
     CHR 0x9C, CHR 0x8D, CHR 0xE5, CHR 0x8A, CHR 0xA1, CHR 0xE5, CHR 0x90, CHR 0x8D] @
     ''/'' @ [CHR 0xE9, CHR 0x85, CHR 0x8D, CHR 0xE7, CHR 0xBD, CHR 0xAE, CHR 0xE4,
     CHR 0xBD, CHR 0x8D, CHR 0xE7, CHR 0xBD, CHR 0xAE, CHR 0xEF, CHR 0xBC, CHR 0x89,
     CHR 0x0A] @ ''- '' @ [CHR 0xE5, CHR 0xA6, CHR 0x82, CHR 0xE6, CHR 0x9E, CHR 0x9C,
     CHR 0xE6, CHR 0x98, CHR 0xAF, CHR 0xE6, CHR 0x89, CHR 0xA7, CHR 0xE8, CHR 0xA1,
     CHR 0x8C, CHR 0xE5, CHR 0x86, CHR 0x99, CHR 0xE6, CHR 0x93, CHR 0x8D, CHR 0xE4,
     CHR 0xBD, CHR 0x9C, CHR 0xEF, CHR 0xBC, CHR 0x8C, CHR 0xE6, CHR 0x88, CHR 0x91,
     CHR 0xE4, CHR 0xBC, CHR 0x9A, CHR 0xE5, CHR 0x85, CHR 0x88, CHR 0xE5, CHR 0x8F,
     CHR 0x91, CHR 0xE8, CHR 0xB5, CHR 0xB7, CHR 0xE7, CHR 0xA1, CHR 0xAE, CHR 0xE8,
     CHR 0xAE, CHR 0xA4, CHR 0xEF, CHR 0xBC, CHR 0x8C, CHR 0xE5, CHR 0x86, CHR 0x8D,
     CHR 0xE6, CHR 0x89, CHR 0xA7, CHR 0xE8, CHR 0xA1, CHR 0x8C, CHR 0xE3, CHR 0x80,
     CHR 0x82]"

definition tried_often :: string where "tried_often = [CHR 0xE5, CHR 0xA4, CHR 0x9A, CHR 0xE6, CHR 0xAC, CHR 0xA1, CHR 0xE5, CHR 0xB0, CHR 0x9D,
     CHR 0xE8, CHR 0xAF, CHR 0x95, CHR 0xE5, CHR 0xA4, CHR 0xB1, CHR 0xE8, CHR 0xB4,
     CHR 0xA5]"

text \<open>The arguments of a call as a step records them; a text that does not decode leaves none.\<close>

definition recorded_args :: "args_text \<Rightarrow> args" where
  "recorded_args t =
     (case t of Some (Some a) \<Rightarrow> a(''_safety_checker'' := None, ''_confirmed'' := None) | _ \<Rightarrow> Map.empty)"

definition step_of :: "tool_call \<Rightarrow> string \<Rightarrow> string \<Rightarrow> gotime \<Rightarrow> gotime \<Rightarrow> task_step" where
  "step_of call res status began ended =
     \<lparr>ts_Description = tc_Name call, ts_ToolName = tc_Name call, ts_Args = recorded_args (tc_Arguments call),
      ts_Result = truncateToolResult res, ts_Status = status, ts_StartedAt = began, ts_CompletedAt = ended\<rparr>"

text \<open>
  \<open>Inl\<close> ends the request, \<open>Inr\<close> holds the messages, the consecutive failures and the steps for the
  next round.
\<close>

type_synonym round_end = "exec_result + (llm_message list \<times> nat \<times> task_step list)"

fun run_calls ::
  "'w agent_executor \<Rightarrow> string \<Rightarrow> string \<Rightarrow> string \<Rightarrow> tool_call list \<Rightarrow> llm_message list \<Rightarrow> nat \<Rightarrow>
   task_step list \<Rightarrow> 'w agent_state \<Rightarrow> 'w agent_state \<times> round_end" where
  "run_calls ae sessionID requestID userInput [] messages fails steps st = (st, Inr (messages, fails, steps))"
| "run_calls ae sessionID requestID userInput (call # calls) messages fails steps st =
     (case executeTool ae sessionID sessionID requestID userInput call fails st of
        (st1, fails1, Panicked p) \<Rightarrow> (st1, Inl (ExecPanic p))
      | (st1, fails1, Replied ident reply) \<Rightarrow> (st1, Inl (Answer reply))
      | (st1, fails1, Failed e) \<Rightarrow>
          let steps1 = steps @ [step_of call (tool_failed e) ''failed'' (clock_of ae st) (clock_of ae st1)] in
          if fails1 \<ge> ae_maxConsecutiveFail ae
          then (saveEpisode ae sessionID sessionID userInput steps1 ''failed'' tried_often st1,
                Inl (Answer (gave_up e)))
          else run_calls ae sessionID requestID userInput calls
                 (messages @ [answering (tc_ID call) (truncateToolResult (tool_failed e))]) fails1 steps1 st1
      | (st1, fails1, Done s) \<Rightarrow>
          run_calls ae sessionID requestID userInput calls
            (messages @ [answering (tc_ID call) (truncateToolResult s)]) fails1
            (steps @ [step_of call s ''completed'' (clock_of ae st) (clock_of ae st1)]) st1)"

subsection \<open>The rounds\<close>

definition too_many_rounds :: "nat \<Rightarrow> string" where
  "too_many_rounds n = [CHR 0xE8, CHR 0xBE, CHR 0xBE, CHR 0xE5, CHR 0x88, CHR 0xB0, CHR 0xE6, CHR 0x9C, CHR 0x80,
     CHR 0xE5, CHR 0xA4, CHR 0xA7, CHR 0xE8, CHR 0xBF, CHR 0xAD, CHR 0xE4, CHR 0xBB,
     CHR 0xA3, CHR 0xE6, CHR 0xAC, CHR 0xA1, CHR 0xE6, CHR 0x95, CHR 0xB0] @ '' '' @ show_nat n"

definition steps_outcome :: "task_step list \<Rightarrow> string" where
  "steps_outcome steps = (if \<exists>step \<in> set steps. ts_Status step = ''failed'' then ''partial'' else ''success'')"

fun react ::
  "'w agent_executor \<Rightarrow> string \<Rightarrow> string \<Rightarrow> string \<Rightarrow> nat \<Rightarrow> llm_message list \<Rightarrow> nat \<Rightarrow> task_step list \<Rightarrow>
   'w agent_state \<Rightarrow> 'w agent_state \<times> exec_result" where
  "react ae sessionID requestID userInput 0 messages fails steps st =
     (st, ExecError (too_many_rounds (ae_maxIterations ae)))"
| "react ae sessionID requestID userInput (Suc i) messages fails steps st =
     (case sv_llm (ae_services ae) messages (as_world st) of
        (w, Inl e) \<Rightarrow> (set_world w st, ExecError (''LLM call failed: '' @ e))
      | (w, Inr []) \<Rightarrow> (set_world w st, ExecPanic IndexRange)
      | (w, Inr (choice # _)) \<Rightarrow>
          if lc_FinishReason choice = ''stop''
          then (saveEpisode ae sessionID sessionID userInput steps (steps_outcome steps)
                  (lm_Content (lc_Message choice)) (set_world w st),
                Answer (lm_Content (lc_Message choice)))
          else if lc_FinishReason choice = ''tool_calls''
          then (case run_calls ae sessionID requestID userInput (lm_ToolCalls (lc_Message choice))
                       (messages @ [calling (lm_ToolCalls (lc_Message choice))]) fails steps (set_world w st) of
                  (st1, Inl r) \<Rightarrow> (st1, r)
                | (st1, Inr (messages1, fails1, steps1)) \<Rightarrow>
                    react ae sessionID requestID userInput i messages1 fails1 steps1 st1)
          else (set_world w st, ExecError (''unknown finish_reason: '' @ lc_FinishReason choice)))"

subsection \<open>A request\<close>

definition history :: "'w agent_executor \<Rightarrow> string \<Rightarrow> string \<Rightarrow> sessions \<Rightarrow> llm_message list" where
  "history ae sessionID userInput sessions =
     (if \<not> ae_memory ae \<or> sessionID = [] then []
      else map (\<lambda>m. say (cm_Role m) (if cm_Role m = ''assistant'' then compressForHistory (cm_Content m)
                                     else cm_Content m))
             (filter (\<lambda>m. \<not> (cm_Role m = ''user'' \<and> cm_Content m = userInput) \<and>
                          \<not> (cm_Role m = ''user'' \<and> IsConfirmCancelOnly (cm_Content m)))
                (GetMessage sessionID sessions)))"

definition buildSystemPrompt :: "'w services \<Rightarrow> 'w \<Rightarrow> string" where
  "buildSystemPrompt sv w =
     sv_prompt sv @
     (case sv_nodes sv of
        None \<Rightarrow> []
      | Some online \<Rightarrow>
          if online w = [] then []
          else [CHR 0x0A, CHR 0x0A] @ ''## '' @ [CHR 0xE9, CHR 0x9B, CHR 0x86, CHR 0xE7, CHR 0xBE,
     CHR 0xA4, CHR 0xE8, CHR 0x8A, CHR 0x82, CHR 0xE7, CHR 0x82, CHR 0xB9, CHR 0x0A,
     CHR 0x0A] @ ''| '' @ [CHR 0xE8, CHR 0x8A, CHR 0x82, CHR 0xE7, CHR 0x82, CHR 0xB9] @
     '' ID | '' @ [CHR 0xE4, CHR 0xB8, CHR 0xBB, CHR 0xE6, CHR 0x9C, CHR 0xBA, CHR 0xE5,
     CHR 0x90, CHR 0x8D] @ '' | IP | '' @ [CHR 0xE7, CHR 0x8A, CHR 0xB6, CHR 0xE6,
     CHR 0x80, CHR 0x81] @ '' |'' @ [CHR 0x0A] @ ''|---------|--------|-----|------|'' @
     [CHR 0x0A] @
            concat (map (\<lambda>n. ''| '' @ nr_ID n @ '' | '' @ nr_Hostname n @ '' | '' @ nr_IP n @ '' | '' @
                             nr_Status n @ '' |'' @ [CHR 0x0A]) (online w)) @
            [CHR 0x0A, CHR 0xE4, CHR 0xBD, CHR 0xBF, CHR 0xE7, CHR 0x94, CHR 0xA8] @ '' remote_shell '' @
     [CHR 0xE6, CHR 0x97, CHR 0xB6, CHR 0xEF, CHR 0xBC, CHR 0x8C] @ ''host '' @ [CHR 0xE5,
     CHR 0x8F, CHR 0x82, CHR 0xE6, CHR 0x95, CHR 0xB0, CHR 0xE5, CHR 0x8F, CHR 0xAF,
     CHR 0xE4, CHR 0xBB, CHR 0xA5, CHR 0xE5, CHR 0xA1, CHR 0xAB, CHR 0xE8, CHR 0x8A,
     CHR 0x82, CHR 0xE7, CHR 0x82, CHR 0xB9] @ '' ID'' @ [CHR 0xE3, CHR 0x80, CHR 0x81,
     CHR 0xE4, CHR 0xB8, CHR 0xBB, CHR 0xE6, CHR 0x9C, CHR 0xBA, CHR 0xE5, CHR 0x90,
     CHR 0x8D, CHR 0xE6, CHR 0x88, CHR 0x96] @ '' IP'' @ [CHR 0xE3, CHR 0x80, CHR 0x82])"

definition initial_messages :: "'w agent_executor \<Rightarrow> string \<Rightarrow> string \<Rightarrow> string \<Rightarrow> 'w agent_state \<Rightarrow> llm_message list" where
  "initial_messages ae sessionID userInput planContext st =
     [say ''system'' (buildSystemPrompt (ae_services ae) (as_world st))] @
     (if planContext = [] then [] else [say ''system'' planContext]) @
     history ae sessionID userInput (as_sessions st) @ [say ''user'' userInput]"

definition Execute ::
  "'w agent_executor \<Rightarrow> string \<Rightarrow> string \<Rightarrow> string \<Rightarrow> 'w agent_state \<Rightarrow> 'w agent_state \<times> exec_result" where
  "Execute ae sessionID userInput requestID st =
     (let (w, planContext) = plan_context (sv_chat (ae_services ae)) (sv_parse (ae_services ae)) userInput (as_world st);
          st1 = set_world w st
      in react ae sessionID requestID userInput (ae_maxIterations ae)
           (initial_messages ae sessionID userInput planContext st1) 0 [] st1)"

subsection \<open>Confirm or cancel\<close>

datatype confirm_meta = NoMeta | Kind | KindAction string | KindContinued string

text \<open>Whether the text was handled, the reply, the metadata and an error.\<close>

type_synonym confirm_reply = "bool \<times> string \<times> confirm_meta \<times> string option"

abbreviation kind_reply :: "string \<Rightarrow> confirm_reply" where
  "kind_reply s \<equiv> (True, s, Kind, None)"

definition r_none_pending :: string where "r_none_pending = [CHR 0xE5, CHR 0xBD, CHR 0x93, CHR 0xE5, CHR 0x89, CHR 0x8D, CHR 0xE6, CHR 0xB2, CHR 0xA1,
     CHR 0xE6, CHR 0x9C, CHR 0x89, CHR 0xE5, CHR 0xBE, CHR 0x85, CHR 0xE7, CHR 0xA1,
     CHR 0xAE, CHR 0xE8, CHR 0xAE, CHR 0xA4, CHR 0xE7, CHR 0x9A, CHR 0x84, CHR 0xE6,
     CHR 0x93, CHR 0x8D, CHR 0xE4, CHR 0xBD, CHR 0x9C, CHR 0xE3, CHR 0x80, CHR 0x82]"
definition r_not_found :: string where "r_not_found = [CHR 0xE6, CHR 0x9C, CHR 0xAA, CHR 0xE6, CHR 0x89, CHR 0xBE, CHR 0xE5, CHR 0x88, CHR 0xB0,
     CHR 0xE5, CHR 0xBE, CHR 0x85, CHR 0xE7, CHR 0xA1, CHR 0xAE, CHR 0xE8, CHR 0xAE,
     CHR 0xA4, CHR 0xE6, CHR 0x93, CHR 0x8D, CHR 0xE4, CHR 0xBD, CHR 0x9C, CHR 0xEF,
     CHR 0xBC, CHR 0x9A]"
definition r_foreign :: string where "r_foreign = [CHR 0xE8, CHR 0xAF, CHR 0xA5, CHR 0xE6, CHR 0x93, CHR 0x8D, CHR 0xE4, CHR 0xBD, CHR 0x9C,
     CHR 0xE4, CHR 0xB8, CHR 0x8D, CHR 0xE5, CHR 0xB1, CHR 0x9E, CHR 0xE4, CHR 0xBA,
     CHR 0x8E, CHR 0xE5, CHR 0xBD, CHR 0x93, CHR 0xE5, CHR 0x89, CHR 0x8D, CHR 0xE4,
     CHR 0xBC, CHR 0x9A, CHR 0xE8, CHR 0xAF, CHR 0x9D, CHR 0xEF, CHR 0xBC, CHR 0x8C,
     CHR 0xE6, CHR 0x97, CHR 0xA0, CHR 0xE6, CHR 0xB3, CHR 0x95, CHR 0xE5, CHR 0xA4,
     CHR 0x84, CHR 0xE7, CHR 0x90, CHR 0x86, CHR 0xE3, CHR 0x80, CHR 0x82]"
definition r_done :: "string \<Rightarrow> string" where
  "r_done status = [CHR 0xE8, CHR 0xAF, CHR 0xA5, CHR 0xE6, CHR 0x93, CHR 0x8D, CHR 0xE4, CHR 0xBD, CHR 0x9C,
     CHR 0xE5, CHR 0xB7, CHR 0xB2, CHR 0xE5, CHR 0xA4, CHR 0x84, CHR 0xE7, CHR 0x90,
     CHR 0x86, CHR 0xEF, CHR 0xBC, CHR 0x88, CHR 0xE5, CHR 0xBD, CHR 0x93, CHR 0xE5,
     CHR 0x89, CHR 0x8D, CHR 0xE7, CHR 0x8A, CHR 0xB6, CHR 0xE6, CHR 0x80, CHR 0x81,
     CHR 0xEF, CHR 0xBC, CHR 0x9A] @ status @ [CHR 0xEF, CHR 0xBC, CHR 0x89, CHR 0xE3, CHR 0x80, CHR 0x82]"
definition r_expired :: string where "r_expired = [CHR 0xE8, CHR 0xAF, CHR 0xA5, CHR 0xE6, CHR 0x93, CHR 0x8D, CHR 0xE4, CHR 0xBD, CHR 0x9C,
     CHR 0xE5, CHR 0xB7, CHR 0xB2, CHR 0xE8, CHR 0xB6, CHR 0x85, CHR 0xE6, CHR 0x97,
     CHR 0xB6, CHR 0xE5, CHR 0xA4, CHR 0xB1, CHR 0xE6, CHR 0x95, CHR 0x88, CHR 0xE3,
     CHR 0x80, CHR 0x82]"
definition r_cancelled :: string where "r_cancelled = [CHR 0xE5, CHR 0xB7, CHR 0xB2, CHR 0xE5, CHR 0x8F, CHR 0x96, CHR 0xE6, CHR 0xB6, CHR 0x88,
     CHR 0xE6, CHR 0x93, CHR 0x8D, CHR 0xE4, CHR 0xBD, CHR 0x9C, CHR 0xEF, CHR 0xBC,
     CHR 0x9A]"
definition r_broken :: string where "r_broken = [CHR 0xE5, CHR 0xBE, CHR 0x85, CHR 0xE7, CHR 0xA1, CHR 0xAE, CHR 0xE8, CHR 0xAE, CHR 0xA4,
     CHR 0xE6, CHR 0x93, CHR 0x8D, CHR 0xE4, CHR 0xBD, CHR 0x9C, CHR 0xE5, CHR 0x8F,
     CHR 0x82, CHR 0xE6, CHR 0x95, CHR 0xB0, CHR 0xE5, CHR 0xB7, CHR 0xB2, CHR 0xE6,
     CHR 0x8D, CHR 0x9F, CHR 0xE5, CHR 0x9D, CHR 0x8F, CHR 0xEF, CHR 0xBC, CHR 0x8C,
     CHR 0xE6, CHR 0x97, CHR 0xA0, CHR 0xE6, CHR 0xB3, CHR 0x95, CHR 0xE6, CHR 0x89,
     CHR 0xA7, CHR 0xE8, CHR 0xA1, CHR 0x8C, CHR 0xE3, CHR 0x80, CHR 0x82]"
definition r_no_tool :: string where "r_no_tool = [CHR 0xE5, CHR 0xB7, CHR 0xA5, CHR 0xE5, CHR 0x85, CHR 0xB7, CHR 0xE4, CHR 0xB8, CHR 0x8D,
     CHR 0xE5, CHR 0xAD, CHR 0x98, CHR 0xE5, CHR 0x9C, CHR 0xA8, CHR 0xEF, CHR 0xBC,
     CHR 0x9A]"
definition r_stuck :: "string \<Rightarrow> string" where
  "r_stuck e = [CHR 0x0A, CHR 0x0A, CHR 0xEF, CHR 0xBC, CHR 0x88, CHR 0xE7, CHR 0xBB, CHR 0xA7, CHR 0xE7,
     CHR 0xBB, CHR 0xAD, CHR 0xE5, CHR 0xA4, CHR 0x84, CHR 0xE7, CHR 0x90, CHR 0x86,
     CHR 0xE5, CHR 0xA4, CHR 0xB1, CHR 0xE8, CHR 0xB4, CHR 0xA5, CHR 0xEF, CHR 0xBC,
     CHR 0x9A] @ e @ [CHR 0xEF, CHR 0xBC, CHR 0x89]"

text \<open>The row a reply refers to; \<open>Inl\<close> is the answer when there is none the user may act on.\<close>

definition select_row ::
  "'w agent_executor \<Rightarrow> string \<Rightarrow> string \<Rightarrow> string \<Rightarrow> 'w agent_state \<Rightarrow> confirm_reply + pending_action" where
  "select_row ae userID sessionID ident0 st =
     (let chosen =
        (if ident0 \<noteq> [] then Inr ident0
         else case db_error ae SelectLatest st of
                Some e \<Rightarrow> Inl (True, [], NoMeta, Some e)
              | None \<Rightarrow>
                  (case getLatestPendingAction sessionID userID (clock_of ae st) (as_pending st) of
                     None \<Rightarrow> Inl (kind_reply r_none_pending)
                   | Some row \<Rightarrow> Inr (pa_ID row)))
      in case chosen of
           Inl r \<Rightarrow> Inl r
         | Inr ident \<Rightarrow>
             (case db_error ae SelectPending st of
                Some e \<Rightarrow> Inl (True, [], NoMeta, Some e)
              | None \<Rightarrow>
                  (case getPendingAction ident (as_pending st) of
                     None \<Rightarrow> Inl (kind_reply (r_not_found @ ident))
                   | Some row \<Rightarrow>
                       if pa_SessionID row \<noteq> sessionID \<or> pa_UserID row \<noteq> userID then Inl (kind_reply r_foreign)
                       else if pa_Status row \<noteq> ''pending'' then Inl (kind_reply (r_done (pa_Status row)))
                       else Inr row)))"

text \<open>Running a confirmed row: \<open>Inl\<close> is the answer, \<open>Inr\<close> the output of the tool.\<close>

definition run_confirmed ::
  "'w agent_executor \<Rightarrow> string \<Rightarrow> string \<Rightarrow> string \<Rightarrow> pending_action \<Rightarrow> 'w agent_state \<Rightarrow>
   'w agent_state \<times> (confirm_reply + string) go" where
  "run_confirmed ae userID sessionID requestID row st =
     (let ident = pa_ID row; st1 = update_status ae ident ''confirmed'' [] st in
      case pa_ArgsJSON row of
        None \<Rightarrow> (update_status ae ident ''failed'' ''invalid args json'' st1, Inr (Inl (kind_reply r_broken)))
      | Some None \<Rightarrow> (st1, Inl NilMapWrite)
      | Some (Some a0) \<Rightarrow>
          let a = (without_checker a0)(''_confirmed'' \<mapsto> JBool True) in
          (case tool_Get (pa_ToolName row) (ae_tools ae) of
             Inl e \<Rightarrow> (update_status ae ident ''failed'' e st1,
                       Inr (Inl (kind_reply (r_no_tool @ pa_ToolName row))))
           | Inr tool \<Rightarrow>
               let (m', out) = tl_Handler tool (ae_checker ae) a (as_machine st1);
                   st2 = st1\<lparr>as_machine := m'\<rparr>;
                   took = time_sub (clock_of ae st2) (clock_of ae st1);
                   finish = (\<lambda>status msg res.
                     (log_action ae (log_row sessionID userID requestID (tl_Name tool) a res None took)
                        (update_status ae ident status msg st2), Inr (Inr res)))
               in (case out of
                     Out s \<Rightarrow> finish ''executed'' [] s
                   | Err e \<Rightarrow> finish ''failed'' e (tool_failed e)
                   | NeedConfirm name a' reason \<Rightarrow>
                       let e = ''confirm required: '' @ name @ (if reason = [] then [] else '' ('' @ reason @ '')'')
                       in finish ''failed'' e (tool_failed e)
                   | Died p \<Rightarrow> (st2, Inl p))))"

text \<open>
  The task goes on with the output. After 90 seconds the reply no longer waits for it, but the task
  is not stopped: \<open>timeout\<close> says that it took longer.
\<close>

definition continue_task ::
  "'w agent_executor \<Rightarrow> string \<Rightarrow> string \<Rightarrow> bool \<Rightarrow> pending_action \<Rightarrow> string \<Rightarrow> 'w agent_state \<Rightarrow>
   'w agent_state \<times> confirm_reply go" where
  "continue_task ae sessionID requestID timeout row res st =
     (if TrimSpace (pa_UserInput row) = [] then (st, Inr (True, res, KindAction (pa_ID row), None))
      else
        let followup = buildFollowupPrompt (sv_text (ae_services ae)) (pa_UserInput row) (pa_ToolName row)
                         (pa_ArgsJSON row) res;
            (st1, r) = Execute ae sessionID followup requestID st
        in (st1,
            case r of
              ExecPanic p \<Rightarrow> Inl p
            | Answer reply \<Rightarrow>
                Inr (if timeout then (True, res @ r_stuck ''context deadline exceeded'', KindAction (pa_ID row), None)
                     else (True, reply, KindContinued (pa_ID row), None))
            | ExecError e \<Rightarrow>
                Inr (True, res @ r_stuck (if timeout then ''context deadline exceeded'' else e),
                     KindAction (pa_ID row), None)))"

definition TryHandleConfirmCancel ::
  "'w agent_executor \<Rightarrow> string \<Rightarrow> string \<Rightarrow> string \<Rightarrow> string \<Rightarrow> bool \<Rightarrow> 'w agent_state \<Rightarrow>
   'w agent_state \<times> confirm_reply go" where
  "TryHandleConfirmCancel ae userID sessionID requestID txt timeout st =
     (if \<not> ae_memory ae \<or> TrimSpace txt = [] then (st, Inr (False, [], NoMeta, None))
      else case parseConfirmCancel (TrimSpace txt) of
        None \<Rightarrow> (st, Inr (False, [], NoMeta, None))
      | Some (cmd, ident) \<Rightarrow>
          (case select_row ae userID sessionID ident st of
             Inl r \<Rightarrow> (st, Inr r)
           | Inr row \<Rightarrow>
               if (case pa_ExpiresAt row of None \<Rightarrow> False | Some e \<Rightarrow> clock_of ae st > e)
               then (update_status ae (pa_ID row) ''expired'' [] st, Inr (kind_reply r_expired))
               else if cmd = ''cancel''
               then (update_status ae (pa_ID row) ''cancelled'' [] st, Inr (kind_reply (r_cancelled @ pa_ID row)))
               else
                 (case run_confirmed ae userID sessionID requestID row st of
                    (st1, Inl p) \<Rightarrow> (st1, Inl p)
                  | (st1, Inr (Inl r)) \<Rightarrow> (st1, Inr r)
                  | (st1, Inr (Inr res)) \<Rightarrow> continue_task ae sessionID requestID timeout row res st1)))"

end
