(* ===== verification/Owl_SafetyProps.thy ===== *)
theory Owl_SafetyProps
  imports Owl_Safety
begin

text \<open>
  What the safety checker guarantees of the two tools it guards, stated once for a gate that asks a
  check before it runs: a dangerous command never runs, a command that needs a confirmation runs
  only with one, and a stricter configuration never lets more through.
\<close>

subsection \<open>Verdicts by strictness\<close>

fun strictness :: "verdict \<Rightarrow> nat" where
  "strictness Allow = 0"
| "strictness Confirm = 1"
| "strictness (Reject e) = 2"

instantiation verdict :: preorder
begin

definition less_eq_verdict :: "verdict \<Rightarrow> verdict \<Rightarrow> bool" where
  "less_eq_verdict v w \<longleftrightarrow> strictness v \<le> strictness w"

definition less_verdict :: "verdict \<Rightarrow> verdict \<Rightarrow> bool" where
  "less_verdict v w \<longleftrightarrow> strictness v < strictness w"

instance
  by intro_classes (auto simp: less_eq_verdict_def less_verdict_def)

end

lemma verdict_le [simp]:
  "Allow \<le> v" "v \<le> Reject e" "Confirm \<le> v \<longleftrightarrow> v \<noteq> Allow"
  by (cases v; simp add: less_eq_verdict_def)+

lemma strictness_cases:
  "strictness v = 0 \<longleftrightarrow> v = Allow" "strictness v \<le> 1 \<longleftrightarrow> v = Allow \<or> v = Confirm"
  by (cases v; simp)+

subsection \<open>The gate\<close>

locale command_gate =
  fixes check :: "'c \<Rightarrow> verdict"
    and dangerous :: "'c \<Rightarrow> bool"
    and ask :: "'c \<Rightarrow> tool_outcome"
    and go :: "'c \<Rightarrow> 'w machine \<Rightarrow> 'w machine \<times> tool_outcome"
    and exec :: "'c \<Rightarrow> bool \<Rightarrow> 'w machine \<Rightarrow> 'w machine \<times> tool_outcome"
    and argv :: "'c \<Rightarrow> string list"
  assumes dangerous_rejected: "dangerous c \<Longrightarrow> \<exists>e. check c = Reject e"
    and go_starts: "ma_log (fst (go c m)) = ma_log m @ [argv c]"
    and exec_gate: "exec c confirmed m =
      (case check c of
         Reject e \<Rightarrow> (m, Err (check_failed e))
       | Confirm \<Rightarrow> if confirmed then go c m else (m, ask c)
       | Allow \<Rightarrow> go c m)"
begin

lemma dangerous_idle: "dangerous c \<Longrightarrow> \<exists>e. exec c confirmed m = (m, Err e)"
  using dangerous_rejected by (fastforce simp: exec_gate)

lemma exec_log:
  "ma_log (fst (exec c confirmed m)) =
     ma_log m @ (if check c = Allow \<or> check c = Confirm \<and> confirmed then [argv c] else [])"
  by (simp add: exec_gate go_starts split: verdict.split)

lemma exec_asks: "check c = Confirm \<Longrightarrow> exec c False m = (m, ask c)"
  by (simp add: exec_gate)

text \<open>Under a stricter check the same call starts no more.\<close>

lemma stricter_starts_less:
  "check c \<le> check d \<Longrightarrow> ma_log (fst (exec d confirmed m)) \<noteq> ma_log m \<Longrightarrow>
     ma_log (fst (exec c confirmed m)) \<noteq> ma_log m"
  by (cases "check c"; cases "check d") (auto simp: exec_log less_eq_verdict_def split: if_splits)

end

lemma run_tool_log: "ma_log (fst (run_tool run argv good bad m)) = ma_log m @ [argv]"
  by (simp add: run_tool_def start_def case_prod_unfold Let_def)

text \<open>A blacklisted text in the command without its shell wrapper.\<close>

definition blacklisted :: "whitelist_config \<Rightarrow> string \<Rightarrow> bool" where
  "blacklisted config command \<longleftrightarrow>
     list_ex (Contains (normalizeCommand command)) (wc_DangerousCommands config)"

lemma CheckDangerous_Some:
  assumes "list_ex (Contains command) (wc_DangerousCommands config)"
  shows "\<exists>e. CheckDangerousCommand config command = Some e"
proof (cases "find (\<lambda>d. Contains command d \<or> normalizeCommand command \<noteq> command \<and>
                       Contains (normalizeCommand command) d) (wc_DangerousCommands config)")
  case None
  then show ?thesis using assms by (fastforce simp: find_None_iff list_ex_iff)
next
  case (Some d)
  then show ?thesis by (simp add: CheckDangerousCommand_def Let_def)
qed

text \<open>The arguments of a call of the local shell.\<close>

definition shell_args :: "string \<Rightarrow> bool \<Rightarrow> args" where
  "shell_args command confirmed = [''command'' \<mapsto> JStr command, ''_confirmed'' \<mapsto> JBool confirmed]"

lemma shell_args [simp]:
  "arg_string ''command'' (shell_args c b) = Some c" "arg_confirmed (shell_args c b) = b"
  by (simp_all add: shell_args_def arg_string_def arg_confirmed_def)

lemma local_rejects: "blacklisted config c \<Longrightarrow> \<exists>e. CheckLocalShell matches config c = Reject e"
  using CheckDangerous_Some[of "normalizeCommand c" config]
  by (auto simp: CheckLocalShell_def blacklisted_def Let_def)

lemma docker_rejects: "blacklisted config c \<Longrightarrow> \<exists>e. CheckDockerExec matches config t c = Reject e"
  using CheckDangerous_Some[of "normalizeCommand c" config]
  by (auto simp: CheckDockerExec_def blacklisted_def Let_def)

interpretation local_shell: command_gate
  "CheckLocalShell matches config" "blacklisted config"
  "\<lambda>c. NeedConfirm ''local_shell'' [''command'' \<mapsto> JStr c] shell_reason"
  "\<lambda>c. run_tool run [''sh'', ''-c'', c] (\<lambda>out. out) (\<lambda>out. ''failed to execute command: '' @ out)"
  "\<lambda>c confirmed. handleLocalShellTool matches run (Some config) (shell_args c confirmed)"
  "\<lambda>c. [''sh'', ''-c'', c]" for matches config run
proof
  show "blacklisted config c \<Longrightarrow> \<exists>e. CheckLocalShell matches config c = Reject e" for c
    by (rule local_rejects)
qed (simp_all add: run_tool_log handleLocalShellTool_def Let_def split: verdict.split)

interpretation docker_exec: command_gate
  "\<lambda>(t, c). CheckDockerExec matches config t c" "\<lambda>(t, c). blacklisted config c"
  "\<lambda>(t, c). NeedConfirm ''docker''
     [''action'' \<mapsto> JStr ''exec'', ''container'' \<mapsto> JStr t, ''command'' \<mapsto> JStr c] policy_reason"
  "\<lambda>(t, c). run_tool run [''docker'', ''exec'', t, ''sh'', ''-c'', c] (\<lambda>out. out)
                 (\<lambda>out. ''failed to exec in '' @ t @ '': '' @ out)"
  "\<lambda>(t, c) confirmed. dockerExec matches run t c (Some config) confirmed"
  "\<lambda>(t, c). [''docker'', ''exec'', t, ''sh'', ''-c'', c]" for matches config run
proof
  show "\<And>c. (case c of (t, c) \<Rightarrow> blacklisted config c) \<Longrightarrow>
      \<exists>e. (case c of (t, c) \<Rightarrow> CheckDockerExec matches config t c) = Reject e"
    using docker_rejects by auto
qed (auto simp: run_tool_log dockerExec_def Let_def split: verdict.split)

subsection \<open>Properties\<close>


definition sample_config :: whitelist_config where
  "sample_config = \<lparr>wc_LocalShellWhitelist = [\<lparr>cu_Pattern = ''ls'', cu_Description = [], cu_Confirm = True\<rparr>],
     wc_DockerExecWhitelist = Map.empty, wc_DangerousCommands = [''rm -rf''],
     wc_LocalShellDefaultConfirm = Some True, wc_DockerExecDefaultConfirm = Some True\<rparr>"

definition sample_matches :: "string \<Rightarrow> string \<Rightarrow> bool option" where
  "sample_matches pattern command = Some (Contains command pattern)"

definition sample_run :: "string list \<Rightarrow> nat \<Rightarrow> nat \<times> string \<times> bool" where
  "sample_run argv n = (Suc n, ''done'', True)"


text \<open>
  Without a confirmation the local shell starts a program exactly when no blacklisted
  text refuses the command and some whitelist rule matches it; what it starts is one shell with the
  command as it was given, and otherwise it starts nothing.
\<close>

theorem unconfirmed_local_shell:
  "ma_log (fst (handleLocalShellTool matches run (Some config) (shell_args c False) m)) =
     ma_log m @
       (if CheckDangerousCommand config (normalizeCommand c) = None \<and>
           (\<exists>r \<in> set (wc_LocalShellWhitelist config). matches (cu_Pattern r) (normalizeCommand c) = Some True)
        then [[''sh'', ''-c'', c]] else [])"
proof -
  have "CheckLocalShell matches config c = Allow \<longleftrightarrow>
      CheckDangerousCommand config (normalizeCommand c) = None \<and>
      (\<exists>r \<in> set (wc_LocalShellWhitelist config). matches (cu_Pattern r) (normalizeCommand c) = Some True)"
    by (auto simp: CheckLocalShell_def Let_def first_match_def find_None_iff split: option.splits)
  then show ?thesis by (simp add: local_shell.exec_log)
qed

text \<open>A stricter list, and what it does to the two searches.\<close>

lemma CheckDangerousCommand_None:
  "CheckDangerousCommand config command = None \<longleftrightarrow>
     (\<forall>d \<in> set (wc_DangerousCommands config).
        \<not> Contains command d \<and> \<not> (normalizeCommand command \<noteq> command \<and> Contains (normalizeCommand command) d))"
  by (auto simp: CheckDangerousCommand_def Let_def find_None_iff)

lemma first_match_None:
  "first_match matches command rules = None \<longleftrightarrow>
     (\<forall>r \<in> set rules. matches (cu_Pattern r) command \<noteq> Some True)"
  by (auto simp: first_match_def find_None_iff)

lemma CheckLocalShell_cases:
  "CheckLocalShell matches config c =
    (if CheckDangerousCommand config (normalizeCommand c) \<noteq> None
     then Reject (the (CheckDangerousCommand config (normalizeCommand c)))
     else if first_match matches (normalizeCommand c) (wc_LocalShellWhitelist config) \<noteq> None then Allow
     else if wc_LocalShellDefaultConfirm config = Some True then Confirm
     else Reject (not_listed (normalizeCommand c)))"
  by (auto simp: CheckLocalShell_def Let_def)

text \<open>
  A configuration with more blacklisted texts, fewer local whitelist rules and no more
  permission to confirm gives every local command a verdict at least as strict, and a call of the
  local shell that starts a program under it starts one under the looser configuration too.
\<close>

theorem tightening_is_monotone:
  assumes "set (wc_DangerousCommands loose) \<subseteq> set (wc_DangerousCommands tight)"
    and "set (wc_LocalShellWhitelist tight) \<subseteq> set (wc_LocalShellWhitelist loose)"
    and "wc_LocalShellDefaultConfirm tight = Some True \<longrightarrow> wc_LocalShellDefaultConfirm loose = Some True"
  shows "CheckLocalShell matches loose c \<le> CheckLocalShell matches tight c \<and>
     (ma_log (fst (handleLocalShellTool matches run (Some tight) (shell_args c b) m)) \<noteq> ma_log m \<longrightarrow>
      ma_log (fst (handleLocalShellTool matches run (Some loose) (shell_args c b) m)) \<noteq> ma_log m)"
proof -
  have d: "CheckDangerousCommand tight (normalizeCommand c) = None \<longrightarrow>
      CheckDangerousCommand loose (normalizeCommand c) = None"
    using assms(1) by (auto simp: CheckDangerousCommand_None)
  have w: "first_match matches (normalizeCommand c) (wc_LocalShellWhitelist loose) = None \<longrightarrow>
      first_match matches (normalizeCommand c) (wc_LocalShellWhitelist tight) = None"
    using assms(2) by (auto simp: first_match_None)
  have le: "CheckLocalShell matches loose c \<le> CheckLocalShell matches tight c"
    unfolding CheckLocalShell_cases using d w assms(3) by (simp add: less_eq_verdict_def)
  then show ?thesis
    by (auto simp: local_shell.exec_log less_eq_verdict_def strictness_cases[simplified] split: if_splits)
qed

theorem tightening_is_monotone_witness:
  "CheckLocalShell sample_matches (sample_config\<lparr>wc_DangerousCommands := []\<rparr>) ''rm -rf /'' = Confirm \<and>
   CheckLocalShell sample_matches (sample_config\<lparr>wc_DangerousCommands := []\<rparr>) ''rm -rf /''
     \<le> CheckLocalShell sample_matches sample_config ''rm -rf /''"
proof
  show "CheckLocalShell sample_matches (sample_config\<lparr>wc_DangerousCommands := []\<rparr>) ''rm -rf /'' = Confirm"
    by code_simp
  show "CheckLocalShell sample_matches (sample_config\<lparr>wc_DangerousCommands := []\<rparr>) ''rm -rf /''
     \<le> CheckLocalShell sample_matches sample_config ''rm -rf /''"
    by (rule tightening_is_monotone[THEN conjunct1]) (simp_all add: sample_config_def)
qed

text \<open>
  A rule's \<open>confirm\<close> flag has no effect on a local command: whatever the flags of the
  local whitelist are changed to, every verdict stays the same. In a container the flag of the first
  \<open>common\<close> rule that matches decides between a confirmation and none.
\<close>

theorem local_rule_confirm_ignored:
  "CheckLocalShell matches
      (config\<lparr>wc_LocalShellWhitelist := map (\<lambda>r. r\<lparr>cu_Confirm := flag r\<rparr>) (wc_LocalShellWhitelist config)\<rparr>) c =
    CheckLocalShell matches config c \<and>
   (CheckDangerousCommand config (normalizeCommand c) = None \<longrightarrow>
    wc_DockerExecWhitelist config ''common'' = Some rules \<longrightarrow>
    first_match matches (normalizeCommand c) rules = Some r \<longrightarrow>
    CheckDockerExec matches config t c = (if cu_Confirm r then Confirm else Allow))"
proof -
  let ?config = "config\<lparr>wc_LocalShellWhitelist := map (\<lambda>r. r\<lparr>cu_Confirm := flag r\<rparr>) (wc_LocalShellWhitelist config)\<rparr>"
  have "CheckDangerousCommand ?config (normalizeCommand c) = CheckDangerousCommand config (normalizeCommand c)"
    by (simp add: CheckDangerousCommand_def Let_def)
  moreover have "first_match matches (normalizeCommand c) (wc_LocalShellWhitelist ?config) = None \<longleftrightarrow>
      first_match matches (normalizeCommand c) (wc_LocalShellWhitelist config) = None"
    by (simp add: first_match_None)
  ultimately have "CheckLocalShell matches ?config c = CheckLocalShell matches config c"
    by (simp add: CheckLocalShell_cases)
  then show ?thesis by (simp add: CheckDockerExec_def Let_def)
qed

theorem local_rule_confirm_ignored_witness:
  "CheckLocalShell sample_matches sample_config ''ls'' = Allow \<and>
   CheckDockerExec sample_matches
     (sample_config\<lparr>wc_DockerExecWhitelist := [''common'' \<mapsto> wc_LocalShellWhitelist sample_config]\<rparr>) ''web'' ''ls'' = Confirm"
proof
  show "CheckLocalShell sample_matches sample_config ''ls'' = Allow" by code_simp
  let ?r = "\<lparr>cu_Pattern = ''ls'', cu_Description = [], cu_Confirm = True\<rparr>"
  let ?config = "sample_config\<lparr>wc_DockerExecWhitelist := [''common'' \<mapsto> wc_LocalShellWhitelist sample_config]\<rparr>"
  have "CheckDangerousCommand sample_config (normalizeCommand ''ls'') = None" by code_simp
  then have d: "CheckDangerousCommand ?config (normalizeCommand ''ls'') = None"
    by (simp add: CheckDangerousCommand_None)
  have w: "wc_DockerExecWhitelist ?config ''common'' = Some [?r]" by (simp add: sample_config_def)
  have f: "first_match sample_matches (normalizeCommand ''ls'') [?r] = Some ?r" by code_simp
  show "CheckDockerExec sample_matches ?config ''web'' ''ls'' = Confirm"
    using local_rule_confirm_ignored[where matches = sample_matches and config = ?config and c = "''ls''"] d w f by simp
qed

end
