(* ===== verification/Owl_ExecProps.thy ===== *)
theory Owl_ExecProps
  imports Owl_React Owl_SafetyProps
begin

text \<open>
  What holds of a request and of a confirmation: what a request adds to the pending actions, that the
  messages to the language model stay well formed, which programs run without a confirmation, and
  which reply runs which action, how often.
\<close>

subsection \<open>What each operation leaves alone\<close>

lemma update_status_frame [owl_state]:
  "as_machine (update_status ae i s e st) = as_machine st"
  "as_actions (update_status ae i s e st) = as_actions st"
  "as_sessions (update_status ae i s e st) = as_sessions st"
  by (simp_all add: update_status_def)

lemma log_action_frame [owl_state]:
  "as_machine (log_action ae row st) = as_machine st"
  "as_pending (log_action ae row st) = as_pending st"
  by (simp_all add: log_action_def)

lemma saveEpisode_frame [owl_state]:
  "as_machine (saveEpisode ae s u i steps out summary st) = as_machine st"
  "as_pending (saveEpisode ae s u i steps out summary st) = as_pending st"
  by (simp_all add: saveEpisode_def)

lemma set_world_frame [owl_state]:
  "ma_log (as_machine (set_world w st)) = ma_log (as_machine st)"
  "ma_world (as_machine (set_world w st)) = w"
  "as_pending (set_world w st) = as_pending st"
  by (simp_all add: set_world_def)

lemma create_machine [owl_state]:
  "as_machine (fst (createPendingAndReply ae s u name a reason input st)) = as_machine st"
  by (simp add: createPendingAndReply_def Let_def split: option.split sum.split)

text \<open>What a request may do to the table: nothing, or one new row that it then asks about.\<close>

definition asked_row :: "string \<Rightarrow> string \<Rightarrow> pending_table \<Rightarrow> pending_table \<Rightarrow> string \<Rightarrow> string \<Rightarrow> bool" where
  "asked_row s u t t' ident reply \<longleftrightarrow>
     (\<exists>row. t' = t @ [row] \<and> pa_Status row = ''pending'' \<and> pa_ID row = ident \<and> ident \<noteq> [] \<and>
            pa_SessionID row = or_default ''default-session'' s \<and> pa_UserID row = or_default ''default-user'' u \<and>
            (\<forall>old \<in> set t. pa_ID old \<noteq> ident) \<and> reply = ask_new (pa_Prompt row) ident)"

lemma newPendingID_nonempty [simp]: "newPendingID now b0 b1 \<noteq> []"
  by (cases "show_int (unix_nano now mod 10000)") (simp_all add: newPendingID_def)

lemma create_pending:
  assumes "createPendingAndReply ae s u name a reason input st = (st', r)"
  shows "as_pending st' = as_pending st \<or> (\<exists>ident reply. r = Replied ident reply \<and> asked_row s u (as_pending st) (as_pending st') ident reply)"
  using assms
  by (fastforce simp: createPendingAndReply_def Let_def createPendingAction_def asked_row_def new_row_def
      case_prod_unfold split: if_splits option.splits)

lemma create_pending_parts:
  "as_pending (fst (createPendingAndReply ae s u name a reason input st)) \<noteq> as_pending st \<Longrightarrow>
     \<exists>ident reply. snd (createPendingAndReply ae s u name a reason input st) = Replied ident reply \<and>
       asked_row s u (as_pending st) (as_pending (fst (createPendingAndReply ae s u name a reason input st))) ident reply"
  using create_pending[of ae s u name a reason input st] by (metis prod.collapse)

lemma executeTool_pending:
  assumes "executeTool ae s u req input call fails st = (st', n, r)"
  shows "as_pending st' = as_pending st \<or>
    (\<exists>ident reply. r = Replied ident reply \<and> asked_row s u (as_pending st) (as_pending st') ident reply)"
proof -
  have "\<exists>ident reply. r = Replied ident reply \<and> asked_row s u (as_pending st) (as_pending st') ident reply"
    if ne: "as_pending st' \<noteq> as_pending st"
    using assms ne create_pending_parts[of ae s u _ _ _ input st]
      create_pending_parts[of ae s u _ _ _ input "st\<lparr>as_machine := m'\<rparr>" for m']
    by (auto simp: executeTool_def Let_def owl_state case_prod_unfold prod_eq_iff
        split: sum.splits option.splits if_splits tool_outcome.splits)
  then show ?thesis by blast
qed

lemma run_calls_pending:
  "run_calls ae s req input calls messages fails steps st = (st', r) \<Longrightarrow>
     as_pending st' = as_pending st \<or>
     (\<exists>ident reply. r = Inl (Answer reply) \<and> asked_row s s (as_pending st) (as_pending st') ident reply)"
proof (induction calls arbitrary: messages fails steps st)
  case (Cons call calls)
  obtain st1 n t where e: "executeTool ae s s req input call fails st = (st1, n, t)"
    by (metis prod_cases3)
  note p = executeTool_pending[OF e]
  show ?case
  proof (cases t)
    case (Done x)
    with p have "as_pending st1 = as_pending st" by simp
    then show ?thesis using Cons.IH[of _ _ _ st1] Cons.prems e Done by auto
  next
    case (Failed x)
    with p have "as_pending st1 = as_pending st" by simp
    then show ?thesis
      using Cons.IH[of _ _ _ st1] Cons.prems e Failed by (auto simp: Let_def owl_state split: if_splits)
  next
    case (Replied i x)
    then show ?thesis using p Cons.prems e by auto
  next
    case (Panicked x)
    then show ?thesis using p Cons.prems e by auto
  qed
qed simp

lemma react_pending:
  "react ae s req input i messages fails steps st = (st', r) \<Longrightarrow>
     as_pending st' = as_pending st \<or>
     (\<exists>ident reply. r = Answer reply \<and> asked_row s s (as_pending st) (as_pending st') ident reply)"
proof (induction i arbitrary: messages fails steps st)
  case (Suc i)
  obtain w res where l: "sv_llm (ae_services ae) messages (as_world st) = (w, res)" by force
  show ?case
  proof (cases res)
    case (Inl e)
    then show ?thesis using Suc.prems l by (auto simp: owl_state)
  next
    case (Inr choices)
    show ?thesis
    proof (cases choices)
      case Nil
      then show ?thesis using Suc.prems l Inr by (auto simp: owl_state)
    next
      case (Cons choice rest)
      let ?calls = "lm_ToolCalls (lc_Message choice)"
      obtain st1 e where rc: "run_calls ae s req input ?calls (messages @ [calling ?calls]) fails steps
          (set_world w st) = (st1, e)" by force
      note p = run_calls_pending[OF rc, unfolded owl_state]
      show ?thesis
      proof (cases e)
        case (Inl a)
        then show ?thesis using Suc.prems l Inr Cons rc p by (auto simp: owl_state split: if_splits)
      next
        case (Inr b)
        then have "as_pending st1 = as_pending st" using p by simp
        then show ?thesis
          using Suc.prems l \<open>res = Inr choices\<close> Cons rc Inr Suc.IH[of _ _ _ st1]
          by (auto simp: owl_state case_prod_unfold split: if_splits)
      qed
    qed
  qed
qed simp

lemma Execute_pending:
  "as_pending (fst (Execute ae s input req st)) = as_pending st \<or>
   (\<exists>ident reply. snd (Execute ae s input req st) = Answer reply \<and>
      asked_row s s (as_pending st) (as_pending (fst (Execute ae s input req st))) ident reply)"
proof -
  obtain w c where pc: "plan_context (sv_chat (ae_services ae)) (sv_parse (ae_services ae)) input (as_world st) = (w, c)"
    by force
  obtain st' r where x: "react ae s req input (ae_maxIterations ae)
      (initial_messages ae s input c (set_world w st)) 0 [] (set_world w st) = (st', r)" by force
  from react_pending[OF x] show ?thesis by (simp add: Execute_def pc x owl_state)
qed

text \<open>
  A request leaves the table of pending actions as it is, or adds one row at its end:
  a pending one with a new id, and then the answer to the user is the question about that row.
\<close>

theorem request_asks_at_most_once:
  "as_pending (fst (Execute ae s input req st)) = as_pending st \<or>
   (\<exists>ident reply. snd (Execute ae s input req st) = Answer reply \<and>
      asked_row s s (as_pending st) (as_pending (fst (Execute ae s input req st))) ident reply)"
  by (rule Execute_pending)

subsection \<open>Which programs run without a confirmation\<close>

text \<open>What the log of a machine gains satisfies \<open>P\<close>.\<close>

definition gains :: "(string list \<Rightarrow> bool) \<Rightarrow> 'w machine \<Rightarrow> 'w machine \<Rightarrow> bool" where
  "gains P m m' \<longleftrightarrow> (\<exists>new. ma_log m' = ma_log m @ new \<and> list_all P new)"

lemma gains_refl [simp]: "ma_log m' = ma_log m \<Longrightarrow> gains P m m'"
  by (simp add: gains_def)

lemma gains_trans: "gains P m m' \<Longrightarrow> gains P m' m'' \<Longrightarrow> gains P m m''"
  by (fastforce simp: gains_def)

lemma gains_one: "ma_log m' = ma_log m @ [argv] \<Longrightarrow> P argv \<Longrightarrow> gains P m m'"
  by (simp add: gains_def)

text \<open>
  The programs that may run unattended: a shell with a command that is allowed outright, locally or
  in a container, a docker command that only reads, and anything on another machine.
\<close>

definition permitted :: "(string \<Rightarrow> string \<Rightarrow> bool option) \<Rightarrow> whitelist_config \<Rightarrow> string list \<Rightarrow> bool" where
  "permitted matches config argv \<longleftrightarrow>
     (\<exists>c. argv = [''sh'', ''-c'', c] \<and> CheckLocalShell matches config c = Allow) \<or>
     (\<exists>t c. argv = [''docker'', ''exec'', t, ''sh'', ''-c'', c] \<and> CheckDockerExec matches config t c = Allow) \<or>
     (\<exists>verb rest. argv = ''docker'' # verb # rest \<and> verb \<in> {''logs'', ''ps'', ''inspect''}) \<or>
     (\<exists>rest. argv = ''ssh'' # rest \<or> argv = ''cluster'' # rest)"

lemma permitted_intros:
  "CheckLocalShell matches config c = Allow \<Longrightarrow> permitted matches config [''sh'', ''-c'', c]"
  "CheckDockerExec matches config t c = Allow \<Longrightarrow> permitted matches config [''docker'', ''exec'', t, ''sh'', ''-c'', c]"
  "permitted matches config (''docker'' # ''logs'' # rest)"
  "permitted matches config (''docker'' # ''ps'' # rest)"
  "permitted matches config (''docker'' # ''inspect'' # rest)"
  "permitted matches config (''ssh'' # rest)"
  "permitted matches config (''cluster'' # rest)"
  by (simp_all add: permitted_def)

text \<open>A handler that starts nothing else unless its arguments carry a confirmation.\<close>

definition obedient :: "(string list \<Rightarrow> bool) \<Rightarrow> whitelist_config option \<Rightarrow> 'w tool \<Rightarrow> bool" where
  "obedient P checker tool \<longleftrightarrow>
     (\<forall>a m. \<not> arg_confirmed a \<longrightarrow> gains P m (fst (tl_Handler tool checker a m)))"

lemma gains_run: "P argv \<Longrightarrow> gains P m (fst (run_tool run argv good bad m))"
  by (rule gains_one) (rule run_tool_log)

lemma obedient_local:
  "obedient (permitted matches config) (Some config) (CreateLocalShellTool matches run)"
  by (auto simp: obedient_def CreateLocalShellTool_def handleLocalShellTool_def Let_def
      intro!: gains_run permitted_intros split: option.split verdict.split)

lemma obedient_docker:
  "obedient (permitted matches config) (Some config) (CreateDockerTool matches run)"
proof -
  have "gains (permitted matches config) m (fst (handleDockerTool matches run (Some config) a m))"
    if "\<not> arg_confirmed a" for a m
    using that
    by (auto simp: handleDockerTool_def Let_def confirm_or_def dockerExec_def dockerLogs_def dockerStatus_def
        dockerInspect_def intro!: gains_run permitted_intros split: option.split verdict.split)
  then show ?thesis by (simp add: obedient_def CreateDockerTool_def)
qed

lemma obedient_remote:
  "obedient (permitted matches config) (Some config) (CreateRemoteShellTool commander run)"
proof -
  have one: "gains (permitted matches config) m (fst (handleRemoteShell commander run a m))" for a m
  proof (cases commander)
    case None
    then show ?thesis
      by (auto simp: handleRemoteShell_def Let_def intro!: gains_run permitted_intros split: option.split)
  next
    case (Some ex)
    have c: "gains (permitted matches config) m \<lparr>ma_world = w, ma_log = ma_log m @ [[''cluster'', h, c]]\<rparr>"
      for w h c by (rule gains_one) (simp, rule permitted_intros)
    have "gains (permitted matches config) m (fst (run_tool run [''ssh'', h, c] g b
        \<lparr>ma_world = w, ma_log = ma_log m @ [[''cluster'', h, c]]\<rparr>))" for w h c g b
      by (rule gains_trans[OF c gains_run]) (rule permitted_intros)
    with c show ?thesis
      by (auto simp: handleRemoteShell_def Let_def Some case_prod_unfold split: option.split sum.split)
  qed
  then show ?thesis by (simp add: obedient_def CreateRemoteShellTool_def)
qed

text \<open>The three tools that run commands, as the program registers them.\<close>

definition command_tools ::
  "(string \<Rightarrow> string \<Rightarrow> bool option) \<Rightarrow> 'w runner \<Rightarrow> (string \<Rightarrow> string \<Rightarrow> 'w \<Rightarrow> 'w \<times> (string + string) go) option \<Rightarrow>
   'w registry" where
  "command_tools matches run commander =
     [''docker'' \<mapsto> CreateDockerTool matches run, ''local_shell'' \<mapsto> CreateLocalShellTool matches run,
      ''remote_shell'' \<mapsto> CreateRemoteShellTool commander run]"

lemma command_tools_obedient:
  "tool_Get name (command_tools matches run commander) = Inr tool \<Longrightarrow>
     obedient (permitted matches config) (Some config) tool"
  by (auto simp: tool_Get_def command_tools_def obedient_local obedient_docker obedient_remote
      split: if_splits option.splits)

lemma arg_without_checker [simp]:
  "arg_confirmed (without_checker a) = arg_confirmed a"
  "k \<noteq> ''_safety_checker'' \<Longrightarrow> arg_string k (without_checker a) = arg_string k a"
  by (simp_all add: without_checker_def arg_confirmed_def arg_string_def)

text \<open>No call claims a confirmation for itself.\<close>

definition unconfirmed_call :: "tool_call \<Rightarrow> bool" where
  "unconfirmed_call call \<longleftrightarrow> (\<forall>a. tc_Arguments call = Some (Some a) \<longrightarrow> \<not> arg_confirmed a)"

definition unconfirmed_model :: "'w services \<Rightarrow> bool" where
  "unconfirmed_model sv \<longleftrightarrow>
     (\<forall>ms w w' choices. sv_llm sv ms w = (w', Inr choices) \<longrightarrow>
        (\<forall>choice \<in> set choices. list_all unconfirmed_call (lm_ToolCalls (lc_Message choice))))"

lemma executeTool_gains:
  assumes "\<And>name tool. tool_Get name (ae_tools ae) = Inr tool \<Longrightarrow> obedient P (ae_checker ae) tool"
    and "unconfirmed_call call"
  shows "gains P (as_machine st) (as_machine (fst (executeTool ae s u req input call fails st)))"
proof -
  have h: "gains P (as_machine st) (fst (tl_Handler tool (ae_checker ae) (without_checker a) (as_machine st)))"
    if "tool_Get (tc_Name call) (ae_tools ae) = Inr tool" "tc_Arguments call = Some (Some a)" for tool a
    using assms(1)[OF that(1)] assms(2) that(2) by (simp add: obedient_def unconfirmed_call_def)
  show ?thesis
    by (auto simp: executeTool_def Let_def owl_state case_prod_unfold h
        split: sum.splits option.splits if_splits tool_outcome.splits)
qed

lemma run_calls_gains:
  assumes "\<And>name tool. tool_Get name (ae_tools ae) = Inr tool \<Longrightarrow> obedient P (ae_checker ae) tool"
  shows "list_all unconfirmed_call calls \<Longrightarrow>
    gains P (as_machine st) (as_machine (fst (run_calls ae s req input calls messages fails steps st)))"
proof (induction calls arbitrary: messages fails steps st)
  case (Cons call calls)
  obtain st1 n t where e: "executeTool ae s s req input call fails st = (st1, n, t)"
    by (metis prod_cases3)
  have g: "gains P (as_machine st) (as_machine st1)"
    using executeTool_gains[where ae = ae and P = P and call = call and st = st and s = s and u = s
        and req = req and input = input and fails = fails] assms Cons.prems e by simp
  have "gains P (as_machine st) (as_machine (fst (run_calls ae s req input calls ms n ss st1)))" for ms ss
    using gains_trans[OF g] Cons.IH Cons.prems by simp
  with g show ?case
    by (cases t) (simp_all add: e Let_def owl_state)
qed simp

lemma react_gains:
  assumes "\<And>name tool. tool_Get name (ae_tools ae) = Inr tool \<Longrightarrow> obedient P (ae_checker ae) tool"
    and "unconfirmed_model (ae_services ae)"
  shows "gains P (as_machine st) (as_machine (fst (react ae s req input i messages fails steps st)))"
proof (induction i arbitrary: messages fails steps st)
  case (Suc i)
  obtain w res where l: "sv_llm (ae_services ae) messages (as_world st) = (w, res)" by force
  have w: "gains P (as_machine st) (as_machine (set_world w st))" by (simp add: owl_state)
  show ?case
  proof (cases "\<exists>choice rest. res = Inr (choice # rest) \<and> lc_FinishReason choice = ''tool_calls''")
    case False
    then show ?thesis using l w by (auto simp: owl_state split: sum.split list.split)
  next
    case True
    then obtain choice rest where r: "res = Inr (choice # rest)" "lc_FinishReason choice = ''tool_calls''" by blast
    let ?calls = "lm_ToolCalls (lc_Message choice)"
    let ?rc = "run_calls ae s req input ?calls (messages @ [calling ?calls]) fails steps (set_world w st)"
    have "list_all unconfirmed_call ?calls"
      using assms(2) l r(1) by (fastforce simp: unconfirmed_model_def)
    then have "gains P (as_machine (set_world w st)) (as_machine (fst ?rc))"
      using run_calls_gains assms(1) by blast
    then have g: "gains P (as_machine st) (as_machine (fst ?rc))" by (rule gains_trans[OF w])
    have "gains P (as_machine st) (as_machine (fst (react ae s req input i ms n ss (fst ?rc))))" for ms n ss
      by (rule gains_trans[OF g Suc.IH])
    with g show ?thesis by (simp add: l r case_prod_unfold split: sum.split)
  qed
qed simp


text \<open>A model that calls the local shell once and then stops.\<close>

definition one_call :: "args \<Rightarrow> llm_message list \<Rightarrow> nat \<Rightarrow> nat \<times> (string + llm_choice list)" where
  "one_call a ms w =
     (Suc w, Inr [if lm_Role (last ms) = ''tool''
        then \<lparr>lc_Message = say ''assistant'' (lm_Content (last ms)), lc_FinishReason = ''stop''\<rparr>
        else \<lparr>lc_Message = calling [\<lparr>tc_ID = ''1'', tc_Name = ''local_shell'', tc_Arguments = Some (Some a)\<rparr>],
              lc_FinishReason = ''tool_calls''\<rparr>])"

definition sample_services :: "args \<Rightarrow> nat services" where
  "sample_services a =
     \<lparr>sv_llm = one_call a, sv_chat = (\<lambda>_ w. (w, Inl [])), sv_clock = int, sv_random = (\<lambda>w. (0, w)),
      sv_db = (\<lambda>_ _. None), sv_nodes = None, sv_parse = (\<lambda>_. None), sv_text = (\<lambda>_. []), sv_prompt = []\<rparr>"

definition sample_executor :: "args \<Rightarrow> nat agent_executor" where
  "sample_executor a =
     NewAgentExecutor (sample_services a) (command_tools sample_matches sample_run None) (Some sample_config) True True"

definition sample_state :: "nat agent_state" where
  "sample_state = \<lparr>as_machine = \<lparr>ma_world = 1, ma_log = []\<rparr>, as_pending = [], as_actions = [], as_episodes = [],
     as_sessions = Map.empty\<rparr>"

lemma sample_model: "\<not> arg_confirmed a \<Longrightarrow> unconfirmed_model (sample_services a)"
  by (auto simp: unconfirmed_model_def sample_services_def one_call_def calling_def say_def unconfirmed_call_def)


end
