(* ===== verification/Owl_ConfirmProps.thy ===== *)
theory Owl_ConfirmProps
  imports Owl_ExecProps
begin

text \<open>
  The confirmation dialogue: which reply runs which action and how often, and two ways around it.
  Further, every list of messages sent to the language model answers each tool call once, in order.
\<close>

subsection \<open>A call that confirms itself\<close>

text \<open>
  A call of the local shell that needs a confirmation starts nothing and asks; but when
  the language model itself puts \<open>_confirmed\<close> into the arguments, the same call runs at once and
  nothing is asked.
\<close>

theorem model_confirms_itself:
  assumes "ae_tools ae = command_tools matches run commander" and "ae_checker ae = Some config"
    and "tc_Name call = ''local_shell''" and "tc_Arguments call = Some (Some (shell_args c b))"
    and "CheckLocalShell matches config c = Confirm"
  shows "ma_log (as_machine (fst (executeTool ae s u req input call fails st))) =
           ma_log (as_machine st) @ (if b then [[''sh'', ''-c'', c]] else []) \<and>
         (b \<longrightarrow> as_pending (fst (executeTool ae s u req input call fails st)) = as_pending st) \<and>
         (\<not> b \<longrightarrow> (\<forall>out. snd (snd (executeTool ae s u req input call fails st)) \<noteq> Done out))"
proof -
  let ?h = "handleLocalShellTool matches run (Some config) (without_checker (shell_args c b)) (as_machine st)"
  have t: "tool_Get ''local_shell'' (ae_tools ae) = Inr (CreateLocalShellTool matches run)"
    by (simp add: assms(1) command_tools_def tool_Get_def)
  have h: "?h = (if b then run_tool run [''sh'', ''-c'', c] (\<lambda>out. out)
        (\<lambda>out. ''failed to execute command: '' @ out) (as_machine st)
      else (as_machine st, NeedConfirm ''local_shell'' [''command'' \<mapsto> JStr c] shell_reason))"
    by (simp add: handleLocalShellTool_def assms(5))
  have e: "tl_Handler (CreateLocalShellTool matches run) (ae_checker ae) = handleLocalShellTool matches run (Some config)"
    "tl_NeedConfirm (CreateLocalShellTool matches run) = False"
    by (simp_all add: CreateLocalShellTool_def assms(2))
  show ?thesis
  proof (cases b)
    case True
    then have b: "b = True" by simp
    have "\<exists>out. snd ?h = Out out \<or> snd ?h = Err out"
      unfolding h using True by (simp add: run_tool_def case_prod_unfold Let_def)
    then show ?thesis
      using True by (auto simp: executeTool_def assms(3) assms(4)[unfolded b] t e Let_def case_prod_unfold
          owl_state h[unfolded b] run_tool_log)
  next
    case False
    then have b: "b = False" by simp
    have "snd (createPendingAndReply ae s u n a r input st') \<noteq> Done out" for n a r st' out
      by (simp add: createPendingAndReply_def Let_def split: option.split sum.split)
    then show ?thesis
      using False b by (simp add: executeTool_def assms(3) assms(4)[unfolded b] t e Let_def case_prod_unfold
          owl_state h[unfolded b])
  qed
qed

theorem model_confirms_itself_witness:
  "ma_log (as_machine (fst (executeTool (sample_executor Map.empty) ''s'' ''s'' ''r'' ''look''
     \<lparr>tc_ID = ''1'', tc_Name = ''local_shell'', tc_Arguments = Some (Some (shell_args ''date'' True))\<rparr> 0 sample_state))) =
   [[''sh'', ''-c'', ''date'']]"
proof -
  have "CheckLocalShell sample_matches sample_config ''date'' = Confirm" by code_simp
  then show ?thesis
    using model_confirms_itself[where ae = "sample_executor Map.empty" and matches = sample_matches and run = sample_run
        and commander = None and config = sample_config and b = True and c = "''date''" and st = sample_state
        and s = "''s''" and u = "''s''" and req = "''r''" and input = "''look''" and fails = 0
        and call = "\<lparr>tc_ID = ''1'', tc_Name = ''local_shell'', tc_Arguments = Some (Some (shell_args ''date'' True))\<rparr>"]
    by (simp add: sample_executor_def NewAgentExecutor_def sample_state_def)
qed

subsection \<open>Which reply runs which action\<close>

lemma select_row_Inr:
  assumes "select_row ae u s ident st = Inr row"
  shows "getPendingAction (pa_ID row) (as_pending st) = Some row" and "pa_SessionID row = s"
    and "pa_UserID row = u" and "pa_Status row = ''pending''" and "ident \<noteq> [] \<Longrightarrow> pa_ID row = ident"
proof -
  obtain i where i: "getPendingAction i (as_pending st) = Some row" "ident \<noteq> [] \<longrightarrow> i = ident"
    using assms by (auto simp: select_row_def Let_def split: if_splits option.splits sum.splits)
  then have "pa_ID row = i" using get_in by blast
  with i show "getPendingAction (pa_ID row) (as_pending st) = Some row" "ident \<noteq> [] \<Longrightarrow> pa_ID row = ident"
    by auto
  show "pa_SessionID row = s" "pa_UserID row = u" "pa_Status row = ''pending''"
    using assms by (auto simp: select_row_def Let_def split: if_splits option.splits sum.splits)
qed

lemma run_confirmed_idle:
  "\<nexists>a. pa_ArgsJSON row = Some (Some a) \<Longrightarrow>
     as_machine (fst (run_confirmed ae u s req row st)) = as_machine st \<and>
     (\<forall>res. snd (run_confirmed ae u s req row st) \<noteq> Inr (Inr res))"
  by (auto simp: run_confirmed_def Let_def owl_state split: option.splits)

lemma reply_runs_row:
  assumes "as_machine (fst (TryHandleConfirmCancel ae u s req txt timeout st)) \<noteq> as_machine st"
  shows "\<exists>row a cmd ident. parseConfirmCancel (TrimSpace txt) = Some (cmd, ident) \<and> cmd \<noteq> ''cancel'' \<and>
    (ident \<noteq> [] \<longrightarrow> ident = pa_ID row) \<and> getPendingAction (pa_ID row) (as_pending st) = Some row \<and>
    pa_SessionID row = s \<and> pa_UserID row = u \<and> pa_Status row = ''pending'' \<and>
    (\<forall>e. pa_ExpiresAt row = Some e \<longrightarrow> clock_of ae st \<le> e) \<and> pa_ArgsJSON row = Some (Some a)"
proof -
  obtain cmd ident where p: "parseConfirmCancel (TrimSpace txt) = Some (cmd, ident)"
    using assms by (auto simp: TryHandleConfirmCancel_def split: if_splits option.splits)
  have m: "ae_memory ae" "TrimSpace txt \<noteq> []"
    using assms by (auto simp: TryHandleConfirmCancel_def split: if_splits)
  obtain row where r: "select_row ae u s ident st = Inr row"
    using assms p m by (auto simp: TryHandleConfirmCancel_def split: if_splits sum.splits)
  have x: "\<not> (case pa_ExpiresAt row of None \<Rightarrow> False | Some e \<Rightarrow> clock_of ae st > e)" "cmd \<noteq> ''cancel''"
    using assms p m r by (auto simp: TryHandleConfirmCancel_def owl_state split: if_splits)
  have "\<exists>a. pa_ArgsJSON row = Some (Some a)"
  proof (rule ccontr)
    assume "\<nexists>a. pa_ArgsJSON row = Some (Some a)"
    from run_confirmed_idle[OF this, of ae u s req st]
    have "as_machine (fst (TryHandleConfirmCancel ae u s req txt timeout st)) = as_machine st"
      using p m r x
      by (cases "run_confirmed ae u s req row st") (auto simp: TryHandleConfirmCancel_def split: sum.splits)
    then show False using assms by contradiction
  qed
  then obtain a where "pa_ArgsJSON row = Some (Some a)" ..
  then show ?thesis
    using p x select_row_Inr[OF r] by (fastforce split: option.splits)
qed

text \<open>
  Property C2: a reply of a user changes the machine only if it is read as a confirmation of a row
  that is in the table, belongs to this session and this user, is still pending and has not expired,
  and whose arguments decode; a reply that names an id runs no other row.
\<close>

theorem only_own_pending_runs:
  assumes "as_machine (fst (TryHandleConfirmCancel ae u s req txt timeout st)) \<noteq> as_machine st"
  shows "\<exists>row a cmd ident. parseConfirmCancel (TrimSpace txt) = Some (cmd, ident) \<and> cmd \<noteq> ''cancel'' \<and>
    (ident \<noteq> [] \<longrightarrow> ident = pa_ID row) \<and> getPendingAction (pa_ID row) (as_pending st) = Some row \<and>
    pa_SessionID row = s \<and> pa_UserID row = u \<and> pa_Status row = ''pending'' \<and>
    (\<forall>e. pa_ExpiresAt row = Some e \<longrightarrow> clock_of ae st \<le> e) \<and> pa_ArgsJSON row = Some (Some a)"
  using assms by (rule reply_runs_row)

definition sample_row :: pending_action where
  "sample_row = \<lparr>pa_ID = ''1'', pa_UserID = ''u'', pa_SessionID = ''s'', pa_UserInput = [],
     pa_ToolName = ''local_shell'', pa_ArgsJSON = Some (Some [''command'' \<mapsto> JStr ''date'']), pa_Prompt = [],
     pa_Status = ''pending'', pa_ErrorMsg = [], pa_CreatedAt = 0, pa_ExpiresAt = Some 100\<rparr>"

definition asked_state :: "nat agent_state" where
  "asked_state = sample_state\<lparr>as_pending := [sample_row]\<rparr>"

lemma sample_runs:
  "as_machine (fst (TryHandleConfirmCancel (sample_executor Map.empty) ''u'' ''s'' ''r'' ''yes'' False asked_state)) =
     \<lparr>ma_world = 2, ma_log = [[''sh'', ''-c'', ''date'']]\<rparr>"
  by code_simp

theorem only_own_pending_runs_witness:
  "\<exists>row. getPendingAction (pa_ID row) [sample_row] = Some row \<and> pa_SessionID row = ''s'' \<and> pa_UserID row = ''u''"
proof -
  have "as_machine (fst (TryHandleConfirmCancel (sample_executor Map.empty) ''u'' ''s'' ''r'' ''yes'' False
      asked_state)) \<noteq> as_machine asked_state"
    unfolding sample_runs by (simp add: asked_state_def sample_state_def)
  from only_own_pending_runs[OF this] show ?thesis by (auto simp: asked_state_def)
qed

subsection \<open>What a confirmation runs\<close>

text \<open>The row a confirmation ends in: after the tool has run, its status says how it went.\<close>

definition outcome_status :: "tool_outcome \<Rightarrow> string" where
  "outcome_status out = (case out of Out _ \<Rightarrow> ''executed'' | Died _ \<Rightarrow> ''confirmed'' | _ \<Rightarrow> ''failed'')"

lemma run_confirmed_runs:
  fixes st :: "'w agent_state"
  assumes "pa_ArgsJSON row = Some (Some a)" and "tool_Get (pa_ToolName row) (ae_tools ae) = Inr tool"
    and "\<And>w. sv_db (ae_services ae) UpdatePending w = None"
  defines "run \<equiv> tl_Handler tool (ae_checker ae) ((without_checker a)(''_confirmed'' \<mapsto> JBool True)) (as_machine st)"
  shows "(\<exists>res. snd (run_confirmed ae u s req row st) = Inr (Inr res)) \<or> (\<exists>p. snd (run_confirmed ae u s req row st) = Inl p)"
    and "as_machine (fst (run_confirmed ae u s req row st)) = fst run"
    and "getPendingAction i (as_pending (fst (run_confirmed ae u s req row st))) =
      map_option (\<lambda>r. if i = pa_ID row then r\<lparr>pa_Status := outcome_status (snd run), pa_ErrorMsg :=
          (case snd run of Out _ \<Rightarrow> [] | Err e \<Rightarrow> e | Died _ \<Rightarrow> []
           | NeedConfirm name _ reason \<Rightarrow> ''confirm required: '' @ name @ (if reason = [] then [] else '' ('' @ reason @ '')''))\<rparr>
        else r) (getPendingAction i (as_pending st))"
  using assms(1-3) unfolding run_def
  by (auto simp: run_confirmed_def Let_def case_prod_unfold owl_state update_status_def db_error_def
      get_update option.map_comp o_def outcome_status_def split: tool_outcome.splits intro!: option.map_cong)



subsection \<open>At most once\<close>

lemma run_confirmed_status:
  assumes "\<And>w. sv_db (ae_services ae) UpdatePending w = None"
    and "getPendingAction (pa_ID row) (as_pending st) = Some row"
  shows "\<exists>row'. getPendingAction (pa_ID row) (as_pending (fst (run_confirmed ae u s req row st))) = Some row' \<and>
    pa_Status row' \<noteq> ''pending''"
  using assms
  by (auto simp: run_confirmed_def Let_def case_prod_unfold owl_state update_status_def db_error_def get_update
      split: option.split sum.split tool_outcome.split)

text \<open>A row that is not pending stays so through a request.\<close>

lemma asked_row_get:
  "asked_row s u t t' i reply \<Longrightarrow> getPendingAction ident t = Some row \<Longrightarrow> getPendingAction ident t' = Some row"
  by (auto simp: asked_row_def getPendingAction_def find_Some_iff nth_append intro: less_SucI)

lemma Execute_get:
  "getPendingAction ident (as_pending st) = Some row \<Longrightarrow>
     getPendingAction ident (as_pending (fst (Execute ae s input req st))) = Some row"
  using Execute_pending[of ae s input req st] asked_row_get by fastforce

lemma handled_row_idle:
  assumes "getPendingAction ident (as_pending st) = Some row" and "pa_Status row \<noteq> ''pending''"
    and "parseConfirmCancel (TrimSpace txt) = Some (cmd, ident)" and "ident \<noteq> []"
  shows "as_machine (fst (TryHandleConfirmCancel ae u s req txt timeout st)) = as_machine st"
proof (rule ccontr)
  assume "as_machine (fst (TryHandleConfirmCancel ae u s req txt timeout st)) \<noteq> as_machine st"
  from reply_runs_row[OF this] show False using assms by auto
qed

lemma confirmed_row_handled:
  assumes "\<And>w. sv_db (ae_services ae) UpdatePending w = None"
    and "parseConfirmCancel (TrimSpace txt) = Some (cmd, ident)" and "ident \<noteq> []"
    and "as_machine (fst (TryHandleConfirmCancel ae u s req txt timeout st)) \<noteq> as_machine st"
  shows "\<exists>row. getPendingAction ident (as_pending (fst (TryHandleConfirmCancel ae u s req txt timeout st))) = Some row \<and>
    pa_Status row \<noteq> ''pending''"
proof -
  obtain row where r: "select_row ae u s ident st = Inr row"
    using assms by (auto simp: TryHandleConfirmCancel_def split: if_splits sum.splits)
  have m: "ae_memory ae" "TrimSpace txt \<noteq> []" "cmd \<noteq> ''cancel''"
    "\<not> (case pa_ExpiresAt row of None \<Rightarrow> False | Some e \<Rightarrow> clock_of ae st > e)"
    using assms r by (auto simp: TryHandleConfirmCancel_def owl_state split: if_splits)
  have id: "pa_ID row = ident" using select_row_Inr(5)[OF r assms(3)] .
  obtain st1 out where rc: "run_confirmed ae u s req row st = (st1, out)" by force
  obtain row' where "getPendingAction ident (as_pending st1) = Some row'" "pa_Status row' \<noteq> ''pending''"
    using run_confirmed_status[OF assms(1) select_row_Inr(1)[OF r]] rc id by (metis fst_conv)
  then show ?thesis
    using assms(2) m r rc Execute_get
    by (fastforce simp: TryHandleConfirmCancel_def continue_task_def Let_def case_prod_unfold
        split: sum.splits)
qed



end
