(* ===== verification/Owl_DialogProps.thy ===== *)
theory Owl_DialogProps
  imports Owl_React
begin

text \<open>
  The dialogue with the language model answers every tool call, a user has one open question at a
  time, and how a reply is read.
\<close>

subsection \<open>Every tool call is answered\<close>

text \<open>
  \<open>unanswered ids ms\<close> follows a list of messages: a message with tool calls opens their ids, which the
  next messages, of role tool, must answer in order. \<open>None\<close> is a list the interface of the model
  refuses.
\<close>

fun unanswered :: "string list \<Rightarrow> llm_message list \<Rightarrow> string list option" where
  "unanswered ids [] = Some ids"
| "unanswered [] (m # ms) =
     (if lm_Role m = ''tool'' then None else unanswered (map tc_ID (lm_ToolCalls m)) ms)"
| "unanswered (i # ids) (m # ms) =
     (if lm_Role m = ''tool'' \<and> lm_ToolCallID m = i then unanswered ids ms else None)"

definition well_formed :: "llm_message list \<Rightarrow> bool" where
  "well_formed ms \<longleftrightarrow> unanswered [] ms = Some []"

lemma unanswered_append: "unanswered ids (a @ b) = Option.bind (unanswered ids a) (\<lambda>j. unanswered j b)"
  by (induction ids a rule: unanswered.induct) simp_all

lemma unanswered_plain:
  "(\<And>m. m \<in> set ms \<Longrightarrow> lm_Role m \<noteq> ''tool'' \<and> lm_ToolCalls m = []) \<Longrightarrow> unanswered [] ms = Some []"
  by (induction ms) auto

lemma unanswered_answer:
  "unanswered [] ms = Some (i # ids) \<Longrightarrow> unanswered [] (ms @ [answering i content]) = Some ids"
  by (simp add: unanswered_append answering_def)

lemma unanswered_calling:
  "unanswered [] ms = Some [] \<Longrightarrow> unanswered [] (ms @ [calling calls]) = Some (map tc_ID calls)"
  by (simp add: unanswered_append calling_def)

lemma run_calls_answers:
  "unanswered [] messages = Some (map tc_ID calls) \<Longrightarrow>
     run_calls ae s req input calls messages fails steps st = (st', Inr (messages', fails', steps')) \<Longrightarrow>
     well_formed messages'"
proof (induction calls arbitrary: messages fails steps st)
  case Nil
  then show ?case by (simp add: well_formed_def)
next
  case (Cons call calls)
  have a: "unanswered [] (messages @ [answering (tc_ID call) content]) = Some (map tc_ID calls)" for content
    using Cons.prems(1) by (intro unanswered_answer) simp
  show ?case
    using Cons.prems(2) Cons.IH[OF a] by (auto simp: Let_def split: prod.splits tool_reply.splits if_splits)
qed

subsection \<open>The messages a model sees\<close>

definition with_llm ::
  "(llm_message list \<Rightarrow> 'w \<Rightarrow> 'w \<times> (string + llm_choice list)) \<Rightarrow> 'w agent_executor \<Rightarrow> 'w agent_executor" where
  "with_llm f ae = ae\<lparr>ae_services := (ae_services ae)\<lparr>sv_llm := f\<rparr>\<rparr>"

lemma with_llm_fields [simp]:
  "ae_tools (with_llm f ae) = ae_tools ae" "ae_checker (with_llm f ae) = ae_checker ae"
  "ae_logger (with_llm f ae) = ae_logger ae" "ae_memory (with_llm f ae) = ae_memory ae"
  "ae_maxIterations (with_llm f ae) = ae_maxIterations ae"
  "ae_maxConsecutiveFail (with_llm f ae) = ae_maxConsecutiveFail ae"
  "sv_llm (ae_services (with_llm f ae)) = f"
  "sv_chat (ae_services (with_llm f ae)) = sv_chat (ae_services ae)"
  "sv_parse (ae_services (with_llm f ae)) = sv_parse (ae_services ae)"
  "sv_text (ae_services (with_llm f ae)) = sv_text (ae_services ae)"
  "sv_random (ae_services (with_llm f ae)) = sv_random (ae_services ae)"
  "sv_nodes (ae_services (with_llm f ae)) = sv_nodes (ae_services ae)"
  "sv_prompt (ae_services (with_llm f ae)) = sv_prompt (ae_services ae)"
  "clock_of (with_llm f ae) st = clock_of ae st" "db_error (with_llm f ae) op st = db_error ae op st"
  by (simp_all add: with_llm_def clock_of_def db_error_def)

lemma with_llm_ops [simp]:
  "createPendingAndReply (with_llm f ae) = createPendingAndReply ae"
  "saveEpisode (with_llm f ae) = saveEpisode ae"
  "log_action (with_llm f ae) = log_action ae"
  "history (with_llm f ae) = history ae"
  by (intro ext; simp add: createPendingAndReply_def new_row_def saveEpisode_def log_action_def history_def
      cong: option.case_cong)+

lemma executeTool_with_llm [simp]: "executeTool (with_llm f ae) = executeTool ae"
  by (intro ext) (unfold executeTool_def with_llm_fields with_llm_ops, rule refl)

lemma run_calls_with_llm [simp]:
  "run_calls (with_llm f ae) s req input calls messages fails steps st =
     run_calls ae s req input calls messages fails steps st"
proof (induction calls arbitrary: messages fails steps st)
  case (Cons call calls)
  then show ?case
    by (simp add: Let_def split: prod.split tool_reply.split)
qed simp

text \<open>The model, except that malformed messages go to \<open>g\<close>.\<close>

definition guarded ::
  "(llm_message list \<Rightarrow> 'w \<Rightarrow> 'w \<times> (string + llm_choice list)) \<Rightarrow> 'w agent_executor \<Rightarrow>
   llm_message list \<Rightarrow> 'w \<Rightarrow> 'w \<times> (string + llm_choice list)" where
  "guarded g ae ms w = (if well_formed ms then sv_llm (ae_services ae) ms w else g ms w)"

lemma react_guarded:
  "well_formed messages \<Longrightarrow>
     react (with_llm (guarded g ae) ae) s req input i messages fails steps st =
     react ae s req input i messages fails steps st"
proof (induction i arbitrary: messages fails steps st)
  case (Suc i)
  obtain w res where l: "sv_llm (ae_services ae) messages (as_world st) = (w, res)" by force
  show ?case
  proof (cases "\<exists>choice rest. res = Inr (choice # rest) \<and> lc_FinishReason choice = ''tool_calls''")
    case False
    then show ?thesis
      using Suc.prems by (auto simp: guarded_def l split: sum.split list.split)
  next
    case True
    then obtain choice rest where r: "res = Inr (choice # rest)" "lc_FinishReason choice = ''tool_calls''" by blast
    let ?calls = "lm_ToolCalls (lc_Message choice)"
    let ?rc = "run_calls ae s req input ?calls (messages @ [calling ?calls]) fails steps (set_world w st)"
    have u: "unanswered [] (messages @ [calling ?calls]) = Some (map tc_ID ?calls)"
      using Suc.prems by (intro unanswered_calling) (simp add: well_formed_def)
    obtain st1 e where rc: "?rc = (st1, e)" by force
    show ?thesis
    proof (cases e)
      case (Inl a)
      then show ?thesis using Suc.prems by (simp add: guarded_def l r rc)
    next
      case (Inr b)
      obtain ms n ss where b: "b = (ms, n, ss)" by (metis prod_cases3)
      have "well_formed ms" using run_calls_answers[OF u rc[unfolded Inr b]] .
      then show ?thesis using Suc.prems Suc.IH by (simp add: guarded_def l r rc Inr b)
    qed
  qed
qed simp

lemma initial_well_formed:
  assumes "\<And>m. m \<in> set (GetMessage s (as_sessions st)) \<Longrightarrow> cm_Role m \<noteq> ''tool''"
  shows "well_formed (initial_messages ae s input plan st)"
  unfolding well_formed_def initial_messages_def
  by (rule unanswered_plain) (auto simp: say_def history_def assms split: if_splits)

text \<open>
  Property C17: when no stored message has the role tool, a request sends the language model only
  lists of messages in which every tool call is answered once and in order: its result does not
  depend on what the model would do with any other list.
\<close>

theorem messages_well_formed:
  assumes "\<And>m. m \<in> set (GetMessage s (as_sessions st)) \<Longrightarrow> cm_Role m \<noteq> ''tool''"
  shows "Execute (with_llm (guarded g ae) ae) s input req st = Execute ae s input req st"
proof -
  have "as_sessions (set_world w st) = as_sessions st" for w by (simp add: set_world_def)
  then have "well_formed (initial_messages ae s input plan (set_world w st))" for plan w
    by (intro initial_well_formed) (simp add: assms)
  moreover have "initial_messages (with_llm f ae) s input plan st' = initial_messages ae s input plan st'"
    for f plan st'
    by (simp add: initial_messages_def buildSystemPrompt_def)
  ultimately show ?thesis by (simp add: Execute_def react_guarded)
qed

text \<open>A model that answers at once; on any list it would not be sent it fails.\<close>

definition quiet_services :: "nat services" where
  "quiet_services =
     \<lparr>sv_llm = (\<lambda>ms w. (w, Inr [\<lparr>lc_Message = say ''assistant'' ''hi'', lc_FinishReason = ''stop''\<rparr>])),
      sv_chat = (\<lambda>_ w. (w, Inl [])), sv_clock = int, sv_random = (\<lambda>w. (0, w)), sv_db = (\<lambda>_ _. None),
      sv_nodes = None, sv_parse = (\<lambda>_. None), sv_text = (\<lambda>_. []), sv_prompt = []\<rparr>"

definition quiet_executor :: "nat agent_executor" where
  "quiet_executor = NewAgentExecutor quiet_services Map.empty None True True"

definition quiet_state :: "nat agent_state" where
  "quiet_state = \<lparr>as_machine = \<lparr>ma_world = 0, ma_log = []\<rparr>, as_pending = [], as_actions = [], as_episodes = [],
     as_sessions = Map.empty\<rparr>"

theorem messages_well_formed_witness:
  "snd (Execute (with_llm (guarded (\<lambda>_ w. (w, Inl ''malformed'')) quiet_executor) quiet_executor) ''s'' ''hello'' ''r''
      quiet_state) = Answer ''hi''"
proof -
  have "Execute (with_llm (guarded (\<lambda>_ w. (w, Inl ''malformed'')) quiet_executor) quiet_executor) ''s'' ''hello'' ''r''
      quiet_state = Execute quiet_executor ''s'' ''hello'' ''r'' quiet_state"
    by (rule messages_well_formed) (simp add: quiet_state_def GetMessage_def)
  moreover have "snd (Execute quiet_executor ''s'' ''hello'' ''r'' quiet_state) = Answer ''hi''" by code_simp
  ultimately show ?thesis by simp
qed

subsection \<open>One open question at a time\<close>

definition one_open :: "gotime \<Rightarrow> pending_table \<Rightarrow> bool" where
  "one_open now t \<longleftrightarrow> (\<forall>s u. length (filter (open_row s u now) t) \<le> 1)"

lemma open_row_later: "now \<le> later \<Longrightarrow> open_row s u later row \<Longrightarrow> open_row s u now row"
  by (auto simp: open_row_def split: option.splits)

lemma filter_length_mono: "(\<And>x. P x \<Longrightarrow> Q x) \<Longrightarrow> length (filter P xs) \<le> length (filter Q xs)"
  by (induction xs) (auto intro: le_SucI)

lemma one_open_later: "one_open now t \<Longrightarrow> now \<le> later \<Longrightarrow> one_open later t"
  unfolding one_open_def
proof (intro allI)
  fix s u
  assume o: "\<forall>s u. length (filter (open_row s u now) t) \<le> 1" and le: "now \<le> later"
  have "length (filter (open_row s u later) t) \<le> length (filter (open_row s u now) t)"
    by (rule filter_length_mono) (rule open_row_later[OF le])
  also have "\<dots> \<le> 1" using o by blast
  finally show "length (filter (open_row s u later) t) \<le> 1" .
qed

lemma one_open_update: "one_open now t \<Longrightarrow> status \<noteq> ''pending'' \<Longrightarrow>
    one_open now (updatePendingActionStatus ident status msg t)"
proof -
  assume o: "one_open now t" and s: "status \<noteq> ''pending''"
  have "length (filter (open_row se u now) (updatePendingActionStatus ident status msg t))
      \<le> length (filter (open_row se u now) t)" for se u
    using s by (induction t) (auto simp: updatePendingActionStatus_def open_row_def)
  moreover have "length (filter (open_row se u now) t) \<le> 1" for se u using o by (simp add: one_open_def)
  ultimately show ?thesis unfolding one_open_def using order_trans by blast
qed

text \<open>Asking adds nothing, or a row for a session and user without an open question.\<close>

lemma ask_table:
  fixes st :: "'w agent_state" and s u name reason input :: string and a :: args
  assumes "db_error ae SelectLatest st = None"
  defines "t' \<equiv> as_pending (fst (createPendingAndReply ae s u name a reason input st))"
  shows "t' = as_pending st \<or>
    (\<exists>row. t' = as_pending st @ [row] \<and>
       filter (open_row (pa_SessionID row) (pa_UserID row) (clock_of ae st)) (as_pending st) = [])"
proof (cases "ae_memory ae")
  case False
  then show ?thesis by (simp add: t'_def createPendingAndReply_def)
next
  case mem: True
  let ?s = "or_default ''default-session'' s"
  let ?u = "or_default ''default-user'' u"
  let ?row = "new_row ae ?s ?u name a reason input st"
  show ?thesis
  proof (cases "getLatestPendingAction ?s ?u (clock_of ae st) (as_pending st)")
    case (Some row)
    then show ?thesis by (simp add: t'_def createPendingAndReply_def Let_def mem assms(1))
  next
    case None
    then have "filter (open_row ?s ?u (clock_of ae st)) (as_pending st) = []"
      by (simp add: latest_None filter_empty_conv)
    moreover have "pa_SessionID ?row = ?s" "pa_UserID ?row = ?u"
      by (simp_all add: new_row_def case_prod_unfold Let_def)
    ultimately show ?thesis
      by (cases "db_error ae InsertPending st")
        (auto simp: t'_def createPendingAndReply_def createPendingAction_def Let_def mem assms(1) None)
  qed
qed

lemma one_open_snoc:
  "one_open now t \<Longrightarrow> filter (open_row (pa_SessionID row) (pa_UserID row) now) t = [] \<Longrightarrow> one_open now (t @ [row])"
  by (auto simp: one_open_def open_row_def)



subsection \<open>How a reply is read\<close>

lemma fields_from_first:
  "acc \<noteq> [] \<Longrightarrow> \<exists>w ws. fields_from acc n s = (rev acc @ w) # ws"
proof (induction acc n s rule: fields_from.induct)
  case (3 acc c cs)
  show ?case
  proof (cases "white_len white_runes (c # cs)")
    case 0
    then obtain w ws where "fields_from (c # acc) 0 cs = (rev (c # acc) @ w) # ws" using 3(1) by auto
    then show ?thesis using 0 by simp
  qed (use 3(3) in simp)
qed auto

lemma Fields_first:
  "white_len white_runes (c # cs) = 0 \<Longrightarrow> \<exists>w ws. Fields (c # cs) = (c # w) # ws"
  using fields_from_first[of "[c]" 0 cs] by (simp add: Fields_def)

lemma with_id_empty [simp]: "with_id cmd [] = Some (cmd, [])"
  by (simp add: with_id_def)

lemma fields_from_set:
  "w \<in> set (fields_from acc n s) \<Longrightarrow> set w \<subseteq> set acc \<union> set s"
proof (induction acc n s rule: fields_from.induct)
  case (3 acc c cs)
  then show ?case by (fastforce split: nat.splits if_splits)
qed (auto split: if_splits)

lemma Fields_set: "w \<in> set (Fields s) \<Longrightarrow> set w \<subseteq> set s"
  using fields_from_set[of w "[]" 0 s] by (simp add: Fields_def)

lemma TrimSpace_set: "set (TrimSpace s) \<subseteq> set s"
  using TrimSpace_sublist[of s] by (rule set_mono_sublist)

lemma reply_digits_none: "\<forall>c \<in> set s. \<not> is_digit c \<Longrightarrow> set t \<subseteq> set s \<Longrightarrow> reply_digits t = []"
  by (auto simp: reply_digits_def filter_empty_conv)

text \<open>The first byte decides: neither the cancelling words nor the short negatives start like \<open>w_confirm\<close>.\<close>

lemma starts_like_confirm:
  assumes "prefix w_confirm raw"
  shows "\<exists>w ws. Fields raw = (CHR 0xE7 # w) # ws" and "ToLower raw \<noteq> ''n''" and "ToLower raw \<noteq> ''no''"
    and "raw \<notin> {w_cancel, w_not, w_negative}" and "raw \<noteq> []"
proof -
  obtain rest where raw: "raw = CHR 0xE7 # CHR 0xA1 # rest"
    using assms by (auto simp: prefix_def w_confirm_def)
  have "white_len white_runes raw = 0" by (simp add: raw white_len_def white_runes_def)
  then show "\<exists>w ws. Fields raw = (CHR 0xE7 # w) # ws" using Fields_first raw by blast
  have "lower_char CHR 0xE7 = CHR 0xE7" by code_simp
  then show "ToLower raw \<noteq> ''n''" "ToLower raw \<noteq> ''no''" by (simp_all add: raw ToLower_def)
  show "raw \<notin> {w_cancel, w_not, w_negative}" by (simp add: raw w_cancel_def w_not_def w_negative_def)
  show "raw \<noteq> []" by (simp add: raw)
qed

lemma head_like_confirm: "head_command (CHR 0xE7 # w) = Some cmd \<Longrightarrow> cmd = ''confirm''"
  by (auto simp: head_command_def w_cancel_def w_refuse_def w_donot_def split: if_splits)

text \<open>
  Any reply that starts with the word for confirm and has no digit, whatever else it
  says, is read as the confirmation of the latest pending action.
\<close>

theorem confirm_prefix_confirms_latest:
  assumes "prefix w_confirm (TrimSpace txt)" and "\<forall>c \<in> set txt. \<not> is_digit c"
  shows "parseConfirmCancel txt = Some (''confirm'', [])"
proof -
  let ?raw = "TrimSpace txt"
  note start = starts_like_confirm[OF assms(1)]
  obtain w ws where f: "Fields ?raw = (CHR 0xE7 # w) # ws" using start(1) by blast
  have nd: "set t \<subseteq> set ?raw \<Longrightarrow> reply_digits t = []" for t
    using reply_digits_none[OF assms(2)] TrimSpace_set[of "txt"] by blast
  have trim: "set (TrimSpace (TrimSpace (TrimPrefix ?raw w_confirm))) \<subseteq> set ?raw"
    using TrimSpace_set TrimPrefix_suffix[THEN set_mono_suffix] by blast
  have word: "set (TrimSpace v) \<subseteq> set ?raw" if "v \<in> set ws" for v
    using that f Fields_set[of v ?raw] TrimSpace_set[of v] by auto
  show ?thesis
  proof (cases "head_command (CHR 0xE7 # w)")
    case None
    then show ?thesis
      using start(2-5) assms(1) nd[OF trim] by (simp add: parseConfirmCancel_def Let_def f)
  next
    case (Some cmd)
    then show ?thesis
      using start(2-5) head_like_confirm[OF Some] nd[of ?raw] nd[OF word]
      by (cases ws) (simp_all add: parseConfirmCancel_def Let_def f)
  qed
qed

theorem confirm_prefix_confirms_latest_witness:
  "parseConfirmCancel (w_confirm @ '' that this is safe first'') = Some (''confirm'', [])"
proof (rule confirm_prefix_confirms_latest)
  show "prefix w_confirm (TrimSpace (w_confirm @ '' that this is safe first''))" by code_simp
  show "\<forall>c \<in> set (w_confirm @ '' that this is safe first''). \<not> is_digit c" by code_simp
qed

end
