(* ===== verification/Owl_Skills.thy ===== *)
theory Owl_Skills
  imports Owl_Safety
begin

text \<open>
  \<open>internal/skills\<close>: skills, their registry and loader, and the engine that runs them
  (\<open>skill.go\<close>, \<open>loader.go\<close>, \<open>executor.go\<close>, \<open>manager.go\<close>). A value of a skill is a JSON value:
  \<open>JInt\<close> is Go's int, which YAML gives, and \<open>JReal\<close> a float64, which JSON gives. What lies outside
  is in \<open>skill_services\<close>: package text/template, \<open>%v\<close> of a composite value, the text
  \<open>fmt.Errorf\<close> makes of a format without arguments, the order in which a map is visited, the clock,
  whether the caller has cancelled, and the programs, which get their argument list and directory
  and return output and, if they fail, an error text. A skill may run another, without end; the
  number of nested runs allowed is an argument, and \<open>None\<close> is a run that needs more.
\<close>

subsection \<open>Skills\<close>

record skill_parameter =
  sp_Name :: string
  sp_Type :: string
  sp_Description :: string
  sp_Required :: bool
  sp_Default :: json

record skill_step =
  ss_Name :: string
  ss_Tool :: string
  ss_Action :: string
  ss_Args :: args
  ss_Condition :: string
  ss_OnError :: string
  ss_Retries :: int

record skill =
  sl_Name :: string
  sl_Description :: string
  sl_Version :: string
  sl_Author :: string
  sl_Tags :: "string list"
  sl_Parameters :: "skill_parameter list"
  sl_Steps :: "skill_step list"
  sl_Timeout :: duration
  sl_NeedConfirm :: bool

record step_result =
  sr_StepName :: string
  sr_Tool :: string
  sr_Success :: bool
  sr_Output :: string
  sr_Error :: string
  sr_Duration :: duration

record skill_result =
  kr_SkillName :: string
  kr_Success :: bool
  kr_Steps :: "step_result list"
  kr_StartTime :: gotime
  kr_EndTime :: gotime
  kr_Error :: string

subsection \<open>The registry\<close>

type_synonym skill_registry = "string \<rightharpoonup> skill"

definition NewSkillRegistry :: skill_registry where "NewSkillRegistry = Map.empty"

definition skill_Register :: "skill \<Rightarrow> skill_registry \<Rightarrow> skill_registry" where
  "skill_Register s r = r(sl_Name s \<mapsto> s)"

definition skill_Get :: "skill_registry \<Rightarrow> string \<Rightarrow> skill option" where
  "skill_Get r name = r name"

definition skill_List :: "string list \<Rightarrow> skill_registry \<Rightarrow> skill list" where
  "skill_List ks r = range_values r ks"

definition skill_ListByTag :: "string list \<Rightarrow> string \<Rightarrow> skill_registry \<Rightarrow> skill list" where
  "skill_ListByTag ks tag r = filter (\<lambda>s. tag \<in> set (sl_Tags s)) (range_values r ks)"

definition skill_Unregister :: "string \<Rightarrow> skill_registry \<Rightarrow> skill_registry" where
  "skill_Unregister name r = r(name := None)"

definition skill_Count :: "skill_registry \<Rightarrow> nat" where
  "skill_Count r = card (dom r)"

subsection \<open>The loader\<close>

text \<open>
  A directory is \<open>None\<close> if it does not exist, \<open>Some (Inl e)\<close> if it cannot be read, and otherwise its
  entries in order: name, whether it is a directory, and the skill its YAML text denotes or the error
  of reading or parsing it.
\<close>

type_synonym skill_file = "string + skill"
type_synonym skill_dir = "(string + (string \<times> bool \<times> skill_file) list) option"

definition valid_tools :: "string list" where
  "valid_tools = [''docker'', ''local_shell'', ''remote_shell'', ''skill'']"

definition quote :: "string \<Rightarrow> string" where
  "quote s = [CHR 0x22] @ s @ [CHR 0x22]"

fun validate_steps :: "nat \<Rightarrow> skill_step list \<Rightarrow> string option" where
  "validate_steps i [] = None"
| "validate_steps i (step # steps) =
     (if ss_Tool step = [] then Some (''step '' @ show_nat (Suc i) @ '': tool is required'')
      else if ss_Tool step \<notin> set valid_tools
      then Some (''step '' @ show_nat (Suc i) @ '': invalid tool '' @ quote (ss_Tool step))
      else validate_steps (Suc i) steps)"

definition skill_validate :: "skill \<Rightarrow> string option" where
  "skill_validate s =
     (if sl_Name s = [] then Some ''skill name is required''
      else if sl_Steps s = [] then Some ''skill must have at least one step''
      else validate_steps 0 (sl_Steps s))"

definition LoadFile :: "skill_file \<Rightarrow> string + skill" where
  "LoadFile f =
     (case f of
        Inl e \<Rightarrow> Inl e
      | Inr s \<Rightarrow> (case skill_validate s of Some e \<Rightarrow> Inl (''validate skill: '' @ e) | None \<Rightarrow> Inr s))"

fun loadFromDir :: "string \<Rightarrow> (string \<times> bool \<times> skill_file) list \<Rightarrow> string + skill list" where
  "loadFromDir dir [] = Inr []"
| "loadFromDir dir ((name, isDir, f) # entries) =
     (if isDir \<or> \<not> HasSuffix name ''.yaml'' \<and> \<not> HasSuffix name ''.yml'' then loadFromDir dir entries
      else case LoadFile f of
        Inl e \<Rightarrow> Inl (''load skill '' @ dir @ ''/'' @ name @ '': '' @ e)
      | Inr s \<Rightarrow> (case loadFromDir dir entries of Inl e \<Rightarrow> Inl e | Inr ss \<Rightarrow> Inr (s # ss)))"

fun LoadAll :: "(string \<Rightarrow> skill_dir) \<Rightarrow> string list \<Rightarrow> string + skill list" where
  "LoadAll fs [] = Inr []"
| "LoadAll fs (dir # dirs) =
     (case fs dir of
        None \<Rightarrow> LoadAll fs dirs
      | Some entries \<Rightarrow>
          (case (case entries of Inl e \<Rightarrow> Inl e | Inr es \<Rightarrow> loadFromDir dir es) of
             Inl e \<Rightarrow> Inl (''load skills from '' @ dir @ '': '' @ e)
           | Inr ss \<Rightarrow> (case LoadAll fs dirs of Inl e \<Rightarrow> Inl e | Inr ss' \<Rightarrow> Inr (ss @ ss'))))"

definition loader_Reload :: "(string \<Rightarrow> skill_dir) \<Rightarrow> string list \<Rightarrow> skill_registry \<Rightarrow> string + skill_registry" where
  "loader_Reload fs dirs r =
     (case LoadAll fs dirs of Inl e \<Rightarrow> Inl e | Inr ss \<Rightarrow> Inr (fold skill_Register ss r))"

subsection \<open>Parameters\<close>

definition Atoi :: "string \<Rightarrow> int option" where
  "Atoi s =
     (let (neg, ds) = (case s of [] \<Rightarrow> (False, []) | c # cs \<Rightarrow>
                         if c = CHR ''-'' then (True, cs) else if c = CHR ''+'' then (False, cs) else (False, s));
          v = int (digits_val ds)
      in if ds = [] \<or> list_ex (\<lambda>c. \<not> is_digit c) ds then None
         else if neg then (if - v < min_int64 then None else Some (- v))
         else if v > max_int64 then None else Some v)"

definition Atoi_error :: "string \<Rightarrow> string" where
  "Atoi_error s =
     (let ds = (case s of [] \<Rightarrow> [] | c # cs \<Rightarrow> if c \<in> {CHR ''-'', CHR ''+''} then cs else s)
      in ''strconv.Atoi: parsing '' @ quote s @
         (if ds = [] \<or> list_ex (\<lambda>c. \<not> is_digit c) ds then '': invalid syntax'' else '': value out of range''))"

definition ParseBool :: "string \<Rightarrow> bool option" where
  "ParseBool s =
     (if s \<in> {''1'', ''t'', ''T'', ''TRUE'', ''true'', ''True''} then Some True
      else if s \<in> {''0'', ''f'', ''F'', ''FALSE'', ''false'', ''False''} then Some False else None)"

definition type_name :: "json \<Rightarrow> string" where
  "type_name v =
     (case v of JNull \<Rightarrow> ''<nil>'' | JBool _ \<Rightarrow> ''bool'' | JInt _ \<Rightarrow> ''int'' | JReal _ \<Rightarrow> ''float64''
      | JStr _ \<Rightarrow> ''string'' | JTime _ \<Rightarrow> ''string'' | JArr _ \<Rightarrow> ''[]interface {}''
      | JObj _ \<Rightarrow> ''map[string]interface {}'')"

definition truncate_real :: "real \<Rightarrow> int" where
  "truncate_real r = (if 0 \<le> r then \<lfloor>r\<rfloor> else - \<lfloor>- r\<rfloor>)"

text \<open>\<open>%v\<close>: strings, integers and truth values as Go prints them, the rest by \<open>fmt\<close>.\<close>

definition Sprint :: "(json \<Rightarrow> string) \<Rightarrow> json \<Rightarrow> string" where
  "Sprint fmt v =
     (case v of JStr s \<Rightarrow> s | JInt i \<Rightarrow> show_int i | JBool b \<Rightarrow> (if b then ''true'' else ''false'')
      | JNull \<Rightarrow> ''<nil>'' | _ \<Rightarrow> fmt v)"

definition convertType :: "(json \<Rightarrow> string) \<Rightarrow> json \<Rightarrow> string \<Rightarrow> string + json" where
  "convertType fmt v target =
     (if v = JNull then Inr JNull
      else if target = ''string'' then Inr (JStr (Sprint fmt v))
      else if target = ''int''
      then (case v of
              JInt i \<Rightarrow> Inr (JInt i)
            | JReal r \<Rightarrow> Inr (JInt (truncate_real r))
            | JStr s \<Rightarrow> (case Atoi s of Some i \<Rightarrow> Inr (JInt i)
                        | None \<Rightarrow> Inl (Atoi_error s))
            | _ \<Rightarrow> Inl (''cannot convert '' @ type_name v @ '' to int''))
      else if target = ''bool''
      then (case v of
              JBool b \<Rightarrow> Inr (JBool b)
            | JStr s \<Rightarrow> (case ParseBool s of Some b \<Rightarrow> Inr (JBool b)
                        | None \<Rightarrow> Inl (''strconv.ParseBool: parsing '' @ quote s @ '': invalid syntax''))
            | _ \<Rightarrow> Inl (''cannot convert '' @ type_name v @ '' to bool''))
      else Inr v)"

definition missing :: "string \<Rightarrow> string" where
  "missing name = ''required parameter '' @ quote name @ '' not provided''"

text \<open>The variables set so far, and the error that stops.\<close>

fun init_declared :: "(json \<Rightarrow> string) \<Rightarrow> args \<Rightarrow> skill_parameter list \<Rightarrow> args \<Rightarrow> args \<times> string option" where
  "init_declared fmt params [] vars = (vars, None)"
| "init_declared fmt params (p # ps) vars =
     (if params (sp_Name p) = None \<and> sp_Required p \<and> sp_Default p = JNull
      then (vars, Some (missing (sp_Name p)))
      else
        let v = (case params (sp_Name p) of Some v \<Rightarrow> v | None \<Rightarrow> sp_Default p) in
        case convertType fmt v (sp_Type p) of
          Inl e \<Rightarrow> (vars, Some (''parameter '' @ quote (sp_Name p) @ '': '' @ e))
        | Inr c \<Rightarrow> init_declared fmt params ps (vars(sp_Name p \<mapsto> c)))"

text \<open>Declared parameters first, then every further one the caller gives.\<close>

definition initParameters :: "(json \<Rightarrow> string) \<Rightarrow> skill \<Rightarrow> args \<Rightarrow> args \<times> string option" where
  "initParameters fmt s params =
     (case init_declared fmt params (sl_Parameters s) Map.empty of
        (vars, Some e) \<Rightarrow> (vars, Some e)
      | (vars, None) \<Rightarrow> (params ++ vars, None))"

fun validate_params :: "skill_parameter list \<Rightarrow> args \<Rightarrow> string option" where
  "validate_params [] params = None"
| "validate_params (p # ps) params =
     (if sp_Required p \<and> params (sp_Name p) = None \<and> sp_Default p = JNull then Some (missing (sp_Name p))
      else validate_params ps params)"

definition ValidateParams :: "skill \<Rightarrow> args \<Rightarrow> string option" where
  "ValidateParams s params = validate_params (sl_Parameters s) params"

subsection \<open>Conditions\<close>

abbreviation quotes :: "char set" where "quotes \<equiv> {CHR 0x22, CHR 0x27}"

text \<open>The truth of a condition once its template is filled in.\<close>

definition condition_truth :: "string \<Rightarrow> bool" where
  "condition_truth rendered0 =
     (let rendered = TrimSpace rendered0 in
      case Cut rendered ''=='' of
        Some (l, r) \<Rightarrow> TrimSpace l = TrimSpace (TrimCut quotes r)
      | None \<Rightarrow>
          (case Cut rendered ''!='' of
             Some (l, r) \<Rightarrow> TrimSpace l \<noteq> TrimSpace (TrimCut quotes r)
           | None \<Rightarrow>
               if rendered = ''true'' \<or> rendered = ''1'' then True
               else if rendered = ''false'' \<or> rendered = ''0'' \<or> rendered = [] then False
               else rendered \<noteq> []))"

end
