(* ===== verification/Owl_SkillRun.thy ===== *)
theory Owl_SkillRun
  imports Owl_Skills
begin

text \<open>
  \<open>internal/skills/executor.go\<close> and \<open>manager.go\<close>: a run of a skill. The variables and step outputs
  belong to the engine, not to the run: a nested skill replaces them.
\<close>

subsection \<open>Surroundings and state\<close>

record 'w skill_services =
  sx_template :: "string \<Rightarrow> args \<Rightarrow> (string \<rightharpoonup> string) \<Rightarrow> string + string"
  sx_fmt :: "json \<Rightarrow> string"
  sx_errorf :: "string \<Rightarrow> string"
  sx_order :: "args \<Rightarrow> string list"
  sx_clock :: "'w \<Rightarrow> gotime"
  sx_cancelled :: "'w \<Rightarrow> string option"
  sx_sleep :: "duration \<Rightarrow> 'w \<Rightarrow> 'w"
  sx_run :: "string list \<Rightarrow> string \<Rightarrow> 'w \<Rightarrow> 'w \<times> string \<times> string \<times> string option"

record 'w skill_state =
  kx_variables :: args
  kx_outputs :: "string \<rightharpoonup> string"
  kx_machine :: "'w machine"

abbreviation kx_world :: "'w skill_state \<Rightarrow> 'w" where
  "kx_world st \<equiv> ma_world (kx_machine st)"

definition NewExecutor :: "'w machine \<Rightarrow> 'w skill_state" where
  "NewExecutor m = \<lparr>kx_variables = Map.empty, kx_outputs = Map.empty, kx_machine = m\<rparr>"

definition SetVariable :: "string \<Rightarrow> json \<Rightarrow> 'w skill_state \<Rightarrow> 'w skill_state" where
  "SetVariable name v st = st\<lparr>kx_variables := (kx_variables st)(name \<mapsto> v)\<rparr>"

definition GetVariable :: "string \<Rightarrow> 'w skill_state \<Rightarrow> json option" where
  "GetVariable name st = kx_variables st name"

definition GetStepOutput :: "string \<Rightarrow> 'w skill_state \<Rightarrow> string option" where
  "GetStepOutput name st = kx_outputs st name"

text \<open>A context: the caller's cancellation and a deadline.\<close>

definition ctx_err :: "'w skill_services \<Rightarrow> gotime option \<Rightarrow> 'w skill_state \<Rightarrow> string option" where
  "ctx_err sx deadline st =
     (case sx_cancelled sx (kx_world st) of
        Some e \<Rightarrow> Some e
      | None \<Rightarrow> (case deadline of
                   None \<Rightarrow> None
                 | Some d \<Rightarrow> if d \<le> sx_clock sx (kx_world st) then Some ''context deadline exceeded'' else None))"

subsection \<open>Templates\<close>

definition renderTemplate :: "'w skill_services \<Rightarrow> 'w skill_state \<Rightarrow> string \<Rightarrow> string + string" where
  "renderTemplate sx st txt = sx_template sx txt (kx_variables st) (kx_outputs st)"

definition evaluateCondition :: "'w skill_services \<Rightarrow> 'w skill_state \<Rightarrow> string \<Rightarrow> string + bool" where
  "evaluateCondition sx st condition =
     (case renderTemplate sx st condition of Inl e \<Rightarrow> Inl e | Inr r \<Rightarrow> Inr (condition_truth r))"

fun render_keys :: "'w skill_services \<Rightarrow> 'w skill_state \<Rightarrow> args \<Rightarrow> string list \<Rightarrow> args \<Rightarrow> string + args" where
  "render_keys sx st a [] done = Inr done"
| "render_keys sx st a (k # ks) done =
     (case a k of
        Some (JStr s) \<Rightarrow>
          (case renderTemplate sx st s of
             Inl e \<Rightarrow> Inl (''render '' @ quote k @ '': '' @ e)
           | Inr r \<Rightarrow> render_keys sx st a ks (done(k \<mapsto> JStr r)))
      | v \<Rightarrow> render_keys sx st a ks (done(k := v)))"

definition processArgs :: "'w skill_services \<Rightarrow> 'w skill_state \<Rightarrow> args \<Rightarrow> string + args" where
  "processArgs sx st a = render_keys sx st a (sx_order sx a) Map.empty"

subsection \<open>The tools of a step\<close>

definition failed_step :: "string \<Rightarrow> step_result" where
  "failed_step e = \<lparr>sr_StepName = [], sr_Tool = [], sr_Success = False, sr_Output = [], sr_Error = e, sr_Duration = 0\<rparr>"

definition run_program ::
  "'w skill_services \<Rightarrow> string list \<Rightarrow> string \<Rightarrow> 'w skill_state \<Rightarrow> 'w skill_state \<times> step_result" where
  "run_program sx argv dir st =
     (let (w, out, err, e) = sx_run sx argv dir (kx_world st) in
      (st\<lparr>kx_machine := \<lparr>ma_world = w, ma_log = ma_log (kx_machine st) @ [argv]\<rparr>\<rparr>,
       \<lparr>sr_StepName = [], sr_Tool = [], sr_Success = (e = None), sr_Output = out,
        sr_Error = (case e of None \<Rightarrow> [] | Some t \<Rightarrow> t @ '': '' @ err), sr_Duration = 0\<rparr>))"

definition required :: "string \<Rightarrow> string" where
  "required name = name @ '' argument is required''"

definition executeLocalShell :: "'w skill_services \<Rightarrow> args \<Rightarrow> 'w skill_state \<Rightarrow> 'w skill_state \<times> step_result" where
  "executeLocalShell sx a st =
     (case arg_string ''command'' a of
        None \<Rightarrow> (st, failed_step (required ''command''))
      | Some command \<Rightarrow> run_program sx [''sh'', ''-c'', command] (arg_or_empty ''workdir'' a) st)"

definition arg_int :: "string \<Rightarrow> args \<Rightarrow> int option" where
  "arg_int k a = (case a k of Some (JInt i) \<Rightarrow> Some i | _ \<Rightarrow> None)"

definition executeRemoteShell :: "'w skill_services \<Rightarrow> args \<Rightarrow> 'w skill_state \<Rightarrow> 'w skill_state \<times> step_result" where
  "executeRemoteShell sx a st =
     (case arg_string ''host'' a of
        None \<Rightarrow> (st, failed_step (required ''host''))
      | Some host \<Rightarrow>
        (case arg_string ''command'' a of
           None \<Rightarrow> (st, failed_step (required ''command''))
         | Some command \<Rightarrow>
             let a0 = (case arg_string ''user'' a of None \<Rightarrow> [host] | Some user \<Rightarrow> [''-l'', user, host]);
                 a1 = (case arg_int ''port'' a of None \<Rightarrow> a0 | Some port \<Rightarrow> [''-p'', show_int port] @ a0);
                 a2 = (case arg_string ''key'' a of None \<Rightarrow> a1 | Some key \<Rightarrow> [''-i'', key] @ a1)
             in run_program sx (''ssh'' # a2 @ [command]) [] st))"

definition need :: "string \<Rightarrow> args \<Rightarrow> (string \<Rightarrow> string + string list) \<Rightarrow> string + string list" where
  "need k a f = (case arg_string k a of None \<Rightarrow> Inl (required k) | Some v \<Rightarrow> f v)"

definition docker_env :: "(json \<Rightarrow> string) \<Rightarrow> args \<Rightarrow> string list" where
  "docker_env fmt a =
     (case a ''env'' of
        Some (JObj kvs) \<Rightarrow> concat (map (\<lambda>(k, v). [''-e'', k @ ''='' @ Sprint fmt v]) kvs)
      | _ \<Rightarrow> [])"

definition docker_volumes :: "(json \<Rightarrow> string) \<Rightarrow> args \<Rightarrow> string list" where
  "docker_volumes fmt a =
     (case a ''volumes'' of Some (JArr vs) \<Rightarrow> concat (map (\<lambda>v. [''-v'', Sprint fmt v]) vs) | _ \<Rightarrow> [])"

definition docker_args :: "(json \<Rightarrow> string) \<Rightarrow> string \<Rightarrow> args \<Rightarrow> string + string list" where
  "docker_args fmt action a =
     (if action = ''exec''
      then need ''container'' a (\<lambda>c. need ''command'' a (\<lambda>cmd. Inr [''exec'', c, ''sh'', ''-c'', cmd]))
      else if action = ''run''
      then need ''image'' a (\<lambda>image. Inr ([''run'', ''--rm''] @ docker_env fmt a @ docker_volumes fmt a @ [image] @
             (case arg_string ''command'' a of None \<Rightarrow> [] | Some cmd \<Rightarrow> [''sh'', ''-c'', cmd])))
      else if action \<in> {''restart'', ''stop'', ''start''} then need ''container'' a (\<lambda>c. Inr [action, c])
      else if action = ''logs''
      then need ''container'' a (\<lambda>c. Inr ([''logs''] @
             (case arg_int ''tail'' a of None \<Rightarrow> [] | Some n \<Rightarrow> [''--tail'', show_int n]) @ [c]))
      else if action = ''ps''
      then Inr ([''ps''] @ (if a ''all'' = Some (JBool True) then [''-a''] else []) @
             (case arg_string ''filter'' a of None \<Rightarrow> [] | Some f \<Rightarrow> [''-f'', f]))
      else if action = ''inspect''
      then need ''target'' a (\<lambda>t. Inr ([''inspect'', t] @
             (case arg_string ''format'' a of None \<Rightarrow> [] | Some f \<Rightarrow> [''-f'', f])))
      else Inl (''unknown docker action: '' @ action))"

definition executeDocker ::
  "'w skill_services \<Rightarrow> string \<Rightarrow> args \<Rightarrow> 'w skill_state \<Rightarrow> 'w skill_state \<times> step_result" where
  "executeDocker sx action a st =
     (case docker_args (sx_fmt sx) action a of
        Inl e \<Rightarrow> (st, failed_step e)
      | Inr cmdArgs \<Rightarrow> run_program sx (''docker'' # cmdArgs) [] st)"

text \<open>
  A run of a skill by name: \<open>Inl\<close> is the error that it does not exist, \<open>Inr\<close> the result and the
  error that comes with it.
\<close>

type_synonym 'w nested =
  "gotime option \<Rightarrow> string \<Rightarrow> args \<Rightarrow> 'w skill_state \<Rightarrow>
   ('w skill_state \<times> (string + skill_result \<times> string option)) option"

definition nested_params :: "args \<Rightarrow> args" where
  "nested_params a = (case a ''params'' of Some (JObj kvs) \<Rightarrow> map_of (rev kvs) | _ \<Rightarrow> Map.empty)"

definition nested_result :: "string + skill_result \<times> string option \<Rightarrow> step_result" where
  "nested_result r =
     (case r of
        Inl e \<Rightarrow> failed_step e
      | Inr (res, Some e) \<Rightarrow> failed_step e
      | Inr (res, None) \<Rightarrow>
          \<lparr>sr_StepName = [], sr_Tool = [], sr_Success = kr_Success res,
           sr_Output = Join [CHR 0x0A] (filter (\<lambda>s. s \<noteq> []) (map sr_Output (kr_Steps res))),
           sr_Error = (if kr_Success res then [] else kr_Error res), sr_Duration = 0\<rparr>)"

definition executeNestedSkill ::
  "'w nested \<Rightarrow> gotime option \<Rightarrow> args \<Rightarrow> 'w skill_state \<Rightarrow> ('w skill_state \<times> step_result) option" where
  "executeNestedSkill nested deadline a st =
     (case arg_string ''name'' a of
        None \<Rightarrow> Some (st, failed_step (required ''skill name''))
      | Some name \<Rightarrow>
          map_option (\<lambda>(st', r). (st', nested_result r)) (nested deadline name (nested_params a) st))"

subsection \<open>A step\<close>

definition skipped :: string where "skipped = ''skipped: condition not met''"

definition run_step_tool ::
  "'w skill_services \<Rightarrow> 'w nested \<Rightarrow> gotime option \<Rightarrow> skill_step \<Rightarrow> args \<Rightarrow> 'w skill_state \<Rightarrow>
   ('w skill_state \<times> step_result) option" where
  "run_step_tool sx nested deadline step a st =
     (if ss_Tool step = ''local_shell'' then Some (executeLocalShell sx a st)
      else if ss_Tool step = ''remote_shell'' then Some (executeRemoteShell sx a st)
      else if ss_Tool step = ''docker'' then Some (executeDocker sx (ss_Action step) a st)
      else if ss_Tool step = ''skill'' then executeNestedSkill nested deadline a st
      else Some (st, failed_step (''unknown tool: '' @ ss_Tool step)))"

definition named :: "'w skill_services \<Rightarrow> skill_step \<Rightarrow> gotime \<Rightarrow> 'w skill_state \<times> step_result \<Rightarrow>
    'w skill_state \<times> step_result" where
  "named sx step began = (\<lambda>(st, r).
     (st, r\<lparr>sr_StepName := ss_Name step, sr_Tool := ss_Tool step,
            sr_Duration := time_sub (sx_clock sx (kx_world st)) began\<rparr>))"

definition executeStep ::
  "'w skill_services \<Rightarrow> 'w nested \<Rightarrow> gotime option \<Rightarrow> skill_step \<Rightarrow> 'w skill_state \<Rightarrow>
   ('w skill_state \<times> step_result) option" where
  "executeStep sx nested deadline step st =
     (let began = sx_clock sx (kx_world st);
          early = (\<lambda>r. Some (named sx step began (st, r)));
          body = (case processArgs sx st (ss_Args step) of
                    Inl e \<Rightarrow> early (failed_step (''process args failed: '' @ e))
                  | Inr a \<Rightarrow> map_option (named sx step began) (run_step_tool sx nested deadline step a st))
      in if ss_Condition step = [] then body
         else case evaluateCondition sx st (ss_Condition step) of
           Inl e \<Rightarrow> early (failed_step (''condition evaluation failed: '' @ e))
         | Inr False \<Rightarrow> early ((failed_step [])\<lparr>sr_Success := True, sr_Output := skipped\<rparr>)
         | Inr True \<Rightarrow> body)"

subsection \<open>The steps of a skill\<close>

definition keep_output :: "skill_step \<Rightarrow> step_result \<Rightarrow> 'w skill_state \<Rightarrow> 'w skill_state" where
  "keep_output step r st =
     (if ss_Name step = [] then st else st\<lparr>kx_outputs := (kx_outputs st)(ss_Name step \<mapsto> sr_Output r)\<rparr>)"

definition sleep_for :: "'w skill_services \<Rightarrow> duration \<Rightarrow> 'w skill_state \<Rightarrow> 'w skill_state" where
  "sleep_for sx d st = st\<lparr>kx_machine := (kx_machine st)\<lparr>ma_world := sx_sleep sx d (kx_world st)\<rparr>\<rparr>"

text \<open>\<open>n\<close> attempts are left, \<open>r\<close> were made; the first that succeeds ends the loop.\<close>

fun retry_step ::
  "'w skill_services \<Rightarrow> 'w nested \<Rightarrow> gotime option \<Rightarrow> skill_step \<Rightarrow> nat \<Rightarrow> nat \<Rightarrow> 'w skill_state \<Rightarrow>
   ('w skill_state \<times> step_result option) option" where
  "retry_step sx nested deadline step 0 r st = Some (st, None)"
| "retry_step sx nested deadline step (Suc n) r st =
     (case executeStep sx nested deadline step (sleep_for sx (Second * int (r + 1)) st) of
        None \<Rightarrow> None
      | Some (st1, res) \<Rightarrow>
          if sr_Success res then Some (st1, Some res) else retry_step sx nested deadline step n (Suc r) st1)"

text \<open>The failure that ends a skill: the error of its result and the error returned.\<close>

type_synonym skill_failure = "(string \<times> string) option"

fun run_steps ::
  "'w skill_services \<Rightarrow> 'w nested \<Rightarrow> gotime option \<Rightarrow> nat \<Rightarrow> skill_step list \<Rightarrow> step_result list \<Rightarrow>
   'w skill_state \<Rightarrow> ('w skill_state \<times> step_result list \<times> skill_failure) option" where
  "run_steps sx nested deadline i [] acc st = Some (st, acc, None)"
| "run_steps sx nested deadline i (step # steps) acc st =
     (case ctx_err sx deadline st of
        Some e \<Rightarrow> Some (st, acc, Some (''execution timeout or cancelled'', e))
      | None \<Rightarrow>
        (case executeStep sx nested deadline step st of
           None \<Rightarrow> None
         | Some (st1, res) \<Rightarrow>
             let st2 = keep_output step res st1 in
             if sr_Success res \<or> ss_OnError step = ''continue''
             then run_steps sx nested deadline (Suc i) steps (acc @ [res]) st2
             else if ss_OnError step = ''retry''
             then (case retry_step sx nested deadline step (nat (ss_Retries step)) 0 st2 of
                     None \<Rightarrow> None
                   | Some (st3, Some res') \<Rightarrow>
                       run_steps sx nested deadline (Suc i) steps (acc @ [res']) (keep_output step res' st3)
                   | Some (st3, None) \<Rightarrow>
                       let e = ''step '' @ show_nat (Suc i) @ '' failed after '' @ show_int (ss_Retries step) @
                               '' retries: '' @ sr_Error res
                       in Some (st3, acc @ [res], Some (e, sx_errorf sx e)))
             else
               let e = ''step '' @ show_nat (Suc i) @ '' failed: '' @ sr_Error res
               in Some (st2, acc @ [res], Some (e, sx_errorf sx e))))"

definition skill_deadline :: "gotime \<Rightarrow> duration \<Rightarrow> gotime option \<Rightarrow> gotime option" where
  "skill_deadline now timeout deadline =
     (if timeout > 0
      then Some (case deadline of None \<Rightarrow> now + timeout | Some d \<Rightarrow> min d (now + timeout)) else deadline)"

definition ExecuteSkill ::
  "'w skill_services \<Rightarrow> 'w nested \<Rightarrow> gotime option \<Rightarrow> skill \<Rightarrow> args \<Rightarrow> 'w skill_state \<Rightarrow>
   ('w skill_state \<times> skill_result \<times> string option) option" where
  "ExecuteSkill sx nested deadline0 s params st =
     (let began = sx_clock sx (kx_world st);
          deadline = skill_deadline began (sl_Timeout s) deadline0;
          st0 = st\<lparr>kx_variables := Map.empty, kx_outputs := Map.empty\<rparr>;
          finish = (\<lambda>st' steps ok e. \<lparr>kr_SkillName = sl_Name s, kr_Success = ok, kr_Steps = steps,
                      kr_StartTime = began, kr_EndTime = sx_clock sx (kx_world st'), kr_Error = e\<rparr>)
      in case initParameters (sx_fmt sx) s params of
           (vars, Some e) \<Rightarrow>
             let st1 = st0\<lparr>kx_variables := vars\<rparr> in Some (st1, finish st1 [] False e, Some e)
         | (vars, None) \<Rightarrow>
             map_option (\<lambda>(st', steps, failure).
                 case failure of
                   None \<Rightarrow> (st', finish st' steps True [], None)
                 | Some (e, err) \<Rightarrow> (st', finish st' steps False e, Some err))
               (run_steps sx nested deadline 0 (sl_Steps s) [] (st0\<lparr>kx_variables := vars\<rparr>)))"

primrec skill_Execute :: "'w skill_services \<Rightarrow> skill_registry \<Rightarrow> nat \<Rightarrow> 'w nested" where
  "skill_Execute sx r 0 = (\<lambda>deadline name params st. None)"
| "skill_Execute sx r (Suc depth) = (\<lambda>deadline name params st.
     case skill_Get r name of
       None \<Rightarrow> Some (st, Inl (''skill not found: '' @ name))
     | Some s \<Rightarrow> map_option (map_prod id Inr) (ExecuteSkill sx (skill_Execute sx r depth) deadline s params st))"

subsection \<open>The manager\<close>

definition ExecuteWithConfirm ::
  "'w skill_services \<Rightarrow> skill_registry \<Rightarrow> nat \<Rightarrow> gotime option \<Rightarrow> string \<Rightarrow> args \<Rightarrow> (skill \<Rightarrow> bool) option \<Rightarrow>
   'w skill_state \<Rightarrow> ('w skill_state \<times> (string + skill_result \<times> string option)) option" where
  "ExecuteWithConfirm sx r depth deadline name params confirmFn st =
     (case skill_Get r name of
        None \<Rightarrow> Some (st, Inl (''skill not found: '' @ name))
      | Some s \<Rightarrow>
          if sl_NeedConfirm s \<and> (case confirmFn of None \<Rightarrow> False | Some f \<Rightarrow> \<not> f s)
          then Some (st, Inr (\<lparr>kr_SkillName = name, kr_Success = False, kr_Steps = [], kr_StartTime = zero_time,
                              kr_EndTime = zero_time, kr_Error = ''execution cancelled by user''\<rparr>, None))
          else map_option (map_prod id Inr) (ExecuteSkill sx (skill_Execute sx r depth) deadline s params st))"

definition manager_ValidateParams :: "skill_registry \<Rightarrow> string \<Rightarrow> args \<Rightarrow> string option" where
  "manager_ValidateParams r name params =
     (case skill_Get r name of None \<Rightarrow> Some (''skill not found: '' @ name) | Some s \<Rightarrow> ValidateParams s params)"

definition LoadSkillFile :: "skill_file \<Rightarrow> skill_registry \<Rightarrow> string + skill_registry" where
  "LoadSkillFile f r = (case LoadFile f of Inl e \<Rightarrow> Inl e | Inr s \<Rightarrow> Inr (skill_Register s r))"

text \<open>The registry is emptied before the directories are read: after an error it stays empty.\<close>

definition manager_Reload :: "(string \<Rightarrow> skill_dir) \<Rightarrow> string list \<Rightarrow> skill_registry \<times> string option" where
  "manager_Reload fs dirs =
     (case loader_Reload fs dirs NewSkillRegistry of Inl e \<Rightarrow> (NewSkillRegistry, Some e) | Inr r \<Rightarrow> (r, None))"

record skill_info =
  si_Name :: string
  si_Description :: string
  si_Version :: string
  si_Tags :: "string list"
  si_NeedConfirm :: bool
  si_StepCount :: nat
  si_ParamCount :: nat

definition info_of :: "skill \<Rightarrow> skill_info" where
  "info_of s = \<lparr>si_Name = sl_Name s, si_Description = sl_Description s, si_Version = sl_Version s,
     si_Tags = sl_Tags s, si_NeedConfirm = sl_NeedConfirm s, si_StepCount = length (sl_Steps s),
     si_ParamCount = length (sl_Parameters s)\<rparr>"

definition GetSkillInfo :: "skill_registry \<Rightarrow> string \<Rightarrow> skill_info option" where
  "GetSkillInfo r name = map_option info_of (skill_Get r name)"

definition ListSkillInfos :: "string list \<Rightarrow> skill_registry \<Rightarrow> skill_info list" where
  "ListSkillInfos ks r = map info_of (skill_List ks r)"

end
