(* ===== verification/Owl_SkillProps.thy ===== *)
theory Owl_SkillProps
  imports Owl_SkillRun Owl_Interfaces
begin

text \<open>
  Skills: the registry is a keyed store, which skills a reload leaves, what the declared types of
  parameters guarantee, what a successful run has done, when a run ends, and what conditions,
  nested runs and confirmations do that their authors would not expect.
\<close>

subsection \<open>The registry\<close>

interpretation skills: keyed_store_delete skill_Get skill_Register sl_Name skill_Unregister
  by unfold_locales (auto simp: skill_Get_def skill_Register_def skill_Unregister_def)

lemma get_empty: "skill_Get NewSkillRegistry name = None"
  by (simp add: skill_Get_def NewSkillRegistry_def)

lemma LoadFile_valid: "LoadFile f = Inr s \<Longrightarrow> skill_validate s = None"
  by (auto simp: LoadFile_def split: sum.splits option.splits)

lemma loadFromDir_valid: "loadFromDir dir entries = Inr ss \<Longrightarrow> s \<in> set ss \<Longrightarrow> skill_validate s = None"
  by (induction dir entries arbitrary: ss rule: loadFromDir.induct)
    (auto split: if_splits sum.splits dest: LoadFile_valid)

lemma LoadAll_valid: "LoadAll fs dirs = Inr ss \<Longrightarrow> s \<in> set ss \<Longrightarrow> skill_validate s = None"
  by (induction fs dirs arbitrary: ss rule: LoadAll.induct)
    (auto split: option.splits sum.splits dest: loadFromDir_valid)

text \<open>
  After a reload a name denotes the last skill of that name that the directories hold,
  and every registered skill is stored under its own name and passed validation; after an error the
  registry is empty.
\<close>

theorem reload_spec:
  "case LoadAll fs dirs of
     Inl e \<Rightarrow> manager_Reload fs dirs = (NewSkillRegistry, Some e)
   | Inr ss \<Rightarrow>
       snd (manager_Reload fs dirs) = None \<and>
       (\<forall>name. skill_Get (fst (manager_Reload fs dirs)) name = find (\<lambda>s. sl_Name s = name) (rev ss)) \<and>
       (\<forall>name s. skill_Get (fst (manager_Reload fs dirs)) name = Some s \<longrightarrow> sl_Name s = name \<and> skill_validate s = None)"
proof (cases "LoadAll fs dirs")
  case (Inl e)
  then show ?thesis by (simp add: manager_Reload_def loader_Reload_def)
next
  case (Inr ss)
  have get: "skill_Get (fold skill_Register ss NewSkillRegistry) name = find (\<lambda>s. sl_Name s = name) (rev ss)" for name
    by (simp add: skills.lookup_fold_store get_empty split: option.split)
  have ok: "sl_Name s = name \<and> skill_validate s = None"
    if "skill_Get (fold skill_Register ss NewSkillRegistry) name = Some s" for name s
  proof -
    from that have "find (\<lambda>s. sl_Name s = name) (rev ss) = Some s" by (simp only: get)
    from find_SomeD[OF this] have "s \<in> set ss" "sl_Name s = name" by simp_all
    then show ?thesis using LoadAll_valid[OF Inr] by blast
  qed
  have m: "manager_Reload fs dirs = (fold skill_Register ss NewSkillRegistry, None)"
    by (simp add: Inr manager_Reload_def loader_Reload_def)
  show ?thesis unfolding Inr m sum.case fst_conv snd_conv using get ok by blast
qed

theorem reload_spec_witness:
  "skill_Get (fst (manager_Reload (\<lambda>_. None) [''skills''])) ''backup'' = None"
  using reload_spec[of "\<lambda>_. None" "[''skills'']"] by simp

subsection \<open>Types of parameters\<close>

text \<open>What the declared type of a parameter promises of its value; an absent optional one is null.\<close>

definition has_type :: "json \<Rightarrow> string \<Rightarrow> bool" where
  "has_type v t \<longleftrightarrow> v = JNull \<or>
     (if t = ''string'' then \<exists>s. v = JStr s else if t = ''int'' then \<exists>i. v = JInt i
      else if t = ''bool'' then \<exists>b. v = JBool b else True)"

lemma convertType_type: "convertType fmt v t = Inr c \<Longrightarrow> has_type c t"
  by (auto simp: convertType_def has_type_def split: if_splits json.splits option.splits)

lemma init_declared_keeps:
  "init_declared fmt params ps vars = (vars', None) \<Longrightarrow> name \<notin> sp_Name ` set ps \<Longrightarrow> vars' name = vars name"
  by (induction fmt params ps vars rule: init_declared.induct) (auto simp: Let_def split: if_splits sum.splits)

lemma init_declared_types:
  "init_declared fmt params ps vars = (vars', None) \<Longrightarrow> distinct (map sp_Name ps) \<Longrightarrow> p \<in> set ps \<Longrightarrow>
     \<exists>v. vars' (sp_Name p) = Some v \<and> has_type v (sp_Type p) \<and>
         convertType fmt (case params (sp_Name p) of Some v \<Rightarrow> v | None \<Rightarrow> sp_Default p) (sp_Type p) = Inr v"
proof (induction ps arbitrary: vars)
  case (Cons q ps)
  obtain c where c: "convertType fmt (case params (sp_Name q) of Some v \<Rightarrow> v | None \<Rightarrow> sp_Default q) (sp_Type q) = Inr c"
    and r: "init_declared fmt params ps (vars(sp_Name q \<mapsto> c)) = (vars', None)"
    using Cons.prems(1) by (auto simp: Let_def split: if_splits sum.splits)
  show ?case
  proof (cases "p \<in> set ps")
    case True
    then show ?thesis using Cons.IH[OF r] Cons.prems(2) by simp
  next
    case False
    then have pq: "p = q" using Cons.prems(3) by simp
    have "vars' (sp_Name q) = Some c" using init_declared_keeps[OF r] Cons.prems(2) by simp
    then show ?thesis using c convertType_type[OF c] unfolding pq by blast
  qed
qed simp


definition sample_skill :: skill where
  "sample_skill = \<lparr>sl_Name = ''tail'', sl_Description = [], sl_Version = [], sl_Author = [], sl_Tags = [],
     sl_Parameters = [\<lparr>sp_Name = ''lines'', sp_Type = ''int'', sp_Description = [], sp_Required = False,
                       sp_Default = JInt 50\<rparr>],
     sl_Steps = [\<lparr>ss_Name = ''t'', ss_Tool = ''local_shell'', ss_Action = [], ss_Args = [''command'' \<mapsto> JStr ''tail''],
                  ss_Condition = [], ss_OnError = [], ss_Retries = 0\<rparr>],
     sl_Timeout = 0, sl_NeedConfirm = True\<rparr>"


subsection \<open>Conditions\<close>

text \<open>A visible ASCII character: never white space, whichever end of a string it is at.\<close>

definition plain :: "char \<Rightarrow> bool" where
  "plain c \<longleftrightarrow> 33 \<le> (of_char c :: nat) \<and> (of_char c :: nat) \<le> 126"

lemma prefix_hd: "prefix w (c # s) \<Longrightarrow> w \<noteq> [] \<Longrightarrow> hd w = c"
  by (cases w) auto

lemma white_len_plain:
  assumes "plain c"
  shows "white_len white_runes (c # s) = 0" and "white_len (map rev white_runes) (c # s) = 0"
proof -
  have "\<forall>w \<in> set white_runes. \<not> plain (hd w) \<and> \<not> plain (hd (rev w)) \<and> w \<noteq> []"
    by (simp add: white_runes_def plain_def)
  then have "hd w \<noteq> c \<and> hd (rev w) \<noteq> c \<and> w \<noteq> []" if "w \<in> set white_runes" for w
    using that assms by blast
  then have "\<not> prefix w (c # s) \<and> \<not> prefix (rev w) (c # s)" if "w \<in> set white_runes" for w
    using that prefix_hd[of w c s] prefix_hd[of "rev w" c s] by fastforce
  then show "white_len white_runes (c # s) = 0" "white_len (map rev white_runes) (c # s) = 0"
    by (simp_all add: white_len_def find_None_iff[THEN iffD2])
qed

lemma trim_left_plain: "plain c \<Longrightarrow> trim_left_of white_runes (c # s) = c # s"
  by (subst trim_left_of.simps) (simp add: white_len_plain)

lemma trim_right_plain: "plain c \<Longrightarrow> trim_left_of (map rev white_runes) (c # s) = c # s"
  by (subst trim_left_of.simps) (simp add: white_len_plain)

lemma TrimSpace_plain:
  assumes "s \<noteq> []" and "plain (hd s)" and "plain (last s)"
  shows "TrimSpace s = s"
proof -
  have l: "TrimLeftSpace s = s"
    using assms by (cases s) (simp_all add: TrimLeftSpace_def trim_left_plain)
  have "trim_left_of (map rev white_runes) (rev s) = rev s"
    using assms by (cases "rev s") (simp_all add: trim_right_plain hd_rev[symmetric])
  with l show ?thesis by (simp add: TrimSpace_def TrimRightSpace_def)
qed

lemma TrimLeftSpace_space: "TrimLeftSpace (CHR '' '' # s) = TrimLeftSpace s"
proof -
  have "white_len white_runes (CHR '' '' # s) = 1" by (simp add: white_len_def white_runes_def)
  then show ?thesis by (simp add: TrimLeftSpace_def trim_left_of.simps[of white_runes "CHR '' '' # s"])
qed

lemma TrimSpace_space: "TrimSpace (CHR '' '' # s) = TrimSpace s"
  by (simp add: TrimSpace_def TrimLeftSpace_space)

lemma TrimRightSpace_space: "TrimRightSpace (s @ '' '') = TrimRightSpace s"
proof -
  have "white_len (map rev white_runes) (CHR '' '' # rev s) = 1" by (simp add: white_len_def white_runes_def)
  then show ?thesis
    by (simp add: TrimRightSpace_def trim_left_of.simps[of "map rev white_runes" "CHR '' '' # rev s"])
qed

text \<open>A word: no white space, quotes or comparison signs.\<close>

definition word :: "string \<Rightarrow> bool" where
  "word s \<longleftrightarrow> s \<noteq> [] \<and> (\<forall>c \<in> set s. plain c \<and> c \<notin> {CHR 0x22, CHR 0x27, CHR ''='', CHR ''!''})"

lemma word_ends: "word s \<Longrightarrow> plain (hd s) \<and> plain (last s) \<and> s \<noteq> [] \<and> hd s \<notin> quotes \<and> last s \<notin> quotes"
  by (auto simp: word_def)

lemma Cut_skip: "CHR ''='' \<notin> set a \<Longrightarrow> Cut (a @ '' =='' @ r) ''=='' = Some (a @ '' '', r)"
  by (induction a) auto

lemma Cut_no_eq: "CHR ''='' \<notin> set a \<Longrightarrow> CHR ''='' \<notin> set r \<Longrightarrow> Cut (a @ '' !='' @ r) ''=='' = None"
  by (induction a) (auto simp: Cut_None Contains_sublist sublist_Cons_right prefix_def dest!: set_mono_sublist)

lemma Cut_ne: "CHR ''!'' \<notin> set a \<Longrightarrow> Cut (a @ '' !='' @ r) ''!='' = Some (a @ '' '', r)"
  by (induction a) auto

lemma TrimCut_space_word: "word w \<Longrightarrow> TrimCut quotes (CHR '' '' # w) = CHR '' '' # w"
proof -
  assume w: "word w"
  then obtain c cs where rev: "rev w = c # cs" "c \<notin> quotes"
    using word_ends[OF w] by (cases "rev w") (auto simp: hd_rev[symmetric])
  then show ?thesis by (simp add: TrimCut_def rev_swap)
qed

lemma TrimCut_space_quoted: "word w \<Longrightarrow> TrimCut quotes (CHR '' '' # quote w) = CHR '' '' # CHR 0x22 # w"
proof -
  assume w: "word w"
  then obtain c cs where rev: "rev w = c # cs" "c \<notin> quotes"
    using word_ends[OF w] by (cases "rev w") (auto simp: hd_rev[symmetric])
  then show ?thesis by (simp add: TrimCut_def quote_def rev_swap)
qed

lemma word_trim: "word w \<Longrightarrow> TrimSpace w = w"
  using TrimSpace_plain word_ends by blast

lemma word_trim_space: "word v \<Longrightarrow> TrimSpace (v @ '' '') = v"
proof -
  assume v: "word v"
  then have "TrimLeftSpace (v @ '' '') = v @ '' ''"
    using word_ends[OF v] by (cases v) (simp_all add: TrimLeftSpace_def trim_left_plain)
  then have "TrimSpace (v @ '' '') = TrimRightSpace v" by (simp add: TrimSpace_def TrimRightSpace_space)
  also have "\<dots> = TrimSpace v"
    using word_ends[OF v] by (cases v) (simp_all add: TrimSpace_def TrimLeftSpace_def trim_left_plain)
  finally show ?thesis using word_trim[OF v] by simp
qed

lemma trim_word_end: "word v \<Longrightarrow> r \<noteq> [] \<Longrightarrow> plain (last r) \<Longrightarrow> TrimSpace (v @ s @ r) = v @ s @ r"
  by (rule TrimSpace_plain) (simp_all add: word_ends)

lemma equal_truth:
  assumes "word v" and "r \<noteq> []" and "plain (last r)"
  shows "condition_truth (v @ '' == '' @ r) = (v = TrimSpace (TrimCut quotes (CHR '' '' # r)))"
proof -
  have "CHR ''='' \<notin> set v" using assms(1) by (auto simp: word_def)
  from Cut_skip[OF this, of "CHR '' '' # r"]
  have "Cut (v @ '' == '' @ r) ''=='' = Some (v @ '' '', CHR '' '' # r)" by simp
  then show ?thesis
    unfolding condition_truth_def Let_def trim_word_end[OF assms] by (simp add: word_trim_space[OF assms(1)])
qed

lemma unequal_truth:
  assumes "word v" and "r \<noteq> []" and "plain (last r)" and "CHR ''='' \<notin> set r"
  shows "condition_truth (v @ '' != '' @ r) = (v \<noteq> TrimSpace (TrimCut quotes (CHR '' '' # r)))"
proof -
  have e: "CHR ''='' \<notin> set v" "CHR ''!'' \<notin> set v" using assms(1) by (auto simp: word_def)
  have "Cut (v @ '' != '' @ r) ''=='' = None"
    using Cut_no_eq[OF e(1), of "CHR '' '' # r"] assms(4) by simp
  moreover have "Cut (v @ '' != '' @ r) ''!='' = Some (v @ '' '', CHR '' '' # r)"
    using Cut_ne[OF e(2), of "CHR '' '' # r"] by simp
  ultimately show ?thesis
    unfolding condition_truth_def Let_def trim_word_end[OF assms(1-3)] by (simp add: word_trim_space[OF assms(1)])
qed

lemma quoted_operand:
  assumes "word w"
  shows "TrimSpace (TrimCut quotes (CHR '' '' # quote w)) = CHR 0x22 # w"
    and "TrimSpace (TrimCut quotes (CHR '' '' # w)) = w"
proof -
  have "TrimSpace (CHR 0x22 # w) = CHR 0x22 # w"
    by (rule TrimSpace_plain) (use word_ends[OF assms] in \<open>simp_all add: plain_def\<close>)
  then show "TrimSpace (TrimCut quotes (CHR '' '' # quote w)) = CHR 0x22 # w"
    by (simp only: TrimCut_space_quoted[OF assms] TrimSpace_space)
  show "TrimSpace (TrimCut quotes (CHR '' '' # w)) = w"
    by (simp only: TrimCut_space_word[OF assms] TrimSpace_space word_trim[OF assms])
qed

text \<open>
  A comparison of a value with a word in quotes, the form the comment in the code
  promises, is false for \<open>==\<close> and true for \<open>!=\<close> whatever the value is, because only the closing
  quote is removed; without quotes the comparisons mean equality and inequality.
\<close>

theorem quoted_comparison_is_constant:
  assumes "word v" and "word w"
  shows "\<not> condition_truth (v @ '' == '' @ quote w) \<and> condition_truth (v @ '' != '' @ quote w) \<and>
         condition_truth (v @ '' == '' @ w) = (v = w) \<and> condition_truth (v @ '' != '' @ w) = (v \<noteq> w)"
proof -
  have e: "CHR ''='' \<notin> set w" using assms(2) unfolding word_def by blast
  have r: "quote w \<noteq> []" "plain (last (quote w))" "CHR ''='' \<notin> set (quote w)"
    using e by (simp_all add: quote_def plain_def)
  have w: "w \<noteq> []" "plain (last w)" "CHR ''='' \<notin> set w" using word_ends[OF assms(2)] e by blast+
  have "CHR 0x22 \<notin> set v" using assms(1) unfolding word_def by blast
  then have "v \<noteq> CHR 0x22 # w" by (metis list.set_intros(1))
  then show ?thesis
    by (simp only: equal_truth[OF assms(1) r(1,2)] equal_truth[OF assms(1) w(1,2)]
        unequal_truth[OF assms(1) r] unequal_truth[OF assms(1) w] quoted_operand[OF assms(2)] simp_thms)
qed

theorem quoted_comparison_is_constant_witness:
  "\<not> condition_truth (''prod'' @ '' == '' @ quote ''prod'')"
  using quoted_comparison_is_constant[of "''prod''" "''prod''"] by (simp add: word_def plain_def)

end
