(* ===== verification/Owl_SkillRunProps.thy ===== *)
theory Owl_SkillRunProps
  imports Owl_SkillProps
begin

text \<open>
  Runs of skills: what a finished run says of its steps, when a run ends, and what a nested run does
  to the run around it.
\<close>

subsection \<open>The steps of a run\<close>

text \<open>A step that did not stop the run.\<close>

definition step_done :: "skill_step \<Rightarrow> step_result \<Rightarrow> bool" where
  "step_done step r \<longleftrightarrow> sr_StepName r = ss_Name step \<and> sr_Tool r = ss_Tool step \<and>
     (sr_Success r \<or> ss_OnError step = ''continue'')"

lemma named_name:
  "sr_StepName (snd (named sx step began p)) = ss_Name step" "sr_Tool (snd (named sx step began p)) = ss_Tool step"
  "fst (named sx step began p) = fst p"
  by (simp_all add: named_def case_prod_unfold)

lemma executeStep_name:
  "executeStep sx nested dl step st = Some (st', r) \<Longrightarrow> sr_StepName r = ss_Name step \<and> sr_Tool r = ss_Tool step"
  using named_name(1,2)[of sx step]
  by (auto simp: executeStep_def Let_def split: if_splits sum.splits bool.splits) (metis snd_conv)+

lemma retry_step_ok:
  "retry_step sx nested dl step n r st = Some (st', Some res) \<Longrightarrow>
     sr_Success res \<and> sr_StepName res = ss_Name step \<and> sr_Tool res = ss_Tool step"
  by (induction n arbitrary: r st) (auto split: option.splits prod.splits if_splits dest: executeStep_name)

lemma run_steps_success:
  "run_steps sx nested dl i steps acc st = Some (st', acc', None) \<Longrightarrow>
     \<exists>new. acc' = acc @ new \<and> list_all2 step_done steps new"
proof (induction steps arbitrary: i acc st)
  case (Cons step steps)
  obtain st1 res where e: "executeStep sx nested dl step st = Some (st1, res)"
    using Cons.prems by (auto split: option.splits)
  note name = executeStep_name[OF e]
  from Cons.prems e consider
    (go) "sr_Success res \<or> ss_OnError step = ''continue''"
      "run_steps sx nested dl (Suc i) steps (acc @ [res]) (keep_output step res st1) = Some (st', acc', None)"
  | (retry) st3 res' where
      "retry_step sx nested dl step (nat (ss_Retries step)) 0 (keep_output step res st1) = Some (st3, Some res')"
      "run_steps sx nested dl (Suc i) steps (acc @ [res']) (keep_output step res' st3) = Some (st', acc', None)"
    by (auto simp: Let_def split: option.splits if_splits prod.splits)
  then show ?case
  proof cases
    case go
    then obtain new where "acc' = (acc @ [res]) @ new" "list_all2 step_done steps new" using Cons.IH by blast
    moreover have "step_done step res" using go(1) name by (simp add: step_done_def)
    ultimately show ?thesis by (intro exI[of _ "res # new"]) simp
  next
    case retry
    then obtain new where "acc' = (acc @ [res']) @ new" "list_all2 step_done steps new" using Cons.IH by blast
    moreover have "step_done step res'" using retry_step_ok[OF retry(1)] by (simp add: step_done_def)
    ultimately show ?thesis by (intro exI[of _ "res' # new"]) simp
  qed
qed simp

lemma run_steps_failure:
  "run_steps sx nested dl i steps acc st = Some (st', acc', Some f) \<Longrightarrow>
     \<exists>new last. acc' = acc @ new @ last \<and> list_all2 step_done (take (length new) steps) new \<and>
       length new < length steps \<and> (last = [] \<or> (\<exists>r. last = [r] \<and> \<not> sr_Success r))"
proof (induction steps arbitrary: i acc st)
  case (Cons step steps)
  show ?case
  proof (cases "ctx_err sx dl st")
    case (Some e)
    then have "acc' = acc" using Cons.prems by simp
    then show ?thesis by (intro exI[of _ "[]"]) simp
  next
    case None
    obtain st1 res where e: "executeStep sx nested dl step st = Some (st1, res)"
      using Cons.prems None by (auto split: option.splits)
    note name = executeStep_name[OF e]
    have more: "\<exists>new last. acc' = acc @ new @ last \<and> list_all2 step_done (take (length new) (step # steps)) new \<and>
        length new < length (step # steps) \<and> (last = [] \<or> (\<exists>r. last = [r] \<and> \<not> sr_Success r))"
      if r: "run_steps sx nested dl (Suc i) steps (acc @ [x]) st2 = Some (st', acc', Some f)" "step_done step x" for x st2
    proof -
      obtain new last where "acc' = (acc @ [x]) @ new @ last" "list_all2 step_done (take (length new) steps) new"
        "length new < length steps" "last = [] \<or> (\<exists>r. last = [r] \<and> \<not> sr_Success r)"
        using Cons.IH[OF r(1)] by blast
      then show ?thesis using r(2) by (intro exI[of _ "x # new"] exI[of _ last]) simp
    qed
    from Cons.prems e None consider
      (go) "sr_Success res \<or> ss_OnError step = ''continue''"
        "run_steps sx nested dl (Suc i) steps (acc @ [res]) (keep_output step res st1) = Some (st', acc', Some f)"
    | (retry) st3 res' where
        "retry_step sx nested dl step (nat (ss_Retries step)) 0 (keep_output step res st1) = Some (st3, Some res')"
        "run_steps sx nested dl (Suc i) steps (acc @ [res']) (keep_output step res' st3) = Some (st', acc', Some f)"
    | (stop) "\<not> sr_Success res" "acc' = acc @ [res]"
      by (auto simp: Let_def split: option.splits if_splits prod.splits)
    then show ?thesis
    proof cases
      case go
      have "step_done step res" using go(1) name by (simp add: step_done_def)
      then show ?thesis by (rule more[OF go(2)])
    next
      case retry
      have "step_done step res'" using retry_step_ok[OF retry(1)] by (simp add: step_done_def)
      then show ?thesis by (rule more[OF retry(2)])
    next
      case stop
      then show ?thesis by (intro exI[of _ "[]"] exI[of _ "[res]"]) simp
    qed
  qed
qed simp

lemma not_Some_pair: "(\<forall>a b. x \<noteq> Some (a, b)) \<longleftrightarrow> x = None"
  by (cases x) auto


definition sample_skill_services :: "nat skill_services" where
  "sample_skill_services =
     \<lparr>sx_template = (\<lambda>t _ _. Inr t), sx_fmt = (\<lambda>_. []), sx_errorf = (\<lambda>e. e),
      sx_order = (\<lambda>a. if a ''command'' \<noteq> None then [''command''] else if a ''name'' \<noteq> None then [''name''] else []),
      sx_clock = int, sx_cancelled = (\<lambda>_. None), sx_sleep = (\<lambda>_ w. w),
      sx_run = (\<lambda>argv _ w. (Suc w, ''out'', [], None))\<rparr>"

definition no_nested :: "nat nested" where "no_nested dl name params st = None"

definition sample_run_result ::
  "(nat skill_state \<times> skill_result \<times> string option) option" where
  "sample_run_result = ExecuteSkill sample_skill_services no_nested None sample_skill Map.empty
     (NewExecutor \<lparr>ma_world = 0, ma_log = []\<rparr>)"


subsection \<open>Nested runs replace the variables\<close>

lemma run_program_vars: "kx_variables (fst (run_program sx argv dir st)) = kx_variables st"
  by (simp add: run_program_def case_prod_unfold Let_def)

lemma run_step_tool_leaf:
  "ss_Tool step \<noteq> ''skill'' \<Longrightarrow>
     \<exists>st' r. run_step_tool sx nested dl step a st = Some (st', r) \<and> kx_variables st' = kx_variables st"
proof -
  assume "ss_Tool step \<noteq> ''skill''"
  moreover have "kx_variables (fst (executeLocalShell sx a st)) = kx_variables st"
    "kx_variables (fst (executeRemoteShell sx a st)) = kx_variables st"
    "kx_variables (fst (executeDocker sx (ss_Action step) a st)) = kx_variables st"
    by (simp_all add: executeLocalShell_def executeRemoteShell_def executeDocker_def Let_def run_program_vars
        split: option.split sum.split)
  ultimately show ?thesis by (auto simp: run_step_tool_def prod_eq_iff)
qed

lemma executeStep_leaf:
  assumes "ss_Tool step \<noteq> ''skill''"
  shows "\<exists>st' r. executeStep sx nested dl step st = Some (st', r) \<and> kx_variables st' = kx_variables st"
proof -
  have body: "\<exists>st' r. map_option (named sx step t) (run_step_tool sx nested dl step a st) = Some (st', r) \<and>
      kx_variables st' = kx_variables st" for t a
    using run_step_tool_leaf[OF assms, of sx nested dl a st] by (force simp: named_def)
  show ?thesis
    using body by (auto simp: executeStep_def Let_def named_def split: sum.split bool.split)
qed

lemma retry_step_leaf:
  assumes "ss_Tool step \<noteq> ''skill''"
  shows "\<exists>st' r. retry_step sx nested dl step n i st = Some (st', r) \<and> kx_variables st' = kx_variables st"
proof (induction n arbitrary: i st)
  case (Suc n)
  obtain st1 r where e: "executeStep sx nested dl step (sleep_for sx (Second * int (i + 1)) st) = Some (st1, r)"
    "kx_variables st1 = kx_variables st"
    using executeStep_leaf[OF assms, of sx nested dl "sleep_for sx (Second * int (i + 1)) st"]
    by (auto simp: sleep_for_def)
  then show ?case using Suc.IH[of "Suc i" st1] by (simp only: retry_step.simps e(1)) (simp add: e(2))
qed simp

lemma run_steps_leaf:
  assumes "\<forall>step \<in> set steps. ss_Tool step \<noteq> ''skill''"
  shows "\<exists>st' r. run_steps sx nested dl i steps acc st = Some (st', r) \<and> kx_variables st' = kx_variables st"
  using assms
proof (induction steps arbitrary: i acc st)
  case (Cons step steps)
  have k: "kx_variables (keep_output step r x) = kx_variables x" for r and x :: "'a skill_state"
    by (simp add: keep_output_def)
  obtain st1 r where e: "executeStep sx nested dl step st = Some (st1, r)" "kx_variables st1 = kx_variables st"
    using executeStep_leaf[of step sx nested dl st] Cons.prems by auto
  obtain st2 q where t: "retry_step sx nested dl step (nat (ss_Retries step)) 0 (keep_output step r st1) = Some (st2, q)"
    "kx_variables st2 = kx_variables st"
    using retry_step_leaf[of step sx nested dl "nat (ss_Retries step)" 0 "keep_output step r st1"] Cons.prems e k by auto
  have go: "\<exists>st' out. run_steps sx nested dl (Suc i) steps acc' x = Some (st', out) \<and> kx_variables st' = kx_variables st"
    if "kx_variables x = kx_variables st" for acc' x
    using Cons.IH[of "Suc i" acc' x] Cons.prems that by simp
  show ?case
    using go[of "keep_output step r st1"] go[of "keep_output step _ st2"] e t k
    by (cases "ctx_err sx dl st"; cases q) (auto simp: Let_def)
qed simp

text \<open>
  Running a skill without nested skills inside another ends, and leaves the engine with the
  inner run's parameters as its variables: what the outer skill knew of its own is gone.
\<close>

theorem nested_run_replaces_variables:
  assumes "skill_Get r name = Some s" and "\<forall>step \<in> set (sl_Steps s). ss_Tool step \<noteq> ''skill''"
    and "arg_string ''name'' a = Some name"
  shows "\<exists>st' res. executeNestedSkill (skill_Execute sx r (Suc d)) dl a st = Some (st', res) \<and>
    kx_variables st' = fst (initParameters (sx_fmt sx) s (nested_params a))"
proof (cases "initParameters (sx_fmt sx) s (nested_params a)")
  case (Pair vars e)
  have "\<exists>st' res err. ExecuteSkill sx nested dl s (nested_params a) st = Some (st', res, err) \<and> kx_variables st' = vars"
    for nested
    using run_steps_leaf[OF assms(2), of sx nested "skill_deadline (sx_clock sx (kx_world st)) (sl_Timeout s) dl" 0 "[]"
        "st\<lparr>kx_outputs := Map.empty, kx_variables := vars\<rparr>"] Pair
    by (cases e) (fastforce simp: ExecuteSkill_def Let_def split: option.split)+
  then obtain st' res err where
    "ExecuteSkill sx (skill_Execute sx r d) dl s (nested_params a) st = Some (st', res, err)" "kx_variables st' = vars"
    by blast
  then show ?thesis using assms(1,3) Pair by (simp add: executeNestedSkill_def)
qed

text \<open>The outer skill sees \<open>v\<close> before, and after the nested run what the caller of the inner one passed.\<close>

theorem nested_run_replaces_variables_witness:
  "\<exists>st' res. executeNestedSkill (skill_Execute sample_skill_services [''tail'' \<mapsto> sample_skill] 1) None
      [''name'' \<mapsto> JStr ''tail''] (SetVariable ''host'' (JStr ''db1'') (NewExecutor \<lparr>ma_world = 0, ma_log = []\<rparr>)) =
      Some (st', res) \<and> kx_variables st' ''host'' = None"
proof -
  have "\<exists>st' res. executeNestedSkill (skill_Execute sample_skill_services [''tail'' \<mapsto> sample_skill] (Suc 0)) None
      [''name'' \<mapsto> JStr ''tail''] (SetVariable ''host'' (JStr ''db1'') (NewExecutor \<lparr>ma_world = 0, ma_log = []\<rparr>)) =
      Some (st', res) \<and>
      kx_variables st' = fst (initParameters (sx_fmt sample_skill_services) sample_skill (nested_params [''name'' \<mapsto> JStr ''tail'']))"
    by (rule nested_run_replaces_variables) (simp_all add: skill_Get_def sample_skill_def arg_string_def)
  moreover have "fst (initParameters (sx_fmt sample_skill_services) sample_skill (nested_params [''name'' \<mapsto> JStr ''tail'']))
      ''host'' = None" by code_simp
  ultimately show ?thesis by auto
qed

subsection \<open>When a run ends\<close>

text \<open>Nesting goes down: a nested step of a skill names one of smaller rank, whatever the variables are.\<close>

definition ranked_nesting :: "'w skill_services \<Rightarrow> skill_registry \<Rightarrow> (string \<Rightarrow> nat) \<Rightarrow> bool" where
  "ranked_nesting sx r rank \<longleftrightarrow>
     (\<forall>name s step st a target. skill_Get r name = Some s \<longrightarrow> step \<in> set (sl_Steps s) \<longrightarrow> ss_Tool step = ''skill'' \<longrightarrow>
        processArgs sx st (ss_Args step) = Inr a \<longrightarrow> arg_string ''name'' a = Some target \<longrightarrow> rank target < rank name)"

lemma executeStep_ends:
  assumes "\<And>a st target. ss_Tool step = ''skill'' \<Longrightarrow> processArgs sx st (ss_Args step) = Inr a \<Longrightarrow>
      arg_string ''name'' a = Some target \<Longrightarrow> nested dl target (nested_params a) st \<noteq> None"
  shows "executeStep sx nested dl step st \<noteq> None"
proof (cases "ss_Tool step = ''skill''")
  case False
  then show ?thesis using executeStep_leaf[of step sx nested dl st] by auto
next
  case True
  have "run_step_tool sx nested dl step a st \<noteq> None" if "processArgs sx st (ss_Args step) = Inr a" for a
    using assms[OF True that] True
    by (cases "arg_string ''name'' a") (simp_all add: run_step_tool_def executeNestedSkill_def del: not_None_eq)
  then show ?thesis
    by (simp add: executeStep_def Let_def del: not_None_eq split: sum.split bool.split)
qed

lemma retry_step_ends:
  "(\<And>st. executeStep sx nested dl step st \<noteq> None) \<Longrightarrow> retry_step sx nested dl step n i st \<noteq> None"
proof (induction n arbitrary: i st)
  case (Suc n)
  obtain st1 r where "executeStep sx nested dl step (sleep_for sx (Second * int (i + 1)) st) = Some (st1, r)"
    using Suc.prems by fastforce
  moreover have "retry_step sx nested dl step n (Suc i) st1 \<noteq> None" by (rule Suc.IH) (rule Suc.prems)
  ultimately show ?case by (simp only: retry_step.simps) simp
qed simp

lemma run_steps_ends:
  "(\<And>step st. step \<in> set steps \<Longrightarrow> executeStep sx nested dl step st \<noteq> None) \<Longrightarrow>
     run_steps sx nested dl i steps acc st \<noteq> None"
proof (induction steps arbitrary: i acc st)
  case (Cons step steps)
  obtain st1 r where e: "executeStep sx nested dl step st = Some (st1, r)" using Cons.prems[of step st] by auto
  have t: "retry_step sx nested dl step n k x \<noteq> None" for n k x
    by (rule retry_step_ends) (rule Cons.prems, simp)
  obtain st2 q where q: "retry_step sx nested dl step (nat (ss_Retries step)) 0 (keep_output step r st1) = Some (st2, q)"
    using t by force
  have go: "run_steps sx nested dl k steps ac x \<noteq> None" for k ac x
    by (rule Cons.IH) (rule Cons.prems, simp)
  show ?case
    by (cases "ctx_err sx dl st"; cases q) (simp_all add: e q go Let_def del: not_None_eq)
qed simp

lemma ExecuteSkill_ends:
  assumes "\<And>step st dl. step \<in> set (sl_Steps s) \<Longrightarrow> executeStep sx nested dl step st \<noteq> None"
  shows "ExecuteSkill sx nested dl s params st \<noteq> None"
proof -
  have "run_steps sx nested d i (sl_Steps s) acc x \<noteq> None" for d i acc x
    by (rule run_steps_ends) (rule assms)
  then show ?thesis
    by (simp add: ExecuteSkill_def Let_def del: not_None_eq split: prod.split option.split)
qed



text \<open>
  The engine has no limit on nesting of its own: a skill whose only step runs the skill
  itself does not end, however many levels are allowed.
\<close>

theorem self_nesting_never_ends:
  assumes "skill_Get r name = Some s" and "sl_Parameters s = []" and "sl_Timeout s = 0"
    and "sl_Steps s = [step]" and "ss_Tool step = ''skill''" and "ss_Condition step = []"
    and "\<And>st. \<exists>a. processArgs sx st (ss_Args step) = Inr a \<and> arg_string ''name'' a = Some name"
    and "\<And>w. sx_cancelled sx w = None"
  shows "skill_Execute sx r depth None name params st = None"
proof (induction depth arbitrary: params st)
  case (Suc depth)
  have "executeStep sx (skill_Execute sx r depth) None step x = None" for x
  proof -
    obtain a where "processArgs sx x (ss_Args step) = Inr a" "arg_string ''name'' a = Some name" using assms(7) by blast
    then show ?thesis
      by (simp add: executeStep_def assms(5,6) run_step_tool_def executeNestedSkill_def Suc.IH)
  qed
  then show ?case
    by (simp add: assms(1-4,8) ExecuteSkill_def initParameters_def ctx_err_def skill_deadline_def Let_def)
qed simp

definition endless_skill :: skill where
  "endless_skill = \<lparr>sl_Name = ''again'', sl_Description = [], sl_Version = [], sl_Author = [], sl_Tags = [],
     sl_Parameters = [], sl_Steps = [\<lparr>ss_Name = [], ss_Tool = ''skill'', ss_Action = [], ss_Args = [''name'' \<mapsto> JStr ''again''],
       ss_Condition = [], ss_OnError = [], ss_Retries = 0\<rparr>], sl_Timeout = 0, sl_NeedConfirm = False\<rparr>"

theorem self_nesting_never_ends_witness:
  "skill_Execute sample_skill_services [''again'' \<mapsto> endless_skill] 1000 None ''again'' Map.empty
     (NewExecutor \<lparr>ma_world = 0, ma_log = []\<rparr>) = None"
proof (rule self_nesting_never_ends[where s = endless_skill])
  show "\<exists>a. processArgs sample_skill_services st (ss_Args \<lparr>ss_Name = [], ss_Tool = ''skill'', ss_Action = [],
      ss_Args = [''name'' \<mapsto> JStr ''again''], ss_Condition = [], ss_OnError = [], ss_Retries = 0\<rparr>) = Inr a \<and>
      arg_string ''name'' a = Some ''again''" for st
    by (simp add: processArgs_def sample_skill_services_def renderTemplate_def arg_string_def)
qed (simp_all add: skill_Get_def endless_skill_def sample_skill_def sample_skill_services_def)

subsection \<open>Confirmation\<close>

lemma ExecuteSkill_flag: "ExecuteSkill sx nested dl (s\<lparr>sl_NeedConfirm := b\<rparr>) params st = ExecuteSkill sx nested dl s params st"
  by (simp add: ExecuteSkill_def initParameters_def)

text \<open>
  Whether skills need a confirmation makes no difference to a run: with every flag of the
  registry changed at will, a run, with all its nested runs, is the same.
\<close>

theorem run_ignores_confirmation:
  "skill_Execute sx (\<lambda>n. map_option (\<lambda>s. s\<lparr>sl_NeedConfirm := flag s\<rparr>) (r n)) depth = skill_Execute sx r depth"
proof (induction depth)
  case (Suc depth)
  show ?case
    by (intro ext) (simp add: Suc.IH skill_Get_def ExecuteSkill_flag split: option.split)
qed simp

end
