(* ===== verification/Owl_SkillTool.thy ===== *)
theory Owl_SkillTool
  imports Owl_SkillRun
begin

text \<open>
  \<open>internal/agent/skill_tool.go\<close>: the tool by which the assistant lists, describes and runs skills.
  The engine's state is the manager's; \<open>None\<close> for the manager is the disabled system. \<open>dur\<close> prints a
  duration; \<open>depth\<close> bounds nested runs as in \<open>skill_Execute\<close>, and \<open>None\<close> is a run that needs more.
\<close>

definition no_skills :: string where "no_skills = [CHR 0xE6, CHR 0xB2, CHR 0xA1, CHR 0xE6, CHR 0x9C, CHR 0x89, CHR 0xE6, CHR 0x89, CHR 0xBE,
     CHR 0xE5, CHR 0x88, CHR 0xB0, CHR 0xE5, CHR 0x8F, CHR 0xAF, CHR 0xE7, CHR 0x94,
     CHR 0xA8, CHR 0xE7, CHR 0x9A, CHR 0x84, CHR 0xE6, CHR 0x8A, CHR 0x80, CHR 0xE8,
     CHR 0x83, CHR 0xBD, CHR 0xE3, CHR 0x80, CHR 0x82]"

definition list_entry :: "skill \<Rightarrow> string" where
  "list_entry s =
     ''### '' @ sl_Name s @ [CHR 0x0A] @
     (''- **'' @ [CHR 0xE6, CHR 0x8F, CHR 0x8F, CHR 0xE8, CHR 0xBF, CHR 0xB0] @ ''**: '') @ sl_Description s @ [CHR 0x0A] @
     (if sl_Tags s = [] then [] else (''- **'' @ [CHR 0xE6, CHR 0xA0, CHR 0x87, CHR 0xE7, CHR 0xAD, CHR 0xBE] @ ''**: '') @ Join '', '' (sl_Tags s) @ [CHR 0x0A]) @
     (if sl_NeedConfirm s then (''- **'' @ [CHR 0xE9, CHR 0x9C, CHR 0x80, CHR 0xE8, CHR 0xA6, CHR 0x81, CHR 0xE7, CHR 0xA1,
     CHR 0xAE, CHR 0xE8, CHR 0xAE, CHR 0xA4] @ ''**: '' @ [CHR 0xE6, CHR 0x98, CHR 0xAF,
     CHR 0x0A]) else []) @
     (''- **'' @ [CHR 0xE6, CHR 0xAD, CHR 0xA5, CHR 0xE9, CHR 0xAA, CHR 0xA4, CHR 0xE6, CHR 0x95,
     CHR 0xB0] @ ''**: '') @ show_nat (length (sl_Steps s)) @ [CHR 0x0A, CHR 0x0A]"

definition handleSkillList :: "string list \<Rightarrow> skill_registry \<Rightarrow> args \<Rightarrow> string" where
  "handleSkillList ks r a =
     (let skills = (case arg_or_empty ''tag'' a of [] \<Rightarrow> skill_List ks r | tag \<Rightarrow> skill_ListByTag ks tag r) in
      if skills = [] then no_skills
      else (''## '' @ [CHR 0xE5, CHR 0x8F, CHR 0xAF, CHR 0xE7, CHR 0x94, CHR 0xA8, CHR 0xE6, CHR 0x8A,
     CHR 0x80, CHR 0xE8, CHR 0x83, CHR 0xBD] @ '' ('') @ show_nat (length skills) @ ('' '' @ [CHR 0xE4, CHR 0xB8, CHR 0xAA] @ '')'' @ [CHR 0x0A, CHR 0x0A]) @ concat (map list_entry skills))"

definition param_entry :: "(json \<Rightarrow> string) \<Rightarrow> skill_parameter \<Rightarrow> string" where
  "param_entry fmt p =
     ''- **'' @ sp_Name p @ ''**'' @ (if sp_Required p then ('' ('' @ [CHR 0xE5, CHR 0xBF, CHR 0x85, CHR 0xE9, CHR 0x9C, CHR 0x80] @ '')'') else []) @ '': '' @ sp_Description p @ [CHR 0x0A] @
     (if sp_Default p = JNull then [] else (''  - '' @ [CHR 0xE9, CHR 0xBB, CHR 0x98, CHR 0xE8, CHR 0xAE, CHR 0xA4, CHR 0xE5, CHR 0x80,
     CHR 0xBC] @ '': '') @ Sprint fmt (sp_Default p) @ [CHR 0x0A])"

definition step_entry :: "nat \<times> skill_step \<Rightarrow> string" where
  "step_entry = (\<lambda>(i, st).
     show_nat (Suc i) @ ''. **'' @ ss_Name st @ (''** ('' @ [CHR 0xE5, CHR 0xB7, CHR 0xA5, CHR 0xE5, CHR 0x85, CHR 0xB7] @ '': '') @ ss_Tool st @
     (if ss_Action st = [] then [] else ('', '' @ [CHR 0xE6, CHR 0x93, CHR 0x8D, CHR 0xE4, CHR 0xBD, CHR 0x9C] @ '': '') @ ss_Action st) @ '')'' @ [CHR 0x0A] @
     (if ss_Condition st = [] then [] else (''   - '' @ [CHR 0xE6, CHR 0x9D, CHR 0xA1, CHR 0xE4, CHR 0xBB, CHR 0xB6] @ '': '') @ ss_Condition st @ [CHR 0x0A]) @
     (if ss_OnError st = [] then [] else (''   - '' @ [CHR 0xE9, CHR 0x94, CHR 0x99, CHR 0xE8, CHR 0xAF, CHR 0xAF, CHR 0xE5,
     CHR 0xA4, CHR 0x84, CHR 0xE7, CHR 0x90, CHR 0x86] @ '': '') @ ss_OnError st @ [CHR 0x0A]))"

definition handleSkillInfo ::
  "(json \<Rightarrow> string) \<Rightarrow> (duration \<Rightarrow> string) \<Rightarrow> skill_registry \<Rightarrow> args \<Rightarrow> tool_outcome" where
  "handleSkillInfo fmt dur r a =
     (case arg_or_empty ''name'' a of
        [] \<Rightarrow> Err (''name '' @ [CHR 0xE5, CHR 0x8F, CHR 0x82, CHR 0xE6, CHR 0x95, CHR 0xB0, CHR 0xE6,
     CHR 0x98, CHR 0xAF, CHR 0xE5, CHR 0xBF, CHR 0x85, CHR 0xE9, CHR 0x9C, CHR 0x80,
     CHR 0xE7, CHR 0x9A, CHR 0x84])
      | name \<Rightarrow>
          (case skill_Get r name of
             None \<Rightarrow> Out (([CHR 0xE6, CHR 0x8A, CHR 0x80, CHR 0xE8, CHR 0x83, CHR 0xBD] @ '' '') @ quote name @ ('' '' @ [CHR 0xE4, CHR 0xB8, CHR 0x8D, CHR 0xE5, CHR 0xAD, CHR 0x98, CHR 0xE5, CHR 0x9C,
     CHR 0xA8, CHR 0xE3, CHR 0x80, CHR 0x82, CHR 0xE4, CHR 0xBD, CHR 0xBF, CHR 0xE7,
     CHR 0x94, CHR 0xA8] @ '' action=list '' @ [CHR 0xE6, CHR 0x9F, CHR 0xA5, CHR 0xE7,
     CHR 0x9C, CHR 0x8B, CHR 0xE5, CHR 0x8F, CHR 0xAF, CHR 0xE7, CHR 0x94, CHR 0xA8,
     CHR 0xE6, CHR 0x8A, CHR 0x80, CHR 0xE8, CHR 0x83, CHR 0xBD, CHR 0xE3, CHR 0x80,
     CHR 0x82]))
           | Some s \<Rightarrow> Out (
               (''## '' @ [CHR 0xE6, CHR 0x8A, CHR 0x80, CHR 0xE8, CHR 0x83, CHR 0xBD] @ '': '') @ sl_Name s @ [CHR 0x0A, CHR 0x0A] @
               (''**'' @ [CHR 0xE6, CHR 0x8F, CHR 0x8F, CHR 0xE8, CHR 0xBF, CHR 0xB0] @ ''**: '') @ sl_Description s @ [CHR 0x0A] @
               (''**'' @ [CHR 0xE7, CHR 0x89, CHR 0x88, CHR 0xE6, CHR 0x9C, CHR 0xAC] @ ''**: '') @ sl_Version s @ [CHR 0x0A] @
               (''**'' @ [CHR 0xE4, CHR 0xBD, CHR 0x9C, CHR 0xE8, CHR 0x80, CHR 0x85] @ ''**: '') @ sl_Author s @ [CHR 0x0A] @
               (if sl_Tags s = [] then [] else (''**'' @ [CHR 0xE6, CHR 0xA0, CHR 0x87, CHR 0xE7, CHR 0xAD, CHR 0xBE] @ ''**: '') @ Join '', '' (sl_Tags s) @ [CHR 0x0A]) @
               (if sl_NeedConfirm s then (''**'' @ [CHR 0xE9, CHR 0x9C, CHR 0x80, CHR 0xE8, CHR 0xA6, CHR 0x81, CHR 0xE7, CHR 0xA1,
     CHR 0xAE, CHR 0xE8, CHR 0xAE, CHR 0xA4] @ ''**: '' @ [CHR 0xE6, CHR 0x98, CHR 0xAF,
     CHR 0x0A]) else []) @
               (if sl_Timeout s > 0 then (''**'' @ [CHR 0xE8, CHR 0xB6, CHR 0x85, CHR 0xE6, CHR 0x97, CHR 0xB6] @ ''**: '') @ dur (sl_Timeout s) @ [CHR 0x0A] else []) @
               (if sl_Parameters s = [] then []
                else ([CHR 0x0A] @ ''### '' @ [CHR 0xE5, CHR 0x8F, CHR 0x82, CHR 0xE6, CHR 0x95, CHR 0xB0,
     CHR 0x0A, CHR 0x0A]) @ concat (map (param_entry fmt) (sl_Parameters s))) @
               (if sl_Steps s = [] then []
                else ([CHR 0x0A] @ ''### '' @ [CHR 0xE6, CHR 0x89, CHR 0xA7, CHR 0xE8, CHR 0xA1, CHR 0x8C,
     CHR 0xE6, CHR 0xAD, CHR 0xA5, CHR 0xE9, CHR 0xAA, CHR 0xA4, CHR 0x0A, CHR 0x0A]) @ concat (map step_entry (List.enumerate 0 (sl_Steps s)))))))"

text \<open>\<open>d.Round(time.Millisecond)\<close> rounds half away from zero.\<close>

definition round_ms :: "duration \<Rightarrow> duration" where
  "round_ms d =
     (if 0 \<le> d then (d + Millisecond div 2) div Millisecond * Millisecond
      else - ((- d + Millisecond div 2) div Millisecond * Millisecond))"

definition mark :: "bool \<Rightarrow> string" where
  "mark ok = (if ok then [CHR 0xE2, CHR 0x9C, CHR 0x85] else [CHR 0xE2, CHR 0x9D, CHR 0x8C])"

definition result_entry :: "(duration \<Rightarrow> string) \<Rightarrow> nat \<times> step_result \<Rightarrow> string" where
  "result_entry dur = (\<lambda>(i, st).
     show_nat (Suc i) @ ''. '' @ mark (sr_Success st) @ '' **'' @ sr_StepName st @ ''** ('' @ sr_Tool st @ '', '' @
     dur (round_ms (sr_Duration st)) @ '')'' @ [CHR 0x0A] @
     (if sr_Output st = [] then []
      else let out = (if 500 < length (sr_Output st)
                      then take 500 (sr_Output st) @ (''...('' @ [CHR 0xE8, CHR 0xBE, CHR 0x93, CHR 0xE5, CHR 0x87, CHR 0xBA, CHR 0xE5, CHR 0xB7,
     CHR 0xB2, CHR 0xE6, CHR 0x88, CHR 0xAA, CHR 0xE6, CHR 0x96, CHR 0xAD] @ '')'') else sr_Output st)
           in ''   '' @ replicate 3 CHR 0x60 @ [CHR 0x0A] @ ''   '' @ TrimSpace out @ [CHR 0x0A] @ ''   '' @
              replicate 3 CHR 0x60 @ [CHR 0x0A]) @
     (if sr_Error st = [] then [] else (''   **'' @ [CHR 0xE9, CHR 0x94, CHR 0x99, CHR 0xE8, CHR 0xAF, CHR 0xAF] @ ''**: '') @ sr_Error st @ [CHR 0x0A]))"

definition formatSkillResult :: "(duration \<Rightarrow> string) \<Rightarrow> skill_result \<Rightarrow> string" where
  "formatSkillResult dur res =
     (if kr_Success res
      then mark True @ ('' '' @ [CHR 0xE6, CHR 0x8A, CHR 0x80, CHR 0xE8, CHR 0x83, CHR 0xBD] @ '' '') @ kr_SkillName res @ ('' '' @ [CHR 0xE6, CHR 0x89, CHR 0xA7, CHR 0xE8, CHR 0xA1, CHR 0x8C, CHR 0xE6, CHR 0x88,
     CHR 0x90, CHR 0xE5, CHR 0x8A, CHR 0x9F, CHR 0x0A, CHR 0x0A])
      else mark False @ ('' '' @ [CHR 0xE6, CHR 0x8A, CHR 0x80, CHR 0xE8, CHR 0x83, CHR 0xBD] @ '' '') @ kr_SkillName res @ ('' '' @ [CHR 0xE6, CHR 0x89, CHR 0xA7, CHR 0xE8, CHR 0xA1, CHR 0x8C, CHR 0xE5, CHR 0xA4,
     CHR 0xB1, CHR 0xE8, CHR 0xB4, CHR 0xA5, CHR 0x0A, CHR 0x0A]) @
        (if kr_Error res = [] then [] else (''**'' @ [CHR 0xE9, CHR 0x94, CHR 0x99, CHR 0xE8, CHR 0xAF, CHR 0xAF] @ ''**: '') @ kr_Error res @ [CHR 0x0A, CHR 0x0A])) @
     (''**'' @ [CHR 0xE8, CHR 0x80, CHR 0x97, CHR 0xE6, CHR 0x97, CHR 0xB6] @ ''**: '') @ dur (round_ms (time_sub (kr_EndTime res) (kr_StartTime res))) @ [CHR 0x0A, CHR 0x0A] @
     (if kr_Steps res = [] then []
      else (''### '' @ [CHR 0xE6, CHR 0xAD, CHR 0xA5, CHR 0xE9, CHR 0xAA, CHR 0xA4, CHR 0xE8, CHR 0xAF,
     CHR 0xA6, CHR 0xE6, CHR 0x83, CHR 0x85, CHR 0x0A, CHR 0x0A]) @ concat (map (result_entry dur) (List.enumerate 0 (kr_Steps res))))"

definition confirm_reason :: "string \<Rightarrow> string" where
  "confirm_reason name = ([CHR 0xE6, CHR 0x8A, CHR 0x80, CHR 0xE8, CHR 0x83, CHR 0xBD] @ '' '') @ quote name @ ('' '' @ [CHR 0xE9, CHR 0x9C, CHR 0x80, CHR 0xE8, CHR 0xA6, CHR 0x81, CHR 0xE7, CHR 0xA1,
     CHR 0xAE, CHR 0xE8, CHR 0xAE, CHR 0xA4, CHR 0xE5, CHR 0x90, CHR 0x8E, CHR 0xE6,
     CHR 0x89, CHR 0xA7, CHR 0xE8, CHR 0xA1, CHR 0x8C])"

definition handleSkillExecute ::
  "'w skill_services \<Rightarrow> (duration \<Rightarrow> string) \<Rightarrow> skill_registry \<Rightarrow> nat \<Rightarrow> args \<Rightarrow> bool \<Rightarrow> 'w skill_state \<Rightarrow>
   ('w skill_state \<times> tool_outcome) option" where
  "handleSkillExecute sx dur r depth a confirmed st =
     (case arg_or_empty ''name'' a of
        [] \<Rightarrow> Some (st, Err (''name '' @ [CHR 0xE5, CHR 0x8F, CHR 0x82, CHR 0xE6, CHR 0x95, CHR 0xB0, CHR 0xE6,
     CHR 0x98, CHR 0xAF, CHR 0xE5, CHR 0xBF, CHR 0x85, CHR 0xE9, CHR 0x9C, CHR 0x80,
     CHR 0xE7, CHR 0x9A, CHR 0x84]))
      | name \<Rightarrow>
          (case skill_Get r name of
             None \<Rightarrow> Some (st, Err (([CHR 0xE6, CHR 0x8A, CHR 0x80, CHR 0xE8, CHR 0x83, CHR 0xBD] @ '' '') @ quote name @ ('' '' @ [CHR 0xE4, CHR 0xB8, CHR 0x8D, CHR 0xE5, CHR 0xAD, CHR 0x98, CHR 0xE5, CHR 0x9C,
     CHR 0xA8])))
           | Some s \<Rightarrow>
               if sl_NeedConfirm s \<and> \<not> confirmed
               then Some (st, NeedConfirm ''skill''
                      [''action'' \<mapsto> JStr ''execute'', ''name'' \<mapsto> JStr name,
                       ''params'' \<mapsto> (case a ''params'' of Some (JObj kvs) \<Rightarrow> JObj kvs | _ \<Rightarrow> JNull)]
                      (confirm_reason name))
               else
                 let params = nested_params a in
                 case manager_ValidateParams r name params of
                   Some e \<Rightarrow> Some (st, Err (([CHR 0xE5, CHR 0x8F, CHR 0x82, CHR 0xE6, CHR 0x95, CHR 0xB0, CHR 0xE9, CHR 0xAA, CHR 0x8C,
     CHR 0xE8, CHR 0xAF, CHR 0x81, CHR 0xE5, CHR 0xA4, CHR 0xB1, CHR 0xE8, CHR 0xB4,
     CHR 0xA5] @ '': '') @ e))
                 | None \<Rightarrow>
                     map_option (\<lambda>(st', res, err). (st', case err of
                           Some e \<Rightarrow> Err (([CHR 0xE6, CHR 0x8A, CHR 0x80, CHR 0xE8, CHR 0x83, CHR 0xBD, CHR 0xE6, CHR 0x89, CHR 0xA7,
     CHR 0xE8, CHR 0xA1, CHR 0x8C, CHR 0xE5, CHR 0xA4, CHR 0xB1, CHR 0xE8, CHR 0xB4,
     CHR 0xA5] @ '': '') @ e)
                         | None \<Rightarrow> Out (formatSkillResult dur res)))
                       (ExecuteSkill sx (skill_Execute sx r depth)
                          (Some (sx_clock sx (kx_world st) + 5 * Minute)) s params st)))"

definition handleSkillTool ::
  "'w skill_services \<Rightarrow> (duration \<Rightarrow> string) \<Rightarrow> string list \<Rightarrow> skill_registry option \<Rightarrow> nat \<Rightarrow> args \<Rightarrow> 'w skill_state \<Rightarrow>
   ('w skill_state \<times> tool_outcome) option" where
  "handleSkillTool sx dur ks manager depth a st =
     (case manager of
        None \<Rightarrow> Some (st, Err [CHR 0xE6, CHR 0x8A, CHR 0x80, CHR 0xE8, CHR 0x83, CHR 0xBD, CHR 0xE7, CHR 0xB3, CHR 0xBB,
     CHR 0xE7, CHR 0xBB, CHR 0x9F, CHR 0xE6, CHR 0x9C, CHR 0xAA, CHR 0xE5, CHR 0x90,
     CHR 0xAF, CHR 0xE7, CHR 0x94, CHR 0xA8])
      | Some r \<Rightarrow>
        (case arg_string ''action'' a of
           None \<Rightarrow> Some (st, Err (''action '' @ [CHR 0xE5, CHR 0x8F, CHR 0x82, CHR 0xE6, CHR 0x95, CHR 0xB0, CHR 0xE5,
     CHR 0xBF, CHR 0x85, CHR 0xE9, CHR 0xA1, CHR 0xBB, CHR 0xE6, CHR 0x98, CHR 0xAF,
     CHR 0xE5, CHR 0xAD, CHR 0x97, CHR 0xE7, CHR 0xAC, CHR 0xA6, CHR 0xE4, CHR 0xB8,
     CHR 0xB2]))
         | Some action \<Rightarrow>
             if action = ''list'' then Some (st, Out (handleSkillList ks r a))
             else if action = ''info'' then Some (st, handleSkillInfo (sx_fmt sx) dur r a)
             else if action = ''execute'' then handleSkillExecute sx dur r depth a (arg_confirmed a) st
             else Some (st, Err (([CHR 0xE6, CHR 0x9C, CHR 0xAA, CHR 0xE7, CHR 0x9F, CHR 0xA5, CHR 0xE6, CHR 0x93, CHR 0x8D,
     CHR 0xE4, CHR 0xBD, CHR 0x9C] @ '': '') @ action))))"

text \<open>
  Through the tool a skill that needs a confirmation runs nothing without one: the answer
  asks for it with the skill's name and the parameters given, and confirming these arguments runs the
  skill with the same parameters.
\<close>

theorem skill_tool_asks_first:
  assumes "skill_Get r name = Some s" and "sl_NeedConfirm s" and "name \<noteq> []"
    and "arg_string ''action'' a = Some ''execute''" and "arg_string ''name'' a = Some name"
    and "\<not> arg_confirmed a"
  shows "\<exists>a' reason. handleSkillTool sx dur ks (Some r) depth a st = Some (st, NeedConfirm ''skill'' a' reason) \<and>
    arg_string ''action'' a' = Some ''execute'' \<and> arg_string ''name'' a' = Some name \<and>
    nested_params a' = nested_params a"
proof -
  obtain c cs where n: "name = c # cs" using assms(3) by (cases name) auto
  have "arg_or_empty ''name'' a = c # cs" using assms(5) by (simp add: arg_or_empty_def n)
  then have "handleSkillExecute sx dur r depth a False st = Some (st, NeedConfirm ''skill''
      [''action'' \<mapsto> JStr ''execute'', ''name'' \<mapsto> JStr name,
       ''params'' \<mapsto> (case a ''params'' of Some (JObj kvs) \<Rightarrow> JObj kvs | _ \<Rightarrow> JNull)] (confirm_reason name))"
    using assms(1,2) by (simp add: handleSkillExecute_def n)
  moreover have "nested_params [''action'' \<mapsto> JStr ''execute'', ''name'' \<mapsto> JStr name,
      ''params'' \<mapsto> (case a ''params'' of Some (JObj kvs) \<Rightarrow> JObj kvs | _ \<Rightarrow> JNull)] = nested_params a"
    by (simp add: nested_params_def split: option.split json.split)
  ultimately show ?thesis
    using assms(4,6) by (simp add: handleSkillTool_def arg_string_def)
qed

definition tool_services :: "nat skill_services" where
  "tool_services = \<lparr>sx_template = (\<lambda>t _ _. Inr t), sx_fmt = (\<lambda>_. []), sx_errorf = (\<lambda>e. e), sx_order = (\<lambda>_. []),
     sx_clock = int, sx_cancelled = (\<lambda>_. None), sx_sleep = (\<lambda>_ w. w), sx_run = (\<lambda>_ _ w. (w, [], [], None))\<rparr>"

definition guarded_skill :: skill where
  "guarded_skill = \<lparr>sl_Name = ''wipe'', sl_Description = [], sl_Version = [], sl_Author = [], sl_Tags = [],
     sl_Parameters = [], sl_Steps = [], sl_Timeout = 0, sl_NeedConfirm = True\<rparr>"

theorem skill_tool_asks_first_witness:
  "\<exists>a' reason. handleSkillTool tool_services (\<lambda>_. []) [] (Some [''wipe'' \<mapsto> guarded_skill]) 1
     [''action'' \<mapsto> JStr ''execute'', ''name'' \<mapsto> JStr ''wipe''] (NewExecutor \<lparr>ma_world = 0, ma_log = []\<rparr>) =
     Some (NewExecutor \<lparr>ma_world = 0, ma_log = []\<rparr>, NeedConfirm ''skill'' a' reason)"
  using skill_tool_asks_first[of "[''wipe'' \<mapsto> guarded_skill]" "''wipe''" guarded_skill
      "[''action'' \<mapsto> JStr ''execute'', ''name'' \<mapsto> JStr ''wipe'']" tool_services "\<lambda>_. []" "[]" 1
      "NewExecutor \<lparr>ma_world = 0, ma_log = []\<rparr>"]
  by (auto simp: skill_Get_def guarded_skill_def arg_string_def arg_confirmed_def)

end
