(* ===== verification/Owl_Scheduler.thy ===== *)
theory Owl_Scheduler
  imports Owl_Json Owl_Interfaces Owl_SkillRun
begin

text \<open>
  \<open>internal/scheduler\<close>: scheduled tasks, their store, and workflows. The cron library parses a schedule
  and gives an entry its next time (\<open>valid_schedule\<close>, \<open>next_run\<close>); its entries are the set of
  identifiers the scheduler added and did not remove. Tasks are executed by \<open>exec\<close> on a state of any
  type; the nil result that comes with an error is the empty result.
\<close>

subsection \<open>Tasks\<close>

abbreviation TaskStatusActive :: string where "TaskStatusActive \<equiv> ''active''"
abbreviation TaskStatusPaused :: string where "TaskStatusPaused \<equiv> ''paused''"
abbreviation TaskStatusDisabled :: string where "TaskStatusDisabled \<equiv> ''disabled''"

record task_config =
  tk_SkillName :: string
  tk_SkillParams :: "string \<rightharpoonup> json"
  tk_Command :: string
  tk_WorkflowID :: string
  tk_Timeout :: duration
  tk_RetryCount :: int
  tk_RetryDelay :: duration
  tk_NotifyOnFail :: bool
  tk_NotifyUser :: string

record scheduled_task =
  st_ID :: string
  st_Name :: string
  st_Description :: string
  st_Schedule :: string
  st_Type :: string
  st_Config :: task_config
  st_Status :: string
  st_Tags :: "string list"
  st_EntryID :: nat
  st_LastRun :: gotime
  st_NextRun :: gotime
  st_RunCount :: int
  st_FailCount :: int
  st_LastResult :: string
  st_LastError :: string

record task_result =
  tr_TaskID :: string
  tr_Success :: bool
  tr_Output :: string
  tr_Error :: string
  tr_StartTime :: gotime
  tr_EndTime :: gotime
  tr_Duration :: duration

text \<open>An execution returns a result or an error, and possibly a result with the error.\<close>

type_synonym execution = "task_result option \<times> string option"

subsection \<open>The store\<close>

text \<open>
  The tables \<open>scheduled_tasks\<close> and \<open>task_runs\<close>; deleting a task deletes its runs. The database is
  reachable. \<open>ts_slices\<close>: the driver converts between the column \<open>tags\<close> and a \<open>[]string\<close>; one
  that does not refuses the statements that pass it on (lib/pq 1.10.9, which the program is built
  with, wants \<open>pq.Array\<close> there). The configuration is stored as JSON: numbers come back as float64.
\<close>

record task_store =
  ts_tasks :: "scheduled_task list"
  ts_runs :: "(string \<times> task_result) list"
  ts_slices :: bool

definition stored :: "scheduled_task \<Rightarrow> scheduled_task" where
  "stored t = t\<lparr>st_EntryID := 0,
     st_Config := (st_Config t)\<lparr>tk_SkillParams := map_option json_back \<circ> tk_SkillParams (st_Config t)\<rparr>\<rparr>"

definition SaveTask :: "scheduled_task \<Rightarrow> task_store \<Rightarrow> task_store \<times> bool" where
  "SaveTask t s =
     (if \<not> ts_slices s then (s, False)
      else (s\<lparr>ts_tasks :=
              (if \<exists>row \<in> set (ts_tasks s). st_ID row = st_ID t
               then map (\<lambda>row. if st_ID row = st_ID t then stored t else row) (ts_tasks s)
               else ts_tasks s @ [stored t])\<rparr>, True))"

definition store_LoadTasks :: "task_store \<Rightarrow> scheduled_task list option" where
  "store_LoadTasks s = (if ts_slices s \<or> ts_tasks s = [] then Some (ts_tasks s) else None)"

definition DeleteTask :: "string \<Rightarrow> task_store \<Rightarrow> task_store" where
  "DeleteTask ident s = s\<lparr>ts_tasks := filter (\<lambda>row. st_ID row \<noteq> ident) (ts_tasks s),
     ts_runs := filter (\<lambda>(k, _). k \<noteq> ident) (ts_runs s)\<rparr>"

text \<open>A run of a task that is not in the table violates the foreign key.\<close>

definition SaveTaskRun :: "string \<Rightarrow> task_result option \<Rightarrow> task_store \<Rightarrow> task_store \<times> bool" where
  "SaveTaskRun ident res s =
     (case res of
        None \<Rightarrow> (s, True)
      | Some r \<Rightarrow>
          if \<exists>row \<in> set (ts_tasks s). st_ID row = ident
          then (s\<lparr>ts_runs := ts_runs s @ [(ident, r\<lparr>tr_Duration := tr_Duration r div Millisecond * Millisecond,
                                             tr_TaskID := ident\<rparr>)]\<rparr>, True)
          else (s, False))"

fun insert_newest :: "task_result \<Rightarrow> task_result list \<Rightarrow> task_result list" where
  "insert_newest r [] = [r]"
| "insert_newest r (x # xs) = (if tr_StartTime r > tr_StartTime x then r # x # xs else x # insert_newest r xs)"

definition newest_first :: "task_result list \<Rightarrow> task_result list" where
  "newest_first rs = fold insert_newest rs []"

definition GetTaskHistory :: "string \<Rightarrow> nat \<Rightarrow> task_store \<Rightarrow> task_result list" where
  "GetTaskHistory ident limit s = take limit (newest_first (map snd (filter (\<lambda>(k, _). k = ident) (ts_runs s))))"

subsection \<open>The scheduler\<close>

record scheduler =
  sd_tasks :: "string \<rightharpoonup> scheduled_task"
  sd_entries :: "nat set"
  sd_last :: nat
  sd_store :: "task_store option"

definition NewScheduler :: "task_store option \<Rightarrow> scheduler" where
  "NewScheduler store = \<lparr>sd_tasks = Map.empty, sd_entries = {}, sd_last = 0, sd_store = store\<rparr>"

definition AddTask :: "(string \<Rightarrow> string option) \<Rightarrow> scheduled_task \<Rightarrow> scheduler \<Rightarrow> scheduler \<times> string option" where
  "AddTask schedule_error task s =
     (if sd_tasks s (st_ID task) \<noteq> None then (s, Some (''task '' @ st_ID task @ '' already exists''))
      else case schedule_error (st_Schedule task) of
        Some e \<Rightarrow> (s, Some (''invalid schedule '' @ [CHR 0x22] @ st_Schedule task @ [CHR 0x22] @ '': '' @ e))
      | None \<Rightarrow>
          let entry = Suc (sd_last s);
              t = task\<lparr>st_EntryID := entry, st_Status := TaskStatusActive\<rparr>
          in (s\<lparr>sd_tasks := (sd_tasks s)(st_ID task \<mapsto> t), sd_entries := insert entry (sd_entries s),
                sd_last := entry, sd_store := map_option (\<lambda>st. fst (SaveTask t st)) (sd_store s)\<rparr>, None))"

definition RemoveTask :: "string \<Rightarrow> scheduler \<Rightarrow> scheduler \<times> string option" where
  "RemoveTask ident s =
     (case sd_tasks s ident of
        None \<Rightarrow> (s, Some (''task '' @ ident @ '' not found''))
      | Some t \<Rightarrow>
          (s\<lparr>sd_tasks := (sd_tasks s)(ident := None), sd_entries := sd_entries s - {st_EntryID t},
             sd_store := map_option (DeleteTask ident) (sd_store s)\<rparr>, None))"

definition GetTask :: "string \<Rightarrow> scheduler \<Rightarrow> scheduled_task option" where
  "GetTask ident s = sd_tasks s ident"

definition ListTasks :: "string list \<Rightarrow> scheduler \<Rightarrow> scheduled_task list" where
  "ListTasks ks s = range_values (sd_tasks s) ks"

text \<open>
  \<open>runTask\<close> works on the task it was scheduled with, without the lock; a task that was removed in the meantime is left out. An error is recorded, the
  \<open>Success\<close> of a result is not looked at; a run without an error and a result dereferences nil.
\<close>

definition record_run :: "gotime \<Rightarrow> gotime \<Rightarrow> execution \<Rightarrow> scheduled_task \<Rightarrow> scheduled_task go" where
  "record_run now nxt ex t0 =
     (let t = t0\<lparr>st_LastRun := now, st_RunCount := wrap64 (st_RunCount t0 + 1)\<rparr> in
      case ex of
        (_, Some e) \<Rightarrow> Inr (t\<lparr>st_LastError := e, st_FailCount := wrap64 (st_FailCount t + 1), st_NextRun := nxt\<rparr>)
      | (Some r, None) \<Rightarrow> Inr (t\<lparr>st_LastError := [], st_LastResult := tr_Output r, st_NextRun := nxt\<rparr>)
      | (None, None) \<Rightarrow> Inl NilDeref)"

definition finish_run :: "gotime \<Rightarrow> gotime \<Rightarrow> execution \<Rightarrow> scheduled_task \<Rightarrow> scheduler \<Rightarrow> scheduler go" where
  "finish_run now nxt ex t s =
     (case record_run now nxt ex t of
        Inl p \<Rightarrow> Inl p
      | Inr t' \<Rightarrow>
          Inr (s\<lparr>sd_tasks := (sd_tasks s)(st_ID t \<mapsto> t'),
                 sd_store := map_option (\<lambda>st. fst (SaveTaskRun (st_ID t) (fst ex) st)) (sd_store s)\<rparr>))"

definition runTask ::
  "(scheduled_task \<Rightarrow> 'w \<Rightarrow> 'w \<times> execution) \<Rightarrow> (nat \<Rightarrow> 'w \<Rightarrow> gotime) \<Rightarrow> gotime \<Rightarrow> scheduled_task \<Rightarrow> scheduler \<Rightarrow> 'w \<Rightarrow>
   (scheduler \<times> 'w) go" where
  "runTask exec next_run now t s w =
     (let (w', ex) = exec (t\<lparr>st_LastRun := now, st_RunCount := wrap64 (st_RunCount t + 1)\<rparr>) w
      in map_sum id (\<lambda>s'. (s', w')) (finish_run now (next_run (st_EntryID t) w') ex t s))"

fun load_each :: "(string \<Rightarrow> string option) \<Rightarrow> scheduled_task list \<Rightarrow> scheduler \<Rightarrow> scheduler" where
  "load_each schedule_error [] s = s"
| "load_each schedule_error (t # ts) s =
     load_each schedule_error ts
       (if st_Status t = TaskStatusActive then fst (AddTask schedule_error t s) else s)"

text \<open>The second component: whether the tasks could be read.\<close>

definition LoadTasks :: "(string \<Rightarrow> string option) \<Rightarrow> scheduler \<Rightarrow> scheduler \<times> bool" where
  "LoadTasks schedule_error s =
     (case sd_store s of
        None \<Rightarrow> (s, True)
      | Some st \<Rightarrow>
          (case store_LoadTasks st of None \<Rightarrow> (s, False) | Some ts \<Rightarrow> (load_each schedule_error ts s, True)))"

text \<open>The tasks of the configuration, which the program adds before it starts the scheduler.\<close>

record task_settings =
  ge_ID :: string
  ge_Name :: string
  ge_Description :: string
  ge_Schedule :: string
  ge_Type :: string
  ge_SkillName :: string
  ge_SkillParams :: "string \<rightharpoonup> json"
  ge_Command :: string
  ge_Enabled :: bool

definition configured_task :: "task_settings \<Rightarrow> scheduled_task" where
  "configured_task c = \<lparr>st_ID = ge_ID c, st_Name = ge_Name c, st_Description = ge_Description c,
     st_Schedule = ge_Schedule c, st_Type = ge_Type c,
     st_Config = \<lparr>tk_SkillName = ge_SkillName c, tk_SkillParams = ge_SkillParams c, tk_Command = ge_Command c,
       tk_WorkflowID = [], tk_Timeout = 0, tk_RetryCount = 0, tk_RetryDelay = 0, tk_NotifyOnFail = False,
       tk_NotifyUser = []\<rparr>,
     st_Status = TaskStatusActive, st_Tags = [], st_EntryID = 0, st_LastRun = zero_time, st_NextRun = zero_time,
     st_RunCount = 0, st_FailCount = 0, st_LastResult = [], st_LastError = []\<rparr>"

definition add_configured :: "(string \<Rightarrow> string option) \<Rightarrow> task_settings list \<Rightarrow> scheduler \<Rightarrow> scheduler" where
  "add_configured schedule_error cs s =
     fold (\<lambda>c s. if ge_Enabled c then fst (AddTask schedule_error (configured_task c) s) else s) cs s"

subsection \<open>Workflows\<close>

record workflow_step =
  wp_ID :: string
  wp_Name :: string
  wp_Type :: string
  wp_Config :: task_config
  wp_DependsOn :: "string list"
  wp_Condition :: string
  wp_OnError :: string

record workflow =
  wf_ID :: string
  wf_Name :: string
  wf_Description :: string
  wf_Steps :: "workflow_step list"
  wf_OnError :: string
  wf_Timeout :: duration

record workflow_step_result =
  wr_StepID :: string
  wr_Success :: bool
  wr_Output :: string
  wr_Error :: string
  wr_Skipped :: bool
  wr_Duration :: duration

record workflow_result =
  wx_WorkflowID :: string
  wx_Success :: bool
  wx_Steps :: "workflow_step_result list"
  wx_StartTime :: gotime
  wx_EndTime :: gotime
  wx_Error :: string

type_synonym workflows = "string \<rightharpoonup> workflow"

definition workflow_Register :: "workflow \<Rightarrow> workflows \<Rightarrow> workflows" where
  "workflow_Register w e = e(wf_ID w \<mapsto> w)"

definition workflow_Get :: "workflows \<Rightarrow> string \<Rightarrow> workflow option" where
  "workflow_Get e ident = e ident"

definition skipped_step :: "string \<Rightarrow> workflow_step_result" where
  "skipped_step ident = \<lparr>wr_StepID = ident, wr_Success = False, wr_Output = [], wr_Error = [], wr_Skipped = True,
     wr_Duration = 0\<rparr>"

text \<open>
  The dependencies of a step in order. \<open>done\<close> holds the results so far, by step; a missing one ends
  the workflow (\<open>Inl\<close> its name). For a failed one a skipped result is added, and the loop goes on to
  the next dependency.
\<close>

fun check_deps ::
  "(string \<rightharpoonup> workflow_step_result) \<Rightarrow> string \<Rightarrow> string list \<Rightarrow> workflow_step_result list \<Rightarrow>
   workflow_step_result list \<times> string option" where
  "check_deps finished ident [] acc = (acc, None)"
| "check_deps finished ident (dep # deps) acc =
     (case finished dep of
        None \<Rightarrow> (acc, Some dep)
      | Some r \<Rightarrow> check_deps finished ident deps (if wr_Success r then acc else acc @ [skipped_step ident]))"

definition step_task :: "workflow_step \<Rightarrow> scheduled_task" where
  "step_task step = \<lparr>st_ID = wp_ID step, st_Name = wp_Name step, st_Description = [], st_Schedule = [],
     st_Type = wp_Type step, st_Config = wp_Config step, st_Status = [], st_Tags = [], st_EntryID = 0,
     st_LastRun = zero_time, st_NextRun = zero_time, st_RunCount = 0, st_FailCount = 0, st_LastResult = [],
     st_LastError = []\<rparr>"

definition workflow_step_outcome :: "string \<Rightarrow> duration \<Rightarrow> execution \<Rightarrow> workflow_step_result go" where
  "workflow_step_outcome ident took ex =
     (case ex of
        (_, Some e) \<Rightarrow> Inr \<lparr>wr_StepID = ident, wr_Success = False, wr_Output = [], wr_Error = e, wr_Skipped = False,
                         wr_Duration = took\<rparr>
      | (Some r, None) \<Rightarrow> Inr \<lparr>wr_StepID = ident, wr_Success = tr_Success r, wr_Output = tr_Output r,
                         wr_Error = (if tr_Success r then [] else tr_Error r), wr_Skipped = False, wr_Duration = took\<rparr>
      | (None, None) \<Rightarrow> Inl NilDeref)"

definition workflow_executeStep ::
  "(scheduled_task \<Rightarrow> 'w \<Rightarrow> 'w \<times> execution) \<Rightarrow> ('w \<Rightarrow> gotime) \<Rightarrow> workflow_step \<Rightarrow> 'w \<Rightarrow> 'w \<times> workflow_step_result go" where
  "workflow_executeStep exec clock step w =
     (let (w', ex) = exec (step_task step) w
      in (w', workflow_step_outcome (wp_ID step) (time_sub (clock w') (clock w)) ex))"

definition stops_on :: "workflow \<Rightarrow> workflow_step \<Rightarrow> bool" where
  "stops_on flow step \<longleftrightarrow> wp_OnError step = ''stop'' \<or> wp_OnError step = [] \<and> wf_OnError flow = ''stop''"

text \<open>The steps in order: the results and, if the workflow did not get to its end, its error.\<close>

fun workflow_steps ::
  "(scheduled_task \<Rightarrow> 'w \<Rightarrow> 'w \<times> execution) \<Rightarrow> ('w \<Rightarrow> gotime) \<Rightarrow> workflow \<Rightarrow> workflow_step list \<Rightarrow>
   (string \<rightharpoonup> workflow_step_result) \<Rightarrow> workflow_step_result list \<Rightarrow> 'w \<Rightarrow>
   'w \<times> (workflow_step_result list \<times> string option) go" where
  "workflow_steps exec clock flow [] finished acc w = (w, Inr (acc, None))"
| "workflow_steps exec clock flow (step # steps) finished acc w =
     (case check_deps finished (wp_ID step) (wp_DependsOn step) acc of
        (acc1, Some dep) \<Rightarrow>
          (w, Inr (acc1, Some (''step '' @ wp_ID step @ '' depends on incomplete step '' @ dep)))
      | (acc1, None) \<Rightarrow>
          (case workflow_executeStep exec clock step w of
             (w1, Inl p) \<Rightarrow> (w1, Inl p)
           | (w1, Inr r) \<Rightarrow>
               if \<not> wr_Success r \<and> stops_on flow step
               then (w1, Inr (acc1 @ [r], Some (''step '' @ wp_ID step @ '' failed: '' @ wr_Error r)))
               else workflow_steps exec clock flow steps (finished(wp_ID step \<mapsto> r)) (acc1 @ [r]) w1))"

definition workflow_Execute ::
  "(scheduled_task \<Rightarrow> 'w \<Rightarrow> 'w \<times> execution) \<Rightarrow> ('w \<Rightarrow> gotime) \<Rightarrow> workflows \<Rightarrow> string \<Rightarrow> 'w \<Rightarrow>
   'w \<times> (string + workflow_result) go" where
  "workflow_Execute exec clock e ident w =
     (case e ident of
        None \<Rightarrow> (w, Inr (Inl (''workflow '' @ ident @ '' not found'')))
      | Some flow \<Rightarrow>
          (case workflow_steps exec clock flow (wf_Steps flow) Map.empty [] w of
             (w1, Inl p) \<Rightarrow> (w1, Inl p)
           | (w1, Inr (rs, err)) \<Rightarrow>
               (w1, Inr (Inr \<lparr>wx_WorkflowID = ident, wx_Success = (err = None), wx_Steps = rs, wx_StartTime = clock w,
                  wx_EndTime = clock w1, wx_Error = (case err of None \<Rightarrow> [] | Some e' \<Rightarrow> e')\<rparr>))))"

subsection \<open>The executor of scheduled tasks\<close>

text \<open>
  \<open>skillExecutorAdapter.ExecuteTask\<close> in \<open>cmd/serverowl/main.go\<close>. \<open>depth\<close> bounds the nesting of skills
  (\<open>None\<close>: the run did not end within it); \<open>manager\<close> is the registry of the manager, if there is one. The result is returned with the error.
\<close>

abbreviation TaskTypeSkill :: string where "TaskTypeSkill \<equiv> ''skill''"
abbreviation TaskTypeCommand :: string where "TaskTypeCommand \<equiv> ''command''"
abbreviation TaskTypeWorkflow :: string where "TaskTypeWorkflow \<equiv> ''workflow''"

definition skill_task_outcome :: "string \<Rightarrow> string + skill_result \<times> string option \<Rightarrow> string + string" where
  "skill_task_outcome name r =
     (case r of
        Inl e \<Rightarrow> Inl e
      | Inr (_, Some e) \<Rightarrow> Inl e
      | Inr (res, None) \<Rightarrow>
          if kr_Success res then Inr (''Skill '' @ name @ '' completed successfully'')
          else Inl (''skill failed: '' @ kr_Error res))"

definition task_outcome ::
  "'w skill_services \<Rightarrow> skill_registry option \<Rightarrow> nat \<Rightarrow> scheduled_task \<Rightarrow> 'w skill_state \<Rightarrow>
   ('w skill_state \<times> (string + string)) option" where
  "task_outcome sx manager depth task st =
     (if st_Type task = TaskTypeSkill
      then (case manager of
              None \<Rightarrow> Some (st, Inl ''skill manager not available'')
            | Some r \<Rightarrow>
                let cfg = st_Config task in
                map_option (\<lambda>(st', x). (st', skill_task_outcome (tk_SkillName cfg) x))
                  (skill_Execute sx r depth (Some (sx_clock sx (kx_world st) + 5 * Minute)) (tk_SkillName cfg)
                     (tk_SkillParams cfg) st))
      else if st_Type task = TaskTypeCommand then Some (st, Inl ''command execution not implemented'')
      else if st_Type task = TaskTypeWorkflow then Some (st, Inl ''workflow execution not implemented'')
      else Some (st, Inl (''unknown task type: '' @ st_Type task)))"

definition ExecuteTask ::
  "'w skill_services \<Rightarrow> skill_registry option \<Rightarrow> nat \<Rightarrow> scheduled_task \<Rightarrow> 'w skill_state \<Rightarrow>
   ('w skill_state \<times> execution) option" where
  "ExecuteTask sx manager depth task st =
     map_option (\<lambda>(st', x).
       let began = sx_clock sx (kx_world st);
           ended = sx_clock sx (kx_world st');
           res = \<lparr>tr_TaskID = st_ID task, tr_Success = False, tr_Output = [], tr_Error = [], tr_StartTime = began,
                   tr_EndTime = ended, tr_Duration = time_sub ended began\<rparr>
       in (st', case x of
                  Inl e \<Rightarrow> (Some (res\<lparr>tr_Error := e\<rparr>), Some e)
                | Inr out \<Rightarrow> (Some (res\<lparr>tr_Success := True, tr_Output := out\<rparr>), None)))
     (task_outcome sx manager depth task st)"

end
