(* ===== verification/Owl_SchedProps.thy ===== *)
theory Owl_SchedProps
  imports Owl_Scheduler
begin

text \<open>
  The scheduler's state under every interleaving of its operations, what a restart keeps, how a
  workflow treats dependencies, and the executor of \<open>cmd/serverowl/main.go\<close> by which a task runs a skill.
\<close>

subsection \<open>The scheduler's entries\<close>

interpretation task_map: keyed_store_delete
  "\<lambda>s. sd_tasks s" "\<lambda>t s. s\<lparr>sd_tasks := (sd_tasks s)(st_ID t \<mapsto> t)\<rparr>" st_ID
  "\<lambda>k s. s\<lparr>sd_tasks := (sd_tasks s)(k := None)\<rparr>"
  by unfold_locales simp_all

interpretation workflow_map: keyed_store workflow_Get workflow_Register wf_ID
  by unfold_locales (auto simp: workflow_Get_def workflow_Register_def)

text \<open>One operation of the scheduler, with whatever the cron library and the tasks do.\<close>

inductive sched_step :: "scheduler \<Rightarrow> scheduler \<Rightarrow> bool" where
  add: "AddTask schedule_error task s = (s', err) \<Longrightarrow> sched_step s s'"
| remove: "RemoveTask ident s = (s', err) \<Longrightarrow> sched_step s s'"
| run: "sd_tasks s ident = Some t \<Longrightarrow> finish_run now nxt ex t s = Inr s' \<Longrightarrow> sched_step s s'"
| load: "LoadTasks schedule_error s = (s', ok) \<Longrightarrow> sched_step s s'"

inductive_cases sched_stepE: "sched_step s s'"

text \<open>The entry of each task, by identifier.\<close>

definition entry_map :: "scheduler \<Rightarrow> string \<rightharpoonup> nat" where
  "entry_map s k = map_option st_EntryID (sd_tasks s k)"

definition entries_ok :: "(string \<rightharpoonup> nat) \<Rightarrow> nat set \<Rightarrow> nat \<Rightarrow> bool" where
  "entries_ok em entries mx \<longleftrightarrow>
     (\<forall>k k' e. em k = Some e \<longrightarrow> em k' = Some e \<longrightarrow> k = k') \<and> entries = ran em \<and> (\<forall>e \<in> entries. e \<le> mx)"

definition sched_inv :: "scheduler \<Rightarrow> bool" where
  "sched_inv s \<longleftrightarrow> task_map.keyed s \<and> entries_ok (entry_map s) (sd_entries s) (sd_last s)"

lemma entries_ok_add:
  assumes ok: "entries_ok em entries mx" and new: "em k = None"
  shows "entries_ok (em(k \<mapsto> Suc mx)) (insert (Suc mx) entries) (Suc mx)"
proof -
  have bound: "e \<le> mx" if "em k' = Some e" for k' e
    using ok that ranI[of em k' e] unfolding entries_ok_def by simp
  then have "em k' \<noteq> Some (Suc mx)" for k' using Suc_n_not_le_n by blast
  moreover have "k1 = k2" if "em k1 = Some e" "em k2 = Some e" for k1 k2 e
    using ok that unfolding entries_ok_def by simp
  ultimately have "k1 = k2" if "(em(k \<mapsto> Suc mx)) k1 = Some e" "(em(k \<mapsto> Suc mx)) k2 = Some e" for k1 k2 e
    using that by (metis fun_upd_other fun_upd_same)
  moreover have "insert (Suc mx) entries = ran (em(k \<mapsto> Suc mx))"
    using ok new by (simp add: entries_ok_def)
  moreover have "\<forall>e \<in> insert (Suc mx) entries. e \<le> Suc mx"
    using ok unfolding entries_ok_def by (simp add: le_SucI)
  ultimately show ?thesis unfolding entries_ok_def by blast
qed

lemma entries_ok_remove:
  assumes ok: "entries_ok em entries mx" and e: "em k = Some e"
  shows "entries_ok (em(k := None)) (entries - {e}) mx"
proof -
  have uniq: "k1 = k2" if "em k1 = Some x" "em k2 = Some x" for k1 k2 x
    using ok that unfolding entries_ok_def by simp
  have "k1 = k2" if "(em(k := None)) k1 = Some x" "(em(k := None)) k2 = Some x" for k1 k2 x
    using that uniq by (simp split: if_splits)
  moreover have "ran em - {e} = ran (em(k := None))"
  proof
    show "ran em - {e} \<subseteq> ran (em(k := None))"
    proof
      fix x assume "x \<in> ran em - {e}"
      then obtain a where a: "em a = Some x" "x \<noteq> e" by (auto simp: ran_def)
      then have "(em(k := None)) a = Some x" using e by auto
      then show "x \<in> ran (em(k := None))" by (rule ranI)
    qed
    show "ran (em(k := None)) \<subseteq> ran em - {e}"
    proof
      fix x assume "x \<in> ran (em(k := None))"
      then obtain a where a: "a \<noteq> k" "em a = Some x" by (auto simp: ran_def split: if_splits)
      then show "x \<in> ran em - {e}" using uniq e by (auto simp: ran_def)
    qed
  qed
  moreover have "entries = ran em" "\<forall>x \<in> entries - {e}. x \<le> mx" using ok unfolding entries_ok_def by auto
  ultimately show ?thesis unfolding entries_ok_def by blast
qed

lemma record_run_keys:
  "record_run now nxt ex t = Inr t' \<Longrightarrow> st_ID t' = st_ID t \<and> st_EntryID t' = st_EntryID t"
  by (auto simp: record_run_def Let_def split: prod.splits option.splits)

lemma AddTask_inv [owl_inv]:
  assumes "sched_inv s"
  shows "sched_inv (fst (AddTask schedule_error task s))"
proof (cases "sd_tasks s (st_ID task) \<noteq> None \<or> schedule_error (st_Schedule task) \<noteq> None")
  case True
  then show ?thesis using assms by (auto simp: AddTask_def)
next
  case False
  define t where "t = task\<lparr>st_EntryID := Suc (sd_last s), st_Status := TaskStatusActive\<rparr>"
  define s' where "s' = fst (AddTask schedule_error task s)"
  have s': "sd_tasks s' = (sd_tasks s)(st_ID task \<mapsto> t)" "sd_entries s' = insert (Suc (sd_last s)) (sd_entries s)"
    "sd_last s' = Suc (sd_last s)"
    using False by (simp_all add: s'_def AddTask_def Let_def t_def)
  have "entry_map s' = (entry_map s)(st_ID task \<mapsto> Suc (sd_last s))"
    by (rule ext) (simp add: entry_map_def s' t_def)
  moreover have "entry_map s (st_ID task) = None" using False by (simp add: entry_map_def)
  ultimately have "entries_ok (entry_map s') (sd_entries s') (sd_last s')"
    using assms entries_ok_add by (simp add: s' sched_inv_def)
  moreover have "task_map.keyed s'"
    using assms by (simp add: sched_inv_def task_map.keyed_def s' t_def)
  ultimately show ?thesis by (simp add: sched_inv_def s'_def)
qed

lemma RemoveTask_inv [owl_inv]:
  assumes "sched_inv s"
  shows "sched_inv (fst (RemoveTask ident s))"
proof (cases "sd_tasks s ident")
  case None
  then show ?thesis using assms by (simp add: RemoveTask_def)
next
  case (Some t)
  have "entry_map (fst (RemoveTask ident s)) = (entry_map s)(ident := None)"
    by (rule ext) (simp add: entry_map_def RemoveTask_def Some)
  moreover have "entry_map s ident = Some (st_EntryID t)" by (simp add: entry_map_def Some)
  ultimately have "entries_ok (entry_map (fst (RemoveTask ident s))) (sd_entries (fst (RemoveTask ident s)))
      (sd_last (fst (RemoveTask ident s)))"
    using assms entries_ok_remove by (simp add: RemoveTask_def Some sched_inv_def)
  moreover have "task_map.keyed (fst (RemoveTask ident s))"
    using assms by (simp add: sched_inv_def task_map.keyed_def RemoveTask_def Some)
  ultimately show ?thesis by (simp add: sched_inv_def)
qed

lemma finish_run_inv:
  assumes inv: "sched_inv s" and t: "sd_tasks s ident = Some t" and r: "finish_run now nxt ex t s = Inr s'"
  shows "sched_inv s'"
proof -
  have ident: "st_ID t = ident" using inv t by (simp add: sched_inv_def task_map.keyed_def)
  then obtain t' where t': "sd_tasks s' = (sd_tasks s)(ident \<mapsto> t')" "st_ID t' = st_ID t" "st_EntryID t' = st_EntryID t"
    and rest: "sd_entries s' = sd_entries s" "sd_last s' = sd_last s"
    using r by (auto simp: finish_run_def split: sum.splits dest: record_run_keys)
  have "entry_map s' = entry_map s" by (rule ext) (simp add: entry_map_def t' t)
  moreover have "task_map.keyed s'"
    using inv t' ident by (simp add: sched_inv_def task_map.keyed_def)
  ultimately show ?thesis using inv rest by (simp add: sched_inv_def)
qed

lemma load_each_inv: "sched_inv s \<Longrightarrow> sched_inv (load_each schedule_error ts s)"
  by (induction schedule_error ts s rule: load_each.induct) (auto simp: AddTask_inv)

lemma sched_step_inv: "sched_step s s' \<Longrightarrow> sched_inv s \<Longrightarrow> sched_inv s'"
proof (induction rule: sched_step.induct)
  case (add schedule_error task s s' err)
  then show ?case using AddTask_inv[of s schedule_error task] by simp
next
  case (remove ident s s' err)
  then show ?case using RemoveTask_inv[of s ident] by simp
next
  case (run s ident t now nxt ex s')
  then show ?case using finish_run_inv by blast
next
  case (load schedule_error s s' ok)
  then show ?case by (auto simp: LoadTasks_def load_each_inv split: option.splits)
qed

text \<open>
  Property C12: in every state the scheduler reaches, each task is stored under its identifier and has
  a cron entry of its own, and every cron entry belongs to a task: removing a task leaves no entry
  behind that would still run it.
\<close>

theorem scheduler_reachable_inv:
  assumes "sched_step\<^sup>*\<^sup>* (NewScheduler store) s"
  shows "(\<forall>k t. sd_tasks s k = Some t \<longrightarrow> st_ID t = k) \<and>
    bij_betw (\<lambda>k. st_EntryID (the (sd_tasks s k))) (dom (sd_tasks s)) (sd_entries s)"
proof -
  have inv: "sched_inv s"
    using assms
  proof (induction rule: rtranclp_induct)
    case base
    show ?case by (simp add: NewScheduler_def sched_inv_def task_map.keyed_def entries_ok_def entry_map_def ran_def)
  qed (rule sched_step_inv)
  have e: "entry_map s k = Some (st_EntryID (the (sd_tasks s k)))" if "k \<in> dom (sd_tasks s)" for k
    using that by (auto simp: entry_map_def)
  have "inj_on (\<lambda>k. st_EntryID (the (sd_tasks s k))) (dom (sd_tasks s))"
    using inv e unfolding sched_inv_def entries_ok_def inj_on_def by metis
  moreover have "(\<lambda>k. st_EntryID (the (sd_tasks s k))) ` dom (sd_tasks s) = ran (entry_map s)"
    by (force simp: ran_def entry_map_def image_def)
  ultimately show ?thesis
    using inv by (simp add: bij_betw_def sched_inv_def entries_ok_def task_map.keyed_def)
qed

subsection \<open>What a restart keeps\<close>

lemma SaveTaskRun_tasks [simp]:
  "ts_tasks (fst (SaveTaskRun ident res st)) = ts_tasks st"
  "ts_slices (fst (SaveTaskRun ident res st)) = ts_slices st"
  by (simp_all add: SaveTaskRun_def split: option.splits)

lemma SaveTaskRun_load [simp]: "store_LoadTasks (fst (SaveTaskRun ident res st)) = store_LoadTasks st"
  by (simp add: store_LoadTasks_def)

lemma finish_run_store:
  "finish_run now nxt ex t s = Inr s' \<Longrightarrow> map_option store_LoadTasks (sd_store s') = map_option store_LoadTasks (sd_store s)"
  by (auto simp: finish_run_def option.map_comp comp_def split: sum.splits)

lemma load_each_cong:
  "sd_tasks s1 = sd_tasks s2 \<Longrightarrow> sd_last s1 = sd_last s2 \<Longrightarrow>
   sd_tasks (load_each schedule_error ts s1) = sd_tasks (load_each schedule_error ts s2)"
proof (induction ts arbitrary: s1 s2)
  case (Cons t ts)
  show ?case
    unfolding load_each.simps
    by (rule Cons.IH) (use Cons.prems in \<open>simp_all add: AddTask_def Let_def split: option.splits\<close>)
qed simp

text \<open>
  A run of a task changes the counters, times and last error of the task in memory only:
  a scheduler that is started again from the store has the tasks it would have had without the run.
\<close>

theorem restart_forgets_runs:
  assumes "finish_run now nxt ex t s = Inr s'"
  shows "sd_tasks (fst (LoadTasks schedule_error (NewScheduler (sd_store s')))) =
    sd_tasks (fst (LoadTasks schedule_error (NewScheduler (sd_store s))))"
proof (cases "sd_store s")
  case None
  then show ?thesis using finish_run_store[OF assms] by simp
next
  case (Some st)
  then obtain st' where st': "sd_store s' = Some st'" "store_LoadTasks st' = store_LoadTasks st"
    using finish_run_store[OF assms] by auto
  have fresh: "sd_tasks (NewScheduler a) = sd_tasks (NewScheduler b)" "sd_last (NewScheduler a) = sd_last (NewScheduler b)"
    "sd_store (NewScheduler a) = a" for a b
    by (simp_all add: NewScheduler_def)
  show ?thesis
  proof (cases "store_LoadTasks st")
    case None
    then show ?thesis using fresh by (simp add: LoadTasks_def Some st')
  next
    case tasks: (Some ts)
    have "sd_tasks (load_each schedule_error ts (NewScheduler (Some st'))) =
        sd_tasks (load_each schedule_error ts (NewScheduler (Some st)))"
      by (rule load_each_cong) (rule fresh)+
    then show ?thesis by (simp add: LoadTasks_def Some st' tasks fresh)
  qed
qed

text \<open>With a driver that does not convert the tags nothing is ever stored.\<close>

definition nothing_stored :: task_store where
  "nothing_stored = \<lparr>ts_tasks = [], ts_runs = [], ts_slices = False\<rparr>"

lemma nothing_stored_ops [simp]:
  "SaveTask t nothing_stored = (nothing_stored, False)" "DeleteTask ident nothing_stored = nothing_stored"
  "fst (SaveTaskRun ident res nothing_stored) = nothing_stored"
  by (simp_all add: SaveTask_def DeleteTask_def SaveTaskRun_def nothing_stored_def split: option.splits)

lemma AddTask_nothing_stored:
  "sd_store s = Some nothing_stored \<Longrightarrow> sd_store (fst (AddTask schedule_error t s)) = Some nothing_stored"
  by (simp add: AddTask_def Let_def split: option.splits)

lemma load_each_nothing_stored:
  "sd_store s = Some nothing_stored \<Longrightarrow> sd_store (load_each schedule_error ts s) = Some nothing_stored"
  by (induction schedule_error ts s rule: load_each.induct) (auto simp: AddTask_nothing_stored)

lemma sched_step_nothing_stored:
  "sched_step s s' \<Longrightarrow> sd_store s = Some nothing_stored \<Longrightarrow> sd_store s' = Some nothing_stored"
proof (induction rule: sched_step.induct)
  case (add schedule_error task s s' err)
  then show ?case using AddTask_nothing_stored[of s schedule_error task] by simp
next
  case (remove ident s s' err)
  then show ?case by (auto simp: RemoveTask_def split: option.splits)
next
  case (run s ident t now nxt ex s')
  then show ?case by (auto simp: finish_run_def split: sum.splits)
next
  case (load schedule_error s s' ok)
  then show ?case by (auto simp: LoadTasks_def load_each_nothing_stored split: option.splits)
qed

text \<open>
  With a driver that does not convert a slice of strings the store is empty in every
  state the scheduler reaches: no task and, the runs referring to the tasks, no run is ever kept, so
  the history of every task is empty.
\<close>

theorem store_stays_empty:
  assumes "sched_step\<^sup>*\<^sup>* (NewScheduler (Some nothing_stored)) s"
  shows "sd_store s = Some nothing_stored \<and> GetTaskHistory ident limit nothing_stored = []"
proof -
  have "sd_store s = Some nothing_stored"
    using assms
  proof (induction rule: rtranclp_induct)
    case base
    show ?case by (simp add: NewScheduler_def)
  qed (rule sched_step_nothing_stored)
  then show ?thesis by (simp add: GetTaskHistory_def newest_first_def nothing_stored_def)
qed

subsection \<open>Workflows\<close>

definition not_skipped :: "workflow_step_result list \<Rightarrow> string list" where
  "not_skipped rs = map wr_StepID (filter (\<lambda>r. \<not> wr_Skipped r) rs)"

lemma not_skipped_append [simp]: "not_skipped (xs @ ys) = not_skipped xs @ not_skipped ys"
  by (simp add: not_skipped_def)

lemma check_deps_ok:
  "check_deps finished ident deps acc = (acc', None) \<Longrightarrow>
     not_skipped acc' = not_skipped acc \<and> set deps \<subseteq> dom finished"
  by (induction finished ident deps acc rule: check_deps.induct)
     (auto simp: not_skipped_def skipped_step_def split: option.splits if_splits)

lemma workflow_executeStep_id:
  "workflow_executeStep exec clock step w = (w', Inr r) \<Longrightarrow> wr_StepID r = wp_ID step \<and> \<not> wr_Skipped r"
  by (auto simp: workflow_executeStep_def workflow_step_outcome_def Let_def split: prod.splits option.splits)

definition deps_met :: "string set \<Rightarrow> workflow_step list \<Rightarrow> bool" where
  "deps_met sofar steps \<longleftrightarrow>
     (\<forall>i < length steps. set (wp_DependsOn (steps ! i)) \<subseteq> sofar \<union> wp_ID ` set (take i steps))"

lemma deps_met_Cons [simp]:
  "deps_met sofar (step # steps) \<longleftrightarrow> set (wp_DependsOn step) \<subseteq> sofar \<and> deps_met (insert (wp_ID step) sofar) steps"
  by (auto simp: deps_met_def All_less_Suc2)

lemma workflow_steps_complete:
  "workflow_steps exec clock flow steps finished acc w = (w', Inr (rs, None)) \<Longrightarrow>
     not_skipped rs = not_skipped acc @ map wp_ID steps \<and> deps_met (dom finished) steps"
proof (induction steps arbitrary: finished acc w)
  case Nil
  then show ?case by (simp add: deps_met_def)
next
  case (Cons step steps)
  obtain acc1 where d: "check_deps finished (wp_ID step) (wp_DependsOn step) acc = (acc1, None)"
    using Cons.prems by (auto split: prod.splits option.splits)
  obtain w1 r where e: "workflow_executeStep exec clock step w = (w1, Inr r)"
    and rest: "workflow_steps exec clock flow steps (finished(wp_ID step \<mapsto> r)) (acc1 @ [r]) w1 = (w', Inr (rs, None))"
    using Cons.prems d by (auto split: prod.splits sum.splits if_splits)
  have "not_skipped [r] = [wp_ID step]" using workflow_executeStep_id[OF e] by (simp add: not_skipped_def)
  moreover have "dom (finished(wp_ID step \<mapsto> r)) = insert (wp_ID step) (dom finished)" by simp
  ultimately show ?case
    using Cons.IH[OF rest] check_deps_ok[OF d] by (simp del: fun_upd_apply)
qed

text \<open>
  A workflow that ends successfully has executed each of its steps exactly once and in
  order, also the steps whose dependencies failed (the skipped results only come on top), and every
  dependency of a step is a step before it.
\<close>

theorem workflow_runs_every_step:
  assumes "e ident = Some flow" and "workflow_Execute exec clock e ident w = (w', Inr (Inr r))" and "wx_Success r"
  shows "map wr_StepID (filter (\<lambda>x. \<not> wr_Skipped x) (wx_Steps r)) = map wp_ID (wf_Steps flow) \<and>
    (\<forall>i < length (wf_Steps flow). set (wp_DependsOn (wf_Steps flow ! i)) \<subseteq> wp_ID ` set (take i (wf_Steps flow)))"
proof -
  obtain rs where "workflow_steps exec clock flow (wf_Steps flow) Map.empty [] w = (w', Inr (rs, None))" "wx_Steps r = rs"
    using assms by (auto simp: workflow_Execute_def split: prod.splits sum.splits)
  then show ?thesis
    using workflow_steps_complete[of exec clock flow "wf_Steps flow" Map.empty "[]" w w' rs]
    by (simp add: not_skipped_def deps_met_def)
qed

subsection \<open>Scheduled tasks in the assistant\<close>

lemma task_outcome_other:
  "st_Type task \<noteq> TaskTypeSkill \<Longrightarrow> \<exists>e. task_outcome sx manager depth task st = Some (st, Inl e)"
  unfolding task_outcome_def by simp

lemma task_outcome_skill:
  assumes "st_Type task = TaskTypeSkill" and "task_outcome sx manager depth task st = Some (st', Inr out)"
  shows "\<exists>reg res. manager = Some reg \<and>
    skill_Execute sx reg depth (Some (sx_clock sx (kx_world st) + 5 * Minute)) (tk_SkillName (st_Config task))
      (tk_SkillParams (st_Config task)) st = Some (st', Inr (res, None)) \<and> kr_Success res"
proof (cases manager)
  case None
  then show ?thesis using assms unfolding task_outcome_def by simp
next
  case (Some reg)
  obtain y where y: "skill_Execute sx reg depth (Some (sx_clock sx (kx_world st) + 5 * Minute))
      (tk_SkillName (st_Config task)) (tk_SkillParams (st_Config task)) st = Some (st', y)"
    "skill_task_outcome (tk_SkillName (st_Config task)) y = Inr out"
    using assms unfolding task_outcome_def Some Let_def by (simp only: if_P option.case) (auto simp: map_option_eq_Some)
  have "\<exists>res. y = Inr (res, None) \<and> kr_Success res"
    using y(2) unfolding skill_task_outcome_def by (cases y) (auto split: option.splits if_splits prod.splits)
  then show ?thesis using Some y(1) by blast
qed

lemma ExecuteTask_outcome:
  assumes "ExecuteTask sx manager depth task st = Some (st', ex)"
  obtains x where "task_outcome sx manager depth task st = Some (st', x)" "snd ex = None \<longleftrightarrow> \<not> isl x"
proof (cases "task_outcome sx manager depth task st")
  case None
  then show ?thesis using assms by (simp add: ExecuteTask_def)
next
  case (Some p)
  then show ?thesis using assms that by (cases p; cases "snd p") (auto simp: ExecuteTask_def Let_def)
qed

text \<open>
  Of the kinds of tasks only skills are carried out: a task of any other kind ends with
  an error and changes nothing, and a task that ends without an error ran its skill to the end.
\<close>

theorem only_skill_tasks_run:
  assumes "ExecuteTask sx manager depth task st = Some (st', ex)"
  shows "(st_Type task \<noteq> TaskTypeSkill \<longrightarrow> st' = st \<and> snd ex \<noteq> None) \<and>
    (snd ex = None \<longrightarrow> (\<exists>reg res. manager = Some reg \<and>
       skill_Execute sx reg depth (Some (sx_clock sx (kx_world st) + 5 * Minute)) (tk_SkillName (st_Config task))
         (tk_SkillParams (st_Config task)) st = Some (st', Inr (res, None)) \<and> kr_Success res))"
proof -
  obtain x where x: "task_outcome sx manager depth task st = Some (st', x)" "snd ex = None \<longleftrightarrow> \<not> isl x"
    by (rule ExecuteTask_outcome[OF assms])
  show ?thesis
  proof (cases "st_Type task = TaskTypeSkill")
    case False
    then have "st' = st" "isl x" using x(1) task_outcome_other[of task sx manager depth st] by auto
    then show ?thesis using False x(2) by blast
  next
    case True
    show ?thesis
    proof (cases x)
      case (Inr out)
      then show ?thesis using True task_outcome_skill[OF True] x(1) by blast
    qed (use True x(2) in auto)
  qed
qed

subsection \<open>Examples\<close>

definition nightly :: scheduled_task where
  "nightly = step_task \<lparr>wp_ID = ''n'', wp_Name = ''nightly'', wp_Type = TaskTypeCommand,
     wp_Config = \<lparr>tk_SkillName = [], tk_SkillParams = Map.empty, tk_Command = ''df'', tk_WorkflowID = [],
       tk_Timeout = 0, tk_RetryCount = 0, tk_RetryDelay = 0, tk_NotifyOnFail = False, tk_NotifyUser = []\<rparr>,
     wp_DependsOn = [], wp_Condition = [], wp_OnError = []\<rparr>"

definition after_add :: scheduler where
  "after_add = fst (AddTask (\<lambda>_. None) nightly (NewScheduler (Some \<lparr>ts_tasks = [], ts_runs = [], ts_slices = True\<rparr>)))"

theorem scheduler_reachable_inv_witness:
  "bij_betw (\<lambda>k. st_EntryID (the (sd_tasks after_add k))) (dom (sd_tasks after_add)) (sd_entries after_add)"
proof (rule conjunct2[OF scheduler_reachable_inv])
  show "sched_step\<^sup>*\<^sup>* (NewScheduler (Some \<lparr>ts_tasks = [], ts_runs = [], ts_slices = True\<rparr>)) after_add"
    by (rule r_into_rtranclp, rule sched_step.add[where schedule_error = "\<lambda>_. None" and task = nightly])
       (simp add: after_add_def prod_eq_iff)
qed

theorem store_stays_empty_witness:
  "sd_store (fst (AddTask (\<lambda>_. None) nightly (NewScheduler (Some nothing_stored)))) = Some nothing_stored"
proof -
  have "sched_step\<^sup>*\<^sup>* (NewScheduler (Some nothing_stored)) (fst (AddTask (\<lambda>_. None) nightly (NewScheduler (Some nothing_stored))))"
    by (rule r_into_rtranclp, rule sched_step.add[where schedule_error = "\<lambda>_. None" and task = nightly])
       (simp add: prod_eq_iff)
  from conjunct1[OF store_stays_empty[OF this]] show ?thesis .
qed

definition after_run :: "scheduler go" where
  "after_run = finish_run 7 9 (None, Some ''timeout'') nightly after_add"

theorem restart_forgets_runs_witness:
  "sd_tasks (fst (LoadTasks (\<lambda>_. None) (NewScheduler (sd_store (projr after_run))))) =
   sd_tasks (fst (LoadTasks (\<lambda>_. None) (NewScheduler (sd_store after_add))))"
proof (rule restart_forgets_runs)
  show "finish_run 7 9 (None, Some ''timeout'') nightly after_add = Inr (projr after_run)"
    by (simp add: after_run_def finish_run_def record_run_def Let_def)
qed

definition plain_step :: "string \<Rightarrow> string list \<Rightarrow> workflow_step" where
  "plain_step ident deps = \<lparr>wp_ID = ident, wp_Name = ident, wp_Type = TaskTypeSkill, wp_Config = st_Config nightly,
     wp_DependsOn = deps, wp_Condition = [], wp_OnError = ''continue''\<rparr>"

definition two_steps :: workflow where
  "two_steps = \<lparr>wf_ID = ''w'', wf_Name = ''w'', wf_Description = [], wf_Steps = [plain_step ''a'' [], plain_step ''b'' [''a'']],
     wf_OnError = [], wf_Timeout = 0\<rparr>"

text \<open>Every execution fails, and its identifier is noted.\<close>

definition always_fails :: "scheduled_task \<Rightarrow> string list \<Rightarrow> string list \<times> execution" where
  "always_fails t w = (w @ [st_ID t], (None, Some ''failed''))"

definition two_steps_result :: workflow_result where
  "two_steps_result = \<lparr>wx_WorkflowID = ''w'', wx_Success = True,
     wx_Steps = [\<lparr>wr_StepID = ''a'', wr_Success = False, wr_Output = [], wr_Error = ''failed'', wr_Skipped = False, wr_Duration = 0\<rparr>,
       skipped_step ''b'',
       \<lparr>wr_StepID = ''b'', wr_Success = False, wr_Output = [], wr_Error = ''failed'', wr_Skipped = False, wr_Duration = 0\<rparr>],
     wx_StartTime = 0, wx_EndTime = 0, wx_Error = []\<rparr>"

lemma two_steps_run:
  "workflow_Execute always_fails (\<lambda>_. 0) [''w'' \<mapsto> two_steps] ''w'' [] = ([''a'', ''b''], Inr (Inr two_steps_result))"
  by (simp add: workflow_Execute_def two_steps_def plain_step_def two_steps_result_def workflow_executeStep_def
      workflow_step_outcome_def always_fails_def step_task_def time_sub_def min_int64_def max_int64_def skipped_step_def stops_on_def)

theorem workflow_runs_every_step_witness:
  "map wr_StepID (filter (\<lambda>x. \<not> wr_Skipped x) (wx_Steps two_steps_result)) = map wp_ID (wf_Steps two_steps)"
  using workflow_runs_every_step[OF _ two_steps_run, of two_steps] by (simp add: two_steps_result_def)

theorem only_skill_tasks_run_witness:
  fixes sx :: "nat skill_services"
  defines "sx \<equiv> \<lparr>sx_template = \<lambda>t _ _. Inr t, sx_fmt = \<lambda>_. [], sx_errorf = \<lambda>t. t, sx_order = \<lambda>_. [],
     sx_clock = int, sx_cancelled = \<lambda>_. None, sx_sleep = \<lambda>_ w. w, sx_run = \<lambda>_ _ w. (w, [], [], None)\<rparr>"
  shows "snd (snd (the (ExecuteTask sx None 3 nightly (NewExecutor \<lparr>ma_world = 0, ma_log = []\<rparr>)))) \<noteq> None"
proof -
  obtain st' ex where e: "ExecuteTask sx None 3 nightly (NewExecutor \<lparr>ma_world = 0, ma_log = []\<rparr>) = Some (st', ex)"
    by (simp add: ExecuteTask_def task_outcome_def nightly_def step_task_def Let_def)
  show ?thesis
    using conjunct1[OF only_skill_tasks_run[OF e]] e by (simp add: nightly_def step_task_def)
qed

end
