(* ===== verification/Owl_Memory.thy ===== *)
theory Owl_Memory
  imports Owl_Executor
begin

text \<open>
  \<open>internal/memory\<close>: the tasks of the working memory (\<open>working.go\<close>), the episodes and the knowledge of
  the long-term memory with their semantic search (\<open>longterm.go\<close>, \<open>embedding.go\<close>), and the parts of
  \<open>manager.go\<close> that join them. The tables are lists of rows in the order of insertion; the database is
  reachable, a statement fails only for what it says. Where rows are equal for an ORDER BY, SQL leaves
  the order open; here it is the order of insertion. JSON columns hold what a value becomes when it is
  stored and read back. Identifiers are what \<open>uuid.New\<close> gives; vectors are lists, and their cosine
  distance is a parameter.
\<close>

subsection \<open>Working memory\<close>

record task_state =
  wt_ID :: string
  wt_SessionID :: string
  wt_UserID :: string
  wt_OriginalRequest :: string
  wt_Summary :: string
  wt_Steps :: "task_step list"
  wt_CurrentStep :: int
  wt_Context :: "string \<rightharpoonup> json"
  wt_Status :: string
  wt_StartedAt :: gotime
  wt_UpdatedAt :: gotime

type_synonym task_table = "task_state list"

definition map_back :: "args \<Rightarrow> args" where
  "map_back a = map_option json_back \<circ> a"

definition step_back :: "task_step \<Rightarrow> task_step" where
  "step_back s = s\<lparr>ts_Args := map_back (ts_Args s)\<rparr>"

definition StartTask ::
  "string \<Rightarrow> gotime \<Rightarrow> string \<Rightarrow> string \<Rightarrow> string \<Rightarrow> string \<Rightarrow> task_table \<Rightarrow> task_table \<times> (string + task_state)" where
  "StartTask uuid now sessionID userID request summary t =
     (let task = \<lparr>wt_ID = uuid, wt_SessionID = sessionID, wt_UserID = userID, wt_OriginalRequest = request,
                  wt_Summary = summary, wt_Steps = [], wt_CurrentStep = 0, wt_Context = Map.empty,
                  wt_Status = ''in_progress'', wt_StartedAt = now, wt_UpdatedAt = now\<rparr>
      in if \<exists>row \<in> set t. wt_ID row = uuid then (t, Inl (''failed to create task: '' @ duplicate_key))
         else (t @ [task], Inr task))"

definition working_GetTask :: "string \<Rightarrow> task_table \<Rightarrow> task_state option" where
  "working_GetTask ident t = find (\<lambda>row. wt_ID row = ident) t"

fun latest_started :: "task_state list \<Rightarrow> task_state option" where
  "latest_started [] = None"
| "latest_started (row # rows) =
     (case latest_started rows of
        None \<Rightarrow> Some row
      | Some r \<Rightarrow> if wt_StartedAt row \<ge> wt_StartedAt r then Some row else Some r)"

definition working_GetCurrentTask :: "string \<Rightarrow> task_table \<Rightarrow> task_state option" where
  "working_GetCurrentTask sessionID t =
     latest_started (filter (\<lambda>row. wt_SessionID row = sessionID \<and> wt_Status row = ''in_progress'') t)"

definition update_rows :: "string \<Rightarrow> (task_state \<Rightarrow> task_state) \<Rightarrow> task_table \<Rightarrow> task_table" where
  "update_rows ident f t = map (\<lambda>row. if wt_ID row = ident then f row else row) t"

definition AddStep :: "gotime \<Rightarrow> string \<Rightarrow> task_step \<Rightarrow> task_table \<Rightarrow> task_table \<times> string option" where
  "AddStep now taskID step t =
     (case working_GetTask taskID t of
        None \<Rightarrow> (t, Some (''task not found: '' @ taskID))
      | Some task \<Rightarrow>
          (update_rows taskID (\<lambda>row. row\<lparr>wt_Steps := wt_Steps task @ [step_back step], wt_UpdatedAt := now\<rparr>) t, None))"

definition UpdateStep :: "gotime \<Rightarrow> string \<Rightarrow> int \<Rightarrow> task_step \<Rightarrow> task_table \<Rightarrow> task_table \<times> string option" where
  "UpdateStep now taskID stepIndex step t =
     (case working_GetTask taskID t of
        None \<Rightarrow> (t, Some (''task not found: '' @ taskID))
      | Some task \<Rightarrow>
          if stepIndex < 0 \<or> stepIndex \<ge> int (length (wt_Steps task))
          then (t, Some (''step index out of range: '' @ show_int stepIndex))
          else (update_rows taskID (\<lambda>row. row\<lparr>wt_Steps := (wt_Steps task)[nat stepIndex := step_back step],
                  wt_CurrentStep := stepIndex, wt_UpdatedAt := now\<rparr>) t, None))"

definition working_CompleteTask :: "gotime \<Rightarrow> string \<Rightarrow> string \<Rightarrow> task_table \<Rightarrow> task_table" where
  "working_CompleteTask now taskID status t =
     update_rows taskID (\<lambda>row. row\<lparr>wt_Status := status, wt_UpdatedAt := now\<rparr>) t"

definition UpdateContext :: "gotime \<Rightarrow> string \<Rightarrow> (string \<rightharpoonup> json) \<Rightarrow> task_table \<Rightarrow> task_table" where
  "UpdateContext now taskID ctx t =
     update_rows taskID (\<lambda>row. row\<lparr>wt_Context := map_back ctx, wt_UpdatedAt := now\<rparr>) t"

subsection \<open>The embedding service\<close>

text \<open>An HTTP reply: an error of the transport, or the status, the body and what the body decodes to.\<close>

type_synonym 'a reply = "string + int \<times> string \<times> (string + 'a)"

type_synonym vector = "real list"

record embed_data =
  ed_Vectors :: "vector list"
  ed_Error :: "string option"

record rerank_data =
  rd_Indices :: "int list"
  rd_Error :: "string option"

record 'w embedding_service =
  es_embed :: "string \<Rightarrow> 'w \<Rightarrow> 'w \<times> embed_data reply"
  es_rerank :: "string \<Rightarrow> string list \<Rightarrow> 'w \<Rightarrow> 'w \<times> rerank_data reply"
  es_distance :: "vector \<Rightarrow> vector \<Rightarrow> real"

definition api_error :: "int \<Rightarrow> string \<Rightarrow> string" where
  "api_error status body = ''API error (status '' @ show_int status @ ''): '' @ body"

definition read_reply :: "'a reply \<Rightarrow> string + 'a" where
  "read_reply r =
     (case r of
        Inl e \<Rightarrow> Inl (''failed to send request: '' @ e)
      | Inr (status, body, decoded) \<Rightarrow>
          if status < 200 \<or> status \<ge> 300 then Inl (api_error status body)
          else (case decoded of Inl e \<Rightarrow> Inl (''failed to unmarshal response: '' @ e) | Inr d \<Rightarrow> Inr d))"

definition Embed :: "'w embedding_service \<Rightarrow> string \<Rightarrow> 'w \<Rightarrow> 'w \<times> (string + vector)" where
  "Embed es txt w =
     (if txt = [] then (w, Inl ''empty text'')
      else let (w', r) = es_embed es txt w in
        (w', case read_reply r of
               Inl e \<Rightarrow> Inl e
             | Inr d \<Rightarrow>
                 (case ed_Error d of
                    Some e \<Rightarrow> Inl (''API error: '' @ e)
                  | None \<Rightarrow>
                      (case ed_Vectors d of
                         [] \<Rightarrow> Inl ''empty embedding in response''
                       | v # _ \<Rightarrow> if v = [] then Inl ''empty embedding in response'' else Inr v))))"

definition Rerank :: "'w embedding_service \<Rightarrow> string \<Rightarrow> string list \<Rightarrow> 'w \<Rightarrow> 'w \<times> (string + int list)" where
  "Rerank es query docs w =
     (if docs = [] then (w, Inr [])
      else let (w', r) = es_rerank es query docs w in
        (w', case read_reply r of
               Inl e \<Rightarrow> Inl e
             | Inr d \<Rightarrow> (case rd_Error d of Some e \<Rightarrow> Inl (''API error: '' @ e) | None \<Rightarrow> Inr (rd_Indices d))))"

subsection \<open>Episodes\<close>

text \<open>A row of \<open>episodes\<close>; \<open>er_Episode\<close> holds what the code that saves it fills in.\<close>

record episode_row =
  er_ID :: string
  er_Episode :: episode
  er_Embedding :: "vector option"
  er_AccessCount :: int
  er_LastAccessedAt :: "gotime option"
  er_Pinned :: bool
  er_Tags :: "string list"
  er_Consolidated :: "string option"
  er_CreatedAt :: gotime

type_synonym episode_table = "episode_row list"

definition episode_text :: "episode \<Rightarrow> string" where
  "episode_text ep =
     ep_TriggerSummary ep @ (if ep_OutcomeSummary ep \<noteq> [] then '' '' @ ep_OutcomeSummary ep else [])"

text \<open>The columns \<open>embedding\<close> have 1024 dimensions.\<close>

definition vector_error :: "vector option \<Rightarrow> string option" where
  "vector_error v =
     (case v of
        None \<Rightarrow> None
      | Some xs \<Rightarrow> if length xs = 1024 then None
                   else Some (''pq: expected 1024 dimensions, not '' @ show_nat (length xs)))"

text \<open>An episode without a number of accesses, pin, tags or vector of its own, as all callers save it.\<close>

definition SaveEpisode ::
  "'w embedding_service option \<Rightarrow> string \<Rightarrow> gotime \<Rightarrow> episode \<Rightarrow> episode_table \<Rightarrow> 'w \<Rightarrow>
   'w \<times> (string + episode_table)" where
  "SaveEpisode es uuid now ep t w =
     (let ep1 = (if ep_Importance ep = 0 then ep\<lparr>ep_Importance := 0.5\<rparr> else ep);
          (w', vec) = (case es of
                         None \<Rightarrow> (w, None)
                       | Some s \<Rightarrow> (case Embed s (episode_text ep1) w of
                                     (w', Inl _) \<Rightarrow> (w', None) | (w', Inr v) \<Rightarrow> (w', Some v)));
          row = \<lparr>er_ID = uuid, er_Episode = ep1\<lparr>ep_TaskSteps := map step_back (ep_TaskSteps ep1)\<rparr>, er_Embedding = vec,
                 er_AccessCount = 0, er_LastAccessedAt = None, er_Pinned = False, er_Tags = [],
                 er_Consolidated = None, er_CreatedAt = now\<rparr>
      in (w', case vector_error vec of
                Some e \<Rightarrow> Inl e
              | None \<Rightarrow> if \<exists>r \<in> set t. er_ID r = uuid then Inl duplicate_key else Inr (t @ [row])))"

text \<open>The rows nearest to a vector; one of another dimension cannot be compared with them.\<close>

definition nearest ::
  "(vector \<Rightarrow> vector \<Rightarrow> real) \<Rightarrow> vector \<Rightarrow> nat \<Rightarrow> ('r \<Rightarrow> vector option) \<Rightarrow> 'r list \<Rightarrow> string + 'r list" where
  "nearest df q limit vec t =
     (let rows = filter (\<lambda>r. vec r \<noteq> None) t in
      if rows \<noteq> [] \<and> length q \<noteq> 1024
      then Inl (''pq: different vector dimensions 1024 and '' @ show_nat (length q))
      else Inr (take limit (sort_key (\<lambda>r. df (the (vec r)) q) rows)))"

definition not_configured :: string where
  "not_configured = ''embedding service not configured''"

definition searchEpisodesByEmbedding ::
  "'w embedding_service option \<Rightarrow> string \<Rightarrow> nat \<Rightarrow> episode_table \<Rightarrow> 'w \<Rightarrow> 'w \<times> (string + episode_row list)" where
  "searchEpisodesByEmbedding es query limit t w =
     (case es of
        None \<Rightarrow> (w, Inl not_configured)
      | Some s \<Rightarrow>
          (case Embed s query w of
             (w', Inl e) \<Rightarrow> (w', Inl (''failed to embed query: '' @ e))
           | (w', Inr q) \<Rightarrow>
               (w', map_sum (\<lambda>e. ''failed to search episodes: '' @ e) id (nearest (es_distance s) q limit er_Embedding t))))"

definition IncrementAccessCount :: "gotime \<Rightarrow> string \<Rightarrow> episode_table \<Rightarrow> episode_table" where
  "IncrementAccessCount now ident t =
     map (\<lambda>r. if er_ID r = ident then r\<lparr>er_AccessCount := er_AccessCount r + 1, er_LastAccessedAt := Some now\<rparr> else r) t"

text \<open>
  The candidates named by the indices of the reranking service, at most \<open>limit\<close>; an index outside the
  candidates panics.
\<close>

fun pick_candidates :: "episode_row list \<Rightarrow> nat \<Rightarrow> int list \<Rightarrow> episode_row list go" where
  "pick_candidates cs 0 is = Inr []"
| "pick_candidates cs (Suc n) [] = Inr []"
| "pick_candidates cs (Suc n) (i # is) =
     (if 0 \<le> i \<and> i < int (length cs)
      then (case pick_candidates cs n is of Inl p \<Rightarrow> Inl p | Inr rs \<Rightarrow> Inr (cs ! nat i # rs))
      else Inl IndexRange)"

text \<open>The access counts are updated in the background; here at once, for the episodes returned.\<close>

definition SearchEpisodes ::
  "'w embedding_service option \<Rightarrow> gotime \<Rightarrow> string \<Rightarrow> nat \<Rightarrow> episode_table \<Rightarrow> 'w \<Rightarrow>
   'w \<times> (episode_table \<times> (string + episode_row list)) go" where
  "SearchEpisodes es now query limit t w =
     (case searchEpisodesByEmbedding es query (limit * 3) t w of
        (w1, Inl e) \<Rightarrow> (w1, Inr (t, Inl e))
      | (w1, Inr []) \<Rightarrow> (w1, Inr (t, Inr []))
      | (w1, Inr candidates) \<Rightarrow>
          (case Rerank (the es) query
                  (map (\<lambda>r. ep_TriggerSummary (er_Episode r) @ '' '' @ ep_OutcomeSummary (er_Episode r)) candidates) w1 of
             (w2, Inl _) \<Rightarrow> (w2, Inr (t, Inr (take limit candidates)))
           | (w2, Inr indices) \<Rightarrow>
               (w2, map_sum id (\<lambda>rs. (fold (\<lambda>r. IncrementAccessCount now (er_ID r)) rs t, Inr rs))
                      (pick_candidates candidates limit indices))))"

definition GetEpisode :: "string \<Rightarrow> episode_table \<Rightarrow> episode_row option" where
  "GetEpisode ident t = find (\<lambda>r. er_ID r = ident) t"

definition GetEpisodesByTarget :: "string \<Rightarrow> nat \<Rightarrow> episode_table \<Rightarrow> episode_row list" where
  "GetEpisodesByTarget target limit t =
     take limit (sort_key (\<lambda>r. - er_CreatedAt r) (filter (\<lambda>r. ep_Target (er_Episode r) = target) t))"

subsection \<open>Knowledge\<close>

record knowledge =
  kn_ID :: string
  kn_Topic :: string
  kn_Content :: string
  kn_KeyPoints :: "string list"
  kn_SourceEpisodes :: "string list"
  kn_Embedding :: "vector option"
  kn_Confidence :: real
  kn_AccessCount :: int
  kn_LastAccessedAt :: "gotime option"
  kn_CreatedAt :: gotime
  kn_UpdatedAt :: gotime

text \<open>
  The statement of \<open>SaveKnowledge\<close> names the placeholders \<open>$1\<close> to \<open>$9\<close> and \<open>$1\<close> again for its ten
  columns and is executed with ten arguments: it has nine parameters, and the driver refuses it.
\<close>

definition insert_knowledge_placeholders :: "nat list" where
  "insert_knowledge_placeholders = [1, 2, 3, 4, 5, 6, 7, 8, 9, 1]"

definition exec_insert :: "nat list \<Rightarrow> nat \<Rightarrow> 'r \<Rightarrow> 'r list \<Rightarrow> string + 'r list" where
  "exec_insert placeholders arguments row t =
     (let n = Max (insert 0 (set placeholders))
      in if n = arguments then Inr (t @ [row])
         else Inl (''pq: got '' @ show_nat arguments @ '' parameters but the statement requires '' @ show_nat n))"

definition SaveKnowledge ::
  "'w embedding_service option \<Rightarrow> gotime \<Rightarrow> knowledge \<Rightarrow> knowledge list \<Rightarrow> 'w \<Rightarrow> 'w \<times> (string + knowledge list)" where
  "SaveKnowledge es now k t w =
     (let k1 = k\<lparr>kn_CreatedAt := (if kn_CreatedAt k = zero_time then now else kn_CreatedAt k), kn_UpdatedAt := now\<rparr>;
          (w', vec) = (case es of
                         None \<Rightarrow> (w, kn_Embedding k1)
                       | Some s \<Rightarrow>
                           (case kn_Embedding k1 of
                              Some v \<Rightarrow> (w, Some v)
                            | None \<Rightarrow> (case Embed s (kn_Topic k1 @ '' '' @ kn_Content k1) w of
                                        (w', Inl _) \<Rightarrow> (w', None) | (w', Inr v) \<Rightarrow> (w', Some v))))
      in (w', exec_insert insert_knowledge_placeholders 10 (k1\<lparr>kn_Embedding := vec\<rparr>) t))"

text \<open>
  The array column \<open>source_episodes\<close> is read as JSON, which the text of an array is not: the field
  stays empty.
\<close>

definition SearchKnowledge ::
  "'w embedding_service option \<Rightarrow> string \<Rightarrow> nat \<Rightarrow> knowledge list \<Rightarrow> 'w \<Rightarrow> 'w \<times> (string + knowledge list)" where
  "SearchKnowledge es query limit t w =
     (case es of
        None \<Rightarrow> (w, Inl not_configured)
      | Some s \<Rightarrow>
          (case Embed s query w of
             (w', Inl e) \<Rightarrow> (w', Inl (''failed to embed query: '' @ e))
           | (w', Inr q) \<Rightarrow>
               (w', map_sum (\<lambda>e. ''failed to search knowledge: '' @ e) (map (\<lambda>k. k\<lparr>kn_SourceEpisodes := []\<rparr>))
                      (nearest (es_distance s) q limit kn_Embedding t))))"

subsection \<open>The manager\<close>

record memory =
  mm_tasks :: task_table
  mm_episodes :: episode_table
  mm_knowledge :: "knowledge list"
  mm_sessions :: sessions

fun container_target :: "task_step list \<Rightarrow> string" where
  "container_target [] = []"
| "container_target (step # steps) =
     (case (if ts_ToolName step = ''docker'' then arg_string ''container'' (ts_Args step) else None) of
        Some container \<Rightarrow> container
      | None \<Rightarrow> container_target steps)"

definition task_episode :: "task_state \<Rightarrow> string \<Rightarrow> string \<Rightarrow> episode" where
  "task_episode task outcome summary =
     \<lparr>ep_SessionID = wt_SessionID task, ep_UserID = wt_UserID task, ep_TriggerType = ''user_request'',
      ep_TriggerSummary = wt_OriginalRequest task, ep_TaskSteps = wt_Steps task, ep_Outcome = outcome,
      ep_OutcomeSummary = summary, ep_Target = container_target (wt_Steps task), ep_Importance = 0\<rparr>"

definition manager_CompleteTask ::
  "'w embedding_service option \<Rightarrow> string \<Rightarrow> gotime \<Rightarrow> string \<Rightarrow> string \<Rightarrow> string \<Rightarrow> memory \<Rightarrow> 'w \<Rightarrow>
   'w \<times> memory \<times> string option" where
  "manager_CompleteTask es uuid now taskID outcome summary m w =
     (case working_GetTask taskID (mm_tasks m) of
        None \<Rightarrow> (w, m, Some (''task not found: '' @ taskID))
      | Some task \<Rightarrow>
          let m1 = m\<lparr>mm_tasks := working_CompleteTask now taskID outcome (mm_tasks m)\<rparr> in
          case SaveEpisode es uuid now (task_episode task outcome summary) (mm_episodes m1) w of
            (w', Inl e) \<Rightarrow> (w', m1, Some e)
          | (w', Inr t) \<Rightarrow> (w', m1\<lparr>mm_episodes := t\<rparr>, None))"

record memory_context =
  mc_RecentMessages :: "chat_message list"
  mc_CurrentTask :: "task_state option"
  mc_RelevantEpisodes :: "episode_row list"
  mc_RelevantKnowledge :: "knowledge list"

definition BuildContext ::
  "'w embedding_service option \<Rightarrow> gotime \<Rightarrow> string \<Rightarrow> string \<Rightarrow> memory \<Rightarrow> 'w \<Rightarrow> 'w \<times> (memory \<times> memory_context) go" where
  "BuildContext es now sessionID query m w =
     (let ctx = \<lparr>mc_RecentMessages = GetMessage sessionID (mm_sessions m),
                 mc_CurrentTask = working_GetCurrentTask sessionID (mm_tasks m),
                 mc_RelevantEpisodes = [], mc_RelevantKnowledge = []\<rparr>
      in if query = [] \<or> es = None then (w, Inr (m, ctx))
         else case SearchEpisodes es now query 3 (mm_episodes m) w of
           (w1, Inl p) \<Rightarrow> (w1, Inl p)
         | (w1, Inr (t, r)) \<Rightarrow>
             let m1 = m\<lparr>mm_episodes := t\<rparr>;
                 ctx1 = (case r of Inl _ \<Rightarrow> ctx | Inr eps \<Rightarrow> ctx\<lparr>mc_RelevantEpisodes := eps\<rparr>)
             in case SearchKnowledge es query 2 (mm_knowledge m1) w1 of
                  (w2, Inl _) \<Rightarrow> (w2, Inr (m1, ctx1))
                | (w2, Inr ks) \<Rightarrow> (w2, Inr (m1, ctx1\<lparr>mc_RelevantKnowledge := ks\<rparr>)))"

definition FormatContextForLLM :: "memory_context option \<Rightarrow> string" where
  "FormatContextForLLM c =
     (case c of None \<Rightarrow> []
      | Some ctx \<Rightarrow>
          (if mc_RecentMessages ctx = [] then []
           else (''## '' @ [CHR 0xE6, CHR 0x9C, CHR 0x80, CHR 0xE8, CHR 0xBF, CHR 0x91, CHR 0xE5, CHR 0xAF,
     CHR 0xB9, CHR 0xE8, CHR 0xAF, CHR 0x9D, CHR 0x0A]) @ concat (map (\<lambda>msg.
                  (if cm_Role msg = ''assistant'' then [CHR 0xE5, CHR 0x8A, CHR 0xA9, CHR 0xE6, CHR 0x89, CHR 0x8B] else [CHR 0xE7, CHR 0x94, CHR 0xA8, CHR 0xE6, CHR 0x88, CHR 0xB7]) @ '': '' @ cm_Content msg @
                  [CHR 0x0A]) (mc_RecentMessages ctx)) @ [CHR 0x0A]) @
          (case mc_CurrentTask ctx of None \<Rightarrow> []
           | Some task \<Rightarrow>
               (''## '' @ [CHR 0xE5, CHR 0xBD, CHR 0x93, CHR 0xE5, CHR 0x89, CHR 0x8D, CHR 0xE4, CHR 0xBB,
     CHR 0xBB, CHR 0xE5, CHR 0x8A, CHR 0xA1, CHR 0x0A]) @ ([CHR 0xE8, CHR 0xAF, CHR 0xB7, CHR 0xE6, CHR 0xB1, CHR 0x82] @ '': '') @ wt_OriginalRequest task @ [CHR 0x0A] @
               ([CHR 0xE7, CHR 0x8A, CHR 0xB6, CHR 0xE6, CHR 0x80, CHR 0x81] @ '': '') @ wt_Status task @ [CHR 0x0A] @
               (if wt_Steps task = [] then []
                else ([CHR 0xE5, CHR 0xB7, CHR 0xB2, CHR 0xE6, CHR 0x89, CHR 0xA7, CHR 0xE8, CHR 0xA1, CHR 0x8C,
     CHR 0xE6, CHR 0xAD, CHR 0xA5, CHR 0xE9, CHR 0xAA, CHR 0xA4] @ '':'' @ [CHR 0x0A]) @
                  concat (map (\<lambda>(i, step). ''  '' @ show_nat (Suc i) @ ''. '' @ ts_ToolName step @ [CHR 0x0A])
                    (List.enumerate 0 (wt_Steps task)))) @ [CHR 0x0A]) @
          (if mc_RelevantEpisodes ctx = [] then []
           else (''## '' @ [CHR 0xE7, CHR 0x9B, CHR 0xB8, CHR 0xE5, CHR 0x85, CHR 0xB3, CHR 0xE7, CHR 0xBB,
     CHR 0x8F, CHR 0xE9, CHR 0xAA, CHR 0x8C, CHR 0x0A]) @ concat (map (\<lambda>r. ''- '' @ ep_TriggerSummary (er_Episode r) @ ('' '' @ [CHR 0xE2, CHR 0x86, CHR 0x92] @ '' '') @
                  ep_OutcomeSummary (er_Episode r) @ [CHR 0x0A]) (mc_RelevantEpisodes ctx)) @ [CHR 0x0A]) @
          (if mc_RelevantKnowledge ctx = [] then []
           else (''## '' @ [CHR 0xE7, CHR 0x9B, CHR 0xB8, CHR 0xE5, CHR 0x85, CHR 0xB3, CHR 0xE7, CHR 0x9F,
     CHR 0xA5, CHR 0xE8, CHR 0xAF, CHR 0x86, CHR 0x0A]) @ concat (map (\<lambda>k. ''### '' @ kn_Topic k @ [CHR 0x0A] @ kn_Content k @ [CHR 0x0A])
                  (mc_RelevantKnowledge ctx)) @ [CHR 0x0A]))"

end
