(* ===== verification/Owl_Forget.thy ===== *)
theory Owl_Forget
  imports Owl_Memory
begin

text \<open>
  \<open>internal/memory/forget.go\<close>: the importance of an episode and the sweep that forgets the less
  important ones. The instants of one sweep are one; \<open>float64\<close> and \<open>real\<close> columns are real numbers.
\<close>

record forget_gate =
  fg_threshold :: real
  fg_maxEpisodes :: int
  fg_minAge :: duration

definition NewForgetGate :: "forget_gate option \<Rightarrow> forget_gate" where
  "NewForgetGate cfg =
     (let c = (case cfg of None \<Rightarrow> \<lparr>fg_threshold = 0, fg_maxEpisodes = 0, fg_minAge = 0\<rparr> | Some c \<Rightarrow> c) in
      \<lparr>fg_threshold = (if fg_threshold c = 0 then 0.25 else fg_threshold c),
       fg_maxEpisodes = (if fg_maxEpisodes c = 0 then 10000 else fg_maxEpisodes c),
       fg_minAge = (if fg_minAge c = 0 then 7 * 24 * Hour else fg_minAge c)\<rparr>)"

definition time_factor :: "duration \<Rightarrow> real" where
  "time_factor age = max (- 0.3) (- 0.1 * (real_of_int age / real_of_int Hour / (24 * 30)))"

definition access_factor :: "int \<Rightarrow> real" where
  "access_factor n = min 0.2 (real_of_int n * 0.05)"

definition outcome_factor :: "string \<Rightarrow> real" where
  "outcome_factor outcome = (if outcome = ''success'' then 0.1 else if outcome = ''failed'' then - 0.05 else 0)"

definition kind_factor :: "episode \<Rightarrow> real" where
  "kind_factor ep = (if ep_TriggerType ep = ''alert'' then 0.15 else 0) + (if length (ep_TaskSteps ep) > 3 then 0.1 else 0)"

definition CalculateImportance :: "gotime \<Rightarrow> episode_row \<Rightarrow> real" where
  "CalculateImportance now r =
     min 1 (max 0 (0.5 + time_factor (time_sub now (er_CreatedAt r)) + access_factor (er_AccessCount r) +
                   outcome_factor (ep_Outcome (er_Episode r)) + kind_factor (er_Episode r)))"

abbreviation importance :: "episode_row \<Rightarrow> real" where
  "importance r \<equiv> ep_Importance (er_Episode r)"

definition rate :: "gotime \<Rightarrow> episode_row \<Rightarrow> episode_row" where
  "rate now r =
     (if er_Pinned r then r
      else r\<lparr>er_Episode := (er_Episode r)\<lparr>ep_Importance := CalculateImportance now r\<rparr>\<rparr>)"

definition UpdateAllImportance :: "gotime \<Rightarrow> episode_table \<Rightarrow> episode_table" where
  "UpdateAllImportance now t = map (rate now) t"

text \<open>Rows a sweep may delete: not pinned, and older than the minimal age.\<close>

definition evictable :: "gotime \<Rightarrow> episode_row \<Rightarrow> bool" where
  "evictable minTime r \<longleftrightarrow> \<not> er_Pinned r \<and> er_CreatedAt r < minTime"

definition least_important :: "gotime \<Rightarrow> nat \<Rightarrow> episode_table \<Rightarrow> string list" where
  "least_important minTime n t = map er_ID (take n (sort_key importance (filter (evictable minTime) t)))"

definition Cleanup :: "gotime \<Rightarrow> forget_gate \<Rightarrow> episode_table \<Rightarrow> episode_table \<times> int" where
  "Cleanup now g t =
     (let t1 = UpdateAllImportance now t;
          minTime = now - fg_minAge g;
          t2 = filter (\<lambda>r. \<not> (evictable minTime r \<and> importance r < fg_threshold g)) t1;
          deleted = int (length t1 - length t2);
          excess = int (length t2) - fg_maxEpisodes g
      in if excess > 0
         then (filter (\<lambda>r. er_ID r \<notin> set (least_important minTime (nat excess) t2)) t2, deleted + excess)
         else (t2, deleted))"

definition set_pinned :: "bool \<Rightarrow> string \<Rightarrow> episode_table \<Rightarrow> episode_table" where
  "set_pinned b ident t = map (\<lambda>r. if er_ID r = ident then r\<lparr>er_Pinned := b\<rparr> else r) t"

definition PinEpisode :: "string \<Rightarrow> episode_table \<Rightarrow> episode_table" where
  "PinEpisode ident t = set_pinned True ident t"

definition UnpinEpisode :: "string \<Rightarrow> episode_table \<Rightarrow> episode_table" where
  "UnpinEpisode ident t = set_pinned False ident t"

definition RunForgetGate :: "gotime \<Rightarrow> forget_gate option \<Rightarrow> memory \<Rightarrow> memory \<times> int" where
  "RunForgetGate now g m =
     (case g of None \<Rightarrow> (m, 0) | Some f \<Rightarrow> (let (t, n) = Cleanup now f (mm_episodes m) in (m\<lparr>mm_episodes := t\<rparr>, n)))"

subsection \<open>Importance\<close>

lemma importance_range: "0 \<le> CalculateImportance now r" "CalculateImportance now r \<le> 1"
  by (simp_all add: CalculateImportance_def)

lemma time_factor_antimono: "a \<le> b \<Longrightarrow> time_factor b \<le> time_factor a"
  unfolding time_factor_def by (intro max.mono order_refl) (simp add: divide_right_mono)

lemma time_factor_floor: "- 0.3 \<le> time_factor a"
  by (simp add: time_factor_def)

lemma access_factor_mono: "m \<le> n \<Longrightarrow> access_factor m \<le> access_factor n"
  unfolding access_factor_def by (intro min.mono order_refl) simp

lemma access_factor_floor: "0 \<le> n \<Longrightarrow> 0 \<le> access_factor n"
  by (simp add: access_factor_def)

lemma kind_factor_floor: "0 \<le> kind_factor ep"
  by (simp add: kind_factor_def)

text \<open>
  The importance lies between 0 and 1; it does not fall with more accesses, does not
  rise with time, and that of a success never falls below 0.3, which is above the default threshold:
  the sweep forgets a success only for the limit on the number of episodes.
\<close>

theorem importance_spec:
  assumes "er_AccessCount r \<ge> 0"
  shows "0 \<le> CalculateImportance now r \<and> CalculateImportance now r \<le> 1 \<and>
    CalculateImportance now r \<le> CalculateImportance now (r\<lparr>er_AccessCount := er_AccessCount r + 1\<rparr>) \<and>
    (now \<le> now' \<longrightarrow> CalculateImportance now' r \<le> CalculateImportance now r) \<and>
    (ep_Outcome (er_Episode r) = ''success'' \<longrightarrow> 0.3 \<le> CalculateImportance now r) \<and>
    fg_threshold (NewForgetGate None) < 0.3"
proof -
  have access: "CalculateImportance now r \<le> CalculateImportance now (r\<lparr>er_AccessCount := er_AccessCount r + 1\<rparr>)"
    unfolding CalculateImportance_def
    by (intro min.mono max.mono add_mono order_refl) (simp_all add: access_factor_mono)
  have time: "CalculateImportance now' r \<le> CalculateImportance now r" if "now \<le> now'"
    unfolding CalculateImportance_def
    by (intro min.mono max.mono add_mono order_refl time_factor_antimono time_sub_mono that)
  have success: "0.3 \<le> CalculateImportance now r" if "ep_Outcome (er_Episode r) = ''success''"
  proof -
    have "outcome_factor (ep_Outcome (er_Episode r)) = 0.1" using that by (simp add: outcome_factor_def)
    then have "0.3 \<le> 0.5 + time_factor (time_sub now (er_CreatedAt r)) + access_factor (er_AccessCount r) +
        outcome_factor (ep_Outcome (er_Episode r)) + kind_factor (er_Episode r)"
      using time_factor_floor[of "time_sub now (er_CreatedAt r)"] access_factor_floor[OF assms]
        kind_factor_floor[of "er_Episode r"] by linarith
    then show ?thesis unfolding CalculateImportance_def by (simp only: min_def max_def) simp
  qed
  show ?thesis
    using importance_range access time success by (simp add: NewForgetGate_def Let_def)
qed

definition sample_row :: episode_row where
  "sample_row = \<lparr>er_ID = ''e'', er_Episode = \<lparr>ep_SessionID = [], ep_UserID = [], ep_TriggerType = ''user_request'',
      ep_TriggerSummary = ''disk full'', ep_TaskSteps = [], ep_Outcome = ''success'', ep_OutcomeSummary = [],
      ep_Target = [], ep_Importance = 0\<rparr>, er_Embedding = None, er_AccessCount = 2, er_LastAccessedAt = None,
      er_Pinned = True, er_Tags = [], er_Consolidated = None, er_CreatedAt = 0\<rparr>"

theorem importance_spec_witness:
  "0.3 \<le> CalculateImportance (90 * 24 * Hour) sample_row"
  using importance_spec[of sample_row "90 * 24 * Hour" 0] by (simp add: sample_row_def)

subsection \<open>The sweep\<close>

definition evict :: "gotime \<Rightarrow> nat \<Rightarrow> episode_table \<Rightarrow> episode_table" where
  "evict minTime n t = filter (\<lambda>r. er_ID r \<notin> set (least_important minTime n t)) t"

definition victims :: "gotime \<Rightarrow> nat \<Rightarrow> episode_table \<Rightarrow> episode_row list" where
  "victims minTime n t = take n (sort_key importance (filter (evictable minTime) t))"

lemma victims_evictable: "r \<in> set (victims minTime n t) \<Longrightarrow> r \<in> set t \<and> evictable minTime r"
  unfolding victims_def by (drule in_set_takeD) simp

lemma mem_evict:
  assumes "distinct (map er_ID t)" and "r \<in> set t"
  shows "r \<in> set (evict minTime n t) \<longleftrightarrow> r \<notin> set (victims minTime n t)"
proof -
  have "er_ID r \<in> er_ID ` set (victims minTime n t) \<longleftrightarrow> r \<in> set (victims minTime n t)"
    using assms victims_evictable[of _ minTime n t] by (auto simp: distinct_map inj_on_def)
  then show ?thesis
    using assms(2) by (simp add: evict_def least_important_def victims_def[symmetric])
qed

lemma length_evict:
  assumes d: "distinct (map er_ID t)"
  shows "length (evict minTime n t) + min n (length (filter (evictable minTime) t)) = length t"
proof -
  have dt: "distinct t" using d by (simp add: distinct_map)
  have dv: "distinct (victims minTime n t)" using dt by (simp add: victims_def)
  have sub: "set (victims minTime n t) \<subseteq> set t" using victims_evictable by blast
  have "set (evict minTime n t) \<subseteq> set t" by (auto simp: evict_def)
  then have "set (evict minTime n t) = set t - set (victims minTime n t)" using mem_evict[OF d] by auto
  then have "card (set (evict minTime n t)) = card (set t) - card (set (victims minTime n t))"
    using sub by (simp add: card_Diff_subset)
  moreover have "card (set (evict minTime n t)) = length (evict minTime n t)"
    using dt by (intro distinct_card) (simp add: evict_def)
  moreover have "card (set t) = length t" using dt by (rule distinct_card)
  moreover have "card (set (victims minTime n t)) = min n (length (filter (evictable minTime) t))"
    using dv by (simp add: distinct_card) (simp add: victims_def min.commute)
  moreover have "min n (length (filter (evictable minTime) t)) \<le> length t"
    by (rule order_trans[OF min.cobounded2 length_filter_le])
  ultimately show ?thesis by simp
qed

lemma evict_least:
  assumes d: "distinct (map er_ID t)" and r: "r \<in> set (evict minTime n t)" "evictable minTime r"
    and x: "x \<in> set (victims minTime n t)"
  shows "importance x \<le> importance r"
proof -
  define s where "s = sort_key importance (filter (evictable minTime) t)"
  have rt: "r \<in> set t" using r(1) by (simp add: evict_def)
  then have "r \<in> set s" using r(2) by (simp add: s_def)
  moreover have "r \<notin> set (take n s)" using mem_evict[OF d rt] r(1) by (simp add: victims_def s_def)
  ultimately have "r \<in> set (drop n s)" using append_take_drop_id[of n s] by (metis Un_iff set_append)
  moreover have "x \<in> set (take n s)" using x by (simp add: victims_def s_def)
  moreover have "sorted (map importance (take n s @ drop n s))" by (simp add: s_def)
  then have "\<forall>a \<in> set (take n s). \<forall>b \<in> set (drop n s). importance a \<le> importance b"
    unfolding map_append sorted_append by simp
  ultimately show ?thesis by blast
qed

lemma evict_all:
  assumes d: "distinct (map er_ID t)" and r: "r \<in> set (evict minTime n t)" "evictable minTime r"
  shows "n < length (filter (evictable minTime) t)"
proof (rule ccontr)
  assume "\<not> ?thesis"
  then have "victims minTime n t = sort_key importance (filter (evictable minTime) t)" by (simp add: victims_def)
  moreover have "r \<in> set t" using r(1) by (simp add: evict_def)
  ultimately show False using mem_evict[OF d, of r minTime n] r by simp
qed

text \<open>
  A sweep keeps every pinned and every young episode and, of the others, only those that
  reach the threshold; then no removed episode is more important than an old, unpinned one that is
  kept; the limit on the number is met unless only pinned and young ones are left; and the number
  reported is that of the removed episodes unless it is too high, which happens only in that case.
\<close>

theorem sweep_spec:
  assumes "distinct (map er_ID t)" and "Cleanup now g t = (t', n)"
  shows "(\<forall>r \<in> set (UpdateAllImportance now t). \<not> evictable (now - fg_minAge g) r \<longrightarrow> r \<in> set t') \<and>
    (\<forall>r \<in> set t'. r \<in> set (UpdateAllImportance now t) \<and>
       (evictable (now - fg_minAge g) r \<longrightarrow> fg_threshold g \<le> importance r \<and>
          (\<forall>x \<in> set (UpdateAllImportance now t) - set t'. importance x \<le> importance r))) \<and>
    (int (length t') \<le> fg_maxEpisodes g \<or> (\<forall>r \<in> set t'. \<not> evictable (now - fg_minAge g) r)) \<and>
    int (length t) - int (length t') \<le> n \<and>
    (n = int (length t) - int (length t') \<or> (\<forall>r \<in> set t'. \<not> evictable (now - fg_minAge g) r))"
proof -
  define old where "old = evictable (now - fg_minAge g)"
  define t1 where "t1 = UpdateAllImportance now t"
  define t2 where "t2 = filter (\<lambda>r. \<not> (old r \<and> importance r < fg_threshold g)) t1"
  define ex where "ex = int (length t2) - fg_maxEpisodes g"
  have ids: "map er_ID t1 = map er_ID t" by (simp add: t1_def UpdateAllImportance_def rate_def)
  then have d1: "distinct (map er_ID t1)" using assms(1) by simp
  then have d2: "distinct (map er_ID t2)" by (simp add: t2_def distinct_map_filter)
  have len: "length t1 = length t" "length t2 \<le> length t1" by (simp_all add: t1_def UpdateAllImportance_def t2_def)
  have in2: "r \<in> set t2 \<longleftrightarrow> r \<in> set t1 \<and> (old r \<longrightarrow> fg_threshold g \<le> importance r)" for r
    by (auto simp: t2_def)
  show ?thesis
  proof (cases "ex > 0")
    case False
    then have "t' = t2" "n = int (length t1 - length t2)"
      using assms(2) by (auto simp: Cleanup_def Let_def t1_def t2_def old_def ex_def)
    then show ?thesis
      using in2 len False unfolding old_def[symmetric] t1_def[symmetric] ex_def by fastforce
  next
    case True
    then have t': "t' = evict (now - fg_minAge g) (nat ex) t2" "n = int (length t1 - length t2) + ex"
      using assms(2) by (auto simp: Cleanup_def Let_def t1_def t2_def old_def ex_def evict_def)
    have l: "length t' + min (nat ex) (length (filter old t2)) = length t2"
      using length_evict[OF d2] by (simp add: t' old_def)
    have mem: "r \<in> set t' \<longleftrightarrow> r \<in> set t2 \<and> r \<notin> set (victims (now - fg_minAge g) (nat ex) t2)" for r
      using mem_evict[OF d2, of r] by (auto simp: t' evict_def)
    have left: "nat ex < length (filter old t2)" if "r \<in> set t'" "old r" for r
      using evict_all[OF d2] that by (simp add: t' old_def)
    have low: "importance x \<le> importance r" if "r \<in> set t'" "old r" "x \<in> set t1" "x \<notin> set t'" for r x
    proof (cases "x \<in> set t2")
      case True
      then have "x \<in> set (victims (now - fg_minAge g) (nat ex) t2)" using mem that(4) by blast
      then show ?thesis using evict_least[OF d2] that(1,2) by (simp add: t' old_def)
    next
      case False
      then show ?thesis using in2[of x] in2[of r] mem[of r] that by linarith
    qed
    have count: "int (length t) - int (length t') \<le> n" using l len t'(2) True by linarith
    have exact: "int (length t') = fg_maxEpisodes g \<and> n = int (length t) - int (length t')"
      if "nat ex < length (filter old t2)"
      using l len t'(2) True that unfolding ex_def by linarith
    have keep: "r \<in> set t'" if "r \<in> set t1" "\<not> old r" for r
      using that in2[of r] mem[of r] victims_evictable[of r "now - fg_minAge g" "nat ex" t2] by (auto simp: old_def)
    show ?thesis
      unfolding old_def[symmetric] t1_def[symmetric]
    proof (intro conjI ballI impI)
      fix r assume "r \<in> set t1" "\<not> old r"
      then show "r \<in> set t'" by (rule keep)
    next
      fix r assume r: "r \<in> set t'"
      then show "r \<in> set t1" using mem in2 by blast
      assume o: "old r"
      then show "fg_threshold g \<le> importance r" using r mem in2 by blast
      fix x assume "x \<in> set t1 - set t'"
      then show "importance x \<le> importance r" using low r o by blast
    next
      show "int (length t') \<le> fg_maxEpisodes g \<or> (\<forall>r \<in> set t'. \<not> old r)" using exact left by fastforce
      show "int (length t) - int (length t') \<le> n" by (rule count)
      show "n = int (length t) - int (length t') \<or> (\<forall>r \<in> set t'. \<not> old r)" using exact left by blast
    qed
  qed
qed

definition small_gate :: forget_gate where
  "small_gate = \<lparr>fg_threshold = 0.25, fg_maxEpisodes = 1, fg_minAge = 0\<rparr>"

definition pinned_rows :: episode_table where
  "pinned_rows = [sample_row, sample_row\<lparr>er_ID := ''f''\<rparr>]"

text \<open>Two pinned episodes and a limit of one: nothing is removed, and one removal is reported.\<close>

lemma pinned_cleanup: "Cleanup 1 small_gate pinned_rows = (pinned_rows, 1)"
  by (simp add: Cleanup_def UpdateAllImportance_def rate_def pinned_rows_def sample_row_def small_gate_def
      evictable_def least_important_def)

theorem sweep_spec_witness:
  "int (length pinned_rows) - int (length pinned_rows) \<le> snd (Cleanup 1 small_gate pinned_rows)"
proof -
  have "distinct (map er_ID pinned_rows)" by (simp add: pinned_rows_def sample_row_def)
  from sweep_spec[OF this pinned_cleanup] show ?thesis unfolding pinned_cleanup snd_conv by (elim conjE)
qed

end
