(* ===== verification/Owl_Consolidate.thy ===== *)
theory Owl_Consolidate
  imports Owl_Forget
begin

text \<open>
  \<open>internal/memory/consolidation.go\<close>, which makes knowledge of similar episodes with the language
  model, and the tool \<open>recall_memory\<close> of \<open>internal/agent/tools.go\<close>. \<open>chat\<close> asks the model on a world of
  any type; \<open>parse\<close> turns a text into the JSON value it denotes or says why it is none.
\<close>

subsection \<open>The consolidator\<close>

record consolidator =
  co_minEpisodes :: int
  co_similarityThres :: real
  co_checkInterval :: duration

definition NewConsolidator :: "consolidator option \<Rightarrow> consolidator" where
  "NewConsolidator cfg =
     (let c = (case cfg of None \<Rightarrow> \<lparr>co_minEpisodes = 0, co_similarityThres = 0, co_checkInterval = 0\<rparr> | Some c \<Rightarrow> c) in
      \<lparr>co_minEpisodes = (if co_minEpisodes c = 0 then 5 else co_minEpisodes c),
       co_similarityThres = (if co_similarityThres c = 0 then 0.75 else co_similarityThres c),
       co_checkInterval = (if co_checkInterval c = 0 then 24 * Hour else co_checkInterval c)\<rparr>)"

record consolidation_result =
  cr_Topic :: string
  cr_Content :: string
  cr_KeyPoints :: "string list"
  cr_Confidence :: real

definition dec_consolidation :: "json \<Rightarrow> consolidation_result option" where
  "dec_consolidation j =
     do { kvs \<leftarrow> struct_fields j;
          t \<leftarrow> field [] dec_string ''topic'' kvs;
          c \<leftarrow> field [] dec_string ''content'' kvs;
          ks \<leftarrow> field [] (dec_list dec_string) ''key_points'' kvs;
          f \<leftarrow> field 0 dec_float ''confidence'' kvs;
          Some \<lparr>cr_Topic = t, cr_Content = c, cr_KeyPoints = ks, cr_Confidence = f\<rparr> }"

definition newest_rows :: "episode_row list \<Rightarrow> episode_row list" where
  "newest_rows rs = sort_key (\<lambda>r. - er_CreatedAt r) rs"

definition candidate :: "episode_row \<Rightarrow> bool" where
  "candidate r \<longleftrightarrow> er_Consolidated r = None \<and> ep_Outcome (er_Episode r) = ''success'' \<and> ep_Target (er_Episode r) \<noteq> []"

definition findConsolidationCandidates :: "episode_table \<Rightarrow> string \<rightharpoonup> string list" where
  "findConsolidationCandidates t target =
     (case map er_ID (newest_rows (filter (\<lambda>r. candidate r \<and> ep_Target (er_Episode r) = target) t)) of
        [] \<Rightarrow> None | ids \<Rightarrow> Some ids)"

definition getEpisodesByIDs :: "string list \<Rightarrow> episode_table \<Rightarrow> episode_row list" where
  "getEpisodesByIDs ids t = newest_rows (filter (\<lambda>r. er_ID r \<in> set ids) t)"

definition record_text :: "nat \<times> episode_row \<Rightarrow> string" where
  "record_text = (\<lambda>(i, r).
     (''### '' @ [CHR 0xE8, CHR 0xAE, CHR 0xB0, CHR 0xE5, CHR 0xBD, CHR 0x95] @ '' '') @ show_nat (Suc i) @ [CHR 0x0A] @
     (''- '' @ [CHR 0xE8, CHR 0xA7, CHR 0xA6, CHR 0xE5, CHR 0x8F, CHR 0x91] @ '': '') @ ep_TriggerSummary (er_Episode r) @ [CHR 0x0A] @
     (''- '' @ [CHR 0xE7, CHR 0xBB, CHR 0x93, CHR 0xE6, CHR 0x9E, CHR 0x9C] @ '': '') @ ep_OutcomeSummary (er_Episode r) @ [CHR 0x0A] @
     (if ep_TaskSteps (er_Episode r) = [] then []
      else (''- '' @ [CHR 0xE6, CHR 0xAD, CHR 0xA5, CHR 0xE9, CHR 0xAA, CHR 0xA4] @ '': '') @ Join ('' '' @ [CHR 0xE2, CHR 0x86, CHR 0x92] @ '' '') (map ts_ToolName (ep_TaskSteps (er_Episode r))) @ [CHR 0x0A]) @
     [CHR 0x0A])"

definition answer_format :: string where
  "answer_format = ([CHR 0xE8, CHR 0xAF, CHR 0xB7, CHR 0xE4, CHR 0xBB, CHR 0xA5] @ '' JSON '' @ [CHR 0xE6,
     CHR 0xA0, CHR 0xBC, CHR 0xE5, CHR 0xBC, CHR 0x8F, CHR 0xE8, CHR 0xBE, CHR 0x93,
     CHR 0xE5, CHR 0x87, CHR 0xBA, CHR 0xEF, CHR 0xBC, CHR 0x8C, CHR 0xE5, CHR 0x8C,
     CHR 0x85, CHR 0xE5, CHR 0x90, CHR 0xAB, CHR 0xE4, CHR 0xBB, CHR 0xA5, CHR 0xE4,
     CHR 0xB8, CHR 0x8B, CHR 0xE5, CHR 0xAD, CHR 0x97, CHR 0xE6, CHR 0xAE, CHR 0xB5,
     CHR 0xEF, CHR 0xBC, CHR 0x9A, CHR 0x0A] @ ''{'' @ [CHR 0x0A] @ ''  '' @ [CHR 0x22] @
     ''topic'' @ [CHR 0x22] @ '': '' @ [CHR 0x22, CHR 0xE7, CHR 0x9F, CHR 0xA5, CHR 0xE8,
     CHR 0xAF, CHR 0x86, CHR 0xE4, CHR 0xB8, CHR 0xBB, CHR 0xE9, CHR 0xA2, CHR 0x98,
     CHR 0xEF, CHR 0xBC, CHR 0x88, CHR 0xE7, CHR 0xAE, CHR 0x80, CHR 0xE7, CHR 0x9F,
     CHR 0xAD, CHR 0xEF, CHR 0xBC, CHR 0x89, CHR 0x22] @ '','' @ [CHR 0x0A] @ ''  '' @
     [CHR 0x22] @ ''content'' @ [CHR 0x22] @ '': '' @ [CHR 0x22, CHR 0xE6, CHR 0x95,
     CHR 0xB4, CHR 0xE5, CHR 0x90, CHR 0x88, CHR 0xE5, CHR 0x90, CHR 0x8E, CHR 0xE7,
     CHR 0x9A, CHR 0x84, CHR 0xE7, CHR 0x9F, CHR 0xA5, CHR 0xE8, CHR 0xAF, CHR 0x86,
     CHR 0xE5, CHR 0x86, CHR 0x85, CHR 0xE5, CHR 0xAE, CHR 0xB9, CHR 0xEF, CHR 0xBC,
     CHR 0x88, CHR 0xE8, CHR 0xAF, CHR 0xA6, CHR 0xE7, CHR 0xBB, CHR 0x86, CHR 0xE6,
     CHR 0x8F, CHR 0x8F, CHR 0xE8, CHR 0xBF, CHR 0xB0, CHR 0xE5, CHR 0xB8, CHR 0xB8,
     CHR 0xE8, CHR 0xA7, CHR 0x81, CHR 0xE9, CHR 0x97, CHR 0xAE, CHR 0xE9, CHR 0xA2,
     CHR 0x98, CHR 0xE5, CHR 0x92, CHR 0x8C, CHR 0xE8, CHR 0xA7, CHR 0xA3, CHR 0xE5,
     CHR 0x86, CHR 0xB3, CHR 0xE6, CHR 0x96, CHR 0xB9, CHR 0xE6, CHR 0xA1, CHR 0x88,
     CHR 0xEF, CHR 0xBC, CHR 0x89, CHR 0x22] @ '','' @ [CHR 0x0A] @ ''  '' @ [CHR 0x22] @
     ''key_points'' @ [CHR 0x22] @ '': ['' @ [CHR 0x22, CHR 0xE8, CHR 0xA6, CHR 0x81,
     CHR 0xE7, CHR 0x82, CHR 0xB9] @ ''1'' @ [CHR 0x22] @ '', '' @ [CHR 0x22, CHR 0xE8,
     CHR 0xA6, CHR 0x81, CHR 0xE7, CHR 0x82, CHR 0xB9] @ ''2'' @ [CHR 0x22] @ '', '' @
     [CHR 0x22, CHR 0xE8, CHR 0xA6, CHR 0x81, CHR 0xE7, CHR 0x82, CHR 0xB9] @ ''3'' @
     [CHR 0x22] @ ''],'' @ [CHR 0x0A] @ ''  '' @ [CHR 0x22] @ ''confidence'' @ [CHR 0x22] @
     '': 0.8'' @ [CHR 0x0A] @ ''}'' @ [CHR 0x0A, CHR 0x0A, CHR 0xE6, CHR 0xB3, CHR 0xA8,
     CHR 0xE6, CHR 0x84, CHR 0x8F, CHR 0xEF, CHR 0xBC, CHR 0x9A, CHR 0x0A] @ ''1. topic '' @
     [CHR 0xE5, CHR 0xBA, CHR 0x94, CHR 0xE7, CHR 0xAE, CHR 0x80, CHR 0xE6, CHR 0xB4,
     CHR 0x81, CHR 0xE6, CHR 0x98, CHR 0x8E, CHR 0xE4, CHR 0xBA, CHR 0x86, CHR 0xEF,
     CHR 0xBC, CHR 0x8C, CHR 0xE5, CHR 0xA6, CHR 0x82] @ '' '' @ [CHR 0x22] @ ''nginx '' @
     [CHR 0xE5, CHR 0xAE, CHR 0xB9, CHR 0xE5, CHR 0x99, CHR 0xA8, CHR 0xE9, CHR 0x87,
     CHR 0x8D, CHR 0xE5, CHR 0x90, CHR 0xAF, CHR 0xE5, CHR 0xA4, CHR 0x84, CHR 0xE7,
     CHR 0x90, CHR 0x86, CHR 0x22, CHR 0x0A] @ ''2. content '' @ [CHR 0xE5, CHR 0xBA,
     CHR 0x94, CHR 0xE6, CHR 0x80, CHR 0xBB, CHR 0xE7, CHR 0xBB, CHR 0x93, CHR 0xE5,
     CHR 0x85, CHR 0xB1, CHR 0xE6, CHR 0x80, CHR 0xA7, CHR 0xE8, CHR 0xA7, CHR 0x84,
     CHR 0xE5, CHR 0xBE, CHR 0x8B, CHR 0xEF, CHR 0xBC, CHR 0x8C, CHR 0xE8, CHR 0x80,
     CHR 0x8C, CHR 0xE9, CHR 0x9D, CHR 0x9E, CHR 0xE7, CHR 0xBD, CHR 0x97, CHR 0xE5,
     CHR 0x88, CHR 0x97, CHR 0xE5, CHR 0x85, CHR 0xB7, CHR 0xE4, CHR 0xBD, CHR 0x93,
     CHR 0xE4, CHR 0xBA, CHR 0x8B, CHR 0xE4, CHR 0xBB, CHR 0xB6, CHR 0x0A] @ ''3. key_points '' @
     [CHR 0xE6, CHR 0x8F, CHR 0x90, CHR 0xE5, CHR 0x8F, CHR 0x96] @ '' 3-5 '' @ [CHR 0xE4,
     CHR 0xB8, CHR 0xAA, CHR 0xE5, CHR 0x85, CHR 0xB3, CHR 0xE9, CHR 0x94, CHR 0xAE,
     CHR 0xE8, CHR 0xA6, CHR 0x81, CHR 0xE7, CHR 0x82, CHR 0xB9, CHR 0x0A] @ ''4. confidence '' @
     [CHR 0xE6, CHR 0xA0, CHR 0xB9, CHR 0xE6, CHR 0x8D, CHR 0xAE, CHR 0xE8, CHR 0xAE,
     CHR 0xB0, CHR 0xE5, CHR 0xBD, CHR 0x95, CHR 0xE4, CHR 0xB8, CHR 0x80, CHR 0xE8,
     CHR 0x87, CHR 0xB4, CHR 0xE6, CHR 0x80, CHR 0xA7, CHR 0xE8, CHR 0xAF, CHR 0x84,
     CHR 0xE4, CHR 0xBC, CHR 0xB0, CHR 0xEF, CHR 0xBC, CHR 0x8C, CHR 0xE8, CHR 0x8C,
     CHR 0x83, CHR 0xE5, CHR 0x9B, CHR 0xB4] @ '' 0.5-1.0'' @ [CHR 0x0A])"

definition knowledge_prompt :: "string \<Rightarrow> episode_row list \<Rightarrow> string" where
  "knowledge_prompt target eps =
     ([CHR 0xE8, CHR 0xAF, CHR 0xB7, CHR 0xE6, CHR 0xA0, CHR 0xB9, CHR 0xE6, CHR 0x8D, CHR 0xAE,
     CHR 0xE4, CHR 0xBB, CHR 0xA5, CHR 0xE4, CHR 0xB8, CHR 0x8B, CHR 0xE5, CHR 0x85,
     CHR 0xB3, CHR 0xE4, CHR 0xBA, CHR 0x8E] @ '' '' @ [CHR 0x22]) @ target @ ([CHR 0x22] @ '' '' @ [CHR 0xE7, CHR 0x9A, CHR 0x84] @ '' '') @ show_nat (length eps) @
     ('' '' @ [CHR 0xE6, CHR 0x9D, CHR 0xA1, CHR 0xE6, CHR 0x93, CHR 0x8D, CHR 0xE4, CHR 0xBD,
     CHR 0x9C, CHR 0xE8, CHR 0xAE, CHR 0xB0, CHR 0xE5, CHR 0xBD, CHR 0x95, CHR 0xEF,
     CHR 0xBC, CHR 0x8C, CHR 0xE6, CHR 0x95, CHR 0xB4, CHR 0xE5, CHR 0x90, CHR 0x88,
     CHR 0xE7, CHR 0x94, CHR 0x9F, CHR 0xE6, CHR 0x88, CHR 0x90, CHR 0xE4, CHR 0xB8,
     CHR 0x80, CHR 0xE6, CHR 0x9D, CHR 0xA1, CHR 0xE9, CHR 0x80, CHR 0x9A, CHR 0xE7,
     CHR 0x94, CHR 0xA8, CHR 0xE7, CHR 0x9F, CHR 0xA5, CHR 0xE8, CHR 0xAF, CHR 0x86,
     CHR 0xE3, CHR 0x80, CHR 0x82, CHR 0x0A, CHR 0x0A]) @
     concat (map record_text (List.enumerate 0 eps)) @ answer_format"

text \<open>\<open>truncate\<close>.\<close>

definition cut_text :: "string \<Rightarrow> nat \<Rightarrow> string" where
  "cut_text s maxLen = (if length s \<le> maxLen then s else take maxLen s @ ''...'')"

text \<open>\<open>s[:strings.LastIndex(s, w)]\<close>, if there is an occurrence.\<close>

fun before_last :: "string \<Rightarrow> string \<Rightarrow> string option" where
  "before_last [] w = (if w = [] then Some [] else None)"
| "before_last (c # cs) w =
     (case before_last cs w of
        Some p \<Rightarrow> Some (c # p)
      | None \<Rightarrow> if prefix w (c # cs) then Some [] else None)"

definition until_fence :: "string \<Rightarrow> string" where
  "until_fence s = (case before_last s fence of Some p \<Rightarrow> p | None \<Rightarrow> s)"

definition strip_block :: "string \<Rightarrow> string" where
  "strip_block response =
     (let r = TrimSpace response in
      TrimSpace (if prefix (fence @ ''json'') r then until_fence (drop 7 r)
                 else if prefix fence r then until_fence (drop 3 r) else r))"

definition parseKnowledgeResponse :: "(string \<Rightarrow> string + json) \<Rightarrow> string \<Rightarrow> string + consolidation_result" where
  "parseKnowledgeResponse parse response =
     (let r = strip_block response;
          invalid = (\<lambda>e. Inl (''invalid JSON: '' @ e @ '', response: '' @ cut_text r 200))
      in case parse r of
           Inl e \<Rightarrow> invalid e
         | Inr j \<Rightarrow>
             (case dec_consolidation j of
                None \<Rightarrow> invalid ''json: cannot unmarshal''
              | Some res \<Rightarrow>
                  if cr_Topic res = [] then Inl ''missing topic in response''
                  else if cr_Content res = [] then Inl ''missing content in response''
                  else let c = (if cr_Confidence res = 0 then 0.7 else cr_Confidence res)
                       in Inr (res\<lparr>cr_Confidence := (if c < 0.5 then 0.5 else if c > 1 then 1 else c)\<rparr>)))"

record 'w consolidation_services =
  cs_chat :: "string \<Rightarrow> 'w \<Rightarrow> 'w \<times> (string + string)"
  cs_parse :: "string \<Rightarrow> string + json"
  cs_uuid :: "'w \<Rightarrow> string"
  cs_clock :: "'w \<Rightarrow> gotime"
  cs_embedding :: "'w embedding_service option"

definition generateKnowledge ::
  "'w consolidation_services \<Rightarrow> string \<Rightarrow> episode_row list \<Rightarrow> 'w \<Rightarrow> 'w \<times> (string + consolidation_result)" where
  "generateKnowledge sv target eps w =
     (case cs_chat sv (knowledge_prompt target eps) w of
        (w', Inl e) \<Rightarrow> (w', Inl (''LLM call failed: '' @ e))
      | (w', Inr response) \<Rightarrow>
          (w', map_sum (\<lambda>e. ''failed to parse LLM response: '' @ e) id (parseKnowledgeResponse (cs_parse sv) response)))"

definition markEpisodesConsolidated :: "string list \<Rightarrow> string \<Rightarrow> episode_table \<Rightarrow> episode_table" where
  "markEpisodesConsolidated ids knowledgeID t =
     map (\<lambda>r. if er_ID r \<in> set ids then r\<lparr>er_Consolidated := Some knowledgeID\<rparr> else r) t"

definition knowledge_of :: "string \<Rightarrow> consolidation_result \<Rightarrow> string list \<Rightarrow> knowledge" where
  "knowledge_of uuid res ids =
     \<lparr>kn_ID = uuid, kn_Topic = cr_Topic res, kn_Content = cr_Content res, kn_KeyPoints = cr_KeyPoints res,
      kn_SourceEpisodes = ids, kn_Embedding = None, kn_Confidence = cr_Confidence res, kn_AccessCount = 0,
      kn_LastAccessedAt = None, kn_CreatedAt = zero_time, kn_UpdatedAt = zero_time\<rparr>"

text \<open>One group: its target and the identifiers of its episodes.\<close>

definition consolidate_group ::
  "'w consolidation_services \<Rightarrow> string \<Rightarrow> string list \<Rightarrow> memory \<Rightarrow> 'w \<Rightarrow> 'w \<times> memory \<times> bool" where
  "consolidate_group sv target ids m w =
     (case generateKnowledge sv target (getEpisodesByIDs ids (mm_episodes m)) w of
        (w1, Inl _) \<Rightarrow> (w1, m, False)
      | (w1, Inr res) \<Rightarrow>
          let k = knowledge_of (cs_uuid sv w1) res ids in
          case SaveKnowledge (cs_embedding sv) (cs_clock sv w1) k (mm_knowledge m) w1 of
            (w2, Inl _) \<Rightarrow> (w2, m, False)
          | (w2, Inr ks) \<Rightarrow>
              (w2, m\<lparr>mm_knowledge := ks,
                     mm_episodes := markEpisodesConsolidated ids (kn_ID k) (mm_episodes m)\<rparr>, True))"

text \<open>The groups in the order they are visited, and the number consolidated.\<close>

fun run_groups ::
  "'w consolidation_services \<Rightarrow> consolidator \<Rightarrow> (string \<rightharpoonup> string list) \<Rightarrow> string list \<Rightarrow> memory \<Rightarrow> 'w \<Rightarrow> nat \<Rightarrow>
   'w \<times> memory \<times> nat" where
  "run_groups sv c groups [] m w n = (w, m, n)"
| "run_groups sv c groups (target # targets) m w n =
     (case groups target of
        None \<Rightarrow> run_groups sv c groups targets m w n
      | Some ids \<Rightarrow>
          if int (length ids) < co_minEpisodes c then run_groups sv c groups targets m w n
          else (case consolidate_group sv target ids m w of
                  (w1, m1, done) \<Rightarrow> run_groups sv c groups targets m1 w1 (if done then Suc n else n)))"

definition Consolidator_Run ::
  "'w consolidation_services \<Rightarrow> consolidator \<Rightarrow> string list \<Rightarrow> memory \<Rightarrow> 'w \<Rightarrow> 'w \<times> memory \<times> nat" where
  "Consolidator_Run sv c targets m w =
     run_groups sv c (findConsolidationCandidates (mm_episodes m)) targets m w 0"

definition RunConsolidation ::
  "'w consolidation_services \<Rightarrow> consolidator option \<Rightarrow> string list \<Rightarrow> memory \<Rightarrow> 'w \<Rightarrow> 'w \<times> memory \<times> nat" where
  "RunConsolidation sv c targets m w =
     (case c of None \<Rightarrow> (w, m, 0) | Some co \<Rightarrow> Consolidator_Run sv co targets m w)"

subsection \<open>Recalling\<close>

definition recall_step :: "nat \<times> task_step \<Rightarrow> string" where
  "recall_step = (\<lambda>(j, s).
     ''  '' @ show_nat (Suc j) @ ''. '' @ ts_ToolName s @
     (case arg_string ''action'' (ts_Args s) of None \<Rightarrow> [] | Some a \<Rightarrow> '' ('' @ a @ '')'') @
     (case arg_string ''command'' (ts_Args s) of
        None \<Rightarrow> [] | Some cmd \<Rightarrow> if length cmd < 50 then '': '' @ cmd else []) @ [CHR 0x0A])"

definition recall_episode :: "nat \<times> episode_row \<Rightarrow> string" where
  "recall_episode = (\<lambda>(i, r).
     let ep = er_Episode r in
     (''### '' @ [CHR 0xE7, CHR 0xBB, CHR 0x8F, CHR 0xE9, CHR 0xAA, CHR 0x8C] @ '' '') @ show_nat (Suc i) @ [CHR 0x0A] @
     (''- **'' @ [CHR 0xE9, CHR 0x97, CHR 0xAE, CHR 0xE9, CHR 0xA2, CHR 0x98] @ ''**: '') @ ep_TriggerSummary ep @ [CHR 0x0A] @
     (''- **'' @ [CHR 0xE7, CHR 0xBB, CHR 0x93, CHR 0xE6, CHR 0x9E, CHR 0x9C] @ ''**: '') @ ep_OutcomeSummary ep @ '' ('' @ ep_Outcome ep @ '')'' @ [CHR 0x0A] @
     (if ep_Target ep = [] then [] else (''- **'' @ [CHR 0xE7, CHR 0x9B, CHR 0xAE, CHR 0xE6, CHR 0xA0, CHR 0x87] @ ''**: '') @ ep_Target ep @ [CHR 0x0A]) @
     (if ep_TaskSteps ep = [] then []
      else (''- **'' @ [CHR 0xE6, CHR 0x89, CHR 0xA7, CHR 0xE8, CHR 0xA1, CHR 0x8C, CHR 0xE6, CHR 0xAD,
     CHR 0xA5, CHR 0xE9, CHR 0xAA, CHR 0xA4] @ ''**:'' @ [CHR 0x0A]) @ concat (map recall_step (List.enumerate 0 (ep_TaskSteps ep)))) @
     [CHR 0x0A])"

definition recall_knowledge :: "knowledge \<Rightarrow> string" where
  "recall_knowledge k =
     ''### '' @ kn_Topic k @ [CHR 0x0A] @ kn_Content k @
     (if kn_KeyPoints k = [] then []
      else [CHR 0x0A, CHR 0x0A] @ (''**'' @ [CHR 0xE8, CHR 0xA6, CHR 0x81, CHR 0xE7, CHR 0x82, CHR 0xB9] @ ''**: '') @ Join [CHR 0xE3, CHR 0x80, CHR 0x81] (kn_KeyPoints k)) @ [CHR 0x0A, CHR 0x0A]"

definition handleRecallMemory ::
  "'w embedding_service option \<Rightarrow> gotime \<Rightarrow> args \<Rightarrow> memory option \<Rightarrow> 'w \<Rightarrow> 'w \<times> (memory option \<times> (string + string)) go" where
  "handleRecallMemory es now a mem w =
     (case mem of
        None \<Rightarrow> (w, Inr (None, Inr [CHR 0xE8, CHR 0xAE, CHR 0xB0, CHR 0xE5, CHR 0xBF, CHR 0x86, CHR 0xE7, CHR 0xB3, CHR 0xBB,
     CHR 0xE7, CHR 0xBB, CHR 0x9F, CHR 0xE6, CHR 0x9C, CHR 0xAA, CHR 0xE5, CHR 0x90,
     CHR 0xAF, CHR 0xE7, CHR 0x94, CHR 0xA8]))
      | Some m \<Rightarrow>
          (case arg_or_empty ''query'' a of
             [] \<Rightarrow> (w, Inr (Some m, Inl ''query must be a non-empty string''))
           | query \<Rightarrow>
               (case SearchEpisodes es now query 3 (mm_episodes m) w of
                  (w1, Inl p) \<Rightarrow> (w1, Inl p)
                | (w1, Inr (t, eps)) \<Rightarrow>
                    let part1 = (case eps of
                          Inr (e # es') \<Rightarrow> (''## '' @ [CHR 0xE7, CHR 0x9B, CHR 0xB8, CHR 0xE5, CHR 0x85, CHR 0xB3, CHR 0xE5, CHR 0x8E,
     CHR 0x86, CHR 0xE5, CHR 0x8F, CHR 0xB2, CHR 0xE7, CHR 0xBB, CHR 0x8F, CHR 0xE9,
     CHR 0xAA, CHR 0x8C, CHR 0x0A, CHR 0x0A]) @
                            concat (map recall_episode (List.enumerate 0 (e # es')))
                        | _ \<Rightarrow> []);
                        (w2, ks) = SearchKnowledge es query 2 (mm_knowledge m) w1;
                        part2 = (case ks of
                          Inr (k # ks') \<Rightarrow> (''## '' @ [CHR 0xE7, CHR 0x9B, CHR 0xB8, CHR 0xE5, CHR 0x85, CHR 0xB3, CHR 0xE7, CHR 0x9F,
     CHR 0xA5, CHR 0xE8, CHR 0xAF, CHR 0x86, CHR 0x0A, CHR 0x0A]) @ concat (map recall_knowledge (k # ks'))
                        | _ \<Rightarrow> [])
                    in (w2, Inr (Some (m\<lparr>mm_episodes := t\<rparr>), Inr
                          (if part1 @ part2 = []
                           then [CHR 0xE6, CHR 0x9C, CHR 0xAA, CHR 0xE6, CHR 0x89, CHR 0xBE, CHR 0xE5, CHR 0x88, CHR 0xB0,
     CHR 0xE4, CHR 0xB8, CHR 0x8E, CHR 0xE3, CHR 0x80, CHR 0x8C] @ query @ [CHR 0xE3, CHR 0x80, CHR 0x8D, CHR 0xE7, CHR 0x9B, CHR 0xB8, CHR 0xE5, CHR 0x85, CHR 0xB3,
     CHR 0xE7, CHR 0x9A, CHR 0x84, CHR 0xE5, CHR 0x8E, CHR 0x86, CHR 0xE5, CHR 0x8F,
     CHR 0xB2, CHR 0xE7, CHR 0xBB, CHR 0x8F, CHR 0xE9, CHR 0xAA, CHR 0x8C, CHR 0xE6,
     CHR 0x88, CHR 0x96, CHR 0xE7, CHR 0x9F, CHR 0xA5, CHR 0xE8, CHR 0xAF, CHR 0x86,
     CHR 0xE3, CHR 0x80, CHR 0x82]
                           else part1 @ part2))))))"

end
