(* ===== verification/Owl_MemoryProps.thy ===== *)
theory Owl_MemoryProps
  imports Owl_Consolidate
begin

text \<open>
  The memory of the assistant: what the working memory keeps of a task until it is archived, what a
  search returns, and that no knowledge is ever made.
\<close>

subsection \<open>Working memory\<close>

text \<open>One operation of the working memory; identifiers are new ones.\<close>

inductive working_step :: "task_table \<Rightarrow> task_table \<Rightarrow> bool" where
  start: "StartTask uuid now sessionID userID request summary t = (t', r) \<Longrightarrow> working_step t t'"
| step: "AddStep now taskID s t = (t', e) \<Longrightarrow> working_step t t'"
| update: "UpdateStep now taskID i s t = (t', e) \<Longrightarrow> working_step t t'"
| complete: "working_CompleteTask now taskID status t = t' \<Longrightarrow> working_step t t'"
| ctx: "UpdateContext now taskID c t = t' \<Longrightarrow> working_step t t'"

inductive_cases working_stepE: "working_step t t'"

definition as_stored :: "task_state \<Rightarrow> bool" where
  "as_stored task \<longleftrightarrow> (\<forall>s \<in> set (wt_Steps task). step_back s = s)"

definition tasks_ok :: "task_table \<Rightarrow> bool" where
  "tasks_ok t \<longleftrightarrow> distinct (map wt_ID t) \<and> (\<forall>task \<in> set t. as_stored task)"

lemma map_back_idem [simp]: "map_back (map_back a) = map_back a"
  by (rule ext) (simp add: map_back_def option.map_comp comp_def)

lemma step_back_idem [simp]: "step_back (step_back s) = step_back s"
  by (simp add: step_back_def)

lemma update_rows_ok:
  assumes "tasks_ok t" and "\<And>row. row \<in> set t \<Longrightarrow> wt_ID row = ident \<Longrightarrow> wt_ID (f row) = ident \<and> as_stored (f row)"
  shows "tasks_ok (update_rows ident f t)"
proof -
  have "map wt_ID (update_rows ident f t) = map wt_ID t"
    using assms(2) by (simp add: update_rows_def)
  moreover have "as_stored task" if "task \<in> set (update_rows ident f t)" for task
    using that assms by (auto simp: update_rows_def tasks_ok_def)
  ultimately show ?thesis using assms(1) by (simp add: tasks_ok_def)
qed

lemma working_GetTask_Some: "working_GetTask ident t = Some task \<Longrightarrow> task \<in> set t \<and> wt_ID task = ident"
  using find_SomeD[of "\<lambda>row. wt_ID row = ident" t task] by (simp add: working_GetTask_def)

lemma working_step_ok: "working_step t t' \<Longrightarrow> tasks_ok t \<Longrightarrow> tasks_ok t'"
proof (induction rule: working_step.induct)
  case (start uuid now sessionID userID request summary t t' r)
  then show ?case by (auto simp: StartTask_def Let_def tasks_ok_def as_stored_def split: if_splits)
next
  case (step now taskID s t t' e)
  show ?case
  proof (cases "working_GetTask taskID t")
    case None
    then show ?thesis using step by (simp add: AddStep_def)
  next
    case (Some task)
    then have "as_stored task" using step.prems working_GetTask_Some by (auto simp: tasks_ok_def)
    then show ?thesis
      using step Some by (auto simp: AddStep_def as_stored_def intro!: update_rows_ok)
  qed
next
  case (update now taskID i s t t' e)
  show ?case
  proof (cases "working_GetTask taskID t")
    case None
    then show ?thesis using update by (simp add: UpdateStep_def)
  next
    case (Some task)
    then have "as_stored task" using update.prems working_GetTask_Some by (auto simp: tasks_ok_def)
    then show ?thesis
      using update Some
      by (auto simp: UpdateStep_def as_stored_def split: if_splits intro!: update_rows_ok dest!: set_update_subset_insert[THEN subsetD])
  qed
next
  case (complete now taskID status t t')
  have "tasks_ok (working_CompleteTask now taskID status t)"
    unfolding working_CompleteTask_def by (rule update_rows_ok) (use complete.prems in \<open>auto simp: tasks_ok_def as_stored_def\<close>)
  then show ?case using complete.hyps by simp
next
  case (ctx now taskID c t t')
  have "tasks_ok (UpdateContext now taskID c t)"
    unfolding UpdateContext_def by (rule update_rows_ok) (use ctx.prems in \<open>auto simp: tasks_ok_def as_stored_def\<close>)
  then show ?case using ctx.hyps by simp
qed

lemma working_reachable_ok: "working_step\<^sup>*\<^sup>* [] t \<Longrightarrow> tasks_ok t"
proof (induction rule: rtranclp_induct)
  case base
  show ?case by (simp add: tasks_ok_def)
qed (rule working_step_ok)

lemma latest_started_Some: "latest_started rows = Some r \<Longrightarrow> r \<in> set rows"
  by (induction rows arbitrary: r) (auto split: option.splits if_splits)

lemma completed_not_current:
  assumes "status \<noteq> ''in_progress''"
    and "working_GetCurrentTask sid (working_CompleteTask now taskID status t) = Some task"
  shows "wt_ID task \<noteq> taskID"
proof
  assume "wt_ID task = taskID"
  have "task \<in> set (working_CompleteTask now taskID status t)" "wt_Status task = ''in_progress''"
    using latest_started_Some[OF assms(2)[unfolded working_GetCurrentTask_def]] by simp_all
  then obtain row where "task = (if wt_ID row = taskID then row\<lparr>wt_Status := status, wt_UpdatedAt := now\<rparr> else row)"
    unfolding working_CompleteTask_def update_rows_def set_map by blast
  then have "wt_Status task = status" using \<open>wt_ID task = taskID\<close> by (cases "wt_ID row = taskID") simp_all
  then show False using assms(1) \<open>wt_Status task = ''in_progress''\<close> by simp
qed

lemma SaveEpisode_row:
  assumes "SaveEpisode es uuid now ep t w = (w', Inr t')"
  obtains row where "t' = t @ [row]" "er_ID row = uuid"
    "ep_TaskSteps (er_Episode row) = map step_back (ep_TaskSteps ep)" "ep_SessionID (er_Episode row) = ep_SessionID ep"
    "ep_TriggerSummary (er_Episode row) = ep_TriggerSummary ep" "ep_Outcome (er_Episode row) = ep_Outcome ep"
proof -
  define ep1 where "ep1 = (if ep_Importance ep = 0 then ep\<lparr>ep_Importance := 0.5\<rparr> else ep)"
  define row where "row = (\<lambda>vec. \<lparr>er_ID = uuid, er_Episode = ep1\<lparr>ep_TaskSteps := map step_back (ep_TaskSteps ep1)\<rparr>,
      er_Embedding = vec, er_AccessCount = 0, er_LastAccessedAt = None, er_Pinned = False, er_Tags = [],
      er_Consolidated = None, er_CreatedAt = now\<rparr>)"
  obtain w1 vec where "SaveEpisode es uuid now ep t w =
      (w1, case vector_error vec of Some e \<Rightarrow> Inl e
           | None \<Rightarrow> if \<exists>r \<in> set t. er_ID r = uuid then Inl duplicate_key else Inr (t @ [row vec]))"
    unfolding SaveEpisode_def Let_def ep1_def[symmetric] row_def by (simp only: case_prod_beta)
  then have "t' = t @ [row vec]" using assms by (simp split: option.splits if_splits)
  then show thesis by (rule that) (simp_all add: row_def ep1_def)
qed

text \<open>
  Property C31: in every state the working memory reaches, completing a task archives it as it was
  recorded: one new episode with the session, the request and exactly the steps of the task, in order;
  and, unless its outcome is the text that marks a task as running, it is no session's current task.
\<close>

theorem task_archived_as_recorded:
  assumes "working_step\<^sup>*\<^sup>* [] (mm_tasks m)" and "working_GetTask taskID (mm_tasks m) = Some task"
    and "manager_CompleteTask es uuid now taskID outcome summary m w = (w', m', None)"
  shows "(\<exists>row. mm_episodes m' = mm_episodes m @ [row] \<and> er_ID row = uuid \<and>
      ep_TaskSteps (er_Episode row) = wt_Steps task \<and> ep_SessionID (er_Episode row) = wt_SessionID task \<and>
      ep_TriggerSummary (er_Episode row) = wt_OriginalRequest task \<and> ep_Outcome (er_Episode row) = outcome) \<and>
    (outcome \<noteq> ''in_progress'' \<longrightarrow>
      (\<forall>sid cur. working_GetCurrentTask sid (mm_tasks m') = Some cur \<longrightarrow> wt_ID cur \<noteq> taskID))"
proof -
  define m1 where "m1 = m\<lparr>mm_tasks := working_CompleteTask now taskID outcome (mm_tasks m)\<rparr>"
  obtain t where s: "SaveEpisode es uuid now (task_episode task outcome summary) (mm_episodes m) w = (w', Inr t)"
    and m': "m' = m1\<lparr>mm_episodes := t\<rparr>"
    using assms(2,3) by (auto simp: manager_CompleteTask_def Let_def m1_def split: prod.splits sum.splits)
  have "as_stored task"
    using working_reachable_ok[OF assms(1)] working_GetTask_Some[OF assms(2)] by (simp add: tasks_ok_def)
  then have steps: "map step_back (wt_Steps task) = wt_Steps task" by (simp add: as_stored_def map_idI)
  obtain row where row: "t = mm_episodes m @ [row]" "er_ID row = uuid"
      "ep_TaskSteps (er_Episode row) = map step_back (ep_TaskSteps (task_episode task outcome summary))"
      "ep_SessionID (er_Episode row) = ep_SessionID (task_episode task outcome summary)"
      "ep_TriggerSummary (er_Episode row) = ep_TriggerSummary (task_episode task outcome summary)"
      "ep_Outcome (er_Episode row) = ep_Outcome (task_episode task outcome summary)"
    by (rule SaveEpisode_row[OF s])
  have "wt_ID cur \<noteq> taskID" if "outcome \<noteq> ''in_progress''" "working_GetCurrentTask sid (mm_tasks m') = Some cur" for sid cur
    by (rule completed_not_current[OF that(1), of sid now taskID "mm_tasks m"]) (use that(2) in \<open>simp add: m' m1_def\<close>)
  moreover have "mm_episodes m' = mm_episodes m @ [row]" using row(1) by (simp add: m')
  ultimately show ?thesis using row(2-) by (auto simp: steps task_episode_def)
qed

subsection \<open>Searching\<close>

lemma nearest_rows:
  assumes "nearest df q limit vec t = Inr rs"
  shows "set rs \<subseteq> {r \<in> set t. vec r \<noteq> None}" "length rs \<le> limit"
  using assms by (auto simp: nearest_def Let_def split: if_splits dest!: in_set_takeD)

lemma pick_candidates_Inr:
  "pick_candidates cs n is = Inr rs \<Longrightarrow> set rs \<subseteq> set cs \<and> length rs \<le> n"
  by (induction cs n "is" arbitrary: rs rule: pick_candidates.induct) (auto split: if_splits sum.splits)

lemma pick_candidates_Inl:
  "(\<exists>p. pick_candidates cs n is = Inl p) \<longleftrightarrow> (\<exists>i \<in> set (take n is). \<not> (0 \<le> i \<and> i < int (length cs)))"
  by (induction cs n "is" rule: pick_candidates.induct) (auto split: sum.splits)

definition candidates_of ::
  "'w embedding_service \<Rightarrow> string \<Rightarrow> nat \<Rightarrow> episode_table \<Rightarrow> 'w \<Rightarrow> 'w \<times> (string + episode_row list)" where
  "candidates_of s query limit t w = searchEpisodesByEmbedding (Some s) query (limit * 3) t w"

lemma candidates_of_rows:
  "candidates_of s query limit t w = (w1, Inr cs) \<Longrightarrow> set cs \<subseteq> {r \<in> set t. er_Embedding r \<noteq> None} \<and> length cs \<le> limit * 3"
  unfolding candidates_of_def searchEpisodesByEmbedding_def
  by (auto split: prod.splits sum.splits dest: nearest_rows simp: map_sum_def)

definition summary_of :: "episode_row \<Rightarrow> string" where
  "summary_of r = ep_TriggerSummary (er_Episode r) @ '' '' @ ep_OutcomeSummary (er_Episode r)"

text \<open>
  A search returns at most the number asked for, all of them episodes with a vector; it
  panics exactly when the reranking service names, among the indices that are looked at, one that is
  no candidate: the indices of the answer are used as they come.
\<close>

theorem search_spec:
  assumes "candidates_of s query limit t w = (w1, Inr cs)" and "cs \<noteq> []"
    and "Rerank s query (map summary_of cs) w1 = (w2, Inr indices)"
  shows "((\<exists>p. snd (SearchEpisodes (Some s) now query limit t w) = Inl p) \<longleftrightarrow>
      (\<exists>i \<in> set (take limit indices). \<not> (0 \<le> i \<and> i < int (length cs)))) \<and>
    (\<forall>t' rs. snd (SearchEpisodes (Some s) now query limit t w) = Inr (t', Inr rs) \<longrightarrow>
      length rs \<le> limit \<and> set rs \<subseteq> {r \<in> set t. er_Embedding r \<noteq> None})"
proof -
  have eq: "SearchEpisodes (Some s) now query limit t w =
      (w2, map_sum id (\<lambda>rs. (fold (\<lambda>r. IncrementAccessCount now (er_ID r)) rs t, Inr rs)) (pick_candidates cs limit indices))"
    using assms unfolding SearchEpisodes_def candidates_of_def summary_of_def by (cases cs) simp_all
  show ?thesis
  proof (cases "pick_candidates cs limit indices")
    case (Inl p)
    then have "\<exists>i \<in> set (take limit indices). \<not> (0 \<le> i \<and> i < int (length cs))"
      using pick_candidates_Inl[of cs limit indices] by blast
    then show ?thesis using eq Inl by simp
  next
    case (Inr rs)
    then have "\<not> (\<exists>i \<in> set (take limit indices). \<not> (0 \<le> i \<and> i < int (length cs)))"
      using pick_candidates_Inl[of cs limit indices] by auto
    then show ?thesis
      using eq Inr pick_candidates_Inr[OF Inr] candidates_of_rows[OF assms(1)] by auto
  qed
qed

subsection \<open>Knowledge\<close>

lemma SaveKnowledge_fails: "\<exists>w' e. SaveKnowledge es now k t w = (w', Inl e)"
proof -
  have "exec_insert insert_knowledge_placeholders 10 row t =
      Inl (''pq: got '' @ show_nat 10 @ '' parameters but the statement requires '' @ show_nat 9)" for row
    by (simp add: exec_insert_def insert_knowledge_placeholders_def)
  then show ?thesis by (auto simp: SaveKnowledge_def Let_def split: prod.splits)
qed

lemma consolidate_group_none: "snd (consolidate_group sv target ids m w) = (m, False)"
  using SaveKnowledge_fails[of "cs_embedding sv"]
  by (auto simp: consolidate_group_def Let_def split: prod.splits sum.splits) (metis Inl_Inr_False prod.inject)+

text \<open>
  Consolidation makes no knowledge: whatever the model answers, a run reports none and
  leaves the memory as it is, so that the next run asks the model about the same episodes again.
\<close>

theorem consolidation_never_succeeds:
  "snd (Consolidator_Run sv c targets m w) = (m, 0)"
proof -
  have "snd (run_groups sv c groups targets m w n) = (m, n)" for groups n
  proof (induction targets arbitrary: w)
    case (Cons target targets)
    show ?case
    proof (cases "groups target")
      case None
      then show ?thesis using Cons by simp
    next
      case (Some ids)
      obtain w1 where "consolidate_group sv target ids m w = (w1, m, False)"
        using consolidate_group_none[of sv target ids m w] by (cases "consolidate_group sv target ids m w") auto
      then show ?thesis using Some Cons by simp
    qed
  qed simp
  then show ?thesis by (simp add: Consolidator_Run_def)
qed

subsection \<open>Examples\<close>

definition one_task :: task_table where
  "one_task = fst (StartTask ''t'' 0 ''s'' ''u'' ''restart nginx'' [] [])"

definition sample_memory :: memory where
  "sample_memory = \<lparr>mm_tasks = one_task, mm_episodes = [], mm_knowledge = [], mm_sessions = Map.empty\<rparr>"

definition sample_task :: task_state where
  "sample_task = \<lparr>wt_ID = ''t'', wt_SessionID = ''s'', wt_UserID = ''u'', wt_OriginalRequest = ''restart nginx'',
     wt_Summary = [], wt_Steps = [], wt_CurrentStep = 0, wt_Context = Map.empty, wt_Status = ''in_progress'',
     wt_StartedAt = 0, wt_UpdatedAt = 0\<rparr>"

lemma one_task_eq: "one_task = [sample_task]"
  by (simp add: one_task_def StartTask_def sample_task_def Let_def)

theorem task_archived_as_recorded_witness:
  "\<exists>row. mm_episodes (fst (snd (manager_CompleteTask None ''e'' 5 ''t'' ''success'' ''done'' sample_memory (0::nat)))) = [row] \<and>
     er_ID row = ''e'' \<and> ep_TaskSteps (er_Episode row) = []"
proof -
  have reach: "working_step\<^sup>*\<^sup>* [] (mm_tasks sample_memory)"
    by (rule r_into_rtranclp, rule working_step.start[where uuid = "''t''" and now = 0 and sessionID = "''s''" and
          userID = "''u''" and request = "''restart nginx''" and summary = "[]"])
       (simp add: sample_memory_def one_task_def prod_eq_iff)
  have get: "working_GetTask ''t'' (mm_tasks sample_memory) = Some sample_task"
    by (simp add: sample_memory_def one_task_eq working_GetTask_def) (simp add: sample_task_def)
  obtain w' m' where run: "manager_CompleteTask None ''e'' 5 ''t'' ''success'' ''done'' sample_memory (0::nat) = (w', m', None)"
    using get by (simp add: manager_CompleteTask_def SaveEpisode_def Let_def vector_error_def sample_memory_def)
  have "mm_episodes sample_memory = []" "wt_Steps sample_task = []" by (simp_all add: sample_memory_def sample_task_def)
  then show ?thesis using conjunct1[OF task_archived_as_recorded[OF reach get run]] unfolding run by auto
qed

definition search_service :: "nat embedding_service" where
  "search_service = \<lparr>es_embed = (\<lambda>_ w. (w, Inr (200, [], Inr \<lparr>ed_Vectors = [replicate 1024 1], ed_Error = None\<rparr>))),
     es_rerank = (\<lambda>_ _ w. (w, Inr (200, [], Inr \<lparr>rd_Indices = [3], rd_Error = None\<rparr>))), es_distance = (\<lambda>_ _. 0)\<rparr>"

definition searched_rows :: episode_table where
  "searched_rows = [sample_row\<lparr>er_Embedding := Some (replicate 1024 1)\<rparr>]"

lemma search_steps:
  "candidates_of search_service ''nginx'' 1 searched_rows 0 = (0, Inr searched_rows)"
  "Rerank search_service ''nginx'' (map summary_of searched_rows) 0 = (0, Inr [3])"
  by (simp_all add: candidates_of_def searchEpisodesByEmbedding_def Embed_def read_reply_def nearest_def Let_def
      search_service_def searched_rows_def Rerank_def)

text \<open>One candidate and the index 3: the search panics.\<close>

theorem search_spec_witness:
  "\<exists>p. snd (SearchEpisodes (Some search_service) 0 ''nginx'' 1 searched_rows 0) = Inl p"
  using conjunct1[OF search_spec[OF search_steps(1) _ search_steps(2)], of 0] by (simp add: searched_rows_def)

end
