(* ===== verification/Owl_Patterns.thy ===== *)
theory Owl_Patterns
  imports Owl_Strings Owl_Prelude
begin

text \<open>
  \<open>internal/analyzer/types.go\<close> and \<open>pattern_matcher.go\<close>: log entries, and the error patterns that are
  searched for in them. The regular expressions are run by two parameters: \<open>rx_ok\<close> says whether a
  text is one, \<open>rx_find\<close> gives the groups of its first match in a text. The cache of compiled
  expressions keeps, by the name of the pattern, the text that was compiled.
\<close>

subsection \<open>Entries and patterns\<close>

record log_entry =
  le_Timestamp :: gotime
  le_Level :: string
  le_Source :: string
  le_Message :: string
  le_Raw :: string
  le_LineNumber :: int
  le_Fields :: "string \<rightharpoonup> string"

record pattern =
  pt_Name :: string
  pt_Regex :: string
  pt_Severity :: string
  pt_Description :: string
  pt_Suggestion :: string
  pt_Category :: string

record pattern_match =
  pm_Pattern :: pattern
  pm_Entry :: log_entry
  pm_Captures :: "string list"
  pm_MatchedAt :: gotime

definition new_pattern :: "string \<Rightarrow> string \<Rightarrow> string \<Rightarrow> string \<Rightarrow> string \<Rightarrow> string \<Rightarrow> pattern" where
  "new_pattern name regex severity description suggestion category =
     \<lparr>pt_Name = name, pt_Regex = regex, pt_Severity = severity, pt_Description = description,
      pt_Suggestion = suggestion, pt_Category = category\<rparr>"

subsection \<open>The built-in patterns\<close>

definition memory_patterns :: "pattern list" where
  "memory_patterns =
    [new_pattern ''OOM Killer'' (''Out of memory: Kill(ed)? process '' @ [CHR 0x5C] @ ''d+'') ''critical'' ([CHR 0xE7, CHR 0xB3, CHR 0xBB, CHR 0xE7, CHR 0xBB, CHR 0x9F, CHR 0xE5, CHR 0x86, CHR 0x85,
     CHR 0xE5, CHR 0xAD, CHR 0x98, CHR 0xE4, CHR 0xB8, CHR 0x8D, CHR 0xE8, CHR 0xB6,
     CHR 0xB3, CHR 0xEF, CHR 0xBC, CHR 0x8C] @ ''OOM Killer '' @ [CHR 0xE7, CHR 0xBB,
     CHR 0x88, CHR 0xE6, CHR 0xAD, CHR 0xA2, CHR 0xE4, CHR 0xBA, CHR 0x86, CHR 0xE8,
     CHR 0xBF, CHR 0x9B, CHR 0xE7, CHR 0xA8, CHR 0x8B]) [CHR 0xE6, CHR 0xA3, CHR 0x80, CHR 0xE6, CHR 0x9F, CHR 0xA5, CHR 0xE5, CHR 0x86, CHR 0x85,
     CHR 0xE5, CHR 0xAD, CHR 0x98, CHR 0xE4, CHR 0xBD, CHR 0xBF, CHR 0xE7, CHR 0x94,
     CHR 0xA8, CHR 0xE6, CHR 0x83, CHR 0x85, CHR 0xE5, CHR 0x86, CHR 0xB5, CHR 0xEF,
     CHR 0xBC, CHR 0x8C, CHR 0xE8, CHR 0x80, CHR 0x83, CHR 0xE8, CHR 0x99, CHR 0x91,
     CHR 0xE5, CHR 0xA2, CHR 0x9E, CHR 0xE5, CHR 0x8A, CHR 0xA0, CHR 0xE5, CHR 0x86,
     CHR 0x85, CHR 0xE5, CHR 0xAD, CHR 0x98, CHR 0xE6, CHR 0x88, CHR 0x96, CHR 0xE4,
     CHR 0xBC, CHR 0x98, CHR 0xE5, CHR 0x8C, CHR 0x96, CHR 0xE5, CHR 0xBA, CHR 0x94,
     CHR 0xE7, CHR 0x94, CHR 0xA8, CHR 0xE5, CHR 0x86, CHR 0x85, CHR 0xE5, CHR 0xAD,
     CHR 0x98, CHR 0xE5, CHR 0x8D, CHR 0xA0, CHR 0xE7, CHR 0x94, CHR 0xA8] ''memory'',
     new_pattern (''OOM '' @ [CHR 0xE8, CHR 0xBF, CHR 0x9B, CHR 0xE7, CHR 0xA8, CHR 0x8B, CHR 0xE8, CHR 0xA2,
     CHR 0xAB, CHR 0xE6, CHR 0x9D, CHR 0x80]) ''oom-kill:.*task_memcg'' ''critical'' ([CHR 0xE8, CHR 0xBF, CHR 0x9B, CHR 0xE7, CHR 0xA8, CHR 0x8B, CHR 0xE5, CHR 0x9B, CHR 0xA0,
     CHR 0xE5, CHR 0x86, CHR 0x85, CHR 0xE5, CHR 0xAD, CHR 0x98, CHR 0xE4, CHR 0xB8,
     CHR 0x8D, CHR 0xE8, CHR 0xB6, CHR 0xB3, CHR 0xE8, CHR 0xA2, CHR 0xAB] @ '' OOM Killer '' @
     [CHR 0xE7, CHR 0xBB, CHR 0x88, CHR 0xE6, CHR 0xAD, CHR 0xA2]) ([CHR 0xE6, CHR 0xA3, CHR 0x80, CHR 0xE6, CHR 0x9F, CHR 0xA5] @ '' cgroup '' @ [CHR 0xE5,
     CHR 0x86, CHR 0x85, CHR 0xE5, CHR 0xAD, CHR 0x98, CHR 0xE9, CHR 0x99, CHR 0x90,
     CHR 0xE5, CHR 0x88, CHR 0xB6, CHR 0xEF, CHR 0xBC, CHR 0x8C, CHR 0xE8, CHR 0xB0,
     CHR 0x83, CHR 0xE6, CHR 0x95, CHR 0xB4, CHR 0xE5, CHR 0xAE, CHR 0xB9, CHR 0xE5,
     CHR 0x99, CHR 0xA8, CHR 0xE5, CHR 0x86, CHR 0x85, CHR 0xE5, CHR 0xAD, CHR 0x98,
     CHR 0xE9, CHR 0x85, CHR 0x8D, CHR 0xE9, CHR 0xA2, CHR 0x9D]) ''memory'',
     new_pattern [CHR 0xE5, CHR 0x86, CHR 0x85, CHR 0xE5, CHR 0xAD, CHR 0x98, CHR 0xE5, CHR 0x88, CHR 0x86,
     CHR 0xE9, CHR 0x85, CHR 0x8D, CHR 0xE5, CHR 0xA4, CHR 0xB1, CHR 0xE8, CHR 0xB4,
     CHR 0xA5] ''(cannot allocate memory|memory allocation failed|ENOMEM)'' ''high'' [CHR 0xE5, CHR 0x86, CHR 0x85, CHR 0xE5, CHR 0xAD, CHR 0x98, CHR 0xE5, CHR 0x88, CHR 0x86,
     CHR 0xE9, CHR 0x85, CHR 0x8D, CHR 0xE5, CHR 0xA4, CHR 0xB1, CHR 0xE8, CHR 0xB4,
     CHR 0xA5] [CHR 0xE6, CHR 0xA3, CHR 0x80, CHR 0xE6, CHR 0x9F, CHR 0xA5, CHR 0xE7, CHR 0xB3, CHR 0xBB,
     CHR 0xE7, CHR 0xBB, CHR 0x9F, CHR 0xE5, CHR 0x8F, CHR 0xAF, CHR 0xE7, CHR 0x94,
     CHR 0xA8, CHR 0xE5, CHR 0x86, CHR 0x85, CHR 0xE5, CHR 0xAD, CHR 0x98, CHR 0xEF,
     CHR 0xBC, CHR 0x8C, CHR 0xE9, CHR 0x87, CHR 0x8A, CHR 0xE6, CHR 0x94, CHR 0xBE,
     CHR 0xE4, CHR 0xB8, CHR 0x8D, CHR 0xE5, CHR 0xBF, CHR 0x85, CHR 0xE8, CHR 0xA6,
     CHR 0x81, CHR 0xE7, CHR 0x9A, CHR 0x84, CHR 0xE5, CHR 0x86, CHR 0x85, CHR 0xE5,
     CHR 0xAD, CHR 0x98, CHR 0xE5, CHR 0x8D, CHR 0xA0, CHR 0xE7, CHR 0x94, CHR 0xA8] ''memory'']"

definition disk_patterns :: "pattern list" where
  "disk_patterns =
    [new_pattern [CHR 0xE7, CHR 0xA3, CHR 0x81, CHR 0xE7, CHR 0x9B, CHR 0x98, CHR 0xE7, CHR 0xA9, CHR 0xBA,
     CHR 0xE9, CHR 0x97, CHR 0xB4, CHR 0xE4, CHR 0xB8, CHR 0x8D, CHR 0xE8, CHR 0xB6,
     CHR 0xB3] ''(No space left on device|ENOSPC|disk full)'' ''critical'' [CHR 0xE7, CHR 0xA3, CHR 0x81, CHR 0xE7, CHR 0x9B, CHR 0x98, CHR 0xE7, CHR 0xA9, CHR 0xBA,
     CHR 0xE9, CHR 0x97, CHR 0xB4, CHR 0xE5, CHR 0xB7, CHR 0xB2, CHR 0xE6, CHR 0xBB,
     CHR 0xA1] [CHR 0xE6, CHR 0xB8, CHR 0x85, CHR 0xE7, CHR 0x90, CHR 0x86, CHR 0xE7, CHR 0xA3, CHR 0x81,
     CHR 0xE7, CHR 0x9B, CHR 0x98, CHR 0xE7, CHR 0xA9, CHR 0xBA, CHR 0xE9, CHR 0x97,
     CHR 0xB4, CHR 0xEF, CHR 0xBC, CHR 0x8C, CHR 0xE5, CHR 0x88, CHR 0xA0, CHR 0xE9,
     CHR 0x99, CHR 0xA4, CHR 0xE4, CHR 0xB8, CHR 0x8D, CHR 0xE5, CHR 0xBF, CHR 0x85,
     CHR 0xE8, CHR 0xA6, CHR 0x81, CHR 0xE7, CHR 0x9A, CHR 0x84, CHR 0xE6, CHR 0x96,
     CHR 0x87, CHR 0xE4, CHR 0xBB, CHR 0xB6, CHR 0xE6, CHR 0x88, CHR 0x96, CHR 0xE6,
     CHR 0x97, CHR 0xA5, CHR 0xE5, CHR 0xBF, CHR 0x97] ''disk'',
     new_pattern [CHR 0xE7, CHR 0xA3, CHR 0x81, CHR 0xE7, CHR 0x9B, CHR 0x98, CHR 0xE5, CHR 0x8F, CHR 0xAA,
     CHR 0xE8, CHR 0xAF, CHR 0xBB] ''(Read-only file system|EROFS|Remounting filesystem read-only)'' ''critical'' [CHR 0xE6, CHR 0x96, CHR 0x87, CHR 0xE4, CHR 0xBB, CHR 0xB6, CHR 0xE7, CHR 0xB3, CHR 0xBB,
     CHR 0xE7, CHR 0xBB, CHR 0x9F, CHR 0xE5, CHR 0x8F, CHR 0x98, CHR 0xE4, CHR 0xB8,
     CHR 0xBA, CHR 0xE5, CHR 0x8F, CHR 0xAA, CHR 0xE8, CHR 0xAF, CHR 0xBB, CHR 0xE6,
     CHR 0xA8, CHR 0xA1, CHR 0xE5, CHR 0xBC, CHR 0x8F, CHR 0xEF, CHR 0xBC, CHR 0x8C,
     CHR 0xE5, CHR 0x8F, CHR 0xAF, CHR 0xE8, CHR 0x83, CHR 0xBD, CHR 0xE5, CHR 0xAD,
     CHR 0x98, CHR 0xE5, CHR 0x9C, CHR 0xA8, CHR 0xE7, CHR 0xA3, CHR 0x81, CHR 0xE7,
     CHR 0x9B, CHR 0x98, CHR 0xE6, CHR 0x95, CHR 0x85, CHR 0xE9, CHR 0x9A, CHR 0x9C] ([CHR 0xE6, CHR 0xA3, CHR 0x80, CHR 0xE6, CHR 0x9F, CHR 0xA5, CHR 0xE7, CHR 0xA3, CHR 0x81,
     CHR 0xE7, CHR 0x9B, CHR 0x98, CHR 0xE5, CHR 0x81, CHR 0xA5, CHR 0xE5, CHR 0xBA,
     CHR 0xB7, CHR 0xE7, CHR 0x8A, CHR 0xB6, CHR 0xE6, CHR 0x80, CHR 0x81, CHR 0xEF,
     CHR 0xBC, CHR 0x8C, CHR 0xE8, CHR 0xBF, CHR 0x90, CHR 0xE8, CHR 0xA1, CHR 0x8C] @
     '' fsck '' @ [CHR 0xE6, CHR 0xA3, CHR 0x80, CHR 0xE6, CHR 0x9F, CHR 0xA5, CHR 0xE6,
     CHR 0x96, CHR 0x87, CHR 0xE4, CHR 0xBB, CHR 0xB6, CHR 0xE7, CHR 0xB3, CHR 0xBB,
     CHR 0xE7, CHR 0xBB, CHR 0x9F]) ''disk'',
     new_pattern ([CHR 0xE7, CHR 0xA3, CHR 0x81, CHR 0xE7, CHR 0x9B, CHR 0x98] @ '' I/O '' @ [CHR 0xE9,
     CHR 0x94, CHR 0x99, CHR 0xE8, CHR 0xAF, CHR 0xAF]) ''(I/O error|Buffer I/O error|blk_update_request: I/O error)'' ''critical'' ([CHR 0xE7, CHR 0xA3, CHR 0x81, CHR 0xE7, CHR 0x9B, CHR 0x98] @ '' I/O '' @ [CHR 0xE9,
     CHR 0x94, CHR 0x99, CHR 0xE8, CHR 0xAF, CHR 0xAF, CHR 0xEF, CHR 0xBC, CHR 0x8C,
     CHR 0xE5, CHR 0x8F, CHR 0xAF, CHR 0xE8, CHR 0x83, CHR 0xBD, CHR 0xE5, CHR 0xAD,
     CHR 0x98, CHR 0xE5, CHR 0x9C, CHR 0xA8, CHR 0xE7, CHR 0xA1, CHR 0xAC, CHR 0xE4,
     CHR 0xBB, CHR 0xB6, CHR 0xE6, CHR 0x95, CHR 0x85, CHR 0xE9, CHR 0x9A, CHR 0x9C]) ([CHR 0xE6, CHR 0xA3, CHR 0x80, CHR 0xE6, CHR 0x9F, CHR 0xA5, CHR 0xE7, CHR 0xA3, CHR 0x81,
     CHR 0xE7, CHR 0x9B, CHR 0x98] @ '' SMART '' @ [CHR 0xE7, CHR 0x8A, CHR 0xB6, CHR 0xE6,
     CHR 0x80, CHR 0x81, CHR 0xEF, CHR 0xBC, CHR 0x8C, CHR 0xE8, CHR 0x80, CHR 0x83,
     CHR 0xE8, CHR 0x99, CHR 0x91, CHR 0xE6, CHR 0x9B, CHR 0xB4, CHR 0xE6, CHR 0x8D,
     CHR 0xA2, CHR 0xE7, CHR 0xA3, CHR 0x81, CHR 0xE7, CHR 0x9B, CHR 0x98]) ''disk'',
     new_pattern (''inode '' @ [CHR 0xE8, CHR 0x80, CHR 0x97, CHR 0xE5, CHR 0xB0, CHR 0xBD]) ''(No space left on device.*inode|inode.*exhausted)'' ''high'' (''inode '' @ [CHR 0xE6, CHR 0x95, CHR 0xB0, CHR 0xE9, CHR 0x87, CHR 0x8F, CHR 0xE8,
     CHR 0x80, CHR 0x97, CHR 0xE5, CHR 0xB0, CHR 0xBD]) [CHR 0xE5, CHR 0x88, CHR 0xA0, CHR 0xE9, CHR 0x99, CHR 0xA4, CHR 0xE5, CHR 0xA4, CHR 0xA7,
     CHR 0xE9, CHR 0x87, CHR 0x8F, CHR 0xE5, CHR 0xB0, CHR 0x8F, CHR 0xE6, CHR 0x96,
     CHR 0x87, CHR 0xE4, CHR 0xBB, CHR 0xB6, CHR 0xE6, CHR 0x88, CHR 0x96, CHR 0xE9,
     CHR 0x87, CHR 0x8D, CHR 0xE6, CHR 0x96, CHR 0xB0, CHR 0xE6, CHR 0xA0, CHR 0xBC,
     CHR 0xE5, CHR 0xBC, CHR 0x8F, CHR 0xE5, CHR 0x8C, CHR 0x96, CHR 0xE5, CHR 0x88,
     CHR 0x86, CHR 0xE5, CHR 0x8C, CHR 0xBA] ''disk'']"

definition network_patterns :: "pattern list" where
  "network_patterns =
    [new_pattern [CHR 0xE8, CHR 0xBF, CHR 0x9E, CHR 0xE6, CHR 0x8E, CHR 0xA5, CHR 0xE8, CHR 0xB6, CHR 0x85,
     CHR 0xE6, CHR 0x97, CHR 0xB6] ''(Connection timed out|ETIMEDOUT|connect timeout)'' ''medium'' [CHR 0xE7, CHR 0xBD, CHR 0x91, CHR 0xE7, CHR 0xBB, CHR 0x9C, CHR 0xE8, CHR 0xBF, CHR 0x9E,
     CHR 0xE6, CHR 0x8E, CHR 0xA5, CHR 0xE8, CHR 0xB6, CHR 0x85, CHR 0xE6, CHR 0x97,
     CHR 0xB6] [CHR 0xE6, CHR 0xA3, CHR 0x80, CHR 0xE6, CHR 0x9F, CHR 0xA5, CHR 0xE7, CHR 0xBD, CHR 0x91,
     CHR 0xE7, CHR 0xBB, CHR 0x9C, CHR 0xE8, CHR 0xBF, CHR 0x9E, CHR 0xE9, CHR 0x80,
     CHR 0x9A, CHR 0xE6, CHR 0x80, CHR 0xA7, CHR 0xE5, CHR 0x92, CHR 0x8C, CHR 0xE7,
     CHR 0x9B, CHR 0xAE, CHR 0xE6, CHR 0xA0, CHR 0x87, CHR 0xE6, CHR 0x9C, CHR 0x8D,
     CHR 0xE5, CHR 0x8A, CHR 0xA1, CHR 0xE7, CHR 0x8A, CHR 0xB6, CHR 0xE6, CHR 0x80,
     CHR 0x81] ''network'',
     new_pattern [CHR 0xE8, CHR 0xBF, CHR 0x9E, CHR 0xE6, CHR 0x8E, CHR 0xA5, CHR 0xE8, CHR 0xA2, CHR 0xAB,
     CHR 0xE6, CHR 0x8B, CHR 0x92, CHR 0xE7, CHR 0xBB, CHR 0x9D] ''(Connection refused|ECONNREFUSED)'' ''medium'' [CHR 0xE8, CHR 0xBF, CHR 0x9E, CHR 0xE6, CHR 0x8E, CHR 0xA5, CHR 0xE8, CHR 0xA2, CHR 0xAB,
     CHR 0xE7, CHR 0x9B, CHR 0xAE, CHR 0xE6, CHR 0xA0, CHR 0x87, CHR 0xE6, CHR 0x9C,
     CHR 0x8D, CHR 0xE5, CHR 0x8A, CHR 0xA1, CHR 0xE6, CHR 0x8B, CHR 0x92, CHR 0xE7,
     CHR 0xBB, CHR 0x9D] [CHR 0xE6, CHR 0xA3, CHR 0x80, CHR 0xE6, CHR 0x9F, CHR 0xA5, CHR 0xE7, CHR 0x9B, CHR 0xAE,
     CHR 0xE6, CHR 0xA0, CHR 0x87, CHR 0xE6, CHR 0x9C, CHR 0x8D, CHR 0xE5, CHR 0x8A,
     CHR 0xA1, CHR 0xE6, CHR 0x98, CHR 0xAF, CHR 0xE5, CHR 0x90, CHR 0xA6, CHR 0xE8,
     CHR 0xBF, CHR 0x90, CHR 0xE8, CHR 0xA1, CHR 0x8C, CHR 0xEF, CHR 0xBC, CHR 0x8C,
     CHR 0xE7, CHR 0xAB, CHR 0xAF, CHR 0xE5, CHR 0x8F, CHR 0xA3, CHR 0xE6, CHR 0x98,
     CHR 0xAF, CHR 0xE5, CHR 0x90, CHR 0xA6, CHR 0xE6, CHR 0xAD, CHR 0xA3, CHR 0xE7,
     CHR 0xA1, CHR 0xAE] ''network'',
     new_pattern [CHR 0xE8, CHR 0xBF, CHR 0x9E, CHR 0xE6, CHR 0x8E, CHR 0xA5, CHR 0xE9, CHR 0x87, CHR 0x8D,
     CHR 0xE7, CHR 0xBD, CHR 0xAE] ''(Connection reset by peer|ECONNRESET)'' ''medium'' [CHR 0xE8, CHR 0xBF, CHR 0x9E, CHR 0xE6, CHR 0x8E, CHR 0xA5, CHR 0xE8, CHR 0xA2, CHR 0xAB,
     CHR 0xE5, CHR 0xAF, CHR 0xB9, CHR 0xE7, CHR 0xAB, CHR 0xAF, CHR 0xE9, CHR 0x87,
     CHR 0x8D, CHR 0xE7, CHR 0xBD, CHR 0xAE] [CHR 0xE6, CHR 0xA3, CHR 0x80, CHR 0xE6, CHR 0x9F, CHR 0xA5, CHR 0xE7, CHR 0xBD, CHR 0x91,
     CHR 0xE7, CHR 0xBB, CHR 0x9C, CHR 0xE7, CHR 0xA8, CHR 0xB3, CHR 0xE5, CHR 0xAE,
     CHR 0x9A, CHR 0xE6, CHR 0x80, CHR 0xA7, CHR 0xE5, CHR 0x92, CHR 0x8C, CHR 0xE5,
     CHR 0xAF, CHR 0xB9, CHR 0xE7, CHR 0xAB, CHR 0xAF, CHR 0xE6, CHR 0x9C, CHR 0x8D,
     CHR 0xE5, CHR 0x8A, CHR 0xA1, CHR 0xE7, CHR 0x8A, CHR 0xB6, CHR 0xE6, CHR 0x80,
     CHR 0x81] ''network'',
     new_pattern (''DNS '' @ [CHR 0xE8, CHR 0xA7, CHR 0xA3, CHR 0xE6, CHR 0x9E, CHR 0x90, CHR 0xE5, CHR 0xA4,
     CHR 0xB1, CHR 0xE8, CHR 0xB4, CHR 0xA5]) ''(Name or service not known|NXDOMAIN|DNS.*failed|could not resolve)'' ''high'' (''DNS '' @ [CHR 0xE8, CHR 0xA7, CHR 0xA3, CHR 0xE6, CHR 0x9E, CHR 0x90, CHR 0xE5, CHR 0xA4,
     CHR 0xB1, CHR 0xE8, CHR 0xB4, CHR 0xA5]) ([CHR 0xE6, CHR 0xA3, CHR 0x80, CHR 0xE6, CHR 0x9F, CHR 0xA5] @ '' DNS '' @ [CHR 0xE9,
     CHR 0x85, CHR 0x8D, CHR 0xE7, CHR 0xBD, CHR 0xAE, CHR 0xE5, CHR 0x92, CHR 0x8C,
     CHR 0xE5, CHR 0x9F, CHR 0x9F, CHR 0xE5, CHR 0x90, CHR 0x8D, CHR 0xE6, CHR 0x98,
     CHR 0xAF, CHR 0xE5, CHR 0x90, CHR 0xA6, CHR 0xE6, CHR 0xAD, CHR 0xA3, CHR 0xE7,
     CHR 0xA1, CHR 0xAE]) ''network'',
     new_pattern [CHR 0xE7, CHR 0xAB, CHR 0xAF, CHR 0xE5, CHR 0x8F, CHR 0xA3, CHR 0xE5, CHR 0xB7, CHR 0xB2,
     CHR 0xE8, CHR 0xA2, CHR 0xAB, CHR 0xE5, CHR 0x8D, CHR 0xA0, CHR 0xE7, CHR 0x94,
     CHR 0xA8] ''(Address already in use|EADDRINUSE)'' ''high'' [CHR 0xE7, CHR 0xAB, CHR 0xAF, CHR 0xE5, CHR 0x8F, CHR 0xA3, CHR 0xE5, CHR 0xB7, CHR 0xB2,
     CHR 0xE8, CHR 0xA2, CHR 0xAB, CHR 0xE5, CHR 0x85, CHR 0xB6, CHR 0xE4, CHR 0xBB,
     CHR 0x96, CHR 0xE8, CHR 0xBF, CHR 0x9B, CHR 0xE7, CHR 0xA8, CHR 0x8B, CHR 0xE5,
     CHR 0x8D, CHR 0xA0, CHR 0xE7, CHR 0x94, CHR 0xA8] [CHR 0xE6, CHR 0xA3, CHR 0x80, CHR 0xE6, CHR 0x9F, CHR 0xA5, CHR 0xE7, CHR 0xAB, CHR 0xAF,
     CHR 0xE5, CHR 0x8F, CHR 0xA3, CHR 0xE5, CHR 0x8D, CHR 0xA0, CHR 0xE7, CHR 0x94,
     CHR 0xA8, CHR 0xE6, CHR 0x83, CHR 0x85, CHR 0xE5, CHR 0x86, CHR 0xB5, CHR 0xEF,
     CHR 0xBC, CHR 0x8C, CHR 0xE7, CHR 0xBB, CHR 0x88, CHR 0xE6, CHR 0xAD, CHR 0xA2,
     CHR 0xE5, CHR 0x86, CHR 0xB2, CHR 0xE7, CHR 0xAA, CHR 0x81, CHR 0xE8, CHR 0xBF,
     CHR 0x9B, CHR 0xE7, CHR 0xA8, CHR 0x8B, CHR 0xE6, CHR 0x88, CHR 0x96, CHR 0xE6,
     CHR 0x9B, CHR 0xB4, CHR 0xE6, CHR 0x8D, CHR 0xA2, CHR 0xE7, CHR 0xAB, CHR 0xAF,
     CHR 0xE5, CHR 0x8F, CHR 0xA3] ''network'']"

definition permission_patterns :: "pattern list" where
  "permission_patterns =
    [new_pattern [CHR 0xE6, CHR 0x9D, CHR 0x83, CHR 0xE9, CHR 0x99, CHR 0x90, CHR 0xE6, CHR 0x8B, CHR 0x92,
     CHR 0xE7, CHR 0xBB, CHR 0x9D] ''(Permission denied|EACCES|EPERM|Access denied)'' ''medium'' [CHR 0xE6, CHR 0x9D, CHR 0x83, CHR 0xE9, CHR 0x99, CHR 0x90, CHR 0xE4, CHR 0xB8, CHR 0x8D,
     CHR 0xE8, CHR 0xB6, CHR 0xB3, CHR 0xEF, CHR 0xBC, CHR 0x8C, CHR 0xE6, CHR 0x93,
     CHR 0x8D, CHR 0xE4, CHR 0xBD, CHR 0x9C, CHR 0xE8, CHR 0xA2, CHR 0xAB, CHR 0xE6,
     CHR 0x8B, CHR 0x92, CHR 0xE7, CHR 0xBB, CHR 0x9D] ([CHR 0xE6, CHR 0xA3, CHR 0x80, CHR 0xE6, CHR 0x9F, CHR 0xA5, CHR 0xE6, CHR 0x96, CHR 0x87,
     CHR 0xE4, CHR 0xBB, CHR 0xB6] @ ''/'' @ [CHR 0xE7, CHR 0x9B, CHR 0xAE, CHR 0xE5,
     CHR 0xBD, CHR 0x95, CHR 0xE6, CHR 0x9D, CHR 0x83, CHR 0xE9, CHR 0x99, CHR 0x90,
     CHR 0xE5, CHR 0x92, CHR 0x8C, CHR 0xE7, CHR 0x94, CHR 0xA8, CHR 0xE6, CHR 0x88,
     CHR 0xB7, CHR 0xE8, CHR 0xBA, CHR 0xAB, CHR 0xE4, CHR 0xBB, CHR 0xBD]) ''permission'',
     new_pattern [CHR 0xE8, CHR 0xAE, CHR 0xA4, CHR 0xE8, CHR 0xAF, CHR 0x81, CHR 0xE5, CHR 0xA4, CHR 0xB1,
     CHR 0xE8, CHR 0xB4, CHR 0xA5] ''(authentication fail|auth.*failed|invalid password|login failed)'' ''high'' [CHR 0xE8, CHR 0xAE, CHR 0xA4, CHR 0xE8, CHR 0xAF, CHR 0x81, CHR 0xE5, CHR 0xA4, CHR 0xB1,
     CHR 0xE8, CHR 0xB4, CHR 0xA5] [CHR 0xE6, CHR 0xA3, CHR 0x80, CHR 0xE6, CHR 0x9F, CHR 0xA5, CHR 0xE7, CHR 0x94, CHR 0xA8,
     CHR 0xE6, CHR 0x88, CHR 0xB7, CHR 0xE5, CHR 0x90, CHR 0x8D, CHR 0xE5, CHR 0xAF,
     CHR 0x86, CHR 0xE7, CHR 0xA0, CHR 0x81, CHR 0xE6, CHR 0x98, CHR 0xAF, CHR 0xE5,
     CHR 0x90, CHR 0xA6, CHR 0xE6, CHR 0xAD, CHR 0xA3, CHR 0xE7, CHR 0xA1, CHR 0xAE,
     CHR 0xEF, CHR 0xBC, CHR 0x8C, CHR 0xE6, CHR 0x98, CHR 0xAF, CHR 0xE5, CHR 0x90,
     CHR 0xA6, CHR 0xE5, CHR 0xAD, CHR 0x98, CHR 0xE5, CHR 0x9C, CHR 0xA8, CHR 0xE6,
     CHR 0x9A, CHR 0xB4, CHR 0xE5, CHR 0x8A, CHR 0x9B, CHR 0xE7, CHR 0xA0, CHR 0xB4,
     CHR 0xE8, CHR 0xA7, CHR 0xA3] ''security'']"

definition nginx_patterns :: "pattern list" where
  "nginx_patterns =
    [new_pattern (''Nginx '' @ [CHR 0xE4, CHR 0xB8, CHR 0x8A, CHR 0xE6, CHR 0xB8, CHR 0xB8, CHR 0xE8,
     CHR 0xB6, CHR 0x85, CHR 0xE6, CHR 0x97, CHR 0xB6]) ''upstream timed out.*while (reading|connecting)'' ''high'' (''Nginx '' @ [CHR 0xE4, CHR 0xB8, CHR 0x8A, CHR 0xE6, CHR 0xB8, CHR 0xB8, CHR 0xE6,
     CHR 0x9C, CHR 0x8D, CHR 0xE5, CHR 0x8A, CHR 0xA1, CHR 0xE5, CHR 0x93, CHR 0x8D,
     CHR 0xE5, CHR 0xBA, CHR 0x94, CHR 0xE8, CHR 0xB6, CHR 0x85, CHR 0xE6, CHR 0x97,
     CHR 0xB6]) [CHR 0xE6, CHR 0xA3, CHR 0x80, CHR 0xE6, CHR 0x9F, CHR 0xA5, CHR 0xE5, CHR 0x90, CHR 0x8E,
     CHR 0xE7, CHR 0xAB, CHR 0xAF, CHR 0xE6, CHR 0x9C, CHR 0x8D, CHR 0xE5, CHR 0x8A,
     CHR 0xA1, CHR 0xE7, CHR 0x8A, CHR 0xB6, CHR 0xE6, CHR 0x80, CHR 0x81, CHR 0xEF,
     CHR 0xBC, CHR 0x8C, CHR 0xE8, CHR 0x80, CHR 0x83, CHR 0xE8, CHR 0x99, CHR 0x91,
     CHR 0xE5, CHR 0xA2, CHR 0x9E, CHR 0xE5, CHR 0x8A, CHR 0xA0, CHR 0xE8, CHR 0xB6,
     CHR 0x85, CHR 0xE6, CHR 0x97, CHR 0xB6, CHR 0xE6, CHR 0x97, CHR 0xB6, CHR 0xE9,
     CHR 0x97, CHR 0xB4] ''nginx'',
     new_pattern (''Nginx '' @ [CHR 0xE4, CHR 0xB8, CHR 0x8A, CHR 0xE6, CHR 0xB8, CHR 0xB8, CHR 0xE8,
     CHR 0xBF, CHR 0x9E, CHR 0xE6, CHR 0x8E, CHR 0xA5, CHR 0xE5, CHR 0xA4, CHR 0xB1,
     CHR 0xE8, CHR 0xB4, CHR 0xA5]) (''connect'' @ [CHR 0x5C] @ ''('' @ [CHR 0x5C] @ '') failed.*while connecting to upstream'') ''high'' (''Nginx '' @ [CHR 0xE6, CHR 0x97, CHR 0xA0, CHR 0xE6, CHR 0xB3, CHR 0x95, CHR 0xE8,
     CHR 0xBF, CHR 0x9E, CHR 0xE6, CHR 0x8E, CHR 0xA5, CHR 0xE5, CHR 0x88, CHR 0xB0,
     CHR 0xE4, CHR 0xB8, CHR 0x8A, CHR 0xE6, CHR 0xB8, CHR 0xB8, CHR 0xE6, CHR 0x9C,
     CHR 0x8D, CHR 0xE5, CHR 0x8A, CHR 0xA1]) [CHR 0xE6, CHR 0xA3, CHR 0x80, CHR 0xE6, CHR 0x9F, CHR 0xA5, CHR 0xE5, CHR 0x90, CHR 0x8E,
     CHR 0xE7, CHR 0xAB, CHR 0xAF, CHR 0xE6, CHR 0x9C, CHR 0x8D, CHR 0xE5, CHR 0x8A,
     CHR 0xA1, CHR 0xE6, CHR 0x98, CHR 0xAF, CHR 0xE5, CHR 0x90, CHR 0xA6, CHR 0xE8,
     CHR 0xBF, CHR 0x90, CHR 0xE8, CHR 0xA1, CHR 0x8C, CHR 0xEF, CHR 0xBC, CHR 0x8C,
     CHR 0xE7, CHR 0xBD, CHR 0x91, CHR 0xE7, CHR 0xBB, CHR 0x9C, CHR 0xE6, CHR 0x98,
     CHR 0xAF, CHR 0xE5, CHR 0x90, CHR 0xA6, CHR 0xE9, CHR 0x80, CHR 0x9A, CHR 0xE7,
     CHR 0x95, CHR 0x85] ''nginx'',
     new_pattern (''Nginx 502 '' @ [CHR 0xE9, CHR 0x94, CHR 0x99, CHR 0xE8, CHR 0xAF, CHR 0xAF]) ''upstream prematurely closed connection'' ''high'' ([CHR 0xE4, CHR 0xB8, CHR 0x8A, CHR 0xE6, CHR 0xB8, CHR 0xB8, CHR 0xE6, CHR 0x9C, CHR 0x8D,
     CHR 0xE5, CHR 0x8A, CHR 0xA1, CHR 0xE8, CHR 0xBF, CHR 0x87, CHR 0xE6, CHR 0x97,
     CHR 0xA9, CHR 0xE5, CHR 0x85, CHR 0xB3, CHR 0xE9, CHR 0x97, CHR 0xAD, CHR 0xE8,
     CHR 0xBF, CHR 0x9E, CHR 0xE6, CHR 0x8E, CHR 0xA5, CHR 0xEF, CHR 0xBC, CHR 0x8C,
     CHR 0xE5, CHR 0xAF, CHR 0xBC, CHR 0xE8, CHR 0x87, CHR 0xB4] @ '' 502 '' @ [CHR 0xE9,
     CHR 0x94, CHR 0x99, CHR 0xE8, CHR 0xAF, CHR 0xAF]) [CHR 0xE6, CHR 0xA3, CHR 0x80, CHR 0xE6, CHR 0x9F, CHR 0xA5, CHR 0xE5, CHR 0x90, CHR 0x8E,
     CHR 0xE7, CHR 0xAB, CHR 0xAF, CHR 0xE6, CHR 0x9C, CHR 0x8D, CHR 0xE5, CHR 0x8A,
     CHR 0xA1, CHR 0xE7, CHR 0xA8, CHR 0xB3, CHR 0xE5, CHR 0xAE, CHR 0x9A, CHR 0xE6,
     CHR 0x80, CHR 0xA7, CHR 0xE5, CHR 0x92, CHR 0x8C, CHR 0xE8, CHR 0xB5, CHR 0x84,
     CHR 0xE6, CHR 0xBA, CHR 0x90, CHR 0xE4, CHR 0xBD, CHR 0xBF, CHR 0xE7, CHR 0x94,
     CHR 0xA8, CHR 0xE6, CHR 0x83, CHR 0x85, CHR 0xE5, CHR 0x86, CHR 0xB5] ''nginx'',
     new_pattern (''Nginx worker '' @ [CHR 0xE5, CHR 0xBC, CHR 0x82, CHR 0xE5, CHR 0xB8, CHR 0xB8, CHR 0xE9,
     CHR 0x80, CHR 0x80, CHR 0xE5, CHR 0x87, CHR 0xBA]) (''worker process '' @ [CHR 0x5C] @ ''d+ exited on signal '' @ [CHR 0x5C] @ ''d+'') ''high'' (''Nginx worker '' @ [CHR 0xE8, CHR 0xBF, CHR 0x9B, CHR 0xE7, CHR 0xA8, CHR 0x8B, CHR 0xE5,
     CHR 0xBC, CHR 0x82, CHR 0xE5, CHR 0xB8, CHR 0xB8, CHR 0xE9, CHR 0x80, CHR 0x80,
     CHR 0xE5, CHR 0x87, CHR 0xBA]) ([CHR 0xE6, CHR 0xA3, CHR 0x80, CHR 0xE6, CHR 0x9F, CHR 0xA5] @ '' Nginx '' @ [CHR 0xE9,
     CHR 0x94, CHR 0x99, CHR 0xE8, CHR 0xAF, CHR 0xAF, CHR 0xE6, CHR 0x97, CHR 0xA5,
     CHR 0xE5, CHR 0xBF, CHR 0x97, CHR 0xEF, CHR 0xBC, CHR 0x8C, CHR 0xE5, CHR 0x8F,
     CHR 0xAF, CHR 0xE8, CHR 0x83, CHR 0xBD, CHR 0xE5, CHR 0xAD, CHR 0x98, CHR 0xE5,
     CHR 0x9C, CHR 0xA8, CHR 0xE5, CHR 0x86, CHR 0x85, CHR 0xE5, CHR 0xAD, CHR 0x98,
     CHR 0xE9, CHR 0x97, CHR 0xAE, CHR 0xE9, CHR 0xA2, CHR 0x98]) ''nginx'']"

definition docker_patterns :: "pattern list" where
  "docker_patterns =
    [new_pattern (''Docker '' @ [CHR 0xE5, CHR 0xAE, CHR 0xB9, CHR 0xE5, CHR 0x99, CHR 0xA8] @ '' OOM'') ''container.*killed.*OOM|OOMKilled.*true'' ''critical'' (''Docker '' @ [CHR 0xE5, CHR 0xAE, CHR 0xB9, CHR 0xE5, CHR 0x99, CHR 0xA8, CHR 0xE5,
     CHR 0x9B, CHR 0xA0, CHR 0xE5, CHR 0x86, CHR 0x85, CHR 0xE5, CHR 0xAD, CHR 0x98,
     CHR 0xE4, CHR 0xB8, CHR 0x8D, CHR 0xE8, CHR 0xB6, CHR 0xB3, CHR 0xE8, CHR 0xA2,
     CHR 0xAB, CHR 0xE7, CHR 0xBB, CHR 0x88, CHR 0xE6, CHR 0xAD, CHR 0xA2]) [CHR 0xE5, CHR 0xA2, CHR 0x9E, CHR 0xE5, CHR 0x8A, CHR 0xA0, CHR 0xE5, CHR 0xAE, CHR 0xB9,
     CHR 0xE5, CHR 0x99, CHR 0xA8, CHR 0xE5, CHR 0x86, CHR 0x85, CHR 0xE5, CHR 0xAD,
     CHR 0x98, CHR 0xE9, CHR 0x99, CHR 0x90, CHR 0xE5, CHR 0x88, CHR 0xB6, CHR 0xE6,
     CHR 0x88, CHR 0x96, CHR 0xE4, CHR 0xBC, CHR 0x98, CHR 0xE5, CHR 0x8C, CHR 0x96,
     CHR 0xE5, CHR 0xBA, CHR 0x94, CHR 0xE7, CHR 0x94, CHR 0xA8, CHR 0xE5, CHR 0x86,
     CHR 0x85, CHR 0xE5, CHR 0xAD, CHR 0x98, CHR 0xE4, CHR 0xBD, CHR 0xBF, CHR 0xE7,
     CHR 0x94, CHR 0xA8] ''docker'',
     new_pattern (''Docker '' @ [CHR 0xE9, CHR 0x95, CHR 0x9C, CHR 0xE5, CHR 0x83, CHR 0x8F, CHR 0xE6,
     CHR 0x8B, CHR 0x89, CHR 0xE5, CHR 0x8F, CHR 0x96, CHR 0xE5, CHR 0xA4, CHR 0xB1,
     CHR 0xE8, CHR 0xB4, CHR 0xA5]) ''(pull access denied|manifest.*not found|image.*not found)'' ''high'' (''Docker '' @ [CHR 0xE9, CHR 0x95, CHR 0x9C, CHR 0xE5, CHR 0x83, CHR 0x8F, CHR 0xE6,
     CHR 0x8B, CHR 0x89, CHR 0xE5, CHR 0x8F, CHR 0x96, CHR 0xE5, CHR 0xA4, CHR 0xB1,
     CHR 0xE8, CHR 0xB4, CHR 0xA5]) [CHR 0xE6, CHR 0xA3, CHR 0x80, CHR 0xE6, CHR 0x9F, CHR 0xA5, CHR 0xE9, CHR 0x95, CHR 0x9C,
     CHR 0xE5, CHR 0x83, CHR 0x8F, CHR 0xE5, CHR 0x90, CHR 0x8D, CHR 0xE7, CHR 0xA7,
     CHR 0xB0, CHR 0xE6, CHR 0x98, CHR 0xAF, CHR 0xE5, CHR 0x90, CHR 0xA6, CHR 0xE6,
     CHR 0xAD, CHR 0xA3, CHR 0xE7, CHR 0xA1, CHR 0xAE, CHR 0xEF, CHR 0xBC, CHR 0x8C,
     CHR 0xE6, CHR 0x98, CHR 0xAF, CHR 0xE5, CHR 0x90, CHR 0xA6, CHR 0xE9, CHR 0x9C,
     CHR 0x80, CHR 0xE8, CHR 0xA6, CHR 0x81, CHR 0xE7, CHR 0x99, CHR 0xBB, CHR 0xE5,
     CHR 0xBD, CHR 0x95, CHR 0xE8, CHR 0xAE, CHR 0xA4, CHR 0xE8, CHR 0xAF, CHR 0x81] ''docker'',
     new_pattern (''Docker '' @ [CHR 0xE5, CHR 0xAE, CHR 0xB9, CHR 0xE5, CHR 0x99, CHR 0xA8, CHR 0xE5,
     CHR 0x90, CHR 0xAF, CHR 0xE5, CHR 0x8A, CHR 0xA8, CHR 0xE5, CHR 0xA4, CHR 0xB1,
     CHR 0xE8, CHR 0xB4, CHR 0xA5]) ''(container.*failed to start|Error starting container)'' ''high'' (''Docker '' @ [CHR 0xE5, CHR 0xAE, CHR 0xB9, CHR 0xE5, CHR 0x99, CHR 0xA8, CHR 0xE5,
     CHR 0x90, CHR 0xAF, CHR 0xE5, CHR 0x8A, CHR 0xA8, CHR 0xE5, CHR 0xA4, CHR 0xB1,
     CHR 0xE8, CHR 0xB4, CHR 0xA5]) [CHR 0xE6, CHR 0xA3, CHR 0x80, CHR 0xE6, CHR 0x9F, CHR 0xA5, CHR 0xE5, CHR 0xAE, CHR 0xB9,
     CHR 0xE5, CHR 0x99, CHR 0xA8, CHR 0xE9, CHR 0x85, CHR 0x8D, CHR 0xE7, CHR 0xBD,
     CHR 0xAE, CHR 0xE5, CHR 0x92, CHR 0x8C, CHR 0xE4, CHR 0xBE, CHR 0x9D, CHR 0xE8,
     CHR 0xB5, CHR 0x96, CHR 0xE6, CHR 0x9C, CHR 0x8D, CHR 0xE5, CHR 0x8A, CHR 0xA1] ''docker'',
     new_pattern (''Docker '' @ [CHR 0xE7, CHR 0xBD, CHR 0x91, CHR 0xE7, CHR 0xBB, CHR 0x9C, CHR 0xE9,
     CHR 0x94, CHR 0x99, CHR 0xE8, CHR 0xAF, CHR 0xAF]) ''(network.*not found|failed to create endpoint)'' ''medium'' (''Docker '' @ [CHR 0xE7, CHR 0xBD, CHR 0x91, CHR 0xE7, CHR 0xBB, CHR 0x9C, CHR 0xE9,
     CHR 0x85, CHR 0x8D, CHR 0xE7, CHR 0xBD, CHR 0xAE, CHR 0xE9, CHR 0x94, CHR 0x99,
     CHR 0xE8, CHR 0xAF, CHR 0xAF]) ([CHR 0xE6, CHR 0xA3, CHR 0x80, CHR 0xE6, CHR 0x9F, CHR 0xA5] @ '' Docker '' @ [CHR 0xE7,
     CHR 0xBD, CHR 0x91, CHR 0xE7, CHR 0xBB, CHR 0x9C, CHR 0xE9, CHR 0x85, CHR 0x8D,
     CHR 0xE7, CHR 0xBD, CHR 0xAE]) ''docker'']"

definition systemd_patterns :: "pattern list" where
  "systemd_patterns =
    [new_pattern [CHR 0xE6, CHR 0x9C, CHR 0x8D, CHR 0xE5, CHR 0x8A, CHR 0xA1, CHR 0xE5, CHR 0x90, CHR 0xAF,
     CHR 0xE5, CHR 0x8A, CHR 0xA8, CHR 0xE5, CHR 0xA4, CHR 0xB1, CHR 0xE8, CHR 0xB4,
     CHR 0xA5] ''(Failed to start|service.*failed|systemd.*failed)'' ''high'' [CHR 0xE7, CHR 0xB3, CHR 0xBB, CHR 0xE7, CHR 0xBB, CHR 0x9F, CHR 0xE6, CHR 0x9C, CHR 0x8D,
     CHR 0xE5, CHR 0x8A, CHR 0xA1, CHR 0xE5, CHR 0x90, CHR 0xAF, CHR 0xE5, CHR 0x8A,
     CHR 0xA8, CHR 0xE5, CHR 0xA4, CHR 0xB1, CHR 0xE8, CHR 0xB4, CHR 0xA5] [CHR 0xE6, CHR 0xA3, CHR 0x80, CHR 0xE6, CHR 0x9F, CHR 0xA5, CHR 0xE6, CHR 0x9C, CHR 0x8D,
     CHR 0xE5, CHR 0x8A, CHR 0xA1, CHR 0xE9, CHR 0x85, CHR 0x8D, CHR 0xE7, CHR 0xBD,
     CHR 0xAE, CHR 0xE5, CHR 0x92, CHR 0x8C, CHR 0xE4, CHR 0xBE, CHR 0x9D, CHR 0xE8,
     CHR 0xB5, CHR 0x96] ''systemd'',
     new_pattern [CHR 0xE6, CHR 0x9C, CHR 0x8D, CHR 0xE5, CHR 0x8A, CHR 0xA1, CHR 0xE5, CHR 0xB4, CHR 0xA9,
     CHR 0xE6, CHR 0xBA, CHR 0x83] ''(segfault|Segmentation fault|SIGSEGV|core dumped)'' ''critical'' [CHR 0xE8, CHR 0xBF, CHR 0x9B, CHR 0xE7, CHR 0xA8, CHR 0x8B, CHR 0xE5, CHR 0x8F, CHR 0x91,
     CHR 0xE7, CHR 0x94, CHR 0x9F, CHR 0xE6, CHR 0xAE, CHR 0xB5, CHR 0xE9, CHR 0x94,
     CHR 0x99, CHR 0xE8, CHR 0xAF, CHR 0xAF, CHR 0xE5, CHR 0xB4, CHR 0xA9, CHR 0xE6,
     CHR 0xBA, CHR 0x83] [CHR 0xE6, CHR 0xA3, CHR 0x80, CHR 0xE6, CHR 0x9F, CHR 0xA5, CHR 0xE5, CHR 0xBA, CHR 0x94,
     CHR 0xE7, CHR 0x94, CHR 0xA8, CHR 0xE6, CHR 0x97, CHR 0xA5, CHR 0xE5, CHR 0xBF,
     CHR 0x97, CHR 0xEF, CHR 0xBC, CHR 0x8C, CHR 0xE5, CHR 0x8F, CHR 0xAF, CHR 0xE8,
     CHR 0x83, CHR 0xBD, CHR 0xE5, CHR 0xAD, CHR 0x98, CHR 0xE5, CHR 0x9C, CHR 0xA8,
     CHR 0xE5, CHR 0x86, CHR 0x85, CHR 0xE5, CHR 0xAD, CHR 0x98, CHR 0xE8, CHR 0xAE,
     CHR 0xBF, CHR 0xE9, CHR 0x97, CHR 0xAE, CHR 0xE9, CHR 0x94, CHR 0x99, CHR 0xE8,
     CHR 0xAF, CHR 0xAF] ''crash'',
     new_pattern [CHR 0xE8, CHR 0xBF, CHR 0x9B, CHR 0xE7, CHR 0xA8, CHR 0x8B, CHR 0xE8, CHR 0xA2, CHR 0xAB,
     CHR 0xE6, CHR 0x9D, CHR 0x80] ''(Killed|SIGKILL|signal 9)'' ''high'' [CHR 0xE8, CHR 0xBF, CHR 0x9B, CHR 0xE7, CHR 0xA8, CHR 0x8B, CHR 0xE8, CHR 0xA2, CHR 0xAB,
     CHR 0xE5, CHR 0xBC, CHR 0xBA, CHR 0xE5, CHR 0x88, CHR 0xB6, CHR 0xE7, CHR 0xBB,
     CHR 0x88, CHR 0xE6, CHR 0xAD, CHR 0xA2] ([CHR 0xE6, CHR 0xA3, CHR 0x80, CHR 0xE6, CHR 0x9F, CHR 0xA5, CHR 0xE6, CHR 0x98, CHR 0xAF,
     CHR 0xE5, CHR 0x90, CHR 0xA6, CHR 0xE8, CHR 0xA2, CHR 0xAB] @ '' OOM Killer '' @
     [CHR 0xE7, CHR 0xBB, CHR 0x88, CHR 0xE6, CHR 0xAD, CHR 0xA2, CHR 0xE6, CHR 0x88,
     CHR 0x96, CHR 0xE6, CHR 0x89, CHR 0x8B, CHR 0xE5, CHR 0x8A, CHR 0xA8] @ '' kill'') ''process'']"

definition database_patterns :: "pattern list" where
  "database_patterns =
    [new_pattern [CHR 0xE6, CHR 0x95, CHR 0xB0, CHR 0xE6, CHR 0x8D, CHR 0xAE, CHR 0xE5, CHR 0xBA, CHR 0x93,
     CHR 0xE8, CHR 0xBF, CHR 0x9E, CHR 0xE6, CHR 0x8E, CHR 0xA5, CHR 0xE5, CHR 0xA4,
     CHR 0xB1, CHR 0xE8, CHR 0xB4, CHR 0xA5] ''(could not connect to.*database|database.*connection.*failed)'' ''high'' [CHR 0xE6, CHR 0x95, CHR 0xB0, CHR 0xE6, CHR 0x8D, CHR 0xAE, CHR 0xE5, CHR 0xBA, CHR 0x93,
     CHR 0xE8, CHR 0xBF, CHR 0x9E, CHR 0xE6, CHR 0x8E, CHR 0xA5, CHR 0xE5, CHR 0xA4,
     CHR 0xB1, CHR 0xE8, CHR 0xB4, CHR 0xA5] [CHR 0xE6, CHR 0xA3, CHR 0x80, CHR 0xE6, CHR 0x9F, CHR 0xA5, CHR 0xE6, CHR 0x95, CHR 0xB0,
     CHR 0xE6, CHR 0x8D, CHR 0xAE, CHR 0xE5, CHR 0xBA, CHR 0x93, CHR 0xE6, CHR 0x9C,
     CHR 0x8D, CHR 0xE5, CHR 0x8A, CHR 0xA1, CHR 0xE7, CHR 0x8A, CHR 0xB6, CHR 0xE6,
     CHR 0x80, CHR 0x81, CHR 0xE5, CHR 0x92, CHR 0x8C, CHR 0xE8, CHR 0xBF, CHR 0x9E,
     CHR 0xE6, CHR 0x8E, CHR 0xA5, CHR 0xE9, CHR 0x85, CHR 0x8D, CHR 0xE7, CHR 0xBD,
     CHR 0xAE] ''database'',
     new_pattern [CHR 0xE6, CHR 0x95, CHR 0xB0, CHR 0xE6, CHR 0x8D, CHR 0xAE, CHR 0xE5, CHR 0xBA, CHR 0x93,
     CHR 0xE8, CHR 0xBF, CHR 0x9E, CHR 0xE6, CHR 0x8E, CHR 0xA5, CHR 0xE6, CHR 0xB1,
     CHR 0xA0, CHR 0xE8, CHR 0x80, CHR 0x97, CHR 0xE5, CHR 0xB0, CHR 0xBD] ''(too many connections|connection pool exhausted|max.*connections)'' ''high'' [CHR 0xE6, CHR 0x95, CHR 0xB0, CHR 0xE6, CHR 0x8D, CHR 0xAE, CHR 0xE5, CHR 0xBA, CHR 0x93,
     CHR 0xE8, CHR 0xBF, CHR 0x9E, CHR 0xE6, CHR 0x8E, CHR 0xA5, CHR 0xE6, CHR 0x95,
     CHR 0xB0, CHR 0xE8, CHR 0xBE, CHR 0xBE, CHR 0xE5, CHR 0x88, CHR 0xB0, CHR 0xE4,
     CHR 0xB8, CHR 0x8A, CHR 0xE9, CHR 0x99, CHR 0x90] [CHR 0xE5, CHR 0xA2, CHR 0x9E, CHR 0xE5, CHR 0x8A, CHR 0xA0, CHR 0xE8, CHR 0xBF, CHR 0x9E,
     CHR 0xE6, CHR 0x8E, CHR 0xA5, CHR 0xE6, CHR 0xB1, CHR 0xA0, CHR 0xE5, CHR 0xA4,
     CHR 0xA7, CHR 0xE5, CHR 0xB0, CHR 0x8F, CHR 0xE6, CHR 0x88, CHR 0x96, CHR 0xE4,
     CHR 0xBC, CHR 0x98, CHR 0xE5, CHR 0x8C, CHR 0x96, CHR 0xE8, CHR 0xBF, CHR 0x9E,
     CHR 0xE6, CHR 0x8E, CHR 0xA5, CHR 0xE4, CHR 0xBD, CHR 0xBF, CHR 0xE7, CHR 0x94,
     CHR 0xA8] ''database'',
     new_pattern [CHR 0xE6, CHR 0x95, CHR 0xB0, CHR 0xE6, CHR 0x8D, CHR 0xAE, CHR 0xE5, CHR 0xBA, CHR 0x93,
     CHR 0xE6, CHR 0xAD, CHR 0xBB, CHR 0xE9, CHR 0x94, CHR 0x81] ''(deadlock|Deadlock found)'' ''high'' [CHR 0xE6, CHR 0x95, CHR 0xB0, CHR 0xE6, CHR 0x8D, CHR 0xAE, CHR 0xE5, CHR 0xBA, CHR 0x93,
     CHR 0xE5, CHR 0x8F, CHR 0x91, CHR 0xE7, CHR 0x94, CHR 0x9F, CHR 0xE6, CHR 0xAD,
     CHR 0xBB, CHR 0xE9, CHR 0x94, CHR 0x81] [CHR 0xE6, CHR 0xA3, CHR 0x80, CHR 0xE6, CHR 0x9F, CHR 0xA5, CHR 0xE4, CHR 0xBA, CHR 0x8B,
     CHR 0xE5, CHR 0x8A, CHR 0xA1, CHR 0xE9, CHR 0x80, CHR 0xBB, CHR 0xE8, CHR 0xBE,
     CHR 0x91, CHR 0xEF, CHR 0xBC, CHR 0x8C, CHR 0xE4, CHR 0xBC, CHR 0x98, CHR 0xE5,
     CHR 0x8C, CHR 0x96, CHR 0xE9, CHR 0x94, CHR 0x81, CHR 0xE9, CHR 0xA1, CHR 0xBA,
     CHR 0xE5, CHR 0xBA, CHR 0x8F] ''database'']"

definition ssl_patterns :: "pattern list" where
  "ssl_patterns =
    [new_pattern (''SSL '' @ [CHR 0xE8, CHR 0xAF, CHR 0x81, CHR 0xE4, CHR 0xB9, CHR 0xA6, CHR 0xE8, CHR 0xBF,
     CHR 0x87, CHR 0xE6, CHR 0x9C, CHR 0x9F]) ''(certificate has expired|SSL.*expired|cert.*expired)'' ''critical'' (''SSL '' @ [CHR 0xE8, CHR 0xAF, CHR 0x81, CHR 0xE4, CHR 0xB9, CHR 0xA6, CHR 0xE5, CHR 0xB7,
     CHR 0xB2, CHR 0xE8, CHR 0xBF, CHR 0x87, CHR 0xE6, CHR 0x9C, CHR 0x9F]) ([CHR 0xE7, CHR 0xAB, CHR 0x8B, CHR 0xE5, CHR 0x8D, CHR 0xB3, CHR 0xE6, CHR 0x9B, CHR 0xB4,
     CHR 0xE6, CHR 0x96, CHR 0xB0] @ '' SSL '' @ [CHR 0xE8, CHR 0xAF, CHR 0x81, CHR 0xE4,
     CHR 0xB9, CHR 0xA6]) ''ssl'',
     new_pattern (''SSL '' @ [CHR 0xE6, CHR 0x8F, CHR 0xA1, CHR 0xE6, CHR 0x89, CHR 0x8B, CHR 0xE5, CHR 0xA4,
     CHR 0xB1, CHR 0xE8, CHR 0xB4, CHR 0xA5]) ''(SSL handshake failed|SSL_ERROR|TLS.*error)'' ''high'' (''SSL/TLS '' @ [CHR 0xE6, CHR 0x8F, CHR 0xA1, CHR 0xE6, CHR 0x89, CHR 0x8B, CHR 0xE5,
     CHR 0xA4, CHR 0xB1, CHR 0xE8, CHR 0xB4, CHR 0xA5]) ([CHR 0xE6, CHR 0xA3, CHR 0x80, CHR 0xE6, CHR 0x9F, CHR 0xA5, CHR 0xE8, CHR 0xAF, CHR 0x81,
     CHR 0xE4, CHR 0xB9, CHR 0xA6, CHR 0xE9, CHR 0x85, CHR 0x8D, CHR 0xE7, CHR 0xBD,
     CHR 0xAE, CHR 0xE5, CHR 0x92, CHR 0x8C] @ '' TLS '' @ [CHR 0xE7, CHR 0x89, CHR 0x88,
     CHR 0xE6, CHR 0x9C, CHR 0xAC, CHR 0xE5, CHR 0x85, CHR 0xBC, CHR 0xE5, CHR 0xAE,
     CHR 0xB9, CHR 0xE6, CHR 0x80, CHR 0xA7]) ''ssl'']"

definition builtin_patterns :: "pattern list" where
  "builtin_patterns = memory_patterns @ disk_patterns @ network_patterns @ permission_patterns @ nginx_patterns @
     docker_patterns @ systemd_patterns @ database_patterns @ ssl_patterns"

subsection \<open>The matcher\<close>

type_synonym find_regex = "string \<Rightarrow> string \<Rightarrow> string list option"

record pattern_matcher =
  px_patterns :: "pattern list"
  px_compiled :: "string \<rightharpoonup> string"

definition AddPattern :: "(string \<Rightarrow> bool) \<Rightarrow> pattern \<Rightarrow> pattern_matcher \<Rightarrow> pattern_matcher \<times> bool" where
  "AddPattern rx_ok p m =
     (if rx_ok (pt_Regex p)
      then (m\<lparr>px_patterns := px_patterns m @ [p], px_compiled := (px_compiled m)(pt_Name p \<mapsto> pt_Regex p)\<rparr>, True)
      else (m, False))"

definition NewPatternMatcher :: "(string \<Rightarrow> bool) \<Rightarrow> pattern_matcher" where
  "NewPatternMatcher rx_ok =
     fold (\<lambda>p m. fst (AddPattern rx_ok p m)) builtin_patterns \<lparr>px_patterns = [], px_compiled = Map.empty\<rparr>"

fun remove_first :: "string \<Rightarrow> pattern list \<Rightarrow> pattern list" where
  "remove_first name [] = []"
| "remove_first name (p # ps) = (if pt_Name p = name then ps else p # remove_first name ps)"

definition RemovePattern :: "string \<Rightarrow> pattern_matcher \<Rightarrow> pattern_matcher" where
  "RemovePattern name m =
     (if \<exists>p \<in> set (px_patterns m). pt_Name p = name
      then m\<lparr>px_patterns := remove_first name (px_patterns m), px_compiled := (px_compiled m)(name := None)\<rparr>
      else m)"

definition match_pattern :: "find_regex \<Rightarrow> pattern_matcher \<Rightarrow> log_entry \<Rightarrow> pattern \<Rightarrow> pattern_match list" where
  "match_pattern rx_find m entry p =
     (case px_compiled m (pt_Name p) of
        None \<Rightarrow> []
      | Some re \<Rightarrow>
          (case rx_find re (le_Raw entry) of
             None \<Rightarrow> []
           | Some groups \<Rightarrow> [\<lparr>pm_Pattern = p, pm_Entry = entry, pm_Captures = groups, pm_MatchedAt = le_Timestamp entry\<rparr>]))"

definition MatchLine :: "find_regex \<Rightarrow> pattern_matcher \<Rightarrow> log_entry \<Rightarrow> pattern_match list" where
  "MatchLine rx_find m entry = concat (map (match_pattern rx_find m entry) (px_patterns m))"

definition MatchLines :: "find_regex \<Rightarrow> pattern_matcher \<Rightarrow> log_entry list \<Rightarrow> pattern_match list" where
  "MatchLines rx_find m entries = concat (map (MatchLine rx_find m) entries)"

definition MatchByCategory :: "find_regex \<Rightarrow> pattern_matcher \<Rightarrow> log_entry list \<Rightarrow> string \<Rightarrow> pattern_match list" where
  "MatchByCategory rx_find m entries category =
     concat (map (\<lambda>entry. concat (map (\<lambda>p. if pt_Category p \<noteq> category then [] else match_pattern rx_find m entry p)
       (px_patterns m))) entries)"

definition MatchBySeverity :: "find_regex \<Rightarrow> pattern_matcher \<Rightarrow> log_entry list \<Rightarrow> string \<Rightarrow> pattern_match list" where
  "MatchBySeverity rx_find m entries severity =
     concat (map (\<lambda>entry. concat (map (\<lambda>p. if pt_Severity p \<noteq> severity then [] else match_pattern rx_find m entry p)
       (px_patterns m))) entries)"

definition GetPatterns :: "pattern_matcher \<Rightarrow> pattern list" where
  "GetPatterns m = px_patterns m"

definition GetPatternsByCategory :: "string \<Rightarrow> pattern_matcher \<Rightarrow> pattern list" where
  "GetPatternsByCategory category m = filter (\<lambda>p. pt_Category p = category) (px_patterns m)"

text \<open>The categories, in the order in which the map that collects them is visited.\<close>

definition categories_in :: "pattern_matcher \<Rightarrow> string list \<Rightarrow> bool" where
  "categories_in m cs \<longleftrightarrow> distinct cs \<and> set cs = pt_Category ` set (px_patterns m)"

subsection \<open>Patterns and compiled expressions\<close>

text \<open>Every pattern has a compiled expression: the one of the last pattern of its name.\<close>

definition compiled_ok :: "pattern_matcher \<Rightarrow> bool" where
  "compiled_ok m \<longleftrightarrow> distinct (map pt_Name (px_patterns m)) \<and>
     px_compiled m = map_of (map (\<lambda>p. (pt_Name p, pt_Regex p)) (px_patterns m))"

abbreviation regex_of :: "pattern list \<Rightarrow> string \<rightharpoonup> string" where
  "regex_of ps \<equiv> map_of (map (\<lambda>p. (pt_Name p, pt_Regex p)) ps)"

lemma regex_of_new: "pt_Name p \<notin> pt_Name ` set ps \<Longrightarrow> regex_of (ps @ [p]) = (regex_of ps)(pt_Name p \<mapsto> pt_Regex p)"
  by (induction ps) auto

lemma regex_of_without: "regex_of (filter (\<lambda>p. pt_Name p \<noteq> name) ps) = (regex_of ps)(name := None)"
  by (induction ps) auto

lemma AddPattern_ok:
  assumes "compiled_ok m" and "pt_Name p \<notin> pt_Name ` set (px_patterns m)"
  shows "compiled_ok (fst (AddPattern rx_ok p m))"
proof -
  have "regex_of (px_patterns m @ [p]) = (px_compiled m)(pt_Name p \<mapsto> pt_Regex p)"
    using assms regex_of_new[of p "px_patterns m"] by (simp add: compiled_ok_def)
  then show ?thesis using assms by (simp add: AddPattern_def compiled_ok_def)
qed

lemma remove_first_names:
  "distinct (map pt_Name ps) \<Longrightarrow> remove_first name ps = filter (\<lambda>p. pt_Name p \<noteq> name) ps"
proof (induction ps)
  case (Cons p ps)
  show ?case
  proof (cases "pt_Name p = name")
    case True
    then have "\<forall>q \<in> set ps. pt_Name q \<noteq> name" using Cons.prems by (metis distinct.simps(2) image_eqI list.simps(9) set_map)
    then have "filter (\<lambda>q. pt_Name q \<noteq> name) ps = ps" by (intro filter_True) blast
    then show ?thesis using True by simp
  qed (use Cons in simp)
qed simp

lemma RemovePattern_ok:
  assumes "compiled_ok m"
  shows "compiled_ok (RemovePattern name m)"
  unfolding RemovePattern_def compiled_ok_def using assms
  by (simp add: compiled_ok_def remove_first_names distinct_map_filter regex_of_without)

lemma MatchLine_compiled_ok:
  assumes "compiled_ok m"
  shows "map pm_Pattern (MatchLine rx_find m entry) =
    filter (\<lambda>p. rx_find (pt_Regex p) (le_Raw entry) \<noteq> None) (px_patterns m)"
proof -
  have get: "px_compiled m (pt_Name p) = Some (pt_Regex p)" if "p \<in> set (px_patterns m)" for p
    using assms that by (auto simp: compiled_ok_def comp_def intro!: map_of_is_SomeI)
  have "map pm_Pattern (concat (map (match_pattern rx_find m entry) ps)) =
      filter (\<lambda>p. rx_find (pt_Regex p) (le_Raw entry) \<noteq> None) ps" if "set ps \<subseteq> set (px_patterns m)" for ps
    using that
  proof (induction ps)
    case (Cons p ps)
    then show ?case using get[of p] by (auto simp: match_pattern_def split: option.split)
  qed simp
  then show ?thesis by (simp add: MatchLine_def)
qed

end
