(* ===== verification/Owl_Anomaly.thy ===== *)
theory Owl_Anomaly
  imports Complex_Main Owl_Patterns
begin

text \<open>
  \<open>internal/analyzer/anomaly_detector.go\<close>: anomalies in log entries, by counting them in windows of
  time. \<open>float64\<close> is a real number; a window is its first instant. A count is kept as an association
  list; where the code visits the map in an order of its own, the order is an argument.
\<close>

record anomaly_stats =
  an_CurrentValue :: real
  an_BaselineValue :: real
  an_StdDev :: real
  an_DeviationFactor :: real
  an_SampleCount :: nat

record anomaly =
  ay_Type :: string
  ay_Severity :: string
  ay_Description :: string
  ay_DetectedAt :: gotime
  ay_StartTime :: gotime
  ay_EndTime :: gotime
  ay_RelatedEntries :: "log_entry list"
  ay_Stats :: anomaly_stats
  ay_Suggestion :: string

record nginx_entry =
  ng_Entry :: log_entry
  ng_ClientIP :: string
  ng_Method :: string
  ng_Path :: string
  ng_Protocol :: string
  ng_StatusCode :: int
  ng_BodyBytes :: int
  ng_Referer :: string
  ng_UserAgent :: string
  ng_ResponseTime :: real
  ng_UpstreamTime :: real

record anomaly_detector =
  ad_ErrorSpikeThreshold :: real
  ad_SlowRequestThreshold :: real
  ad_TimeWindowMinutes :: int
  ad_MinSampleSize :: nat

definition NewAnomalyDetector :: anomaly_detector where
  "NewAnomalyDetector = \<lparr>ad_ErrorSpikeThreshold = 2, ad_SlowRequestThreshold = 3, ad_TimeWindowMinutes = 5,
     ad_MinSampleSize = 10\<rparr>"

subsection \<open>Windows\<close>

type_synonym window_counts = "(gotime \<times> nat) list"

definition window_size :: "anomaly_detector \<Rightarrow> duration" where
  "window_size ad = ad_TimeWindowMinutes ad * Minute"

text \<open>\<open>t.Truncate(d)\<close>; a size that is not positive leaves the time as it is.\<close>

definition Truncate :: "gotime \<Rightarrow> duration \<Rightarrow> gotime" where
  "Truncate t d = (if d \<le> 0 then t else t - (t - zero_time) mod d)"

definition window_of :: "anomaly_detector \<Rightarrow> log_entry \<Rightarrow> gotime" where
  "window_of ad e = Truncate (le_Timestamp e) (window_size ad)"

fun count_one :: "gotime \<Rightarrow> window_counts \<Rightarrow> window_counts" where
  "count_one w [] = [(w, 1)]"
| "count_one w ((v, n) # cs) = (if v = w then (v, Suc n) # cs else (v, n) # count_one w cs)"

definition countByTimeWindow :: "anomaly_detector \<Rightarrow> (log_entry \<Rightarrow> bool) \<Rightarrow> log_entry list \<Rightarrow> window_counts" where
  "countByTimeWindow ad keep logs = fold (\<lambda>e cs. if keep e then count_one (window_of ad e) cs else cs) logs []"

definition count_in :: "window_counts \<Rightarrow> gotime \<Rightarrow> nat" where
  "count_in cs w = (case map_of cs w of None \<Rightarrow> 0 | Some n \<Rightarrow> n)"

definition getEntriesInWindow :: "anomaly_detector \<Rightarrow> gotime \<Rightarrow> log_entry list \<Rightarrow> log_entry list" where
  "getEntriesInWindow ad start logs =
     filter (\<lambda>e. start \<le> le_Timestamp e \<and> le_Timestamp e < start + window_size ad) logs"

definition getSortedWindows :: "window_counts \<Rightarrow> gotime list" where
  "getSortedWindows cs = sort (map fst cs)"

subsection \<open>Statistics\<close>

definition calculateMean :: "real list \<Rightarrow> real" where
  "calculateMean xs = (if xs = [] then 0 else sum_list xs / real (length xs))"

definition calculateStdDev :: "real list \<Rightarrow> real \<Rightarrow> real" where
  "calculateStdDev xs mean =
     (if length xs < 2 then 0 else sqrt (sum_list (map (\<lambda>v. (v - mean) * (v - mean)) xs) / real (length xs - 1)))"

definition getSeverityByDeviation :: "real \<Rightarrow> string" where
  "getSeverityByDeviation d =
     (if d > 4 then ''critical'' else if d > 3 then ''high'' else if d > 2 then ''medium'' else ''low'')"

definition getSeverityByStatusCode :: "int \<Rightarrow> string" where
  "getSeverityByStatusCode code = (if code \<ge> 500 then ''high'' else if code \<ge> 400 then ''medium'' else ''low'')"

definition getSuggestionByStatusCode :: "int \<Rightarrow> string" where
  "getSuggestionByStatusCode code =
     (if code = 500 then [CHR 0xE6, CHR 0xA3, CHR 0x80, CHR 0xE6, CHR 0x9F, CHR 0xA5, CHR 0xE5, CHR 0xBA, CHR 0x94,
     CHR 0xE7, CHR 0x94, CHR 0xA8, CHR 0xE6, CHR 0x97, CHR 0xA5, CHR 0xE5, CHR 0xBF,
     CHR 0x97, CHR 0xEF, CHR 0xBC, CHR 0x8C, CHR 0xE6, CHR 0x8E, CHR 0x92, CHR 0xE6,
     CHR 0x9F, CHR 0xA5, CHR 0xE5, CHR 0x86, CHR 0x85, CHR 0xE9, CHR 0x83, CHR 0xA8,
     CHR 0xE9, CHR 0x94, CHR 0x99, CHR 0xE8, CHR 0xAF, CHR 0xAF]
      else if code = 502 then [CHR 0xE6, CHR 0xA3, CHR 0x80, CHR 0xE6, CHR 0x9F, CHR 0xA5, CHR 0xE4, CHR 0xB8, CHR 0x8A,
     CHR 0xE6, CHR 0xB8, CHR 0xB8, CHR 0xE6, CHR 0x9C, CHR 0x8D, CHR 0xE5, CHR 0x8A,
     CHR 0xA1, CHR 0xE7, CHR 0x8A, CHR 0xB6, CHR 0xE6, CHR 0x80, CHR 0x81]
      else if code = 503 then [CHR 0xE6, CHR 0xA3, CHR 0x80, CHR 0xE6, CHR 0x9F, CHR 0xA5, CHR 0xE6, CHR 0x9C, CHR 0x8D,
     CHR 0xE5, CHR 0x8A, CHR 0xA1, CHR 0xE6, CHR 0x98, CHR 0xAF, CHR 0xE5, CHR 0x90,
     CHR 0xA6, CHR 0xE8, CHR 0xBF, CHR 0x87, CHR 0xE8, CHR 0xBD, CHR 0xBD, CHR 0xE6,
     CHR 0x88, CHR 0x96, CHR 0xE6, CHR 0xAD, CHR 0xA3, CHR 0xE5, CHR 0x9C, CHR 0xA8,
     CHR 0xE7, CHR 0xBB, CHR 0xB4, CHR 0xE6, CHR 0x8A, CHR 0xA4]
      else if code = 504 then [CHR 0xE6, CHR 0xA3, CHR 0x80, CHR 0xE6, CHR 0x9F, CHR 0xA5, CHR 0xE4, CHR 0xB8, CHR 0x8A,
     CHR 0xE6, CHR 0xB8, CHR 0xB8, CHR 0xE6, CHR 0x9C, CHR 0x8D, CHR 0xE5, CHR 0x8A,
     CHR 0xA1, CHR 0xE5, CHR 0x93, CHR 0x8D, CHR 0xE5, CHR 0xBA, CHR 0x94, CHR 0xE6,
     CHR 0x97, CHR 0xB6, CHR 0xE9, CHR 0x97, CHR 0xB4]
      else if code = 400 then [CHR 0xE6, CHR 0xA3, CHR 0x80, CHR 0xE6, CHR 0x9F, CHR 0xA5, CHR 0xE5, CHR 0xAE, CHR 0xA2,
     CHR 0xE6, CHR 0x88, CHR 0xB7, CHR 0xE7, CHR 0xAB, CHR 0xAF, CHR 0xE8, CHR 0xAF,
     CHR 0xB7, CHR 0xE6, CHR 0xB1, CHR 0x82, CHR 0xE6, CHR 0xA0, CHR 0xBC, CHR 0xE5,
     CHR 0xBC, CHR 0x8F]
      else if code = 401 then [CHR 0xE6, CHR 0xA3, CHR 0x80, CHR 0xE6, CHR 0x9F, CHR 0xA5, CHR 0xE8, CHR 0xAE, CHR 0xA4,
     CHR 0xE8, CHR 0xAF, CHR 0x81, CHR 0xE9, CHR 0x85, CHR 0x8D, CHR 0xE7, CHR 0xBD,
     CHR 0xAE]
      else if code = 403 then [CHR 0xE6, CHR 0xA3, CHR 0x80, CHR 0xE6, CHR 0x9F, CHR 0xA5, CHR 0xE6, CHR 0x9D, CHR 0x83,
     CHR 0xE9, CHR 0x99, CHR 0x90, CHR 0xE9, CHR 0x85, CHR 0x8D, CHR 0xE7, CHR 0xBD,
     CHR 0xAE]
      else if code = 404 then [CHR 0xE6, CHR 0xA3, CHR 0x80, CHR 0xE6, CHR 0x9F, CHR 0xA5, CHR 0xE8, CHR 0xB7, CHR 0xAF,
     CHR 0xE7, CHR 0x94, CHR 0xB1, CHR 0xE9, CHR 0x85, CHR 0x8D, CHR 0xE7, CHR 0xBD,
     CHR 0xAE, CHR 0xE5, CHR 0x92, CHR 0x8C, CHR 0xE8, CHR 0xB5, CHR 0x84, CHR 0xE6,
     CHR 0xBA, CHR 0x90, CHR 0xE6, CHR 0x98, CHR 0xAF, CHR 0xE5, CHR 0x90, CHR 0xA6,
     CHR 0xE5, CHR 0xAD, CHR 0x98, CHR 0xE5, CHR 0x9C, CHR 0xA8]
      else if code = 429 then [CHR 0xE6, CHR 0xA3, CHR 0x80, CHR 0xE6, CHR 0x9F, CHR 0xA5, CHR 0xE9, CHR 0x99, CHR 0x90,
     CHR 0xE6, CHR 0xB5, CHR 0x81, CHR 0xE9, CHR 0x85, CHR 0x8D, CHR 0xE7, CHR 0xBD,
     CHR 0xAE]
      else [CHR 0xE6, CHR 0xA3, CHR 0x80, CHR 0xE6, CHR 0x9F, CHR 0xA5, CHR 0xE7, CHR 0x9B, CHR 0xB8,
     CHR 0xE5, CHR 0x85, CHR 0xB3, CHR 0xE6, CHR 0x9C, CHR 0x8D, CHR 0xE5, CHR 0x8A,
     CHR 0xA1, CHR 0xE5, CHR 0x92, CHR 0x8C, CHR 0xE9, CHR 0x85, CHR 0x8D, CHR 0xE7,
     CHR 0xBD, CHR 0xAE])"

text \<open>An index outside the values panics.\<close>

definition CalculatePercentile :: "real list \<Rightarrow> real \<Rightarrow> real go" where
  "CalculatePercentile xs percentile =
     (if xs = [] then Inr 0
      else let sorted = sort xs;
               index = percentile / 100 * real (length sorted - 1);
               lower = \<lfloor>index\<rfloor>;
               upper = \<lceil>index\<rceil>
           in if lower < 0 \<or> int (length sorted) \<le> upper then Inl IndexRange
              else if lower = upper then Inr (sorted ! nat lower)
              else Inr (sorted ! nat lower * (1 - (index - real_of_int lower)) +
                        sorted ! nat upper * (index - real_of_int lower)))"

subsection \<open>Detection\<close>

text \<open>What the counts say: the values, their mean and standard deviation.\<close>

definition count_values :: "window_counts \<Rightarrow> real list" where
  "count_values cs = map (real \<circ> snd) cs"

definition baseline :: "window_counts \<Rightarrow> real \<times> real" where
  "baseline cs = (let values = count_values cs; mean = calculateMean values in (mean, calculateStdDev values mean))"

definition deviation_of :: "window_counts \<Rightarrow> gotime \<Rightarrow> real" where
  "deviation_of cs w = (let (mean, sd) = baseline cs in (real (count_in cs w) - mean) / sd)"

definition stats_of :: "window_counts \<Rightarrow> gotime \<Rightarrow> anomaly_stats" where
  "stats_of cs w =
     (let (mean, sd) = baseline cs in
      \<lparr>an_CurrentValue = real (count_in cs w), an_BaselineValue = mean, an_StdDev = sd,
       an_DeviationFactor = deviation_of cs w, an_SampleCount = length cs\<rparr>)"

definition new_anomaly ::
  "anomaly_detector \<Rightarrow> gotime \<Rightarrow> string \<Rightarrow> string \<Rightarrow> string \<Rightarrow> string \<Rightarrow> gotime \<Rightarrow> log_entry list \<Rightarrow> anomaly_stats \<Rightarrow> anomaly" where
  "new_anomaly ad now kind severity description suggestion w related stats =
     \<lparr>ay_Type = kind, ay_Severity = severity, ay_Description = description, ay_DetectedAt = now, ay_StartTime = w,
      ay_EndTime = w + window_size ad, ay_RelatedEntries = related, ay_Stats = stats, ay_Suggestion = suggestion\<rparr>"

definition error_entry :: "log_entry \<Rightarrow> bool" where
  "error_entry e \<longleftrightarrow> le_Level e \<in> {''ERROR'', ''FATAL'', ''CRITICAL''}"

definition DetectErrorSpike :: "anomaly_detector \<Rightarrow> gotime \<Rightarrow> log_entry list \<Rightarrow> anomaly list" where
  "DetectErrorSpike ad now logs =
     (if length logs < ad_MinSampleSize ad then []
      else let cs = countByTimeWindow ad error_entry logs in
        if length cs < 3 then []
        else concat (map (\<lambda>w.
          if snd (baseline cs) > 0 \<and> deviation_of cs w > ad_ErrorSpikeThreshold ad
          then [new_anomaly ad now ''error_spike'' (getSeverityByDeviation (deviation_of cs w))
                  [CHR 0xE6, CHR 0xA3, CHR 0x80, CHR 0xE6, CHR 0xB5, CHR 0x8B, CHR 0xE5, CHR 0x88, CHR 0xB0,
     CHR 0xE9, CHR 0x94, CHR 0x99, CHR 0xE8, CHR 0xAF, CHR 0xAF, CHR 0xE7, CHR 0x8E,
     CHR 0x87, CHR 0xE7, CHR 0xAA, CHR 0x81, CHR 0xE5, CHR 0xA2, CHR 0x9E] [CHR 0xE6, CHR 0xA3, CHR 0x80, CHR 0xE6, CHR 0x9F, CHR 0xA5, CHR 0xE8, CHR 0xAF, CHR 0xA5,
     CHR 0xE6, CHR 0x97, CHR 0xB6, CHR 0xE9, CHR 0x97, CHR 0xB4, CHR 0xE6, CHR 0xAE,
     CHR 0xB5, CHR 0xE7, CHR 0x9A, CHR 0x84, CHR 0xE6, CHR 0x9C, CHR 0x8D, CHR 0xE5,
     CHR 0x8A, CHR 0xA1, CHR 0xE7, CHR 0x8A, CHR 0xB6, CHR 0xE6, CHR 0x80, CHR 0x81,
     CHR 0xE5, CHR 0x92, CHR 0x8C, CHR 0xE7, CHR 0x9B, CHR 0xB8, CHR 0xE5, CHR 0x85,
     CHR 0xB3, CHR 0xE6, CHR 0x97, CHR 0xA5, CHR 0xE5, CHR 0xBF, CHR 0x97]
                  w (getEntriesInWindow ad w logs) (stats_of cs w)]
          else []) (getSortedWindows cs)))"

text \<open>\<open>ks\<close>: the windows in the order the map is visited.\<close>

definition DetectSlowRequests :: "anomaly_detector \<Rightarrow> gotime \<Rightarrow> gotime list \<Rightarrow> nginx_entry list \<Rightarrow> anomaly list" where
  "DetectSlowRequests ad now ks logs =
     (if length logs < ad_MinSampleSize ad then []
      else let times = filter (\<lambda>t. t > 0) (map ng_ResponseTime logs) in
        if length times < ad_MinSampleSize ad then []
        else let mean = calculateMean times;
                 sd = calculateStdDev times mean;
                 slow = map ng_Entry (filter (\<lambda>l. ng_ResponseTime l > ad_SlowRequestThreshold ad) logs);
                 cs = countByTimeWindow ad (\<lambda>_. True) slow
             in concat (map (\<lambda>w.
                  if count_in cs w \<ge> 3
                  then [new_anomaly ad now ''slow_requests'' ''medium'' [CHR 0xE6, CHR 0xA3, CHR 0x80, CHR 0xE6, CHR 0xB5, CHR 0x8B, CHR 0xE5, CHR 0x88, CHR 0xB0,
     CHR 0xE9, CHR 0x9B, CHR 0x86, CHR 0xE4, CHR 0xB8, CHR 0xAD, CHR 0xE7, CHR 0x9A,
     CHR 0x84, CHR 0xE6, CHR 0x85, CHR 0xA2, CHR 0xE8, CHR 0xAF, CHR 0xB7, CHR 0xE6,
     CHR 0xB1, CHR 0x82]
                          [CHR 0xE6, CHR 0xA3, CHR 0x80, CHR 0xE6, CHR 0x9F, CHR 0xA5, CHR 0xE5, CHR 0x90, CHR 0x8E,
     CHR 0xE7, CHR 0xAB, CHR 0xAF, CHR 0xE6, CHR 0x9C, CHR 0x8D, CHR 0xE5, CHR 0x8A,
     CHR 0xA1, CHR 0xE6, CHR 0x80, CHR 0xA7, CHR 0xE8, CHR 0x83, CHR 0xBD, CHR 0xE5,
     CHR 0x92, CHR 0x8C, CHR 0xE6, CHR 0x95, CHR 0xB0, CHR 0xE6, CHR 0x8D, CHR 0xAE,
     CHR 0xE5, CHR 0xBA, CHR 0x93, CHR 0xE6, CHR 0x9F, CHR 0xA5, CHR 0xE8, CHR 0xAF,
     CHR 0xA2] w (getEntriesInWindow ad w slow)
                          \<lparr>an_CurrentValue = real (count_in cs w), an_BaselineValue = mean, an_StdDev = sd,
                           an_DeviationFactor = ad_SlowRequestThreshold ad / mean, an_SampleCount = length times\<rparr>]
                  else []) ks))"

text \<open>The status of an entry is looked up by its text: the first request with the same line.\<close>

definition status_filter :: "nginx_entry list \<Rightarrow> int \<Rightarrow> log_entry \<Rightarrow> bool" where
  "status_filter logs code e =
     (case find (\<lambda>l. le_Raw (ng_Entry l) = le_Raw e) logs of None \<Rightarrow> False | Some l \<Rightarrow> ng_StatusCode l = code)"

definition DetectStatusCodeSpike :: "anomaly_detector \<Rightarrow> gotime \<Rightarrow> nginx_entry list \<Rightarrow> int \<Rightarrow> anomaly list" where
  "DetectStatusCodeSpike ad now logs code =
     (if length logs < ad_MinSampleSize ad then []
      else let cs = countByTimeWindow ad (status_filter logs code) (map ng_Entry logs) in
        if length cs < 3 then []
        else concat (map (\<lambda>w.
          if snd (baseline cs) = 0 then []
          else if deviation_of cs w > ad_ErrorSpikeThreshold ad
          then [new_anomaly ad now ''status_code_spike'' (getSeverityByStatusCode code)
                  ([CHR 0xE6, CHR 0xA3, CHR 0x80, CHR 0xE6, CHR 0xB5, CHR 0x8B, CHR 0xE5, CHR 0x88, CHR 0xB0] @
     '' HTTP '' @ [CHR 0xE7, CHR 0x8A, CHR 0xB6, CHR 0xE6, CHR 0x80, CHR 0x81, CHR 0xE7,
     CHR 0xA0, CHR 0x81, CHR 0xE5, CHR 0xBC, CHR 0x82, CHR 0xE5, CHR 0xB8, CHR 0xB8,
     CHR 0xE7, CHR 0xAA, CHR 0x81, CHR 0xE5, CHR 0xA2, CHR 0x9E]) (getSuggestionByStatusCode code) w [] (stats_of cs w)]
          else []) (getSortedWindows cs)))"

definition DetectTrafficAnomaly :: "anomaly_detector \<Rightarrow> gotime \<Rightarrow> log_entry list \<Rightarrow> anomaly list" where
  "DetectTrafficAnomaly ad now logs =
     (if length logs < ad_MinSampleSize ad then []
      else let cs = countByTimeWindow ad (\<lambda>_. True) logs in
        if length cs < 3 then []
        else concat (map (\<lambda>w.
          if snd (baseline cs) = 0 then []
          else
            (if deviation_of cs w > ad_ErrorSpikeThreshold ad
             then [new_anomaly ad now ''traffic_spike'' ''medium'' [CHR 0xE6, CHR 0xA3, CHR 0x80, CHR 0xE6, CHR 0xB5, CHR 0x8B, CHR 0xE5, CHR 0x88, CHR 0xB0,
     CHR 0xE6, CHR 0xB5, CHR 0x81, CHR 0xE9, CHR 0x87, CHR 0x8F, CHR 0xE7, CHR 0xAA,
     CHR 0x81, CHR 0xE5, CHR 0xA2, CHR 0x9E]
                     ([CHR 0xE6, CHR 0xA3, CHR 0x80, CHR 0xE6, CHR 0x9F, CHR 0xA5, CHR 0xE6, CHR 0x98, CHR 0xAF,
     CHR 0xE5, CHR 0x90, CHR 0xA6, CHR 0xE5, CHR 0xAD, CHR 0x98, CHR 0xE5, CHR 0x9C,
     CHR 0xA8, CHR 0xE5, CHR 0xBC, CHR 0x82, CHR 0xE5, CHR 0xB8, CHR 0xB8, CHR 0xE8,
     CHR 0xAE, CHR 0xBF, CHR 0xE9, CHR 0x97, CHR 0xAE, CHR 0xE6, CHR 0x88, CHR 0x96] @
     '' DDoS '' @ [CHR 0xE6, CHR 0x94, CHR 0xBB, CHR 0xE5, CHR 0x87, CHR 0xBB]) w [] (stats_of cs w)] else []) @
            (if deviation_of cs w < - ad_ErrorSpikeThreshold ad
             then [new_anomaly ad now ''traffic_drop'' ''high'' [CHR 0xE6, CHR 0xA3, CHR 0x80, CHR 0xE6, CHR 0xB5, CHR 0x8B, CHR 0xE5, CHR 0x88, CHR 0xB0,
     CHR 0xE6, CHR 0xB5, CHR 0x81, CHR 0xE9, CHR 0x87, CHR 0x8F, CHR 0xE7, CHR 0xAA,
     CHR 0x81, CHR 0xE9, CHR 0x99, CHR 0x8D]
                     [CHR 0xE6, CHR 0xA3, CHR 0x80, CHR 0xE6, CHR 0x9F, CHR 0xA5, CHR 0xE6, CHR 0x9C, CHR 0x8D,
     CHR 0xE5, CHR 0x8A, CHR 0xA1, CHR 0xE6, CHR 0x98, CHR 0xAF, CHR 0xE5, CHR 0x90,
     CHR 0xA6, CHR 0xE6, CHR 0xAD, CHR 0xA3, CHR 0xE5, CHR 0xB8, CHR 0xB8, CHR 0xE8,
     CHR 0xBF, CHR 0x90, CHR 0xE8, CHR 0xA1, CHR 0x8C, CHR 0xEF, CHR 0xBC, CHR 0x8C,
     CHR 0xE7, CHR 0xBD, CHR 0x91, CHR 0xE7, CHR 0xBB, CHR 0x9C, CHR 0xE6, CHR 0x98,
     CHR 0xAF, CHR 0xE5, CHR 0x90, CHR 0xA6, CHR 0xE9, CHR 0x80, CHR 0x9A, CHR 0xE7,
     CHR 0x95, CHR 0x85] w []
                     ((stats_of cs w)\<lparr>an_DeviationFactor := \<bar>deviation_of cs w\<bar>\<rparr>)] else []))
          (getSortedWindows cs)))"

end
