(* ===== verification/Owl_AnomalyProps.thy ===== *)
theory Owl_AnomalyProps
  imports Owl_Anomaly
begin

text \<open>
  The anomaly detector: what the counts of windows are, how far a value can lie from the mean of its
  sample, which bounds the anomalies that can be found, and the percentiles.
\<close>

subsection \<open>Counts\<close>

lemma count_one_keys: "fst ` set (count_one w cs) = insert w (fst ` set cs)"
  by (induction w cs rule: count_one.induct) auto

lemma count_one_distinct: "distinct (map fst cs) \<Longrightarrow> distinct (map fst (count_one w cs))"
proof (induction w cs rule: count_one.induct)
  case (2 w v n cs)
  then show ?case using count_one_keys[of w cs] by auto
qed simp

lemma count_one_in: "count_in (count_one w cs) v = count_in cs v + (if v = w then 1 else 0)"
  by (induction w cs rule: count_one.induct) (auto simp: count_in_def)

definition window_entries :: "anomaly_detector \<Rightarrow> (log_entry \<Rightarrow> bool) \<Rightarrow> gotime \<Rightarrow> log_entry list \<Rightarrow> log_entry list" where
  "window_entries ad keep w logs = filter (\<lambda>e. window_of ad e = w \<and> keep e) logs"

lemma countByTimeWindow_snoc:
  "countByTimeWindow ad keep (logs @ [e]) =
     (if keep e then count_one (window_of ad e) (countByTimeWindow ad keep logs) else countByTimeWindow ad keep logs)"
  by (simp add: countByTimeWindow_def)

lemma count_in_countByTimeWindow: "count_in (countByTimeWindow ad keep logs) w = length (window_entries ad keep w logs)"
proof (induction logs rule: rev_induct)
  case Nil
  show ?case by (simp add: countByTimeWindow_def count_in_def window_entries_def)
next
  case (snoc e logs)
  then show ?case by (auto simp: countByTimeWindow_snoc count_one_in window_entries_def)
qed

lemma countByTimeWindow_keys:
  "fst ` set (countByTimeWindow ad keep logs) = window_of ad ` {e \<in> set logs. keep e}"
proof (induction logs rule: rev_induct)
  case Nil
  show ?case by (simp add: countByTimeWindow_def)
next
  case (snoc e logs)
  then show ?case using count_one_keys[of "window_of ad e" "countByTimeWindow ad keep logs"]
    by (auto simp: countByTimeWindow_snoc)
qed

lemma countByTimeWindow_distinct: "distinct (map fst (countByTimeWindow ad keep logs))"
proof (induction logs rule: rev_induct)
  case Nil
  show ?case by (simp add: countByTimeWindow_def)
next
  case (snoc e logs)
  then show ?case by (simp add: countByTimeWindow_snoc count_one_distinct)
qed

lemma count_in_value:
  "w \<in> fst ` set cs \<Longrightarrow> real (count_in cs w) \<in> set (count_values cs)"
proof -
  assume "w \<in> fst ` set cs"
  then obtain n where "map_of cs w = Some n" by (auto simp: dom_map_of_conv_image_fst[symmetric])
  then have "(w, n) \<in> set cs" by (rule map_of_SomeD)
  then show ?thesis using \<open>map_of cs w = Some n\<close> by (force simp: count_in_def count_values_def)
qed

text \<open>An entry lies in a window exactly if its time is truncated to the window's first instant.\<close>

lemma Truncate_window:
  assumes "0 < d" and "w = Truncate u d"
  shows "Truncate t d = w \<longleftrightarrow> w \<le> t \<and> t < w + d"
proof -
  have w: "(w - zero_time) mod d = 0" using assms by (simp add: Truncate_def zero_time_def mod_diff_left_eq)
  have t: "Truncate t d = t - (t - zero_time) mod d" using assms(1) by (simp add: Truncate_def)
  have r: "0 \<le> (t - zero_time) mod d" "(t - zero_time) mod d < d" using assms(1) by simp_all
  show ?thesis
  proof
    assume "Truncate t d = w"
    then show "w \<le> t \<and> t < w + d" using t r by linarith
  next
    assume a: "w \<le> t \<and> t < w + d"
    have "(t - zero_time) mod d = (t - w) mod d"
      using w by (metis add.right_neutral diff_add_cancel diff_diff_eq2 diff_right_commute mod_add_right_eq mod_diff_right_eq diff_zero)
    then have "(t - zero_time) mod d = t - w" using a by simp
    then show "Truncate t d = w" using t by simp
  qed
qed

subsection \<open>How far a value can lie from the mean\<close>

definition square_sum :: "real list \<Rightarrow> real" where
  "square_sum ds = sum_list (map (\<lambda>d. d * d) ds)"

lemma square_sum_simps [simp]:
  "square_sum [] = 0" "square_sum (d # ds) = d * d + square_sum ds" "square_sum (xs @ ys) = square_sum xs + square_sum ys"
  by (simp_all add: square_sum_def)

lemma square_sum_nonneg [simp]: "0 \<le> square_sum ds"
  by (induction ds) simp_all

lemma double_product_le: "2 * a * sum_list ds \<le> real (length ds) * (a * a) + square_sum ds"
proof (induction ds)
  case (Cons d ds)
  have "0 \<le> (a - d) * (a - d)" by simp
  then have "2 * (a * d) \<le> a * a + d * d" by (simp add: algebra_simps)
  then show ?case using Cons by (simp add: algebra_simps)
qed simp

lemma sum_square_le: "sum_list ds * sum_list ds \<le> real (length ds) * square_sum ds"
proof (induction ds)
  case (Cons d ds)
  then show ?case using double_product_le[of d ds] by (simp add: algebra_simps)
qed simp

lemma sum_list_diff_mean:
  assumes "xs \<noteq> []"
  shows "sum_list (map (\<lambda>v. v - calculateMean xs) xs) = 0"
proof -
  have "sum_list (map (\<lambda>v. v - c) ys) = sum_list ys - real (length ys) * c" for c :: real and ys
    by (induction ys) (simp_all add: algebra_simps)
  then show ?thesis using assms by (simp add: calculateMean_def)
qed

lemma split_member: "x \<in> set xs \<Longrightarrow> \<exists>ys zs. xs = ys @ x # zs"
  by (rule split_list)

lemma deviation_square_le:
  assumes "x \<in> set xs"
  shows "real (length xs) * ((x - calculateMean xs) * (x - calculateMean xs)) \<le>
    real (length xs - 1) * square_sum (map (\<lambda>v. v - calculateMean xs) xs)"
proof -
  obtain ys zs where xs: "xs = ys @ x # zs" using split_member[OF assms] by blast
  define m where "m = calculateMean xs"
  define rest where "rest = map (\<lambda>v. v - m) (ys @ zs)"
  have "sum_list (map (\<lambda>v. v - m) xs) = 0" using sum_list_diff_mean[of xs] xs by (simp add: m_def)
  then have s: "sum_list rest = - (x - m)" by (simp add: xs rest_def)
  have q: "square_sum (map (\<lambda>v. v - m) xs) = (x - m) * (x - m) + square_sum rest" by (simp add: xs rest_def)
  have n: "length rest = length xs - 1" "length xs = Suc (length rest)" by (simp_all add: xs rest_def)
  have "(- (x - m)) * (- (x - m)) \<le> real (length rest) * square_sum rest" using sum_square_le[of rest] unfolding s .
  then have "(x - m) * (x - m) \<le> real (length rest) * square_sum rest" by (simp only: minus_mult_minus)
  then show ?thesis unfolding m_def[symmetric] q n(1)[symmetric] n(2) by (simp add: algebra_simps)
qed

lemma stddev_square:
  assumes "2 \<le> length xs"
  shows "calculateStdDev xs m * calculateStdDev xs m = square_sum (map (\<lambda>v. v - m) xs) / real (length xs - 1)"
proof -
  have eq: "calculateStdDev xs m = sqrt (square_sum (map (\<lambda>v. v - m) xs) / real (length xs - 1))"
    using assms by (simp add: calculateStdDev_def square_sum_def comp_def)
  have "0 \<le> square_sum (map (\<lambda>v. v - m) xs) / real (length xs - 1)" by (intro divide_nonneg_nonneg) simp_all
  then show ?thesis unfolding eq by (rule real_sqrt_mult_self[THEN trans, OF abs_of_nonneg])
qed

text \<open>The bound of Samuelson: \<open>n\<close> values, none further than \<open>(n - 1) / sqrt n\<close> deviations from the mean.\<close>

lemma deviation_bound:
  assumes x: "x \<in> set xs" and n: "2 \<le> length xs" and sd: "0 < calculateStdDev xs (calculateMean xs)"
  defines "z \<equiv> (x - calculateMean xs) / calculateStdDev xs (calculateMean xs)"
  shows "real (length xs) * (z * z) \<le> real (length xs - 1) * real (length xs - 1)"
proof -
  define sd where "sd = calculateStdDev xs (calculateMean xs)"
  define q where "q = square_sum (map (\<lambda>v. v - calculateMean xs) xs)"
  have s2: "sd * sd = q / real (length xs - 1)" using stddev_square[OF n] by (simp add: sd_def q_def)
  have pos: "0 < sd * sd" using sd by (simp add: sd_def)
  then have q: "q = sd * sd * real (length xs - 1)" using s2 n by (simp add: field_simps)
  have "real (length xs) * ((x - calculateMean xs) * (x - calculateMean xs)) \<le> real (length xs - 1) * q"
    using deviation_square_le[OF x] by (simp add: q_def)
  then have "real (length xs) * ((x - calculateMean xs) * (x - calculateMean xs)) / (sd * sd) \<le>
      real (length xs - 1) * q / (sd * sd)"
    using pos by (intro divide_right_mono) simp_all
  moreover have "real (length xs - 1) * q / (sd * sd) = real (length xs - 1) * real (length xs - 1)"
  proof -
    have "sd \<noteq> 0" using pos by auto
    then show ?thesis by (simp add: q)
  qed
  moreover have "real (length xs) * ((x - calculateMean xs) * (x - calculateMean xs)) / (sd * sd) = real (length xs) * (z * z)"
    by (simp add: z_def sd_def)
  ultimately show ?thesis by simp
qed

lemma deviation_of_bound:
  assumes w: "w \<in> fst ` set cs" and n: "3 \<le> length cs" and sd: "0 < snd (baseline cs)"
  shows "real (length cs) * (deviation_of cs w * deviation_of cs w) \<le> real (length cs - 1) * real (length cs - 1)"
proof -
  have l: "length (count_values cs) = length cs" by (simp add: count_values_def)
  have "deviation_of cs w = (real (count_in cs w) - calculateMean (count_values cs)) /
      calculateStdDev (count_values cs) (calculateMean (count_values cs))"
    by (simp add: deviation_of_def baseline_def Let_def)
  moreover have "0 < calculateStdDev (count_values cs) (calculateMean (count_values cs))"
    using sd by (simp add: baseline_def Let_def)
  ultimately show ?thesis
    using deviation_bound[OF count_in_value[OF w]] n by (simp add: l)
qed

lemma stddev_nonneg: "0 \<le> calculateStdDev xs m"
proof -
  have "0 \<le> sum_list (map (\<lambda>v. (v - m) * (v - m)) xs)" by (induction xs) simp_all
  then show ?thesis by (simp add: calculateStdDev_def)
qed

lemma far_needs_windows:
  assumes "real n * (z * z) \<le> real (n - 1) * real (n - 1)" and "3 \<le> n"
  shows "2 < \<bar>z\<bar> \<Longrightarrow> 6 \<le> n" "4 < \<bar>z\<bar> \<Longrightarrow> 18 \<le> n"
proof -
  have sq: "z * z = \<bar>z\<bar> * \<bar>z\<bar>" by simp
  have big: "real n * (c * c) < real (n - 1) * real (n - 1)" if "c < \<bar>z\<bar>" "0 < c" for c
  proof -
    have "c * c < z * z" unfolding sq using that by (intro mult_strict_mono) simp_all
    then have "real n * (c * c) < real n * (z * z)" using assms(2) by simp
    then show ?thesis using assms(1) by linarith
  qed
  have nat: "n * k < (n - 1) * (n - 1)" if "real n * real k < real (n - 1) * real (n - 1)" for k
    using that unfolding of_nat_mult[symmetric] of_nat_less_iff .
  have four: "(2::real) * 2 = real 4" and sixteen: "(4::real) * 4 = real 16" by simp_all
  show "6 \<le> n" if "2 < \<bar>z\<bar>"
  proof (rule ccontr)
    assume "\<not> 6 \<le> n"
    then have "n = 3 \<or> n = 4 \<or> n = 5" using assms(2) by linarith
    moreover have "n * 4 < (n - 1) * (n - 1)" by (rule nat) (use big[OF that] in \<open>simp only: four\<close>)
    ultimately show False by auto
  qed
  show "18 \<le> n" if "4 < \<bar>z\<bar>"
  proof (rule ccontr)
    assume a: "\<not> 18 \<le> n"
    have "n * 16 < (n - 1) * (n - 1)" by (rule nat) (use big[OF that] in \<open>simp only: sixteen\<close>)
    also have "(n - 1) * (n - 1) \<le> 16 * (n - 1)" using a by (intro mult_right_mono) linarith+
    finally show False by simp
  qed
qed

subsection \<open>What can be found\<close>

lemma getSortedWindows_set [simp]: "set (getSortedWindows cs) = fst ` set cs"
  by (simp add: getSortedWindows_def)

lemma deviating_window:
  assumes "w \<in> fst ` set cs" and "3 \<le> length cs" and "snd (baseline cs) \<noteq> 0" and "2 < \<bar>deviation_of cs w\<bar>"
  shows "6 \<le> length cs \<and> (4 < \<bar>deviation_of cs w\<bar> \<longrightarrow> 18 \<le> length cs)"
proof -
  have "0 < snd (baseline cs)"
    using assms(3) stddev_nonneg[of "count_values cs"] by (simp add: baseline_def Let_def less_le)
  note b = far_needs_windows[OF deviation_of_bound[OF assms(1,2) this] assms(2)]
  show ?thesis using b assms(4) by blast
qed

lemma error_spike_cases:
  assumes "a \<in> set (DetectErrorSpike ad now logs)"
  obtains w where "w \<in> fst ` set (countByTimeWindow ad error_entry logs)" "3 \<le> length (countByTimeWindow ad error_entry logs)"
    "snd (baseline (countByTimeWindow ad error_entry logs)) \<noteq> 0"
    "ad_ErrorSpikeThreshold ad < deviation_of (countByTimeWindow ad error_entry logs) w"
    "ay_Stats a = stats_of (countByTimeWindow ad error_entry logs) w"
    "ay_Severity a = getSeverityByDeviation (deviation_of (countByTimeWindow ad error_entry logs) w)"
    "ay_StartTime a = w" "ay_RelatedEntries a = getEntriesInWindow ad w logs"
proof -
  define cs where "cs = countByTimeWindow ad error_entry logs"
  have "\<exists>w \<in> fst ` set cs. 0 < snd (baseline cs) \<and> ad_ErrorSpikeThreshold ad < deviation_of cs w \<and>
      (\<exists>descr hint. a = new_anomaly ad now ''error_spike'' (getSeverityByDeviation (deviation_of cs w)) descr hint w
         (getEntriesInWindow ad w logs) (stats_of cs w))" and n: "3 \<le> length cs"
    using assms unfolding DetectErrorSpike_def Let_def cs_def[symmetric] by (auto split: if_splits)
  then obtain w descr hint where "w \<in> fst ` set cs" "0 < snd (baseline cs)" "ad_ErrorSpikeThreshold ad < deviation_of cs w"
    "a = new_anomaly ad now ''error_spike'' (getSeverityByDeviation (deviation_of cs w)) descr hint w
       (getEntriesInWindow ad w logs) (stats_of cs w)"
    by blast
  then show thesis using n by (intro that[of w]) (simp_all add: cs_def new_anomaly_def)
qed

lemma length_counts: "length (countByTimeWindow ad keep logs) = card (window_of ad ` {e \<in> set logs. keep e})"
  using distinct_card[OF countByTimeWindow_distinct[of ad keep logs]] countByTimeWindow_keys[of ad keep logs]
  by simp

lemma severity_critical: "getSeverityByDeviation d = ''critical'' \<longleftrightarrow> 4 < d"
  by (simp add: getSeverityByDeviation_def)

text \<open>
  No error spike is found unless errors lie in at least six windows, and none is critical
  unless they lie in at least eighteen, whatever their numbers: no value of a sample lies further from
  its mean. All errors in fewer windows are never reported.
\<close>

theorem spike_needs_windows:
  assumes "a \<in> set (DetectErrorSpike NewAnomalyDetector now logs)"
  shows "6 \<le> card (window_of NewAnomalyDetector ` {e \<in> set logs. error_entry e}) \<and>
    (ay_Severity a = ''critical'' \<longrightarrow> 18 \<le> card (window_of NewAnomalyDetector ` {e \<in> set logs. error_entry e}))"
proof -
  define cs where "cs = countByTimeWindow NewAnomalyDetector error_entry logs"
  obtain w where w: "w \<in> fst ` set cs" "3 \<le> length cs" "snd (baseline cs) \<noteq> 0" "2 < deviation_of cs w"
    "ay_Severity a = getSeverityByDeviation (deviation_of cs w)"
    by (rule error_spike_cases[OF assms]) (simp add: cs_def NewAnomalyDetector_def)
  have "2 < \<bar>deviation_of cs w\<bar>" "4 < deviation_of cs w \<Longrightarrow> 4 < \<bar>deviation_of cs w\<bar>" using w(4) by simp_all
  then have "6 \<le> length cs \<and> (4 < deviation_of cs w \<longrightarrow> 18 \<le> length cs)"
    using deviating_window[OF w(1-3)] by blast
  then show ?thesis
    using w(5) by (simp add: cs_def length_counts severity_critical)
qed

text \<open>
  An error spike reports a window in which as many errors lie as it says, and its related
  entries are all the entries of that window, the errors among them.
\<close>

theorem spike_entries:
  assumes "a \<in> set (DetectErrorSpike ad now logs)" and "0 < ad_TimeWindowMinutes ad"
  shows "ay_RelatedEntries a = filter (\<lambda>e. window_of ad e = ay_StartTime a) logs \<and>
    an_CurrentValue (ay_Stats a) = real (length (filter error_entry (ay_RelatedEntries a))) \<and>
    0 < an_CurrentValue (ay_Stats a)"
proof -
  define cs where "cs = countByTimeWindow ad error_entry logs"
  obtain w where w: "w \<in> fst ` set cs" "ay_Stats a = stats_of cs w" "ay_StartTime a = w"
    "ay_RelatedEntries a = getEntriesInWindow ad w logs"
    by (rule error_spike_cases[OF assms(1)]) (simp add: cs_def)
  have size: "0 < window_size ad" using assms(2) by (simp add: window_size_def)
  obtain e where e: "e \<in> set logs" "error_entry e" "w = window_of ad e"
    using w(1) unfolding cs_def countByTimeWindow_keys by blast
  have "window_of ad e' = w \<longleftrightarrow> w \<le> le_Timestamp e' \<and> le_Timestamp e' < w + window_size ad" for e'
    using Truncate_window[OF size, of w "le_Timestamp e" "le_Timestamp e'"] e(3) by (simp add: window_of_def)
  then have related: "ay_RelatedEntries a = filter (\<lambda>e. window_of ad e = w) logs"
    unfolding w(4) getEntriesInWindow_def by simp
  have "count_in cs w = length (filter error_entry (ay_RelatedEntries a))"
    unfolding related cs_def count_in_countByTimeWindow window_entries_def by simp
  moreover have "filter error_entry (ay_RelatedEntries a) \<noteq> []"
    unfolding related using e by (auto simp: filter_empty_conv)
  ultimately show ?thesis
    using related w(2,3) by (simp add: stats_of_def baseline_def Let_def)
qed

subsection \<open>Percentiles\<close>

definition between :: "real list \<Rightarrow> real \<Rightarrow> real" where
  "between s t =
     (if \<lfloor>t\<rfloor> = \<lceil>t\<rceil> then s ! nat \<lfloor>t\<rfloor>
      else s ! nat \<lfloor>t\<rfloor> * (1 - (t - real_of_int \<lfloor>t\<rfloor>)) + s ! nat \<lceil>t\<rceil> * (t - real_of_int \<lfloor>t\<rfloor>))"

lemma index_in_range:
  assumes "0 \<le> t" and "t \<le> real (length s - 1)" and "s \<noteq> []"
  shows "nat \<lfloor>t\<rfloor> < length s \<and> nat \<lceil>t\<rceil> < length s"
proof -
  have "\<lceil>t\<rceil> \<le> int (length s - 1)" using assms(2) by (simp add: ceiling_le_iff)
  moreover have "\<lfloor>t\<rfloor> \<le> \<lceil>t\<rceil>" by (rule floor_le_ceiling)
  moreover have "length s - 1 < length s" using assms(3) by (cases s) simp_all
  ultimately show ?thesis by linarith
qed

lemma between_step:
  assumes s: "sorted s" and t: "0 \<le> t" "t \<le> real (length s - 1)" and s0: "s \<noteq> []"
  shows "s ! nat \<lfloor>t\<rfloor> \<le> between s t" "between s t \<le> s ! nat \<lceil>t\<rceil>"
proof -
  have u: "nat \<lceil>t\<rceil> < length s" using index_in_range[OF t s0] by simp
  have le: "s ! nat \<lfloor>t\<rfloor> \<le> s ! nat \<lceil>t\<rceil>"
    by (rule sorted_nth_mono[OF s]) (use u in \<open>simp_all add: nat_mono floor_le_ceiling\<close>)
  define f where "f = t - real_of_int \<lfloor>t\<rfloor>"
  have f: "0 \<le> f" "f \<le> 1" by (simp_all add: f_def) linarith
  have "s ! nat \<lfloor>t\<rfloor> * (1 - f) + s ! nat \<lceil>t\<rceil> * f = s ! nat \<lfloor>t\<rfloor> + (s ! nat \<lceil>t\<rceil> - s ! nat \<lfloor>t\<rfloor>) * f"
    by (simp add: algebra_simps)
  moreover have "0 \<le> (s ! nat \<lceil>t\<rceil> - s ! nat \<lfloor>t\<rfloor>) * f" using le f by simp
  moreover have "(s ! nat \<lceil>t\<rceil> - s ! nat \<lfloor>t\<rfloor>) * f \<le> (s ! nat \<lceil>t\<rceil> - s ! nat \<lfloor>t\<rfloor>) * 1"
    using le f by (intro mult_left_mono) simp_all
  ultimately show "s ! nat \<lfloor>t\<rfloor> \<le> between s t" "between s t \<le> s ! nat \<lceil>t\<rceil>"
    by (auto simp: between_def f_def[symmetric])
qed

lemma between_mono:
  assumes s: "sorted s" "s \<noteq> []" and tu: "0 \<le> t" "t \<le> u" "u \<le> real (length s - 1)"
  shows "between s t \<le> between s u"
proof (cases "\<lfloor>t\<rfloor> = \<lfloor>u\<rfloor>")
  case False
  then have "\<lfloor>t\<rfloor> < \<lfloor>u\<rfloor>" using floor_mono[OF tu(2)] by linarith
  then have lt: "\<lceil>t\<rceil> \<le> \<lfloor>u\<rfloor>" using ceiling_diff_floor_le_1[of t] by linarith
  have "nat \<lfloor>u\<rfloor> < length s" using index_in_range[OF _ tu(3) s(2)] tu by simp
  then have "s ! nat \<lceil>t\<rceil> \<le> s ! nat \<lfloor>u\<rfloor>" by (rule sorted_nth_mono[OF s(1) nat_mono[OF lt]])
  then show ?thesis
    using between_step(2)[OF s(1) tu(1) _ s(2)] between_step(1)[OF s(1) _ tu(3) s(2)] tu by fastforce
next
  case True
  show ?thesis
  proof (cases "\<lfloor>t\<rfloor> = \<lceil>t\<rceil>")
    case int: True
    then have "between s t = s ! nat \<lfloor>u\<rfloor>" by (simp add: between_def True)
    then show ?thesis using between_step(1)[OF s(1) _ tu(3) s(2)] tu by simp
  next
    case nint: False
    then have c: "\<lceil>t\<rceil> = \<lfloor>t\<rfloor> + 1" by (simp add: ceiling_altdef split: if_splits)
    have "t \<noteq> real_of_int \<lfloor>t\<rfloor>" using nint by (metis ceiling_of_int)
    then have "real_of_int \<lfloor>t\<rfloor> < t" by (metis less_le of_int_floor_le)
    then have "u \<noteq> real_of_int \<lfloor>u\<rfloor>" using True tu(2) by linarith
    then have uc: "\<lceil>u\<rceil> = \<lfloor>t\<rfloor> + 1" "\<lfloor>u\<rfloor> \<noteq> \<lceil>u\<rceil>" using True by (auto simp: ceiling_altdef)
    have "nat \<lceil>u\<rceil> < length s" using index_in_range[OF _ tu(3) s(2)] tu by simp
    then have "s ! nat \<lfloor>t\<rfloor> \<le> s ! nat (\<lfloor>t\<rfloor> + 1)"
      using uc(1) tu(1) by (intro sorted_nth_mono[OF s(1)]) (simp_all add: nat_mono)
    then have "(s ! nat (\<lfloor>t\<rfloor> + 1) - s ! nat \<lfloor>t\<rfloor>) * t \<le> (s ! nat (\<lfloor>t\<rfloor> + 1) - s ! nat \<lfloor>t\<rfloor>) * u"
      using tu(2) by (intro mult_left_mono) simp_all
    then show ?thesis
      using nint uc True c by (simp add: between_def algebra_simps)
  qed
qed

lemma CalculatePercentile_between:
  assumes "xs \<noteq> []" and "0 \<le> p" and "p \<le> 100"
  shows "CalculatePercentile xs p = Inr (between (sort xs) (p / 100 * real (length xs - 1)))"
    "0 \<le> p / 100 * real (length xs - 1)" "p / 100 * real (length xs - 1) \<le> real (length xs - 1)"
proof -
  define t where "t = p / 100 * real (length xs - 1)"
  show t: "0 \<le> p / 100 * real (length xs - 1)" "p / 100 * real (length xs - 1) \<le> real (length xs - 1)"
    using assms mult_right_mono[of "p / 100" 1 "real (length xs - 1)"] by simp_all
  have "\<not> \<lfloor>t\<rfloor> < 0" using t(1) by (simp add: t_def floor_less_iff)
  moreover have "\<lceil>t\<rceil> \<le> int (length xs - 1)" using t(2) by (simp add: t_def ceiling_le_iff)
  moreover have "length xs - 1 < length xs" using assms(1) by (cases xs) simp_all
  ultimately have "\<not> (\<lfloor>t\<rfloor> < 0 \<or> int (length xs) \<le> \<lceil>t\<rceil>)" by linarith
  then show "CalculatePercentile xs p = Inr (between (sort xs) (p / 100 * real (length xs - 1)))"
    using assms(1) by (simp add: CalculatePercentile_def Let_def t_def between_def)
qed

text \<open>
  For a percentile between 0 and 100 the result lies between the smallest and the
  largest value, which it is for 0 and 100, and does not fall when the percentile rises; no index is
  out of range.
\<close>

theorem percentile_spec:
  assumes "xs \<noteq> []" and "0 \<le> p" and "p \<le> q" and "q \<le> 100"
  shows "\<exists>v v'. CalculatePercentile xs p = Inr v \<and> CalculatePercentile xs q = Inr v' \<and> v \<le> v' \<and>
    Min (set xs) \<le> v \<and> v' \<le> Max (set xs) \<and> (p = 0 \<longrightarrow> v = Min (set xs)) \<and> (q = 100 \<longrightarrow> v' = Max (set xs))"
proof -
  define s where "s = sort xs"
  define t where "t = p / 100 * real (length xs - 1)"
  define u where "u = q / 100 * real (length xs - 1)"
  have s: "sorted s" "s \<noteq> []" "length s = length xs" "set s = set xs"
    using assms(1) by (auto simp: s_def) (metis length_0_conv length_sort)
  have p: "CalculatePercentile xs p = Inr (between s t)" "0 \<le> t"
    and q: "CalculatePercentile xs q = Inr (between s u)" "u \<le> real (length s - 1)"
    using CalculatePercentile_between[of xs p] CalculatePercentile_between[of xs q] assms s(3)
    by (simp_all add: s_def t_def u_def)
  have tu: "t \<le> u" unfolding t_def u_def using assms by (intro mult_right_mono divide_right_mono) simp_all
  have low: "Min (set xs) \<le> between s t"
  proof -
    have "nat \<lfloor>t\<rfloor> < length s" using index_in_range[OF p(2) _ s(2)] tu q(2) by simp
    then have "Min (set xs) \<le> s ! nat \<lfloor>t\<rfloor>" using s(4) by (metis Min_le List.finite_set nth_mem)
    then show ?thesis using between_step(1)[OF s(1) p(2) _ s(2)] tu q(2) by fastforce
  qed
  have high: "between s u \<le> Max (set xs)"
  proof -
    have "nat \<lceil>u\<rceil> < length s" using index_in_range[OF _ q(2) s(2)] tu p(2) by simp
    then have "s ! nat \<lceil>u\<rceil> \<le> Max (set xs)" using s(4) by (metis Max_ge List.finite_set nth_mem)
    then show ?thesis using between_step(2)[OF s(1) _ q(2) s(2)] tu p(2) by fastforce
  qed
  have zero: "between s t = Min (set xs)" if "p = 0"
  proof -
    have "between s t = s ! 0" using that by (simp add: between_def t_def)
    moreover have "s ! 0 \<le> x" if "x \<in> set s" for x using that s(1) by (auto simp: in_set_conv_nth intro: sorted_nth_mono)
    then have "Min (set s) = s ! 0" using s(2) by (intro Min_eqI) auto
    ultimately show ?thesis using s(4) by simp
  qed
  have hundred: "between s u = Max (set xs)" if "q = 100"
  proof -
    have "u = real (length s - 1)" using that s(3) by (simp add: u_def)
    then have "between s u = s ! (length s - 1)" by (simp add: between_def)
    moreover have "x \<le> s ! (length s - 1)" if "x \<in> set s" for x
      using that s(1) by (auto simp: in_set_conv_nth intro: sorted_nth_mono)
    then have "Max (set s) = s ! (length s - 1)" using s(2) by (intro Max_eqI) auto
    ultimately show ?thesis using s(4) by simp
  qed
  show ?thesis
    using p(1) q(1) between_mono[OF s(1,2) p(2) tu q(2)] low high zero hundred by blast
qed

subsection \<open>Examples\<close>

definition entry_at :: "gotime \<Rightarrow> log_entry" where
  "entry_at t = \<lparr>le_Timestamp = t, le_Level = ''ERROR'', le_Source = [], le_Message = [], le_Raw = [], le_LineNumber = 0,
     le_Fields = Map.empty\<rparr>"

text \<open>One error in each of five windows, seven in the sixth.\<close>

definition burst :: "log_entry list" where
  "burst = map (\<lambda>m. entry_at (m * Minute)) [0, 5, 10, 15, 20, 25, 26, 26, 27, 27, 28, 29]"

definition burst_counts :: window_counts where
  "burst_counts = [(0, 1), (5 * Minute, 1), (10 * Minute, 1), (15 * Minute, 1), (20 * Minute, 1), (25 * Minute, 7)]"

lemma burst_counts: "countByTimeWindow NewAnomalyDetector error_entry burst = burst_counts"
  by (simp add: countByTimeWindow_def burst_def entry_at_def error_entry_def window_of_def window_size_def Truncate_def
      NewAnomalyDetector_def zero_time_def burst_counts_def)

lemma burst_baseline: "baseline burst_counts = (2, sqrt 6)"
  by (simp add: baseline_def Let_def count_values_def burst_counts_def calculateMean_def calculateStdDev_def)

lemma burst_deviation: "2 < deviation_of burst_counts (25 * Minute)"
proof -
  have "sqrt 6 * 2 < 5" using real_sqrt_less_iff[of 6 "25 / 4"] by (simp add: real_sqrt_divide)
  then show ?thesis by (simp add: deviation_of_def burst_baseline) (simp add: count_in_def burst_counts_def field_simps)
qed

definition burst_spike :: anomaly where
  "burst_spike = hd (DetectErrorSpike NewAnomalyDetector 0 burst)"

lemma concat_map_ne: "w \<in> set ws \<Longrightarrow> f w \<noteq> [] \<Longrightarrow> concat (map f ws) \<noteq> []"
  by auto

lemma burst_spike: "burst_spike \<in> set (DetectErrorSpike NewAnomalyDetector 0 burst)"
proof -
  have sizes: "(length burst < ad_MinSampleSize NewAnomalyDetector) = False" "(length burst_counts < 3) = False"
    by (simp_all add: burst_def NewAnomalyDetector_def burst_counts_def)
  have found: "(snd (baseline burst_counts) > 0 \<and>
      deviation_of burst_counts (25 * Minute) > ad_ErrorSpikeThreshold NewAnomalyDetector) = True"
    using burst_deviation by (simp add: burst_baseline) (simp add: NewAnomalyDetector_def)
  have "DetectErrorSpike NewAnomalyDetector 0 burst \<noteq> []"
    unfolding DetectErrorSpike_def Let_def burst_counts sizes if_False
    by (rule concat_map_ne[of "25 * Minute"]) (simp add: burst_counts_def, simp only: found if_True list.distinct not_False_eq_True)
  then show ?thesis unfolding burst_spike_def by (rule hd_in_set)
qed

theorem spike_needs_windows_witness:
  "6 \<le> card (window_of NewAnomalyDetector ` {e \<in> set burst. error_entry e})"
  by (rule conjunct1[OF spike_needs_windows[OF burst_spike]])

theorem spike_entries_witness:
  "ay_RelatedEntries burst_spike = filter (\<lambda>e. window_of NewAnomalyDetector e = ay_StartTime burst_spike) burst"
  by (rule conjunct1[OF spike_entries[OF burst_spike]]) (simp add: NewAnomalyDetector_def)

theorem percentile_spec_witness:
  "\<exists>v. CalculatePercentile [3, 1, 2] 0 = Inr v \<and> v = Min (set [3, 1, 2])"
  using percentile_spec[of "[3, 1, 2]" 0 100] by auto

end
