(* ===== verification/Owl_LogAnalyzer.thy ===== *)
theory Owl_LogAnalyzer
  imports Owl_Anomaly Owl_Safety
begin

text \<open>
  \<open>internal/analyzer/log_analyzer.go\<close> and the tool \<open>analyze_logs\<close> of \<open>internal/agent/analyze_tool.go\<close>:
  reading log files into entries, the statistics and the report. Outside are (\<open>log_services\<close>): the
  files, as the lines the scanner gives and the error that may end them; regular expressions; parsing
  and printing of times and numbers; the clock, which is read for a line and at the end (\<open>lg_now\<close> by
  line number); the programs; and the orders in which maps are visited.
\<close>

record log_services =
  lg_open :: "string \<Rightarrow> string + (string list \<times> string option)"
  lg_find :: find_regex
  lg_rx_ok :: "string \<Rightarrow> bool"
  lg_time :: "string \<Rightarrow> string \<Rightarrow> gotime option"
  lg_float :: "string \<Rightarrow> real"
  lg_hour :: "gotime \<Rightarrow> int"
  lg_year :: "gotime \<Rightarrow> int"
  lg_now :: "nat \<Rightarrow> gotime"
  lg_os :: string
  lg_run :: "string list \<Rightarrow> string + string"
  lg_datetime :: "gotime \<Rightarrow> string"
  lg_fixed :: "nat \<Rightarrow> real \<Rightarrow> string"
  lg_keys :: "(string \<rightharpoonup> nat) \<Rightarrow> string list"
  lg_hours :: "(int \<rightharpoonup> nat) \<Rightarrow> int list"
  lg_windows :: "window_counts \<Rightarrow> gotime list"

record time_range =
  tg_Start :: gotime
  tg_End :: gotime

record analyzer_options =
  ao_MaxLines :: int
  ao_TimeRange :: "time_range option"
  ao_EnableAnomalyDetection :: bool
  ao_EnablePatternMatching :: bool

record analysis_result =
  lr_FilePath :: string
  lr_StartTime :: gotime
  lr_EndTime :: gotime
  lr_TotalLines :: nat
  lr_ParsedLines :: nat
  lr_ErrorLines :: nat
  lr_WarnLines :: nat
  lr_PatternMatches :: "pattern_match list"
  lr_Anomalies :: "anomaly list"
  lr_LevelCounts :: "string \<rightharpoonup> nat"
  lr_HourlyErrors :: "int \<rightharpoonup> nat"
  lr_Summary :: string

record log_analyzer =
  la_PatternMatcher :: pattern_matcher
  la_AnomalyDetector :: anomaly_detector
  la_Results :: "analysis_result list"
  la_Options :: analyzer_options

definition NewLogAnalyzer :: "log_services \<Rightarrow> log_analyzer" where
  "NewLogAnalyzer sv = \<lparr>la_PatternMatcher = NewPatternMatcher (lg_rx_ok sv), la_AnomalyDetector = NewAnomalyDetector,
     la_Results = [], la_Options = \<lparr>ao_MaxLines = 0, ao_TimeRange = None, ao_EnableAnomalyDetection = True,
     ao_EnablePatternMatching = True\<rparr>\<rparr>"

definition Reset :: "log_analyzer \<Rightarrow> log_analyzer" where
  "Reset la = la\<lparr>la_Results := []\<rparr>"

definition SetTimeRange :: "gotime \<Rightarrow> gotime \<Rightarrow> log_analyzer \<Rightarrow> log_analyzer" where
  "SetTimeRange from_t until_t la =
     la\<lparr>la_Options := (la_Options la)\<lparr>ao_TimeRange := Some \<lparr>tg_Start = from_t, tg_End = until_t\<rparr>\<rparr>\<rparr>"

definition SetMaxLines :: "int \<Rightarrow> log_analyzer \<Rightarrow> log_analyzer" where
  "SetMaxLines n la = la\<lparr>la_Options := (la_Options la)\<lparr>ao_MaxLines := n\<rparr>\<rparr>"

subsection \<open>Lines\<close>

definition group :: "string list \<Rightarrow> nat \<Rightarrow> string" where
  "group gs i = (if i < length gs then gs ! i else [])"

definition inferLogLevel :: "string \<Rightarrow> string" where
  "inferLogLevel message =
     (let msg = ToLower message in
      if list_ex (Contains msg) [''error'', ''fail'', ''fatal'', ''crit''] then ''ERROR''
      else if Contains msg ''warn'' then ''WARN''
      else if Contains msg ''debug'' then ''DEBUG''
      else if Contains msg ''info'' then ''INFO'' else [])"

definition plain_entry :: "string \<Rightarrow> nat \<Rightarrow> string \<Rightarrow> log_entry" where
  "plain_entry line lineNum source = \<lparr>le_Timestamp = zero_time, le_Level = [], le_Source = source, le_Message = [],
     le_Raw = line, le_LineNumber = int lineNum, le_Fields = Map.empty\<rparr>"

definition at_time :: "gotime option \<Rightarrow> log_entry \<Rightarrow> log_entry" where
  "at_time t e = (case t of None \<Rightarrow> e | Some x \<Rightarrow> e\<lparr>le_Timestamp := x\<rparr>)"

definition line_pattern1 :: string where
  "line_pattern1 = (''^('' @ [CHR 0x5C] @ ''d{4}-'' @ [CHR 0x5C] @ ''d{2}-'' @ [CHR 0x5C] @ ''d{2}'' @ [CHR 0x5C] @
     ''s+'' @ [CHR 0x5C] @ ''d{2}:'' @ [CHR 0x5C] @ ''d{2}:'' @ [CHR 0x5C] @ ''d{2})'' @
     [CHR 0x5C] @ ''s+'' @ [CHR 0x5C] @ ''[('' @ [CHR 0x5C] @ ''w+)'' @ [CHR 0x5C] @
     '']'' @ [CHR 0x5C] @ ''s+(.*)'')"

definition line_pattern2 :: string where
  "line_pattern2 = (''^'' @ [CHR 0x5C] @ ''[('' @ [CHR 0x5C] @ ''d{4}-'' @ [CHR 0x5C] @ ''d{2}-'' @ [CHR 0x5C] @
     ''d{2}T'' @ [CHR 0x5C] @ ''d{2}:'' @ [CHR 0x5C] @ ''d{2}:'' @ [CHR 0x5C] @ ''d{2}[Z'' @
     [CHR 0x5C] @ ''+'' @ [CHR 0x5C] @ ''-'' @ [CHR 0x5C] @ ''d:]*)'' @ [CHR 0x5C] @
     '']'' @ [CHR 0x5C] @ ''s+('' @ [CHR 0x5C] @ ''w+):'' @ [CHR 0x5C] @ ''s+(.*)'')"

definition line_pattern3 :: string where
  "line_pattern3 = (''^('' @ [CHR 0x5C] @ ''w{3}'' @ [CHR 0x5C] @ ''s+'' @ [CHR 0x5C] @ ''d{1,2}'' @ [CHR 0x5C] @
     ''s+'' @ [CHR 0x5C] @ ''d{2}:'' @ [CHR 0x5C] @ ''d{2}:'' @ [CHR 0x5C] @ ''d{2})'' @
     [CHR 0x5C] @ ''s+('' @ [CHR 0x5C] @ ''S+)'' @ [CHR 0x5C] @ ''s+('' @ [CHR 0x5C] @
     ''S+?)(?:'' @ [CHR 0x5C] @ ''['' @ [CHR 0x5C] @ ''d+'' @ [CHR 0x5C] @ ''])?:'' @
     [CHR 0x5C] @ ''s+(.*)'')"

definition service_entry :: "string list \<Rightarrow> gotime option \<Rightarrow> log_entry \<Rightarrow> log_entry" where
  "service_entry m t e = (at_time t e)\<lparr>le_Fields := [''hostname'' \<mapsto> group m 2, ''service'' \<mapsto> group m 3],
     le_Message := group m 4, le_Level := inferLogLevel (group m 4)\<rparr>"

definition unknown_entry :: "gotime \<Rightarrow> log_entry \<Rightarrow> log_entry" where
  "unknown_entry now e = e\<lparr>le_Message := le_Raw e, le_Timestamp := now, le_Level := inferLogLevel (le_Raw e)\<rparr>"

definition parseLine :: "log_services \<Rightarrow> string \<Rightarrow> nat \<Rightarrow> string \<Rightarrow> log_entry" where
  "parseLine sv line lineNum source =
     (let e = plain_entry line lineNum source in
      case lg_find sv line_pattern1 line of
        Some m \<Rightarrow> (at_time (lg_time sv ''2006-01-02 15:04:05'' (group m 1)) e)
                     \<lparr>le_Level := ToUpper (group m 2), le_Message := group m 3\<rparr>
      | None \<Rightarrow>
        (case lg_find sv line_pattern2 line of
           Some m \<Rightarrow> (at_time (lg_time sv ''2006-01-02T15:04:05Z07:00'' (group m 1)) e)
                        \<lparr>le_Level := ToUpper (group m 2), le_Message := group m 3\<rparr>
         | None \<Rightarrow>
           (case lg_find sv line_pattern3 line of
              Some m \<Rightarrow>
                service_entry m (lg_time sv ''2006 Jan 2 15:04:05''
                  (show_int (lg_year sv (lg_now sv lineNum)) @ '' '' @ group m 1)) e
            | None \<Rightarrow> unknown_entry (lg_now sv lineNum) e)))"

definition nginx_pattern :: string where
  "nginx_pattern = (''^('' @ [CHR 0x5C] @ ''S+) - ('' @ [CHR 0x5C] @ ''S+) '' @ [CHR 0x5C] @ ''[([^'' @
     [CHR 0x5C] @ '']]+)'' @ [CHR 0x5C] @ ''] '' @ [CHR 0x22] @ ''([^'' @ [CHR 0x22] @
     '']*)'' @ [CHR 0x22] @ '' ('' @ [CHR 0x5C] @ ''d+) ('' @ [CHR 0x5C] @ ''d+) '' @
     [CHR 0x22] @ ''([^'' @ [CHR 0x22] @ '']*)'' @ [CHR 0x22] @ '' '' @ [CHR 0x22] @
     ''([^'' @ [CHR 0x22] @ '']*)'' @ [CHR 0x22])"

definition nginx_ext_pattern :: string where
  "nginx_ext_pattern = (''^('' @ [CHR 0x5C] @ ''S+) - ('' @ [CHR 0x5C] @ ''S+) '' @ [CHR 0x5C] @ ''[([^'' @
     [CHR 0x5C] @ '']]+)'' @ [CHR 0x5C] @ ''] '' @ [CHR 0x22] @ ''([^'' @ [CHR 0x22] @
     '']*)'' @ [CHR 0x22] @ '' ('' @ [CHR 0x5C] @ ''d+) ('' @ [CHR 0x5C] @ ''d+) '' @
     [CHR 0x22] @ ''([^'' @ [CHR 0x22] @ '']*)'' @ [CHR 0x22] @ '' '' @ [CHR 0x22] @
     ''([^'' @ [CHR 0x22] @ '']*)'' @ [CHR 0x22] @ '' ('' @ [CHR 0x5C] @ ''S+)'')"

text \<open>\<open>strings.SplitN(s, " ", 3)\<close>.\<close>

definition split3 :: "string \<Rightarrow> string list" where
  "split3 s = (case Cut s '' '' of
                 None \<Rightarrow> [s]
               | Some (a, r) \<Rightarrow> (case Cut r '' '' of None \<Rightarrow> [a, r] | Some (b, c) \<Rightarrow> [a, b, c]))"

text \<open>The number of a text of digits; one that is too large is the largest.\<close>

definition clamp_digits :: "string \<Rightarrow> int" where
  "clamp_digits ds = min max_int64 (int (digits_val ds))"

definition nginx_of :: "log_services \<Rightarrow> string list \<Rightarrow> log_entry \<Rightarrow> real \<Rightarrow> nginx_entry" where
  "nginx_of sv m e response =
     (let parts = split3 (group m 4);
          code = clamp_digits (group m 5);
          verb = (if length parts \<ge> 2 then parts ! 0 else []);
          path = (if length parts \<ge> 2 then parts ! 1 else [])
      in \<lparr>ng_Entry = (at_time (lg_time sv ''02/Jan/2006:15:04:05 -0700'' (group m 3)) e)
                        \<lparr>le_Fields := [''remote_user'' \<mapsto> group m 2],
                         le_Message := verb @ '' '' @ path @ '' '' @ show_int code\<rparr>,
          ng_ClientIP = group m 1, ng_Method = verb, ng_Path = path,
          ng_Protocol = (if length parts = 3 then parts ! 2 else []),
          ng_StatusCode = code, ng_BodyBytes = clamp_digits (group m 6), ng_Referer = group m 7,
          ng_UserAgent = group m 8, ng_ResponseTime = response, ng_UpstreamTime = 0\<rparr>)"

definition parseNginxLine :: "log_services \<Rightarrow> string \<Rightarrow> nat \<Rightarrow> string \<Rightarrow> nginx_entry option" where
  "parseNginxLine sv line lineNum source =
     (let e = plain_entry line lineNum source in
      case lg_find sv nginx_ext_pattern line of
        Some m \<Rightarrow> Some (nginx_of sv m e (lg_float sv (group m 9)))
      | None \<Rightarrow> map_option (\<lambda>m. nginx_of sv m e 0) (lg_find sv nginx_pattern line))"

definition in_range :: "log_analyzer \<Rightarrow> gotime \<Rightarrow> bool" where
  "in_range la t =
     (case ao_TimeRange (la_Options la) of None \<Rightarrow> True | Some r \<Rightarrow> \<not> (t < tg_Start r \<or> t > tg_End r))"

subsection \<open>Statistics\<close>

definition bump :: "'k \<Rightarrow> ('k \<rightharpoonup> nat) \<Rightarrow> 'k \<rightharpoonup> nat" where
  "bump k m = m(k \<mapsto> (case m k of None \<Rightarrow> 1 | Some n \<Rightarrow> Suc n))"

definition NewResult :: "log_services \<Rightarrow> string \<Rightarrow> analysis_result" where
  "NewResult sv path = \<lparr>lr_FilePath = path, lr_StartTime = lg_now sv 0, lr_EndTime = zero_time, lr_TotalLines = 0,
     lr_ParsedLines = 0, lr_ErrorLines = 0, lr_WarnLines = 0, lr_PatternMatches = [], lr_Anomalies = [],
     lr_LevelCounts = Map.empty, lr_HourlyErrors = Map.empty, lr_Summary = []\<rparr>"

definition count_error :: "log_services \<Rightarrow> gotime \<Rightarrow> analysis_result \<Rightarrow> analysis_result" where
  "count_error sv t r = r\<lparr>lr_ErrorLines := Suc (lr_ErrorLines r),
     lr_HourlyErrors := bump (lg_hour sv t) (lr_HourlyErrors r)\<rparr>"

definition count_entry :: "log_services \<Rightarrow> string set \<Rightarrow> string set \<Rightarrow> log_entry \<Rightarrow> analysis_result \<Rightarrow> analysis_result" where
  "count_entry sv errors warnings e r0 =
     (let r = r0\<lparr>lr_ParsedLines := Suc (lr_ParsedLines r0)\<rparr> in
      if le_Level e = [] then r
      else let r1 = r\<lparr>lr_LevelCounts := bump (le_Level e) (lr_LevelCounts r)\<rparr> in
        if le_Level e \<in> errors then count_error sv (le_Timestamp e) r1
        else if le_Level e \<in> warnings then r1\<lparr>lr_WarnLines := Suc (lr_WarnLines r1)\<rparr> else r1)"

definition count_status :: "log_services \<Rightarrow> nginx_entry \<Rightarrow> analysis_result \<Rightarrow> analysis_result" where
  "count_status sv e r0 =
     (let r = r0\<lparr>lr_ParsedLines := Suc (lr_ParsedLines r0),
                 lr_LevelCounts := bump (show_int (ng_StatusCode e div 100) @ ''xx'') (lr_LevelCounts r0)\<rparr> in
      if ng_StatusCode e \<ge> 500 then count_error sv (le_Timestamp (ng_Entry e)) r
      else if ng_StatusCode e \<ge> 400 then r\<lparr>lr_WarnLines := Suc (lr_WarnLines r)\<rparr> else r)"

text \<open>
  The loop over the lines: \<open>i\<close> were read. The result is the number of the last line looked at, whether
  the limit ended the loop, and what the lines gave.
\<close>

fun read_lines ::
  "int \<Rightarrow> (string \<Rightarrow> nat \<Rightarrow> 'e option) \<Rightarrow> ('e \<Rightarrow> analysis_result \<Rightarrow> analysis_result) \<Rightarrow> nat \<Rightarrow> string list \<Rightarrow>
   'e list \<Rightarrow> analysis_result \<Rightarrow> nat \<times> bool \<times> 'e list \<times> analysis_result" where
  "read_lines mx parse count i [] acc r = (i, False, acc, r)"
| "read_lines mx parse count i (line # lines) acc r =
     (if mx > 0 \<and> int (Suc i) > mx then (Suc i, True, acc, r)
      else case parse line (Suc i) of
        None \<Rightarrow> read_lines mx parse count (Suc i) lines acc r
      | Some e \<Rightarrow> read_lines mx parse count (Suc i) lines (acc @ [e]) (count e r))"

definition severity_count :: "string \<Rightarrow> pattern_match list \<Rightarrow> nat" where
  "severity_count sev ms = length (filter (\<lambda>m. pt_Severity (pm_Pattern m) = sev) ms)"

definition generateSummary :: "analysis_result \<Rightarrow> string" where
  "generateSummary r =
     ([CHR 0xE5, CHR 0x88, CHR 0x86, CHR 0xE6, CHR 0x9E, CHR 0x90, CHR 0xE6, CHR 0x96, CHR 0x87,
     CHR 0xE4, CHR 0xBB, CHR 0xB6] @ '': '') @ lr_FilePath r @ [CHR 0x0A] @
     ([CHR 0xE6, CHR 0x80, CHR 0xBB, CHR 0xE8, CHR 0xA1, CHR 0x8C, CHR 0xE6, CHR 0x95, CHR 0xB0] @
     '': '') @ show_nat (lr_TotalLines r) @ ('', '' @ [CHR 0xE8, CHR 0xA7, CHR 0xA3, CHR 0xE6, CHR 0x9E, CHR 0x90, CHR 0xE6, CHR 0x88,
     CHR 0x90, CHR 0xE5, CHR 0x8A, CHR 0x9F] @ '': '') @ show_nat (lr_ParsedLines r) @ [CHR 0x0A] @
     ([CHR 0xE9, CHR 0x94, CHR 0x99, CHR 0xE8, CHR 0xAF, CHR 0xAF] @ '': '') @ show_nat (lr_ErrorLines r) @ ('', '' @ [CHR 0xE8, CHR 0xAD, CHR 0xA6, CHR 0xE5, CHR 0x91, CHR 0x8A] @ '': '') @ show_nat (lr_WarnLines r) @ [CHR 0x0A] @
     ([CHR 0xE5, CHR 0x8C, CHR 0xB9, CHR 0xE9, CHR 0x85, CHR 0x8D, CHR 0xE6, CHR 0xA8, CHR 0xA1,
     CHR 0xE5, CHR 0xBC, CHR 0x8F] @ '': '') @ show_nat (length (lr_PatternMatches r)) @ ('', '' @ [CHR 0xE6, CHR 0xA3, CHR 0x80, CHR 0xE6, CHR 0xB5, CHR 0x8B, CHR 0xE5, CHR 0xBC,
     CHR 0x82, CHR 0xE5, CHR 0xB8, CHR 0xB8] @ '': '') @
     show_nat (length (lr_Anomalies r)) @ [CHR 0x0A] @
     (if lr_PatternMatches r = [] then []
      else ([CHR 0x0A, CHR 0xE5, CHR 0x85, CHR 0xB3, CHR 0xE9, CHR 0x94, CHR 0xAE, CHR 0xE9, CHR 0x97,
     CHR 0xAE, CHR 0xE9, CHR 0xA2, CHR 0x98] @ '':'' @ [CHR 0x0A]) @
        (let n = severity_count ''critical'' (lr_PatternMatches r) in
         if n > 0 then (''  - '' @ [CHR 0xE4, CHR 0xB8, CHR 0xA5, CHR 0xE9, CHR 0x87, CHR 0x8D, CHR 0xE9, CHR 0x97,
     CHR 0xAE, CHR 0xE9, CHR 0xA2, CHR 0x98] @ '': '') @ show_nat n @ ('' '' @ [CHR 0xE4, CHR 0xB8, CHR 0xAA, CHR 0x0A]) else []) @
        (let n = severity_count ''high'' (lr_PatternMatches r) in
         if n > 0 then (''  - '' @ [CHR 0xE9, CHR 0xAB, CHR 0x98, CHR 0xE5, CHR 0x8D, CHR 0xB1, CHR 0xE9, CHR 0x97,
     CHR 0xAE, CHR 0xE9, CHR 0xA2, CHR 0x98] @ '': '') @ show_nat n @ ('' '' @ [CHR 0xE4, CHR 0xB8, CHR 0xAA, CHR 0x0A]) else []))"

definition generateNginxSummary :: "log_services \<Rightarrow> analysis_result \<Rightarrow> nginx_entry list \<Rightarrow> string" where
  "generateNginxSummary sv r es =
     ([CHR 0xE5, CHR 0x88, CHR 0x86, CHR 0xE6, CHR 0x9E, CHR 0x90, CHR 0xE6, CHR 0x96, CHR 0x87,
     CHR 0xE4, CHR 0xBB, CHR 0xB6] @ '': '') @ lr_FilePath r @ [CHR 0x0A] @
     ([CHR 0xE6, CHR 0x80, CHR 0xBB, CHR 0xE8, CHR 0xAF, CHR 0xB7, CHR 0xE6, CHR 0xB1, CHR 0x82,
     CHR 0xE6, CHR 0x95, CHR 0xB0] @ '': '') @ show_nat (lr_TotalLines r) @ [CHR 0x0A] @
     ([CHR 0x0A, CHR 0xE7, CHR 0x8A, CHR 0xB6, CHR 0xE6, CHR 0x80, CHR 0x81, CHR 0xE7, CHR 0xA0,
     CHR 0x81, CHR 0xE5, CHR 0x88, CHR 0x86, CHR 0xE5, CHR 0xB8, CHR 0x83] @ '':'' @
     [CHR 0x0A]) @
     concat (map (\<lambda>k. ''  '' @ k @ '': '' @ show_nat (the (lr_LevelCounts r k)) @ [CHR 0x0A]) (lg_keys sv (lr_LevelCounts r))) @
     (if es = [] then []
      else ([CHR 0x0A, CHR 0xE5, CHR 0x93, CHR 0x8D, CHR 0xE5, CHR 0xBA, CHR 0x94, CHR 0xE6, CHR 0x97,
     CHR 0xB6, CHR 0xE9, CHR 0x97, CHR 0xB4] @ '': '' @ [CHR 0xE5, CHR 0xB9, CHR 0xB3,
     CHR 0xE5, CHR 0x9D, CHR 0x87] @ '' '') @ lg_fixed sv 3 (sum_list (map ng_ResponseTime es) / real (length es)) @
           (''s, '' @ [CHR 0xE6, CHR 0x9C, CHR 0x80, CHR 0xE5, CHR 0xA4, CHR 0xA7] @ '' '') @ lg_fixed sv 3 (fold max (map ng_ResponseTime es) 0) @ ''s'' @ [CHR 0x0A]) @
     (if lr_Anomalies r = [] then []
      else ([CHR 0x0A, CHR 0xE6, CHR 0xA3, CHR 0x80, CHR 0xE6, CHR 0xB5, CHR 0x8B, CHR 0xE5, CHR 0x88,
     CHR 0xB0] @ '' '') @ show_nat (length (lr_Anomalies r)) @ ('' '' @ [CHR 0xE4, CHR 0xB8, CHR 0xAA, CHR 0xE5, CHR 0xBC, CHR 0x82, CHR 0xE5, CHR 0xB8,
     CHR 0xB8, CHR 0x0A]))"

subsection \<open>Files\<close>

definition matches_of :: "log_services \<Rightarrow> log_analyzer \<Rightarrow> log_entry list \<Rightarrow> pattern_match list" where
  "matches_of sv la es =
     (if ao_EnablePatternMatching (la_Options la) then MatchLines (lg_find sv) (la_PatternMatcher la) es else [])"

definition error_levels :: "string set" where "error_levels = {''ERROR'', ''FATAL''}"
definition warn_levels :: "string set" where "warn_levels = {''WARN'', ''WARNING''}"

definition finish_result :: "log_services \<Rightarrow> log_analyzer \<Rightarrow> analysis_result \<Rightarrow> log_analyzer \<times> (string + analysis_result)" where
  "finish_result sv la r = (la\<lparr>la_Results := la_Results la @ [r]\<rparr>, Inr r)"

definition AnalyzeFile :: "log_services \<Rightarrow> string \<Rightarrow> log_analyzer \<Rightarrow> log_analyzer \<times> (string + analysis_result)" where
  "AnalyzeFile sv path la =
     (case lg_open sv path of
        Inl e \<Rightarrow> (la, Inl (([CHR 0xE6, CHR 0x97, CHR 0xA0, CHR 0xE6, CHR 0xB3, CHR 0x95, CHR 0xE6, CHR 0x89, CHR 0x93,
     CHR 0xE5, CHR 0xBC, CHR 0x80, CHR 0xE6, CHR 0x96, CHR 0x87, CHR 0xE4, CHR 0xBB,
     CHR 0xB6] @ '' '') @ path @ '': '' @ e))
      | Inr (lines, scan_error) \<Rightarrow>
          (case read_lines (ao_MaxLines (la_Options la))
                  (\<lambda>line i. let e = parseLine sv line i path in if in_range la (le_Timestamp e) then Some e else None)
                  (count_entry sv error_levels warn_levels) 0 lines [] (NewResult sv path) of
             (n, stopped, es, r) \<Rightarrow>
               if scan_error \<noteq> None \<and> \<not> stopped then (la, Inl (([CHR 0xE8, CHR 0xAF, CHR 0xBB, CHR 0xE5, CHR 0x8F, CHR 0x96, CHR 0xE6, CHR 0x96, CHR 0x87,
     CHR 0xE4, CHR 0xBB, CHR 0xB6, CHR 0xE9, CHR 0x94, CHR 0x99, CHR 0xE8, CHR 0xAF,
     CHR 0xAF] @ '': '') @ the scan_error))
               else
                 let now = lg_now sv (Suc n);
                     ad = la_AnomalyDetector la;
                     anomalies = (if ao_EnableAnomalyDetection (la_Options la)
                                  then DetectErrorSpike ad now es @ DetectTrafficAnomaly ad now es else []);
                     r1 = r\<lparr>lr_TotalLines := n, lr_PatternMatches := matches_of sv la es, lr_Anomalies := anomalies,
                             lr_EndTime := now\<rparr>
                 in finish_result sv la (r1\<lparr>lr_Summary := generateSummary r1\<rparr>)))"

definition nginx_anomalies :: "log_services \<Rightarrow> anomaly_detector \<Rightarrow> gotime \<Rightarrow> nginx_entry list \<Rightarrow> anomaly list" where
  "nginx_anomalies sv ad now es =
     (let slow = map ng_Entry (filter (\<lambda>l. ng_ResponseTime l > ad_SlowRequestThreshold ad) es)
      in DetectSlowRequests ad now (lg_windows sv (countByTimeWindow ad (\<lambda>_. True) slow)) es @
         DetectStatusCodeSpike ad now es 500 @ DetectStatusCodeSpike ad now es 502 @ DetectStatusCodeSpike ad now es 503 @
         DetectTrafficAnomaly ad now (map ng_Entry es))"

definition AnalyzeNginxLogs :: "log_services \<Rightarrow> string \<Rightarrow> log_analyzer \<Rightarrow> log_analyzer \<times> (string + analysis_result)" where
  "AnalyzeNginxLogs sv path la =
     (case lg_open sv path of
        Inl e \<Rightarrow> (la, Inl (([CHR 0xE6, CHR 0x97, CHR 0xA0, CHR 0xE6, CHR 0xB3, CHR 0x95, CHR 0xE6, CHR 0x89, CHR 0x93,
     CHR 0xE5, CHR 0xBC, CHR 0x80, CHR 0xE6, CHR 0x96, CHR 0x87, CHR 0xE4, CHR 0xBB,
     CHR 0xB6] @ '' '') @ path @ '': '' @ e))
      | Inr (lines, scan_error) \<Rightarrow>
          (case read_lines (ao_MaxLines (la_Options la))
                  (\<lambda>line i. case parseNginxLine sv line i path of
                      None \<Rightarrow> None | Some e \<Rightarrow> if in_range la (le_Timestamp (ng_Entry e)) then Some e else None)
                  (count_status sv) 0 lines [] (NewResult sv path) of
             (n, stopped, es, r) \<Rightarrow>
               if scan_error \<noteq> None \<and> \<not> stopped then (la, Inl (([CHR 0xE8, CHR 0xAF, CHR 0xBB, CHR 0xE5, CHR 0x8F, CHR 0x96, CHR 0xE6, CHR 0x96, CHR 0x87,
     CHR 0xE4, CHR 0xBB, CHR 0xB6, CHR 0xE9, CHR 0x94, CHR 0x99, CHR 0xE8, CHR 0xAF,
     CHR 0xAF] @ '': '') @ the scan_error))
               else
                 let now = lg_now sv (Suc n);
                     anomalies = (if ao_EnableAnomalyDetection (la_Options la)
                                  then nginx_anomalies sv (la_AnomalyDetector la) now es else []);
                     r1 = r\<lparr>lr_TotalLines := n, lr_PatternMatches := matches_of sv la (map ng_Entry es),
                             lr_Anomalies := anomalies, lr_EndTime := now\<rparr>
                 in finish_result sv la (r1\<lparr>lr_Summary := generateNginxSummary sv r1 es\<rparr>)))"

subsection \<open>The logs of the system\<close>

definition journal_pattern :: string where
  "journal_pattern = (''^('' @ [CHR 0x5C] @ ''d{4}-'' @ [CHR 0x5C] @ ''d{2}-'' @ [CHR 0x5C] @ ''d{2}T'' @
     [CHR 0x5C] @ ''d{2}:'' @ [CHR 0x5C] @ ''d{2}:'' @ [CHR 0x5C] @ ''d{2}[+'' @ [CHR 0x5C] @
     ''-]'' @ [CHR 0x5C] @ ''d{4})'' @ [CHR 0x5C] @ ''s+('' @ [CHR 0x5C] @ ''S+)'' @
     [CHR 0x5C] @ ''s+('' @ [CHR 0x5C] @ ''S+?)(?:'' @ [CHR 0x5C] @ ''['' @ [CHR 0x5C] @
     ''d+'' @ [CHR 0x5C] @ ''])?:'' @ [CHR 0x5C] @ ''s+(.*)'')"

text \<open>The lines of an output that are not empty, with their numbers from 1.\<close>

definition numbered_lines :: "string \<Rightarrow> (nat \<times> string) list" where
  "numbered_lines out = filter (\<lambda>(i, line). line \<noteq> []) (List.enumerate 1 (split_on CHR 0x0A out))"

definition readJournalctl :: "log_services \<Rightarrow> string + log_entry list" where
  "readJournalctl sv =
     (case lg_run sv [''journalctl'', ''--since'', ''1 hour ago'', ''--no-pager'', ''-o'', ''short-iso''] of
        Inl e \<Rightarrow> Inl e
      | Inr out \<Rightarrow> Inr (map (\<lambda>(i, line).
          let e = plain_entry line i ''journalctl'' in
          case lg_find sv journal_pattern line of
            Some m \<Rightarrow> service_entry m (lg_time sv ''2006-01-02T15:04:05-0700'' (group m 1)) e
          | None \<Rightarrow> unknown_entry (lg_now sv i) e) (numbered_lines out)))"

definition readDmesg :: "log_services \<Rightarrow> string + log_entry list" where
  "readDmesg sv =
     (case (case lg_run sv [''dmesg'', ''--time-format=iso'', ''-l'', ''err,warn,crit''] of
              Inl _ \<Rightarrow> lg_run sv [''dmesg''] | Inr out \<Rightarrow> Inr out) of
        Inl e \<Rightarrow> Inl e
      | Inr out \<Rightarrow> Inr (map (\<lambda>(i, line). unknown_entry (lg_now sv i) (plain_entry line i ''dmesg'')) (numbered_lines out)))"

definition system_entries :: "log_services \<Rightarrow> log_entry list" where
  "system_entries sv =
     (case readJournalctl sv of Inl _ \<Rightarrow> [] | Inr es \<Rightarrow> es) @ (case readDmesg sv of Inl _ \<Rightarrow> [] | Inr es \<Rightarrow> es)"

definition AnalyzeSystemLogs :: "log_services \<Rightarrow> log_analyzer \<Rightarrow> log_analyzer \<times> (string + analysis_result)" where
  "AnalyzeSystemLogs sv la =
     (if lg_os sv = ''windows'' then (la, Inl (''Windows '' @ [CHR 0xE7, CHR 0xB3, CHR 0xBB, CHR 0xE7, CHR 0xBB, CHR 0x9F, CHR 0xE6,
     CHR 0x97, CHR 0xA5, CHR 0xE5, CHR 0xBF, CHR 0x97, CHR 0xE5, CHR 0x88, CHR 0x86,
     CHR 0xE6, CHR 0x9E, CHR 0x90, CHR 0xE6, CHR 0x9A, CHR 0x82, CHR 0xE4, CHR 0xB8,
     CHR 0x8D, CHR 0xE6, CHR 0x94, CHR 0xAF, CHR 0xE6, CHR 0x8C, CHR 0x81]))
      else
        let es = (if lg_os sv = ''linux'' then system_entries sv else []);
            r = fold (count_entry sv {''ERROR'', ''FATAL'', ''err'', ''crit''} {''WARN'', ''WARNING'', ''warning''}) es
                  (NewResult sv ''system'');
            now = lg_now sv (Suc (length es));
            r1 = r\<lparr>lr_TotalLines := length es, lr_PatternMatches := matches_of sv la es,
                    lr_Anomalies := (if ao_EnableAnomalyDetection (la_Options la)
                                     then DetectErrorSpike (la_AnomalyDetector la) now es else []),
                    lr_EndTime := now\<rparr>
        in finish_result sv la (r1\<lparr>lr_Summary := generateSummary r1\<rparr>))"

subsection \<open>The report\<close>

record overall_stats =
  ov_FilesAnalyzed :: nat
  ov_TotalLines :: nat
  ov_TotalErrors :: nat
  ov_TotalWarnings :: nat
  ov_AnomaliesDetected :: nat
  ov_PatternsMatched :: nat

record finding =
  fi_Type :: string
  fi_Severity :: string
  fi_Description :: string
  fi_Impact :: string
  fi_Recommendation :: string
  fi_RelatedFiles :: "string list"

record analysis_report =
  rp_GeneratedAt :: gotime
  rp_TimeRange :: time_range
  rp_Results :: "analysis_result list"
  rp_OverallStats :: overall_stats
  rp_KeyFindings :: "finding list"
  rp_Recommendations :: "string list"

definition add_stats :: "analysis_result \<Rightarrow> overall_stats \<Rightarrow> overall_stats" where
  "add_stats r s = \<lparr>ov_FilesAnalyzed = Suc (ov_FilesAnalyzed s), ov_TotalLines = ov_TotalLines s + lr_TotalLines r,
     ov_TotalErrors = ov_TotalErrors s + lr_ErrorLines r, ov_TotalWarnings = ov_TotalWarnings s + lr_WarnLines r,
     ov_AnomaliesDetected = ov_AnomaliesDetected s + length (lr_Anomalies r),
     ov_PatternsMatched = ov_PatternsMatched s + length (lr_PatternMatches r)\<rparr>"

definition widen :: "analysis_result \<Rightarrow> gotime \<times> gotime \<Rightarrow> gotime \<times> gotime" where
  "widen r = (\<lambda>(lo, hi).
     (if lo = zero_time \<or> lr_StartTime r < lo then lr_StartTime r else lo,
      if hi = zero_time \<or> lr_EndTime r > hi then lr_EndTime r else hi))"

definition getPatternRecommendation :: "log_analyzer \<Rightarrow> string \<Rightarrow> string" where
  "getPatternRecommendation la name =
     (case find (\<lambda>p. pt_Name p = name) (GetPatterns (la_PatternMatcher la)) of None \<Rightarrow> [] | Some p \<Rightarrow> pt_Suggestion p)"

definition serious_patterns :: "analysis_result \<Rightarrow> string \<rightharpoonup> nat" where
  "serious_patterns r =
     fold (\<lambda>m c. if pt_Severity (pm_Pattern m) \<in> {''critical'', ''high''} then bump (pt_Name (pm_Pattern m)) c else c)
       (lr_PatternMatches r) Map.empty"

definition result_findings :: "log_services \<Rightarrow> log_analyzer \<Rightarrow> analysis_result \<Rightarrow> finding list" where
  "result_findings sv la r =
     map (\<lambda>name. \<lparr>fi_Type = ''pattern_match'', fi_Severity = ''high'',
            fi_Description = ([CHR 0xE6, CHR 0xA3, CHR 0x80, CHR 0xE6, CHR 0xB5, CHR 0x8B, CHR 0xE5, CHR 0x88, CHR 0xB0] @
     '' '') @ show_nat (the (serious_patterns r name)) @ ('' '' @ [CHR 0xE6, CHR 0xAC, CHR 0xA1] @ '' '' @ [CHR 0x27]) @ name @
              ([CHR 0x27] @ '' '' @ [CHR 0xE9, CHR 0x97, CHR 0xAE, CHR 0xE9, CHR 0xA2, CHR 0x98]), fi_Impact = [], fi_Recommendation = getPatternRecommendation la name,
            fi_RelatedFiles = [lr_FilePath r]\<rparr>) (lg_keys sv (serious_patterns r)) @
     map (\<lambda>a. \<lparr>fi_Type = ay_Type a, fi_Severity = ay_Severity a, fi_Description = ay_Description a, fi_Impact = [],
            fi_Recommendation = ay_Suggestion a, fi_RelatedFiles = [lr_FilePath r]\<rparr>) (lr_Anomalies r)"

definition generateKeyFindings :: "log_services \<Rightarrow> log_analyzer \<Rightarrow> finding list" where
  "generateKeyFindings sv la = concat (map (result_findings sv la) (la_Results la))"

definition add_suggestion :: "string \<Rightarrow> string list \<Rightarrow> string list" where
  "add_suggestion s acc = (if s \<noteq> [] \<and> s \<notin> set acc then acc @ [s] else acc)"

definition generateRecommendations :: "log_analyzer \<Rightarrow> string list" where
  "generateRecommendations la =
     fold (\<lambda>r acc. fold (\<lambda>a. add_suggestion (ay_Suggestion a)) (lr_Anomalies r)
                     (fold (\<lambda>m. add_suggestion (pt_Suggestion (pm_Pattern m))) (lr_PatternMatches r) acc))
       (la_Results la) []"

definition GenerateReport :: "log_services \<Rightarrow> gotime \<Rightarrow> log_analyzer \<Rightarrow> analysis_report" where
  "GenerateReport sv now la =
     (let (lo, hi) = fold widen (la_Results la) (zero_time, zero_time) in
      \<lparr>rp_GeneratedAt = now, rp_TimeRange = \<lparr>tg_Start = lo, tg_End = hi\<rparr>, rp_Results = la_Results la,
       rp_OverallStats = fold add_stats (la_Results la) \<lparr>ov_FilesAnalyzed = 0, ov_TotalLines = 0, ov_TotalErrors = 0,
         ov_TotalWarnings = 0, ov_AnomaliesDetected = 0, ov_PatternsMatched = 0\<rparr>,
       rp_KeyFindings = generateKeyFindings sv la, rp_Recommendations = generateRecommendations la\<rparr>)"

subsection \<open>The tool\<close>

definition truncateString :: "string \<Rightarrow> nat \<Rightarrow> string" where
  "truncateString s maxLen = (if length s \<le> maxLen then s else take (maxLen - 3) s @ ''...'')"

definition backquoted :: "string \<Rightarrow> string" where
  "backquoted s = [CHR 0x60] @ s @ [CHR 0x60]"

definition match_entry :: "pattern_match \<Rightarrow> string" where
  "match_entry m = ''- **'' @ pt_Name (pm_Pattern m) @ ''** ['' @ pt_Severity (pm_Pattern m) @ '']: '' @
     pt_Suggestion (pm_Pattern m) @ [CHR 0x0A]"

definition anomaly_lines :: "anomaly list \<Rightarrow> string" where
  "anomaly_lines as =
     (if as = [] then []
      else (''### '' @ [CHR 0xE6, CHR 0xA3, CHR 0x80, CHR 0xE6, CHR 0xB5, CHR 0x8B, CHR 0xE5, CHR 0x88,
     CHR 0xB0, CHR 0xE7, CHR 0x9A, CHR 0x84, CHR 0xE5, CHR 0xBC, CHR 0x82, CHR 0xE5,
     CHR 0xB8, CHR 0xB8, CHR 0x0A, CHR 0x0A]) @
        concat (map (\<lambda>a. ''- **'' @ ay_Type a @ ''** ['' @ ay_Severity a @ '']: '' @ ay_Description a @ [CHR 0x0A]) as) @
        [CHR 0x0A])"

definition pad2 :: "int \<Rightarrow> string" where
  "pad2 i = (if 0 \<le> i \<and> i < 10 then ''0'' @ show_int i else show_int i)"

definition formatAnalysisResult :: "log_services \<Rightarrow> analysis_result \<Rightarrow> string" where
  "formatAnalysisResult sv r =
     (''## '' @ [CHR 0xE6, CHR 0x97, CHR 0xA5, CHR 0xE5, CHR 0xBF, CHR 0x97, CHR 0xE5, CHR 0x88,
     CHR 0x86, CHR 0xE6, CHR 0x9E, CHR 0x90, CHR 0xE6, CHR 0x8A, CHR 0xA5, CHR 0xE5,
     CHR 0x91, CHR 0x8A] @ '': '') @ lr_FilePath r @ [CHR 0x0A, CHR 0x0A] @
     (''**'' @ [CHR 0xE5, CHR 0x88, CHR 0x86, CHR 0xE6, CHR 0x9E, CHR 0x90, CHR 0xE6, CHR 0x97,
     CHR 0xB6, CHR 0xE9, CHR 0x97, CHR 0xB4] @ ''**: '') @ lg_datetime sv (lr_EndTime r) @ [CHR 0x0A] @
     (''**'' @ [CHR 0xE6, CHR 0x80, CHR 0xBB, CHR 0xE8, CHR 0xA1, CHR 0x8C, CHR 0xE6, CHR 0x95,
     CHR 0xB0] @ ''**: '') @ show_nat (lr_TotalLines r) @ [CHR 0x0A] @
     (''**'' @ [CHR 0xE9, CHR 0x94, CHR 0x99, CHR 0xE8, CHR 0xAF, CHR 0xAF, CHR 0xE6, CHR 0x95,
     CHR 0xB0] @ ''**: '') @ show_nat (lr_ErrorLines r) @ [CHR 0x0A] @
     (''**'' @ [CHR 0xE8, CHR 0xAD, CHR 0xA6, CHR 0xE5, CHR 0x91, CHR 0x8A, CHR 0xE6, CHR 0x95,
     CHR 0xB0] @ ''**: '') @ show_nat (lr_WarnLines r) @ [CHR 0x0A, CHR 0x0A] @
     (if lr_PatternMatches r = [] then []
      else (''### '' @ [CHR 0xE6, CHR 0xA3, CHR 0x80, CHR 0xE6, CHR 0xB5, CHR 0x8B, CHR 0xE5, CHR 0x88,
     CHR 0xB0, CHR 0xE7, CHR 0x9A, CHR 0x84, CHR 0xE9, CHR 0x94, CHR 0x99, CHR 0xE8,
     CHR 0xAF, CHR 0xAF, CHR 0xE6, CHR 0xA8, CHR 0xA1, CHR 0xE5, CHR 0xBC, CHR 0x8F,
     CHR 0x0A, CHR 0x0A]) @
        concat (map (\<lambda>m. match_entry m @ (''  - '' @ [CHR 0xE5, CHR 0x8C, CHR 0xB9, CHR 0xE9, CHR 0x85, CHR 0x8D, CHR 0xE8, CHR 0xA1,
     CHR 0x8C] @ '': '') @ backquoted (truncateString (le_Raw (pm_Entry m)) 100) @
          [CHR 0x0A]) (lr_PatternMatches r)) @ [CHR 0x0A]) @
     anomaly_lines (lr_Anomalies r) @
     (if dom (lr_HourlyErrors r) = {} then []
      else (''### '' @ [CHR 0xE9, CHR 0x94, CHR 0x99, CHR 0xE8, CHR 0xAF, CHR 0xAF, CHR 0xE6, CHR 0x97,
     CHR 0xB6, CHR 0xE9, CHR 0x97, CHR 0xB4, CHR 0xE5, CHR 0x88, CHR 0x86, CHR 0xE5,
     CHR 0xB8, CHR 0x83, CHR 0x0A, CHR 0x0A]) @
        concat (map (\<lambda>h. ''- '' @ pad2 h @ '':00 - '' @ pad2 h @ '':59: '' @ show_nat (the (lr_HourlyErrors r h)) @
          ('' '' @ [CHR 0xE6, CHR 0x9D, CHR 0xA1, CHR 0x0A])) (lg_hours sv (lr_HourlyErrors r))))"

definition formatNginxAnalysisResult :: "log_services \<Rightarrow> analysis_result \<Rightarrow> string" where
  "formatNginxAnalysisResult sv r =
     (''## Nginx '' @ [CHR 0xE6, CHR 0x97, CHR 0xA5, CHR 0xE5, CHR 0xBF, CHR 0x97, CHR 0xE5,
     CHR 0x88, CHR 0x86, CHR 0xE6, CHR 0x9E, CHR 0x90, CHR 0xE6, CHR 0x8A, CHR 0xA5,
     CHR 0xE5, CHR 0x91, CHR 0x8A] @ '': '') @ lr_FilePath r @ [CHR 0x0A, CHR 0x0A] @
     (''**'' @ [CHR 0xE5, CHR 0x88, CHR 0x86, CHR 0xE6, CHR 0x9E, CHR 0x90, CHR 0xE6, CHR 0x97,
     CHR 0xB6, CHR 0xE9, CHR 0x97, CHR 0xB4] @ ''**: '') @ lg_datetime sv (lr_EndTime r) @ [CHR 0x0A] @
     (''**'' @ [CHR 0xE6, CHR 0x80, CHR 0xBB, CHR 0xE8, CHR 0xAF, CHR 0xB7, CHR 0xE6, CHR 0xB1,
     CHR 0x82, CHR 0xE6, CHR 0x95, CHR 0xB0] @ ''**: '') @ show_nat (lr_TotalLines r) @ [CHR 0x0A, CHR 0x0A] @
     (if dom (lr_LevelCounts r) = {} then []
      else (''### HTTP '' @ [CHR 0xE7, CHR 0x8A, CHR 0xB6, CHR 0xE6, CHR 0x80, CHR 0x81, CHR 0xE7,
     CHR 0xA0, CHR 0x81, CHR 0xE5, CHR 0x88, CHR 0x86, CHR 0xE5, CHR 0xB8, CHR 0x83,
     CHR 0x0A, CHR 0x0A]) @
        concat (map (\<lambda>k. let n = the (lr_LevelCounts r k) in
          ''- '' @ k @ '': '' @ show_nat n @ '' ('' @ lg_fixed sv 1 (real n / real (lr_TotalLines r) * 100) @ ''%)'' @ [CHR 0x0A])
          (lg_keys sv (lr_LevelCounts r))) @ [CHR 0x0A]) @
     (if lr_ErrorLines r = 0 \<and> lr_WarnLines r = 0 then []
      else (''### '' @ [CHR 0xE9, CHR 0x94, CHR 0x99, CHR 0xE8, CHR 0xAF, CHR 0xAF, CHR 0xE7, CHR 0xBB,
     CHR 0x9F, CHR 0xE8, CHR 0xAE, CHR 0xA1, CHR 0x0A, CHR 0x0A]) @ (''- 5xx '' @ [CHR 0xE9, CHR 0x94, CHR 0x99, CHR 0xE8, CHR 0xAF, CHR 0xAF] @ '': '') @ show_nat (lr_ErrorLines r) @ [CHR 0x0A] @
           (''- 4xx '' @ [CHR 0xE9, CHR 0x94, CHR 0x99, CHR 0xE8, CHR 0xAF, CHR 0xAF] @ '': '') @ show_nat (lr_WarnLines r) @ [CHR 0x0A, CHR 0x0A]) @
     anomaly_lines (lr_Anomalies r) @
     (if lr_PatternMatches r = [] then []
      else (''### '' @ [CHR 0xE6, CHR 0xA3, CHR 0x80, CHR 0xE6, CHR 0xB5, CHR 0x8B, CHR 0xE5, CHR 0x88,
     CHR 0xB0, CHR 0xE7, CHR 0x9A, CHR 0x84, CHR 0xE9, CHR 0x94, CHR 0x99, CHR 0xE8,
     CHR 0xAF, CHR 0xAF, CHR 0xE6, CHR 0xA8, CHR 0xA1, CHR 0xE5, CHR 0xBC, CHR 0x8F,
     CHR 0x0A, CHR 0x0A]) @ concat (map match_entry (lr_PatternMatches r)))"

definition found_line :: "pattern_match \<Rightarrow> string" where
  "found_line m = ''- **'' @ pt_Name (pm_Pattern m) @ ''**: '' @ pt_Suggestion (pm_Pattern m) @ [CHR 0x0A]"

definition found_place :: "pattern_match \<Rightarrow> string" where
  "found_place m = (''  - '' @ [CHR 0xE8, CHR 0xA1, CHR 0x8C] @ '' '') @ show_int (le_LineNumber (pm_Entry m)) @ '': '' @
     backquoted (truncateString (le_Raw (pm_Entry m)) 80) @ [CHR 0x0A]"

definition formatPatternMatches :: "pattern_match list \<Rightarrow> string" where
  "formatPatternMatches ms =
     (let sev = (\<lambda>m. pt_Severity (pm_Pattern m));
          critical = filter (\<lambda>m. sev m = ''critical'') ms;
          high = filter (\<lambda>m. sev m = ''high'') ms;
          medium = filter (\<lambda>m. sev m = ''medium'') ms;
          low = filter (\<lambda>m. sev m \<notin> {''critical'', ''high'', ''medium''}) ms
      in (''## '' @ [CHR 0xE9, CHR 0x94, CHR 0x99, CHR 0xE8, CHR 0xAF, CHR 0xAF, CHR 0xE6, CHR 0xA8,
     CHR 0xA1, CHR 0xE5, CHR 0xBC, CHR 0x8F, CHR 0xE6, CHR 0xA3, CHR 0x80, CHR 0xE6,
     CHR 0xB5, CHR 0x8B, CHR 0xE7, CHR 0xBB, CHR 0x93, CHR 0xE6, CHR 0x9E, CHR 0x9C,
     CHR 0x0A, CHR 0x0A]) @
         ([CHR 0xE5, CHR 0x85, CHR 0xB1, CHR 0xE6, CHR 0xA3, CHR 0x80, CHR 0xE6, CHR 0xB5, CHR 0x8B,
     CHR 0xE5, CHR 0x88, CHR 0xB0] @ '' '') @ show_nat (length ms) @ ('' '' @ [CHR 0xE4, CHR 0xB8, CHR 0xAA, CHR 0xE5, CHR 0x8C, CHR 0xB9, CHR 0xE9, CHR 0x85,
     CHR 0x8D, CHR 0x0A, CHR 0x0A]) @
         (if critical = [] then []
          else (''### '' @ [CHR 0xE4, CHR 0xB8, CHR 0xA5, CHR 0xE9, CHR 0x87, CHR 0x8D] @ '' (Critical)'' @
     [CHR 0x0A, CHR 0x0A]) @ concat (map (\<lambda>m. found_line m @ found_place m) critical) @ [CHR 0x0A]) @
         (if high = [] then []
          else (''### '' @ [CHR 0xE9, CHR 0xAB, CHR 0x98] @ '' (High)'' @ [CHR 0x0A, CHR 0x0A]) @ concat (map (\<lambda>m. found_line m @ found_place m) high) @ [CHR 0x0A]) @
         (if medium = [] then []
          else (''### '' @ [CHR 0xE4, CHR 0xB8, CHR 0xAD] @ '' (Medium)'' @ [CHR 0x0A, CHR 0x0A]) @ concat (map found_line medium) @ [CHR 0x0A]) @
         (if low = [] then [] else (''### '' @ [CHR 0xE4, CHR 0xBD, CHR 0x8E] @ '' (Low)'' @ [CHR 0x0A, CHR 0x0A]) @ concat (map found_line low)))"

definition handleDetectPatterns :: "log_services \<Rightarrow> args \<Rightarrow> string + string" where
  "handleDetectPatterns sv a =
     (case arg_or_empty ''content'' a of
        [] \<Rightarrow> Inl (''content '' @ [CHR 0xE5, CHR 0x8F, CHR 0x82, CHR 0xE6, CHR 0x95, CHR 0xB0, CHR 0xE6,
     CHR 0x98, CHR 0xAF, CHR 0xE5, CHR 0xBF, CHR 0x85, CHR 0xE9, CHR 0x9C, CHR 0x80,
     CHR 0xE7, CHR 0x9A, CHR 0x84])
      | content \<Rightarrow>
          let es = map (\<lambda>(i, line). (plain_entry line i [])\<lparr>le_Message := line\<rparr>) (numbered_lines content);
              ms = MatchLines (lg_find sv) (NewPatternMatcher (lg_rx_ok sv)) es
          in Inr (if ms = [] then [CHR 0xE6, CHR 0x9C, CHR 0xAA, CHR 0xE6, CHR 0xA3, CHR 0x80, CHR 0xE6, CHR 0xB5, CHR 0x8B,
     CHR 0xE5, CHR 0x88, CHR 0xB0, CHR 0xE5, CHR 0xB7, CHR 0xB2, CHR 0xE7, CHR 0x9F,
     CHR 0xA5, CHR 0xE9, CHR 0x94, CHR 0x99, CHR 0xE8, CHR 0xAF, CHR 0xAF, CHR 0xE6,
     CHR 0xA8, CHR 0xA1, CHR 0xE5, CHR 0xBC, CHR 0x8F, CHR 0xE3, CHR 0x80, CHR 0x82] else formatPatternMatches ms))"

definition handleAnalyzePath ::
  "string \<Rightarrow> (string \<Rightarrow> string + analysis_result) \<Rightarrow> (analysis_result \<Rightarrow> string) \<Rightarrow> args \<Rightarrow> string + string" where
  "handleAnalyzePath failed analyze fmt a =
     (case arg_or_empty ''path'' a of
        [] \<Rightarrow> Inl (''path '' @ [CHR 0xE5, CHR 0x8F, CHR 0x82, CHR 0xE6, CHR 0x95, CHR 0xB0, CHR 0xE6,
     CHR 0x98, CHR 0xAF, CHR 0xE5, CHR 0xBF, CHR 0x85, CHR 0xE9, CHR 0x9C, CHR 0x80,
     CHR 0xE7, CHR 0x9A, CHR 0x84])
      | path \<Rightarrow> (case analyze path of Inl e \<Rightarrow> Inl (failed @ '': '' @ e) | Inr r \<Rightarrow> Inr (fmt r)))"

definition analyzeLogsHandler :: "log_services \<Rightarrow> args \<Rightarrow> string + string" where
  "analyzeLogsHandler sv a =
     (let la = NewLogAnalyzer sv in
      case arg_string ''action'' a of
        None \<Rightarrow> Inl (''action '' @ [CHR 0xE5, CHR 0x8F, CHR 0x82, CHR 0xE6, CHR 0x95, CHR 0xB0, CHR 0xE5,
     CHR 0xBF, CHR 0x85, CHR 0xE9, CHR 0xA1, CHR 0xBB, CHR 0xE6, CHR 0x98, CHR 0xAF,
     CHR 0xE5, CHR 0xAD, CHR 0x97, CHR 0xE7, CHR 0xAC, CHR 0xA6, CHR 0xE4, CHR 0xB8,
     CHR 0xB2])
      | Some action \<Rightarrow>
          if action = ''analyze_file''
          then handleAnalyzePath [CHR 0xE5, CHR 0x88, CHR 0x86, CHR 0xE6, CHR 0x9E, CHR 0x90, CHR 0xE6, CHR 0x96, CHR 0x87,
     CHR 0xE4, CHR 0xBB, CHR 0xB6, CHR 0xE5, CHR 0xA4, CHR 0xB1, CHR 0xE8, CHR 0xB4,
     CHR 0xA5] (\<lambda>p. snd (AnalyzeFile sv p la)) (formatAnalysisResult sv) a
          else if action = ''analyze_nginx''
          then handleAnalyzePath ([CHR 0xE5, CHR 0x88, CHR 0x86, CHR 0xE6, CHR 0x9E, CHR 0x90] @ '' Nginx '' @ [CHR 0xE6,
     CHR 0x97, CHR 0xA5, CHR 0xE5, CHR 0xBF, CHR 0x97, CHR 0xE5, CHR 0xA4, CHR 0xB1,
     CHR 0xE8, CHR 0xB4, CHR 0xA5]) (\<lambda>p. snd (AnalyzeNginxLogs sv p la)) (formatNginxAnalysisResult sv) a
          else if action = ''analyze_system''
          then (case snd (AnalyzeSystemLogs sv la) of
                  Inl e \<Rightarrow> Inl ([CHR 0xE5, CHR 0x88, CHR 0x86, CHR 0xE6, CHR 0x9E, CHR 0x90, CHR 0xE7, CHR 0xB3, CHR 0xBB,
     CHR 0xE7, CHR 0xBB, CHR 0x9F, CHR 0xE6, CHR 0x97, CHR 0xA5, CHR 0xE5, CHR 0xBF,
     CHR 0x97, CHR 0xE5, CHR 0xA4, CHR 0xB1, CHR 0xE8, CHR 0xB4, CHR 0xA5] @ '': '' @ e) | Inr r \<Rightarrow> Inr (formatAnalysisResult sv r))
          else if action = ''detect_patterns'' then handleDetectPatterns sv a
          else Inl (([CHR 0xE6, CHR 0x9C, CHR 0xAA, CHR 0xE7, CHR 0x9F, CHR 0xA5, CHR 0xE6, CHR 0x93, CHR 0x8D,
     CHR 0xE4, CHR 0xBD, CHR 0x9C] @ '': '') @ action))"

end
