(* ===== verification/Owl_LogProps.thy ===== *)
theory Owl_LogProps
  imports Owl_LogAnalyzer
begin

text \<open>
  What the numbers of a log analysis are: the loop over the lines agrees with a description of it by list
  operations, the counters are counts of the entries it keeps, and the suggestions of a report are those
  of its matches and anomalies, each once.
\<close>

section \<open>The loop over the lines\<close>

definition line_limit :: "int \<Rightarrow> 'a list \<Rightarrow> nat" where
  "line_limit mx lines = (if mx > 0 then nat mx else length lines)"

definition parsed_lines :: "(string \<Rightarrow> nat \<Rightarrow> 'e option) \<Rightarrow> nat \<Rightarrow> string list \<Rightarrow> 'e list" where
  "parsed_lines parse i lines = List.map_filter (\<lambda>(k, line). parse line k) (enumerate i lines)"

lemma parsed_lines_simps [simp]:
  "parsed_lines parse i [] = []"
  "parsed_lines parse i (l # ls) =
     (case parse l i of None \<Rightarrow> parsed_lines parse (Suc i) ls | Some e \<Rightarrow> e # parsed_lines parse (Suc i) ls)"
  by (auto simp: parsed_lines_def List.map_filter_simps split: option.splits)

lemma parsed_lines_length: "length (parsed_lines parse i lines) \<le> length lines"
  by (induction lines arbitrary: i) (auto split: option.splits intro: le_SucI)

lemma read_lines_unlimited:
  assumes "mx \<le> 0"
  shows "read_lines mx parse count i lines acc r =
    (i + length lines, False, acc @ parsed_lines parse (Suc i) lines, fold count (parsed_lines parse (Suc i) lines) r)"
  using assms by (induction lines arbitrary: i acc r) (auto split: option.splits)

lemma read_lines_limited:
  assumes "i \<le> m" "0 < m"
  shows "read_lines (int m) parse count i lines acc r =
    (let new = parsed_lines parse (Suc i) (take (m - i) lines) in
     (if m < i + length lines then Suc m else i + length lines, m < i + length lines, acc @ new, fold count new r))"
  using assms
proof (induction lines arbitrary: i acc r)
  case (Cons line lines)
  show ?case
  proof (cases "i = m")
    case False
    then have "Suc i \<le> m" "m - i = Suc (m - Suc i)" using Cons.prems by auto
    then show ?thesis using Cons.IH[OF \<open>Suc i \<le> m\<close>] Cons.prems
      by (cases "parse line (Suc i)") (simp_all add: Let_def)
  qed (use Cons.prems in simp)
qed (simp add: Let_def)

lemma read_lines_eq:
  "read_lines mx parse count 0 lines [] r =
    (let new = parsed_lines parse (Suc 0) (take (line_limit mx lines) lines); over = line_limit mx lines < length lines in
     (if over then Suc (line_limit mx lines) else length lines, over, new, fold count new r))"
proof (cases "mx > 0")
  case True
  then have "mx = int (nat mx)" "0 < nat mx" by simp_all
  then show ?thesis using read_lines_limited[of 0 "nat mx" parse count lines "[]" r] True
    by (simp add: line_limit_def Let_def)
qed (simp add: read_lines_unlimited line_limit_def Let_def)

section \<open>Counters\<close>

definition counted :: "('k \<rightharpoonup> nat) \<Rightarrow> 'k \<Rightarrow> nat" where
  "counted m k = (case m k of None \<Rightarrow> 0 | Some n \<Rightarrow> n)"

lemma counted_simps [simp]:
  "counted Map.empty k = 0"
  "counted (bump j m) k = (if k = j then Suc (counted m k) else counted m k)"
  by (auto simp: counted_def bump_def split: option.splits)

lemma count_error_sel [simp]:
  "lr_ParsedLines (count_error sv t r) = lr_ParsedLines r"
  "lr_ErrorLines (count_error sv t r) = Suc (lr_ErrorLines r)"
  "lr_WarnLines (count_error sv t r) = lr_WarnLines r"
  "lr_LevelCounts (count_error sv t r) = lr_LevelCounts r"
  "lr_HourlyErrors (count_error sv t r) = bump (lg_hour sv t) (lr_HourlyErrors r)"
  by (simp_all add: count_error_def)

lemma fold_count_entry:
  assumes "[] \<notin> errors" "[] \<notin> warnings"
  shows "lr_ParsedLines (fold (count_entry sv errors warnings) es r) = lr_ParsedLines r + length es"
    and "lr_ErrorLines (fold (count_entry sv errors warnings) es r) =
           lr_ErrorLines r + length (filter (\<lambda>e. le_Level e \<in> errors) es)"
    and "lr_WarnLines (fold (count_entry sv errors warnings) es r) =
           lr_WarnLines r + length (filter (\<lambda>e. le_Level e \<in> warnings - errors) es)"
    and "counted (lr_LevelCounts (fold (count_entry sv errors warnings) es r)) k =
           counted (lr_LevelCounts r) k + length (filter (\<lambda>e. le_Level e = k \<and> k \<noteq> []) es)"
    and "counted (lr_HourlyErrors (fold (count_entry sv errors warnings) es r)) h =
           counted (lr_HourlyErrors r) h +
           length (filter (\<lambda>e. le_Level e \<in> errors \<and> lg_hour sv (le_Timestamp e) = h) es)"
  using assms by (induction es arbitrary: r) (auto simp: count_entry_def Let_def)

lemma fold_count_status:
  "lr_ParsedLines (fold (count_status sv) es r) = lr_ParsedLines r + length es"
  "lr_ErrorLines (fold (count_status sv) es r) = lr_ErrorLines r + length (filter (\<lambda>e. 500 \<le> ng_StatusCode e) es)"
  "lr_WarnLines (fold (count_status sv) es r) =
     lr_WarnLines r + length (filter (\<lambda>e. 400 \<le> ng_StatusCode e \<and> ng_StatusCode e < 500) es)"
  "counted (lr_HourlyErrors (fold (count_status sv) es r)) h =
     counted (lr_HourlyErrors r) h +
     length (filter (\<lambda>e. 500 \<le> ng_StatusCode e \<and> lg_hour sv (le_Timestamp (ng_Entry e)) = h) es)"
  by (induction es arbitrary: r) (auto simp: count_status_def Let_def)

lemma new_result_sel [simp]:
  "lr_ParsedLines (NewResult sv path) = 0" "lr_ErrorLines (NewResult sv path) = 0"
  "lr_WarnLines (NewResult sv path) = 0" "lr_LevelCounts (NewResult sv path) = Map.empty"
  "lr_HourlyErrors (NewResult sv path) = Map.empty"
  by (simp_all add: NewResult_def)

lemma levels_nonempty: "[] \<notin> error_levels" "[] \<notin> warn_levels" "warn_levels - error_levels = warn_levels"
  by (auto simp: error_levels_def warn_levels_def)

text \<open>The entries an analysis keeps: those of the first lines, in order, that parse and fall into the range.\<close>

definition keep_line :: "log_services \<Rightarrow> log_analyzer \<Rightarrow> string \<Rightarrow> string \<Rightarrow> nat \<Rightarrow> log_entry option" where
  "keep_line sv la path = (\<lambda>line i.
     if in_range la (le_Timestamp (parseLine sv line i path)) then Some (parseLine sv line i path) else None)"

definition keep_access :: "log_services \<Rightarrow> log_analyzer \<Rightarrow> string \<Rightarrow> string \<Rightarrow> nat \<Rightarrow> nginx_entry option" where
  "keep_access sv la path = (\<lambda>line i. case parseNginxLine sv line i path of
     None \<Rightarrow> None | Some e \<Rightarrow> if in_range la (le_Timestamp (ng_Entry e)) then Some e else None)"

definition file_entries :: "log_services \<Rightarrow> log_analyzer \<Rightarrow> string \<Rightarrow> string list \<Rightarrow> log_entry list" where
  "file_entries sv la path lines =
     parsed_lines (keep_line sv la path) (Suc 0) (take (line_limit (ao_MaxLines (la_Options la)) lines) lines)"

definition access_entries :: "log_services \<Rightarrow> log_analyzer \<Rightarrow> string \<Rightarrow> string list \<Rightarrow> nginx_entry list" where
  "access_entries sv la path lines =
     parsed_lines (keep_access sv la path) (Suc 0) (take (line_limit (ao_MaxLines (la_Options la)) lines) lines)"

text \<open>What an analysis without error adds to the results.\<close>

definition file_numbers :: "log_services \<Rightarrow> log_analyzer \<Rightarrow> string list \<Rightarrow> log_entry list \<Rightarrow> analysis_result \<Rightarrow> bool" where
  "file_numbers sv la lines es r \<longleftrightarrow>
     lr_TotalLines r = (if line_limit (ao_MaxLines (la_Options la)) lines < length lines
                        then Suc (line_limit (ao_MaxLines (la_Options la)) lines) else length lines) \<and>
     lr_PatternMatches r = matches_of sv la es \<and>
     lr_ParsedLines r = length es \<and>
     lr_ErrorLines r = length (filter (\<lambda>e. le_Level e \<in> error_levels) es) \<and>
     lr_WarnLines r = length (filter (\<lambda>e. le_Level e \<in> warn_levels) es) \<and>
     (\<forall>k. counted (lr_LevelCounts r) k = length (filter (\<lambda>e. le_Level e = k \<and> k \<noteq> []) es)) \<and>
     (\<forall>h. counted (lr_HourlyErrors r) h =
        length (filter (\<lambda>e. le_Level e \<in> error_levels \<and> lg_hour sv (le_Timestamp e) = h) es))"

lemma AnalyzeFile_ok:
  assumes "lg_open sv path = Inr (lines, None)"
  obtains r where "AnalyzeFile sv path la = (la\<lparr>la_Results := la_Results la @ [r]\<rparr>, Inr r)"
    and "file_numbers sv la lines (file_entries sv la path lines) r"
proof -
  note counts = fold_count_entry[OF levels_nonempty(1,2), of sv "file_entries sv la path lines" "NewResult sv path",
      unfolded levels_nonempty(3)]
  show ?thesis
    apply (rule that)
     apply (simp add: AnalyzeFile_def assms read_lines_eq Let_def keep_line_def[symmetric] file_entries_def[symmetric]
        finish_result_def del: One_nat_def)
    apply (simp add: counts file_numbers_def)
    done
qed

lemma AnalyzeNginxLogs_ok:
  assumes "lg_open sv path = Inr (lines, None)"
  obtains r where "AnalyzeNginxLogs sv path la = (la\<lparr>la_Results := la_Results la @ [r]\<rparr>, Inr r)"
    and "lr_ParsedLines r = length (access_entries sv la path lines)"
    and "lr_ErrorLines r = length (filter (\<lambda>e. 500 \<le> ng_StatusCode e) (access_entries sv la path lines))"
    and "lr_WarnLines r =
           length (filter (\<lambda>e. 400 \<le> ng_StatusCode e \<and> ng_StatusCode e < 500) (access_entries sv la path lines))"
    and "\<And>h. counted (lr_HourlyErrors r) h = length (filter (\<lambda>e. 500 \<le> ng_StatusCode e \<and>
           lg_hour sv (le_Timestamp (ng_Entry e)) = h) (access_entries sv la path lines))"
proof -
  note counts = fold_count_status[of sv "access_entries sv la path lines" "NewResult sv path"]
  show ?thesis
    apply (rule that)
        apply (simp add: AnalyzeNginxLogs_def assms read_lines_eq Let_def keep_access_def[symmetric]
        access_entries_def[symmetric] finish_result_def del: One_nat_def)
       apply (simp_all add: counts)
    done
qed

section \<open>Properties\<close>

text \<open>
  The counters of an analysed file are counts over the entries it keeps (the first
  \<open>MaxLines\<close> lines, parsed, in the time range): \<open>ParsedLines\<close> all of them, \<open>ErrorLines\<close> those of level
  ERROR or FATAL, \<open>WarnLines\<close> those of level WARN or WARNING, \<open>LevelCounts\<close> per level and
  \<open>HourlyErrors\<close> the errors per hour; the result is returned and added at the end of the results.
\<close>
theorem file_counts_spec:
  assumes "lg_open sv path = Inr (lines, None)"
  shows "\<exists>r. AnalyzeFile sv path la = (la\<lparr>la_Results := la_Results la @ [r]\<rparr>, Inr r) \<and>
     lr_PatternMatches r = matches_of sv la (file_entries sv la path lines) \<and>
     lr_ParsedLines r = length (file_entries sv la path lines) \<and>
     lr_ErrorLines r = length (filter (\<lambda>e. le_Level e \<in> error_levels) (file_entries sv la path lines)) \<and>
     lr_WarnLines r = length (filter (\<lambda>e. le_Level e \<in> warn_levels) (file_entries sv la path lines)) \<and>
     (\<forall>k. counted (lr_LevelCounts r) k = length (filter (\<lambda>e. le_Level e = k \<and> k \<noteq> []) (file_entries sv la path lines))) \<and>
     (\<forall>h. counted (lr_HourlyErrors r) h = length (filter (\<lambda>e. le_Level e \<in> error_levels \<and>
        lg_hour sv (le_Timestamp e) = h) (file_entries sv la path lines)))"
proof -
  obtain r where "AnalyzeFile sv path la = (la\<lparr>la_Results := la_Results la @ [r]\<rparr>, Inr r)"
    and "file_numbers sv la lines (file_entries sv la path lines) r" by (rule AnalyzeFile_ok[OF assms])
  then show ?thesis unfolding file_numbers_def by blast
qed

text \<open>
  \<open>TotalLines\<close> of a file longer than \<open>MaxLines\<close> is one more than the number of lines that
  are analysed, because the line that ends the loop has been counted; at most \<open>MaxLines\<close> lines are
  parsed.
\<close>
theorem total_lines_off_by_one:
  assumes "lg_open sv path = Inr (lines, None)" "0 < ao_MaxLines (la_Options la)"
    and "ao_MaxLines (la_Options la) < int (length lines)"
  shows "\<exists>r. snd (AnalyzeFile sv path la) = Inr r \<and> int (lr_TotalLines r) = ao_MaxLines (la_Options la) + 1 \<and>
     int (lr_ParsedLines r) \<le> ao_MaxLines (la_Options la)"
proof -
  obtain r where r: "AnalyzeFile sv path la = (la\<lparr>la_Results := la_Results la @ [r]\<rparr>, Inr r)"
    "file_numbers sv la lines (file_entries sv la path lines) r" by (rule AnalyzeFile_ok[OF assms(1)])
  have "length (file_entries sv la path lines) \<le> nat (ao_MaxLines (la_Options la))"
    unfolding file_entries_def using assms(2)
    by (intro order_trans[OF parsed_lines_length]) (simp add: line_limit_def)
  then show ?thesis using r assms(2,3) by (auto simp: file_numbers_def line_limit_def)
qed

lemma add_suggestion_inv:
  "distinct (add_suggestion s acc) = distinct acc"
  "set (add_suggestion s acc) = set acc \<union> ({s} - {[]})"
  by (auto simp: add_suggestion_def)

lemma fold_suggestions:
  "distinct (fold (\<lambda>x. add_suggestion (f x)) xs acc) = distinct acc"
  "set (fold (\<lambda>x. add_suggestion (f x)) xs acc) = set acc \<union> (f ` set xs - {[]})"
  by (induction xs arbitrary: acc) (auto simp: add_suggestion_inv)

definition result_suggestions :: "analysis_result \<Rightarrow> string set" where
  "result_suggestions r = (pt_Suggestion \<circ> pm_Pattern) ` set (lr_PatternMatches r) \<union> ay_Suggestion ` set (lr_Anomalies r)"

lemma fold_results:
  "distinct (fold (\<lambda>r acc. fold (\<lambda>a. add_suggestion (ay_Suggestion a)) (lr_Anomalies r)
       (fold (\<lambda>m. add_suggestion (pt_Suggestion (pm_Pattern m))) (lr_PatternMatches r) acc)) rs acc) = distinct acc"
  "set (fold (\<lambda>r acc. fold (\<lambda>a. add_suggestion (ay_Suggestion a)) (lr_Anomalies r)
       (fold (\<lambda>m. add_suggestion (pt_Suggestion (pm_Pattern m))) (lr_PatternMatches r) acc)) rs acc) =
     set acc \<union> (\<Union>r\<in>set rs. result_suggestions r - {[]})"
  by (induction rs arbitrary: acc) (auto simp: fold_suggestions result_suggestions_def)

text \<open>
  The recommendations of a report are exactly the suggestions that are not empty of the
  matches and anomalies of all results, and none of them twice.
\<close>
theorem recommendations_spec:
  "distinct (rp_Recommendations (GenerateReport sv now la)) \<and>
   set (rp_Recommendations (GenerateReport sv now la)) =
     (\<Union>r\<in>set (la_Results la). (pt_Suggestion \<circ> pm_Pattern) ` set (lr_PatternMatches r) \<union>
        ay_Suggestion ` set (lr_Anomalies r)) - {[]}"
  by (auto simp: GenerateReport_def generateRecommendations_def fold_results result_suggestions_def split: prod.splits)

lemma fold_add_stats:
  "ov_FilesAnalyzed (fold add_stats rs s) = ov_FilesAnalyzed s + length rs"
  "ov_TotalErrors (fold add_stats rs s) = ov_TotalErrors s + sum_list (map lr_ErrorLines rs)"
  "ov_TotalWarnings (fold add_stats rs s) = ov_TotalWarnings s + sum_list (map lr_WarnLines rs)"
  by (induction rs arbitrary: s) (simp_all add: add_stats_def)

section \<open>Examples\<close>

definition no_times :: log_services where
  "no_times = \<lparr>lg_open = (\<lambda>_. Inr ([''fatal'', ''warned'', ''error''], None)), lg_find = (\<lambda>_ _. None), lg_rx_ok = (\<lambda>_. True),
     lg_time = (\<lambda>_ _. None), lg_float = (\<lambda>_. 0), lg_hour = (\<lambda>_. 5), lg_year = (\<lambda>_. 2024), lg_now = int,
     lg_os = ''linux'', lg_run = (\<lambda>_. Inl []), lg_datetime = (\<lambda>_. []), lg_fixed = (\<lambda>_ _. []), lg_keys = (\<lambda>_. []),
     lg_hours = (\<lambda>_. []), lg_windows = (\<lambda>_. [])\<rparr>"

definition two_lines :: log_analyzer where
  "two_lines = SetMaxLines 2 (NewLogAnalyzer no_times)"

lemma no_times_open: "lg_open no_times ''app.log'' = Inr ([''fatal'', ''warned'', ''error''], None)"
  by (simp add: no_times_def)

theorem file_counts_spec_witness:
  "\<exists>r. AnalyzeFile no_times ''app.log'' two_lines = (two_lines\<lparr>la_Results := la_Results two_lines @ [r]\<rparr>, Inr r) \<and>
     lr_ParsedLines r = length (file_entries no_times two_lines ''app.log'' [''fatal'', ''warned'', ''error''])"
  using file_counts_spec[OF no_times_open, of two_lines] by blast

theorem total_lines_off_by_one_witness:
  "\<exists>r. snd (AnalyzeFile no_times ''app.log'' two_lines) = Inr r \<and> int (lr_TotalLines r) = 3 \<and> int (lr_ParsedLines r) \<le> 2"
  using total_lines_off_by_one[OF no_times_open, of two_lines]
  by (simp add: two_lines_def SetMaxLines_def)

end
