(* ===== verification/Owl_WebGuard.thy ===== *)
theory Owl_WebGuard
  imports Owl_Strings
begin

text \<open>
  \<open>internal/web/middleware\<close> and \<open>Start\<close> of \<open>internal/web/server.go\<close>: what a request to the web panel
  passes before it reaches its handler. A handler takes the request, the headers that are already set
  and a world of any type. \<open>b64\<close> is the decoder of base64 (\<open>Inl\<close> an error). The log lines are
  returned beside the answer.
\<close>

subsection \<open>Requests and answers\<close>

type_synonym headers = "string \<rightharpoonup> string"

record web_request =
  wr_Method :: string
  wr_Path :: string
  wr_Header :: "string \<Rightarrow> string"

record web_response =
  rs_Status :: nat
  rs_Headers :: headers
  rs_Body :: string

type_synonym 'w handler = "web_request \<Rightarrow> headers \<Rightarrow> 'w \<Rightarrow> web_response \<times> 'w"
type_synonym base64 = "string \<Rightarrow> string + string"

subsection \<open>Authentication\<close>

record auth_config =
  au_Username :: string
  au_Password :: string
  au_Token :: string
  au_SkipPaths :: "string list"

definition secureCompare :: "string \<Rightarrow> string \<Rightarrow> bool" where
  "secureCompare a b = (a = b)"

definition unauthorized :: "headers \<Rightarrow> string \<Rightarrow> web_response" where
  "unauthorized h message =
     \<lparr>rs_Status = 401,
      rs_Headers = h(''WWW-Authenticate'' \<mapsto> (''Basic realm='' @ [CHR 0x22] @ ''ServerOwl API'' @ [CHR 0x22]),
                     ''Content-Type'' \<mapsto> ''application/json; charset=utf-8''),
      rs_Body = (''{'' @ [CHR 0x22] @ ''success'' @ [CHR 0x22] @ '':false,'' @ [CHR 0x22] @ ''error'' @
     [CHR 0x22] @ '':'' @ [CHR 0x22]) @ message @ ([CHR 0x22] @ ''}'')\<rparr>"

text \<open>\<open>r.BasicAuth()\<close> for a header that starts with \<open>Basic\<close> and a blank.\<close>

definition BasicAuth :: "base64 \<Rightarrow> string \<Rightarrow> (string \<times> string) option" where
  "BasicAuth b64 auth =
     (case b64 (TrimPrefix auth ''Basic '') of Inl _ \<Rightarrow> None | Inr plain \<Rightarrow> Cut plain '':'')"

definition AuthMiddleware :: "base64 \<Rightarrow> 'w handler \<Rightarrow> auth_config \<Rightarrow> 'w handler" where
  "AuthMiddleware b64 next_h config r h w =
     (let auth = wr_Header r ''Authorization'' in
      if \<exists>path \<in> set (au_SkipPaths config). HasPrefix (wr_Path r) path then next_h r h w
      else if auth = [] then (unauthorized h [CHR 0xE7, CHR 0xBC, CHR 0xBA, CHR 0xE5, CHR 0xB0, CHR 0x91, CHR 0xE8, CHR 0xAE, CHR 0xA4,
     CHR 0xE8, CHR 0xAF, CHR 0x81, CHR 0xE4, CHR 0xBF, CHR 0xA1, CHR 0xE6, CHR 0x81,
     CHR 0xAF], w)
      else if HasPrefix auth ''Bearer '' then
        (if au_Token config \<noteq> [] \<and> secureCompare (TrimPrefix auth ''Bearer '') (au_Token config) then next_h r h w
         else (unauthorized h ([CHR 0xE6, CHR 0x97, CHR 0xA0, CHR 0xE6, CHR 0x95, CHR 0x88, CHR 0xE7, CHR 0x9A, CHR 0x84] @
     '' Token''), w))
      else if HasPrefix auth ''Basic '' then
        (case BasicAuth b64 auth of
           None \<Rightarrow> (unauthorized h ([CHR 0xE6, CHR 0x97, CHR 0xA0, CHR 0xE6, CHR 0x95, CHR 0x88, CHR 0xE7, CHR 0x9A, CHR 0x84] @
     '' Basic Auth '' @ [CHR 0xE6, CHR 0xA0, CHR 0xBC, CHR 0xE5, CHR 0xBC, CHR 0x8F]), w)
         | Some (username, password) \<Rightarrow>
             if (au_Username config \<noteq> [] \<and> au_Password config \<noteq> []) \<and>
                secureCompare username (au_Username config) \<and> secureCompare password (au_Password config)
             then next_h r h w
             else (unauthorized h [CHR 0xE7, CHR 0x94, CHR 0xA8, CHR 0xE6, CHR 0x88, CHR 0xB7, CHR 0xE5, CHR 0x90, CHR 0x8D,
     CHR 0xE6, CHR 0x88, CHR 0x96, CHR 0xE5, CHR 0xAF, CHR 0x86, CHR 0xE7, CHR 0xA0,
     CHR 0x81, CHR 0xE9, CHR 0x94, CHR 0x99, CHR 0xE8, CHR 0xAF, CHR 0xAF], w))
      else (unauthorized h [CHR 0xE4, CHR 0xB8, CHR 0x8D, CHR 0xE6, CHR 0x94, CHR 0xAF, CHR 0xE6, CHR 0x8C, CHR 0x81,
     CHR 0xE7, CHR 0x9A, CHR 0x84, CHR 0xE8, CHR 0xAE, CHR 0xA4, CHR 0xE8, CHR 0xAF,
     CHR 0x81, CHR 0xE6, CHR 0x96, CHR 0xB9, CHR 0xE5, CHR 0xBC, CHR 0x8F], w))"

definition BasicAuthMiddleware :: "base64 \<Rightarrow> 'w handler \<Rightarrow> string \<Rightarrow> string \<Rightarrow> 'w handler" where
  "BasicAuthMiddleware b64 next_h username password =
     AuthMiddleware b64 next_h \<lparr>au_Username = username, au_Password = password, au_Token = [], au_SkipPaths = []\<rparr>"

definition TokenAuthMiddleware :: "base64 \<Rightarrow> 'w handler \<Rightarrow> string \<Rightarrow> 'w handler" where
  "TokenAuthMiddleware b64 next_h token =
     AuthMiddleware b64 next_h \<lparr>au_Username = [], au_Password = [], au_Token = token, au_SkipPaths = []\<rparr>"

subsection \<open>Requests from other origins\<close>

record cors_config =
  cc_AllowOrigins :: "string list"
  cc_AllowMethods :: "string list"
  cc_AllowHeaders :: "string list"
  cc_ExposeHeaders :: "string list"
  cc_AllowCredentials :: bool
  cc_MaxAge :: int

definition DefaultCORSConfig :: cors_config where
  "DefaultCORSConfig = \<lparr>cc_AllowOrigins = [''*''],
     cc_AllowMethods = [''GET'', ''POST'', ''PUT'', ''DELETE'', ''OPTIONS'', ''PATCH''],
     cc_AllowHeaders = [''Accept'', ''Authorization'', ''Content-Type'', ''X-Requested-With'', ''X-Request-ID''],
     cc_ExposeHeaders = [''X-Request-ID''], cc_AllowCredentials = False, cc_MaxAge = 86400\<rparr>"

text \<open>The loop over the origins: the first star, else the last that is the origin of the request.\<close>

fun allowed_origin :: "string \<Rightarrow> string list \<Rightarrow> string \<Rightarrow> string" where
  "allowed_origin origin [] found = found"
| "allowed_origin origin (o1 # os) found =
     (if o1 = ''*'' then o1 else if o1 = origin then allowed_origin origin os o1 else allowed_origin origin os found)"

definition set_if :: "bool \<Rightarrow> string \<Rightarrow> string \<Rightarrow> headers \<Rightarrow> headers" where
  "set_if b k v h = (if b then h(k \<mapsto> v) else h)"

definition CORSMiddlewareWithConfig :: "'w handler \<Rightarrow> cors_config \<Rightarrow> 'w handler" where
  "CORSMiddlewareWithConfig next_h config r h w =
     (let allowed = allowed_origin (wr_Header r ''Origin'') (cc_AllowOrigins config) [];
          h1 = (if allowed = [] then h
                else set_if (cc_ExposeHeaders config \<noteq> []) ''Access-Control-Expose-Headers''
                       (Join '', '' (cc_ExposeHeaders config))
                     (set_if (cc_AllowCredentials config) ''Access-Control-Allow-Credentials'' ''true''
                     (h(''Access-Control-Allow-Origin'' \<mapsto> allowed))))
      in if wr_Method r = ''OPTIONS''
         then (\<lparr>rs_Status = 204,
                rs_Headers =
                  set_if (cc_MaxAge config > 0) ''Access-Control-Max-Age'' (show_int (cc_MaxAge config))
                  (set_if (cc_AllowHeaders config \<noteq> []) ''Access-Control-Allow-Headers'' (Join '', '' (cc_AllowHeaders config))
                  (set_if (cc_AllowMethods config \<noteq> []) ''Access-Control-Allow-Methods'' (Join '', '' (cc_AllowMethods config)) h1)),
                rs_Body = []\<rparr>, w)
         else next_h r h1 w)"

definition CORSMiddleware :: "'w handler \<Rightarrow> 'w handler" where
  "CORSMiddleware next_h = CORSMiddlewareWithConfig next_h DefaultCORSConfig"

subsection \<open>The log\<close>

record http_line =
  hl_Method :: string
  hl_Path :: string
  hl_Status :: nat
  hl_Written :: nat

definition LoggingMiddleware :: "'w handler \<Rightarrow> web_request \<Rightarrow> headers \<Rightarrow> 'w \<Rightarrow> web_response \<times> 'w \<times> http_line list" where
  "LoggingMiddleware next_h r h w =
     (let (rs, w') = next_h r h w in
      (rs, w', [\<lparr>hl_Method = wr_Method r, hl_Path = wr_Path r, hl_Status = rs_Status rs, hl_Written = length (rs_Body rs)\<rparr>]))"

definition LoggingMiddlewareWithConfig ::
  "'w handler \<Rightarrow> string list \<Rightarrow> web_request \<Rightarrow> headers \<Rightarrow> 'w \<Rightarrow> web_response \<times> 'w \<times> http_line list" where
  "LoggingMiddlewareWithConfig next_h skipPaths r h w =
     (if wr_Path r \<in> set skipPaths then (case next_h r h w of (rs, w') \<Rightarrow> (rs, w', []))
      else LoggingMiddleware next_h r h w)"

subsection \<open>The web server\<close>

record web_config =
  wb_Port :: int
  wb_StaticDir :: string
  wb_AuthEnabled :: bool
  wb_Username :: string
  wb_Password :: string
  wb_Token :: string
  wb_CORSEnabled :: bool
  wb_AllowedOrigins :: "string list"

definition panel_skip_paths :: "string list" where
  "panel_skip_paths = [''/'', ''/index.html'', ''/assets/'', ''/api/health'']"

definition web_Start ::
  "base64 \<Rightarrow> web_config \<Rightarrow> 'w handler \<Rightarrow> web_request \<Rightarrow> headers \<Rightarrow> 'w \<Rightarrow> web_response \<times> 'w \<times> http_line list" where
  "web_Start b64 cfg mux =
     (let h1 = (if wb_CORSEnabled cfg then CORSMiddleware mux else mux);
          h2 = (if wb_AuthEnabled cfg
                then AuthMiddleware b64 h1 \<lparr>au_Username = wb_Username cfg, au_Password = wb_Password cfg,
                       au_Token = wb_Token cfg, au_SkipPaths = panel_skip_paths\<rparr>
                else h1)
      in LoggingMiddleware h2)"

subsection \<open>Who is let in\<close>

text \<open>What the middleware promises: a free path, the token, or the name with its password.\<close>

definition admitted :: "base64 \<Rightarrow> auth_config \<Rightarrow> web_request \<Rightarrow> bool" where
  "admitted b64 config r \<longleftrightarrow>
     (\<exists>path \<in> set (au_SkipPaths config). prefix path (wr_Path r)) \<or>
     au_Token config \<noteq> [] \<and> wr_Header r ''Authorization'' = ''Bearer '' @ au_Token config \<or>
     au_Username config \<noteq> [] \<and> au_Password config \<noteq> [] \<and>
     (\<exists>code plain. wr_Header r ''Authorization'' = ''Basic '' @ code \<and> b64 code = Inr plain \<and>
        Cut plain '':'' = Some (au_Username config, au_Password config))"

lemma TrimPrefix_append [simp]: "TrimPrefix (p @ s) p = s"
  by (simp add: TrimPrefix_def)

lemma bearer_not_basic: "prefix ''Bearer '' s \<Longrightarrow> \<not> prefix ''Basic '' s"
  by (auto elim!: prefixE)

lemma admitted_bearer:
  assumes "prefix ''Bearer '' (wr_Header r ''Authorization'')" "\<not> (\<exists>path \<in> set (au_SkipPaths config). prefix path (wr_Path r))"
  shows "admitted b64 config r \<longleftrightarrow>
    au_Token config \<noteq> [] \<and> TrimPrefix (wr_Header r ''Authorization'') ''Bearer '' = au_Token config"
  using assms by (auto simp: admitted_def TrimPrefix_def elim!: prefixE)

lemma admitted_basic:
  assumes "prefix ''Basic '' (wr_Header r ''Authorization'')" "\<not> (\<exists>path \<in> set (au_SkipPaths config). prefix path (wr_Path r))"
  shows "admitted b64 config r \<longleftrightarrow> au_Username config \<noteq> [] \<and> au_Password config \<noteq> [] \<and>
    BasicAuth b64 (wr_Header r ''Authorization'') = Some (au_Username config, au_Password config)"
  using assms by (auto simp: admitted_def BasicAuth_def TrimPrefix_def elim!: prefixE split: sum.splits)

lemma admitted_other:
  assumes "\<not> prefix ''Basic '' (wr_Header r ''Authorization'')" "\<not> prefix ''Bearer '' (wr_Header r ''Authorization'')"
    "\<not> (\<exists>path \<in> set (au_SkipPaths config). prefix path (wr_Path r))"
  shows "\<not> admitted b64 config r"
  using assms by (auto simp: admitted_def)

text \<open>
  Property C35: the middleware passes a request on, unchanged, exactly when its path starts with one of
  the free paths, it carries the configured token, or it carries the configured name and password;
  everything else is answered with 401 and reaches no handler. An empty token or password admits nobody.
\<close>
theorem auth_spec:
  "if admitted b64 config r then AuthMiddleware b64 next_h config r h w = next_h r h w
   else rs_Status (fst (AuthMiddleware b64 next_h config r h w)) = 401 \<and> snd (AuthMiddleware b64 next_h config r h w) = w"
proof (cases "\<exists>path \<in> set (au_SkipPaths config). prefix path (wr_Path r)")
  case True
  then show ?thesis by (simp add: AuthMiddleware_def admitted_def)
next
  case False
  consider (bearer) "prefix ''Bearer '' (wr_Header r ''Authorization'')"
    | (basic) "prefix ''Basic '' (wr_Header r ''Authorization'')"
    | (other) "\<not> prefix ''Basic '' (wr_Header r ''Authorization'')" "\<not> prefix ''Bearer '' (wr_Header r ''Authorization'')"
    by blast
  then show ?thesis
  proof cases
    case bearer
    then have "wr_Header r ''Authorization'' \<noteq> []" by auto
    then show ?thesis unfolding admitted_bearer[OF bearer False]
      using bearer False by (simp add: AuthMiddleware_def unauthorized_def secureCompare_def Let_def)
  next
    case basic
    then have "wr_Header r ''Authorization'' \<noteq> []" "\<not> prefix ''Bearer '' (wr_Header r ''Authorization'')"
      using bearer_not_basic by auto
    then show ?thesis unfolding admitted_basic[OF basic False]
      using basic False
      by (auto simp: AuthMiddleware_def unauthorized_def secureCompare_def Let_def split: option.splits)
  next
    case other
    then show ?thesis using admitted_other[OF other False] False
      by (simp add: AuthMiddleware_def unauthorized_def Let_def)
  qed
qed

lemma panel_free: "prefix ''/'' p \<Longrightarrow> \<exists>path \<in> set panel_skip_paths. prefix path p"
  by (simp add: panel_skip_paths_def)

text \<open>
  The web panel asks nobody for a token or a password: with authentication switched on it
  treats every request whose path starts with a slash as if it were switched off, because the free
  path \<open>/\<close> is compared as a prefix.
\<close>
theorem panel_never_authenticates:
  assumes "prefix ''/'' (wr_Path r)"
  shows "web_Start b64 cfg mux r h w = web_Start b64 (cfg\<lparr>wb_AuthEnabled := False\<rparr>) mux r h w"
  using panel_free[OF assms] by (simp add: web_Start_def LoggingMiddleware_def AuthMiddleware_def Let_def)

text \<open>
  The configured origins have no effect: with CORS switched on every origin is allowed.
\<close>
theorem origins_ignored:
  "web_Start b64 (cfg\<lparr>wb_AllowedOrigins := os\<rparr>) mux r h w = web_Start b64 cfg mux r h w \<and>
   CORSMiddleware mux r h w = (if wr_Method r = ''OPTIONS'' then CORSMiddleware mux r h w
     else mux r (h(''Access-Control-Allow-Origin'' \<mapsto> ''*'', ''Access-Control-Expose-Headers'' \<mapsto> ''X-Request-ID'')) w)"
  by (simp add: web_Start_def CORSMiddleware_def CORSMiddlewareWithConfig_def DefaultCORSConfig_def set_if_def Let_def)

definition chat_request :: web_request where
  "chat_request = \<lparr>wr_Method = ''POST'', wr_Path = ''/api/v1/chat'', wr_Header = (\<lambda>_. [])\<rparr>"

definition locked_panel :: web_config where
  "locked_panel = \<lparr>wb_Port = 80, wb_StaticDir = [], wb_AuthEnabled = True, wb_Username = ''root'', wb_Password = ''secret'',
     wb_Token = ''token'', wb_CORSEnabled = False, wb_AllowedOrigins = []\<rparr>"

theorem panel_never_authenticates_witness:
  "web_Start (\<lambda>_. Inl []) locked_panel (\<lambda>r h w. (\<lparr>rs_Status = 200, rs_Headers = h, rs_Body = []\<rparr>, Suc w)) chat_request Map.empty 0 =
   web_Start (\<lambda>_. Inl []) (locked_panel\<lparr>wb_AuthEnabled := False\<rparr>)
     (\<lambda>r h w. (\<lparr>rs_Status = 200, rs_Headers = h, rs_Body = []\<rparr>, Suc w)) chat_request Map.empty (0::nat)"
  by (rule panel_never_authenticates) (simp add: chat_request_def)

end
