(* ===== verification/Owl_Wecom.thy ===== *)
theory Owl_Wecom
  imports Owl_Strings
begin

text \<open>
  \<open>internal/wecom\<close>: messages that WeCom sends to the callback of the assistant, their signature and
  decryption (\<open>crypto.go\<close>) and the handler that passes texts on (\<open>callback.go\<close>). Base64, SHA-1 (as
  hexadecimal text), AES in CBC mode, the quoting of \<open>%q\<close> and the XML decoder are parameters. The
  instant of a request is the clock reading of its handler; the log is left out.
\<close>

record crypto_lib =
  cl_b64 :: "string \<Rightarrow> string + string"
  cl_sha1 :: "string \<Rightarrow> string"
  cl_cbc :: "string \<Rightarrow> string \<Rightarrow> string \<Rightarrow> string"
  cl_quote :: "string \<Rightarrow> string"

record wecom_crypto =
  wx_Token :: string
  wx_Key :: string
  wx_CorpID :: string

definition NewCrypto :: "crypto_lib \<Rightarrow> string \<Rightarrow> string \<Rightarrow> string \<Rightarrow> string + wecom_crypto" where
  "NewCrypto cl token encodingAESKey corpID =
     (if token = [] then Inl ''wecom: missing token''
      else if corpID = [] then Inl ''wecom: missing corpID''
      else if encodingAESKey = [] then Inl ''wecom: missing encodingAESKey''
      else case cl_b64 cl (encodingAESKey @ ''='') of
        Inl e \<Rightarrow> Inl (''wecom: decode encodingAESKey: '' @ e)
      | Inr raw \<Rightarrow>
          if length raw \<noteq> 32 then Inl (''wecom: invalid AES key length: '' @ show_nat (length raw))
          else Inr \<lparr>wx_Token = token, wx_Key = raw, wx_CorpID = corpID\<rparr>)"

subsection \<open>Signature\<close>

text \<open>\<open>sort.Strings\<close> compares byte by byte.\<close>

fun bytes_le :: "string \<Rightarrow> string \<Rightarrow> bool" where
  "bytes_le [] t = True"
| "bytes_le (c # cs) [] = False"
| "bytes_le (c # cs) (d # ds) =
     ((of_char c :: nat) < of_char d \<or> c = d \<and> bytes_le cs ds)"

fun insert_string :: "string \<Rightarrow> string list \<Rightarrow> string list" where
  "insert_string s [] = [s]"
| "insert_string s (t # ts) = (if bytes_le s t then s # t # ts else t # insert_string s ts)"

definition sort_strings :: "string list \<Rightarrow> string list" where
  "sort_strings ss = foldr insert_string ss []"

definition MsgSignature :: "crypto_lib \<Rightarrow> wecom_crypto \<Rightarrow> string \<Rightarrow> string \<Rightarrow> string \<Rightarrow> string" where
  "MsgSignature cl c timestamp nonce encrypted =
     cl_sha1 cl (concat (sort_strings [wx_Token c, timestamp, nonce, encrypted]))"

definition VerifyMsgSignature :: "crypto_lib \<Rightarrow> wecom_crypto \<Rightarrow> string \<Rightarrow> string \<Rightarrow> string \<Rightarrow> string \<Rightarrow> bool" where
  "VerifyMsgSignature cl c msgSignature timestamp nonce encrypted =
     (if msgSignature = [] \<or> timestamp = [] \<or> nonce = [] \<or> encrypted = [] then False
      else MsgSignature cl c timestamp nonce encrypted = msgSignature)"

subsection \<open>Decryption\<close>

definition be_uint :: "string \<Rightarrow> nat" where
  "be_uint bs = foldl (\<lambda>n b. n * 256 + of_char b) 0 bs"

definition Decrypt :: "crypto_lib \<Rightarrow> wecom_crypto \<Rightarrow> string \<Rightarrow> string + string" where
  "Decrypt cl c encrypted =
     (case cl_b64 cl encrypted of
        Inl e \<Rightarrow> Inl (''wecom: base64 decode encrypt: '' @ e)
      | Inr ciphertext \<Rightarrow>
          if length ciphertext mod 16 \<noteq> 0 then Inl ''wecom: invalid ciphertext length''
          else if length (wx_Key c) \<notin> {16, 24, 32}
          then Inl (''wecom: new cipher: crypto/aes: invalid key size '' @ show_nat (length (wx_Key c)))
          else
            let plain = cl_cbc cl (wx_Key c) (take 16 (wx_Key c)) ciphertext in
            if length plain < 20 then Inl ''wecom: plaintext too short''
            else
              let msgLen = be_uint (take 4 (drop 16 plain)); msgEnd = 20 + msgLen in
              if msgEnd > length plain then Inl ''wecom: invalid msg length''
              else
                let msg = take msgLen (drop 20 plain);
                    padLen0 = of_char (last plain);
                    padLen = (if padLen0 > length plain - msgEnd then 0 else padLen0);
                    corpIDEnd = length plain - padLen
                in if corpIDEnd \<le> msgEnd then Inl ''wecom: invalid corpID position''
                   else
                     let appID = take (corpIDEnd - msgEnd) (drop msgEnd plain) in
                     if appID \<noteq> wx_CorpID c
                     then Inl (''wecom: corpID mismatch: got '' @ cl_quote cl appID @ '', want '' @ cl_quote cl (wx_CorpID c))
                     else Inr msg)"

definition pkcs7Unpad :: "string \<Rightarrow> nat \<Rightarrow> string + string" where
  "pkcs7Unpad b blockSize =
     (if b = [] \<or> length b mod blockSize \<noteq> 0 then Inl ''wecom: invalid padding size''
      else let pad = of_char (last b) in
        if pad = 0 \<or> pad > blockSize \<or> pad > length b then Inl ''wecom: invalid padding''
        else if \<exists>x \<in> set (drop (length b - pad) b). of_char x \<noteq> pad then Inl ''wecom: invalid padding''
        else Inr (take (length b - pad) b))"

subsection \<open>The callback\<close>

record inbound_message =
  im_ToUserName :: string
  im_FromUserName :: string
  im_MsgType :: string
  im_Content :: string
  im_MsgId :: string

record callback_handler =
  cb_Crypto :: "wecom_crypto option"
  cb_OnText :: bool
  cb_processed :: "string \<rightharpoonup> gotime"

record callback_request =
  cq_Method :: string
  cq_Query :: "string \<Rightarrow> string"
  cq_Body :: "string option"

text \<open>The answer: status and body. A call of \<open>OnText\<close> is the pair of its arguments.\<close>

type_synonym callback_answer = "nat \<times> string"

definition http_error :: "nat \<Rightarrow> string \<Rightarrow> callback_answer" where
  "http_error code message = (code, message @ [CHR 0x0A])"

definition handleVerify :: "crypto_lib \<Rightarrow> wecom_crypto \<Rightarrow> callback_request \<Rightarrow> callback_answer" where
  "handleVerify cl c r =
     (let q = cq_Query r; echostr = q ''echostr'' in
      if \<not> VerifyMsgSignature cl c (q ''msg_signature'') (q ''timestamp'') (q ''nonce'') echostr then http_error 403 ''forbidden''
      else case Decrypt cl c echostr of Inl _ \<Rightarrow> http_error 403 ''forbidden'' | Inr plain \<Rightarrow> (200, plain))"

definition handleMessage ::
  "crypto_lib \<Rightarrow> (string \<Rightarrow> string option) \<Rightarrow> (string \<Rightarrow> inbound_message option) \<Rightarrow> gotime \<Rightarrow> wecom_crypto \<Rightarrow>
   callback_request \<Rightarrow> callback_handler \<Rightarrow> callback_handler \<times> callback_answer \<times> (string \<times> string) list" where
  "handleMessage cl xml_env xml_msg now c r h =
     (let q = cq_Query r in
      case cq_Body r of
        None \<Rightarrow> (h, http_error 400 ''read body failed'', [])
      | Some body \<Rightarrow>
        (case xml_env body of
           None \<Rightarrow> (h, http_error 400 ''bad request'', [])
         | Some encrypt \<Rightarrow>
           if encrypt = [] then (h, http_error 400 ''bad request'', [])
           else if \<not> VerifyMsgSignature cl c (q ''msg_signature'') (q ''timestamp'') (q ''nonce'') encrypt
           then (h, http_error 403 ''forbidden'', [])
           else case Decrypt cl c encrypt of
             Inl _ \<Rightarrow> (h, http_error 403 ''forbidden'', [])
           | Inr plain \<Rightarrow>
             (case xml_msg plain of
                None \<Rightarrow> (h, http_error 400 ''bad request'', [])
              | Some msg \<Rightarrow>
                  if im_MsgType msg = ''text'' \<and> cb_OnText h then
                    (if im_MsgId msg = [] then (h, (200, ''success''), [(im_FromUserName msg, im_Content msg)])
                     else if cb_processed h (im_MsgId msg) \<noteq> None then (h, (200, ''success''), [])
                     else (h\<lparr>cb_processed := (cb_processed h)(im_MsgId msg \<mapsto> now)\<rparr>, (200, ''success''),
                           [(im_FromUserName msg, im_Content msg)]))
                  else (h, (200, ''success''), []))))"

definition callback_ServeHTTP ::
  "crypto_lib \<Rightarrow> (string \<Rightarrow> string option) \<Rightarrow> (string \<Rightarrow> inbound_message option) \<Rightarrow> gotime \<Rightarrow>
   callback_request \<Rightarrow> callback_handler \<Rightarrow> callback_handler \<times> callback_answer \<times> (string \<times> string) list" where
  "callback_ServeHTTP cl xml_env xml_msg now r h =
     (case cb_Crypto h of
        None \<Rightarrow> (h, http_error 500 ''wecom: missing crypto'', [])
      | Some c \<Rightarrow>
          if cq_Method r = ''GET'' then (h, handleVerify cl c r, [])
          else if cq_Method r = ''POST'' then handleMessage cl xml_env xml_msg now c r h
          else (h, (405, []), []))"

definition cleanupOldMessages :: "gotime \<Rightarrow> callback_handler \<Rightarrow> callback_handler" where
  "cleanupOldMessages now h =
     (let cutoff = now - 5 * Minute in
      h\<lparr>cb_processed := (\<lambda>k. case cb_processed h k of None \<Rightarrow> None | Some t \<Rightarrow> if t < cutoff then None else Some t)\<rparr>)"

end
