(* ===== verification/Owl_WecomProps.thy ===== *)
theory Owl_WecomProps
  imports Owl_Wecom
begin

text \<open>
  The callback of WeCom: which plaintexts are accepted, that a sealed message is read back, and that only
  signed texts are passed on, each message at most once within five minutes.
\<close>

section \<open>Decryption\<close>

text \<open>
  A plaintext is 16 random bytes, the length in four bytes, the message, the identifier of the company
  and padding, whose length is the last byte. (If that byte is larger than what follows the message,
  there is no padding.)
\<close>

definition sealed :: "string \<Rightarrow> string \<Rightarrow> string \<Rightarrow> bool" where
  "sealed corp msg plain \<longleftrightarrow> (\<exists>rnd size pad. plain = rnd @ size @ msg @ corp @ pad \<and> length rnd = 16 \<and> length size = 4 \<and>
     be_uint size = length msg \<and> corp \<noteq> [] \<and>
     length pad = (if of_char (last plain) > length corp + length pad then 0 else of_char (last plain)))"

definition plaintext :: "crypto_lib \<Rightarrow> wecom_crypto \<Rightarrow> string \<Rightarrow> string" where
  "plaintext cl c ciphertext = cl_cbc cl (wx_Key c) (take 16 (wx_Key c)) ciphertext"

definition open_plain :: "crypto_lib \<Rightarrow> string \<Rightarrow> string \<Rightarrow> string + string" where
  "open_plain cl corp plain =
     (if length plain < 20 then Inl ''wecom: plaintext too short''
      else
        let msgLen = be_uint (take 4 (drop 16 plain)); msgEnd = 20 + msgLen in
        if msgEnd > length plain then Inl ''wecom: invalid msg length''
        else
          let msg = take msgLen (drop 20 plain);
              padLen0 = of_char (last plain);
              padLen = (if padLen0 > length plain - msgEnd then 0 else padLen0);
              corpIDEnd = length plain - padLen
          in if corpIDEnd \<le> msgEnd then Inl ''wecom: invalid corpID position''
             else
               let appID = take (corpIDEnd - msgEnd) (drop msgEnd plain) in
               if appID \<noteq> corp
               then Inl (''wecom: corpID mismatch: got '' @ cl_quote cl appID @ '', want '' @ cl_quote cl corp)
               else Inr msg)"

lemma Decrypt_plain:
  assumes "cl_b64 cl encrypted = Inr ct" "length ct mod 16 = 0" "length (wx_Key c) = 32"
  shows "Decrypt cl c encrypted = open_plain cl (wx_CorpID c) (plaintext cl c ct)"
  using assms by (simp add: Decrypt_def open_plain_def plaintext_def Let_def)

lemma open_plain_sealed:
  assumes "sealed corp msg plain"
  shows "open_plain cl corp plain = Inr msg"
proof -
  obtain rnd size pad where p: "plain = rnd @ size @ msg @ corp @ pad" "length rnd = 16" "length size = 4"
    "be_uint size = length msg" "corp \<noteq> []"
    "length pad = (if of_char (last plain) > length corp + length pad then 0 else of_char (last plain))"
    using assms unfolding sealed_def by blast
  have parts: "take 4 (drop 16 plain) = size" "drop 20 plain = msg @ corp @ pad"
    "length plain = 20 + length msg + (length corp + length pad)"
    using p by simp_all
  have pads: "length plain - (if of_char (last plain) > length plain - (20 + length msg) then 0 else of_char (last plain)) =
      20 + length msg + length corp"
    using p(6) parts(3) by (auto split: if_splits)
  have rest: "drop (20 + length msg) plain = corp @ pad" using p by simp
  show ?thesis unfolding open_plain_def Let_def parts(1) p(4) pads rest unfolding parts(2,3) using p(5) by simp
qed

lemma open_plain_Inr:
  assumes "open_plain cl corp plain = Inr msg"
  shows "sealed corp msg plain"
proof -
  define n where "n = be_uint (take 4 (drop 16 plain))"
  define pl where "pl = (if of_char (last plain) > length plain - (20 + n) then 0 else (of_char (last plain) :: nat))"
  have ok: "20 \<le> length plain" "20 + n \<le> length plain" "20 + n < length plain - pl"
    "take (length plain - pl - (20 + n)) (drop (20 + n) plain) = corp" "msg = take n (drop 20 plain)"
    using assms[unfolded open_plain_def Let_def, folded n_def, folded pl_def] by (simp_all split: if_split_asm)
  define pad where "pad = drop (length plain - pl) plain"
  have len: "length corp = length plain - pl - (20 + n)" "length pad = pl" "length msg = n"
    using ok by (auto simp: pad_def)
  have "plain = take 16 plain @ take 4 (drop 16 plain) @ msg @ corp @ pad"
  proof -
    have "plain = take 20 plain @ drop 20 plain" by simp
    also have "take 20 plain = take 16 plain @ take 4 (drop 16 plain)" using take_add[of 16 4 plain] by simp
    also have "drop 20 plain = msg @ drop (20 + n) plain"
      unfolding ok(5) using append_take_drop_id[of n "drop 20 plain"] by (simp add: add.commute)
    also have "drop (20 + n) plain = corp @ pad"
    proof -
      have "drop (20 + n) plain = corp @ drop (length plain - pl - (20 + n)) (drop (20 + n) plain)"
        unfolding ok(4)[symmetric] by (rule append_take_drop_id[symmetric])
      then show ?thesis using ok(3) by (simp add: pad_def)
    qed
    finally show ?thesis by simp
  qed
  moreover have "length pad = (if of_char (last plain) > length corp + length pad then 0 else of_char (last plain))"
  proof -
    have "length corp + length pad = length plain - (20 + n)" using len ok(3) by simp
    then show ?thesis unfolding len(2) by (simp only: pl_def)
  qed
  moreover have "length (take 16 plain) = 16" "length (take 4 (drop 16 plain)) = 4"
    "be_uint (take 4 (drop 16 plain)) = length msg" "corp \<noteq> []"
    using ok(1,3) len by (simp_all add: n_def[symmetric]) force
  ultimately show ?thesis unfolding sealed_def by blast
qed

text \<open>
  A ciphertext is accepted with message \<open>msg\<close> exactly when its plaintext is 16 bytes, the
  length of \<open>msg\<close> in four bytes, \<open>msg\<close>, the configured company and the padding that the last byte
  counts; so every message sealed for this company is read back.
\<close>
theorem decrypt_spec:
  assumes "cl_b64 cl encrypted = Inr ct" "length ct mod 16 = 0" "length (wx_Key c) = 32"
  shows "Decrypt cl c encrypted = Inr msg \<longleftrightarrow> sealed (wx_CorpID c) msg (cl_cbc cl (wx_Key c) (take 16 (wx_Key c)) ct)"
  using Decrypt_plain[OF assms] open_plain_sealed open_plain_Inr unfolding plaintext_def by metis

section \<open>Who reaches the assistant\<close>

text \<open>The message a request carries, if it is signed, decrypts and decodes.\<close>

definition inbound ::
  "crypto_lib \<Rightarrow> (string \<Rightarrow> string option) \<Rightarrow> (string \<Rightarrow> inbound_message option) \<Rightarrow> wecom_crypto \<Rightarrow> callback_request \<Rightarrow>
   inbound_message option" where
  "inbound cl xml_env xml_msg c r =
     (if cq_Method r \<noteq> ''POST'' then None
      else case cq_Body r of None \<Rightarrow> None | Some body \<Rightarrow>
        (case xml_env body of None \<Rightarrow> None | Some encrypt \<Rightarrow>
          if VerifyMsgSignature cl c (cq_Query r ''msg_signature'') (cq_Query r ''timestamp'') (cq_Query r ''nonce'') encrypt
          then (case Decrypt cl c encrypt of Inl _ \<Rightarrow> None | Inr plain \<Rightarrow> xml_msg plain)
          else None))"

definition fresh_text :: "callback_handler \<Rightarrow> inbound_message \<Rightarrow> bool" where
  "fresh_text h msg \<longleftrightarrow> im_MsgType msg = ''text'' \<and> cb_OnText h \<and> (im_MsgId msg = [] \<or> cb_processed h (im_MsgId msg) = None)"

lemma verify_nonempty: "VerifyMsgSignature cl c s t n e \<Longrightarrow> e \<noteq> []"
  by (auto simp: VerifyMsgSignature_def split: if_splits)

lemma serve_spec:
  assumes "cb_Crypto h = Some c"
  shows "snd (snd (callback_ServeHTTP cl xe xm now r h)) =
      (case inbound cl xe xm c r of None \<Rightarrow> []
       | Some msg \<Rightarrow> if fresh_text h msg then [(im_FromUserName msg, im_Content msg)] else [])"
    and "fst (callback_ServeHTTP cl xe xm now r h) =
      (case inbound cl xe xm c r of None \<Rightarrow> h
       | Some msg \<Rightarrow> if fresh_text h msg \<and> im_MsgId msg \<noteq> []
                     then h\<lparr>cb_processed := (cb_processed h)(im_MsgId msg \<mapsto> now)\<rparr> else h)"
  using assms
  by (auto simp: callback_ServeHTTP_def handleMessage_def inbound_def fresh_text_def Let_def dest: verify_nonempty
      split: option.splits sum.splits)

text \<open>
  A run of the callback: requests and cleanups, at instants that do not decrease. Every call of
  \<open>OnText\<close> is noted with its instant and its request.
\<close>

type_synonym delivery = "gotime \<times> callback_request \<times> string \<times> string"

inductive cb_run ::
  "crypto_lib \<Rightarrow> (string \<Rightarrow> string option) \<Rightarrow> (string \<Rightarrow> inbound_message option) \<Rightarrow> callback_handler \<Rightarrow>
   gotime \<Rightarrow> callback_handler \<Rightarrow> delivery list \<Rightarrow> bool"
  for cl xe xm h0 where
  cb_new: "cb_processed h0 = Map.empty \<Longrightarrow> cb_run cl xe xm h0 t h0 []"
| cb_serve: "cb_run cl xe xm h0 t h ds \<Longrightarrow> t \<le> now \<Longrightarrow> callback_ServeHTTP cl xe xm now r h = (h', ans, calls) \<Longrightarrow>
    cb_run cl xe xm h0 now h' (ds @ map (\<lambda>call. (now, r, call)) calls)"
| cb_cleanup: "cb_run cl xe xm h0 t h ds \<Longrightarrow> t \<le> now \<Longrightarrow> cb_run cl xe xm h0 now (cleanupOldMessages now h) ds"

definition delivery_id :: "crypto_lib \<Rightarrow> (string \<Rightarrow> string option) \<Rightarrow> (string \<Rightarrow> inbound_message option) \<Rightarrow> wecom_crypto \<Rightarrow>
    delivery \<Rightarrow> string" where
  "delivery_id cl xe xm c d = (case inbound cl xe xm c (fst (snd d)) of None \<Rightarrow> [] | Some msg \<Rightarrow> im_MsgId msg)"

definition authentic :: "crypto_lib \<Rightarrow> (string \<Rightarrow> string option) \<Rightarrow> (string \<Rightarrow> inbound_message option) \<Rightarrow> wecom_crypto \<Rightarrow>
    delivery \<Rightarrow> bool" where
  "authentic cl xe xm c d \<longleftrightarrow> (\<exists>msg. inbound cl xe xm c (fst (snd d)) = Some msg \<and> im_MsgType msg = ''text'' \<and>
     snd (snd d) = (im_FromUserName msg, im_Content msg))"

text \<open>Of a message delivered at \<open>t\<close> the handler still knows, or five minutes have passed.\<close>

definition remembered :: "string \<Rightarrow> gotime \<Rightarrow> gotime \<Rightarrow> callback_handler \<Rightarrow> bool" where
  "remembered i t now h \<longleftrightarrow> i = [] \<or> (\<exists>t' \<ge> t. cb_processed h i = Some t') \<or> t + 5 * Minute < now"

definition cb_inv ::
  "(delivery \<Rightarrow> string) \<Rightarrow> (delivery \<Rightarrow> bool) \<Rightarrow> wecom_crypto \<Rightarrow> gotime \<Rightarrow> callback_handler \<Rightarrow> delivery list \<Rightarrow> bool" where
  "cb_inv ident good c now h ds \<longleftrightarrow> cb_Crypto h = Some c \<and>
     (\<forall>d \<in> set ds. good d \<and> fst d \<le> now \<and> remembered (ident d) (fst d) now h) \<and>
     sorted_wrt (\<lambda>d d'. ident d \<noteq> [] \<and> ident d = ident d' \<longrightarrow> fst d + 5 * Minute < fst d') ds"

lemma remembered_later: "remembered i t now h \<Longrightarrow> now \<le> now' \<Longrightarrow> remembered i t now' h"
  by (auto simp: remembered_def)

lemma remembered_stored:
  "remembered i t now h \<Longrightarrow> t \<le> now' \<Longrightarrow> remembered i t now (h\<lparr>cb_processed := (cb_processed h)(k \<mapsto> now')\<rparr>)"
  by (auto simp: remembered_def)

lemma remembered_cleanup: "remembered i t now h \<Longrightarrow> now \<le> now' \<Longrightarrow> remembered i t now' (cleanupOldMessages now' h)"
  by (auto simp: remembered_def cleanupOldMessages_def Let_def)

lemma cb_inv_serve:
  assumes inv: "cb_inv (delivery_id cl xe xm c) (authentic cl xe xm c) c t h ds" and "t \<le> now"
    and serve: "callback_ServeHTTP cl xe xm now r h = (h', ans, calls)"
  shows "cb_inv (delivery_id cl xe xm c) (authentic cl xe xm c) c now h' (ds @ map (\<lambda>call. (now, r, call)) calls)"
proof -
  have c: "cb_Crypto h = Some c" using inv by (simp add: cb_inv_def)
  note spec = serve_spec[OF c, of cl xe xm now r, unfolded serve fst_conv snd_conv]
  have old: "\<forall>d \<in> set ds. authentic cl xe xm c d \<and> fst d \<le> now \<and> remembered (delivery_id cl xe xm c d) (fst d) now h"
    using inv assms(2) remembered_later unfolding cb_inv_def by fastforce
  show ?thesis
  proof (cases "\<exists>msg. inbound cl xe xm c r = Some msg \<and> fresh_text h msg")
    case False
    then have "calls = []" "h' = h" using spec by (auto split: option.splits)
    then show ?thesis using inv old by (simp add: cb_inv_def)
  next
    case True
    then obtain msg where msg: "inbound cl xe xm c r = Some msg" "fresh_text h msg" by blast
    let ?d = "(now, r, im_FromUserName msg, im_Content msg)"
    have calls: "calls = [(im_FromUserName msg, im_Content msg)]" using spec(1) msg by simp
    have h': "h' = (if im_MsgId msg \<noteq> [] then h\<lparr>cb_processed := (cb_processed h)(im_MsgId msg \<mapsto> now)\<rparr> else h)"
      using spec(2) msg by simp
    have new: "authentic cl xe xm c ?d" "delivery_id cl xe xm c ?d = im_MsgId msg"
      using msg by (auto simp: authentic_def delivery_id_def fresh_text_def)
    have kept: "\<forall>d \<in> set ds. remembered (delivery_id cl xe xm c d) (fst d) now h'"
      using old remembered_stored unfolding h' by auto
    have apart: "fst d + 5 * Minute < now"
      if "d \<in> set ds" "delivery_id cl xe xm c d \<noteq> []" "delivery_id cl xe xm c d = im_MsgId msg" for d
      using old that msg(2) by (auto simp: remembered_def fresh_text_def)
    have "remembered (im_MsgId msg) now now h'" unfolding h' by (simp add: remembered_def)
    moreover have "cb_Crypto h' = Some c" unfolding h' using c by simp
    ultimately show ?thesis
      using inv old new kept apart unfolding cb_inv_def calls by (auto simp: sorted_wrt_append)
  qed
qed

lemma cb_run_inv:
  assumes "cb_run cl xe xm h0 t h ds" "cb_Crypto h0 = Some c"
  shows "cb_inv (delivery_id cl xe xm c) (authentic cl xe xm c) c t h ds"
  using assms(1)
proof (induction rule: cb_run.induct)
  case (cb_new t)
  then show ?case using assms(2) by (simp add: cb_inv_def)
next
  case (cb_serve t h ds now r h' ans calls)
  then show ?case by (intro cb_inv_serve)
next
  case (cb_cleanup t h ds now)
  moreover have "cb_Crypto (cleanupOldMessages now h) = cb_Crypto h" by (simp add: cleanupOldMessages_def Let_def)
  ultimately show ?case using remembered_cleanup unfolding cb_inv_def by fastforce
qed

text \<open>
  Property C36: in every run of the callback, \<open>OnText\<close> is called only with sender and content of a text
  message that came by POST with a valid signature and decrypted for this company; and between two calls
  for the same message identifier lie more than five minutes.
\<close>
theorem texts_authentic_and_once:
  assumes "cb_run cl xe xm h0 t h ds" "cb_Crypto h0 = Some c"
  shows "(\<forall>d \<in> set ds. \<exists>msg. inbound cl xe xm c (fst (snd d)) = Some msg \<and> im_MsgType msg = ''text'' \<and>
       snd (snd d) = (im_FromUserName msg, im_Content msg)) \<and>
     sorted_wrt (\<lambda>d d'. delivery_id cl xe xm c d \<noteq> [] \<and> delivery_id cl xe xm c d = delivery_id cl xe xm c d' \<longrightarrow>
       fst d + 5 * Minute < fst d') ds"
  using cb_run_inv[OF assms] unfolding cb_inv_def authentic_def by blast

section \<open>Examples\<close>

text \<open>A cipher that changes nothing, a signature that is the text signed, and one sealed message.\<close>

definition clear_lib :: crypto_lib where
  "clear_lib = \<lparr>cl_b64 = Inr, cl_sha1 = (\<lambda>s. s), cl_cbc = (\<lambda>k iv s. s), cl_quote = (\<lambda>s. s)\<rparr>"

definition clear_crypto :: wecom_crypto where
  "clear_crypto = \<lparr>wx_Token = ''t'', wx_Key = replicate 32 CHR 0x00, wx_CorpID = ''corp''\<rparr>"

definition sealed_hello :: string where
  "sealed_hello = replicate 16 CHR ''r'' @ [CHR 0x00, CHR 0x00, CHR 0x00, CHR 0x02] @ ''hi'' @ ''corp'' @ replicate 6 CHR 0x06"

definition hello_request :: callback_request where
  "hello_request = \<lparr>cq_Method = ''POST'', cq_Query = (\<lambda>k. if k = ''msg_signature''
     then MsgSignature clear_lib clear_crypto ''1'' ''1'' sealed_hello else ''1''), cq_Body = Some sealed_hello\<rparr>"

definition hello_message :: "string \<Rightarrow> inbound_message option" where
  "hello_message plain = Some \<lparr>im_ToUserName = ''corp'', im_FromUserName = ''ann'', im_MsgType = ''text'', im_Content = plain,
     im_MsgId = ''7''\<rparr>"

definition callback0 :: callback_handler where
  "callback0 = \<lparr>cb_Crypto = Some clear_crypto, cb_OnText = True, cb_processed = Map.empty\<rparr>"

lemma hello_sealed: "sealed ''corp'' ''hi'' sealed_hello"
  unfolding sealed_def sealed_hello_def
  by (rule exI[of _ "replicate 16 CHR ''r''"], rule exI[of _ "[CHR 0x00, CHR 0x00, CHR 0x00, CHR 0x02]"],
      rule exI[of _ "replicate 6 CHR 0x06"]) (simp add: be_uint_def)

lemma hello_length: "length sealed_hello mod 16 = 0" "sealed_hello \<noteq> []" "length (wx_Key clear_crypto) = 32"
  by (simp_all add: sealed_hello_def clear_crypto_def)

lemma hello_plain: "Decrypt clear_lib clear_crypto sealed_hello = Inr ''hi''"
  using hello_sealed open_plain_sealed[of "''corp''" "''hi''" sealed_hello clear_lib]
  by (subst Decrypt_plain[OF _ hello_length(1,3)]) (simp_all add: clear_lib_def plaintext_def clear_crypto_def)

lemma hello_signed:
  "VerifyMsgSignature clear_lib clear_crypto (MsgSignature clear_lib clear_crypto ''1'' ''1'' sealed_hello) ''1'' ''1'' sealed_hello"
proof -
  have "MsgSignature clear_lib clear_crypto ''1'' ''1'' sealed_hello \<noteq> []"
    by (simp add: MsgSignature_def clear_lib_def clear_crypto_def sealed_hello_def sort_strings_def)
  then show ?thesis using hello_length by (simp add: VerifyMsgSignature_def)
qed

lemma hello_inbound: "inbound clear_lib Some hello_message clear_crypto hello_request = hello_message ''hi''"
  using hello_signed by (simp add: inbound_def hello_request_def hello_plain)

lemma hello_delivered:
  "cb_run clear_lib Some hello_message callback0 5
     (callback0\<lparr>cb_processed := (cb_processed callback0)(''7'' \<mapsto> 5)\<rparr>) [(5, hello_request, ''ann'', ''hi'')]"
proof -
  have c: "cb_Crypto callback0 = Some clear_crypto" by (simp add: callback0_def)
  obtain h' ans calls where s: "callback_ServeHTTP clear_lib Some hello_message 5 hello_request callback0 = (h', ans, calls)"
    using prod_cases3 by blast
  have "calls = [(''ann'', ''hi'')]" "h' = callback0\<lparr>cb_processed := (cb_processed callback0)(''7'' \<mapsto> 5)\<rparr>"
    using serve_spec[OF c, of clear_lib Some hello_message 5 hello_request]
    unfolding s by (simp_all add: hello_inbound) (simp_all add: hello_message_def fresh_text_def callback0_def)
  then show ?thesis
    using cb_serve[OF cb_new[of callback0 clear_lib Some hello_message 0] _ s] by (simp add: callback0_def)
qed

theorem decrypt_spec_witness:
  "Decrypt clear_lib clear_crypto sealed_hello = Inr ''hi'' \<and> sealed (wx_CorpID clear_crypto) ''hi''
     (cl_cbc clear_lib (wx_Key clear_crypto) (take 16 (wx_Key clear_crypto)) sealed_hello)"
  using decrypt_spec[of clear_lib sealed_hello sealed_hello clear_crypto "''hi''"] hello_length hello_plain
  by (simp add: clear_lib_def)

theorem texts_authentic_and_once_witness:
  "\<exists>msg. inbound clear_lib Some hello_message clear_crypto hello_request = Some msg \<and> im_MsgType msg = ''text'' \<and>
     (''ann'', ''hi'') = (im_FromUserName msg, im_Content msg)"
  using texts_authentic_and_once[OF hello_delivered, of clear_crypto] by (simp add: callback0_def)

end
