(* ===== verification/Owl_Llm.thy ===== *)
theory Owl_Llm
  imports Owl_Json Owl_Strings "HOL-Library.Monad_Syntax"
begin

text \<open>
  \<open>internal/llm\<close>: the client of the language model, with its retries. The HTTP exchange is \<open>ln_post\<close> on
  a world of any type: it takes address, key, timeout and the request and gives status and body, or the
  error of the transport (with whether it is the exceeded deadline of a context). \<open>ln_json\<close> parses a
  text, \<open>ln_mismatch\<close> is the text of the error when a value does not fit the response.
\<close>

subsection \<open>Requests and responses\<close>

record function_call =
  fn_Name :: string
  fn_Arguments :: string

record llm_tool_call =
  lt_ID :: string
  lt_Type :: string
  lt_Function :: function_call

record llm_message =
  ms_Role :: string
  ms_Content :: string
  ms_ToolCalls :: "llm_tool_call list"
  ms_ToolCallID :: string

record llm_function =
  lf_Name :: string
  lf_Description :: string
  lf_Parameters :: "string \<rightharpoonup> json"

record llm_tool =
  ll_Type :: string
  ll_Function :: llm_function

record chat_request =
  cr_Model :: string
  cr_Messages :: "llm_message list"
  cr_Tools :: "llm_tool list"

record llm_choice =
  ch_Index :: int
  ch_Message :: llm_message
  ch_FinishReason :: string

record llm_usage =
  us_PromptTokens :: int
  us_CompletionTokens :: int
  us_TotalTokens :: int

record chat_response =
  cs_ID :: string
  cs_Choices :: "llm_choice list"
  cs_Usage :: llm_usage

definition dec_function_call :: "json \<Rightarrow> function_call option" where
  "dec_function_call j = do {
     o' \<leftarrow> struct_fields j;
     x0 \<leftarrow> field [] dec_string ''name'' o';
     x1 \<leftarrow> field [] dec_string ''arguments'' o';
     Some \<lparr>fn_Name = x0, fn_Arguments = x1\<rparr> }"

definition dec_llm_tool_call :: "json \<Rightarrow> llm_tool_call option" where
  "dec_llm_tool_call j = do {
     o' \<leftarrow> struct_fields j;
     x0 \<leftarrow> field [] dec_string ''id'' o';
     x1 \<leftarrow> field [] dec_string ''type'' o';
     x2 \<leftarrow> field \<lparr>fn_Name = [], fn_Arguments = []\<rparr> dec_function_call ''function'' o';
     Some \<lparr>lt_ID = x0, lt_Type = x1, lt_Function = x2\<rparr> }"

definition no_message :: llm_message where
  "no_message = \<lparr>ms_Role = [], ms_Content = [], ms_ToolCalls = [], ms_ToolCallID = []\<rparr>"

definition dec_llm_message :: "json \<Rightarrow> llm_message option" where
  "dec_llm_message j = do {
     o' \<leftarrow> struct_fields j;
     x0 \<leftarrow> field [] dec_string ''role'' o';
     x1 \<leftarrow> field [] dec_string ''content'' o';
     x2 \<leftarrow> field [] (dec_list dec_llm_tool_call) ''tool_calls'' o';
     x3 \<leftarrow> field [] dec_string ''tool_call_id'' o';
     Some \<lparr>ms_Role = x0, ms_Content = x1, ms_ToolCalls = x2, ms_ToolCallID = x3\<rparr> }"

definition dec_llm_choice :: "json \<Rightarrow> llm_choice option" where
  "dec_llm_choice j = do {
     o' \<leftarrow> struct_fields j;
     x0 \<leftarrow> field 0 dec_int ''index'' o';
     x1 \<leftarrow> field no_message dec_llm_message ''message'' o';
     x2 \<leftarrow> field [] dec_string ''finish_reason'' o';
     Some \<lparr>ch_Index = x0, ch_Message = x1, ch_FinishReason = x2\<rparr> }"

definition dec_llm_usage :: "json \<Rightarrow> llm_usage option" where
  "dec_llm_usage j = do {
     o' \<leftarrow> struct_fields j;
     x0 \<leftarrow> field 0 dec_int ''prompt_tokens'' o';
     x1 \<leftarrow> field 0 dec_int ''completion_tokens'' o';
     x2 \<leftarrow> field 0 dec_int ''total_tokens'' o';
     Some \<lparr>us_PromptTokens = x0, us_CompletionTokens = x1, us_TotalTokens = x2\<rparr> }"

definition dec_chat_response :: "json \<Rightarrow> chat_response option" where
  "dec_chat_response j = do {
     o' \<leftarrow> struct_fields j;
     x0 \<leftarrow> field [] dec_string ''id'' o';
     x1 \<leftarrow> field [] (dec_list dec_llm_choice) ''choices'' o';
     x2 \<leftarrow> field \<lparr>us_PromptTokens = 0, us_CompletionTokens = 0, us_TotalTokens = 0\<rparr> dec_llm_usage ''usage'' o';
     Some \<lparr>cs_ID = x0, cs_Choices = x1, cs_Usage = x2\<rparr> }"

subsection \<open>Errors\<close>

text \<open>An error is one of a status, or another with its text and whether it is a context's deadline.\<close>

datatype llm_error = StatusError int string | OtherError bool string

fun error_text :: "llm_error \<Rightarrow> string" where
  "error_text (StatusError code body) =
     ''HTTP '' @ show_int code @ '': '' @ (if length body > 300 then take 300 body @ ''...'' else body)"
| "error_text (OtherError _ s) = s"

definition isRetryableLLMError :: "llm_error \<Rightarrow> bool" where
  "isRetryableLLMError e \<longleftrightarrow>
     (case e of OtherError deadline _ \<Rightarrow> deadline | _ \<Rightarrow> False) \<or>
     Contains (error_text e) ''Client.Timeout'' \<or> Contains (error_text e) ''context deadline exceeded'' \<or>
     (case e of StatusError code _ \<Rightarrow> code = 429 \<or> 500 \<le> code \<and> code \<le> 599 | _ \<Rightarrow> False)"

subsection \<open>The client\<close>

record 'w llm_net =
  ln_post :: "string \<Rightarrow> string \<Rightarrow> duration \<Rightarrow> chat_request \<Rightarrow> 'w \<Rightarrow> (llm_error + int \<times> string) \<times> 'w"
  ln_json :: "string \<Rightarrow> string + json"
  ln_mismatch :: "json \<Rightarrow> string"
  ln_sleep :: "duration \<Rightarrow> 'w \<Rightarrow> 'w"

record deepseek_client =
  dk_apiKey :: string
  dk_baseURL :: string
  dk_model :: string
  dk_timeout :: duration
  dk_retries :: int

definition NewDeepSeekClient :: "string \<Rightarrow> string \<Rightarrow> string \<Rightarrow> deepseek_client" where
  "NewDeepSeekClient apiKey baseURL model =
     \<lparr>dk_apiKey = apiKey, dk_baseURL = baseURL, dk_model = model, dk_timeout = 360 * Second, dk_retries = 0\<rparr>"

definition SetTimeout :: "duration \<Rightarrow> deepseek_client \<Rightarrow> deepseek_client" where
  "SetTimeout timeout d = (if timeout > 0 then d\<lparr>dk_timeout := timeout\<rparr> else d)"

definition SetRetries :: "int \<Rightarrow> deepseek_client \<Rightarrow> deepseek_client" where
  "SetRetries retries d = d\<lparr>dk_retries := (if retries < 0 then 0 else retries)\<rparr>"

definition doChat ::
  "'w llm_net \<Rightarrow> deepseek_client \<Rightarrow> chat_request \<Rightarrow> 'w \<Rightarrow> (llm_error + chat_response) \<times> 'w" where
  "doChat net d req w =
     (case ln_post net (dk_baseURL d @ ''/chat/completions'') (dk_apiKey d) (dk_timeout d) req w of
        (Inl e, w') \<Rightarrow> (Inl e, w')
      | (Inr (code, body), w') \<Rightarrow>
          (if code < 200 \<or> code \<ge> 300 then Inl (StatusError code body)
           else case ln_json net body of
             Inl e \<Rightarrow> Inl (OtherError False e)
           | Inr j \<Rightarrow>
             (case dec_chat_response j of
                None \<Rightarrow> Inl (OtherError False (ln_mismatch net j))
              | Some res \<Rightarrow> if cs_Choices res = [] then Inl (OtherError False ''no choices in response'') else Inr res), w'))"

text \<open>
  The loop over the attempts, of which \<open>n\<close> are left after this one. With a negative number of retries
  there is no attempt; \<open>SetRetries\<close> does not allow it.
\<close>

fun attempt_chat ::
  "('w \<Rightarrow> (llm_error + 'r) \<times> 'w) \<Rightarrow> (duration \<Rightarrow> 'w \<Rightarrow> 'w) \<Rightarrow> nat \<Rightarrow> nat \<Rightarrow> 'w \<Rightarrow> (llm_error + 'r) \<times> 'w" where
  "attempt_chat send sleep n attempt w =
     (case send w of
        (Inr res, w') \<Rightarrow> (Inr res, w')
      | (Inl e, w') \<Rightarrow>
          (case n of
             0 \<Rightarrow> (Inl e, w')
           | Suc n' \<Rightarrow>
               if \<not> isRetryableLLMError e then (Inl e, w')
               else attempt_chat send sleep n' (Suc attempt) (sleep (200 * int (Suc attempt) * Millisecond) w')))"

definition ChatWithTools ::
  "'w llm_net \<Rightarrow> deepseek_client \<Rightarrow> llm_message list \<Rightarrow> llm_tool list \<Rightarrow> 'w \<Rightarrow> (llm_error + chat_response) \<times> 'w" where
  "ChatWithTools net d messages tools w =
     (let req = \<lparr>cr_Model = dk_model d, cr_Messages = messages, cr_Tools = tools\<rparr>
      in attempt_chat (doChat net d req) (ln_sleep net) (nat (dk_retries d)) 0 w)"

definition llm_Chat :: "'w llm_net \<Rightarrow> deepseek_client \<Rightarrow> string \<Rightarrow> 'w \<Rightarrow> (llm_error + string) go \<times> 'w" where
  "llm_Chat net d prompt w =
     (let req = \<lparr>cr_Model = dk_model d,
                 cr_Messages = [no_message\<lparr>ms_Role := ''system'', ms_Content := [CHR 0xE4, CHR 0xBD, CHR 0xA0, CHR 0xE6, CHR 0x98, CHR 0xAF, CHR 0xE7, CHR 0x94, CHR 0xA8,
     CHR 0xE6, CHR 0x88, CHR 0xB7, CHR 0xE7, CHR 0x9A, CHR 0x84, CHR 0xE6, CHR 0x9C,
     CHR 0x8D, CHR 0xE5, CHR 0x8A, CHR 0xA1, CHR 0xE5, CHR 0x99, CHR 0xA8, CHR 0xE8,
     CHR 0xBF, CHR 0x90, CHR 0xE7, CHR 0xBB, CHR 0xB4, CHR 0xE5, CHR 0x8A, CHR 0xA9,
     CHR 0xE6, CHR 0x89, CHR 0x8B]\<rparr>,
                                no_message\<lparr>ms_Role := ''user'', ms_Content := prompt\<rparr>],
                 cr_Tools = []\<rparr>
      in case attempt_chat (doChat net d req) (ln_sleep net) (nat (dk_retries d)) 0 w of
           (Inl e, w') \<Rightarrow> (Inr (Inl e), w')
         | (Inr res, w') \<Rightarrow>
             ((case cs_Choices res of [] \<Rightarrow> Inl IndexRange | c # _ \<Rightarrow> Inr (Inr (ms_Content (ch_Message c)))), w'))"

subsection \<open>Attempts\<close>

text \<open>The world before the attempt with the given number, as long as all before it failed.\<close>

fun world_at :: "('w \<Rightarrow> (llm_error + 'r) \<times> 'w) \<Rightarrow> (duration \<Rightarrow> 'w \<Rightarrow> 'w) \<Rightarrow> nat \<Rightarrow> nat \<Rightarrow> 'w \<Rightarrow> 'w" where
  "world_at send sleep a 0 w = w"
| "world_at send sleep a (Suc k) w = world_at send sleep (Suc a) k (sleep (200 * int (Suc a) * Millisecond) (snd (send w)))"

definition retried :: "('w \<Rightarrow> (llm_error + 'r) \<times> 'w) \<Rightarrow> 'w \<Rightarrow> bool" where
  "retried send w \<longleftrightarrow> (case fst (send w) of Inl e \<Rightarrow> isRetryableLLMError e | Inr _ \<Rightarrow> False)"

lemma attempt_chat_spec:
  "\<exists>k \<le> n. attempt_chat send sleep n a w = send (world_at send sleep a k w) \<and>
     (\<forall>j < k. retried send (world_at send sleep a j w)) \<and>
     (k = n \<or> \<not> retried send (world_at send sleep a k w))"
proof (induction n arbitrary: a w)
  case 0
  then show ?case by (auto split: prod.splits sum.splits)
next
  case (Suc n)
  obtain r w' where send: "send w = (r, w')" by force
  show ?case
  proof (cases "retried send w")
    case False
    then have "attempt_chat send sleep (Suc n) a w = send w"
      using send by (cases r) (auto simp: retried_def)
    then show ?thesis using False by (intro exI[of _ 0]) simp
  next
    case True
    then obtain e where e: "r = Inl e" "isRetryableLLMError e" using send by (cases r) (auto simp: retried_def)
    let ?w = "sleep (200 * int (Suc a) * Millisecond) w'"
    obtain k where k: "k \<le> n" "attempt_chat send sleep n (Suc a) ?w = send (world_at send sleep (Suc a) k ?w)"
      "\<forall>j < k. retried send (world_at send sleep (Suc a) j ?w)"
      "k = n \<or> \<not> retried send (world_at send sleep (Suc a) k ?w)"
      using Suc.IH[of "Suc a" ?w] by blast
    have "attempt_chat send sleep (Suc n) a w = attempt_chat send sleep n (Suc a) ?w" using send e by simp
    moreover have "\<forall>j < Suc k. retried send (world_at send sleep a j w)"
      using k(3) True send by (auto simp: less_Suc_eq_0_disj)
    ultimately show ?thesis using k send by (intro exI[of _ "Suc k"]) simp
  qed
qed

definition ask :: "'w llm_net \<Rightarrow> deepseek_client \<Rightarrow> llm_message list \<Rightarrow> llm_tool list \<Rightarrow> 'w \<Rightarrow> (llm_error + chat_response) \<times> 'w" where
  "ask net d messages tools = doChat net d \<lparr>cr_Model = dk_model d, cr_Messages = messages, cr_Tools = tools\<rparr>"

definition attempt_world :: "'w llm_net \<Rightarrow> deepseek_client \<Rightarrow> llm_message list \<Rightarrow> llm_tool list \<Rightarrow> 'w \<Rightarrow> nat \<Rightarrow> 'w" where
  "attempt_world net d messages tools w k = world_at (ask net d messages tools) (ln_sleep net) 0 k w"

lemma doChat_choices: "fst (doChat net d req w) = Inr res \<Longrightarrow> cs_Choices res \<noteq> []"
  by (auto simp: doChat_def split: prod.splits sum.splits option.splits if_splits)

lemma attempt_chat_ok:
  assumes "attempt_chat (doChat net d req) sleep n a w = (Inr res, w')"
  shows "cs_Choices res \<noteq> []"
proof -
  obtain k where "attempt_chat (doChat net d req) sleep n a w =
      doChat net d req (world_at (doChat net d req) sleep a k w)"
    using attempt_chat_spec[of n "doChat net d req" sleep a w] by (elim exE conjE)
  then show ?thesis using assms doChat_choices by (metis fst_conv)
qed

lemma llm_Chat_ok: "\<exists>r. fst (llm_Chat net d prompt w) = Inr r"
proof -
  let ?run = "attempt_chat (doChat net d \<lparr>cr_Model = dk_model d,
                 cr_Messages = [no_message\<lparr>ms_Role := ''system'', ms_Content := [CHR 0xE4, CHR 0xBD, CHR 0xA0, CHR 0xE6, CHR 0x98, CHR 0xAF, CHR 0xE7, CHR 0x94, CHR 0xA8,
     CHR 0xE6, CHR 0x88, CHR 0xB7, CHR 0xE7, CHR 0x9A, CHR 0x84, CHR 0xE6, CHR 0x9C,
     CHR 0x8D, CHR 0xE5, CHR 0x8A, CHR 0xA1, CHR 0xE5, CHR 0x99, CHR 0xA8, CHR 0xE8,
     CHR 0xBF, CHR 0x90, CHR 0xE7, CHR 0xBB, CHR 0xB4, CHR 0xE5, CHR 0x8A, CHR 0xA9,
     CHR 0xE6, CHR 0x89, CHR 0x8B]\<rparr>,
                                no_message\<lparr>ms_Role := ''user'', ms_Content := prompt\<rparr>],
                 cr_Tools = []\<rparr>) (ln_sleep net) (nat (dk_retries d)) 0 w"
  obtain r w' where run: "?run = (r, w')" by force
  show ?thesis
  proof (cases r)
    case (Inl e)
    then show ?thesis unfolding llm_Chat_def Let_def run by simp
  next
    case (Inr res)
    then have "cs_Choices res \<noteq> []" using run attempt_chat_ok by metis
    then show ?thesis unfolding llm_Chat_def Let_def run Inr by (cases "cs_Choices res") simp_all
  qed
qed

text \<open>
  Property C40: a request to the model is sent at most \<open>retries + 1\<close> times; its answer is that of the last
  attempt, every attempt before it failed with an error that is worth another try, and the last one
  succeeded, failed with another error, or was the last allowed. Asking for a text never panics.
\<close>
theorem chat_retries:
  "(\<exists>k \<le> nat (dk_retries d).
      ChatWithTools net d messages tools w = ask net d messages tools (attempt_world net d messages tools w k) \<and>
      (\<forall>j < k. retried (ask net d messages tools) (attempt_world net d messages tools w j)) \<and>
      (k = nat (dk_retries d) \<or> \<not> retried (ask net d messages tools) (attempt_world net d messages tools w k))) \<and>
   (\<exists>r. fst (llm_Chat net d prompt w) = Inr r)"
proof (rule conjI)
  show "\<exists>k \<le> nat (dk_retries d).
      ChatWithTools net d messages tools w = ask net d messages tools (attempt_world net d messages tools w k) \<and>
      (\<forall>j < k. retried (ask net d messages tools) (attempt_world net d messages tools w j)) \<and>
      (k = nat (dk_retries d) \<or> \<not> retried (ask net d messages tools) (attempt_world net d messages tools w k))"
    using attempt_chat_spec[of "nat (dk_retries d)" "ask net d messages tools" "ln_sleep net" 0 w]
    unfolding ChatWithTools_def Let_def ask_def attempt_world_def .
next
  show "\<exists>r. fst (llm_Chat net d prompt w) = Inr r" by (rule llm_Chat_ok)
qed

text \<open>A model that is overloaded twice before it answers.\<close>

definition busy_net :: "nat llm_net" where
  "busy_net = \<lparr>ln_post = (\<lambda>_ _ _ _ n. (if n < 2 then Inr (429, ''slow down'') else Inr (200, ''ok''), Suc n)),
     ln_json = (\<lambda>_. Inr (JObj [(''choices'', JArr [JObj [(''message'', JObj [(''content'', JStr ''hello'')])]])])),
     ln_mismatch = (\<lambda>_. []), ln_sleep = (\<lambda>_ n. n)\<rparr>"

theorem chat_retries_witness:
  "\<exists>r. fst (llm_Chat busy_net (SetRetries 3 (NewDeepSeekClient ''k'' ''u'' ''m'')) ''hi'' 0) = Inr r"
  by (rule conjunct2[OF chat_retries])

end
