(* ===== verification/Owl_Mcp.thy ===== *)
theory Owl_Mcp
  imports Owl_Safety "HOL-Library.Monad_Syntax"
begin

text \<open>
  \<open>internal/mcp\<close>: the server of the Model Context Protocol (\<open>server.go\<close>, \<open>handlers.go\<close>, \<open>types.go\<close>) and its
  transports (\<open>transport.go\<close>). A request is its text as JSON, or the text of the syntax error; an answer is
  JSON. Outside are (\<open>mcp_env\<close>): the text of the error when a value does not fit a struct, the keys of a
  map in the order in which they are written, the parameters that the tools declare (constants of
  \<open>internal/agent\<close>), and the order in which the registry is visited.
\<close>


subsection \<open>Messages\<close>

definition MCPVersion :: string where "MCPVersion = ''2024-11-05''"
definition JSONRPCVersion :: string where "JSONRPCVersion = ''2.0''"

definition ParseError :: int where "ParseError = - 32700"
definition InvalidRequest :: int where "InvalidRequest = - 32600"
definition MethodNotFound :: int where "MethodNotFound = - 32601"
definition InvalidParams :: int where "InvalidParams = - 32602"
definition InternalError :: int where "InternalError = - 32603"

text \<open>A field of type \<open>json.RawMessage\<close>: the last match counts, null too.\<close>

fun raw_fld :: "string \<Rightarrow> fields \<Rightarrow> json option" where
  "raw_fld n [] = None"
| "raw_fld n ((k, j) # kvs) =
     (case raw_fld n kvs of Some j' \<Rightarrow> Some j' | None \<Rightarrow> if ToLower k = n then Some j else None)"

record rpc_request =
  rq_JSONRPC :: string
  rq_ID :: "json option"
  rq_Method :: string
  rq_Params :: "json option"

definition dec_rpc_request :: "json \<Rightarrow> rpc_request option" where
  "dec_rpc_request j = do {
     o' \<leftarrow> struct_fields j;
     v \<leftarrow> field [] dec_string ''jsonrpc'' o';
     m \<leftarrow> field [] dec_string ''method'' o';
     Some \<lparr>rq_JSONRPC = v, rq_ID = raw_fld ''id'' o', rq_Method = m, rq_Params = raw_fld ''params'' o'\<rparr> }"

record mcp_error =
  me_Code :: int
  me_Message :: string
  me_Data :: "json option"

definition NewMCPError :: "int \<Rightarrow> string \<Rightarrow> json option \<Rightarrow> mcp_error" where
  "NewMCPError code message data = \<lparr>me_Code = code, me_Message = message, me_Data = data\<rparr>"

definition opt_field :: "string \<Rightarrow> json option \<Rightarrow> fields" where
  "opt_field n v = (case v of None \<Rightarrow> [] | Some j \<Rightarrow> [(n, j)])"

definition successResponse :: "json option \<Rightarrow> json \<Rightarrow> json" where
  "successResponse ident result = JObj ((''jsonrpc'', JStr JSONRPCVersion) # opt_field ''id'' ident @ [(''result'', result)])"

definition errorResponse :: "json option \<Rightarrow> int \<Rightarrow> string \<Rightarrow> json option \<Rightarrow> json" where
  "errorResponse ident code message data =
     JObj ((''jsonrpc'', JStr JSONRPCVersion) # opt_field ''id'' ident @
       [(''error'', JObj ([(''code'', JInt code), (''message'', JStr message)] @ opt_field ''data'' data))])"

record mcp_resource =
  mr_URI :: string
  mr_Name :: string
  mr_Description :: string
  mr_MimeType :: string

record resource_contents =
  rc_URI :: string
  rc_MimeType :: string
  rc_Text :: string
  rc_Blob :: string

record prompt_argument =
  pg_Name :: string
  pg_Description :: string
  pg_Required :: bool

record mcp_prompt =
  mq_Name :: string
  mq_Description :: string
  mq_Arguments :: "prompt_argument list"

record mcp_content =
  mn_Type :: string
  mn_Text :: string
  mn_MimeType :: string
  mn_Data :: string

record prompt_result =
  mt_Description :: string
  mt_Messages :: "(string \<times> mcp_content) list"

definition text_field :: "string \<Rightarrow> string \<Rightarrow> fields" where
  "text_field n s = omit (s = []) n (JStr s)"

definition enc_resource :: "mcp_resource \<Rightarrow> json" where
  "enc_resource r = JObj ([(''uri'', JStr (mr_URI r)), (''name'', JStr (mr_Name r))] @
     text_field ''description'' (mr_Description r) @ text_field ''mimeType'' (mr_MimeType r))"

definition enc_contents :: "resource_contents \<Rightarrow> json" where
  "enc_contents c = JObj ((''uri'', JStr (rc_URI c)) # text_field ''mimeType'' (rc_MimeType c) @
     text_field ''text'' (rc_Text c) @ text_field ''blob'' (rc_Blob c))"

definition enc_prompt_argument :: "prompt_argument \<Rightarrow> json" where
  "enc_prompt_argument a = JObj ((''name'', JStr (pg_Name a)) # text_field ''description'' (pg_Description a) @
     omit (\<not> pg_Required a) ''required'' (JBool True))"

definition enc_prompt :: "mcp_prompt \<Rightarrow> json" where
  "enc_prompt p = JObj ((''name'', JStr (mq_Name p)) # text_field ''description'' (mq_Description p) @
     omit (mq_Arguments p = []) ''arguments'' (enc_list enc_prompt_argument (mq_Arguments p)))"

definition enc_content :: "mcp_content \<Rightarrow> json" where
  "enc_content c = JObj ((''type'', JStr (mn_Type c)) # text_field ''text'' (mn_Text c) @
     text_field ''mimeType'' (mn_MimeType c) @ text_field ''data'' (mn_Data c))"

definition enc_prompt_result :: "prompt_result \<Rightarrow> json" where
  "enc_prompt_result r = JObj (text_field ''description'' (mt_Description r) @
     [(''messages'', enc_list (\<lambda>(role, c). JObj [(''role'', JStr role), (''content'', enc_content c)]) (mt_Messages r))])"

definition dec_implementation :: "json \<Rightarrow> (string \<times> string) option" where
  "dec_implementation j = do {
     o' \<leftarrow> struct_fields j;
     n \<leftarrow> field [] dec_string ''name'' o';
     v \<leftarrow> field [] dec_string ''version'' o';
     Some (n, v) }"

definition dec_roots :: "json \<Rightarrow> bool option" where
  "dec_roots j = do { o' \<leftarrow> struct_fields j; field False dec_bool ''listchanged'' o' }"

definition dec_client_capability :: "json \<Rightarrow> (bool option \<times> unit option) option" where
  "dec_client_capability j = do {
     o' \<leftarrow> struct_fields j;
     r \<leftarrow> field None (dec_ptr dec_roots) ''roots'' o';
     s \<leftarrow> field None (dec_ptr (\<lambda>j'. map_option (\<lambda>_. ()) (struct_fields j'))) ''sampling'' o';
     Some (r, s) }"

definition dec_initialize_params :: "json \<Rightarrow> (string \<times> (bool option \<times> unit option) \<times> string \<times> string) option" where
  "dec_initialize_params j = do {
     o' \<leftarrow> struct_fields j;
     v \<leftarrow> field [] dec_string ''protocolversion'' o';
     c \<leftarrow> field (None, None) dec_client_capability ''capabilities'' o';
     i \<leftarrow> field ([], []) dec_implementation ''clientinfo'' o';
     Some (v, c, i) }"

definition dec_call_params :: "json \<Rightarrow> (string \<times> args) option" where
  "dec_call_params j = do {
     o' \<leftarrow> struct_fields j;
     n \<leftarrow> field [] dec_string ''name'' o';
     a \<leftarrow> field Map.empty (dec_map Some) ''arguments'' o';
     Some (n, a) }"

definition dec_read_params :: "json \<Rightarrow> string option" where
  "dec_read_params j = do { o' \<leftarrow> struct_fields j; field [] dec_string ''uri'' o' }"

definition dec_get_params :: "json \<Rightarrow> (string \<times> (string \<rightharpoonup> string)) option" where
  "dec_get_params j = do {
     o' \<leftarrow> struct_fields j;
     n \<leftarrow> field [] dec_string ''name'' o';
     a \<leftarrow> field Map.empty (dec_map dec_string) ''arguments'' o';
     Some (n, a) }"

subsection \<open>The server\<close>

record mcp_env =
  mv_mismatch :: "json \<Rightarrow> string"
  mv_keys :: "args \<Rightarrow> string list"
  mv_params :: "string \<Rightarrow> args option"
  mv_order :: "string list"

record resource_provider =
  rv_List :: "mcp_resource list"
  rv_Read :: "string \<Rightarrow> string + resource_contents option"

record prompt_provider =
  pv_List :: "mcp_prompt list"
  pv_Get :: "string \<Rightarrow> (string \<rightharpoonup> string) \<Rightarrow> string + prompt_result"

record 'w mcp_server =
  sm_registry :: "'w registry"
  sm_resources :: "mcp_resource list"
  sm_prompts :: "mcp_prompt list"
  sm_initialized :: bool
  sm_serverName :: string
  sm_serverVersion :: string
  sm_resourceProvider :: "resource_provider option"
  sm_promptProvider :: "prompt_provider option"

definition WithServerInfo :: "string \<Rightarrow> string \<Rightarrow> 'w mcp_server \<Rightarrow> 'w mcp_server" where
  "WithServerInfo name version s = s\<lparr>sm_serverName := name, sm_serverVersion := version\<rparr>"

definition WithResourceProvider :: "resource_provider \<Rightarrow> 'w mcp_server \<Rightarrow> 'w mcp_server" where
  "WithResourceProvider p s = s\<lparr>sm_resourceProvider := Some p\<rparr>"

definition WithPromptProvider :: "prompt_provider \<Rightarrow> 'w mcp_server \<Rightarrow> 'w mcp_server" where
  "WithPromptProvider p s = s\<lparr>sm_promptProvider := Some p\<rparr>"

definition NewMCPServer :: "'w registry \<Rightarrow> ('w mcp_server \<Rightarrow> 'w mcp_server) list \<Rightarrow> 'w mcp_server" where
  "NewMCPServer registry opts =
     fold (\<lambda>opt. opt) opts \<lparr>sm_registry = registry, sm_resources = [], sm_prompts = [], sm_initialized = False,
       sm_serverName = ''ServerOwl'', sm_serverVersion = ''1.0.0'', sm_resourceProvider = None, sm_promptProvider = None\<rparr>"

definition GetServerInfo :: "'w mcp_server \<Rightarrow> json" where
  "GetServerInfo s = JObj [(''name'', JStr (sm_serverName s)), (''version'', JStr (sm_serverVersion s))]"

text \<open>Flags that are false are left out, so that the capabilities are empty objects.\<close>

definition GetCapabilities :: "'w mcp_server \<Rightarrow> json" where
  "GetCapabilities s = JObj ((''tools'', JObj []) #
     omit (sm_resourceProvider s = None) ''resources'' (JObj []) @
     omit (sm_promptProvider s = None) ''prompts'' (JObj []) @ [(''logging'', JObj [])])"

definition convertParametersToInputSchema :: "args option \<Rightarrow> args" where
  "convertParametersToInputSchema params =
     (case params of
        None \<Rightarrow> [''type'' \<mapsto> JStr ''object'', ''properties'' \<mapsto> JObj []]
      | Some p \<Rightarrow> if p ''type'' = None then p(''type'' \<mapsto> JStr ''object'') else p)"

definition convertToolsToMCP :: "mcp_env \<Rightarrow> 'w mcp_server \<Rightarrow> json list" where
  "convertToolsToMCP ev s =
     map (\<lambda>t. JObj ((''name'', JStr (tl_Name t)) # text_field ''description'' (tl_Description t) @
            [(''inputSchema'', let p = convertParametersToInputSchema (mv_params ev (tl_Name t))
                               in enc_map (\<lambda>v. v) (mv_keys ev p) p)]))
       (tool_GetAll (mv_order ev) (sm_registry s))"

definition not_initialized :: mcp_error where
  "not_initialized = NewMCPError InvalidRequest [CHR 0xE6, CHR 0x9C, CHR 0x8D, CHR 0xE5, CHR 0x8A, CHR 0xA1, CHR 0xE5, CHR 0x99, CHR 0xA8,
     CHR 0xE6, CHR 0x9C, CHR 0xAA, CHR 0xE5, CHR 0x88, CHR 0x9D, CHR 0xE5, CHR 0xA7,
     CHR 0x8B, CHR 0xE5, CHR 0x8C, CHR 0x96] None"

definition initialize_result :: "'w mcp_server \<Rightarrow> json" where
  "initialize_result s = JObj [(''protocolVersion'', JStr MCPVersion), (''capabilities'', GetCapabilities s),
     (''serverInfo'', GetServerInfo s), (''instructions'', JStr (''ServerOwl '' @ [CHR 0xE6, CHR 0x98, CHR 0xAF, CHR 0xE4, CHR 0xB8, CHR 0x80, CHR 0xE4,
     CHR 0xB8, CHR 0xAA, CHR 0xE6, CHR 0x99, CHR 0xBA, CHR 0xE8, CHR 0x83, CHR 0xBD,
     CHR 0xE8, CHR 0xBF, CHR 0x90, CHR 0xE7, CHR 0xBB, CHR 0xB4, CHR 0xE5, CHR 0x8A,
     CHR 0xA9, CHR 0xE6, CHR 0x89, CHR 0x8B, CHR 0xEF, CHR 0xBC, CHR 0x8C, CHR 0xE6,
     CHR 0x8F, CHR 0x90, CHR 0xE4, CHR 0xBE, CHR 0x9B, CHR 0xE6, CHR 0x9C, CHR 0x8D,
     CHR 0xE5, CHR 0x8A, CHR 0xA1, CHR 0xE5, CHR 0x99, CHR 0xA8, CHR 0xE7, CHR 0x9B,
     CHR 0x91, CHR 0xE6, CHR 0x8E, CHR 0xA7, CHR 0xE3, CHR 0x80, CHR 0x81, CHR 0xE5,
     CHR 0xAE, CHR 0xB9, CHR 0xE5, CHR 0x99, CHR 0xA8, CHR 0xE7, CHR 0xAE, CHR 0xA1,
     CHR 0xE7, CHR 0x90, CHR 0x86, CHR 0xE3, CHR 0x80, CHR 0x81, CHR 0xE5, CHR 0x91,
     CHR 0xBD, CHR 0xE4, CHR 0xBB, CHR 0xA4, CHR 0xE6, CHR 0x89, CHR 0xA7, CHR 0xE8,
     CHR 0xA1, CHR 0x8C, CHR 0xE7, CHR 0xAD, CHR 0x89, CHR 0xE5, CHR 0x8A, CHR 0x9F,
     CHR 0xE8, CHR 0x83, CHR 0xBD, CHR 0xE3, CHR 0x80, CHR 0x82]))]"

definition handleInitialize :: "mcp_env \<Rightarrow> json option \<Rightarrow> 'w mcp_server \<Rightarrow> 'w mcp_server \<times> (mcp_error + json)" where
  "handleInitialize ev params s =
     (case params of
        Some j \<Rightarrow>
          (case dec_initialize_params j of
             None \<Rightarrow> (s, Inl (NewMCPError InvalidParams [CHR 0xE6, CHR 0x97, CHR 0xA0, CHR 0xE6, CHR 0x95, CHR 0x88, CHR 0xE7, CHR 0x9A, CHR 0x84,
     CHR 0xE5, CHR 0x88, CHR 0x9D, CHR 0xE5, CHR 0xA7, CHR 0x8B, CHR 0xE5, CHR 0x8C,
     CHR 0x96, CHR 0xE5, CHR 0x8F, CHR 0x82, CHR 0xE6, CHR 0x95, CHR 0xB0] (Some (JStr (mv_mismatch ev j)))))
           | Some _ \<Rightarrow> (s\<lparr>sm_initialized := True\<rparr>, Inr (initialize_result s)))
      | None \<Rightarrow> (s\<lparr>sm_initialized := True\<rparr>, Inr (initialize_result s)))"

definition handleToolsList :: "mcp_env \<Rightarrow> 'w mcp_server \<Rightarrow> mcp_error + json" where
  "handleToolsList ev s =
     (if \<not> sm_initialized s then Inl not_initialized
      else Inr (JObj [(''tools'', JArr (convertToolsToMCP ev s))]))"

text \<open>\<open>json.Unmarshal\<close> of parameters that must be there; without them the text is empty.\<close>

definition need_params :: "mcp_env \<Rightarrow> string \<Rightarrow> (json \<Rightarrow> 'a option) \<Rightarrow> json option \<Rightarrow> mcp_error + 'a" where
  "need_params ev message dec params =
     (case params of
        None \<Rightarrow> Inl (NewMCPError InvalidParams message (Some (JStr ''unexpected end of JSON input'')))
      | Some j \<Rightarrow> (case dec j of
            None \<Rightarrow> Inl (NewMCPError InvalidParams message (Some (JStr (mv_mismatch ev j))))
          | Some v \<Rightarrow> Inr v))"

definition text_content :: "string \<Rightarrow> mcp_content" where
  "text_content s = \<lparr>mn_Type = ''text'', mn_Text = s, mn_MimeType = [], mn_Data = []\<rparr>"

definition call_result :: "string \<Rightarrow> bool \<Rightarrow> json" where
  "call_result s isError = JObj ((''content'', JArr [enc_content (text_content s)]) # omit (\<not> isError) ''isError'' (JBool True))"

text \<open>The text of the error of a tool; one that asks for a confirmation is an error, too.\<close>

fun outcome_error :: "tool_outcome \<Rightarrow> string option" where
  "outcome_error (Out s) = None"
| "outcome_error (Err e) = Some e"
| "outcome_error (NeedConfirm name a reason) =
     Some (if reason \<noteq> [] then ''confirm required: '' @ name @ '' ('' @ reason @ '')'' else ''confirm required: '' @ name)"
| "outcome_error (Died p) = None"

definition handleToolsCall ::
  "mcp_env \<Rightarrow> json option \<Rightarrow> 'w mcp_server \<Rightarrow> 'w machine \<Rightarrow> 'w machine \<times> (mcp_error + json) go" where
  "handleToolsCall ev params s m =
     (if \<not> sm_initialized s then (m, Inr (Inl not_initialized))
      else case need_params ev [CHR 0xE6, CHR 0x97, CHR 0xA0, CHR 0xE6, CHR 0x95, CHR 0x88, CHR 0xE7, CHR 0x9A, CHR 0x84,
     CHR 0xE5, CHR 0xB7, CHR 0xA5, CHR 0xE5, CHR 0x85, CHR 0xB7, CHR 0xE8, CHR 0xB0,
     CHR 0x83, CHR 0xE7, CHR 0x94, CHR 0xA8, CHR 0xE5, CHR 0x8F, CHR 0x82, CHR 0xE6,
     CHR 0x95, CHR 0xB0] dec_call_params params of
        Inl e \<Rightarrow> (m, Inr (Inl e))
      | Inr (name, arguments) \<Rightarrow>
          if name = [] then (m, Inr (Inl (NewMCPError InvalidParams [CHR 0xE5, CHR 0xB7, CHR 0xA5, CHR 0xE5, CHR 0x85, CHR 0xB7, CHR 0xE5, CHR 0x90, CHR 0x8D,
     CHR 0xE7, CHR 0xA7, CHR 0xB0, CHR 0xE4, CHR 0xB8, CHR 0x8D, CHR 0xE8, CHR 0x83,
     CHR 0xBD, CHR 0xE4, CHR 0xB8, CHR 0xBA, CHR 0xE7, CHR 0xA9, CHR 0xBA] None)))
          else case tool_Get name (sm_registry s) of
            Inl _ \<Rightarrow> (m, Inr (Inl (NewMCPError InvalidParams (([CHR 0xE5, CHR 0xB7, CHR 0xA5, CHR 0xE5, CHR 0x85, CHR 0xB7, CHR 0xE4, CHR 0xB8, CHR 0x8D,
     CHR 0xE5, CHR 0xAD, CHR 0x98, CHR 0xE5, CHR 0x9C, CHR 0xA8] @ '': '') @ name) None)))
          | Inr tool \<Rightarrow>
              (let (m', out) = tl_Handler tool None arguments m in
               (m', case out of
                  Died p \<Rightarrow> Inl p
                | Out result \<Rightarrow> Inr (Inr (call_result result False))
                | _ \<Rightarrow> Inr (Inr (call_result (([CHR 0xE5, CHR 0xB7, CHR 0xA5, CHR 0xE5, CHR 0x85, CHR 0xB7, CHR 0xE6, CHR 0x89, CHR 0xA7,
     CHR 0xE8, CHR 0xA1, CHR 0x8C, CHR 0xE5, CHR 0xA4, CHR 0xB1, CHR 0xE8, CHR 0xB4,
     CHR 0xA5] @ '': '') @ the (outcome_error out)) True)))))"

definition handleResourcesList :: "'w mcp_server \<Rightarrow> mcp_error + json" where
  "handleResourcesList s =
     (if \<not> sm_initialized s then Inl not_initialized
      else Inr (JObj [(''resources'', enc_list enc_resource
        (case sm_resourceProvider s of None \<Rightarrow> sm_resources s | Some p \<Rightarrow> rv_List p))]))"

definition handleResourcesRead :: "mcp_env \<Rightarrow> json option \<Rightarrow> 'w mcp_server \<Rightarrow> (mcp_error + json) go" where
  "handleResourcesRead ev params s =
     (if \<not> sm_initialized s then Inr (Inl not_initialized)
      else case need_params ev [CHR 0xE6, CHR 0x97, CHR 0xA0, CHR 0xE6, CHR 0x95, CHR 0x88, CHR 0xE7, CHR 0x9A, CHR 0x84,
     CHR 0xE8, CHR 0xB5, CHR 0x84, CHR 0xE6, CHR 0xBA, CHR 0x90, CHR 0xE8, CHR 0xAF,
     CHR 0xBB, CHR 0xE5, CHR 0x8F, CHR 0x96, CHR 0xE5, CHR 0x8F, CHR 0x82, CHR 0xE6,
     CHR 0x95, CHR 0xB0] dec_read_params params of
        Inl e \<Rightarrow> Inr (Inl e)
      | Inr uri \<Rightarrow>
          if uri = [] then Inr (Inl (NewMCPError InvalidParams ([CHR 0xE8, CHR 0xB5, CHR 0x84, CHR 0xE6, CHR 0xBA, CHR 0x90] @ '' URI '' @ [CHR 0xE4,
     CHR 0xB8, CHR 0x8D, CHR 0xE8, CHR 0x83, CHR 0xBD, CHR 0xE4, CHR 0xB8, CHR 0xBA,
     CHR 0xE7, CHR 0xA9, CHR 0xBA]) None))
          else case sm_resourceProvider s of
            None \<Rightarrow> Inr (Inl (NewMCPError InvalidParams (([CHR 0xE8, CHR 0xB5, CHR 0x84, CHR 0xE6, CHR 0xBA, CHR 0x90, CHR 0xE4, CHR 0xB8, CHR 0x8D,
     CHR 0xE5, CHR 0xAD, CHR 0x98, CHR 0xE5, CHR 0x9C, CHR 0xA8] @ '': '') @ uri) None))
          | Some p \<Rightarrow>
              (case rv_Read p uri of
                 Inl e \<Rightarrow> Inr (Inl (NewMCPError InvalidParams (([CHR 0xE8, CHR 0xAF, CHR 0xBB, CHR 0xE5, CHR 0x8F, CHR 0x96, CHR 0xE8, CHR 0xB5, CHR 0x84,
     CHR 0xE6, CHR 0xBA, CHR 0x90, CHR 0xE5, CHR 0xA4, CHR 0xB1, CHR 0xE8, CHR 0xB4,
     CHR 0xA5] @ '': '') @ e) None))
               | Inr None \<Rightarrow> Inl NilDeref
               | Inr (Some c) \<Rightarrow> Inr (Inr (JObj [(''contents'', JArr [enc_contents c])]))))"

definition handlePromptsList :: "'w mcp_server \<Rightarrow> mcp_error + json" where
  "handlePromptsList s =
     (if \<not> sm_initialized s then Inl not_initialized
      else Inr (JObj [(''prompts'', enc_list enc_prompt
        (case sm_promptProvider s of None \<Rightarrow> sm_prompts s | Some p \<Rightarrow> pv_List p))]))"

definition handlePromptsGet :: "mcp_env \<Rightarrow> json option \<Rightarrow> 'w mcp_server \<Rightarrow> mcp_error + json" where
  "handlePromptsGet ev params s =
     (if \<not> sm_initialized s then Inl not_initialized
      else case need_params ev [CHR 0xE6, CHR 0x97, CHR 0xA0, CHR 0xE6, CHR 0x95, CHR 0x88, CHR 0xE7, CHR 0x9A, CHR 0x84,
     CHR 0xE6, CHR 0x8F, CHR 0x90, CHR 0xE7, CHR 0xA4, CHR 0xBA, CHR 0xE8, CHR 0xAF,
     CHR 0x8D, CHR 0xE8, CHR 0x8E, CHR 0xB7, CHR 0xE5, CHR 0x8F, CHR 0x96, CHR 0xE5,
     CHR 0x8F, CHR 0x82, CHR 0xE6, CHR 0x95, CHR 0xB0] dec_get_params params of
        Inl e \<Rightarrow> Inl e
      | Inr (name, arguments) \<Rightarrow>
          if name = [] then Inl (NewMCPError InvalidParams [CHR 0xE6, CHR 0x8F, CHR 0x90, CHR 0xE7, CHR 0xA4, CHR 0xBA, CHR 0xE8, CHR 0xAF, CHR 0x8D,
     CHR 0xE5, CHR 0x90, CHR 0x8D, CHR 0xE7, CHR 0xA7, CHR 0xB0, CHR 0xE4, CHR 0xB8,
     CHR 0x8D, CHR 0xE8, CHR 0x83, CHR 0xBD, CHR 0xE4, CHR 0xB8, CHR 0xBA, CHR 0xE7,
     CHR 0xA9, CHR 0xBA] None)
          else case sm_promptProvider s of
            None \<Rightarrow> Inl (NewMCPError InvalidParams (([CHR 0xE6, CHR 0x8F, CHR 0x90, CHR 0xE7, CHR 0xA4, CHR 0xBA, CHR 0xE8, CHR 0xAF, CHR 0x8D,
     CHR 0xE4, CHR 0xB8, CHR 0x8D, CHR 0xE5, CHR 0xAD, CHR 0x98, CHR 0xE5, CHR 0x9C,
     CHR 0xA8] @ '': '') @ name) None)
          | Some p \<Rightarrow>
              (case pv_Get p name arguments of
                 Inl e \<Rightarrow> Inl (NewMCPError InvalidParams (([CHR 0xE8, CHR 0x8E, CHR 0xB7, CHR 0xE5, CHR 0x8F, CHR 0x96, CHR 0xE6, CHR 0x8F, CHR 0x90,
     CHR 0xE7, CHR 0xA4, CHR 0xBA, CHR 0xE8, CHR 0xAF, CHR 0x8D, CHR 0xE5, CHR 0xA4,
     CHR 0xB1, CHR 0xE8, CHR 0xB4, CHR 0xA5] @ '': '') @ e) None)
               | Inr r \<Rightarrow> Inr (enc_prompt_result r)))"

subsection \<open>Requests\<close>

text \<open>
  The state of a request: the server and the machine its tools run on. An answer is \<open>None\<close> where the code
  returns none.
\<close>

definition respond :: "json option \<Rightarrow> mcp_error + json \<Rightarrow> json option" where
  "respond ident r =
     Some (case r of Inl e \<Rightarrow> errorResponse ident (me_Code e) (me_Message e) (me_Data e) | Inr v \<Rightarrow> successResponse ident v)"

definition route ::
  "mcp_env \<Rightarrow> rpc_request \<Rightarrow> 'w mcp_server \<times> 'w machine \<Rightarrow> ('w mcp_server \<times> 'w machine) \<times> json option go" where
  "route ev req sm =
     (let (s, m) = sm; ident = rq_ID req; params = rq_Params req; meth = rq_Method req in
      if meth = ''initialize'' then (case handleInitialize ev params s of (s', r) \<Rightarrow> ((s', m), Inr (respond ident r)))
      else if meth = ''initialized'' then (sm, Inr None)
      else if meth = ''ping'' then (sm, Inr (respond ident (Inr (JObj []))))
      else if meth = ''tools/list'' then (sm, Inr (respond ident (handleToolsList ev s)))
      else if meth = ''tools/call'' then (case handleToolsCall ev params s m of (m', r) \<Rightarrow> ((s, m'), map_sum (\<lambda>p. p) (respond ident) r))
      else if meth = ''resources/list'' then (sm, Inr (respond ident (handleResourcesList s)))
      else if meth = ''resources/read'' then (sm, map_sum (\<lambda>p. p) (respond ident) (handleResourcesRead ev params s))
      else if meth = ''prompts/list'' then (sm, Inr (respond ident (handlePromptsList s)))
      else if meth = ''prompts/get'' then (sm, Inr (respond ident (handlePromptsGet ev params s)))
      else (sm, Inr (Some (errorResponse ident MethodNotFound (([CHR 0xE6, CHR 0x96, CHR 0xB9, CHR 0xE6, CHR 0xB3, CHR 0x95, CHR 0xE4, CHR 0xB8, CHR 0x8D,
     CHR 0xE5, CHR 0xAD, CHR 0x98, CHR 0xE5, CHR 0x9C, CHR 0xA8] @ '': '') @ meth) None))))"

definition HandleRequest ::
  "mcp_env \<Rightarrow> string + json \<Rightarrow> 'w mcp_server \<times> 'w machine \<Rightarrow> ('w mcp_server \<times> 'w machine) \<times> json option go" where
  "HandleRequest ev request sm =
     (case request of
        Inl e \<Rightarrow> (sm, Inr (Some (errorResponse None ParseError [CHR 0xE8, CHR 0xA7, CHR 0xA3, CHR 0xE6, CHR 0x9E, CHR 0x90, CHR 0xE8, CHR 0xAF, CHR 0xB7,
     CHR 0xE6, CHR 0xB1, CHR 0x82, CHR 0xE5, CHR 0xA4, CHR 0xB1, CHR 0xE8, CHR 0xB4,
     CHR 0xA5] (Some (JStr e)))))
      | Inr j \<Rightarrow>
          (case dec_rpc_request j of
             None \<Rightarrow> (sm, Inr (Some (errorResponse None ParseError [CHR 0xE8, CHR 0xA7, CHR 0xA3, CHR 0xE6, CHR 0x9E, CHR 0x90, CHR 0xE8, CHR 0xAF, CHR 0xB7,
     CHR 0xE6, CHR 0xB1, CHR 0x82, CHR 0xE5, CHR 0xA4, CHR 0xB1, CHR 0xE8, CHR 0xB4,
     CHR 0xA5] (Some (JStr (mv_mismatch ev j))))))
           | Some req \<Rightarrow>
               if rq_JSONRPC req \<noteq> JSONRPCVersion
               then (sm, Inr (Some (errorResponse (rq_ID req) InvalidRequest ([CHR 0xE6, CHR 0x97, CHR 0xA0, CHR 0xE6, CHR 0x95, CHR 0x88, CHR 0xE7, CHR 0x9A, CHR 0x84] @
     '' JSON-RPC '' @ [CHR 0xE7, CHR 0x89, CHR 0x88, CHR 0xE6, CHR 0x9C, CHR 0xAC]) None)))
               else route ev req sm))"

fun handle_batch ::
  "mcp_env \<Rightarrow> json list \<Rightarrow> json list \<Rightarrow> 'w mcp_server \<times> 'w machine \<Rightarrow> ('w mcp_server \<times> 'w machine) \<times> json list go" where
  "handle_batch ev [] acc sm = (sm, Inr acc)"
| "handle_batch ev (j # js) acc sm =
     (case HandleRequest ev (Inr j) sm of
        (sm', Inl p) \<Rightarrow> (sm', Inl p)
      | (sm', Inr None) \<Rightarrow> handle_batch ev js acc sm'
      | (sm', Inr (Some r)) \<Rightarrow> handle_batch ev js (acc @ [r]) sm')"

definition HandleBatchRequest ::
  "mcp_env \<Rightarrow> string + json \<Rightarrow> 'w mcp_server \<times> 'w machine \<Rightarrow> ('w mcp_server \<times> 'w machine) \<times> json option go" where
  "HandleBatchRequest ev requests sm =
     (case requests of
        Inr (JArr js) \<Rightarrow>
          (case handle_batch ev js [] sm of
             (sm', Inl p) \<Rightarrow> (sm', Inl p)
           | (sm', Inr rs) \<Rightarrow> (sm', Inr (if rs = [] then None else Some (JArr rs))))
      | Inr JNull \<Rightarrow> (sm, Inr None)
      | _ \<Rightarrow> HandleRequest ev requests sm)"

subsection \<open>Transports\<close>

text \<open>
  What \<open>Start\<close> of the standard input does until the input ends: a line is its length with the newline, and
  its text as JSON. A panic of a handler ends the program. The answers are the lines written.
\<close>

fun stdio_loop ::
  "mcp_env \<Rightarrow> (nat \<times> (string + json)) list \<Rightarrow> json list \<Rightarrow> 'w mcp_server \<times> 'w machine \<Rightarrow>
   ('w mcp_server \<times> 'w machine) \<times> json list go" where
  "stdio_loop ev [] out sm = (sm, Inr out)"
| "stdio_loop ev ((len, line) # lines) out sm =
     (if len \<le> 1 then stdio_loop ev lines out sm
      else case HandleRequest ev line sm of
        (sm', Inl p) \<Rightarrow> (sm', Inl p)
      | (sm', Inr None) \<Rightarrow> stdio_loop ev lines out sm'
      | (sm', Inr (Some r)) \<Rightarrow> stdio_loop ev lines (out @ [r]) sm')"

text \<open>\<open>handleMCP\<close>: the body is \<open>None\<close> when it cannot be read. The answer is status and body.\<close>

datatype mcp_answer = McpError nat string | McpOk "json option" | McpAborted go_panic

definition handleMCP ::
  "mcp_env \<Rightarrow> string \<Rightarrow> (string + json) option \<Rightarrow> 'w mcp_server \<times> 'w machine \<Rightarrow>
   ('w mcp_server \<times> 'w machine) \<times> mcp_answer" where
  "handleMCP ev meth body sm =
     (if meth \<noteq> ''POST'' then (sm, McpError 405 ([CHR 0xE5, CHR 0x8F, CHR 0xAA, CHR 0xE6, CHR 0x94, CHR 0xAF, CHR 0xE6, CHR 0x8C, CHR 0x81] @
     '' POST '' @ [CHR 0xE8, CHR 0xAF, CHR 0xB7, CHR 0xE6, CHR 0xB1, CHR 0x82]))
      else case body of
        None \<Rightarrow> (sm, McpError 400 [CHR 0xE8, CHR 0xAF, CHR 0xBB, CHR 0xE5, CHR 0x8F, CHR 0x96, CHR 0xE8, CHR 0xAF, CHR 0xB7,
     CHR 0xE6, CHR 0xB1, CHR 0x82, CHR 0xE5, CHR 0xA4, CHR 0xB1, CHR 0xE8, CHR 0xB4,
     CHR 0xA5])
      | Some request \<Rightarrow>
          (case HandleRequest ev request sm of
             (sm', Inl p) \<Rightarrow> (sm', McpAborted p)
           | (sm', Inr r) \<Rightarrow> (sm', McpOk r)))"

definition mcp_handleHealth :: "'w mcp_server \<Rightarrow> json" where
  "mcp_handleHealth s = JObj [(''initialized'', JBool (sm_initialized s)), (''server'', GetServerInfo s), (''status'', JStr ''ok'')]"

definition notification :: "string \<Rightarrow> json option \<Rightarrow> json" where
  "notification meth params = JObj ([(''jsonrpc'', JStr JSONRPCVersion), (''method'', JStr meth)] @ opt_field ''params'' params)"

text \<open>A notification to the clients of the event stream: each has a channel, a full one is passed over.\<close>

definition BroadcastNotification ::
  "string \<Rightarrow> json option \<Rightarrow> (string \<rightharpoonup> nat \<times> json list) \<Rightarrow> (string \<rightharpoonup> nat \<times> json list)" where
  "BroadcastNotification meth params clients =
     (\<lambda>k. map_option (\<lambda>(cap, queue). (cap, if length queue < cap then queue @ [notification meth params] else queue)) (clients k))"

end
