(* ===== verification/Owl_McpProps.thy ===== *)
theory Owl_McpProps
  imports Owl_Mcp
begin

text \<open>
  The server of the Model Context Protocol: what it answers to a batch, that nothing runs before the
  initialisation, and that after it commands run without the safety checker.
\<close>

section \<open>Answers\<close>

definition request_id :: "json \<Rightarrow> json option" where
  "request_id j = (case dec_rpc_request j of None \<Rightarrow> None | Some req \<Rightarrow> rq_ID req)"

text \<open>The one notification the server knows gets no answer.\<close>

definition unanswered_request :: "json \<Rightarrow> bool" where
  "unanswered_request j \<longleftrightarrow>
     (case dec_rpc_request j of None \<Rightarrow> False | Some req \<Rightarrow> rq_JSONRPC req = JSONRPCVersion \<and> rq_Method req = ''initialized'')"

definition is_answer :: "json option \<Rightarrow> json \<Rightarrow> bool" where
  "is_answer ident r \<longleftrightarrow> (\<exists>k v. r = JObj ((''jsonrpc'', JStr JSONRPCVersion) # opt_field ''id'' ident @ [(k, v)]) \<and>
     k \<in> {''result'', ''error''})"

lemma is_answer_response:
  "is_answer ident (successResponse ident v)" "is_answer ident (errorResponse ident code message data)"
  by (auto simp: is_answer_def successResponse_def errorResponse_def)

lemma respond_answer: "\<exists>a. respond ident r = Some a \<and> is_answer ident a"
  by (simp add: respond_def is_answer_response split: sum.split)

lemma route_answer:
  assumes "route ev req sm = (sm', Inr ans)"
  shows "if rq_Method req = ''initialized'' then ans = None else \<exists>a. ans = Some a \<and> is_answer (rq_ID req) a"
proof (cases "rq_Method req = ''initialized''")
  case True
  then show ?thesis using assms by (auto simp: route_def split: prod.splits)
next
  case False
  have "(\<exists>r. ans = respond (rq_ID req) r) \<or> (\<exists>c m d. ans = Some (errorResponse (rq_ID req) c m d))"
    using assms False by (auto simp: route_def Let_def map_sum_def split: prod.splits if_splits sum.splits)
  then show ?thesis using False respond_answer is_answer_response by (elim disjE exE) auto
qed

lemma HandleRequest_answer:
  assumes "HandleRequest ev (Inr j) sm = (sm', Inr ans)"
  shows "if unanswered_request j then ans = None else \<exists>a. ans = Some a \<and> is_answer (request_id j) a"
proof (cases "dec_rpc_request j")
  case None
  then show ?thesis using assms
    by (auto simp: HandleRequest_def unanswered_request_def request_id_def is_answer_response)
next
  case (Some req)
  show ?thesis
  proof (cases "rq_JSONRPC req = JSONRPCVersion")
    case True
    then have "route ev req sm = (sm', Inr ans)" using assms Some by (simp add: HandleRequest_def)
    from route_answer[OF this] show ?thesis using Some True by (simp add: unanswered_request_def request_id_def)
  next
    case False
    then show ?thesis using assms Some
      by (auto simp: HandleRequest_def unanswered_request_def request_id_def is_answer_response)
  qed
qed

lemma handle_batch_answers:
  assumes "handle_batch ev js acc sm = (sm', Inr rs)"
  shows "\<exists>new. rs = acc @ new \<and> list_all2 (\<lambda>j. is_answer (request_id j)) (filter (\<lambda>j. \<not> unanswered_request j) js) new"
  using assms
proof (induction js arbitrary: acc sm)
  case (Cons j js)
  obtain sm1 a where h: "HandleRequest ev (Inr j) sm = (sm1, a)" by (rule prod.exhaust)
  then obtain ans where a: "a = Inr ans" using Cons.prems by (cases a) auto
  note ok = HandleRequest_answer[OF h[unfolded a]]
  show ?case
  proof (cases ans)
    case None
    then have "handle_batch ev js acc sm1 = (sm', Inr rs)" using Cons.prems h a by simp
    from Cons.IH[OF this] show ?thesis using ok None by (simp split: if_splits)
  next
    case (Some r)
    then have "handle_batch ev js (acc @ [r]) sm1 = (sm', Inr rs)" using Cons.prems h a by simp
    from Cons.IH[OF this] obtain new where "rs = (acc @ [r]) @ new"
      "list_all2 (\<lambda>j. is_answer (request_id j)) (filter (\<lambda>j. \<not> unanswered_request j) js) new" by blast
    then show ?thesis using ok Some by (intro exI[of _ "r # new"]) (simp split: if_splits)
  qed
qed simp

text \<open>
  Unless a handler panics, a batch is answered by one answer for every request of it, in
  order, each with the identifier of its request and either a result or an error; only \<open>initialized\<close>
  gets none, and a batch with no answer at all is not answered.
\<close>
theorem batch_answered_in_order:
  assumes "HandleBatchRequest ev (Inr (JArr js)) sm = (sm', Inr ans)"
  shows "\<exists>rs. ans = (if rs = [] then None else Some (JArr rs)) \<and>
    list_all2 (\<lambda>j. is_answer (request_id j)) (filter (\<lambda>j. \<not> unanswered_request j) js) rs"
proof -
  obtain sm1 r where h: "handle_batch ev js [] sm = (sm1, r)" by (rule prod.exhaust)
  then obtain rs where r: "r = Inr rs" using assms by (cases r) (auto simp: HandleBatchRequest_def)
  then have "ans = (if rs = [] then None else Some (JArr rs))" using assms h by (auto simp: HandleBatchRequest_def)
  then show ?thesis using handle_batch_answers[OF h[unfolded r]] by auto
qed

section \<open>Before the initialisation\<close>

definition initialize_request :: "string + json \<Rightarrow> bool" where
  "initialize_request request \<longleftrightarrow> (\<exists>j req. request = Inr j \<and> dec_rpc_request j = Some req \<and> rq_Method req = ''initialize'')"

lemma HandleRequest_uninitialized:
  assumes "\<not> sm_initialized s" "\<not> initialize_request request"
  shows "\<exists>ans. HandleRequest ev request (s, m) = ((s, m), Inr ans)"
proof (cases request)
  case (Inr j)
  show ?thesis
  proof (cases "dec_rpc_request j")
    case (Some req)
    then have "rq_Method req \<noteq> ''initialize''" using assms(2) Inr by (auto simp: initialize_request_def)
    then have "\<exists>ans. route ev req (s, m) = ((s, m), Inr ans)"
      using assms(1)
      by (simp add: route_def Let_def handleToolsCall_def handleResourcesRead_def map_sum_def)
    then show ?thesis using Inr Some by (auto simp: HandleRequest_def)
  qed (simp add: HandleRequest_def Inr)
qed (simp add: HandleRequest_def)


section \<open>After the initialisation\<close>

definition call_request :: "string \<Rightarrow> json" where
  "call_request command = JObj [(''jsonrpc'', JStr ''2.0''), (''id'', JInt 1), (''method'', JStr ''tools/call''),
     (''params'', JObj [(''name'', JStr ''local_shell''), (''arguments'', JObj [(''command'', JStr command)])])]"

lemma call_request_dec:
  "dec_rpc_request (call_request c) = Some \<lparr>rq_JSONRPC = ''2.0'', rq_ID = Some (JInt 1), rq_Method = ''tools/call'',
     rq_Params = Some (JObj [(''name'', JStr ''local_shell''), (''arguments'', JObj [(''command'', JStr c)])])\<rparr>"
  by (simp add: dec_rpc_request_def call_request_def field_def ToLower_def lower_char_def)

lemma call_params_dec:
  "dec_call_params (JObj [(''name'', JStr ''local_shell''), (''arguments'', JObj [(''command'', JStr c)])]) =
     Some (''local_shell'', [''command'' \<mapsto> JStr c])"
  by (simp add: dec_call_params_def field_def ToLower_def lower_char_def fun_eq_iff)

text \<open>
  Property C27: to an initialised server a client can send any command, and the local shell starts it, no
  matter what the whitelist forbids: the handlers are called without the safety checker, and without it
  the tool runs everything.
\<close>
theorem mcp_bypasses_checker:
  assumes "sm_initialized s" and "sm_registry s ''local_shell'' = Some (CreateLocalShellTool matches run)"
  shows "ma_log (snd (fst (HandleRequest ev (Inr (call_request command)) (s, m)))) = ma_log m @ [[''sh'', ''-c'', command]]"
proof -
  have "ma_log (fst (handleLocalShellTool matches run None [''command'' \<mapsto> JStr command] m)) =
      ma_log m @ [[''sh'', ''-c'', command]]"
    by (simp add: handleLocalShellTool_def arg_string_def run_tool_def start_def split: prod.splits)
  then show ?thesis
    using assms
    by (auto simp: HandleRequest_def call_request_dec call_params_dec route_def handleToolsCall_def need_params_def tool_Get_def
        CreateLocalShellTool_def JSONRPCVersion_def split: prod.splits)
qed

section \<open>Examples\<close>

definition shell_registry :: "nat registry" where
  "shell_registry = [''local_shell'' \<mapsto> CreateLocalShellTool (\<lambda>_ _. Some False) (\<lambda>argv w. (Suc w, [], True))]"

definition plain_env :: mcp_env where
  "plain_env = \<lparr>mv_mismatch = (\<lambda>_. []), mv_keys = (\<lambda>_. []), mv_params = (\<lambda>_. None), mv_order = [''local_shell'']\<rparr>"

definition idle_machine :: "nat machine" where
  "idle_machine = \<lparr>ma_world = 0, ma_log = []\<rparr>"

theorem mcp_bypasses_checker_witness:
  "ma_log (snd (fst (HandleRequest plain_env (Inr (call_request ''rm -rf /''))
     ((NewMCPServer shell_registry [])\<lparr>sm_initialized := True\<rparr>, idle_machine)))) = [[''sh'', ''-c'', ''rm -rf /'']]"
  using mcp_bypasses_checker[of "(NewMCPServer shell_registry [])\<lparr>sm_initialized := True\<rparr>" "\<lambda>_ _. Some False"
      "\<lambda>argv w. (Suc w, [], True)" plain_env "''rm -rf /''" idle_machine]
  by (simp add: NewMCPServer_def shell_registry_def idle_machine_def)


theorem batch_answered_in_order_witness:
  "\<exists>rs. list_all2 (\<lambda>j. is_answer (request_id j)) (filter (\<lambda>j. \<not> unanswered_request j) [call_request ''ls'']) rs"
proof -
  obtain ans where "HandleRequest plain_env (Inr (call_request ''ls'')) (NewMCPServer shell_registry [], idle_machine) =
      ((NewMCPServer shell_registry [], idle_machine), Inr ans)"
    using HandleRequest_uninitialized[of "NewMCPServer shell_registry []" "Inr (call_request ''ls'')"]
    by (auto simp: NewMCPServer_def initialize_request_def call_request_dec)
  then obtain sm' b where "HandleBatchRequest plain_env (Inr (JArr [call_request ''ls'']))
      (NewMCPServer shell_registry [], idle_machine) = (sm', Inr b)"
    by (cases ans) (auto simp: HandleBatchRequest_def)
  from batch_answered_in_order[OF this] show ?thesis by (elim exE conjE) (rule exI)
qed

end
