(* ===== verification/Owl_Metrics.thy ===== *)
theory Owl_Metrics
  imports Owl_Rules "HOL-Library.Multiset"
begin

text \<open>
  \<open>internal/metrics\<close>: the readings of a machine, and the two users of the package that turn them into
  numbers of their own, \<open>internal/agent-node/metrics.go\<close> and the resources in
  \<open>internal/mcp/resource_system.go\<close> (in \<open>Owl_McpSystem\<close>). What gopsutil answers is a record of the
  model, \<open>readings\<close>, whose fields are its calls; of a call that returns a value and an error that the code
  ignores the field holds the value. Tests of sorting by a key that ties leave open are for any sorting.
\<close>

subsection \<open>Numbers as text\<close>

text \<open>\<open>%.kf\<close>: the nearest decimal, of two equally near the even one.\<close>

definition round_even :: "real \<Rightarrow> int" where
  "round_even x =
     (let f = \<lfloor>x\<rfloor>; d = x - of_int f in
      if d < 1 / 2 then f else if d > 1 / 2 then f + 1 else if even f then f else f + 1)"

definition fixed :: "nat \<Rightarrow> real \<Rightarrow> string" where
  "fixed k x =
     (let digits = show_nat (nat (round_even (\<bar>x\<bar> * 10 ^ k)));
          padded = replicate (k + 1 - length digits) (CHR ''0'') @ digits;
          whole = take (length padded - k) padded
      in (if x < 0 then ''-'' else []) @ whole @ (if k = 0 then [] else ''.'' @ drop (length padded - k) padded))"

definition KB :: nat where "KB = 1024"
definition MB :: nat where "MB = KB * 1024"
definition GB :: nat where "GB = MB * 1024"
definition TB :: nat where "TB = GB * 1024"

lemmas byte_units = KB_def MB_def GB_def TB_def

definition formatBytesWithPrecision :: "nat \<Rightarrow> nat \<Rightarrow> string" where
  "formatBytesWithPrecision bytes precision =
     (let show_in = (\<lambda>u name. fixed precision (real bytes / real u) @ '' '' @ name) in
      if bytes \<ge> TB then show_in TB ''TB''
      else if bytes \<ge> GB then show_in GB ''GB''
      else if bytes \<ge> MB then show_in MB ''MB''
      else if bytes \<ge> KB then show_in KB ''KB''
      else show_nat bytes @ '' B'')"

definition FormatBytes :: "nat \<Rightarrow> string" where
  "FormatBytes bytes = formatBytesWithPrecision bytes 2"

definition FormatBytesSimple :: "nat \<Rightarrow> string" where
  "FormatBytesSimple bytes = formatBytesWithPrecision bytes 1"

definition formatUptime :: "nat \<Rightarrow> string" where
  "formatUptime seconds =
     (let days = seconds div 86400; hours = seconds mod 86400 div 3600; minutes = seconds mod 3600 div 60 in
      if days > 0 then show_nat days @ ('' '' @ [CHR 0xE5, CHR 0xA4, CHR 0xA9] @ '' '') @ show_nat hours @ ('' '' @ [CHR 0xE5, CHR 0xB0, CHR 0x8F, CHR 0xE6, CHR 0x97, CHR 0xB6] @ '' '') @ show_nat minutes @ ('' '' @ [CHR 0xE5, CHR 0x88, CHR 0x86, CHR 0xE9, CHR 0x92, CHR 0x9F])
      else if hours > 0 then show_nat hours @ ('' '' @ [CHR 0xE5, CHR 0xB0, CHR 0x8F, CHR 0xE6, CHR 0x97, CHR 0xB6] @ '' '') @ show_nat minutes @ ('' '' @ [CHR 0xE5, CHR 0x88, CHR 0x86, CHR 0xE9, CHR 0x92, CHR 0x9F])
      else show_nat minutes @ ('' '' @ [CHR 0xE5, CHR 0x88, CHR 0x86, CHR 0xE9, CHR 0x92, CHR 0x9F]))"

subsection \<open>What gopsutil answers\<close>

record vm_stat =
  vt_Total :: nat
  vt_Available :: nat
  vt_Used :: nat
  vt_UsedPercent :: real
  vt_Buffers :: nat
  vt_Cached :: nat

record disk_stat =
  ku_Path :: string
  ku_Fstype :: string
  ku_Total :: nat
  ku_Free :: nat
  ku_Used :: nat
  ku_UsedPercent :: real

record partition_stat =
  qs_Device :: string
  qs_Mountpoint :: string
  qs_Fstype :: string

record network_interface =
  ni_Name :: string
  ni_BytesSent :: nat
  ni_BytesRecv :: nat
  ni_PacketsSent :: nat
  ni_PacketsRecv :: nat
  ni_ErrIn :: nat
  ni_ErrOut :: nat
  ni_DropIn :: nat
  ni_DropOut :: nat

record host_stat =
  ht_Hostname :: string
  ht_OS :: string
  ht_Platform :: string
  ht_PlatformVersion :: string
  ht_KernelVersion :: string
  ht_KernelArch :: string
  ht_Uptime :: nat
  ht_BootTime :: nat

record process_stat =
  ps_Pid :: int
  ps_Name :: string
  ps_MemoryPercent :: real
  ps_MemoryRSS :: "string + nat option"
  ps_Username :: string
  ps_CPUPercent :: real
  ps_CreateTime :: int
  ps_Cmdline :: string
  ps_Status :: "string + string list"

record readings =
  rd_now :: gotime
  rd_NumCPU :: int
  rd_percent :: "string + real list"
  rd_load :: "string + (real \<times> real \<times> real) option"
  rd_memory :: "string + vm_stat"
  rd_swap :: "string + (nat \<times> nat \<times> nat) option"
  rd_usage :: "string \<Rightarrow> string + disk_stat"
  rd_partitions :: "string + partition_stat list"
  rd_counters :: "bool \<Rightarrow> string + network_interface list"
  rd_host :: "string + host_stat"
  rd_uptime :: "string + nat"
  rd_processes :: "string + process_stat list"

subsection \<open>Metrics\<close>

record cpu_metrics =
  cu_UsagePercent :: real
  cu_Cores :: int
  cu_LoadAvg1 :: real
  cu_LoadAvg5 :: real
  cu_LoadAvg15 :: real
  cu_Timestamp :: gotime

record memory_metrics =
  mu_Total :: nat
  mu_Available :: nat
  mu_Used :: nat
  mu_UsagePercent :: real
  mu_SwapTotal :: nat
  mu_SwapUsed :: nat
  mu_SwapFree :: nat
  mu_Buffers :: nat
  mu_Cached :: nat
  mu_Timestamp :: gotime

record disk_partition =
  dp_Device :: string
  dp_MountPoint :: string
  dp_FSType :: string
  dp_Total :: nat
  dp_Used :: nat
  dp_Free :: nat
  dp_UsagePercent :: real

record disk_metrics =
  du_Partitions :: "disk_partition list"
  du_Timestamp :: gotime

record network_metrics =
  nu_Interfaces :: "network_interface list"
  nu_Timestamp :: gotime

record system_info =
  yi_Hostname :: string
  yi_OS :: string
  yi_Platform :: string
  yi_PlatformVersion :: string
  yi_KernelVersion :: string
  yi_KernelArch :: string
  yi_Uptime :: nat
  yi_UptimeHuman :: string
  yi_BootTime :: nat
  yi_Timestamp :: gotime

record process_info =
  po_PID :: int
  po_Name :: string
  po_Username :: string
  po_CPUPercent :: real
  po_MemPercent :: real
  po_MemoryRSS :: nat
  po_Status :: string
  po_CreateTime :: int
  po_CommandLine :: string

record machine_metrics =
  mm_CPU :: "cpu_metrics option"
  mm_Memory :: "memory_metrics option"
  mm_Disk :: "disk_metrics option"
  mm_Network :: "network_metrics option"
  mm_System :: "system_info option"
  mm_Processes :: "process_info list"
  mm_Timestamp :: gotime

record collector_option =
  op_IncludeCPU :: bool
  op_IncludeMemory :: bool
  op_IncludeDisk :: bool
  op_IncludeNetwork :: bool
  op_IncludeSystem :: bool
  op_IncludeProcesses :: bool
  op_DiskMountPoints :: "string list"
  op_TopNProcesses :: int

definition DefaultOption :: collector_option where
  "DefaultOption = \<lparr>op_IncludeCPU = True, op_IncludeMemory = True, op_IncludeDisk = True, op_IncludeNetwork = False,
     op_IncludeSystem = False, op_IncludeProcesses = False, op_DiskMountPoints = [''/''], op_TopNProcesses = 10\<rparr>"

definition FullOption :: collector_option where
  "FullOption = \<lparr>op_IncludeCPU = True, op_IncludeMemory = True, op_IncludeDisk = True, op_IncludeNetwork = True,
     op_IncludeSystem = True, op_IncludeProcesses = True, op_DiskMountPoints = [], op_TopNProcesses = 10\<rparr>"

definition CollectCPU :: "readings \<Rightarrow> string + cpu_metrics" where
  "CollectCPU rd =
     (let usage = (case rd_percent rd of Inr (p # _) \<Rightarrow> p | _ \<Rightarrow> 0);
          (l1, l5, l15) = (case rd_load rd of Inr (Some l) \<Rightarrow> l | _ \<Rightarrow> (0, 0, 0))
      in Inr \<lparr>cu_UsagePercent = usage, cu_Cores = rd_NumCPU rd, cu_LoadAvg1 = l1, cu_LoadAvg5 = l5,
              cu_LoadAvg15 = l15, cu_Timestamp = rd_now rd\<rparr>)"

definition GetCPUUsage :: "readings \<Rightarrow> string + real" where
  "GetCPUUsage rd = (case rd_percent rd of Inl e \<Rightarrow> Inl e | Inr (p # _) \<Rightarrow> Inr p | Inr [] \<Rightarrow> Inr 0)"

definition GetLoadAvg :: "readings \<Rightarrow> string + real \<times> real \<times> real" where
  "GetLoadAvg rd = (case rd_load rd of Inl e \<Rightarrow> Inl e | Inr (Some l) \<Rightarrow> Inr l | Inr None \<Rightarrow> Inr (0, 0, 0))"

definition CollectMemory :: "readings \<Rightarrow> string + memory_metrics" where
  "CollectMemory rd =
     (case rd_memory rd of
        Inl e \<Rightarrow> Inl e
      | Inr vm \<Rightarrow>
          let (total, used, free) = (case rd_swap rd of Inr (Some s) \<Rightarrow> s | _ \<Rightarrow> (0, 0, 0)) in
          Inr \<lparr>mu_Total = vt_Total vm, mu_Available = vt_Available vm, mu_Used = vt_Used vm,
               mu_UsagePercent = vt_UsedPercent vm, mu_SwapTotal = total, mu_SwapUsed = used, mu_SwapFree = free,
               mu_Buffers = vt_Buffers vm, mu_Cached = vt_Cached vm, mu_Timestamp = rd_now rd\<rparr>)"

definition GetMemoryUsage :: "readings \<Rightarrow> string + real" where
  "GetMemoryUsage rd = map_sum (\<lambda>e. e) vt_UsedPercent (rd_memory rd)"

definition GetMemoryInfo :: "readings \<Rightarrow> string + nat \<times> nat \<times> nat \<times> real" where
  "GetMemoryInfo rd =
     map_sum (\<lambda>e. e) (\<lambda>vm. (vt_Total vm, vt_Available vm, vt_Used vm, vt_UsedPercent vm)) (rd_memory rd)"

text \<open>A mount point whose usage cannot be read is left out; with no mount points, all partitions are read.\<close>

definition partition_of :: "string \<Rightarrow> string \<Rightarrow> string \<Rightarrow> disk_stat \<Rightarrow> disk_partition" where
  "partition_of device mount fstype u = \<lparr>dp_Device = device, dp_MountPoint = mount, dp_FSType = fstype,
     dp_Total = ku_Total u, dp_Used = ku_Used u, dp_Free = ku_Free u, dp_UsagePercent = ku_UsedPercent u\<rparr>"

definition CollectDisk :: "readings \<Rightarrow> string list \<Rightarrow> string + disk_metrics" where
  "CollectDisk rd mountPoints =
     (let pack = (\<lambda>ps. \<lparr>du_Partitions = ps, du_Timestamp = rd_now rd\<rparr>) in
      if mountPoints \<noteq> []
      then Inr (pack (concat (map (\<lambda>mp. case rd_usage rd mp of
              Inl _ \<Rightarrow> [] | Inr u \<Rightarrow> [partition_of (ku_Fstype u) (ku_Path u) (ku_Fstype u) u]) mountPoints)))
      else case rd_partitions rd of
        Inl e \<Rightarrow> Inl e
      | Inr parts \<Rightarrow> Inr (pack (concat (map (\<lambda>p. case rd_usage rd (qs_Mountpoint p) of
              Inl _ \<Rightarrow> [] | Inr u \<Rightarrow> [partition_of (qs_Device p) (qs_Mountpoint p) (qs_Fstype p) u]) parts))))"

definition GetDiskUsage :: "readings \<Rightarrow> string \<Rightarrow> string + real" where
  "GetDiskUsage rd mountPoint = map_sum (\<lambda>e. e) ku_UsedPercent (rd_usage rd mountPoint)"

definition GetDiskInfo :: "readings \<Rightarrow> string \<Rightarrow> string + nat \<times> nat \<times> nat \<times> real" where
  "GetDiskInfo rd mountPoint =
     map_sum (\<lambda>e. e) (\<lambda>u. (ku_Total u, ku_Used u, ku_Free u, ku_UsedPercent u)) (rd_usage rd mountPoint)"

definition GetAllDiskUsage :: "readings \<Rightarrow> string + disk_partition list" where
  "GetAllDiskUsage rd = map_sum (\<lambda>e. e) du_Partitions (CollectDisk rd [])"

definition CollectNetwork :: "readings \<Rightarrow> string + network_metrics" where
  "CollectNetwork rd =
     (case rd_counters rd True of
        Inl e \<Rightarrow> Inl e
      | Inr counters \<Rightarrow> Inr \<lparr>nu_Interfaces = counters, nu_Timestamp = rd_now rd\<rparr>)"

definition GetNetworkIO :: "readings \<Rightarrow> string + nat \<times> nat" where
  "GetNetworkIO rd =
     (case rd_counters rd False of
        Inl e \<Rightarrow> Inl e
      | Inr (c # _) \<Rightarrow> Inr (ni_BytesSent c, ni_BytesRecv c)
      | Inr [] \<Rightarrow> Inr (0, 0))"

definition GetNetworkInterfaces :: "readings \<Rightarrow> string + network_interface list" where
  "GetNetworkInterfaces rd = map_sum (\<lambda>e. e) nu_Interfaces (CollectNetwork rd)"

definition CollectSystem :: "readings \<Rightarrow> string + system_info" where
  "CollectSystem rd =
     (case rd_host rd of
        Inl e \<Rightarrow> Inl e
      | Inr h \<Rightarrow> Inr \<lparr>yi_Hostname = ht_Hostname h, yi_OS = ht_OS h, yi_Platform = ht_Platform h,
            yi_PlatformVersion = ht_PlatformVersion h, yi_KernelVersion = ht_KernelVersion h,
            yi_KernelArch = ht_KernelArch h, yi_Uptime = ht_Uptime h, yi_UptimeHuman = formatUptime (ht_Uptime h),
            yi_BootTime = ht_BootTime h, yi_Timestamp = rd_now rd\<rparr>)"

definition GetUptime :: "readings \<Rightarrow> string + nat" where
  "GetUptime rd = rd_uptime rd"

definition GetHostname :: "readings \<Rightarrow> string + string" where
  "GetHostname rd = map_sum (\<lambda>e. e) ht_Hostname (rd_host rd)"

definition GetOSInfo :: "readings \<Rightarrow> string + string \<times> string \<times> string \<times> string" where
  "GetOSInfo rd = map_sum (\<lambda>e. e) (\<lambda>h. (ht_OS h, ht_Platform h, ht_PlatformVersion h, ht_KernelVersion h)) (rd_host rd)"

subsection \<open>Processes\<close>

definition collectProcessInfo :: "process_stat \<Rightarrow> bool \<Rightarrow> process_info" where
  "collectProcessInfo p full =
     (let info = \<lparr>po_PID = ps_Pid p, po_Name = ps_Name p, po_Username = [], po_CPUPercent = 0,
            po_MemPercent = ps_MemoryPercent p,
            po_MemoryRSS = (case ps_MemoryRSS p of Inr (Some rss) \<Rightarrow> rss | _ \<Rightarrow> 0),
            po_Status = [], po_CreateTime = 0, po_CommandLine = []\<rparr>
      in if full
         then info\<lparr>po_Username := ps_Username p, po_CPUPercent := ps_CPUPercent p, po_CreateTime := ps_CreateTime p,
                po_CommandLine := ps_Cmdline p, po_Status := (case ps_Status p of Inr (s # _) \<Rightarrow> s | _ \<Rightarrow> [])\<rparr>
         else info)"

text \<open>
  \<open>sort.Slice\<close> is not stable: \<open>srt key\<close> stands for it, with the order of processes of the same key open.
\<close>

type_synonym process_sort = "(process_info \<Rightarrow> real) \<Rightarrow> process_info list \<Rightarrow> process_info list"

definition sorts_down :: "process_sort \<Rightarrow> bool" where
  "sorts_down srt \<longleftrightarrow> (\<forall>key ps. mset (srt key ps) = mset ps \<and> sorted (map (\<lambda>p. - key p) (srt key ps)))"

definition top_processes :: "process_sort \<Rightarrow> readings \<Rightarrow> bool \<Rightarrow> (process_info \<Rightarrow> real) \<Rightarrow> int \<Rightarrow> string + process_info list" where
  "top_processes srt rd full key topN =
     (let n = (if topN \<le> 0 then 10 else topN) in
      case rd_processes rd of
        Inl e \<Rightarrow> Inl e
      | Inr procs \<Rightarrow>
          let infos = srt key (map (\<lambda>p. collectProcessInfo p full) procs) in
          Inr (if int (length infos) > n then take (nat n) infos else infos))"

definition CollectProcesses :: "process_sort \<Rightarrow> readings \<Rightarrow> int \<Rightarrow> string + process_info list" where
  "CollectProcesses srt rd topN = top_processes srt rd True po_CPUPercent topN"

definition GetTopProcessesByCPU :: "process_sort \<Rightarrow> readings \<Rightarrow> int \<Rightarrow> string + process_info list" where
  "GetTopProcessesByCPU srt rd topN = CollectProcesses srt rd topN"

definition GetTopProcessesByMemory :: "process_sort \<Rightarrow> readings \<Rightarrow> int \<Rightarrow> string + process_info list" where
  "GetTopProcessesByMemory srt rd topN = top_processes srt rd False po_MemPercent topN"

subsection \<open>Collecting all\<close>

text \<open>
  \<open>Collect\<close> runs one goroutine for each kind of metric and waits for all of them. Each either stores its
  result, under the lock, or sends its error; the first error in the channel is returned beside what the
  others have stored. \<open>done\<close> is the order in which the goroutines do so.
\<close>

datatype collect_job = CollectsCPU | CollectsMemory | CollectsDisk | CollectsNetwork | CollectsSystem | CollectsProcesses

definition started :: "collector_option \<Rightarrow> collect_job list" where
  "started opt =
     (if op_IncludeCPU opt then [CollectsCPU] else []) @ (if op_IncludeMemory opt then [CollectsMemory] else []) @
     (if op_IncludeDisk opt then [CollectsDisk] else []) @ (if op_IncludeNetwork opt then [CollectsNetwork] else []) @
     (if op_IncludeSystem opt then [CollectsSystem] else []) @ (if op_IncludeProcesses opt then [CollectsProcesses] else [])"

fun run_job :: "process_sort \<Rightarrow> readings \<Rightarrow> collector_option \<Rightarrow> collect_job \<Rightarrow> string + (machine_metrics \<Rightarrow> machine_metrics)" where
  "run_job srt rd opt CollectsCPU = map_sum (\<lambda>e. e) (\<lambda>v m. m\<lparr>mm_CPU := Some v\<rparr>) (CollectCPU rd)"
| "run_job srt rd opt CollectsMemory = map_sum (\<lambda>e. e) (\<lambda>v m. m\<lparr>mm_Memory := Some v\<rparr>) (CollectMemory rd)"
| "run_job srt rd opt CollectsDisk = map_sum (\<lambda>e. e) (\<lambda>v m. m\<lparr>mm_Disk := Some v\<rparr>) (CollectDisk rd (op_DiskMountPoints opt))"
| "run_job srt rd opt CollectsNetwork = map_sum (\<lambda>e. e) (\<lambda>v m. m\<lparr>mm_Network := Some v\<rparr>) (CollectNetwork rd)"
| "run_job srt rd opt CollectsSystem = map_sum (\<lambda>e. e) (\<lambda>v m. m\<lparr>mm_System := Some v\<rparr>) (CollectSystem rd)"
| "run_job srt rd opt CollectsProcesses =
     map_sum (\<lambda>e. e) (\<lambda>v m. m\<lparr>mm_Processes := v\<rparr>) (CollectProcesses srt rd (op_TopNProcesses opt))"

definition no_metrics :: "gotime \<Rightarrow> machine_metrics" where
  "no_metrics t = \<lparr>mm_CPU = None, mm_Memory = None, mm_Disk = None, mm_Network = None, mm_System = None,
     mm_Processes = [], mm_Timestamp = t\<rparr>"

fun wait_all ::
  "process_sort \<Rightarrow> readings \<Rightarrow> collector_option \<Rightarrow> collect_job list \<Rightarrow> machine_metrics \<times> string list \<Rightarrow>
   machine_metrics \<times> string list" where
  "wait_all srt rd opt [] s = s"
| "wait_all srt rd opt (j # js) (m, errs) =
     (case run_job srt rd opt j of
        Inl e \<Rightarrow> wait_all srt rd opt js (m, errs @ [e])
      | Inr store \<Rightarrow> wait_all srt rd opt js (store m, errs))"

text \<open>The options are \<open>None\<close> for a nil pointer. The error is the first in the channel.\<close>

definition opt_or_default :: "collector_option option \<Rightarrow> collector_option" where
  "opt_or_default opt = (case opt of None \<Rightarrow> DefaultOption | Some p \<Rightarrow> p)"

definition metrics_Collect ::
  "process_sort \<Rightarrow> readings \<Rightarrow> collect_job list \<Rightarrow> collector_option option \<Rightarrow> machine_metrics \<times> string option" where
  "metrics_Collect srt rd done opt =
     (case wait_all srt rd (opt_or_default opt) done (no_metrics (rd_now rd), []) of
        (m, []) \<Rightarrow> (m, None)
      | (m, e # _) \<Rightarrow> (m, Some e))"

definition metrics_Quick :: "process_sort \<Rightarrow> readings \<Rightarrow> collect_job list \<Rightarrow> machine_metrics \<times> string option" where
  "metrics_Quick srt rd done = metrics_Collect srt rd done (Some DefaultOption)"

definition metrics_Full :: "process_sort \<Rightarrow> readings \<Rightarrow> collect_job list \<Rightarrow> machine_metrics \<times> string option" where
  "metrics_Full srt rd done = metrics_Collect srt rd done (Some FullOption)"

subsection \<open>Thresholds\<close>

text \<open>The usage, whether it is above the threshold, and an error.\<close>

type_synonym threshold_result = "real \<times> bool \<times> string option"

definition check_above :: "real \<Rightarrow> string + real \<Rightarrow> threshold_result" where
  "check_above threshold r = (case r of Inl e \<Rightarrow> (-1, False, Some e) | Inr usage \<Rightarrow> (usage, usage > threshold, None))"

definition CheckDiskUsage :: "readings \<Rightarrow> string \<Rightarrow> real \<Rightarrow> threshold_result" where
  "CheckDiskUsage rd mountPoint threshold = check_above threshold (GetDiskUsage rd mountPoint)"

definition CheckMemoryUsage :: "readings \<Rightarrow> real \<Rightarrow> threshold_result" where
  "CheckMemoryUsage rd threshold = check_above threshold (GetMemoryUsage rd)"

definition CheckCPUUsage :: "readings \<Rightarrow> real \<Rightarrow> threshold_result" where
  "CheckCPUUsage rd threshold = check_above threshold (GetCPUUsage rd)"

definition CheckLoadAvg :: "readings \<Rightarrow> real \<Rightarrow> threshold_result" where
  "CheckLoadAvg rd threshold = check_above threshold (map_sum (\<lambda>e. e) fst (GetLoadAvg rd))"

record threshold_check =
  th_Name :: string
  th_Current :: real
  th_Threshold :: real
  th_Exceeded :: bool
  th_Error :: string

definition threshold_entry :: "string \<Rightarrow> real \<Rightarrow> threshold_result \<Rightarrow> threshold_check" where
  "threshold_entry name threshold r =
     (let (usage, exceeded, err) = r in
      \<lparr>th_Name = name, th_Current = usage, th_Threshold = threshold, th_Exceeded = exceeded,
       th_Error = (case err of None \<Rightarrow> [] | Some e \<Rightarrow> e)\<rparr>)"

definition CheckAllThresholds :: "readings \<Rightarrow> real \<Rightarrow> real \<Rightarrow> real \<Rightarrow> string \<Rightarrow> threshold_check list" where
  "CheckAllThresholds rd cpuThreshold memThreshold diskThreshold diskMountPoint =
     [threshold_entry ''cpu'' cpuThreshold (CheckCPUUsage rd cpuThreshold),
      threshold_entry ''memory'' memThreshold (CheckMemoryUsage rd memThreshold),
      threshold_entry ''disk'' diskThreshold (CheckDiskUsage rd diskMountPoint diskThreshold)]"

subsection \<open>The metrics of an agent\<close>

definition agent_option :: "bool \<Rightarrow> collector_option" where
  "agent_option includeDisk = \<lparr>op_IncludeCPU = True, op_IncludeMemory = True, op_IncludeDisk = includeDisk,
     op_IncludeNetwork = False, op_IncludeSystem = True, op_IncludeProcesses = False, op_DiskMountPoints = [''/''],
     op_TopNProcesses = 0\<rparr>"

definition no_system_metrics :: "gotime \<Rightarrow> system_metrics" where
  "no_system_metrics t = \<lparr>sm_CPUUsage = 0, sm_MemoryUsage = 0, sm_MemoryTotal = 0, sm_MemoryFree = 0, sm_DiskUsage = 0,
     sm_DiskTotal = 0, sm_DiskFree = 0, sm_LoadAvg1 = 0, sm_LoadAvg5 = 0, sm_LoadAvg15 = 0, sm_Uptime = 0,
     sm_Timestamp = t\<rparr>"

definition agent_Collect :: "process_sort \<Rightarrow> readings \<Rightarrow> collect_job list \<Rightarrow> bool \<Rightarrow> system_metrics" where
  "agent_Collect srt rd done includeDisk =
     (case metrics_Collect srt rd done (Some (agent_option includeDisk)) of
        (m, Some e) \<Rightarrow> no_system_metrics (rd_now rd)
      | (m, None) \<Rightarrow>
          let r0 = no_system_metrics (rd_now rd);
              r1 = (case mm_CPU m of None \<Rightarrow> r0
                    | Some c \<Rightarrow> r0\<lparr>sm_CPUUsage := cu_UsagePercent c, sm_LoadAvg1 := cu_LoadAvg1 c,
                        sm_LoadAvg5 := cu_LoadAvg5 c, sm_LoadAvg15 := cu_LoadAvg15 c\<rparr>);
              r2 = (case mm_Memory m of None \<Rightarrow> r1
                    | Some y \<Rightarrow> r1\<lparr>sm_MemoryTotal := mu_Total y, sm_MemoryFree := mu_Available y,
                        sm_MemoryUsage := mu_UsagePercent y\<rparr>);
              r3 = (case mm_Disk m of
                      Some d \<Rightarrow> (case du_Partitions d of [] \<Rightarrow> r2
                        | p # _ \<Rightarrow> r2\<lparr>sm_DiskTotal := dp_Total p, sm_DiskFree := dp_Free p, sm_DiskUsage := dp_UsagePercent p\<rparr>)
                    | None \<Rightarrow> r2)
          in (case mm_System m of None \<Rightarrow> r3 | Some y \<Rightarrow> r3\<lparr>sm_Uptime := wrap64 (int (yi_Uptime y))\<rparr>))"

text \<open>A program's output and error; the first counts even when there is an error.\<close>

definition CheckServiceStatus :: "(string list \<Rightarrow> string \<times> string option) \<Rightarrow> string \<Rightarrow> bool \<times> string option" where
  "CheckServiceStatus run serviceName =
     (let (out, err) = run [''systemctl'', ''is-active'', serviceName] in (TrimSpace out = ''active'', err))"

definition CheckProcessExists :: "(string list \<Rightarrow> string \<times> string option) \<Rightarrow> string \<Rightarrow> bool" where
  "CheckProcessExists run processName = (snd (run [''pgrep'', ''-x'', processName]) = None)"

end
