(* ===== verification/Owl_McpResources.thy ===== *)
theory Owl_McpResources
  imports Owl_Mcp
begin

text \<open>
  The resources of the MCP server: \<open>internal/mcp/resource_docker.go\<close> and \<open>resource_logs.go\<close>. Programs and
  files belong to a world of any type; \<open>de_run\<close> gives the standard output of a program or an error,
  \<open>de_json\<close> parses a text, \<open>de_mismatch\<close> is the error of a value that does not fit, \<open>de_indent\<close> prints a value. Maps are written with their keys in order, a nil
  slice as null. Timeouts are those of the programs.
\<close>

record 'w docker_env =
  de_run :: "string list \<Rightarrow> 'w \<Rightarrow> 'w \<times> (string + string)"
  de_now :: "'w \<Rightarrow> string"
  de_json :: "string \<Rightarrow> string + json"
  de_mismatch :: "json \<Rightarrow> string"
  de_indent :: "json \<Rightarrow> string"

definition mk_resource :: "string \<Rightarrow> string \<Rightarrow> string \<Rightarrow> string \<Rightarrow> mcp_resource" where
  "mk_resource uri name description mime =
     \<lparr>mr_URI = uri, mr_Name = name, mr_Description = description, mr_MimeType = mime\<rparr>"

definition json_contents :: "'w docker_env \<Rightarrow> string \<Rightarrow> json \<Rightarrow> resource_contents" where
  "json_contents de uri v = \<lparr>rc_URI = uri, rc_MimeType = ''application/json'', rc_Text = de_indent de v, rc_Blob = []\<rparr>"

subsection \<open>Docker\<close>

text \<open>The lines of an output that have at least \<open>n\<close> columns, split at the bars.\<close>

definition bar_rows :: "nat \<Rightarrow> string \<Rightarrow> string list list" where
  "bar_rows n out =
     filter (\<lambda>p. length p \<ge> n) (map (split_on CHR 0x7C) (filter (\<lambda>line. line \<noteq> []) (split_on CHR 0x0A (TrimSpace out))))"

definition slice_json :: "json list \<Rightarrow> json" where
  "slice_json rows = (if rows = [] then JNull else JArr rows)"

definition count_json :: "json list \<Rightarrow> json" where
  "count_json rows = JInt (int (length rows))"

record docker_container =
  dc_ID :: string
  dc_Name :: string
  dc_Image :: string
  dc_Status :: string
  dc_State :: string
  dc_Created :: string
  dc_Ports :: string

definition enc_docker_container :: "docker_container \<Rightarrow> json" where
  "enc_docker_container c = JObj [(''id'', JStr (dc_ID c)), (''name'', JStr (dc_Name c)), (''image'', JStr (dc_Image c)),
     (''status'', JStr (dc_Status c)), (''state'', JStr (dc_State c)), (''created'', JStr (dc_Created c)),
     (''ports'', JStr (dc_Ports c))]"

definition listContainers :: "'w docker_env \<Rightarrow> 'w \<Rightarrow> 'w \<times> (string + docker_container list)" where
  "listContainers de w =
     (case de_run de [''docker'', ''ps'', ''-a'', ''--format'',
          ''{{.ID}}|{{.Names}}|{{.Image}}|{{.Status}}|{{.State}}|{{.CreatedAt}}|{{.Ports}}''] w of
        (w', Inl e) \<Rightarrow> (w', Inl e)
      | (w', Inr out) \<Rightarrow> (w', Inr (map (\<lambda>p. \<lparr>dc_ID = p ! 0, dc_Name = p ! 1, dc_Image = p ! 2, dc_Status = p ! 3,
            dc_State = p ! 4, dc_Created = p ! 5, dc_Ports = p ! 6\<rparr>) (bar_rows 7 out))))"

definition docker_static :: "mcp_resource list" where
  "docker_static = [mk_resource ''docker://containers'' [CHR 0xE5, CHR 0xAE, CHR 0xB9, CHR 0xE5, CHR 0x99, CHR 0xA8, CHR 0xE5, CHR 0x88, CHR 0x97,
     CHR 0xE8, CHR 0xA1, CHR 0xA8] ([CHR 0xE6, CHR 0x89, CHR 0x80, CHR 0xE6, CHR 0x9C, CHR 0x89] @ '' Docker '' @ [CHR 0xE5,
     CHR 0xAE, CHR 0xB9, CHR 0xE5, CHR 0x99, CHR 0xA8]) ''application/json'',
     mk_resource ''docker://images'' [CHR 0xE9, CHR 0x95, CHR 0x9C, CHR 0xE5, CHR 0x83, CHR 0x8F, CHR 0xE5, CHR 0x88, CHR 0x97,
     CHR 0xE8, CHR 0xA1, CHR 0xA8] ([CHR 0xE6, CHR 0x89, CHR 0x80, CHR 0xE6, CHR 0x9C, CHR 0x89] @ '' Docker '' @ [CHR 0xE9,
     CHR 0x95, CHR 0x9C, CHR 0xE5, CHR 0x83, CHR 0x8F]) ''application/json'',
     mk_resource ''docker://networks'' [CHR 0xE7, CHR 0xBD, CHR 0x91, CHR 0xE7, CHR 0xBB, CHR 0x9C, CHR 0xE5, CHR 0x88, CHR 0x97,
     CHR 0xE8, CHR 0xA1, CHR 0xA8] (''Docker '' @ [CHR 0xE7, CHR 0xBD, CHR 0x91, CHR 0xE7, CHR 0xBB, CHR 0x9C, CHR 0xE9,
     CHR 0x85, CHR 0x8D, CHR 0xE7, CHR 0xBD, CHR 0xAE]) ''application/json'',
     mk_resource ''docker://volumes'' [CHR 0xE5, CHR 0x8D, CHR 0xB7, CHR 0xE5, CHR 0x88, CHR 0x97, CHR 0xE8, CHR 0xA1, CHR 0xA8] (''Docker '' @ [CHR 0xE5, CHR 0xAD, CHR 0x98, CHR 0xE5, CHR 0x82, CHR 0xA8, CHR 0xE5,
     CHR 0x8D, CHR 0xB7]) ''application/json'',
     mk_resource ''docker://stats'' [CHR 0xE5, CHR 0xAE, CHR 0xB9, CHR 0xE5, CHR 0x99, CHR 0xA8, CHR 0xE7, CHR 0xBB, CHR 0x9F,
     CHR 0xE8, CHR 0xAE, CHR 0xA1] [CHR 0xE5, CHR 0xAE, CHR 0xB9, CHR 0xE5, CHR 0x99, CHR 0xA8, CHR 0xE8, CHR 0xB5, CHR 0x84,
     CHR 0xE6, CHR 0xBA, CHR 0x90, CHR 0xE4, CHR 0xBD, CHR 0xBF, CHR 0xE7, CHR 0x94,
     CHR 0xA8, CHR 0xE7, CHR 0xBB, CHR 0x9F, CHR 0xE8, CHR 0xAE, CHR 0xA1] ''application/json'',
     mk_resource ''docker://system'' [CHR 0xE7, CHR 0xB3, CHR 0xBB, CHR 0xE7, CHR 0xBB, CHR 0x9F, CHR 0xE4, CHR 0xBF, CHR 0xA1,
     CHR 0xE6, CHR 0x81, CHR 0xAF] (''Docker '' @ [CHR 0xE7, CHR 0xB3, CHR 0xBB, CHR 0xE7, CHR 0xBB, CHR 0x9F, CHR 0xE4,
     CHR 0xBF, CHR 0xA1, CHR 0xE6, CHR 0x81, CHR 0xAF, CHR 0xE5, CHR 0x92, CHR 0x8C,
     CHR 0xE7, CHR 0xA3, CHR 0x81, CHR 0xE7, CHR 0x9B, CHR 0x98, CHR 0xE4, CHR 0xBD,
     CHR 0xBF, CHR 0xE7, CHR 0x94, CHR 0xA8]) ''application/json'']"

definition docker_ListResources :: "'w docker_env \<Rightarrow> 'w \<Rightarrow> 'w \<times> mcp_resource list" where
  "docker_ListResources de w =
     (case listContainers de w of
        (w', Inl _) \<Rightarrow> (w', docker_static)
      | (w', Inr cs) \<Rightarrow> (w', docker_static @ map (\<lambda>c. mk_resource (''docker://container/'' @ dc_Name c) (dc_Name c)
            (([CHR 0xE5, CHR 0xAE, CHR 0xB9, CHR 0xE5, CHR 0x99, CHR 0xA8] @ '': '') @ dc_Name c @ '' ('' @ dc_Status c @ '')'') ''application/json'') cs))"

definition getContainers :: "'w docker_env \<Rightarrow> 'w \<Rightarrow> 'w \<times> (string + resource_contents)" where
  "getContainers de w =
     (case listContainers de w of
        (w', Inl e) \<Rightarrow> (w', Inl e)
      | (w', Inr cs) \<Rightarrow>
          let rows = map enc_docker_container cs in
          (w', Inr (json_contents de ''docker://containers'' (JObj [(''containers'', slice_json rows),
             (''count'', count_json rows), (''timestamp'', JStr (de_now de w'))]))))"

definition table_resource ::
  "'w docker_env \<Rightarrow> string list \<Rightarrow> nat \<Rightarrow> (string list \<Rightarrow> json) \<Rightarrow> (string \<Rightarrow> json list \<Rightarrow> json) \<Rightarrow> string \<Rightarrow> 'w \<Rightarrow>
   'w \<times> (string + resource_contents)" where
  "table_resource de argv n row whole uri w =
     (case de_run de argv w of
        (w', Inl e) \<Rightarrow> (w', Inl e)
      | (w', Inr out) \<Rightarrow> (w', Inr (json_contents de uri (whole (de_now de w') (map row (bar_rows n out))))))"

definition getImages :: "'w docker_env \<Rightarrow> 'w \<Rightarrow> 'w \<times> (string + resource_contents)" where
  "getImages de w = table_resource de [''docker'', ''images'', ''--format'', ''{{.Repository}}:{{.Tag}}|{{.ID}}|{{.Size}}|{{.CreatedAt}}''] 4
     (\<lambda>p. JObj [(''created'', JStr (p ! 3)), (''id'', JStr (p ! 1)), (''name'', JStr (p ! 0)), (''size'', JStr (p ! 2))])
     (\<lambda>ts rows. JObj [(''count'', count_json rows), (''images'', slice_json rows), (''timestamp'', JStr ts)]) ''docker://images'' w"

definition getNetworks :: "'w docker_env \<Rightarrow> 'w \<Rightarrow> 'w \<times> (string + resource_contents)" where
  "getNetworks de w = table_resource de [''docker'', ''network'', ''ls'', ''--format'', ''{{.ID}}|{{.Name}}|{{.Driver}}|{{.Scope}}''] 4
     (\<lambda>p. JObj [(''driver'', JStr (p ! 2)), (''id'', JStr (p ! 0)), (''name'', JStr (p ! 1)), (''scope'', JStr (p ! 3))])
     (\<lambda>ts rows. JObj [(''count'', count_json rows), (''networks'', slice_json rows), (''timestamp'', JStr ts)]) ''docker://networks'' w"

definition getVolumes :: "'w docker_env \<Rightarrow> 'w \<Rightarrow> 'w \<times> (string + resource_contents)" where
  "getVolumes de w = table_resource de [''docker'', ''volume'', ''ls'', ''--format'', ''{{.Name}}|{{.Driver}}|{{.Mountpoint}}''] 3
     (\<lambda>p. JObj [(''driver'', JStr (p ! 1)), (''mountpoint'', JStr (p ! 2)), (''name'', JStr (p ! 0))])
     (\<lambda>ts rows. JObj [(''count'', count_json rows), (''timestamp'', JStr ts), (''volumes'', slice_json rows)]) ''docker://volumes'' w"

definition getStats :: "'w docker_env \<Rightarrow> 'w \<Rightarrow> 'w \<times> (string + resource_contents)" where
  "getStats de w = table_resource de [''docker'', ''stats'', ''--no-stream'', ''--format'', ''{{.Name}}|{{.CPUPerc}}|{{.MemUsage}}|{{.MemPerc}}|{{.NetIO}}|{{.BlockIO}}''] 6
     (\<lambda>p. JObj [(''block_io'', JStr (p ! 5)), (''cpu_percent'', JStr (p ! 1)), (''mem_percent'', JStr (p ! 3)), (''mem_usage'', JStr (p ! 2)), (''name'', JStr (p ! 0)), (''net_io'', JStr (p ! 4))])
     (\<lambda>ts rows. JObj [(''count'', count_json rows), (''stats'', slice_json rows), (''timestamp'', JStr ts)]) ''docker://stats'' w"

definition disk_usage :: "string \<Rightarrow> json" where
  "disk_usage out =
     slice_json (map (\<lambda>p. JObj [(''reclaimable'', JStr (p ! 2)), (''size'', JStr (p ! 1)), (''type'', JStr (p ! 0))])
       (filter (\<lambda>p. length p \<ge> 3) (map (split_on CHR 0x09) (split_on CHR 0x0A (TrimSpace out)))))"

definition getSystemInfo :: "'w docker_env \<Rightarrow> 'w \<Rightarrow> 'w \<times> (string + resource_contents)" where
  "getSystemInfo de w =
     (let ts = de_now de w;
          (w1, version) = de_run de [''docker'', ''version'', ''--format'', ''{{.Server.Version}}''] w;
          (w2, info) = de_run de [''docker'', ''info'', ''--format'',
             ''{{.Containers}} {{.ContainersRunning}} {{.ContainersPaused}} {{.ContainersStopped}} {{.Images}}''] w1;
          (w3, df) = de_run de [''docker'', ''system'', ''df'', ''--format'', (''{{.Type}}'' @ [CHR 0x09] @ ''{{.Size}}'' @ [CHR 0x09] @ ''{{.Reclaimable}}'')] w2;
          parts = (case info of Inl _ \<Rightarrow> [] | Inr out \<Rightarrow> Fields out);
          some = (\<lambda>k i. omit (length parts < 5) k (JStr (parts ! i)))
      in (w3, Inr (json_contents de ''docker://system'' (JObj (
           some ''containers_paused'' 2 @ some ''containers_running'' 1 @ some ''containers_stopped'' 3 @ some ''containers_total'' 0 @
           (case df of Inl _ \<Rightarrow> [] | Inr out \<Rightarrow> [(''disk_usage'', disk_usage out)]) @
           some ''images'' 4 @ [(''timestamp'', JStr ts)] @
           (case version of Inl _ \<Rightarrow> [] | Inr out \<Rightarrow> [(''version'', JStr (TrimSpace out))]))))))"

text \<open>A key of a decoded object, and the object under it.\<close>

definition obj_get :: "string \<Rightarrow> args \<Rightarrow> json" where
  "obj_get k m = (case m k of None \<Rightarrow> JNull | Some v \<Rightarrow> v)"

definition obj_at :: "string \<Rightarrow> args \<Rightarrow> args option" where
  "obj_at k m = (case m k of Some (JObj kvs) \<Rightarrow> dec_map Some (JObj kvs) | _ \<Rightarrow> None)"

definition container_object :: "args \<Rightarrow> string \<Rightarrow> string \<Rightarrow> json go" where
  "container_object c ts name =
     (let config = obj_at ''Config'' c; net = obj_at ''NetworkSettings'' c;
          raw = (\<lambda>k k' m. case m of None \<Rightarrow> [] | Some m' \<Rightarrow> (case m' k' of Some (JObj o') \<Rightarrow> [(k, JObj o')] | _ \<Rightarrow> []));
          rest = (\<lambda>id_field. JObj (
            (case config of None \<Rightarrow> [] | Some m \<Rightarrow> [(''env'', obj_get ''Env'' m)]) @ id_field @
            (case config of None \<Rightarrow> [] | Some m \<Rightarrow> [(''image'', obj_get ''Image'' m)]) @
            (case c ''Mounts'' of Some (JArr ms) \<Rightarrow> [(''mounts'', JArr ms)] | _ \<Rightarrow> []) @
            [(''name'', JStr name)] @ raw ''networks'' ''Networks'' net @ raw ''ports'' ''Ports'' net @
            (case c ''State'' of Some (JObj o') \<Rightarrow> [(''state'', JObj o')] | _ \<Rightarrow> []) @ [(''timestamp'', JStr ts)]))
      in case c ''Id'' of
           Some (JStr i) \<Rightarrow> if length i < 12 then Inl IndexRange else Inr (rest [(''id'', JStr (take 12 i))])
         | _ \<Rightarrow> Inr (rest []))"

definition getContainerDetail :: "'w docker_env \<Rightarrow> string \<Rightarrow> 'w \<Rightarrow> 'w \<times> (string + resource_contents) go" where
  "getContainerDetail de name w =
     (case de_run de [''docker'', ''inspect'', name] w of
        (w', Inl _) \<Rightarrow> (w', Inr (Inl (([CHR 0xE5, CHR 0xAE, CHR 0xB9, CHR 0xE5, CHR 0x99, CHR 0xA8, CHR 0xE4, CHR 0xB8, CHR 0x8D,
     CHR 0xE5, CHR 0xAD, CHR 0x98, CHR 0xE5, CHR 0x9C, CHR 0xA8] @ '': '') @ name)))
      | (w', Inr out) \<Rightarrow>
          (case de_json de out of
             Inl e \<Rightarrow> (w', Inr (Inl e))
           | Inr j \<Rightarrow>
               (case dec_list (dec_map Some) j of
                  None \<Rightarrow> (w', Inr (Inl (de_mismatch de j)))
                | Some [] \<Rightarrow> (w', Inr (Inl (([CHR 0xE5, CHR 0xAE, CHR 0xB9, CHR 0xE5, CHR 0x99, CHR 0xA8, CHR 0xE4, CHR 0xB8, CHR 0x8D,
     CHR 0xE5, CHR 0xAD, CHR 0x98, CHR 0xE5, CHR 0x9C, CHR 0xA8] @ '': '') @ name)))
                | Some (c # _) \<Rightarrow>
                    (w', map_sum (\<lambda>p. p) (\<lambda>v. Inr (json_contents de (''docker://container/'' @ name) v))
                       (container_object c (de_now de w') name)))))"

definition docker_ReadResource :: "'w docker_env \<Rightarrow> string \<Rightarrow> 'w \<Rightarrow> 'w \<times> (string + resource_contents) go" where
  "docker_ReadResource de uri w =
     (let plain = (\<lambda>f. case f de w of (w', r) \<Rightarrow> (w', Inr r)) in
      if uri = ''docker://containers'' then plain getContainers
      else if uri = ''docker://images'' then plain getImages
      else if uri = ''docker://networks'' then plain getNetworks
      else if uri = ''docker://volumes'' then plain getVolumes
      else if uri = ''docker://stats'' then plain getStats
      else if uri = ''docker://system'' then plain getSystemInfo
      else if HasPrefix uri ''docker://container/'' then getContainerDetail de (TrimPrefix uri ''docker://container/'') w
      else (w, Inr (Inl (([CHR 0xE6, CHR 0x9C, CHR 0xAA, CHR 0xE7, CHR 0x9F, CHR 0xA5, CHR 0xE8, CHR 0xB5, CHR 0x84,
     CHR 0xE6, CHR 0xBA, CHR 0x90] @ '': '') @ uri))))"

subsection \<open>Log files\<close>

text \<open>
  Files are what the system has at a path: their bytes, or the error of opening them. \<open>fl_stat\<close> says whether
  \<open>os.Stat\<close> finds a path, \<open>fl_glob\<close> the files of a directory that end in \<open>.log\<close>.
\<close>

record log_files =
  fl_open :: "string \<Rightarrow> string + string"
  fl_stat :: "string \<Rightarrow> bool"
  fl_glob :: "string \<Rightarrow> string + string list"

text \<open>\<open>filepath.Clean\<close> on the elements of a path: dots vanish, and two dots remove the element before.\<close>

fun clean_parts :: "bool \<Rightarrow> string list \<Rightarrow> string list \<Rightarrow> string list" where
  "clean_parts rooted acc [] = rev acc"
| "clean_parts rooted acc (p # ps) =
     (if p = [] \<or> p = ''.'' then clean_parts rooted acc ps
      else if p = ''..'' then
        (case acc of
           [] \<Rightarrow> if rooted then clean_parts rooted [] ps else clean_parts rooted [p] ps
         | q # qs \<Rightarrow> if q = ''..'' then clean_parts rooted (p # acc) ps else clean_parts rooted qs ps)
      else clean_parts rooted (p # acc) ps)"

definition Clean :: "string \<Rightarrow> string" where
  "Clean path =
     (let rooted = HasPrefix path ''/''; body = Join ''/'' (clean_parts rooted [] (split_on CHR ''/'' path)) in
      if path = [] then ''.'' else if rooted then ''/'' @ body else if body = [] then ''.'' else body)"

text \<open>\<open>filepath.Join\<close> of two elements; empty ones are left out.\<close>

definition Join2 :: "string \<Rightarrow> string \<Rightarrow> string" where
  "Join2 dir name =
     (if dir = [] \<and> name = [] then []
      else if dir = [] then Clean name else if name = [] then Clean dir else Clean (dir @ ''/'' @ name))"

text \<open>\<open>filepath.Base\<close>\<close>

definition Base :: "string \<Rightarrow> string" where
  "Base path =
     (let s = rev (dropWhile (\<lambda>c. c = CHR ''/'') (rev path)) in
      if path = [] then ''.'' else if s = [] then ''/'' else rev (takeWhile (\<lambda>c. c \<noteq> CHR ''/'') (rev s)))"

definition NewLogResourceProvider :: "string list \<Rightarrow> string list" where
  "NewLogResourceProvider logDirs = (if logDirs = [] then [''/var/log''] else logDirs)"

definition log_static :: "mcp_resource list" where
  "log_static = [mk_resource ''logs://system/syslog'' [CHR 0xE7, CHR 0xB3, CHR 0xBB, CHR 0xE7, CHR 0xBB, CHR 0x9F, CHR 0xE6, CHR 0x97, CHR 0xA5,
     CHR 0xE5, CHR 0xBF, CHR 0x97] ([CHR 0xE7, CHR 0xB3, CHR 0xBB, CHR 0xE7, CHR 0xBB, CHR 0x9F, CHR 0xE6, CHR 0x97, CHR 0xA5,
     CHR 0xE5, CHR 0xBF, CHR 0x97] @ '' (/var/log/syslog '' @ [CHR 0xE6, CHR 0x88,
     CHR 0x96] @ '' /var/log/messages)'') ''text/plain'',
     mk_resource ''logs://system/auth'' [CHR 0xE8, CHR 0xAE, CHR 0xA4, CHR 0xE8, CHR 0xAF, CHR 0x81, CHR 0xE6, CHR 0x97, CHR 0xA5,
     CHR 0xE5, CHR 0xBF, CHR 0x97] [CHR 0xE8, CHR 0xAE, CHR 0xA4, CHR 0xE8, CHR 0xAF, CHR 0x81, CHR 0xE5, CHR 0x92, CHR 0x8C,
     CHR 0xE5, CHR 0xAE, CHR 0x89, CHR 0xE5, CHR 0x85, CHR 0xA8, CHR 0xE6, CHR 0x97,
     CHR 0xA5, CHR 0xE5, CHR 0xBF, CHR 0x97] ''text/plain'',
     mk_resource ''logs://system/dmesg'' [CHR 0xE5, CHR 0x86, CHR 0x85, CHR 0xE6, CHR 0xA0, CHR 0xB8, CHR 0xE6, CHR 0x97, CHR 0xA5,
     CHR 0xE5, CHR 0xBF, CHR 0x97] [CHR 0xE5, CHR 0x86, CHR 0x85, CHR 0xE6, CHR 0xA0, CHR 0xB8, CHR 0xE7, CHR 0x8E, CHR 0xAF,
     CHR 0xE5, CHR 0xBD, CHR 0xA2, CHR 0xE7, CHR 0xBC, CHR 0x93, CHR 0xE5, CHR 0x86,
     CHR 0xB2, CHR 0xE5, CHR 0x8C, CHR 0xBA, CHR 0xE6, CHR 0x97, CHR 0xA5, CHR 0xE5,
     CHR 0xBF, CHR 0x97] ''text/plain'',
     mk_resource ''logs://nginx/access'' (''Nginx '' @ [CHR 0xE8, CHR 0xAE, CHR 0xBF, CHR 0xE9, CHR 0x97, CHR 0xAE, CHR 0xE6,
     CHR 0x97, CHR 0xA5, CHR 0xE5, CHR 0xBF, CHR 0x97]) (''Nginx HTTP '' @ [CHR 0xE8, CHR 0xAE, CHR 0xBF, CHR 0xE9, CHR 0x97, CHR 0xAE, CHR 0xE6,
     CHR 0x97, CHR 0xA5, CHR 0xE5, CHR 0xBF, CHR 0x97]) ''text/plain'',
     mk_resource ''logs://nginx/error'' (''Nginx '' @ [CHR 0xE9, CHR 0x94, CHR 0x99, CHR 0xE8, CHR 0xAF, CHR 0xAF, CHR 0xE6,
     CHR 0x97, CHR 0xA5, CHR 0xE5, CHR 0xBF, CHR 0x97]) (''Nginx '' @ [CHR 0xE9, CHR 0x94, CHR 0x99, CHR 0xE8, CHR 0xAF, CHR 0xAF, CHR 0xE6,
     CHR 0x97, CHR 0xA5, CHR 0xE5, CHR 0xBF, CHR 0x97]) ''text/plain'']"

definition log_ListResources :: "log_files \<Rightarrow> string list \<Rightarrow> mcp_resource list" where
  "log_ListResources fl logDirs = log_static @ concat (map (\<lambda>dir.
     case fl_glob fl (Join2 dir ''*.log'') of
       Inl _ \<Rightarrow> []
     | Inr files \<Rightarrow> map (\<lambda>file. mk_resource (''logs://file/'' @ Base file) (Base file) (([CHR 0xE6, CHR 0x97, CHR 0xA5, CHR 0xE5, CHR 0xBF, CHR 0x97, CHR 0xE6, CHR 0x96, CHR 0x87,
     CHR 0xE4, CHR 0xBB, CHR 0xB6] @ '': '') @ file) ''text/plain'') files)
     logDirs)"

definition findLogFile :: "log_files \<Rightarrow> string list \<Rightarrow> string list \<Rightarrow> string" where
  "findLogFile fl logDirs names =
     (case find (fl_stat fl) (concat (map (\<lambda>dir. map (Join2 dir) names) logDirs)) of None \<Rightarrow> [] | Some path \<Rightarrow> path)"

text \<open>
  \<open>bufio.Scanner\<close> on a text: lines without their end, until one is too long for its buffer of 64 KB.
\<close>

definition drop_cr :: "string \<Rightarrow> string" where
  "drop_cr line = (if line \<noteq> [] \<and> last line = CHR 0x0D then butlast line else line)"

definition scan_lines :: "string \<Rightarrow> string list" where
  "scan_lines text =
     (let ls = split_on CHR 0x0A text; ls' = (if last ls = [] then butlast ls else ls)
      in map drop_cr (takeWhile (\<lambda>l. length l < 65536) ls'))"

definition last_lines :: "nat \<Rightarrow> string list \<Rightarrow> string list" where
  "last_lines n ls = drop (length ls - n) ls"

definition tailFile :: "log_files \<Rightarrow> string \<Rightarrow> nat \<Rightarrow> string + string" where
  "tailFile fl path lines =
     (case fl_open fl path of
        Inl e \<Rightarrow> Inl e
      | Inr text \<Rightarrow>
          let result = (if length text < 1024 * 1024 then scan_lines text
                        else let offset = length text - lines * 500 in
                          (if offset > 0 then drop 1 (scan_lines (drop offset text)) else scan_lines text))
          in Inr (Join [CHR 0x0A] (last_lines lines result)))"

definition res_readDmesg :: "log_files \<Rightarrow> string + resource_contents" where
  "res_readDmesg fl =
     (case fl_open fl ''/var/log/dmesg'' of
        Inl e \<Rightarrow> Inl (([CHR 0xE6, CHR 0x97, CHR 0xA0, CHR 0xE6, CHR 0xB3, CHR 0x95, CHR 0xE8, CHR 0xAF, CHR 0xBB,
     CHR 0xE5, CHR 0x8F, CHR 0x96] @ '' dmesg: '') @ e)
      | Inr text \<Rightarrow> Inr \<lparr>rc_URI = ''logs://system/dmesg'', rc_MimeType = ''text/plain'',
            rc_Text = Join [CHR 0x0A] (last_lines 100 (split_on CHR 0x0A text)), rc_Blob = []\<rparr>)"

definition log_path :: "log_files \<Rightarrow> string list \<Rightarrow> string \<Rightarrow> string" where
  "log_path fl logDirs uri =
     (if uri = ''logs://system/syslog'' then findLogFile fl logDirs [''syslog'', ''messages'']
      else if uri = ''logs://system/auth'' then findLogFile fl logDirs [''auth.log'', ''secure'']
      else if uri = ''logs://nginx/access'' then findLogFile fl logDirs [''nginx/access.log'', ''access.log'']
      else if uri = ''logs://nginx/error'' then findLogFile fl logDirs [''nginx/error.log'', ''error.log'']
      else if HasPrefix uri ''logs://file/''
      then (case find (fl_stat fl) (map (\<lambda>dir. Join2 dir (TrimPrefix uri ''logs://file/'')) logDirs) of
              None \<Rightarrow> [] | Some path \<Rightarrow> path)
      else [])"

definition log_ReadResource :: "log_files \<Rightarrow> string list \<Rightarrow> string \<Rightarrow> string + resource_contents" where
  "log_ReadResource fl logDirs uri =
     (if uri = ''logs://system/dmesg'' then res_readDmesg fl
      else let logPath = log_path fl logDirs uri in
        if logPath = [] then Inl (([CHR 0xE6, CHR 0x97, CHR 0xA5, CHR 0xE5, CHR 0xBF, CHR 0x97, CHR 0xE6, CHR 0x96, CHR 0x87,
     CHR 0xE4, CHR 0xBB, CHR 0xB6, CHR 0xE4, CHR 0xB8, CHR 0x8D, CHR 0xE5, CHR 0xAD,
     CHR 0x98, CHR 0xE5, CHR 0x9C, CHR 0xA8] @ '': '') @ uri)
        else case tailFile fl logPath 100 of
          Inl e \<Rightarrow> Inl e
        | Inr content \<Rightarrow> Inr \<lparr>rc_URI = uri, rc_MimeType = ''text/plain'', rc_Text = content, rc_Blob = []\<rparr>)"

text \<open>\<open>ParseLogLine\<close>; \<open>parse_time\<close> reads a time of the given layout.\<close>

record mcp_log_entry =
  ml_Timestamp :: gotime
  ml_Level :: string
  ml_Message :: string
  ml_Source :: string

text \<open>\<open>strings.SplitN(s, " ", n)\<close> for a positive \<open>n\<close>\<close>

fun split_n :: "nat \<Rightarrow> string \<Rightarrow> string list" where
  "split_n 0 s = []"
| "split_n (Suc 0) s = [s]"
| "split_n (Suc (Suc n)) s = (case Cut s '' '' of None \<Rightarrow> [s] | Some (a, b) \<Rightarrow> a # split_n (Suc n) b)"

definition level_of :: "string \<Rightarrow> string" where
  "level_of lineLower =
     (if Contains lineLower ''error'' \<or> Contains lineLower ''fatal'' then ''error''
      else if Contains lineLower ''warn'' then ''warning''
      else if Contains lineLower ''info'' then ''info''
      else if Contains lineLower ''debug'' then ''debug''
      else ''info'')"

definition ParseLogLine :: "(string \<Rightarrow> string \<Rightarrow> gotime option) \<Rightarrow> string \<Rightarrow> mcp_log_entry" where
  "ParseLogLine parse_time line =
     (let parts = split_n 6 line;
          plain = \<lparr>ml_Timestamp = zero_time, ml_Level = level_of (ToLower line), ml_Message = line, ml_Source = []\<rparr>
      in if length parts \<ge> 6
         then (case parse_time ''Jan  2 15:04:05'' (Join '' '' (take 3 parts)) of
                 None \<Rightarrow> plain
               | Some t \<Rightarrow> plain\<lparr>ml_Timestamp := t, ml_Source := parts ! 4, ml_Message := parts ! 5\<rparr>)
         else plain)"

subsection \<open>What can be read\<close>

lemma length_last_lines: "length (last_lines n ls) \<le> n"
  by (simp add: last_lines_def)

lemma scan_short:
  assumes "\<forall>l \<in> set ls. CHR 0x0A \<notin> set l \<and> length l < 65536 \<and> (l = [] \<or> last l \<noteq> CHR 0x0D)"
  shows "scan_lines (concat (map (\<lambda>l. l @ [CHR 0x0A]) ls)) = ls"
proof -
  have split: "split_on CHR 0x0A (concat (map (\<lambda>l. l @ [CHR 0x0A]) ls)) = ls @ [[]]"
    using assms
  proof (induction ls)
    case (Cons l ls)
    have "split_on CHR 0x0A (l @ CHR 0x0A # s) = l # split_on CHR 0x0A s" if "CHR 0x0A \<notin> set l" for s
      using that by (induction l) (auto split: list.split)
    then show ?case using Cons by simp
  qed simp
  have tw: "takeWhile (\<lambda>l. length l < 65536) ls = ls" using assms by (intro takeWhile_eq_all_conv[THEN iffD2]) blast
  have dc: "map drop_cr ls = ls" using assms by (intro map_idI) (auto simp: drop_cr_def)
  show ?thesis unfolding scan_lines_def split by (simp add: Let_def tw dc)
qed

text \<open>
  Of a log file under a megabyte whose lines are shorter than the scanner's buffer the
  resource is exactly its last hundred lines, in order.
\<close>
theorem tail_is_last_lines:
  assumes "fl_open fl path = Inr (concat (map (\<lambda>l. l @ [CHR 0x0A]) ls))"
    and "length (concat (map (\<lambda>l. l @ [CHR 0x0A]) ls)) < 1024 * 1024"
    and "\<forall>l \<in> set ls. CHR 0x0A \<notin> set l \<and> length l < 65536 \<and> (l = [] \<or> last l \<noteq> CHR 0x0D)"
  shows "tailFile fl path n = Inr (Join [CHR 0x0A] (drop (length ls - n) ls))"
  using assms(1,2) scan_short[OF assms(3)] by (simp add: tailFile_def last_lines_def)

text \<open>
  The name in \<open>logs://file/\<close> is not confined to the log directories: with dots in it any file
  that exists is read.
\<close>
theorem log_resource_escapes:
  assumes "fl_stat fl ''/etc/shadow''" "fl_open fl ''/etc/shadow'' = Inr content"
  shows "\<exists>c. log_ReadResource fl (NewLogResourceProvider []) ''logs://file/../../etc/shadow'' = Inr c \<and>
    tailFile fl ''/etc/shadow'' 100 = Inr (rc_Text c)"
proof -
  have "Join2 ''/var/log'' (TrimPrefix ''logs://file/../../etc/shadow'' ''logs://file/'') = ''/etc/shadow''"
    by (simp add: Join2_def Clean_def TrimPrefix_def Let_def)
  then have path: "log_path fl (NewLogResourceProvider []) ''logs://file/../../etc/shadow'' = ''/etc/shadow''"
    using assms(1) by (simp add: log_path_def NewLogResourceProvider_def)
  obtain t where "tailFile fl ''/etc/shadow'' 100 = Inr t" using assms(2) by (simp add: tailFile_def Let_def)
  then show ?thesis by (simp add: log_ReadResource_def path Let_def)
qed

definition shadow_files :: log_files where
  "shadow_files = \<lparr>fl_open = (\<lambda>_. Inr [CHR ''x'', CHR 0x0A]), fl_stat = (\<lambda>p. p = ''/etc/shadow''), fl_glob = (\<lambda>_. Inr [])\<rparr>"

theorem log_resource_escapes_witness:
  "\<exists>c. log_ReadResource shadow_files (NewLogResourceProvider []) ''logs://file/../../etc/shadow'' = Inr c \<and>
    tailFile shadow_files ''/etc/shadow'' 100 = Inr (rc_Text c)"
  by (rule log_resource_escapes[where content = "[CHR ''x'', CHR 0x0A]"]) (simp_all add: shadow_files_def)

theorem tail_is_last_lines_witness:
  "tailFile shadow_files ''/var/log/x'' 1 = Inr (Join [CHR 0x0A] (drop (length [''x''] - 1) [''x'']))"
  by (rule tail_is_last_lines) (simp_all add: shadow_files_def)

end
