(* ===== verification/Owl_McpSystem.thy ===== *)
theory Owl_McpSystem
  imports Owl_Metrics Owl_McpResources
begin

text \<open>
  \<open>internal/mcp/resource_system.go\<close>: the metrics of the machine as resources of the MCP server. \<open>now\<close> is the
  time of day as it is printed, \<open>indent\<close> prints a JSON value. Keys are written in order.
\<close>

definition system_ListResources :: "mcp_resource list" where
  "system_ListResources = [mk_resource ''system://metrics/cpu'' (''CPU '' @ [CHR 0xE4, CHR 0xBD, CHR 0xBF, CHR 0xE7, CHR 0x94, CHR 0xA8, CHR 0xE7, CHR 0x8E,
     CHR 0x87]) ([CHR 0xE5, CHR 0xBD, CHR 0x93, CHR 0xE5, CHR 0x89, CHR 0x8D] @ '' CPU '' @ [CHR 0xE4,
     CHR 0xBD, CHR 0xBF, CHR 0xE7, CHR 0x94, CHR 0xA8, CHR 0xE7, CHR 0x8E, CHR 0x87,
     CHR 0xE5, CHR 0x92, CHR 0x8C, CHR 0xE8, CHR 0xB4, CHR 0x9F, CHR 0xE8, CHR 0xBD,
     CHR 0xBD, CHR 0xE4, CHR 0xBF, CHR 0xA1, CHR 0xE6, CHR 0x81, CHR 0xAF]) ''application/json'',
     mk_resource ''system://metrics/memory'' [CHR 0xE5, CHR 0x86, CHR 0x85, CHR 0xE5, CHR 0xAD, CHR 0x98, CHR 0xE4, CHR 0xBD, CHR 0xBF,
     CHR 0xE7, CHR 0x94, CHR 0xA8] [CHR 0xE5, CHR 0x86, CHR 0x85, CHR 0xE5, CHR 0xAD, CHR 0x98, CHR 0xE4, CHR 0xBD, CHR 0xBF,
     CHR 0xE7, CHR 0x94, CHR 0xA8, CHR 0xE6, CHR 0x83, CHR 0x85, CHR 0xE5, CHR 0x86,
     CHR 0xB5] ''application/json'',
     mk_resource ''system://metrics/disk'' [CHR 0xE7, CHR 0xA3, CHR 0x81, CHR 0xE7, CHR 0x9B, CHR 0x98, CHR 0xE4, CHR 0xBD, CHR 0xBF,
     CHR 0xE7, CHR 0x94, CHR 0xA8] [CHR 0xE7, CHR 0xA3, CHR 0x81, CHR 0xE7, CHR 0x9B, CHR 0x98, CHR 0xE7, CHR 0xA9, CHR 0xBA,
     CHR 0xE9, CHR 0x97, CHR 0xB4, CHR 0xE4, CHR 0xBD, CHR 0xBF, CHR 0xE7, CHR 0x94,
     CHR 0xA8, CHR 0xE6, CHR 0x83, CHR 0x85, CHR 0xE5, CHR 0x86, CHR 0xB5] ''application/json'',
     mk_resource ''system://metrics/network'' [CHR 0xE7, CHR 0xBD, CHR 0x91, CHR 0xE7, CHR 0xBB, CHR 0x9C, CHR 0xE7, CHR 0x8A, CHR 0xB6,
     CHR 0xE6, CHR 0x80, CHR 0x81] [CHR 0xE7, CHR 0xBD, CHR 0x91, CHR 0xE7, CHR 0xBB, CHR 0x9C, CHR 0xE6, CHR 0x8E, CHR 0xA5,
     CHR 0xE5, CHR 0x8F, CHR 0xA3, CHR 0xE5, CHR 0x92, CHR 0x8C, CHR 0xE8, CHR 0xBF,
     CHR 0x9E, CHR 0xE6, CHR 0x8E, CHR 0xA5, CHR 0xE7, CHR 0x8A, CHR 0xB6, CHR 0xE6,
     CHR 0x80, CHR 0x81] ''application/json'',
     mk_resource ''system://metrics/overview'' [CHR 0xE7, CHR 0xB3, CHR 0xBB, CHR 0xE7, CHR 0xBB, CHR 0x9F, CHR 0xE6, CHR 0xA6, CHR 0x82,
     CHR 0xE8, CHR 0xA7, CHR 0x88] [CHR 0xE7, CHR 0xB3, CHR 0xBB, CHR 0xE7, CHR 0xBB, CHR 0x9F, CHR 0xE6, CHR 0x95, CHR 0xB4,
     CHR 0xE4, CHR 0xBD, CHR 0x93, CHR 0xE7, CHR 0x8A, CHR 0xB6, CHR 0xE6, CHR 0x80,
     CHR 0x81, CHR 0xE6, CHR 0xA6, CHR 0x82, CHR 0xE8, CHR 0xA7, CHR 0x88] ''application/json'']"

definition metrics_contents :: "(json \<Rightarrow> string) \<Rightarrow> string \<Rightarrow> fields \<Rightarrow> resource_contents" where
  "metrics_contents indent uri kvs =
     \<lparr>rc_URI = uri, rc_MimeType = ''application/json'', rc_Text = indent (JObj kvs), rc_Blob = []\<rparr>"

definition jnat :: "nat \<Rightarrow> json" where "jnat n = JInt (int n)"

definition getCPUMetrics :: "(json \<Rightarrow> string) \<Rightarrow> string \<Rightarrow> readings \<Rightarrow> string + resource_contents" where
  "getCPUMetrics indent now rd =
     (case CollectCPU rd of
        Inl e \<Rightarrow> Inl e
      | Inr c \<Rightarrow> Inr (metrics_contents indent ''system://metrics/cpu''
          [(''cores'', JInt (rd_NumCPU rd)), (''load_15m'', JReal (cu_LoadAvg15 c)), (''load_1m'', JReal (cu_LoadAvg1 c)),
           (''load_5m'', JReal (cu_LoadAvg5 c)), (''timestamp'', JStr now), (''usage_percent'', JReal (cu_UsagePercent c))]))"

text \<open>\<open>(Total - Used) / 1024\<close> is computed in 64 bits without sign.\<close>

definition free_kb :: "nat \<Rightarrow> nat \<Rightarrow> nat" where
  "free_kb all used = nat ((int all - int used) mod 2 ^ 64) div 1024"

definition getMemoryMetrics :: "(json \<Rightarrow> string) \<Rightarrow> string \<Rightarrow> readings \<Rightarrow> string + resource_contents" where
  "getMemoryMetrics indent now rd =
     (case CollectMemory rd of
        Inl e \<Rightarrow> Inl e
      | Inr m \<Rightarrow> Inr (metrics_contents indent ''system://metrics/memory''
          [(''available_kb'', jnat (mu_Available m div 1024)), (''buffers_kb'', jnat (mu_Buffers m div 1024)),
           (''cached_kb'', jnat (mu_Cached m div 1024)), (''free_kb'', jnat (free_kb (mu_Total m) (mu_Used m))),
           (''swap_free_kb'', jnat (mu_SwapFree m div 1024)), (''swap_total_kb'', jnat (mu_SwapTotal m div 1024)),
           (''timestamp'', JStr now), (''total_kb'', jnat (mu_Total m div 1024)),
           (''usage_percent'', JReal (mu_UsagePercent m))]))"

definition disk_entry :: "disk_partition \<Rightarrow> json" where
  "disk_entry p = JObj [(''available'', JStr (FormatBytesSimple (dp_Free p))), (''filesystem'', JStr (dp_Device p)),
     (''mount'', JStr (dp_MountPoint p)), (''size'', JStr (FormatBytesSimple (dp_Total p))),
     (''use_percent'', JStr (fixed 1 (dp_UsagePercent p) @ ''%'')), (''used'', JStr (FormatBytesSimple (dp_Used p)))]"

definition getDiskMetrics :: "(json \<Rightarrow> string) \<Rightarrow> string \<Rightarrow> readings \<Rightarrow> string + resource_contents" where
  "getDiskMetrics indent now rd =
     (case CollectDisk rd [] of
        Inl e \<Rightarrow> Inl e
      | Inr d \<Rightarrow> Inr (metrics_contents indent ''system://metrics/disk''
          [(''disks'', enc_list disk_entry (du_Partitions d)), (''timestamp'', JStr now)]))"

definition getNetworkMetrics :: "(json \<Rightarrow> string) \<Rightarrow> string \<Rightarrow> readings \<Rightarrow> string + resource_contents" where
  "getNetworkMetrics indent now rd =
     (case CollectNetwork rd of
        Inl e \<Rightarrow> Inl e
      | Inr n \<Rightarrow> Inr (metrics_contents indent ''system://metrics/network''
          [(''interfaces'', enc_list (\<lambda>i. JObj [(''name'', JStr (ni_Name i)), (''rx_bytes'', jnat (ni_BytesRecv i)),
              (''tx_bytes'', jnat (ni_BytesSent i))]) (nu_Interfaces n)),
           (''timestamp'', JStr now)]))"

definition getOverview :: "(json \<Rightarrow> string) \<Rightarrow> string \<Rightarrow> readings \<Rightarrow> string + resource_contents" where
  "getOverview indent now rd =
     (case CollectSystem rd of
        Inl e \<Rightarrow> Inl e
      | Inr y \<Rightarrow> Inr (metrics_contents indent ''system://metrics/overview''
          ([(''cpu_cores'', JInt (rd_NumCPU rd)), (''hostname'', JStr (yi_Hostname y))] @
           (case CollectMemory rd of Inl _ \<Rightarrow> [] | Inr m \<Rightarrow> [(''memory_total_mb'', jnat (mu_Total m div 1024 div 1024))]) @
           [(''os'', JStr (yi_Platform y @ '' '' @ yi_PlatformVersion y)), (''timestamp'', JStr now),
            (''uptime_human'', JStr (yi_UptimeHuman y)), (''uptime_seconds'', jnat (yi_Uptime y))])))"

definition system_ReadResource :: "(json \<Rightarrow> string) \<Rightarrow> string \<Rightarrow> string \<Rightarrow> readings \<Rightarrow> string + resource_contents" where
  "system_ReadResource indent now uri rd =
     (if uri = ''system://metrics/cpu'' then getCPUMetrics indent now rd
      else if uri = ''system://metrics/memory'' then getMemoryMetrics indent now rd
      else if uri = ''system://metrics/disk'' then getDiskMetrics indent now rd
      else if uri = ''system://metrics/network'' then getNetworkMetrics indent now rd
      else if uri = ''system://metrics/overview'' then getOverview indent now rd
      else Inl (([CHR 0xE6, CHR 0x9C, CHR 0xAA, CHR 0xE7, CHR 0x9F, CHR 0xA5, CHR 0xE8, CHR 0xB5, CHR 0x84,
     CHR 0xE6, CHR 0xBA, CHR 0x90] @ '': '') @ uri))"

lemma system_answer_listed:
  "system_ReadResource indent now uri rd = Inr c \<Longrightarrow>
   rc_URI c = uri \<and> (\<exists>r \<in> set system_ListResources. mr_URI r = uri \<and> mr_MimeType r = rc_MimeType c)"
  unfolding system_ReadResource_def
  by (auto simp: system_ListResources_def mk_resource_def getCPUMetrics_def getMemoryMetrics_def
      getDiskMetrics_def getNetworkMetrics_def getOverview_def metrics_contents_def split: if_splits sum.splits)

end
