(* ===== verification/Owl_MetricsProps.thy ===== *)
theory Owl_MetricsProps
  imports Owl_Metrics
begin

text \<open>
  What \<open>internal/metrics\<close> promises: the metrics do not depend on the order in which the goroutines end, the
  longest list of processes holds the largest ones, and the numbers shown to a reader are those measured.
\<close>

subsection \<open>Goroutines in any order\<close>

text \<open>What \<open>Collect\<close> should give: each part that is asked for and can be read.\<close>

definition readable :: "bool \<Rightarrow> string + 'a \<Rightarrow> 'a option" where
  "readable wanted r = (case r of Inl _ \<Rightarrow> None | Inr v \<Rightarrow> if wanted then Some v else None)"

definition expected_metrics :: "process_sort \<Rightarrow> readings \<Rightarrow> collector_option \<Rightarrow> machine_metrics" where
  "expected_metrics srt rd opt =
     \<lparr>mm_CPU = readable (op_IncludeCPU opt) (CollectCPU rd),
      mm_Memory = readable (op_IncludeMemory opt) (CollectMemory rd),
      mm_Disk = readable (op_IncludeDisk opt) (CollectDisk rd (op_DiskMountPoints opt)),
      mm_Network = readable (op_IncludeNetwork opt) (CollectNetwork rd),
      mm_System = readable (op_IncludeSystem opt) (CollectSystem rd),
      mm_Processes = (case readable (op_IncludeProcesses opt) (CollectProcesses srt rd (op_TopNProcesses opt)) of
         None \<Rightarrow> [] | Some ps \<Rightarrow> ps),
      mm_Timestamp = rd_now rd\<rparr>"

definition failures :: "process_sort \<Rightarrow> readings \<Rightarrow> collector_option \<Rightarrow> string set" where
  "failures srt rd opt = {e. \<exists>j \<in> set (started opt). run_job srt rd opt j = Inl e}"

lemma set_started:
  "CollectsCPU \<in> set (started opt) \<longleftrightarrow> op_IncludeCPU opt"
  "CollectsMemory \<in> set (started opt) \<longleftrightarrow> op_IncludeMemory opt"
  "CollectsDisk \<in> set (started opt) \<longleftrightarrow> op_IncludeDisk opt"
  "CollectsNetwork \<in> set (started opt) \<longleftrightarrow> op_IncludeNetwork opt"
  "CollectsSystem \<in> set (started opt) \<longleftrightarrow> op_IncludeSystem opt"
  "CollectsProcesses \<in> set (started opt) \<longleftrightarrow> op_IncludeProcesses opt"
  by (simp_all add: started_def)

text \<open>A part \<open>f\<close> of the metrics that only the goroutine \<open>j0\<close> stores.\<close>

lemma wait_all_part:
  assumes other: "\<And>j store m. j \<noteq> j0 \<Longrightarrow> run_job srt rd opt j = Inr store \<Longrightarrow> f (store m) = f m"
    and own: "run_job srt rd opt j0 = map_sum (\<lambda>e. e) g r" "\<And>v m. f (g v m) = h v"
  shows "f (fst (wait_all srt rd opt js (m, es))) =
    (case r of Inl _ \<Rightarrow> f m | Inr v \<Rightarrow> if j0 \<in> set js then h v else f m)"
proof (induction js arbitrary: m es)
  case (Cons j js)
  show ?case
    by (cases "run_job srt rd opt j"; cases "j = j0")
      (use own other in \<open>auto simp: Cons map_sum_def split: sum.splits\<close>)
qed (simp split: sum.split)

lemma other_jobs:
  "j \<noteq> CollectsCPU \<Longrightarrow> run_job srt rd opt j = Inr store \<Longrightarrow> mm_CPU (store m) = mm_CPU m"
  "j \<noteq> CollectsMemory \<Longrightarrow> run_job srt rd opt j = Inr store \<Longrightarrow> mm_Memory (store m) = mm_Memory m"
  "j \<noteq> CollectsDisk \<Longrightarrow> run_job srt rd opt j = Inr store \<Longrightarrow> mm_Disk (store m) = mm_Disk m"
  "j \<noteq> CollectsNetwork \<Longrightarrow> run_job srt rd opt j = Inr store \<Longrightarrow> mm_Network (store m) = mm_Network m"
  "j \<noteq> CollectsSystem \<Longrightarrow> run_job srt rd opt j = Inr store \<Longrightarrow> mm_System (store m) = mm_System m"
  "j \<noteq> CollectsProcesses \<Longrightarrow> run_job srt rd opt j = Inr store \<Longrightarrow> mm_Processes (store m) = mm_Processes m"
  "run_job srt rd opt j = Inr store \<Longrightarrow> mm_Timestamp (store m) = mm_Timestamp m"
  by (cases j, auto simp: map_sum_def split: sum.splits)+

lemma wait_all_timestamp: "mm_Timestamp (fst (wait_all srt rd opt js (m, es))) = mm_Timestamp m"
  by (induction js arbitrary: m es) (auto simp: other_jobs split: sum.split)

lemma wait_all_fields:
  "mm_CPU (fst (wait_all srt rd opt js (m, es))) =
    (case CollectCPU rd of Inl _ \<Rightarrow> mm_CPU m | Inr v \<Rightarrow> if CollectsCPU \<in> set js then Some v else mm_CPU m)"
  "mm_Memory (fst (wait_all srt rd opt js (m, es))) =
    (case CollectMemory rd of Inl _ \<Rightarrow> mm_Memory m | Inr v \<Rightarrow> if CollectsMemory \<in> set js then Some v else mm_Memory m)"
  "mm_Disk (fst (wait_all srt rd opt js (m, es))) =
    (case CollectDisk rd (op_DiskMountPoints opt) of Inl _ \<Rightarrow> mm_Disk m | Inr v \<Rightarrow> if CollectsDisk \<in> set js then Some v else mm_Disk m)"
  "mm_Network (fst (wait_all srt rd opt js (m, es))) =
    (case CollectNetwork rd of Inl _ \<Rightarrow> mm_Network m | Inr v \<Rightarrow> if CollectsNetwork \<in> set js then Some v else mm_Network m)"
  "mm_System (fst (wait_all srt rd opt js (m, es))) =
    (case CollectSystem rd of Inl _ \<Rightarrow> mm_System m | Inr v \<Rightarrow> if CollectsSystem \<in> set js then Some v else mm_System m)"
  "mm_Processes (fst (wait_all srt rd opt js (m, es))) =
    (case CollectProcesses srt rd (op_TopNProcesses opt) of Inl _ \<Rightarrow> mm_Processes m | Inr v \<Rightarrow> if CollectsProcesses \<in> set js then v else mm_Processes m)"
  by (rule wait_all_part[OF _ run_job.simps(1)] wait_all_part[OF _ run_job.simps(2)] wait_all_part[OF _ run_job.simps(3)]
      wait_all_part[OF _ run_job.simps(4)] wait_all_part[OF _ run_job.simps(5)] wait_all_part[OF _ run_job.simps(6)];
      simp add: other_jobs)+

lemma wait_all_metrics:
  assumes "set js = set (started opt)"
  shows "fst (wait_all srt rd opt js (no_metrics (rd_now rd), es)) = expected_metrics srt rd opt"
  by (rule machine_metrics.equality)
    (simp_all add: wait_all_fields wait_all_timestamp assms set_started expected_metrics_def readable_def
      no_metrics_def split: sum.split)

lemma wait_all_errors:
  "snd (wait_all srt rd opt js (m, es)) = es @ concat (map (\<lambda>j. case run_job srt rd opt j of Inl e \<Rightarrow> [e] | Inr _ \<Rightarrow> []) js)"
  by (induction js arbitrary: m es) (simp_all split: sum.split)

lemma collect_result:
  assumes "set done = set (started (opt_or_default opt))"
  obtains err where "metrics_Collect srt rd done opt = (expected_metrics srt rd (opt_or_default opt), err)"
    and "err = None \<longleftrightarrow> failures srt rd (opt_or_default opt) = {}"
    and "\<And>e. err = Some e \<Longrightarrow> e \<in> failures srt rd (opt_or_default opt)"
proof -
  let ?o = "opt_or_default opt"
  let ?w = "wait_all srt rd ?o done (no_metrics (rd_now rd), [])"
  have m: "fst ?w = expected_metrics srt rd ?o" by (rule wait_all_metrics[OF assms])
  have es: "set (snd ?w) = failures srt rd ?o"
    unfolding wait_all_errors failures_def using assms by (auto split: sum.splits)
  obtain es where w: "?w = (expected_metrics srt rd ?o, es)" using m by (metis prod.collapse)
  show thesis
  proof (cases es)
    case Nil
    then show ?thesis using w es by (intro that[of None]) (simp_all add: metrics_Collect_def)
  next
    case (Cons e tl)
    then show ?thesis using w es by (intro that[of "Some e"]) (auto simp: metrics_Collect_def)
  qed
qed

text \<open>
  Property C38: the metrics that \<open>Collect\<close> returns are the same in whatever order its goroutines end: every
  part that is asked for and can be read, and an error exactly when one of them failed, of one that failed.
\<close>
theorem collect_any_order:
  assumes "set done = set (started (opt_or_default opt))"
  shows "fst (metrics_Collect srt rd done opt) = expected_metrics srt rd (opt_or_default opt) \<and>
    (snd (metrics_Collect srt rd done opt) = None \<longleftrightarrow> failures srt rd (opt_or_default opt) = {}) \<and>
    (\<forall>e. snd (metrics_Collect srt rd done opt) = Some e \<longrightarrow> e \<in> failures srt rd (opt_or_default opt))"
  by (rule collect_result[OF assms, where srt = srt and rd = rd]) force

subsection \<open>The report of an agent\<close>

text \<open>
  When one of the readings fails, the report of an agent holds no number at all: the usage of
  the processor, which was read, is reported as zero like all others.
\<close>
theorem one_failure_hides_all:
  assumes "set done = set (started (agent_option includeDisk))"
    and "rd_memory rd = Inl e \<or> rd_host rd = Inl e"
  shows "agent_Collect srt rd done includeDisk = no_system_metrics (rd_now rd) \<and>
    fst (metrics_Collect srt rd done (Some (agent_option includeDisk))) =
      expected_metrics srt rd (agent_option includeDisk)"
proof -
  let ?o = "agent_option includeDisk"
  have "e \<in> failures srt rd ?o"
    using assms(2)
    by (auto simp: failures_def set_started agent_option_def CollectMemory_def CollectSystem_def
        intro: bexI[of _ CollectsMemory] bexI[of _ CollectsSystem])
  moreover obtain err where c: "metrics_Collect srt rd done (Some ?o) = (expected_metrics srt rd ?o, err)"
    and "err = None \<longleftrightarrow> failures srt rd ?o = {}"
    by (rule collect_result[of "done" "Some ?o" srt rd, unfolded opt_or_default_def option.case, OF assms(1)])
  ultimately obtain e' where "err = Some e'" by auto
  then show ?thesis using c by (simp add: agent_Collect_def)
qed

subsection \<open>The largest processes\<close>

lemma sorted_take_max:
  assumes "sorted (map f xs)" "x \<in> set (take n xs)" "y \<in> set (drop n xs)"
  shows "f x \<le> (f y :: real)"
proof -
  have "sorted (map f (take n xs @ drop n xs))" using assms(1) by simp
  then show ?thesis using assms(2,3) unfolding map_append sorted_append by simp
qed

text \<open>
  The processes returned are as many as asked for, or all; none left out uses more, and the
  list begins with the largest.
\<close>
theorem top_processes_largest:
  assumes "sorts_down srt" "CollectProcesses srt rd topN = Inr ps" "rd_processes rd = Inr procs"
  shows "length ps = min (length procs) (if topN \<le> 0 then 10 else nat topN)"
    and "sorted (map (\<lambda>p. - po_CPUPercent p) ps)"
    and "\<exists>rest. mset (ps @ rest) = mset (map (\<lambda>p. collectProcessInfo p True) procs) \<and>
      (\<forall>p \<in> set ps. \<forall>q \<in> set rest. po_CPUPercent q \<le> po_CPUPercent p)"
proof -
  define xs where "xs = srt po_CPUPercent (map (\<lambda>p. collectProcessInfo p True) procs)"
  define n where "n = (if topN \<le> 0 then 10 else nat topN)"
  have xs: "mset xs = mset (map (\<lambda>p. collectProcessInfo p True) procs)" "sorted (map (\<lambda>p. - po_CPUPercent p) xs)"
    using assms(1) by (simp_all add: sorts_down_def xs_def)
  have len: "length xs = length procs" using xs(1) by (metis length_map size_mset)
  have ps: "ps = take n xs"
    using assms(2,3) by (auto simp: CollectProcesses_def top_processes_def Let_def xs_def[symmetric] n_def)
  show "length ps = min (length procs) (if topN \<le> 0 then 10 else nat topN)"
    by (simp add: ps len n_def min.commute)
  show "sorted (map (\<lambda>p. - po_CPUPercent p) ps)" using xs(2) by (simp add: ps sorted_wrt_take take_map[symmetric])
  have "po_CPUPercent q \<le> po_CPUPercent p" if "p \<in> set ps" "q \<in> set (drop n xs)" for p q
    using sorted_take_max[OF xs(2), of p n q] that by (simp add: ps)
  then show "\<exists>rest. mset (ps @ rest) = mset (map (\<lambda>p. collectProcessInfo p True) procs) \<and>
      (\<forall>p \<in> set ps. \<forall>q \<in> set rest. po_CPUPercent q \<le> po_CPUPercent p)"
    using xs(1) by (intro exI[of _ "drop n xs"]) (simp add: ps del: mset_append mset_map)
qed

subsection \<open>Numbers shown\<close>

lemma round_even_bounds: "of_int (round_even x) - 1 / 2 \<le> x" "x \<le> of_int (round_even x) + 1 / (2 :: real)"
  unfolding round_even_def Let_def by (auto; linarith)+

text \<open>
  The size in the unit chosen is at least one and, but for the largest unit, less than 1024, and
  the decimal shown is within half of its last digit.
\<close>
theorem byte_format_exact:
  assumes "KB \<le> bytes"
  shows "\<exists>u name. formatBytesWithPrecision bytes k = fixed k (real bytes / real u) @ '' '' @ name \<and>
    (u, name) \<in> {(KB, ''KB''), (MB, ''MB''), (GB, ''GB''), (TB, ''TB'')} \<and>
    1 \<le> real bytes / real u \<and> (u = TB \<or> real bytes / real u < 1024) \<and>
    \<bar>of_int (round_even (\<bar>real bytes / real u\<bar> * 10 ^ k)) / 10 ^ k - real bytes / real u\<bar> \<le> 1 / (2 * 10 ^ k)"
proof -
  have close: "\<bar>of_int (round_even (\<bar>x\<bar> * 10 ^ k)) / 10 ^ k - x\<bar> \<le> 1 / (2 * 10 ^ k)" if "0 \<le> x" for x :: real
  proof -
    let ?r = "of_int (round_even (x * 10 ^ k)) :: real"
    have "?r - 1 / 2 \<le> x * 10 ^ k" "x * 10 ^ k \<le> ?r + 1 / 2" using round_even_bounds[of "x * 10 ^ k"] by simp_all
    then have "(?r - x * 10 ^ k) / 10 ^ k \<le> (1 / 2) / 10 ^ k" "(x * 10 ^ k - ?r) / 10 ^ k \<le> (1 / 2) / 10 ^ k"
      by (intro divide_right_mono; simp)+
    then have "?r / 10 ^ k - x \<le> 1 / (2 * 10 ^ k)" "x - ?r / 10 ^ k \<le> 1 / (2 * 10 ^ k)"
      by (simp_all add: diff_divide_distrib)
    then show ?thesis using that by (simp add: abs_le_iff)
  qed
  consider "TB \<le> bytes" | "GB \<le> bytes" "bytes < TB" | "MB \<le> bytes" "bytes < GB" | "KB \<le> bytes" "bytes < MB"
    using assms by linarith
  then show ?thesis
  proof cases
    case 1
    then show ?thesis
      by (intro exI[of _ TB] exI[of _ "''TB''"]) (use close[of "real bytes / real TB"] in \<open>simp add: formatBytesWithPrecision_def byte_units\<close>)
  next
    case 2
    then show ?thesis
      by (intro exI[of _ GB] exI[of _ "''GB''"]) (use close[of "real bytes / real GB"] in \<open>simp add: formatBytesWithPrecision_def byte_units\<close>)
  next
    case 3
    then show ?thesis
      by (intro exI[of _ MB] exI[of _ "''MB''"]) (use close[of "real bytes / real MB"] in \<open>simp add: formatBytesWithPrecision_def byte_units\<close>)
  next
    case 4
    then show ?thesis
      by (intro exI[of _ KB] exI[of _ "''KB''"]) (use close[of "real bytes / real KB"] in \<open>simp add: formatBytesWithPrecision_def byte_units\<close>)
  qed
qed

subsection \<open>Witnesses\<close>

definition quiet_machine :: readings where
  "quiet_machine = \<lparr>rd_now = 5, rd_NumCPU = 2, rd_percent = Inr [50], rd_load = Inr None,
     rd_memory = Inl ''no meminfo'', rd_swap = Inr None, rd_usage = (\<lambda>_. Inl ''none''), rd_partitions = Inr [],
     rd_counters = (\<lambda>_. Inr []), rd_host = Inl ''no host'', rd_uptime = Inr 1,
     rd_processes = Inr [\<lparr>ps_Pid = 1, ps_Name = ''init'', ps_MemoryPercent = 1, ps_MemoryRSS = Inr None,
        ps_Username = ''root'', ps_CPUPercent = 3, ps_CreateTime = 0, ps_Cmdline = [], ps_Status = Inr []\<rparr>]\<rparr>"

theorem collect_any_order_witness:
  "fst (metrics_Collect (\<lambda>key. sort_key (\<lambda>p. - key p)) quiet_machine [CollectsDisk, CollectsMemory, CollectsCPU] None) =
    expected_metrics (\<lambda>key. sort_key (\<lambda>p. - key p)) quiet_machine DefaultOption"
  using collect_any_order[of "[CollectsDisk, CollectsMemory, CollectsCPU]" None]
  by (simp add: opt_or_default_def started_def DefaultOption_def insert_commute)

theorem one_failure_hides_all_witness:
  "agent_Collect (\<lambda>key. sort_key (\<lambda>p. - key p)) quiet_machine [CollectsSystem, CollectsMemory, CollectsCPU] False =
    no_system_metrics 5"
  using one_failure_hides_all[of "[CollectsSystem, CollectsMemory, CollectsCPU]" False quiet_machine "''no host''"]
  by (simp add: started_def agent_option_def insert_commute quiet_machine_def)

theorem top_processes_largest_witness:
  "\<exists>ps. CollectProcesses (\<lambda>key. sort_key (\<lambda>p. - key p)) quiet_machine 5 = Inr ps \<and> length ps = 1"
proof -
  let ?srt = "\<lambda>key. sort_key (\<lambda>p. - key p)"
  have "sorts_down ?srt" by (simp add: sorts_down_def)
  moreover obtain ps where ps: "CollectProcesses ?srt quiet_machine 5 = Inr ps"
    by (simp add: CollectProcesses_def top_processes_def quiet_machine_def)
  ultimately have "length ps = min (length (projr (rd_processes quiet_machine))) (if (5 :: int) \<le> 0 then 10 else nat 5)"
    by (rule top_processes_largest(1)) (simp add: quiet_machine_def)
  then show ?thesis using ps by (simp add: quiet_machine_def)
qed

theorem byte_format_exact_witness:
  "\<exists>u name. formatBytesWithPrecision 1536 1 = fixed 1 (real 1536 / real u) @ '' '' @ name \<and>
    (u, name) \<in> {(KB, ''KB''), (MB, ''MB''), (GB, ''GB''), (TB, ''TB'')} \<and>
    1 \<le> real 1536 / real u \<and> (u = TB \<or> real 1536 / real u < 1024) \<and>
    \<bar>of_int (round_even (\<bar>real 1536 / real u\<bar> * 10 ^ 1)) / 10 ^ 1 - real 1536 / real u\<bar> \<le> 1 / (2 * 10 ^ 1)"
  by (rule byte_format_exact) (simp add: KB_def)

end
