(* ===== verification/Owl_Utf8.thy ===== *)
theory Owl_Utf8
  imports Owl_Strings
begin

text \<open>
  Runes of a byte string, as \<open>[]rune(s)\<close> reads them: a rune is held as its UTF-8 bytes, and a byte that
  begins no well-formed sequence counts as one rune, U+FFFD.
\<close>

definition byte_in :: "nat \<Rightarrow> nat \<Rightarrow> char \<Rightarrow> bool" where
  "byte_in lo hi c \<longleftrightarrow> lo \<le> (of_char c :: nat) \<and> (of_char c :: nat) \<le> hi"

abbreviation (input) cont_byte :: "char \<Rightarrow> bool" where "cont_byte \<equiv> byte_in 128 191"

definition replacement_rune :: string where
  "replacement_rune = [CHR 0xEF, CHR 0xBF, CHR 0xBD]"

text \<open>Sequences of two, three and four bytes, by the first one and those that follow it.\<close>

definition seq2 :: "char \<Rightarrow> string \<Rightarrow> bool" where
  "seq2 a t \<longleftrightarrow> byte_in 194 223 a \<and> 1 \<le> length t \<and> cont_byte (t ! 0)"

definition seq3 :: "char \<Rightarrow> string \<Rightarrow> bool" where
  "seq3 a t \<longleftrightarrow> byte_in 224 239 a \<and> 2 \<le> length t \<and>
     byte_in (if a = CHR 0xE0 then 160 else 128) (if a = CHR 0xED then 159 else 191) (t ! 0) \<and> cont_byte (t ! 1)"

definition seq4 :: "char \<Rightarrow> string \<Rightarrow> bool" where
  "seq4 a t \<longleftrightarrow> byte_in 240 244 a \<and> 3 \<le> length t \<and>
     byte_in (if a = CHR 0xF0 then 144 else 128) (if a = CHR 0xF4 then 143 else 191) (t ! 0) \<and>
     cont_byte (t ! 1) \<and> cont_byte (t ! 2)"

text \<open>The number of bytes of the well-formed sequence that begins a string, 0 when there is none.\<close>

fun rune_len :: "string \<Rightarrow> nat" where
  "rune_len [] = 0"
| "rune_len (a # t) =
     (if byte_in 0 127 a then 1 else if seq2 a t then 2 else if seq3 a t then 3 else if seq4 a t then 4 else 0)"

lemma seq_take:
  "1 \<le> k \<Longrightarrow> seq2 a (take k t) = seq2 a t" "2 \<le> k \<Longrightarrow> seq3 a (take k t) = seq3 a t"
  "3 \<le> k \<Longrightarrow> seq4 a (take k t) = seq4 a t"
  by (auto simp: seq2_def seq3_def seq4_def)

lemma seq_length: "seq2 a t \<Longrightarrow> 1 \<le> length t" "seq3 a t \<Longrightarrow> 2 \<le> length t" "seq4 a t \<Longrightarrow> 3 \<le> length t"
  by (simp_all add: seq2_def seq3_def seq4_def)

lemma seq_first:
  "seq2 a t \<Longrightarrow> \<not> byte_in 0 127 a" "seq3 a t \<Longrightarrow> \<not> byte_in 0 127 a \<and> \<not> seq2 a u"
  "seq4 a t \<Longrightarrow> \<not> byte_in 0 127 a \<and> \<not> seq2 a u \<and> \<not> seq3 a u"
  by (auto simp: seq2_def seq3_def seq4_def byte_in_def)

lemma rune_len_le: "rune_len s \<le> length s"
  by (cases s) (auto dest!: seq_length)

lemma rune_len_take: "rune_len s \<noteq> 0 \<Longrightarrow> rune_len (take (rune_len s) s) = rune_len s"
  by (cases s) (auto simp: seq_take dest: seq_first split: if_splits)

lemma rune_len_append: "rune_len r = length r \<Longrightarrow> r \<noteq> [] \<Longrightarrow> rune_len (r @ s) = length r"
proof (cases r)
  case (Cons a t)
  assume "rune_len r = length r"
  then have "seq2 a (t @ s) = seq2 a t \<or> length t \<noteq> 1" "seq3 a (t @ s) = seq3 a t \<or> length t \<noteq> 2"
    "seq4 a (t @ s) = seq4 a t \<or> length t \<noteq> 3"
    using seq_take(1)[of 1 a "t @ s"] seq_take(2)[of 2 a "t @ s"] seq_take(3)[of 3 a "t @ s"] by auto
  then show ?thesis
    using \<open>rune_len r = length r\<close> Cons
    by (auto dest: seq_first[of a] split: if_splits)
qed simp

function runes :: "string \<Rightarrow> string list" where
  "runes s =
     (if s = [] then []
      else if rune_len s = 0 then replacement_rune # runes (tl s)
      else take (rune_len s) s # runes (drop (rune_len s) s))"
  by pat_completeness auto
termination
  by (relation "measure length") auto

declare runes.simps [simp del]

lemma runes_Nil [simp]: "runes [] = []" by (simp add: runes.simps)

definition valid_utf8 :: "string \<Rightarrow> bool" where
  "valid_utf8 s \<longleftrightarrow> concat (runes s) = s"

text \<open>A single rune: what \<open>rune_len\<close> takes whole.\<close>

definition is_rune :: "string \<Rightarrow> bool" where
  "is_rune r \<longleftrightarrow> r \<noteq> [] \<and> rune_len r = length r"

lemma is_rune_replacement [simp]: "is_rune replacement_rune"
  by (simp add: is_rune_def replacement_rune_def byte_in_def seq2_def seq3_def)

lemma is_rune_take: "rune_len s \<noteq> 0 \<Longrightarrow> is_rune (take (rune_len s) s)"
  using rune_len_take[of s] rune_len_le[of s] by (auto simp: is_rune_def)

lemma set_runes: "r \<in> set (runes s) \<Longrightarrow> is_rune r"
proof (induction s rule: runes.induct)
  case (1 s)
  from 1(3) have "s \<noteq> [] \<and> (if rune_len s = 0 then r = replacement_rune \<or> r \<in> set (runes (tl s))
     else r = take (rune_len s) s \<or> r \<in> set (runes (drop (rune_len s) s)))"
    by (subst (asm) runes.simps) (auto split: if_splits)
  then show ?case using 1(1,2) is_rune_take[of s] by (auto split: if_splits)
qed

lemma runes_append_rune: "is_rune r \<Longrightarrow> runes (r @ s) = r # runes s"
  by (subst runes.simps) (simp add: is_rune_def rune_len_append)

lemma runes_concat: "\<forall>r \<in> set rs. is_rune r \<Longrightarrow> runes (concat rs) = rs"
  by (induction rs) (simp_all add: runes_append_rune)

lemma valid_utf8_concat: "\<forall>r \<in> set rs. is_rune r \<Longrightarrow> valid_utf8 (concat rs)"
  by (simp add: valid_utf8_def runes_concat)

lemma runes_append_valid: "valid_utf8 s \<Longrightarrow> runes (s @ t) = runes s @ runes t"
proof -
  have "\<forall>r \<in> set rs. is_rune r \<Longrightarrow> runes (concat rs @ t) = rs @ runes t" for rs
    by (induction rs) (simp_all add: runes_append_rune)
  then show "valid_utf8 s \<Longrightarrow> runes (s @ t) = runes s @ runes t"
    using set_runes unfolding valid_utf8_def by metis
qed

end
