(* ===== verification/Owl_Notify.thy ===== *)
theory Owl_Notify
  imports Owl_Utf8 Owl_Json
begin

text \<open>
  \<open>internal/notifier/wechat.go\<close>: the messages that a master sends through WeCom. The network is a function on
  a world of any type: a GET of an address and a POST of a JSON value, each answered by an error or by a status
  and a body; \<open>wx_json\<close> parses a body and \<open>wx_mismatch\<close> is the error of a value that does not fit. The check
  of the token is atomic with respect to the network, as the lock makes it.
\<close>

record 'w wechat_net =
  wx_now :: "'w \<Rightarrow> gotime"
  wx_get :: "string \<Rightarrow> 'w \<Rightarrow> 'w \<times> (string + (int \<times> string))"
  wx_post :: "string \<Rightarrow> json \<Rightarrow> 'w \<Rightarrow> 'w \<times> (string + (int \<times> string))"
  wx_json :: "string \<Rightarrow> string + json"
  wx_mismatch :: "json \<Rightarrow> string"

record wechat_notifier =
  wn_corpID :: string
  wn_agentID :: int
  wn_secret :: string
  wn_accessToken :: string
  wn_tokenExpire :: gotime

definition NewWeChatNotifier :: "string \<Rightarrow> int \<Rightarrow> string \<Rightarrow> wechat_notifier" where
  "NewWeChatNotifier corpID agentID secret = \<lparr>wn_corpID = corpID, wn_agentID = agentID, wn_secret = secret,
     wn_accessToken = [], wn_tokenExpire = zero_time\<rparr>"

subsection \<open>Texts\<close>

definition truncation_tail :: string where
  "truncation_tail = [CHR 0x0A, CHR 0x0A, CHR 0xEF, CHR 0xBC, CHR 0x88, CHR 0xE5, CHR 0x86, CHR 0x85, CHR 0xE5,
     CHR 0xAE, CHR 0xB9, CHR 0xE8, CHR 0xBF, CHR 0x87, CHR 0xE9, CHR 0x95, CHR 0xBF,
     CHR 0xE5, CHR 0xB7, CHR 0xB2, CHR 0xE6, CHR 0x88, CHR 0xAA, CHR 0xE6, CHR 0x96,
     CHR 0xAD, CHR 0xEF, CHR 0xBC, CHR 0x8C, CHR 0xE5, CHR 0xA6, CHR 0x82, CHR 0xE9,
     CHR 0x9C, CHR 0x80, CHR 0xE6, CHR 0x9B, CHR 0xB4, CHR 0xE5, CHR 0xA4, CHR 0x9A,
     CHR 0xE8, CHR 0xAF, CHR 0xB7, CHR 0xE7, CHR 0xBB, CHR 0xA7, CHR 0xE7, CHR 0xBB,
     CHR 0xAD, CHR 0xE6, CHR 0x8F, CHR 0x90, CHR 0xE9, CHR 0x97, CHR 0xAE, CHR 0xE6,
     CHR 0x88, CHR 0x96, CHR 0xE7, CHR 0xBC, CHR 0xA9, CHR 0xE5, CHR 0xB0, CHR 0x8F,
     CHR 0xE8, CHR 0x8C, CHR 0x83, CHR 0xE5, CHR 0x9B, CHR 0xB4, CHR 0xEF, CHR 0xBC,
     CHR 0x89]"

definition truncateWeChatText :: "string \<Rightarrow> int \<Rightarrow> string" where
  "truncateWeChatText s maxRunes =
     (if maxRunes \<le> 0 then s
      else let rs = runes s in
        if int (length rs) \<le> maxRunes then s
        else let tail_len = int (length (runes truncation_tail));
                 limit = (if maxRunes > tail_len + 50 then maxRunes - tail_len else maxRunes)
             in concat (take (nat limit) rs) @ truncation_tail)"

text \<open>\<open>url.QueryEscape\<close>\<close>

definition hex_upper :: "nat \<Rightarrow> char" where
  "hex_upper d = ''0123456789ABCDEF'' ! d"

definition unreserved :: "char \<Rightarrow> bool" where
  "unreserved c \<longleftrightarrow> byte_in 48 57 c \<or> byte_in 65 90 c \<or> byte_in 97 122 c \<or> c \<in> set ''-_.~''"

definition escape_byte :: "char \<Rightarrow> string" where
  "escape_byte c =
     (if unreserved c then [c] else if c = CHR '' '' then ''+''
      else [CHR ''%'', hex_upper ((of_char c :: nat) div 16), hex_upper ((of_char c :: nat) mod 16)])"

definition QueryEscape :: "string \<Rightarrow> string" where
  "QueryEscape s = concat (map escape_byte s)"

definition gettoken_url :: "wechat_notifier \<Rightarrow> string" where
  "gettoken_url n = ''https://qyapi.weixin.qq.com/cgi-bin/gettoken?corpid='' @ QueryEscape (wn_corpID n) @
     ''&corpsecret='' @ QueryEscape (wn_secret n)"

definition send_url :: "string \<Rightarrow> string" where
  "send_url token = ''https://qyapi.weixin.qq.com/cgi-bin/message/send?access_token='' @ QueryEscape token"

subsection \<open>The exchange\<close>

record token_response =
  tq_ErrCode :: int
  tq_ErrMsg :: string
  tq_AccessToken :: string
  tq_ExpiresIn :: int

definition dec_token_response :: "json \<Rightarrow> token_response option" where
  "dec_token_response j = do {
     o' \<leftarrow> struct_fields j;
     c \<leftarrow> field 0 dec_int ''errcode'' o';
     m \<leftarrow> field [] dec_string ''errmsg'' o';
     t \<leftarrow> field [] dec_string ''access_token'' o';
     e \<leftarrow> field 0 dec_int ''expires_in'' o';
     Some \<lparr>tq_ErrCode = c, tq_ErrMsg = m, tq_AccessToken = t, tq_ExpiresIn = e\<rparr> }"

record send_response =
  sq_ErrCode :: int
  sq_ErrMsg :: string
  sq_InvalidUser :: string

definition dec_send_response :: "json \<Rightarrow> send_response option" where
  "dec_send_response j = do {
     o' \<leftarrow> struct_fields j;
     c \<leftarrow> field 0 dec_int ''errcode'' o';
     m \<leftarrow> field [] dec_string ''errmsg'' o';
     u \<leftarrow> field [] dec_string ''invaliduser'' o';
     Some \<lparr>sq_ErrCode = c, sq_ErrMsg = m, sq_InvalidUser = u\<rparr> }"

text \<open>A body with a good status, decoded; the texts are those of the errors.\<close>

definition read_body ::
  "'w wechat_net \<Rightarrow> string \<Rightarrow> (json \<Rightarrow> 'a option) \<Rightarrow> string + (int \<times> string) \<Rightarrow> string + 'a" where
  "read_body net what dec answer =
     (case answer of
        Inl e \<Rightarrow> Inl e
      | Inr (code, body) \<Rightarrow>
          if code < 200 \<or> code \<ge> 300 then Inl (''wechat: '' @ what @ '' http '' @ show_int code @ '': '' @ body)
          else case wx_json net body of
            Inl e \<Rightarrow> Inl (''wechat: '' @ what @ '' decode: '' @ e)
          | Inr j \<Rightarrow> (case dec j of None \<Rightarrow> Inl (''wechat: '' @ what @ '' decode: '' @ wx_mismatch net j) | Some v \<Rightarrow> Inr v))"

definition getAccessToken :: "'w wechat_net \<Rightarrow> wechat_notifier \<Rightarrow> 'w \<Rightarrow> 'w \<times> wechat_notifier \<times> (string + string)" where
  "getAccessToken net n w =
     (let now = wx_now net w in
      if wn_accessToken n \<noteq> [] \<and> now < wn_tokenExpire n then (w, n, Inr (wn_accessToken n))
      else if TrimSpace (wn_corpID n) = [] \<or> TrimSpace (wn_secret n) = [] then (w, n, Inl ''wechat: missing corpID or secret'')
      else case wx_get net (gettoken_url n) w of (w', answer) \<Rightarrow>
        (case read_body net ''gettoken'' dec_token_response answer of
           Inl e \<Rightarrow> (w', n, Inl e)
         | Inr out \<Rightarrow>
             if tq_ErrCode out \<noteq> 0
             then (w', n, Inl (''wechat: gettoken errcode='' @ show_int (tq_ErrCode out) @ '' errmsg='' @ tq_ErrMsg out))
             else if TrimSpace (tq_AccessToken out) = [] then (w', n, Inl ''wechat: gettoken returned empty access_token'')
             else (w', n\<lparr>wn_accessToken := tq_AccessToken out,
                        wn_tokenExpire := now + wrap64 (wrap64 (tq_ExpiresIn out * Second) - 60 * Second)\<rparr>,
                   Inr (tq_AccessToken out))))"

definition text_message :: "wechat_notifier \<Rightarrow> string \<Rightarrow> string \<Rightarrow> json" where
  "text_message n toUserID content = JObj (omit (toUserID = []) ''touser'' (JStr toUserID) @
     [(''msgtype'', JStr ''text''), (''agentid'', JInt (wn_agentID n)), (''text'', JObj [(''content'', JStr content)])])"

definition sendMessage :: "'w wechat_net \<Rightarrow> json \<Rightarrow> wechat_notifier \<Rightarrow> 'w \<Rightarrow> 'w \<times> wechat_notifier \<times> string option" where
  "sendMessage net msg n w =
     (case getAccessToken net n w of
        (w1, n1, Inl e) \<Rightarrow> (w1, n1, Some e)
      | (w1, n1, Inr token) \<Rightarrow>
          (case wx_post net (send_url token) msg w1 of (w2, answer) \<Rightarrow>
             (w2, n1, case read_body net ''send'' dec_send_response answer of
                Inl e \<Rightarrow> Some e
              | Inr out \<Rightarrow> if sq_ErrCode out \<noteq> 0
                  then Some (''wechat: send errcode='' @ show_int (sq_ErrCode out) @ '' errmsg='' @ sq_ErrMsg out @
                             '' invaliduser='' @ sq_InvalidUser out)
                  else None)))"

definition SendText :: "'w wechat_net \<Rightarrow> string \<Rightarrow> string \<Rightarrow> wechat_notifier \<Rightarrow> 'w \<Rightarrow> 'w \<times> wechat_notifier \<times> string option" where
  "SendText net toUserID content n w =
     (if TrimSpace toUserID = [] then (w, n, Some ''wechat: missing toUserID'')
      else if TrimSpace content = [] then (w, n, Some ''wechat: missing content'')
      else sendMessage net (text_message n toUserID (truncateWeChatText content 1800)) n w)"

subsection \<open>What is sent\<close>

lemma truncation_tail_runes: "length (runes truncation_tail) = 26" "valid_utf8 truncation_tail"
  by code_simp+

text \<open>
  A text of any bytes that is too long is cut to the allowed number of runes, the note included,
  and never inside one; it begins with the runes of the text.
\<close>
theorem truncation_whole_runes:
  assumes "76 < maxRunes" "maxRunes < int (length (runes s))"
  shows "length (runes (truncateWeChatText s maxRunes)) = nat maxRunes \<and>
    valid_utf8 (truncateWeChatText s maxRunes) \<and>
    runes (truncateWeChatText s maxRunes) = take (nat maxRunes - 26) (runes s) @ runes truncation_tail"
proof -
  define head where "head = take (nat maxRunes - 26) (runes s)"
  have head: "\<forall>r \<in> set head. is_rune r" using set_runes set_take_subset unfolding head_def by fast
  have t: "truncateWeChatText s maxRunes = concat head @ truncation_tail"
    using assms by (simp add: truncateWeChatText_def truncation_tail_runes Let_def head_def nat_diff_distrib)
  have hr: "runes (concat head @ truncation_tail) = head @ runes truncation_tail"
    by (simp add: runes_append_valid valid_utf8_concat head runes_concat)
  then have rs: "runes (truncateWeChatText s maxRunes) = take (nat maxRunes - 26) (runes s) @ runes truncation_tail"
    by (simp add: t head_def)
  moreover from rs have "length (runes (truncateWeChatText s maxRunes)) = nat maxRunes"
    using assms by (simp add: truncation_tail_runes)
  moreover have "concat (runes truncation_tail) = truncation_tail"
    using truncation_tail_runes(2) by (simp add: valid_utf8_def)
  then have "valid_utf8 (truncateWeChatText s maxRunes)" by (simp add: valid_utf8_def t hr)
  ultimately show ?thesis by blast
qed

text \<open>
  A token that has not run out is used as it is, so that after the service has refused it every
  message is refused until it runs out: the answer of the service is not looked at.
\<close>
theorem refused_token_kept:
  assumes "wn_accessToken n \<noteq> []" "wx_now net w < wn_tokenExpire n" "TrimSpace user \<noteq> []" "TrimSpace content \<noteq> []"
    and "\<And>msg. snd (wx_post net (send_url (wn_accessToken n)) msg w) = Inr (200, body)"
    and "wx_json net body = Inr (JObj [(''errcode'', JInt 42001), (''errmsg'', JStr ''access_token expired'')])"
  shows "\<exists>w' e. SendText net user content n w = (w', n, Some e)"
proof -
  obtain w' where w': "wx_post net (send_url (wn_accessToken n)) (text_message n user (truncateWeChatText content 1800)) w = (w', Inr (200, body))"
    using assms(5) by (metis prod.collapse)
  have "dec_send_response (JObj [(''errcode'', JInt 42001), (''errmsg'', JStr ''access_token expired'')]) =
      Some \<lparr>sq_ErrCode = 42001, sq_ErrMsg = ''access_token expired'', sq_InvalidUser = []\<rparr>"
    by (simp add: dec_send_response_def field_def min_int64_def max_int64_def ToLower_def lower_char_def)
  then show ?thesis
    using assms(1-4,6) w' by (simp add: SendText_def sendMessage_def getAccessToken_def read_body_def Let_def)
qed

subsection \<open>Witnesses\<close>

definition refusing_net :: "unit wechat_net" where
  "refusing_net = \<lparr>wx_now = (\<lambda>_. 1), wx_get = (\<lambda>_ w. (w, Inl ''no route'')), wx_post = (\<lambda>_ _ w. (w, Inr (200, ''x''))),
     wx_json = (\<lambda>_. Inr (JObj [(''errcode'', JInt 42001), (''errmsg'', JStr ''access_token expired'')])), wx_mismatch = (\<lambda>_. [])\<rparr>"

theorem refused_token_kept_witness:
  "\<exists>w' e. SendText refusing_net ''u'' ''hi'' ((NewWeChatNotifier ''c'' 1 ''s'')\<lparr>wn_accessToken := ''t'', wn_tokenExpire := 9\<rparr>) () =
     (w', (NewWeChatNotifier ''c'' 1 ''s'')\<lparr>wn_accessToken := ''t'', wn_tokenExpire := 9\<rparr>, Some e)"
proof -
  have "TrimSpace ''u'' \<noteq> []" "TrimSpace ''hi'' \<noteq> []" by code_simp+
  then show ?thesis
    by (intro refused_token_kept[where body = "''x''"]) (simp_all add: refusing_net_def)
qed

theorem truncation_whole_runes_witness:
  "length (runes (truncateWeChatText (replicate 100 CHR ''a'') 80)) = 80"
proof -
  have "length (runes (replicate 100 CHR ''a'')) = 100" by code_simp
  then show ?thesis using truncation_whole_runes[of 80 "replicate 100 CHR ''a''", THEN conjunct1] by simp
qed

end
