(* ===== verification/Owl_Monitor.thy ===== *)
theory Owl_Monitor
  imports Owl_Metrics Owl_Notify
begin

text \<open>
  \<open>internal/monitor\<close>: the checks of containers, endpoints, databases and the machine, and the alerts that
  follow from them. What a check asks is a function on the world: docker, HTTP, PostgreSQL, Redis, the
  readings of the machine, the clock. The clients that the package keeps (created once) are part of the
  state. Beside the state the model keeps what has happened, the checks and the messages (\<open>ms_trace\<close>).
\<close>

subsection \<open>Configuration\<close>

record container_config =
  cn_ID :: string
  cn_Name :: string

record http_check =
  hc_Name :: string
  hc_URL :: string
  hc_Timeout :: duration

record monitor_config =
  mf_Interval :: string
  mf_Containers :: "container_config list"
  mf_HTTPChecks :: "http_check list"
  mf_PgDsn :: string
  mf_PgTimeout :: duration
  mf_RedisAddr :: string
  mf_RedisPassword :: string
  mf_RedisTimeout :: duration
  mf_DiskPercent :: real
  mf_MemoryPercent :: real

record 'w probes =
  pb_now :: "'w \<Rightarrow> gotime"
  pb_newDocker :: "'w \<Rightarrow> 'w \<times> string option"
  pb_inspect :: "string \<Rightarrow> 'w \<Rightarrow> 'w \<times> (string + string \<times> bool \<times> string)"
  pb_restart :: "string \<Rightarrow> duration \<Rightarrow> 'w \<Rightarrow> 'w \<times> string option"
  pb_logs :: "string \<Rightarrow> string \<Rightarrow> 'w \<Rightarrow> 'w \<times> (string + string \<times> string)"
  pb_get :: "string \<Rightarrow> duration \<Rightarrow> 'w \<Rightarrow> 'w \<times> (string + int)"
  pb_sqlOpen :: "string \<Rightarrow> 'w \<Rightarrow> 'w \<times> string option"
  pb_pgPing :: "string \<Rightarrow> duration \<Rightarrow> 'w \<Rightarrow> 'w \<times> string option"
  pb_redisPing :: "string \<Rightarrow> string \<Rightarrow> duration \<Rightarrow> 'w \<Rightarrow> 'w \<times> string option"
  pb_sleep :: "duration \<Rightarrow> 'w \<Rightarrow> 'w"
  pb_readings :: "'w \<Rightarrow> readings"
  pb_net :: "'w wechat_net"

subsection \<open>Clients\<close>

text \<open>
  \<open>None\<close>: not yet asked for. The docker client is then there or nil; of PostgreSQL the source and whether its
  pool is there; of Redis address and password.
\<close>

record clients =
  kl_docker :: "bool option"
  kl_pg :: "(string \<times> bool) option"
  kl_redis :: "(string \<times> string) option"

definition getDockerClient :: "'w probes \<Rightarrow> clients \<Rightarrow> 'w \<Rightarrow> 'w \<times> clients \<times> (string + bool)" where
  "getDockerClient pb c w =
     (case kl_docker c of
        Some there \<Rightarrow> (w, c, Inr there)
      | None \<Rightarrow>
          (case pb_newDocker pb w of
             (w', Some e) \<Rightarrow> (w', c\<lparr>kl_docker := Some False\<rparr>, Inl e)
           | (w', None) \<Rightarrow> (w', c\<lparr>kl_docker := Some True\<rparr>, Inr True)))"

definition getPostgresPool :: "'w probes \<Rightarrow> string \<Rightarrow> clients \<Rightarrow> 'w \<Rightarrow> 'w \<times> clients \<times> bool \<times> string option" where
  "getPostgresPool pb dsn c w =
     (let (w1, c1, err) =
            (case kl_pg c of
               Some _ \<Rightarrow> (w, c, None)
             | None \<Rightarrow> (case pb_sqlOpen pb dsn w of (w', e) \<Rightarrow> (w', c\<lparr>kl_pg := Some (dsn, e = None)\<rparr>, e)));
          (old, there) = the (kl_pg c1)
      in if dsn \<noteq> old \<and> there
         then (case pb_sqlOpen pb dsn w1 of (w2, e) \<Rightarrow> (w2, c1\<lparr>kl_pg := Some (dsn, e = None)\<rparr>, e = None, e))
         else (w1, c1, there, err))"

definition getRedisClient :: "string \<Rightarrow> string \<Rightarrow> clients \<Rightarrow> clients" where
  "getRedisClient addr password c =
     (case kl_redis c of
        None \<Rightarrow> c\<lparr>kl_redis := Some (addr, password)\<rparr>
      | Some (a, _) \<Rightarrow> if a \<noteq> addr then c\<lparr>kl_redis := Some (addr, password)\<rparr> else c)"

subsection \<open>Checks\<close>

record container_check =
  ck_Name :: string
  ck_ID :: string
  ck_Running :: bool
  ck_Status :: string
  ck_Error :: string

definition CheckContainer :: "'w probes \<Rightarrow> string \<Rightarrow> clients \<Rightarrow> 'w \<Rightarrow> 'w \<times> clients \<times> container_check go" where
  "CheckContainer pb containerID c w =
     (let failed = (\<lambda>e. \<lparr>ck_Name = [], ck_ID = containerID, ck_Running = False, ck_Status = [], ck_Error = e\<rparr>) in
      case getDockerClient pb c w of
        (w1, c1, Inl e) \<Rightarrow> (w1, c1, Inr (failed e))
      | (w1, c1, Inr False) \<Rightarrow> (w1, c1, Inl NilDeref)
      | (w1, c1, Inr True) \<Rightarrow>
          (case pb_inspect pb containerID w1 of
             (w2, Inl e) \<Rightarrow> (w2, c1, Inr (failed e))
           | (w2, Inr (name, running, status)) \<Rightarrow>
               (w2, c1, Inr \<lparr>ck_Name = name, ck_ID = containerID, ck_Running = running, ck_Status = status, ck_Error = []\<rparr>)))"

definition RestartContainer :: "'w probes \<Rightarrow> string \<Rightarrow> duration \<Rightarrow> clients \<Rightarrow> 'w \<Rightarrow> 'w \<times> clients \<times> string option go" where
  "RestartContainer pb containerID timeout c w =
     (case getDockerClient pb c w of
        (w1, c1, Inl e) \<Rightarrow> (w1, c1, Inr (Some e))
      | (w1, c1, Inr False) \<Rightarrow> (w1, c1, Inl NilDeref)
      | (w1, c1, Inr True) \<Rightarrow> (case pb_restart pb containerID timeout w1 of (w2, err) \<Rightarrow> (w2, c1, Inr err)))"

definition GetContainerLogs :: "'w probes \<Rightarrow> string \<Rightarrow> int \<Rightarrow> clients \<Rightarrow> 'w \<Rightarrow> 'w \<times> clients \<times> (string + string) go" where
  "GetContainerLogs pb containerID lines c w =
     (case getDockerClient pb c w of
        (w1, c1, Inl e) \<Rightarrow> (w1, c1, Inr (Inl e))
      | (w1, c1, Inr False) \<Rightarrow> (w1, c1, Inl NilDeref)
      | (w1, c1, Inr True) \<Rightarrow>
          (case pb_logs pb containerID (show_int lines) w1 of
             (w2, Inl e) \<Rightarrow> (w2, c1, Inr (Inl e))
           | (w2, Inr (out, err)) \<Rightarrow>
               (w2, c1, Inr (Inr (out @ (if err = [] then [] else [CHR 0x0A] @ ''[STDERR]'' @ [CHR 0x0A] @ err))))))"

record http_result =
  hr_Name :: string
  hr_URL :: string
  hr_StatusCode :: int
  hr_Latency :: duration
  hr_Healthy :: bool
  hr_Error :: string

definition CheckHTTP :: "'w probes \<Rightarrow> string \<Rightarrow> string \<Rightarrow> duration \<Rightarrow> 'w \<Rightarrow> 'w \<times> http_result" where
  "CheckHTTP pb name url timeout w =
     (case pb_get pb url timeout w of (w', answer) \<Rightarrow>
        (let r = \<lparr>hr_Name = name, hr_URL = url, hr_StatusCode = 0, hr_Latency = time_sub (pb_now pb w') (pb_now pb w),
                  hr_Healthy = False, hr_Error = []\<rparr>
         in (w', case answer of
                   Inl e \<Rightarrow> r\<lparr>hr_Error := e\<rparr>
                 | Inr code \<Rightarrow> r\<lparr>hr_StatusCode := code, hr_Healthy := 200 \<le> code \<and> code < 300\<rparr>)))"

record db_result =
  db_Name :: string
  db_Healthy :: bool
  db_Latency :: duration
  db_Error :: string

definition db_answer :: "string \<Rightarrow> duration \<Rightarrow> string option \<Rightarrow> db_result" where
  "db_answer name latency err = \<lparr>db_Name = name, db_Healthy = err = None, db_Latency = latency,
     db_Error = (case err of None \<Rightarrow> [] | Some e \<Rightarrow> e)\<rparr>"

definition CheckPostgres :: "'w probes \<Rightarrow> string \<Rightarrow> duration \<Rightarrow> clients \<Rightarrow> 'w \<Rightarrow> 'w \<times> clients \<times> db_result" where
  "CheckPostgres pb dsn timeout c w =
     (let answer = (\<lambda>w' err. db_answer ''postgres'' (time_sub (pb_now pb w') (pb_now pb w)) err) in
      case getPostgresPool pb dsn c w of
        (w1, c1, _, Some e) \<Rightarrow> (w1, c1, answer w1 (Some e))
      | (w1, c1, False, None) \<Rightarrow> (w1, c1, answer w1 (Some ''sql.Open returned nil *sql.DB''))
      | (w1, c1, True, None) \<Rightarrow> (case pb_pgPing pb dsn timeout w1 of (w2, err) \<Rightarrow> (w2, c1, answer w2 err)))"

definition CheckRedis :: "'w probes \<Rightarrow> string \<Rightarrow> string \<Rightarrow> duration \<Rightarrow> clients \<Rightarrow> 'w \<Rightarrow> 'w \<times> clients \<times> db_result" where
  "CheckRedis pb addr password timeout c w =
     (let c1 = getRedisClient addr password c; (a, p) = the (kl_redis c1) in
      case pb_redisPing pb a p timeout w of
        (w', err) \<Rightarrow> (w', c1, db_answer ''redis'' (time_sub (pb_now pb w') (pb_now pb w)) err))"

definition CheckDisk :: "readings \<Rightarrow> real \<Rightarrow> threshold_result" where
  "CheckDisk rd threshold = CheckDiskUsage rd ''/'' threshold"

definition CheckMemory :: "readings \<Rightarrow> real \<Rightarrow> threshold_result" where
  "CheckMemory rd threshold = CheckMemoryUsage rd threshold"

subsection \<open>Alerts\<close>

datatype alert_key = OnContainer string | OnHTTP string | OnPostgres | OnRedis | OnDisk | OnMemory

record alert_state =
  ad_ContainerDown :: "string \<rightharpoonup> gotime"
  ad_HTTPFailed :: "string \<rightharpoonup> gotime"
  ad_PostgresFail :: bool
  ad_RedisFail :: bool
  ad_DiskHigh :: bool
  ad_MemoryHigh :: bool

definition NewAlertState :: alert_state where
  "NewAlertState = \<lparr>ad_ContainerDown = Map.empty, ad_HTTPFailed = Map.empty, ad_PostgresFail = False,
     ad_RedisFail = False, ad_DiskHigh = False, ad_MemoryHigh = False\<rparr>"

definition HasContainer :: "alert_state \<Rightarrow> string \<Rightarrow> bool" where
  "HasContainer a containerID = (ad_ContainerDown a containerID \<noteq> None)"

definition HasHTTP :: "alert_state \<Rightarrow> string \<Rightarrow> bool" where
  "HasHTTP a url = (ad_HTTPFailed a url \<noteq> None)"

fun alerted :: "alert_key \<Rightarrow> alert_state \<Rightarrow> bool" where
  "alerted (OnContainer i) a = HasContainer a i"
| "alerted (OnHTTP u) a = HasHTTP a u"
| "alerted OnPostgres a = ad_PostgresFail a"
| "alerted OnRedis a = ad_RedisFail a"
| "alerted OnDisk a = ad_DiskHigh a"
| "alerted OnMemory a = ad_MemoryHigh a"

fun set_alert :: "alert_key \<Rightarrow> bool \<Rightarrow> gotime \<Rightarrow> alert_state \<Rightarrow> alert_state" where
  "set_alert (OnContainer i) b now a = a\<lparr>ad_ContainerDown := (ad_ContainerDown a)(i := if b then Some now else None)\<rparr>"
| "set_alert (OnHTTP u) b now a = a\<lparr>ad_HTTPFailed := (ad_HTTPFailed a)(u := if b then Some now else None)\<rparr>"
| "set_alert OnPostgres b now a = a\<lparr>ad_PostgresFail := b\<rparr>"
| "set_alert OnRedis b now a = a\<lparr>ad_RedisFail := b\<rparr>"
| "set_alert OnDisk b now a = a\<lparr>ad_DiskHigh := b\<rparr>"
| "set_alert OnMemory b now a = a\<lparr>ad_MemoryHigh := b\<rparr>"

datatype mon_event = Checked alert_key bool | Notified alert_key bool string "string option"

record 'w monitor_state =
  ms_world :: 'w
  ms_clients :: clients
  ms_notifier :: wechat_notifier
  ms_alerts :: alert_state
  ms_trace :: "mon_event list"

definition NewMonitor :: "wechat_notifier \<Rightarrow> clients \<Rightarrow> 'w \<Rightarrow> 'w monitor_state" where
  "NewMonitor n c w = \<lparr>ms_world = w, ms_clients = c, ms_notifier = n, ms_alerts = NewAlertState, ms_trace = []\<rparr>"

text \<open>A message is sent and its error ignored.\<close>

definition tell :: "'w probes \<Rightarrow> string \<Rightarrow> alert_key \<Rightarrow> bool \<Rightarrow> string \<Rightarrow> 'w monitor_state \<Rightarrow> 'w monitor_state" where
  "tell pb user k b text s =
     (case SendText (pb_net pb) user text (ms_notifier s) (ms_world s) of
        (w', n', err) \<Rightarrow> s\<lparr>ms_world := w', ms_notifier := n', ms_trace := ms_trace s @ [Notified k b text err]\<rparr>)"

text \<open>The branch that every check ends with; the time of an alert is taken after its message.\<close>

definition after_check ::
  "'w probes \<Rightarrow> string \<Rightarrow> alert_key \<Rightarrow> bool \<Rightarrow> string \<Rightarrow> string \<Rightarrow> 'w monitor_state \<Rightarrow> 'w monitor_state" where
  "after_check pb user k failing alarm relief s0 =
     (let s = s0\<lparr>ms_trace := ms_trace s0 @ [Checked k failing]\<rparr>;
          turn = (\<lambda>b t. b\<lparr>ms_alerts := set_alert k t (pb_now pb (ms_world b)) (ms_alerts b)\<rparr>)
      in if failing
         then (if \<not> alerted k (ms_alerts s) then turn (tell pb user k True alarm s) True else s)
         else if alerted k (ms_alerts s) then turn (tell pb user k False relief s) False
         else s)"

definition check_container :: "'w probes \<Rightarrow> string \<Rightarrow> container_config \<Rightarrow> 'w monitor_state \<Rightarrow> 'w monitor_state go" where
  "check_container pb user c s =
     (case CheckContainer pb (cn_ID c) (ms_clients s) (ms_world s) of
        (w', cl, Inl p) \<Rightarrow> Inl p
      | (w', cl, Inr r) \<Rightarrow>
          Inr (after_check pb user (OnContainer (cn_ID c)) (\<not> ck_Running r)
            (([CHR 0xF0, CHR 0x9F, CHR 0x94, CHR 0xB4] @ '' '' @ [CHR 0xE5, CHR 0xAE, CHR 0xB9, CHR 0xE5,
     CHR 0x99, CHR 0xA8, CHR 0xE5, CHR 0xBC, CHR 0x82, CHR 0xE5, CHR 0xB8, CHR 0xB8,
     CHR 0x0A, CHR 0xE5, CHR 0x90, CHR 0x8D, CHR 0xE7, CHR 0xA7, CHR 0xB0, CHR 0xEF,
     CHR 0xBC, CHR 0x9A]) @ cn_Name c @ [CHR 0x0A, CHR 0xE7, CHR 0x8A, CHR 0xB6, CHR 0xE6, CHR 0x80, CHR 0x81, CHR 0xEF, CHR 0xBC,
     CHR 0x9A] @ ck_Status r)
            (([CHR 0xE2, CHR 0x9C, CHR 0x85] @ '' '' @ [CHR 0xE5, CHR 0xAE, CHR 0xB9, CHR 0xE5, CHR 0x99,
     CHR 0xA8, CHR 0xE5, CHR 0xB7, CHR 0xB2, CHR 0xE6, CHR 0x81, CHR 0xA2, CHR 0xE5,
     CHR 0xA4, CHR 0x8D, CHR 0x0A, CHR 0xE5, CHR 0x90, CHR 0x8D, CHR 0xE7, CHR 0xA7,
     CHR 0xB0, CHR 0xEF, CHR 0xBC, CHR 0x9A]) @ cn_Name c)
            (s\<lparr>ms_world := w', ms_clients := cl\<rparr>)))"

fun check_containers :: "'w probes \<Rightarrow> string \<Rightarrow> container_config list \<Rightarrow> 'w monitor_state \<Rightarrow> 'w monitor_state go" where
  "check_containers pb user [] s = Inr s"
| "check_containers pb user (c # cs) s =
     (case check_container pb user c s of Inl p \<Rightarrow> Inl p | Inr s' \<Rightarrow> check_containers pb user cs s')"

definition check_http :: "'w probes \<Rightarrow> string \<Rightarrow> http_check \<Rightarrow> 'w monitor_state \<Rightarrow> 'w monitor_state" where
  "check_http pb user h s =
     (case CheckHTTP pb (hc_Name h) (hc_URL h) (hc_Timeout h) (ms_world s) of (w', r) \<Rightarrow>
        after_check pb user (OnHTTP (hc_URL h)) (\<not> hr_Healthy r)
          (([CHR 0xF0, CHR 0x9F, CHR 0x94, CHR 0xB4] @ '' HTTP '' @ [CHR 0xE6, CHR 0xA3, CHR 0x80,
     CHR 0xE6, CHR 0x9F, CHR 0xA5, CHR 0xE5, CHR 0xA4, CHR 0xB1, CHR 0xE8, CHR 0xB4,
     CHR 0xA5, CHR 0x0A, CHR 0xE6, CHR 0x9C, CHR 0x8D, CHR 0xE5, CHR 0x8A, CHR 0xA1,
     CHR 0xEF, CHR 0xBC, CHR 0x9A]) @ hc_Name h @ ([CHR 0x0A] @ ''URL'' @ [CHR 0xEF, CHR 0xBC, CHR 0x9A]) @ hc_URL h @ [CHR 0x0A, CHR 0xE9, CHR 0x94, CHR 0x99, CHR 0xE8, CHR 0xAF, CHR 0xAF, CHR 0xEF, CHR 0xBC,
     CHR 0x9A] @ hr_Error r)
          (([CHR 0xE2, CHR 0x9C, CHR 0x85] @ '' HTTP '' @ [CHR 0xE5, CHR 0xB7, CHR 0xB2, CHR 0xE6,
     CHR 0x81, CHR 0xA2, CHR 0xE5, CHR 0xA4, CHR 0x8D, CHR 0x0A, CHR 0xE6, CHR 0x9C,
     CHR 0x8D, CHR 0xE5, CHR 0x8A, CHR 0xA1, CHR 0xEF, CHR 0xBC, CHR 0x9A]) @ hc_Name h) (s\<lparr>ms_world := w'\<rparr>))"

definition check_postgres :: "'w probes \<Rightarrow> string \<Rightarrow> monitor_config \<Rightarrow> 'w monitor_state \<Rightarrow> 'w monitor_state" where
  "check_postgres pb user cfg s =
     (case CheckPostgres pb (mf_PgDsn cfg) (mf_PgTimeout cfg) (ms_clients s) (ms_world s) of (w', cl, r) \<Rightarrow>
        after_check pb user OnPostgres (\<not> db_Healthy r) (([CHR 0xF0, CHR 0x9F, CHR 0x94, CHR 0xB4] @ '' PostgreSQL '' @ [CHR 0xE5, CHR 0xBC,
     CHR 0x82, CHR 0xE5, CHR 0xB8, CHR 0xB8, CHR 0x0A, CHR 0xE9, CHR 0x94, CHR 0x99,
     CHR 0xE8, CHR 0xAF, CHR 0xAF, CHR 0xEF, CHR 0xBC, CHR 0x9A]) @ db_Error r)
          ([CHR 0xE2, CHR 0x9C, CHR 0x85] @ '' PostgreSQL '' @ [CHR 0xE5, CHR 0xB7, CHR 0xB2,
     CHR 0xE6, CHR 0x81, CHR 0xA2, CHR 0xE5, CHR 0xA4, CHR 0x8D]) (s\<lparr>ms_world := w', ms_clients := cl\<rparr>))"

definition check_redis :: "'w probes \<Rightarrow> string \<Rightarrow> monitor_config \<Rightarrow> 'w monitor_state \<Rightarrow> 'w monitor_state" where
  "check_redis pb user cfg s =
     (case CheckRedis pb (mf_RedisAddr cfg) (mf_RedisPassword cfg) (mf_RedisTimeout cfg) (ms_clients s) (ms_world s) of
        (w', cl, r) \<Rightarrow>
          after_check pb user OnRedis (\<not> db_Healthy r) (([CHR 0xF0, CHR 0x9F, CHR 0x94, CHR 0xB4] @ '' Redis '' @ [CHR 0xE5, CHR 0xBC, CHR 0x82,
     CHR 0xE5, CHR 0xB8, CHR 0xB8, CHR 0x0A, CHR 0xE9, CHR 0x94, CHR 0x99, CHR 0xE8,
     CHR 0xAF, CHR 0xAF, CHR 0xEF, CHR 0xBC, CHR 0x9A]) @ db_Error r)
            ([CHR 0xE2, CHR 0x9C, CHR 0x85] @ '' Redis '' @ [CHR 0xE5, CHR 0xB7, CHR 0xB2, CHR 0xE6,
     CHR 0x81, CHR 0xA2, CHR 0xE5, CHR 0xA4, CHR 0x8D]) (s\<lparr>ms_world := w', ms_clients := cl\<rparr>))"

definition check_disk :: "'w probes \<Rightarrow> string \<Rightarrow> monitor_config \<Rightarrow> 'w monitor_state \<Rightarrow> 'w monitor_state" where
  "check_disk pb user cfg s =
     (let (percent, high, _) = CheckDisk (pb_readings pb (ms_world s)) (mf_DiskPercent cfg) in
      after_check pb user OnDisk high (([CHR 0xF0, CHR 0x9F, CHR 0x9F, CHR 0xA1] @ '' '' @ [CHR 0xE7, CHR 0xA3, CHR 0x81, CHR 0xE7,
     CHR 0x9B, CHR 0x98, CHR 0xE4, CHR 0xBD, CHR 0xBF, CHR 0xE7, CHR 0x94, CHR 0xA8,
     CHR 0xE7, CHR 0x8E, CHR 0x87, CHR 0xE8, CHR 0xBF, CHR 0x87, CHR 0xE9, CHR 0xAB,
     CHR 0x98, CHR 0x0A, CHR 0xE5, CHR 0xBD, CHR 0x93, CHR 0xE5, CHR 0x89, CHR 0x8D,
     CHR 0xEF, CHR 0xBC, CHR 0x9A]) @ fixed 1 percent @ ''%'') ([CHR 0xE2, CHR 0x9C, CHR 0x85] @ '' '' @ [CHR 0xE7, CHR 0xA3, CHR 0x81, CHR 0xE7, CHR 0x9B,
     CHR 0x98, CHR 0xE4, CHR 0xBD, CHR 0xBF, CHR 0xE7, CHR 0x94, CHR 0xA8, CHR 0xE7,
     CHR 0x8E, CHR 0x87, CHR 0xE5, CHR 0xB7, CHR 0xB2, CHR 0xE6, CHR 0x81, CHR 0xA2,
     CHR 0xE5, CHR 0xA4, CHR 0x8D]) s)"

definition check_memory :: "'w probes \<Rightarrow> string \<Rightarrow> monitor_config \<Rightarrow> 'w monitor_state \<Rightarrow> 'w monitor_state" where
  "check_memory pb user cfg s =
     (let (percent, high, _) = CheckMemory (pb_readings pb (ms_world s)) (mf_MemoryPercent cfg) in
      after_check pb user OnMemory high (([CHR 0xF0, CHR 0x9F, CHR 0x9F, CHR 0xA1] @ '' '' @ [CHR 0xE5, CHR 0x86, CHR 0x85, CHR 0xE5,
     CHR 0xAD, CHR 0x98, CHR 0xE4, CHR 0xBD, CHR 0xBF, CHR 0xE7, CHR 0x94, CHR 0xA8,
     CHR 0xE7, CHR 0x8E, CHR 0x87, CHR 0xE8, CHR 0xBF, CHR 0x87, CHR 0xE9, CHR 0xAB,
     CHR 0x98, CHR 0x0A, CHR 0xE5, CHR 0xBD, CHR 0x93, CHR 0xE5, CHR 0x89, CHR 0x8D,
     CHR 0xEF, CHR 0xBC, CHR 0x9A]) @ fixed 1 percent @ ''%'') ([CHR 0xE2, CHR 0x9C, CHR 0x85] @ '' '' @ [CHR 0xE5, CHR 0x86, CHR 0x85, CHR 0xE5, CHR 0xAD,
     CHR 0x98, CHR 0xE4, CHR 0xBD, CHR 0xBF, CHR 0xE7, CHR 0x94, CHR 0xA8, CHR 0xE7,
     CHR 0x8E, CHR 0x87, CHR 0xE5, CHR 0xB7, CHR 0xB2, CHR 0xE6, CHR 0x81, CHR 0xA2,
     CHR 0xE5, CHR 0xA4, CHR 0x8D]) s)"

definition RunChecks :: "'w probes \<Rightarrow> string \<Rightarrow> monitor_config \<Rightarrow> 'w monitor_state \<Rightarrow> 'w monitor_state go" where
  "RunChecks pb user cfg s =
     (case check_containers pb user (mf_Containers cfg) s of
        Inl p \<Rightarrow> Inl p
      | Inr s1 \<Rightarrow>
          Inr (check_memory pb user cfg (check_disk pb user cfg (check_redis pb user cfg (check_postgres pb user cfg
            (fold (check_http pb user) (mf_HTTPChecks cfg) s1))))))"

text \<open>Rounds of checks while the world goes on: between two rounds anything may happen outside.\<close>

inductive monitored :: "'w probes \<Rightarrow> string \<Rightarrow> monitor_config \<Rightarrow> 'w monitor_state \<Rightarrow> bool" for pb user cfg where
  monitored_start: "monitored pb user cfg (NewMonitor n c w)"
| monitored_round: "monitored pb user cfg s \<Longrightarrow> RunChecks pb user cfg (s\<lparr>ms_world := w, ms_notifier := n\<rparr>) = Inr s' \<Longrightarrow> monitored pb user cfg s'"

end
