(* ===== verification/Owl_Commander.thy ===== *)
theory Owl_Commander
  imports Owl_Monitor Owl_Memory Owl_Llm
begin

text \<open>
  \<open>internal/commander\<close>: what a user asks for is read by the language model as an intent, which is then
  carried out on the containers of the configuration. No part of the program starts it today.
\<close>

record intent =
  ie_Type :: string
  ie_Target :: string
  ie_Params :: "string \<rightharpoonup> string"

definition unknown_intent :: intent where
  "unknown_intent = \<lparr>ie_Type = ''unknown'', ie_Target = [], ie_Params = Map.empty\<rparr>"

definition dec_intent :: "json \<Rightarrow> intent option" where
  "dec_intent j = do {
     o' \<leftarrow> struct_fields j;
     t \<leftarrow> field [] dec_string ''type'' o';
     g \<leftarrow> field [] dec_string ''target'' o';
     p \<leftarrow> field Map.empty (dec_map dec_string) ''params'' o';
     Some \<lparr>ie_Type = t, ie_Target = g, ie_Params = p\<rparr> }"

subsection \<open>Reading the intent\<close>

definition buildPrompt :: "string list \<Rightarrow> string \<Rightarrow> string \<Rightarrow> string" where
  "buildPrompt containers userInput memoryContext =
     ([CHR 0xE4, CHR 0xBD, CHR 0xA0, CHR 0xE6, CHR 0x98, CHR 0xAF] @ '' ServerOwl '' @ [CHR 0xE8,
     CHR 0xBF, CHR 0x90, CHR 0xE7, CHR 0xBB, CHR 0xB4, CHR 0xE5, CHR 0x8A, CHR 0xA9,
     CHR 0xE6, CHR 0x89, CHR 0x8B, CHR 0xE7, CHR 0x9A, CHR 0x84, CHR 0xE6, CHR 0x84,
     CHR 0x8F, CHR 0xE5, CHR 0x9B, CHR 0xBE, CHR 0xE8, CHR 0xA7, CHR 0xA3, CHR 0xE6,
     CHR 0x9E, CHR 0x90, CHR 0xE5, CHR 0x99, CHR 0xA8, CHR 0xE3, CHR 0x80, CHR 0x82,
     CHR 0x0A, CHR 0x0A]) @
     (if memoryContext \<noteq> [] then (''## '' @ [CHR 0xE5, CHR 0x8E, CHR 0x86, CHR 0xE5, CHR 0x8F, CHR 0xB2, CHR 0xE4, CHR 0xB8,
     CHR 0x8A, CHR 0xE4, CHR 0xB8, CHR 0x8B, CHR 0xE6, CHR 0x96, CHR 0x87, CHR 0x0A]) @ memoryContext @ [CHR 0x0A] else []) @
     ([CHR 0xE7, CHR 0x94, CHR 0xA8, CHR 0xE6, CHR 0x88, CHR 0xB7, CHR 0xE8, CHR 0xBE, CHR 0x93,
     CHR 0xE5, CHR 0x85, CHR 0xA5] @ '': '' @ [CHR 0x22]) @ userInput @ [CHR 0x22, CHR 0x0A, CHR 0x0A] @
     ([CHR 0xE8, CHR 0xAF, CHR 0xB7, CHR 0xE5, CHR 0x88, CHR 0x86, CHR 0xE6, CHR 0x9E, CHR 0x90,
     CHR 0xE7, CHR 0x94, CHR 0xA8, CHR 0xE6, CHR 0x88, CHR 0xB7, CHR 0xE6, CHR 0x84,
     CHR 0x8F, CHR 0xE5, CHR 0x9B, CHR 0xBE, CHR 0xEF, CHR 0xBC, CHR 0x8C, CHR 0xE8,
     CHR 0xBF, CHR 0x94, CHR 0xE5, CHR 0x9B, CHR 0x9E] @ '' JSON'' @ [CHR 0xEF, CHR 0xBC,
     CHR 0x9A, CHR 0x0A] @ ''{'' @ [CHR 0x0A] @ ''  '' @ [CHR 0x22] @ ''type'' @ [CHR 0x22] @
     '': '' @ [CHR 0x22] @ ''status|restart|logs|help|unknown'' @ [CHR 0x22] @ '','' @
     [CHR 0x0A] @ ''  '' @ [CHR 0x22] @ ''target'' @ [CHR 0x22] @ '': '' @ [CHR 0x22,
     CHR 0xE5, CHR 0xAE, CHR 0xB9, CHR 0xE5, CHR 0x99, CHR 0xA8, CHR 0xE5, CHR 0x90,
     CHR 0x8D, CHR 0xE6, CHR 0x88, CHR 0x96, CHR 0xE6, CHR 0x9C, CHR 0x8D, CHR 0xE5,
     CHR 0x8A, CHR 0xA1, CHR 0xE5, CHR 0x90, CHR 0x8D, CHR 0xEF, CHR 0xBC, CHR 0x8C,
     CHR 0xE6, CHR 0xB2, CHR 0xA1, CHR 0xE6, CHR 0x9C, CHR 0x89, CHR 0xE5, CHR 0x88,
     CHR 0x99, CHR 0xE4, CHR 0xB8, CHR 0xBA, CHR 0xE7, CHR 0xA9, CHR 0xBA, CHR 0xE5,
     CHR 0xAD, CHR 0x97, CHR 0xE7, CHR 0xAC, CHR 0xA6, CHR 0xE4, CHR 0xB8, CHR 0xB2,
     CHR 0x22] @ '','' @ [CHR 0x0A] @ ''  '' @ [CHR 0x22] @ ''params'' @ [CHR 0x22] @
     '': {}'' @ [CHR 0x0A] @ ''}'' @ [CHR 0x0A, CHR 0x0A]) @
     [CHR 0xE5, CHR 0xB7, CHR 0xB2, CHR 0xE7, CHR 0x9F, CHR 0xA5, CHR 0xE5, CHR 0xAE, CHR 0xB9,
     CHR 0xE5, CHR 0x99, CHR 0xA8, CHR 0xE5, CHR 0x88, CHR 0x97, CHR 0xE8, CHR 0xA1,
     CHR 0xA8, CHR 0xEF, CHR 0xBC, CHR 0x9A] @ ''['' @ Join '' '' containers @ '']'' @ [CHR 0x0A, CHR 0x0A] @
     ([CHR 0xE8, CHR 0xA7, CHR 0x84, CHR 0xE5, CHR 0x88, CHR 0x99, CHR 0xEF, CHR 0xBC, CHR 0x9A,
     CHR 0x0A] @ ''- status: '' @ [CHR 0xE6, CHR 0x9F, CHR 0xA5, CHR 0xE7, CHR 0x9C,
     CHR 0x8B, CHR 0xE7, CHR 0x8A, CHR 0xB6, CHR 0xE6, CHR 0x80, CHR 0x81, CHR 0xEF,
     CHR 0xBC, CHR 0x8C, CHR 0xE5, CHR 0xA6, CHR 0x82, CHR 0x22, CHR 0xE7, CHR 0x9C,
     CHR 0x8B, CHR 0xE7, CHR 0x9C, CHR 0x8B, CHR 0xE6, CHR 0x9C, CHR 0x8D, CHR 0xE5,
     CHR 0x8A, CHR 0xA1, CHR 0xE7, CHR 0x8A, CHR 0xB6, CHR 0xE6, CHR 0x80, CHR 0x81,
     CHR 0x22, CHR 0xE3, CHR 0x80, CHR 0x81, CHR 0x22, CHR 0xE7, CHR 0x8E, CHR 0xB0,
     CHR 0xE5, CHR 0x9C, CHR 0xA8, CHR 0xE6, CHR 0x80, CHR 0x8E, CHR 0xE4, CHR 0xB9,
     CHR 0x88, CHR 0xE6, CHR 0xA0, CHR 0xB7, CHR 0x22, CHR 0x0A] @ ''- restart: '' @
     [CHR 0xE9, CHR 0x87, CHR 0x8D, CHR 0xE5, CHR 0x90, CHR 0xAF, CHR 0xE5, CHR 0xAE,
     CHR 0xB9, CHR 0xE5, CHR 0x99, CHR 0xA8, CHR 0xEF, CHR 0xBC, CHR 0x8C, CHR 0xE5,
     CHR 0xA6, CHR 0x82, CHR 0x22, CHR 0xE9, CHR 0x87, CHR 0x8D, CHR 0xE5, CHR 0x90,
     CHR 0xAF] @ '' shortlink'' @ [CHR 0x22, CHR 0xE3, CHR 0x80, CHR 0x81, CHR 0x22] @
     ''shortlink '' @ [CHR 0xE6, CHR 0x8C, CHR 0x82, CHR 0xE4, CHR 0xBA, CHR 0x86,
     CHR 0xE9, CHR 0x87, CHR 0x8D, CHR 0xE5, CHR 0x90, CHR 0xAF, CHR 0xE4, CHR 0xB8,
     CHR 0x8B, CHR 0x22, CHR 0x0A] @ ''- logs: '' @ [CHR 0xE6, CHR 0x9F, CHR 0xA5,
     CHR 0xE7, CHR 0x9C, CHR 0x8B, CHR 0xE6, CHR 0x97, CHR 0xA5, CHR 0xE5, CHR 0xBF,
     CHR 0x97, CHR 0xEF, CHR 0xBC, CHR 0x8C, CHR 0xE5, CHR 0xA6, CHR 0x82, CHR 0x22,
     CHR 0xE7, CHR 0x9C, CHR 0x8B, CHR 0xE7, CHR 0x9C, CHR 0x8B] @ '' app '' @ [CHR 0xE7,
     CHR 0x9A, CHR 0x84, CHR 0xE6, CHR 0x97, CHR 0xA5, CHR 0xE5, CHR 0xBF, CHR 0x97,
     CHR 0x22, CHR 0xE3, CHR 0x80, CHR 0x81, CHR 0x22] @ ''shortlink '' @ [CHR 0xE6,
     CHR 0x9C, CHR 0x89, CHR 0xE4, CHR 0xBB, CHR 0x80, CHR 0xE4, CHR 0xB9, CHR 0x88,
     CHR 0xE6, CHR 0x8A, CHR 0xA5, CHR 0xE9, CHR 0x94, CHR 0x99, CHR 0x22, CHR 0x0A] @
     ''- help: '' @ [CHR 0xE5, CHR 0xB8, CHR 0xAE, CHR 0xE5, CHR 0x8A, CHR 0xA9, CHR 0xEF,
     CHR 0xBC, CHR 0x8C, CHR 0xE5, CHR 0xA6, CHR 0x82, CHR 0x22, CHR 0xE4, CHR 0xBD,
     CHR 0xA0, CHR 0xE8, CHR 0x83, CHR 0xBD, CHR 0xE5, CHR 0xB9, CHR 0xB2, CHR 0xE4,
     CHR 0xBB, CHR 0x80, CHR 0xE4, CHR 0xB9, CHR 0x88, CHR 0x22, CHR 0xE3, CHR 0x80,
     CHR 0x81, CHR 0x22, CHR 0xE5, CHR 0xB8, CHR 0xAE, CHR 0xE5, CHR 0x8A, CHR 0xA9,
     CHR 0x22, CHR 0x0A] @ ''- unknown: '' @ [CHR 0xE6, CHR 0x97, CHR 0xA0, CHR 0xE6,
     CHR 0xB3, CHR 0x95, CHR 0xE8, CHR 0xAF, CHR 0x86, CHR 0xE5, CHR 0x88, CHR 0xAB,
     CHR 0xE6, CHR 0x88, CHR 0x96, CHR 0xE8, CHR 0x80, CHR 0x85, CHR 0xE7, CHR 0x94,
     CHR 0xA8, CHR 0xE6, CHR 0x88, CHR 0xB7, CHR 0xE7, CHR 0x9A, CHR 0x84, CHR 0xE6,
     CHR 0x84, CHR 0x8F, CHR 0xE5, CHR 0x9B, CHR 0xBE, CHR 0xE4, CHR 0xB8, CHR 0x8D,
     CHR 0xE5, CHR 0xB1, CHR 0x9E, CHR 0xE4, CHR 0xBA, CHR 0x8E, CHR 0xE5, CHR 0x85,
     CHR 0xB6, CHR 0xE4, CHR 0xBB, CHR 0x96, CHR 0xE4, CHR 0xBB, CHR 0xBB, CHR 0xE4,
     CHR 0xBD, CHR 0x95, CHR 0xE4, CHR 0xB8, CHR 0x80, CHR 0xE9, CHR 0xA1, CHR 0xB9,
     CHR 0xE3, CHR 0x80, CHR 0x82, CHR 0x0A, CHR 0x0A, CHR 0xE6, CHR 0xB3, CHR 0xA8,
     CHR 0xE6, CHR 0x84, CHR 0x8F, CHR 0xEF, CHR 0xBC, CHR 0x9A, CHR 0xE5, CHR 0xA6,
     CHR 0x82, CHR 0xE6, CHR 0x9E, CHR 0x9C, CHR 0xE7, CHR 0x94, CHR 0xA8, CHR 0xE6,
     CHR 0x88, CHR 0xB7, CHR 0xE8, CHR 0xAF, CHR 0xB4, CHR 0x22, CHR 0xE5, CHR 0x86,
     CHR 0x8D, CHR 0xE9, CHR 0x87, CHR 0x8D, CHR 0xE5, CHR 0x90, CHR 0xAF, CHR 0xE4,
     CHR 0xB8, CHR 0x80, CHR 0xE6, CHR 0xAC, CHR 0xA1, CHR 0x22, CHR 0xE3, CHR 0x80,
     CHR 0x81, CHR 0x22, CHR 0xE5, CHR 0x86, CHR 0x8D, CHR 0xE7, CHR 0x9C, CHR 0x8B,
     CHR 0xE7, CHR 0x9C, CHR 0x8B, CHR 0x22, CHR 0xE7, CHR 0xAD, CHR 0x89, CHR 0xEF,
     CHR 0xBC, CHR 0x8C, CHR 0xE8, CHR 0xAF, CHR 0xB7, CHR 0xE6, CHR 0xA0, CHR 0xB9,
     CHR 0xE6, CHR 0x8D, CHR 0xAE, CHR 0xE5, CHR 0x8E, CHR 0x86, CHR 0xE5, CHR 0x8F,
     CHR 0xB2, CHR 0xE4, CHR 0xB8, CHR 0x8A, CHR 0xE4, CHR 0xB8, CHR 0x8B, CHR 0xE6,
     CHR 0x96, CHR 0x87, CHR 0xE6, CHR 0x8E, CHR 0xA8, CHR 0xE6, CHR 0x96, CHR 0xAD,
     CHR 0xE7, CHR 0x9B, CHR 0xAE, CHR 0xE6, CHR 0xA0, CHR 0x87, CHR 0xE3, CHR 0x80,
     CHR 0x82, CHR 0x0A, CHR 0x0A, CHR 0xE5, CHR 0x8F, CHR 0xAA, CHR 0xE8, CHR 0xBF,
     CHR 0x94, CHR 0xE5, CHR 0x9B, CHR 0x9E] @ '' JSON'' @ [CHR 0xEF, CHR 0xBC, CHR 0x8C,
     CHR 0xE4, CHR 0xB8, CHR 0x8D, CHR 0xE8, CHR 0xA6, CHR 0x81, CHR 0xE8, CHR 0xA7,
     CHR 0xA3, CHR 0xE9, CHR 0x87, CHR 0x8A, CHR 0xE3, CHR 0x80, CHR 0x82])"

text \<open>
  \<open>chat\<close> is the client of the model and \<open>parse\<close> reads JSON text; the memory is there or nil. A panic of the
  memory is passed on.
\<close>

definition ParseIntent ::
  "(string \<Rightarrow> 'w \<Rightarrow> 'w \<times> (string + string)) \<Rightarrow> (string \<Rightarrow> json option) \<Rightarrow> 'w embedding_service option \<Rightarrow> gotime \<Rightarrow>
   string list \<Rightarrow> memory option \<Rightarrow> string \<Rightarrow> string \<Rightarrow> 'w \<Rightarrow> 'w \<times> memory option \<times> (string + intent) go" where
  "ParseIntent chat parse es now containers mem userInput sessionID w =
     (let ask = (\<lambda>w m memoryContext.
            case chat (buildPrompt containers userInput memoryContext) w of
              (w', Inl e) \<Rightarrow> (w', m, Inr (Inl e))
            | (w', Inr resp) \<Rightarrow> (w', m, Inr (Inr (case Option.bind (parse resp) dec_intent of
                None \<Rightarrow> unknown_intent | Some i \<Rightarrow> i))))
      in case mem of
           None \<Rightarrow> ask w None []
         | Some m \<Rightarrow>
             (case BuildContext es now sessionID userInput m w of
                (w1, Inl p) \<Rightarrow> (w1, Some m, Inl p)
              | (w1, Inr (m1, ctx)) \<Rightarrow> ask w1 (Some m1) (FormatContextForLLM (Some ctx))))"

subsection \<open>Carrying it out\<close>

definition findContainerID :: "monitor_config \<Rightarrow> string \<Rightarrow> string" where
  "findContainerID cfg target =
     (case find (\<lambda>c. cn_Name c = target \<or> cn_ID c = target) (mf_Containers cfg) of None \<Rightarrow> [] | Some c \<Rightarrow> cn_ID c)"

fun status_containers :: "'w probes \<Rightarrow> container_config list \<Rightarrow> string \<Rightarrow> clients \<Rightarrow> 'w \<Rightarrow> 'w \<times> clients \<times> string go" where
  "status_containers pb [] out cl w = (w, cl, Inr out)"
| "status_containers pb (c # cs) out cl w =
     (case CheckContainer pb (cn_ID c) cl w of
        (w', cl', Inl p) \<Rightarrow> (w', cl', Inl p)
      | (w', cl', Inr r) \<Rightarrow>
          status_containers pb cs (out @ (if ck_Running r then ([CHR 0xE2, CHR 0x9C, CHR 0x85] @ '' '') @ cn_Name c @ ('': '' @ [CHR 0xE8, CHR 0xBF, CHR 0x90, CHR 0xE8, CHR 0xA1, CHR 0x8C, CHR 0xE4, CHR 0xB8,
     CHR 0xAD, CHR 0x0A])
            else ([CHR 0xE2, CHR 0x9D, CHR 0x8C] @ '' '') @ cn_Name c @ '': '' @ ck_Status r @ [CHR 0x0A])) cl' w')"

text \<open>Milliseconds, cut towards zero.\<close>

definition Milliseconds :: "duration \<Rightarrow> int" where
  "Milliseconds d = (if 0 \<le> d then d div Millisecond else - ((- d) div Millisecond))"

fun status_http :: "'w probes \<Rightarrow> http_check list \<Rightarrow> string \<Rightarrow> 'w \<Rightarrow> 'w \<times> string" where
  "status_http pb [] out w = (w, out)"
| "status_http pb (h # hs) out w =
     (case CheckHTTP pb (hc_Name h) (hc_URL h) (hc_Timeout h) w of (w', r) \<Rightarrow>
        status_http pb hs (out @ (if hr_Healthy r
          then ([CHR 0xE2, CHR 0x9C, CHR 0x85] @ '' '') @ hc_Name h @ '': '' @ show_int (Milliseconds (hr_Latency r)) @ ''ms'' @ [CHR 0x0A]
          else ([CHR 0xE2, CHR 0x9D, CHR 0x8C] @ '' '') @ hc_Name h @ '': '' @ hr_Error r @ [CHR 0x0A])) w')"

definition executeStatus :: "'w probes \<Rightarrow> monitor_config \<Rightarrow> clients \<Rightarrow> 'w \<Rightarrow> 'w \<times> clients \<times> string go" where
  "executeStatus pb cfg cl w =
     (case status_containers pb (mf_Containers cfg) (([CHR 0xF0, CHR 0x9F, CHR 0x93, CHR 0x8A] @ '' '' @ [CHR 0xE7, CHR 0xB3, CHR 0xBB, CHR 0xE7,
     CHR 0xBB, CHR 0x9F, CHR 0xE7, CHR 0x8A, CHR 0xB6, CHR 0xE6, CHR 0x80, CHR 0x81,
     CHR 0x0A, CHR 0x0A]) @ [CHR 0xE3, CHR 0x80, CHR 0x90, CHR 0xE5, CHR 0xAE, CHR 0xB9, CHR 0xE5, CHR 0x99, CHR 0xA8,
     CHR 0xE3, CHR 0x80, CHR 0x91, CHR 0x0A]) cl w of
        (w1, cl1, Inl p) \<Rightarrow> (w1, cl1, Inl p)
      | (w1, cl1, Inr out1) \<Rightarrow>
          let (w2, out2) = (if mf_HTTPChecks cfg \<noteq> [] then status_http pb (mf_HTTPChecks cfg) (out1 @ ([CHR 0x0A, CHR 0xE3, CHR 0x80, CHR 0x90] @ ''HTTP '' @ [CHR 0xE6, CHR 0xA3, CHR 0x80,
     CHR 0xE6, CHR 0x9F, CHR 0xA5, CHR 0xE3, CHR 0x80, CHR 0x91, CHR 0x0A])) w1
                            else (w1, out1));
              rd = pb_readings pb w2
          in (w2, cl1, Inr (out2 @ [CHR 0x0A, CHR 0xE3, CHR 0x80, CHR 0x90, CHR 0xE7, CHR 0xB3, CHR 0xBB, CHR 0xE7, CHR 0xBB,
     CHR 0x9F, CHR 0xE8, CHR 0xB5, CHR 0x84, CHR 0xE6, CHR 0xBA, CHR 0x90, CHR 0xE3,
     CHR 0x80, CHR 0x91, CHR 0x0A] @
               ([CHR 0xF0, CHR 0x9F, CHR 0x92, CHR 0xBE] @ '' '' @ [CHR 0xE7, CHR 0xA3, CHR 0x81, CHR 0xE7,
     CHR 0x9B, CHR 0x98] @ '': '') @ fixed 1 (fst (CheckDisk rd 100)) @ ''%'' @ [CHR 0x0A] @
               ([CHR 0xF0, CHR 0x9F, CHR 0xA7, CHR 0xA0] @ '' '' @ [CHR 0xE5, CHR 0x86, CHR 0x85, CHR 0xE5,
     CHR 0xAD, CHR 0x98] @ '': '') @ fixed 1 (fst (CheckMemory rd 100)) @ ''%'' @ [CHR 0x0A])))"

text \<open>The timeout of a restart is written as 30, a number of nanoseconds.\<close>

definition executeRestart :: "'w probes \<Rightarrow> monitor_config \<Rightarrow> string \<Rightarrow> clients \<Rightarrow> 'w \<Rightarrow> 'w \<times> clients \<times> string go" where
  "executeRestart pb cfg target cl w =
     (if target = [] then (w, cl, Inr ([CHR 0xE8, CHR 0xAF, CHR 0xB7, CHR 0xE6, CHR 0x8C, CHR 0x87, CHR 0xE5, CHR 0xAE, CHR 0x9A,
     CHR 0xE8, CHR 0xA6, CHR 0x81, CHR 0xE9, CHR 0x87, CHR 0x8D, CHR 0xE5, CHR 0x90,
     CHR 0xAF, CHR 0xE7, CHR 0x9A, CHR 0x84, CHR 0xE5, CHR 0xAE, CHR 0xB9, CHR 0xE5,
     CHR 0x99, CHR 0xA8, CHR 0xEF, CHR 0xBC, CHR 0x8C, CHR 0xE4, CHR 0xBE, CHR 0x8B,
     CHR 0xE5, CHR 0xA6, CHR 0x82, CHR 0xEF, CHR 0xBC, CHR 0x9A, CHR 0xE9, CHR 0x87,
     CHR 0x8D, CHR 0xE5, CHR 0x90, CHR 0xAF] @ '' nginx''))
      else let containerID = findContainerID cfg target in
        if containerID = [] then (w, cl, Inr ([CHR 0xE6, CHR 0x9C, CHR 0xAA, CHR 0xE6, CHR 0x89, CHR 0xBE, CHR 0xE5, CHR 0x88, CHR 0xB0,
     CHR 0xE5, CHR 0xAE, CHR 0xB9, CHR 0xE5, CHR 0x99, CHR 0xA8, CHR 0xEF, CHR 0xBC,
     CHR 0x9A] @ target))
        else case RestartContainer pb containerID 30 cl w of
          (w1, cl1, Inl p) \<Rightarrow> (w1, cl1, Inl p)
        | (w1, cl1, Inr (Some e)) \<Rightarrow> (w1, cl1, Inr ([CHR 0xE9, CHR 0x87, CHR 0x8D, CHR 0xE5, CHR 0x90, CHR 0xAF, CHR 0xE5, CHR 0xA4, CHR 0xB1,
     CHR 0xE8, CHR 0xB4, CHR 0xA5, CHR 0xEF, CHR 0xBC, CHR 0x9A] @ e))
        | (w1, cl1, Inr None) \<Rightarrow>
            (case CheckContainer pb containerID cl1 (pb_sleep pb (3 * Second) w1) of
               (w2, cl2, Inl p) \<Rightarrow> (w2, cl2, Inl p)
             | (w2, cl2, Inr r) \<Rightarrow>
                 (w2, cl2, Inr (if \<not> ck_Running r
                    then ([CHR 0xE2, CHR 0x9A, CHR 0xA0, CHR 0xEF, CHR 0xB8, CHR 0x8F] @ '' '') @ target @ ('' '' @ [CHR 0xE9, CHR 0x87, CHR 0x8D, CHR 0xE5, CHR 0x90, CHR 0xAF, CHR 0xE5, CHR 0x90,
     CHR 0x8E, CHR 0xE6, CHR 0x9C, CHR 0xAA, CHR 0xE6, CHR 0xAD, CHR 0xA3, CHR 0xE5,
     CHR 0xB8, CHR 0xB8, CHR 0xE8, CHR 0xBF, CHR 0x90, CHR 0xE8, CHR 0xA1, CHR 0x8C,
     CHR 0x0A, CHR 0xE7, CHR 0x8A, CHR 0xB6, CHR 0xE6, CHR 0x80, CHR 0x81, CHR 0xEF,
     CHR 0xBC, CHR 0x9A]) @ ck_Status r
                    else ([CHR 0xE2, CHR 0x9C, CHR 0x85] @ '' '' @ [CHR 0xE5, CHR 0xB7, CHR 0xB2, CHR 0xE9, CHR 0x87,
     CHR 0x8D, CHR 0xE5, CHR 0x90, CHR 0xAF] @ '' '') @ target @ [CHR 0x0A, CHR 0xE7, CHR 0x8A, CHR 0xB6, CHR 0xE6, CHR 0x80, CHR 0x81, CHR 0xEF, CHR 0xBC,
     CHR 0x9A] @ ck_Status r))))"

definition executeLogs :: "'w probes \<Rightarrow> monitor_config \<Rightarrow> string \<Rightarrow> clients \<Rightarrow> 'w \<Rightarrow> 'w \<times> clients \<times> string go" where
  "executeLogs pb cfg target cl w =
     (if target = [] then (w, cl, Inr ([CHR 0xE8, CHR 0xAF, CHR 0xB7, CHR 0xE6, CHR 0x8C, CHR 0x87, CHR 0xE5, CHR 0xAE, CHR 0x9A,
     CHR 0xE5, CHR 0xAE, CHR 0xB9, CHR 0xE5, CHR 0x99, CHR 0xA8, CHR 0xEF, CHR 0xBC,
     CHR 0x8C, CHR 0xE4, CHR 0xBE, CHR 0x8B, CHR 0xE5, CHR 0xA6, CHR 0x82, CHR 0xEF,
     CHR 0xBC, CHR 0x9A, CHR 0xE6, CHR 0x9F, CHR 0xA5, CHR 0xE7, CHR 0x9C, CHR 0x8B] @
     '' nginx '' @ [CHR 0xE7, CHR 0x9A, CHR 0x84, CHR 0xE6, CHR 0x97, CHR 0xA5, CHR 0xE5,
     CHR 0xBF, CHR 0x97]))
      else let containerID = findContainerID cfg target in
        if containerID = [] then (w, cl, Inr ([CHR 0xE6, CHR 0x9C, CHR 0xAA, CHR 0xE6, CHR 0x89, CHR 0xBE, CHR 0xE5, CHR 0x88, CHR 0xB0,
     CHR 0xE5, CHR 0xAE, CHR 0xB9, CHR 0xE5, CHR 0x99, CHR 0xA8, CHR 0xEF, CHR 0xBC,
     CHR 0x9A] @ target))
        else case GetContainerLogs pb containerID 100 cl w of
          (w1, cl1, Inl p) \<Rightarrow> (w1, cl1, Inl p)
        | (w1, cl1, Inr (Inl e)) \<Rightarrow> (w1, cl1, Inr ([CHR 0xE8, CHR 0x8E, CHR 0xB7, CHR 0xE5, CHR 0x8F, CHR 0x96, CHR 0xE6, CHR 0x97, CHR 0xA5,
     CHR 0xE5, CHR 0xBF, CHR 0x97, CHR 0xE5, CHR 0xA4, CHR 0xB1, CHR 0xE8, CHR 0xB4,
     CHR 0xA5, CHR 0xEF, CHR 0xBC, CHR 0x9A] @ e))
        | (w1, cl1, Inr (Inr logs)) \<Rightarrow>
            (let logs1 = (if length logs > 3500 then (''...('' @ [CHR 0xE5, CHR 0x89, CHR 0x8D, CHR 0xE9, CHR 0x9D, CHR 0xA2, CHR 0xE5, CHR 0x86,
     CHR 0x85, CHR 0xE5, CHR 0xAE, CHR 0xB9, CHR 0xE5, CHR 0xB7, CHR 0xB2, CHR 0xE7,
     CHR 0x9C, CHR 0x81, CHR 0xE7, CHR 0x95, CHR 0xA5] @ '')'' @ [CHR 0x0A, CHR 0x0A]) @ drop (length logs - 3500) logs else logs) in
             (w1, cl1, Inr (if logs1 = [] then ([CHR 0xF0, CHR 0x9F, CHR 0x93, CHR 0x9C] @ '' '') @ target @ ('' '' @ [CHR 0xE6, CHR 0x9A, CHR 0x82, CHR 0xE6, CHR 0x97, CHR 0xA0, CHR 0xE6, CHR 0x97,
     CHR 0xA5, CHR 0xE5, CHR 0xBF, CHR 0x97])
               else ([CHR 0xF0, CHR 0x9F, CHR 0x93, CHR 0x9C] @ '' '') @ target @ ('' '' @ [CHR 0xE6, CHR 0x9C, CHR 0x80, CHR 0xE8, CHR 0xBF, CHR 0x91, CHR 0xE6, CHR 0x97,
     CHR 0xA5, CHR 0xE5, CHR 0xBF, CHR 0x97, CHR 0xEF, CHR 0xBC, CHR 0x9A, CHR 0x0A,
     CHR 0x0A]) @ logs1))))"

definition executeHelp :: string where
  "executeHelp = ([CHR 0xF0, CHR 0x9F, CHR 0xA6, CHR 0x89] @ '' ServerOwl '' @ [CHR 0xE8, CHR 0xBF, CHR 0x90,
     CHR 0xE7, CHR 0xBB, CHR 0xB4, CHR 0xE5, CHR 0x8A, CHR 0xA9, CHR 0xE6, CHR 0x89,
     CHR 0x8B, CHR 0x0A, CHR 0x0A] @ ''  '' @ [CHR 0xE6, CHR 0x88, CHR 0x91, CHR 0xE5,
     CHR 0x8F, CHR 0xAF, CHR 0xE4, CHR 0xBB, CHR 0xA5, CHR 0xE5, CHR 0xB8, CHR 0xAE,
     CHR 0xE4, CHR 0xBD, CHR 0xA0, CHR 0xEF, CHR 0xBC, CHR 0x9A, CHR 0x0A] @ ''  - '' @
     [CHR 0xE6, CHR 0x9F, CHR 0xA5, CHR 0xE7, CHR 0x9C, CHR 0x8B, CHR 0xE7, CHR 0x8A,
     CHR 0xB6, CHR 0xE6, CHR 0x80, CHR 0x81, CHR 0xEF, CHR 0xBC, CHR 0x9A, CHR 0xE3,
     CHR 0x80, CHR 0x8C, CHR 0xE7, CHR 0x9C, CHR 0x8B, CHR 0xE7, CHR 0x9C, CHR 0x8B,
     CHR 0xE6, CHR 0x9C, CHR 0x8D, CHR 0xE5, CHR 0x8A, CHR 0xA1, CHR 0xE7, CHR 0x8A,
     CHR 0xB6, CHR 0xE6, CHR 0x80, CHR 0x81, CHR 0xE3, CHR 0x80, CHR 0x8D, CHR 0x0A] @
     ''  - '' @ [CHR 0xE9, CHR 0x87, CHR 0x8D, CHR 0xE5, CHR 0x90, CHR 0xAF, CHR 0xE5,
     CHR 0xAE, CHR 0xB9, CHR 0xE5, CHR 0x99, CHR 0xA8, CHR 0xEF, CHR 0xBC, CHR 0x9A,
     CHR 0xE3, CHR 0x80, CHR 0x8C, CHR 0xE9, CHR 0x87, CHR 0x8D, CHR 0xE5, CHR 0x90,
     CHR 0xAF] @ '' caddy'' @ [CHR 0xE3, CHR 0x80, CHR 0x8D, CHR 0x0A] @ ''  - '' @
     [CHR 0xE6, CHR 0x9F, CHR 0xA5, CHR 0xE7, CHR 0x9C, CHR 0x8B, CHR 0xE6, CHR 0x97,
     CHR 0xA5, CHR 0xE5, CHR 0xBF, CHR 0x97, CHR 0xEF, CHR 0xBC, CHR 0x9A, CHR 0xE3,
     CHR 0x80, CHR 0x8C] @ ''caddy '' @ [CHR 0xE7, CHR 0x9A, CHR 0x84, CHR 0xE6, CHR 0x97,
     CHR 0xA5, CHR 0xE5, CHR 0xBF, CHR 0x97, CHR 0xE3, CHR 0x80, CHR 0x8D, CHR 0x0A,
     CHR 0x0A] @ ''  '' @ [CHR 0xE6, CHR 0x9C, CHR 0x89, CHR 0xE9, CHR 0x97, CHR 0xAE,
     CHR 0xE9, CHR 0xA2, CHR 0x98, CHR 0xE9, CHR 0x9A, CHR 0x8F, CHR 0xE6, CHR 0x97,
     CHR 0xB6, CHR 0xE9, CHR 0x97, CHR 0xAE, CHR 0xE6, CHR 0x88, CHR 0x91, CHR 0xEF,
     CHR 0xBC, CHR 0x81])"

definition commander_Execute :: "'w probes \<Rightarrow> monitor_config \<Rightarrow> intent \<Rightarrow> clients \<Rightarrow> 'w \<Rightarrow> 'w \<times> clients \<times> string go" where
  "commander_Execute pb cfg i cl w =
     (if ie_Type i = ''status'' then executeStatus pb cfg cl w
      else if ie_Type i = ''restart'' then executeRestart pb cfg (ie_Target i) cl w
      else if ie_Type i = ''logs'' then executeLogs pb cfg (ie_Target i) cl w
      else if ie_Type i = ''help'' then (w, cl, Inr executeHelp)
      else (w, cl, Inr ([CHR 0xE6, CHR 0x8A, CHR 0xB1, CHR 0xE6, CHR 0xAD, CHR 0x89, CHR 0xEF, CHR 0xBC, CHR 0x8C,
     CHR 0xE6, CHR 0x88, CHR 0x91, CHR 0xE6, CHR 0xB2, CHR 0xA1, CHR 0xE7, CHR 0x90,
     CHR 0x86, CHR 0xE8, CHR 0xA7, CHR 0xA3, CHR 0xE4, CHR 0xBD, CHR 0xA0, CHR 0xE7,
     CHR 0x9A, CHR 0x84, CHR 0xE6, CHR 0x84, CHR 0x8F, CHR 0xE6, CHR 0x80, CHR 0x9D,
     CHR 0xE3, CHR 0x80, CHR 0x82, CHR 0xE8, CHR 0xAF, CHR 0x95, CHR 0xE8, CHR 0xAF,
     CHR 0x95, CHR 0xEF, CHR 0xBC, CHR 0x9A, CHR 0x0A] @ ''- '' @ [CHR 0xE7, CHR 0x9C,
     CHR 0x8B, CHR 0xE7, CHR 0x9C, CHR 0x8B, CHR 0xE7, CHR 0x8A, CHR 0xB6, CHR 0xE6,
     CHR 0x80, CHR 0x81, CHR 0x0A] @ ''- '' @ [CHR 0xE9, CHR 0x87, CHR 0x8D, CHR 0xE5,
     CHR 0x90, CHR 0xAF] @ '' '' @ [CHR 0xE5, CHR 0xAE, CHR 0xB9, CHR 0xE5, CHR 0x99,
     CHR 0xA8, CHR 0xE5, CHR 0x90, CHR 0x8D, CHR 0x0A] @ ''- '' @ [CHR 0xE6, CHR 0x9F,
     CHR 0xA5, CHR 0xE7, CHR 0x9C, CHR 0x8B] @ '' '' @ [CHR 0xE5, CHR 0xAE, CHR 0xB9,
     CHR 0xE5, CHR 0x99, CHR 0xA8, CHR 0xE5, CHR 0x90, CHR 0x8D] @ '' '' @ [CHR 0xE7,
     CHR 0x9A, CHR 0x84, CHR 0xE6, CHR 0x97, CHR 0xA5, CHR 0xE5, CHR 0xBF, CHR 0x97])))"

end
