(* ===== verification/Owl_MonitorProps.thy ===== *)
theory Owl_MonitorProps
  imports Owl_Commander
begin

text \<open>
  What the monitor promises: a message at every change of a check, and no other; and what the commander does
  with the containers.
\<close>

subsection \<open>Messages at changes\<close>

text \<open>The results of the checks of a key, and the messages about it, in order.\<close>

fun checks_of :: "alert_key \<Rightarrow> mon_event list \<Rightarrow> bool list" where
  "checks_of k [] = []"
| "checks_of k (Checked k' b # es) = (if k' = k then b # checks_of k es else checks_of k es)"
| "checks_of k (Notified _ _ _ _ # es) = checks_of k es"

fun messages_of :: "alert_key \<Rightarrow> mon_event list \<Rightarrow> bool list" where
  "messages_of k [] = []"
| "messages_of k (Notified k' b _ _ # es) = (if k' = k then b # messages_of k es else messages_of k es)"
| "messages_of k (Checked _ _ # es) = messages_of k es"

text \<open>The places where a sequence changes, when it starts out false.\<close>

fun changes :: "bool \<Rightarrow> bool list \<Rightarrow> bool list" where
  "changes prev [] = []"
| "changes prev (b # bs) = (if b \<noteq> prev then b # changes b bs else changes prev bs)"

lemma trace_append:
  "checks_of k (es @ es') = checks_of k es @ checks_of k es'"
  "messages_of k (es @ es') = messages_of k es @ messages_of k es'"
  by (induction es rule: checks_of.induct) auto

lemma changes_snoc: "changes prev (bs @ [b]) = changes prev bs @ (if b \<noteq> last (prev # bs) then [b] else [])"
  by (induction bs arbitrary: prev) auto

text \<open>What holds of a key: messages are the changes so far, and the alert is the last result.\<close>

definition follows :: "alert_key \<Rightarrow> 'w monitor_state \<Rightarrow> bool" where
  "follows k s \<longleftrightarrow> messages_of k (ms_trace s) = changes False (checks_of k (ms_trace s)) \<and>
     alerted k (ms_alerts s) = last (False # checks_of k (ms_trace s))"

lemma alerted_set_alert: "alerted k (set_alert k' b now a) = (if k = k' then b else alerted k a)"
  by (cases k'; cases k) (auto simp: HasContainer_def HasHTTP_def)

lemma tell_state:
  obtains err where "ms_trace (tell pb user k b text s) = ms_trace s @ [Notified k b text err]"
    and "ms_alerts (tell pb user k b text s) = ms_alerts s"
  by (cases "SendText (pb_net pb) user text (ms_notifier s) (ms_world s)") (auto simp: tell_def intro: that)

lemma after_check_state:
  obtains err where
    "ms_trace (after_check pb user k failing alarm relief s) = ms_trace s @ Checked k failing #
      (if failing \<noteq> alerted k (ms_alerts s) then [Notified k failing (if failing then alarm else relief) err] else [])"
    and "\<And>k'. alerted k' (ms_alerts (after_check pb user k failing alarm relief s)) =
      (if k' = k then failing else alerted k' (ms_alerts s))"
proof -
  let ?s = "s\<lparr>ms_trace := ms_trace s @ [Checked k failing]\<rparr>"
  obtain err where "ms_trace (tell pb user k failing (if failing then alarm else relief) ?s) =
      ms_trace ?s @ [Notified k failing (if failing then alarm else relief) err]"
    and "ms_alerts (tell pb user k failing (if failing then alarm else relief) ?s) = ms_alerts ?s" by (rule tell_state)
  then show thesis
    by (intro that[of err]; cases failing; cases "alerted k (ms_alerts s)")
      (auto simp: after_check_def Let_def alerted_set_alert)
qed

lemma after_check_follows:
  assumes "follows k s"
  shows "follows k (after_check pb user k' failing alarm relief s)"
proof (rule after_check_state[where pb = pb and user = user and k = k' and failing = failing and alarm = alarm
      and relief = relief and s = s])
  fix err
  assume "ms_trace (after_check pb user k' failing alarm relief s) = ms_trace s @ Checked k' failing #
      (if failing \<noteq> alerted k' (ms_alerts s) then [Notified k' failing (if failing then alarm else relief) err] else [])"
    and "\<And>k''. alerted k'' (ms_alerts (after_check pb user k' failing alarm relief s)) =
      (if k'' = k' then failing else alerted k'' (ms_alerts s))"
  then show ?thesis using assms by (auto simp: follows_def trace_append changes_snoc)
qed

lemma checks_after_check:
  "checks_of k (ms_trace (after_check pb user k' failing alarm relief s)) =
   checks_of k (ms_trace s) @ (if k' = k then [failing] else [])"
  by (rule after_check_state[where pb = pb and user = user and k = k' and failing = failing and alarm = alarm
      and relief = relief and s = s]) (simp add: trace_append)

lemma follows_world [simp]: "follows k (s\<lparr>ms_world := w, ms_clients := c\<rparr>) = follows k s"
  "follows k (s\<lparr>ms_world := w\<rparr>) = follows k s" "follows k (s\<lparr>ms_world := w, ms_notifier := n\<rparr>) = follows k s"
  by (simp_all add: follows_def)

lemma check_containers_follows:
  "check_containers pb user cs s = Inr s' \<Longrightarrow> follows k s \<Longrightarrow> follows k s'"
  by (induction cs arbitrary: s)
    (auto simp: check_container_def after_check_follows split: prod.splits sum.splits)

lemma check_https_follows: "follows k s \<Longrightarrow> follows k (fold (check_http pb user) hs s)"
  by (induction hs arbitrary: s) (auto simp: check_http_def after_check_follows split: prod.splits)

lemma single_checks_follow:
  "follows k s \<Longrightarrow> follows k (check_postgres pb user cfg s)"
  "follows k s \<Longrightarrow> follows k (check_redis pb user cfg s)"
  "follows k s \<Longrightarrow> follows k (check_disk pb user cfg s)"
  "follows k s \<Longrightarrow> follows k (check_memory pb user cfg s)"
  by (simp_all add: check_memory_def check_disk_def check_redis_def check_postgres_def after_check_follows
      split: prod.split)

lemma RunChecks_follows: "RunChecks pb user cfg s = Inr s' \<Longrightarrow> follows k s \<Longrightarrow> follows k s'"
  by (auto simp: RunChecks_def split: sum.splits
      intro!: single_checks_follow check_https_follows intro: check_containers_follows)

lemma not_alerted_new: "\<not> alerted k NewAlertState"
  by (cases k) (simp_all add: NewAlertState_def HasContainer_def HasHTTP_def)

lemma monitored_follows: "monitored pb user cfg s \<Longrightarrow> follows k s"
proof (induction rule: monitored.induct)
  case (monitored_start n c w)
  then show ?case by (simp add: follows_def NewMonitor_def not_alerted_new)
next
  case (monitored_round s w n s')
  then show ?case using RunChecks_follows[of pb user cfg _ s' k] by auto
qed

text \<open>
  Property C29: however the machine, its services and the network behave, for every container, endpoint,
  database and threshold the messages so far are exactly the changes of its checks, one alarm when it begins
  to fail and one relief when it ends, and an alert stands exactly while the last check failed.
\<close>
theorem alerts_at_changes:
  assumes "monitored pb user cfg s"
  shows "messages_of k (ms_trace s) = changes False (checks_of k (ms_trace s)) \<and>
    alerted k (ms_alerts s) = last (False # checks_of k (ms_trace s))"
  using monitored_follows[OF assms, of k] by (simp add: follows_def)

subsection \<open>A nil client\<close>

text \<open>
  When the docker client cannot be made the first check reports it, but the error is forgotten:
  every later check of a container uses a nil client and panics.
\<close>
theorem second_container_check_panics:
  assumes "kl_docker c = None" "snd (pb_newDocker pb w) = Some e"
  shows "\<exists>w1 c1. CheckContainer pb i c w = (w1, c1, Inr \<lparr>ck_Name = [], ck_ID = i, ck_Running = False, ck_Status = [], ck_Error = e\<rparr>) \<and>
    (\<forall>i' w2. CheckContainer pb i' c1 w2 = (w2, c1, Inl NilDeref))"
proof -
  obtain w1 where "pb_newDocker pb w = (w1, Some e)" using assms(2) by (metis prod.collapse)
  then show ?thesis using assms(1) by (simp add: CheckContainer_def getDockerClient_def)
qed

subsection \<open>The commander\<close>

text \<open>
  A restart asked for in words never reports success where docker needs at least a microsecond:
  the timeout is 30 nanoseconds, which were meant as seconds.
\<close>
theorem restart_never_succeeds:
  assumes "\<And>i d w. d < 1000 \<Longrightarrow> snd (pb_restart pb i d w) = Some ''context deadline exceeded''"
    and "kl_docker cl = Some True" "c \<in> set (mf_Containers cfg)" "cn_Name c = target" "target \<noteq> []"
    and "\<forall>c' \<in> set (mf_Containers cfg). cn_ID c' \<noteq> []"
  shows "\<exists>w' i. pb_restart pb i 30 w = (w', Some ''context deadline exceeded'') \<and>
    executeRestart pb cfg target cl w = (w', cl, Inr ([CHR 0xE9, CHR 0x87, CHR 0x8D, CHR 0xE5, CHR 0x90, CHR 0xAF, CHR 0xE5, CHR 0xA4,
     CHR 0xB1, CHR 0xE8, CHR 0xB4, CHR 0xA5, CHR 0xEF, CHR 0xBC, CHR 0x9A] @ ''context deadline exceeded''))"
proof -
  obtain c' where c': "find (\<lambda>c. cn_Name c = target \<or> cn_ID c = target) (mf_Containers cfg) = Some c'"
    using assms(3,4) by (cases "find (\<lambda>c. cn_Name c = target \<or> cn_ID c = target) (mf_Containers cfg)") (auto simp: find_None_iff)
  then have i: "findContainerID cfg target = cn_ID c'" "cn_ID c' \<noteq> []"
    using assms(6) by (auto simp: findContainerID_def dest: find_SomeD)
  obtain w' where w': "pb_restart pb (cn_ID c') 30 w = (w', Some ''context deadline exceeded'')"
    using assms(1)[of 30 "cn_ID c'" w] by (cases "pb_restart pb (cn_ID c') 30 w") simp
  then show ?thesis
    using i assms(2,5) by (intro exI[of _ w'] exI[of _ "cn_ID c'"])
      (simp add: executeRestart_def RestartContainer_def getDockerClient_def Let_def)
qed

subsection \<open>Witnesses\<close>

definition broken_docker :: "unit probes" where
  "broken_docker = \<lparr>pb_now = (\<lambda>_. 1), pb_newDocker = (\<lambda>w. (w, Some ''bad DOCKER_HOST'')),
     pb_inspect = (\<lambda>_ w. (w, Inl ''no such container'')),
     pb_restart = (\<lambda>_ d w. (w, if d < 1000 then Some ''context deadline exceeded'' else None)),
     pb_logs = (\<lambda>_ _ w. (w, Inl ''none'')), pb_get = (\<lambda>_ _ w. (w, Inl ''refused'')), pb_sqlOpen = (\<lambda>_ w. (w, None)),
     pb_pgPing = (\<lambda>_ _ w. (w, None)), pb_redisPing = (\<lambda>_ _ _ w. (w, None)), pb_sleep = (\<lambda>_ w. w),
     pb_readings = (\<lambda>_. undefined\<lparr>rd_usage := (\<lambda>_. Inl ''none''), rd_memory := Inl ''none''\<rparr>),
     pb_net = undefined\<lparr>wx_now := (\<lambda>_. 1)\<rparr>\<rparr>"

definition one_endpoint :: monitor_config where
  "one_endpoint = \<lparr>mf_Interval = ''15m'', mf_Containers = [], mf_HTTPChecks = [\<lparr>hc_Name = ''n'', hc_URL = ''u'', hc_Timeout = 1\<rparr>],
     mf_PgDsn = ''d'', mf_PgTimeout = 1, mf_RedisAddr = ''a'', mf_RedisPassword = [], mf_RedisTimeout = 1,
     mf_DiskPercent = 80, mf_MemoryPercent = 80\<rparr>"

definition no_clients :: clients where
  "no_clients = \<lparr>kl_docker = None, kl_pg = None, kl_redis = None\<rparr>"

theorem alerts_at_changes_witness:
  "\<exists>s. RunChecks broken_docker [] one_endpoint (NewMonitor (NewWeChatNotifier [] 0 []) no_clients ()) = Inr s \<and>
     messages_of (OnHTTP ''u'') (ms_trace s) = changes False (checks_of (OnHTTP ''u'') (ms_trace s)) \<and>
     alerted (OnHTTP ''u'') (ms_alerts s)"
proof -
  let ?s0 = "NewMonitor (NewWeChatNotifier [] 0 []) no_clients ()"
  obtain s where s: "RunChecks broken_docker [] one_endpoint ?s0 = Inr s"
    by (simp add: RunChecks_def one_endpoint_def)
  have "monitored broken_docker [] one_endpoint s"
    by (rule monitored_round[OF monitored_start, where w = "()" and n = "NewWeChatNotifier [] 0 []" and c1 = no_clients])
      (use s in \<open>simp add: NewMonitor_def\<close>)
  note f = alerts_at_changes[OF this, of "OnHTTP ''u''"]
  have "\<not> hr_Healthy (snd (CheckHTTP broken_docker ''n'' ''u'' 1 ()))" by (simp add: CheckHTTP_def broken_docker_def)
  then have "checks_of (OnHTTP ''u'') (ms_trace s) = [True]"
    using s by (auto simp: RunChecks_def one_endpoint_def check_http_def check_postgres_def check_redis_def check_disk_def
        check_memory_def checks_after_check NewMonitor_def split: prod.splits)
  then show ?thesis using f s by auto
qed

theorem second_container_check_panics_witness:
  "\<exists>w1 c1. CheckContainer broken_docker ''i'' no_clients () =
     (w1, c1, Inr \<lparr>ck_Name = [], ck_ID = ''i'', ck_Running = False, ck_Status = [], ck_Error = ''bad DOCKER_HOST''\<rparr>) \<and>
     (\<forall>i' w2. CheckContainer broken_docker i' c1 w2 = (w2, c1, Inl NilDeref))"
  by (rule second_container_check_panics) (simp_all add: broken_docker_def no_clients_def)

theorem restart_never_succeeds_witness:
  "\<exists>w' i. pb_restart broken_docker i 30 () = (w', Some ''context deadline exceeded'')"
proof -
  let ?cfg = "one_endpoint\<lparr>mf_Containers := [\<lparr>cn_ID = ''1'', cn_Name = ''web''\<rparr>]\<rparr>"
  have "\<exists>w' i. pb_restart broken_docker i 30 () = (w', Some ''context deadline exceeded'') \<and>
    executeRestart broken_docker ?cfg ''web'' (no_clients\<lparr>kl_docker := Some True\<rparr>) () = (w', no_clients\<lparr>kl_docker := Some True\<rparr>, Inr ([CHR 0xE9, CHR 0x87, CHR 0x8D, CHR 0xE5, CHR 0x90, CHR 0xAF, CHR 0xE5, CHR 0xA4,
     CHR 0xB1, CHR 0xE8, CHR 0xB4, CHR 0xA5, CHR 0xEF, CHR 0xBC, CHR 0x9A] @ ''context deadline exceeded''))"
    by (rule restart_never_succeeds[where c = "\<lparr>cn_ID = ''1'', cn_Name = ''web''\<rparr>"])
      (simp_all add: broken_docker_def no_clients_def)
  then show ?thesis by blast
qed

end
