(* ===== verification/Owl_Environment.thy ===== *)
theory Owl_Environment
  imports Owl_EnvScan Owl_Cluster
begin

text \<open>
  \<open>internal/agent/environment.go\<close>: what a master knows of its own machine and of those of its agents, and
  the tool that shows it to the language model. The scanning of containers is the same code as that of an
  agent, and its definitions are used again. The structs have the fields of the protocol's payload but
  \<open>AgentID\<close>, which stays empty here. Files, programs and YAML are those of a system (\<open>env_system\<close>) on a world of
  any type; of the three expressions for connection strings \<open>yy_dsn\<close> and the others give the groups of
  the matches. Maps are visited in the order that \<open>env_orders\<close> gives.
\<close>

type_synonym environment = environment_payload

record 'w env_system =
  yy_now :: "'w \<Rightarrow> string"
  yy_hostname :: "'w \<Rightarrow> string option"
  yy_run :: "string list \<Rightarrow> 'w \<Rightarrow> string option"
  yy_read :: "string \<Rightarrow> 'w \<Rightarrow> string option"
  yy_write :: "string \<Rightarrow> string \<Rightarrow> 'w \<Rightarrow> 'w \<times> string option"
  yy_stat :: "string \<Rightarrow> 'w \<Rightarrow> bool option"
  yy_readDir :: "string \<Rightarrow> 'w \<Rightarrow> (string \<times> bool) list option"
  yy_marshal :: "environment \<Rightarrow> string + string"
  yy_unmarshal :: "string \<Rightarrow> string + environment"
  yy_dsn :: "string \<Rightarrow> (string \<times> string \<times> string \<times> string \<times> string) list"
  yy_redis :: "string \<Rightarrow> (string \<times> string) option"
  yy_password :: "string \<Rightarrow> string option"

record env_orders =
  eo_nodes :: "string list"
  eo_containers :: "string \<Rightarrow> string list"
  eo_databases :: "string \<Rightarrow> string list"
  eo_proxies :: "string \<Rightarrow> string list"
  eo_vars :: "(string \<rightharpoonup> string) \<Rightarrow> string list"

record environment_manager =
  ew_filePath :: string
  ew_configPath :: string
  ew_env :: "environment option"
  ew_localNodeID :: string

definition NewEnvironmentManager :: "string \<Rightarrow> string \<Rightarrow> environment_manager" where
  "NewEnvironmentManager filePath configPath =
     \<lparr>ew_filePath = filePath, ew_configPath = configPath, ew_env = None, ew_localNodeID = []\<rparr>"

definition SetMasterCluster :: "string \<Rightarrow> environment_manager \<Rightarrow> environment_manager" where
  "SetMasterCluster localNodeID m = m\<lparr>ew_localNodeID := localNodeID\<rparr>"

subsection \<open>nginx\<close>

definition re_space :: "char \<Rightarrow> bool" where
  "re_space c \<longleftrightarrow> c \<in> {CHR 0x09, CHR 0x0A, CHR 0x0C, CHR 0x0D, CHR '' ''}"

text \<open>The group of the leftmost match of \<open>w\s+([^;]+);\<close>\<close>

definition directive_at :: "string \<Rightarrow> string option" where
  "directive_at r =
     (let ws = takeWhile re_space r; rest = dropWhile re_space r;
          body = takeWhile (\<lambda>c. c \<noteq> CHR '';'') rest
      in if ws = [] \<or> CHR '';'' \<notin> set rest then None
         else if body \<noteq> [] then Some body
         else if 2 \<le> length ws then Some [last ws] else None)"

fun directive :: "string \<Rightarrow> string \<Rightarrow> string option" where
  "directive w [] = None"
| "directive w (c # s) =
     (case (if HasPrefix (c # s) w then directive_at (drop (length w) (c # s)) else None) of
        Some v \<Rightarrow> Some v
      | None \<Rightarrow> directive w s)"

text \<open>The text after a match of \<open>server\s*{\<close> at the beginning, and the pieces between all matches.\<close>

definition server_at :: "string \<Rightarrow> string option" where
  "server_at s =
     (if HasPrefix s ''server'' then
        (case dropWhile re_space (drop 6 s) of [] \<Rightarrow> None | c # rest \<Rightarrow> if c = CHR ''{'' then Some rest else None)
      else None)"

fun find_server :: "string \<Rightarrow> (string \<times> string) option" where
  "find_server [] = None"
| "find_server (c # s) =
     (case server_at (c # s) of
        Some rest \<Rightarrow> Some ([], rest)
      | None \<Rightarrow> map_option (\<lambda>(a, b). (c # a, b)) (find_server s))"

lemma server_at_length: "server_at s = Some rest \<Longrightarrow> length rest < length s"
proof -
  assume "server_at s = Some rest"
  then have "dropWhile re_space (drop 6 s) = CHR ''{'' # rest"
    by (auto simp: server_at_def split: if_splits list.splits)
  then show ?thesis using length_dropWhile_le[of re_space "drop 6 s"] by simp
qed

lemma find_server_length: "find_server s = Some (a, b) \<Longrightarrow> length b < length s"
  by (induction s arbitrary: a) (auto dest: server_at_length split: option.splits)

function server_blocks :: "string \<Rightarrow> string list" where
  "server_blocks s = (case find_server s of None \<Rightarrow> [s] | Some (a, b) \<Rightarrow> a # server_blocks b)"
  by pat_completeness auto
termination
  by (relation "measure length") (auto dest: find_server_length)

declare server_blocks.simps [simp del]

text \<open>The place of the brace that closes the block, 0 when there is none.\<close>

fun block_end :: "string \<Rightarrow> nat \<Rightarrow> nat \<Rightarrow> nat" where
  "block_end [] depth i = 0"
| "block_end (c # s) depth i =
     (if c = CHR ''{'' then block_end s (depth + 1) (i + 1)
      else if c = CHR ''}'' then (if depth = 1 then i else block_end s (depth - 1) (i + 1))
      else block_end s depth (i + 1))"

definition nginx_site :: "string \<Rightarrow> site option" where
  "nginx_site block0 =
     (let end_idx = block_end block0 1 0;
          block = (if end_idx > 0 then take end_idx block0 else block0);
          domain = (case directive ''server_name'' block of
             Some names \<Rightarrow> (case Fields names of n # _ \<Rightarrow> if n \<noteq> ''_'' then n else [] | [] \<Rightarrow> [])
           | None \<Rightarrow> []);
          value = (\<lambda>w. case directive w block of Some v \<Rightarrow> TrimSpace v | None \<Rightarrow> [])
      in if domain = [] then None
         else if value ''proxy_pass'' \<noteq> [] \<or> value ''root'' \<noteq> []
         then Some \<lparr>ps_Domain = domain, ps_Backend = value ''proxy_pass'', ps_Root = value ''root''\<rparr>
         else None)"

definition parseNginxConfig :: "string \<Rightarrow> site list" where
  "parseNginxConfig content = List.map_filter nginx_site (tl (server_blocks content))"

subsection \<open>Scanning\<close>

text \<open>The word \<open>transport\<close> is missing here from those that do not begin a domain.\<close>

definition master_caddy_words :: "string list" where
  "master_caddy_words = [''{'', ''}'', ''reverse_proxy'', ''root'', ''file_server'', ''@'', ''header'', ''encode'', ''tls'', ''log'']"

definition master_caddy_line :: "string \<Rightarrow> string \<times> site list \<Rightarrow> string \<times> site list" where
  "master_caddy_line raw st =
     (let (domain, sites) = st; line = TrimSpace raw; parts = Fields line in
      if line = [] \<or> HasPrefix line ''#'' then st
      else
        let dom1 = (if list_all (\<lambda>w. \<not> HasPrefix line w) master_caddy_words \<and> parts \<noteq> [] \<and>
                       (Contains (hd parts) ''.'' \<or> HasPrefix (hd parts) '':'')
                    then hd parts else domain);
            sites1 = (if HasPrefix line ''reverse_proxy'' \<and> dom1 \<noteq> []
                      then (case find (\<lambda>p. \<not> HasPrefix p ''@'' \<and> \<not> HasPrefix p ''{'') (tl parts) of
                              None \<Rightarrow> sites
                            | Some backend \<Rightarrow> sites @ [\<lparr>ps_Domain = dom1, ps_Backend = backend, ps_Root = []\<rparr>])
                      else sites);
            sites2 = (if HasPrefix line ''root'' \<and> dom1 \<noteq> [] \<and> length parts \<ge> 3
                      then sites1 @ [\<lparr>ps_Domain = dom1, ps_Backend = [], ps_Root = parts ! 2\<rparr>]
                      else sites1)
        in (dom1, sites2))"

definition master_parseCaddyfile :: "string \<Rightarrow> string \<Rightarrow> proxy" where
  "master_parseCaddyfile content path =
     \<lparr>pp_Type = ''caddy'', pp_ConfigFile = path,
      pp_Sites = snd (fold master_caddy_line (split_on (CHR 0x0A) content) ([], [])), pp_Source = ''file:'' @ path\<rparr>"

definition first_readable :: "'w env_system \<Rightarrow> 'w \<Rightarrow> string list \<Rightarrow> (string \<times> string) option" where
  "first_readable y w paths =
     (case List.map_filter (\<lambda>p. map_option (\<lambda>d. (p, d)) (yy_read y p w)) paths of [] \<Rightarrow> None | r # _ \<Rightarrow> Some r)"

definition add_proxy :: "string \<Rightarrow> proxy \<Rightarrow> environment \<Rightarrow> environment" where
  "add_proxy k p env = (if pp_Sites p = [] then env else env\<lparr>en_Proxies := (en_Proxies env)(k \<mapsto> Some p)\<rparr>)"

fun scan_nginx :: "'w env_system \<Rightarrow> 'w \<Rightarrow> string list \<Rightarrow> environment \<Rightarrow> environment" where
  "scan_nginx y w [] env = env"
| "scan_nginx y w (path # paths) env =
     (let found = (\<lambda>sites. add_proxy ''nginx'' \<lparr>pp_Type = ''nginx'', pp_ConfigFile = path, pp_Sites = sites, pp_Source = ''file:'' @ path\<rparr> env) in
      case yy_stat y path w of
        None \<Rightarrow> scan_nginx y w paths env
      | Some True \<Rightarrow>
          (case yy_readDir y path w of
             None \<Rightarrow> scan_nginx y w paths env
           | Some entries \<Rightarrow> found (concat (map (\<lambda>(name, is_dir).
               if is_dir then [] else case yy_read y (path @ ''/'' @ name) w of None \<Rightarrow> [] | Some d \<Rightarrow> parseNginxConfig d) entries)))
      | Some False \<Rightarrow> (case yy_read y path w of None \<Rightarrow> env | Some d \<Rightarrow> found (parseNginxConfig d)))"

text \<open>The two scanners differ in the parser of the Caddyfile alone.\<close>

definition scan_proxies_with :: "(string \<Rightarrow> string \<Rightarrow> proxy) \<Rightarrow> 'w env_system \<Rightarrow> 'w \<Rightarrow> environment \<Rightarrow> environment" where
  "scan_proxies_with parse_caddy y w env =
     scan_nginx y w [''/etc/nginx/nginx.conf'', ''/etc/nginx/sites-enabled'']
       (case first_readable y w [''/etc/caddy/Caddyfile'', ''/opt/caddy/Caddyfile''] of
          None \<Rightarrow> env
        | Some (path, d) \<Rightarrow> add_proxy ''caddy'' (parse_caddy d path) env)"

definition scanProxies :: "'w env_system \<Rightarrow> 'w \<Rightarrow> environment \<Rightarrow> environment" where
  "scanProxies = scan_proxies_with master_parseCaddyfile"

definition agent_parseNginxConfig :: "string \<Rightarrow> site list" where
  "agent_parseNginxConfig = parseNginxConfig"

definition agent_scanProxies :: "'w env_system \<Rightarrow> 'w \<Rightarrow> environment \<Rightarrow> environment" where
  "agent_scanProxies = scan_proxies_with parseCaddyfile"

definition inspect_format :: string where
  "inspect_format = ''{{.Config.Image}}|{{.State.Status}}|{{range .Config.Env}}{{.}}||{{end}}|{{range $net, $cfg := .NetworkSettings.Networks}}{{$net}}{{end}}''"

text \<open>The copies of the agent's functions that the master has.\<close>

definition master_isRelevantEnv :: "string \<Rightarrow> bool" where
  "master_isRelevantEnv = isRelevantEnv"

definition master_inspectContainer :: "string option \<Rightarrow> container option" where
  "master_inspectContainer = inspectContainer"

definition master_extractDatabaseFromEnv :: "string \<Rightarrow> container \<Rightarrow> environment \<Rightarrow> environment" where
  "master_extractDatabaseFromEnv = extractDatabaseFromEnv"

definition scan_containers :: "'w env_system \<Rightarrow> 'w \<Rightarrow> environment \<Rightarrow> environment" where
  "scan_containers y w env =
     scanContainers (yy_run y [''docker'', ''ps'', ''-a'', ''--format'', ''{{.Names}}''] w)
       (\<lambda>name. yy_run y [''docker'', ''inspect'', ''--format'', inspect_format, name] w) env"

definition scan_host :: "'w env_system \<Rightarrow> 'w \<Rightarrow> environment \<Rightarrow> environment" where
  "scan_host y w env = scanHost (yy_hostname y w) (yy_run y [''hostname'', ''-I''] w) env"

text \<open>What an agent scans: \<open>EnvironmentScanner.Scan\<close> of \<open>internal/agent-node\<close>.\<close>

definition agent_Scan :: "'w env_system \<Rightarrow> 'w \<Rightarrow> environment" where
  "agent_Scan y w = agent_scanProxies y w (scan_containers y w (scan_host y w (zero_EnvironmentPayload\<lparr>en_UpdatedAt := yy_now y w\<rparr>)))"

fun add_dsns :: "string \<Rightarrow> (string \<times> string \<times> string \<times> string \<times> string) list \<Rightarrow> environment \<Rightarrow> environment" where
  "add_dsns configPath [] env = env"
| "add_dsns configPath ((user, pass, host, port, dbName) # ms) env =
     add_dsns configPath ms
       (if en_Databases env (''config-'' @ dbName) = None
        then env\<lparr>en_Databases := (en_Databases env)(''config-'' @ dbName \<mapsto> Some \<lparr>pd_Type = ''postgres'', pd_Host = host,
               pd_Port = port, pd_User = user, pd_Password = pass, pd_Database = dbName, pd_Source = ''config:'' @ configPath\<rparr>)\<rparr>
        else env)"

definition extractFromConfig :: "'w env_system \<Rightarrow> 'w \<Rightarrow> string \<Rightarrow> environment \<Rightarrow> environment" where
  "extractFromConfig y w configPath env =
     (if configPath = [] then env
      else case yy_read y configPath w of
        None \<Rightarrow> env
      | Some content \<Rightarrow>
          let env1 = add_dsns configPath (yy_dsn y content) env in
          case yy_redis y content of
            None \<Rightarrow> env1
          | Some (host, port) \<Rightarrow>
              env1\<lparr>en_Databases := (en_Databases env1)(''config-redis'' \<mapsto> Some \<lparr>pd_Type = ''redis'', pd_Host = host, pd_Port = port,
                pd_User = [], pd_Password = (case yy_password y content of None \<Rightarrow> [] | Some p \<Rightarrow> p), pd_Database = [],
                pd_Source = ''config:'' @ configPath\<rparr>)\<rparr>)"

subsection \<open>Loading and saving\<close>

definition env_header :: string where
  "env_header = (''# ServerOwl '' @ [CHR 0xE7, CHR 0x8E, CHR 0xAF, CHR 0xE5, CHR 0xA2, CHR 0x83, CHR 0xE4,
     CHR 0xBF, CHR 0xA1, CHR 0xE6, CHR 0x81, CHR 0xAF, CHR 0xEF, CHR 0xBC, CHR 0x88,
     CHR 0xE8, CHR 0x87, CHR 0xAA, CHR 0xE5, CHR 0x8A, CHR 0xA8, CHR 0xE7, CHR 0x94,
     CHR 0x9F, CHR 0xE6, CHR 0x88, CHR 0x90, CHR 0xEF, CHR 0xBC, CHR 0x8C, CHR 0xE5,
     CHR 0x8F, CHR 0xAF, CHR 0xE6, CHR 0x89, CHR 0x8B, CHR 0xE5, CHR 0x8A, CHR 0xA8,
     CHR 0xE7, CHR 0xBC, CHR 0x96, CHR 0xE8, CHR 0xBE, CHR 0x91, CHR 0xEF, CHR 0xBC,
     CHR 0x89, CHR 0x0A] @ ''# '' @ [CHR 0xE5, CHR 0x88, CHR 0xB7, CHR 0xE6, CHR 0x96,
     CHR 0xB0, CHR 0xE5, CHR 0x91, CHR 0xBD, CHR 0xE4, CHR 0xBB, CHR 0xA4] @ '': curl -X POST http://localhost:19528/api/v1/environment/refresh'' @
     [CHR 0x0A, CHR 0x0A])"

definition env_save :: "'w env_system \<Rightarrow> environment_manager \<Rightarrow> 'w \<Rightarrow> 'w \<times> string option" where
  "env_save y m w =
     (case yy_marshal y (the (ew_env m)) of
        Inl e \<Rightarrow> (w, Some e)
      | Inr d \<Rightarrow> yy_write y (ew_filePath m) (env_header @ d) w)"

definition scanned :: "'w env_system \<Rightarrow> 'w \<Rightarrow> string \<Rightarrow> environment" where
  "scanned y w configPath =
     scanProxies y w (extractFromConfig y w configPath (scan_containers y w (scan_host y w
       (zero_EnvironmentPayload\<lparr>en_UpdatedAt := yy_now y w\<rparr>))))"

definition env_Refresh :: "'w env_system \<Rightarrow> environment_manager \<Rightarrow> 'w \<Rightarrow> 'w \<times> environment_manager \<times> string option" where
  "env_Refresh y m w =
     (let m1 = m\<lparr>ew_env := Some (scanned y w (ew_configPath m))\<rparr> in
      case env_save y m1 w of (w', err) \<Rightarrow> (w', m1, err))"

definition env_Load :: "'w env_system \<Rightarrow> environment_manager \<Rightarrow> 'w \<Rightarrow> 'w \<times> environment_manager \<times> string option" where
  "env_Load y m w =
     (case Option.bind (yy_read y (ew_filePath m) w) (\<lambda>d. case yy_unmarshal y d of Inl _ \<Rightarrow> None | Inr env \<Rightarrow> Some env) of
        Some env \<Rightarrow> (w, m\<lparr>ew_env := Some env\<rparr>, None)
      | None \<Rightarrow> env_Refresh y m w)"

definition SaveRaw :: "'w env_system \<Rightarrow> string \<Rightarrow> environment_manager \<Rightarrow> 'w \<Rightarrow> 'w \<times> environment_manager \<times> string option" where
  "SaveRaw y content m w =
     (case yy_unmarshal y content of
        Inl e \<Rightarrow> (w, m, Some ((''YAML '' @ [CHR 0xE6, CHR 0xA0, CHR 0xBC, CHR 0xE5, CHR 0xBC, CHR 0x8F, CHR 0xE9,
     CHR 0x94, CHR 0x99, CHR 0xE8, CHR 0xAF, CHR 0xAF] @ '': '') @ e))
      | Inr env \<Rightarrow>
          (case yy_write y (ew_filePath m) content w of
             (w', Some e) \<Rightarrow> (w', m, Some e)
           | (w', None) \<Rightarrow> (w', m\<lparr>ew_env := Some env\<rparr>, None)))"

subsection \<open>All nodes\<close>

definition GetLocalNodeID :: "environment_manager \<Rightarrow> string" where
  "GetLocalNodeID m = (if ew_localNodeID m = [] then ''local'' else ew_localNodeID m)"

definition convertFromClusterEnv :: "agent_environment \<Rightarrow> environment" where
  "convertFromClusterEnv a =
     \<lparr>en_AgentID = [], en_UpdatedAt = ae_UpdatedAt a,
      en_Host = \<lparr>ph_Hostname = eh_Hostname (ae_Host a), ph_IP = eh_IP (ae_Host a)\<rparr>,
      en_Containers = map_option (\<lambda>c. Some \<lparr>pk_Image = ci_Image c, pk_Status = ci_Status c, pk_Env = ci_Env c,
         pk_Ports = ci_Ports c, pk_Network = ci_Network c\<rparr>) \<circ> ae_Containers a,
      en_Databases = map_option (\<lambda>d. Some \<lparr>pd_Type = di_Type d, pd_Host = di_Host d, pd_Port = di_Port d, pd_User = di_User d,
         pd_Password = di_Password d, pd_Database = di_Database d, pd_Source = di_Source d\<rparr>) \<circ> ae_Databases a,
      en_Proxies = map_option (\<lambda>p. Some \<lparr>pp_Type = pi_Type p, pp_ConfigFile = pi_ConfigFile p,
         pp_Sites = map (\<lambda>s. \<lparr>ps_Domain = si_Domain s, ps_Backend = si_Backend s, ps_Root = si_Root s\<rparr>) (pi_Sites p),
         pp_Source = pi_Source p\<rparr>) \<circ> ae_Proxies a\<rparr>"

text \<open>The cluster is \<open>None\<close> when the manager is not linked to one.\<close>

definition GetAllNodes :: "environment_manager \<Rightarrow> master_cluster option \<Rightarrow> (string \<rightharpoonup> environment)" where
  "GetAllNodes m mc =
     (let own = (case ew_env m of None \<Rightarrow> Map.empty | Some env \<Rightarrow> [GetLocalNodeID m \<mapsto> env]) in
      case mc of None \<Rightarrow> own
      | Some c \<Rightarrow> (\<lambda>k. case GetAllEnvironments c k of Some a \<Rightarrow> Some (convertFromClusterEnv a) | None \<Rightarrow> own k))"

subsection \<open>Texts\<close>

definition entries :: "('k \<rightharpoonup> 'v) \<Rightarrow> 'k list \<Rightarrow> ('k \<times> 'v) list" where
  "entries m ks = List.map_filter (\<lambda>k. map_option (\<lambda>v. (k, v)) (m k)) ks"

definition nodes :: "env_orders \<Rightarrow> environment_manager \<Rightarrow> master_cluster option \<Rightarrow> (string \<times> environment) list" where
  "nodes eo m mc = entries (GetAllNodes m mc) (eo_nodes eo)"

definition text_line :: "string \<Rightarrow> string \<Rightarrow> string" where
  "text_line label v = label @ v @ [CHR 0x0A]"

definition not_loaded :: string where
  "not_loaded = [CHR 0xE7, CHR 0x8E, CHR 0xAF, CHR 0xE5, CHR 0xA2, CHR 0x83, CHR 0xE4, CHR 0xBF, CHR 0xA1,
     CHR 0xE6, CHR 0x81, CHR 0xAF, CHR 0xE6, CHR 0x9C, CHR 0xAA, CHR 0xE5, CHR 0x8A,
     CHR 0xA0, CHR 0xE8, CHR 0xBD, CHR 0xBD]"

definition name_matches :: "string \<Rightarrow> string \<Rightarrow> bool" where
  "name_matches name n \<longleftrightarrow> ToLower n = ToLower name \<or> Contains (ToLower n) (ToLower name)"

definition var_lines :: "env_orders \<Rightarrow> (string \<rightharpoonup> string) \<Rightarrow> string" where
  "var_lines eo vars = concat (map (\<lambda>(k, v). ''  '' @ k @ '': '' @ v @ [CHR 0x0A]) (entries vars (eo_vars eo vars)))"

text \<open>A nil entry, which a file edited by hand may hold, ends in a panic.\<close>

definition container_text :: "env_orders \<Rightarrow> string \<Rightarrow> string \<Rightarrow> container option \<Rightarrow> string go" where
  "container_text eo nodeID n p =
     (case p of None \<Rightarrow> Inl NilDeref
      | Some c \<Rightarrow> Inr (text_line ([CHR 0xE8, CHR 0x8A, CHR 0x82, CHR 0xE7, CHR 0x82, CHR 0xB9] @ '': '') nodeID @ text_line ([CHR 0xE5, CHR 0xAE, CHR 0xB9, CHR 0xE5, CHR 0x99, CHR 0xA8] @ '': '') n @ text_line ([CHR 0xE9, CHR 0x95, CHR 0x9C, CHR 0xE5, CHR 0x83, CHR 0x8F] @ '': '') (pk_Image c) @
          text_line ([CHR 0xE7, CHR 0x8A, CHR 0xB6, CHR 0xE6, CHR 0x80, CHR 0x81] @ '': '') (pk_Status c) @
          (if pk_Network c \<noteq> [] then text_line ([CHR 0xE7, CHR 0xBD, CHR 0x91, CHR 0xE7, CHR 0xBB, CHR 0x9C] @ '': '') (pk_Network c) else []) @
          (if pk_Ports c \<noteq> [] then text_line ([CHR 0xE7, CHR 0xAB, CHR 0xAF, CHR 0xE5, CHR 0x8F, CHR 0xA3] @ '': '') (Join '', '' (pk_Ports c)) else []) @
          (if entries (pk_Env c) (eo_vars eo (pk_Env c)) = [] then [] else ([CHR 0x0A, CHR 0xE7, CHR 0x8E, CHR 0xAF, CHR 0xE5, CHR 0xA2, CHR 0x83, CHR 0xE5, CHR 0x8F,
     CHR 0x98, CHR 0xE9, CHR 0x87, CHR 0x8F] @ '':'' @ [CHR 0x0A]) @ var_lines eo (pk_Env c))))"

definition database_text :: "string \<Rightarrow> string \<Rightarrow> database option \<Rightarrow> string go" where
  "database_text nodeID n p =
     (case p of None \<Rightarrow> Inl NilDeref
      | Some d \<Rightarrow> Inr (text_line ([CHR 0xE8, CHR 0x8A, CHR 0x82, CHR 0xE7, CHR 0x82, CHR 0xB9] @ '': '') nodeID @ text_line ([CHR 0xE6, CHR 0x95, CHR 0xB0, CHR 0xE6, CHR 0x8D, CHR 0xAE, CHR 0xE5, CHR 0xBA, CHR 0x93] @
     '': '') n @ text_line ([CHR 0xE7, CHR 0xB1, CHR 0xBB, CHR 0xE5, CHR 0x9E, CHR 0x8B] @ '': '') (pd_Type d) @
          text_line ([CHR 0xE4, CHR 0xB8, CHR 0xBB, CHR 0xE6, CHR 0x9C, CHR 0xBA] @ '': '') (pd_Host d) @ text_line ([CHR 0xE7, CHR 0xAB, CHR 0xAF, CHR 0xE5, CHR 0x8F, CHR 0xA3] @ '': '') (pd_Port d) @ text_line ([CHR 0xE7, CHR 0x94, CHR 0xA8, CHR 0xE6, CHR 0x88, CHR 0xB7] @ '': '') (pd_User d) @
          text_line ([CHR 0xE5, CHR 0xAF, CHR 0x86, CHR 0xE7, CHR 0xA0, CHR 0x81] @ '': '') (pd_Password d) @
          (if pd_Database d \<noteq> [] then text_line ([CHR 0xE6, CHR 0x95, CHR 0xB0, CHR 0xE6, CHR 0x8D, CHR 0xAE, CHR 0xE5, CHR 0xBA, CHR 0x93,
     CHR 0xE5, CHR 0x90, CHR 0x8D] @ '': '') (pd_Database d) else []) @
          text_line ([CHR 0xE6, CHR 0x9D, CHR 0xA5, CHR 0xE6, CHR 0xBA, CHR 0x90] @ '': '') (pd_Source d)))"

text \<open>The first entry whose name matches, over all nodes.\<close>

definition first_named ::
  "(string \<times> environment) list \<Rightarrow> (string \<Rightarrow> environment \<Rightarrow> (string \<times> 'v) list) \<Rightarrow> string \<Rightarrow> (string \<times> string \<times> 'v) option" where
  "first_named ns items name =
     find (\<lambda>(_, n, _). name_matches name n) (concat (map (\<lambda>(nodeID, env). map (\<lambda>(n, v). (nodeID, n, v)) (items nodeID env)) ns))"

definition containers_of :: "env_orders \<Rightarrow> string \<Rightarrow> environment \<Rightarrow> (string \<times> container option) list" where
  "containers_of eo nodeID env = entries (en_Containers env) (eo_containers eo nodeID)"

definition databases_of :: "env_orders \<Rightarrow> string \<Rightarrow> environment \<Rightarrow> (string \<times> database option) list" where
  "databases_of eo nodeID env = entries (en_Databases env) (eo_databases eo nodeID)"

definition proxies_of :: "env_orders \<Rightarrow> string \<Rightarrow> environment \<Rightarrow> (string \<times> proxy option) list" where
  "proxies_of eo nodeID env = entries (en_Proxies env) (eo_proxies eo nodeID)"

definition node_overview :: "env_orders \<Rightarrow> string \<times> environment \<Rightarrow> string" where
  "node_overview eo ne =
     (let (nodeID, env) = ne;
          count = (\<lambda>label (n :: nat). if n > 0 then text_line (label @ show_nat n) ('' '' @ [CHR 0xE4, CHR 0xB8, CHR 0xAA]) else [])
      in text_line (''## '' @ [CHR 0xE8, CHR 0x8A, CHR 0x82, CHR 0xE7, CHR 0x82, CHR 0xB9] @ '': '') nodeID @ ([CHR 0xE4, CHR 0xB8, CHR 0xBB, CHR 0xE6, CHR 0x9C, CHR 0xBA] @ '': '') @ ph_Hostname (en_Host env) @
         (if ph_IP (en_Host env) \<noteq> [] then '' ('' @ ph_IP (en_Host env) @ '')'' else []) @ [CHR 0x0A] @
         text_line ([CHR 0xE6, CHR 0x9B, CHR 0xB4, CHR 0xE6, CHR 0x96, CHR 0xB0, CHR 0xE6, CHR 0x97, CHR 0xB6,
     CHR 0xE9, CHR 0x97, CHR 0xB4] @ '': '') (en_UpdatedAt env) @
         count ([CHR 0xE5, CHR 0xAE, CHR 0xB9, CHR 0xE5, CHR 0x99, CHR 0xA8] @ '': '') (length (containers_of eo nodeID env)) @ count ([CHR 0xE6, CHR 0x95, CHR 0xB0, CHR 0xE6, CHR 0x8D, CHR 0xAE, CHR 0xE5, CHR 0xBA, CHR 0x93] @
     '': '') (length (databases_of eo nodeID env)) @
         count ([CHR 0xE4, CHR 0xBB, CHR 0xA3, CHR 0xE7, CHR 0x90, CHR 0x86] @ '': '') (length (proxies_of eo nodeID env)) @ [CHR 0x0A])"

definition GetOverview :: "env_orders \<Rightarrow> environment_manager \<Rightarrow> master_cluster option \<Rightarrow> string" where
  "GetOverview eo m mc =
     (if nodes eo m mc = [] then not_loaded else concat (map (node_overview eo) (nodes eo m mc)))"

definition GetContainer :: "env_orders \<Rightarrow> environment_manager \<Rightarrow> master_cluster option \<Rightarrow> string \<Rightarrow> string go" where
  "GetContainer eo m mc name =
     (if nodes eo m mc = [] then Inr not_loaded
      else case first_named (nodes eo m mc) (containers_of eo) name of
        Some (nodeID, n, c) \<Rightarrow> container_text eo nodeID n c
      | None \<Rightarrow> Inr (([CHR 0xE6, CHR 0x9C, CHR 0xAA, CHR 0xE6, CHR 0x89, CHR 0xBE, CHR 0xE5, CHR 0x88, CHR 0xB0,
     CHR 0xE5, CHR 0xAE, CHR 0xB9, CHR 0xE5, CHR 0x99, CHR 0xA8] @ '': '') @ name))"

definition GetDatabase :: "env_orders \<Rightarrow> environment_manager \<Rightarrow> master_cluster option \<Rightarrow> string \<Rightarrow> string go" where
  "GetDatabase eo m mc name =
     (if nodes eo m mc = [] then Inr not_loaded
      else case first_named (nodes eo m mc) (databases_of eo) name of
        Some (nodeID, n, d) \<Rightarrow> database_text nodeID n d
      | None \<Rightarrow> Inr (([CHR 0xE6, CHR 0x9C, CHR 0xAA, CHR 0xE6, CHR 0x89, CHR 0xBE, CHR 0xE5, CHR 0x88, CHR 0xB0,
     CHR 0xE6, CHR 0x95, CHR 0xB0, CHR 0xE6, CHR 0x8D, CHR 0xAE, CHR 0xE5, CHR 0xBA,
     CHR 0x93] @ '': '') @ name))"

fun go_concat :: "string go list \<Rightarrow> string go" where
  "go_concat [] = Inr []"
| "go_concat (Inl p # _) = Inl p"
| "go_concat (Inr s # rs) = map_sum (\<lambda>p. p) (\<lambda>t. s @ t) (go_concat rs)"

definition container_section :: "env_orders \<Rightarrow> string \<times> container option \<Rightarrow> string go" where
  "container_section eo nc =
     (case nc of (name, None) \<Rightarrow> Inl NilDeref
      | (name, Some c) \<Rightarrow> Inr (text_line ''### '' name @ text_line ([CHR 0xE9, CHR 0x95, CHR 0x9C, CHR 0xE5, CHR 0x83, CHR 0x8F] @ '': '') (pk_Image c) @ text_line ([CHR 0xE7, CHR 0x8A, CHR 0xB6, CHR 0xE6, CHR 0x80, CHR 0x81] @ '': '') (pk_Status c) @
          (if entries (pk_Env c) (eo_vars eo (pk_Env c)) = [] then [] else ([CHR 0xE7, CHR 0x8E, CHR 0xAF, CHR 0xE5, CHR 0xA2, CHR 0x83, CHR 0xE5, CHR 0x8F, CHR 0x98,
     CHR 0xE9, CHR 0x87, CHR 0x8F] @ '':'' @ [CHR 0x0A]) @ var_lines eo (pk_Env c)) @ [CHR 0x0A]))"

definition database_section :: "string \<times> database option \<Rightarrow> string go" where
  "database_section nd =
     (case nd of (name, None) \<Rightarrow> Inl NilDeref
      | (name, Some d) \<Rightarrow> Inr (text_line ''### '' name @ text_line ([CHR 0xE7, CHR 0xB1, CHR 0xBB, CHR 0xE5, CHR 0x9E, CHR 0x8B] @ '': '') (pd_Type d) @
          text_line ([CHR 0xE8, CHR 0xBF, CHR 0x9E, CHR 0xE6, CHR 0x8E, CHR 0xA5] @ '': '') (pd_Host d @ '':'' @ pd_Port d) @ text_line ([CHR 0xE7, CHR 0x94, CHR 0xA8, CHR 0xE6, CHR 0x88, CHR 0xB7] @ '': '') (pd_User d) @
          text_line ([CHR 0xE5, CHR 0xAF, CHR 0x86, CHR 0xE7, CHR 0xA0, CHR 0x81] @ '': '') (pd_Password d) @ [CHR 0x0A]))"

definition site_line :: "site \<Rightarrow> string" where
  "site_line s =
     (if ps_Backend s \<noteq> [] then ''  - '' @ ps_Domain s @ '' -> '' @ ps_Backend s @ [CHR 0x0A]
      else if ps_Root s \<noteq> [] then ''  - '' @ ps_Domain s @ ('' ('' @ [CHR 0xE9, CHR 0x9D, CHR 0x99, CHR 0xE6, CHR 0x80, CHR 0x81] @ '': '') @ ps_Root s @ '')'' @ [CHR 0x0A]
      else [])"

definition proxy_section :: "string \<times> proxy option \<Rightarrow> string go" where
  "proxy_section np =
     (case np of (name, None) \<Rightarrow> Inl NilDeref
      | (name, Some p) \<Rightarrow> Inr (text_line ''### '' name @ text_line ([CHR 0xE7, CHR 0xB1, CHR 0xBB, CHR 0xE5, CHR 0x9E, CHR 0x8B] @ '': '') (pp_Type p) @
          text_line ([CHR 0xE9, CHR 0x85, CHR 0x8D, CHR 0xE7, CHR 0xBD, CHR 0xAE, CHR 0xE6, CHR 0x96, CHR 0x87,
     CHR 0xE4, CHR 0xBB, CHR 0xB6] @ '': '') (pp_ConfigFile p) @
          (if pp_Sites p = [] then [] else ([CHR 0xE7, CHR 0xAB, CHR 0x99, CHR 0xE7, CHR 0x82, CHR 0xB9] @ '':'' @ [CHR 0x0A]) @ concat (map site_line (pp_Sites p))) @ [CHR 0x0A]))"

definition by_node :: "(string \<times> environment) list \<Rightarrow> (string \<Rightarrow> environment \<Rightarrow> 'v list) \<Rightarrow> ('v \<Rightarrow> string go) \<Rightarrow> string go" where
  "by_node ns items section =
     go_concat (concat (map (\<lambda>(nodeID, env). if items nodeID env = [] then []
       else Inr (text_line (''## '' @ [CHR 0xE8, CHR 0x8A, CHR 0x82, CHR 0xE7, CHR 0x82, CHR 0xB9] @ '': '') nodeID) # map section (items nodeID env)) ns))"

definition GetByCategory :: "env_orders \<Rightarrow> environment_manager \<Rightarrow> master_cluster option \<Rightarrow> string \<Rightarrow> string go" where
  "GetByCategory eo m mc category =
     (let ns = nodes eo m mc; k = ToLower category in
      if ns = [] then Inr not_loaded
      else if k = ''host'' then
        Inr (concat (map (\<lambda>(nodeID, env). text_line (''## '' @ [CHR 0xE8, CHR 0x8A, CHR 0x82, CHR 0xE7, CHR 0x82, CHR 0xB9] @ '': '') nodeID @ text_line ([CHR 0xE4, CHR 0xB8, CHR 0xBB, CHR 0xE6, CHR 0x9C, CHR 0xBA, CHR 0xE5, CHR 0x90, CHR 0x8D] @
     '': '') (ph_Hostname (en_Host env)) @
          (if ph_IP (en_Host env) \<noteq> [] then text_line ''IP: '' (ph_IP (en_Host env)) else []) @ [CHR 0x0A]) ns))
      else if k = ''containers'' then by_node ns (containers_of eo) (container_section eo)
      else if k = ''databases'' then by_node ns (databases_of eo) database_section
      else if k = ''proxies'' then by_node ns (proxies_of eo) proxy_section
      else Inr (GetOverview eo m mc))"

text \<open>The tool \<open>get_environment\<close>; an argument of another type counts as absent. The manager is there.\<close>

definition not_found :: string where "not_found = [CHR 0xE6, CHR 0x9C, CHR 0xAA, CHR 0xE6, CHR 0x89, CHR 0xBE, CHR 0xE5, CHR 0x88, CHR 0xB0]"

definition environment_tool :: "env_orders \<Rightarrow> environment_manager \<Rightarrow> master_cluster option \<Rightarrow> string \<Rightarrow> string \<Rightarrow> string go" where
  "environment_tool eo m mc name category =
     (if ew_env m = None then Inr not_loaded
      else if name \<noteq> [] then
        (case GetContainer eo m mc name of
           Inl p \<Rightarrow> Inl p
         | Inr r \<Rightarrow>
             if \<not> HasPrefix r not_found then Inr r
             else case GetDatabase eo m mc name of
               Inl p \<Rightarrow> Inl p
             | Inr r2 \<Rightarrow>
                 if \<not> HasPrefix r2 not_found then Inr r2
                 else Inr (([CHR 0xE6, CHR 0x9C, CHR 0xAA, CHR 0xE6, CHR 0x89, CHR 0xBE, CHR 0xE5, CHR 0x88, CHR 0xB0,
     CHR 0xE5, CHR 0x90, CHR 0x8D, CHR 0xE4, CHR 0xB8, CHR 0xBA] @ '' '') @ name @ ('' '' @ [CHR 0xE7, CHR 0x9A, CHR 0x84, CHR 0xE5, CHR 0xAE, CHR 0xB9, CHR 0xE5, CHR 0x99,
     CHR 0xA8, CHR 0xE6, CHR 0x88, CHR 0x96, CHR 0xE6, CHR 0x95, CHR 0xB0, CHR 0xE6,
     CHR 0x8D, CHR 0xAE, CHR 0xE5, CHR 0xBA, CHR 0x93])))
      else if category \<noteq> [] \<and> category \<noteq> ''all'' then GetByCategory eo m mc category
      else Inr (GetOverview eo m mc))"

end
