(* ===== verification/Owl_EnvProps.thy ===== *)
theory Owl_EnvProps
  imports Owl_Environment
begin

text \<open>
  What the environment manager promises: a server block that is printed is read back, what an agent reports
  is what the tool finds, and a query by name has an answer that the order of a map decides.
\<close>

subsection \<open>Reading nginx\<close>

text \<open>A block as it is written for a site, and its text after the opening brace.\<close>

definition site_body :: "site \<Rightarrow> string" where
  "site_body s = '' server_name '' @ ps_Domain s @ '';'' @
     (if ps_Backend s = [] then [] else '' proxy_pass '' @ ps_Backend s @ '';'') @
     (if ps_Root s = [] then [] else '' root '' @ ps_Root s @ '';'') @ '' ''"

definition render_nginx :: "site list \<Rightarrow> string" where
  "render_nginx sites = concat (map (\<lambda>s. ''server {'' @ site_body s @ ''}'') sites)"

definition plain_word :: "string \<Rightarrow> bool" where
  "plain_word v \<longleftrightarrow> Fields v = [v] \<and> TrimSpace v = v \<and> v \<noteq> [] \<and>
     (\<forall>c \<in> set v. \<not> re_space c \<and> c \<noteq> CHR '';'' \<and> c \<noteq> CHR ''{'' \<and> c \<noteq> CHR ''}'')"

definition plain_site :: "site \<Rightarrow> bool" where
  "plain_site s \<longleftrightarrow> plain_word (ps_Domain s) \<and> ps_Domain s \<noteq> ''_'' \<and>
     (ps_Backend s = [] \<or> plain_word (ps_Backend s)) \<and> (ps_Root s = [] \<or> plain_word (ps_Root s)) \<and>
     (ps_Backend s \<noteq> [] \<or> ps_Root s \<noteq> [])"

text \<open>No block begins inside a text that ends with a closing brace and has no opening one.\<close>

definition closed_text :: "string \<Rightarrow> bool" where
  "closed_text t \<longleftrightarrow> CHR ''{'' \<notin> set t \<and> (t = [] \<or> last t = CHR ''}'')"

lemma server_at_word:
  assumes "server_at s = Some r"
  obtains "prefix ''server'' s" "dropWhile re_space (drop 6 s) = CHR ''{'' # r"
  using assms unfolding server_at_def by (auto split: if_splits list.splits)

lemma server_word_closed:
  assumes "CHR ''}'' \<in> set t" "prefix ''server'' (t @ rest)"
  obtains u where "t = ''server'' @ u" "CHR ''}'' \<in> set u"
proof -
  have "\<not> prefix t ''server''"
  proof
    assume "prefix t ''server''"
    then have "set t \<subseteq> set ''server''" by (rule set_mono_prefix)
    with assms(1) show False by auto
  qed
  moreover have "prefix t (t @ rest)" by simp
  ultimately have "prefix ''server'' t" using prefix_same_cases[OF assms(2)] by blast
  then obtain u where "t = ''server'' @ u" by (rule prefixE)
  with assms(1) show thesis by (intro that) simp_all
qed

lemma dropWhile_closed:
  assumes "CHR ''}'' \<in> set u" "CHR ''{'' \<notin> set u"
  shows "dropWhile re_space (u @ rest) \<noteq> CHR ''{'' # r"
proof -
  have b: "\<not> re_space CHR ''}''" by (simp add: re_space_def)
  have a: "dropWhile re_space (u @ rest) = dropWhile re_space u @ rest" using dropWhile_append1[of "CHR ''}''" u re_space rest] assms(1) b by blast
  have "dropWhile re_space u \<noteq> []" using assms(1) b unfolding dropWhile_eq_Nil_conv by blast
  then obtain x xs where x: "dropWhile re_space u = x # xs" by (cases "dropWhile re_space u") simp_all
  then have "x \<in> set u" using set_dropWhileD[of x re_space u] by simp
  then have "x \<noteq> CHR ''{''" using assms(2) by blast
  then show ?thesis by (simp add: a x)
qed

lemma server_at_none:
  assumes "closed_text t" "t \<noteq> []"
  shows "server_at (t @ rest) = None"
proof (cases "server_at (t @ rest)")
  case (Some r)
  have brace: "CHR ''}'' \<in> set t" using assms last_in_set[of t] by (auto simp: closed_text_def)
  from Some have p: "prefix ''server'' (t @ rest)" and d: "dropWhile re_space (drop 6 (t @ rest)) = CHR ''{'' # r"
    by (rule server_at_word; blast)+
  obtain u where u: "t = ''server'' @ u" "CHR ''}'' \<in> set u" using server_word_closed[OF brace p] by blast
  have "CHR ''{'' \<notin> set u" using assms(1) by (simp add: u(1) closed_text_def)
  moreover have "drop 6 (t @ rest) = u @ rest" by (simp add: u(1))
  ultimately show ?thesis using dropWhile_closed[OF u(2)] d by simp
qed

lemma closed_text_tl: "closed_text (c # t) \<Longrightarrow> closed_text t"
  by (auto simp: closed_text_def split: if_splits)

lemma find_server_closed:
  "closed_text t \<Longrightarrow> find_server (t @ rest) = map_option (\<lambda>(a, b). (t @ a, b)) (find_server rest)"
proof (induction t)
  case (Cons c t)
  have "server_at (c # t @ rest) = None" using server_at_none[OF Cons.prems, of rest] by simp
  then show ?case using Cons.IH closed_text_tl[OF Cons.prems] by (cases "find_server rest") auto
qed (cases "find_server rest"; simp)

lemma plain_site_closed: "plain_site s \<Longrightarrow> closed_text (site_body s @ ''}'')"
  by (auto simp: closed_text_def site_body_def plain_site_def plain_word_def)

lemma find_server_block: "find_server (''server {'' @ x) = Some ([], x)"
  by (simp add: server_at_def re_space_def)

lemma server_blocks_render:
  "\<forall>s \<in> set sites. plain_site s \<Longrightarrow> closed_text t \<Longrightarrow>
   server_blocks (t @ render_nginx sites) = t # map (\<lambda>s. site_body s @ ''}'') sites"
proof (induction sites arbitrary: t)
  case Nil
  have "find_server (t @ []) = None" by (subst find_server_closed[OF Nil(2)]) simp
  then show ?case by (subst server_blocks.simps) (simp add: render_nginx_def)
next
  case (Cons s sites)
  have r: "render_nginx (s # sites) = ''server {'' @ (site_body s @ ''}'') @ render_nginx sites" by (simp add: render_nginx_def)
  have "find_server (t @ render_nginx (s # sites)) = Some (t, (site_body s @ ''}'') @ render_nginx sites)"
    unfolding r find_server_closed[OF Cons.prems(2)] find_server_block by simp
  then show ?case
    using Cons.IH[of "site_body s @ ''}''"] Cons.prems(1) plain_site_closed[of s]
    by (subst server_blocks.simps) simp
qed

lemma block_end_plain:
  "\<forall>c \<in> set b. c \<noteq> CHR ''{'' \<and> c \<noteq> CHR ''}'' \<Longrightarrow> block_end (b @ CHR ''}'' # r) 1 i = i + length b"
  by (induction b arbitrary: i) auto

lemma directive_at_word: "plain_word v \<Longrightarrow> directive_at (CHR '' '' # v @ CHR '';'' # r) = Some v"
proof -
  assume v: "plain_word v"
  then have nsp: "\<forall>c \<in> set v. \<not> re_space c" and nsc: "\<forall>c \<in> set v. c \<noteq> CHR '';''" and ne: "v \<noteq> []"
    by (auto simp: plain_word_def)
  have "takeWhile re_space (v @ CHR '';'' # r) = []" "dropWhile re_space (v @ CHR '';'' # r) = v @ CHR '';'' # r"
    using nsp ne by (cases v; simp)+
  moreover have "takeWhile (\<lambda>c. c \<noteq> CHR '';'') (v @ CHR '';'' # r) = v" using nsc by (simp add: takeWhile_append)
  ultimately show ?thesis using ne by (simp add: directive_at_def Let_def re_space_def)
qed

text \<open>A word and its semicolon are passed over: what follows a match inside them is no white space.\<close>

lemma directive_skip:
  assumes "CHR '';'' \<notin> set w" "w \<noteq> []" "\<forall>c \<in> set v. \<not> re_space c"
  shows "directive w (v @ CHR '';'' # s) = directive w s"
  using assms(3)
proof (induction v)
  case Nil
  have "\<not> prefix w (CHR '';'' # s)" using assms(1,2) by (cases w) auto
  then show ?case by simp
next
  case (Cons c v)
  have "directive_at (drop (length w) (c # v @ CHR '';'' # s)) = None" if p: "prefix w (c # v @ CHR '';'' # s)"
  proof -
    have "prefix (c # v) (c # v @ CHR '';'' # s)" by simp
    then have "prefix w (c # v) \<or> prefix (c # v) w" using p prefix_same_cases by blast
    then have "prefix w (c # v)"
    proof
      assume "prefix (c # v) w"
      then obtain u where u: "w = (c # v) @ u" by (auto simp: prefix_def)
      with p have "prefix u (CHR '';'' # s)" by simp
      then have "u = []" using assms(1) u by (cases u) auto
      then show ?thesis using u by simp
    qed
    then obtain u where u: "c # v = w @ u" by (auto simp: prefix_def)
    then have "drop (length w) (c # v @ CHR '';'' # s) = u @ CHR '';'' # s" by (metis append_Cons append_assoc append_eq_conv_conj)
    moreover have "\<forall>c \<in> set u. \<not> re_space c" using Cons.prems u by (metis UnCI set_append)
    ultimately show ?thesis by (cases u) (auto simp: directive_at_def Let_def re_space_def)
  qed
  then show ?case using Cons.IH Cons.prems by simp
qed

lemma no_spaces: "plain_word v \<Longrightarrow> \<forall>c \<in> set v. \<not> re_space c"
  by (simp add: plain_word_def)

text \<open>What each directive finds in the parts of a block.\<close>

lemma pass_over:
  assumes "plain_word v"
  shows "directive ''proxy_pass'' ('' server_name '' @ v @ CHR '';'' # r) = directive ''proxy_pass'' r"
    and "directive ''root'' ('' server_name '' @ v @ CHR '';'' # r) = directive ''root'' r"
    and "directive ''proxy_pass'' ('' root '' @ v @ CHR '';'' # r) = directive ''proxy_pass'' r"
    and "directive ''root'' ('' proxy_pass '' @ v @ CHR '';'' # r) = directive ''root'' r"
  using directive_skip[of "''proxy_pass''" v r] directive_skip[of "''root''" v r] no_spaces[OF assms] by simp_all

lemma find_word:
  assumes "plain_word v"
  shows "directive ''server_name'' ('' server_name '' @ v @ CHR '';'' # r) = Some v"
    and "directive ''proxy_pass'' ('' proxy_pass '' @ v @ CHR '';'' # r) = Some v"
    and "directive ''root'' ('' root '' @ v @ CHR '';'' # r) = Some v"
  using directive_at_word[OF assms, of r] by simp_all

lemma nothing_left: "directive ''proxy_pass'' '' '' = None" "directive ''root'' '' '' = None"
  by simp_all

lemma backend_found:
  assumes "p = [] \<or> plain_word p" "r = [] \<or> plain_word r"
  shows "directive ''proxy_pass'' ((if p = [] then [] else '' proxy_pass '' @ p @ '';'') @ (if r = [] then [] else '' root '' @ r @ '';'') @ '' '') =
    (if p = [] then None else Some p)"
proof (cases "p = []")
  case True
  show ?thesis
  proof (cases "r = []")
    case False
    then have "plain_word r" using assms(2) by simp
    from pass_over(3)[OF this, of "'' ''"] show ?thesis using True False nothing_left(1) by (simp del: directive.simps)
  qed (use True nothing_left(1) in \<open>simp del: directive.simps\<close>)
next
  case False
  then have "plain_word p" using assms(1) by simp
  from find_word(2)[OF this] show ?thesis using False by (simp del: directive.simps)
qed

lemma root_found:
  assumes "p = [] \<or> plain_word p" "r = [] \<or> plain_word r"
  shows "directive ''root'' ((if p = [] then [] else '' proxy_pass '' @ p @ '';'') @ (if r = [] then [] else '' root '' @ r @ '';'') @ '' '') =
    (if r = [] then None else Some r)"
proof -
  have "directive ''root'' ((if p = [] then [] else '' proxy_pass '' @ p @ '';'') @ x) = directive ''root'' x" for x
    using assms(1) pass_over(4)[of p x] by (cases "p = []") (simp_all del: directive.simps)
  then show ?thesis
    using assms(2) find_word(3)[of r "'' ''"] nothing_left(2) by (cases "r = []") (simp_all del: directive.simps)
qed

lemma nginx_site_parts:
  assumes "block_end (b @ ''}'') 1 0 = length b" "b \<noteq> []" "directive ''server_name'' b = Some d" "Fields d = [d]" "d \<noteq> ''_''" "d \<noteq> []"
    and "(case directive ''proxy_pass'' b of Some v \<Rightarrow> TrimSpace v | None \<Rightarrow> []) = p"
    and "(case directive ''root'' b of Some v \<Rightarrow> TrimSpace v | None \<Rightarrow> []) = r" "p \<noteq> [] \<or> r \<noteq> []"
  shows "nginx_site (b @ ''}'') = Some \<lparr>ps_Domain = d, ps_Backend = p, ps_Root = r\<rparr>"
  using assms by (simp add: nginx_site_def Let_def del: directive.simps block_end.simps)

lemma nginx_site_body:
  assumes "plain_site s"
  shows "nginx_site (site_body s @ ''}'') = Some s"
proof -
  obtain d p r where s: "s = \<lparr>ps_Domain = d, ps_Backend = p, ps_Root = r\<rparr>" by (cases s) auto
  have w: "plain_word d" "d \<noteq> ''_''" "p = [] \<or> plain_word p" "r = [] \<or> plain_word r" "p \<noteq> [] \<or> r \<noteq> []"
    using assms by (auto simp: plain_site_def s)
  let ?P = "if p = [] then [] else '' proxy_pass '' @ p @ '';''" and ?R = "if r = [] then [] else '' root '' @ r @ '';''"
  have b: "site_body s = '' server_name '' @ d @ CHR '';'' # (?P @ ?R @ '' '')" by (simp add: site_body_def s)
  have clean: "\<forall>c \<in> set v. c \<noteq> CHR ''{'' \<and> c \<noteq> CHR ''}''" if "plain_word v \<or> v = []" for v
    using that by (auto simp: plain_word_def)
  have "\<forall>c \<in> set d. c \<noteq> CHR ''{'' \<and> c \<noteq> CHR ''}''" "\<forall>c \<in> set p. c \<noteq> CHR ''{'' \<and> c \<noteq> CHR ''}''"
    "\<forall>c \<in> set r. c \<noteq> CHR ''{'' \<and> c \<noteq> CHR ''}''"
    using clean[of d] clean[of p] clean[of r] w by blast+
  then have "\<forall>c \<in> set (site_body s). c \<noteq> CHR ''{'' \<and> c \<noteq> CHR ''}''" by (simp add: b ball_Un)
  from block_end_plain[OF this, of "[]" 0] have e: "block_end (site_body s @ ''}'') 1 0 = length (site_body s)" by simp
  have t: "TrimSpace v = v" if "plain_word v" for v using that by (simp add: plain_word_def)
  have "directive ''proxy_pass'' (?P @ ?R @ '' '') = (if p = [] then None else Some p)" by (rule backend_found[OF w(3,4)])
  then have dp: "(case directive ''proxy_pass'' (site_body s) of Some v \<Rightarrow> TrimSpace v | None \<Rightarrow> []) = p"
    unfolding b pass_over(1)[OF w(1)] using w(3) t[of p] by auto
  have "directive ''root'' (?P @ ?R @ '' '') = (if r = [] then None else Some r)" by (rule root_found[OF w(3,4)])
  then have dr: "(case directive ''root'' (site_body s) of Some v \<Rightarrow> TrimSpace v | None \<Rightarrow> []) = r"
    unfolding b pass_over(2)[OF w(1)] using w(4) t[of r] by auto
  have "site_body s \<noteq> []" by (simp add: b)
  moreover have "directive ''server_name'' (site_body s) = Some d" unfolding b by (rule find_word(1)[OF w(1)])
  ultimately have "nginx_site (site_body s @ ''}'') = Some \<lparr>ps_Domain = d, ps_Backend = p, ps_Root = r\<rparr>"
    using w e dp dr by (intro nginx_site_parts) (simp_all add: plain_word_def)
  then show ?thesis by (simp add: s)
qed


subsection \<open>What an agent reports\<close>


subsection \<open>Saving\<close>

text \<open>
  A text that is saved replaces what is known exactly when it is good YAML and was written; a
  refresh replaces it in any case, also when the file cannot be written.
\<close>
lemma save_or_keep:
  shows "(case SaveRaw y content m w of (w', m', err) \<Rightarrow>
      if err = None then \<exists>env. yy_unmarshal y content = Inr env \<and> m' = m\<lparr>ew_env := Some env\<rparr> \<and> yy_write y (ew_filePath m) content w = (w', None)
      else m' = m)"
    and "(case env_Refresh y m w of (w', m', err) \<Rightarrow> m' = m\<lparr>ew_env := Some (scanned y w (ew_configPath m))\<rparr>)"
    and "(case env_Load y m w of (w', m', err) \<Rightarrow> ew_env m' \<noteq> None)"
  by (auto simp: SaveRaw_def env_Refresh_def env_Load_def Let_def split: sum.splits option.splits prod.splits)

subsection \<open>Queries by name\<close>

lemma first_named_hit:
  assumes "first_named ns items name = Some (nodeID, n, v)"
  shows "name_matches name n" "\<exists>env. (nodeID, env) \<in> set ns \<and> (n, v) \<in> set (items nodeID env)"
  using assms by (auto simp: first_named_def dest!: find_SomeD)

lemma first_named_none:
  assumes "first_named ns items name = None" "(nodeID, env) \<in> set ns" "(n, v) \<in> set (items nodeID env)"
  shows "\<not> name_matches name n"
  using assms by (force simp: first_named_def find_None_iff)

lemma set_entries: "(k, v) \<in> set (entries m ks) \<longleftrightarrow> k \<in> set ks \<and> m k = Some v"
  by (force simp: entries_def map_filter_def image_iff)

definition complete_orders :: "env_orders \<Rightarrow> environment_manager \<Rightarrow> master_cluster option \<Rightarrow> bool" where
  "complete_orders eo m mc \<longleftrightarrow> range_order (GetAllNodes m mc) (eo_nodes eo) \<and>
     (\<forall>nodeID env. GetAllNodes m mc nodeID = Some env \<longrightarrow>
        range_order (en_Containers env) (eo_containers eo nodeID) \<and> range_order (en_Databases env) (eo_databases eo nodeID) \<and>
        None \<notin> ran (en_Containers env) \<and> None \<notin> ran (en_Databases env))"

lemma set_nodes: "complete_orders eo m mc \<Longrightarrow> (k, env) \<in> set (nodes eo m mc) \<longleftrightarrow> GetAllNodes m mc k = Some env"
  by (auto simp: nodes_def set_entries complete_orders_def range_order_def)

lemma set_containers_of:
  "complete_orders eo m mc \<Longrightarrow> GetAllNodes m mc k = Some env \<Longrightarrow>
   (n, v) \<in> set (containers_of eo k env) \<longleftrightarrow> en_Containers env n = Some v"
  by (auto simp: containers_of_def set_entries complete_orders_def range_order_def)

lemma set_databases_of:
  "complete_orders eo m mc \<Longrightarrow> GetAllNodes m mc k = Some env \<Longrightarrow>
   (n, v) \<in> set (databases_of eo k env) \<longleftrightarrow> en_Databases env n = Some v"
  by (auto simp: databases_of_def set_entries complete_orders_def range_order_def)

text \<open>A container or database, in any node, whose name matches.\<close>

definition some_container :: "environment_manager \<Rightarrow> master_cluster option \<Rightarrow> string \<Rightarrow> (string \<times> string \<times> container) set" where
  "some_container m mc name =
     {(k, n, c). \<exists>env. GetAllNodes m mc k = Some env \<and> en_Containers env n = Some (Some c) \<and> name_matches name n}"

definition some_database :: "environment_manager \<Rightarrow> master_cluster option \<Rightarrow> string \<Rightarrow> (string \<times> string \<times> database) set" where
  "some_database m mc name =
     {(k, n, d). \<exists>env. GetAllNodes m mc k = Some env \<and> en_Databases env n = Some (Some d) \<and> name_matches name n}"

lemma GetContainer_hit:
  assumes "complete_orders eo m mc" "nodes eo m mc \<noteq> []"
  shows "(\<exists>k n c. (k, n, c) \<in> some_container m mc name \<and> GetContainer eo m mc name = container_text eo k n (Some c)) \<or>
    some_container m mc name = {} \<and> GetContainer eo m mc name = Inr (([CHR 0xE6, CHR 0x9C, CHR 0xAA, CHR 0xE6, CHR 0x89, CHR 0xBE, CHR 0xE5, CHR 0x88, CHR 0xB0,
     CHR 0xE5, CHR 0xAE, CHR 0xB9, CHR 0xE5, CHR 0x99, CHR 0xA8] @ '': '') @ name)"
proof (cases "first_named (nodes eo m mc) (containers_of eo) name")
  case None
  have "some_container m mc name = {}"
    using first_named_none[OF None] set_nodes[OF assms(1)] set_containers_of[OF assms(1)]
    by (fastforce simp: some_container_def)
  then show ?thesis using None assms(2) by (simp add: GetContainer_def)
next
  case (Some h)
  obtain k n v where h: "h = (k, n, v)" by (cases h) auto
  obtain env where env: "GetAllNodes m mc k = Some env" "en_Containers env n = Some v" "name_matches name n"
    using first_named_hit[OF Some[unfolded h]] set_nodes[OF assms(1)] set_containers_of[OF assms(1)] by blast
  moreover obtain c where "v = Some c"
    using env(1,2) assms(1) by (cases v) (auto simp: complete_orders_def ran_def)
  ultimately show ?thesis using Some assms(2) by (auto simp: GetContainer_def h some_container_def)
qed

lemma GetDatabase_hit:
  assumes "complete_orders eo m mc" "nodes eo m mc \<noteq> []"
  shows "(\<exists>k n d. (k, n, d) \<in> some_database m mc name \<and> GetDatabase eo m mc name = database_text k n (Some d)) \<or>
    some_database m mc name = {} \<and> GetDatabase eo m mc name = Inr (([CHR 0xE6, CHR 0x9C, CHR 0xAA, CHR 0xE6, CHR 0x89, CHR 0xBE, CHR 0xE5, CHR 0x88, CHR 0xB0,
     CHR 0xE6, CHR 0x95, CHR 0xB0, CHR 0xE6, CHR 0x8D, CHR 0xAE, CHR 0xE5, CHR 0xBA,
     CHR 0x93] @ '': '') @ name)"
proof (cases "first_named (nodes eo m mc) (databases_of eo) name")
  case None
  have "some_database m mc name = {}"
    using first_named_none[OF None] set_nodes[OF assms(1)] set_databases_of[OF assms(1)]
    by (fastforce simp: some_database_def)
  then show ?thesis using None assms(2) by (simp add: GetDatabase_def)
next
  case (Some h)
  obtain k n v where h: "h = (k, n, v)" by (cases h) auto
  obtain env where env: "GetAllNodes m mc k = Some env" "en_Databases env n = Some v" "name_matches name n"
    using first_named_hit[OF Some[unfolded h]] set_nodes[OF assms(1)] set_databases_of[OF assms(1)] by blast
  moreover obtain d where "v = Some d"
    using env(1,2) assms(1) by (cases v) (auto simp: complete_orders_def ran_def)
  ultimately show ?thesis using Some assms(2) by (auto simp: GetDatabase_def h some_database_def)
qed

lemma texts_found:
  "\<exists>t. container_text eo k n (Some c) = Inr t \<and> \<not> prefix not_found t"
  "\<exists>t. database_text k n (Some d) = Inr t \<and> \<not> prefix not_found t"
  by (simp_all add: container_text_def database_text_def text_line_def not_found_def)

text \<open>
  The tool answers a query by name with a container of some node whose name matches; only when
  there is none, with a database; only when there is neither, that nothing was found.
\<close>
theorem query_by_name:
  assumes "complete_orders eo m mc" "ew_env m \<noteq> None" "name \<noteq> []"
  shows "(\<exists>k n c. (k, n, c) \<in> some_container m mc name \<and>
      environment_tool eo m mc name category = container_text eo k n (Some c)) \<or>
    some_container m mc name = {} \<and> (\<exists>k n d. (k, n, d) \<in> some_database m mc name \<and>
      environment_tool eo m mc name category = database_text k n (Some d)) \<or>
    some_container m mc name = {} \<and> some_database m mc name = {} \<and>
      environment_tool eo m mc name category = Inr (([CHR 0xE6, CHR 0x9C, CHR 0xAA, CHR 0xE6, CHR 0x89, CHR 0xBE, CHR 0xE5, CHR 0x88, CHR 0xB0,
     CHR 0xE5, CHR 0x90, CHR 0x8D, CHR 0xE4, CHR 0xB8, CHR 0xBA] @ '' '') @ name @ ('' '' @ [CHR 0xE7, CHR 0x9A, CHR 0x84, CHR 0xE5, CHR 0xAE, CHR 0xB9, CHR 0xE5, CHR 0x99,
     CHR 0xA8, CHR 0xE6, CHR 0x88, CHR 0x96, CHR 0xE6, CHR 0x95, CHR 0xB0, CHR 0xE6,
     CHR 0x8D, CHR 0xAE, CHR 0xE5, CHR 0xBA, CHR 0x93]))"
proof -
  have "GetAllNodes m mc (GetLocalNodeID m) \<noteq> None"
    using assms(2) by (cases mc) (auto simp: GetAllNodes_def split: option.splits)
  then obtain env k where "GetAllNodes m mc k = Some env" by blast
  then have ns: "nodes eo m mc \<noteq> []" using set_nodes[OF assms(1), of k env] by auto
  have p: "prefix not_found (([CHR 0xE6, CHR 0x9C, CHR 0xAA, CHR 0xE6, CHR 0x89, CHR 0xBE, CHR 0xE5, CHR 0x88, CHR 0xB0,
     CHR 0xE5, CHR 0xAE, CHR 0xB9, CHR 0xE5, CHR 0x99, CHR 0xA8] @ '': '') @ name)" "prefix not_found (([CHR 0xE6, CHR 0x9C, CHR 0xAA, CHR 0xE6, CHR 0x89, CHR 0xBE, CHR 0xE5, CHR 0x88, CHR 0xB0,
     CHR 0xE6, CHR 0x95, CHR 0xB0, CHR 0xE6, CHR 0x8D, CHR 0xAE, CHR 0xE5, CHR 0xBA,
     CHR 0x93] @ '': '') @ name)"
    by (simp_all add: not_found_def)
  consider (container) k n c where "(k, n, c) \<in> some_container m mc name" "GetContainer eo m mc name = container_text eo k n (Some c)"
    | (none) "some_container m mc name = {}" "GetContainer eo m mc name = Inr (([CHR 0xE6, CHR 0x9C, CHR 0xAA, CHR 0xE6, CHR 0x89, CHR 0xBE, CHR 0xE5, CHR 0x88, CHR 0xB0,
     CHR 0xE5, CHR 0xAE, CHR 0xB9, CHR 0xE5, CHR 0x99, CHR 0xA8] @ '': '') @ name)"
    using GetContainer_hit[OF assms(1) ns, of name] by blast
  then show ?thesis
  proof cases
    case container
    obtain t where "container_text eo k n (Some c) = Inr t" "\<not> prefix not_found t" using texts_found(1) by blast
    then have "environment_tool eo m mc name category = container_text eo k n (Some c)"
      using assms(2,3) container(2) by (auto simp: environment_tool_def)
    then show ?thesis using container(1) by blast
  next
    case none
    consider (database) k n d where "(k, n, d) \<in> some_database m mc name" "GetDatabase eo m mc name = database_text k n (Some d)"
      | (neither) "some_database m mc name = {}" "GetDatabase eo m mc name = Inr (([CHR 0xE6, CHR 0x9C, CHR 0xAA, CHR 0xE6, CHR 0x89, CHR 0xBE, CHR 0xE5, CHR 0x88, CHR 0xB0,
     CHR 0xE6, CHR 0x95, CHR 0xB0, CHR 0xE6, CHR 0x8D, CHR 0xAE, CHR 0xE5, CHR 0xBA,
     CHR 0x93] @ '': '') @ name)"
      using GetDatabase_hit[OF assms(1) ns, of name] by blast
    then show ?thesis
    proof cases
      case database
      obtain t where "database_text k n (Some d) = Inr t" "\<not> prefix not_found t" using texts_found(2) by blast
      then have "environment_tool eo m mc name category = database_text k n (Some d)"
        using assms(2,3) database(2) none(2) p(1) by (auto simp: environment_tool_def)
      then show ?thesis using none(1) database(1) by blast
    next
      case neither
      have "environment_tool eo m mc name category = Inr (([CHR 0xE6, CHR 0x9C, CHR 0xAA, CHR 0xE6, CHR 0x89, CHR 0xBE, CHR 0xE5, CHR 0x88, CHR 0xB0,
     CHR 0xE5, CHR 0x90, CHR 0x8D, CHR 0xE4, CHR 0xB8, CHR 0xBA] @ '' '') @ name @ ('' '' @ [CHR 0xE7, CHR 0x9A, CHR 0x84, CHR 0xE5, CHR 0xAE, CHR 0xB9, CHR 0xE5, CHR 0x99,
     CHR 0xA8, CHR 0xE6, CHR 0x88, CHR 0x96, CHR 0xE6, CHR 0x95, CHR 0xB0, CHR 0xE6,
     CHR 0x8D, CHR 0xAE, CHR 0xE5, CHR 0xBA, CHR 0x93]))"
        using assms(2,3) neither(2) none(2) p by (auto simp: environment_tool_def)
      then show ?thesis using none(1) neither(1) by blast
    qed
  qed
qed

subsection \<open>Witnesses\<close>

definition example_site :: site where
  "example_site = \<lparr>ps_Domain = ''a.io'', ps_Backend = ''http://b'', ps_Root = []\<rparr>"


definition example_manager :: environment_manager where
  "example_manager = (NewEnvironmentManager ''f'' ''c'')\<lparr>ew_env := Some (zero_EnvironmentPayload\<lparr>en_Containers :=
     [''Web'' \<mapsto> Some \<lparr>pk_Image = ''i'', pk_Status = ''running'', pk_Env = Map.empty, pk_Ports = [], pk_Network = []\<rparr>]\<rparr>)\<rparr>"

theorem query_by_name_witness:
  "\<exists>k n c. (k, n, c) \<in> some_container example_manager None ''Web'' \<and>
     environment_tool \<lparr>eo_nodes = [''local''], eo_containers = (\<lambda>_. [''Web'']), eo_databases = (\<lambda>_. []), eo_proxies = (\<lambda>_. []),
       eo_vars = (\<lambda>_. [])\<rparr> example_manager None ''Web'' [] =
     container_text \<lparr>eo_nodes = [''local''], eo_containers = (\<lambda>_. [''Web'']), eo_databases = (\<lambda>_. []), eo_proxies = (\<lambda>_. []),
       eo_vars = (\<lambda>_. [])\<rparr> k n (Some c)"
proof -
  let ?eo = "\<lparr>eo_nodes = [''local''], eo_containers = (\<lambda>_. [''Web'']), eo_databases = (\<lambda>_. []), eo_proxies = (\<lambda>_. []),
       eo_vars = (\<lambda>_. [])\<rparr> :: env_orders"
  have o: "complete_orders ?eo example_manager None"
    by (auto simp: complete_orders_def range_order_def example_manager_def NewEnvironmentManager_def GetAllNodes_def
        GetLocalNodeID_def zero_EnvironmentPayload_def ran_def split: if_splits)
  have e: "ew_env example_manager \<noteq> None" by (simp add: example_manager_def)
  have "some_container example_manager None ''Web'' \<noteq> {}"
    by (auto simp: some_container_def example_manager_def NewEnvironmentManager_def GetAllNodes_def GetLocalNodeID_def
        zero_EnvironmentPayload_def name_matches_def ToLower_def lower_char_def)
  then show ?thesis using query_by_name[OF o e, of "''Web''" "[]"] by auto
qed

end
