(* ===== verification/Owl_Logging.thy ===== *)
theory Owl_Logging
  imports Owl_Json
begin

text \<open>
  \<open>internal/logging\<close>: what the sanitizer hides (\<open>sanitizer.go\<close>) and what of a log line goes through it
  (\<open>logger.go\<close>, \<open>fields.go\<close>). A compiled expression is of any type \<open>'re\<close>; a \<open>regex_engine\<close> compiles one, replaces
  its matches and gives the groups of a match (\<open>None\<close> when there is none). A line is the JSON object zerolog writes.
\<close>

subsection \<open>The sanitizer\<close>

record 're regex_engine =
  xe_compile :: "string \<Rightarrow> string + 're"
  xe_replace :: "'re \<Rightarrow> (string \<Rightarrow> string) \<Rightarrow> string \<Rightarrow> string"
  xe_groups :: "'re \<Rightarrow> string \<Rightarrow> string list option"

record 're sanitizer =
  sz_patterns :: "'re list"
  sz_keyPatterns :: "string list"
  sz_maskChar :: string
  sz_maskLength :: nat

definition default_key_patterns :: "string list" where
  "default_key_patterns = [''password'', ''passwd'', ''secret'', ''token'', ''api_key'', ''apikey'', ''auth'', ''credential'', ''private'', ''key'']"

definition quote_class :: string where
  "quote_class = [CHR ''['', CHR 0x22, CHR 0x27, CHR '']'', CHR ''?'']"

definition bs :: string where
  "bs = [CHR 0x5C]"

definition default_patterns :: "string list" where
  "default_patterns =
    [''(?i)(api[_-]?key|token|secret)[=:]'' @ bs @ ''s*'' @ quote_class @ ''([a-zA-Z0-9_'' @ bs @ ''-]{16,})'' @ quote_class,
     ''://[^:]+:([^@]+)@'',
     ''(?i)bearer'' @ bs @ ''s+([a-zA-Z0-9_'' @ bs @ ''-'' @ bs @ ''.]+)'',
     ''(?i)basic'' @ bs @ ''s+([a-zA-Z0-9+/=]+)'',
     ''(?i)password=([^'' @ bs @ ''s&]+)'',
     ''(?i)redis://:[^@]+@'',
     ''-----BEGIN'' @ bs @ ''s+(?:RSA'' @ bs @ ''s+)?PRIVATE'' @ bs @ ''s+KEY-----'',
     bs @ ''b'' @ bs @ ''d{4}['' @ bs @ ''s-]?'' @ bs @ ''d{4}['' @ bs @ ''s-]?'' @ bs @ ''d{4}['' @ bs @ ''s-]?'' @ bs @ ''d{4}'' @ bs @ ''b'',
     ''([a-zA-Z0-9._%+-]+)@([a-zA-Z0-9.-]+'' @ bs @ ''.[a-zA-Z]{2,})'',
     bs @ ''b(10'' @ bs @ ''.'' @ bs @ ''d{1,3}'' @ bs @ ''.'' @ bs @ ''d{1,3}'' @ bs @ ''.'' @ bs @ ''d{1,3}|172'' @ bs @ ''.(1[6-9]|2'' @ bs @
       ''d|3[01])'' @ bs @ ''.'' @ bs @ ''d{1,3}'' @ bs @ ''.'' @ bs @ ''d{1,3}|192'' @ bs @ ''.168'' @ bs @ ''.'' @ bs @ ''d{1,3}'' @ bs @ ''.'' @
       bs @ ''d{1,3}):'' @ bs @ ''d+'' @ bs @ ''b'']"

definition NewSanitizer :: "'re regex_engine \<Rightarrow> 're sanitizer" where
  "NewSanitizer xe = \<lparr>sz_patterns = List.map_filter (\<lambda>p. case xe_compile xe p of Inl _ \<Rightarrow> None | Inr re \<Rightarrow> Some re) default_patterns,
     sz_keyPatterns = default_key_patterns, sz_maskChar = ''*'', sz_maskLength = 8\<rparr>"

text \<open>\<open>string(value[0])\<close> is the UTF-8 of the byte taken as a rune.\<close>

definition byte_rune :: "char \<Rightarrow> string" where
  "byte_rune c =
     (let n = (of_char c :: nat) in if n < 128 then [c] else [char_of (192 + n div 64), char_of (128 + n mod 64)])"

definition sz_mask :: "'re sanitizer \<Rightarrow> string \<Rightarrow> string" where
  "sz_mask s value =
     (let stars = concat (replicate (sz_maskLength s) (sz_maskChar s)) in
      if value = [] then value
      else if length value \<le> 4 then stars
      else byte_rune (hd value) @ stars @ byte_rune (last value))"

text \<open>\<open>strings.Replace(s, old, new, 1)\<close>\<close>

definition replace_first :: "string \<Rightarrow> string \<Rightarrow> string \<Rightarrow> string" where
  "replace_first s old new = (case Cut s old of None \<Rightarrow> s | Some (a, b) \<Rightarrow> a @ new @ b)"

text \<open>The groups are masked by text: each replaces the first place in the match where its text occurs.\<close>

fun mask_groups :: "'re sanitizer \<Rightarrow> string list \<Rightarrow> string \<Rightarrow> string" where
  "mask_groups s [] result = result"
| "mask_groups s (g # gs) result = mask_groups s gs (if g \<noteq> [] then replace_first result g (sz_mask s g) else result)"

definition maskMatch :: "'re regex_engine \<Rightarrow> 're sanitizer \<Rightarrow> string \<Rightarrow> 're \<Rightarrow> string" where
  "maskMatch xe s m re =
     (let groups = (case xe_groups xe re m of None \<Rightarrow> [] | Some gs \<Rightarrow> gs) in
      if length groups < 2 then concat (replicate (sz_maskLength s) (sz_maskChar s)) else mask_groups s (tl groups) m)"

definition SanitizeString :: "'re regex_engine \<Rightarrow> 're sanitizer \<Rightarrow> string \<Rightarrow> string" where
  "SanitizeString xe s value = fold (\<lambda>re result. xe_replace xe re (\<lambda>m. maskMatch xe s m re) result) (sz_patterns s) value"

definition sensitive_key :: "'re sanitizer \<Rightarrow> string \<Rightarrow> bool" where
  "sensitive_key s key = list_ex (\<lambda>p. Contains (ToLower key) p) (sz_keyPatterns s)"

definition SanitizeValue :: "'re regex_engine \<Rightarrow> 're sanitizer \<Rightarrow> string \<Rightarrow> string \<Rightarrow> string" where
  "SanitizeValue xe s key value = (if sensitive_key s key then sz_mask s value else SanitizeString xe s value)"

definition AddKeyPattern :: "string \<Rightarrow> 're sanitizer \<Rightarrow> 're sanitizer" where
  "AddKeyPattern p s = s\<lparr>sz_keyPatterns := sz_keyPatterns s @ [ToLower p]\<rparr>"

definition AddRegexPattern :: "'re regex_engine \<Rightarrow> string \<Rightarrow> 're sanitizer \<Rightarrow> 're sanitizer \<times> string option" where
  "AddRegexPattern xe p s =
     (case xe_compile xe p of Inl e \<Rightarrow> (s, Some e) | Inr re \<Rightarrow> (s\<lparr>sz_patterns := sz_patterns s @ [re]\<rparr>, None))"

text \<open>A map of any values: strings and maps of the same type are changed, all else, lists too, is kept.\<close>

fun sanitize_any :: "'re regex_engine \<Rightarrow> 're sanitizer \<Rightarrow> string \<Rightarrow> json \<Rightarrow> json" where
  "sanitize_any xe s k (JStr v) = JStr (SanitizeValue xe s k v)"
| "sanitize_any xe s k (JObj kvs) = JObj (map (\<lambda>kv. (fst kv, sanitize_any xe s (fst kv) (snd kv))) kvs)"
| "sanitize_any xe s k v = v"

definition SanitizeMap :: "'re regex_engine \<Rightarrow> 're sanitizer \<Rightarrow> fields \<Rightarrow> fields" where
  "SanitizeMap xe s m = map (\<lambda>kv. (fst kv, sanitize_any xe s (fst kv) (snd kv))) m"

subsection \<open>Loggers\<close>

definition DebugLevel :: int where "DebugLevel = 0"
definition InfoLevel :: int where "InfoLevel = 1"
definition WarnLevel :: int where "WarnLevel = 2"
definition ErrorLevel :: int where "ErrorLevel = 3"
definition FatalLevel :: int where "FatalLevel = 4"

record 're logger =
  lg_level :: int
  lg_context :: fields
  lg_sanitizer :: "'re sanitizer option"

record logging_config =
  lc_Level :: string
  lc_Format :: string
  lc_Output :: string
  lc_TimeFormat :: string
  lc_Sanitize :: bool

text \<open>\<open>parse_level\<close> is that of zerolog. Where the lines go is not part of the value.\<close>

definition New_logger :: "(string \<Rightarrow> int option) \<Rightarrow> 're regex_engine \<Rightarrow> logging_config \<Rightarrow> 're logger" where
  "New_logger parse_level xe cfg =
     \<lparr>lg_level = (case parse_level (lc_Level cfg) of None \<Rightarrow> InfoLevel | Some l \<Rightarrow> l), lg_context = [],
      lg_sanitizer = (if lc_Sanitize cfg then Some (NewSanitizer xe) else None)\<rparr>"

definition Default_logger :: "(string \<Rightarrow> int option) \<Rightarrow> 're regex_engine \<Rightarrow> 're logger option \<Rightarrow> 're logger" where
  "Default_logger parse_level xe globalLogger =
     (case globalLogger of
        Some l \<Rightarrow> l
      | None \<Rightarrow> New_logger parse_level xe \<lparr>lc_Level = ''info'', lc_Format = ''json'', lc_Output = ''stdout'', lc_TimeFormat = [], lc_Sanitize = True\<rparr>)"

text \<open>A field as it is added to a context or an event; a string goes through the sanitizer.\<close>

datatype log_field = FStr string string | FInt string int | FBool string bool | FErr string | FDur string duration | FAny string json

definition maybe_sanitize :: "'re regex_engine \<Rightarrow> 're sanitizer option \<Rightarrow> string \<Rightarrow> string \<Rightarrow> string" where
  "maybe_sanitize xe sz key val = (case sz of None \<Rightarrow> val | Some s \<Rightarrow> SanitizeValue xe s key val)"

fun field_of :: "'re regex_engine \<Rightarrow> 're sanitizer option \<Rightarrow> log_field \<Rightarrow> string \<times> json" where
  "field_of xe sz (FStr k v) = (k, JStr (maybe_sanitize xe sz k v))"
| "field_of xe sz (FInt k i) = (k, JInt i)"
| "field_of xe sz (FBool k b) = (k, JBool b)"
| "field_of xe sz (FErr e) = (''error'', JStr e)"
| "field_of xe sz (FDur k d) = (k, JReal (of_int d / of_int Millisecond))"
| "field_of xe sz (FAny k j) = (k, j)"

definition With :: "'re regex_engine \<Rightarrow> log_field list \<Rightarrow> 're logger \<Rightarrow> 're logger" where
  "With xe fs l = l\<lparr>lg_context := lg_context l @ map (field_of xe (lg_sanitizer l)) fs\<rparr>"

text \<open>An event with its fields, sent with a message: a line, unless the level is too low.\<close>

definition level_name :: "int \<Rightarrow> string" where
  "level_name l = (if l = DebugLevel then ''debug'' else if l = InfoLevel then ''info'' else if l = WarnLevel then ''warn''
     else if l = ErrorLevel then ''error'' else ''fatal'')"

definition log_msg :: "'re regex_engine \<Rightarrow> string \<Rightarrow> 're logger \<Rightarrow> int \<Rightarrow> log_field list \<Rightarrow> string \<Rightarrow> json option" where
  "log_msg xe now l level fs msg =
     (if level < lg_level l then None
      else Some (JObj ((''level'', JStr (level_name level)) # lg_context l @ map (field_of xe (lg_sanitizer l)) fs @
        [(''time'', JStr now)] @ omit (msg = []) ''message'' (JStr msg))))"

definition FieldRequestID :: string where "FieldRequestID = ''request_id''"
definition FieldSessionID :: string where "FieldSessionID = ''session_id''"
definition FieldUserID :: string where "FieldUserID = ''user_id''"
definition FieldComponent :: string where "FieldComponent = ''component''"
definition FieldOperation :: string where "FieldOperation = ''operation''"

definition WithRequestContext :: "'re regex_engine \<Rightarrow> 're logger \<Rightarrow> string \<Rightarrow> string \<Rightarrow> string \<Rightarrow> 're logger" where
  "WithRequestContext xe l requestID sessionID userID =
     With xe [FStr FieldRequestID requestID, FStr FieldSessionID sessionID, FStr FieldUserID userID] l"

definition WithComponent :: "'re regex_engine \<Rightarrow> 're logger \<Rightarrow> string \<Rightarrow> 're logger" where
  "WithComponent xe l component = With xe [FStr FieldComponent component] l"

definition WithOperation :: "'re regex_engine \<Rightarrow> 're logger \<Rightarrow> string \<Rightarrow> 're logger" where
  "WithOperation xe l operation = With xe [FStr FieldOperation operation] l"

lemma Cut_append: "Cut s w = Some (a, b) \<Longrightarrow> Cut (s @ t) w = Some (a, b @ t)"
proof (induction s arbitrary: a b)
  case (Cons c s)
  show ?case
  proof (cases "prefix w (c # s)")
    case True
    then have "prefix w ((c # s) @ t)" by (rule prefix_prefix)
    moreover have "drop (length w) ((c # s) @ t) = drop (length w) (c # s) @ t"
      using prefix_length_le[OF True] by (simp only: drop_append) simp
    ultimately show ?thesis using Cons.prems True by auto
  next
    case False
    then obtain a' where a': "a = c # a'" "Cut s w = Some (a', b)" using Cons.prems by (auto split: option.splits)
    have "length w \<le> length s" using Cut_Some[OF a'(2)] by simp
    then have "\<not> prefix w (c # s @ t)"
      using False prefix_length_prefix[of w "c # s @ t" "c # s"] by auto
    then show ?thesis using Cons.IH[OF a'(2)] a'(1) by simp
  qed
qed (cases t; auto split: if_splits)

subsection \<open>What is hidden\<close>

text \<open>Two maps that differ only in what the sanitizer must hide: strings under sensitive keys, of the same
  first and last byte.\<close>

definition same_outline :: "string \<Rightarrow> string \<Rightarrow> bool" where
  "same_outline v w \<longleftrightarrow> v = w \<or> v \<noteq> [] \<and> w \<noteq> [] \<and>
     (length v \<le> 4 \<and> length w \<le> 4 \<or> 4 < length v \<and> 4 < length w \<and> hd v = hd w \<and> last v = last w)"

inductive alike :: "'re sanitizer \<Rightarrow> string \<Rightarrow> json \<Rightarrow> json \<Rightarrow> bool" for s where
  alike_same: "alike s k j j"
| alike_secret: "sensitive_key s k \<Longrightarrow> same_outline v w \<Longrightarrow> alike s k (JStr v) (JStr w)"
| alike_obj: "list_all2 (\<lambda>kv kv'. fst kv = fst kv' \<and> alike s (fst kv) (snd kv) (snd kv')) m m' \<Longrightarrow> alike s k (JObj m) (JObj m')"

lemma mask_outline: "same_outline v w \<Longrightarrow> sz_mask s v = sz_mask s w"
  by (auto simp: same_outline_def sz_mask_def Let_def)

lemma sanitize_alike: "alike s k j j' \<Longrightarrow> sanitize_any xe s k j = sanitize_any xe s k j'"
proof (induction rule: alike.induct)
  case (alike_secret k v w)
  then show ?case by (simp add: SanitizeValue_def mask_outline)
next
  case (alike_obj m m' k)
  then show ?case by (induction m m' rule: list_all2_induct) auto
qed simp


text \<open>
  A password that occurs in the name of its user is not masked: the text of the group is replaced
  where it occurs first, and that is in the name.
\<close>
theorem url_password_shown:
  assumes "xe_groups xe re (''://'' @ user @ '':'' @ pass @ ''@'') = Some [''://'' @ user @ '':'' @ pass @ ''@'', pass]"
    and "Contains user pass" "pass \<noteq> []"
  shows "\<exists>x. maskMatch xe s (''://'' @ user @ '':'' @ pass @ ''@'') re = x @ '':'' @ pass @ ''@''"
proof -
  have "Contains (''://'' @ user) pass" using assms(2) by simp
  then have "Cut (''://'' @ user) pass \<noteq> None" unfolding Cut_None by blast
  then obtain a b where "Cut (''://'' @ user) pass = Some (a, b)" by fast
  from Cut_append[OF this, of "'':'' @ pass @ ''@''"] show ?thesis
    using assms(1,3) by (simp add: maskMatch_def replace_first_def)
qed

theorem url_password_shown_witness:
  "\<exists>x. maskMatch \<lparr>xe_compile = Inr, xe_replace = (\<lambda>_ f. f), xe_groups = (\<lambda>_ m. Some [m, ''min''])\<rparr>
     (NewSanitizer \<lparr>xe_compile = Inr, xe_replace = (\<lambda>_ f. f), xe_groups = (\<lambda>_ m. Some [m, ''min''])\<rparr>)
     ''://admin:min@'' (''://[^:]+:([^@]+)@'' :: string) = x @ '':min@''"
  using url_password_shown[of "\<lparr>xe_compile = Inr, xe_replace = (\<lambda>_ f. f), xe_groups = (\<lambda>_ m. Some [m, ''min''])\<rparr>"
      "''://[^:]+:([^@]+)@''" "''admin''" "''min''"] by simp

definition no_regex :: "unit regex_engine" where
  "no_regex = \<lparr>xe_compile = Inl, xe_replace = (\<lambda>_ f. f), xe_groups = (\<lambda>_ m. None)\<rparr>"


end
