(* ===== verification/Owl_ActionLog.thy ===== *)
theory Owl_ActionLog
  imports Owl_Json Owl_Utf8
begin

text \<open>
  \<open>internal/agent/logger.go\<close>: the table of what the tools did. The database is reachable; it numbers the
  rows, writes their time, and refuses a text that is not UTF-8 or contains a zero byte and a duration of
  more than 32 bits (the column is an \<open>INTEGER\<close>). A day is 24 hours. \<open>print\<close> makes the text of the arguments,
  \<open>schedule_error\<close> is the parser of the cron library.
\<close>

record action_row =
  lg_ID :: nat
  lg_SessionID :: string
  lg_UserID :: string
  lg_RequestID :: string
  lg_ToolName :: string
  lg_Arguments :: string
  lg_Result :: string
  lg_Success :: bool
  lg_ErrorMsg :: string
  lg_DurationMs :: int
  lg_CreatedAt :: gotime

record action_table =
  lt_rows :: "action_row list"
  lt_next :: nat

text \<open>
  \<open>opens\<close>: the error of opening the database and of creating the table, or the table, which keeps the rows
  it has.
\<close>

definition NewActionLogger :: "(string \<Rightarrow> string + action_table) \<Rightarrow> string \<Rightarrow> string + action_table" where
  "NewActionLogger opens dsn = opens dsn"

definition text_column :: "string \<Rightarrow> bool" where
  "text_column s \<longleftrightarrow> valid_utf8 s \<and> CHR 0x00 \<notin> set s"

definition storable :: "action_row \<Rightarrow> bool" where
  "storable r \<longleftrightarrow>
     list_all text_column [lg_SessionID r, lg_UserID r, lg_RequestID r, lg_ToolName r, lg_Arguments r, lg_Result r, lg_ErrorMsg r] \<and>
     - (2 ^ 31) \<le> lg_DurationMs r \<and> lg_DurationMs r < 2 ^ 31"

text \<open>The second component: whether the row was stored. All callers ignore it.\<close>

definition action_Log ::
  "((string \<rightharpoonup> json) \<Rightarrow> string) \<Rightarrow> gotime \<Rightarrow> string \<Rightarrow> string \<Rightarrow> string \<Rightarrow> string \<Rightarrow> (string \<rightharpoonup> json) \<Rightarrow> string \<Rightarrow>
   string option \<Rightarrow> int \<Rightarrow> action_table \<Rightarrow> action_table \<times> bool" where
  "action_Log print now sessionID userID requestID toolName a res err durationMs t =
     (let row = \<lparr>lg_ID = lt_next t, lg_SessionID = sessionID, lg_UserID = userID, lg_RequestID = requestID,
                lg_ToolName = toolName, lg_Arguments = print a, lg_Result = res, lg_Success = (err = None),
                lg_ErrorMsg = (case err of None \<Rightarrow> [] | Some e \<Rightarrow> e), lg_DurationMs = durationMs, lg_CreatedAt = now\<rparr>
      in if storable row then (\<lparr>lt_rows = lt_rows t @ [row], lt_next = Suc (lt_next t)\<rparr>, True)
         else (t, False))"

definition GetRecentLogs :: "nat \<Rightarrow> action_table \<Rightarrow> action_row list" where
  "GetRecentLogs limit t = take limit (sort_key (\<lambda>r. - lg_CreatedAt r) (lt_rows t))"

definition CleanOldLogs :: "gotime \<Rightarrow> int \<Rightarrow> action_table \<Rightarrow> action_table \<times> nat" where
  "CleanOldLogs now daysToKeep t =
     (let kept = filter (\<lambda>r. \<not> lg_CreatedAt r < now - daysToKeep * (24 * Hour)) (lt_rows t)
      in (t\<lparr>lt_rows := kept\<rparr>, length (lt_rows t) - length kept))"

text \<open>The job that the cron library runs, or its error.\<close>

definition StartAutoCleanup ::
  "(string \<Rightarrow> string option) \<Rightarrow> int \<Rightarrow> string \<Rightarrow> string + (gotime \<Rightarrow> action_table \<Rightarrow> action_table)" where
  "StartAutoCleanup schedule_error daysToKeep cronExpr =
     (case schedule_error cronExpr of
        Some e \<Rightarrow> Inl e
      | None \<Rightarrow> Inr (\<lambda>now t. fst (CleanOldLogs now daysToKeep t)))"

end
