(* ===== verification/Owl_WebHandlers.thy ===== *)
theory Owl_WebHandlers
  imports Owl_WebGuard Owl_ActionLog Owl_Scheduler Owl_Forget
begin

text \<open>
  \<open>internal/web/handlers\<close>: the handlers of the web panel. An answer is a status and the JSON value of its
  body; the parsed body of a request is \<open>Inl\<close> the error of the text or \<open>Inr\<close> its value. The fields of an
  object have no order. The text of a decoding error, of a duration, the runtime of Go, the clock and
  generated identifiers are arguments.
\<close>

section \<open>Answers\<close>

record api_request = web_request +
  wr_Query :: "string \<Rightarrow> string"
  wr_Body :: "string + json"

type_synonym web_answer = "nat \<times> json"

record api_response =
  ap_Success :: bool
  ap_Data :: "json option"
  ap_Error :: string
  ap_Message :: string

definition enc_api_response :: "api_response \<Rightarrow> json" where
  "enc_api_response a = JObj ((''success'', JBool (ap_Success a)) #
     (case ap_Data a of None \<Rightarrow> [] | Some j \<Rightarrow> [(''data'', j)]) @
     omit (ap_Error a = []) ''error'' (JStr (ap_Error a)) @ omit (ap_Message a = []) ''message'' (JStr (ap_Message a)))"

definition writeJSON :: "nat \<Rightarrow> api_response \<Rightarrow> web_answer" where
  "writeJSON status a = (status, enc_api_response a)"

definition writeSuccess :: "json \<Rightarrow> web_answer" where
  "writeSuccess j = writeJSON 200 \<lparr>ap_Success = True, ap_Data = Some j, ap_Error = [], ap_Message = []\<rparr>"

definition writeSuccessMessage :: "string \<Rightarrow> web_answer" where
  "writeSuccessMessage message = writeJSON 200 \<lparr>ap_Success = True, ap_Data = None, ap_Error = [], ap_Message = message\<rparr>"

definition writeError :: "nat \<Rightarrow> string \<Rightarrow> web_answer" where
  "writeError status err = writeJSON status \<lparr>ap_Success = False, ap_Data = None, ap_Error = err, ap_Message = []\<rparr>"

definition writeBadRequest :: "string \<Rightarrow> web_answer" where "writeBadRequest = writeError 400"
definition writeNotFound :: "string \<Rightarrow> web_answer" where "writeNotFound = writeError 404"
definition writeInternalError :: "string \<Rightarrow> web_answer" where "writeInternalError = writeError 500"
definition writeMethodNotAllowed :: web_answer where
  "writeMethodNotAllowed = writeError 405 [CHR 0xE6, CHR 0x96, CHR 0xB9, CHR 0xE6, CHR 0xB3, CHR 0x95, CHR 0xE4, CHR 0xB8, CHR 0x8D,
     CHR 0xE5, CHR 0x85, CHR 0x81, CHR 0xE8, CHR 0xAE, CHR 0xB8]"

definition parseJSON :: "(json \<Rightarrow> string) \<Rightarrow> (json \<Rightarrow> 'a option) \<Rightarrow> string + json \<Rightarrow> string + 'a" where
  "parseJSON mismatch dec body =
     (case body of Inl e \<Rightarrow> Inl e
      | Inr j \<Rightarrow> (case dec j of None \<Rightarrow> Inl (mismatch j) | Some a \<Rightarrow> Inr a))"

definition getPathParam :: "string \<Rightarrow> string \<Rightarrow> string" where
  "getPathParam path pre = (if length path \<le> length pre then [] else drop (length pre) path)"

text \<open>A number in the query of a request: positive, or the default.\<close>

definition query_limit :: "nat \<Rightarrow> string \<Rightarrow> nat" where
  "query_limit dflt s =
     (if s = [] then dflt else case Atoi s of None \<Rightarrow> dflt | Some l \<Rightarrow> if l > 0 then nat l else dflt)"

section \<open>Dashboard\<close>

text \<open>What the Go runtime tells: its version, goroutines, processors, and the memory statistics.\<close>

record go_runtime =
  gr_Version :: string
  gr_NumGoroutine :: int
  gr_NumCPU :: int
  gr_Alloc :: nat
  gr_TotalAlloc :: nat
  gr_Sys :: nat
  gr_NumGC :: nat

text \<open>
  Which components the handler was created with; the program passes no monitor. A component is here what
  its operations need.
\<close>

record dashboard_handler =
  dh_monitor :: bool
  dh_scheduler :: "scheduler option"
  dh_skills :: "skill_registry option"
  dh_memory :: bool
  dh_startTime :: gotime

definition NewDashboardHandler ::
  "gotime \<Rightarrow> bool \<Rightarrow> scheduler option \<Rightarrow> skill_registry option \<Rightarrow> bool \<Rightarrow> dashboard_handler" where
  "NewDashboardHandler now mon sched skillMgr memMgr =
     \<lparr>dh_monitor = mon, dh_scheduler = sched, dh_skills = skillMgr, dh_memory = memMgr, dh_startTime = now\<rparr>"

record task_stats =
  ks_TotalTasks :: int
  ks_ActiveTasks :: int
  ks_PausedTasks :: int

definition count_tasks :: "scheduled_task list \<Rightarrow> task_stats" where
  "count_tasks ts = fold (\<lambda>t k.
       if st_Status t = TaskStatusActive then k\<lparr>ks_ActiveTasks := ks_ActiveTasks k + 1\<rparr>
       else if st_Status t = TaskStatusPaused then k\<lparr>ks_PausedTasks := ks_PausedTasks k + 1\<rparr> else k) ts
     \<lparr>ks_TotalTasks = int (length ts), ks_ActiveTasks = 0, ks_PausedTasks = 0\<rparr>"

definition enc_task_stats :: "task_stats \<Rightarrow> json" where
  "enc_task_stats k = JObj [(''total_tasks'', JInt (ks_TotalTasks k)), (''active_tasks'', JInt (ks_ActiveTasks k)),
     (''paused_tasks'', JInt (ks_PausedTasks k))]"

definition memory_stats :: "go_runtime \<Rightarrow> json" where
  "memory_stats g = JObj [(''alloc'', JInt (int (gr_Alloc g))), (''total_alloc'', JInt (int (gr_TotalAlloc g))),
     (''sys'', JInt (int (gr_Sys g))), (''num_gc'', JInt (int (gr_NumGC g)))]"

definition GetStats ::
  "(duration \<Rightarrow> string) \<Rightarrow> go_runtime \<Rightarrow> gotime \<Rightarrow> string list \<Rightarrow> string list \<Rightarrow> dashboard_handler \<Rightarrow> 'a api_request_scheme \<Rightarrow>
   web_answer" where
  "GetStats dur g now tks sks h r =
     (if wr_Method r \<noteq> ''GET'' then writeMethodNotAllowed
      else
        let uptime = time_sub now (dh_startTime h);
            tasks = (case dh_scheduler h of None \<Rightarrow> [] | Some s \<Rightarrow> ListTasks tks s);
            skillCount = (case dh_skills h of None \<Rightarrow> 0 | Some k \<Rightarrow> length (skill_List sks k))
        in writeSuccess (JObj [(''uptime'', JStr (dur uptime)), (''uptime_seconds'', JInt (uptime div Second)),
             (''go_version'', JStr (gr_Version g)), (''num_goroutine'', JInt (gr_NumGoroutine g)),
             (''num_cpu'', JInt (gr_NumCPU g)), (''memory_stats'', memory_stats g),
             (''task_stats'', enc_task_stats (count_tasks tasks)),
             (''skill_stats'', JObj [(''total_skills'', JInt (int skillCount))]), (''timestamp'', JTime now)]))"

definition component_status :: "bool \<Rightarrow> string" where
  "component_status present = (if present then ''healthy'' else ''not_configured'')"

definition health_components :: "dashboard_handler \<Rightarrow> (string \<times> string) list" where
  "health_components h =
     [(''scheduler'', component_status (dh_scheduler h \<noteq> None)), (''skill_manager'', component_status (dh_skills h \<noteq> None)),
      (''memory_manager'', component_status (dh_memory h)), (''monitor'', component_status (dh_monitor h))]"

definition overall_status :: "(string \<times> string) list \<Rightarrow> string" where
  "overall_status components =
     (let unhealthyCount = length (filter (\<lambda>(_, status). status = ''unhealthy'') components) in
      if unhealthyCount > 0
      then (if unhealthyCount \<ge> length components div 2 then ''unhealthy'' else ''degraded'')
      else ''healthy'')"

definition GetHealth :: "gotime \<Rightarrow> dashboard_handler \<Rightarrow> 'a api_request_scheme \<Rightarrow> web_answer" where
  "GetHealth now h r =
     (if wr_Method r \<noteq> ''GET'' then writeMethodNotAllowed
      else writeSuccess (JObj [(''status'', JStr (overall_status (health_components h))),
             (''components'', JObj (map (\<lambda>(k, v). (k, JStr v)) (health_components h))), (''timestamp'', JTime now)]))"

section \<open>The log of actions\<close>

definition no_logger :: web_answer where
  "no_logger = writeInternalError [CHR 0xE6, CHR 0x97, CHR 0xA5, CHR 0xE5, CHR 0xBF, CHR 0x97, CHR 0xE8, CHR 0xAE, CHR 0xB0,
     CHR 0xE5, CHR 0xBD, CHR 0x95, CHR 0xE5, CHR 0x99, CHR 0xA8, CHR 0xE6, CHR 0x9C,
     CHR 0xAA, CHR 0xE5, CHR 0x88, CHR 0x9D, CHR 0xE5, CHR 0xA7, CHR 0x8B, CHR 0xE5,
     CHR 0x8C, CHR 0x96]"

definition enc_action_row :: "action_row \<Rightarrow> json" where
  "enc_action_row l = JObj ([(''id'', JInt (int (lg_ID l))), (''session_id'', JStr (lg_SessionID l)),
     (''user_id'', JStr (lg_UserID l))] @ omit (lg_RequestID l = []) ''request_id'' (JStr (lg_RequestID l)) @
     [(''tool_name'', JStr (lg_ToolName l)), (''arguments'', JStr (lg_Arguments l))] @
     omit (lg_Result l = []) ''result'' (JStr (lg_Result l)) @ [(''success'', JBool (lg_Success l))] @
     omit (lg_ErrorMsg l = []) ''error_msg'' (JStr (lg_ErrorMsg l)) @
     [(''duration_ms'', JInt (lg_DurationMs l)), (''created_at'', JTime (lg_CreatedAt l))])"

definition log_selected :: "string \<Rightarrow> string \<Rightarrow> string \<Rightarrow> action_row \<Rightarrow> bool" where
  "log_selected userID toolName successStr l \<longleftrightarrow>
     \<not> (userID \<noteq> [] \<and> lg_UserID l \<noteq> userID) \<and> \<not> (toolName \<noteq> [] \<and> lg_ToolName l \<noteq> toolName) \<and>
     \<not> (successStr \<noteq> [] \<and> lg_Success l \<noteq> (successStr = ''true''))"

definition GetActionLogs :: "(nat \<Rightarrow> string + action_row list) option \<Rightarrow> 'a api_request_scheme \<Rightarrow> web_answer" where
  "GetActionLogs logger r =
     (case logger of
        None \<Rightarrow> no_logger
      | Some recent \<Rightarrow>
          if wr_Method r \<noteq> ''GET'' then writeMethodNotAllowed
          else case recent (query_limit 50 (wr_Query r ''limit'')) of
            Inl e \<Rightarrow> writeInternalError (([CHR 0xE8, CHR 0x8E, CHR 0xB7, CHR 0xE5, CHR 0x8F, CHR 0x96, CHR 0xE6, CHR 0x97, CHR 0xA5,
     CHR 0xE5, CHR 0xBF, CHR 0x97, CHR 0xE5, CHR 0xA4, CHR 0xB1, CHR 0xE8, CHR 0xB4,
     CHR 0xA5] @ '': '') @ e)
          | Inr logs \<Rightarrow>
              writeSuccess (enc_list enc_action_row
                (filter (log_selected (wr_Query r ''user_id'') (wr_Query r ''tool_name'') (wr_Query r ''success'')) logs)))"

definition truncateString :: "string \<Rightarrow> nat \<Rightarrow> string" where
  "truncateString s maxLen = (if length s \<le> maxLen then s else take maxLen s @ ''...'')"

record log_analysis =
  la_TotalCount :: int
  la_SuccessCount :: int
  la_FailureCount :: int
  la_SuccessRate :: real
  la_AvgDurationMs :: real
  la_ToolUsage :: "string \<rightharpoonup> int"
  la_ErrorSummary :: "string \<rightharpoonup> int"
  la_Start :: gotime
  la_End :: gotime

definition bump :: "string \<Rightarrow> (string \<rightharpoonup> int) \<Rightarrow> (string \<rightharpoonup> int)" where
  "bump k m = m(k \<mapsto> (case m k of None \<Rightarrow> 0 | Some n \<Rightarrow> n) + 1)"

definition no_analysis :: log_analysis where
  "no_analysis = \<lparr>la_TotalCount = 0, la_SuccessCount = 0, la_FailureCount = 0, la_SuccessRate = 0, la_AvgDurationMs = 0,
     la_ToolUsage = Map.empty, la_ErrorSummary = Map.empty, la_Start = zero_time, la_End = zero_time\<rparr>"

text \<open>One row of the loop; the second component is the sum of the durations.\<close>

definition analyze_row :: "action_row \<Rightarrow> log_analysis \<times> int \<Rightarrow> log_analysis \<times> int" where
  "analyze_row l acc =
     (let (a, totalDuration) = acc; first_row = (la_TotalCount a = 0);
          a1 = a\<lparr>la_TotalCount := la_TotalCount a + 1\<rparr>;
          a2 = (if lg_Success l then a1\<lparr>la_SuccessCount := la_SuccessCount a1 + 1\<rparr>
                else a1\<lparr>la_FailureCount := la_FailureCount a1 + 1,
                        la_ErrorSummary := (if lg_ErrorMsg l \<noteq> []
                          then bump (truncateString (lg_ErrorMsg l) 50) (la_ErrorSummary a1) else la_ErrorSummary a1)\<rparr>);
          a3 = a2\<lparr>la_ToolUsage := bump (lg_ToolName l) (la_ToolUsage a2)\<rparr>;
          a4 = (if first_row then a3\<lparr>la_Start := lg_CreatedAt l, la_End := lg_CreatedAt l\<rparr>
                else a3\<lparr>la_Start := min (la_Start a3) (lg_CreatedAt l), la_End := max (la_End a3) (lg_CreatedAt l)\<rparr>)
      in (a4, wrap64 (totalDuration + lg_DurationMs l)))"

definition analyze :: "action_row list \<Rightarrow> log_analysis" where
  "analyze logs =
     (if logs = [] then no_analysis
      else case fold analyze_row logs (no_analysis, 0) of
        (a, totalDuration) \<Rightarrow>
          a\<lparr>la_SuccessRate := of_int (la_SuccessCount a) / of_int (la_TotalCount a) * 100,
            la_AvgDurationMs := of_int totalDuration / of_int (la_TotalCount a)\<rparr>)"

text \<open>\<open>ks\<close> and \<open>es\<close> are the keys of the two maps.\<close>

definition enc_log_analysis :: "string list \<Rightarrow> string list \<Rightarrow> log_analysis \<Rightarrow> json" where
  "enc_log_analysis ks es a = JObj [(''total_count'', JInt (la_TotalCount a)), (''success_count'', JInt (la_SuccessCount a)),
     (''failure_count'', JInt (la_FailureCount a)), (''success_rate'', JReal (la_SuccessRate a)),
     (''avg_duration_ms'', JReal (la_AvgDurationMs a)), (''tool_usage'', enc_map JInt ks (la_ToolUsage a)),
     (''error_summary'', enc_map JInt es (la_ErrorSummary a)),
     (''time_range'', JObj [(''start'', JTime (la_Start a)), (''end'', JTime (la_End a))])]"

definition AnalyzeLogs ::
  "string list \<Rightarrow> string list \<Rightarrow> (nat \<Rightarrow> string + action_row list) option \<Rightarrow> 'a api_request_scheme \<Rightarrow> web_answer" where
  "AnalyzeLogs ks es logger r =
     (case logger of
        None \<Rightarrow> no_logger
      | Some recent \<Rightarrow>
          if wr_Method r \<noteq> ''GET'' then writeMethodNotAllowed
          else case recent (query_limit 1000 (wr_Query r ''limit'')) of
            Inl e \<Rightarrow> writeInternalError (([CHR 0xE8, CHR 0x8E, CHR 0xB7, CHR 0xE5, CHR 0x8F, CHR 0x96, CHR 0xE6, CHR 0x97, CHR 0xA5,
     CHR 0xE5, CHR 0xBF, CHR 0x97, CHR 0xE5, CHR 0xA4, CHR 0xB1, CHR 0xE8, CHR 0xB4,
     CHR 0xA5] @ '': '') @ e)
          | Inr logs \<Rightarrow> writeSuccess (enc_log_analysis ks es (analyze logs)))"

section \<open>Memory\<close>

definition opt_time :: "string \<Rightarrow> gotime option \<Rightarrow> fields" where
  "opt_time k t = (case t of None \<Rightarrow> [] | Some x \<Rightarrow> [(k, JTime x)])"

definition episodeToResponse :: "episode_row \<Rightarrow> json" where
  "episodeToResponse e = (let ep = er_Episode e in
     JObj ([(''id'', JStr (er_ID e)), (''session_id'', JStr (ep_SessionID ep)), (''user_id'', JStr (ep_UserID ep)),
       (''trigger_type'', JStr (ep_TriggerType ep)), (''trigger_summary'', JStr (ep_TriggerSummary ep)),
       (''outcome'', JStr (ep_Outcome ep)), (''outcome_summary'', JStr (ep_OutcomeSummary ep)),
       (''importance'', JReal (ep_Importance ep)), (''access_count'', JInt (er_AccessCount e))] @
       opt_time ''last_accessed_at'' (er_LastAccessedAt e) @ [(''pinned'', JBool (er_Pinned e))] @
       omit (ep_Target ep = []) ''target'' (JStr (ep_Target ep)) @
       omit (er_Tags e = []) ''tags'' (enc_list JStr (er_Tags e)) @ [(''created_at'', JTime (er_CreatedAt e))]))"

definition knowledgeToResponse :: "knowledge \<Rightarrow> json" where
  "knowledgeToResponse k =
     JObj ([(''id'', JStr (kn_ID k)), (''topic'', JStr (kn_Topic k)), (''content'', JStr (kn_Content k))] @
       omit (kn_KeyPoints k = []) ''key_points'' (enc_list JStr (kn_KeyPoints k)) @
       omit (kn_SourceEpisodes k = []) ''source_episodes'' (enc_list JStr (kn_SourceEpisodes k)) @
       [(''confidence'', JReal (kn_Confidence k)), (''access_count'', JInt (kn_AccessCount k))] @
       opt_time ''last_accessed_at'' (kn_LastAccessedAt k) @
       [(''created_at'', JTime (kn_CreatedAt k)), (''updated_at'', JTime (kn_UpdatedAt k))])"

definition no_manager :: web_answer where
  "no_manager = writeInternalError [CHR 0xE8, CHR 0xAE, CHR 0xB0, CHR 0xE5, CHR 0xBF, CHR 0x86, CHR 0xE7, CHR 0xAE, CHR 0xA1,
     CHR 0xE7, CHR 0x90, CHR 0x86, CHR 0xE5, CHR 0x99, CHR 0xA8, CHR 0xE6, CHR 0x9C,
     CHR 0xAA, CHR 0xE5, CHR 0x88, CHR 0x9D, CHR 0xE5, CHR 0xA7, CHR 0x8B, CHR 0xE5,
     CHR 0x8C, CHR 0x96]"

text \<open>Only a search finds episodes: a target and no query at all give an empty list.\<close>

definition HandleEpisodes ::
  "'w embedding_service option \<Rightarrow> gotime \<Rightarrow> 'a api_request_scheme \<Rightarrow> memory option \<Rightarrow> 'w \<Rightarrow> 'w \<times> (memory option \<times> web_answer) go" where
  "HandleEpisodes es now r mem w =
     (case mem of
        None \<Rightarrow> (w, Inr (mem, no_manager))
      | Some m \<Rightarrow>
          if wr_Method r \<noteq> ''GET'' then (w, Inr (mem, writeMethodNotAllowed))
          else if wr_Query r ''query'' \<noteq> []
          then (case SearchEpisodes es now (wr_Query r ''query'') (query_limit 20 (wr_Query r ''limit'')) (mm_episodes m) w of
                  (w', Inl p) \<Rightarrow> (w', Inl p)
                | (w', Inr (t, Inl e)) \<Rightarrow>
                    (w', Inr (Some (m\<lparr>mm_episodes := t\<rparr>), writeInternalError (([CHR 0xE6, CHR 0x9F, CHR 0xA5, CHR 0xE8, CHR 0xAF, CHR 0xA2] @ '' Episodes '' @ [CHR 0xE5,
     CHR 0xA4, CHR 0xB1, CHR 0xE8, CHR 0xB4, CHR 0xA5] @ '': '') @ e)))
                | (w', Inr (t, Inr eps)) \<Rightarrow>
                    (w', Inr (Some (m\<lparr>mm_episodes := t\<rparr>), writeSuccess (enc_list episodeToResponse eps))))
          else (w, Inr (mem, writeSuccess (JArr []))))"

definition getEpisode :: "string \<Rightarrow> memory \<Rightarrow> web_answer" where
  "getEpisode ident m =
     (case GetEpisode ident (mm_episodes m) of
        None \<Rightarrow> writeNotFound (''Episode '' @ [CHR 0xE4, CHR 0xB8, CHR 0x8D, CHR 0xE5, CHR 0xAD, CHR 0x98, CHR 0xE5,
     CHR 0x9C, CHR 0xA8])
      | Some e \<Rightarrow> writeSuccess (episodeToResponse e))"

definition deleteEpisode :: web_answer where
  "deleteEpisode = writeError 501 ([CHR 0xE5, CHR 0x88, CHR 0xA0, CHR 0xE9, CHR 0x99, CHR 0xA4] @ '' Episode '' @ [CHR 0xE5,
     CHR 0x8A, CHR 0x9F, CHR 0xE8, CHR 0x83, CHR 0xBD, CHR 0xE6, CHR 0x9A, CHR 0x82,
     CHR 0xE6, CHR 0x9C, CHR 0xAA, CHR 0xE5, CHR 0xAE, CHR 0x9E, CHR 0xE7, CHR 0x8E,
     CHR 0xB0])"

definition pinEpisode :: "string \<Rightarrow> memory \<Rightarrow> memory \<times> web_answer" where
  "pinEpisode ident m =
     (m\<lparr>mm_episodes := PinEpisode ident (mm_episodes m)\<rparr>, writeSuccessMessage (''Episode '' @ [CHR 0xE5, CHR 0xB7, CHR 0xB2, CHR 0xE6, CHR 0xA0, CHR 0x87, CHR 0xE8,
     CHR 0xAE, CHR 0xB0, CHR 0xE4, CHR 0xB8, CHR 0xBA, CHR 0xE6, CHR 0xB0, CHR 0xB8,
     CHR 0xE4, CHR 0xB8, CHR 0x8D, CHR 0xE5, CHR 0x88, CHR 0xA0, CHR 0xE9, CHR 0x99,
     CHR 0xA4]))"

definition unpinEpisode :: "string \<Rightarrow> memory \<Rightarrow> memory \<times> web_answer" where
  "unpinEpisode ident m =
     (m\<lparr>mm_episodes := UnpinEpisode ident (mm_episodes m)\<rparr>, writeSuccessMessage [CHR 0xE5, CHR 0xB7, CHR 0xB2, CHR 0xE5, CHR 0x8F, CHR 0x96, CHR 0xE6, CHR 0xB6, CHR 0x88,
     CHR 0xE6, CHR 0xB0, CHR 0xB8, CHR 0xE4, CHR 0xB8, CHR 0x8D, CHR 0xE5, CHR 0x88,
     CHR 0xA0, CHR 0xE9, CHR 0x99, CHR 0xA4, CHR 0xE6, CHR 0xA0, CHR 0x87, CHR 0xE8,
     CHR 0xAE, CHR 0xB0])"

definition episode_prefix :: string where "episode_prefix = ''/api/v1/memory/episodes/''"

definition HandleEpisodeByID :: "'a api_request_scheme \<Rightarrow> memory option \<Rightarrow> memory option \<times> web_answer" where
  "HandleEpisodeByID r mem =
     (case mem of
        None \<Rightarrow> (mem, no_manager)
      | Some m \<Rightarrow>
          let remaining = TrimPrefix (wr_Path r) episode_prefix in
          if HasSuffix remaining ''/pin''
          then (let episodeID = TrimSuffix remaining ''/pin'' in
                if wr_Method r = ''POST'' then map_prod Some id (pinEpisode episodeID m)
                else if wr_Method r = ''DELETE'' then map_prod Some id (unpinEpisode episodeID m)
                else (mem, writeMethodNotAllowed))
          else if wr_Method r = ''GET'' then (mem, getEpisode remaining m)
          else if wr_Method r = ''DELETE'' then (mem, deleteEpisode)
          else (mem, writeMethodNotAllowed))"

definition HandleKnowledge ::
  "'w embedding_service option \<Rightarrow> 'a api_request_scheme \<Rightarrow> memory option \<Rightarrow> 'w \<Rightarrow> 'w \<times> web_answer" where
  "HandleKnowledge es r mem w =
     (case mem of
        None \<Rightarrow> (w, no_manager)
      | Some m \<Rightarrow>
          if wr_Method r \<noteq> ''GET'' then (w, writeMethodNotAllowed)
          else if wr_Query r ''query'' \<noteq> []
          then (case SearchKnowledge es (wr_Query r ''query'') (query_limit 20 (wr_Query r ''limit'')) (mm_knowledge m) w of
                  (w', Inl e) \<Rightarrow> (w', writeInternalError (([CHR 0xE6, CHR 0x9F, CHR 0xA5, CHR 0xE8, CHR 0xAF, CHR 0xA2] @ '' Knowledge '' @ [CHR 0xE5,
     CHR 0xA4, CHR 0xB1, CHR 0xE8, CHR 0xB4, CHR 0xA5] @ '': '') @ e))
                | (w', Inr ks) \<Rightarrow> (w', writeSuccess (enc_list knowledgeToResponse ks)))
          else (w, writeSuccess (JArr [])))"

section \<open>Skills\<close>

definition no_skills :: web_answer where
  "no_skills = writeInternalError [CHR 0xE6, CHR 0x8A, CHR 0x80, CHR 0xE8, CHR 0x83, CHR 0xBD, CHR 0xE7, CHR 0xAE, CHR 0xA1,
     CHR 0xE7, CHR 0x90, CHR 0x86, CHR 0xE5, CHR 0x99, CHR 0xA8, CHR 0xE6, CHR 0x9C,
     CHR 0xAA, CHR 0xE5, CHR 0x88, CHR 0x9D, CHR 0xE5, CHR 0xA7, CHR 0x8B, CHR 0xE5,
     CHR 0x8C, CHR 0x96]"

definition enc_skill_parameter :: "skill_parameter \<Rightarrow> json" where
  "enc_skill_parameter p = JObj ([(''name'', JStr (sp_Name p)), (''type'', JStr (sp_Type p)),
     (''description'', JStr (sp_Description p)), (''required'', JBool (sp_Required p))] @
     omit (sp_Default p = JNull) ''default'' (sp_Default p))"

definition skillToResponse :: "(duration \<Rightarrow> string) \<Rightarrow> skill \<Rightarrow> json" where
  "skillToResponse dur s = JObj ([(''name'', JStr (sl_Name s)), (''description'', JStr (sl_Description s)),
     (''version'', JStr (sl_Version s)), (''author'', JStr (sl_Author s)), (''tags'', enc_list JStr (sl_Tags s)),
     (''parameters'', enc_list enc_skill_parameter (sl_Parameters s)), (''step_count'', JInt (int (length (sl_Steps s)))),
     (''need_confirm'', JBool (sl_NeedConfirm s))] @ omit (\<not> sl_Timeout s > 0) ''timeout'' (JStr (dur (sl_Timeout s))))"

definition HandleSkills :: "(duration \<Rightarrow> string) \<Rightarrow> string list \<Rightarrow> skill_registry option \<Rightarrow> 'a api_request_scheme \<Rightarrow> web_answer" where
  "HandleSkills dur ks manager r =
     (case manager of
        None \<Rightarrow> no_skills
      | Some k \<Rightarrow>
          if wr_Method r \<noteq> ''GET'' then writeMethodNotAllowed
          else writeSuccess (enc_list (skillToResponse dur)
                 (if wr_Query r ''tag'' \<noteq> [] then skill_ListByTag ks (wr_Query r ''tag'') k else skill_List ks k)))"

definition skill_not_found :: "string \<Rightarrow> web_answer" where
  "skill_not_found name = writeNotFound (([CHR 0xE6, CHR 0x8A, CHR 0x80, CHR 0xE8, CHR 0x83, CHR 0xBD, CHR 0xE4, CHR 0xB8, CHR 0x8D,
     CHR 0xE5, CHR 0xAD, CHR 0x98, CHR 0xE5, CHR 0x9C, CHR 0xA8] @ '': '') @ name)"

definition getSkill :: "(duration \<Rightarrow> string) \<Rightarrow> skill_registry \<Rightarrow> string \<Rightarrow> web_answer" where
  "getSkill dur k name =
     (case skill_Get k name of None \<Rightarrow> skill_not_found name | Some s \<Rightarrow> writeSuccess (skillToResponse dur s))"

definition dec_SkillExecuteRequest :: "json \<Rightarrow> args option" where
  "dec_SkillExecuteRequest j = do {
     kvs \<leftarrow> struct_fields j;
     field Map.empty (dec_map (\<lambda>v. Some (json_back v))) ''params'' kvs
   }"

definition enc_step_info :: "(duration \<Rightarrow> string) \<Rightarrow> step_result \<Rightarrow> json" where
  "enc_step_info dur s = JObj ([(''step_name'', JStr (sr_StepName s)), (''tool'', JStr (sr_Tool s)),
     (''success'', JBool (sr_Success s))] @ omit (sr_Output s = []) ''output'' (JStr (sr_Output s)) @
     omit (sr_Error s = []) ''error'' (JStr (sr_Error s)) @ [(''duration'', JStr (dur (sr_Duration s)))])"

definition enc_skill_result :: "(duration \<Rightarrow> string) \<Rightarrow> skill_result \<Rightarrow> json" where
  "enc_skill_result dur res = JObj ([(''skill_name'', JStr (kr_SkillName res)), (''success'', JBool (kr_Success res)),
     (''steps'', if kr_Steps res = [] then JNull else enc_list (enc_step_info dur) (kr_Steps res)),
     (''start_time'', JTime (kr_StartTime res)), (''end_time'', JTime (kr_EndTime res)),
     (''duration'', JStr (dur (time_sub (kr_EndTime res) (kr_StartTime res))))] @
     omit (kr_Error res = []) ''error'' (JStr (kr_Error res)))"

definition ask_confirmation :: "skill \<Rightarrow> string \<Rightarrow> web_answer" where
  "ask_confirmation s name = writeJSON 202 \<lparr>ap_Success = False,
     ap_Data = Some (JObj [(''need_confirm'', JBool True), (''skill_name'', JStr name),
       (''description'', JStr (sl_Description s))]),
     ap_Error = [CHR 0xE6, CHR 0xAD, CHR 0xA4, CHR 0xE6, CHR 0x8A, CHR 0x80, CHR 0xE8, CHR 0x83, CHR 0xBD,
     CHR 0xE9, CHR 0x9C, CHR 0x80, CHR 0xE8, CHR 0xA6, CHR 0x81, CHR 0xE7, CHR 0xA1,
     CHR 0xAE, CHR 0xE8, CHR 0xAE, CHR 0xA4, CHR 0xE6, CHR 0x89, CHR 0x8D, CHR 0xE8,
     CHR 0x83, CHR 0xBD, CHR 0xE6, CHR 0x89, CHR 0xA7, CHR 0xE8, CHR 0xA1, CHR 0x8C], ap_Message = []\<rparr>"

definition skill_answer :: "(duration \<Rightarrow> string) \<Rightarrow> string + skill_result \<times> string option \<Rightarrow> web_answer" where
  "skill_answer dur out =
     (case out of
        Inl e \<Rightarrow> writeInternalError (([CHR 0xE6, CHR 0x89, CHR 0xA7, CHR 0xE8, CHR 0xA1, CHR 0x8C, CHR 0xE6, CHR 0x8A, CHR 0x80,
     CHR 0xE8, CHR 0x83, CHR 0xBD, CHR 0xE5, CHR 0xA4, CHR 0xB1, CHR 0xE8, CHR 0xB4,
     CHR 0xA5] @ '': '') @ e)
      | Inr (_, Some e) \<Rightarrow> writeInternalError (([CHR 0xE6, CHR 0x89, CHR 0xA7, CHR 0xE8, CHR 0xA1, CHR 0x8C, CHR 0xE6, CHR 0x8A, CHR 0x80,
     CHR 0xE8, CHR 0x83, CHR 0xBD, CHR 0xE5, CHR 0xA4, CHR 0xB1, CHR 0xE8, CHR 0xB4,
     CHR 0xA5] @ '': '') @ e)
      | Inr (res, None) \<Rightarrow>
          if kr_Success res then writeSuccess (enc_skill_result dur res)
          else writeJSON 200 \<lparr>ap_Success = False, ap_Data = Some (enc_skill_result dur res), ap_Error = kr_Error res,
                 ap_Message = []\<rparr>)"

text \<open>
  A body that cannot be read counts as no parameters. The confirmation is a parameter of the request itself.
\<close>

definition executeSkill ::
  "'w skill_services \<Rightarrow> (duration \<Rightarrow> string) \<Rightarrow> skill_registry \<Rightarrow> nat \<Rightarrow> 'a api_request_scheme \<Rightarrow> string \<Rightarrow> 'w skill_state \<Rightarrow>
   ('w skill_state \<times> web_answer) option" where
  "executeSkill sx dur k depth r name st =
     (case skill_Get k name of
        None \<Rightarrow> Some (st, skill_not_found name)
      | Some s \<Rightarrow>
          let params = (case parseJSON (\<lambda>_. []) dec_SkillExecuteRequest (wr_Body r) of Inl _ \<Rightarrow> Map.empty | Inr p \<Rightarrow> p) in
          case manager_ValidateParams k name params of
            Some e \<Rightarrow> Some (st, writeBadRequest (([CHR 0xE5, CHR 0x8F, CHR 0x82, CHR 0xE6, CHR 0x95, CHR 0xB0, CHR 0xE9, CHR 0xAA, CHR 0x8C,
     CHR 0xE8, CHR 0xAF, CHR 0x81, CHR 0xE5, CHR 0xA4, CHR 0xB1, CHR 0xE8, CHR 0xB4,
     CHR 0xA5] @ '': '') @ e))
          | None \<Rightarrow>
              if sl_NeedConfirm s \<and> wr_Query r ''confirmed'' \<noteq> ''true'' then Some (st, ask_confirmation s name)
              else
                let timeout = (if sl_Timeout s > 0 then sl_Timeout s else 5 * Minute) in
                map_option (\<lambda>(st', out). (st', skill_answer dur out))
                  (skill_Execute sx k depth (Some (sx_clock sx (kx_world st) + timeout)) name params st))"

definition skill_prefix :: string where "skill_prefix = ''/api/v1/skills/''"

definition HandleSkillByName ::
  "'w skill_services \<Rightarrow> (duration \<Rightarrow> string) \<Rightarrow> skill_registry option \<Rightarrow> nat \<Rightarrow> 'a api_request_scheme \<Rightarrow> 'w skill_state \<Rightarrow>
   ('w skill_state \<times> web_answer) option" where
  "HandleSkillByName sx dur manager depth r st =
     (case manager of
        None \<Rightarrow> Some (st, no_skills)
      | Some k \<Rightarrow>
          let remaining = TrimPrefix (wr_Path r) skill_prefix in
          if HasSuffix remaining ''/execute''
          then (if wr_Method r = ''POST'' then executeSkill sx dur k depth r (TrimSuffix remaining ''/execute'') st
                else Some (st, writeMethodNotAllowed))
          else if wr_Method r \<noteq> ''GET'' then Some (st, writeMethodNotAllowed)
          else Some (st, getSkill dur k remaining))"

section \<open>Tasks\<close>

text \<open>
  What the answers need besides the task: the times of its making and last change, which nothing else
  reads, and the order of a map.
\<close>

record task_view =
  tv_times :: "scheduled_task \<Rightarrow> gotime \<times> gotime"
  tv_order :: "(string \<rightharpoonup> json) \<Rightarrow> string list"
  tv_mismatch :: "json \<Rightarrow> string"

definition zero_task_config :: task_config where
  "zero_task_config = \<lparr>tk_SkillName = [], tk_SkillParams = Map.empty, tk_Command = [], tk_WorkflowID = [], tk_Timeout = 0,
     tk_RetryCount = 0, tk_RetryDelay = 0, tk_NotifyOnFail = False, tk_NotifyUser = []\<rparr>"

definition dec_TaskConfig :: "json \<Rightarrow> task_config option" where
  "dec_TaskConfig j = do {
     kvs \<leftarrow> struct_fields j;
     a \<leftarrow> field [] dec_string ''skill_name'' kvs;
     b \<leftarrow> field Map.empty (dec_map (\<lambda>v. Some (json_back v))) ''skill_params'' kvs;
     c \<leftarrow> field [] dec_string ''command'' kvs;
     d \<leftarrow> field [] dec_string ''workflow_id'' kvs;
     e \<leftarrow> field 0 dec_int ''timeout'' kvs;
     f \<leftarrow> field 0 dec_int ''retry_count'' kvs;
     g \<leftarrow> field 0 dec_int ''retry_delay'' kvs;
     h \<leftarrow> field False dec_bool ''notify_on_fail'' kvs;
     i \<leftarrow> field [] dec_string ''notify_user'' kvs;
     Some \<lparr>tk_SkillName = a, tk_SkillParams = b, tk_Command = c, tk_WorkflowID = d, tk_Timeout = e, tk_RetryCount = f,
       tk_RetryDelay = g, tk_NotifyOnFail = h, tk_NotifyUser = i\<rparr>
   }"

definition enc_TaskConfig :: "task_view \<Rightarrow> task_config \<Rightarrow> json" where
  "enc_TaskConfig tv c = JObj [(''skill_name'', JStr (tk_SkillName c)),
     (''skill_params'', enc_map id (tv_order tv (tk_SkillParams c)) (tk_SkillParams c)),
     (''command'', JStr (tk_Command c)), (''workflow_id'', JStr (tk_WorkflowID c)), (''timeout'', JInt (tk_Timeout c)),
     (''retry_count'', JInt (tk_RetryCount c)), (''retry_delay'', JInt (tk_RetryDelay c)),
     (''notify_on_fail'', JBool (tk_NotifyOnFail c)), (''notify_user'', JStr (tk_NotifyUser c))]"

record task_create_request =
  tq_Name :: string
  tq_Description :: string
  tq_Schedule :: string
  tq_Type :: string
  tq_Config :: task_config
  tq_Tags :: "string list"

definition dec_TaskCreateRequest :: "json \<Rightarrow> task_create_request option" where
  "dec_TaskCreateRequest j = do {
     kvs \<leftarrow> struct_fields j;
     a \<leftarrow> field [] dec_string ''name'' kvs;
     b \<leftarrow> field [] dec_string ''description'' kvs;
     c \<leftarrow> field [] dec_string ''schedule'' kvs;
     d \<leftarrow> field [] dec_string ''type'' kvs;
     e \<leftarrow> field zero_task_config dec_TaskConfig ''config'' kvs;
     f \<leftarrow> field [] (dec_list dec_string) ''tags'' kvs;
     Some \<lparr>tq_Name = a, tq_Description = b, tq_Schedule = c, tq_Type = d, tq_Config = e, tq_Tags = f\<rparr>
   }"

text \<open>Pointers and slices: \<open>None\<close> is nil.\<close>

record task_update_request =
  tu_Name :: "string option"
  tu_Description :: "string option"
  tu_Schedule :: "string option"
  tu_Config :: "task_config option"
  tu_Status :: "string option"
  tu_Tags :: "string list option"

definition present :: "(json \<Rightarrow> 'a option) \<Rightarrow> string \<Rightarrow> fields \<Rightarrow> 'a option option" where
  "present dec = field None (\<lambda>j. map_option Some (dec j))"

definition dec_TaskUpdateRequest :: "json \<Rightarrow> task_update_request option" where
  "dec_TaskUpdateRequest j = do {
     kvs \<leftarrow> struct_fields j;
     a \<leftarrow> present dec_string ''name'' kvs;
     b \<leftarrow> present dec_string ''description'' kvs;
     c \<leftarrow> present dec_string ''schedule'' kvs;
     d \<leftarrow> present dec_TaskConfig ''config'' kvs;
     e \<leftarrow> present dec_string ''status'' kvs;
     f \<leftarrow> present (dec_list dec_string) ''tags'' kvs;
     Some \<lparr>tu_Name = a, tu_Description = b, tu_Schedule = c, tu_Config = d, tu_Status = e, tu_Tags = f\<rparr>
   }"

definition taskToResponse :: "task_view \<Rightarrow> scheduled_task \<Rightarrow> json" where
  "taskToResponse tv t = JObj ([(''id'', JStr (st_ID t)), (''name'', JStr (st_Name t)),
     (''description'', JStr (st_Description t)), (''schedule'', JStr (st_Schedule t)), (''type'', JStr (st_Type t)),
     (''config'', enc_TaskConfig tv (st_Config t)), (''status'', JStr (st_Status t)), (''tags'', enc_list JStr (st_Tags t))] @
     omit (st_LastRun t = zero_time) ''last_run'' (JTime (st_LastRun t)) @
     omit (st_NextRun t = zero_time) ''next_run'' (JTime (st_NextRun t)) @
     [(''run_count'', JInt (st_RunCount t)), (''fail_count'', JInt (st_FailCount t))] @
     omit (st_LastResult t = []) ''last_result'' (JStr (st_LastResult t)) @
     omit (st_LastError t = []) ''last_error'' (JStr (st_LastError t)) @
     [(''created_at'', JTime (fst (tv_times tv t))), (''updated_at'', JTime (snd (tv_times tv t)))])"

definition listTasks :: "task_view \<Rightarrow> string list \<Rightarrow> scheduler \<Rightarrow> web_answer" where
  "listTasks tv ks s = writeSuccess (enc_list (taskToResponse tv) (ListTasks ks s))"

definition created_task :: "string \<Rightarrow> task_create_request \<Rightarrow> scheduled_task" where
  "created_task uuid q = \<lparr>st_ID = uuid, st_Name = tq_Name q, st_Description = tq_Description q,
     st_Schedule = tq_Schedule q, st_Type = (if tq_Type q = [] then ''skill'' else tq_Type q), st_Config = tq_Config q,
     st_Status = TaskStatusActive, st_Tags = tq_Tags q, st_EntryID = 0, st_LastRun = zero_time, st_NextRun = zero_time,
     st_RunCount = 0, st_FailCount = 0, st_LastResult = [], st_LastError = []\<rparr>"

text \<open>The task as it is in the scheduler, which the caller's pointer shares.\<close>

definition shared_task :: "scheduled_task \<Rightarrow> scheduler \<Rightarrow> scheduled_task" where
  "shared_task t s = (case GetTask (st_ID t) s of None \<Rightarrow> t | Some t' \<Rightarrow> t')"

definition createTask ::
  "task_view \<Rightarrow> (string \<Rightarrow> string option) \<Rightarrow> string \<Rightarrow> 'a api_request_scheme \<Rightarrow> scheduler \<Rightarrow> scheduler \<times> web_answer" where
  "createTask tv schedule_error uuid r s =
     (case parseJSON (tv_mismatch tv) dec_TaskCreateRequest (wr_Body r) of
        Inl e \<Rightarrow> (s, writeBadRequest (([CHR 0xE6, CHR 0x97, CHR 0xA0, CHR 0xE6, CHR 0x95, CHR 0x88, CHR 0xE7, CHR 0x9A, CHR 0x84,
     CHR 0xE8, CHR 0xAF, CHR 0xB7, CHR 0xE6, CHR 0xB1, CHR 0x82, CHR 0xE4, CHR 0xBD,
     CHR 0x93] @ '': '') @ e))
      | Inr q \<Rightarrow>
          if tq_Name q = [] then (s, writeBadRequest [CHR 0xE4, CHR 0xBB, CHR 0xBB, CHR 0xE5, CHR 0x8A, CHR 0xA1, CHR 0xE5, CHR 0x90, CHR 0x8D,
     CHR 0xE7, CHR 0xA7, CHR 0xB0, CHR 0xE4, CHR 0xB8, CHR 0x8D, CHR 0xE8, CHR 0x83,
     CHR 0xBD, CHR 0xE4, CHR 0xB8, CHR 0xBA, CHR 0xE7, CHR 0xA9, CHR 0xBA])
          else if tq_Schedule q = [] then (s, writeBadRequest [CHR 0xE8, CHR 0xB0, CHR 0x83, CHR 0xE5, CHR 0xBA, CHR 0xA6, CHR 0xE8, CHR 0xA1, CHR 0xA8,
     CHR 0xE8, CHR 0xBE, CHR 0xBE, CHR 0xE5, CHR 0xBC, CHR 0x8F, CHR 0xE4, CHR 0xB8,
     CHR 0x8D, CHR 0xE8, CHR 0x83, CHR 0xBD, CHR 0xE4, CHR 0xB8, CHR 0xBA, CHR 0xE7,
     CHR 0xA9, CHR 0xBA])
          else case AddTask schedule_error (created_task uuid q) s of
            (s', Some e) \<Rightarrow> (s', writeBadRequest (([CHR 0xE5, CHR 0x88, CHR 0x9B, CHR 0xE5, CHR 0xBB, CHR 0xBA, CHR 0xE4, CHR 0xBB, CHR 0xBB,
     CHR 0xE5, CHR 0x8A, CHR 0xA1, CHR 0xE5, CHR 0xA4, CHR 0xB1, CHR 0xE8, CHR 0xB4,
     CHR 0xA5] @ '': '') @ e))
          | (s', None) \<Rightarrow>
              (s', writeJSON 201 \<lparr>ap_Success = True,
                     ap_Data = Some (taskToResponse tv (shared_task (created_task uuid q) s')), ap_Error = [],
                     ap_Message = [CHR 0xE4, CHR 0xBB, CHR 0xBB, CHR 0xE5, CHR 0x8A, CHR 0xA1, CHR 0xE5, CHR 0x88, CHR 0x9B,
     CHR 0xE5, CHR 0xBB, CHR 0xBA, CHR 0xE6, CHR 0x88, CHR 0x90, CHR 0xE5, CHR 0x8A,
     CHR 0x9F]\<rparr>))"

definition no_task :: web_answer where "no_task = writeNotFound [CHR 0xE4, CHR 0xBB, CHR 0xBB, CHR 0xE5, CHR 0x8A, CHR 0xA1, CHR 0xE4, CHR 0xB8, CHR 0x8D,
     CHR 0xE5, CHR 0xAD, CHR 0x98, CHR 0xE5, CHR 0x9C, CHR 0xA8]"

definition getTask :: "task_view \<Rightarrow> string \<Rightarrow> scheduler \<Rightarrow> web_answer" where
  "getTask tv taskID s =
     (case GetTask taskID s of None \<Rightarrow> no_task | Some t \<Rightarrow> writeSuccess (taskToResponse tv t))"

definition set_opt :: "'a option \<Rightarrow> 'a \<Rightarrow> 'a" where
  "set_opt new old = (case new of None \<Rightarrow> old | Some x \<Rightarrow> x)"

definition apply_update :: "task_update_request \<Rightarrow> scheduled_task \<Rightarrow> scheduled_task" where
  "apply_update q t = t\<lparr>st_Name := set_opt (tu_Name q) (st_Name t),
     st_Description := set_opt (tu_Description q) (st_Description t),
     st_Schedule := set_opt (tu_Schedule q) (st_Schedule t), st_Config := set_opt (tu_Config q) (st_Config t),
     st_Status := set_opt (tu_Status q) (st_Status t), st_Tags := set_opt (tu_Tags q) (st_Tags t)\<rparr>"

definition update_failed :: "string \<Rightarrow> web_answer" where
  "update_failed e = writeInternalError (([CHR 0xE6, CHR 0x9B, CHR 0xB4, CHR 0xE6, CHR 0x96, CHR 0xB0, CHR 0xE4, CHR 0xBB, CHR 0xBB,
     CHR 0xE5, CHR 0x8A, CHR 0xA1, CHR 0xE5, CHR 0xA4, CHR 0xB1, CHR 0xE8, CHR 0xB4,
     CHR 0xA5] @ '': '') @ e)"

text \<open>
  The fields are written through the pointer to the scheduler's task; the store is written only when the
  schedule changes, for then the task is removed and added again.
\<close>

definition updateTask ::
  "task_view \<Rightarrow> (string \<Rightarrow> string option) \<Rightarrow> string \<Rightarrow> 'a api_request_scheme \<Rightarrow> scheduler \<Rightarrow> scheduler \<times> web_answer" where
  "updateTask tv schedule_error taskID r s =
     (case GetTask taskID s of
        None \<Rightarrow> (s, no_task)
      | Some t \<Rightarrow>
        (case parseJSON (tv_mismatch tv) dec_TaskUpdateRequest (wr_Body r) of
           Inl e \<Rightarrow> (s, writeBadRequest (([CHR 0xE6, CHR 0x97, CHR 0xA0, CHR 0xE6, CHR 0x95, CHR 0x88, CHR 0xE7, CHR 0x9A, CHR 0x84,
     CHR 0xE8, CHR 0xAF, CHR 0xB7, CHR 0xE6, CHR 0xB1, CHR 0x82, CHR 0xE4, CHR 0xBD,
     CHR 0x93] @ '': '') @ e))
         | Inr q \<Rightarrow>
             let t1 = apply_update q t; s1 = s\<lparr>sd_tasks := (sd_tasks s)(taskID \<mapsto> t1)\<rparr> in
             if set_opt (tu_Schedule q) (st_Schedule t) \<noteq> st_Schedule t
             then (case RemoveTask taskID s1 of
                     (s2, Some e) \<Rightarrow> (s2, update_failed e)
                   | (s2, None) \<Rightarrow>
                       (case AddTask schedule_error t1 s2 of
                          (s3, Some e) \<Rightarrow> (s3, update_failed e)
                        | (s3, None) \<Rightarrow> (s3, writeSuccess (taskToResponse tv (shared_task t1 s3)))))
             else (s1, writeSuccess (taskToResponse tv t1))))"

definition deleteTask :: "string \<Rightarrow> scheduler \<Rightarrow> scheduler \<times> web_answer" where
  "deleteTask taskID s =
     (case RemoveTask taskID s of
        (s', Some e) \<Rightarrow> (s', writeNotFound (([CHR 0xE4, CHR 0xBB, CHR 0xBB, CHR 0xE5, CHR 0x8A, CHR 0xA1, CHR 0xE4, CHR 0xB8, CHR 0x8D,
     CHR 0xE5, CHR 0xAD, CHR 0x98, CHR 0xE5, CHR 0x9C, CHR 0xA8, CHR 0xE6, CHR 0x88,
     CHR 0x96, CHR 0xE5, CHR 0x88, CHR 0xA0, CHR 0xE9, CHR 0x99, CHR 0xA4, CHR 0xE5,
     CHR 0xA4, CHR 0xB1, CHR 0xE8, CHR 0xB4, CHR 0xA5] @ '': '') @ e))
      | (s', None) \<Rightarrow> (s', writeSuccessMessage [CHR 0xE4, CHR 0xBB, CHR 0xBB, CHR 0xE5, CHR 0x8A, CHR 0xA1, CHR 0xE5, CHR 0x88, CHR 0xA0,
     CHR 0xE9, CHR 0x99, CHR 0xA4, CHR 0xE6, CHR 0x88, CHR 0x90, CHR 0xE5, CHR 0x8A,
     CHR 0x9F]))"

text \<open>The history is always empty: the scheduler does not show its store.\<close>

definition getTaskHistory :: "string \<Rightarrow> scheduler \<Rightarrow> web_answer" where
  "getTaskHistory taskID s =
     (case GetTask taskID s of None \<Rightarrow> no_task | Some _ \<Rightarrow> writeSuccess (JArr []))"

definition no_scheduler :: web_answer where
  "no_scheduler = writeInternalError [CHR 0xE8, CHR 0xB0, CHR 0x83, CHR 0xE5, CHR 0xBA, CHR 0xA6, CHR 0xE5, CHR 0x99, CHR 0xA8,
     CHR 0xE6, CHR 0x9C, CHR 0xAA, CHR 0xE5, CHR 0x88, CHR 0x9D, CHR 0xE5, CHR 0xA7,
     CHR 0x8B, CHR 0xE5, CHR 0x8C, CHR 0x96]"

definition HandleTasks ::
  "task_view \<Rightarrow> (string \<Rightarrow> string option) \<Rightarrow> string \<Rightarrow> string list \<Rightarrow> 'a api_request_scheme \<Rightarrow> scheduler option \<Rightarrow>
   scheduler option \<times> web_answer" where
  "HandleTasks tv schedule_error uuid ks r sched =
     (case sched of
        None \<Rightarrow> (sched, no_scheduler)
      | Some s \<Rightarrow>
          if wr_Method r = ''GET'' then (sched, listTasks tv ks s)
          else if wr_Method r = ''POST'' then map_prod Some id (createTask tv schedule_error uuid r s)
          else (sched, writeMethodNotAllowed))"

definition task_prefix :: string where "task_prefix = ''/api/v1/tasks/''"

definition HandleTaskByID ::
  "task_view \<Rightarrow> (string \<Rightarrow> string option) \<Rightarrow> 'a api_request_scheme \<Rightarrow> scheduler option \<Rightarrow> scheduler option \<times> web_answer" where
  "HandleTaskByID tv schedule_error r sched =
     (case sched of
        None \<Rightarrow> (sched, no_scheduler)
      | Some s \<Rightarrow>
          let remaining = TrimPrefix (wr_Path r) task_prefix in
          if HasSuffix remaining ''/history''
          then (sched, if wr_Method r = ''GET'' then getTaskHistory (TrimSuffix remaining ''/history'') s
                       else writeMethodNotAllowed)
          else if wr_Method r = ''GET'' then (sched, getTask tv remaining s)
          else if wr_Method r = ''PUT'' then map_prod Some id (updateTask tv schedule_error remaining r s)
          else if wr_Method r = ''DELETE'' then map_prod Some id (deleteTask remaining s)
          else (sched, writeMethodNotAllowed))"

end
