(* ===== verification/Owl_WebServer.thy ===== *)
theory Owl_WebServer
  imports Owl_WebHandlers Owl_API Owl_Environment Owl_React
begin

text \<open>
  \<open>internal/web/server.go\<close>: the routes of the web panel and the handlers that are its own: the chat with the
  assistant, the cluster, the environment, and the older paths. A handler answers, panics (net/http then
  closes the connection) or waits for a channel. Durations, the runtime of Go, random bytes and clocks are
  arguments, as is the file server.
\<close>

datatype web_outcome = Answered web_answer | Crashed go_panic | Stuck

definition jsonResponse :: "nat \<Rightarrow> fields \<Rightarrow> web_answer" where
  "jsonResponse status kvs = (status, JObj kvs)"

definition jsonError :: "nat \<Rightarrow> string \<Rightarrow> web_answer" where
  "jsonError status message = jsonResponse status [(''success'', JBool False), (''error'', JStr message)]"

definition json_data :: "json \<Rightarrow> web_answer" where
  "json_data j = jsonResponse 200 [(''success'', JBool True), (''data'', j)]"

abbreviation method_refused :: web_answer where
  "method_refused \<equiv> jsonError 405 [CHR 0xE6, CHR 0x96, CHR 0xB9, CHR 0xE6, CHR 0xB3, CHR 0x95, CHR 0xE4, CHR 0xB8, CHR 0x8D,
     CHR 0xE5, CHR 0x85, CHR 0x81, CHR 0xE8, CHR 0xAE, CHR 0xB8]"

definition bad_body :: web_answer where "bad_body = jsonError 400 [CHR 0xE6, CHR 0x97, CHR 0xA0, CHR 0xE6, CHR 0x95, CHR 0x88, CHR 0xE7, CHR 0x9A, CHR 0x84,
     CHR 0xE8, CHR 0xAF, CHR 0xB7, CHR 0xE6, CHR 0xB1, CHR 0x82, CHR 0xE4, CHR 0xBD,
     CHR 0x93]"

text \<open>Eight random bytes in hexadecimal.\<close>

definition hex_digit :: "nat \<Rightarrow> char" where "hex_digit d = ''0123456789abcdef'' ! d"

definition hex_encode :: "nat list \<Rightarrow> string" where
  "hex_encode bs = concat (map (\<lambda>b. [hex_digit (b div 16 mod 16), hex_digit (b mod 16)]) bs)"

definition generateID :: "nat list \<Rightarrow> string" where "generateID bs = hex_encode bs"

definition handleHealth_web :: web_answer where
  "handleHealth_web = jsonResponse 200 [(''status'', JStr ''ok'')]"

section \<open>Chat\<close>

definition dec_chat :: "json \<Rightarrow> (string \<times> string) option" where
  "dec_chat j = do {
     kvs \<leftarrow> struct_fields j;
     m \<leftarrow> field [] dec_string ''message'' kvs;
     s \<leftarrow> field [] dec_string ''session_id'' kvs;
     Some (m, s)
   }"

text \<open>\<open>turns\<close> is the limit of the memory manager, if there is one.\<close>

definition save_message ::
  "gotime \<Rightarrow> int option \<Rightarrow> string \<Rightarrow> string \<Rightarrow> string \<Rightarrow> string \<Rightarrow> 'w agent_state \<Rightarrow> 'w agent_state go" where
  "save_message now turns sessionID userID role content st =
     (case turns of
        None \<Rightarrow> Inr st
      | Some n \<Rightarrow> map_sum id (\<lambda>m. st\<lparr>as_sessions := m\<rparr>)
                   (SaveMessage n sessionID userID role content None now now (as_sessions st)))"

abbreviation web_user :: string where "web_user \<equiv> ''web-user''"

text \<open>The session is the one the request names; \<open>fresh\<close> and \<open>requestID\<close> are generated identifiers.\<close>

definition chat_session :: "string \<Rightarrow> string \<Rightarrow> string" where
  "chat_session fresh asked = (if asked = [] then ''web-'' @ fresh else asked)"

definition run_chat ::
  "(duration \<Rightarrow> string) \<Rightarrow> int option \<Rightarrow> 'w agent_executor \<Rightarrow> string \<Rightarrow> string \<Rightarrow> string \<Rightarrow> 'w agent_state \<Rightarrow>
   'w agent_state \<times> web_outcome" where
  "run_chat dur turns ae sessionID requestID message st =
     (case (if IsConfirmCancelOnly message then Inr st
            else save_message (clock_of ae st) turns sessionID web_user ''user'' message st) of
        Inl p \<Rightarrow> (st, Crashed p)
      | Inr st1 \<Rightarrow>
          (case Execute ae sessionID message requestID st1 of
             (st2, ExecPanic p) \<Rightarrow> (st2, Crashed p)
           | (st2, ExecError e) \<Rightarrow> (st2, Answered (jsonError 500 (([CHR 0xE5, CHR 0xA4, CHR 0x84, CHR 0xE7, CHR 0x90, CHR 0x86, CHR 0xE5, CHR 0xA4, CHR 0xB1,
     CHR 0xE8, CHR 0xB4, CHR 0xA5] @ '': '') @ e)))
           | (st2, Answer result) \<Rightarrow>
               (case save_message (clock_of ae st2) turns sessionID web_user ''assistant'' result st2 of
                  Inl p \<Rightarrow> (st2, Crashed p)
                | Inr st3 \<Rightarrow>
                    (st3, Answered (jsonResponse 200 [(''success'', JBool True), (''message'', JStr result),
                       (''session_id'', JStr sessionID), (''request_id'', JStr requestID),
                       (''duration'', JStr (dur (time_sub (clock_of ae st2) (clock_of ae st1))))])))))"

definition handleChat ::
  "(duration \<Rightarrow> string) \<Rightarrow> string \<Rightarrow> string \<Rightarrow> int option \<Rightarrow> 'w agent_executor option \<Rightarrow> 'a api_request_scheme \<Rightarrow>
   'w agent_state \<Rightarrow> 'w agent_state \<times> web_outcome" where
  "handleChat dur fresh requestID turns executor r st =
     (if wr_Method r \<noteq> ''POST'' then (st, Answered method_refused)
      else case executor of
        None \<Rightarrow> (st, Answered (jsonError 503 (''Agent '' @ [CHR 0xE7, CHR 0xB3, CHR 0xBB, CHR 0xE7, CHR 0xBB, CHR 0x9F, CHR 0xE6,
     CHR 0x9C, CHR 0xAA, CHR 0xE5, CHR 0x88, CHR 0x9D, CHR 0xE5, CHR 0xA7, CHR 0x8B,
     CHR 0xE5, CHR 0x8C, CHR 0x96])))
      | Some ae \<Rightarrow>
          (case parseJSON (\<lambda>_. []) dec_chat (wr_Body r) of
             Inl _ \<Rightarrow> (st, Answered bad_body)
           | Inr (message, asked) \<Rightarrow>
               if message = [] then (st, Answered (jsonError 400 [CHR 0xE6, CHR 0xB6, CHR 0x88, CHR 0xE6, CHR 0x81, CHR 0xAF, CHR 0xE4, CHR 0xB8, CHR 0x8D,
     CHR 0xE8, CHR 0x83, CHR 0xBD, CHR 0xE4, CHR 0xB8, CHR 0xBA, CHR 0xE7, CHR 0xA9,
     CHR 0xBA]))
               else run_chat dur turns ae (chat_session fresh asked) requestID message st))"

section \<open>The older paths\<close>

definition enc_counts :: "(string \<times> nat) list \<Rightarrow> json" where
  "enc_counts kvs = JObj (map (\<lambda>(k, n). (k, JInt (int n))) kvs)"

definition node_stats :: "agent_record list \<Rightarrow> json" where
  "node_stats agents =
     (let on = length (filter (\<lambda>a. ar_Status a = ''online'') agents)
      in enc_counts [(''total'', length agents), (''online'', on), (''offline'', length agents - on)])"

definition task_counts :: "scheduled_task list \<Rightarrow> json" where
  "task_counts tasks = (let k = count_tasks tasks in
     JObj [(''total'', JInt (ks_TotalTasks k)), (''active'', JInt (ks_ActiveTasks k)), (''paused'', JInt (ks_PausedTasks k))])"

definition handleDashboardCompat ::
  "(duration \<Rightarrow> string) \<Rightarrow> go_runtime \<Rightarrow> gotime \<Rightarrow> gotime \<Rightarrow> string list \<Rightarrow> string list \<Rightarrow> string list \<Rightarrow> master_cluster option \<Rightarrow>
   scheduler option \<Rightarrow> skill_registry option \<Rightarrow> 'a api_request_scheme \<Rightarrow> web_answer" where
  "handleDashboardCompat dur g startTime now aks tks sks mc sched skills r =
     (if wr_Method r \<noteq> ''GET'' then method_refused
      else
        let uptime = time_sub now startTime in
        json_data (JObj [(''uptime'', JStr (dur uptime)), (''uptime_seconds'', JInt (uptime div Second)),
          (''go_version'', JStr (gr_Version g)), (''num_goroutine'', JInt (gr_NumGoroutine g)),
          (''num_cpu'', JInt (gr_NumCPU g)), (''memory'', memory_stats g),
          (''nodes'', node_stats (case mc of None \<Rightarrow> [] | Some c \<Rightarrow> ListAgents aks c)),
          (''tasks'', task_counts (case sched of None \<Rightarrow> [] | Some s \<Rightarrow> ListTasks tks s)),
          (''skills'', JInt (int (case skills of None \<Rightarrow> 0 | Some k \<Rightarrow> length (skill_List sks k))))]))"

definition handleSkillsCompat :: "string list \<Rightarrow> skill_registry option \<Rightarrow> web_answer" where
  "handleSkillsCompat ks skills =
     (case skills of
        None \<Rightarrow> jsonError 503 [CHR 0xE6, CHR 0x8A, CHR 0x80, CHR 0xE8, CHR 0x83, CHR 0xBD, CHR 0xE7, CHR 0xAE, CHR 0xA1,
     CHR 0xE7, CHR 0x90, CHR 0x86, CHR 0xE5, CHR 0x99, CHR 0xA8, CHR 0xE6, CHR 0x9C,
     CHR 0xAA, CHR 0xE5, CHR 0x88, CHR 0x9D, CHR 0xE5, CHR 0xA7, CHR 0x8B, CHR 0xE5,
     CHR 0x8C, CHR 0x96]
      | Some k \<Rightarrow> json_data (enc_list (\<lambda>s. JObj [(''name'', JStr (sl_Name s)), (''description'', JStr (sl_Description s)),
                      (''tags'', enc_list JStr (sl_Tags s))]) (skill_List ks k)))"

definition handleTasksCompat :: "string list \<Rightarrow> scheduler option \<Rightarrow> web_answer" where
  "handleTasksCompat ks sched =
     (case sched of
        None \<Rightarrow> jsonError 503 [CHR 0xE8, CHR 0xB0, CHR 0x83, CHR 0xE5, CHR 0xBA, CHR 0xA6, CHR 0xE5, CHR 0x99, CHR 0xA8,
     CHR 0xE6, CHR 0x9C, CHR 0xAA, CHR 0xE5, CHR 0x88, CHR 0x9D, CHR 0xE5, CHR 0xA7,
     CHR 0x8B, CHR 0xE5, CHR 0x8C, CHR 0x96]
      | Some s \<Rightarrow> json_data (enc_list (\<lambda>t. JObj [(''id'', JStr (st_ID t)), (''name'', JStr (st_Name t)),
                      (''description'', JStr (st_Description t)), (''schedule'', JStr (st_Schedule t)),
                      (''status'', JStr (st_Status t)), (''last_run'', JTime (st_LastRun t)),
                      (''next_run'', JTime (st_NextRun t))]) (ListTasks ks s)))"

definition handleMemoryCompat :: "bool \<Rightarrow> web_answer" where
  "handleMemoryCompat there =
     (if \<not> there then jsonError 503 [CHR 0xE8, CHR 0xAE, CHR 0xB0, CHR 0xE5, CHR 0xBF, CHR 0x86, CHR 0xE7, CHR 0xAE, CHR 0xA1,
     CHR 0xE7, CHR 0x90, CHR 0x86, CHR 0xE5, CHR 0x99, CHR 0xA8, CHR 0xE6, CHR 0x9C,
     CHR 0xAA, CHR 0xE5, CHR 0x88, CHR 0x9D, CHR 0xE5, CHR 0xA7, CHR 0x8B, CHR 0xE5,
     CHR 0x8C, CHR 0x96] else json_data (JArr []))"

definition handleMemoryEpisodesCompat :: "bool \<Rightarrow> web_answer" where
  "handleMemoryEpisodesCompat there = handleMemoryCompat there"

definition handleMemoryKnowledgeCompat :: "bool \<Rightarrow> web_answer" where
  "handleMemoryKnowledgeCompat there = handleMemoryCompat there"

section \<open>The cluster\<close>

definition node_metrics :: "agent_metrics option \<Rightarrow> json" where
  "node_metrics m =
     (case m of
        Some x \<Rightarrow> JObj [(''cpu'', JReal (am_CPUUsage x)), (''memory'', JReal (am_MemoryUsage x)), (''disk'', JReal (am_DiskUsage x)),
                     (''load_avg'', JReal (am_LoadAvg1 x)), (''uptime'', JInt (am_Uptime x))]
      | None \<Rightarrow> JObj [(''cpu'', JInt 0), (''memory'', JInt 0), (''disk'', JInt 0)])"

definition enc_node :: "((string \<rightharpoonup> string) \<Rightarrow> string list) \<Rightarrow> agent_record \<Rightarrow> json" where
  "enc_node ord a = JObj [(''id'', JStr (ar_ID a)), (''name'', JStr (ar_Hostname a)), (''host'', JStr (ar_IP a)),
     (''hostname'', JStr (ar_Hostname a)), (''status'', JStr (ar_Status a)), (''tags'', enc_list JStr (ar_Tags a)),
     (''labels'', enc_map JStr (ord (ar_Labels a)) (ar_Labels a)), (''last_heartbeat'', JTime (ar_LastHeartbeat a)),
     (''registered_at'', JTime (ar_RegisteredAt a)), (''metrics'', node_metrics (ar_LastMetrics a))]"

definition no_cluster :: web_answer where
  "no_cluster = jsonError 503 [CHR 0xE9, CHR 0x9B, CHR 0x86, CHR 0xE7, CHR 0xBE, CHR 0xA4, CHR 0xE7, CHR 0xAE, CHR 0xA1,
     CHR 0xE7, CHR 0x90, CHR 0x86, CHR 0xE5, CHR 0x99, CHR 0xA8, CHR 0xE6, CHR 0x9C,
     CHR 0xAA, CHR 0xE5, CHR 0x88, CHR 0x9D, CHR 0xE5, CHR 0xA7, CHR 0x8B, CHR 0xE5,
     CHR 0x8C, CHR 0x96]"

definition handleClusterNodes ::
  "((string \<rightharpoonup> string) \<Rightarrow> string list) \<Rightarrow> string list \<Rightarrow> master_cluster option \<Rightarrow> web_answer" where
  "handleClusterNodes ord ks mc =
     (case mc of Some c \<Rightarrow> json_data (enc_list (enc_node ord) (ListAgents ks c)) | None \<Rightarrow> no_cluster)"

definition dec_execute :: "json \<Rightarrow> (string \<times> string) option" where
  "dec_execute j = do {
     kvs \<leftarrow> struct_fields j;
     n \<leftarrow> field [] dec_string ''node_id'' kvs;
     c \<leftarrow> field [] dec_string ''command'' kvs;
     Some (n, c)
   }"

definition execute_answer :: "string \<Rightarrow> string \<Rightarrow> wait_error + command_result \<Rightarrow> web_answer" where
  "execute_answer node command w =
     (case w of
        Inl e \<Rightarrow> jsonError 500 ([CHR 0xE7, CHR 0xAD, CHR 0x89, CHR 0xE5, CHR 0xBE, CHR 0x85, CHR 0xE7, CHR 0xBB, CHR 0x93,
     CHR 0xE6, CHR 0x9E, CHR 0x9C, CHR 0xE8, CHR 0xB6, CHR 0x85, CHR 0xE6, CHR 0x97,
     CHR 0xB6] @ '': context deadline exceeded'')
      | Inr res \<Rightarrow>
          jsonResponse 200 [(''success'', JBool (cr_Success res)),
            (''data'', JObj [(''node_id'', JStr node), (''command'', JStr command),
               (''output'', JStr (if cr_Success res then cr_Output res else cr_Error res))])])"

text \<open>
  The command goes into the queue of the node, and the handler waits for its result; \<open>evs\<close> is what the wait
  sees, and it is \<open>Stuck\<close> only while it waits.
\<close>

definition handleClusterExecute ::
  "gotime \<Rightarrow> (string \<Rightarrow> master_cluster wait_event list) \<Rightarrow> 'a api_request_scheme \<Rightarrow> master_cluster option \<Rightarrow>
   master_cluster option \<times> web_outcome" where
  "handleClusterExecute now evs r mc =
     (if wr_Method r \<noteq> ''POST'' then (mc, Answered method_refused)
      else case mc of
        None \<Rightarrow> (mc, Answered no_cluster)
      | Some c \<Rightarrow>
        (case parseJSON (\<lambda>_. []) dec_execute (wr_Body r) of
           Inl _ \<Rightarrow> (mc, Answered bad_body)
         | Inr (node, command) \<Rightarrow>
             if node = [] \<or> command = []
             then (mc, Answered (jsonError 400 (''node_id '' @ [CHR 0xE5, CHR 0x92, CHR 0x8C] @ '' command '' @ [CHR 0xE4, CHR 0xB8,
     CHR 0x8D, CHR 0xE8, CHR 0x83, CHR 0xBD, CHR 0xE4, CHR 0xB8, CHR 0xBA, CHR 0xE7,
     CHR 0xA9, CHR 0xBA])))
             else case SendCommand now node ''shell'' command (30 * Second) c of
               (c', Inl e) \<Rightarrow> (Some c', Answered (jsonError 500 (([CHR 0xE5, CHR 0x8F, CHR 0x91, CHR 0xE9, CHR 0x80, CHR 0x81, CHR 0xE5, CHR 0x91, CHR 0xBD,
     CHR 0xE4, CHR 0xBB, CHR 0xA4, CHR 0xE5, CHR 0xA4, CHR 0xB1, CHR 0xE8, CHR 0xB4,
     CHR 0xA5] @ '': '') @ e)))
             | (c', Inr cmdID) \<Rightarrow>
                 (Some c', case WaitCommandResult cmdID (evs cmdID) of
                    None \<Rightarrow> Stuck | Some w \<Rightarrow> Answered (execute_answer node command w))))"

section \<open>The environment\<close>

text \<open>The structs have no tags for JSON: the keys are the names of their fields.\<close>

definition enc_env_container :: "env_orders \<Rightarrow> container \<Rightarrow> json" where
  "enc_env_container eo c = JObj [(''Image'', JStr (pk_Image c)), (''Status'', JStr (pk_Status c)),
     (''Env'', enc_map JStr (eo_vars eo (pk_Env c)) (pk_Env c)), (''Ports'', enc_list JStr (pk_Ports c)),
     (''Network'', JStr (pk_Network c))]"

definition enc_env_database :: "database \<Rightarrow> json" where
  "enc_env_database d = JObj [(''Type'', JStr (pd_Type d)), (''Host'', JStr (pd_Host d)), (''Port'', JStr (pd_Port d)),
     (''User'', JStr (pd_User d)), (''Password'', JStr (pd_Password d)), (''Database'', JStr (pd_Database d)),
     (''Source'', JStr (pd_Source d))]"

definition enc_env_proxy :: "proxy \<Rightarrow> json" where
  "enc_env_proxy p = JObj [(''Type'', JStr (pp_Type p)), (''ConfigFile'', JStr (pp_ConfigFile p)),
     (''Sites'', enc_list (\<lambda>s. JObj [(''Domain'', JStr (ps_Domain s)), (''Backend'', JStr (ps_Backend s)),
        (''Root'', JStr (ps_Root s))]) (pp_Sites p)), (''Source'', JStr (pp_Source p))]"

definition nil_or :: "('a \<Rightarrow> json) \<Rightarrow> 'a option \<Rightarrow> json" where
  "nil_or enc x = (case x of None \<Rightarrow> JNull | Some v \<Rightarrow> enc v)"

definition enc_environment :: "env_orders \<Rightarrow> string \<Rightarrow> environment \<Rightarrow> json" where
  "enc_environment eo node e = JObj [(''UpdatedAt'', JStr (en_UpdatedAt e)),
     (''Host'', JObj [(''Hostname'', JStr (ph_Hostname (en_Host e))), (''IP'', JStr (ph_IP (en_Host e)))]),
     (''Containers'', enc_map (nil_or (enc_env_container eo)) (eo_containers eo node) (en_Containers e)),
     (''Databases'', enc_map (nil_or enc_env_database) (eo_databases eo node) (en_Databases e)),
     (''Proxies'', enc_map (nil_or enc_env_proxy) (eo_proxies eo node) (en_Proxies e))]"

definition no_environment :: web_answer where
  "no_environment = jsonError 503 [CHR 0xE7, CHR 0x8E, CHR 0xAF, CHR 0xE5, CHR 0xA2, CHR 0x83, CHR 0xE7, CHR 0xAE, CHR 0xA1,
     CHR 0xE7, CHR 0x90, CHR 0x86, CHR 0xE5, CHR 0x99, CHR 0xA8, CHR 0xE6, CHR 0x9C,
     CHR 0xAA, CHR 0xE5, CHR 0x88, CHR 0x9D, CHR 0xE5, CHR 0xA7, CHR 0x8B, CHR 0xE5,
     CHR 0x8C, CHR 0x96]"

definition dec_content :: "json \<Rightarrow> string option" where
  "dec_content j = Option.bind (struct_fields j) (field [] dec_string ''content'')"

definition handleEnvironment ::
  "'w env_system \<Rightarrow> env_orders \<Rightarrow> master_cluster option \<Rightarrow> 'a api_request_scheme \<Rightarrow> environment_manager option \<Rightarrow> 'w \<Rightarrow>
   'w \<times> environment_manager option \<times> web_answer" where
  "handleEnvironment y eo mc r mgr w =
     (case mgr of
        None \<Rightarrow> (w, mgr, no_environment)
      | Some m \<Rightarrow>
          if wr_Method r = ''GET''
          then (if wr_Query r ''all'' = ''true''
                then (w, mgr, jsonResponse 200 [(''success'', JBool True),
                       (''data'', JObj (map (\<lambda>(k, e). (k, enc_environment eo k e)) (nodes eo m mc))),
                       (''localNodeId'', JStr (GetLocalNodeID m))])
                else (w, mgr, case ew_env m of
                        None \<Rightarrow> jsonError 404 [CHR 0xE7, CHR 0x8E, CHR 0xAF, CHR 0xE5, CHR 0xA2, CHR 0x83, CHR 0xE4, CHR 0xBF, CHR 0xA1,
     CHR 0xE6, CHR 0x81, CHR 0xAF, CHR 0xE6, CHR 0x9C, CHR 0xAA, CHR 0xE5, CHR 0x8A,
     CHR 0xA0, CHR 0xE8, CHR 0xBD, CHR 0xBD]
                      | Some e \<Rightarrow> json_data (enc_environment eo (GetLocalNodeID m) e)))
          else if wr_Method r = ''PUT''
          then (case parseJSON (\<lambda>_. []) dec_content (wr_Body r) of
                  Inl _ \<Rightarrow> (w, mgr, bad_body)
                | Inr content \<Rightarrow>
                    (case SaveRaw y content m w of
                       (w', m', Some e) \<Rightarrow> (w', Some m', jsonError 500 (([CHR 0xE4, CHR 0xBF, CHR 0x9D, CHR 0xE5, CHR 0xAD, CHR 0x98, CHR 0xE5, CHR 0xA4, CHR 0xB1,
     CHR 0xE8, CHR 0xB4, CHR 0xA5] @ '': '') @ e))
                     | (w', m', None) \<Rightarrow> (w', Some m', jsonResponse 200 [(''success'', JBool True),
                                         (''message'', JStr [CHR 0xE7, CHR 0x8E, CHR 0xAF, CHR 0xE5, CHR 0xA2, CHR 0x83, CHR 0xE9, CHR 0x85, CHR 0x8D,
     CHR 0xE7, CHR 0xBD, CHR 0xAE, CHR 0xE5, CHR 0xB7, CHR 0xB2, CHR 0xE4, CHR 0xBF,
     CHR 0x9D, CHR 0xE5, CHR 0xAD, CHR 0x98])])))
          else (w, mgr, method_refused))"

text \<open>\<open>api\<close> is the server behind the agent API. The answer to a refresh of one node does not say whether it was sent.\<close>

definition refreshed :: "string \<Rightarrow> web_answer" where
  "refreshed message = jsonResponse 200 [(''success'', JBool True), (''message'', JStr message)]"

definition refresh_all ::
  "'w env_system \<Rightarrow> gotime \<Rightarrow> string \<Rightarrow> environment_manager \<Rightarrow> ws_server option \<Rightarrow> 'w \<Rightarrow>
   'w \<times> environment_manager \<times> ws_server option \<times> web_outcome" where
  "refresh_all y now uuid m api w =
     (case env_Refresh y m w of
        (w', m', Some e) \<Rightarrow> (w', m', api, Answered (jsonError 500 (([CHR 0xE6, CHR 0x9C, CHR 0xAC, CHR 0xE5, CHR 0x9C, CHR 0xB0, CHR 0xE5, CHR 0x88, CHR 0xB7,
     CHR 0xE6, CHR 0x96, CHR 0xB0, CHR 0xE5, CHR 0xA4, CHR 0xB1, CHR 0xE8, CHR 0xB4,
     CHR 0xA5] @ '': '') @ e)))
      | (w', m', None) \<Rightarrow>
          (let done = Answered (refreshed [CHR 0xE5, CHR 0xB7, CHR 0xB2, CHR 0xE5, CHR 0x90, CHR 0x91, CHR 0xE6, CHR 0x89, CHR 0x80,
     CHR 0xE6, CHR 0x9C, CHR 0x89, CHR 0xE8, CHR 0x8A, CHR 0x82, CHR 0xE7, CHR 0x82,
     CHR 0xB9, CHR 0xE5, CHR 0x8F, CHR 0x91, CHR 0xE9, CHR 0x80, CHR 0x81, CHR 0xE5,
     CHR 0x88, CHR 0xB7, CHR 0xE6, CHR 0x96, CHR 0xB0, CHR 0xE8, CHR 0xAF, CHR 0xB7,
     CHR 0xE6, CHR 0xB1, CHR 0x82]) in
           case api of
             None \<Rightarrow> (w', m', api, done)
           | Some s \<Rightarrow>
               (case api_BroadcastRefreshEnv now uuid s of
                  None \<Rightarrow> (w', m', api, Stuck)
                | Some s' \<Rightarrow> (w', m', Some s', done))))"

definition refresh_node :: "gotime \<Rightarrow> string \<Rightarrow> string \<Rightarrow> ws_server option \<Rightarrow> ws_server option \<times> web_outcome" where
  "refresh_node now uuid nodeID api =
     (case api of
        None \<Rightarrow> (api, Answered (jsonError 503 (''Agent API '' @ [CHR 0xE6, CHR 0x9C, CHR 0xAA, CHR 0xE5, CHR 0x88, CHR 0x9D, CHR 0xE5,
     CHR 0xA7, CHR 0x8B, CHR 0xE5, CHR 0x8C, CHR 0x96])))
      | Some s \<Rightarrow>
          (case api_SendRefreshEnv now uuid nodeID s of
             Inl p \<Rightarrow> (api, Crashed p)
           | Inr s' \<Rightarrow> (Some s', Answered (refreshed (([CHR 0xE5, CHR 0xB7, CHR 0xB2, CHR 0xE5, CHR 0x90, CHR 0x91, CHR 0xE8, CHR 0x8A, CHR 0x82,
     CHR 0xE7, CHR 0x82, CHR 0xB9] @ '' '') @ nodeID @ ('' '' @ [CHR 0xE5, CHR 0x8F, CHR 0x91, CHR 0xE9, CHR 0x80, CHR 0x81, CHR 0xE5, CHR 0x88,
     CHR 0xB7, CHR 0xE6, CHR 0x96, CHR 0xB0, CHR 0xE8, CHR 0xAF, CHR 0xB7, CHR 0xE6,
     CHR 0xB1, CHR 0x82]))))))"

definition handleEnvironmentRefresh ::
  "'w env_system \<Rightarrow> env_orders \<Rightarrow> gotime \<Rightarrow> string \<Rightarrow> 'a api_request_scheme \<Rightarrow> environment_manager option \<Rightarrow> ws_server option \<Rightarrow>
   'w \<Rightarrow> 'w \<times> environment_manager option \<times> ws_server option \<times> web_outcome" where
  "handleEnvironmentRefresh y eo now uuid r mgr api w =
     (if wr_Method r \<noteq> ''POST'' then (w, mgr, api, Answered method_refused)
      else case mgr of
        None \<Rightarrow> (w, mgr, api, Answered no_environment)
      | Some m \<Rightarrow>
          if wr_Query r ''all'' = ''true''
          then (case refresh_all y now uuid m api w of (w', m', api', a) \<Rightarrow> (w', Some m', api', a))
          else if wr_Query r ''node'' \<noteq> []
          then (case refresh_node now uuid (wr_Query r ''node'') api of (api', a) \<Rightarrow> (w, mgr, api', a))
          else (case env_Refresh y m w of
                  (w', m', Some e) \<Rightarrow> (w', Some m', api, Answered (jsonError 500 (([CHR 0xE5, CHR 0x88, CHR 0xB7, CHR 0xE6, CHR 0x96, CHR 0xB0, CHR 0xE5, CHR 0xA4, CHR 0xB1,
     CHR 0xE8, CHR 0xB4, CHR 0xA5] @ '': '') @ e)))
                | (w', m', None) \<Rightarrow>
                    (w', Some m', api, Answered (jsonResponse 200 [(''success'', JBool True),
                       (''message'', JStr [CHR 0xE7, CHR 0x8E, CHR 0xAF, CHR 0xE5, CHR 0xA2, CHR 0x83, CHR 0xE4, CHR 0xBF, CHR 0xA1,
     CHR 0xE6, CHR 0x81, CHR 0xAF, CHR 0xE5, CHR 0xB7, CHR 0xB2, CHR 0xE5, CHR 0x88,
     CHR 0xB7, CHR 0xE6, CHR 0x96, CHR 0xB0]),
                       (''data'', nil_or (enc_environment eo (GetLocalNodeID m')) (ew_env m'))]))))"

section \<open>Routes\<close>

datatype endpoint = Health | Stats | DashboardHealth | SkillList | SkillByName | TaskList | TaskByID | Episodes | EpisodeByID |
  Knowledge | ActionLogs | LogAnalysis | EnvironmentInfo | EnvironmentRefresh | ClusterNodes | ClusterExecute | Chat |
  DashboardCompat | SkillsCompat | TasksCompat | EpisodesCompat | KnowledgeCompat | Panel

definition setupRoutes :: "(string \<times> endpoint) list" where
  "setupRoutes = [(''/api/health'', Health), (''/api/v1/dashboard/stats'', Stats),
     (''/api/v1/dashboard/health'', DashboardHealth), (''/api/v1/skills'', SkillList), (skill_prefix, SkillByName),
     (''/api/v1/tasks'', TaskList), (task_prefix, TaskByID), (''/api/v1/memory/episodes'', Episodes),
     (episode_prefix, EpisodeByID), (''/api/v1/memory/knowledge'', Knowledge), (''/api/v1/logs/actions'', ActionLogs),
     (''/api/v1/logs/analyze'', LogAnalysis), (''/api/v1/environment'', EnvironmentInfo),
     (''/api/v1/environment/refresh'', EnvironmentRefresh), (''/api/v1/cluster/nodes'', ClusterNodes),
     (''/api/v1/cluster/execute'', ClusterExecute), (''/api/v1/chat'', Chat), (''/api/dashboard'', DashboardCompat),
     (''/api/skills'', SkillsCompat), (''/api/tasks'', TasksCompat), (''/api/memory/episodes'', EpisodesCompat),
     (''/api/memory/knowledge'', KnowledgeCompat), (''/api/cluster/nodes'', ClusterNodes), (''/'', Panel)]"

text \<open>
  \<open>http.ServeMux\<close> on a clean path: the pattern that is the path, or else the longest one that ends in a
  slash and with which the path begins.
\<close>

fun longest_route :: "string \<Rightarrow> (string \<times> 'e) list \<Rightarrow> (string \<times> 'e) option" where
  "longest_route path [] = None"
| "longest_route path ((pat, e) # rs) =
     (case longest_route path rs of
        None \<Rightarrow> if HasSuffix pat ''/'' \<and> HasPrefix path pat then Some (pat, e) else None
      | Some (pat', e') \<Rightarrow>
          if HasSuffix pat ''/'' \<and> HasPrefix path pat \<and> length pat > length pat' then Some (pat, e) else Some (pat', e'))"

definition mux_route :: "(string \<times> 'e) list \<Rightarrow> string \<Rightarrow> 'e option" where
  "mux_route rs path =
     (case map_of rs path of Some e \<Rightarrow> Some e | None \<Rightarrow> map_option snd (longest_route path rs))"

text \<open>The page: no file for a path of the API.\<close>

definition spaHandler :: "(string \<Rightarrow> web_response) \<Rightarrow> web_response \<Rightarrow> string \<Rightarrow> web_response" where
  "spaHandler files notFound path = (if HasPrefix path ''/api/'' then notFound else files path)"

text \<open>\<open>Stop\<close> before \<open>Start\<close> does nothing; \<open>shutdown\<close> is the error of the library.\<close>

definition web_Stop :: "bool \<Rightarrow> string option \<Rightarrow> string option" where
  "web_Stop started shutdown =
     (if \<not> started then None
      else case shutdown of None \<Rightarrow> None | Some e \<Rightarrow> Some (([CHR 0xE6, CHR 0x9C, CHR 0x8D, CHR 0xE5, CHR 0x8A, CHR 0xA1, CHR 0xE5, CHR 0x99, CHR 0xA8,
     CHR 0xE5, CHR 0x85, CHR 0xB3, CHR 0xE9, CHR 0x97, CHR 0xAD, CHR 0xE5, CHR 0xA4,
     CHR 0xB1, CHR 0xE8, CHR 0xB4, CHR 0xA5] @ '': '') @ e))"

end
