(* ===== verification/Owl_WebProps.thy ===== *)
theory Owl_WebProps
  imports Owl_WebServer Owl_ConfirmProps Owl_SchedProps Owl_ClusterProps
begin

text \<open>
  What the web panel does with the parts it drives: the chat, the commands it sends to agents, the tasks it
  changes, the skills its page runs, and the numbers it shows.
\<close>

section \<open>The chat\<close>

lemma save_message_pending:
  "save_message now turns s u role content st = Inr st' \<Longrightarrow> as_pending st' = as_pending st"
  by (auto simp: save_message_def map_sum_def split: option.splits sum.splits)

lemma run_chat_pending:
  "as_pending (fst (run_chat dur turns ae s req message st)) = as_pending st \<or>
   (\<exists>i reply. asked_row s s (as_pending st) (as_pending (fst (run_chat dur turns ae s req message st))) i reply)"
proof (cases "if IsConfirmCancelOnly message then Inr st
    else save_message (clock_of ae st) turns s web_user ''user'' message st")
  case (Inr st1)
  then have p1: "as_pending st1 = as_pending st" using save_message_pending by (auto split: if_splits)
  obtain st2 r where x: "Execute ae s message req st1 = (st2, r)" by force
  have p2: "as_pending st2 = as_pending st \<or> (\<exists>i reply. asked_row s s (as_pending st) (as_pending st2) i reply)"
    using Execute_pending[of ae s message req st1] x p1 by auto
  have "as_pending (fst (run_chat dur turns ae s req message st)) = as_pending st2"
    using Inr x save_message_pending by (auto simp: run_chat_def split: exec_result.split sum.split)
  then show ?thesis using p2 by simp
qed (simp add: run_chat_def)

lemma find_snoc: "find P t = None \<Longrightarrow> P x \<Longrightarrow> find P (t @ [x]) = Some x"
  by (induction t) (auto split: if_splits)

lemma select_own_row:
  assumes "asked_row v v t t' i reply" and "v \<noteq> []" and "\<And>op w. sv_db (ae_services ae) op w = None"
  shows "\<exists>row. t' = t @ [row] \<and> pa_SessionID row = v \<and> pa_UserID row = v \<and> pa_Status row = ''pending'' \<and>
    (\<forall>st. as_pending st = t' \<longrightarrow> select_row ae v v (pa_ID row) st = Inr row)"
proof -
  obtain row where r: "t' = t @ [row]" "pa_Status row = ''pending''" "pa_ID row = i" "i \<noteq> []" "\<forall>old \<in> set t. pa_ID old \<noteq> i"
      "pa_SessionID row = v" "pa_UserID row = v"
    using assms(1,2) by (auto simp: asked_row_def or_default_def)
  have "find (\<lambda>p. pa_ID p = i) t = None" using r(5) by (simp add: find_None_iff)
  then have "getPendingAction (pa_ID row) t' = Some row"
    using r(1,3) by (simp add: getPendingAction_def find_snoc)
  then show ?thesis using r assms(3) by (auto simp: select_row_def Let_def db_error_def)
qed

text \<open>
  Property C20: a request to the chat acts in the session that it names, whoever sends it. It leaves every
  pending action as it is, so nothing written there confirms one; but an action that the assistant asks
  about belongs to the user of that name, and is the one his confirmation runs.
\<close>
theorem chat_asks_in_named_session:
  assumes "handleChat dur fresh requestID turns (Some ae) r st = (st', out)"
    and "parseJSON (\<lambda>_. []) dec_chat (wr_Body r) = Inr (message, v)" and "v \<noteq> []"
    and "\<And>op w. sv_db (ae_services ae) op w = None"
  shows "as_pending st' = as_pending st \<or>
    (\<exists>row. as_pending st' = as_pending st @ [row] \<and> pa_SessionID row = v \<and> pa_UserID row = v \<and>
       pa_Status row = ''pending'' \<and> select_row ae v v (pa_ID row) st' = Inr row)"
proof (cases "as_pending st' = as_pending st")
  case False
  then have "st' = fst (run_chat dur turns ae v requestID message st)"
    using assms(1-3) by (auto simp: handleChat_def chat_session_def split: if_splits)
  then obtain i reply where "asked_row v v (as_pending st) (as_pending st') i reply"
    using run_chat_pending[of dur turns ae v requestID message st] False by auto
  from select_own_row[OF this assms(3,4)] show ?thesis by blast
qed simp


section \<open>Commands to agents\<close>

text \<open>What the multiplexer does with a request of the route for commands.\<close>

definition execute_mux ::
  "(json \<Rightarrow> string) \<Rightarrow> (string \<Rightarrow> string) \<Rightarrow> string + json \<Rightarrow> gotime \<Rightarrow> (string \<Rightarrow> master_cluster wait_event list) \<Rightarrow>
   master_cluster option handler" where
  "execute_mux print q body now evs r h mc =
     (if mux_route setupRoutes (wr_Path r) = Some ClusterExecute
      then (case handleClusterExecute now evs (web_request.extend r (api_request.fields q body)) mc of
              (mc', Answered (status, j)) \<Rightarrow>
                (\<lparr>rs_Status = status, rs_Headers = h(''Content-Type'' \<mapsto> ''application/json; charset=utf-8''),
                   rs_Body = print j\<rparr>, mc')
            | (mc', _) \<Rightarrow> (\<lparr>rs_Status = 0, rs_Headers = h, rs_Body = []\<rparr>, mc'))
      else (\<lparr>rs_Status = 404, rs_Headers = h, rs_Body = []\<rparr>, mc))"

lemma execute_route: "mux_route setupRoutes ''/api/v1/cluster/execute'' = Some ClusterExecute"
  by code_simp

lemma execute_queues:
  assumes "wr_Method r = ''POST''" and "parseJSON (\<lambda>_. []) dec_execute (wr_Body r) = Inr (node, command)"
    and "node \<noteq> []" and "command \<noteq> []" and "mc_agents c node \<noteq> None"
  shows "fst (handleClusterExecute now evs r (Some c)) = Some (fst (SendCommand now node ''shell'' command (30 * Second) c))"
  using assms by (auto simp: handleClusterExecute_def SendCommand_def Let_def)

lemma open_panel_world:
  assumes "prefix ''/'' (wr_Path r)" and "wr_Method r \<noteq> ''OPTIONS''" and "\<And>h'. snd (mux r h' w) = w'"
  shows "fst (snd (web_Start b64 cfg mux r h w)) = w'"
  using panel_free[OF assms(1)] assms(2,3)
  by (simp add: web_Start_def LoggingMiddleware_def AuthMiddleware_def CORSMiddleware_def CORSMiddlewareWithConfig_def
      Let_def case_prod_unfold)

text \<open>
  Property C19: although authentication is switched on, anyone who reaches the panel gets any command into
  the queue of any agent: no token, no password, no check of the command, and no confirmation.
\<close>
theorem open_panel_queues_command:
  assumes "wb_AuthEnabled cfg" and "wr_Method r = ''POST''" and "wr_Path r = ''/api/v1/cluster/execute''"
    and "parseJSON (\<lambda>_. []) dec_execute body = Inr (node, command)"
    and "node \<noteq> []" and "command \<noteq> []" and "mc_agents c node \<noteq> None"
  shows "\<exists>c'. fst (snd (web_Start b64 cfg (execute_mux print q body now evs) r h (Some c))) = Some c' \<and>
    queue_of node c' = queue_of node c @ [command_of now node ''shell'' command (30 * Second)]"
proof -
  let ?r = "web_request.extend r (api_request.fields q body)"
  have "fst (handleClusterExecute now evs ?r (Some c)) = Some (fst (SendCommand now node ''shell'' command (30 * Second) c))"
    using assms(2,4-7) by (intro execute_queues) (simp_all add: web_request.defs api_request.defs)
  then have m: "snd (execute_mux print q body now evs r h' (Some c)) =
      Some (fst (SendCommand now node ''shell'' command (30 * Second) c))" for h'
    using assms(3) execute_route by (auto simp: execute_mux_def split: prod.splits web_outcome.splits)
  have "fst (snd (web_Start b64 cfg (execute_mux print q body now evs) r h (Some c))) =
      Some (fst (SendCommand now node ''shell'' command (30 * Second) c))"
    using assms(2,3) by (intro open_panel_world m) simp_all
  then show ?thesis using assms(7) by (simp add: queue_SendCommand)
qed

text \<open>
  What the server does for agents that are connected: a message from one, a round of the hub with the
  callbacks it starts, a command sent over a connection, and whatever happens to the connections alone.
\<close>

inductive connected_step :: "ws_server \<Rightarrow> ws_server \<Rightarrow> bool" where
  message: "handleMessage now kc kd kp agentID msg s = Inr s' \<Longrightarrow> connected_step s s'"
| loop: "loop_step f s = (s', changes) \<Longrightarrow> connected_step s s'"
| command: "ws_SendCommand fmt now uuid agentID cmdType payload timeout s = Inr (s', i) \<Longrightarrow> connected_step s s'"
| connection: "connected_step s (s\<lparr>sv_hub := h\<rparr>)"

inductive_cases connected_stepE: "connected_step s s'"

lemma run_callbacks_queues:
  "mc_pendingCommands (fst (run_callbacks cbs mc)) = mc_pendingCommands mc"
proof (induction cbs arbitrary: mc)
  case (Cons cb cbs)
  have "mc_pendingCommands (fst (run_callback cb mc)) = mc_pendingCommands mc"
    by (cases cb) (simp_all add: set_agent_status_def upd_agent_def split: option.split)
  then show ?case by (simp add: Cons case_prod_unfold Let_def)
qed simp

lemma handleMessage_queues:
  assumes "handleMessage now kc kd kp agentID msg s = Inr s'"
  shows "mc_pendingCommands (sv_cluster s') = mc_pendingCommands (sv_cluster s)"
proof -
  have "ws_handleHeartbeat now agentID msg s = Inr s' \<Longrightarrow> ?thesis"
    by (auto simp: ws_handleHeartbeat_def upd_agent_def Let_def split: option.splits sum.splits)
  moreover have "s' = ws_handleMetrics now agentID msg s \<Longrightarrow> ?thesis"
    by (simp add: ws_handleMetrics_def upd_agent_def split: option.split)
  moreover have "s' = ws_handleEvent agentID msg s \<Longrightarrow> ?thesis"
    by (simp add: ws_handleEvent_def HandleAgentEvents_def Let_def split: option.split)
  moreover have "s' = ws_handleCommandResult now agentID msg s \<Longrightarrow> ?thesis"
    by (simp add: ws_handleCommandResult_def HandleCommandResult_def split: option.split)
  moreover have "ws_handleEnvironment now kc kd kp agentID msg s = Inr s' \<Longrightarrow> ?thesis"
    by (auto simp: ws_handleEnvironment_def HandleAgentEnvironment_def split: option.splits sum.splits)
  ultimately show ?thesis
    using assms by (auto simp: handleMessage_def split: if_splits option.splits)
qed

lemma connected_step_queues:
  "connected_step s s' \<Longrightarrow> mc_pendingCommands (sv_cluster s') = mc_pendingCommands (sv_cluster s)"
  by (erule connected_stepE)
    (auto simp: loop_step_def case_prod_unfold Let_def run_callbacks_queues ws_SendCommand_def handleMessage_queues
      split: sum.splits)

lemma connected_queues:
  "connected_step\<^sup>*\<^sup>* s s' \<Longrightarrow> queue_of k (sv_cluster s') = queue_of k (sv_cluster s)"
  by (induction rule: rtranclp_induct) (simp_all add: queue_of_def connected_step_queues)


section \<open>Skills\<close>

text \<open>
  The page of the panel runs a skill with \<open>POST /api/v1/skills/execute\<close>; the panel takes
  \<open>execute\<close> for the name of a skill and refuses the method: from the page no skill ever runs.
\<close>
theorem page_runs_no_skill:
  fixes r :: api_request
  shows "mux_route setupRoutes ''/api/v1/skills/execute'' = Some SkillByName \<and>
    HandleSkillByName sx dur (Some k) depth
      (r\<lparr>wr_Method := ''POST'', wr_Path := ''/api/v1/skills/execute''\<rparr>) st = Some (st, writeMethodNotAllowed)"
proof -
  have "mux_route setupRoutes ''/api/v1/skills/execute'' = Some SkillByName" by code_simp
  moreover have "\<not> HasSuffix (TrimPrefix ''/api/v1/skills/execute'' skill_prefix) ''/execute''" by code_simp
  ultimately show ?thesis by (simp add: HandleSkillByName_def)
qed

section \<open>Tasks\<close>

lemma sched_update_inv:
  assumes "sched_inv s" and "GetTask ident s = Some t" and "st_ID t' = st_ID t" and "st_EntryID t' = st_EntryID t"
  shows "sched_inv (s\<lparr>sd_tasks := (sd_tasks s)(ident \<mapsto> t')\<rparr>)"
proof -
  have k: "st_ID t = ident" using assms(1,2) by (auto simp: sched_inv_def task_map.keyed_def GetTask_def)
  have "entry_map (s\<lparr>sd_tasks := (sd_tasks s)(ident \<mapsto> t')\<rparr>) = entry_map s"
    using assms(2,4) by (auto simp: entry_map_def GetTask_def)
  then show ?thesis using assms(1,3) k by (auto simp: sched_inv_def task_map.keyed_def)
qed

lemma apply_update_same [simp]:
  "st_ID (apply_update q t) = st_ID t" "st_EntryID (apply_update q t) = st_EntryID t"
  by (simp_all add: apply_update_def)

lemma sched_inv_ops:
  "AddTask schedule_error t s = (s', e) \<Longrightarrow> sched_inv s \<Longrightarrow> sched_inv s'"
  "RemoveTask ident s = (s', e) \<Longrightarrow> sched_inv s \<Longrightarrow> sched_inv s'"
  using AddTask_inv[of s schedule_error t] RemoveTask_inv[of s ident] by auto

lemma updateTask_inv:
  assumes "sched_inv s"
  shows "sched_inv (fst (updateTask tv schedule_error ident r s))"
proof (cases "GetTask ident s")
  case (Some t)
  have up: "sched_inv (s\<lparr>sd_tasks := (sd_tasks s)(ident \<mapsto> apply_update q t)\<rparr>)" for q
    by (rule sched_update_inv[OF assms Some]) simp_all
  show ?thesis
    using Some assms up
    by (fastforce simp: updateTask_def Let_def split: sum.split prod.split option.split dest: sched_inv_ops)
qed (simp add: updateTask_def assms)

text \<open>
  Whatever is asked of the panel, every task keeps a cron entry of its own and every entry a
  task.
\<close>
theorem panel_keeps_scheduler_inv:
  assumes "sched_inv s"
  shows "\<exists>s1 s2. fst (HandleTasks tv schedule_error uuid ks r (Some s)) = Some s1 \<and> sched_inv s1 \<and>
    fst (HandleTaskByID tv schedule_error r (Some s)) = Some s2 \<and> sched_inv s2"
proof -
  have c: "sched_inv (fst (createTask tv schedule_error uuid r s))"
    using assms by (auto simp: createTask_def split: sum.split prod.split option.split dest: sched_inv_ops)
  have d: "sched_inv (fst (deleteTask i s))" for i
    using assms by (auto simp: deleteTask_def split: prod.split option.split dest: sched_inv_ops)
  show ?thesis
    using assms c d updateTask_inv[OF assms]
    by (auto simp: HandleTasks_def HandleTaskByID_def Let_def case_prod_unfold)
qed

text \<open>
  Property C22: a new schedule that the cron library refuses deletes the task: it is gone from the
  scheduler and from its store, and the answer speaks of a failed update.
\<close>
theorem refused_schedule_deletes_task:
  assumes "sched_inv s" and "GetTask ident s = Some t"
    and "parseJSON (tv_mismatch tv) dec_TaskUpdateRequest (wr_Body r) = Inr q"
    and "tu_Schedule q = Some spec" and "spec \<noteq> st_Schedule t" and "schedule_error spec = Some e"
  shows "\<exists>s' a. updateTask tv schedule_error ident r s = (s', (500, a)) \<and> GetTask ident s' = None \<and>
    st_EntryID t \<notin> sd_entries s' \<and>
    (\<forall>st. sd_store s' = Some st \<longrightarrow> (\<forall>row \<in> set (ts_tasks st). st_ID row \<noteq> ident))"
proof -
  have k: "st_ID t = ident" using assms(1,2) by (auto simp: sched_inv_def task_map.keyed_def GetTask_def)
  show ?thesis
    using assms(2-6) k
    by (auto simp: updateTask_def Let_def set_opt_def RemoveTask_def AddTask_def apply_update_def GetTask_def update_failed_def
        writeInternalError_def writeError_def writeJSON_def DeleteTask_def)
qed

text \<open>
  A task that the panel pauses or disables goes on: it keeps its cron entry, and its run
  does not look at the status.
\<close>
theorem paused_task_runs_on:
  assumes "GetTask ident s = Some t"
    and "parseJSON (tv_mismatch tv) dec_TaskUpdateRequest (wr_Body r) = Inr q"
    and "tu_Status q = Some status" and "tu_Schedule q = None"
    and "updateTask tv schedule_error ident r s = (s', a)"
  shows "sd_entries s' = sd_entries s \<and>
    (\<exists>t'. GetTask ident s' = Some t' \<and> st_Status t' = status \<and> st_EntryID t' = st_EntryID t \<and>
       (\<forall>exec next_run now w s'' w''. runTask exec next_run now t' s' w = Inr (s'', w'') \<longrightarrow>
          w'' = fst (exec (t'\<lparr>st_LastRun := now, st_RunCount := wrap64 (st_RunCount t' + 1)\<rparr>) w)))"
  using assms
  by (auto simp: updateTask_def Let_def set_opt_def apply_update_def GetTask_def runTask_def map_sum_def case_prod_unfold
      split: sum.splits)

section \<open>What is shown\<close>

lemma bump_count:
  "bump k (\<lambda>x. if n x = 0 then None else Some (int (n x))) =
     (\<lambda>x. if (n(k := Suc (n k))) x = 0 then None else Some (int ((n(k := Suc (n k))) x)))"
  by (auto simp: bump_def fun_eq_iff)

definition counts :: "string list \<Rightarrow> (string \<rightharpoonup> int)" where
  "counts xs = (\<lambda>k. if count_list xs k = 0 then None else Some (int (count_list xs k)))"

lemma bump_counts: "bump k (counts xs) = counts (xs @ [k])"
proof -
  have "count_list (xs @ [k]) x = ((count_list xs)(k := Suc (count_list xs k))) x" for x by simp
  then show ?thesis unfolding counts_def bump_count by presburger
qed

definition error_key :: "action_row \<Rightarrow> string list" where
  "error_key l = (if \<not> lg_Success l \<and> lg_ErrorMsg l \<noteq> [] then [truncateString (lg_ErrorMsg l) 50] else [])"

definition analysis_of :: "action_row list \<Rightarrow> log_analysis" where
  "analysis_of ls =
     \<lparr>la_TotalCount = int (length ls), la_SuccessCount = int (length (filter lg_Success ls)),
      la_FailureCount = int (length (filter (\<lambda>l. \<not> lg_Success l) ls)), la_SuccessRate = 0, la_AvgDurationMs = 0,
      la_ToolUsage = counts (map lg_ToolName ls), la_ErrorSummary = counts (concat (map error_key ls)),
      la_Start = (if ls = [] then zero_time else Min (lg_CreatedAt ` set ls)),
      la_End = (if ls = [] then zero_time else Max (lg_CreatedAt ` set ls))\<rparr>"

lemma analyze_row_of:
  "fst (analyze_row l (analysis_of ls, n)) = analysis_of (ls @ [l])"
proof -
  have e: "(if lg_ErrorMsg l \<noteq> [] then bump (truncateString (lg_ErrorMsg l) 50) (counts xs) else counts xs) =
      counts (xs @ error_key l)" if "\<not> lg_Success l" for xs
    using that by (simp add: error_key_def bump_counts)
  have t: "Min (insert a (lg_CreatedAt ` set ls)) = min (Min (lg_CreatedAt ` set ls)) a"
    "Max (insert a (lg_CreatedAt ` set ls)) = max (Max (lg_CreatedAt ` set ls)) a" if "ls \<noteq> []" for a
    using that by (simp_all add: min.commute max.commute)
  show ?thesis
    by (cases "lg_Success l"; cases "ls = []")
      (simp_all add: analyze_row_def analysis_of_def Let_def bump_counts e t error_key_def min.commute max.commute)
qed

lemma wrap64_add: "wrap64 (wrap64 a + b) = wrap64 (a + b)"
proof -
  let ?m = "18446744073709551616 :: int" and ?h = "9223372036854775808 :: int"
  have "((a + ?h) mod ?m - ?h + b + ?h) mod ?m = ((a + ?h) mod ?m + b) mod ?m" by (simp add: algebra_simps)
  also have "\<dots> = (a + ?h + b) mod ?m" by (rule mod_add_left_eq)
  also have "\<dots> = (a + b + ?h) mod ?m" by (simp add: algebra_simps)
  finally show ?thesis by (simp add: wrap64_def)
qed

lemma analyze_fold:
  "fold analyze_row ls (analysis_of xs, wrap64 n) =
     (analysis_of (xs @ ls), wrap64 (n + sum_list (map lg_DurationMs ls)))"
proof (induction ls arbitrary: xs n)
  case (Cons l ls)
  have "analyze_row l (analysis_of xs, wrap64 n) = (analysis_of (xs @ [l]), wrap64 (n + lg_DurationMs l))"
    using analyze_row_of[of l xs "wrap64 n"]
    by (simp add: prod_eq_iff wrap64_add) (simp add: analyze_row_def Let_def wrap64_add)
  then show ?case using Cons.IH[of "xs @ [l]" "n + lg_DurationMs l"] by (simp add: algebra_simps)
qed simp

text \<open>
  The analysis of the log of actions counts every action once, under its tool, and every
  failure with a message under the first fifty bytes of it; the times are those of the first and the last
  action, and the averages are over all of them (the sum of the durations is one of 64 bits).
\<close>
theorem analysis_spec:
  assumes "logs \<noteq> []"
  shows "analyze logs = (analysis_of logs)\<lparr>
      la_SuccessRate := of_nat (length (filter lg_Success logs)) / of_nat (length logs) * 100,
      la_AvgDurationMs := of_int (wrap64 (sum_list (map lg_DurationMs logs))) / of_nat (length logs)\<rparr> \<and>
    la_SuccessCount (analyze logs) + la_FailureCount (analyze logs) = int (length logs) \<and>
    (\<Sum>k\<in>set (map lg_ToolName logs). the (la_ToolUsage (analyze logs) k)) = int (length logs)"
proof -
  have z: "no_analysis = analysis_of []" by (simp add: no_analysis_def analysis_of_def counts_def fun_eq_iff)
  have "fold analyze_row logs (no_analysis, 0) = (analysis_of logs, wrap64 (sum_list (map lg_DurationMs logs)))"
    using analyze_fold[of logs "[]" 0] by (simp add: z min_int64_def max_int64_def)
  then have eq: "analyze logs = (analysis_of logs)\<lparr>
      la_SuccessRate := of_nat (length (filter lg_Success logs)) / of_nat (length logs) * 100,
      la_AvgDurationMs := of_int (wrap64 (sum_list (map lg_DurationMs logs))) / of_nat (length logs)\<rparr>"
    using assms by (simp add: analyze_def analysis_of_def)
  have "length (filter lg_Success logs) + length (filter (\<lambda>l. \<not> lg_Success l) logs) = length logs"
    by (rule sum_length_filter_compl)
  moreover have "(\<Sum>k\<in>set xs. the (counts xs k)) = int (length xs)" for xs
  proof -
    have "(\<Sum>k\<in>set xs. the (counts xs k)) = (\<Sum>k\<in>set xs. int (count_list xs k))"
      by (rule sum.cong) (auto simp: counts_def count_list_0_iff)
    then show ?thesis using sum_count_set[of xs "set xs"] by (simp flip: of_nat_sum)
  qed
  then have "(\<Sum>k\<in>set (map lg_ToolName logs). the (counts (map lg_ToolName logs) k)) = int (length logs)"
    by (metis length_map)
  ultimately show ?thesis unfolding eq by (simp add: analysis_of_def flip: of_nat_add)
qed

text \<open>
  The health of the panel is always the same: no component is ever called unhealthy.
\<close>
theorem health_is_healthy:
  "overall_status (health_components h) = ''healthy''"
  by (simp add: overall_status_def health_components_def component_status_def)

section \<open>Examples\<close>

definition panel_request :: "string \<Rightarrow> string \<Rightarrow> fields \<Rightarrow> api_request" where
  "panel_request meth path kvs = \<lparr>wr_Method = meth, wr_Path = path, wr_Header = (\<lambda>_. []), wr_Query = (\<lambda>_. []),
     wr_Body = Inr (JObj kvs)\<rparr>"

abbreviation chat_body :: fields where
  "chat_body \<equiv> [(''message'', JStr ''what time is it''), (''session_id'', JStr ''alice'')]"

definition chat_run :: "nat agent_state \<times> web_outcome" where
  "chat_run = handleChat (\<lambda>_. []) ''f'' ''q'' None (Some (sample_executor [''command'' \<mapsto> JStr ''uptime'']))
     (panel_request ''POST'' ''/api/v1/chat'' chat_body) sample_state"

lemma chat_asked: "length (as_pending (fst chat_run)) = 1"
  by code_simp

theorem chat_asks_in_named_session_witness:
  "(\<exists>row. as_pending (fst chat_run) = [row] \<and> pa_SessionID row = ''alice'' \<and> pa_UserID row = ''alice'' \<and>
       pa_Status row = ''pending'' \<and>
       select_row (sample_executor [''command'' \<mapsto> JStr ''uptime'']) ''alice'' ''alice'' (pa_ID row) (fst chat_run) = Inr row)"
proof -
  have "handleChat (\<lambda>_. []) ''f'' ''q'' None (Some (sample_executor [''command'' \<mapsto> JStr ''uptime'']))
      (panel_request ''POST'' ''/api/v1/chat'' chat_body) sample_state = (fst chat_run, snd chat_run)"
    by (simp add: chat_run_def)
  moreover have "parseJSON (\<lambda>_. []) dec_chat (wr_Body (panel_request ''POST'' ''/api/v1/chat'' chat_body)) =
      Inr (''what time is it'', ''alice'')"
    by (simp add: parseJSON_def dec_chat_def panel_request_def field_def ToLower_def lower_char_def)
  moreover have "\<And>op w. sv_db (ae_services (sample_executor [''command'' \<mapsto> JStr ''uptime''])) op w = None"
    by (simp add: sample_executor_def NewAgentExecutor_def sample_services_def)
  ultimately show ?thesis
    using chat_asks_in_named_session[of "\<lambda>_. []" "''f''" "''q''" None "sample_executor [''command'' \<mapsto> JStr ''uptime'']"
        "panel_request ''POST'' ''/api/v1/chat'' chat_body" sample_state "fst chat_run" "snd chat_run"
        "''what time is it''" "''alice''"] chat_asked
    by (auto simp: sample_state_def)
qed

abbreviation execute_body :: fields where
  "execute_body \<equiv> [(''node_id'', JStr ''a1''), (''command'', JStr ''reboot'')]"

lemma execute_body_dec: "parseJSON (\<lambda>_. []) dec_execute (Inr (JObj execute_body)) = Inr (''a1'', ''reboot'')"
  by (simp add: parseJSON_def dec_execute_def field_def ToLower_def lower_char_def)

lemma witness_agent: "mc_agents witness_cluster ''a1'' \<noteq> None"
  by (simp add: witness_cluster_agents)

theorem open_panel_queues_command_witness:
  "\<exists>c'. fst (snd (web_Start (\<lambda>_. Inl []) locked_panel
      (execute_mux (\<lambda>_. []) (\<lambda>_. []) (Inr (JObj execute_body)) 9 (\<lambda>_. [CtxDone]))
      (web_request.truncate (panel_request ''POST'' ''/api/v1/cluster/execute'' [])) Map.empty (Some witness_cluster))) = Some c' \<and>
    queue_of ''a1'' c' = queue_of ''a1'' witness_cluster @ [command_of 9 ''a1'' ''shell'' ''reboot'' (30 * Second)]"
  using execute_body_dec witness_agent
  by (intro open_panel_queues_command) (simp_all add: locked_panel_def panel_request_def web_request.defs)


lemma after_add_inv: "sched_inv after_add"
proof -
  have "sched_inv (NewScheduler (Some \<lparr>ts_tasks = [], ts_runs = [], ts_slices = True\<rparr>))"
    by (simp add: sched_inv_def task_map.keyed_def NewScheduler_def entries_ok_def entry_map_def ran_def)
  then show ?thesis unfolding after_add_def by (rule AddTask_inv)
qed

definition sample_view :: task_view where
  "sample_view = \<lparr>tv_times = (\<lambda>_. (0, 0)), tv_order = (\<lambda>_. []), tv_mismatch = (\<lambda>_. [])\<rparr>"

theorem panel_keeps_scheduler_inv_witness:
  "\<exists>s1 s2. fst (HandleTasks sample_view (\<lambda>_. None) ''u'' [] (panel_request ''GET'' ''/api/v1/tasks'' []) (Some after_add)) = Some s1 \<and>
    sched_inv s1 \<and>
    fst (HandleTaskByID sample_view (\<lambda>_. None) (panel_request ''GET'' ''/api/v1/tasks'' []) (Some after_add)) = Some s2 \<and>
    sched_inv s2"
  by (rule panel_keeps_scheduler_inv[OF after_add_inv])

definition added_task :: scheduled_task where
  "added_task = the (GetTask ''n'' after_add)"

lemma added_task: "GetTask ''n'' after_add = Some added_task"
  by (simp add: added_task_def GetTask_def after_add_def AddTask_def NewScheduler_def nightly_def step_task_def Let_def)

definition update_with :: "string \<Rightarrow> task_update_request" where
  "update_with k = \<lparr>tu_Name = None, tu_Description = None, tu_Schedule = (if k = ''schedule'' then Some ''soon'' else None),
     tu_Config = None, tu_Status = (if k = ''schedule'' then None else Some ''soon''), tu_Tags = None\<rparr>"

lemma update_dec:
  "parseJSON (tv_mismatch sample_view) dec_TaskUpdateRequest
     (wr_Body (panel_request ''PUT'' ''/api/v1/tasks/n'' [(k, JStr ''soon'')])) = Inr (update_with k)"
  if "k = ''schedule'' \<or> k = ''status''"
  using that
  by (auto simp: parseJSON_def dec_TaskUpdateRequest_def panel_request_def present_def field_def ToLower_def lower_char_def
      update_with_def)

theorem refused_schedule_deletes_task_witness:
  "\<exists>s' a. updateTask sample_view (\<lambda>_. Some ''bad'') ''n'' (panel_request ''PUT'' ''/api/v1/tasks/n'' [(''schedule'', JStr ''soon'')])
      after_add = (s', (500, a)) \<and> GetTask ''n'' s' = None \<and> st_EntryID added_task \<notin> sd_entries s' \<and>
    (\<nexists>st row. sd_store s' = Some st \<and> row \<in> set (ts_tasks st) \<and> st_ID row = ''n'')"
proof -
  have "''soon'' \<noteq> st_Schedule added_task"
    by (simp add: added_task_def GetTask_def after_add_def AddTask_def NewScheduler_def nightly_def step_task_def Let_def)
  from refused_schedule_deletes_task[where schedule_error = "\<lambda>_. Some ''bad''", OF after_add_inv added_task update_dec _ this]
  show ?thesis by (fastforce simp: update_with_def)
qed

theorem paused_task_runs_on_witness:
  "sd_entries (fst (updateTask sample_view (\<lambda>_. None) ''n'' (panel_request ''PUT'' ''/api/v1/tasks/n'' [(''status'', JStr ''soon'')])
      after_add)) = sd_entries after_add"
  using paused_task_runs_on[OF added_task update_dec[of "''status''"], of "''soon''" "\<lambda>_. None"]
  by (auto simp: update_with_def prod_eq_iff)

definition sample_actions :: "action_row list" where
  "sample_actions = [\<lparr>lg_ID = 1, lg_SessionID = ''s'', lg_UserID = ''u'', lg_RequestID = [], lg_ToolName = ''docker'',
     lg_Arguments = ''{}'', lg_Result = ''ok'', lg_Success = True, lg_ErrorMsg = [], lg_DurationMs = 5, lg_CreatedAt = 1\<rparr>]"

theorem analysis_spec_witness:
  "la_SuccessCount (analyze sample_actions) + la_FailureCount (analyze sample_actions) = 1"
  using analysis_spec[of sample_actions, THEN conjunct2, THEN conjunct1] by (simp add: sample_actions_def)

end
