(* ===== verification/Owl_BuiltinA.thy ===== *)
theory Owl_BuiltinA
  imports Owl_Skills
begin

text \<open>
  The built-in skills of \<open>internal/skills/builtin\<close> for backups, Caddy and Nginx, cleaning up and containers (\<open>backup.go\<close>, \<open>caddy.go\<close>, \<open>cleanup.go\<close>, \<open>docker_stats.go\<close>).
  Each is the value its function returns; a default that is left out is nil.
\<close>

subsection \<open>\<open>backup.go\<close>\<close>

definition backupSteps :: "skill_step list" where
  "backupSteps = [
       \<lparr>ss_Name = ''prepare_destination'', ss_Tool = ''local_shell'', ss_Action = [],
        ss_Args = [''command'' \<mapsto> JStr ''mkdir -p {{.destination}}''],
        ss_Condition = [], ss_OnError = ''stop'', ss_Retries = 0\<rparr>,
       \<lparr>ss_Name = ''backup_postgres'', ss_Tool = ''docker'', ss_Action = ''exec'',
        ss_Args = [''container'' \<mapsto> JStr ''{{.source}}'', ''command'' \<mapsto> JStr ''pg_dump -U postgres {{.database}}''],
        ss_Condition = ''{{.type}} == postgres'', ss_OnError = ''stop'', ss_Retries = 0\<rparr>,
       \<lparr>ss_Name = ''backup_mysql'', ss_Tool = ''docker'', ss_Action = ''exec'',
        ss_Args = [''container'' \<mapsto> JStr ''{{.source}}'', ''command'' \<mapsto> JStr ''mysqldump -u root {{.database}}''],
        ss_Condition = ''{{.type}} == mysql'', ss_OnError = ''stop'', ss_Retries = 0\<rparr>,
       \<lparr>ss_Name = ''backup_files'', ss_Tool = ''local_shell'', ss_Action = [],
        ss_Args = [''command'' \<mapsto> JStr ''tar -czf {{.destination}}/files_$(date +%Y%m%d_%H%M%S).tar.gz {{.source}}''],
        ss_Condition = ''{{.type}} == files'', ss_OnError = ''stop'', ss_Retries = 0\<rparr>,
       \<lparr>ss_Name = ''cleanup_old'', ss_Tool = ''local_shell'', ss_Action = [],
        ss_Args = [''command'' \<mapsto> JStr ''find {{.destination}} -type f -mtime +{{.retention_days}} -delete''],
        ss_Condition = [], ss_OnError = ''continue'', ss_Retries = 0\<rparr>]"

definition BackupSkill :: skill where
  "BackupSkill =
     \<lparr>sl_Name = ''builtin:backup'',
      sl_Description = ''Generic backup skill for databases and files'',
      sl_Version = ''1.0.0'', sl_Author = ''ServerOwl'', sl_Tags = [''backup'', ''builtin''],
      sl_Parameters = [\<lparr>sp_Name = ''type'', sp_Type = ''string'', sp_Description = ''Backup type: postgres, mysql, files'',
        sp_Required = True, sp_Default = JNull\<rparr>,
       \<lparr>sp_Name = ''source'', sp_Type = ''string'', sp_Description = ''Source to backup (container name or path)'',
        sp_Required = True, sp_Default = JNull\<rparr>,
       \<lparr>sp_Name = ''destination'', sp_Type = ''string'', sp_Description = ''Destination path for backup'',
        sp_Required = False, sp_Default = JStr ''/tmp/backups''\<rparr>,
       \<lparr>sp_Name = ''database'', sp_Type = ''string'', sp_Description = ''Database name (for database backups)'',
        sp_Required = False, sp_Default = JNull\<rparr>,
       \<lparr>sp_Name = ''compress'', sp_Type = ''bool'', sp_Description = ''Compress backup with gzip'',
        sp_Required = False, sp_Default = JBool True\<rparr>,
       \<lparr>sp_Name = ''retention_days'', sp_Type = ''int'', sp_Description = ''Days to keep old backups'',
        sp_Required = False, sp_Default = JInt 7\<rparr>],
      sl_Steps = backupSteps,
      sl_Timeout = 30 * Minute, sl_NeedConfirm = True\<rparr>"

definition PostgresBackupSkill :: skill where
  "PostgresBackupSkill =
     \<lparr>sl_Name = ''builtin:backup:postgres'',
      sl_Description = ''Backup PostgreSQL database with advanced options'',
      sl_Version = ''1.0.0'', sl_Author = ''ServerOwl'', sl_Tags = [''backup'', ''postgres'', ''database'', ''builtin''],
      sl_Parameters = [\<lparr>sp_Name = ''container'', sp_Type = ''string'', sp_Description = ''PostgreSQL container name'',
        sp_Required = True, sp_Default = JNull\<rparr>,
       \<lparr>sp_Name = ''database'', sp_Type = ''string'', sp_Description = ''Database name'',
        sp_Required = True, sp_Default = JNull\<rparr>,
       \<lparr>sp_Name = ''user'', sp_Type = ''string'', sp_Description = ''Database user'',
        sp_Required = False, sp_Default = JStr ''postgres''\<rparr>,
       \<lparr>sp_Name = ''output_dir'', sp_Type = ''string'', sp_Description = ''Output directory'',
        sp_Required = False, sp_Default = JStr ''/tmp/backups/postgres''\<rparr>,
       \<lparr>sp_Name = ''format'', sp_Type = ''string'', sp_Description = ''Backup format: plain, custom, directory, tar'',
        sp_Required = False, sp_Default = JStr ''custom''\<rparr>,
       \<lparr>sp_Name = ''compress_level'', sp_Type = ''int'', sp_Description = ''Compression level (0-9)'',
        sp_Required = False, sp_Default = JInt 6\<rparr>],
      sl_Steps = [
       \<lparr>ss_Name = ''create_output_dir'', ss_Tool = ''local_shell'', ss_Action = [],
        ss_Args = [''command'' \<mapsto> JStr ''mkdir -p {{.output_dir}}''],
        ss_Condition = [], ss_OnError = ''stop'', ss_Retries = 0\<rparr>,
       \<lparr>ss_Name = ''verify_container'', ss_Tool = ''docker'', ss_Action = ''inspect'',
        ss_Args = [''target'' \<mapsto> JStr ''{{.container}}'', ''format'' \<mapsto> JStr ''{{.State.Running}}''],
        ss_Condition = [], ss_OnError = ''stop'', ss_Retries = 0\<rparr>,
       \<lparr>ss_Name = ''run_backup'', ss_Tool = ''docker'', ss_Action = ''exec'',
        ss_Args = [''container'' \<mapsto> JStr ''{{.container}}'', ''command'' \<mapsto> JStr ''pg_dump -U {{.user}} -F {{.format}} -Z {{.compress_level}} {{.database}}''],
        ss_Condition = [], ss_OnError = ''stop'', ss_Retries = 2\<rparr>,
       \<lparr>ss_Name = ''save_backup'', ss_Tool = ''local_shell'', ss_Action = [],
        ss_Args = [''command'' \<mapsto> JStr (''TIMESTAMP=$(date +%Y%m%d_%H%M%S) && echo '' @ [CHR 0x27] @ ''{{index .steps '' @ [CHR 0x22] @
     ''run_backup'' @ [CHR 0x22] @ ''}}'' @ [CHR 0x27] @ '' > '' @ [CHR 0x22] @ ''{{.output_dir}}/{{.database}}_${TIMESTAMP}.dump'' @
     [CHR 0x22])],
        ss_Condition = [], ss_OnError = ''stop'', ss_Retries = 0\<rparr>,
       \<lparr>ss_Name = ''verify_backup'', ss_Tool = ''local_shell'', ss_Action = [],
        ss_Args = [''command'' \<mapsto> JStr ''ls -la {{.output_dir}}/{{.database}}_*.dump | tail -1''],
        ss_Condition = [], ss_OnError = ''continue'', ss_Retries = 0\<rparr>],
      sl_Timeout = 60 * Minute, sl_NeedConfirm = True\<rparr>"

definition MySQLBackupSkill :: skill where
  "MySQLBackupSkill =
     \<lparr>sl_Name = ''builtin:backup:mysql'',
      sl_Description = ''Backup MySQL database'',
      sl_Version = ''1.0.0'', sl_Author = ''ServerOwl'', sl_Tags = [''backup'', ''mysql'', ''database'', ''builtin''],
      sl_Parameters = [\<lparr>sp_Name = ''container'', sp_Type = ''string'', sp_Description = ''MySQL container name'',
        sp_Required = True, sp_Default = JNull\<rparr>,
       \<lparr>sp_Name = ''database'', sp_Type = ''string'', sp_Description = ''Database name'',
        sp_Required = True, sp_Default = JNull\<rparr>,
       \<lparr>sp_Name = ''user'', sp_Type = ''string'', sp_Description = ''Database user'',
        sp_Required = False, sp_Default = JStr ''root''\<rparr>,
       \<lparr>sp_Name = ''password_env'', sp_Type = ''string'', sp_Description = ''Environment variable containing password'',
        sp_Required = False, sp_Default = JStr ''MYSQL_ROOT_PASSWORD''\<rparr>,
       \<lparr>sp_Name = ''output_dir'', sp_Type = ''string'', sp_Description = ''Output directory'',
        sp_Required = False, sp_Default = JStr ''/tmp/backups/mysql''\<rparr>],
      sl_Steps = [
       \<lparr>ss_Name = ''create_output_dir'', ss_Tool = ''local_shell'', ss_Action = [],
        ss_Args = [''command'' \<mapsto> JStr ''mkdir -p {{.output_dir}}''],
        ss_Condition = [], ss_OnError = ''stop'', ss_Retries = 0\<rparr>,
       \<lparr>ss_Name = ''run_backup'', ss_Tool = ''docker'', ss_Action = ''exec'',
        ss_Args = [''container'' \<mapsto> JStr ''{{.container}}'', ''command'' \<mapsto> JStr ''mysqldump -u {{.user}} -p${{.password_env}} {{.database}}''],
        ss_Condition = [], ss_OnError = ''stop'', ss_Retries = 2\<rparr>,
       \<lparr>ss_Name = ''save_and_compress'', ss_Tool = ''local_shell'', ss_Action = [],
        ss_Args = [''command'' \<mapsto> JStr (''TIMESTAMP=$(date +%Y%m%d_%H%M%S) && echo '' @ [CHR 0x27] @ ''{{index .steps '' @ [CHR 0x22] @
     ''run_backup'' @ [CHR 0x22] @ ''}}'' @ [CHR 0x27] @ '' | gzip > '' @ [CHR 0x22] @
     ''{{.output_dir}}/{{.database}}_${TIMESTAMP}.sql.gz'' @ [CHR 0x22])],
        ss_Condition = [], ss_OnError = ''stop'', ss_Retries = 0\<rparr>],
      sl_Timeout = 60 * Minute, sl_NeedConfirm = True\<rparr>"

subsection \<open>\<open>caddy.go\<close>\<close>

definition CaddyReloadSkill :: skill where
  "CaddyReloadSkill =
     \<lparr>sl_Name = ''builtin:caddy_reload'',
      sl_Description = ([CHR 0xE9, CHR 0xAA, CHR 0x8C, CHR 0xE8, CHR 0xAF, CHR 0x81] @ '' Caddy '' @ [CHR 0xE9,
     CHR 0x85, CHR 0x8D, CHR 0xE7, CHR 0xBD, CHR 0xAE, CHR 0xE5, CHR 0xB9, CHR 0xB6,
     CHR 0xE9, CHR 0x87, CHR 0x8D, CHR 0xE8, CHR 0xBD, CHR 0xBD]),
      sl_Version = ''1.0.0'', sl_Author = ''ServerOwl'', sl_Tags = [''caddy'', ''web'', ''reload'', ''builtin''],
      sl_Parameters = [],
      sl_Steps = [
       \<lparr>ss_Name = ''validate_config'', ss_Tool = ''local_shell'', ss_Action = [],
        ss_Args = [''command'' \<mapsto> JStr (''echo '' @ [CHR 0x22] @ ''=== '' @ [CHR 0xE9, CHR 0xAA, CHR 0x8C, CHR 0xE8, CHR 0xAF,
     CHR 0x81] @ '' Caddy '' @ [CHR 0xE9, CHR 0x85, CHR 0x8D, CHR 0xE7, CHR 0xBD, CHR 0xAE] @
     '' ==='' @ [CHR 0x22] @ '' && caddy validate --config /etc/caddy/Caddyfile 2>&1'')],
        ss_Condition = [], ss_OnError = ''stop'', ss_Retries = 0\<rparr>,
       \<lparr>ss_Name = ''reload'', ss_Tool = ''local_shell'', ss_Action = [],
        ss_Args = [''command'' \<mapsto> JStr (''echo '' @ [CHR 0x22] @ ''=== '' @ [CHR 0xE9, CHR 0x87, CHR 0x8D, CHR 0xE8, CHR 0xBD,
     CHR 0xBD] @ '' Caddy ==='' @ [CHR 0x22] @ '' && systemctl reload caddy && echo '' @
     [CHR 0x22] @ ''Caddy '' @ [CHR 0xE9, CHR 0x87, CHR 0x8D, CHR 0xE8, CHR 0xBD, CHR 0xBD,
     CHR 0xE6, CHR 0x88, CHR 0x90, CHR 0xE5, CHR 0x8A, CHR 0x9F, CHR 0x22])],
        ss_Condition = [], ss_OnError = ''stop'', ss_Retries = 0\<rparr>,
       \<lparr>ss_Name = ''verify'', ss_Tool = ''local_shell'', ss_Action = [],
        ss_Args = [''command'' \<mapsto> JStr (''echo '' @ [CHR 0x22] @ ''=== '' @ [CHR 0xE9, CHR 0xAA, CHR 0x8C, CHR 0xE8, CHR 0xAF,
     CHR 0x81, CHR 0xE7, CHR 0x8A, CHR 0xB6, CHR 0xE6, CHR 0x80, CHR 0x81] @ '' ==='' @
     [CHR 0x22] @ '' && systemctl status caddy --no-pager | head -15'')],
        ss_Condition = [], ss_OnError = ''continue'', ss_Retries = 0\<rparr>],
      sl_Timeout = 2 * Minute, sl_NeedConfirm = False\<rparr>"

definition CaddyStatusSkill :: skill where
  "CaddyStatusSkill =
     \<lparr>sl_Name = ''builtin:caddy_status'',
      sl_Description = ([CHR 0xE6, CHR 0xA3, CHR 0x80, CHR 0xE6, CHR 0x9F, CHR 0xA5] @ '' Caddy '' @ [CHR 0xE6,
     CHR 0x9C, CHR 0x8D, CHR 0xE5, CHR 0x8A, CHR 0xA1, CHR 0xE7, CHR 0x8A, CHR 0xB6,
     CHR 0xE6, CHR 0x80, CHR 0x81, CHR 0xE5, CHR 0x92, CHR 0x8C, CHR 0xE9, CHR 0x85,
     CHR 0x8D, CHR 0xE7, CHR 0xBD, CHR 0xAE]),
      sl_Version = ''1.0.0'', sl_Author = ''ServerOwl'', sl_Tags = [''caddy'', ''web'', ''status'', ''builtin''],
      sl_Parameters = [\<lparr>sp_Name = ''show_config'', sp_Type = ''bool'', sp_Description = [CHR 0xE6, CHR 0x98, CHR 0xBE, CHR 0xE7, CHR 0xA4, CHR 0xBA, CHR 0xE5, CHR 0xBD, CHR 0x93,
     CHR 0xE5, CHR 0x89, CHR 0x8D, CHR 0xE9, CHR 0x85, CHR 0x8D, CHR 0xE7, CHR 0xBD,
     CHR 0xAE],
        sp_Required = False, sp_Default = JBool False\<rparr>],
      sl_Steps = [
       \<lparr>ss_Name = ''service_status'', ss_Tool = ''local_shell'', ss_Action = [],
        ss_Args = [''command'' \<mapsto> JStr (''echo '' @ [CHR 0x22] @ ''=== Caddy '' @ [CHR 0xE6, CHR 0x9C, CHR 0x8D, CHR 0xE5,
     CHR 0x8A, CHR 0xA1, CHR 0xE7, CHR 0x8A, CHR 0xB6, CHR 0xE6, CHR 0x80, CHR 0x81] @
     '' ==='' @ [CHR 0x22] @ '' && systemctl status caddy --no-pager 2>/dev/null || echo '' @
     [CHR 0x22] @ ''Caddy '' @ [CHR 0xE6, CHR 0x9C, CHR 0x8D, CHR 0xE5, CHR 0x8A, CHR 0xA1,
     CHR 0xE6, CHR 0x9C, CHR 0xAA, CHR 0xE5, CHR 0xAE, CHR 0x89, CHR 0xE8, CHR 0xA3,
     CHR 0x85, CHR 0xE6, CHR 0x88, CHR 0x96, CHR 0xE6, CHR 0x9C, CHR 0xAA, CHR 0xE8,
     CHR 0xBF, CHR 0x90, CHR 0xE8, CHR 0xA1, CHR 0x8C, CHR 0x22])],
        ss_Condition = [], ss_OnError = ''continue'', ss_Retries = 0\<rparr>,
       \<lparr>ss_Name = ''version'', ss_Tool = ''local_shell'', ss_Action = [],
        ss_Args = [''command'' \<mapsto> JStr (''echo '' @ [CHR 0x22] @ ''=== Caddy '' @ [CHR 0xE7, CHR 0x89, CHR 0x88, CHR 0xE6,
     CHR 0x9C, CHR 0xAC] @ '' ==='' @ [CHR 0x22] @ '' && caddy version 2>/dev/null || echo '' @
     [CHR 0x22] @ ''Caddy '' @ [CHR 0xE6, CHR 0x9C, CHR 0xAA, CHR 0xE5, CHR 0xAE, CHR 0x89,
     CHR 0xE8, CHR 0xA3, CHR 0x85, CHR 0x22])],
        ss_Condition = [], ss_OnError = ''continue'', ss_Retries = 0\<rparr>,
       \<lparr>ss_Name = ''show_config'', ss_Tool = ''local_shell'', ss_Action = [],
        ss_Args = [''command'' \<mapsto> JStr (''echo '' @ [CHR 0x22] @ ''=== Caddyfile '' @ [CHR 0xE9, CHR 0x85, CHR 0x8D, CHR 0xE7,
     CHR 0xBD, CHR 0xAE] @ '' ==='' @ [CHR 0x22] @ '' && cat /etc/caddy/Caddyfile 2>/dev/null || echo '' @
     [CHR 0x22, CHR 0xE9, CHR 0x85, CHR 0x8D, CHR 0xE7, CHR 0xBD, CHR 0xAE, CHR 0xE6,
     CHR 0x96, CHR 0x87, CHR 0xE4, CHR 0xBB, CHR 0xB6, CHR 0xE4, CHR 0xB8, CHR 0x8D,
     CHR 0xE5, CHR 0xAD, CHR 0x98, CHR 0xE5, CHR 0x9C, CHR 0xA8, CHR 0x22])],
        ss_Condition = ''{{.show_config}} == true'', ss_OnError = ''continue'', ss_Retries = 0\<rparr>,
       \<lparr>ss_Name = ''listening_ports'', ss_Tool = ''local_shell'', ss_Action = [],
        ss_Args = [''command'' \<mapsto> JStr (''echo '' @ [CHR 0x22] @ ''=== Caddy '' @ [CHR 0xE7, CHR 0x9B, CHR 0x91, CHR 0xE5,
     CHR 0x90, CHR 0xAC, CHR 0xE7, CHR 0xAB, CHR 0xAF, CHR 0xE5, CHR 0x8F, CHR 0xA3] @
     '' ==='' @ [CHR 0x22] @ '' && ss -tlnp | grep caddy || echo '' @ [CHR 0x22, CHR 0xE6,
     CHR 0x9C, CHR 0xAA, CHR 0xE6, CHR 0xA3, CHR 0x80, CHR 0xE6, CHR 0xB5, CHR 0x8B,
     CHR 0xE5, CHR 0x88, CHR 0xB0] @ '' Caddy '' @ [CHR 0xE7, CHR 0x9B, CHR 0x91, CHR 0xE5,
     CHR 0x90, CHR 0xAC, CHR 0xE7, CHR 0xAB, CHR 0xAF, CHR 0xE5, CHR 0x8F, CHR 0xA3,
     CHR 0x22])],
        ss_Condition = [], ss_OnError = ''continue'', ss_Retries = 0\<rparr>],
      sl_Timeout = 1 * Minute, sl_NeedConfirm = False\<rparr>"

definition CaddyLogsSkill :: skill where
  "CaddyLogsSkill =
     \<lparr>sl_Name = ''builtin:caddy_logs'',
      sl_Description = ([CHR 0xE6, CHR 0x9F, CHR 0xA5, CHR 0xE7, CHR 0x9C, CHR 0x8B] @ '' Caddy '' @ [CHR 0xE8,
     CHR 0xAE, CHR 0xBF, CHR 0xE9, CHR 0x97, CHR 0xAE, CHR 0xE6, CHR 0x97, CHR 0xA5,
     CHR 0xE5, CHR 0xBF, CHR 0x97, CHR 0xE5, CHR 0x92, CHR 0x8C, CHR 0xE9, CHR 0x94,
     CHR 0x99, CHR 0xE8, CHR 0xAF, CHR 0xAF, CHR 0xE6, CHR 0x97, CHR 0xA5, CHR 0xE5,
     CHR 0xBF, CHR 0x97]),
      sl_Version = ''1.0.0'', sl_Author = ''ServerOwl'', sl_Tags = [''caddy'', ''web'', ''logs'', ''builtin''],
      sl_Parameters = [\<lparr>sp_Name = ''lines'', sp_Type = ''int'', sp_Description = [CHR 0xE6, CHR 0x98, CHR 0xBE, CHR 0xE7, CHR 0xA4, CHR 0xBA, CHR 0xE8, CHR 0xA1, CHR 0x8C,
     CHR 0xE6, CHR 0x95, CHR 0xB0],
        sp_Required = False, sp_Default = JInt 50\<rparr>,
       \<lparr>sp_Name = ''type'', sp_Type = ''string'', sp_Description = ([CHR 0xE6, CHR 0x97, CHR 0xA5, CHR 0xE5, CHR 0xBF, CHR 0x97, CHR 0xE7, CHR 0xB1, CHR 0xBB,
     CHR 0xE5, CHR 0x9E, CHR 0x8B] @ '': access, error, all''),
        sp_Required = False, sp_Default = JStr ''all''\<rparr>],
      sl_Steps = [
       \<lparr>ss_Name = ''journald_logs'', ss_Tool = ''local_shell'', ss_Action = [],
        ss_Args = [''command'' \<mapsto> JStr (''echo '' @ [CHR 0x22] @ ''=== Caddy '' @ [CHR 0xE7, CHR 0xB3, CHR 0xBB, CHR 0xE7,
     CHR 0xBB, CHR 0x9F, CHR 0xE6, CHR 0x97, CHR 0xA5, CHR 0xE5, CHR 0xBF, CHR 0x97] @
     '' ==='' @ [CHR 0x22] @ '' && journalctl -u caddy --no-pager -n {{.lines}} 2>/dev/null || echo '' @
     [CHR 0x22, CHR 0xE6, CHR 0x97, CHR 0xA0, CHR 0xE6, CHR 0xB3, CHR 0x95, CHR 0xE8,
     CHR 0xAF, CHR 0xBB, CHR 0xE5, CHR 0x8F, CHR 0x96] @ '' journald '' @ [CHR 0xE6,
     CHR 0x97, CHR 0xA5, CHR 0xE5, CHR 0xBF, CHR 0x97, CHR 0x22])],
        ss_Condition = [], ss_OnError = ''continue'', ss_Retries = 0\<rparr>,
       \<lparr>ss_Name = ''access_logs'', ss_Tool = ''local_shell'', ss_Action = [],
        ss_Args = [''command'' \<mapsto> JStr (''echo '' @ [CHR 0x22] @ ''=== Caddy '' @ [CHR 0xE8, CHR 0xAE, CHR 0xBF, CHR 0xE9,
     CHR 0x97, CHR 0xAE, CHR 0xE6, CHR 0x97, CHR 0xA5, CHR 0xE5, CHR 0xBF, CHR 0x97] @
     '' ==='' @ [CHR 0x22] @ '' && tail -n {{.lines}} /var/log/caddy/access.log 2>/dev/null || echo '' @
     [CHR 0x22, CHR 0xE8, CHR 0xAE, CHR 0xBF, CHR 0xE9, CHR 0x97, CHR 0xAE, CHR 0xE6,
     CHR 0x97, CHR 0xA5, CHR 0xE5, CHR 0xBF, CHR 0x97, CHR 0xE6, CHR 0x96, CHR 0x87,
     CHR 0xE4, CHR 0xBB, CHR 0xB6, CHR 0xE4, CHR 0xB8, CHR 0x8D, CHR 0xE5, CHR 0xAD,
     CHR 0x98, CHR 0xE5, CHR 0x9C, CHR 0xA8, CHR 0x22])],
        ss_Condition = ''{{.type}} == access || {{.type}} == all'', ss_OnError = ''continue'', ss_Retries = 0\<rparr>,
       \<lparr>ss_Name = ''error_logs'', ss_Tool = ''local_shell'', ss_Action = [],
        ss_Args = [''command'' \<mapsto> JStr (''echo '' @ [CHR 0x22] @ ''=== Caddy '' @ [CHR 0xE9, CHR 0x94, CHR 0x99, CHR 0xE8,
     CHR 0xAF, CHR 0xAF, CHR 0xE6, CHR 0x97, CHR 0xA5, CHR 0xE5, CHR 0xBF, CHR 0x97] @
     '' ==='' @ [CHR 0x22] @ '' && tail -n {{.lines}} /var/log/caddy/error.log 2>/dev/null || echo '' @
     [CHR 0x22, CHR 0xE9, CHR 0x94, CHR 0x99, CHR 0xE8, CHR 0xAF, CHR 0xAF, CHR 0xE6,
     CHR 0x97, CHR 0xA5, CHR 0xE5, CHR 0xBF, CHR 0x97, CHR 0xE6, CHR 0x96, CHR 0x87,
     CHR 0xE4, CHR 0xBB, CHR 0xB6, CHR 0xE4, CHR 0xB8, CHR 0x8D, CHR 0xE5, CHR 0xAD,
     CHR 0x98, CHR 0xE5, CHR 0x9C, CHR 0xA8, CHR 0x22])],
        ss_Condition = ''{{.type}} == error || {{.type}} == all'', ss_OnError = ''continue'', ss_Retries = 0\<rparr>],
      sl_Timeout = 1 * Minute, sl_NeedConfirm = False\<rparr>"

definition NginxStatusSkill :: skill where
  "NginxStatusSkill =
     \<lparr>sl_Name = ''builtin:nginx_status'',
      sl_Description = ([CHR 0xE6, CHR 0xA3, CHR 0x80, CHR 0xE6, CHR 0x9F, CHR 0xA5] @ '' Nginx '' @ [CHR 0xE6,
     CHR 0x9C, CHR 0x8D, CHR 0xE5, CHR 0x8A, CHR 0xA1, CHR 0xE7, CHR 0x8A, CHR 0xB6,
     CHR 0xE6, CHR 0x80, CHR 0x81, CHR 0xE5, CHR 0x92, CHR 0x8C, CHR 0xE9, CHR 0x85,
     CHR 0x8D, CHR 0xE7, CHR 0xBD, CHR 0xAE]),
      sl_Version = ''1.0.0'', sl_Author = ''ServerOwl'', sl_Tags = [''nginx'', ''web'', ''status'', ''builtin''],
      sl_Parameters = [\<lparr>sp_Name = ''show_config'', sp_Type = ''bool'', sp_Description = [CHR 0xE6, CHR 0x98, CHR 0xBE, CHR 0xE7, CHR 0xA4, CHR 0xBA, CHR 0xE4, CHR 0xB8, CHR 0xBB,
     CHR 0xE9, CHR 0x85, CHR 0x8D, CHR 0xE7, CHR 0xBD, CHR 0xAE, CHR 0xE6, CHR 0x96,
     CHR 0x87, CHR 0xE4, CHR 0xBB, CHR 0xB6],
        sp_Required = False, sp_Default = JBool False\<rparr>],
      sl_Steps = [
       \<lparr>ss_Name = ''service_status'', ss_Tool = ''local_shell'', ss_Action = [],
        ss_Args = [''command'' \<mapsto> JStr (''echo '' @ [CHR 0x22] @ ''=== Nginx '' @ [CHR 0xE6, CHR 0x9C, CHR 0x8D, CHR 0xE5,
     CHR 0x8A, CHR 0xA1, CHR 0xE7, CHR 0x8A, CHR 0xB6, CHR 0xE6, CHR 0x80, CHR 0x81] @
     '' ==='' @ [CHR 0x22] @ '' && systemctl status nginx --no-pager 2>/dev/null || echo '' @
     [CHR 0x22] @ ''Nginx '' @ [CHR 0xE6, CHR 0x9C, CHR 0x8D, CHR 0xE5, CHR 0x8A, CHR 0xA1,
     CHR 0xE6, CHR 0x9C, CHR 0xAA, CHR 0xE5, CHR 0xAE, CHR 0x89, CHR 0xE8, CHR 0xA3,
     CHR 0x85, CHR 0xE6, CHR 0x88, CHR 0x96, CHR 0xE6, CHR 0x9C, CHR 0xAA, CHR 0xE8,
     CHR 0xBF, CHR 0x90, CHR 0xE8, CHR 0xA1, CHR 0x8C, CHR 0x22])],
        ss_Condition = [], ss_OnError = ''continue'', ss_Retries = 0\<rparr>,
       \<lparr>ss_Name = ''version'', ss_Tool = ''local_shell'', ss_Action = [],
        ss_Args = [''command'' \<mapsto> JStr (''echo '' @ [CHR 0x22] @ ''=== Nginx '' @ [CHR 0xE7, CHR 0x89, CHR 0x88, CHR 0xE6,
     CHR 0x9C, CHR 0xAC] @ '' ==='' @ [CHR 0x22] @ '' && nginx -v 2>&1'')],
        ss_Condition = [], ss_OnError = ''continue'', ss_Retries = 0\<rparr>,
       \<lparr>ss_Name = ''test_config'', ss_Tool = ''local_shell'', ss_Action = [],
        ss_Args = [''command'' \<mapsto> JStr (''echo '' @ [CHR 0x22] @ ''=== '' @ [CHR 0xE9, CHR 0x85, CHR 0x8D, CHR 0xE7, CHR 0xBD,
     CHR 0xAE, CHR 0xE6, CHR 0xB5, CHR 0x8B, CHR 0xE8, CHR 0xAF, CHR 0x95] @ '' ==='' @
     [CHR 0x22] @ '' && nginx -t 2>&1'')],
        ss_Condition = [], ss_OnError = ''continue'', ss_Retries = 0\<rparr>,
       \<lparr>ss_Name = ''show_config'', ss_Tool = ''local_shell'', ss_Action = [],
        ss_Args = [''command'' \<mapsto> JStr (''echo '' @ [CHR 0x22] @ ''=== Nginx '' @ [CHR 0xE4, CHR 0xB8, CHR 0xBB, CHR 0xE9,
     CHR 0x85, CHR 0x8D, CHR 0xE7, CHR 0xBD, CHR 0xAE] @ '' ==='' @ [CHR 0x22] @ '' && cat /etc/nginx/nginx.conf 2>/dev/null | head -100'')],
        ss_Condition = ''{{.show_config}} == true'', ss_OnError = ''continue'', ss_Retries = 0\<rparr>,
       \<lparr>ss_Name = ''listening_ports'', ss_Tool = ''local_shell'', ss_Action = [],
        ss_Args = [''command'' \<mapsto> JStr (''echo '' @ [CHR 0x22] @ ''=== Nginx '' @ [CHR 0xE7, CHR 0x9B, CHR 0x91, CHR 0xE5,
     CHR 0x90, CHR 0xAC, CHR 0xE7, CHR 0xAB, CHR 0xAF, CHR 0xE5, CHR 0x8F, CHR 0xA3] @
     '' ==='' @ [CHR 0x22] @ '' && ss -tlnp | grep nginx || echo '' @ [CHR 0x22, CHR 0xE6,
     CHR 0x9C, CHR 0xAA, CHR 0xE6, CHR 0xA3, CHR 0x80, CHR 0xE6, CHR 0xB5, CHR 0x8B,
     CHR 0xE5, CHR 0x88, CHR 0xB0] @ '' Nginx '' @ [CHR 0xE7, CHR 0x9B, CHR 0x91, CHR 0xE5,
     CHR 0x90, CHR 0xAC, CHR 0xE7, CHR 0xAB, CHR 0xAF, CHR 0xE5, CHR 0x8F, CHR 0xA3,
     CHR 0x22])],
        ss_Condition = [], ss_OnError = ''continue'', ss_Retries = 0\<rparr>,
       \<lparr>ss_Name = ''active_sites'', ss_Tool = ''local_shell'', ss_Action = [],
        ss_Args = [''command'' \<mapsto> JStr (''echo '' @ [CHR 0x22] @ ''=== '' @ [CHR 0xE5, CHR 0xB7, CHR 0xB2, CHR 0xE5, CHR 0x90,
     CHR 0xAF, CHR 0xE7, CHR 0x94, CHR 0xA8, CHR 0xE7, CHR 0xAB, CHR 0x99, CHR 0xE7,
     CHR 0x82, CHR 0xB9] @ '' ==='' @ [CHR 0x22] @ '' && ls -la /etc/nginx/sites-enabled/ 2>/dev/null || ls -la /etc/nginx/conf.d/*.conf 2>/dev/null || echo '' @
     [CHR 0x22, CHR 0xE6, CHR 0x9C, CHR 0xAA, CHR 0xE6, CHR 0x89, CHR 0xBE, CHR 0xE5,
     CHR 0x88, CHR 0xB0, CHR 0xE7, CHR 0xAB, CHR 0x99, CHR 0xE7, CHR 0x82, CHR 0xB9,
     CHR 0xE9, CHR 0x85, CHR 0x8D, CHR 0xE7, CHR 0xBD, CHR 0xAE, CHR 0x22])],
        ss_Condition = [], ss_OnError = ''continue'', ss_Retries = 0\<rparr>],
      sl_Timeout = 1 * Minute, sl_NeedConfirm = False\<rparr>"

definition NginxLogsSkill :: skill where
  "NginxLogsSkill =
     \<lparr>sl_Name = ''builtin:nginx_logs'',
      sl_Description = ([CHR 0xE6, CHR 0x9F, CHR 0xA5, CHR 0xE7, CHR 0x9C, CHR 0x8B] @ '' Nginx '' @ [CHR 0xE8,
     CHR 0xAE, CHR 0xBF, CHR 0xE9, CHR 0x97, CHR 0xAE, CHR 0xE6, CHR 0x97, CHR 0xA5,
     CHR 0xE5, CHR 0xBF, CHR 0x97, CHR 0xE5, CHR 0x92, CHR 0x8C, CHR 0xE9, CHR 0x94,
     CHR 0x99, CHR 0xE8, CHR 0xAF, CHR 0xAF, CHR 0xE6, CHR 0x97, CHR 0xA5, CHR 0xE5,
     CHR 0xBF, CHR 0x97]),
      sl_Version = ''1.0.0'', sl_Author = ''ServerOwl'', sl_Tags = [''nginx'', ''web'', ''logs'', ''builtin''],
      sl_Parameters = [\<lparr>sp_Name = ''lines'', sp_Type = ''int'', sp_Description = [CHR 0xE6, CHR 0x98, CHR 0xBE, CHR 0xE7, CHR 0xA4, CHR 0xBA, CHR 0xE8, CHR 0xA1, CHR 0x8C,
     CHR 0xE6, CHR 0x95, CHR 0xB0],
        sp_Required = False, sp_Default = JInt 50\<rparr>,
       \<lparr>sp_Name = ''type'', sp_Type = ''string'', sp_Description = ([CHR 0xE6, CHR 0x97, CHR 0xA5, CHR 0xE5, CHR 0xBF, CHR 0x97, CHR 0xE7, CHR 0xB1, CHR 0xBB,
     CHR 0xE5, CHR 0x9E, CHR 0x8B] @ '': access, error, all''),
        sp_Required = False, sp_Default = JStr ''all''\<rparr>,
       \<lparr>sp_Name = ''site'', sp_Type = ''string'', sp_Description = [CHR 0xE7, CHR 0xAB, CHR 0x99, CHR 0xE7, CHR 0x82, CHR 0xB9, CHR 0xE5, CHR 0x90, CHR 0x8D,
     CHR 0xE7, CHR 0xA7, CHR 0xB0, CHR 0xEF, CHR 0xBC, CHR 0x88, CHR 0xE7, CHR 0x95,
     CHR 0x99, CHR 0xE7, CHR 0xA9, CHR 0xBA, CHR 0xE6, CHR 0x9F, CHR 0xA5, CHR 0xE7,
     CHR 0x9C, CHR 0x8B, CHR 0xE4, CHR 0xB8, CHR 0xBB, CHR 0xE6, CHR 0x97, CHR 0xA5,
     CHR 0xE5, CHR 0xBF, CHR 0x97, CHR 0xEF, CHR 0xBC, CHR 0x89],
        sp_Required = False, sp_Default = JStr []\<rparr>],
      sl_Steps = [
       \<lparr>ss_Name = ''access_logs'', ss_Tool = ''local_shell'', ss_Action = [],
        ss_Args = [''command'' \<mapsto> JStr (''echo '' @ [CHR 0x22] @ ''=== Nginx '' @ [CHR 0xE8, CHR 0xAE, CHR 0xBF, CHR 0xE9,
     CHR 0x97, CHR 0xAE, CHR 0xE6, CHR 0x97, CHR 0xA5, CHR 0xE5, CHR 0xBF, CHR 0x97] @
     '' ==='' @ [CHR 0x22] @ '' && if [ '' @ [CHR 0x22] @ ''{{.site}}'' @ [CHR 0x22] @
     '' != '' @ [CHR 0x22, CHR 0x22] @ '' ]; then tail -n {{.lines}} /var/log/nginx/{{.site}}.access.log 2>/dev/null || tail -n {{.lines}} /var/log/nginx/{{.site}}_access.log 2>/dev/null; else tail -n {{.lines}} /var/log/nginx/access.log 2>/dev/null; fi || echo '' @
     [CHR 0x22, CHR 0xE8, CHR 0xAE, CHR 0xBF, CHR 0xE9, CHR 0x97, CHR 0xAE, CHR 0xE6,
     CHR 0x97, CHR 0xA5, CHR 0xE5, CHR 0xBF, CHR 0x97, CHR 0xE4, CHR 0xB8, CHR 0x8D,
     CHR 0xE5, CHR 0xAD, CHR 0x98, CHR 0xE5, CHR 0x9C, CHR 0xA8, CHR 0x22])],
        ss_Condition = ''{{.type}} == access || {{.type}} == all'', ss_OnError = ''continue'', ss_Retries = 0\<rparr>,
       \<lparr>ss_Name = ''error_logs'', ss_Tool = ''local_shell'', ss_Action = [],
        ss_Args = [''command'' \<mapsto> JStr (''echo '' @ [CHR 0x22] @ ''=== Nginx '' @ [CHR 0xE9, CHR 0x94, CHR 0x99, CHR 0xE8,
     CHR 0xAF, CHR 0xAF, CHR 0xE6, CHR 0x97, CHR 0xA5, CHR 0xE5, CHR 0xBF, CHR 0x97] @
     '' ==='' @ [CHR 0x22] @ '' && if [ '' @ [CHR 0x22] @ ''{{.site}}'' @ [CHR 0x22] @
     '' != '' @ [CHR 0x22, CHR 0x22] @ '' ]; then tail -n {{.lines}} /var/log/nginx/{{.site}}.error.log 2>/dev/null || tail -n {{.lines}} /var/log/nginx/{{.site}}_error.log 2>/dev/null; else tail -n {{.lines}} /var/log/nginx/error.log 2>/dev/null; fi || echo '' @
     [CHR 0x22, CHR 0xE9, CHR 0x94, CHR 0x99, CHR 0xE8, CHR 0xAF, CHR 0xAF, CHR 0xE6,
     CHR 0x97, CHR 0xA5, CHR 0xE5, CHR 0xBF, CHR 0x97, CHR 0xE4, CHR 0xB8, CHR 0x8D,
     CHR 0xE5, CHR 0xAD, CHR 0x98, CHR 0xE5, CHR 0x9C, CHR 0xA8, CHR 0x22])],
        ss_Condition = ''{{.type}} == error || {{.type}} == all'', ss_OnError = ''continue'', ss_Retries = 0\<rparr>],
      sl_Timeout = 1 * Minute, sl_NeedConfirm = False\<rparr>"

subsection \<open>\<open>cleanup.go\<close>\<close>

definition CleanupSkill :: skill where
  "CleanupSkill =
     \<lparr>sl_Name = ''builtin:cleanup'',
      sl_Description = ''General cleanup for temporary files and old data'',
      sl_Version = ''1.0.0'', sl_Author = ''ServerOwl'', sl_Tags = [''cleanup'', ''maintenance'', ''builtin''],
      sl_Parameters = [\<lparr>sp_Name = ''target_dir'', sp_Type = ''string'', sp_Description = ''Directory to clean'',
        sp_Required = True, sp_Default = JNull\<rparr>,
       \<lparr>sp_Name = ''pattern'', sp_Type = ''string'', sp_Description = ''File pattern to match (e.g., *.log, *.tmp)'',
        sp_Required = False, sp_Default = JStr ''*''\<rparr>,
       \<lparr>sp_Name = ''older_than_days'', sp_Type = ''int'', sp_Description = ''Delete files older than N days'',
        sp_Required = False, sp_Default = JInt 7\<rparr>,
       \<lparr>sp_Name = ''dry_run'', sp_Type = ''bool'', sp_Description = ''Show what would be deleted without deleting'',
        sp_Required = False, sp_Default = JBool False\<rparr>,
       \<lparr>sp_Name = ''min_size'', sp_Type = ''string'', sp_Description = ''Minimum file size to delete (e.g., 1M, 100K)'',
        sp_Required = False, sp_Default = JStr []\<rparr>],
      sl_Steps = [
       \<lparr>ss_Name = ''check_directory'', ss_Tool = ''local_shell'', ss_Action = [],
        ss_Args = [''command'' \<mapsto> JStr (''[ -d '' @ [CHR 0x22] @ ''{{.target_dir}}'' @ [CHR 0x22] @ '' ] && echo '' @ [CHR 0x22] @
     ''Directory exists: {{.target_dir}}'' @ [CHR 0x22] @ '' || (echo '' @ [CHR 0x22] @
     ''Directory not found: {{.target_dir}}'' @ [CHR 0x22] @ '' && exit 1)'')],
        ss_Condition = [], ss_OnError = ''stop'', ss_Retries = 0\<rparr>,
       \<lparr>ss_Name = ''calculate_size_before'', ss_Tool = ''local_shell'', ss_Action = [],
        ss_Args = [''command'' \<mapsto> JStr (''du -sh '' @ [CHR 0x22] @ ''{{.target_dir}}'' @ [CHR 0x22] @ '' 2>/dev/null || echo '' @
     [CHR 0x22] @ ''Unable to calculate size'' @ [CHR 0x22])],
        ss_Condition = [], ss_OnError = ''continue'', ss_Retries = 0\<rparr>,
       \<lparr>ss_Name = ''dry_run_list'', ss_Tool = ''local_shell'', ss_Action = [],
        ss_Args = [''command'' \<mapsto> JStr (''find '' @ [CHR 0x22] @ ''{{.target_dir}}'' @ [CHR 0x22] @ '' -name '' @ [CHR 0x22] @
     ''{{.pattern}}'' @ [CHR 0x22] @ '' -type f -mtime +{{.older_than_days}} {{if .min_size}}-size +{{.min_size}}{{end}} -print | head -50'')],
        ss_Condition = ''{{.dry_run}}'', ss_OnError = ''continue'', ss_Retries = 0\<rparr>,
       \<lparr>ss_Name = ''delete_files'', ss_Tool = ''local_shell'', ss_Action = [],
        ss_Args = [''command'' \<mapsto> JStr (''find '' @ [CHR 0x22] @ ''{{.target_dir}}'' @ [CHR 0x22] @ '' -name '' @ [CHR 0x22] @
     ''{{.pattern}}'' @ [CHR 0x22] @ '' -type f -mtime +{{.older_than_days}} {{if .min_size}}-size +{{.min_size}}{{end}} -delete -print | wc -l | xargs -I {} echo '' @
     [CHR 0x22] @ ''Deleted {} files'' @ [CHR 0x22])],
        ss_Condition = ''{{.dry_run}} != true'', ss_OnError = ''continue'', ss_Retries = 0\<rparr>,
       \<lparr>ss_Name = ''calculate_size_after'', ss_Tool = ''local_shell'', ss_Action = [],
        ss_Args = [''command'' \<mapsto> JStr (''du -sh '' @ [CHR 0x22] @ ''{{.target_dir}}'' @ [CHR 0x22] @ '' 2>/dev/null || echo '' @
     [CHR 0x22] @ ''Unable to calculate size'' @ [CHR 0x22])],
        ss_Condition = [], ss_OnError = ''continue'', ss_Retries = 0\<rparr>],
      sl_Timeout = 30 * Minute, sl_NeedConfirm = True\<rparr>"

definition DockerCleanupSkill :: skill where
  "DockerCleanupSkill =
     \<lparr>sl_Name = ''builtin:cleanup:docker'',
      sl_Description = ''Clean up Docker resources (images, containers, volumes, networks)'',
      sl_Version = ''1.0.0'', sl_Author = ''ServerOwl'', sl_Tags = [''cleanup'', ''docker'', ''maintenance'', ''builtin''],
      sl_Parameters = [\<lparr>sp_Name = ''prune_images'', sp_Type = ''bool'', sp_Description = ''Remove unused images'',
        sp_Required = False, sp_Default = JBool True\<rparr>,
       \<lparr>sp_Name = ''prune_containers'', sp_Type = ''bool'', sp_Description = ''Remove stopped containers'',
        sp_Required = False, sp_Default = JBool True\<rparr>,
       \<lparr>sp_Name = ''prune_volumes'', sp_Type = ''bool'', sp_Description = ''Remove unused volumes'',
        sp_Required = False, sp_Default = JBool False\<rparr>,
       \<lparr>sp_Name = ''prune_networks'', sp_Type = ''bool'', sp_Description = ''Remove unused networks'',
        sp_Required = False, sp_Default = JBool True\<rparr>,
       \<lparr>sp_Name = ''prune_all'', sp_Type = ''bool'', sp_Description = ''Remove all unused resources (system prune)'',
        sp_Required = False, sp_Default = JBool False\<rparr>,
       \<lparr>sp_Name = ''older_than'', sp_Type = ''string'', sp_Description = ''Remove resources older than (e.g., 24h, 7d)'',
        sp_Required = False, sp_Default = JStr ''24h''\<rparr>],
      sl_Steps = [
       \<lparr>ss_Name = ''disk_usage_before'', ss_Tool = ''local_shell'', ss_Action = [],
        ss_Args = [''command'' \<mapsto> JStr ''docker system df''],
        ss_Condition = [], ss_OnError = ''continue'', ss_Retries = 0\<rparr>,
       \<lparr>ss_Name = ''prune_all'', ss_Tool = ''local_shell'', ss_Action = [],
        ss_Args = [''command'' \<mapsto> JStr (''docker system prune -af --filter '' @ [CHR 0x27] @ ''until={{.older_than}}'' @ [CHR 0x27])],
        ss_Condition = ''{{.prune_all}}'', ss_OnError = ''continue'', ss_Retries = 0\<rparr>,
       \<lparr>ss_Name = ''prune_containers'', ss_Tool = ''local_shell'', ss_Action = [],
        ss_Args = [''command'' \<mapsto> JStr (''docker container prune -f --filter '' @ [CHR 0x27] @ ''until={{.older_than}}'' @ [CHR 0x27])],
        ss_Condition = ''{{.prune_containers}}'', ss_OnError = ''continue'', ss_Retries = 0\<rparr>,
       \<lparr>ss_Name = ''prune_images'', ss_Tool = ''local_shell'', ss_Action = [],
        ss_Args = [''command'' \<mapsto> JStr (''docker image prune -af --filter '' @ [CHR 0x27] @ ''until={{.older_than}}'' @ [CHR 0x27])],
        ss_Condition = ''{{.prune_images}}'', ss_OnError = ''continue'', ss_Retries = 0\<rparr>,
       \<lparr>ss_Name = ''prune_volumes'', ss_Tool = ''local_shell'', ss_Action = [],
        ss_Args = [''command'' \<mapsto> JStr ''docker volume prune -f''],
        ss_Condition = ''{{.prune_volumes}}'', ss_OnError = ''continue'', ss_Retries = 0\<rparr>,
       \<lparr>ss_Name = ''prune_networks'', ss_Tool = ''local_shell'', ss_Action = [],
        ss_Args = [''command'' \<mapsto> JStr (''docker network prune -f --filter '' @ [CHR 0x27] @ ''until={{.older_than}}'' @ [CHR 0x27])],
        ss_Condition = ''{{.prune_networks}}'', ss_OnError = ''continue'', ss_Retries = 0\<rparr>,
       \<lparr>ss_Name = ''disk_usage_after'', ss_Tool = ''local_shell'', ss_Action = [],
        ss_Args = [''command'' \<mapsto> JStr ''docker system df''],
        ss_Condition = [], ss_OnError = ''continue'', ss_Retries = 0\<rparr>],
      sl_Timeout = 30 * Minute, sl_NeedConfirm = True\<rparr>"

definition LogCleanupSkill :: skill where
  "LogCleanupSkill =
     \<lparr>sl_Name = ''builtin:cleanup:logs'',
      sl_Description = ''Clean up old log files'',
      sl_Version = ''1.0.0'', sl_Author = ''ServerOwl'', sl_Tags = [''cleanup'', ''logs'', ''maintenance'', ''builtin''],
      sl_Parameters = [\<lparr>sp_Name = ''log_dirs'', sp_Type = ''string'', sp_Description = ''Comma-separated list of log directories'',
        sp_Required = False, sp_Default = JStr ''/var/log''\<rparr>,
       \<lparr>sp_Name = ''older_than_days'', sp_Type = ''int'', sp_Description = ''Delete logs older than N days'',
        sp_Required = False, sp_Default = JInt 30\<rparr>,
       \<lparr>sp_Name = ''patterns'', sp_Type = ''string'', sp_Description = ''Comma-separated file patterns'',
        sp_Required = False, sp_Default = JStr ''*.log,*.log.*,*.gz''\<rparr>,
       \<lparr>sp_Name = ''max_size_mb'', sp_Type = ''int'', sp_Description = ''Truncate logs larger than N MB (0 to disable)'',
        sp_Required = False, sp_Default = JInt 0\<rparr>,
       \<lparr>sp_Name = ''compress_older_than_days'', sp_Type = ''int'', sp_Description = ''Compress logs older than N days (0 to disable)'',
        sp_Required = False, sp_Default = JInt 7\<rparr>],
      sl_Steps = [
       \<lparr>ss_Name = ''calculate_size_before'', ss_Tool = ''local_shell'', ss_Action = [],
        ss_Args = [''command'' \<mapsto> JStr (''for dir in $(echo '' @ [CHR 0x22] @ ''{{.log_dirs}}'' @ [CHR 0x22] @ '' | tr '' @
     [CHR 0x27] @ '','' @ [CHR 0x27] @ '' '' @ [CHR 0x27] @ '' '' @ [CHR 0x27] @ ''); do du -sh '' @
     [CHR 0x22] @ ''$dir'' @ [CHR 0x22] @ '' 2>/dev/null; done'')],
        ss_Condition = [], ss_OnError = ''continue'', ss_Retries = 0\<rparr>,
       \<lparr>ss_Name = ''compress_old_logs'', ss_Tool = ''local_shell'', ss_Action = [],
        ss_Args = [''command'' \<mapsto> JStr (''for dir in $(echo '' @ [CHR 0x22] @ ''{{.log_dirs}}'' @ [CHR 0x22] @ '' | tr '' @
     [CHR 0x27] @ '','' @ [CHR 0x27] @ '' '' @ [CHR 0x27] @ '' '' @ [CHR 0x27] @ ''); do find '' @
     [CHR 0x22] @ ''$dir'' @ [CHR 0x22] @ '' -name '' @ [CHR 0x22] @ ''*.log'' @ [CHR 0x22] @
     '' -type f -mtime +{{.compress_older_than_days}} ! -name '' @ [CHR 0x22] @ ''*.gz'' @
     [CHR 0x22] @ '' -exec gzip {} '' @ [CHR 0x5C] @ ''; 2>/dev/null; done; echo '' @
     [CHR 0x22] @ ''Compression complete'' @ [CHR 0x22])],
        ss_Condition = ''{{.compress_older_than_days}} != 0'', ss_OnError = ''continue'', ss_Retries = 0\<rparr>,
       \<lparr>ss_Name = ''delete_old_logs'', ss_Tool = ''local_shell'', ss_Action = [],
        ss_Args = [''command'' \<mapsto> JStr ([CHR 0x0A] @ ''DELETED=0'' @ [CHR 0x0A] @ ''for dir in $(echo '' @ [CHR 0x22] @ ''{{.log_dirs}}'' @
     [CHR 0x22] @ '' | tr '' @ [CHR 0x27] @ '','' @ [CHR 0x27] @ '' '' @ [CHR 0x27] @
     '' '' @ [CHR 0x27] @ ''); do'' @ [CHR 0x0A] @ ''  for pattern in $(echo '' @ [CHR 0x22] @
     ''{{.patterns}}'' @ [CHR 0x22] @ '' | tr '' @ [CHR 0x27] @ '','' @ [CHR 0x27] @
     '' '' @ [CHR 0x27] @ '' '' @ [CHR 0x27] @ ''); do'' @ [CHR 0x0A] @ ''    COUNT=$(find '' @
     [CHR 0x22] @ ''$dir'' @ [CHR 0x22] @ '' -name '' @ [CHR 0x22] @ ''$pattern'' @
     [CHR 0x22] @ '' -type f -mtime +{{.older_than_days}} -delete -print 2>/dev/null | wc -l)'' @
     [CHR 0x0A] @ ''    DELETED=$((DELETED + COUNT))'' @ [CHR 0x0A] @ ''  done'' @ [CHR 0x0A] @
     ''done'' @ [CHR 0x0A] @ ''echo '' @ [CHR 0x22] @ ''Deleted $DELETED files'' @ [CHR 0x22,
     CHR 0x0A])],
        ss_Condition = [], ss_OnError = ''continue'', ss_Retries = 0\<rparr>,
       \<lparr>ss_Name = ''truncate_large_logs'', ss_Tool = ''local_shell'', ss_Action = [],
        ss_Args = [''command'' \<mapsto> JStr ([CHR 0x0A] @ ''for dir in $(echo '' @ [CHR 0x22] @ ''{{.log_dirs}}'' @ [CHR 0x22] @
     '' | tr '' @ [CHR 0x27] @ '','' @ [CHR 0x27] @ '' '' @ [CHR 0x27] @ '' '' @ [CHR 0x27] @
     ''); do'' @ [CHR 0x0A] @ ''  find '' @ [CHR 0x22] @ ''$dir'' @ [CHR 0x22] @ '' -name '' @
     [CHR 0x22] @ ''*.log'' @ [CHR 0x22] @ '' -type f -size +{{.max_size_mb}}M -exec sh -c '' @
     [CHR 0x27] @ ''echo '' @ [CHR 0x22] @ ''Truncating: $1'' @ [CHR 0x22] @ ''; tail -c $(({{.max_size_mb}} * 1024 * 1024 / 2)) '' @
     [CHR 0x22] @ ''$1'' @ [CHR 0x22] @ '' > '' @ [CHR 0x22] @ ''$1.tmp'' @ [CHR 0x22] @
     '' && mv '' @ [CHR 0x22] @ ''$1.tmp'' @ [CHR 0x22] @ '' '' @ [CHR 0x22] @ ''$1'' @
     [CHR 0x22, CHR 0x27] @ '' _ {} '' @ [CHR 0x5C] @ ''; 2>/dev/null'' @ [CHR 0x0A] @
     ''done'' @ [CHR 0x0A] @ ''echo '' @ [CHR 0x22] @ ''Truncation complete'' @ [CHR 0x22,
     CHR 0x0A])],
        ss_Condition = ''{{.max_size_mb}} != 0'', ss_OnError = ''continue'', ss_Retries = 0\<rparr>,
       \<lparr>ss_Name = ''calculate_size_after'', ss_Tool = ''local_shell'', ss_Action = [],
        ss_Args = [''command'' \<mapsto> JStr (''for dir in $(echo '' @ [CHR 0x22] @ ''{{.log_dirs}}'' @ [CHR 0x22] @ '' | tr '' @
     [CHR 0x27] @ '','' @ [CHR 0x27] @ '' '' @ [CHR 0x27] @ '' '' @ [CHR 0x27] @ ''); do du -sh '' @
     [CHR 0x22] @ ''$dir'' @ [CHR 0x22] @ '' 2>/dev/null; done'')],
        ss_Condition = [], ss_OnError = ''continue'', ss_Retries = 0\<rparr>],
      sl_Timeout = 30 * Minute, sl_NeedConfirm = True\<rparr>"

subsection \<open>\<open>docker_stats.go\<close>\<close>

definition DockerStatsSkill :: skill where
  "DockerStatsSkill =
     \<lparr>sl_Name = ''builtin:docker_stats'',
      sl_Description = (''Docker '' @ [CHR 0xE5, CHR 0xAE, CHR 0xB9, CHR 0xE5, CHR 0x99, CHR 0xA8, CHR 0xE8,
     CHR 0xB5, CHR 0x84, CHR 0xE6, CHR 0xBA, CHR 0x90, CHR 0xE7, CHR 0xBB, CHR 0x9F,
     CHR 0xE8, CHR 0xAE, CHR 0xA1, CHR 0xEF, CHR 0xBC, CHR 0x88] @ ''CPU'' @ [CHR 0xE3,
     CHR 0x80, CHR 0x81, CHR 0xE5, CHR 0x86, CHR 0x85, CHR 0xE5, CHR 0xAD, CHR 0x98,
     CHR 0xE3, CHR 0x80, CHR 0x81, CHR 0xE7, CHR 0xBD, CHR 0x91, CHR 0xE7, CHR 0xBB,
     CHR 0x9C, CHR 0xE3, CHR 0x80, CHR 0x81, CHR 0xE7, CHR 0xA3, CHR 0x81, CHR 0xE7,
     CHR 0x9B, CHR 0x98, CHR 0xEF, CHR 0xBC, CHR 0x89]),
      sl_Version = ''1.0.0'', sl_Author = ''ServerOwl'', sl_Tags = [''docker'', ''stats'', ''monitoring'', ''builtin''],
      sl_Parameters = [\<lparr>sp_Name = ''container'', sp_Type = ''string'', sp_Description = [CHR 0xE5, CHR 0xAE, CHR 0xB9, CHR 0xE5, CHR 0x99, CHR 0xA8, CHR 0xE5, CHR 0x90, CHR 0x8D,
     CHR 0xE7, CHR 0xA7, CHR 0xB0, CHR 0xEF, CHR 0xBC, CHR 0x88, CHR 0xE7, CHR 0x95,
     CHR 0x99, CHR 0xE7, CHR 0xA9, CHR 0xBA, CHR 0xE6, CHR 0x98, CHR 0xBE, CHR 0xE7,
     CHR 0xA4, CHR 0xBA, CHR 0xE6, CHR 0x89, CHR 0x80, CHR 0xE6, CHR 0x9C, CHR 0x89,
     CHR 0xEF, CHR 0xBC, CHR 0x89],
        sp_Required = False, sp_Default = JStr []\<rparr>,
       \<lparr>sp_Name = ''format'', sp_Type = ''string'', sp_Description = ([CHR 0xE8, CHR 0xBE, CHR 0x93, CHR 0xE5, CHR 0x87, CHR 0xBA, CHR 0xE6, CHR 0xA0, CHR 0xBC,
     CHR 0xE5, CHR 0xBC, CHR 0x8F] @ '': table, json''),
        sp_Required = False, sp_Default = JStr ''table''\<rparr>],
      sl_Steps = [
       \<lparr>ss_Name = ''stats_all'', ss_Tool = ''local_shell'', ss_Action = [],
        ss_Args = [''command'' \<mapsto> JStr (''echo '' @ [CHR 0x22] @ ''=== Docker '' @ [CHR 0xE5, CHR 0xAE, CHR 0xB9, CHR 0xE5,
     CHR 0x99, CHR 0xA8, CHR 0xE8, CHR 0xB5, CHR 0x84, CHR 0xE6, CHR 0xBA, CHR 0x90,
     CHR 0xE7, CHR 0xBB, CHR 0x9F, CHR 0xE8, CHR 0xAE, CHR 0xA1] @ '' ==='' @ [CHR 0x22] @
     '' && docker stats --no-stream --format '' @ [CHR 0x22] @ ''table {{.Name}}'' @
     [CHR 0x5C] @ ''t{{.CPUPerc}}'' @ [CHR 0x5C] @ ''t{{.MemUsage}}'' @ [CHR 0x5C] @
     ''t{{.NetIO}}'' @ [CHR 0x5C] @ ''t{{.BlockIO}}'' @ [CHR 0x22])],
        ss_Condition = ''{{.container}} == '', ss_OnError = ''continue'', ss_Retries = 0\<rparr>,
       \<lparr>ss_Name = ''stats_single'', ss_Tool = ''local_shell'', ss_Action = [],
        ss_Args = [''command'' \<mapsto> JStr (''echo '' @ [CHR 0x22] @ ''=== '' @ [CHR 0xE5, CHR 0xAE, CHR 0xB9, CHR 0xE5, CHR 0x99,
     CHR 0xA8] @ '' {{.container}} '' @ [CHR 0xE8, CHR 0xB5, CHR 0x84, CHR 0xE6, CHR 0xBA,
     CHR 0x90, CHR 0xE7, CHR 0xBB, CHR 0x9F, CHR 0xE8, CHR 0xAE, CHR 0xA1] @ '' ==='' @
     [CHR 0x22] @ '' && docker stats {{.container}} --no-stream --format '' @ [CHR 0x22] @
     ''table {{.Name}}'' @ [CHR 0x5C] @ ''t{{.CPUPerc}}'' @ [CHR 0x5C] @ ''t{{.MemUsage}}'' @
     [CHR 0x5C] @ ''t{{.NetIO}}'' @ [CHR 0x5C] @ ''t{{.BlockIO}}'' @ [CHR 0x22])],
        ss_Condition = ''{{.container}} != '', ss_OnError = ''stop'', ss_Retries = 0\<rparr>,
       \<lparr>ss_Name = ''container_top'', ss_Tool = ''local_shell'', ss_Action = [],
        ss_Args = [''command'' \<mapsto> JStr (''echo '' @ [CHR 0x22] @ ''=== '' @ [CHR 0xE8, CHR 0xB5, CHR 0x84, CHR 0xE6, CHR 0xBA,
     CHR 0x90, CHR 0xE5, CHR 0x8D, CHR 0xA0, CHR 0xE7, CHR 0x94, CHR 0xA8] @ '' Top 5 ==='' @
     [CHR 0x22] @ '' && docker stats --no-stream --format '' @ [CHR 0x22] @ ''{{.Name}}: CPU {{.CPUPerc}}, Mem {{.MemPerc}}'' @
     [CHR 0x22] @ '' | sort -t: -k2 -rn | head -5'')],
        ss_Condition = [], ss_OnError = ''continue'', ss_Retries = 0\<rparr>,
       \<lparr>ss_Name = ''disk_usage'', ss_Tool = ''local_shell'', ss_Action = [],
        ss_Args = [''command'' \<mapsto> JStr (''echo '' @ [CHR 0x22] @ ''=== Docker '' @ [CHR 0xE7, CHR 0xA3, CHR 0x81, CHR 0xE7,
     CHR 0x9B, CHR 0x98, CHR 0xE4, CHR 0xBD, CHR 0xBF, CHR 0xE7, CHR 0x94, CHR 0xA8] @
     '' ==='' @ [CHR 0x22] @ '' && docker system df'')],
        ss_Condition = [], ss_OnError = ''continue'', ss_Retries = 0\<rparr>,
       \<lparr>ss_Name = ''running_count'', ss_Tool = ''local_shell'', ss_Action = [],
        ss_Args = [''command'' \<mapsto> JStr (''echo '' @ [CHR 0x22] @ ''=== '' @ [CHR 0xE5, CHR 0xAE, CHR 0xB9, CHR 0xE5, CHR 0x99,
     CHR 0xA8, CHR 0xE7, CHR 0x8A, CHR 0xB6, CHR 0xE6, CHR 0x80, CHR 0x81, CHR 0xE7,
     CHR 0xBB, CHR 0x9F, CHR 0xE8, CHR 0xAE, CHR 0xA1] @ '' ==='' @ [CHR 0x22] @ '' && echo '' @
     [CHR 0x22, CHR 0xE8, CHR 0xBF, CHR 0x90, CHR 0xE8, CHR 0xA1, CHR 0x8C, CHR 0xE4,
     CHR 0xB8, CHR 0xAD] @ '': $(docker ps -q | wc -l)'' @ [CHR 0x22] @ '' && echo '' @
     [CHR 0x22, CHR 0xE5, CHR 0xB7, CHR 0xB2, CHR 0xE5, CHR 0x81, CHR 0x9C, CHR 0xE6,
     CHR 0xAD, CHR 0xA2] @ '': $(docker ps -aq --filter '' @ [CHR 0x27] @ ''status=exited'' @
     [CHR 0x27] @ '' | wc -l)'' @ [CHR 0x22] @ '' && echo '' @ [CHR 0x22, CHR 0xE6,
     CHR 0x80, CHR 0xBB, CHR 0xE8, CHR 0xAE, CHR 0xA1] @ '': $(docker ps -aq | wc -l)'' @
     [CHR 0x22])],
        ss_Condition = [], ss_OnError = ''continue'', ss_Retries = 0\<rparr>],
      sl_Timeout = 2 * Minute, sl_NeedConfirm = False\<rparr>"

definition DockerInspectSkill :: skill where
  "DockerInspectSkill =
     \<lparr>sl_Name = ''builtin:docker_inspect'',
      sl_Description = ([CHR 0xE6, CHR 0x9F, CHR 0xA5, CHR 0xE7, CHR 0x9C, CHR 0x8B] @ '' Docker '' @ [CHR 0xE5,
     CHR 0xAE, CHR 0xB9, CHR 0xE5, CHR 0x99, CHR 0xA8, CHR 0xE8, CHR 0xAF, CHR 0xA6,
     CHR 0xE7, CHR 0xBB, CHR 0x86, CHR 0xE4, CHR 0xBF, CHR 0xA1, CHR 0xE6, CHR 0x81,
     CHR 0xAF]),
      sl_Version = ''1.0.0'', sl_Author = ''ServerOwl'', sl_Tags = [''docker'', ''inspect'', ''info'', ''builtin''],
      sl_Parameters = [\<lparr>sp_Name = ''container'', sp_Type = ''string'', sp_Description = ([CHR 0xE5, CHR 0xAE, CHR 0xB9, CHR 0xE5, CHR 0x99, CHR 0xA8, CHR 0xE5, CHR 0x90, CHR 0x8D,
     CHR 0xE7, CHR 0xA7, CHR 0xB0, CHR 0xE6, CHR 0x88, CHR 0x96] @ '' ID''),
        sp_Required = True, sp_Default = JNull\<rparr>],
      sl_Steps = [
       \<lparr>ss_Name = ''basic_info'', ss_Tool = ''local_shell'', ss_Action = [],
        ss_Args = [''command'' \<mapsto> JStr (''echo '' @ [CHR 0x22] @ ''=== '' @ [CHR 0xE5, CHR 0xAE, CHR 0xB9, CHR 0xE5, CHR 0x99,
     CHR 0xA8, CHR 0xE5, CHR 0x9F, CHR 0xBA, CHR 0xE6, CHR 0x9C, CHR 0xAC, CHR 0xE4,
     CHR 0xBF, CHR 0xA1, CHR 0xE6, CHR 0x81, CHR 0xAF] @ '' ==='' @ [CHR 0x22] @ '' && docker inspect {{.container}} --format '' @
     [CHR 0x22, CHR 0xE5, CHR 0x90, CHR 0x8D, CHR 0xE7, CHR 0xA7, CHR 0xB0] @ '': {{.Name}}'' @
     [CHR 0x0A] @ ''ID: {{.Id}}'' @ [CHR 0x0A, CHR 0xE9, CHR 0x95, CHR 0x9C, CHR 0xE5,
     CHR 0x83, CHR 0x8F] @ '': {{.Config.Image}}'' @ [CHR 0x0A, CHR 0xE7, CHR 0x8A,
     CHR 0xB6, CHR 0xE6, CHR 0x80, CHR 0x81] @ '': {{.State.Status}}'' @ [CHR 0x0A,
     CHR 0xE5, CHR 0x90, CHR 0xAF, CHR 0xE5, CHR 0x8A, CHR 0xA8, CHR 0xE6, CHR 0x97,
     CHR 0xB6, CHR 0xE9, CHR 0x97, CHR 0xB4] @ '': {{.State.StartedAt}}'' @ [CHR 0x0A,
     CHR 0xE9, CHR 0x87, CHR 0x8D, CHR 0xE5, CHR 0x90, CHR 0xAF, CHR 0xE6, CHR 0xAC,
     CHR 0xA1, CHR 0xE6, CHR 0x95, CHR 0xB0] @ '': {{.RestartCount}}'' @ [CHR 0x22])],
        ss_Condition = [], ss_OnError = ''stop'', ss_Retries = 0\<rparr>,
       \<lparr>ss_Name = ''network_info'', ss_Tool = ''local_shell'', ss_Action = [],
        ss_Args = [''command'' \<mapsto> JStr (''echo '' @ [CHR 0x22] @ ''=== '' @ [CHR 0xE7, CHR 0xBD, CHR 0x91, CHR 0xE7, CHR 0xBB,
     CHR 0x9C, CHR 0xE9, CHR 0x85, CHR 0x8D, CHR 0xE7, CHR 0xBD, CHR 0xAE] @ '' ==='' @
     [CHR 0x22] @ '' && docker inspect {{.container}} --format '' @ [CHR 0x22] @ ''{{range .NetworkSettings.Networks}}'' @
     [CHR 0xE7, CHR 0xBD, CHR 0x91, CHR 0xE7, CHR 0xBB, CHR 0x9C] @ '': {{.NetworkID}}'' @
     [CHR 0x0A] @ ''IP: {{.IPAddress}}'' @ [CHR 0x0A, CHR 0xE7, CHR 0xBD, CHR 0x91,
     CHR 0xE5, CHR 0x85, CHR 0xB3] @ '': {{.Gateway}}'' @ [CHR 0x0A] @ ''{{end}}'' @
     [CHR 0x22])],
        ss_Condition = [], ss_OnError = ''continue'', ss_Retries = 0\<rparr>,
       \<lparr>ss_Name = ''port_mappings'', ss_Tool = ''local_shell'', ss_Action = [],
        ss_Args = [''command'' \<mapsto> JStr (''echo '' @ [CHR 0x22] @ ''=== '' @ [CHR 0xE7, CHR 0xAB, CHR 0xAF, CHR 0xE5, CHR 0x8F,
     CHR 0xA3, CHR 0xE6, CHR 0x98, CHR 0xA0, CHR 0xE5, CHR 0xB0, CHR 0x84] @ '' ==='' @
     [CHR 0x22] @ '' && docker port {{.container}} 2>/dev/null || echo '' @ [CHR 0x22,
     CHR 0xE6, CHR 0x97, CHR 0xA0, CHR 0xE7, CHR 0xAB, CHR 0xAF, CHR 0xE5, CHR 0x8F,
     CHR 0xA3, CHR 0xE6, CHR 0x98, CHR 0xA0, CHR 0xE5, CHR 0xB0, CHR 0x84, CHR 0x22])],
        ss_Condition = [], ss_OnError = ''continue'', ss_Retries = 0\<rparr>,
       \<lparr>ss_Name = ''volume_mounts'', ss_Tool = ''local_shell'', ss_Action = [],
        ss_Args = [''command'' \<mapsto> JStr (''echo '' @ [CHR 0x22] @ ''=== '' @ [CHR 0xE6, CHR 0x8C, CHR 0x82, CHR 0xE8, CHR 0xBD,
     CHR 0xBD, CHR 0xE5, CHR 0x8D, CHR 0xB7] @ '' ==='' @ [CHR 0x22] @ '' && docker inspect {{.container}} --format '' @
     [CHR 0x22] @ ''{{range .Mounts}}{{.Type}}: {{.Source}} -> {{.Destination}}'' @
     [CHR 0x0A] @ ''{{end}}'' @ [CHR 0x22])],
        ss_Condition = [], ss_OnError = ''continue'', ss_Retries = 0\<rparr>,
       \<lparr>ss_Name = ''env_vars'', ss_Tool = ''local_shell'', ss_Action = [],
        ss_Args = [''command'' \<mapsto> JStr (''echo '' @ [CHR 0x22] @ ''=== '' @ [CHR 0xE7, CHR 0x8E, CHR 0xAF, CHR 0xE5, CHR 0xA2,
     CHR 0x83, CHR 0xE5, CHR 0x8F, CHR 0x98, CHR 0xE9, CHR 0x87, CHR 0x8F] @ '' ==='' @
     [CHR 0x22] @ '' && docker inspect {{.container}} --format '' @ [CHR 0x22] @ ''{{range .Config.Env}}{{.}}'' @
     [CHR 0x0A] @ ''{{end}}'' @ [CHR 0x22] @ '' | grep -v -E '' @ [CHR 0x22] @ ''(PASSWORD|SECRET|KEY|TOKEN)'' @
     [CHR 0x22] @ '' | head -20'')],
        ss_Condition = [], ss_OnError = ''continue'', ss_Retries = 0\<rparr>],
      sl_Timeout = 1 * Minute, sl_NeedConfirm = False\<rparr>"

definition DockerLogsAnalyzeSkill :: skill where
  "DockerLogsAnalyzeSkill =
     \<lparr>sl_Name = ''builtin:docker_logs_analyze'',
      sl_Description = ([CHR 0xE5, CHR 0x88, CHR 0x86, CHR 0xE6, CHR 0x9E, CHR 0x90] @ '' Docker '' @ [CHR 0xE5,
     CHR 0xAE, CHR 0xB9, CHR 0xE5, CHR 0x99, CHR 0xA8, CHR 0xE6, CHR 0x97, CHR 0xA5,
     CHR 0xE5, CHR 0xBF, CHR 0x97, CHR 0xE4, CHR 0xB8, CHR 0xAD, CHR 0xE7, CHR 0x9A,
     CHR 0x84, CHR 0xE9, CHR 0x94, CHR 0x99, CHR 0xE8, CHR 0xAF, CHR 0xAF, CHR 0xE5,
     CHR 0x92, CHR 0x8C, CHR 0xE8, CHR 0xAD, CHR 0xA6, CHR 0xE5, CHR 0x91, CHR 0x8A]),
      sl_Version = ''1.0.0'', sl_Author = ''ServerOwl'', sl_Tags = [''docker'', ''logs'', ''analyze'', ''builtin''],
      sl_Parameters = [\<lparr>sp_Name = ''container'', sp_Type = ''string'', sp_Description = [CHR 0xE5, CHR 0xAE, CHR 0xB9, CHR 0xE5, CHR 0x99, CHR 0xA8, CHR 0xE5, CHR 0x90, CHR 0x8D,
     CHR 0xE7, CHR 0xA7, CHR 0xB0],
        sp_Required = True, sp_Default = JNull\<rparr>,
       \<lparr>sp_Name = ''since'', sp_Type = ''string'', sp_Description = ([CHR 0xE6, CHR 0x97, CHR 0xB6, CHR 0xE9, CHR 0x97, CHR 0xB4, CHR 0xE8, CHR 0x8C, CHR 0x83,
     CHR 0xE5, CHR 0x9B, CHR 0xB4] @ '': 1h, 24h, 7d''),
        sp_Required = False, sp_Default = JStr ''1h''\<rparr>],
      sl_Steps = [
       \<lparr>ss_Name = ''error_count'', ss_Tool = ''local_shell'', ss_Action = [],
        ss_Args = [''command'' \<mapsto> JStr (''echo '' @ [CHR 0x22] @ ''=== '' @ [CHR 0xE9, CHR 0x94, CHR 0x99, CHR 0xE8, CHR 0xAF,
     CHR 0xAF, CHR 0xE7, CHR 0xBB, CHR 0x9F, CHR 0xE8, CHR 0xAE, CHR 0xA1] @ '' ==='' @
     [CHR 0x22] @ '' && docker logs {{.container}} --since {{.since}} 2>&1 | grep -ci '' @
     [CHR 0x22] @ ''error'' @ [CHR 0x5C] @ ''|exception'' @ [CHR 0x5C] @ ''|fatal'' @
     [CHR 0x5C] @ ''|panic'' @ [CHR 0x22] @ '' || echo '' @ [CHR 0x22] @ ''0'' @ [CHR 0x22])],
        ss_Condition = [], ss_OnError = ''continue'', ss_Retries = 0\<rparr>,
       \<lparr>ss_Name = ''warning_count'', ss_Tool = ''local_shell'', ss_Action = [],
        ss_Args = [''command'' \<mapsto> JStr (''echo '' @ [CHR 0x22] @ ''=== '' @ [CHR 0xE8, CHR 0xAD, CHR 0xA6, CHR 0xE5, CHR 0x91,
     CHR 0x8A, CHR 0xE7, CHR 0xBB, CHR 0x9F, CHR 0xE8, CHR 0xAE, CHR 0xA1] @ '' ==='' @
     [CHR 0x22] @ '' && docker logs {{.container}} --since {{.since}} 2>&1 | grep -ci '' @
     [CHR 0x22] @ ''warn'' @ [CHR 0x5C] @ ''|warning'' @ [CHR 0x22] @ '' || echo '' @
     [CHR 0x22] @ ''0'' @ [CHR 0x22])],
        ss_Condition = [], ss_OnError = ''continue'', ss_Retries = 0\<rparr>,
       \<lparr>ss_Name = ''recent_errors'', ss_Tool = ''local_shell'', ss_Action = [],
        ss_Args = [''command'' \<mapsto> JStr (''echo '' @ [CHR 0x22] @ ''=== '' @ [CHR 0xE6, CHR 0x9C, CHR 0x80, CHR 0xE8, CHR 0xBF,
     CHR 0x91, CHR 0xE9, CHR 0x94, CHR 0x99, CHR 0xE8, CHR 0xAF, CHR 0xAF] @ '' ==='' @
     [CHR 0x22] @ '' && docker logs {{.container}} --since {{.since}} 2>&1 | grep -i '' @
     [CHR 0x22] @ ''error'' @ [CHR 0x5C] @ ''|exception'' @ [CHR 0x5C] @ ''|fatal'' @
     [CHR 0x5C] @ ''|panic'' @ [CHR 0x22] @ '' | tail -20'')],
        ss_Condition = [], ss_OnError = ''continue'', ss_Retries = 0\<rparr>,
       \<lparr>ss_Name = ''recent_warnings'', ss_Tool = ''local_shell'', ss_Action = [],
        ss_Args = [''command'' \<mapsto> JStr (''echo '' @ [CHR 0x22] @ ''=== '' @ [CHR 0xE6, CHR 0x9C, CHR 0x80, CHR 0xE8, CHR 0xBF,
     CHR 0x91, CHR 0xE8, CHR 0xAD, CHR 0xA6, CHR 0xE5, CHR 0x91, CHR 0x8A] @ '' ==='' @
     [CHR 0x22] @ '' && docker logs {{.container}} --since {{.since}} 2>&1 | grep -i '' @
     [CHR 0x22] @ ''warn'' @ [CHR 0x5C] @ ''|warning'' @ [CHR 0x22] @ '' | tail -10'')],
        ss_Condition = [], ss_OnError = ''continue'', ss_Retries = 0\<rparr>],
      sl_Timeout = 3 * Minute, sl_NeedConfirm = False\<rparr>"

end
