(* ===== verification/Owl_BuiltinB.thy ===== *)
theory Owl_BuiltinB
  imports Owl_Skills
begin

text \<open>
  The built-in skills of \<open>internal/skills/builtin\<close> for firewalls, health checks, logs and networks (\<open>firewall.go\<close>, \<open>healthcheck.go\<close>, \<open>log_tail.go\<close>, \<open>network_diag.go\<close>).
  Each is the value its function returns; a default that is left out is nil.
\<close>

subsection \<open>\<open>firewall.go\<close>\<close>

definition FirewallStatusSkill :: skill where
  "FirewallStatusSkill =
     \<lparr>sl_Name = ''builtin:firewall_status'',
      sl_Description = ([CHR 0xE6, CHR 0xA3, CHR 0x80, CHR 0xE6, CHR 0x9F, CHR 0xA5, CHR 0xE9, CHR 0x98, CHR 0xB2,
     CHR 0xE7, CHR 0x81, CHR 0xAB, CHR 0xE5, CHR 0xA2, CHR 0x99, CHR 0xE7, CHR 0x8A,
     CHR 0xB6, CHR 0xE6, CHR 0x80, CHR 0x81, CHR 0xE5, CHR 0x92, CHR 0x8C, CHR 0xE8,
     CHR 0xA7, CHR 0x84, CHR 0xE5, CHR 0x88, CHR 0x99, CHR 0xEF, CHR 0xBC, CHR 0x88,
     CHR 0xE6, CHR 0x94, CHR 0xAF, CHR 0xE6, CHR 0x8C, CHR 0x81] @ '' ufw'' @ [CHR 0xE3,
     CHR 0x80, CHR 0x81] @ ''firewalld'' @ [CHR 0xE3, CHR 0x80, CHR 0x81] @ ''iptables'' @
     [CHR 0xEF, CHR 0xBC, CHR 0x89]),
      sl_Version = ''1.0.0'', sl_Author = ''ServerOwl'', sl_Tags = [''firewall'', ''security'', ''network'', ''builtin''],
      sl_Parameters = [\<lparr>sp_Name = ''show_rules'', sp_Type = ''bool'', sp_Description = [CHR 0xE6, CHR 0x98, CHR 0xBE, CHR 0xE7, CHR 0xA4, CHR 0xBA, CHR 0xE8, CHR 0xAF, CHR 0xA6,
     CHR 0xE7, CHR 0xBB, CHR 0x86, CHR 0xE8, CHR 0xA7, CHR 0x84, CHR 0xE5, CHR 0x88,
     CHR 0x99],
        sp_Required = False, sp_Default = JBool True\<rparr>],
      sl_Steps = [
       \<lparr>ss_Name = ''detect_firewall'', ss_Tool = ''local_shell'', ss_Action = [],
        ss_Args = [''command'' \<mapsto> JStr (''echo '' @ [CHR 0x22] @ ''=== '' @ [CHR 0xE6, CHR 0xA3, CHR 0x80, CHR 0xE6, CHR 0xB5,
     CHR 0x8B, CHR 0xE9, CHR 0x98, CHR 0xB2, CHR 0xE7, CHR 0x81, CHR 0xAB, CHR 0xE5,
     CHR 0xA2, CHR 0x99, CHR 0xE7, CHR 0xB1, CHR 0xBB, CHR 0xE5, CHR 0x9E, CHR 0x8B] @
     '' ==='' @ [CHR 0x22] @ '' && (which ufw > /dev/null && echo '' @ [CHR 0x22, CHR 0xE6,
     CHR 0xA3, CHR 0x80, CHR 0xE6, CHR 0xB5, CHR 0x8B, CHR 0xE5, CHR 0x88, CHR 0xB0] @
     '': ufw'' @ [CHR 0x22] @ '') || (which firewall-cmd > /dev/null && echo '' @ [CHR 0x22,
     CHR 0xE6, CHR 0xA3, CHR 0x80, CHR 0xE6, CHR 0xB5, CHR 0x8B, CHR 0xE5, CHR 0x88,
     CHR 0xB0] @ '': firewalld'' @ [CHR 0x22] @ '') || (which iptables > /dev/null && echo '' @
     [CHR 0x22, CHR 0xE6, CHR 0xA3, CHR 0x80, CHR 0xE6, CHR 0xB5, CHR 0x8B, CHR 0xE5,
     CHR 0x88, CHR 0xB0] @ '': iptables'' @ [CHR 0x22] @ '') || echo '' @ [CHR 0x22,
     CHR 0xE6, CHR 0x9C, CHR 0xAA, CHR 0xE6, CHR 0xA3, CHR 0x80, CHR 0xE6, CHR 0xB5,
     CHR 0x8B, CHR 0xE5, CHR 0x88, CHR 0xB0, CHR 0xE9, CHR 0x98, CHR 0xB2, CHR 0xE7,
     CHR 0x81, CHR 0xAB, CHR 0xE5, CHR 0xA2, CHR 0x99, CHR 0x22])],
        ss_Condition = [], ss_OnError = ''continue'', ss_Retries = 0\<rparr>,
       \<lparr>ss_Name = ''ufw_status'', ss_Tool = ''local_shell'', ss_Action = [],
        ss_Args = [''command'' \<mapsto> JStr (''if which ufw > /dev/null 2>&1; then echo '' @ [CHR 0x22] @ ''=== UFW '' @ [CHR 0xE7,
     CHR 0x8A, CHR 0xB6, CHR 0xE6, CHR 0x80, CHR 0x81] @ '' ==='' @ [CHR 0x22] @ '' && ufw status verbose 2>/dev/null; fi'')],
        ss_Condition = [], ss_OnError = ''continue'', ss_Retries = 0\<rparr>,
       \<lparr>ss_Name = ''firewalld_status'', ss_Tool = ''local_shell'', ss_Action = [],
        ss_Args = [''command'' \<mapsto> JStr (''if which firewall-cmd > /dev/null 2>&1; then echo '' @ [CHR 0x22] @ ''=== Firewalld '' @
     [CHR 0xE7, CHR 0x8A, CHR 0xB6, CHR 0xE6, CHR 0x80, CHR 0x81] @ '' ==='' @ [CHR 0x22] @
     '' && firewall-cmd --state 2>/dev/null && echo '' @ [CHR 0x22, CHR 0xE9, CHR 0xBB,
     CHR 0x98, CHR 0xE8, CHR 0xAE, CHR 0xA4, CHR 0xE5, CHR 0x8C, CHR 0xBA, CHR 0xE5,
     CHR 0x9F, CHR 0x9F] @ '': $(firewall-cmd --get-default-zone)'' @ [CHR 0x22] @ '' && echo '' @
     [CHR 0x22, CHR 0xE6, CHR 0xB4, CHR 0xBB, CHR 0xE5, CHR 0x8A, CHR 0xA8, CHR 0xE5,
     CHR 0x8C, CHR 0xBA, CHR 0xE5, CHR 0x9F, CHR 0x9F] @ '': $(firewall-cmd --get-active-zones | head -5)'' @
     [CHR 0x22] @ ''; fi'')],
        ss_Condition = [], ss_OnError = ''continue'', ss_Retries = 0\<rparr>,
       \<lparr>ss_Name = ''firewalld_rules'', ss_Tool = ''local_shell'', ss_Action = [],
        ss_Args = [''command'' \<mapsto> JStr (''if which firewall-cmd > /dev/null 2>&1; then echo '' @ [CHR 0x22] @ ''=== Firewalld '' @
     [CHR 0xE8, CHR 0xA7, CHR 0x84, CHR 0xE5, CHR 0x88, CHR 0x99] @ '' ==='' @ [CHR 0x22] @
     '' && firewall-cmd --list-all 2>/dev/null; fi'')],
        ss_Condition = ''{{.show_rules}} == true'', ss_OnError = ''continue'', ss_Retries = 0\<rparr>,
       \<lparr>ss_Name = ''iptables_rules'', ss_Tool = ''local_shell'', ss_Action = [],
        ss_Args = [''command'' \<mapsto> JStr (''echo '' @ [CHR 0x22] @ ''=== IPTables '' @ [CHR 0xE8, CHR 0xA7, CHR 0x84, CHR 0xE5,
     CHR 0x88, CHR 0x99] @ '' ==='' @ [CHR 0x22] @ '' && iptables -L -n --line-numbers 2>/dev/null | head -50'')],
        ss_Condition = ''{{.show_rules}} == true'', ss_OnError = ''continue'', ss_Retries = 0\<rparr>,
       \<lparr>ss_Name = ''open_ports'', ss_Tool = ''local_shell'', ss_Action = [],
        ss_Args = [''command'' \<mapsto> JStr (''echo '' @ [CHR 0x22] @ ''=== '' @ [CHR 0xE5, CHR 0xBC, CHR 0x80, CHR 0xE6, CHR 0x94,
     CHR 0xBE, CHR 0xE7, CHR 0xAB, CHR 0xAF, CHR 0xE5, CHR 0x8F, CHR 0xA3] @ '' ==='' @
     [CHR 0x22] @ '' && ss -tlnp | awk '' @ [CHR 0x27] @ ''NR>1 {print $4}'' @ [CHR 0x27] @
     '' | cut -d: -f2 | sort -n | uniq'')],
        ss_Condition = [], ss_OnError = ''continue'', ss_Retries = 0\<rparr>],
      sl_Timeout = 2 * Minute, sl_NeedConfirm = False\<rparr>"

definition FirewallAllowSkill :: skill where
  "FirewallAllowSkill =
     \<lparr>sl_Name = ''builtin:firewall_allow'',
      sl_Description = [CHR 0xE9, CHR 0x98, CHR 0xB2, CHR 0xE7, CHR 0x81, CHR 0xAB, CHR 0xE5, CHR 0xA2, CHR 0x99,
     CHR 0xE6, CHR 0x94, CHR 0xBE, CHR 0xE8, CHR 0xA1, CHR 0x8C, CHR 0xE7, CHR 0xAB,
     CHR 0xAF, CHR 0xE5, CHR 0x8F, CHR 0xA3],
      sl_Version = ''1.0.0'', sl_Author = ''ServerOwl'', sl_Tags = [''firewall'', ''security'', ''network'', ''builtin''],
      sl_Parameters = [\<lparr>sp_Name = ''port'', sp_Type = ''int'', sp_Description = [CHR 0xE7, CHR 0xAB, CHR 0xAF, CHR 0xE5, CHR 0x8F, CHR 0xA3, CHR 0xE5, CHR 0x8F, CHR 0xB7],
        sp_Required = True, sp_Default = JNull\<rparr>,
       \<lparr>sp_Name = ''protocol'', sp_Type = ''string'', sp_Description = ([CHR 0xE5, CHR 0x8D, CHR 0x8F, CHR 0xE8, CHR 0xAE, CHR 0xAE] @ '': tcp, udp, both''),
        sp_Required = False, sp_Default = JStr ''tcp''\<rparr>,
       \<lparr>sp_Name = ''source'', sp_Type = ''string'', sp_Description = ([CHR 0xE6, CHR 0x9D, CHR 0xA5, CHR 0xE6, CHR 0xBA, CHR 0x90] @ '' IP'' @ [CHR 0xEF,
     CHR 0xBC, CHR 0x88, CHR 0xE7, CHR 0x95, CHR 0x99, CHR 0xE7, CHR 0xA9, CHR 0xBA,
     CHR 0xE5, CHR 0x85, CHR 0x81, CHR 0xE8, CHR 0xAE, CHR 0xB8, CHR 0xE6, CHR 0x89,
     CHR 0x80, CHR 0xE6, CHR 0x9C, CHR 0x89, CHR 0xEF, CHR 0xBC, CHR 0x89]),
        sp_Required = False, sp_Default = JStr []\<rparr>],
      sl_Steps = [
       \<lparr>ss_Name = ''ufw_allow'', ss_Tool = ''local_shell'', ss_Action = [],
        ss_Args = [''command'' \<mapsto> JStr (''if which ufw > /dev/null 2>&1 && ufw status | grep -q '' @ [CHR 0x22] @ ''active'' @
     [CHR 0x22] @ ''; then'' @ [CHR 0x0A, CHR 0x09, CHR 0x09, CHR 0x09, CHR 0x09, CHR 0x09,
     CHR 0x09] @ ''echo '' @ [CHR 0x22] @ ''=== UFW '' @ [CHR 0xE6, CHR 0x94, CHR 0xBE,
     CHR 0xE8, CHR 0xA1, CHR 0x8C, CHR 0xE7, CHR 0xAB, CHR 0xAF, CHR 0xE5, CHR 0x8F,
     CHR 0xA3] @ '' {{.port}}/{{.protocol}} ==='' @ [CHR 0x22, CHR 0x0A, CHR 0x09,
     CHR 0x09, CHR 0x09, CHR 0x09, CHR 0x09, CHR 0x09] @ ''if [ '' @ [CHR 0x22] @ ''{{.source}}'' @
     [CHR 0x22] @ '' != '' @ [CHR 0x22, CHR 0x22] @ '' ]; then'' @ [CHR 0x0A, CHR 0x09,
     CHR 0x09, CHR 0x09, CHR 0x09, CHR 0x09, CHR 0x09, CHR 0x09] @ ''ufw allow from {{.source}} to any port {{.port}} proto {{.protocol}}'' @
     [CHR 0x0A, CHR 0x09, CHR 0x09, CHR 0x09, CHR 0x09, CHR 0x09, CHR 0x09] @ ''else'' @
     [CHR 0x0A, CHR 0x09, CHR 0x09, CHR 0x09, CHR 0x09, CHR 0x09, CHR 0x09, CHR 0x09] @
     ''ufw allow {{.port}}/{{.protocol}}'' @ [CHR 0x0A, CHR 0x09, CHR 0x09, CHR 0x09,
     CHR 0x09, CHR 0x09, CHR 0x09] @ ''fi'' @ [CHR 0x0A, CHR 0x09, CHR 0x09, CHR 0x09,
     CHR 0x09, CHR 0x09] @ ''fi'')],
        ss_Condition = [], ss_OnError = ''continue'', ss_Retries = 0\<rparr>,
       \<lparr>ss_Name = ''firewalld_allow'', ss_Tool = ''local_shell'', ss_Action = [],
        ss_Args = [''command'' \<mapsto> JStr (''if which firewall-cmd > /dev/null 2>&1 && firewall-cmd --state 2>/dev/null | grep -q '' @
     [CHR 0x22] @ ''running'' @ [CHR 0x22] @ ''; then'' @ [CHR 0x0A, CHR 0x09, CHR 0x09,
     CHR 0x09, CHR 0x09, CHR 0x09, CHR 0x09] @ ''echo '' @ [CHR 0x22] @ ''=== Firewalld '' @
     [CHR 0xE6, CHR 0x94, CHR 0xBE, CHR 0xE8, CHR 0xA1, CHR 0x8C, CHR 0xE7, CHR 0xAB,
     CHR 0xAF, CHR 0xE5, CHR 0x8F, CHR 0xA3] @ '' {{.port}}/{{.protocol}} ==='' @ [CHR 0x22,
     CHR 0x0A, CHR 0x09, CHR 0x09, CHR 0x09, CHR 0x09, CHR 0x09, CHR 0x09] @ ''firewall-cmd --permanent --add-port={{.port}}/{{.protocol}}'' @
     [CHR 0x0A, CHR 0x09, CHR 0x09, CHR 0x09, CHR 0x09, CHR 0x09, CHR 0x09] @ ''firewall-cmd --reload'' @
     [CHR 0x0A, CHR 0x09, CHR 0x09, CHR 0x09, CHR 0x09, CHR 0x09] @ ''fi'')],
        ss_Condition = [], ss_OnError = ''continue'', ss_Retries = 0\<rparr>,
       \<lparr>ss_Name = ''verify'', ss_Tool = ''local_shell'', ss_Action = [],
        ss_Args = [''command'' \<mapsto> JStr (''echo '' @ [CHR 0x22] @ ''=== '' @ [CHR 0xE9, CHR 0xAA, CHR 0x8C, CHR 0xE8, CHR 0xAF,
     CHR 0x81, CHR 0xE8, CHR 0xA7, CHR 0x84, CHR 0xE5, CHR 0x88, CHR 0x99] @ '' ==='' @
     [CHR 0x22] @ '' && (ufw status 2>/dev/null | grep {{.port}} || firewall-cmd --list-ports 2>/dev/null | grep {{.port}} || iptables -L -n | grep {{.port}})'')],
        ss_Condition = [], ss_OnError = ''continue'', ss_Retries = 0\<rparr>],
      sl_Timeout = 2 * Minute, sl_NeedConfirm = True\<rparr>"

definition FirewallDenySkill :: skill where
  "FirewallDenySkill =
     \<lparr>sl_Name = ''builtin:firewall_deny'',
      sl_Description = [CHR 0xE9, CHR 0x98, CHR 0xB2, CHR 0xE7, CHR 0x81, CHR 0xAB, CHR 0xE5, CHR 0xA2, CHR 0x99,
     CHR 0xE9, CHR 0x98, CHR 0xBB, CHR 0xE6, CHR 0xAD, CHR 0xA2, CHR 0xE7, CHR 0xAB,
     CHR 0xAF, CHR 0xE5, CHR 0x8F, CHR 0xA3],
      sl_Version = ''1.0.0'', sl_Author = ''ServerOwl'', sl_Tags = [''firewall'', ''security'', ''network'', ''builtin''],
      sl_Parameters = [\<lparr>sp_Name = ''port'', sp_Type = ''int'', sp_Description = [CHR 0xE7, CHR 0xAB, CHR 0xAF, CHR 0xE5, CHR 0x8F, CHR 0xA3, CHR 0xE5, CHR 0x8F, CHR 0xB7],
        sp_Required = True, sp_Default = JNull\<rparr>,
       \<lparr>sp_Name = ''protocol'', sp_Type = ''string'', sp_Description = ([CHR 0xE5, CHR 0x8D, CHR 0x8F, CHR 0xE8, CHR 0xAE, CHR 0xAE] @ '': tcp, udp''),
        sp_Required = False, sp_Default = JStr ''tcp''\<rparr>],
      sl_Steps = [
       \<lparr>ss_Name = ''ufw_deny'', ss_Tool = ''local_shell'', ss_Action = [],
        ss_Args = [''command'' \<mapsto> JStr (''if which ufw > /dev/null 2>&1 && ufw status | grep -q '' @ [CHR 0x22] @ ''active'' @
     [CHR 0x22] @ ''; then'' @ [CHR 0x0A, CHR 0x09, CHR 0x09, CHR 0x09, CHR 0x09, CHR 0x09,
     CHR 0x09] @ ''echo '' @ [CHR 0x22] @ ''=== UFW '' @ [CHR 0xE9, CHR 0x98, CHR 0xBB,
     CHR 0xE6, CHR 0xAD, CHR 0xA2, CHR 0xE7, CHR 0xAB, CHR 0xAF, CHR 0xE5, CHR 0x8F,
     CHR 0xA3] @ '' {{.port}}/{{.protocol}} ==='' @ [CHR 0x22, CHR 0x0A, CHR 0x09,
     CHR 0x09, CHR 0x09, CHR 0x09, CHR 0x09, CHR 0x09] @ ''ufw deny {{.port}}/{{.protocol}}'' @
     [CHR 0x0A, CHR 0x09, CHR 0x09, CHR 0x09, CHR 0x09, CHR 0x09] @ ''fi'')],
        ss_Condition = [], ss_OnError = ''continue'', ss_Retries = 0\<rparr>,
       \<lparr>ss_Name = ''firewalld_deny'', ss_Tool = ''local_shell'', ss_Action = [],
        ss_Args = [''command'' \<mapsto> JStr (''if which firewall-cmd > /dev/null 2>&1 && firewall-cmd --state 2>/dev/null | grep -q '' @
     [CHR 0x22] @ ''running'' @ [CHR 0x22] @ ''; then'' @ [CHR 0x0A, CHR 0x09, CHR 0x09,
     CHR 0x09, CHR 0x09, CHR 0x09, CHR 0x09] @ ''echo '' @ [CHR 0x22] @ ''=== Firewalld '' @
     [CHR 0xE7, CHR 0xA7, CHR 0xBB, CHR 0xE9, CHR 0x99, CHR 0xA4, CHR 0xE7, CHR 0xAB,
     CHR 0xAF, CHR 0xE5, CHR 0x8F, CHR 0xA3] @ '' {{.port}}/{{.protocol}} ==='' @ [CHR 0x22,
     CHR 0x0A, CHR 0x09, CHR 0x09, CHR 0x09, CHR 0x09, CHR 0x09, CHR 0x09] @ ''firewall-cmd --permanent --remove-port={{.port}}/{{.protocol}}'' @
     [CHR 0x0A, CHR 0x09, CHR 0x09, CHR 0x09, CHR 0x09, CHR 0x09, CHR 0x09] @ ''firewall-cmd --reload'' @
     [CHR 0x0A, CHR 0x09, CHR 0x09, CHR 0x09, CHR 0x09, CHR 0x09] @ ''fi'')],
        ss_Condition = [], ss_OnError = ''continue'', ss_Retries = 0\<rparr>,
       \<lparr>ss_Name = ''verify'', ss_Tool = ''local_shell'', ss_Action = [],
        ss_Args = [''command'' \<mapsto> JStr (''echo '' @ [CHR 0x22] @ ''=== '' @ [CHR 0xE9, CHR 0xAA, CHR 0x8C, CHR 0xE8, CHR 0xAF,
     CHR 0x81, CHR 0xE8, CHR 0xA7, CHR 0x84, CHR 0xE5, CHR 0x88, CHR 0x99] @ '' ==='' @
     [CHR 0x22] @ '' && (ufw status 2>/dev/null || firewall-cmd --list-all 2>/dev/null | head -20)'')],
        ss_Condition = [], ss_OnError = ''continue'', ss_Retries = 0\<rparr>],
      sl_Timeout = 2 * Minute, sl_NeedConfirm = True\<rparr>"

subsection \<open>\<open>healthcheck.go\<close>\<close>

definition healthcheckSteps :: "skill_step list" where
  "healthcheckSteps = [
       \<lparr>ss_Name = ''container_health'', ss_Tool = ''docker'', ss_Action = ''inspect'',
        ss_Args = [''target'' \<mapsto> JStr ''{{.target}}'', ''format'' \<mapsto> JStr ''{{.State.Health.Status}}''],
        ss_Condition = ''{{.check_type}} == container'', ss_OnError = ''continue'', ss_Retries = 0\<rparr>,
       \<lparr>ss_Name = ''container_running'', ss_Tool = ''docker'', ss_Action = ''inspect'',
        ss_Args = [''target'' \<mapsto> JStr ''{{.target}}'', ''format'' \<mapsto> JStr ''{{.State.Running}}''],
        ss_Condition = ''{{.check_type}} == container'', ss_OnError = ''stop'', ss_Retries = 0\<rparr>,
       \<lparr>ss_Name = ''http_check'', ss_Tool = ''local_shell'', ss_Action = [],
        ss_Args = [''command'' \<mapsto> JStr (''STATUS=$(curl -s -o /dev/null -w '' @ [CHR 0x22] @ ''%{http_code}'' @ [CHR 0x22] @
     '' --max-time {{.timeout}} '' @ [CHR 0x22] @ ''{{.target}}'' @ [CHR 0x22] @ '') && [ '' @
     [CHR 0x22] @ ''$STATUS'' @ [CHR 0x22] @ '' -eq {{.expected_status}} ] && echo '' @
     [CHR 0x22] @ ''HTTP OK: $STATUS'' @ [CHR 0x22] @ '' || (echo '' @ [CHR 0x22] @
     ''HTTP FAIL: $STATUS'' @ [CHR 0x22] @ '' && exit 1)'')],
        ss_Condition = ''{{.check_type}} == http'', ss_OnError = ''stop'', ss_Retries = 2\<rparr>,
       \<lparr>ss_Name = ''tcp_check'', ss_Tool = ''local_shell'', ss_Action = [],
        ss_Args = [''command'' \<mapsto> JStr (''nc -z -w {{.timeout}} {{.target}} {{.port}} && echo '' @ [CHR 0x22] @ ''TCP OK: {{.target}}:{{.port}}'' @
     [CHR 0x22] @ '' || (echo '' @ [CHR 0x22] @ ''TCP FAIL: {{.target}}:{{.port}}'' @
     [CHR 0x22] @ '' && exit 1)'')],
        ss_Condition = ''{{.check_type}} == tcp'', ss_OnError = ''stop'', ss_Retries = 2\<rparr>,
       \<lparr>ss_Name = ''process_check'', ss_Tool = ''local_shell'', ss_Action = [],
        ss_Args = [''command'' \<mapsto> JStr (''pgrep -f '' @ [CHR 0x22] @ ''{{.target}}'' @ [CHR 0x22] @ '' > /dev/null && echo '' @
     [CHR 0x22] @ ''Process OK: {{.target}}'' @ [CHR 0x22] @ '' || (echo '' @ [CHR 0x22] @
     ''Process NOT FOUND: {{.target}}'' @ [CHR 0x22] @ '' && exit 1)'')],
        ss_Condition = ''{{.check_type}} == process'', ss_OnError = ''stop'', ss_Retries = 0\<rparr>]"

definition HealthcheckSkill :: skill where
  "HealthcheckSkill =
     \<lparr>sl_Name = ''builtin:healthcheck'',
      sl_Description = ''Comprehensive health check for containers and services'',
      sl_Version = ''1.0.0'', sl_Author = ''ServerOwl'', sl_Tags = [''health'', ''monitoring'', ''builtin''],
      sl_Parameters = [\<lparr>sp_Name = ''target'', sp_Type = ''string'', sp_Description = ''Target to check (container name, URL, or host)'',
        sp_Required = True, sp_Default = JNull\<rparr>,
       \<lparr>sp_Name = ''check_type'', sp_Type = ''string'', sp_Description = ''Type of check: container, http, tcp, process'',
        sp_Required = False, sp_Default = JStr ''container''\<rparr>,
       \<lparr>sp_Name = ''port'', sp_Type = ''int'', sp_Description = ''Port for TCP/HTTP checks'',
        sp_Required = False, sp_Default = JInt 80\<rparr>,
       \<lparr>sp_Name = ''timeout'', sp_Type = ''int'', sp_Description = ''Timeout in seconds'',
        sp_Required = False, sp_Default = JInt 10\<rparr>,
       \<lparr>sp_Name = ''expected_status'', sp_Type = ''int'', sp_Description = ''Expected HTTP status code'',
        sp_Required = False, sp_Default = JInt 200\<rparr>],
      sl_Steps = healthcheckSteps,
      sl_Timeout = 5 * Minute, sl_NeedConfirm = False\<rparr>"

definition SystemHealthSkill :: skill where
  "SystemHealthSkill =
     \<lparr>sl_Name = ''builtin:healthcheck:system'',
      sl_Description = ''Check system resources (CPU, memory, disk)'',
      sl_Version = ''1.0.0'', sl_Author = ''ServerOwl'', sl_Tags = [''health'', ''system'', ''monitoring'', ''builtin''],
      sl_Parameters = [\<lparr>sp_Name = ''cpu_threshold'', sp_Type = ''int'', sp_Description = ''CPU usage threshold percentage'',
        sp_Required = False, sp_Default = JInt 80\<rparr>,
       \<lparr>sp_Name = ''memory_threshold'', sp_Type = ''int'', sp_Description = ''Memory usage threshold percentage'',
        sp_Required = False, sp_Default = JInt 80\<rparr>,
       \<lparr>sp_Name = ''disk_threshold'', sp_Type = ''int'', sp_Description = ''Disk usage threshold percentage'',
        sp_Required = False, sp_Default = JInt 85\<rparr>,
       \<lparr>sp_Name = ''disk_path'', sp_Type = ''string'', sp_Description = ''Disk path to check'',
        sp_Required = False, sp_Default = JStr ''/''\<rparr>],
      sl_Steps = [
       \<lparr>ss_Name = ''check_cpu'', ss_Tool = ''local_shell'', ss_Action = [],
        ss_Args = [''command'' \<mapsto> JStr (''CPU=$(top -bn1 | grep '' @ [CHR 0x22] @ ''Cpu(s)'' @ [CHR 0x22] @ '' | awk '' @ [CHR 0x27] @
     ''{print int($2)}'' @ [CHR 0x27] @ '') && [ '' @ [CHR 0x22] @ ''$CPU'' @ [CHR 0x22] @
     '' -lt {{.cpu_threshold}} ] && echo '' @ [CHR 0x22] @ ''CPU OK: ${CPU}%'' @ [CHR 0x22] @
     '' || (echo '' @ [CHR 0x22] @ ''CPU HIGH: ${CPU}%'' @ [CHR 0x22] @ '' && exit 1)'')],
        ss_Condition = [], ss_OnError = ''continue'', ss_Retries = 0\<rparr>,
       \<lparr>ss_Name = ''check_memory'', ss_Tool = ''local_shell'', ss_Action = [],
        ss_Args = [''command'' \<mapsto> JStr (''MEM=$(free | grep Mem | awk '' @ [CHR 0x27] @ ''{printf '' @ [CHR 0x22] @ ''%.0f'' @
     [CHR 0x22] @ '', $3/$2 * 100}'' @ [CHR 0x27] @ '') && [ '' @ [CHR 0x22] @ ''$MEM'' @
     [CHR 0x22] @ '' -lt {{.memory_threshold}} ] && echo '' @ [CHR 0x22] @ ''Memory OK: ${MEM}%'' @
     [CHR 0x22] @ '' || (echo '' @ [CHR 0x22] @ ''Memory HIGH: ${MEM}%'' @ [CHR 0x22] @
     '' && exit 1)'')],
        ss_Condition = [], ss_OnError = ''continue'', ss_Retries = 0\<rparr>,
       \<lparr>ss_Name = ''check_disk'', ss_Tool = ''local_shell'', ss_Action = [],
        ss_Args = [''command'' \<mapsto> JStr (''DISK=$(df {{.disk_path}} | tail -1 | awk '' @ [CHR 0x27] @ ''{print int($5)}'' @ [CHR 0x27] @
     '') && [ '' @ [CHR 0x22] @ ''$DISK'' @ [CHR 0x22] @ '' -lt {{.disk_threshold}} ] && echo '' @
     [CHR 0x22] @ ''Disk OK: ${DISK}%'' @ [CHR 0x22] @ '' || (echo '' @ [CHR 0x22] @
     ''Disk HIGH: ${DISK}%'' @ [CHR 0x22] @ '' && exit 1)'')],
        ss_Condition = [], ss_OnError = ''continue'', ss_Retries = 0\<rparr>,
       \<lparr>ss_Name = ''check_load'', ss_Tool = ''local_shell'', ss_Action = [],
        ss_Args = [''command'' \<mapsto> JStr (''LOAD=$(cat /proc/loadavg | awk '' @ [CHR 0x27] @ ''{print $1}'' @ [CHR 0x27] @ '') && echo '' @
     [CHR 0x22] @ ''Load Average: $LOAD'' @ [CHR 0x22])],
        ss_Condition = [], ss_OnError = ''continue'', ss_Retries = 0\<rparr>,
       \<lparr>ss_Name = ''summary'', ss_Tool = ''local_shell'', ss_Action = [],
        ss_Args = [''command'' \<mapsto> JStr (''echo '' @ [CHR 0x22] @ ''=== System Health Summary ==='' @ [CHR 0x22] @ '' && uptime && free -h | head -2 && df -h {{.disk_path}} | tail -1'')],
        ss_Condition = [], ss_OnError = ''continue'', ss_Retries = 0\<rparr>],
      sl_Timeout = 2 * Minute, sl_NeedConfirm = False\<rparr>"

definition DockerHealthSkill :: skill where
  "DockerHealthSkill =
     \<lparr>sl_Name = ''builtin:healthcheck:docker'',
      sl_Description = ''Check Docker daemon and container health'',
      sl_Version = ''1.0.0'', sl_Author = ''ServerOwl'', sl_Tags = [''health'', ''docker'', ''monitoring'', ''builtin''],
      sl_Parameters = [\<lparr>sp_Name = ''check_all_containers'', sp_Type = ''bool'', sp_Description = ''Check all containers including stopped'',
        sp_Required = False, sp_Default = JBool False\<rparr>,
       \<lparr>sp_Name = ''container_filter'', sp_Type = ''string'', sp_Description = ''Filter containers by name pattern'',
        sp_Required = False, sp_Default = JStr []\<rparr>],
      sl_Steps = [
       \<lparr>ss_Name = ''docker_info'', ss_Tool = ''local_shell'', ss_Action = [],
        ss_Args = [''command'' \<mapsto> JStr (''docker info --format '' @ [CHR 0x27] @ ''{{.ServerVersion}}'' @ [CHR 0x27] @ '' 2>/dev/null && echo '' @
     [CHR 0x27] @ ''Docker daemon: OK'' @ [CHR 0x27] @ '' || echo '' @ [CHR 0x27] @
     ''Docker daemon: FAIL'' @ [CHR 0x27])],
        ss_Condition = [], ss_OnError = ''stop'', ss_Retries = 0\<rparr>,
       \<lparr>ss_Name = ''list_containers'', ss_Tool = ''docker'', ss_Action = ''ps'',
        ss_Args = [''all'' \<mapsto> JStr ''{{.check_all_containers}}'', ''filter'' \<mapsto> JStr ''{{.container_filter}}''],
        ss_Condition = [], ss_OnError = ''continue'', ss_Retries = 0\<rparr>,
       \<lparr>ss_Name = ''unhealthy_containers'', ss_Tool = ''local_shell'', ss_Action = [],
        ss_Args = [''command'' \<mapsto> JStr (''docker ps --filter '' @ [CHR 0x22] @ ''health=unhealthy'' @ [CHR 0x22] @ '' --format '' @
     [CHR 0x22] @ ''{{.Names}}: {{.Status}}'' @ [CHR 0x22] @ '' | head -10'')],
        ss_Condition = [], ss_OnError = ''continue'', ss_Retries = 0\<rparr>,
       \<lparr>ss_Name = ''exited_containers'', ss_Tool = ''local_shell'', ss_Action = [],
        ss_Args = [''command'' \<mapsto> JStr (''docker ps -a --filter '' @ [CHR 0x22] @ ''status=exited'' @ [CHR 0x22] @ '' --format '' @
     [CHR 0x22] @ ''{{.Names}}: exited {{.Status}}'' @ [CHR 0x22] @ '' | head -10'')],
        ss_Condition = [], ss_OnError = ''continue'', ss_Retries = 0\<rparr>,
       \<lparr>ss_Name = ''disk_usage'', ss_Tool = ''local_shell'', ss_Action = [],
        ss_Args = [''command'' \<mapsto> JStr ''docker system df''],
        ss_Condition = [], ss_OnError = ''continue'', ss_Retries = 0\<rparr>],
      sl_Timeout = 5 * Minute, sl_NeedConfirm = False\<rparr>"

definition ServiceHealthSkill :: skill where
  "ServiceHealthSkill =
     \<lparr>sl_Name = ''builtin:healthcheck:service'',
      sl_Description = ''Check health of a specific service with multiple endpoints'',
      sl_Version = ''1.0.0'', sl_Author = ''ServerOwl'', sl_Tags = [''health'', ''service'', ''monitoring'', ''builtin''],
      sl_Parameters = [\<lparr>sp_Name = ''container'', sp_Type = ''string'', sp_Description = ''Container name'',
        sp_Required = True, sp_Default = JNull\<rparr>,
       \<lparr>sp_Name = ''health_endpoint'', sp_Type = ''string'', sp_Description = ''Health check endpoint URL'',
        sp_Required = False, sp_Default = JStr []\<rparr>,
       \<lparr>sp_Name = ''port'', sp_Type = ''int'', sp_Description = ''Service port'',
        sp_Required = False, sp_Default = JInt 8080\<rparr>,
       \<lparr>sp_Name = ''log_lines'', sp_Type = ''int'', sp_Description = ''Number of recent log lines to show'',
        sp_Required = False, sp_Default = JInt 10\<rparr>],
      sl_Steps = [
       \<lparr>ss_Name = ''container_status'', ss_Tool = ''docker'', ss_Action = ''inspect'',
        ss_Args = [''target'' \<mapsto> JStr ''{{.container}}'', ''format'' \<mapsto> JStr ''Status: {{.State.Status}}, Running: {{.State.Running}}''],
        ss_Condition = [], ss_OnError = ''stop'', ss_Retries = 0\<rparr>,
       \<lparr>ss_Name = ''container_health'', ss_Tool = ''docker'', ss_Action = ''inspect'',
        ss_Args = [''target'' \<mapsto> JStr ''{{.container}}'', ''format'' \<mapsto> JStr ''Health: {{.State.Health.Status}}''],
        ss_Condition = [], ss_OnError = ''continue'', ss_Retries = 0\<rparr>,
       \<lparr>ss_Name = ''endpoint_check'', ss_Tool = ''local_shell'', ss_Action = [],
        ss_Args = [''command'' \<mapsto> JStr (''curl -sf --max-time 10 '' @ [CHR 0x22] @ ''{{.health_endpoint}}'' @ [CHR 0x22] @ '' && echo '' @
     [CHR 0x22] @ ''Endpoint OK'' @ [CHR 0x22] @ '' || echo '' @ [CHR 0x22] @ ''Endpoint FAIL'' @
     [CHR 0x22])],
        ss_Condition = ''{{.health_endpoint}} != '', ss_OnError = ''continue'', ss_Retries = 2\<rparr>,
       \<lparr>ss_Name = ''recent_logs'', ss_Tool = ''docker'', ss_Action = ''logs'',
        ss_Args = [''container'' \<mapsto> JStr ''{{.container}}'', ''tail'' \<mapsto> JStr ''{{.log_lines}}''],
        ss_Condition = [], ss_OnError = ''continue'', ss_Retries = 0\<rparr>,
       \<lparr>ss_Name = ''resource_usage'', ss_Tool = ''local_shell'', ss_Action = [],
        ss_Args = [''command'' \<mapsto> JStr (''docker stats {{.container}} --no-stream --format '' @ [CHR 0x27] @ ''CPU: {{.CPUPerc}}, Memory: {{.MemUsage}}'' @
     [CHR 0x27])],
        ss_Condition = [], ss_OnError = ''continue'', ss_Retries = 0\<rparr>],
      sl_Timeout = 5 * Minute, sl_NeedConfirm = False\<rparr>"

subsection \<open>\<open>log_tail.go\<close>\<close>

definition LogTailSkill :: skill where
  "LogTailSkill =
     \<lparr>sl_Name = ''builtin:log_tail'',
      sl_Description = [CHR 0xE6, CHR 0x9F, CHR 0xA5, CHR 0xE7, CHR 0x9C, CHR 0x8B, CHR 0xE6, CHR 0x9C, CHR 0x80,
     CHR 0xE8, CHR 0xBF, CHR 0x91, CHR 0xE6, CHR 0x97, CHR 0xA5, CHR 0xE5, CHR 0xBF,
     CHR 0x97, CHR 0xEF, CHR 0xBC, CHR 0x88, CHR 0xE6, CHR 0x94, CHR 0xAF, CHR 0xE6,
     CHR 0x8C, CHR 0x81, CHR 0xE7, CHR 0xB3, CHR 0xBB, CHR 0xE7, CHR 0xBB, CHR 0x9F,
     CHR 0xE6, CHR 0x97, CHR 0xA5, CHR 0xE5, CHR 0xBF, CHR 0x97, CHR 0xE3, CHR 0x80,
     CHR 0x81, CHR 0xE6, CHR 0x9C, CHR 0x8D, CHR 0xE5, CHR 0x8A, CHR 0xA1, CHR 0xE6,
     CHR 0x97, CHR 0xA5, CHR 0xE5, CHR 0xBF, CHR 0x97, CHR 0xE3, CHR 0x80, CHR 0x81,
     CHR 0xE6, CHR 0x96, CHR 0x87, CHR 0xE4, CHR 0xBB, CHR 0xB6, CHR 0xE6, CHR 0x97,
     CHR 0xA5, CHR 0xE5, CHR 0xBF, CHR 0x97, CHR 0xEF, CHR 0xBC, CHR 0x89],
      sl_Version = ''1.0.0'', sl_Author = ''ServerOwl'', sl_Tags = [''log'', ''tail'', ''monitoring'', ''builtin''],
      sl_Parameters = [\<lparr>sp_Name = ''source'', sp_Type = ''string'', sp_Description = ([CHR 0xE6, CHR 0x97, CHR 0xA5, CHR 0xE5, CHR 0xBF, CHR 0x97, CHR 0xE6, CHR 0x9D, CHR 0xA5,
     CHR 0xE6, CHR 0xBA, CHR 0x90] @ '': system, service, file, docker''),
        sp_Required = False, sp_Default = JStr ''system''\<rparr>,
       \<lparr>sp_Name = ''target'', sp_Type = ''string'', sp_Description = [CHR 0xE7, CHR 0x9B, CHR 0xAE, CHR 0xE6, CHR 0xA0, CHR 0x87, CHR 0xEF, CHR 0xBC, CHR 0x88,
     CHR 0xE6, CHR 0x9C, CHR 0x8D, CHR 0xE5, CHR 0x8A, CHR 0xA1, CHR 0xE5, CHR 0x90,
     CHR 0x8D, CHR 0xE3, CHR 0x80, CHR 0x81, CHR 0xE6, CHR 0x96, CHR 0x87, CHR 0xE4,
     CHR 0xBB, CHR 0xB6, CHR 0xE8, CHR 0xB7, CHR 0xAF, CHR 0xE5, CHR 0xBE, CHR 0x84,
     CHR 0xE6, CHR 0x88, CHR 0x96, CHR 0xE5, CHR 0xAE, CHR 0xB9, CHR 0xE5, CHR 0x99,
     CHR 0xA8, CHR 0xE5, CHR 0x90, CHR 0x8D, CHR 0xEF, CHR 0xBC, CHR 0x89],
        sp_Required = False, sp_Default = JStr []\<rparr>,
       \<lparr>sp_Name = ''lines'', sp_Type = ''int'', sp_Description = [CHR 0xE6, CHR 0x98, CHR 0xBE, CHR 0xE7, CHR 0xA4, CHR 0xBA, CHR 0xE8, CHR 0xA1, CHR 0x8C,
     CHR 0xE6, CHR 0x95, CHR 0xB0],
        sp_Required = False, sp_Default = JInt 50\<rparr>,
       \<lparr>sp_Name = ''filter'', sp_Type = ''string'', sp_Description = ([CHR 0xE8, CHR 0xBF, CHR 0x87, CHR 0xE6, CHR 0xBB, CHR 0xA4, CHR 0xE5, CHR 0x85, CHR 0xB3,
     CHR 0xE9, CHR 0x94, CHR 0xAE, CHR 0xE8, CHR 0xAF, CHR 0x8D, CHR 0xEF, CHR 0xBC,
     CHR 0x88] @ ''grep'' @ [CHR 0xEF, CHR 0xBC, CHR 0x89]),
        sp_Required = False, sp_Default = JStr []\<rparr>,
       \<lparr>sp_Name = ''level'', sp_Type = ''string'', sp_Description = ([CHR 0xE6, CHR 0x97, CHR 0xA5, CHR 0xE5, CHR 0xBF, CHR 0x97, CHR 0xE7, CHR 0xBA, CHR 0xA7,
     CHR 0xE5, CHR 0x88, CHR 0xAB, CHR 0xE8, CHR 0xBF, CHR 0x87, CHR 0xE6, CHR 0xBB,
     CHR 0xA4] @ '': error, warn, info''),
        sp_Required = False, sp_Default = JStr []\<rparr>],
      sl_Steps = [
       \<lparr>ss_Name = ''system_log'', ss_Tool = ''local_shell'', ss_Action = [],
        ss_Args = [''command'' \<mapsto> JStr ''journalctl -n {{.lines}} --no-pager 2>/dev/null || tail -n {{.lines}} /var/log/syslog 2>/dev/null || tail -n {{.lines}} /var/log/messages''],
        ss_Condition = ''{{.source}} == system'', ss_OnError = ''continue'', ss_Retries = 0\<rparr>,
       \<lparr>ss_Name = ''service_log'', ss_Tool = ''local_shell'', ss_Action = [],
        ss_Args = [''command'' \<mapsto> JStr ''journalctl -u {{.target}} -n {{.lines}} --no-pager''],
        ss_Condition = ''{{.source}} == service'', ss_OnError = ''stop'', ss_Retries = 0\<rparr>,
       \<lparr>ss_Name = ''file_log'', ss_Tool = ''local_shell'', ss_Action = [],
        ss_Args = [''command'' \<mapsto> JStr ''tail -n {{.lines}} {{.target}}''],
        ss_Condition = ''{{.source}} == file'', ss_OnError = ''stop'', ss_Retries = 0\<rparr>,
       \<lparr>ss_Name = ''docker_log'', ss_Tool = ''docker'', ss_Action = ''logs'',
        ss_Args = [''container'' \<mapsto> JStr ''{{.target}}'', ''tail'' \<mapsto> JStr ''{{.lines}}''],
        ss_Condition = ''{{.source}} == docker'', ss_OnError = ''stop'', ss_Retries = 0\<rparr>,
       \<lparr>ss_Name = ''filter_errors'', ss_Tool = ''local_shell'', ss_Action = [],
        ss_Args = [''command'' \<mapsto> JStr (''journalctl -p err -n {{.lines}} --no-pager 2>/dev/null || grep -i '' @ [CHR 0x22] @
     ''error'' @ [CHR 0x5C] @ ''|fail'' @ [CHR 0x5C] @ ''|critical'' @ [CHR 0x22] @
     '' /var/log/syslog | tail -n {{.lines}}'')],
        ss_Condition = ''{{.level}} == error'', ss_OnError = ''continue'', ss_Retries = 0\<rparr>,
       \<lparr>ss_Name = ''filter_warnings'', ss_Tool = ''local_shell'', ss_Action = [],
        ss_Args = [''command'' \<mapsto> JStr (''journalctl -p warning -n {{.lines}} --no-pager 2>/dev/null || grep -i '' @ [CHR 0x22] @
     ''warn'' @ [CHR 0x22] @ '' /var/log/syslog | tail -n {{.lines}}'')],
        ss_Condition = ''{{.level}} == warn'', ss_OnError = ''continue'', ss_Retries = 0\<rparr>],
      sl_Timeout = 2 * Minute, sl_NeedConfirm = False\<rparr>"

definition LogSearchSkill :: skill where
  "LogSearchSkill =
     \<lparr>sl_Name = ''builtin:log_search'',
      sl_Description = [CHR 0xE5, CHR 0x9C, CHR 0xA8, CHR 0xE6, CHR 0x97, CHR 0xA5, CHR 0xE5, CHR 0xBF, CHR 0x97,
     CHR 0xE4, CHR 0xB8, CHR 0xAD, CHR 0xE6, CHR 0x90, CHR 0x9C, CHR 0xE7, CHR 0xB4,
     CHR 0xA2, CHR 0xE5, CHR 0x85, CHR 0xB3, CHR 0xE9, CHR 0x94, CHR 0xAE, CHR 0xE8,
     CHR 0xAF, CHR 0x8D],
      sl_Version = ''1.0.0'', sl_Author = ''ServerOwl'', sl_Tags = [''log'', ''search'', ''grep'', ''builtin''],
      sl_Parameters = [\<lparr>sp_Name = ''keyword'', sp_Type = ''string'', sp_Description = [CHR 0xE6, CHR 0x90, CHR 0x9C, CHR 0xE7, CHR 0xB4, CHR 0xA2, CHR 0xE5, CHR 0x85, CHR 0xB3,
     CHR 0xE9, CHR 0x94, CHR 0xAE, CHR 0xE8, CHR 0xAF, CHR 0x8D],
        sp_Required = True, sp_Default = JNull\<rparr>,
       \<lparr>sp_Name = ''path'', sp_Type = ''string'', sp_Description = [CHR 0xE6, CHR 0x97, CHR 0xA5, CHR 0xE5, CHR 0xBF, CHR 0x97, CHR 0xE6, CHR 0x96, CHR 0x87,
     CHR 0xE4, CHR 0xBB, CHR 0xB6, CHR 0xE8, CHR 0xB7, CHR 0xAF, CHR 0xE5, CHR 0xBE,
     CHR 0x84],
        sp_Required = False, sp_Default = JStr ''/var/log''\<rparr>,
       \<lparr>sp_Name = ''max_results'', sp_Type = ''int'', sp_Description = [CHR 0xE6, CHR 0x9C, CHR 0x80, CHR 0xE5, CHR 0xA4, CHR 0xA7, CHR 0xE7, CHR 0xBB, CHR 0x93,
     CHR 0xE6, CHR 0x9E, CHR 0x9C, CHR 0xE6, CHR 0x95, CHR 0xB0],
        sp_Required = False, sp_Default = JInt 100\<rparr>,
       \<lparr>sp_Name = ''time_range'', sp_Type = ''string'', sp_Description = ([CHR 0xE6, CHR 0x97, CHR 0xB6, CHR 0xE9, CHR 0x97, CHR 0xB4, CHR 0xE8, CHR 0x8C, CHR 0x83,
     CHR 0xE5, CHR 0x9B, CHR 0xB4] @ '': 1h, 24h, 7d''),
        sp_Required = False, sp_Default = JStr ''24h''\<rparr>],
      sl_Steps = [
       \<lparr>ss_Name = ''search_journalctl'', ss_Tool = ''local_shell'', ss_Action = [],
        ss_Args = [''command'' \<mapsto> JStr (''journalctl --since '' @ [CHR 0x22] @ ''{{.time_range}} ago'' @ [CHR 0x22] @ '' --no-pager 2>/dev/null | grep -i '' @
     [CHR 0x22] @ ''{{.keyword}}'' @ [CHR 0x22] @ '' | tail -n {{.max_results}}'')],
        ss_Condition = [], ss_OnError = ''continue'', ss_Retries = 0\<rparr>,
       \<lparr>ss_Name = ''search_files'', ss_Tool = ''local_shell'', ss_Action = [],
        ss_Args = [''command'' \<mapsto> JStr (''find {{.path}} -name '' @ [CHR 0x22] @ ''*.log'' @ [CHR 0x22] @ '' -mtime -1 -exec grep -l -i '' @
     [CHR 0x22] @ ''{{.keyword}}'' @ [CHR 0x22] @ '' {} '' @ [CHR 0x5C] @ ''; 2>/dev/null | head -20'')],
        ss_Condition = [], ss_OnError = ''continue'', ss_Retries = 0\<rparr>],
      sl_Timeout = 3 * Minute, sl_NeedConfirm = False\<rparr>"

subsection \<open>\<open>network_diag.go\<close>\<close>

definition NetworkDiagSkill :: skill where
  "NetworkDiagSkill =
     \<lparr>sl_Name = ''builtin:network_diag'',
      sl_Description = ([CHR 0xE7, CHR 0xBD, CHR 0x91, CHR 0xE7, CHR 0xBB, CHR 0x9C, CHR 0xE8, CHR 0xAF, CHR 0x8A,
     CHR 0xE6, CHR 0x96, CHR 0xAD, CHR 0xEF, CHR 0xBC, CHR 0x88] @ ''ping'' @ [CHR 0xE3,
     CHR 0x80, CHR 0x81] @ ''traceroute'' @ [CHR 0xE3, CHR 0x80, CHR 0x81] @ ''DNS'' @
     [CHR 0xE3, CHR 0x80, CHR 0x81, CHR 0xE7, CHR 0xAB, CHR 0xAF, CHR 0xE5, CHR 0x8F,
     CHR 0xA3, CHR 0xE6, CHR 0xA3, CHR 0x80, CHR 0xE6, CHR 0xB5, CHR 0x8B, CHR 0xEF,
     CHR 0xBC, CHR 0x89]),
      sl_Version = ''1.0.0'', sl_Author = ''ServerOwl'', sl_Tags = [''network'', ''diagnostic'', ''ping'', ''dns'', ''builtin''],
      sl_Parameters = [\<lparr>sp_Name = ''target'', sp_Type = ''string'', sp_Description = ([CHR 0xE7, CHR 0x9B, CHR 0xAE, CHR 0xE6, CHR 0xA0, CHR 0x87, CHR 0xE4, CHR 0xB8, CHR 0xBB,
     CHR 0xE6, CHR 0x9C, CHR 0xBA, CHR 0xE6, CHR 0x88, CHR 0x96] @ '' IP''),
        sp_Required = True, sp_Default = JNull\<rparr>,
       \<lparr>sp_Name = ''check_type'', sp_Type = ''string'', sp_Description = ([CHR 0xE6, CHR 0xA3, CHR 0x80, CHR 0xE6, CHR 0x9F, CHR 0xA5, CHR 0xE7, CHR 0xB1, CHR 0xBB,
     CHR 0xE5, CHR 0x9E, CHR 0x8B] @ '': all, ping, traceroute, dns, port''),
        sp_Required = False, sp_Default = JStr ''all''\<rparr>,
       \<lparr>sp_Name = ''port'', sp_Type = ''int'', sp_Description = ([CHR 0xE7, CHR 0xAB, CHR 0xAF, CHR 0xE5, CHR 0x8F, CHR 0xA3, CHR 0xE5, CHR 0x8F, CHR 0xB7,
     CHR 0xEF, CHR 0xBC, CHR 0x88] @ ''port '' @ [CHR 0xE6, CHR 0xA3, CHR 0x80, CHR 0xE6,
     CHR 0x9F, CHR 0xA5, CHR 0xE6, CHR 0x97, CHR 0xB6, CHR 0xE4, CHR 0xBD, CHR 0xBF,
     CHR 0xE7, CHR 0x94, CHR 0xA8, CHR 0xEF, CHR 0xBC, CHR 0x89]),
        sp_Required = False, sp_Default = JInt 80\<rparr>,
       \<lparr>sp_Name = ''count'', sp_Type = ''int'', sp_Description = (''ping '' @ [CHR 0xE6, CHR 0xAC, CHR 0xA1, CHR 0xE6, CHR 0x95, CHR 0xB0]),
        sp_Required = False, sp_Default = JInt 4\<rparr>],
      sl_Steps = [
       \<lparr>ss_Name = ''ping_test'', ss_Tool = ''local_shell'', ss_Action = [],
        ss_Args = [''command'' \<mapsto> JStr (''echo '' @ [CHR 0x22] @ ''=== Ping '' @ [CHR 0xE6, CHR 0xB5, CHR 0x8B, CHR 0xE8, CHR 0xAF,
     CHR 0x95] @ '' ==='' @ [CHR 0x22] @ '' && ping -c {{.count}} {{.target}} 2>&1 || echo '' @
     [CHR 0x22] @ ''Ping '' @ [CHR 0xE5, CHR 0xA4, CHR 0xB1, CHR 0xE8, CHR 0xB4, CHR 0xA5,
     CHR 0x22])],
        ss_Condition = ''{{.check_type}} == all || {{.check_type}} == ping'', ss_OnError = ''continue'', ss_Retries = 0\<rparr>,
       \<lparr>ss_Name = ''dns_lookup'', ss_Tool = ''local_shell'', ss_Action = [],
        ss_Args = [''command'' \<mapsto> JStr (''echo '' @ [CHR 0x22] @ ''=== DNS '' @ [CHR 0xE8, CHR 0xA7, CHR 0xA3, CHR 0xE6, CHR 0x9E,
     CHR 0x90] @ '' ==='' @ [CHR 0x22] @ '' && nslookup {{.target}} 2>&1 || dig {{.target}} +short 2>&1 || host {{.target}} 2>&1'')],
        ss_Condition = ''{{.check_type}} == all || {{.check_type}} == dns'', ss_OnError = ''continue'', ss_Retries = 0\<rparr>,
       \<lparr>ss_Name = ''traceroute_test'', ss_Tool = ''local_shell'', ss_Action = [],
        ss_Args = [''command'' \<mapsto> JStr (''echo '' @ [CHR 0x22] @ ''=== '' @ [CHR 0xE8, CHR 0xB7, CHR 0xAF, CHR 0xE7, CHR 0x94,
     CHR 0xB1, CHR 0xE8, CHR 0xBF, CHR 0xBD, CHR 0xE8, CHR 0xB8, CHR 0xAA] @ '' ==='' @
     [CHR 0x22] @ '' && traceroute -m 15 {{.target}} 2>&1 || tracepath {{.target}} 2>&1 | head -20'')],
        ss_Condition = ''{{.check_type}} == all || {{.check_type}} == traceroute'', ss_OnError = ''continue'', ss_Retries = 0\<rparr>,
       \<lparr>ss_Name = ''port_test'', ss_Tool = ''local_shell'', ss_Action = [],
        ss_Args = [''command'' \<mapsto> JStr (''echo '' @ [CHR 0x22] @ ''=== '' @ [CHR 0xE7, CHR 0xAB, CHR 0xAF, CHR 0xE5, CHR 0x8F,
     CHR 0xA3, CHR 0xE6, CHR 0xA3, CHR 0x80, CHR 0xE6, CHR 0xB5, CHR 0x8B] @ '' {{.target}}:{{.port}} ==='' @
     [CHR 0x22] @ '' && (nc -zv -w 5 {{.target}} {{.port}} 2>&1 && echo '' @ [CHR 0x22,
     CHR 0xE7, CHR 0xAB, CHR 0xAF, CHR 0xE5, CHR 0x8F, CHR 0xA3] @ '' {{.port}} '' @
     [CHR 0xE5, CHR 0xBC, CHR 0x80, CHR 0xE6, CHR 0x94, CHR 0xBE, CHR 0x22] @ '') || (echo '' @
     [CHR 0x22, CHR 0xE7, CHR 0xAB, CHR 0xAF, CHR 0xE5, CHR 0x8F, CHR 0xA3] @ '' {{.port}} '' @
     [CHR 0xE5, CHR 0x85, CHR 0xB3, CHR 0xE9, CHR 0x97, CHR 0xAD, CHR 0xE6, CHR 0x88,
     CHR 0x96, CHR 0xE4, CHR 0xB8, CHR 0x8D, CHR 0xE5, CHR 0x8F, CHR 0xAF, CHR 0xE8,
     CHR 0xBE, CHR 0xBE, CHR 0x22] @ '')'')],
        ss_Condition = ''{{.check_type}} == all || {{.check_type}} == port'', ss_OnError = ''continue'', ss_Retries = 0\<rparr>,
       \<lparr>ss_Name = ''curl_test'', ss_Tool = ''local_shell'', ss_Action = [],
        ss_Args = [''command'' \<mapsto> JStr (''echo '' @ [CHR 0x22] @ ''=== HTTP '' @ [CHR 0xE8, CHR 0xBF, CHR 0x9E, CHR 0xE6, CHR 0x8E,
     CHR 0xA5, CHR 0xE6, CHR 0xB5, CHR 0x8B, CHR 0xE8, CHR 0xAF, CHR 0x95] @ '' ==='' @
     [CHR 0x22] @ '' && curl -sI --connect-timeout 5 '' @ [CHR 0x22] @ ''http://{{.target}}'' @
     [CHR 0x22] @ '' 2>&1 | head -10 || echo '' @ [CHR 0x22] @ ''HTTP '' @ [CHR 0xE8,
     CHR 0xBF, CHR 0x9E, CHR 0xE6, CHR 0x8E, CHR 0xA5, CHR 0xE5, CHR 0xA4, CHR 0xB1,
     CHR 0xE8, CHR 0xB4, CHR 0xA5, CHR 0x22])],
        ss_Condition = ''{{.check_type}} == all'', ss_OnError = ''continue'', ss_Retries = 0\<rparr>],
      sl_Timeout = 3 * Minute, sl_NeedConfirm = False\<rparr>"

definition PortCheckSkill :: skill where
  "PortCheckSkill =
     \<lparr>sl_Name = ''builtin:port_check'',
      sl_Description = [CHR 0xE6, CHR 0xA3, CHR 0x80, CHR 0xE6, CHR 0x9F, CHR 0xA5, CHR 0xE7, CHR 0xAB, CHR 0xAF,
     CHR 0xE5, CHR 0x8F, CHR 0xA3, CHR 0xE5, CHR 0x8D, CHR 0xA0, CHR 0xE7, CHR 0x94,
     CHR 0xA8, CHR 0xE6, CHR 0x83, CHR 0x85, CHR 0xE5, CHR 0x86, CHR 0xB5],
      sl_Version = ''1.0.0'', sl_Author = ''ServerOwl'', sl_Tags = [''network'', ''port'', ''diagnostic'', ''builtin''],
      sl_Parameters = [\<lparr>sp_Name = ''port'', sp_Type = ''int'', sp_Description = [CHR 0xE8, CHR 0xA6, CHR 0x81, CHR 0xE6, CHR 0xA3, CHR 0x80, CHR 0xE6, CHR 0x9F, CHR 0xA5,
     CHR 0xE7, CHR 0x9A, CHR 0x84, CHR 0xE7, CHR 0xAB, CHR 0xAF, CHR 0xE5, CHR 0x8F,
     CHR 0xA3, CHR 0xE5, CHR 0x8F, CHR 0xB7],
        sp_Required = False, sp_Default = JInt 0\<rparr>,
       \<lparr>sp_Name = ''show_all'', sp_Type = ''bool'', sp_Description = [CHR 0xE6, CHR 0x98, CHR 0xBE, CHR 0xE7, CHR 0xA4, CHR 0xBA, CHR 0xE6, CHR 0x89, CHR 0x80,
     CHR 0xE6, CHR 0x9C, CHR 0x89, CHR 0xE7, CHR 0x9B, CHR 0x91, CHR 0xE5, CHR 0x90,
     CHR 0xAC, CHR 0xE7, CHR 0xAB, CHR 0xAF, CHR 0xE5, CHR 0x8F, CHR 0xA3],
        sp_Required = False, sp_Default = JBool False\<rparr>],
      sl_Steps = [
       \<lparr>ss_Name = ''check_specific_port'', ss_Tool = ''local_shell'', ss_Action = [],
        ss_Args = [''command'' \<mapsto> JStr (''echo '' @ [CHR 0x22] @ ''=== '' @ [CHR 0xE7, CHR 0xAB, CHR 0xAF, CHR 0xE5, CHR 0x8F,
     CHR 0xA3] @ '' {{.port}} '' @ [CHR 0xE5, CHR 0x8D, CHR 0xA0, CHR 0xE7, CHR 0x94,
     CHR 0xA8, CHR 0xE6, CHR 0x83, CHR 0x85, CHR 0xE5, CHR 0x86, CHR 0xB5] @ '' ==='' @
     [CHR 0x22] @ '' && ss -tlnp | grep '' @ [CHR 0x22] @ '':{{.port}} '' @ [CHR 0x22] @
     '' || echo '' @ [CHR 0x22, CHR 0xE7, CHR 0xAB, CHR 0xAF, CHR 0xE5, CHR 0x8F, CHR 0xA3] @
     '' {{.port}} '' @ [CHR 0xE6, CHR 0x9C, CHR 0xAA, CHR 0xE8, CHR 0xA2, CHR 0xAB,
     CHR 0xE5, CHR 0x8D, CHR 0xA0, CHR 0xE7, CHR 0x94, CHR 0xA8, CHR 0x22])],
        ss_Condition = ''{{.port}} > 0'', ss_OnError = ''continue'', ss_Retries = 0\<rparr>,
       \<lparr>ss_Name = ''list_all_ports'', ss_Tool = ''local_shell'', ss_Action = [],
        ss_Args = [''command'' \<mapsto> JStr (''echo '' @ [CHR 0x22] @ ''=== '' @ [CHR 0xE6, CHR 0x89, CHR 0x80, CHR 0xE6, CHR 0x9C,
     CHR 0x89, CHR 0xE7, CHR 0x9B, CHR 0x91, CHR 0xE5, CHR 0x90, CHR 0xAC, CHR 0xE7,
     CHR 0xAB, CHR 0xAF, CHR 0xE5, CHR 0x8F, CHR 0xA3] @ '' ==='' @ [CHR 0x22] @ '' && ss -tlnp | head -30'')],
        ss_Condition = ''{{.show_all}} == true || {{.port}} == 0'', ss_OnError = ''continue'', ss_Retries = 0\<rparr>,
       \<lparr>ss_Name = ''port_process'', ss_Tool = ''local_shell'', ss_Action = [],
        ss_Args = [''command'' \<mapsto> JStr (''echo '' @ [CHR 0x22] @ ''=== '' @ [CHR 0xE7, CHR 0xAB, CHR 0xAF, CHR 0xE5, CHR 0x8F,
     CHR 0xA3, CHR 0xE4, CHR 0xB8, CHR 0x8E, CHR 0xE8, CHR 0xBF, CHR 0x9B, CHR 0xE7,
     CHR 0xA8, CHR 0x8B, CHR 0xE5, CHR 0xAF, CHR 0xB9, CHR 0xE5, CHR 0xBA, CHR 0x94] @
     '' ==='' @ [CHR 0x22] @ '' && ss -tlnp | awk '' @ [CHR 0x27] @ ''NR>1 {print $4, $6}'' @
     [CHR 0x27] @ '' | head -20'')],
        ss_Condition = [], ss_OnError = ''continue'', ss_Retries = 0\<rparr>],
      sl_Timeout = 1 * Minute, sl_NeedConfirm = False\<rparr>"

definition NetworkStatsSkill :: skill where
  "NetworkStatsSkill =
     \<lparr>sl_Name = ''builtin:network_stats'',
      sl_Description = [CHR 0xE7, CHR 0xBD, CHR 0x91, CHR 0xE7, CHR 0xBB, CHR 0x9C, CHR 0xE6, CHR 0xB5, CHR 0x81,
     CHR 0xE9, CHR 0x87, CHR 0x8F, CHR 0xE5, CHR 0x92, CHR 0x8C, CHR 0xE8, CHR 0xBF,
     CHR 0x9E, CHR 0xE6, CHR 0x8E, CHR 0xA5, CHR 0xE7, CHR 0xBB, CHR 0x9F, CHR 0xE8,
     CHR 0xAE, CHR 0xA1],
      sl_Version = ''1.0.0'', sl_Author = ''ServerOwl'', sl_Tags = [''network'', ''stats'', ''monitoring'', ''builtin''],
      sl_Parameters = [],
      sl_Steps = [
       \<lparr>ss_Name = ''connection_stats'', ss_Tool = ''local_shell'', ss_Action = [],
        ss_Args = [''command'' \<mapsto> JStr (''echo '' @ [CHR 0x22] @ ''=== '' @ [CHR 0xE8, CHR 0xBF, CHR 0x9E, CHR 0xE6, CHR 0x8E,
     CHR 0xA5, CHR 0xE7, CHR 0x8A, CHR 0xB6, CHR 0xE6, CHR 0x80, CHR 0x81, CHR 0xE7,
     CHR 0xBB, CHR 0x9F, CHR 0xE8, CHR 0xAE, CHR 0xA1] @ '' ==='' @ [CHR 0x22] @ '' && ss -s'')],
        ss_Condition = [], ss_OnError = ''continue'', ss_Retries = 0\<rparr>,
       \<lparr>ss_Name = ''interface_stats'', ss_Tool = ''local_shell'', ss_Action = [],
        ss_Args = [''command'' \<mapsto> JStr (''echo '' @ [CHR 0x22] @ ''=== '' @ [CHR 0xE7, CHR 0xBD, CHR 0x91, CHR 0xE5, CHR 0x8D,
     CHR 0xA1, CHR 0xE6, CHR 0xB5, CHR 0x81, CHR 0xE9, CHR 0x87, CHR 0x8F] @ '' ==='' @
     [CHR 0x22] @ '' && cat /proc/net/dev | awk '' @ [CHR 0x27] @ ''NR>2 {print $1, '' @
     [CHR 0x22] @ ''RX:'' @ [CHR 0x22] @ '', $2, '' @ [CHR 0x22] @ ''TX:'' @ [CHR 0x22] @
     '', $10}'' @ [CHR 0x27])],
        ss_Condition = [], ss_OnError = ''continue'', ss_Retries = 0\<rparr>,
       \<lparr>ss_Name = ''top_connections'', ss_Tool = ''local_shell'', ss_Action = [],
        ss_Args = [''command'' \<mapsto> JStr (''echo '' @ [CHR 0x22] @ ''=== Top '' @ [CHR 0xE8, CHR 0xBF, CHR 0x9E, CHR 0xE6, CHR 0x8E,
     CHR 0xA5] @ '' IP ==='' @ [CHR 0x22] @ '' && ss -tn | awk '' @ [CHR 0x27] @ ''NR>1 {print $5}'' @
     [CHR 0x27] @ '' | cut -d: -f1 | sort | uniq -c | sort -rn | head -10'')],
        ss_Condition = [], ss_OnError = ''continue'', ss_Retries = 0\<rparr>],
      sl_Timeout = 1 * Minute, sl_NeedConfirm = False\<rparr>"

end
