(* ===== verification/Owl_BuiltinC.thy ===== *)
theory Owl_BuiltinC
  imports Owl_Skills
begin

text \<open>
  The built-in skills of \<open>internal/skills/builtin\<close> for services, certificates and the system (\<open>service.go\<close>, \<open>service_restart.go\<close>, \<open>ssl_renew.go\<close>, \<open>system_info.go\<close>).
  Each is the value its function returns; a default that is left out is nil.
\<close>

subsection \<open>\<open>service.go\<close>\<close>

definition RestartServiceSkill :: skill where
  "RestartServiceSkill =
     \<lparr>sl_Name = ''builtin:restart'',
      sl_Description = ''Safely restart a Docker container with health verification'',
      sl_Version = ''1.0.0'', sl_Author = ''ServerOwl'', sl_Tags = [''service'', ''restart'', ''docker'', ''builtin''],
      sl_Parameters = [\<lparr>sp_Name = ''container'', sp_Type = ''string'', sp_Description = ''Container name to restart'',
        sp_Required = True, sp_Default = JNull\<rparr>,
       \<lparr>sp_Name = ''wait_seconds'', sp_Type = ''int'', sp_Description = ''Seconds to wait after restart'',
        sp_Required = False, sp_Default = JInt 10\<rparr>,
       \<lparr>sp_Name = ''verify_health'', sp_Type = ''bool'', sp_Description = ''Verify container health after restart'',
        sp_Required = False, sp_Default = JBool True\<rparr>,
       \<lparr>sp_Name = ''backup_logs'', sp_Type = ''bool'', sp_Description = ''Backup logs before restart'',
        sp_Required = False, sp_Default = JBool False\<rparr>],
      sl_Steps = [
       \<lparr>ss_Name = ''check_exists'', ss_Tool = ''docker'', ss_Action = ''inspect'',
        ss_Args = [''target'' \<mapsto> JStr ''{{.container}}'', ''format'' \<mapsto> JStr ''{{.Name}}''],
        ss_Condition = [], ss_OnError = ''stop'', ss_Retries = 0\<rparr>,
       \<lparr>ss_Name = ''backup_logs'', ss_Tool = ''local_shell'', ss_Action = [],
        ss_Args = [''command'' \<mapsto> JStr ''mkdir -p /tmp/serverowl/logs && docker logs {{.container}} > /tmp/serverowl/logs/{{.container}}_$(date +%Y%m%d_%H%M%S).log 2>&1''],
        ss_Condition = ''{{.backup_logs}}'', ss_OnError = ''continue'', ss_Retries = 0\<rparr>,
       \<lparr>ss_Name = ''restart'', ss_Tool = ''docker'', ss_Action = ''restart'',
        ss_Args = [''container'' \<mapsto> JStr ''{{.container}}''],
        ss_Condition = [], ss_OnError = ''stop'', ss_Retries = 0\<rparr>,
       \<lparr>ss_Name = ''wait'', ss_Tool = ''local_shell'', ss_Action = [],
        ss_Args = [''command'' \<mapsto> JStr ''sleep {{.wait_seconds}}''],
        ss_Condition = [], ss_OnError = ''continue'', ss_Retries = 0\<rparr>,
       \<lparr>ss_Name = ''verify_running'', ss_Tool = ''docker'', ss_Action = ''inspect'',
        ss_Args = [''target'' \<mapsto> JStr ''{{.container}}'', ''format'' \<mapsto> JStr ''{{.State.Running}}''],
        ss_Condition = ''{{.verify_health}}'', ss_OnError = ''stop'', ss_Retries = 3\<rparr>,
       \<lparr>ss_Name = ''verify_health'', ss_Tool = ''docker'', ss_Action = ''inspect'',
        ss_Args = [''target'' \<mapsto> JStr ''{{.container}}'', ''format'' \<mapsto> JStr ''{{.State.Health.Status}}''],
        ss_Condition = ''{{.verify_health}}'', ss_OnError = ''continue'', ss_Retries = 0\<rparr>],
      sl_Timeout = 10 * Minute, sl_NeedConfirm = True\<rparr>"

definition ScaleServiceSkill :: skill where
  "ScaleServiceSkill =
     \<lparr>sl_Name = ''builtin:scale'',
      sl_Description = ''Scale Docker Compose service replicas'',
      sl_Version = ''1.0.0'', sl_Author = ''ServerOwl'', sl_Tags = [''service'', ''scale'', ''docker'', ''builtin''],
      sl_Parameters = [\<lparr>sp_Name = ''service'', sp_Type = ''string'', sp_Description = ''Service name to scale'',
        sp_Required = True, sp_Default = JNull\<rparr>,
       \<lparr>sp_Name = ''replicas'', sp_Type = ''int'', sp_Description = ''Number of replicas'',
        sp_Required = True, sp_Default = JNull\<rparr>,
       \<lparr>sp_Name = ''compose_file'', sp_Type = ''string'', sp_Description = ''Path to docker-compose file'',
        sp_Required = False, sp_Default = JStr ''docker-compose.yml''\<rparr>,
       \<lparr>sp_Name = ''project_dir'', sp_Type = ''string'', sp_Description = ''Project directory'',
        sp_Required = False, sp_Default = JStr ''.''\<rparr>],
      sl_Steps = [
       \<lparr>ss_Name = ''current_state'', ss_Tool = ''local_shell'', ss_Action = [],
        ss_Args = [''command'' \<mapsto> JStr ''cd {{.project_dir}} && docker compose -f {{.compose_file}} ps {{.service}}''],
        ss_Condition = [], ss_OnError = ''continue'', ss_Retries = 0\<rparr>,
       \<lparr>ss_Name = ''scale'', ss_Tool = ''local_shell'', ss_Action = [],
        ss_Args = [''command'' \<mapsto> JStr ''cd {{.project_dir}} && docker compose -f {{.compose_file}} up -d --scale {{.service}}={{.replicas}} --no-recreate''],
        ss_Condition = [], ss_OnError = ''stop'', ss_Retries = 0\<rparr>,
       \<lparr>ss_Name = ''verify'', ss_Tool = ''local_shell'', ss_Action = [],
        ss_Args = [''command'' \<mapsto> JStr ''cd {{.project_dir}} && docker compose -f {{.compose_file}} ps {{.service}}''],
        ss_Condition = [], ss_OnError = ''continue'', ss_Retries = 0\<rparr>],
      sl_Timeout = 10 * Minute, sl_NeedConfirm = True\<rparr>"

definition RollingRestartSkill :: skill where
  "RollingRestartSkill =
     \<lparr>sl_Name = ''builtin:rolling-restart'',
      sl_Description = ''Perform rolling restart of Docker Compose service'',
      sl_Version = ''1.0.0'', sl_Author = ''ServerOwl'', sl_Tags = [''service'', ''restart'', ''rolling'', ''docker'', ''builtin''],
      sl_Parameters = [\<lparr>sp_Name = ''service'', sp_Type = ''string'', sp_Description = ''Service name'',
        sp_Required = True, sp_Default = JNull\<rparr>,
       \<lparr>sp_Name = ''compose_file'', sp_Type = ''string'', sp_Description = ''Path to docker-compose file'',
        sp_Required = False, sp_Default = JStr ''docker-compose.yml''\<rparr>,
       \<lparr>sp_Name = ''project_dir'', sp_Type = ''string'', sp_Description = ''Project directory'',
        sp_Required = False, sp_Default = JStr ''.''\<rparr>,
       \<lparr>sp_Name = ''delay_seconds'', sp_Type = ''int'', sp_Description = ''Delay between container restarts'',
        sp_Required = False, sp_Default = JInt 10\<rparr>,
       \<lparr>sp_Name = ''health_check_retries'', sp_Type = ''int'', sp_Description = ''Health check retry count'',
        sp_Required = False, sp_Default = JInt 5\<rparr>],
      sl_Steps = [
       \<lparr>ss_Name = ''get_containers'', ss_Tool = ''local_shell'', ss_Action = [],
        ss_Args = [''command'' \<mapsto> JStr ''cd {{.project_dir}} && docker compose -f {{.compose_file}} ps -q {{.service}}''],
        ss_Condition = [], ss_OnError = ''stop'', ss_Retries = 0\<rparr>,
       \<lparr>ss_Name = ''rolling_restart'', ss_Tool = ''local_shell'', ss_Action = [],
        ss_Args = [''command'' \<mapsto> JStr ([CHR 0x0A] @ ''cd {{.project_dir}}'' @ [CHR 0x0A] @ ''CONTAINERS=$(docker compose -f {{.compose_file}} ps -q {{.service}})'' @
     [CHR 0x0A] @ ''for CONTAINER in $CONTAINERS; do'' @ [CHR 0x0A] @ ''  echo '' @
     [CHR 0x22] @ ''Restarting $CONTAINER...'' @ [CHR 0x22, CHR 0x0A] @ ''  docker restart $CONTAINER'' @
     [CHR 0x0A] @ ''  echo '' @ [CHR 0x22] @ ''Waiting {{.delay_seconds}} seconds...'' @
     [CHR 0x22, CHR 0x0A] @ ''  sleep {{.delay_seconds}}'' @ [CHR 0x0A, CHR 0x0A] @
     ''  # Health check'' @ [CHR 0x0A] @ ''  for i in $(seq 1 {{.health_check_retries}}); do'' @
     [CHR 0x0A] @ ''    STATUS=$(docker inspect --format='' @ [CHR 0x27] @ ''{{.State.Running}}'' @
     [CHR 0x27] @ '' $CONTAINER)'' @ [CHR 0x0A] @ ''    if [ '' @ [CHR 0x22] @ ''$STATUS'' @
     [CHR 0x22] @ '' = '' @ [CHR 0x22] @ ''true'' @ [CHR 0x22] @ '' ]; then'' @ [CHR 0x0A] @
     ''      echo '' @ [CHR 0x22] @ ''$CONTAINER is running'' @ [CHR 0x22, CHR 0x0A] @
     ''      break'' @ [CHR 0x0A] @ ''    fi'' @ [CHR 0x0A] @ ''    echo '' @ [CHR 0x22] @
     ''Waiting for $CONTAINER to be healthy (attempt $i)...'' @ [CHR 0x22, CHR 0x0A] @
     ''    sleep 5'' @ [CHR 0x0A] @ ''  done'' @ [CHR 0x0A] @ ''done'' @ [CHR 0x0A] @
     ''echo '' @ [CHR 0x22] @ ''Rolling restart complete'' @ [CHR 0x22, CHR 0x0A])],
        ss_Condition = [], ss_OnError = ''stop'', ss_Retries = 0\<rparr>,
       \<lparr>ss_Name = ''final_status'', ss_Tool = ''local_shell'', ss_Action = [],
        ss_Args = [''command'' \<mapsto> JStr ''cd {{.project_dir}} && docker compose -f {{.compose_file}} ps {{.service}}''],
        ss_Condition = [], ss_OnError = ''continue'', ss_Retries = 0\<rparr>],
      sl_Timeout = 30 * Minute, sl_NeedConfirm = True\<rparr>"

subsection \<open>\<open>service_restart.go\<close>\<close>

definition ServiceRestartSkill :: skill where
  "ServiceRestartSkill =
     \<lparr>sl_Name = ''builtin:service_restart'',
      sl_Description = ([CHR 0xE5, CHR 0xAE, CHR 0x89, CHR 0xE5, CHR 0x85, CHR 0xA8, CHR 0xE9, CHR 0x87, CHR 0x8D,
     CHR 0xE5, CHR 0x90, CHR 0xAF] @ '' systemd '' @ [CHR 0xE6, CHR 0x9C, CHR 0x8D,
     CHR 0xE5, CHR 0x8A, CHR 0xA1, CHR 0xEF, CHR 0xBC, CHR 0x88, CHR 0xE5, CHR 0x85,
     CHR 0x88, CHR 0xE6, CHR 0xA3, CHR 0x80, CHR 0xE6, CHR 0x9F, CHR 0xA5, CHR 0xE7,
     CHR 0x8A, CHR 0xB6, CHR 0xE6, CHR 0x80, CHR 0x81, CHR 0xEF, CHR 0xBC, CHR 0x8C,
     CHR 0xE5, CHR 0x86, CHR 0x8D, CHR 0xE9, CHR 0x87, CHR 0x8D, CHR 0xE5, CHR 0x90,
     CHR 0xAF, CHR 0xEF, CHR 0xBC, CHR 0x8C, CHR 0xE6, CHR 0x9C, CHR 0x80, CHR 0xE5,
     CHR 0x90, CHR 0x8E, CHR 0xE9, CHR 0xAA, CHR 0x8C, CHR 0xE8, CHR 0xAF, CHR 0x81,
     CHR 0xEF, CHR 0xBC, CHR 0x89]),
      sl_Version = ''1.0.0'', sl_Author = ''ServerOwl'', sl_Tags = [''service'', ''systemd'', ''restart'', ''builtin''],
      sl_Parameters = [\<lparr>sp_Name = ''service'', sp_Type = ''string'', sp_Description = ([CHR 0xE6, CHR 0x9C, CHR 0x8D, CHR 0xE5, CHR 0x8A, CHR 0xA1, CHR 0xE5, CHR 0x90, CHR 0x8D,
     CHR 0xE7, CHR 0xA7, CHR 0xB0, CHR 0xEF, CHR 0xBC, CHR 0x88, CHR 0xE5, CHR 0xA6,
     CHR 0x82] @ '' nginx, docker, mysql'' @ [CHR 0xEF, CHR 0xBC, CHR 0x89]),
        sp_Required = True, sp_Default = JNull\<rparr>,
       \<lparr>sp_Name = ''action'', sp_Type = ''string'', sp_Description = ([CHR 0xE6, CHR 0x93, CHR 0x8D, CHR 0xE4, CHR 0xBD, CHR 0x9C, CHR 0xE7, CHR 0xB1, CHR 0xBB,
     CHR 0xE5, CHR 0x9E, CHR 0x8B] @ '': restart, reload, stop, start''),
        sp_Required = False, sp_Default = JStr ''restart''\<rparr>,
       \<lparr>sp_Name = ''wait_seconds'', sp_Type = ''int'', sp_Description = [CHR 0xE9, CHR 0x87, CHR 0x8D, CHR 0xE5, CHR 0x90, CHR 0xAF, CHR 0xE5, CHR 0x90, CHR 0x8E,
     CHR 0xE7, CHR 0xAD, CHR 0x89, CHR 0xE5, CHR 0xBE, CHR 0x85, CHR 0xE7, CHR 0xA7,
     CHR 0x92, CHR 0xE6, CHR 0x95, CHR 0xB0],
        sp_Required = False, sp_Default = JInt 3\<rparr>],
      sl_Steps = [
       \<lparr>ss_Name = ''check_service_exists'', ss_Tool = ''local_shell'', ss_Action = [],
        ss_Args = [''command'' \<mapsto> JStr (''systemctl list-unit-files | grep -q '' @ [CHR 0x22] @ ''{{.service}}'' @ [CHR 0x22] @
     '' && echo '' @ [CHR 0x22, CHR 0xE6, CHR 0x9C, CHR 0x8D, CHR 0xE5, CHR 0x8A, CHR 0xA1] @
     '' {{.service}} '' @ [CHR 0xE5, CHR 0xAD, CHR 0x98, CHR 0xE5, CHR 0x9C, CHR 0xA8,
     CHR 0x22] @ '' || (echo '' @ [CHR 0x22, CHR 0xE6, CHR 0x9C, CHR 0x8D, CHR 0xE5,
     CHR 0x8A, CHR 0xA1] @ '' {{.service}} '' @ [CHR 0xE4, CHR 0xB8, CHR 0x8D, CHR 0xE5,
     CHR 0xAD, CHR 0x98, CHR 0xE5, CHR 0x9C, CHR 0xA8, CHR 0x22] @ '' && exit 1)'')],
        ss_Condition = [], ss_OnError = ''stop'', ss_Retries = 0\<rparr>,
       \<lparr>ss_Name = ''pre_status'', ss_Tool = ''local_shell'', ss_Action = [],
        ss_Args = [''command'' \<mapsto> JStr (''echo '' @ [CHR 0x22] @ ''=== '' @ [CHR 0xE6, CHR 0x93, CHR 0x8D, CHR 0xE4, CHR 0xBD,
     CHR 0x9C, CHR 0xE5, CHR 0x89, CHR 0x8D, CHR 0xE7, CHR 0x8A, CHR 0xB6, CHR 0xE6,
     CHR 0x80, CHR 0x81] @ '' ==='' @ [CHR 0x22] @ '' && systemctl status {{.service}} --no-pager | head -15'')],
        ss_Condition = [], ss_OnError = ''continue'', ss_Retries = 0\<rparr>,
       \<lparr>ss_Name = ''execute_action'', ss_Tool = ''local_shell'', ss_Action = [],
        ss_Args = [''command'' \<mapsto> JStr (''echo '' @ [CHR 0x22, CHR 0xE6, CHR 0x89, CHR 0xA7, CHR 0xE8, CHR 0xA1, CHR 0x8C] @
     '': systemctl {{.action}} {{.service}}'' @ [CHR 0x22] @ '' && systemctl {{.action}} {{.service}}'')],
        ss_Condition = [], ss_OnError = ''stop'', ss_Retries = 0\<rparr>,
       \<lparr>ss_Name = ''wait_for_service'', ss_Tool = ''local_shell'', ss_Action = [],
        ss_Args = [''command'' \<mapsto> JStr (''echo '' @ [CHR 0x22, CHR 0xE7, CHR 0xAD, CHR 0x89, CHR 0xE5, CHR 0xBE, CHR 0x85] @
     '' {{.wait_seconds}} '' @ [CHR 0xE7, CHR 0xA7, CHR 0x92] @ ''...'' @ [CHR 0x22] @
     '' && sleep {{.wait_seconds}}'')],
        ss_Condition = [], ss_OnError = ''continue'', ss_Retries = 0\<rparr>,
       \<lparr>ss_Name = ''post_status'', ss_Tool = ''local_shell'', ss_Action = [],
        ss_Args = [''command'' \<mapsto> JStr (''echo '' @ [CHR 0x22] @ ''=== '' @ [CHR 0xE6, CHR 0x93, CHR 0x8D, CHR 0xE4, CHR 0xBD,
     CHR 0x9C, CHR 0xE5, CHR 0x90, CHR 0x8E, CHR 0xE7, CHR 0x8A, CHR 0xB6, CHR 0xE6,
     CHR 0x80, CHR 0x81] @ '' ==='' @ [CHR 0x22] @ '' && systemctl status {{.service}} --no-pager | head -15'')],
        ss_Condition = [], ss_OnError = ''continue'', ss_Retries = 0\<rparr>,
       \<lparr>ss_Name = ''verify_running'', ss_Tool = ''local_shell'', ss_Action = [],
        ss_Args = [''command'' \<mapsto> JStr (''systemctl is-active {{.service}} && echo '' @ [CHR 0x22, CHR 0xE2, CHR 0x9C, CHR 0x85] @
     '' '' @ [CHR 0xE6, CHR 0x9C, CHR 0x8D, CHR 0xE5, CHR 0x8A, CHR 0xA1] @ '' {{.service}} '' @
     [CHR 0xE8, CHR 0xBF, CHR 0x90, CHR 0xE8, CHR 0xA1, CHR 0x8C, CHR 0xE6, CHR 0xAD,
     CHR 0xA3, CHR 0xE5, CHR 0xB8, CHR 0xB8, CHR 0x22] @ '' || echo '' @ [CHR 0x22,
     CHR 0xE2, CHR 0x9A, CHR 0xA0, CHR 0xEF, CHR 0xB8, CHR 0x8F] @ '' '' @ [CHR 0xE6,
     CHR 0x9C, CHR 0x8D, CHR 0xE5, CHR 0x8A, CHR 0xA1] @ '' {{.service}} '' @ [CHR 0xE6,
     CHR 0x9C, CHR 0xAA, CHR 0xE8, CHR 0xBF, CHR 0x90, CHR 0xE8, CHR 0xA1, CHR 0x8C,
     CHR 0x22])],
        ss_Condition = [], ss_OnError = ''continue'', ss_Retries = 0\<rparr>],
      sl_Timeout = 3 * Minute, sl_NeedConfirm = True\<rparr>"

definition NginxReloadSkill :: skill where
  "NginxReloadSkill =
     \<lparr>sl_Name = ''builtin:nginx_reload'',
      sl_Description = ([CHR 0xE5, CHR 0xAE, CHR 0x89, CHR 0xE5, CHR 0x85, CHR 0xA8, CHR 0xE9, CHR 0x87, CHR 0x8D,
     CHR 0xE8, CHR 0xBD, CHR 0xBD] @ '' Nginx '' @ [CHR 0xE9, CHR 0x85, CHR 0x8D, CHR 0xE7,
     CHR 0xBD, CHR 0xAE, CHR 0xEF, CHR 0xBC, CHR 0x88, CHR 0xE5, CHR 0x85, CHR 0x88,
     CHR 0xE6, CHR 0xB5, CHR 0x8B, CHR 0xE8, CHR 0xAF, CHR 0x95, CHR 0xE9, CHR 0x85,
     CHR 0x8D, CHR 0xE7, CHR 0xBD, CHR 0xAE, CHR 0xEF, CHR 0xBC, CHR 0x8C, CHR 0xE5,
     CHR 0x86, CHR 0x8D, CHR 0xE9, CHR 0x87, CHR 0x8D, CHR 0xE8, CHR 0xBD, CHR 0xBD,
     CHR 0xEF, CHR 0xBC, CHR 0x89]),
      sl_Version = ''1.0.0'', sl_Author = ''ServerOwl'', sl_Tags = [''nginx'', ''reload'', ''web'', ''builtin''],
      sl_Parameters = [],
      sl_Steps = [
       \<lparr>ss_Name = ''test_config'', ss_Tool = ''local_shell'', ss_Action = [],
        ss_Args = [''command'' \<mapsto> JStr (''echo '' @ [CHR 0x22] @ ''=== '' @ [CHR 0xE6, CHR 0xB5, CHR 0x8B, CHR 0xE8, CHR 0xAF,
     CHR 0x95] @ '' Nginx '' @ [CHR 0xE9, CHR 0x85, CHR 0x8D, CHR 0xE7, CHR 0xBD, CHR 0xAE] @
     '' ==='' @ [CHR 0x22] @ '' && nginx -t'')],
        ss_Condition = [], ss_OnError = ''stop'', ss_Retries = 0\<rparr>,
       \<lparr>ss_Name = ''reload_nginx'', ss_Tool = ''local_shell'', ss_Action = [],
        ss_Args = [''command'' \<mapsto> JStr (''echo '' @ [CHR 0x22] @ ''=== '' @ [CHR 0xE9, CHR 0x87, CHR 0x8D, CHR 0xE8, CHR 0xBD,
     CHR 0xBD] @ '' Nginx ==='' @ [CHR 0x22] @ '' && systemctl reload nginx'')],
        ss_Condition = [], ss_OnError = ''stop'', ss_Retries = 0\<rparr>,
       \<lparr>ss_Name = ''verify_status'', ss_Tool = ''local_shell'', ss_Action = [],
        ss_Args = [''command'' \<mapsto> JStr (''echo '' @ [CHR 0x22] @ ''=== '' @ [CHR 0xE9, CHR 0xAA, CHR 0x8C, CHR 0xE8, CHR 0xAF,
     CHR 0x81, CHR 0xE7, CHR 0x8A, CHR 0xB6, CHR 0xE6, CHR 0x80, CHR 0x81] @ '' ==='' @
     [CHR 0x22] @ '' && systemctl status nginx --no-pager | head -10'')],
        ss_Condition = [], ss_OnError = ''continue'', ss_Retries = 0\<rparr>],
      sl_Timeout = 2 * Minute, sl_NeedConfirm = True\<rparr>"

subsection \<open>\<open>ssl_renew.go\<close>\<close>

definition SSLCheckSkill :: skill where
  "SSLCheckSkill =
     \<lparr>sl_Name = ''builtin:ssl_check'',
      sl_Description = ([CHR 0xE6, CHR 0xA3, CHR 0x80, CHR 0xE6, CHR 0x9F, CHR 0xA5] @ '' SSL '' @ [CHR 0xE8,
     CHR 0xAF, CHR 0x81, CHR 0xE4, CHR 0xB9, CHR 0xA6, CHR 0xE8, CHR 0xBF, CHR 0x87,
     CHR 0xE6, CHR 0x9C, CHR 0x9F, CHR 0xE6, CHR 0x97, CHR 0xB6, CHR 0xE9, CHR 0x97,
     CHR 0xB4, CHR 0xE5, CHR 0x92, CHR 0x8C, CHR 0xE7, CHR 0x8A, CHR 0xB6, CHR 0xE6,
     CHR 0x80, CHR 0x81]),
      sl_Version = ''1.0.0'', sl_Author = ''ServerOwl'', sl_Tags = [''ssl'', ''certificate'', ''security'', ''builtin''],
      sl_Parameters = [\<lparr>sp_Name = ''domain'', sp_Type = ''string'', sp_Description = [CHR 0xE5, CHR 0x9F, CHR 0x9F, CHR 0xE5, CHR 0x90, CHR 0x8D],
        sp_Required = True, sp_Default = JNull\<rparr>,
       \<lparr>sp_Name = ''port'', sp_Type = ''int'', sp_Description = [CHR 0xE7, CHR 0xAB, CHR 0xAF, CHR 0xE5, CHR 0x8F, CHR 0xA3],
        sp_Required = False, sp_Default = JInt 443\<rparr>],
      sl_Steps = [
       \<lparr>ss_Name = ''check_expiry'', ss_Tool = ''local_shell'', ss_Action = [],
        ss_Args = [''command'' \<mapsto> JStr (''echo '' @ [CHR 0x22] @ ''=== SSL '' @ [CHR 0xE8, CHR 0xAF, CHR 0x81, CHR 0xE4, CHR 0xB9,
     CHR 0xA6, CHR 0xE8, CHR 0xBF, CHR 0x87, CHR 0xE6, CHR 0x9C, CHR 0x9F, CHR 0xE6,
     CHR 0x97, CHR 0xB6, CHR 0xE9, CHR 0x97, CHR 0xB4] @ '' ==='' @ [CHR 0x22] @ '' && echo | openssl s_client -servername {{.domain}} -connect {{.domain}}:{{.port}} 2>/dev/null | openssl x509 -noout -dates'')],
        ss_Condition = [], ss_OnError = ''continue'', ss_Retries = 0\<rparr>,
       \<lparr>ss_Name = ''check_issuer'', ss_Tool = ''local_shell'', ss_Action = [],
        ss_Args = [''command'' \<mapsto> JStr (''echo '' @ [CHR 0x22] @ ''=== '' @ [CHR 0xE8, CHR 0xAF, CHR 0x81, CHR 0xE4, CHR 0xB9,
     CHR 0xA6, CHR 0xE9, CHR 0xA2, CHR 0x81, CHR 0xE5, CHR 0x8F, CHR 0x91, CHR 0xE8,
     CHR 0x80, CHR 0x85] @ '' ==='' @ [CHR 0x22] @ '' && echo | openssl s_client -servername {{.domain}} -connect {{.domain}}:{{.port}} 2>/dev/null | openssl x509 -noout -issuer'')],
        ss_Condition = [], ss_OnError = ''continue'', ss_Retries = 0\<rparr>,
       \<lparr>ss_Name = ''check_subject'', ss_Tool = ''local_shell'', ss_Action = [],
        ss_Args = [''command'' \<mapsto> JStr (''echo '' @ [CHR 0x22] @ ''=== '' @ [CHR 0xE8, CHR 0xAF, CHR 0x81, CHR 0xE4, CHR 0xB9,
     CHR 0xA6, CHR 0xE4, CHR 0xB8, CHR 0xBB, CHR 0xE9, CHR 0xA2, CHR 0x98] @ '' ==='' @
     [CHR 0x22] @ '' && echo | openssl s_client -servername {{.domain}} -connect {{.domain}}:{{.port}} 2>/dev/null | openssl x509 -noout -subject'')],
        ss_Condition = [], ss_OnError = ''continue'', ss_Retries = 0\<rparr>,
       \<lparr>ss_Name = ''days_remaining'', ss_Tool = ''local_shell'', ss_Action = [],
        ss_Args = [''command'' \<mapsto> JStr (''echo '' @ [CHR 0x22] @ ''=== '' @ [CHR 0xE5, CHR 0x89, CHR 0xA9, CHR 0xE4, CHR 0xBD,
     CHR 0x99, CHR 0xE5, CHR 0xA4, CHR 0xA9, CHR 0xE6, CHR 0x95, CHR 0xB0] @ '' ==='' @
     [CHR 0x22] @ '' && EXPIRY=$(echo | openssl s_client -servername {{.domain}} -connect {{.domain}}:{{.port}} 2>/dev/null | openssl x509 -noout -enddate | cut -d= -f2) && EXPIRY_EPOCH=$(date -d '' @
     [CHR 0x22] @ ''$EXPIRY'' @ [CHR 0x22] @ '' +%s) && NOW_EPOCH=$(date +%s) && DAYS=$(( ($EXPIRY_EPOCH - $NOW_EPOCH) / 86400 )) && echo '' @
     [CHR 0x22, CHR 0xE5, CHR 0x89, CHR 0xA9, CHR 0xE4, CHR 0xBD, CHR 0x99] @ '' $DAYS '' @
     [CHR 0xE5, CHR 0xA4, CHR 0xA9, CHR 0x22] @ '' && [ $DAYS -gt 30 ] && echo '' @
     [CHR 0x22, CHR 0xE2, CHR 0x9C, CHR 0x85] @ '' '' @ [CHR 0xE8, CHR 0xAF, CHR 0x81,
     CHR 0xE4, CHR 0xB9, CHR 0xA6, CHR 0xE7, CHR 0x8A, CHR 0xB6, CHR 0xE6, CHR 0x80,
     CHR 0x81, CHR 0xE6, CHR 0xAD, CHR 0xA3, CHR 0xE5, CHR 0xB8, CHR 0xB8, CHR 0x22] @
     '' || echo '' @ [CHR 0x22, CHR 0xE2, CHR 0x9A, CHR 0xA0, CHR 0xEF, CHR 0xB8, CHR 0x8F] @
     '' '' @ [CHR 0xE8, CHR 0xAF, CHR 0x81, CHR 0xE4, CHR 0xB9, CHR 0xA6, CHR 0xE5,
     CHR 0x8D, CHR 0xB3, CHR 0xE5, CHR 0xB0, CHR 0x86, CHR 0xE8, CHR 0xBF, CHR 0x87,
     CHR 0xE6, CHR 0x9C, CHR 0x9F, CHR 0xEF, CHR 0xBC, CHR 0x8C, CHR 0xE8, CHR 0xAF,
     CHR 0xB7, CHR 0xE5, CHR 0xB0, CHR 0xBD, CHR 0xE5, CHR 0xBF, CHR 0xAB, CHR 0xE7,
     CHR 0xBB, CHR 0xAD, CHR 0xE6, CHR 0x9C, CHR 0x9F, CHR 0x22])],
        ss_Condition = [], ss_OnError = ''continue'', ss_Retries = 0\<rparr>,
       \<lparr>ss_Name = ''check_chain'', ss_Tool = ''local_shell'', ss_Action = [],
        ss_Args = [''command'' \<mapsto> JStr (''echo '' @ [CHR 0x22] @ ''=== '' @ [CHR 0xE8, CHR 0xAF, CHR 0x81, CHR 0xE4, CHR 0xB9,
     CHR 0xA6, CHR 0xE9, CHR 0x93, CHR 0xBE, CHR 0xE9, CHR 0xAA, CHR 0x8C, CHR 0xE8,
     CHR 0xAF, CHR 0x81] @ '' ==='' @ [CHR 0x22] @ '' && echo | openssl s_client -servername {{.domain}} -connect {{.domain}}:{{.port}} 2>/dev/null | grep -E '' @
     [CHR 0x22] @ ''Verify return code|depth='' @ [CHR 0x22])],
        ss_Condition = [], ss_OnError = ''continue'', ss_Retries = 0\<rparr>],
      sl_Timeout = 2 * Minute, sl_NeedConfirm = False\<rparr>"

definition SSLRenewSkill :: skill where
  "SSLRenewSkill =
     \<lparr>sl_Name = ''builtin:ssl_renew'',
      sl_Description = ([CHR 0xE7, CHR 0xBB, CHR 0xAD, CHR 0xE6, CHR 0x9C, CHR 0x9F] @ '' Let'' @ [CHR 0x27] @
     ''s Encrypt SSL '' @ [CHR 0xE8, CHR 0xAF, CHR 0x81, CHR 0xE4, CHR 0xB9, CHR 0xA6]),
      sl_Version = ''1.0.0'', sl_Author = ''ServerOwl'', sl_Tags = [''ssl'', ''letsencrypt'', ''certbot'', ''security'', ''builtin''],
      sl_Parameters = [\<lparr>sp_Name = ''domain'', sp_Type = ''string'', sp_Description = [CHR 0xE5, CHR 0x9F, CHR 0x9F, CHR 0xE5, CHR 0x90, CHR 0x8D, CHR 0xEF, CHR 0xBC, CHR 0x88,
     CHR 0xE7, CHR 0x95, CHR 0x99, CHR 0xE7, CHR 0xA9, CHR 0xBA, CHR 0xE5, CHR 0x88,
     CHR 0x99, CHR 0xE7, CHR 0xBB, CHR 0xAD, CHR 0xE6, CHR 0x9C, CHR 0x9F, CHR 0xE6,
     CHR 0x89, CHR 0x80, CHR 0xE6, CHR 0x9C, CHR 0x89, CHR 0xEF, CHR 0xBC, CHR 0x89],
        sp_Required = False, sp_Default = JStr []\<rparr>,
       \<lparr>sp_Name = ''dry_run'', sp_Type = ''bool'', sp_Description = [CHR 0xE6, CHR 0xA8, CHR 0xA1, CHR 0xE6, CHR 0x8B, CHR 0x9F, CHR 0xE8, CHR 0xBF, CHR 0x90,
     CHR 0xE8, CHR 0xA1, CHR 0x8C, CHR 0xEF, CHR 0xBC, CHR 0x88, CHR 0xE4, CHR 0xB8,
     CHR 0x8D, CHR 0xE5, CHR 0xAE, CHR 0x9E, CHR 0xE9, CHR 0x99, CHR 0x85, CHR 0xE7,
     CHR 0xBB, CHR 0xAD, CHR 0xE6, CHR 0x9C, CHR 0x9F, CHR 0xEF, CHR 0xBC, CHR 0x89],
        sp_Required = False, sp_Default = JBool True\<rparr>,
       \<lparr>sp_Name = ''reload_nginx'', sp_Type = ''bool'', sp_Description = ([CHR 0xE7, CHR 0xBB, CHR 0xAD, CHR 0xE6, CHR 0x9C, CHR 0x9F, CHR 0xE5, CHR 0x90, CHR 0x8E,
     CHR 0xE9, CHR 0x87, CHR 0x8D, CHR 0xE8, CHR 0xBD, CHR 0xBD] @ '' Nginx''),
        sp_Required = False, sp_Default = JBool True\<rparr>],
      sl_Steps = [
       \<lparr>ss_Name = ''check_certbot'', ss_Tool = ''local_shell'', ss_Action = [],
        ss_Args = [''command'' \<mapsto> JStr (''which certbot > /dev/null && echo '' @ [CHR 0x22] @ ''certbot '' @ [CHR 0xE5, CHR 0xB7,
     CHR 0xB2, CHR 0xE5, CHR 0xAE, CHR 0x89, CHR 0xE8, CHR 0xA3, CHR 0x85] @ '': $(certbot --version)'' @
     [CHR 0x22] @ '' || (echo '' @ [CHR 0x22] @ ''certbot '' @ [CHR 0xE6, CHR 0x9C,
     CHR 0xAA, CHR 0xE5, CHR 0xAE, CHR 0x89, CHR 0xE8, CHR 0xA3, CHR 0x85, CHR 0x22] @
     '' && exit 1)'')],
        ss_Condition = [], ss_OnError = ''stop'', ss_Retries = 0\<rparr>,
       \<lparr>ss_Name = ''list_certificates'', ss_Tool = ''local_shell'', ss_Action = [],
        ss_Args = [''command'' \<mapsto> JStr (''echo '' @ [CHR 0x22] @ ''=== '' @ [CHR 0xE5, CHR 0xBD, CHR 0x93, CHR 0xE5, CHR 0x89,
     CHR 0x8D, CHR 0xE8, CHR 0xAF, CHR 0x81, CHR 0xE4, CHR 0xB9, CHR 0xA6, CHR 0xE5,
     CHR 0x88, CHR 0x97, CHR 0xE8, CHR 0xA1, CHR 0xA8] @ '' ==='' @ [CHR 0x22] @ '' && certbot certificates 2>/dev/null | grep -E '' @
     [CHR 0x22] @ ''Certificate Name|Expiry Date|Domains'' @ [CHR 0x22])],
        ss_Condition = [], ss_OnError = ''continue'', ss_Retries = 0\<rparr>,
       \<lparr>ss_Name = ''renew_dry_run'', ss_Tool = ''local_shell'', ss_Action = [],
        ss_Args = [''command'' \<mapsto> JStr (''echo '' @ [CHR 0x22] @ ''=== '' @ [CHR 0xE6, CHR 0xA8, CHR 0xA1, CHR 0xE6, CHR 0x8B,
     CHR 0x9F, CHR 0xE7, CHR 0xBB, CHR 0xAD, CHR 0xE6, CHR 0x9C, CHR 0x9F] @ '' ==='' @
     [CHR 0x22] @ '' && certbot renew --dry-run'')],
        ss_Condition = ''{{.dry_run}} == true'', ss_OnError = ''continue'', ss_Retries = 0\<rparr>,
       \<lparr>ss_Name = ''renew_all'', ss_Tool = ''local_shell'', ss_Action = [],
        ss_Args = [''command'' \<mapsto> JStr (''echo '' @ [CHR 0x22] @ ''=== '' @ [CHR 0xE7, CHR 0xBB, CHR 0xAD, CHR 0xE6, CHR 0x9C,
     CHR 0x9F, CHR 0xE6, CHR 0x89, CHR 0x80, CHR 0xE6, CHR 0x9C, CHR 0x89, CHR 0xE8,
     CHR 0xAF, CHR 0x81, CHR 0xE4, CHR 0xB9, CHR 0xA6] @ '' ==='' @ [CHR 0x22] @ '' && certbot renew'')],
        ss_Condition = ''{{.dry_run}} == false && {{.domain}} == '', ss_OnError = ''stop'', ss_Retries = 0\<rparr>,
       \<lparr>ss_Name = ''renew_single'', ss_Tool = ''local_shell'', ss_Action = [],
        ss_Args = [''command'' \<mapsto> JStr (''echo '' @ [CHR 0x22] @ ''=== '' @ [CHR 0xE7, CHR 0xBB, CHR 0xAD, CHR 0xE6, CHR 0x9C,
     CHR 0x9F] @ '' {{.domain}} ==='' @ [CHR 0x22] @ '' && certbot certonly --nginx -d {{.domain}} --non-interactive'')],
        ss_Condition = ''{{.dry_run}} == false && {{.domain}} != '', ss_OnError = ''stop'', ss_Retries = 0\<rparr>,
       \<lparr>ss_Name = ''reload_nginx'', ss_Tool = ''local_shell'', ss_Action = [],
        ss_Args = [''command'' \<mapsto> JStr (''echo '' @ [CHR 0x22] @ ''=== '' @ [CHR 0xE9, CHR 0x87, CHR 0x8D, CHR 0xE8, CHR 0xBD,
     CHR 0xBD] @ '' Nginx ==='' @ [CHR 0x22] @ '' && nginx -t && systemctl reload nginx'')],
        ss_Condition = ''{{.reload_nginx}} == true && {{.dry_run}} == false'', ss_OnError = ''continue'', ss_Retries = 0\<rparr>,
       \<lparr>ss_Name = ''verify_renewal'', ss_Tool = ''local_shell'', ss_Action = [],
        ss_Args = [''command'' \<mapsto> JStr (''echo '' @ [CHR 0x22] @ ''=== '' @ [CHR 0xE9, CHR 0xAA, CHR 0x8C, CHR 0xE8, CHR 0xAF,
     CHR 0x81, CHR 0xE7, CHR 0xBB, CHR 0xAD, CHR 0xE6, CHR 0x9C, CHR 0x9F, CHR 0xE7,
     CHR 0xBB, CHR 0x93, CHR 0xE6, CHR 0x9E, CHR 0x9C] @ '' ==='' @ [CHR 0x22] @ '' && certbot certificates 2>/dev/null | grep -E '' @
     [CHR 0x22] @ ''Certificate Name|Expiry Date'' @ [CHR 0x22] @ '' | head -10'')],
        ss_Condition = [], ss_OnError = ''continue'', ss_Retries = 0\<rparr>],
      sl_Timeout = 10 * Minute, sl_NeedConfirm = True\<rparr>"

subsection \<open>\<open>system_info.go\<close>\<close>

definition SystemInfoSkill :: skill where
  "SystemInfoSkill =
     \<lparr>sl_Name = ''builtin:system_info'',
      sl_Description = ([CHR 0xE8, CHR 0x8E, CHR 0xB7, CHR 0xE5, CHR 0x8F, CHR 0x96, CHR 0xE7, CHR 0xB3, CHR 0xBB,
     CHR 0xE7, CHR 0xBB, CHR 0x9F, CHR 0xE4, CHR 0xBF, CHR 0xA1, CHR 0xE6, CHR 0x81,
     CHR 0xAF, CHR 0xE6, CHR 0xB1, CHR 0x87, CHR 0xE6, CHR 0x80, CHR 0xBB, CHR 0xEF,
     CHR 0xBC, CHR 0x88] @ ''CPU'' @ [CHR 0xE3, CHR 0x80, CHR 0x81, CHR 0xE5, CHR 0x86,
     CHR 0x85, CHR 0xE5, CHR 0xAD, CHR 0x98, CHR 0xE3, CHR 0x80, CHR 0x81, CHR 0xE7,
     CHR 0xA3, CHR 0x81, CHR 0xE7, CHR 0x9B, CHR 0x98, CHR 0xE3, CHR 0x80, CHR 0x81,
     CHR 0xE7, CHR 0xBD, CHR 0x91, CHR 0xE7, CHR 0xBB, CHR 0x9C, CHR 0xE3, CHR 0x80,
     CHR 0x81, CHR 0xE8, CHR 0xBF, CHR 0x9B, CHR 0xE7, CHR 0xA8, CHR 0x8B, CHR 0xEF,
     CHR 0xBC, CHR 0x89]),
      sl_Version = ''1.0.0'', sl_Author = ''ServerOwl'', sl_Tags = [''system'', ''info'', ''monitoring'', ''builtin''],
      sl_Parameters = [\<lparr>sp_Name = ''detailed'', sp_Type = ''bool'', sp_Description = [CHR 0xE6, CHR 0x98, CHR 0xAF, CHR 0xE5, CHR 0x90, CHR 0xA6, CHR 0xE6, CHR 0x98, CHR 0xBE,
     CHR 0xE7, CHR 0xA4, CHR 0xBA, CHR 0xE8, CHR 0xAF, CHR 0xA6, CHR 0xE7, CHR 0xBB,
     CHR 0x86, CHR 0xE4, CHR 0xBF, CHR 0xA1, CHR 0xE6, CHR 0x81, CHR 0xAF],
        sp_Required = False, sp_Default = JBool False\<rparr>],
      sl_Steps = [
       \<lparr>ss_Name = ''os_info'', ss_Tool = ''local_shell'', ss_Action = [],
        ss_Args = [''command'' \<mapsto> JStr (''echo '' @ [CHR 0x22] @ ''=== '' @ [CHR 0xE6, CHR 0x93, CHR 0x8D, CHR 0xE4, CHR 0xBD,
     CHR 0x9C, CHR 0xE7, CHR 0xB3, CHR 0xBB, CHR 0xE7, CHR 0xBB, CHR 0x9F, CHR 0xE4,
     CHR 0xBF, CHR 0xA1, CHR 0xE6, CHR 0x81, CHR 0xAF] @ '' ==='' @ [CHR 0x22] @ '' && cat /etc/os-release 2>/dev/null | grep -E '' @
     [CHR 0x22] @ ''^(NAME|VERSION)='' @ [CHR 0x22] @ '' || uname -a'')],
        ss_Condition = [], ss_OnError = ''continue'', ss_Retries = 0\<rparr>,
       \<lparr>ss_Name = ''hostname_info'', ss_Tool = ''local_shell'', ss_Action = [],
        ss_Args = [''command'' \<mapsto> JStr (''echo '' @ [CHR 0x22] @ ''=== '' @ [CHR 0xE4, CHR 0xB8, CHR 0xBB, CHR 0xE6, CHR 0x9C,
     CHR 0xBA, CHR 0xE4, CHR 0xBF, CHR 0xA1, CHR 0xE6, CHR 0x81, CHR 0xAF] @ '' ==='' @
     [CHR 0x22] @ '' && echo '' @ [CHR 0x22, CHR 0xE4, CHR 0xB8, CHR 0xBB, CHR 0xE6,
     CHR 0x9C, CHR 0xBA, CHR 0xE5, CHR 0x90, CHR 0x8D] @ '': $(hostname)'' @ [CHR 0x22] @
     '' && echo '' @ [CHR 0x22, CHR 0xE8, CHR 0xBF, CHR 0x90, CHR 0xE8, CHR 0xA1, CHR 0x8C,
     CHR 0xE6, CHR 0x97, CHR 0xB6, CHR 0xE9, CHR 0x97, CHR 0xB4] @ '': $(uptime -p 2>/dev/null || uptime)'' @
     [CHR 0x22])],
        ss_Condition = [], ss_OnError = ''continue'', ss_Retries = 0\<rparr>,
       \<lparr>ss_Name = ''cpu_info'', ss_Tool = ''local_shell'', ss_Action = [],
        ss_Args = [''command'' \<mapsto> JStr (''echo '' @ [CHR 0x22] @ ''=== CPU '' @ [CHR 0xE4, CHR 0xBF, CHR 0xA1, CHR 0xE6, CHR 0x81,
     CHR 0xAF] @ '' ==='' @ [CHR 0x22] @ '' && echo '' @ [CHR 0x22, CHR 0xE6, CHR 0xA0,
     CHR 0xB8, CHR 0xE5, CHR 0xBF, CHR 0x83, CHR 0xE6, CHR 0x95, CHR 0xB0] @ '': $(nproc)'' @
     [CHR 0x22] @ '' && echo '' @ [CHR 0x22, CHR 0xE5, CHR 0x9E, CHR 0x8B, CHR 0xE5,
     CHR 0x8F, CHR 0xB7] @ '': $(cat /proc/cpuinfo | grep '' @ [CHR 0x27] @ ''model name'' @
     [CHR 0x27] @ '' | head -1 | cut -d: -f2 | xargs)'' @ [CHR 0x22] @ '' && echo '' @
     [CHR 0x22, CHR 0xE8, CHR 0xB4, CHR 0x9F, CHR 0xE8, CHR 0xBD, CHR 0xBD] @ '': $(cat /proc/loadavg | awk '' @
     [CHR 0x27] @ ''{print $1, $2, $3}'' @ [CHR 0x27] @ '')'' @ [CHR 0x22])],
        ss_Condition = [], ss_OnError = ''continue'', ss_Retries = 0\<rparr>,
       \<lparr>ss_Name = ''memory_info'', ss_Tool = ''local_shell'', ss_Action = [],
        ss_Args = [''command'' \<mapsto> JStr (''echo '' @ [CHR 0x22] @ ''=== '' @ [CHR 0xE5, CHR 0x86, CHR 0x85, CHR 0xE5, CHR 0xAD,
     CHR 0x98, CHR 0xE4, CHR 0xBF, CHR 0xA1, CHR 0xE6, CHR 0x81, CHR 0xAF] @ '' ==='' @
     [CHR 0x22] @ '' && free -h | head -2 && echo '' @ [CHR 0x22, CHR 0x22] @ '' && echo '' @
     [CHR 0x22, CHR 0xE4, CHR 0xBD, CHR 0xBF, CHR 0xE7, CHR 0x94, CHR 0xA8, CHR 0xE7,
     CHR 0x8E, CHR 0x87] @ '': $(free | grep Mem | awk '' @ [CHR 0x27] @ ''{printf '' @
     [CHR 0x22] @ ''%.1f%%'' @ [CHR 0x22] @ '', $3/$2 * 100}'' @ [CHR 0x27] @ '')'' @
     [CHR 0x22])],
        ss_Condition = [], ss_OnError = ''continue'', ss_Retries = 0\<rparr>,
       \<lparr>ss_Name = ''disk_info'', ss_Tool = ''local_shell'', ss_Action = [],
        ss_Args = [''command'' \<mapsto> JStr (''echo '' @ [CHR 0x22] @ ''=== '' @ [CHR 0xE7, CHR 0xA3, CHR 0x81, CHR 0xE7, CHR 0x9B,
     CHR 0x98, CHR 0xE4, CHR 0xBF, CHR 0xA1, CHR 0xE6, CHR 0x81, CHR 0xAF] @ '' ==='' @
     [CHR 0x22] @ '' && df -h | grep -E '' @ [CHR 0x22] @ ''^/dev|Filesystem'' @ [CHR 0x22] @
     '' | head -10'')],
        ss_Condition = [], ss_OnError = ''continue'', ss_Retries = 0\<rparr>,
       \<lparr>ss_Name = ''network_info'', ss_Tool = ''local_shell'', ss_Action = [],
        ss_Args = [''command'' \<mapsto> JStr (''echo '' @ [CHR 0x22] @ ''=== '' @ [CHR 0xE7, CHR 0xBD, CHR 0x91, CHR 0xE7, CHR 0xBB,
     CHR 0x9C, CHR 0xE4, CHR 0xBF, CHR 0xA1, CHR 0xE6, CHR 0x81, CHR 0xAF] @ '' ==='' @
     [CHR 0x22] @ '' && ip -4 addr show | grep -E '' @ [CHR 0x22] @ ''inet |^[0-9]'' @
     [CHR 0x22] @ '' | head -10 2>/dev/null || ifconfig | grep -E '' @ [CHR 0x22] @
     ''inet |^[a-z]'' @ [CHR 0x22] @ '' | head -10'')],
        ss_Condition = [], ss_OnError = ''continue'', ss_Retries = 0\<rparr>,
       \<lparr>ss_Name = ''detailed_processes'', ss_Tool = ''local_shell'', ss_Action = [],
        ss_Args = [''command'' \<mapsto> JStr (''echo '' @ [CHR 0x22] @ ''=== Top 10 '' @ [CHR 0xE8, CHR 0xBF, CHR 0x9B, CHR 0xE7,
     CHR 0xA8, CHR 0x8B] @ '' (CPU) ==='' @ [CHR 0x22] @ '' && ps aux --sort=-%cpu | head -11'')],
        ss_Condition = ''{{.detailed}} == true'', ss_OnError = ''continue'', ss_Retries = 0\<rparr>,
       \<lparr>ss_Name = ''detailed_connections'', ss_Tool = ''local_shell'', ss_Action = [],
        ss_Args = [''command'' \<mapsto> JStr (''echo '' @ [CHR 0x22] @ ''=== '' @ [CHR 0xE7, CHR 0xBD, CHR 0x91, CHR 0xE7, CHR 0xBB,
     CHR 0x9C, CHR 0xE8, CHR 0xBF, CHR 0x9E, CHR 0xE6, CHR 0x8E, CHR 0xA5, CHR 0xE7,
     CHR 0xBB, CHR 0x9F, CHR 0xE8, CHR 0xAE, CHR 0xA1] @ '' ==='' @ [CHR 0x22] @ '' && ss -s 2>/dev/null || netstat -s | head -20'')],
        ss_Condition = ''{{.detailed}} == true'', ss_OnError = ''continue'', ss_Retries = 0\<rparr>],
      sl_Timeout = 2 * Minute, sl_NeedConfirm = False\<rparr>"

end
