(* ===== verification/Owl_Builtin.thy ===== *)
theory Owl_Builtin
  imports Owl_BuiltinA Owl_BuiltinB Owl_BuiltinC
begin

text \<open>
  \<open>internal/skills/builtin/registry.go\<close>: the list of the built-in skills, and their registration when
  the program starts.
\<close>

definition RegisterAll :: "skill_registry \<Rightarrow> skill_registry" where
  "RegisterAll registry =
     fold skill_Register
      [BackupSkill, PostgresBackupSkill, MySQLBackupSkill, HealthcheckSkill, SystemHealthSkill,
       DockerHealthSkill, ServiceHealthSkill, RestartServiceSkill, ScaleServiceSkill, RollingRestartSkill,
       CleanupSkill, DockerCleanupSkill, LogCleanupSkill, SystemInfoSkill, NetworkDiagSkill, PortCheckSkill,
       NetworkStatsSkill, LogTailSkill, LogSearchSkill, ServiceRestartSkill, NginxReloadSkill, SSLCheckSkill,
       SSLRenewSkill, FirewallStatusSkill, FirewallAllowSkill, FirewallDenySkill, DockerStatsSkill,
       DockerInspectSkill, DockerLogsAnalyzeSkill, CaddyReloadSkill, CaddyStatusSkill, CaddyLogsSkill,
       NginxStatusSkill, NginxLogsSkill] registry"

definition ListBuiltinSkills :: "skill list" where
  "ListBuiltinSkills =
      [BackupSkill, PostgresBackupSkill, MySQLBackupSkill, HealthcheckSkill, SystemHealthSkill,
       DockerHealthSkill, ServiceHealthSkill, RestartServiceSkill, ScaleServiceSkill, RollingRestartSkill,
       CleanupSkill, DockerCleanupSkill, LogCleanupSkill, SystemInfoSkill, NetworkDiagSkill, PortCheckSkill,
       NetworkStatsSkill, LogTailSkill, LogSearchSkill, ServiceRestartSkill, NginxReloadSkill, SSLCheckSkill,
       SSLRenewSkill, FirewallStatusSkill, FirewallAllowSkill, FirewallDenySkill, DockerStatsSkill,
       DockerInspectSkill, DockerLogsAnalyzeSkill, CaddyReloadSkill, CaddyStatusSkill, CaddyLogsSkill,
       NginxStatusSkill, NginxLogsSkill]"

definition GetBuiltinSkill :: "string \<Rightarrow> skill option" where
  "GetBuiltinSkill name = find (\<lambda>s. sl_Name s = name) ListBuiltinSkills"

end
