(* ===== verification/Owl_Template.thy ===== *)
theory Owl_Template
  imports Owl_SkillRun "HOL-Library.List_Lexorder"
begin

text \<open>
  The part of Go's \<open>text/template\<close> that the built-in skills use, on the data that \<open>renderTemplate\<close> of
  \<open>internal/skills/executor.go\<close> makes: fields (\<open>.a.b\<close>), \<open>if\<close> and \<open>range\<close> over fields, and \<open>index .steps\<close>
  with a plain key. \<open>template_parse\<close> is \<open>None\<close> for every other text, so that nothing is said of trim marks,
  functions, variables and comments. As in Go, a field of nothing is nothing and prints as \<open><no value>\<close>,
  while a field of a value that is no map is an error.
\<close>

subsection \<open>Parsing\<close>

datatype action = AField "string list" | AIndex string | AOpen bool "string list" | AEnd

datatype part = PText string | PAct action

datatype node = TText string | TField "string list" | TIndex string | TIf "string list" "node list"
  | TRange "string list" "node list"

definition ident_start :: "char \<Rightarrow> bool" where
  "ident_start c \<longleftrightarrow> c \<in> set ''abcdefghijklmnopqrstuvwxyzABCDEFGHIJKLMNOPQRSTUVWXYZ_''"

definition go_identifier :: "string \<Rightarrow> bool" where
  "go_identifier s = (case s of [] \<Rightarrow> False | c # cs \<Rightarrow> ident_start c \<and> list_all (\<lambda>d. ident_start d \<or> is_digit d) cs)"

text \<open>\<open>.\<close> is the value itself, the empty path.\<close>

definition field_path :: "string \<Rightarrow> string list option" where
  "field_path s =
     (if s = ''.'' then Some []
      else case split_on CHR ''.'' s of
        [] # names \<Rightarrow> if names \<noteq> [] \<and> list_all go_identifier names then Some names else None
      | _ \<Rightarrow> None)"

definition plain_key :: "string \<Rightarrow> string option" where
  "plain_key s =
     (case s of
        q # rest \<Rightarrow>
          if q = CHR 0x22 \<and> rest \<noteq> [] \<and> List.last rest = CHR 0x22 \<and> list_all (\<lambda>c. ident_start c \<or> is_digit c) (butlast rest)
          then Some (butlast rest) else None
      | [] \<Rightarrow> None)"

definition parse_action :: "string \<Rightarrow> action option" where
  "parse_action s =
     (if s = ''end'' then Some AEnd
      else if prefix ''if '' s then map_option (AOpen False) (field_path (drop 3 s))
      else if prefix ''range '' s then map_option (AOpen True) (field_path (drop 6 s))
      else if prefix ''index .steps '' s then map_option AIndex (plain_key (drop 13 s))
      else map_option AField (field_path s))"

function template_parts :: "string \<Rightarrow> part list option" where
  "template_parts s =
     (case Cut s ''{{'' of
        None \<Rightarrow> Some [PText s]
      | Some (before, rest) \<Rightarrow>
          (case Cut rest ''}}'' of
             None \<Rightarrow> None
           | Some (act, after) \<Rightarrow>
               (case parse_action act of
                  None \<Rightarrow> None
                | Some a \<Rightarrow> map_option (\<lambda>ps. PText before # PAct a # ps) (template_parts after))))"
  by pat_completeness auto

lemma Cut_shorter: "Cut s sep = Some (l, r) \<Longrightarrow> length l + length sep + length r = length s"
  using Cut_Some[of s sep l r] by simp

termination template_parts
  by (relation "measure length") (auto dest!: Cut_shorter)

declare template_parts.simps [simp del]

text \<open>
  Printing the whole data, or all outputs of steps, is outside the fragment: a path is refused if it is
  empty outside a \<open>range\<close>, or is \<open>.steps\<close>. The stack holds the open blocks with what stands before them.
\<close>

definition path_ok :: "(bool \<times> string list \<times> node list) list \<Rightarrow> string list \<Rightarrow> bool" where
  "path_ok stack p \<longleftrightarrow> p \<noteq> [''steps''] \<and> (p = [] \<longrightarrow> list_ex (\<lambda>(ranging, _). ranging) stack)"

fun nest :: "part list \<Rightarrow> node list \<Rightarrow> (bool \<times> string list \<times> node list) list \<Rightarrow> node list option" where
  "nest [] acc [] = Some (rev acc)"
| "nest [] acc (b # stack) = None"
| "nest (PText s # ps) acc stack = nest ps (if s = [] then acc else TText s # acc) stack"
| "nest (PAct (AField p) # ps) acc stack = (if path_ok stack p then nest ps (TField p # acc) stack else None)"
| "nest (PAct (AIndex k) # ps) acc stack = (if stack = [] then nest ps (TIndex k # acc) stack else None)"
| "nest (PAct (AOpen ranging p) # ps) acc stack =
     (if path_ok stack p then nest ps [] ((ranging, p, acc) # stack) else None)"
| "nest (PAct AEnd # ps) acc [] = None"
| "nest (PAct AEnd # ps) acc ((ranging, p, outer) # stack) =
     nest ps ((if ranging then TRange p (rev acc) else TIf p (rev acc)) # outer) stack"

definition template_parse :: "string \<Rightarrow> node list option" where
  "template_parse s = (case template_parts s of None \<Rightarrow> None | Some ps \<Rightarrow> nest ps [] [])"

subsection \<open>Values\<close>

text \<open>Nothing, the data of a skill (its variables, and the outputs of its steps under \<open>steps\<close>), these
  outputs, or a value.\<close>

datatype tval = VNone | VData args "string \<rightharpoonup> string" | VOutputs "string \<rightharpoonup> string" | VJson json

definition interface :: "json option \<Rightarrow> tval" where
  "interface v = (case v of None \<Rightarrow> VNone | Some x \<Rightarrow> VJson x)"

fun get_field :: "tval \<Rightarrow> string \<Rightarrow> tval option" where
  "get_field VNone f = Some VNone"
| "get_field (VData vars outs) f = Some (if f = ''steps'' then VOutputs outs else interface (vars f))"
| "get_field (VOutputs outs) f = Some (interface (map_option JStr (outs f)))"
| "get_field (VJson (JObj kvs)) f = Some (interface (map_of (rev kvs) f))"
| "get_field (VJson v) f = None"

fun get_path :: "tval \<Rightarrow> string list \<Rightarrow> tval option" where
  "get_path v [] = Some v"
| "get_path v (f # fs) = (case get_field v f of None \<Rightarrow> None | Some w \<Rightarrow> get_path w fs)"

text \<open>The result of a pipeline: an interface that holds nil is nothing.\<close>

definition piped :: "tval \<Rightarrow> tval" where
  "piped v = (case v of VJson JNull \<Rightarrow> VNone | _ \<Rightarrow> v)"

definition no_value :: string where "no_value = ''<no value>''"

definition print_value :: "(json \<Rightarrow> string) \<Rightarrow> tval \<Rightarrow> string option" where
  "print_value fmt v = (case piped v of VNone \<Rightarrow> Some no_value | VJson j \<Rightarrow> Some (Sprint fmt j) | _ \<Rightarrow> None)"

definition truth :: "tval \<Rightarrow> bool" where
  "truth v =
     (case piped v of
        VNone \<Rightarrow> False
      | VJson j \<Rightarrow>
          (case j of JNull \<Rightarrow> False | JBool b \<Rightarrow> b | JInt i \<Rightarrow> i \<noteq> 0 | JReal r \<Rightarrow> r \<noteq> 0 | JStr s \<Rightarrow> s \<noteq> []
           | JTime _ \<Rightarrow> True | JArr vs \<Rightarrow> vs \<noteq> [] | JObj kvs \<Rightarrow> kvs \<noteq> [])
      | _ \<Rightarrow> True)"

text \<open>What \<open>range\<close> visits: the elements of a list, the values of a map in the order of its keys, the
  numbers below an integer.\<close>

definition elements :: "tval \<Rightarrow> tval list option" where
  "elements v =
     (case piped v of
        VNone \<Rightarrow> Some []
      | VJson (JArr vs) \<Rightarrow> Some (map VJson vs)
      | VJson (JObj kvs) \<Rightarrow>
          Some (map (\<lambda>k. interface (map_of (rev kvs) k)) (sort_key (map (\<lambda>c. of_char c :: nat)) (remdups (map fst kvs))))
      | VJson (JInt i) \<Rightarrow> Some (map (\<lambda>n. VJson (JInt (int n))) [0..<nat i])
      | _ \<Rightarrow> None)"

subsection \<open>Evaluation\<close>

definition then_text :: "string option \<Rightarrow> string option \<Rightarrow> string option" where
  "then_text a b = (case a of None \<Rightarrow> None | Some s \<Rightarrow> map_option ((@) s) b)"

definition all_texts :: "string option list \<Rightarrow> string option" where
  "all_texts xs = foldr then_text xs (Some [])"

fun exec_nodes :: "(json \<Rightarrow> string) \<Rightarrow> (string \<rightharpoonup> string) \<Rightarrow> tval \<Rightarrow> node list \<Rightarrow> string option" where
  "exec_nodes fmt outs dot [] = Some []"
| "exec_nodes fmt outs dot (TText s # ns) = then_text (Some s) (exec_nodes fmt outs dot ns)"
| "exec_nodes fmt outs dot (TField p # ns) =
     then_text (case get_path dot p of None \<Rightarrow> None | Some v \<Rightarrow> print_value fmt v) (exec_nodes fmt outs dot ns)"
| "exec_nodes fmt outs dot (TIndex k # ns) =
     then_text (Some (case outs k of None \<Rightarrow> [] | Some s \<Rightarrow> s)) (exec_nodes fmt outs dot ns)"
| "exec_nodes fmt outs dot (TIf p b # ns) =
     then_text (case get_path dot p of
                  None \<Rightarrow> None
                | Some v \<Rightarrow> if truth v then exec_nodes fmt outs dot b else Some [])
       (exec_nodes fmt outs dot ns)"
| "exec_nodes fmt outs dot (TRange p b # ns) =
     then_text (case get_path dot p of
                  None \<Rightarrow> None
                | Some v \<Rightarrow>
                    (case elements v of
                       None \<Rightarrow> None
                     | Some vs \<Rightarrow> all_texts (map (\<lambda>d. exec_nodes fmt outs d b) vs)))
       (exec_nodes fmt outs dot ns)"

definition template_exec :: "(json \<Rightarrow> string) \<Rightarrow> node list \<Rightarrow> args \<Rightarrow> (string \<rightharpoonup> string) \<Rightarrow> string option" where
  "template_exec fmt ns vars outs = exec_nodes fmt outs (VData vars outs) ns"

text \<open>
  What is assumed of the template library: on a text of the fragment it gives the text computed here, or
  an error where there is none.
\<close>

definition go_templates :: "'w skill_services \<Rightarrow> bool" where
  "go_templates sx \<longleftrightarrow>
     (\<forall>txt ns vars outs. template_parse txt = Some ns \<longrightarrow>
        (case template_exec (sx_fmt sx) ns vars outs of
           None \<Rightarrow> \<exists>e. sx_template sx txt vars outs = Inl e
         | Some r \<Rightarrow> sx_template sx txt vars outs = Inr r))"

definition fragment_template :: "(json \<Rightarrow> string) \<Rightarrow> string \<Rightarrow> args \<Rightarrow> (string \<rightharpoonup> string) \<Rightarrow> string + string" where
  "fragment_template fmt txt vars outs =
     (case template_parse txt of
        None \<Rightarrow> Inl ''template: unsupported''
      | Some ns \<Rightarrow>
          (case template_exec fmt ns vars outs of None \<Rightarrow> Inl ''template: execution failed'' | Some r \<Rightarrow> Inr r))"

lemma go_templates_fragment:
  assumes "\<And>txt vars outs. sx_template sx txt vars outs = fragment_template (sx_fmt sx) txt vars outs"
  shows "go_templates sx"
  unfolding go_templates_def
proof (intro allI impI)
  fix s ns vars outs
  assume "template_parse s = Some ns"
  then show "case template_exec (sx_fmt sx) ns vars outs of
      None \<Rightarrow> \<exists>e. sx_template sx s vars outs = Inl e
    | Some r \<Rightarrow> sx_template sx s vars outs = Inr r"
    by (cases "template_exec (sx_fmt sx) ns vars outs") (simp_all add: assms[of s vars outs] fragment_template_def)
qed

lemma rendered_text:
  assumes "go_templates sx" "template_parse txt = Some ns"
    "template_exec (sx_fmt sx) ns (kx_variables st) (kx_outputs st) = Some r"
  shows "renderTemplate sx st txt = Inr r"
  using assms(1)[unfolded go_templates_def, rule_format, OF assms(2), of "kx_variables st" "kx_outputs st"] assms(3)
  by (simp add: renderTemplate_def)

subsection \<open>Plain fields\<close>

text \<open>A field of the data prints as the variable of its name.\<close>

definition shown :: "(json \<Rightarrow> string) \<Rightarrow> args \<Rightarrow> string \<Rightarrow> string" where
  "shown fmt vars x = (case vars x of None \<Rightarrow> no_value | Some JNull \<Rightarrow> no_value | Some v \<Rightarrow> Sprint fmt v)"

lemma print_variable:
  "print_value fmt (interface (vars x)) = Some (shown fmt vars x)"
  by (auto simp: print_value_def interface_def piped_def shown_def split: option.splits json.splits)

lemma then_text_Some [simp]: "then_text (Some a) (Some b) = Some (a @ b)"
  by (simp add: then_text_def)

lemma exec_variable [simp]:
  "x \<noteq> ''steps'' \<Longrightarrow> exec_nodes fmt outs (VData vars outs) (TField [x] # ns) =
     then_text (Some (shown fmt vars x)) (exec_nodes fmt outs (VData vars outs) ns)"
  by (simp add: print_variable)

text \<open>A path into a variable that is not set prints as nothing, whatever it asks for.\<close>

lemma get_path_VNone [simp]: "get_path VNone p = Some VNone"
  by (induction p) auto

lemma exec_unset [simp]:
  "x \<noteq> ''steps'' \<Longrightarrow> vars x = None \<Longrightarrow> exec_nodes fmt outs (VData vars outs) (TField (x # p) # ns) =
     then_text (Some no_value) (exec_nodes fmt outs (VData vars outs) ns)"
  by (simp add: interface_def print_value_def piped_def)

end
