(* ===== verification/Owl_BuiltinRuns.thy ===== *)
theory Owl_BuiltinRuns
  imports Owl_Builtin Owl_Template Owl_SkillRunProps Owl_SkillProps
begin

text \<open>
  Lemmas for the runs of built-in skills: which conditions can hold once their template is filled in, and
  which programs a run of shell and container steps can start.
\<close>

subsection \<open>Trimming keeps what stands between visible characters\<close>

lemma white_not_plain: "\<forall>w \<in> set white_runes. \<forall>c \<in> set w. \<not> plain c"
  by (simp add: white_runes_def plain_def)

lemma trim_left_core:
  assumes "\<forall>w \<in> set ws. \<forall>d \<in> set w. \<not> plain d" and "plain c"
  shows "\<exists>p'. trim_left_of ws (p @ c # r) = p' @ c # r \<and> suffix p' p"
proof (induction "length p" arbitrary: p rule: less_induct)
  case less
  show ?case
  proof (cases "white_len ws (p @ c # r) = 0")
    case True
    then show ?thesis by (intro exI[of _ p]) (simp add: trim_left_of.simps[of ws "p @ c # r"])
  next
    case False
    then obtain w where w: "w \<in> set ws" "prefix w (p @ c # r)" "white_len ws (p @ c # r) = length w"
      by (auto simp: white_len_def split: option.splits dest!: find_SomeD)
    have "length w \<le> length p"
    proof (rule ccontr)
      assume "\<not> ?thesis"
      moreover obtain zs where "p @ c # r = w @ zs" using w(2) by (auto simp: prefix_def)
      then have "(p @ c # r) ! length p = (w @ zs) ! length p" by simp
      ultimately have "c = w ! length p" "length p < length w" by (simp_all add: nth_append)
      then have "c \<in> set w" by simp
      then show False using assms w(1) by blast
    qed
    moreover have "0 < length w" using False w(3) by simp
    ultimately have "length p - length w < length p" "length w \<le> length p" by linarith+
    then have "length (drop (length w) p) < length p" "drop (length w) (p @ c # r) = drop (length w) p @ c # r"
      by auto
    then show ?thesis
      using less[of "drop (length w) p"] False w(3) suffix_order.trans[OF _ suffix_drop[of "length w" p]]
      by (auto simp: trim_left_of.simps[of ws "p @ c # r"])
  qed
qed

lemma TrimSpace_core:
  assumes "plain c" and "plain d"
  shows "\<exists>p' z'. TrimSpace (p @ (c # m @ [d]) @ z) = p' @ (c # m @ [d]) @ z' \<and> suffix p' p"
proof -
  obtain p' where l: "TrimLeftSpace (p @ (c # m @ [d]) @ z) = p' @ (c # m @ [d]) @ z" "suffix p' p"
    using trim_left_core[OF white_not_plain assms(1), of p "m @ [d] @ z"] by (auto simp: TrimLeftSpace_def)
  have "\<forall>w \<in> set (map rev white_runes). \<forall>e \<in> set w. \<not> plain e" using white_not_plain by simp
  from trim_left_core[OF this assms(2), of "rev z" "rev (p' @ c # m)"]
  obtain y where "trim_left_of (map rev white_runes) (rev z @ d # rev (p' @ c # m)) = y @ d # rev (p' @ c # m)" by blast
  then have "TrimRightSpace (p' @ (c # m @ [d]) @ z) = p' @ (c # m @ [d]) @ rev y"
    by (simp add: TrimRightSpace_def)
  with l show ?thesis unfolding TrimSpace_def by auto
qed

lemma TrimCut_core:
  assumes "c \<notin> cs" and "d \<notin> cs"
  shows "\<exists>p' z'. TrimCut cs (p @ (c # m @ [d]) @ z) = p' @ (c # m @ [d]) @ z'"
proof -
  have drop: "\<exists>q'. dropWhile (\<lambda>c. c \<in> cs) (q @ e # r) = q' @ e # r" if "e \<notin> cs" for q e r
    using that by (induction q) auto
  obtain p' where "dropWhile (\<lambda>c. c \<in> cs) (p @ (c # m @ [d]) @ z) = p' @ (c # m @ [d]) @ z"
    using drop[OF assms(1), of p "m @ [d] @ z"] by auto
  moreover obtain y where "dropWhile (\<lambda>c. c \<in> cs) (rev z @ d # rev (p' @ c # m)) = y @ d # rev (p' @ c # m)"
    using drop[OF assms(2)] by blast
  ultimately have "TrimCut cs (p @ (c # m @ [d]) @ z) = p' @ (c # m @ [d]) @ rev y" by (simp add: TrimCut_def)
  then show ?thesis by blast
qed

text \<open>A mark: its ends are visible and no quotes.\<close>

definition is_mark :: "string \<Rightarrow> bool" where
  "is_mark w \<longleftrightarrow> (\<exists>c m d. w = c # m @ [d] \<and> plain c \<and> plain d \<and> c \<notin> quotes \<and> d \<notin> quotes)"

lemma trimmed_mark:
  assumes "is_mark w" and "sublist w r"
  shows "sublist w (TrimSpace (TrimCut quotes r))"
proof -
  obtain c m d where w: "w = c # m @ [d]" "plain c" "plain d" "c \<notin> quotes" "d \<notin> quotes"
    using assms(1) unfolding is_mark_def by blast
  obtain p z where r: "r = p @ w @ z" using assms(2) by (auto simp: sublist_def)
  obtain p1 z1 where "TrimCut quotes r = p1 @ w @ z1" using TrimCut_core[OF w(4,5), of p m z] unfolding r w(1) by blast
  moreover obtain p2 z2 where "TrimSpace (p1 @ w @ z1) = p2 @ w @ z2"
    using TrimSpace_core[OF w(2,3), of p1 m z1] unfolding w(1) by blast
  ultimately show ?thesis by simp
qed

subsection \<open>Compound conditions\<close>

lemma Cut_first: "Cut s w = Some (l, r) \<Longrightarrow> s = a @ w @ b \<Longrightarrow> length l \<le> length a"
proof (induction s w arbitrary: l r a rule: Cut.induct)
  case (2 c cs w)
  show ?case
  proof (cases a)
    case Nil
    then have "prefix w (c # cs)" using "2.prems"(2) by simp
    then show ?thesis using "2.prems"(1) by simp
  next
    case (Cons d a')
    then show ?thesis using "2.prems" "2.IH"[of _ _ a'] by (cases "prefix w (c # cs)") auto
  qed
qed (auto split: if_splits)

lemma Cut_found: "s = a @ w @ b \<Longrightarrow> \<exists>l r. Cut s w = Some (l, r)"
  using Cut_None[of s w] by (cases "Cut s w") (auto simp: Contains_sublist)

text \<open>
  Only the first \<open>==\<close> splits a condition. When a mark that the left side does not have follows
  it, the sides differ: so \<open>a == b || c == d\<close> and \<open>a == b && c != d\<close> never hold.
\<close>

lemma compound_never_holds:
  assumes "s = p @ ''=='' @ q @ w @ z" and "is_mark w" and "\<not> sublist w p"
  shows "\<not> condition_truth s"
proof -
  obtain c m d where w: "w = c # m @ [d]" "plain c" "plain d" using assms(2) unfolding is_mark_def by blast
  have "plain (CHR ''='')" by (simp add: plain_def)
  from TrimSpace_core[OF this w(3), of p "''='' @ q @ c # m" z]
  obtain p' z' where t: "TrimSpace s = p' @ ''=='' @ q @ w @ z'" "suffix p' p"
    unfolding assms(1) w(1) by auto
  obtain l r where cut: "Cut (TrimSpace s) ''=='' = Some (l, r)" using Cut_found[OF t(1)] by blast
  have eq: "p' @ ''=='' @ q @ w @ z' = l @ ''=='' @ r" using Cut_Some[OF cut] t(1) by simp
  have le: "length l \<le> length p'" by (rule Cut_first[OF cut t(1)])
  have "prefix l p'" by (rule prefix_length_prefix[OF _ _ le]) (use eq in \<open>auto simp: prefix_def\<close>)
  then have "sublist l p" using t(2) by (meson prefix_imp_sublist suffix_imp_sublist sublist_order.order.trans)
  then have "\<not> sublist w (TrimSpace l)" using assms(3) TrimSpace_sublist sublist_order.order.trans by blast
  moreover have "suffix (w @ z') r"
  proof -
    have "suffix r (TrimSpace s)" unfolding t(1) eq by (simp add: suffix_def)
    moreover have "suffix (w @ z') (TrimSpace s)" unfolding t(1) suffix_def by (metis append_assoc)
    moreover have "length (w @ z') \<le> length r" using arg_cong[OF eq, of length] le by simp
    ultimately show ?thesis using suffix_length_suffix by blast
  qed
  then have "sublist w r" by (auto simp: suffix_def sublist_def)
  then have "sublist w (TrimSpace (TrimCut quotes r))" using trimmed_mark[OF assms(2)] by blast
  ultimately have "TrimSpace l \<noteq> TrimSpace (TrimCut quotes r)" by auto
  then show ?thesis using cut by (simp add: condition_truth_def Let_def)
qed

lemma marks: "is_mark ''==''" "is_mark ''&&''" "is_mark ''||''"
  by (auto simp: is_mark_def plain_def intro!: exI[of _ "[]"])

lemma two_equals_never_hold: "\<not> condition_truth (p @ ''=='' @ q @ ''=='' @ z)"
proof (cases "sublist ''=='' p")
  case True
  then obtain a b where "p = a @ ''=='' @ b" by (auto simp: sublist_def)
  from Cut_found[OF this] obtain l r where cut: "Cut p ''=='' = Some (l, r)" by blast
  have p: "p = l @ ''=='' @ r" using Cut_Some[OF cut] by simp
  have "\<not> sublist ''=='' l"
  proof
    assume "sublist ''=='' l"
    then obtain a b where "l = a @ ''=='' @ b" by (auto simp: sublist_def)
    then show False using Cut_first[OF cut, of a "b @ ''=='' @ r"] p by simp
  qed
  then show ?thesis using compound_never_holds[OF _ marks(1), of _ l "r @ ''=='' @ q" z] p by simp
next
  case False
  then show ?thesis using compound_never_holds[OF refl marks(1)] by blast
qed

subsection \<open>The programs of a run\<close>

text \<open>The program that a shell or container step starts with given arguments.\<close>

definition step_argv :: "'w skill_services \<Rightarrow> skill_step \<Rightarrow> args \<Rightarrow> string list option" where
  "step_argv sx step a =
     (if ss_Tool step = ''local_shell'' then map_option (\<lambda>c. [''sh'', ''-c'', c]) (arg_string ''command'' a)
      else case docker_args (sx_fmt sx) (ss_Action step) a of Inl e \<Rightarrow> None | Inr as \<Rightarrow> Some (''docker'' # as))"

text \<open>The programs that a step may start when the variables are \<open>vars\<close>, whatever the outputs of other steps.\<close>

definition programs_of :: "'w skill_services \<Rightarrow> args \<Rightarrow> skill_step \<Rightarrow> string list set" where
  "programs_of sx vars step =
     {argv. \<exists>st a. kx_variables st = vars \<and>
        (ss_Condition step = [] \<or> evaluateCondition sx st (ss_Condition step) = Inr True) \<and>
        processArgs sx st (ss_Args step) = Inr a \<and> step_argv sx step a = Some argv}"

definition leaf_step :: "skill_step \<Rightarrow> bool" where
  "leaf_step step \<longleftrightarrow> ss_Tool step = ''local_shell'' \<or> ss_Tool step = ''docker''"

abbreviation kx_log :: "'w skill_state \<Rightarrow> string list list" where
  "kx_log st \<equiv> ma_log (kx_machine st)"

text \<open>\<open>st'\<close> continues \<open>st\<close> with programs from \<open>A\<close> and the same variables.\<close>

definition ran_only :: "string list set \<Rightarrow> 'w skill_state \<Rightarrow> 'w skill_state \<Rightarrow> bool" where
  "ran_only A st st' \<longleftrightarrow> kx_variables st' = kx_variables st \<and> (\<exists>rs. kx_log st' = kx_log st @ rs \<and> set rs \<subseteq> A)"

lemma ran_refl [simp]: "ran_only A st st"
  by (simp add: ran_only_def)

lemma ran_trans: "ran_only A st st1 \<Longrightarrow> ran_only A st1 st2 \<Longrightarrow> ran_only A st st2"
  unfolding ran_only_def by (metis append_assoc set_append Un_subset_iff)

lemma ran_mono: "ran_only A st st' \<Longrightarrow> A \<subseteq> B \<Longrightarrow> ran_only B st st'"
  unfolding ran_only_def by blast

lemma ran_quiet: "kx_variables st' = kx_variables st \<Longrightarrow> kx_log st' = kx_log st \<Longrightarrow> ran_only A st st'"
  by (simp add: ran_only_def)

lemma ran_program:
  "run_program sx argv dir st = (st', r) \<Longrightarrow> argv \<in> A \<Longrightarrow> ran_only A st st'"
  by (auto simp: run_program_def ran_only_def Let_def split: prod.splits)

lemma run_step_tool_ran:
  assumes "leaf_step step" "run_step_tool sx nested dl step a st = Some (st', r)"
    "\<And>argv. step_argv sx step a = Some argv \<Longrightarrow> argv \<in> A"
  shows "ran_only A st st'"
proof (cases "ss_Tool step = ''local_shell''")
  case True
  then have run: "executeLocalShell sx a st = (st', r)" using assms(2) by (simp add: run_step_tool_def)
  show ?thesis
  proof (cases "arg_string ''command'' a")
    case None
    then show ?thesis using run by (simp add: executeLocalShell_def)
  next
    case (Some c)
    then have "[''sh'', ''-c'', c] \<in> A" using assms(3) True by (simp add: step_argv_def)
    then show ?thesis using run Some by (auto simp: executeLocalShell_def intro: ran_program)
  qed
next
  case False
  then have d: "ss_Tool step = ''docker''" using assms(1) by (simp add: leaf_step_def)
  then have run: "executeDocker sx (ss_Action step) a st = (st', r)" using assms(2) by (simp add: run_step_tool_def)
  show ?thesis
  proof (cases "docker_args (sx_fmt sx) (ss_Action step) a")
    case (Inl e)
    then show ?thesis using run by (simp add: executeDocker_def)
  next
    case (Inr as)
    then have "''docker'' # as \<in> A" using assms(3) d by (simp add: step_argv_def)
    then show ?thesis using run Inr by (auto simp: executeDocker_def intro: ran_program)
  qed
qed

lemma executeStep_ran:
  assumes "leaf_step step" "executeStep sx nested dl step st = Some (st', r)"
  shows "ran_only (programs_of sx (kx_variables st) step) st st'"
proof -
  have body: "ran_only (programs_of sx (kx_variables st) step) st st'"
    if c: "ss_Condition step = [] \<or> evaluateCondition sx st (ss_Condition step) = Inr True"
      and x: "(case processArgs sx st (ss_Args step) of
             Inl e \<Rightarrow> Some (named sx step (sx_clock sx (kx_world st)) (st, failed_step (''process args failed: '' @ e)))
           | Inr a \<Rightarrow> map_option (named sx step (sx_clock sx (kx_world st))) (run_step_tool sx nested dl step a st)) =
           Some (st', r)"
  proof (cases "processArgs sx st (ss_Args step)")
    case (Inl e)
    then show ?thesis using x by (simp add: named_def)
  next
    case (Inr a)
    then obtain y where y: "run_step_tool sx nested dl step a st = Some y" "named sx step (sx_clock sx (kx_world st)) y = (st', r)"
      using x by (cases "run_step_tool sx nested dl step a st") simp_all
    then have run: "run_step_tool sx nested dl step a st = Some (st', snd y)"
      by (cases y) (simp add: named_def)
    show ?thesis
      by (rule run_step_tool_ran[OF assms(1) run]) (use Inr c in \<open>auto simp: programs_of_def\<close>)
  qed
  show ?thesis
  proof (cases "ss_Condition step = []")
    case True
    then show ?thesis using assms(2) by (intro body) (simp_all add: executeStep_def Let_def)
  next
    case False
    show ?thesis
    proof (cases "evaluateCondition sx st (ss_Condition step)")
      case (Inl e)
      then show ?thesis using assms(2) False by (simp add: executeStep_def Let_def named_def)
    next
      case (Inr b)
      show ?thesis
      proof (cases b)
        case True
        show ?thesis using assms(2) False Inr True by (intro body) (simp_all add: executeStep_def Let_def)
      next
        case b: False
        show ?thesis using assms(2) False Inr b by (simp add: executeStep_def Let_def named_def)
      qed
    qed
  qed
qed

lemma keep_output_ran [simp]: "ran_only A st (keep_output step r st)"
  by (rule ran_quiet) (simp_all add: keep_output_def)

lemma sleep_for_ran [simp]: "ran_only A st (sleep_for sx d st)"
  by (rule ran_quiet) (simp_all add: sleep_for_def)

lemma ran_vars: "ran_only A st st' \<Longrightarrow> kx_variables st' = kx_variables st"
  by (simp add: ran_only_def)

lemma retry_step_ran:
  assumes "leaf_step step" "retry_step sx nested dl step n i st = Some (st', r)"
  shows "ran_only (programs_of sx (kx_variables st) step) st st'"
  using assms(2)
proof (induction n arbitrary: i st)
  case (Suc n)
  let ?P = "programs_of sx (kx_variables st) step"
  let ?s = "sleep_for sx (Second * int (i + 1)) st"
  obtain st1 res where e: "executeStep sx nested dl step ?s = Some (st1, res)"
    using Suc.prems by (auto split: option.splits)
  have s: "ran_only ?P st ?s" by simp
  have s1: "ran_only ?P st st1"
    using ran_trans[OF s] executeStep_ran[OF assms(1) e] ran_vars[OF s] by simp
  show ?case
  proof (cases "sr_Success res")
    case True
    then show ?thesis using Suc.prems e s1 by auto
  next
    case False
    then have "retry_step sx nested dl step n (Suc i) st1 = Some (st', r)" using Suc.prems e by simp
    from Suc.IH[OF this] show ?thesis using ran_trans[OF s1] ran_vars[OF s1] by simp
  qed
qed simp

lemma run_steps_ran:
  assumes "\<forall>step \<in> set steps. leaf_step step" "run_steps sx nested dl i steps acc st = Some (st', out)"
  shows "ran_only (\<Union>step \<in> set steps. programs_of sx (kx_variables st) step) st st'"
  using assms
proof (induction steps arbitrary: i acc st)
  case (Cons step steps)
  let ?P = "\<Union>step \<in> set (step # steps). programs_of sx (kx_variables st) step"
  have go: "ran_only ?P st st'"
    if "ran_only ?P st x" "run_steps sx nested dl (Suc i) steps acc' x = Some (st', out)" for x acc'
  proof -
    have "ran_only (\<Union>step \<in> set steps. programs_of sx (kx_variables st) step) x st'"
      using Cons.IH[OF _ that(2)] Cons.prems(1) ran_vars[OF that(1)] by simp
    then show ?thesis using ran_trans[OF that(1)] ran_mono by (metis (no_types, lifting) UN_mono set_subset_Cons subset_refl)
  qed
  show ?case
  proof (cases "ctx_err sx dl st")
    case (Some e)
    then show ?thesis using Cons.prems(2) by simp
  next
    case None
    obtain st1 res where e: "executeStep sx nested dl step st = Some (st1, res)"
      using Cons.prems(2) None by (auto split: option.splits)
    have P: "programs_of sx (kx_variables st) step \<subseteq> ?P" by auto
    have l: "leaf_step step" using Cons.prems(1) by simp
    let ?k = "keep_output step res st1"
    have k: "ran_only ?P st ?k"
      using ran_trans[OF ran_mono[OF executeStep_ran[OF l e] P]] by simp
    consider (on) "sr_Success res \<or> ss_OnError step = ''continue''"
      | (again) "\<not> (sr_Success res \<or> ss_OnError step = ''continue'')" "ss_OnError step = ''retry''"
      | (halt) "\<not> (sr_Success res \<or> ss_OnError step = ''continue'')" "ss_OnError step \<noteq> ''retry''" by blast
    then show ?thesis
    proof cases
      case on
      then show ?thesis using Cons.prems(2) None e go[OF k] by (simp add: Let_def)
    next
      case halt
      then show ?thesis using Cons.prems(2) None e k by (simp add: Let_def)
    next
      case again
      obtain st3 q where t: "retry_step sx nested dl step (nat (ss_Retries step)) 0 ?k = Some (st3, q)"
        using Cons.prems(2) None e again by (auto simp: Let_def split: option.splits)
      have k3: "ran_only ?P st st3"
        using ran_trans[OF k] ran_mono[OF retry_step_ran[OF l t]] ran_vars[OF k] P by simp
      show ?thesis
      proof (cases q)
        case None
        then show ?thesis using Cons.prems(2) \<open>ctx_err sx dl st = None\<close> e again t k3 by (simp add: Let_def)
      next
        case (Some res')
        have "ran_only ?P st (keep_output step res' st3)" using ran_trans[OF k3] by simp
        from go[OF this] show ?thesis
          using Cons.prems(2) None e again t Some by (simp add: Let_def)
      qed
    qed
  qed
qed simp

text \<open>A run starts only programs of its steps, under the variables that its parameters give.\<close>

lemma skill_ran:
  assumes "\<forall>step \<in> set (sl_Steps s). leaf_step step"
    and "ExecuteSkill sx nested dl s params st = Some (st', res, err)"
  shows "\<exists>rs. kx_log st' = kx_log st @ rs \<and> (rs = [] \<or> (\<exists>vars. initParameters (sx_fmt sx) s params = (vars, None) \<and>
    set rs \<subseteq> (\<Union>step \<in> set (sl_Steps s). programs_of sx vars step)))"
proof -
  obtain vars perr where i: "initParameters (sx_fmt sx) s params = (vars, perr)" by fastforce
  show ?thesis
  proof (cases perr)
    case (Some e)
    then show ?thesis using assms(2) i by (auto simp: ExecuteSkill_def Let_def)
  next
    case None
    define st1 where "st1 = st\<lparr>kx_variables := Map.empty, kx_outputs := Map.empty\<rparr>\<lparr>kx_variables := vars\<rparr>"
    obtain out where "run_steps sx nested
        (skill_deadline (sx_clock sx (kx_world st)) (sl_Timeout s) dl) 0 (sl_Steps s) [] st1 = Some (st', out)"
      using assms(2) i None by (auto simp: ExecuteSkill_def Let_def st1_def split: option.splits)
    from run_steps_ran[OF assms(1) this]
    have "ran_only (\<Union>step \<in> set (sl_Steps s). programs_of sx vars step) st1 st'" by (simp add: st1_def)
    then show ?thesis using i None unfolding ran_only_def st1_def by auto
  qed
qed

lemma skill_ran_steps:
  assumes "\<forall>step \<in> set (sl_Steps s). leaf_step step"
    and "ExecuteSkill sx nested dl s params st = Some (st', res, err)"
    and "\<And>vars i. initParameters (sx_fmt sx) s params = (vars, None) \<Longrightarrow> i < length (sl_Steps s) \<Longrightarrow>
      programs_of sx vars (sl_Steps s ! i) \<subseteq> A"
  shows "\<exists>rs. kx_log st' = kx_log st @ rs \<and> set rs \<subseteq> A"
proof -
  have "programs_of sx vars step \<subseteq> A"
    if "initParameters (sx_fmt sx) s params = (vars, None)" "step \<in> set (sl_Steps s)" for vars step
    using assms(3)[OF that(1)] that(2) unfolding in_set_conv_nth by blast
  then show ?thesis using skill_ran[OF assms(1,2)] by fastforce
qed

text \<open>A declared parameter has its type, and the value that is given or the default, converted.\<close>

lemma declared_value:
  assumes "initParameters fmt s params = (vars, None)" "distinct (map sp_Name (sl_Parameters s))"
    and "i < length (sl_Parameters s)" "sp_Name (sl_Parameters s ! i) = n" "sp_Type (sl_Parameters s ! i) = t"
  shows "\<exists>v. vars n = Some v \<and> has_type v t \<and>
    convertType fmt (case params n of Some v \<Rightarrow> v | None \<Rightarrow> sp_Default (sl_Parameters s ! i)) t = Inr v"
proof -
  obtain vs where vs: "init_declared fmt params (sl_Parameters s) Map.empty = (vs, None)" "vars = params ++ vs"
    using assms(1) by (auto simp: initParameters_def split: prod.splits option.splits)
  from init_declared_types[OF vs(1) assms(2), of "sl_Parameters s ! i"] assms(3-5)
  show ?thesis unfolding vs(2) by (auto simp: map_add_def)
qed

lemma undeclared_value:
  assumes "initParameters fmt s params = (vars, None)" "n \<notin> sp_Name ` set (sl_Parameters s)"
  shows "vars n = params n"
proof -
  obtain vs where vs: "init_declared fmt params (sl_Parameters s) Map.empty = (vs, None)" "vars = params ++ vs"
    using assms(1) by (auto simp: initParameters_def split: prod.splits option.splits)
  then show ?thesis using init_declared_keeps[OF vs(1) assms(2)] by (simp add: map_add_def)
qed

lemma shown_bool:
  assumes "vars x = Some v" "has_type v ''bool''"
  shows "shown fmt vars x \<in> {''true'', ''false'', no_value}"
  using assms by (auto simp: shown_def has_type_def Sprint_def split: json.splits)

subsection \<open>Arguments\<close>

lemma render_keys_Cons:
  "render_keys sx st a (k # ks) done =
     (if \<exists>s. a k = Some (JStr s)
      then (case renderTemplate sx st (case a k of Some (JStr s) \<Rightarrow> s | _ \<Rightarrow> []) of
              Inl e \<Rightarrow> Inl (''render '' @ quote k @ '': '' @ e)
            | Inr r \<Rightarrow> render_keys sx st a ks (done(k \<mapsto> JStr r)))
      else render_keys sx st a ks (done(k := a k)))"
proof (cases "a k")
  case (Some v)
  then show ?thesis by (cases v) simp_all
qed simp

definition rendered_as :: "'w skill_services \<Rightarrow> 'w skill_state \<Rightarrow> json option \<Rightarrow> json option \<Rightarrow> bool" where
  "rendered_as sx st v v' \<longleftrightarrow>
     (case v of Some (JStr s) \<Rightarrow> \<exists>r. renderTemplate sx st s = Inr r \<and> v' = Some (JStr r) | _ \<Rightarrow> v' = v)"

lemma rendered_as_text: "rendered_as sx st v (Some (JStr r)) \<Longrightarrow> \<exists>s. v = Some (JStr s) \<and> renderTemplate sx st s = Inr r"
  by (auto simp: rendered_as_def split: option.splits json.splits)

lemma render_keys_each:
  "render_keys sx st a ks done = Inr a' \<Longrightarrow> a' k = done k \<or> rendered_as sx st (a k) (a' k)"
proof (induction ks arbitrary: "done")
  case (Cons x xs)
  show ?case
  proof (cases "\<exists>s. a x = Some (JStr s)")
    case True
    then obtain s where s: "a x = Some (JStr s)" by blast
    then obtain r where r: "renderTemplate sx st s = Inr r"
      using Cons.prems by (cases "renderTemplate sx st s") simp_all
    then have "render_keys sx st a xs (done(x \<mapsto> JStr r)) = Inr a'" using Cons.prems s by simp
    from Cons.IH[OF this] show ?thesis using s r by (cases "k = x") (auto simp: rendered_as_def)
  next
    case False
    then have "render_keys sx st a xs (done(x := a x)) = Inr a'" using Cons.prems unfolding render_keys_Cons by simp
    from Cons.IH[OF this] show ?thesis
      using False by (cases "k = x") (auto simp: rendered_as_def split: option.splits json.splits)
  qed
qed simp

lemma processArgs_text:
  assumes "processArgs sx st a = Inr a'" "arg_string k a' = Some r"
  shows "\<exists>s. a k = Some (JStr s) \<and> renderTemplate sx st s = Inr r"
proof -
  have k: "a' k = Some (JStr r)" using assms(2) by (auto simp: arg_string_def split: option.splits json.splits)
  then show ?thesis using render_keys_each[OF assms(1)[unfolded processArgs_def], of k] rendered_as_text by auto
qed

text \<open>A step whose condition does not hold starts nothing; a shell step starts the shell on its command.\<close>

lemma programs_skipped:
  assumes "ss_Condition step \<noteq> []" "\<And>st. kx_variables st = vars \<Longrightarrow> evaluateCondition sx st (ss_Condition step) \<noteq> Inr True"
  shows "programs_of sx vars step = {}"
  using assms by (auto simp: programs_of_def)

lemma programs_shell:
  assumes "ss_Tool step = ''local_shell''" "ss_Args step ''command'' = Some (JStr c)"
    and "\<And>st. kx_variables st = vars \<Longrightarrow> renderTemplate sx st c = Inr r"
  shows "programs_of sx vars step \<subseteq> {[''sh'', ''-c'', r]}"
proof
  fix argv assume "argv \<in> programs_of sx vars step"
  then obtain st a where a: "kx_variables st = vars" "processArgs sx st (ss_Args step) = Inr a" "step_argv sx step a = Some argv"
    unfolding programs_of_def by blast
  then obtain t where t: "arg_string ''command'' a = Some t" "argv = [''sh'', ''-c'', t]"
    using assms(1) by (auto simp: step_argv_def)
  obtain s where "ss_Args step ''command'' = Some (JStr s)" "renderTemplate sx st s = Inr t"
    using processArgs_text[OF a(2) t(1)] by blast
  then show "argv \<in> {[''sh'', ''-c'', r]}" using assms(2) assms(3)[OF a(1)] t(2) by auto
qed

text \<open>A command without template actions is rendered as it is.\<close>

lemma rendered_plain:
  assumes "go_templates sx" "c \<noteq> []" "\<not> Contains c ''{{''"
  shows "renderTemplate sx st c = Inr c"
proof -
  have "Cut c ''{{'' = None" using assms(3) by (simp add: Cut_None)
  then have "template_parse c = Some [TText c]" using assms(2) by (simp add: template_parse_def template_parts.simps[of c])
  from rendered_text[OF assms(1) this] show ?thesis by (simp add: template_exec_def)
qed

lemma rendered_condition:
  assumes "go_templates sx" "template_parse c = Some ns"
    "template_exec (sx_fmt sx) ns (kx_variables st) (kx_outputs st) = Some r"
  shows "evaluateCondition sx st c = Inr (condition_truth r)"
  using rendered_text[OF assms] by (simp add: evaluateCondition_def)

text \<open>A map of arguments is visited key by key. \<open>arg_names\<close> are the arguments that the built-in steps have.\<close>

definition arg_names :: "string list" where
  "arg_names = [''command'', ''container'', ''target'', ''format'', ''all'', ''filter'', ''tail'']"

definition visits_keys :: "'w skill_services \<Rightarrow> bool" where
  "visits_keys sx \<longleftrightarrow> (\<forall>a. dom a \<subseteq> set arg_names \<longrightarrow> set (sx_order sx a) = dom a)"

lemma render_keys_done:
  "render_keys sx st a ks done = Inr a' \<Longrightarrow> k \<in> set ks \<or> rendered_as sx st (a k) (done k) \<Longrightarrow> rendered_as sx st (a k) (a' k)"
proof (induction ks arbitrary: "done")
  case (Cons x xs)
  show ?case
  proof (cases "\<exists>s. a x = Some (JStr s)")
    case True
    then obtain s where s: "a x = Some (JStr s)" by blast
    then obtain r where r: "renderTemplate sx st s = Inr r"
      using Cons.prems by (cases "renderTemplate sx st s") simp_all
    then have "render_keys sx st a xs (done(x \<mapsto> JStr r)) = Inr a'" using Cons.prems s by simp
    from Cons.IH[OF this] show ?thesis using Cons.prems(2) s r by (cases "k = x") (auto simp: rendered_as_def)
  next
    case False
    then have "render_keys sx st a xs (done(x := a x)) = Inr a'" using Cons.prems unfolding render_keys_Cons by simp
    from Cons.IH[OF this] show ?thesis
      using Cons.prems(2) False by (cases "k = x") (auto simp: rendered_as_def split: option.splits json.splits)
  qed
qed simp

lemma processArgs_key:
  assumes "visits_keys sx" "dom a \<subseteq> set arg_names" "processArgs sx st a = Inr a'" "a k = Some (JStr s)" "renderTemplate sx st s = Inr r"
  shows "a' k = Some (JStr r)"
proof -
  have "k \<in> set (sx_order sx a)" using assms(1,2,4) by (auto simp: visits_keys_def)
  then have "rendered_as sx st (a k) (a' k)" using render_keys_done[OF assms(3)[unfolded processArgs_def], of k] by blast
  then show ?thesis using assms(4,5) by (simp add: rendered_as_def)
qed

lemma processArgs_ok:
  assumes "\<And>k s. a k = Some (JStr s) \<Longrightarrow> \<exists>r. renderTemplate sx st s = Inr r"
  shows "\<exists>a'. processArgs sx st a = Inr a'"
proof -
  have "\<exists>a'. render_keys sx st a ks done = Inr a'" for ks "done"
  proof (induction ks arbitrary: "done")
    case (Cons x xs)
    show ?case
    proof (cases "\<exists>s. a x = Some (JStr s)")
      case True
      then obtain s r where s: "a x = Some (JStr s)" "renderTemplate sx st s = Inr r" using assms by blast
      obtain a' where "render_keys sx st a xs (done(x \<mapsto> JStr r)) = Inr a'" using Cons.IH by blast
      then show ?thesis using s by auto
    next
      case False
      obtain a' where "render_keys sx st a xs (done(x := a x)) = Inr a'" using Cons.IH by blast
      then show ?thesis unfolding render_keys_Cons using False by simp
    qed
  qed simp
  then show ?thesis by (simp add: processArgs_def)
qed

text \<open>Two comparisons of fields in one condition.\<close>

lemma two_comparisons:
  assumes "go_templates sx" "template_parse c = Some [TField [x], TText (a @ ''=='' @ a'), TField [y], TText (b @ ''=='' @ b')]"
    and "x \<noteq> ''steps''" "y \<noteq> ''steps''"
  shows "evaluateCondition sx st c = Inr False"
proof -
  let ?x = "shown (sx_fmt sx) (kx_variables st) x" and ?y = "shown (sx_fmt sx) (kx_variables st) y"
  have "template_exec (sx_fmt sx) [TField [x], TText (a @ ''=='' @ a'), TField [y], TText (b @ ''=='' @ b')]
      (kx_variables st) (kx_outputs st) = Some (?x @ a @ ''=='' @ a' @ ?y @ b @ ''=='' @ b')"
    using assms(3,4) by (simp add: template_exec_def del: exec_nodes.simps(3))
  from rendered_condition[OF assms(1,2) this]
  show ?thesis using two_equals_never_hold[of "?x @ a" "a' @ ?y @ b" b'] by simp
qed

text \<open>A field compared with a word.\<close>

lemma one_comparison:
  assumes "go_templates sx" "template_parse c = Some [TField [x], TText ('' == '' @ w)]" "x \<noteq> ''steps''"
    and "shown (sx_fmt sx) (kx_variables st) x = v" "word v" "word w"
  shows "evaluateCondition sx st c = Inr (v = w)"
proof -
  have "template_exec (sx_fmt sx) [TField [x], TText ('' == '' @ w)] (kx_variables st) (kx_outputs st) =
      Some (v @ '' == '' @ w)"
    using assms(3,4) by (simp add: template_exec_def del: exec_nodes.simps(3))
  from rendered_condition[OF assms(1,2) this] show ?thesis
    using equal_truth[OF assms(5), of w] word_ends[OF assms(6)] quoted_operand(2)[OF assms(6)] by simp
qed

lemma run_flag: "ExecuteSkill sx nested dl s params st = Some (st', res, err) \<Longrightarrow> kr_Success res \<longleftrightarrow> err = None"
  by (auto simp: ExecuteSkill_def Let_def split: prod.splits option.splits)

text \<open>What a run has logged after its first step stays.\<close>

lemma run_steps_continue:
  assumes "\<forall>x \<in> set (step # steps). leaf_step x" "ctx_err sx dl st = None"
    and "executeStep sx nested dl step st = Some (st2, res)"
    and "run_steps sx nested dl i (step # steps) acc st = Some (st', out)"
  shows "\<exists>rs. kx_log st' = kx_log st2 @ rs"
proof -
  let ?k = "keep_output step res st2"
  have k: "kx_log ?k = kx_log st2" by (simp add: keep_output_def)
  have leaf: "\<forall>x \<in> set steps. leaf_step x" "leaf_step step" using assms(1) by simp_all
  have go: "\<exists>rs. kx_log st' = kx_log x @ rs" if "run_steps sx nested dl (Suc i) steps acc' x = Some (st', out)" for acc' x
    using run_steps_ran[OF leaf(1) that] by (auto simp: ran_only_def)
  consider (on) "sr_Success res \<or> ss_OnError step = ''continue''"
    | (again) "\<not> (sr_Success res \<or> ss_OnError step = ''continue'')" "ss_OnError step = ''retry''"
    | (halt) "\<not> (sr_Success res \<or> ss_OnError step = ''continue'')" "ss_OnError step \<noteq> ''retry''" by blast
  then show ?thesis
  proof cases
    case on
    then have "run_steps sx nested dl (Suc i) steps (acc @ [res]) ?k = Some (st', out)"
      using assms(2-4) by (simp add: Let_def)
    from go[OF this] show ?thesis by (simp add: k)
  next
    case halt
    then have "st' = ?k" using assms(2-4) by (simp add: Let_def)
    then show ?thesis by (simp add: k)
  next
    case again
    note run = assms(4)[unfolded run_steps.simps assms(2,3) option.case prod.case Let_def if_not_P[OF again(1)] if_P[OF again(2)]]
    show ?thesis
    proof (cases "retry_step sx nested dl step (nat (ss_Retries step)) 0 ?k")
      case None
      then show ?thesis using run by simp
    next
      case (Some y)
      obtain st3 q where y: "y = (st3, q)" by (cases y)
      obtain rs3 where l3: "kx_log st3 = kx_log st2 @ rs3"
        using retry_step_ran[OF leaf(2) Some[unfolded y]] k by (auto simp: ran_only_def)
      show ?thesis
      proof (cases q)
        case None
        then show ?thesis using run Some y l3 by simp
      next
        case (Some res')
        then have "run_steps sx nested dl (Suc i) steps (acc @ [res']) (keep_output step res' st3) = Some (st', out)"
          using run \<open>retry_step sx nested dl step (nat (ss_Retries step)) 0 ?k = Some y\<close> y by simp
        from go[OF this] show ?thesis using l3 by (auto simp: keep_output_def)
      qed
    qed
  qed
qed

text \<open>The first step of a skill runs, if it is a shell step without a condition.\<close>

lemma first_step_runs:
  assumes "sl_Steps s = step # steps" "\<forall>x \<in> set (sl_Steps s). leaf_step x"
    and "ss_Condition step = []" "ss_Tool step = ''local_shell''" "ss_Args step = [''command'' \<mapsto> JStr c]"
    and "initParameters (sx_fmt sx) s params = (vars, None)" "visits_keys sx"
    and "sx_cancelled sx (kx_world st) = None" "\<And>d. dl = Some d \<Longrightarrow> sx_clock sx (kx_world st) < d"
    and "\<And>st. kx_variables st = vars \<Longrightarrow> renderTemplate sx st c = Inr r"
  shows "\<exists>st' res err rs. ExecuteSkill sx nested dl s params st = Some (st', res, err) \<and>
    kx_log st' = kx_log st @ [''sh'', ''-c'', r] # rs"
proof -
  define st1 where "st1 = st\<lparr>kx_variables := Map.empty, kx_outputs := Map.empty\<rparr>\<lparr>kx_variables := vars\<rparr>"
  define dl' where "dl' = skill_deadline (sx_clock sx (kx_world st)) (sl_Timeout s) dl"
  have v1: "kx_variables st1 = vars" and m1: "kx_machine st1 = kx_machine st" by (simp_all add: st1_def)
  have ctx: "ctx_err sx dl' st1 = None"
  proof -
    have now: "sx_cancelled sx (kx_world st1) = None" "sx_clock sx (kx_world st1) = sx_clock sx (kx_world st)"
      using assms(8) m1 by simp_all
    have "sx_clock sx (kx_world st) < d" if "dl' = Some d" for d
      using that assms(9) by (cases dl) (auto simp: dl'_def skill_deadline_def split: if_splits)
    then show ?thesis using now by (cases dl') (auto simp: ctx_err_def)
  qed
  have texts: "\<exists>q. renderTemplate sx st1 t = Inr q" if "ss_Args step k = Some (JStr t)" for k t
    using that assms(10)[OF v1] by (auto simp: assms(5) split: if_splits)
  have "\<exists>a. processArgs sx st1 (ss_Args step) = Inr a" by (rule processArgs_ok) (rule texts)
  then obtain a where a: "processArgs sx st1 (ss_Args step) = Inr a" by blast
  have "a ''command'' = Some (JStr r)"
    by (rule processArgs_key[OF assms(7) _ a, of _ c]) (simp_all add: assms(5) assms(10)[OF v1] arg_names_def)
  then have cmd: "arg_string ''command'' a = Some r" by (simp add: arg_string_def)
  define y where "y = run_program sx [''sh'', ''-c'', r] (arg_or_empty ''workdir'' a) st1"
  obtain st2 q where y: "y = (st2, q)" by (cases y)
  then have p: "run_program sx [''sh'', ''-c'', r] (arg_or_empty ''workdir'' a) st1 = (st2, q)" by (simp add: y_def)
  have l2: "kx_log st2 = kx_log st @ [[''sh'', ''-c'', r]]"
    using p m1 unfolding run_program_def Let_def
    by (cases "sx_run sx [''sh'', ''-c'', r] (arg_or_empty ''workdir'' a) (kx_world st1)") auto
  have tool: "run_step_tool sx nested dl' step a st1 = Some (st2, q)"
    by (simp add: run_step_tool_def assms(4) executeLocalShell_def cmd p)
  have e: "executeStep sx nested dl' step st1 = Some (named sx step (sx_clock sx (kx_world st1)) (st2, q))"
    by (simp add: executeStep_def Let_def assms(3) a tool)
  have ends: "\<forall>x \<in> set (step # steps). ss_Tool x \<noteq> ''skill''" using assms(1,2) by (auto simp: leaf_step_def)
  obtain st' out where run: "run_steps sx nested dl' 0 (step # steps) [] st1 = Some (st', out)"
    using run_steps_leaf[OF ends, of sx nested dl' 0 "[]" st1] by blast
  have leaf: "\<forall>x \<in> set (step # steps). leaf_step x" using assms(1,2) by simp
  obtain rs where rs: "kx_log st' = kx_log st2 @ rs"
    using run_steps_continue[OF leaf ctx e[unfolded named_def prod.case] run] by blast
  have "\<exists>res err. ExecuteSkill sx nested dl s params st = Some (st', res, err)"
  proof (cases out)
    case (Pair steps' f)
    have "run_steps sx nested dl' 0 (sl_Steps s) [] (st\<lparr>kx_variables := Map.empty, kx_outputs := Map.empty\<rparr>\<lparr>kx_variables := vars\<rparr>) =
        Some (st', steps', f)"
      using run unfolding st1_def assms(1) Pair .
    then show ?thesis
      by (cases f) (auto simp: ExecuteSkill_def Let_def assms(6) dl'_def[symmetric])
  qed
  then show ?thesis using rs l2 by auto
qed

end
