(* ===== verification/Owl_BuiltinProps.thy ===== *)
theory Owl_BuiltinProps
  imports Owl_BuiltinRuns Owl_SkillTool
begin

text \<open>
  What the built-in skills do. Their names are distinct and each passes the loader's validation; but
  conditions joined by \<open>||\<close> and \<open>&&\<close> never hold in the skill engine, so that whole skills do nothing, and
  the formats meant for Docker are filled in as templates before Docker sees them. A skill that asks for
  no confirmation hands any text to the shell.
\<close>

subsection \<open>The registry\<close>

lemma builtin_names_distinct: "distinct (map sl_Name ListBuiltinSkills)"
  by code_simp

lemma builtin_valid: "list_all (\<lambda>s. skill_validate s = None) ListBuiltinSkills"
  by code_simp

lemma builtin_leaf: "list_all (\<lambda>s. list_all leaf_step (sl_Steps s)) ListBuiltinSkills"
  by code_simp

lemma find_append: "find P (as @ bs) = (case find P as of None \<Rightarrow> find P bs | r \<Rightarrow> r)"
  by (induction as) auto

lemma find_rev_distinct:
  "distinct (map f xs) \<Longrightarrow> find (\<lambda>x. f x = y) (rev xs) = find (\<lambda>x. f x = y) xs"
proof (induction xs)
  case (Cons x xs)
  show ?case
  proof (cases "f x = y")
    case True
    then have "y \<notin> f ` set xs" using Cons.prems by simp
    then have "find (\<lambda>x. f x = y) xs = None" by (auto simp: find_None_iff)
    then show ?thesis using Cons True by (simp add: find_append)
  next
    case False
    then show ?thesis using Cons by (simp add: find_append split: option.split)
  qed
qed simp

text \<open>
  Property C23: after the registration at start every built-in skill is found under its name, every other
  name is looked up as before, and each built-in skill would pass the validation of the loader.
\<close>
theorem builtin_registration:
  "skill_Get (RegisterAll r) name = (case GetBuiltinSkill name of None \<Rightarrow> skill_Get r name | Some s \<Rightarrow> Some s) \<and>
   (GetBuiltinSkill name = None \<or>
    (\<exists>s. GetBuiltinSkill name = Some s \<and> sl_Name s = name \<and> skill_validate s = None))"
proof -
  have R: "RegisterAll r = fold skill_Register ListBuiltinSkills r"
    by (simp only: RegisterAll_def ListBuiltinSkills_def)
  have get: "skill_Get (RegisterAll r) name = (case GetBuiltinSkill name of None \<Rightarrow> skill_Get r name | Some s \<Rightarrow> Some s)"
    unfolding R skills.lookup_fold_store GetBuiltinSkill_def find_rev_distinct[OF builtin_names_distinct] ..
  moreover have "sl_Name s = name \<and> skill_validate s = None" if "GetBuiltinSkill name = Some s" for s
    using find_SomeD[OF that[unfolded GetBuiltinSkill_def]] builtin_valid by (auto simp: list_all_iff)
  ultimately show ?thesis by (cases "GetBuiltinSkill name") auto
qed

lemma builtin_leaf_steps: "s \<in> set ListBuiltinSkills \<Longrightarrow> \<forall>step \<in> set (sl_Steps s). leaf_step step"
  using builtin_leaf by (auto simp: list_all_iff)

lemma below_seven: "i < (7::nat) \<Longrightarrow> i \<in> {0, 1, 2, 3, 4, 5, 6}"
  by auto

subsection \<open>Certificates are never renewed\<close>

text \<open>The shell command of a step that has no template in it.\<close>

definition shell_step :: "skill \<Rightarrow> nat \<Rightarrow> string list" where
  "shell_step s i = [''sh'', ''-c'', arg_or_empty ''command'' (ss_Args (sl_Steps s ! i))]"

lemma shell_step_programs:
  assumes "go_templates sx" "ss_Tool (sl_Steps s ! i) = ''local_shell''"
    "ss_Args (sl_Steps s ! i) ''command'' = Some (JStr c)" "c \<noteq> []" "\<not> Contains c ''{{''"
  shows "programs_of sx vars (sl_Steps s ! i) \<subseteq> {shell_step s i}"
proof -
  have "shell_step s i = [''sh'', ''-c'', c]"
    using assms(3) by (simp add: shell_step_def arg_or_empty_def arg_string_def)
  then show ?thesis using programs_shell[OF assms(2,3) rendered_plain[OF assms(1,4,5)]] by simp
qed

definition plain_shell :: "skill_step \<Rightarrow> bool" where
  "plain_shell step \<longleftrightarrow> ss_Tool step = ''local_shell'' \<and>
     (case ss_Args step ''command'' of Some (JStr c) \<Rightarrow> c \<noteq> [] \<and> \<not> Contains c ''{{'' | _ \<Rightarrow> False)"

lemma plain_shell_programs:
  "go_templates sx \<Longrightarrow> plain_shell (sl_Steps s ! i) \<Longrightarrow> programs_of sx vars (sl_Steps s ! i) \<subseteq> {shell_step s i}"
  by (auto simp: plain_shell_def dest: shell_step_programs split: option.splits json.splits)

lemma renew_listed: "SSLRenewSkill \<in> set ListBuiltinSkills"
  by (simp add: ListBuiltinSkills_def)

lemma renew_steps: "length (sl_Steps SSLRenewSkill) = 7"
  "\<forall>i \<in> set [0, 1, 2, 6]. plain_shell (sl_Steps SSLRenewSkill ! i)"
  by code_simp+

lemma renew_parameters: "distinct (map sp_Name (sl_Parameters SSLRenewSkill))"
  "1 < length (sl_Parameters SSLRenewSkill)" "sp_Name (sl_Parameters SSLRenewSkill ! 1) = ''dry_run''"
  "sp_Type (sl_Parameters SSLRenewSkill ! 1) = ''bool''"
  by code_simp+

lemma renew_conditions:
  "ss_Condition (sl_Steps SSLRenewSkill ! 2) = ''{{.dry_run}} == true''"
  "ss_Condition (sl_Steps SSLRenewSkill ! 3) = ''{{.dry_run}} == false && {{.domain}} == ''"
  "ss_Condition (sl_Steps SSLRenewSkill ! 4) = ''{{.dry_run}} == false && {{.domain}} != ''"
  "ss_Condition (sl_Steps SSLRenewSkill ! 5) = ''{{.reload_nginx}} == true && {{.dry_run}} == false''"
  by code_simp+

lemma renew_templates:
  "template_parse ''{{.dry_run}} == true'' = Some [TField [''dry_run''], TText '' == true'']"
  "template_parse ''{{.dry_run}} == false && {{.domain}} == '' =
     Some [TField [''dry_run''], TText '' == false && '', TField [''domain''], TText '' == '']"
  "template_parse ''{{.dry_run}} == false && {{.domain}} != '' =
     Some [TField [''dry_run''], TText '' == false && '', TField [''domain''], TText '' != '']"
  "template_parse ''{{.reload_nginx}} == true && {{.dry_run}} == false'' =
     Some [TField [''reload_nginx''], TText '' == true && '', TField [''dry_run''], TText '' == false'']"
  by code_simp+

lemma two_comparisons_skip:
  assumes "go_templates sx" "ss_Condition step = c"
    and "template_parse c = Some [TField [x], TText (a @ ''=='' @ a'), TField [y], TText (b @ ''=='' @ b')]"
    and "x \<noteq> ''steps''" "y \<noteq> ''steps''" "c \<noteq> []"
  shows "programs_of sx vars step = {}"
  by (rule programs_skipped) (use assms(2,6) two_comparisons[OF assms(1,3-5)] in simp_all)

lemma other_word_skips:
  assumes "go_templates sx" "ss_Condition step = c" "template_parse c = Some [TField [x], TText ('' == '' @ w)]"
    and "x \<noteq> ''steps''" "c \<noteq> []" "shown (sx_fmt sx) vars x = v" "word v" "word w" "v \<noteq> w"
  shows "programs_of sx vars step = {}"
proof (rule programs_skipped)
  fix st :: "'a skill_state"
  assume "kx_variables st = vars"
  then show "evaluateCondition sx st (ss_Condition step) \<noteq> Inr True"
    using one_comparison[OF assms(1,3,4) _ assms(7,8), of st] assms(2,6,9) by simp
qed (use assms(2,5) in simp)

lemma renew_skipped:
  assumes "go_templates sx" "vars ''dry_run'' = Some v" "has_type v ''bool''" "i \<in> {3, 4, 5}"
  shows "programs_of sx vars (sl_Steps SSLRenewSkill ! i) = {}"
proof -
  let ?d = "shown (sx_fmt sx) vars ''dry_run''"
  consider (all) "i = 3" | (single) "i = 4" | (nginx) "i = 5" using assms(4) by auto
  then show ?thesis
  proof cases
    case all
    show ?thesis unfolding all
      by (rule two_comparisons_skip[OF assms(1) renew_conditions(2), of "''dry_run''" "'' ''" "'' false && ''" "''domain''" "'' ''" "'' ''"])
        (simp_all add: renew_templates)
  next
    case nginx
    show ?thesis unfolding nginx
      by (rule two_comparisons_skip[OF assms(1) renew_conditions(4), of "''reload_nginx''" "'' ''" "'' true && ''" "''dry_run''" "'' ''" "'' false''"])
        (simp_all add: renew_templates)
  next
    case single
    have "\<not> sublist ''&&'' (?d @ '' '')"
      using shown_bool[of vars "''dry_run''" v "sx_fmt sx", OF assms(2,3)] by (auto simp: no_value_def sublist_code)
    from compound_never_holds[OF _ marks(2) this, of _ "'' false ''" "'' '' @ shown (sx_fmt sx) vars ''domain'' @ '' != ''"]
    have c: "\<not> condition_truth (?d @ '' == false && '' @ shown (sx_fmt sx) vars ''domain'' @ '' != '')" by simp
    show ?thesis
    proof (rule programs_skipped)
      fix st :: "'a skill_state"
      assume "kx_variables st = vars"
      then show "evaluateCondition sx st (ss_Condition (sl_Steps SSLRenewSkill ! i)) \<noteq> Inr True"
        using c by (simp add: single renew_conditions rendered_condition[OF assms(1) renew_templates(3)] template_exec_def
            del: exec_nodes.simps(3))
    qed (simp add: single renew_conditions)
  qed
qed

text \<open>
  Property C24: whatever it is asked, the skill that renews certificates runs no other programs than the
  check for certbot, its list of certificates, the simulated renewal and the list at the end; asked to
  renew in earnest it does not even simulate.
\<close>
theorem certificates_never_renewed:
  assumes "go_templates sx" "ExecuteSkill sx nested dl SSLRenewSkill params st = Some (st', res, err)"
  shows "\<exists>rs. kx_log st' = kx_log st @ rs \<and> set rs \<subseteq> shell_step SSLRenewSkill ` {0, 1, 2, 6} \<and>
    (params ''dry_run'' = Some (JBool False) \<longrightarrow> set rs \<subseteq> shell_step SSLRenewSkill ` {0, 1, 6})"
proof -
  let ?I = "if params ''dry_run'' = Some (JBool False) then {0, 1, 6} else {0, 1, 2, 6 :: nat}"
  have "programs_of sx vars (sl_Steps SSLRenewSkill ! i) \<subseteq> shell_step SSLRenewSkill ` ?I"
    if i: "initParameters (sx_fmt sx) SSLRenewSkill params = (vars, None)" "i < length (sl_Steps SSLRenewSkill)" for vars i
  proof -
    obtain v where v: "vars ''dry_run'' = Some v" "has_type v ''bool''"
      "convertType (sx_fmt sx) (case params ''dry_run'' of Some v \<Rightarrow> v
         | None \<Rightarrow> sp_Default (sl_Parameters SSLRenewSkill ! 1)) ''bool'' = Inr v"
      using declared_value[OF i(1) renew_parameters] by blast
    consider (no) "i \<in> {3, 4, 5}" | (dry) "i = 2" | (yes) "i \<in> {0, 1, 6}"
      using below_seven[of i] i(2) renew_steps(1) by auto
    then show ?thesis
    proof cases
      case no
      then show ?thesis using renew_skipped[of sx vars v i, OF assms(1) v(1,2)] by simp
    next
      case yes
      then have "plain_shell (sl_Steps SSLRenewSkill ! i)" using renew_steps(2) by auto
      then show ?thesis using plain_shell_programs[OF assms(1), of SSLRenewSkill i vars] yes by auto
    next
      case dry
      show ?thesis
      proof (cases "params ''dry_run'' = Some (JBool False)")
        case True
        then have "vars ''dry_run'' = Some (JBool False)" using v by (simp add: convertType_def)
        then have d: "shown (sx_fmt sx) vars ''dry_run'' = ''false''" by (simp add: shown_def Sprint_def)
        have "programs_of sx vars (sl_Steps SSLRenewSkill ! 2) = {}"
          by (rule other_word_skips[OF assms(1) renew_conditions(1), of "''dry_run''" "''true''", OF _ _ _ d])
            (simp_all add: renew_templates word_def plain_def)
        then show ?thesis by (simp add: dry)
      next
        case False
        have "plain_shell (sl_Steps SSLRenewSkill ! i)" using renew_steps(2) dry by auto
        then show ?thesis using plain_shell_programs[OF assms(1), of SSLRenewSkill i vars] dry False by auto
      qed
    qed
  qed
  from skill_ran_steps[OF builtin_leaf_steps[OF renew_listed] assms(2) this]
  show ?thesis by (cases "params ''dry_run'' = Some (JBool False)") auto
qed

subsection \<open>A diagnosis of the network only fetches a page\<close>

lemma diag_listed: "NetworkDiagSkill \<in> set ListBuiltinSkills"
  by (simp add: ListBuiltinSkills_def)

lemma diag_steps: "length (sl_Steps NetworkDiagSkill) = 5"
  "ss_Condition (sl_Steps NetworkDiagSkill ! 0) = ''{{.check_type}} == all || {{.check_type}} == ping''"
  "ss_Condition (sl_Steps NetworkDiagSkill ! 1) = ''{{.check_type}} == all || {{.check_type}} == dns''"
  "ss_Condition (sl_Steps NetworkDiagSkill ! 2) = ''{{.check_type}} == all || {{.check_type}} == traceroute''"
  "ss_Condition (sl_Steps NetworkDiagSkill ! 3) = ''{{.check_type}} == all || {{.check_type}} == port''"
  "ss_Condition (sl_Steps NetworkDiagSkill ! 4) = ''{{.check_type}} == all''"
  by code_simp+

lemma diag_templates:
  "template_parse ''{{.check_type}} == all || {{.check_type}} == ping'' =
     Some [TField [''check_type''], TText '' == all || '', TField [''check_type''], TText '' == ping'']"
  "template_parse ''{{.check_type}} == all || {{.check_type}} == dns'' =
     Some [TField [''check_type''], TText '' == all || '', TField [''check_type''], TText '' == dns'']"
  "template_parse ''{{.check_type}} == all || {{.check_type}} == traceroute'' =
     Some [TField [''check_type''], TText '' == all || '', TField [''check_type''], TText '' == traceroute'']"
  "template_parse ''{{.check_type}} == all || {{.check_type}} == port'' =
     Some [TField [''check_type''], TText '' == all || '', TField [''check_type''], TText '' == port'']"
  "template_parse ''{{.check_type}} == all'' = Some [TField [''check_type''], TText '' == all'']"
  by code_simp+

lemma diag_parameters: "distinct (map sp_Name (sl_Parameters NetworkDiagSkill))"
  "1 < length (sl_Parameters NetworkDiagSkill)" "sp_Name (sl_Parameters NetworkDiagSkill ! 1) = ''check_type''"
  "sp_Type (sl_Parameters NetworkDiagSkill ! 1) = ''string''"
  by code_simp+

lemma diag_skipped:
  assumes "go_templates sx" "i \<in> {0, 1, 2, 3}"
  shows "programs_of sx vars (sl_Steps NetworkDiagSkill ! i) = {}"
proof -
  note skip = two_comparisons_skip[OF assms(1), of _ _ "''check_type''" "'' ''" "'' all || ''" "''check_type''" "'' ''"]
  consider "i = 0" | "i = 1" | "i = 2" | "i = 3" using assms(2) by auto
  then show ?thesis
  proof cases
    case 1 show ?thesis unfolding 1 by (rule skip[OF diag_steps(2), of "'' ping''"]) (simp_all add: diag_templates)
  next
    case 2 show ?thesis unfolding 2 by (rule skip[OF diag_steps(3), of "'' dns''"]) (simp_all add: diag_templates)
  next
    case 3 show ?thesis unfolding 3 by (rule skip[OF diag_steps(4), of "'' traceroute''"]) (simp_all add: diag_templates)
  next
    case 4 show ?thesis unfolding 4 by (rule skip[OF diag_steps(5), of "'' port''"]) (simp_all add: diag_templates)
  qed
qed

text \<open>
  A diagnosis of the network starts no programs but that of its last step, the HTTP request;
  asked for a ping, a route, a name or a port it starts none, and if nothing interrupts it reports success.
\<close>
theorem diagnosis_only_fetches:
  assumes "go_templates sx" "ExecuteSkill sx nested dl NetworkDiagSkill params st = Some (st', res, err)"
  shows "\<exists>rs. kx_log st' = kx_log st @ rs \<and> kr_Success res = (err = None) \<and>
    (rs = [] \<or> (\<exists>vars. initParameters (sx_fmt sx) NetworkDiagSkill params = (vars, None) \<and>
       set rs \<subseteq> programs_of sx vars (sl_Steps NetworkDiagSkill ! 4))) \<and>
    (\<forall>w \<in> {''ping'', ''traceroute'', ''dns'', ''port''}. params ''check_type'' = Some (JStr w) \<longrightarrow> rs = [])"
proof -
  obtain rs where rs: "kx_log st' = kx_log st @ rs" "rs = [] \<or> (\<exists>vars. initParameters (sx_fmt sx) NetworkDiagSkill params = (vars, None) \<and>
      set rs \<subseteq> (\<Union>step \<in> set (sl_Steps NetworkDiagSkill). programs_of sx vars step))"
    using skill_ran[OF builtin_leaf_steps[OF diag_listed] assms(2)] by blast
  have only: "(\<Union>step \<in> set (sl_Steps NetworkDiagSkill). programs_of sx vars step) \<subseteq>
      programs_of sx vars (sl_Steps NetworkDiagSkill ! 4)" for vars
  proof -
    have "programs_of sx vars (sl_Steps NetworkDiagSkill ! i) \<subseteq> programs_of sx vars (sl_Steps NetworkDiagSkill ! 4)"
      if below: "i < 5" for i
    proof -
      have "i = 4 \<or> i \<in> {0, 1, 2, 3}" using below by auto
      then consider "i = 4" | "i \<in> {0, 1, 2, 3}" by blast
      then show ?thesis using diag_skipped[OF assms(1), of i vars] by cases simp_all
    qed
    then show ?thesis unfolding set_conv_nth diag_steps(1) by blast
  qed
  have none: "rs = []" if w: "w \<in> {''ping'', ''traceroute'', ''dns'', ''port''}" "params ''check_type'' = Some (JStr w)" for w
  proof (rule ccontr)
    assume "rs \<noteq> []"
    then obtain vars where v: "initParameters (sx_fmt sx) NetworkDiagSkill params = (vars, None)"
        "set rs \<subseteq> (\<Union>step \<in> set (sl_Steps NetworkDiagSkill). programs_of sx vars step)"
      using rs(2) by blast
    note vars = v(1) subset_trans[OF v(2) only]
    have "vars ''check_type'' = Some (JStr w)"
      using declared_value[OF vars(1) diag_parameters] w(2) by (auto simp: convertType_def Sprint_def)
    then have s: "shown (sx_fmt sx) vars ''check_type'' = w" by (simp add: shown_def Sprint_def)
    have "programs_of sx vars (sl_Steps NetworkDiagSkill ! 4) = {}"
      by (rule other_word_skips[OF assms(1) diag_steps(6), of "''check_type''" "''all''", OF _ _ _ s])
        (use w(1) in \<open>auto simp: diag_templates word_def plain_def\<close>)
    then show False using vars(2) \<open>rs \<noteq> []\<close> by simp
  qed
  show ?thesis
  proof (intro exI[of _ rs] conjI ballI impI)
    show "kr_Success res = (err = None)" using run_flag[OF assms(2)] .
    show "rs = [] \<or> (\<exists>vars. initParameters (sx_fmt sx) NetworkDiagSkill params = (vars, None) \<and>
       set rs \<subseteq> programs_of sx vars (sl_Steps NetworkDiagSkill ! 4))"
      using rs(2) subset_trans[OF _ only] by (elim disjE exE conjE) auto
  qed (use rs(1) none in simp_all)
qed

subsection \<open>The state of a container is not asked for\<close>

lemma health_listed: "HealthcheckSkill \<in> set ListBuiltinSkills"
  by (simp add: ListBuiltinSkills_def)

lemma health_steps: "length (sl_Steps HealthcheckSkill) = 5"
  "ss_Condition (sl_Steps HealthcheckSkill ! 2) = ''{{.check_type}} == http''"
  "ss_Condition (sl_Steps HealthcheckSkill ! 3) = ''{{.check_type}} == tcp''"
  "ss_Condition (sl_Steps HealthcheckSkill ! 4) = ''{{.check_type}} == process''"
  by code_simp+

lemma health_inspects:
  "ss_Tool (sl_Steps HealthcheckSkill ! 0) = ''docker'' \<and> ss_Action (sl_Steps HealthcheckSkill ! 0) = ''inspect'' \<and>
   ss_Args (sl_Steps HealthcheckSkill ! 0) = [''target'' \<mapsto> JStr ''{{.target}}'', ''format'' \<mapsto> JStr ''{{.State.Health.Status}}'']"
  "ss_Tool (sl_Steps HealthcheckSkill ! 1) = ''docker'' \<and> ss_Action (sl_Steps HealthcheckSkill ! 1) = ''inspect'' \<and>
   ss_Args (sl_Steps HealthcheckSkill ! 1) = [''target'' \<mapsto> JStr ''{{.target}}'', ''format'' \<mapsto> JStr ''{{.State.Running}}'']"
  by (simp_all add: HealthcheckSkill_def healthcheckSteps_def)

lemma health_templates:
  "template_parse ''{{.check_type}} == http'' = Some [TField [''check_type''], TText '' == http'']"
  "template_parse ''{{.check_type}} == tcp'' = Some [TField [''check_type''], TText '' == tcp'']"
  "template_parse ''{{.check_type}} == process'' = Some [TField [''check_type''], TText '' == process'']"
  "template_parse ''{{.target}}'' = Some [TField [''target'']]"
  "template_parse ''{{.State.Health.Status}}'' = Some [TField [''State'', ''Health'', ''Status'']]"
  "template_parse ''{{.State.Running}}'' = Some [TField [''State'', ''Running'']]"
  by code_simp+

lemma health_parameters: "distinct (map sp_Name (sl_Parameters HealthcheckSkill))"
  "0 < length (sl_Parameters HealthcheckSkill)" "sp_Name (sl_Parameters HealthcheckSkill ! 0) = ''target''"
  "sp_Type (sl_Parameters HealthcheckSkill ! 0) = ''string''"
  "1 < length (sl_Parameters HealthcheckSkill)" "sp_Name (sl_Parameters HealthcheckSkill ! 1) = ''check_type''"
  "sp_Type (sl_Parameters HealthcheckSkill ! 1) = ''string''"
  "list_all (\<lambda>p. sp_Name p \<noteq> ''State'') (sl_Parameters HealthcheckSkill)"
  by code_simp+

lemma health_default: "sp_Default (sl_Parameters HealthcheckSkill ! 1) = JStr ''container''"
  by (simp add: HealthcheckSkill_def)

lemma docker_programs:
  assumes "visits_keys sx" "ss_Tool step = ''docker''" "ss_Args step = [k \<mapsto> JStr c, l \<mapsto> JStr f]" "k \<noteq> l"
    and "{k, l} \<subseteq> set arg_names"
    and "\<And>st. kx_variables st = vars \<Longrightarrow> renderTemplate sx st c = Inr t"
    and "\<And>st. kx_variables st = vars \<Longrightarrow> renderTemplate sx st f = Inr g"
    and "\<And>a. a k = Some (JStr t) \<Longrightarrow> a l = Some (JStr g) \<Longrightarrow> docker_args (sx_fmt sx) (ss_Action step) a = Inr as"
  shows "programs_of sx vars step \<subseteq> {''docker'' # as}"
proof
  fix argv assume "argv \<in> programs_of sx vars step"
  then obtain st a where a: "kx_variables st = vars" "processArgs sx st (ss_Args step) = Inr a" "step_argv sx step a = Some argv"
    unfolding programs_of_def by blast
  have fin: "dom (ss_Args step) \<subseteq> set arg_names" using assms(5) by (simp add: assms(3))
  have "a k = Some (JStr t)"
    by (rule processArgs_key[OF assms(1) fin a(2) _ assms(6)[OF a(1)]]) (simp add: assms(3,4))
  moreover have "a l = Some (JStr g)"
    by (rule processArgs_key[OF assms(1) fin a(2) _ assms(7)[OF a(1)]]) (simp add: assms(3))
  ultimately show "argv \<in> {''docker'' # as}"
    using a(3) assms(2,8) by (simp add: step_argv_def)
qed

lemma inspect_programs:
  assumes "visits_keys sx" "ss_Tool step = ''docker'' \<and> ss_Action step = ''inspect'' \<and>
      ss_Args step = [''target'' \<mapsto> JStr c, ''format'' \<mapsto> JStr f]"
    and "\<And>st. kx_variables st = vars \<Longrightarrow> renderTemplate sx st c = Inr t"
    and "\<And>st. kx_variables st = vars \<Longrightarrow> renderTemplate sx st f = Inr g"
  shows "programs_of sx vars step \<subseteq> {[''docker'', ''inspect'', t, ''-f'', g]}"
  by (rule docker_programs[OF assms(1) _ _ _ _ assms(3,4), of step "''target''" "''format''"])
    (use assms(2) in \<open>simp_all add: docker_args_def need_def arg_string_def arg_names_def\<close>)

lemma rendered_field:
  assumes "go_templates sx" "template_parse c = Some [TField [x]]" "x \<noteq> ''steps''"
  shows "renderTemplate sx st c = Inr (shown (sx_fmt sx) (kx_variables st) x)"
  by (rule rendered_text[OF assms(1,2)]) (use assms(3) in \<open>simp add: template_exec_def del: exec_nodes.simps(3)\<close>)

lemma rendered_unset:
  assumes "go_templates sx" "template_parse c = Some [TField (x # p)]" "x \<noteq> ''steps''" "kx_variables st x = None"
  shows "renderTemplate sx st c = Inr no_value"
  by (rule rendered_text[OF assms(1,2)]) (use assms(3,4) in \<open>simp add: template_exec_def del: exec_nodes.simps(3)\<close>)

text \<open>
  The health check of a container starts no other program than \<open>docker inspect\<close> with the
  format \<open><no value>\<close>: the fields of Docker's template are looked up in the skill's own variables.
\<close>
theorem container_state_not_asked:
  assumes "go_templates sx" "visits_keys sx"
    and "ExecuteSkill sx nested dl HealthcheckSkill params st = Some (st', res, err)"
    and "params ''target'' = Some (JStr t)" "params ''check_type'' = None" "params ''State'' = None"
  shows "\<exists>rs. kx_log st' = kx_log st @ rs \<and> set rs \<subseteq> {[''docker'', ''inspect'', t, ''-f'', ''<no value>'']}"
proof (rule skill_ran_steps[OF builtin_leaf_steps[OF health_listed] assms(3)])
  fix vars i
  assume vars: "initParameters (sx_fmt sx) HealthcheckSkill params = (vars, None)" and i: "i < length (sl_Steps HealthcheckSkill)"
  note d = declared_value[OF vars health_parameters(1)]
  have "vars ''target'' = Some (JStr t)"
    using d[OF health_parameters(2-4)] assms(4) by (auto simp: convertType_def Sprint_def)
  then have target: "shown (sx_fmt sx) vars ''target'' = t" by (simp add: shown_def Sprint_def)
  have "vars ''check_type'' = Some (JStr ''container'')"
    using d[OF health_parameters(5-7)] assms(5) by (auto simp: convertType_def Sprint_def health_default[unfolded One_nat_def])
  then have kind: "shown (sx_fmt sx) vars ''check_type'' = ''container''" by (simp add: shown_def Sprint_def)
  have "''State'' \<notin> sp_Name ` set (sl_Parameters HealthcheckSkill)"
    using health_parameters(8) by (auto simp: list_all_iff)
  then have state: "vars ''State'' = None" using undeclared_value[OF vars] assms(6) by simp
  have r: "renderTemplate sx st ''{{.target}}'' = Inr t" "renderTemplate sx st ''{{.State.Health.Status}}'' = Inr no_value"
    "renderTemplate sx st ''{{.State.Running}}'' = Inr no_value" if "kx_variables st = vars" for st
    using that target state rendered_field[OF assms(1) health_templates(4), of st]
      rendered_unset[OF assms(1) health_templates(5), of st] rendered_unset[OF assms(1) health_templates(6), of st] by simp_all
  note skip = other_word_skips[OF assms(1), of _ _ "''check_type''", OF _ _ _ _ kind]
  have "i = 0 \<or> i = 1 \<or> i = 2 \<or> i = 3 \<or> i = 4" using i health_steps(1) by auto
  then consider "i = 0" | "i = 1" | "i = 2" | "i = 3" | "i = 4" by blast
  then show "programs_of sx vars (sl_Steps HealthcheckSkill ! i) \<subseteq> {[''docker'', ''inspect'', t, ''-f'', ''<no value>'']}"
  proof cases
    case 1
    show ?thesis unfolding 1 using inspect_programs[OF assms(2) health_inspects(1) r(1,2)] by (simp add: no_value_def)
  next
    case 2
    show ?thesis unfolding 2 using inspect_programs[OF assms(2) health_inspects(2) r(1,3)] by (simp add: no_value_def)
  next
    case 3
    have "programs_of sx vars (sl_Steps HealthcheckSkill ! 2) = {}"
      by (rule skip[OF health_steps(2), of "''http''"]) (simp_all add: health_templates word_def plain_def)
    then show ?thesis by (simp add: 3)
  next
    case 4
    have "programs_of sx vars (sl_Steps HealthcheckSkill ! 3) = {}"
      by (rule skip[OF health_steps(3), of "''tcp''"]) (simp_all add: health_templates word_def plain_def)
    then show ?thesis by (simp add: 4)
  next
    case 5
    have "programs_of sx vars (sl_Steps HealthcheckSkill ! 4) = {}"
      by (rule skip[OF health_steps(4), of "''process''"]) (simp_all add: health_templates word_def plain_def)
    then show ?thesis by (simp add: 5)
  qed
qed

subsection \<open>Text of the model reaches the shell\<close>

definition ask_skill :: "string \<Rightarrow> (string \<times> json) list \<Rightarrow> args" where
  "ask_skill name params = [''action'' \<mapsto> JStr ''execute'', ''name'' \<mapsto> JStr name, ''params'' \<mapsto> JObj params]"

definition expiry_command :: string where
  "expiry_command = arg_or_empty ''command'' (ss_Args (sl_Steps SSLCheckSkill ! 0))"

lemma expiry_nodes:
  "\<exists>pre post. template_parse expiry_command = Some [TText (pre @ ''-servername ''), TField [''domain''],
     TText '' -connect '', TField [''domain''], TText '':'', TField [''port''], TText post]"
proof -
  have "template_parse expiry_command = Some [TText (hd (map (\<lambda>n. case n of TText s \<Rightarrow> take (length s - 12) s | _ \<Rightarrow> [])
        (the (template_parse expiry_command))) @ ''-servername ''), TField [''domain''],
     TText '' -connect '', TField [''domain''], TText '':'', TField [''port''],
     TText (List.last (map (\<lambda>n. case n of TText s \<Rightarrow> s | _ \<Rightarrow> []) (the (template_parse expiry_command))))]"
    by code_simp
  then show ?thesis by blast
qed

lemma check_steps: "sl_Steps SSLCheckSkill = sl_Steps SSLCheckSkill ! 0 # drop 1 (sl_Steps SSLCheckSkill)"
  "ss_Condition (sl_Steps SSLCheckSkill ! 0) = []" "ss_Tool (sl_Steps SSLCheckSkill ! 0) = ''local_shell''"
  "ss_Args (sl_Steps SSLCheckSkill ! 0) = [''command'' \<mapsto> JStr expiry_command]" "\<not> sl_NeedConfirm SSLCheckSkill"
  "sl_Timeout SSLCheckSkill = 2 * Minute" "sl_Name SSLCheckSkill = ''builtin:ssl_check''"
  by (simp_all add: expiry_command_def SSLCheckSkill_def arg_or_empty_def arg_string_def)

lemma check_listed: "SSLCheckSkill \<in> set ListBuiltinSkills"
  by (simp add: ListBuiltinSkills_def)

lemma builtin_found:
  assumes "s \<in> set ListBuiltinSkills"
  shows "skill_Get (RegisterAll r) (sl_Name s) = Some s"
proof -
  obtain s' where s': "find (\<lambda>x. sl_Name x = sl_Name s) ListBuiltinSkills = Some s'"
    using assms by (cases "find (\<lambda>x. sl_Name x = sl_Name s) ListBuiltinSkills") (auto simp: find_None_iff)
  have "s' = s"
    using find_SomeD[OF s'] assms builtin_names_distinct by (auto simp: distinct_map inj_on_def)
  then show ?thesis
    using s' unfolding RegisterAll_def ListBuiltinSkills_def[symmetric] skills.lookup_fold_store
      find_rev_distinct[OF builtin_names_distinct] by simp
qed

lemma check_variables:
  "initParameters fmt SSLCheckSkill (map_of [(''domain'', JStr d)]) = ([''domain'' \<mapsto> JStr d, ''port'' \<mapsto> JInt 443], None)"
  by (auto simp: initParameters_def SSLCheckSkill_def convertType_def Sprint_def map_add_def)

text \<open>
  Property C25: the skill that looks at a certificate needs no confirmation, and puts the domain that the
  language model gives into a shell command as it is, so that any text of the model is run by the shell.
\<close>
theorem skill_hands_text_to_shell:
  assumes "go_templates sx" "visits_keys sx" "sx_cancelled sx (kx_world st) = None"
  shows "\<exists>st' out pre post rs. handleSkillTool sx dur ks (Some (RegisterAll r)) depth
      (ask_skill ''builtin:ssl_check'' [(''domain'', JStr d)]) st = Some (st', out) \<and>
    kx_log st' = kx_log st @ [''sh'', ''-c'', pre @ ''-servername '' @ d @ '' -connect '' @ d @ '':443'' @ post] # rs"
proof -
  obtain pre post where nodes: "template_parse expiry_command = Some [TText (pre @ ''-servername ''), TField [''domain''],
     TText '' -connect '', TField [''domain''], TText '':'', TField [''port''], TText post]"
    using expiry_nodes by blast
  let ?cmd = "pre @ ''-servername '' @ d @ '' -connect '' @ d @ '':443'' @ post"
  let ?dl = "Some (sx_clock sx (kx_world st) + 5 * Minute)"
  have render: "renderTemplate sx x expiry_command = Inr ?cmd"
    if "kx_variables x = [''domain'' \<mapsto> JStr d, ''port'' \<mapsto> JInt 443]" for x
  proof (rule rendered_text[OF assms(1) nodes])
    have "shown (sx_fmt sx) (kx_variables x) ''domain'' = d" "shown (sx_fmt sx) (kx_variables x) ''port'' = ''443''"
      unfolding that by (simp_all add: shown_def Sprint_def) code_simp
    then show "template_exec (sx_fmt sx) [TText (pre @ ''-servername ''), TField [''domain''],
       TText '' -connect '', TField [''domain''], TText '':'', TField [''port''], TText post] (kx_variables x) (kx_outputs x) = Some ?cmd"
      by (simp add: template_exec_def del: exec_nodes.simps(3))
  qed
  have soon: "sx_clock sx (kx_world st) < e" if "?dl = Some e" for e using that by auto
  from first_step_runs[OF check_steps(1) builtin_leaf_steps[OF check_listed] check_steps(2-4) check_variables assms(2,3) soon render]
  obtain st' res err rs where run: "ExecuteSkill sx (skill_Execute sx (RegisterAll r) depth) ?dl SSLCheckSkill
      (map_of [(''domain'', JStr d)]) st = Some (st', res, err)" "kx_log st' = kx_log st @ [''sh'', ''-c'', ?cmd] # rs"
    by blast
  have get: "skill_Get (RegisterAll r) ''builtin:ssl_check'' = Some SSLCheckSkill"
    using builtin_found[OF check_listed] by (simp add: check_steps)
  have ok: "manager_ValidateParams (RegisterAll r) ''builtin:ssl_check'' (map_of [(''domain'', JStr d)]) = None"
    by (simp add: manager_ValidateParams_def get ValidateParams_def SSLCheckSkill_def)
  have p: "nested_params (ask_skill n [(''domain'', JStr d)]) = map_of [(''domain'', JStr d)]"
    "arg_or_empty ''name'' (ask_skill n ps) = n" "arg_string ''action'' (ask_skill n ps) = Some ''execute''" for n ps
    by (simp_all add: nested_params_def ask_skill_def arg_or_empty_def arg_string_def)
  have "\<exists>out. handleSkillTool sx dur ks (Some (RegisterAll r)) depth
      (ask_skill ''builtin:ssl_check'' [(''domain'', JStr d)]) st = Some (st', out)"
    using run(1) by (simp add: handleSkillTool_def handleSkillExecute_def p get check_steps(5) ok del: map_of.simps)
  then show ?thesis using run(2) by blast
qed

subsection \<open>The dump of a database is kept nowhere\<close>

lemma backup_listed: "BackupSkill \<in> set ListBuiltinSkills"
  by (simp add: ListBuiltinSkills_def)

lemma backup_steps: "length (sl_Steps BackupSkill) = 5"
  "ss_Condition (sl_Steps BackupSkill ! 2) = ''{{.type}} == mysql''"
  "ss_Condition (sl_Steps BackupSkill ! 3) = ''{{.type}} == files''"
  "ss_Tool (sl_Steps BackupSkill ! 0) = ''local_shell''" "ss_Tool (sl_Steps BackupSkill ! 4) = ''local_shell''"
  "ss_Tool (sl_Steps BackupSkill ! 1) = ''docker''" "ss_Action (sl_Steps BackupSkill ! 1) = ''exec''"
  by code_simp+

lemma backup_args:
  "ss_Args (sl_Steps BackupSkill ! 0) ''command'' = Some (JStr ''mkdir -p {{.destination}}'')"
  "ss_Args (sl_Steps BackupSkill ! 1) = [''container'' \<mapsto> JStr ''{{.source}}'', ''command'' \<mapsto> JStr ''pg_dump -U postgres {{.database}}'']"
  "ss_Args (sl_Steps BackupSkill ! 4) ''command'' =
     Some (JStr ''find {{.destination}} -type f -mtime +{{.retention_days}} -delete'')"
  by (simp_all add: BackupSkill_def backupSteps_def)

lemma backup_templates:
  "template_parse ''{{.type}} == mysql'' = Some [TField [''type''], TText '' == mysql'']"
  "template_parse ''{{.type}} == files'' = Some [TField [''type''], TText '' == files'']"
  "template_parse ''mkdir -p {{.destination}}'' = Some [TText ''mkdir -p '', TField [''destination'']]"
  "template_parse ''{{.source}}'' = Some [TField [''source'']]"
  "template_parse ''pg_dump -U postgres {{.database}}'' = Some [TText ''pg_dump -U postgres '', TField [''database'']]"
  "template_parse ''find {{.destination}} -type f -mtime +{{.retention_days}} -delete'' =
     Some [TText ''find '', TField [''destination''], TText '' -type f -mtime +'', TField [''retention_days''], TText '' -delete'']"
  by code_simp+

lemma backup_parameters: "distinct (map sp_Name (sl_Parameters BackupSkill))"
  "map sp_Name (sl_Parameters BackupSkill) = [''type'', ''source'', ''destination'', ''database'', ''compress'', ''retention_days'']"
  "map sp_Type (sl_Parameters BackupSkill) = [''string'', ''string'', ''string'', ''string'', ''bool'', ''int'']"
  by code_simp+

lemma backup_defaults: "sp_Default (sl_Parameters BackupSkill ! 2) = JStr ''/tmp/backups''"
  "sp_Default (sl_Parameters BackupSkill ! 5) = JInt 7"
  by (simp_all add: BackupSkill_def)

lemma backup_value:
  assumes "initParameters fmt BackupSkill params = (vars, None)" "i < 6"
  shows "\<exists>v. vars ([''type'', ''source'', ''destination'', ''database'', ''compress'', ''retention_days''] ! i) = Some v \<and>
    convertType fmt (case params ([''type'', ''source'', ''destination'', ''database'', ''compress'', ''retention_days''] ! i) of
        Some v \<Rightarrow> v | None \<Rightarrow> sp_Default (sl_Parameters BackupSkill ! i))
      ([''string'', ''string'', ''string'', ''string'', ''bool'', ''int''] ! i) = Inr v"
proof -
  have "length (map sp_Name (sl_Parameters BackupSkill)) = 6" unfolding backup_parameters by simp
  then have n: "i < length (sl_Parameters BackupSkill)" using assms(2) by simp
  have "sp_Name (sl_Parameters BackupSkill ! i) = map sp_Name (sl_Parameters BackupSkill) ! i"
    "sp_Type (sl_Parameters BackupSkill ! i) = map sp_Type (sl_Parameters BackupSkill) ! i" using n by simp_all
  from declared_value[OF assms(1) backup_parameters(1) n this] show ?thesis unfolding backup_parameters(2,3) by blast
qed


subsection \<open>Instances\<close>

text \<open>Services whose templates are those of the fragment and whose programs all succeed.\<close>

definition demo_services :: "nat skill_services" where
  "demo_services = \<lparr>sx_template = fragment_template (\<lambda>_. []), sx_fmt = (\<lambda>_. []), sx_errorf = (\<lambda>e. e),
     sx_order = (\<lambda>a. filter (\<lambda>k. a k \<noteq> None) arg_names), sx_clock = int, sx_cancelled = (\<lambda>_. None),
     sx_sleep = (\<lambda>_ w. w), sx_run = (\<lambda>_ _ w. (Suc w, ''ok'', [], None))\<rparr>"

lemma demo_templates: "go_templates demo_services"
  by (rule go_templates_fragment) (simp add: demo_services_def)

lemma demo_order: "visits_keys demo_services"
  by (auto simp: visits_keys_def demo_services_def)

abbreviation demo_start :: "nat skill_state" where
  "demo_start \<equiv> NewExecutor \<lparr>ma_world = 0, ma_log = []\<rparr>"

abbreviation demo_run :: "skill \<Rightarrow> args \<Rightarrow> (nat skill_state \<times> skill_result \<times> string option) option" where
  "demo_run s params \<equiv> ExecuteSkill demo_services (\<lambda>_ _ _ _. None) None s params demo_start"

lemma demo_ends:
  assumes "s \<in> set ListBuiltinSkills"
  shows "\<exists>st' res err. demo_run s params = Some (st', res, err)"
proof -
  have ends: "\<forall>x \<in> set (sl_Steps s). ss_Tool x \<noteq> ''skill''"
    using builtin_leaf_steps[OF assms] by (auto simp: leaf_step_def)
  obtain vars e where i: "initParameters (sx_fmt demo_services) s params = (vars, e)" by fastforce
  have "demo_run s params \<noteq> None"
    using i run_steps_leaf[OF ends, of demo_services "\<lambda>_ _ _ _. None" "skill_deadline (sx_clock demo_services (kx_world demo_start)) (sl_Timeout s) None" 0 "[]"
        "demo_start\<lparr>kx_variables := Map.empty, kx_outputs := Map.empty\<rparr>\<lparr>kx_variables := vars\<rparr>"]
    by (cases e) (auto simp: ExecuteSkill_def Let_def)
  then show ?thesis by (cases "demo_run s params") auto
qed

theorem certificates_never_renewed_witness:
  "\<exists>st' res rs. demo_run SSLRenewSkill [''dry_run'' \<mapsto> JBool False] = Some (st', res, None) \<and> kr_Success res \<and>
     kx_log st' = rs \<and> set rs \<subseteq> shell_step SSLRenewSkill ` {0, 1, 6}"
proof -
  obtain st' res err where run: "demo_run SSLRenewSkill [''dry_run'' \<mapsto> JBool False] = Some (st', res, err)"
    using demo_ends[OF renew_listed] by blast
  moreover have "map_option (\<lambda>(_, _, err). err) (demo_run SSLRenewSkill [''dry_run'' \<mapsto> JBool False]) = Some None" by code_simp
  ultimately have "err = None" by simp
  then show ?thesis
    using certificates_never_renewed[OF demo_templates run] run run_flag[OF run] by (auto simp: NewExecutor_def)
qed

theorem diagnosis_only_fetches_witness:
  "\<exists>st' res. demo_run NetworkDiagSkill [''target'' \<mapsto> JStr ''db1'', ''check_type'' \<mapsto> JStr ''ping''] = Some (st', res, None) \<and>
     kr_Success res \<and> kx_log st' = []"
proof -
  let ?p = "[''target'' \<mapsto> JStr ''db1'', ''check_type'' \<mapsto> JStr ''ping'']"
  obtain st' res err where run: "demo_run NetworkDiagSkill ?p = Some (st', res, err)"
    using demo_ends[OF diag_listed] by blast
  moreover have "map_option (\<lambda>(_, _, err). err) (demo_run NetworkDiagSkill ?p) = Some None" by code_simp
  ultimately have "err = None" by simp
  then show ?thesis
    using diagnosis_only_fetches[OF demo_templates run] run run_flag[OF run] by (auto simp: NewExecutor_def)
qed

theorem container_state_not_asked_witness:
  "\<exists>st' res err. demo_run HealthcheckSkill [''target'' \<mapsto> JStr ''web''] = Some (st', res, err) \<and>
     set (kx_log st') \<subseteq> {[''docker'', ''inspect'', ''web'', ''-f'', ''<no value>'']}"
proof -
  obtain st' res err where run: "demo_run HealthcheckSkill [''target'' \<mapsto> JStr ''web''] = Some (st', res, err)"
    using demo_ends[OF health_listed] by blast
  from container_state_not_asked[OF demo_templates demo_order run, of "''web''"] run show ?thesis
    by (auto simp: NewExecutor_def)
qed


theorem skill_hands_text_to_shell_witness:
  "\<exists>st' out pre post rs. handleSkillTool demo_services (\<lambda>_. []) [] (Some (RegisterAll NewSkillRegistry)) 1
      (ask_skill ''builtin:ssl_check'' [(''domain'', JStr ''; rm -rf /; '')]) demo_start = Some (st', out) \<and>
    kx_log st' = [''sh'', ''-c'', pre @ ''-servername '' @ ''; rm -rf /; '' @ '' -connect '' @ ''; rm -rf /; '' @ '':443'' @ post] # rs"
  using skill_hands_text_to_shell[OF demo_templates demo_order, of demo_start "\<lambda>_. []" "[]" NewSkillRegistry 1 "''; rm -rf /; ''"]
  by (simp add: demo_services_def NewExecutor_def)

end
